(* ===== verification/MC_Prelude.thy ===== *)
theory MC_Prelude
  imports Main "HOL-Library.Multiset"
begin

text \<open>
  What every component of the development shares: the JSON values and strings of the
  JavaScript code, the tables of the SQLite database, and the generic lemmas about them.

  \<^item> Strings are the UTF-8 bytes of the program's strings. Case mapping, \<open>trim\<close> and lengths
    agree with JavaScript on ASCII text.
  \<^item> Numbers that the code treats as integers (ids, counters, times) are \<open>int\<close>.
  \<^item> A table is its list of rows in rowid order together with its AUTOINCREMENT counter;
    \<open>INSERT\<close>, \<open>UPDATE .. WHERE\<close>, \<open>DELETE .. WHERE\<close> and \<open>SELECT\<close> are functions on it.
  \<^item> \<open>row_store\<close> is the interface the components rely on when they read a table by id, and
    \<open>sql_order\<close> is what the SQL standard promises of \<open>ORDER BY .. DESC\<close>: which of two rows
    with equal keys comes first is not specified, so the order is a parameter.
  \<^item> \<open>invariant_system\<close> is the shared contract of the state machines: initial states satisfy
    the invariant and every step keeps it, hence it holds in every reachable state.
\<close>

named_theorems frame_simps \<open>which tables an operation leaves alone\<close>

section \<open>JSON values\<close>

datatype json =
    JNull
  | JBool bool
  | JNum int
  | JStr string
  | JArr "json list"
  | JObj "(string \<times> json) list"

text \<open>An optional property: present when the value is, absent (\<open>undefined\<close>) otherwise.\<close>

definition jopt :: "string \<Rightarrow> ('a \<Rightarrow> json) \<Rightarrow> 'a option \<Rightarrow> (string \<times> json) list" where
  "jopt k f v = (case v of None \<Rightarrow> [] | Some x \<Rightarrow> [(k, f x)])"

text \<open>A nullable value: \<open>null\<close> when it is absent.\<close>

definition jnull :: "('a \<Rightarrow> json) \<Rightarrow> 'a option \<Rightarrow> json" where
  "jnull f v = (case v of None \<Rightarrow> JNull | Some x \<Rightarrow> f x)"

text \<open>
  Property access. Reading a property of \<open>null\<close> throws; of another non-object it is
  \<open>undefined\<close> (\<open>None\<close>).
\<close>

fun jget :: "string \<Rightarrow> json \<Rightarrow> json option" where
  "jget k (JObj kvs) = map_of kvs k"
| "jget k _ = None"

fun truthy :: "json \<Rightarrow> bool" where
  "truthy JNull = False"
| "truthy (JBool b) = b"
| "truthy (JNum n) = (n \<noteq> 0)"
| "truthy (JStr s) = (s \<noteq> [])"
| "truthy (JArr _) = True"
| "truthy (JObj _) = True"

text \<open>\<open>a || b\<close> on an optional string: the empty string is falsy.\<close>

definition or_else :: "string option \<Rightarrow> string \<Rightarrow> string" where
  "or_else v d = (case v of None \<Rightarrow> d | Some s \<Rightarrow> if s = [] then d else s)"

text \<open>\<open>v || null\<close> on an optional string.\<close>

definition or_null :: "string option \<Rightarrow> string option" where
  "or_null v = (case v of None \<Rightarrow> None | Some s \<Rightarrow> if s = [] then None else Some s)"

lemma or_else_simps [simp]:
  "or_else None d = d"
  "or_else (Some []) d = d"
  "s \<noteq> [] \<Longrightarrow> or_else (Some s) d = s"
  by (simp_all add: or_else_def)

lemma or_else_nonempty: "d \<noteq> [] \<Longrightarrow> or_else v d \<noteq> []"
  by (simp add: or_else_def split: option.splits)

section \<open>Strings\<close>

definition is_ws :: "char \<Rightarrow> bool" where
  "is_ws c = (let n = of_char c :: nat in n = 32 \<or> (9 \<le> n \<and> n \<le> 13))"

definition trim :: "string \<Rightarrow> string" where
  "trim s = rev (dropWhile is_ws (rev (dropWhile is_ws s)))"

definition lower_char :: "char \<Rightarrow> char" where
  "lower_char c = (let n = of_char c :: nat in if 65 \<le> n \<and> n \<le> 90 then char_of (n + 32) else c)"

definition upper_char :: "char \<Rightarrow> char" where
  "upper_char c = (let n = of_char c :: nat in if 97 \<le> n \<and> n \<le> 122 then char_of (n - 32) else c)"

definition to_lower :: "string \<Rightarrow> string" where
  "to_lower = map lower_char"

definition starts_with :: "string \<Rightarrow> string \<Rightarrow> bool" where
  "starts_with p s \<longleftrightarrow> take (length p) s = p"

definition ends_with :: "string \<Rightarrow> string \<Rightarrow> bool" where
  "ends_with p s \<longleftrightarrow> drop (length s - length p) s = p"

definition includes_str :: "string \<Rightarrow> string \<Rightarrow> bool" where
  "includes_str sub s \<longleftrightarrow> list_ex (\<lambda>k. starts_with sub (drop k s)) [0..<Suc (length s)]"

text \<open>\<open>s.split(c)\<close> for a one-character separator: never the empty array.\<close>

fun split_on :: "char \<Rightarrow> string \<Rightarrow> string list" where
  "split_on c [] = [[]]"
| "split_on c (x # xs) =
     (if x = c then [] # split_on c xs
      else (case split_on c xs of [] \<Rightarrow> [[x]] | y # ys \<Rightarrow> (x # y) # ys))"

fun join_with :: "string \<Rightarrow> string list \<Rightarrow> string" where
  "join_with sep [] = []"
| "join_with sep [x] = x"
| "join_with sep (x # y # ys) = x @ sep @ join_with sep (y # ys)"

lemma split_on_nonempty [simp]: "split_on c s \<noteq> []"
  by (cases s) (auto split: list.splits)

lemma join_split_on: "join_with [c] (split_on c s) = s"
proof (induction s)
  case Nil
  then show ?case by simp
next
  case (Cons x xs)
  then show ?case
    by (cases "split_on c xs"; cases "tl (split_on c xs)") auto
qed

lemma split_on_no_sep: "c \<notin> set s \<Longrightarrow> split_on c s = [s]"
  by (induction s) auto

lemma split_on_append_sep:
  "c \<notin> set s \<Longrightarrow> split_on c (s @ c # t) = s # split_on c t"
  by (induction s) auto

lemma split_on_parts: "p \<in> set (split_on c s) \<Longrightarrow> c \<notin> set p"
proof (induction s arbitrary: p)
  case Nil
  then show ?case by simp
next
  case (Cons x xs)
  then show ?case
    by (cases "split_on c xs") (auto split: if_splits)
qed

lemma starts_withD: "starts_with p s \<Longrightarrow> \<exists>t. s = p @ t"
  unfolding starts_with_def by (metis append_take_drop_id)

lemma starts_with_append [simp]: "starts_with p (p @ t)"
  by (simp add: starts_with_def)

lemma ends_withD: "ends_with p s \<Longrightarrow> \<exists>t. s = t @ p"
  unfolding ends_with_def by (metis append_take_drop_id)

lemma ends_with_append [simp]: "ends_with p (t @ p)"
  by (simp add: ends_with_def)

lemma includes_str_iff: "includes_str sub s \<longleftrightarrow> (\<exists>a b. s = a @ sub @ b)"
proof
  assume "includes_str sub s"
  then obtain k where "starts_with sub (drop k s)" unfolding includes_str_def list_ex_iff by blast
  then show "\<exists>a b. s = a @ sub @ b"
    by (metis append_take_drop_id starts_withD)
next
  assume "\<exists>a b. s = a @ sub @ b"
  then obtain a b where "s = a @ sub @ b" by blast
  then have "starts_with sub (drop (length a) s)" and "length a \<in> set [0..<Suc (length s)]" by simp_all
  then show "includes_str sub s" unfolding includes_str_def list_ex_iff by blast
qed

lemma includes_str_append [simp]: "includes_str sub (sub @ t)"
  unfolding includes_str_iff by (metis append_Nil)

lemma trim_no_ws: "\<forall>c \<in> set s. \<not> is_ws c \<Longrightarrow> trim s = s"
proof -
  assume *: "\<forall>c \<in> set s. \<not> is_ws c"
  then have "dropWhile is_ws s = s" by (cases s) auto
  moreover from * have "dropWhile is_ws (rev s) = rev s" by (cases "rev s") (auto simp: dropWhile_eq_self_iff)
  ultimately show ?thesis by (simp add: trim_def)
qed

text \<open>Decimal printing, as in a template literal.\<close>

definition digit_char :: "nat \<Rightarrow> char" where
  "digit_char d = char_of (48 + d)"

fun show_nat :: "nat \<Rightarrow> string" where
  "show_nat n = (if n < 10 then [digit_char n] else show_nat (n div 10) @ [digit_char (n mod 10)])"

declare show_nat.simps [simp del]

definition show_int :: "int \<Rightarrow> string" where
  "show_int i = (if i < 0 then ''-'' @ show_nat (nat (- i)) else show_nat (nat i))"

text \<open>\<open>parseInt\<close>: leading white space, a sign, then as many digits as there are; \<open>None\<close> is \<open>NaN\<close>.\<close>

definition is_digit :: "char \<Rightarrow> bool" where
  "is_digit c = (let n = of_char c :: nat in 48 \<le> n \<and> n \<le> 57)"

definition hex_value :: "char \<Rightarrow> nat option" where
  "hex_value c = (let n = of_char c :: nat in
     if 48 \<le> n \<and> n \<le> 57 then Some (n - 48)
     else if 97 \<le> n \<and> n \<le> 102 then Some (n - 87)
     else if 65 \<le> n \<and> n \<le> 70 then Some (n - 55)
     else None)"

definition digits_value :: "string \<Rightarrow> nat" where
  "digits_value ds = foldl (\<lambda>a c. 10 * a + (of_char c - 48)) 0 ds"

definition parse_unsigned :: "string \<Rightarrow> int option" where
  "parse_unsigned s =
     (if starts_with ''0x'' s \<or> starts_with ''0X'' s then
        (let hs = takeWhile (\<lambda>c. hex_value c \<noteq> None) (drop 2 s)
         in if hs = [] then None else Some (int (foldl (\<lambda>a c. 16 * a + the (hex_value c)) 0 hs)))
      else
        (let ds = takeWhile is_digit s
         in if ds = [] then None else Some (int (digits_value ds))))"

definition parse_int :: "string \<Rightarrow> int option" where
  "parse_int s =
     (case dropWhile is_ws s of
        [] \<Rightarrow> None
      | c # cs \<Rightarrow>
          if c = CHR ''-'' then map_option uminus (parse_unsigned cs)
          else if c = CHR ''+'' then parse_unsigned cs
          else parse_unsigned (c # cs))"

text \<open>
  \<open>Number\<close> where the text spells an integer; \<open>None\<close> is \<open>NaN\<close>.
  Fractions and exponents are outside the model.
\<close>

definition js_digits :: "string \<Rightarrow> int option" where
  "js_digits ds = (if ds \<noteq> [] \<and> list_all is_digit ds then Some (int (digits_value ds)) else None)"

definition js_number :: "string \<Rightarrow> int option" where
  "js_number v = (case trim v of
     [] \<Rightarrow> Some 0
   | c # cs \<Rightarrow> if c = CHR ''-'' then map_option uminus (js_digits cs)
              else if c = CHR ''+'' then js_digits cs else js_digits (c # cs))"

lemma of_char_digit: "d < 10 \<Longrightarrow> (of_char (digit_char d) :: nat) = 48 + d"
  by (simp add: digit_char_def)

lemma is_digit_digit_char: "d < 10 \<Longrightarrow> is_digit (digit_char d)"
  by (simp add: is_digit_def of_char_digit)

lemma show_nat_digits: "\<forall>c \<in> set (show_nat n). is_digit c"
proof (induction n rule: show_nat.induct)
  case (1 n)
  then show ?case
    by (auto simp: show_nat.simps [of n] is_digit_digit_char)
qed

lemma show_nat_nonempty [simp]: "show_nat n \<noteq> []"
  by (subst show_nat.simps) simp

lemma digits_value_show_nat: "digits_value (show_nat n) = n"
proof (induction n rule: show_nat.induct)
  case (1 n)
  show ?case
  proof (cases "n < 10")
    case True
    then show ?thesis by (simp add: show_nat.simps [of n] digits_value_def of_char_digit)
  next
    case False
    with 1 have "digits_value (show_nat (n div 10)) = n div 10" by simp
    with False show ?thesis
      by (simp add: show_nat.simps [of n] digits_value_def of_char_digit)
  qed
qed

lemma show_nat_inject [simp]: "show_nat m = show_nat n \<longleftrightarrow> m = n"
  by (metis digits_value_show_nat)

lemma parse_unsigned_show_nat: "parse_unsigned (show_nat n) = Some (int n)"
proof -
  have d: "\<forall>c \<in> set (show_nat n). is_digit c" by (rule show_nat_digits)
  then have tw: "takeWhile is_digit (show_nat n) = show_nat n" by (simp add: takeWhile_eq_all_conv)
  have "\<not> is_digit CHR ''x''" "\<not> is_digit CHR ''X''" by (simp_all add: is_digit_def)
  with d have "\<not> starts_with ''0x'' (show_nat n)" "\<not> starts_with ''0X'' (show_nat n)"
    by (auto dest!: starts_withD)
  then show ?thesis by (simp add: parse_unsigned_def tw digits_value_show_nat)
qed

lemma parse_int_show_int [simp]: "parse_int (show_int i) = Some i"
proof -
  have "parse_int (show_nat n) = Some (int n)" for n
  proof -
    obtain c cs where c: "show_nat n = c # cs" by (metis show_nat_nonempty list.exhaust)
    then have "is_digit c" using show_nat_digits [of n] by simp
    then have "\<not> is_ws c" "c \<noteq> CHR ''-''" "c \<noteq> CHR ''+''"
      by (auto simp: is_digit_def is_ws_def Let_def)
    with c parse_unsigned_show_nat [of n] show ?thesis by (simp add: parse_int_def)
  qed
  moreover have "parse_int (''-'' @ show_nat n) = Some (- int n)" for n
    by (simp add: parse_int_def is_ws_def parse_unsigned_show_nat)
  ultimately show ?thesis by (simp add: show_int_def)
qed

text \<open>\<open>JSON.stringify\<close>\<close>

definition hex_lower :: "nat \<Rightarrow> char" where
  "hex_lower n = (if n < 10 then char_of (48 + n) else char_of (87 + n))"

definition escape_char :: "char \<Rightarrow> string" where
  "escape_char c = (let n = of_char c :: nat; bs = char_of (92 :: nat) in
     if n = 34 \<or> n = 92 then [bs, c]
     else if n = 8 then [bs, CHR ''b''] else if n = 9 then [bs, CHR ''t''] else if n = 10 then [bs, CHR ''n'']
     else if n = 12 then [bs, CHR ''f''] else if n = 13 then [bs, CHR ''r'']
     else if n < 32 then [bs, CHR ''u'', CHR ''0'', CHR ''0'', hex_lower (n div 16), hex_lower (n mod 16)]
     else [c])"

definition quote_str :: "string \<Rightarrow> string" where
  "quote_str s = [char_of (34 :: nat)] @ concat (map escape_char s) @ [char_of (34 :: nat)]"

fun stringify :: "json \<Rightarrow> string" where
  "stringify JNull = ''null''"
| "stringify (JBool b) = (if b then ''true'' else ''false'')"
| "stringify (JNum n) = show_int n"
| "stringify (JStr s) = quote_str s"
| "stringify (JArr xs) = ''['' @ join_with '','' (map stringify xs) @ '']''"
| "stringify (JObj kvs) = ''{'' @ join_with '','' (map (\<lambda>(k, v). quote_str k @ '':'' @ stringify v) kvs) @ ''}''"

section \<open>Tables\<close>

record 'r tbl =
  seq :: int
  rows :: "'r list"

definition tbl_empty :: "'r tbl" where
  "tbl_empty = \<lparr>seq = 0, rows = []\<rparr>"

definition tbl_insert :: "(int \<Rightarrow> 'r) \<Rightarrow> 'r tbl \<Rightarrow> int \<times> 'r tbl" where
  "tbl_insert mk t = (seq t + 1, \<lparr>seq = seq t + 1, rows = rows t @ [mk (seq t + 1)]\<rparr>)"

definition tbl_update :: "('r \<Rightarrow> bool) \<Rightarrow> ('r \<Rightarrow> 'r) \<Rightarrow> 'r tbl \<Rightarrow> 'r tbl" where
  "tbl_update p f t = t\<lparr>rows := map (\<lambda>r. if p r then f r else r) (rows t)\<rparr>"

definition tbl_delete :: "('r \<Rightarrow> bool) \<Rightarrow> 'r tbl \<Rightarrow> 'r tbl" where
  "tbl_delete p t = t\<lparr>rows := filter (\<lambda>r. \<not> p r) (rows t)\<rparr>"

definition tbl_select :: "('r \<Rightarrow> bool) \<Rightarrow> 'r tbl \<Rightarrow> 'r list" where
  "tbl_select p t = filter p (rows t)"

definition tbl_first :: "('r \<Rightarrow> bool) \<Rightarrow> 'r tbl \<Rightarrow> 'r option" where
  "tbl_first p t = find p (rows t)"

definition tbl_get :: "('r \<Rightarrow> int) \<Rightarrow> 'r tbl \<Rightarrow> int \<Rightarrow> 'r option" where
  "tbl_get rid t i = find (\<lambda>r. rid r = i) (rows t)"

definition tbl_wf :: "('r \<Rightarrow> int) \<Rightarrow> 'r tbl \<Rightarrow> bool" where
  "tbl_wf rid t \<longleftrightarrow> 0 \<le> seq t \<and> distinct (map rid (rows t)) \<and>
     (\<forall>r \<in> set (rows t). 0 < rid r \<and> rid r \<le> seq t)"

lemma seq_tbl_update [simp]: "seq (tbl_update p f t) = seq t"
  by (simp add: tbl_update_def)

lemma seq_tbl_delete [simp]: "seq (tbl_delete p t) = seq t"
  by (simp add: tbl_delete_def)

lemma rows_tbl_update: "rows (tbl_update p f t) = map (\<lambda>r. if p r then f r else r) (rows t)"
  by (simp add: tbl_update_def)

lemma rows_tbl_delete: "rows (tbl_delete p t) = filter (\<lambda>r. \<not> p r) (rows t)"
  by (simp add: tbl_delete_def)

lemma rows_tbl_insert: "rows (snd (tbl_insert mk t)) = rows t @ [mk (seq t + 1)]"
  by (simp add: tbl_insert_def)

lemmas tbl_rows = rows_tbl_update rows_tbl_delete rows_tbl_insert tbl_select_def

lemma fst_tbl_insert [simp]: "fst (tbl_insert mk t) = seq t + 1"
  by (simp add: tbl_insert_def)

lemma seq_tbl_insert [simp]: "seq (snd (tbl_insert mk t)) = seq t + 1"
  by (simp add: tbl_insert_def)

lemma find_SomeD: "find p xs = Some x \<Longrightarrow> x \<in> set xs \<and> p x"
  by (induction xs) (auto split: if_splits)

lemma find_append: "find p (xs @ ys) = (case find p xs of None \<Rightarrow> find p ys | Some x \<Rightarrow> Some x)"
  by (induction xs) auto

lemma find_map_id:
  "(\<And>x. q (g x) = q x) \<Longrightarrow> find q (map g xs) = map_option g (find q xs)"
  by (induction xs) auto

lemma find_filter_unique:
  "distinct (map k xs) \<Longrightarrow>
   find (\<lambda>x. k x = i) (filter p xs) =
     (case find (\<lambda>x. k x = i) xs of None \<Rightarrow> None | Some x \<Rightarrow> if p x then Some x else None)"
proof (induction xs)
  case Nil
  then show ?case by simp
next
  case (Cons x xs)
  have "find (\<lambda>y. k y = i) (filter p xs) = None" if "k x = i"
    using Cons.prems that by (auto simp: find_None_iff image_iff)
  with Cons show ?case by auto
qed

lemma find_filter_conj: "find p (filter q xs) = find (\<lambda>x. p x \<and> q x) xs"
  by (induction xs) auto

lemma find_unique:
  "distinct (map k xs) \<Longrightarrow> x \<in> set xs \<Longrightarrow> find (\<lambda>y. k y = k x) xs = Some x"
  by (induction xs) auto

subsection \<open>Reading a table by id\<close>

text \<open>
  The interface that the handlers rely on: what a lookup by id returns after each kind of
  statement, and that every statement keeps the table well formed.
\<close>

locale row_store =
  fixes rid :: "'r \<Rightarrow> int"
    and lookup :: "'t \<Rightarrow> int \<Rightarrow> 'r option"
    and insert_row :: "(int \<Rightarrow> 'r) \<Rightarrow> 't \<Rightarrow> int \<times> 't"
    and update_rows :: "('r \<Rightarrow> bool) \<Rightarrow> ('r \<Rightarrow> 'r) \<Rightarrow> 't \<Rightarrow> 't"
    and delete_rows :: "('r \<Rightarrow> bool) \<Rightarrow> 't \<Rightarrow> 't"
    and wf :: "'t \<Rightarrow> bool"
  assumes lookup_id: "lookup t i = Some r \<Longrightarrow> rid r = i"
    and lookup_insert: "wf t \<Longrightarrow> (\<And>i. rid (mk i) = i) \<Longrightarrow> insert_row mk t = (n, t') \<Longrightarrow>
        lookup t' i = (if i = n then Some (mk n) else lookup t i)"
    and insert_fresh: "wf t \<Longrightarrow> insert_row mk t = (n, t') \<Longrightarrow> lookup t n = None"
    and lookup_update: "(\<And>r. rid (f r) = rid r) \<Longrightarrow>
        lookup (update_rows p f t) i = map_option (\<lambda>r. if p r then f r else r) (lookup t i)"
    and lookup_delete: "wf t \<Longrightarrow>
        lookup (delete_rows p t) i = (case lookup t i of None \<Rightarrow> None | Some r \<Rightarrow> if p r then None else Some r)"
    and wf_insert: "wf t \<Longrightarrow> (\<And>i. rid (mk i) = i) \<Longrightarrow> wf (snd (insert_row mk t))"
    and wf_update: "wf t \<Longrightarrow> (\<And>r. rid (f r) = rid r) \<Longrightarrow> wf (update_rows p f t)"
    and wf_delete: "wf t \<Longrightarrow> wf (delete_rows p t)"
begin

lemma insert_then_get:
  "wf t \<Longrightarrow> (\<And>i. rid (mk i) = i) \<Longrightarrow> insert_row mk t = (n, t') \<Longrightarrow> lookup t' n = Some (mk n)"
  using lookup_insert [of t mk n t' n] by simp

lemma insert_keeps_others:
  "wf t \<Longrightarrow> (\<And>i. rid (mk i) = i) \<Longrightarrow> insert_row mk t = (n, t') \<Longrightarrow>
   lookup t i = Some r \<Longrightarrow> lookup t' i = Some r"
  using insert_fresh [of t mk n t'] lookup_insert [of t mk n t' i] by auto

lemma delete_then_get:
  "wf t \<Longrightarrow> (\<And>r. rid r = i \<Longrightarrow> p r) \<Longrightarrow> lookup (delete_rows p t) i = None"
  by (auto simp: lookup_delete dest: lookup_id split: option.splits)

lemma update_by_id:
  "(\<And>r. rid (f r) = rid r) \<Longrightarrow>
   lookup (update_rows (\<lambda>r. rid r = i) f t) j =
     (if j = i then map_option f (lookup t i) else lookup t j)"
  by (cases "lookup t j") (auto simp: lookup_update dest: lookup_id)

end

lemma row_store_tbl: "row_store rid (tbl_get rid) tbl_insert tbl_update tbl_delete (tbl_wf rid)"
proof
  fix t i r
  show "tbl_get rid t i = Some r \<Longrightarrow> rid r = i"
    by (auto simp: tbl_get_def dest: find_SomeD)
next
  fix t i n and t' :: "'a tbl" and mk
  assume *: "tbl_wf rid t" "\<And>i. rid (mk i) = i" "tbl_insert mk t = (n, t')"
  then have "find (\<lambda>r. rid r = n) (rows t) = None"
    by (auto simp: tbl_insert_def tbl_wf_def find_None_iff)
  with * show "tbl_get rid t' i = (if i = n then Some (mk n) else tbl_get rid t i)"
    by (auto simp: tbl_insert_def tbl_get_def find_append split: option.splits)
next
  fix t n and t' :: "'a tbl" and mk
  assume "tbl_wf rid t" "tbl_insert mk t = (n, t')"
  then show "tbl_get rid t n = None"
    by (auto simp: tbl_insert_def tbl_wf_def tbl_get_def find_None_iff)
next
  fix f p i and t :: "'a tbl"
  assume "\<And>r. rid (f r) = rid r"
  then show "tbl_get rid (tbl_update p f t) i = map_option (\<lambda>r. if p r then f r else r) (tbl_get rid t i)"
    unfolding tbl_get_def rows_tbl_update by (intro find_map_id) auto
next
  fix p i and t :: "'a tbl"
  assume "tbl_wf rid t"
  then have "distinct (map rid (rows t))" by (simp add: tbl_wf_def)
  from find_filter_unique [OF this]
  show "tbl_get rid (tbl_delete p t) i =
      (case tbl_get rid t i of None \<Rightarrow> None | Some r \<Rightarrow> if p r then None else Some r)"
    by (simp add: tbl_get_def rows_tbl_delete split: option.splits)
next
  fix t mk
  assume "tbl_wf rid t" "\<And>i. rid (mk i) = i"
  then show "tbl_wf rid (snd (tbl_insert mk t))"
    by (fastforce simp: tbl_wf_def tbl_insert_def)
next
  fix f p and t :: "'a tbl"
  assume wf: "tbl_wf rid t" and id: "\<And>r. rid (f r) = rid r"
  have "map rid (rows (tbl_update p f t)) = map rid (rows t)"
    by (simp add: rows_tbl_update id)
  moreover have "\<forall>r \<in> set (rows (tbl_update p f t)). 0 < rid r \<and> rid r \<le> seq t"
    using wf id by (auto simp: rows_tbl_update tbl_wf_def)
  ultimately show "tbl_wf rid (tbl_update p f t)"
    using wf by (simp add: tbl_wf_def)
next
  fix p and t :: "'a tbl"
  assume "tbl_wf rid t"
  then show "tbl_wf rid (tbl_delete p t)"
    by (auto simp: tbl_wf_def rows_tbl_delete distinct_map_filter)
qed

lemma tbl_wf_empty [simp]: "tbl_wf rid tbl_empty"
  by (simp add: tbl_wf_def tbl_empty_def)

lemma tbl_get_in_rows: "tbl_get rid t i = Some r \<Longrightarrow> r \<in> set (rows t) \<and> rid r = i"
  by (auto simp: tbl_get_def dest: find_SomeD)

lemma tbl_first_in_rows: "tbl_first p t = Some r \<Longrightarrow> r \<in> set (rows t) \<and> p r"
  by (auto simp: tbl_first_def dest: find_SomeD)

lemma tbl_first_delete: "(\<And>r. p r \<Longrightarrow> \<not> q r) \<Longrightarrow> tbl_first p (tbl_delete q t) = tbl_first p t"
  unfolding tbl_first_def rows_tbl_delete find_filter_conj by (rule find_cong) auto

lemma tbl_get_None: "tbl_get rid t i = None \<longleftrightarrow> i \<notin> rid ` set (rows t)"
  by (auto simp: tbl_get_def find_None_iff image_iff)

lemma tbl_get_Some_unique:
  "tbl_wf rid t \<Longrightarrow> r \<in> set (rows t) \<Longrightarrow> tbl_get rid t (rid r) = Some r"
  by (simp add: tbl_wf_def tbl_get_def find_unique)

lemma tbl_update_images:
  "(\<And>r. k (f r) = k r) \<Longrightarrow> map k (rows (tbl_update p f t)) = map k (rows t)"
  by (simp add: rows_tbl_update)

lemma tbl_update_image:
  "(\<And>r. k (f r) = k r) \<Longrightarrow> k ` set (rows (tbl_update p f t)) = k ` set (rows t)"
  by (metis set_map tbl_update_images)

lemma tbl_update_none [simp]: "tbl_update (\<lambda>x. False) f t = t"
  by (simp add: tbl_update_def)

lemma tbl_delete_none [simp]: "tbl_delete (\<lambda>x. False) t = t"
  by (simp add: tbl_delete_def)

text \<open>Updating the selected rows one by one by id is updating where the selection holds.\<close>

lemma select_ids:
  assumes "tbl_wf rid t" and "r \<in> set (rows t)"
  shows "rid r \<in> rid ` set (tbl_select p t) \<longleftrightarrow> p r"
proof -
  have "inj_on rid (set (rows t))" using assms(1) by (simp add: tbl_wf_def distinct_map)
  with assms(2) show ?thesis by (auto simp: tbl_select_def dest: inj_onD)
qed

subsection \<open>ORDER BY\<close>

text \<open>
  \<open>ORDER BY key DESC\<close> over the rows a query selects: the engine chooses a permutation of
  the row positions whose keys do not increase.
\<close>

definition order_by_desc :: "(int list \<Rightarrow> nat list) \<Rightarrow> ('r \<Rightarrow> int) \<Rightarrow> 'r list \<Rightarrow> 'r list" where
  "order_by_desc ord key rs = map (\<lambda>i. rs ! i) (ord (map key rs))"

locale sql_order =
  fixes ord :: "int list \<Rightarrow> nat list"
  assumes ord_perm: "mset (ord ks) = mset [0..<length ks]"
    and ord_desc: "sorted_wrt (\<lambda>i j. ks ! j \<le> ks ! i) (ord ks)"
begin

lemma mset_order_by_desc: "mset (order_by_desc ord key rs) = mset rs"
proof -
  have "mset (order_by_desc ord key rs) = image_mset ((!) rs) (mset (ord (map key rs)))"
    by (simp add: order_by_desc_def)
  also have "\<dots> = mset (map ((!) rs) [0..<length rs])"
    by (simp add: ord_perm)
  finally show ?thesis by (simp add: map_nth)
qed

lemma set_order_by_desc: "set (order_by_desc ord key rs) = set rs"
  by (metis mset_order_by_desc set_mset_mset)

lemma length_order_by_desc: "length (order_by_desc ord key rs) = length rs"
  by (metis mset_order_by_desc size_mset)

lemma ord_in_range: "i \<in> set (ord ks) \<Longrightarrow> i < length ks"
  by (metis ord_perm set_mset_mset atLeastLessThan_upt atLeastLessThan_iff)

lemma sorted_order_by_desc: "sorted_wrt (\<lambda>a b. key b \<le> key a) (order_by_desc ord key rs)"
proof -
  have "sorted_wrt (\<lambda>i j. key (rs ! j) \<le> key (rs ! i)) (ord (map key rs))"
    using ord_desc [of "map key rs"]
    by (rule sorted_wrt_mono_rel [rotated]) (auto dest!: ord_in_range)
  then show ?thesis
    by (simp add: order_by_desc_def sorted_wrt_map)
qed

lemma hd_order_by_desc:
  assumes "rs \<noteq> []"
  shows "hd (order_by_desc ord key rs) \<in> set rs"
    and "r \<in> set rs \<Longrightarrow> key r \<le> key (hd (order_by_desc ord key rs))"
proof -
  from assms obtain x xs where *: "order_by_desc ord key rs = x # xs"
    by (metis length_order_by_desc length_0_conv neq_Nil_conv)
  then show "hd (order_by_desc ord key rs) \<in> set rs"
    using set_order_by_desc [of key rs] by auto
  show "key r \<le> key (hd (order_by_desc ord key rs))" if "r \<in> set rs"
    using that sorted_order_by_desc [of key rs] set_order_by_desc [of key rs] * by auto
qed

text \<open>A strictly greatest key comes first, however the engine breaks ties.\<close>

lemma hd_order_by_desc_strict:
  assumes "r \<in> set rs" and "\<And>x. x \<in> set rs \<Longrightarrow> x \<noteq> r \<Longrightarrow> key x < key r"
  shows "hd (order_by_desc ord key rs) = r"
  using assms hd_order_by_desc(1) [of rs key] hd_order_by_desc(2) [of rs r key] by fastforce

end

text \<open>\<open>ORDER BY k1 DESC, k2 DESC\<close>\<close>

definition order_by_desc2 :: "(int list \<Rightarrow> nat list) \<Rightarrow> ('r \<Rightarrow> int) \<Rightarrow> ('r \<Rightarrow> int) \<Rightarrow> 'r list \<Rightarrow> 'r list" where
  "order_by_desc2 ord k1 k2 rs =
     concat (map (\<lambda>k. order_by_desc ord k2 (filter (\<lambda>r. k1 r = k) rs)) (rev (sort (remdups (map k1 rs)))))"

text \<open>\<open>LIMIT lim OFFSET off\<close>: a negative limit is no limit, a negative offset is zero.\<close>

definition sql_limit :: "int \<Rightarrow> int \<Rightarrow> 'r list \<Rightarrow> 'r list" where
  "sql_limit lim off rs = (let ys = drop (nat off) rs in if lim < 0 then ys else take (nat lim) ys)"

text \<open>The order in which a scan with a stable sorter delivers the rows.\<close>

definition scan_order :: "int list \<Rightarrow> nat list" where
  "scan_order ks = sort_key (\<lambda>i. - (ks ! i)) [0..<length ks]"

interpretation scan: sql_order scan_order
proof
  fix ks :: "int list"
  show "mset (scan_order ks) = mset [0..<length ks]"
    by (simp add: scan_order_def)
  have "sorted (map (\<lambda>i. - (ks ! i)) (scan_order ks))"
    by (simp add: scan_order_def)
  then show "sorted_wrt (\<lambda>i j. ks ! j \<le> ks ! i) (scan_order ks)"
    by (simp add: sorted_wrt_map)
qed

section \<open>State machines\<close>

locale invariant_system =
  fixes init :: "'s \<Rightarrow> bool"
    and step :: "'s \<Rightarrow> 's \<Rightarrow> bool"
    and inv :: "'s \<Rightarrow> bool"
  assumes init_inv: "init s \<Longrightarrow> inv s"
    and step_inv: "inv s \<Longrightarrow> step s t \<Longrightarrow> inv t"
begin

lemma steps_inv: "step\<^sup>*\<^sup>* s t \<Longrightarrow> inv s \<Longrightarrow> inv t"
  by (induction rule: rtranclp_induct) (auto intro: step_inv)

lemma reachable_inv: "init s \<Longrightarrow> step\<^sup>*\<^sup>* s t \<Longrightarrow> inv t"
  by (blast intro: steps_inv init_inv)

end

end
