(* ===== verification/MC_Db.thy ===== *)
theory MC_Db
  imports MC_Prelude
begin

text \<open>
  The shared state of the server: the tables of the SQLite database (\<open>src/lib/db.ts\<close>,
  \<open>src/lib/schema.sql\<close>, \<open>src/lib/migrations.ts\<close>), the history of the event bus
  (\<open>src/lib/event-bus.ts\<close>) and the request counters of the rate limiters, with the
  database helpers that every route calls. A column that stores JSON text holds the JSON value;
  where a route may read text that does not parse, the column is an \<open>option\<close> and \<open>None\<close>
  is such text. What the process reads from outside (\<open>process.env\<close>, the clock, the order in
  which SQLite delivers rows with equal sort keys) is the record \<open>world\<close>.
\<close>

section \<open>The outside world\<close>

record world =
  getenv :: "string \<Rightarrow> string option"
  now_ms :: int
  sql_ord :: "int list \<Rightarrow> nat list"

definition now_s :: "world \<Rightarrow> int" where
  "now_s w = now_ms w div 1000"

record request =
  req_method :: string
  req_path :: string
  req_url_host :: string
  req_https :: bool
  req_headers :: "string \<Rightarrow> string option"
  req_query :: "string \<Rightarrow> string option"
  req_body :: "json option"

record cookie_options =
  ck_secure :: bool
  ck_same_site :: string
  ck_max_age :: int

record response =
  resp_status :: nat
  resp_body :: json
  set_session :: "(string \<times> cookie_options) option"

definition json_response :: "nat \<Rightarrow> json \<Rightarrow> response" where
  "json_response st b = \<lparr>resp_status = st, resp_body = b, set_session = None\<rparr>"

definition error_response :: "nat \<Rightarrow> string \<Rightarrow> response" where
  "error_response st msg = json_response st (JObj [(''error'', JStr msg)])"

lemma status_json_response [simp]: "resp_status (json_response st b) = st"
  by (simp add: json_response_def)

lemma status_error_response [simp]: "resp_status (error_response st msg) = st"
  by (simp add: error_response_def)

lemma body_error_response [simp]: "resp_body (error_response st msg) = JObj [(''error'', JStr msg)]"
  by (simp add: error_response_def json_response_def)

section \<open>Rows\<close>

record user_row =
  u_id :: int
  u_username :: string
  u_display_name :: string
  u_password_hash :: string
  u_role :: string
  u_provider :: "string option"
  u_provider_user_id :: "string option"
  u_email :: "string option"
  u_avatar_url :: "string option"
  u_is_approved :: int
  u_approved_by :: "string option"
  u_approved_at :: "int option"
  u_workspace_id :: int
  u_created_at :: int
  u_updated_at :: int
  u_last_login_at :: "int option"

record session_row =
  s_id :: int
  s_token :: string
  s_user_id :: int
  s_expires_at :: int
  s_created_at :: int
  s_ip_address :: "string option"
  s_user_agent :: "string option"
  s_workspace_id :: int

record access_request_row =
  ar_id :: int
  ar_provider :: string
  ar_email :: string
  ar_provider_user_id :: "string option"
  ar_display_name :: "string option"
  ar_avatar_url :: "string option"
  ar_status :: string
  ar_requested_at :: int
  ar_last_attempt_at :: int
  ar_attempt_count :: int
  ar_reviewed_by :: "string option"
  ar_reviewed_at :: "int option"
  ar_review_note :: "string option"
  ar_approved_user_id :: "int option"

record workspace_row =
  ws_id :: int
  ws_slug :: string

datatype task_status = Inbox | Assigned | In_progress | Review | Quality_review | Done

datatype task_priority = Critical | High | Medium | Low

record task_row =
  t_id :: int
  t_title :: string
  t_description :: "string option"
  t_status :: task_status
  t_priority :: task_priority
  t_assigned_to :: "string option"
  t_created_by :: string
  t_created_at :: int
  t_updated_at :: int
  t_due_date :: "int option"
  t_estimated_hours :: "int option"
  t_actual_hours :: "int option"
  t_tags :: json
  t_metadata :: json
  t_workspace_id :: int

record review_row =
  q_id :: int
  q_task_id :: int
  q_reviewer :: string
  q_status :: string
  q_notes :: string
  q_created_at :: int
  q_workspace_id :: int

record comment_row =
  c_id :: int
  c_task_id :: int
  c_author :: string
  c_content :: string
  c_created_at :: int
  c_parent_id :: "int option"
  c_mentions :: "string list option"
  c_workspace_id :: int

record subscription_row =
  sub_id :: int
  sub_task_id :: int
  sub_agent :: string
  sub_created_at :: int

record activity_row =
  a_id :: int
  a_type :: string
  a_entity_type :: string
  a_entity_id :: int
  a_actor :: string
  a_description :: string
  a_data :: "json option"
  a_created_at :: int
  a_workspace_id :: int

record notification_row =
  n_id :: int
  n_recipient :: string
  n_type :: string
  n_title :: string
  n_message :: string
  n_source_type :: "string option"
  n_source_id :: "int option"
  n_read_at :: "int option"
  n_delivered_at :: "int option"
  n_created_at :: int
  n_workspace_id :: int

record audit_row =
  au_id :: int
  au_action :: string
  au_actor :: string
  au_actor_id :: "int option"
  au_target_type :: "string option"
  au_target_id :: "int option"
  au_detail :: "json option"
  au_ip_address :: "string option"
  au_user_agent :: "string option"
  au_created_at :: int

record agent_row =
  g_id :: int
  g_name :: string
  g_role :: string
  g_session_key :: "string option"
  g_soul_content :: "string option"
  g_status :: string
  g_last_seen :: "int option"
  g_last_activity :: "string option"
  g_created_at :: int
  g_updated_at :: int
  g_config :: "json option"
  g_workspace_id :: int
  g_working_memory :: "string option"

record webhook_row =
  w_id :: int
  w_name :: string
  w_url :: string
  w_secret :: "string option"
  w_events :: json
  w_enabled :: bool
  w_last_fired_at :: "int option"
  w_last_status :: "int option"
  w_created_by :: string
  w_created_at :: int
  w_updated_at :: int
  w_consecutive_failures :: int
  w_workspace_id :: int

record delivery_row =
  wd_id :: int
  wd_webhook_id :: int
  wd_event_type :: string
  wd_payload :: json
  wd_status_code :: "int option"
  wd_response_body :: "string option"
  wd_error :: "string option"
  wd_duration_ms :: int
  wd_created_at :: int
  wd_attempt :: int
  wd_next_retry_at :: "int option"
  wd_is_retry :: bool
  wd_parent_delivery_id :: "int option"
  wd_workspace_id :: int

record template_row =
  tp_id :: int
  tp_name :: string
  tp_description :: "string option"
  tp_model :: string
  tp_task_prompt :: string
  tp_timeout_seconds :: int
  tp_agent_role :: "string option"
  tp_tags :: "json option"
  tp_created_by :: string
  tp_created_at :: int
  tp_updated_at :: int
  tp_last_used_at :: "int option"
  tp_use_count :: int
  tp_workspace_id :: int

datatype on_failure = Stop | Continue

record pipeline_step =
  ps_template_id :: int
  ps_on_failure :: on_failure

record pipeline_row =
  p_id :: int
  p_name :: string
  p_description :: "string option"
  p_steps :: "pipeline_step list"
  p_created_by :: string
  p_created_at :: int
  p_updated_at :: int
  p_use_count :: int
  p_last_used_at :: "int option"
  p_workspace_id :: int

datatype step_status = Pending | Running | Completed | Failed | Skipped

record run_step =
  rs_step_index :: nat
  rs_template_id :: int
  rs_template_name :: string
  rs_on_failure :: on_failure
  rs_status :: step_status
  rs_spawn_id :: "string option"
  rs_started_at :: "int option"
  rs_completed_at :: "int option"
  rs_error :: "string option"

datatype run_status = Run_pending | Run_running | Run_completed | Run_failed | Run_cancelled

record run_row =
  r_id :: int
  r_pipeline_id :: int
  r_status :: run_status
  r_current_step :: nat
  r_steps_snapshot :: "run_step list"
  r_started_at :: "int option"
  r_completed_at :: "int option"
  r_triggered_by :: string
  r_created_at :: int
  r_workspace_id :: int

record alert_rule_row =
  al_id :: int
  al_name :: string
  al_description :: "string option"
  al_enabled :: int
  al_entity_type :: string
  al_condition_field :: string
  al_condition_operator :: string
  al_condition_value :: string
  al_action_type :: string
  al_action_config :: json
  al_cooldown_minutes :: int
  al_last_triggered_at :: "int option"
  al_trigger_count :: int
  al_created_by :: string
  al_created_at :: int
  al_updated_at :: int
  al_workspace_id :: int

record provision_step =
  st_key :: string
  st_title :: string
  st_command :: "string list"
  st_requires_root :: bool
  st_timeout_ms :: int

record tenant_row =
  tn_id :: int
  tn_slug :: string
  tn_display_name :: string
  tn_linux_user :: string
  tn_plan_tier :: string
  tn_status :: string
  tn_openclaw_home :: string
  tn_workspace_root :: string
  tn_gateway_port :: "int option"
  tn_dashboard_port :: "int option"
  tn_config :: json
  tn_created_by :: string
  tn_owner_gateway :: "string option"
  tn_created_at :: int
  tn_updated_at :: int

datatype job_type = Bootstrap | Update | Decommission

datatype job_status = Queued | Approved | Job_running | Job_completed | Job_failed | Rejected | Cancelled

record job_row =
  j_id :: int
  j_tenant_id :: int
  j_type :: job_type
  j_status :: job_status
  j_dry_run :: bool
  j_requested_by :: string
  j_approved_by :: "string option"
  j_runner_host :: "string option"
  j_idempotency_key :: "string option"
  j_request_json :: json
  j_plan_json :: "provision_step list"
  j_result_json :: "json option"
  j_error_text :: "string option"
  j_started_at :: "int option"
  j_completed_at :: "int option"
  j_created_at :: int
  j_updated_at :: int

record job_event_row =
  je_id :: int
  je_job_id :: int
  je_level :: string
  je_step_key :: "string option"
  je_message :: string
  je_data :: "json option"
  je_created_at :: int

record setting_row =
  sg_key :: string
  sg_value :: string
  sg_description :: "string option"
  sg_category :: string
  sg_updated_by :: "string option"
  sg_updated_at :: int

record message_row =
  mg_id :: int
  mg_conversation_id :: string
  mg_from_agent :: string
  mg_to_agent :: "string option"
  mg_content :: string
  mg_message_type :: string
  mg_metadata :: "json option"
  mg_read_at :: "int option"
  mg_created_at :: int
  mg_workspace_id :: int

record connection_row =
  dc_id :: int
  dc_agent_id :: int
  dc_tool_name :: string
  dc_tool_version :: "string option"
  dc_connection_id :: string
  dc_status :: string
  dc_last_heartbeat :: "int option"
  dc_metadata :: "json option"
  dc_created_at :: int
  dc_updated_at :: int
  dc_workspace_id :: int

record usage_row =
  tu_id :: int
  tu_model :: string
  tu_session_id :: string
  tu_input_tokens :: int
  tu_output_tokens :: int
  tu_created_at :: int
  tu_workspace_id :: int

record gateway_row =
  gw_id :: int
  gw_name :: string
  gw_host :: string
  gw_port :: int
  gw_token :: string
  gw_is_primary :: bool
  gw_status :: string
  gw_last_seen :: "int option"
  gw_latency :: "int option"
  gw_sessions_count :: int
  gw_agents_count :: int
  gw_created_at :: int
  gw_updated_at :: int

record github_sync_row =
  gs_id :: int
  gs_repo :: string
  gs_last_synced_at :: int
  gs_issue_count :: int
  gs_direction :: string
  gs_status :: string
  gs_error :: "string option"
  gs_created_at :: int
  gs_workspace_id :: int

record standup_row =
  sr_date :: string
  sr_report :: json
  sr_created_at :: int
  sr_workspace_id :: int

section \<open>The database, the event bus and the server state\<close>

record database =
  users :: "user_row tbl"
  user_sessions :: "session_row tbl"
  access_requests :: "access_request_row tbl"
  workspaces :: "workspace_row tbl"
  tasks :: "task_row tbl"
  quality_reviews :: "review_row tbl"
  comments :: "comment_row tbl"
  task_subscriptions :: "subscription_row tbl"
  activities :: "activity_row tbl"
  notifications :: "notification_row tbl"
  audit_log :: "audit_row tbl"
  agents :: "agent_row tbl"
  webhooks :: "webhook_row tbl"
  webhook_deliveries :: "delivery_row tbl"
  workflow_templates :: "template_row tbl"
  workflow_pipelines :: "pipeline_row tbl"
  pipeline_runs :: "run_row tbl"
  settings :: "setting_row list"
  alert_rules :: "alert_rule_row tbl"
  tenants :: "tenant_row tbl"
  provision_jobs :: "job_row tbl"
  provision_events :: "job_event_row tbl"
  messages :: "message_row tbl"
  direct_connections :: "connection_row tbl"
  token_usage :: "usage_row tbl"
  standup_reports :: "standup_row list"
  gateways :: "gateway_row tbl"
  github_syncs :: "github_sync_row tbl"
  working_memory_column :: bool

text \<open>The row of a setting; the key is the primary key of the table.\<close>

definition setting_of :: "string \<Rightarrow> database \<Rightarrow> setting_row option" where
  "setting_of k d = find (\<lambda>r. sg_key r = k) (settings d)"

record server_event =
  ev_type :: string
  ev_data :: json
  ev_timestamp :: int

record rate_entry =
  rl_count :: int
  rl_reset_at :: int

record server =
  db :: database
  bus :: "server_event list"
  login_store :: "string \<Rightarrow> rate_entry option"
  mutation_store :: "string \<Rightarrow> rate_entry option"

text \<open>The freshly migrated database: migration 021 inserts the default workspace.\<close>

definition empty_db :: database where
  "empty_db = \<lparr>users = tbl_empty, user_sessions = tbl_empty, access_requests = tbl_empty,
     workspaces = \<lparr>seq = 1, rows = [\<lparr>ws_id = 1, ws_slug = ''default''\<rparr>]\<rparr>,
     tasks = tbl_empty, quality_reviews = tbl_empty, comments = tbl_empty,
     task_subscriptions = tbl_empty, activities = tbl_empty, notifications = tbl_empty,
     audit_log = tbl_empty, agents = tbl_empty, webhooks = tbl_empty,
     webhook_deliveries = tbl_empty, workflow_templates = tbl_empty,
     workflow_pipelines = tbl_empty, pipeline_runs = tbl_empty, settings = [],
     alert_rules = tbl_empty, tenants = tbl_empty, provision_jobs = tbl_empty,
     provision_events = tbl_empty, messages = tbl_empty, direct_connections = tbl_empty,
     token_usage = tbl_empty, standup_reports = [], gateways = tbl_empty,
     github_syncs = tbl_empty, working_memory_column = False\<rparr>"

definition init_server :: server where
  "init_server = \<lparr>db = empty_db, bus = [], login_store = Map.empty, mutation_store = Map.empty\<rparr>"

text \<open>A concrete world and a concrete request, for the examples that accompany the theorems.\<close>

definition demo_world :: world where
  "demo_world = \<lparr>getenv = [''API_KEY'' \<mapsto> ''demo-key''], now_ms = 1700000000000, sql_ord = scan_order\<rparr>"

definition demo_request :: request where
  "demo_request = \<lparr>req_method = ''POST'', req_path = ''/api/tasks'', req_url_host = ''mc.local'',
     req_https = True, req_headers = [''x-api-key'' \<mapsto> ''demo-key''], req_query = Map.empty,
     req_body = None\<rparr>"

text \<open>\<open>ServerEventBus.broadcast\<close>: the bus records the event that every listener receives.\<close>

definition broadcast :: "world \<Rightarrow> string \<Rightarrow> json \<Rightarrow> server \<Rightarrow> server" where
  "broadcast w ty data s =
     s\<lparr>bus := bus s @ [\<lparr>ev_type = ty, ev_data = data, ev_timestamp = now_ms w\<rparr>]\<rparr>"

lemma broadcast_sel [simp]:
  "db (broadcast w ty d s) = db s"
  "bus (broadcast w ty d s) = bus s @ [\<lparr>ev_type = ty, ev_data = d, ev_timestamp = now_ms w\<rparr>]"
  "login_store (broadcast w ty d s) = login_store s"
  "mutation_store (broadcast w ty d s) = mutation_store s"
  by (simp_all add: broadcast_def)

interpretation user_rows: row_store u_id "tbl_get u_id" tbl_insert tbl_update tbl_delete "tbl_wf u_id"
  by (rule row_store_tbl)

interpretation session_rows: row_store s_id "tbl_get s_id" tbl_insert tbl_update tbl_delete "tbl_wf s_id"
  by (rule row_store_tbl)

interpretation task_rows: row_store t_id "tbl_get t_id" tbl_insert tbl_update tbl_delete "tbl_wf t_id"
  by (rule row_store_tbl)

interpretation run_rows: row_store r_id "tbl_get r_id" tbl_insert tbl_update tbl_delete "tbl_wf r_id"
  by (rule row_store_tbl)

interpretation webhook_rows: row_store w_id "tbl_get w_id" tbl_insert tbl_update tbl_delete "tbl_wf w_id"
  by (rule row_store_tbl)

interpretation delivery_rows: row_store wd_id "tbl_get wd_id" tbl_insert tbl_update tbl_delete "tbl_wf wd_id"
  by (rule row_store_tbl)

interpretation job_rows: row_store j_id "tbl_get j_id" tbl_insert tbl_update tbl_delete "tbl_wf j_id"
  by (rule row_store_tbl)

section \<open>Database helpers\<close>

text \<open>\<open>db_helpers.logActivity\<close>: insert the activity, then broadcast it.\<close>

definition logActivity ::
  "world \<Rightarrow> string \<Rightarrow> string \<Rightarrow> int \<Rightarrow> string \<Rightarrow> string \<Rightarrow> json option \<Rightarrow> int \<Rightarrow> server \<Rightarrow> server"
where
  "logActivity w ty entity_type entity_id actor description data wsid s =
     (let stored = (case data of None \<Rightarrow> None | Some d \<Rightarrow> if truthy d then Some d else None);
          (aid, t') = tbl_insert (\<lambda>i. \<lparr>a_id = i, a_type = ty, a_entity_type = entity_type,
             a_entity_id = entity_id, a_actor = actor, a_description = description,
             a_data = stored, a_created_at = now_s w, a_workspace_id = wsid\<rparr>) (activities (db s));
          payload = JObj [(''id'', JNum aid), (''type'', JStr ty), (''entity_type'', JStr entity_type),
             (''entity_id'', JNum entity_id), (''actor'', JStr actor), (''description'', JStr description),
             (''data'', jnull id stored), (''created_at'', JNum (now_s w)), (''workspace_id'', JNum wsid)]
      in broadcast w ''activity.created'' payload (s\<lparr>db := (db s)\<lparr>activities := t'\<rparr>\<rparr>))"

text \<open>\<open>db_helpers.createNotification\<close>\<close>

definition createNotification ::
  "world \<Rightarrow> string \<Rightarrow> string \<Rightarrow> string \<Rightarrow> string \<Rightarrow> string option \<Rightarrow> int option \<Rightarrow> int \<Rightarrow> server \<Rightarrow> server"
where
  "createNotification w recipient ty title msg source_type source_id wsid s =
     (let (nid, t') = tbl_insert (\<lambda>i. \<lparr>n_id = i, n_recipient = recipient, n_type = ty,
             n_title = title, n_message = msg, n_source_type = source_type, n_source_id = source_id,
             n_read_at = None, n_delivered_at = None, n_created_at = now_s w,
             n_workspace_id = wsid\<rparr>) (notifications (db s));
          payload = JObj [(''id'', JNum nid), (''recipient'', JStr recipient), (''type'', JStr ty),
             (''title'', JStr title), (''message'', JStr msg),
             (''source_type'', jnull JStr (or_null source_type)),
             (''source_id'', (case source_id of None \<Rightarrow> JNull | Some i \<Rightarrow> if i = 0 then JNull else JNum i)),
             (''created_at'', JNum (now_s w)), (''workspace_id'', JNum wsid)]
      in broadcast w ''notification.created'' payload (s\<lparr>db := (db s)\<lparr>notifications := t'\<rparr>\<rparr>))"

text \<open>
  \<open>db_helpers.parseMentions\<close>: all matches of \<open>/@(\w+)/g\<close>, from left to right and without
  overlap. The result is a list of non-empty words.
\<close>

definition is_word_char :: "char \<Rightarrow> bool" where
  "is_word_char c = (let n = of_char c :: nat in
     (48 \<le> n \<and> n \<le> 57) \<or> (65 \<le> n \<and> n \<le> 90) \<or> (97 \<le> n \<and> n \<le> 122) \<or> n = 95)"

function parseMentions :: "string \<Rightarrow> string list" where
  "parseMentions [] = []"
| "parseMentions (c # cs) =
     (if c = CHR ''@'' \<and> takeWhile is_word_char cs \<noteq> []
      then takeWhile is_word_char cs # parseMentions (dropWhile is_word_char cs)
      else parseMentions cs)"
  by pat_completeness auto
termination
  by (relation "measure length") (auto simp: le_imp_less_Suc length_dropWhile_le)

text \<open>
  \<open>db_helpers.updateAgentStatus\<close>: the agent is looked up by name and workspace before the
  update; the activity is logged even when there is no such agent (with entity id 0).
\<close>

definition updateAgentStatus ::
  "world \<Rightarrow> string \<Rightarrow> string \<Rightarrow> string option \<Rightarrow> int \<Rightarrow> server \<Rightarrow> server"
where
  "updateAgentStatus w name st activity wsid s =
     (let is_it = (\<lambda>g. g_name g = name \<and> g_workspace_id g = wsid);
          agent = tbl_first is_it (agents (db s));
          s1 = s\<lparr>db := (db s)\<lparr>agents := tbl_update is_it
                 (\<lambda>g. g\<lparr>g_status := st, g_last_seen := Some (now_s w), g_last_activity := activity,
                         g_updated_at := now_s w\<rparr>) (agents (db s))\<rparr>\<rparr>;
          s2 = (case agent of None \<Rightarrow> s1
                | Some g \<Rightarrow> broadcast w ''agent.status_changed''
                    (JObj [(''id'', JNum (g_id g)), (''name'', JStr name), (''status'', JStr st),
                           (''last_seen'', JNum (now_s w)), (''last_activity'', jnull JStr (or_null activity))]) s1)
      in logActivity w ''agent_status_change'' ''agent''
           (case agent of None \<Rightarrow> 0 | Some g \<Rightarrow> g_id g) name
           (''Agent status changed to '' @ st)
           (Some (JObj ([(''status'', JStr st)] @ jopt ''activity'' JStr activity))) wsid s2)"

text \<open>
  \<open>db_helpers.ensureTaskSubscription\<close>: \<open>INSERT OR IGNORE\<close> from the task of this id and
  workspace; the pair (task, agent) is unique.
\<close>

definition ensureTaskSubscription :: "world \<Rightarrow> int \<Rightarrow> string \<Rightarrow> int \<Rightarrow> server \<Rightarrow> server" where
  "ensureTaskSubscription w task_id agent wsid s =
     (if agent = [] then s
      else case tbl_first (\<lambda>t. t_id t = task_id \<and> t_workspace_id t = wsid) (tasks (db s)) of
        None \<Rightarrow> s
      | Some t \<Rightarrow>
          if (\<exists>r \<in> set (rows (task_subscriptions (db s))). sub_task_id r = task_id \<and> sub_agent r = agent)
          then s
          else s\<lparr>db := (db s)\<lparr>task_subscriptions :=
                 snd (tbl_insert (\<lambda>i. \<lparr>sub_id = i, sub_task_id = task_id, sub_agent = agent,
                        sub_created_at = now_s w\<rparr>) (task_subscriptions (db s)))\<rparr>\<rparr>)"

text \<open>\<open>db_helpers.getTaskSubscribers\<close>\<close>

definition getTaskSubscribers :: "int \<Rightarrow> int \<Rightarrow> server \<Rightarrow> string list" where
  "getTaskSubscribers task_id wsid s =
     (if \<exists>t \<in> set (rows (tasks (db s))). t_id t = task_id \<and> t_workspace_id t = wsid
      then map sub_agent (filter (\<lambda>r. sub_task_id r = task_id) (rows (task_subscriptions (db s))))
      else [])"

text \<open>\<open>db_helpers.getUnreadNotifications\<close> and \<open>db_helpers.markNotificationRead\<close>\<close>

definition getUnreadNotifications :: "world \<Rightarrow> string \<Rightarrow> int \<Rightarrow> server \<Rightarrow> notification_row list" where
  "getUnreadNotifications w recipient wsid s =
     order_by_desc (sql_ord w) n_created_at
       (tbl_select (\<lambda>n. n_recipient n = recipient \<and> n_read_at n = None \<and> n_workspace_id n = wsid)
          (notifications (db s)))"

definition markNotificationRead :: "world \<Rightarrow> int \<Rightarrow> int \<Rightarrow> server \<Rightarrow> server" where
  "markNotificationRead w nid wsid s =
     s\<lparr>db := (db s)\<lparr>notifications := tbl_update (\<lambda>n. n_id n = nid \<and> n_workspace_id n = wsid)
        (\<lambda>n. n\<lparr>n_read_at := Some (now_s w)\<rparr>) (notifications (db s))\<rparr>\<rparr>"

text \<open>\<open>db_helpers.getRecentActivities\<close>\<close>

definition getRecentActivities :: "world \<Rightarrow> nat \<Rightarrow> server \<Rightarrow> activity_row list" where
  "getRecentActivities w limit s =
     take limit (order_by_desc (sql_ord w) a_created_at (rows (activities (db s))))"

text \<open>The argument of \<open>logAuditEvent\<close>, with the optional properties.\<close>

record audit_event =
  ae_action :: string
  ae_actor :: string
  ae_actor_id :: "int option"
  ae_target_type :: "string option"
  ae_target_id :: "int option"
  ae_detail :: "json option"
  ae_ip_address :: "string option"
  ae_user_agent :: "string option"

definition audit_event0 :: "string \<Rightarrow> string \<Rightarrow> audit_event" where
  "audit_event0 action actor = \<lparr>ae_action = action, ae_actor = actor, ae_actor_id = None,
     ae_target_type = None, ae_target_id = None, ae_detail = None, ae_ip_address = None,
     ae_user_agent = None\<rparr>"

definition securityEvents :: "string list" where
  "securityEvents = [''login_failed'', ''user_created'', ''user_deleted'', ''password_change'']"

text \<open>\<open>logAuditEvent\<close>\<close>

definition logAuditEvent :: "world \<Rightarrow> audit_event \<Rightarrow> server \<Rightarrow> server" where
  "logAuditEvent w e s =
     (let stored = (case ae_detail e of None \<Rightarrow> None | Some d \<Rightarrow> if truthy d then Some d else None);
          s1 = s\<lparr>db := (db s)\<lparr>audit_log := snd (tbl_insert (\<lambda>i. \<lparr>au_id = i, au_action = ae_action e,
             au_actor = ae_actor e, au_actor_id = ae_actor_id e, au_target_type = ae_target_type e,
             au_target_id = ae_target_id e, au_detail = stored, au_ip_address = ae_ip_address e,
             au_user_agent = ae_user_agent e, au_created_at = now_s w\<rparr>) (audit_log (db s)))\<rparr>\<rparr>
      in if ae_action e \<in> set securityEvents
         then broadcast w ''audit.security''
                (JObj [(''action'', JStr (ae_action e)), (''actor'', JStr (ae_actor e)),
                       (''target_type'', jnull JStr (ae_target_type e)),
                       (''target_id'', jnull JNum (ae_target_id e)),
                       (''timestamp'', JNum (now_s w))]) s1
         else s1)"

text \<open>\<open>appendProvisionEvent\<close>; the level is \<open>info\<close> when none is given.\<close>

definition appendProvisionEvent ::
  "world \<Rightarrow> int \<Rightarrow> string \<Rightarrow> string option \<Rightarrow> string \<Rightarrow> json option \<Rightarrow> server \<Rightarrow> server"
where
  "appendProvisionEvent w job_id level step_key msg data s =
     s\<lparr>db := (db s)\<lparr>provision_events := snd (tbl_insert (\<lambda>i. \<lparr>je_id = i, je_job_id = job_id,
        je_level = (if level = [] then ''info'' else level), je_step_key = step_key, je_message = msg,
        je_data = (case data of None \<Rightarrow> None | Some d \<Rightarrow> if truthy d then Some d else None),
        je_created_at = now_s w\<rparr>) (provision_events (db s)))\<rparr>\<rparr>"

section \<open>Frame lemmas and behaviour of the helpers\<close>

lemma logActivity_frame [frame_simps]:
  fixes s w ty et ei ac de da wsid defines "s' \<equiv> logActivity w ty et ei ac de da wsid s"
  shows "users (db s') = users (db s)" "user_sessions (db s') = user_sessions (db s)"
    "access_requests (db s') = access_requests (db s)" "workspaces (db s') = workspaces (db s)"
    "tasks (db s') = tasks (db s)" "quality_reviews (db s') = quality_reviews (db s)"
    "comments (db s') = comments (db s)" "task_subscriptions (db s') = task_subscriptions (db s)"
    "notifications (db s') = notifications (db s)" "audit_log (db s') = audit_log (db s)"
    "agents (db s') = agents (db s)" "webhooks (db s') = webhooks (db s)"
    "webhook_deliveries (db s') = webhook_deliveries (db s)"
    "workflow_templates (db s') = workflow_templates (db s)"
    "workflow_pipelines (db s') = workflow_pipelines (db s)" "pipeline_runs (db s') = pipeline_runs (db s)"
    "settings (db s') = settings (db s)" "alert_rules (db s') = alert_rules (db s)"
    "tenants (db s') = tenants (db s)" "provision_jobs (db s') = provision_jobs (db s)"
    "provision_events (db s') = provision_events (db s)"
    "messages (db s') = messages (db s)" "direct_connections (db s') = direct_connections (db s)"
    "token_usage (db s') = token_usage (db s)" "standup_reports (db s') = standup_reports (db s)"
    "gateways (db s') = gateways (db s)"
    "working_memory_column (db s') = working_memory_column (db s)"
    "login_store s' = login_store s" "mutation_store s' = mutation_store s"
  unfolding s'_def by (simp_all add: logActivity_def Let_def split: prod.split)

lemma createNotification_frame [frame_simps]:
  fixes s w rc ty ti msg st si wsid defines "s' \<equiv> createNotification w rc ty ti msg st si wsid s"
  shows "users (db s') = users (db s)" "user_sessions (db s') = user_sessions (db s)"
    "access_requests (db s') = access_requests (db s)" "workspaces (db s') = workspaces (db s)"
    "tasks (db s') = tasks (db s)" "quality_reviews (db s') = quality_reviews (db s)"
    "comments (db s') = comments (db s)" "task_subscriptions (db s') = task_subscriptions (db s)"
    "activities (db s') = activities (db s)" "audit_log (db s') = audit_log (db s)"
    "agents (db s') = agents (db s)" "webhooks (db s') = webhooks (db s)"
    "webhook_deliveries (db s') = webhook_deliveries (db s)"
    "workflow_templates (db s') = workflow_templates (db s)"
    "workflow_pipelines (db s') = workflow_pipelines (db s)" "pipeline_runs (db s') = pipeline_runs (db s)"
    "settings (db s') = settings (db s)" "alert_rules (db s') = alert_rules (db s)"
    "tenants (db s') = tenants (db s)" "provision_jobs (db s') = provision_jobs (db s)"
    "provision_events (db s') = provision_events (db s)"
    "messages (db s') = messages (db s)" "direct_connections (db s') = direct_connections (db s)"
    "token_usage (db s') = token_usage (db s)" "standup_reports (db s') = standup_reports (db s)"
    "gateways (db s') = gateways (db s)"
    "working_memory_column (db s') = working_memory_column (db s)"
    "login_store s' = login_store s" "mutation_store s' = mutation_store s"
  unfolding s'_def by (simp_all add: createNotification_def Let_def split: prod.split)

lemma ensureTaskSubscription_frame [frame_simps]:
  fixes s w tid ag wsid defines "s' \<equiv> ensureTaskSubscription w tid ag wsid s"
  shows "users (db s') = users (db s)" "user_sessions (db s') = user_sessions (db s)"
    "tasks (db s') = tasks (db s)" "quality_reviews (db s') = quality_reviews (db s)"
    "comments (db s') = comments (db s)" "notifications (db s') = notifications (db s)"
    "activities (db s') = activities (db s)" "audit_log (db s') = audit_log (db s)"
    "agents (db s') = agents (db s)" "pipeline_runs (db s') = pipeline_runs (db s)"
    "messages (db s') = messages (db s)" "direct_connections (db s') = direct_connections (db s)"
    "token_usage (db s') = token_usage (db s)" "standup_reports (db s') = standup_reports (db s)"
    "gateways (db s') = gateways (db s)"
    "working_memory_column (db s') = working_memory_column (db s)"
    "bus s' = bus s" "login_store s' = login_store s" "mutation_store s' = mutation_store s"
  unfolding s'_def by (simp_all add: ensureTaskSubscription_def split: option.split)

lemma logAuditEvent_frame [frame_simps]:
  fixes s w e defines "s' \<equiv> logAuditEvent w e s"
  shows "users (db s') = users (db s)" "user_sessions (db s') = user_sessions (db s)"
    "access_requests (db s') = access_requests (db s)" "workspaces (db s') = workspaces (db s)"
    "tasks (db s') = tasks (db s)" "quality_reviews (db s') = quality_reviews (db s)"
    "activities (db s') = activities (db s)" "notifications (db s') = notifications (db s)"
    "agents (db s') = agents (db s)" "webhooks (db s') = webhooks (db s)"
    "webhook_deliveries (db s') = webhook_deliveries (db s)"
    "workflow_templates (db s') = workflow_templates (db s)"
    "workflow_pipelines (db s') = workflow_pipelines (db s)" "pipeline_runs (db s') = pipeline_runs (db s)"
    "settings (db s') = settings (db s)" "alert_rules (db s') = alert_rules (db s)"
    "tenants (db s') = tenants (db s)" "provision_jobs (db s') = provision_jobs (db s)"
    "provision_events (db s') = provision_events (db s)"
    "messages (db s') = messages (db s)" "direct_connections (db s') = direct_connections (db s)"
    "token_usage (db s') = token_usage (db s)" "standup_reports (db s') = standup_reports (db s)"
    "gateways (db s') = gateways (db s)"
    "working_memory_column (db s') = working_memory_column (db s)"
    "login_store s' = login_store s" "mutation_store s' = mutation_store s"
  unfolding s'_def by (simp_all add: logAuditEvent_def Let_def)

lemma appendProvisionEvent_frame [frame_simps]:
  fixes s w j lv sk msg da defines "s' \<equiv> appendProvisionEvent w j lv sk msg da s"
  shows "tenants (db s') = tenants (db s)" "provision_jobs (db s') = provision_jobs (db s)"
    "users (db s') = users (db s)" "bus s' = bus s" "audit_log (db s') = audit_log (db s)"
  unfolding s'_def by (simp_all add: appendProvisionEvent_def)

lemma parseMentions_words: "\<forall>m \<in> set (parseMentions s). m \<noteq> [] \<and> (\<forall>c \<in> set m. is_word_char c)"
proof (induction s rule: parseMentions.induct)
  case 1
  then show ?case by simp
next
  case (2 c cs)
  show ?case
  proof (cases "c = CHR ''@'' \<and> takeWhile is_word_char cs \<noteq> []")
    case True
    have "\<forall>d \<in> set (takeWhile is_word_char cs). is_word_char d"
      by (meson set_takeWhileD)
    with True 2(1) show ?thesis by simp
  next
    case False
    with 2(2) show ?thesis by simp
  qed
qed

lemma subscriptions_unique_step:
  assumes "distinct (map (\<lambda>r. (sub_task_id r, sub_agent r)) (rows (task_subscriptions (db s))))"
  shows "distinct (map (\<lambda>r. (sub_task_id r, sub_agent r))
           (rows (task_subscriptions (db (ensureTaskSubscription w tid ag wsid s)))))"
  using assms
  by (auto simp: ensureTaskSubscription_def tbl_insert_def split: option.split)

end
