(* ===== verification/MC_Auth.thy ===== *)
theory MC_Auth
  imports MC_Db
begin

text \<open>
  Passwords, sessions, users and role checks: \<open>src/lib/password.ts\<close>,
  \<open>src/lib/session-cookie.ts\<close> and \<open>src/lib/auth.ts\<close>. \<open>scrypt\<close> (Node's
  \<open>scryptSync\<close> with the fixed cost and key length) and the bytes of \<open>randomBytes\<close> are
  arguments. A thrown exception is \<open>Inl\<close> of its message; what was written before the throw
  stays written.
\<close>

section \<open>Passwords\<close>

definition hex_digit :: "nat \<Rightarrow> char" where
  "hex_digit n = (if n < 10 then char_of (48 + n) else char_of (87 + n))"

definition hex_encode :: "string \<Rightarrow> string" where
  "hex_encode bs = concat (map (\<lambda>b. let n = of_char b :: nat in [hex_digit (n div 16), hex_digit (n mod 16)]) bs)"

text \<open>\<open>Buffer.from(s, 'hex')\<close> stops at the first pair that is not hexadecimal.\<close>

fun hex_decode :: "string \<Rightarrow> string" where
  "hex_decode (a # b # rest) =
     (case (hex_value a, hex_value b) of
        (Some x, Some y) \<Rightarrow> char_of (16 * x + y) # hex_decode rest
      | _ \<Rightarrow> [])"
| "hex_decode _ = []"

definition timingSafeEqual :: "string \<Rightarrow> string \<Rightarrow> bool" where
  "timingSafeEqual a b \<longleftrightarrow> list_all2 (=) a b"

definition hashPassword :: "(string \<Rightarrow> string \<Rightarrow> string) \<Rightarrow> string \<Rightarrow> string \<Rightarrow> string" where
  "hashPassword scrypt rand password =
     (let salt = hex_encode rand in salt @ '':'' @ hex_encode (scrypt password salt))"

definition verifyPassword :: "(string \<Rightarrow> string \<Rightarrow> string) \<Rightarrow> string \<Rightarrow> string \<Rightarrow> bool" where
  "verifyPassword scrypt password stored =
     (case split_on CHR '':'' stored of
        salt # hash # _ \<Rightarrow>
          if salt = [] \<or> hash = [] then False
          else (let derived = scrypt password salt; storedBuf = hex_decode hash
                in if length derived \<noteq> length storedBuf then False
                   else timingSafeEqual derived storedBuf)
      | _ \<Rightarrow> False)"

section \<open>Session cookie options\<close>

definition envFlag :: "world \<Rightarrow> string \<Rightarrow> bool option" where
  "envFlag w name =
     (case getenv w name of
        None \<Rightarrow> None
      | Some raw \<Rightarrow> (let v = to_lower (trim raw) in
          if v \<in> {''1'', ''true'', ''yes'', ''on''} then Some True
          else if v \<in> {''0'', ''false'', ''no'', ''off''} then Some False
          else None))"

definition getMcSessionCookieOptions :: "world \<Rightarrow> int \<Rightarrow> bool option \<Rightarrow> cookie_options" where
  "getMcSessionCookieOptions w maxAge isSecureRequest =
     (let secure = (case envFlag w ''MC_COOKIE_SECURE'' of
              Some b \<Rightarrow> b
            | None \<Rightarrow> (case isSecureRequest of
                Some b \<Rightarrow> b
              | None \<Rightarrow> getenv w ''NODE_ENV'' = Some ''production''));
          raw = to_lower (or_else (getenv w ''MC_COOKIE_SAMESITE'') ''strict'');
          same = (if raw = ''lax'' then ''lax'' else if raw = ''none'' then ''none'' else ''strict'')
      in \<lparr>ck_secure = secure, ck_same_site = same, ck_max_age = maxAge\<rparr>)"

section \<open>Constant-time comparison\<close>

definition safeCompare :: "string \<Rightarrow> string \<Rightarrow> bool" where
  "safeCompare a b = (if length a \<noteq> length b then False else timingSafeEqual a b)"

section \<open>Users as the API sees them\<close>

record user =
  usr_id :: int
  usr_username :: string
  usr_display_name :: string
  usr_role :: string
  usr_workspace_id :: int
  usr_provider :: "string option"
  usr_email :: "string option"
  usr_avatar_url :: "string option"
  usr_is_approved :: "int option"
  usr_created_at :: int
  usr_updated_at :: int
  usr_last_login_at :: "int option"
  usr_sessionId :: "int option"

definition SESSION_DURATION :: int where
  "SESSION_DURATION = 7 * 24 * 60 * 60"

definition getDefaultWorkspaceId :: "server \<Rightarrow> int" where
  "getDefaultWorkspaceId s =
     (case tbl_first (\<lambda>r. ws_slug r = ''default'') (workspaces (db s)) of
        None \<Rightarrow> 1
      | Some r \<Rightarrow> if ws_id r = 0 then 1 else ws_id r)"

definition or_default_workspace :: "int \<Rightarrow> server \<Rightarrow> int" where
  "or_default_workspace n s = (if n = 0 then getDefaultWorkspaceId s else n)"

section \<open>Sessions\<close>

text \<open>
  \<open>createSession\<close>. The insert fails when the token is taken (UNIQUE) or when there is no such
  user (FOREIGN KEY).
\<close>

definition session_workspace :: "int option \<Rightarrow> int \<Rightarrow> server \<Rightarrow> int" where
  "session_workspace wsid userId s =
     (case wsid of
        Some n \<Rightarrow> n
      | None \<Rightarrow> (case tbl_get u_id (users (db s)) userId of
          Some u \<Rightarrow> or_default_workspace (u_workspace_id u) s
        | None \<Rightarrow> getDefaultWorkspaceId s))"

definition new_session ::
  "world \<Rightarrow> string \<Rightarrow> int \<Rightarrow> string option \<Rightarrow> string option \<Rightarrow> int option \<Rightarrow> server \<Rightarrow> int \<Rightarrow> session_row"
where
  "new_session w token userId ip ua wsid s i = \<lparr>s_id = i, s_token = token, s_user_id = userId,
     s_expires_at = now_s w + SESSION_DURATION, s_created_at = now_s w, s_ip_address = or_null ip,
     s_user_agent = or_null ua, s_workspace_id = session_workspace wsid userId s\<rparr>"

definition createSession ::
  "world \<Rightarrow> string \<Rightarrow> int \<Rightarrow> string option \<Rightarrow> string option \<Rightarrow> int option \<Rightarrow> server \<Rightarrow> (string + (string \<times> int)) \<times> server"
where
  "createSession w rand userId ip ua wsid s =
     (let token = hex_encode rand; now = now_s w; d0 = db s
      in if \<exists>r \<in> set (rows (user_sessions d0)). s_token r = token
         then (Inl ''UNIQUE constraint failed: user_sessions.token'', s)
         else if tbl_get u_id (users d0) userId = None
         then (Inl ''FOREIGN KEY constraint failed'', s)
         else
           (let d1 = d0\<lparr>user_sessions := snd (tbl_insert (new_session w token userId ip ua wsid s) (user_sessions d0))\<rparr>;
                d2 = d1\<lparr>users := tbl_update (\<lambda>u. u_id u = userId)
                       (\<lambda>u. u\<lparr>u_last_login_at := Some now, u_updated_at := now\<rparr>) (users d1)\<rparr>;
                d3 = d2\<lparr>user_sessions := tbl_delete (\<lambda>r. s_expires_at r < now) (user_sessions d2)\<rparr>
            in (Inr (token, now + SESSION_DURATION), s\<lparr>db := d3\<rparr>)))"

definition validateSession :: "world \<Rightarrow> string \<Rightarrow> server \<Rightarrow> user option" where
  "validateSession w token s =
     (if token = [] then None
      else case tbl_first (\<lambda>r. s_token r = token \<and> now_s w < s_expires_at r \<and>
                              tbl_get u_id (users (db s)) (s_user_id r) \<noteq> None) (user_sessions (db s)) of
        None \<Rightarrow> None
      | Some r \<Rightarrow>
          (case tbl_get u_id (users (db s)) (s_user_id r) of
             None \<Rightarrow> None
           | Some u \<Rightarrow> Some \<lparr>usr_id = u_id u, usr_username = u_username u, usr_display_name = u_display_name u,
               usr_role = u_role u, usr_workspace_id = or_default_workspace (s_workspace_id r) s,
               usr_provider = Some (or_else (u_provider u) ''local''), usr_email = u_email u,
               usr_avatar_url = u_avatar_url u, usr_is_approved = Some (u_is_approved u),
               usr_created_at = u_created_at u, usr_updated_at = u_updated_at u,
               usr_last_login_at = u_last_login_at u, usr_sessionId = Some (s_id r)\<rparr>))"

definition destroySession :: "string \<Rightarrow> server \<Rightarrow> server" where
  "destroySession token s =
     s\<lparr>db := (db s)\<lparr>user_sessions := tbl_delete (\<lambda>r. s_token r = token) (user_sessions (db s))\<rparr>\<rparr>"

definition destroyAllUserSessions :: "int \<Rightarrow> server \<Rightarrow> server" where
  "destroyAllUserSessions userId s =
     s\<lparr>db := (db s)\<lparr>user_sessions := tbl_delete (\<lambda>r. s_user_id r = userId) (user_sessions (db s))\<rparr>\<rparr>"

section \<open>Users\<close>

definition authenticateUser ::
  "(string \<Rightarrow> string \<Rightarrow> string) \<Rightarrow> string \<Rightarrow> string \<Rightarrow> server \<Rightarrow> user option"
where
  "authenticateUser scrypt name password s =
     (case tbl_first (\<lambda>u. u_username u = name) (users (db s)) of
        None \<Rightarrow> None
      | Some u \<Rightarrow>
          if or_else (u_provider u) ''local'' \<noteq> ''local'' then None
          else if u_is_approved u \<noteq> 1 then None
          else if \<not> verifyPassword scrypt password (u_password_hash u) then None
          else Some \<lparr>usr_id = u_id u, usr_username = u_username u, usr_display_name = u_display_name u,
            usr_role = u_role u, usr_workspace_id = or_default_workspace (u_workspace_id u) s,
            usr_provider = Some (or_else (u_provider u) ''local''), usr_email = u_email u,
            usr_avatar_url = u_avatar_url u, usr_is_approved = Some (u_is_approved u),
            usr_created_at = u_created_at u, usr_updated_at = u_updated_at u,
            usr_last_login_at = u_last_login_at u, usr_sessionId = None\<rparr>)"

definition user_of_row :: "user_row \<Rightarrow> user" where
  "user_of_row u = \<lparr>usr_id = u_id u, usr_username = u_username u, usr_display_name = u_display_name u,
     usr_role = u_role u, usr_workspace_id = u_workspace_id u, usr_provider = u_provider u, usr_email = u_email u,
     usr_avatar_url = u_avatar_url u, usr_is_approved = Some (u_is_approved u), usr_created_at = u_created_at u,
     usr_updated_at = u_updated_at u, usr_last_login_at = u_last_login_at u, usr_sessionId = None\<rparr>"

definition getUserById :: "int \<Rightarrow> server \<Rightarrow> user option" where
  "getUserById i s = map_option user_of_row (tbl_get u_id (users (db s)) i)"

definition getAllUsers :: "world \<Rightarrow> server \<Rightarrow> user list" where
  "getAllUsers w s =
     map user_of_row (order_by_desc (sql_ord w) (\<lambda>u. - u_created_at u) (rows (users (db s))))"

record create_options =
  co_provider :: "string option"
  co_provider_user_id :: "string option"
  co_email :: "string option"
  co_avatar_url :: "string option"
  co_is_approved :: "int option"
  co_approved_by :: "string option"
  co_approved_at :: "int option"
  co_workspace_id :: "int option"

definition createUser ::
  "world \<Rightarrow> (string \<Rightarrow> string \<Rightarrow> string) \<Rightarrow> string \<Rightarrow> string \<Rightarrow> string \<Rightarrow> string \<Rightarrow> string \<Rightarrow> create_options \<Rightarrow> server
   \<Rightarrow> (string + user) \<times> server"
where
  "createUser w scrypt rand name password displayName rl opts s =
     (if length password < 12 then (Inl ''Password must be at least 12 characters'', s)
      else
        (let passwordHash = hashPassword scrypt rand password;
             prov = or_else (co_provider opts) ''local'';
             wsid = (case co_workspace_id opts of
                 None \<Rightarrow> getDefaultWorkspaceId s
               | Some n \<Rightarrow> or_default_workspace n s)
         in if \<exists>u \<in> set (rows (users (db s))). u_username u = name
            then (Inl ''UNIQUE constraint failed: users.username'', s)
            else
              (let (uid, t') = tbl_insert (\<lambda>i. \<lparr>u_id = i, u_username = name, u_display_name = displayName,
                     u_password_hash = passwordHash, u_role = rl, u_provider = Some prov,
                     u_provider_user_id = or_null (co_provider_user_id opts), u_email = or_null (co_email opts),
                     u_avatar_url = or_null (co_avatar_url opts),
                     u_is_approved = (case co_is_approved opts of None \<Rightarrow> 1 | Some n \<Rightarrow> n),
                     u_approved_by = or_null (co_approved_by opts),
                     u_approved_at = (case co_approved_at opts of None \<Rightarrow> None
                                      | Some n \<Rightarrow> if n = 0 then None else Some n),
                     u_workspace_id = wsid, u_created_at = now_s w, u_updated_at = now_s w,
                     u_last_login_at = None\<rparr>) (users (db s));
                   s' = s\<lparr>db := (db s)\<lparr>users := t'\<rparr>\<rparr>
               in case getUserById uid s' of
                    None \<Rightarrow> (Inl ''null'', s')
                  | Some u \<Rightarrow> (Inr u, s'))))"

text \<open>
  The updates of \<open>updateUser\<close>: \<open>None\<close> is \<open>undefined\<close>; \<open>email\<close> and
  \<open>avatar_url\<close> may be set to \<open>null\<close>.
\<close>

record user_updates =
  up_display_name :: "string option"
  up_role :: "string option"
  up_password :: "string option"
  up_email :: "string option option"
  up_avatar_url :: "string option option"
  up_is_approved :: "int option"

definition apply_user_updates ::
  "(string \<Rightarrow> string \<Rightarrow> string) \<Rightarrow> string \<Rightarrow> user_updates \<Rightarrow> user_row \<Rightarrow> user_row"
where
  "apply_user_updates scrypt rand up u = u\<lparr>
     u_display_name := (case up_display_name up of None \<Rightarrow> u_display_name u | Some v \<Rightarrow> v),
     u_role := (case up_role up of None \<Rightarrow> u_role u | Some v \<Rightarrow> v),
     u_password_hash := (case up_password up of None \<Rightarrow> u_password_hash u | Some v \<Rightarrow> hashPassword scrypt rand v),
     u_email := (case up_email up of None \<Rightarrow> u_email u | Some v \<Rightarrow> v),
     u_avatar_url := (case up_avatar_url up of None \<Rightarrow> u_avatar_url u | Some v \<Rightarrow> v),
     u_is_approved := (case up_is_approved up of None \<Rightarrow> u_is_approved u | Some v \<Rightarrow> v)\<rparr>"

definition no_user_updates :: "user_updates \<Rightarrow> bool" where
  "no_user_updates up \<longleftrightarrow> up_display_name up = None \<and> up_role up = None \<and> up_password up = None \<and>
     up_email up = None \<and> up_avatar_url up = None \<and> up_is_approved up = None"

definition updateUser ::
  "world \<Rightarrow> (string \<Rightarrow> string \<Rightarrow> string) \<Rightarrow> string \<Rightarrow> int \<Rightarrow> user_updates \<Rightarrow> server \<Rightarrow> user option \<times> server"
where
  "updateUser w scrypt rand i up s =
     (if no_user_updates up then (getUserById i s, s)
      else
        (let s' = s\<lparr>db := (db s)\<lparr>users := tbl_update (\<lambda>u. u_id u = i)
                    (\<lambda>u. (apply_user_updates scrypt rand up u)\<lparr>u_updated_at := now_s w\<rparr>) (users (db s))\<rparr>\<rparr>
         in (getUserById i s', s')))"

text \<open>
  \<open>deleteUser\<close>. Deleting the user row also runs the foreign-key actions: the user's sessions
  are deleted (CASCADE) and access requests that point to the user are cleared (SET NULL).
\<close>

definition deleteUser :: "int \<Rightarrow> server \<Rightarrow> bool \<times> server" where
  "deleteUser i s =
     (let s1 = destroyAllUserSessions i s;
          changes = length (tbl_select (\<lambda>u. u_id u = i) (users (db s1)));
          d = db s1;
          d' = d\<lparr>users := tbl_delete (\<lambda>u. u_id u = i) (users d),
                 user_sessions := tbl_delete (\<lambda>r. s_user_id r = i) (user_sessions d),
                 access_requests := tbl_update (\<lambda>r. ar_approved_user_id r = Some i)
                   (\<lambda>r. r\<lparr>ar_approved_user_id := None\<rparr>) (access_requests d)\<rparr>
      in (0 < changes, s1\<lparr>db := d'\<rparr>))"

section \<open>Reading the user off a request\<close>

text \<open>\<open>decodeURIComponent\<close>; \<open>None\<close> is the \<open>URIError\<close>.\<close>

fun take_escape :: "string \<Rightarrow> (nat \<times> string) option" where
  "take_escape (p # a # b # rest) =
     (if p = CHR ''%'' then
        (case (hex_value a, hex_value b) of (Some x, Some y) \<Rightarrow> Some (16 * x + y, rest) | _ \<Rightarrow> None)
      else None)"
| "take_escape _ = None"

fun take_continuations :: "nat \<Rightarrow> nat \<Rightarrow> nat \<Rightarrow> string \<Rightarrow> (string \<times> string) option" where
  "take_continuations 0 lo hi s = Some ([], s)"
| "take_continuations (Suc k) lo hi s =
     (case take_escape s of
        None \<Rightarrow> None
      | Some (b, rest) \<Rightarrow>
          if lo \<le> b \<and> b \<le> hi then
            (case take_continuations k 128 191 rest of
               None \<Rightarrow> None
             | Some (bs, rest') \<Rightarrow> Some (char_of b # bs, rest'))
          else None)"

definition utf8_sequence :: "nat \<Rightarrow> string \<Rightarrow> (string \<times> string) option" where
  "utf8_sequence b rest =
     (if b < 128 then take_continuations 0 0 0 rest
      else if 194 \<le> b \<and> b \<le> 223 then take_continuations 1 128 191 rest
      else if b = 224 then take_continuations 2 160 191 rest
      else if b = 237 then take_continuations 2 128 159 rest
      else if 225 \<le> b \<and> b \<le> 239 then take_continuations 2 128 191 rest
      else if b = 240 then take_continuations 3 144 191 rest
      else if 241 \<le> b \<and> b \<le> 243 then take_continuations 3 128 191 rest
      else if b = 244 then take_continuations 3 128 143 rest
      else None)"

lemma take_escape_length: "take_escape s = Some (b, rest) \<Longrightarrow> length rest < length s"
  by (induction s rule: take_escape.induct) (auto split: if_splits option.splits)

lemma take_continuations_length:
  "take_continuations k lo hi s = Some (bs, rest) \<Longrightarrow> length rest \<le> length s"
  by (induction k arbitrary: lo hi s bs)
    (auto split: option.splits if_splits dest!: take_escape_length, fastforce)

lemma utf8_sequence_length: "utf8_sequence b s = Some (bs, rest) \<Longrightarrow> length rest \<le> length s"
  unfolding utf8_sequence_def
  by (auto simp del: take_continuations.simps split: if_splits intro: take_continuations_length)

function decodeURIComponent :: "string \<Rightarrow> string option" where
  "decodeURIComponent [] = Some []"
| "decodeURIComponent (c # cs) =
     (if c \<noteq> CHR ''%'' then map_option (Cons c) (decodeURIComponent cs)
      else (case take_escape (c # cs) of
              None \<Rightarrow> None
            | Some (b, rest) \<Rightarrow>
                (case utf8_sequence b rest of
                   None \<Rightarrow> None
                 | Some (bs, rest') \<Rightarrow>
                     map_option (\<lambda>t. char_of b # bs @ t) (decodeURIComponent rest'))))"
  by pat_completeness auto
termination
  by (relation "measure length") (auto dest!: take_escape_length utf8_sequence_length)

text \<open>\<open>parseCookie\<close>: the first match of \<open>(?:^|;\s*)name=([^;]*)\<close>.\<close>

fun find_cookie :: "string \<Rightarrow> string \<Rightarrow> string option" where
  "find_cookie nm [] = None"
| "find_cookie nm (c # cs) =
     (if c = CHR '';'' \<and> starts_with nm (dropWhile is_ws cs)
      then Some (takeWhile (\<lambda>d. d \<noteq> CHR '';'') (drop (length nm) (dropWhile is_ws cs)))
      else find_cookie nm cs)"

definition match_cookie :: "string \<Rightarrow> string \<Rightarrow> string option" where
  "match_cookie header name =
     (let nm = name @ ''='' in
      if starts_with nm header then Some (takeWhile (\<lambda>d. d \<noteq> CHR '';'') (drop (length nm) header))
      else find_cookie nm header)"

definition parseCookie :: "string \<Rightarrow> string \<Rightarrow> string + string option" where
  "parseCookie header name =
     (case match_cookie header name of
        None \<Rightarrow> Inr None
      | Some v \<Rightarrow> (case decodeURIComponent v of None \<Rightarrow> Inl ''URI malformed'' | Some t \<Rightarrow> Inr (Some t)))"

definition api_user :: "server \<Rightarrow> user" where
  "api_user s = \<lparr>usr_id = 0, usr_username = ''api'', usr_display_name = ''API Access'', usr_role = ''admin'',
     usr_workspace_id = getDefaultWorkspaceId s, usr_provider = None, usr_email = None, usr_avatar_url = None,
     usr_is_approved = None, usr_created_at = 0, usr_updated_at = 0, usr_last_login_at = None, usr_sessionId = None\<rparr>"

definition user_from_api_key :: "world \<Rightarrow> request \<Rightarrow> server \<Rightarrow> user option" where
  "user_from_api_key w req s =
     (case req_headers req ''x-api-key'' of
        None \<Rightarrow> None
      | Some key \<Rightarrow>
          if key \<noteq> [] \<and> safeCompare key (or_else (getenv w ''API_KEY'') []) then Some (api_user s) else None)"

definition getUserFromRequest :: "world \<Rightarrow> request \<Rightarrow> server \<Rightarrow> string + user option" where
  "getUserFromRequest w req s =
     (case parseCookie (or_else (req_headers req ''cookie'') []) ''mc-session'' of
        Inl e \<Rightarrow> Inl e
      | Inr None \<Rightarrow> Inr (user_from_api_key w req s)
      | Inr (Some token) \<Rightarrow>
          (case (if token = [] then None else validateSession w token s) of
             Some u \<Rightarrow> Inr (Some u)
           | None \<Rightarrow> Inr (user_from_api_key w req s)))"

definition getWorkspaceIdFromRequest :: "world \<Rightarrow> request \<Rightarrow> server \<Rightarrow> string + int" where
  "getWorkspaceIdFromRequest w req s =
     (case getUserFromRequest w req s of
        Inl e \<Rightarrow> Inl e
      | Inr None \<Rightarrow> Inr (getDefaultWorkspaceId s)
      | Inr (Some u) \<Rightarrow> Inr (or_default_workspace (usr_workspace_id u) s))"

section \<open>Roles\<close>

definition ROLE_LEVELS :: "string \<Rightarrow> int option" where
  "ROLE_LEVELS = [''viewer'' \<mapsto> 0, ''operator'' \<mapsto> 1, ''admin'' \<mapsto> 2]"

definition role_level :: "string \<Rightarrow> int" where
  "role_level r = (case ROLE_LEVELS r of None \<Rightarrow> -1 | Some n \<Rightarrow> n)"

datatype auth_result = Auth_error nat string | Auth_user user

definition requireRole :: "world \<Rightarrow> request \<Rightarrow> string \<Rightarrow> server \<Rightarrow> string + auth_result" where
  "requireRole w req minRole s =
     (case getUserFromRequest w req s of
        Inl e \<Rightarrow> Inl e
      | Inr None \<Rightarrow> Inr (Auth_error 401 ''Authentication required'')
      | Inr (Some u) \<Rightarrow>
          if role_level (usr_role u) < role_level minRole
          then Inr (Auth_error 403 (''Requires '' @ minRole @ '' role or higher''))
          else Inr (Auth_user u))"

section \<open>Laws of the password store\<close>

lemma hex_value_hex_digit: "n < 16 \<Longrightarrow> hex_value (hex_digit n) = Some n"
  by (auto simp: hex_value_def hex_digit_def)

lemma hex_decode_encode [simp]: "hex_decode (hex_encode bs) = bs"
proof (induction bs)
  case Nil
  then show ?case by (simp add: hex_encode_def)
next
  case (Cons b bs)
  have "of_char b div 16 < (16 :: nat)"
    by (simp add: less_mult_imp_div_less)
  then have "hex_value (hex_digit (of_char b div 16)) = Some (of_char b div 16)"
    and "hex_value (hex_digit (of_char b mod 16)) = Some (of_char b mod 16)"
    by (simp_all add: hex_value_hex_digit)
  with Cons show ?case
    by (simp add: hex_encode_def Let_def)
qed

lemma length_hex_encode [simp]: "length (hex_encode bs) = 2 * length bs"
  by (induction bs) (auto simp: hex_encode_def Let_def)

lemma hex_encode_eq_Nil [simp]: "hex_encode bs = [] \<longleftrightarrow> bs = []"
  by (metis length_0_conv length_hex_encode mult_is_0 zero_neq_numeral)

lemma hex_encode_no_colon: "CHR '':'' \<notin> set (hex_encode bs)"
proof -
  have *: "CHR '':'' \<noteq> hex_digit n" if "n < 16" for n
    using that by (auto simp: hex_digit_def dest!: arg_cong [where f = "of_char :: char \<Rightarrow> nat"])
  have "of_char b div 16 < (16 :: nat)" for b :: char
    by (simp add: less_mult_imp_div_less)
  with * show ?thesis
    by (force simp: hex_encode_def Let_def)
qed

lemma timingSafeEqual_iff [simp]: "timingSafeEqual a b \<longleftrightarrow> a = b"
  by (simp add: timingSafeEqual_def list.rel_eq)

lemma safeCompare_iff [simp]: "safeCompare a b \<longleftrightarrow> a = b"
  by (auto simp: safeCompare_def)

text \<open>
  A stored password verifies exactly the passwords with the same key: for every derivation
  function with 32-byte keys, \<open>verifyPassword\<close> on the output of \<open>hashPassword\<close> accepts
  a candidate iff scrypt derives the same key for it under the stored salt, so in particular it
  accepts the password that was hashed.
\<close>

theorem verify_hashPassword:
  assumes "\<And>p salt. length (scrypt p salt) = 32" and "rand \<noteq> []"
  shows "verifyPassword scrypt candidate (hashPassword scrypt rand password) \<longleftrightarrow>
    scrypt candidate (hex_encode rand) = scrypt password (hex_encode rand)"
proof -
  let ?salt = "hex_encode rand"
  have "split_on CHR '':'' (hashPassword scrypt rand password) = [?salt, hex_encode (scrypt password ?salt)]"
    by (simp add: hashPassword_def Let_def split_on_append_sep split_on_no_sep hex_encode_no_colon)
  moreover have "scrypt password ?salt \<noteq> []"
    using assms(1) [of password ?salt] by auto
  ultimately show ?thesis
    using assms by (simp add: verifyPassword_def)
qed

theorem verify_hashPassword_witness:
  "(let scrypt = (\<lambda>p salt. take 32 (p @ replicate 32 CHR ''0''))
    in verifyPassword scrypt ''correct horse'' (hashPassword scrypt ''salty'' ''correct horse'') \<and>
       \<not> verifyPassword scrypt ''wrong horse'' (hashPassword scrypt ''salty'' ''correct horse''))"
  by (simp add: verify_hashPassword)

section \<open>The invariant of the user and session tables\<close>

definition auth_tables :: "user_row tbl \<Rightarrow> session_row tbl \<Rightarrow> bool" where
  "auth_tables U S \<longleftrightarrow> tbl_wf u_id U \<and> tbl_wf s_id S \<and>
     distinct (map u_username (rows U)) \<and> distinct (map s_token (rows S)) \<and>
     (\<forall>r \<in> set (rows S). s_user_id r \<in> u_id ` set (rows U))"

definition auth_inv :: "server \<Rightarrow> bool" where
  "auth_inv s \<longleftrightarrow> auth_tables (users (db s)) (user_sessions (db s))"

lemma auth_inv_init: "auth_inv init_server"
  by (simp add: auth_inv_def auth_tables_def init_server_def empty_db_def tbl_empty_def tbl_wf_def)

lemma auth_update_user:
  assumes "auth_tables U S" "\<And>u. u_id (f u) = u_id u" "\<And>u. u_username (f u) = u_username u"
  shows "auth_tables (tbl_update p f U) S"
  using assms unfolding auth_tables_def
  by (auto simp only: tbl_update_images tbl_update_image user_rows.wf_update)

lemma auth_delete_session: "auth_tables U S \<Longrightarrow> auth_tables U (tbl_delete p S)"
  by (simp add: auth_tables_def session_rows.wf_delete rows_tbl_delete distinct_map_filter)

lemma auth_insert_session:
  assumes "auth_tables U S" "\<And>i. s_id (mk i) = i" "s_token (mk (seq S + 1)) \<notin> s_token ` set (rows S)"
    "s_user_id (mk (seq S + 1)) \<in> u_id ` set (rows U)"
  shows "auth_tables U (snd (tbl_insert mk S))"
  using assms unfolding auth_tables_def
  by (simp add: session_rows.wf_insert rows_tbl_insert)

lemma auth_insert_user:
  assumes "auth_tables U S" "\<And>i. u_id (mk i) = i" "u_username (mk (seq U + 1)) \<notin> u_username ` set (rows U)"
  shows "auth_tables (snd (tbl_insert mk U)) S"
  using assms unfolding auth_tables_def
  by (simp add: user_rows.wf_insert rows_tbl_insert)

lemma auth_delete_user:
  "auth_tables U S \<Longrightarrow>
   auth_tables (tbl_delete (\<lambda>u. u_id u = i) U) (tbl_delete (\<lambda>r. s_user_id r = i) S)"
  unfolding auth_tables_def
  by (auto simp: session_rows.wf_delete user_rows.wf_delete rows_tbl_delete distinct_map_filter image_iff)

lemmas auth_tables_intros = auth_update_user auth_delete_session auth_insert_session
  auth_insert_user auth_delete_user

lemma new_session_sel [simp]:
  "s_id (new_session w tok uid ip ua wsid s i) = i"
  "s_token (new_session w tok uid ip ua wsid s i) = tok"
  "s_user_id (new_session w tok uid ip ua wsid s i) = uid"
  "s_expires_at (new_session w tok uid ip ua wsid s i) = now_s w + SESSION_DURATION"
  by (simp_all add: new_session_def)

lemma createSession_Inr:
  "createSession w rand uid ip ua wsid s = (Inr x, s') \<longleftrightarrow>
   hex_encode rand \<notin> s_token ` set (rows (user_sessions (db s))) \<and>
   uid \<in> u_id ` set (rows (users (db s))) \<and>
   x = (hex_encode rand, now_s w + SESSION_DURATION) \<and>
   s' = s\<lparr>db := (db s)\<lparr>
     user_sessions := tbl_delete (\<lambda>r. s_expires_at r < now_s w)
       (snd (tbl_insert (new_session w (hex_encode rand) uid ip ua wsid s) (user_sessions (db s)))),
     users := tbl_update (\<lambda>u. u_id u = uid)
       (\<lambda>u. u\<lparr>u_last_login_at := Some (now_s w), u_updated_at := now_s w\<rparr>) (users (db s))\<rparr>\<rparr>"
proof -
  have "(\<exists>r \<in> set (rows (user_sessions (db s))). s_token r = hex_encode rand) \<longleftrightarrow>
      hex_encode rand \<in> s_token ` set (rows (user_sessions (db s)))"
    by force
  then show ?thesis
    by (auto simp: createSession_def Let_def tbl_get_None)
qed

lemma createSession_Inl: "createSession w rand uid ip ua wsid s = (Inl e, s') \<Longrightarrow> s' = s"
  by (auto simp: createSession_def Let_def split: if_splits)

lemma auth_inv_createSession:
  assumes "auth_inv s" shows "auth_inv (snd (createSession w rand uid ip ua wsid s))"
proof (cases "createSession w rand uid ip ua wsid s")
  case (Pair res s')
  show ?thesis
  proof (cases res)
    case (Inl e)
    with assms Pair show ?thesis by (auto dest: createSession_Inl)
  next
    case (Inr x)
    with Pair have "createSession w rand uid ip ua wsid s = (Inr x, s')" by simp
    then have "auth_inv s'"
      using assms by (auto simp: createSession_Inr auth_inv_def intro!: auth_tables_intros)
    with Pair show ?thesis by simp
  qed
qed

lemma auth_inv_destroySession: "auth_inv s \<Longrightarrow> auth_inv (destroySession tok s)"
  by (simp add: auth_inv_def destroySession_def auth_tables_intros)

lemma auth_inv_destroyAllUserSessions: "auth_inv s \<Longrightarrow> auth_inv (destroyAllUserSessions i s)"
  by (simp add: auth_inv_def destroyAllUserSessions_def auth_tables_intros)

lemma auth_inv_createUser: "auth_inv s \<Longrightarrow> auth_inv (snd (createUser w scrypt rand name pw dn rl opts s))"
  by (auto simp: auth_inv_def createUser_def Let_def image_iff tbl_insert_def [abs_def]
      split: option.splits intro!: auth_insert_user [unfolded tbl_insert_def, simplified])

lemma auth_inv_updateUser: "auth_inv s \<Longrightarrow> auth_inv (snd (updateUser w scrypt rand i up s))"
  by (auto simp: auth_inv_def updateUser_def Let_def apply_user_updates_def intro!: auth_update_user)

lemma auth_inv_deleteUser: "auth_inv s \<Longrightarrow> auth_inv (snd (deleteUser i s))"
  unfolding auth_inv_def deleteUser_def Let_def destroyAllUserSessions_def
  by (simp add: auth_delete_user auth_delete_session)

text \<open>Every operation of \<open>auth.ts\<close> that writes, as the steps of one machine.\<close>

inductive auth_step :: "server \<Rightarrow> server \<Rightarrow> bool" where
  create_session: "auth_step s (snd (createSession w rand uid ip ua wsid s))"
| destroy_session: "auth_step s (destroySession token s)"
| destroy_all: "auth_step s (destroyAllUserSessions i s)"
| create_user: "auth_step s (snd (createUser w scrypt rand name pw dn rl opts s))"
| update_user: "auth_step s (snd (updateUser w scrypt rand i up s))"
| delete_user: "auth_step s (snd (deleteUser i s))"

interpretation auth_sys: invariant_system "\<lambda>s. s = init_server" auth_step auth_inv
proof
  show "auth_inv s" if "s = init_server" for s
    using that auth_inv_init by simp
  show "auth_inv t" if "auth_inv s" "auth_step s t" for s t
    using that(2,1)
    by (induction rule: auth_step.induct)
      (simp_all add: auth_inv_createSession auth_inv_destroySession auth_inv_destroyAllUserSessions
        auth_inv_createUser auth_inv_updateUser auth_inv_deleteUser)
qed

text \<open>
  C2. In every state that the user and session operations can reach, user names and session
  tokens are unique and every session belongs to a user that exists.
\<close>

theorem auth_tables_reachable:
  assumes "auth_step\<^sup>*\<^sup>* init_server s"
  shows "distinct (map u_username (rows (users (db s)))) \<and>
    distinct (map s_token (rows (user_sessions (db s)))) \<and>
    (\<forall>r \<in> set (rows (user_sessions (db s))). \<exists>u. tbl_get u_id (users (db s)) (s_user_id r) = Some u)"
  using auth_sys.reachable_inv [OF refl assms]
  by (auto simp: auth_inv_def auth_tables_def tbl_get_None simp flip: not_None_eq)

definition demo_options :: create_options where
  "demo_options = \<lparr>co_provider = None, co_provider_user_id = None, co_email = None, co_avatar_url = None,
     co_is_approved = None, co_approved_by = None, co_approved_at = None, co_workspace_id = None\<rparr>"

definition demo_scrypt :: "string \<Rightarrow> string \<Rightarrow> string" where
  "demo_scrypt p salt = take 32 (p @ replicate 32 CHR ''0'')"

definition demo_user_state :: server where
  "demo_user_state = snd (createUser demo_world demo_scrypt ''salt'' ''ada'' ''analytical engine'' ''Ada''
     ''admin'' demo_options init_server)"

definition demo_state :: server where
  "demo_state = snd (createSession demo_world ''token'' 1 None None None demo_user_state)"

lemma demo_state_reachable: "auth_step\<^sup>*\<^sup>* init_server demo_state"
  unfolding demo_state_def demo_user_state_def
  by (rule rtranclp_trans [OF r_into_rtranclp r_into_rtranclp]) (rule auth_step.intros)+

lemmas demo_defs = demo_state_def demo_user_state_def demo_world_def demo_options_def init_server_def empty_db_def
  tbl_empty_def createUser_def createSession_def tbl_insert_def tbl_update_def tbl_delete_def
  tbl_get_def tbl_first_def getUserById_def user_of_row_def now_s_def new_session_def
  session_workspace_def or_default_workspace_def getDefaultWorkspaceId_def Let_def

theorem auth_tables_reachable_witness:
  "auth_step\<^sup>*\<^sup>* init_server demo_state \<and>
   (\<exists>r u. rows (user_sessions (db demo_state)) = [r] \<and> tbl_get u_id (users (db demo_state)) (s_user_id r) = Some u)"
proof -
  have "\<exists>r. rows (user_sessions (db demo_state)) = [r]"
    by (simp add: demo_defs SESSION_DURATION_def)
  then show ?thesis
    using demo_state_reachable auth_tables_reachable [OF demo_state_reachable] by auto
qed

section \<open>Sessions: what a token is worth\<close>

lemma validateSession_eq:
  assumes "auth_inv s" and "tok \<noteq> []" and "r \<in> set (rows (user_sessions (db s)))" and "s_token r = tok"
  shows "validateSession w tok s =
    (if now_s w < s_expires_at r
     then map_option (\<lambda>u. \<lparr>usr_id = u_id u, usr_username = u_username u, usr_display_name = u_display_name u,
               usr_role = u_role u, usr_workspace_id = or_default_workspace (s_workspace_id r) s,
               usr_provider = Some (or_else (u_provider u) ''local''), usr_email = u_email u,
               usr_avatar_url = u_avatar_url u, usr_is_approved = Some (u_is_approved u),
               usr_created_at = u_created_at u, usr_updated_at = u_updated_at u,
               usr_last_login_at = u_last_login_at u, usr_sessionId = Some (s_id r)\<rparr>)
            (tbl_get u_id (users (db s)) (s_user_id r))
     else None)"
proof -
  from assms(1) have d: "distinct (map s_token (rows (user_sessions (db s))))"
    by (simp add: auth_inv_def auth_tables_def)
  let ?P = "\<lambda>x. now_s w < s_expires_at x \<and> tbl_get u_id (users (db s)) (s_user_id x) \<noteq> None"
  have "find (\<lambda>x. s_token x = s_token r) (rows (user_sessions (db s))) = Some r"
    using find_unique [OF d assms(3)] .
  with find_filter_unique [OF d, of "s_token r" ?P]
  have "find (\<lambda>x. s_token x = s_token r) (filter ?P (rows (user_sessions (db s)))) = (if ?P r then Some r else None)"
    by simp
  then have "tbl_first (\<lambda>x. s_token x = tok \<and> ?P x) (user_sessions (db s)) = (if ?P r then Some r else None)"
    using assms(4) by (simp add: tbl_first_def find_filter_conj)
  then show ?thesis
    using assms(2) by (auto simp: validateSession_def split: option.splits)
qed

lemma validateSession_no_token:
  "tok \<notin> s_token ` set (rows (user_sessions (db s))) \<Longrightarrow> validateSession w tok s = None"
  by (auto simp: validateSession_def tbl_first_def find_None_iff image_iff split: option.splits
      dest!: find_SomeD)

lemma created_session_valid:
  assumes "auth_inv s" and "rand \<noteq> []"
    and "createSession w rand uid ip ua wsid s = (Inr (tok, expires), s')"
  shows "expires = now_s w + 7 * 86400 \<and>
    (\<exists>u. tbl_get u_id (users (db s)) uid = Some u \<and>
      (\<forall>w'. now_s w' < expires \<longrightarrow>
        (\<exists>v. validateSession w' tok s' = Some v \<and> usr_id v = uid \<and> usr_role v = u_role u)) \<and>
      (\<forall>w'. expires \<le> now_s w' \<longrightarrow> validateSession w' tok s' = None))"
proof -
  from assms(3) have tok: "tok = hex_encode rand" and exp: "expires = now_s w + SESSION_DURATION"
    and uid: "uid \<in> u_id ` set (rows (users (db s)))"
    and s': "s' = s\<lparr>db := (db s)\<lparr>
     user_sessions := tbl_delete (\<lambda>r. s_expires_at r < now_s w)
       (snd (tbl_insert (new_session w (hex_encode rand) uid ip ua wsid s) (user_sessions (db s)))),
     users := tbl_update (\<lambda>u. u_id u = uid)
       (\<lambda>u. u\<lparr>u_last_login_at := Some (now_s w), u_updated_at := now_s w\<rparr>) (users (db s))\<rparr>\<rparr>"
    by (auto simp: createSession_Inr)
  have inv': "auth_inv s'" using auth_inv_createSession [OF assms(1)] assms(3) by (metis snd_conv)
  define r where "r = new_session w (hex_encode rand) uid ip ua wsid s (seq (user_sessions (db s)) + 1)"
  have r: "r \<in> set (rows (user_sessions (db s')))"
    by (simp add: s' r_def tbl_rows SESSION_DURATION_def)
  from uid obtain u where u: "tbl_get u_id (users (db s)) uid = Some u"
    using tbl_get_None [of u_id "users (db s)" uid] by auto
  then have id: "u_id u = uid" by (rule user_rows.lookup_id)
  have "tbl_get u_id (users (db s')) uid = Some (u\<lparr>u_last_login_at := Some (now_s w), u_updated_at := now_s w\<rparr>)"
    using u id by (simp add: s' user_rows.update_by_id)
  then have "validateSession w' tok s' = None \<longleftrightarrow> expires \<le> now_s w'"
    and "now_s w' < expires \<Longrightarrow>
      \<exists>v. validateSession w' tok s' = Some v \<and> usr_id v = uid \<and> usr_role v = u_role u" for w'
    using validateSession_eq [OF inv' _ r, of tok w'] assms(2) id by (auto simp: tok exp r_def)
  with u show ?thesis by (auto simp: exp SESSION_DURATION_def)
qed

text \<open>
  A session token is worth its user for seven days and not a second longer: after
  \<open>createSession\<close> succeeds, \<open>validateSession\<close> of the returned token gives the user of the
  session, with the role stored for that user, at exactly the times before the expiry.
\<close>

theorem session_valid_until_expiry:
  assumes "auth_inv s" and "rand \<noteq> []"
    and "createSession w rand uid ip ua wsid s = (Inr (tok, expires), s')"
  shows "expires = now_s w + 7 * 86400 \<and>
    (\<exists>u. tbl_get u_id (users (db s)) uid = Some u \<and>
      (\<forall>w'. now_s w' < expires \<longrightarrow>
        (\<exists>v. validateSession w' tok s' = Some v \<and> usr_id v = uid \<and> usr_role v = u_role u)) \<and>
      (\<forall>w'. expires \<le> now_s w' \<longrightarrow> validateSession w' tok s' = None))"
  by (rule created_session_valid [OF assms])

lemma auth_inv_demo_user_state: "auth_inv demo_user_state"
  by (simp add: demo_user_state_def auth_inv_createUser auth_inv_init)

theorem session_valid_until_expiry_witness:
  "(\<exists>tok s'. createSession demo_world ''token'' 1 None None None demo_user_state = (Inr (tok, 1700604800), s') \<and>
     (\<forall>w'. now_s w' < 1700604800 \<longrightarrow>
        (\<exists>v. validateSession w' tok s' = Some v \<and> usr_id v = 1 \<and> usr_role v = ''admin'')) \<and>
     (\<forall>w'. 1700604800 \<le> now_s w' \<longrightarrow> validateSession w' tok s' = None))"
proof -
  obtain tok s' where *: "createSession demo_world ''token'' 1 None None None demo_user_state
      = (Inr (tok, 1700604800), s')"
    by (simp add: demo_defs SESSION_DURATION_def)
  have u: "tbl_get u_id (users (db demo_user_state)) 1 = Some u \<Longrightarrow> u_role u = ''admin''" for u
    by (auto simp: demo_defs)
  show ?thesis
    using session_valid_until_expiry [OF auth_inv_demo_user_state _ *] * u by fastforce
qed

lemma validateSession_SomeD:
  assumes "validateSession w tok s = Some v"
  shows "tok \<noteq> []"
    and "\<exists>r \<in> set (rows (user_sessions (db s))). s_token r = tok \<and> now_s w < s_expires_at r \<and>
      (\<exists>u \<in> set (rows (users (db s))). u_id u = s_user_id r \<and> usr_id v = u_id u \<and>
        usr_username v = u_username u \<and> usr_role v = u_role u)"
proof -
  show "tok \<noteq> []" using assms by (auto simp: validateSession_def)
  from assms obtain r u where "tbl_first (\<lambda>r. s_token r = tok \<and> now_s w < s_expires_at r \<and>
        tbl_get u_id (users (db s)) (s_user_id r) \<noteq> None) (user_sessions (db s)) = Some r"
    and u: "tbl_get u_id (users (db s)) (s_user_id r) = Some u"
    and v: "usr_id v = u_id u" "usr_username v = u_username u" "usr_role v = u_role u"
    by (auto simp: validateSession_def split: if_splits option.splits)
  then have "r \<in> set (rows (user_sessions (db s)))" "s_token r = tok" "now_s w < s_expires_at r"
    by (auto dest: tbl_first_in_rows)
  with tbl_get_in_rows [OF u] v
  show "\<exists>r \<in> set (rows (user_sessions (db s))). s_token r = tok \<and> now_s w < s_expires_at r \<and>
      (\<exists>u \<in> set (rows (users (db s))). u_id u = s_user_id r \<and> usr_id v = u_id u \<and>
        usr_username v = u_username u \<and> usr_role v = u_role u)"
    by (intro bexI [of _ r] conjI bexI [of _ u]) auto
qed

lemma validateSession_destroy_other:
  "tok' \<noteq> tok \<Longrightarrow> validateSession w tok' (destroySession tok s) = validateSession w tok' s"
proof -
  assume "tok' \<noteq> tok"
  then have "tbl_first (\<lambda>r. s_token r = tok' \<and> now_s w < s_expires_at r \<and>
        tbl_get u_id (users (db s)) (s_user_id r) \<noteq> None)
        (tbl_delete (\<lambda>r. s_token r = tok) (user_sessions (db s))) =
      tbl_first (\<lambda>r. s_token r = tok' \<and> now_s w < s_expires_at r \<and>
        tbl_get u_id (users (db s)) (s_user_id r) \<noteq> None) (user_sessions (db s))"
    by (auto intro!: tbl_first_delete)
  moreover have "or_default_workspace n (destroySession tok s) = or_default_workspace n s" for n
    by (simp add: or_default_workspace_def getDefaultWorkspaceId_def destroySession_def)
  moreover have "users (db (destroySession tok s)) = users (db s)"
    and "user_sessions (db (destroySession tok s)) = tbl_delete (\<lambda>r. s_token r = tok) (user_sessions (db s))"
    by (simp_all add: destroySession_def)
  ultimately show ?thesis
    by (simp only: validateSession_def)
qed

text \<open>
  Revocation is complete and precise: after \<open>destroySession\<close> the token is worthless and
  every other token is worth what it was; after \<open>deleteUser\<close> no token at all yields that user.
\<close>

theorem sessions_revoked:
  "validateSession w tok (destroySession tok s) = None \<and>
   (tok' \<noteq> tok \<longrightarrow> validateSession w tok' (destroySession tok s) = validateSession w tok' s) \<and>
   (\<forall>v. validateSession w tok' (snd (deleteUser i s)) = Some v \<longrightarrow> usr_id v \<noteq> i)"
proof (intro conjI impI allI)
  show "validateSession w tok (destroySession tok s) = None"
    by (rule validateSession_no_token) (auto simp: destroySession_def rows_tbl_delete)
  show "tok' \<noteq> tok \<Longrightarrow> validateSession w tok' (destroySession tok s) = validateSession w tok' s"
    by (rule validateSession_destroy_other)
  fix v
  assume "validateSession w tok' (snd (deleteUser i s)) = Some v"
  from validateSession_SomeD(2) [OF this] show "usr_id v \<noteq> i"
    by (auto simp: deleteUser_def Let_def rows_tbl_delete)
qed

theorem sessions_revoked_witness:
  "(let tok = hex_encode ''token'' in
    (\<exists>v. validateSession demo_world tok demo_state = Some v) \<and>
    validateSession demo_world tok (destroySession tok demo_state) = None \<and>
    (\<forall>v. validateSession demo_world tok (snd (deleteUser 1 demo_state)) = Some v \<longrightarrow> usr_id v \<noteq> 1))"
proof -
  have "\<exists>v. validateSession demo_world (hex_encode ''token'') demo_state = Some v"
    by (simp add: validateSession_def demo_defs SESSION_DURATION_def)
  then show ?thesis
    using sessions_revoked [of demo_world "hex_encode ''token''" demo_state "hex_encode ''token''" 1]
    by (simp add: Let_def)
qed

section \<open>Who may call: the role check\<close>

lemma role_level_simps [simp]:
  "role_level ''viewer'' = 0" "role_level ''operator'' = 1" "role_level ''admin'' = 2"
  by (simp_all add: role_level_def ROLE_LEVELS_def)

lemma role_level_bounds: "-1 \<le> role_level r" "role_level r \<le> 2"
  by (simp_all add: role_level_def ROLE_LEVELS_def)

lemma user_from_api_key_SomeD:
  "user_from_api_key w req s = Some u \<Longrightarrow>
   u = api_user s \<and> (\<exists>key. key \<noteq> [] \<and> getenv w ''API_KEY'' = Some key \<and> req_headers req ''x-api-key'' = Some key)"
  by (auto simp: user_from_api_key_def or_else_def split: option.splits if_splits)

lemma getUserFromRequest_cases:
  assumes "getUserFromRequest w req s = Inr (Some u)"
  obtains (session) tok where "parseCookie (or_else (req_headers req ''cookie'') []) ''mc-session'' = Inr (Some tok)"
      "validateSession w tok s = Some u"
    | (api_key) "user_from_api_key w req s = Some u"
  using assms by (auto simp: getUserFromRequest_def split: sum.splits option.splits if_splits)

text \<open>
  C1. Nobody is let in without credentials: when \<open>requireRole\<close> returns a user, that user's role
  is at least the required one, and either the session cookie names an unexpired session of that
  very user, or the user is the synthetic API user and the request carries the configured,
  non-empty \<open>API_KEY\<close>. In particular an unset \<open>API_KEY\<close> opens nothing.
\<close>

theorem requireRole_sound:
  assumes "requireRole w req minRole s = Inr (Auth_user u)"
  shows "role_level minRole \<le> role_level (usr_role u) \<and>
    ((\<exists>tok r ur. parseCookie (or_else (req_headers req ''cookie'') []) ''mc-session'' = Inr (Some tok) \<and>
        r \<in> set (rows (user_sessions (db s))) \<and> s_token r = tok \<and> now_s w < s_expires_at r \<and>
        ur \<in> set (rows (users (db s))) \<and> u_id ur = s_user_id r \<and> usr_id u = u_id ur \<and> usr_role u = u_role ur) \<or>
     (u = api_user s \<and> (\<exists>key. key \<noteq> [] \<and> getenv w ''API_KEY'' = Some key \<and>
        req_headers req ''x-api-key'' = Some key)))"
proof -
  from assms have lvl: "role_level minRole \<le> role_level (usr_role u)"
    and req: "getUserFromRequest w req s = Inr (Some u)"
    by (auto simp: requireRole_def split: sum.splits option.splits if_splits)
  from req show ?thesis
  proof (cases rule: getUserFromRequest_cases)
    case (session tok)
    from validateSession_SomeD(2) [OF session(2)] session(1) lvl show ?thesis by blast
  next
    case api_key
    with user_from_api_key_SomeD [OF this] lvl show ?thesis by blast
  qed
qed

theorem requireRole_sound_witness:
  "requireRole demo_world demo_request ''admin'' init_server = Inr (Auth_user (api_user init_server)) \<and>
   (\<exists>key. key \<noteq> [] \<and> getenv demo_world ''API_KEY'' = Some key \<and> req_headers demo_request ''x-api-key'' = Some key)"
proof -
  have *: "requireRole demo_world demo_request ''admin'' init_server = Inr (Auth_user (api_user init_server))"
    by (simp add: requireRole_def getUserFromRequest_def parseCookie_def match_cookie_def starts_with_def
        user_from_api_key_def demo_world_def demo_request_def api_user_def Let_def)
  with requireRole_sound [OF *] show ?thesis
    by (auto simp: init_server_def empty_db_def tbl_empty_def)
qed

text \<open>
  The roles form a hierarchy: a request that \<open>requireRole\<close> admits for one role is admitted,
  as the same user, for every role of the same or a lower level; otherwise the error is 401 when
  there is no user and 403 when the role is too low.
\<close>

theorem requireRole_hierarchy:
  assumes "getUserFromRequest w req s = Inr who"
  shows "requireRole w req minRole s =
    (case who of
       None \<Rightarrow> Inr (Auth_error 401 ''Authentication required'')
     | Some u \<Rightarrow> if role_level minRole \<le> role_level (usr_role u) then Inr (Auth_user u)
         else Inr (Auth_error 403 (''Requires '' @ minRole @ '' role or higher''))) \<and>
    (\<forall>u lower. requireRole w req minRole s = Inr (Auth_user u) \<and> role_level lower \<le> role_level minRole \<longrightarrow>
       requireRole w req lower s = Inr (Auth_user u))"
  using assms by (auto simp: requireRole_def split: option.splits)

theorem requireRole_hierarchy_witness:
  "getUserFromRequest demo_world demo_request init_server = Inr (Some (api_user init_server)) \<and>
   requireRole demo_world demo_request ''viewer'' init_server = Inr (Auth_user (api_user init_server))"
proof -
  have *: "getUserFromRequest demo_world demo_request init_server = Inr (Some (api_user init_server))"
    by (simp add: getUserFromRequest_def parseCookie_def match_cookie_def starts_with_def
        user_from_api_key_def demo_world_def demo_request_def api_user_def Let_def)
  with requireRole_hierarchy [OF *, of "''viewer''"] show ?thesis
    by (simp add: api_user_def)
qed

section \<open>Guarded handlers\<close>

type_synonym outcome = "(string + response) \<times> server"

text \<open>The opening lines of a route: \<open>const auth = requireRole(request, role); if ('error' in auth) ..\<close>\<close>

definition with_role :: "world \<Rightarrow> request \<Rightarrow> string \<Rightarrow> server \<Rightarrow> (user \<Rightarrow> outcome) \<Rightarrow> outcome" where
  "with_role w req minRole s k =
     (case requireRole w req minRole s of
        Inl e \<Rightarrow> (Inl e, s)
      | Inr (Auth_error st msg) \<Rightarrow> (Inr (error_response st msg), s)
      | Inr (Auth_user u) \<Rightarrow> k u)"

text \<open>
  The contract of every route that starts with that check: without a sufficient role it answers
  with the error and changes nothing.
\<close>

locale role_guarded =
  fixes handler :: "world \<Rightarrow> request \<Rightarrow> server \<Rightarrow> outcome"
    and min_role :: string
  assumes guard_throws: "requireRole w req min_role s = Inl e \<Longrightarrow> handler w req s = (Inl e, s)"
    and guard_refuses: "requireRole w req min_role s = Inr (Auth_error st msg) \<Longrightarrow>
      handler w req s = (Inr (error_response st msg), s)"
begin

lemma unauthenticated_refused:
  "getUserFromRequest w req s = Inr None \<Longrightarrow>
   handler w req s = (Inr (error_response 401 ''Authentication required''), s)"
  by (simp add: guard_refuses requireRole_def)

lemma low_role_refused:
  "getUserFromRequest w req s = Inr (Some u) \<Longrightarrow> role_level (usr_role u) < role_level min_role \<Longrightarrow>
   handler w req s = (Inr (error_response 403 (''Requires '' @ min_role @ '' role or higher'')), s)"
  by (simp add: guard_refuses requireRole_def)

lemma change_needs_role:
  "snd (handler w req s) \<noteq> s \<Longrightarrow> \<exists>u. requireRole w req min_role s = Inr (Auth_user u)"
  by (metis guard_throws guard_refuses auth_result.exhaust snd_conv sum.exhaust)

end

lemma role_guarded_with_role: "role_guarded (\<lambda>w req s. with_role w req r s (k w req s)) r"
  by unfold_locales (simp_all add: with_role_def)

end
