(* ===== verification/MC_RateLimit.thy ===== *)
theory MC_RateLimit
  imports MC_Auth
begin

text \<open>
  The rate limiters, \<open>src/lib/rate-limit.ts\<close>: finding the client address, the counter per
  address with its window, and the periodic clean-up of the counters. A limiter's \<open>Map\<close> is a
  partial function from addresses to entries. The theorems say how many requests of a client a
  window admits, whatever other clients do, and that the clean-up never changes an answer.
\<close>

section \<open>The limiter\<close>

definition TRUSTED_PROXIES :: "world \<Rightarrow> string list" where
  "TRUSTED_PROXIES w =
     filter (\<lambda>p. p \<noteq> []) (map trim (split_on CHR '','' (or_else (getenv w ''MC_TRUSTED_PROXIES'') [])))"

text \<open>
  \<open>extractClientIp\<close>: the address chain is walked from the right, and the first address that is
  not a trusted proxy is the client.
\<close>

definition extractClientIp :: "world \<Rightarrow> request \<Rightarrow> string" where
  "extractClientIp w req =
     (let fallback = or_else (map_option trim (req_headers req ''x-real-ip'')) ''unknown'' in
      case req_headers req ''x-forwarded-for'' of
        None \<Rightarrow> fallback
      | Some xff \<Rightarrow>
          if xff \<noteq> [] \<and> TRUSTED_PROXIES w \<noteq> [] then
            (case find (\<lambda>ip. ip \<notin> set (TRUSTED_PROXIES w)) (rev (map trim (split_on CHR '','' xff))) of
               Some ip \<Rightarrow> ip
             | None \<Rightarrow> fallback)
          else fallback)"

record limiter_options =
  windowMs :: int
  maxRequests :: int
  message :: "string option"
  critical :: bool

type_synonym limiter_store = "string \<Rightarrow> rate_entry option"

text \<open>One tick of the \<open>setInterval\<close> clean-up.\<close>

definition cleanup_store :: "world \<Rightarrow> limiter_store \<Rightarrow> limiter_store" where
  "cleanup_store w st = (\<lambda>ip. case st ip of
     None \<Rightarrow> None
   | Some e \<Rightarrow> if rl_reset_at e < now_ms w then None else Some e)"

definition limiter_off :: "world \<Rightarrow> limiter_options \<Rightarrow> bool" where
  "limiter_off w opts \<longleftrightarrow> getenv w ''MC_DISABLE_RATE_LIMIT'' = Some ''1'' \<and> \<not> critical opts"

definition checkRateLimit ::
  "limiter_options \<Rightarrow> world \<Rightarrow> request \<Rightarrow> limiter_store \<Rightarrow> response option \<times> limiter_store"
where
  "checkRateLimit opts w req st =
     (if limiter_off w opts then (None, st)
      else
        (let ip = extractClientIp w req; now = now_ms w;
             fresh = (None, st(ip \<mapsto> \<lparr>rl_count = 1, rl_reset_at = now + windowMs opts\<rparr>))
         in case st ip of
              None \<Rightarrow> fresh
            | Some e \<Rightarrow>
                if rl_reset_at e < now then fresh
                else
                  (let e' = e\<lparr>rl_count := rl_count e + 1\<rparr>; st' = st(ip \<mapsto> e')
                   in if maxRequests opts < rl_count e'
                      then (Some (error_response 429
                              (or_else (message opts) ''Too many requests. Please try again later.'')), st')
                      else (None, st'))))"

definition loginLimiter_options :: limiter_options where
  "loginLimiter_options = \<lparr>windowMs = 60000, maxRequests = 5,
     message = Some ''Too many login attempts. Try again in a minute.'', critical = True\<rparr>"

definition mutationLimiter_options :: limiter_options where
  "mutationLimiter_options = \<lparr>windowMs = 60000, maxRequests = 60, message = None, critical = False\<rparr>"

definition readLimiter_options :: limiter_options where
  "readLimiter_options = \<lparr>windowMs = 60000, maxRequests = 120, message = None, critical = False\<rparr>"

definition heavyLimiter_options :: limiter_options where
  "heavyLimiter_options = \<lparr>windowMs = 60000, maxRequests = 10,
     message = Some ''Too many requests for this resource. Please try again later.'', critical = False\<rparr>"

text \<open>The limiters in front of the routes: \<open>const rateCheck = mutationLimiter(request); if (rateCheck) return rateCheck\<close>\<close>

definition with_mutation_limit :: "world \<Rightarrow> request \<Rightarrow> server \<Rightarrow> (server \<Rightarrow> outcome) \<Rightarrow> outcome" where
  "with_mutation_limit w req s k =
     (case checkRateLimit mutationLimiter_options w req (mutation_store s) of
        (Some r, st) \<Rightarrow> (Inr r, s\<lparr>mutation_store := st\<rparr>)
      | (None, st) \<Rightarrow> k (s\<lparr>mutation_store := st\<rparr>))"

definition with_login_limit :: "world \<Rightarrow> request \<Rightarrow> server \<Rightarrow> (server \<Rightarrow> outcome) \<Rightarrow> outcome" where
  "with_login_limit w req s k =
     (case checkRateLimit loginLimiter_options w req (login_store s) of
        (Some r, st) \<Rightarrow> (Inr r, s\<lparr>login_store := st\<rparr>)
      | (None, st) \<Rightarrow> k (s\<lparr>login_store := st\<rparr>))"

section \<open>The client address\<close>

text \<open>
  A client cannot choose its own rate-limit key by prepending addresses: when trusted proxies
  are configured and the chain holds an untrusted address, the key is the rightmost untrusted
  address, so every address to its right is a trusted proxy, and nothing that is put in front of
  the chain changes it.
\<close>

theorem extractClientIp_rightmost_untrusted:
  assumes "req_headers req ''x-forwarded-for'' = Some xff" and "xff \<noteq> []" and "TRUSTED_PROXIES w \<noteq> []"
    and "map trim (split_on CHR '','' xff) = pre @ ip # post"
    and "ip \<notin> set (TRUSTED_PROXIES w)" and "set post \<subseteq> set (TRUSTED_PROXIES w)"
  shows "extractClientIp w req = ip"
proof -
  have "find (\<lambda>x. x \<notin> set (TRUSTED_PROXIES w)) (rev post @ ip # rev pre) = Some ip"
    using assms(5,6) by (auto simp: find_append find_None_iff split: option.splits dest!: find_SomeD)
  with assms show ?thesis
    by (simp add: extractClientIp_def Let_def)
qed

theorem extractClientIp_rightmost_untrusted_witness:
  "extractClientIp (demo_world\<lparr>getenv := [''MC_TRUSTED_PROXIES'' \<mapsto> ''10.0.0.1'']\<rparr>)
     (demo_request\<lparr>req_headers := [''x-forwarded-for'' \<mapsto> ''6.6.6.6, 9.9.9.9, 10.0.0.1'']\<rparr>) = ''9.9.9.9''"
proof (rule extractClientIp_rightmost_untrusted)
  show "map trim (split_on CHR '','' ''6.6.6.6, 9.9.9.9, 10.0.0.1'') = [''6.6.6.6''] @ ''9.9.9.9'' # [''10.0.0.1'']"
    by (simp add: trim_def is_ws_def)
qed (simp_all add: TRUSTED_PROXIES_def trim_def is_ws_def)

section \<open>What a window admits\<close>

definition expired_at :: "int \<Rightarrow> rate_entry option \<Rightarrow> bool" where
  "expired_at t e \<longleftrightarrow> (case e of None \<Rightarrow> True | Some e \<Rightarrow> rl_reset_at e < t)"

lemma checkRateLimit_other:
  "ip \<noteq> extractClientIp w req \<Longrightarrow> snd (checkRateLimit opts w req st) ip = st ip"
  by (auto simp: checkRateLimit_def Let_def split: option.splits)

lemma checkRateLimit_fresh:
  "\<not> limiter_off w opts \<Longrightarrow> expired_at (now_ms w) (st (extractClientIp w req)) \<Longrightarrow>
   checkRateLimit opts w req st =
     (None, st(extractClientIp w req \<mapsto> \<lparr>rl_count = 1, rl_reset_at = now_ms w + windowMs opts\<rparr>))"
  by (auto simp: checkRateLimit_def expired_at_def Let_def split: option.splits)

lemma checkRateLimit_counting:
  assumes "\<not> limiter_off w opts" and "st (extractClientIp w req) = Some e" and "now_ms w \<le> rl_reset_at e"
  shows "fst (checkRateLimit opts w req st) = None \<longleftrightarrow> rl_count e + 1 \<le> maxRequests opts"
    and "snd (checkRateLimit opts w req st) = st(extractClientIp w req \<mapsto> e\<lparr>rl_count := rl_count e + 1\<rparr>)"
  using assms by (auto simp: checkRateLimit_def Let_def)

text \<open>A run of requests of any clients: the requests of \<open>ip\<close> that it admits, counted.\<close>

fun admitted :: "limiter_options \<Rightarrow> string \<Rightarrow> (world \<times> request) list \<Rightarrow> limiter_store \<Rightarrow> nat" where
  "admitted opts ip [] st = 0"
| "admitted opts ip ((w, req) # rs) st =
     (let (r, st') = checkRateLimit opts w req st
      in (if extractClientIp w req = ip \<and> r = None then 1 else 0) + admitted opts ip rs st')"

definition requests_of :: "string \<Rightarrow> (world \<times> request) list \<Rightarrow> nat" where
  "requests_of ip rs = length (filter (\<lambda>(w, req). extractClientIp w req = ip) rs)"

lemma requests_of_simps [simp]:
  "requests_of ip [] = 0"
  "requests_of ip ((w, req) # rs) = (if extractClientIp w req = ip then 1 else 0) + requests_of ip rs"
  by (simp_all add: requests_of_def)

lemma admitted_counting:
  assumes "\<forall>(w, req) \<in> set rs. \<not> limiter_off w opts \<and> now_ms w \<le> R"
    and "st ip = Some e" and "rl_reset_at e \<ge> R"
  shows "admitted opts ip rs st = min (requests_of ip rs) (nat (maxRequests opts - rl_count e))"
  using assms
proof (induction rs arbitrary: st e)
  case Nil
  then show ?case by simp
next
  case (Cons r rs)
  obtain w req where r: "r = (w, req)" by (cases r)
  obtain res st' where c: "checkRateLimit opts w req st = (res, st')" by (cases "checkRateLimit opts w req st")
  show ?case
  proof (cases "extractClientIp w req = ip")
    case False
    then have "st' ip = Some e"
      using checkRateLimit_other [of ip w req opts st] c Cons.prems(2) by simp
    with Cons.IH [of st' e] Cons.prems False show ?thesis by (simp add: r c)
  next
    case True
    have "now_ms w \<le> rl_reset_at e" "\<not> limiter_off w opts" using Cons.prems by (auto simp: r)
    note step = checkRateLimit_counting [OF this(2) _ this(1), of st req]
    have "st' ip = Some (e\<lparr>rl_count := rl_count e + 1\<rparr>)" and "res = None \<longleftrightarrow> rl_count e + 1 \<le> maxRequests opts"
      using step Cons.prems(2) True c by auto
    with Cons.IH [of st' "e\<lparr>rl_count := rl_count e + 1\<rparr>"] Cons.prems True show ?thesis
      by (auto simp: r c)
  qed
qed

text \<open>
  C3. One window of a limiter admits exactly the first \<open>maxRequests\<close> requests of a client (always at
  least the first one): over any run of requests of any clients whose times lie within one window
  length, starting when the client has no live counter, the number of admitted requests of the
  client is the smaller of the number it sent and the limit.
\<close>

theorem window_admits:
  assumes "\<forall>(w, req) \<in> set rs. \<not> limiter_off w opts \<and> t \<le> now_ms w \<and> now_ms w \<le> t + windowMs opts"
    and "expired_at t (st ip)"
  shows "admitted opts ip rs st = min (requests_of ip rs) (nat (max 1 (maxRequests opts)))"
  using assms
proof (induction rs arbitrary: st)
  case Nil
  then show ?case by simp
next
  case (Cons r rs)
  obtain w req where r: "r = (w, req)" by (cases r)
  obtain res st' where c: "checkRateLimit opts w req st = (res, st')" by (cases "checkRateLimit opts w req st")
  show ?case
  proof (cases "extractClientIp w req = ip")
    case False
    then have "st' ip = st ip" using checkRateLimit_other [of ip w req opts st] c by simp
    with Cons.IH [of st'] Cons.prems False show ?thesis by (simp add: r c)
  next
    case True
    have w: "\<not> limiter_off w opts" "t \<le> now_ms w" using Cons.prems by (auto simp: r)
    then have "expired_at (now_ms w) (st ip)"
      using Cons.prems(2) by (auto simp: expired_at_def split: option.splits)
    with w True have "res = None"
      and "st' ip = Some \<lparr>rl_count = 1, rl_reset_at = now_ms w + windowMs opts\<rparr>"
      using checkRateLimit_fresh [of w opts st req] c by auto
    moreover have "\<forall>(w, req) \<in> set rs. \<not> limiter_off w opts \<and> now_ms w \<le> t + windowMs opts"
      using Cons.prems by auto
    ultimately show ?thesis
      using admitted_counting [of rs opts "t + windowMs opts" st' ip] w True by (auto simp: r c)
  qed
qed

theorem window_admits_witness:
  "admitted loginLimiter_options ''unknown'' (replicate 7 (demo_world, demo_request)) Map.empty = 5"
proof -
  have "extractClientIp demo_world demo_request = ''unknown''"
    by (simp add: extractClientIp_def demo_request_def)
  then have "requests_of ''unknown'' (replicate 7 (demo_world, demo_request)) = 7"
    by (simp add: requests_of_def)
  moreover have "\<forall>(w, req) \<in> set (replicate 7 (demo_world, demo_request)).
      \<not> limiter_off w loginLimiter_options \<and> 1700000000000 \<le> now_ms w \<and>
      now_ms w \<le> 1700000000000 + windowMs loginLimiter_options"
    by (simp add: demo_world_def limiter_off_def loginLimiter_options_def)
  ultimately show ?thesis
    using window_admits [of "replicate 7 (demo_world, demo_request)" loginLimiter_options 1700000000000
        Map.empty "''unknown''"]
    by (simp add: expired_at_def loginLimiter_options_def)
qed

section \<open>The clean-up is transparent\<close>

datatype limiter_event = Check world request | Cleanup world

fun event_time :: "limiter_event \<Rightarrow> int" where
  "event_time (Check w _) = now_ms w"
| "event_time (Cleanup w) = now_ms w"

fun is_check :: "limiter_event \<Rightarrow> bool" where
  "is_check (Check _ _) = True"
| "is_check (Cleanup _) = False"

fun limiter_run :: "limiter_options \<Rightarrow> limiter_event list \<Rightarrow> limiter_store \<Rightarrow> response option list" where
  "limiter_run opts [] st = []"
| "limiter_run opts (Check w req # es) st =
     (let (r, st') = checkRateLimit opts w req st in r # limiter_run opts es st')"
| "limiter_run opts (Cleanup w # es) st = limiter_run opts es (cleanup_store w st)"

text \<open>Two stores that no later request can tell apart.\<close>

definition same_from :: "int \<Rightarrow> limiter_store \<Rightarrow> limiter_store \<Rightarrow> bool" where
  "same_from t st st' \<longleftrightarrow> (\<forall>ip. st ip = st' ip \<or> expired_at t (st ip) \<and> expired_at t (st' ip))"

lemma expired_at_mono: "expired_at t e \<Longrightarrow> t \<le> t' \<Longrightarrow> expired_at t' e"
  by (auto simp: expired_at_def split: option.splits)

lemma same_from_mono: "same_from t st st' \<Longrightarrow> t \<le> t' \<Longrightarrow> same_from t' st st'"
  unfolding same_from_def using expired_at_mono by blast

lemma same_from_cleanup: "same_from (now_ms w) st st' \<Longrightarrow> same_from (now_ms w) (cleanup_store w st) st'"
proof -
  assume same: "same_from (now_ms w) st st'"
  have "cleanup_store w st ip = st ip \<or> cleanup_store w st ip = None \<and> expired_at (now_ms w) (st ip)" for ip
    by (cases "st ip") (auto simp: cleanup_store_def expired_at_def)
  moreover have "expired_at (now_ms w) None" by (simp add: expired_at_def)
  ultimately show ?thesis using same unfolding same_from_def by metis
qed

lemma same_from_check:
  assumes "same_from (now_ms w) st st'"
  shows "fst (checkRateLimit opts w req st) = fst (checkRateLimit opts w req st')"
    and "same_from (now_ms w) (snd (checkRateLimit opts w req st)) (snd (checkRateLimit opts w req st'))"
proof -
  let ?ip = "extractClientIp w req"
  consider (eq) "st ?ip = st' ?ip"
    | (old) "expired_at (now_ms w) (st ?ip)" "expired_at (now_ms w) (st' ?ip)"
    using assms by (auto simp: same_from_def)
  then have "fst (checkRateLimit opts w req st) = fst (checkRateLimit opts w req st') \<and>
    same_from (now_ms w) (snd (checkRateLimit opts w req st)) (snd (checkRateLimit opts w req st'))"
  proof cases
    case eq
    with assms show ?thesis
      by (auto simp: checkRateLimit_def Let_def same_from_def split: option.splits)
  next
    case old
    show ?thesis
    proof (cases "limiter_off w opts")
      case True
      with assms show ?thesis by (simp add: checkRateLimit_def)
    next
      case False
      with old assms show ?thesis by (simp add: checkRateLimit_fresh same_from_def)
    qed
  qed
  then show "fst (checkRateLimit opts w req st) = fst (checkRateLimit opts w req st')"
    and "same_from (now_ms w) (snd (checkRateLimit opts w req st)) (snd (checkRateLimit opts w req st'))"
    by auto
qed

lemma limiter_run_same:
  assumes "sorted (map event_time es)" and "\<forall>e \<in> set es. t \<le> event_time e" and "same_from t st st'"
  shows "limiter_run opts es st = limiter_run opts (filter is_check es) st'"
  using assms
proof (induction es arbitrary: t st st')
  case Nil
  then show ?case by simp
next
  case (Cons e es)
  from Cons.prems have later: "\<forall>x \<in> set es. event_time e \<le> event_time x" and srt: "sorted (map event_time es)"
    by auto
  have same: "same_from (event_time e) st st'"
    using Cons.prems(2,3) by (auto intro: same_from_mono)
  show ?case
  proof (cases e)
    case (Check w req)
    with same_from_check [of w st st' opts req] same
      Cons.IH [OF srt later, of "snd (checkRateLimit opts w req st)" "snd (checkRateLimit opts w req st')"]
    show ?thesis by (simp add: case_prod_beta)
  next
    case (Cleanup w)
    with same_from_cleanup [of w st st'] same Cons.IH [OF srt later] show ?thesis by simp
  qed
qed

text \<open>
  The periodic clean-up is transparent: on any run of requests and clean-ups in time order, the
  limiter answers every request as it would if no clean-up ever ran.
\<close>

theorem cleanup_transparent:
  assumes "sorted (map event_time es)"
  shows "limiter_run opts es st = limiter_run opts (filter is_check es) st"
proof (cases es)
  case Nil
  then show ?thesis by simp
next
  case (Cons e es')
  then have "\<forall>x \<in> set es. event_time e \<le> event_time x" using assms by auto
  with assms show ?thesis
    by (rule limiter_run_same) (simp add: same_from_def)
qed

theorem cleanup_transparent_witness:
  "(let es = [Check demo_world demo_request, Cleanup (demo_world\<lparr>now_ms := 1700000070000\<rparr>),
              Check (demo_world\<lparr>now_ms := 1700000080000\<rparr>) demo_request]
    in limiter_run loginLimiter_options es Map.empty =
       limiter_run loginLimiter_options (filter is_check es) Map.empty)"
  unfolding Let_def by (rule cleanup_transparent) (simp add: demo_world_def)

end
