(* ===== verification/MC_Http.thy ===== *)
theory MC_Http
  imports MC_RateLimit
begin

text \<open>
  What the routes share: \<open>validateBody\<close> of \<open>src/lib/validation.ts\<close>, the opening sequence of
  the mutating routes (role check, rate limit, body validation), and the contract of a route that
  works inside the caller's workspace. A schema of the \<open>zod\<close> package is an argument: a function
  from the body to the issues it reports or to the parsed input.
\<close>

section \<open>Body validation\<close>

type_synonym 'a schema = "json \<Rightarrow> string list + 'a"

definition validateBody :: "'a schema \<Rightarrow> request \<Rightarrow> response + 'a" where
  "validateBody parse req =
     (case req_body req of
        None \<Rightarrow> Inl (error_response 400 ''Invalid request body'')
      | Some body \<Rightarrow>
          (case parse body of
             Inl issues \<Rightarrow> Inl (json_response 400 (JObj [(''error'', JStr ''Validation failed''),
                                                       (''details'', JArr (map JStr issues))]))
           | Inr data \<Rightarrow> Inr data))"

text \<open>A query parameter, when it is given and not empty.\<close>

definition nonempty_param :: "request \<Rightarrow> string \<Rightarrow> string option" where
  "nonempty_param req k = or_null (req_query req k)"

text \<open>The value of a field of an update: the new one when it is given.\<close>

definition set_or_keep :: "'a option \<Rightarrow> 'a \<Rightarrow> 'a" where
  "set_or_keep v old = (case v of None \<Rightarrow> old | Some x \<Rightarrow> x)"

definition set_or_keep_opt :: "'a option \<Rightarrow> 'a option \<Rightarrow> 'a option" where
  "set_or_keep_opt v old = (case v of None \<Rightarrow> old | Some x \<Rightarrow> Some x)"

text \<open>A property of the body, when it is of the expected type.\<close>

definition num_field :: "string \<Rightarrow> json \<Rightarrow> int option" where
  "num_field k b = (case jget k b of Some (JNum n) \<Rightarrow> Some n | _ \<Rightarrow> None)"

definition str_field :: "string \<Rightarrow> json \<Rightarrow> string option" where
  "str_field k b = (case jget k b of Some (JStr x) \<Rightarrow> Some x | _ \<Rightarrow> None)"

definition truthy_prop :: "string \<Rightarrow> json \<Rightarrow> json option" where
  "truthy_prop k v = (case jget k v of None \<Rightarrow> None | Some x \<Rightarrow> if truthy x then Some x else None)"

text \<open>
  JSON values bound to a statement: a boolean, an array or an object throws. A text bound for a number
  column is converted when it spells an integer; as an id it otherwise matches nothing.
\<close>

definition bind_text :: "json \<Rightarrow> string + string option" where
  "bind_text v = (case v of JStr x \<Rightarrow> Inr (Some x) | JNum n \<Rightarrow> Inr (Some (show_int n)) | JNull \<Rightarrow> Inr None
     | _ \<Rightarrow> Inl ''SQLite3 can only bind numbers, strings, bigints, buffers, and null'')"

definition text_int :: "string \<Rightarrow> int option" where
  "text_int x = (if trim x = [] then None else js_number x)"

definition bind_int :: "json \<Rightarrow> string + int option" where
  "bind_int v = (case v of
     JNum n \<Rightarrow> Inr (Some n)
   | JNull \<Rightarrow> Inr None
   | JStr x \<Rightarrow> (case text_int x of Some n \<Rightarrow> Inr (Some n) | None \<Rightarrow> Inl ''datatype mismatch'')
   | _ \<Rightarrow> Inl ''SQLite3 can only bind numbers, strings, bigints, buffers, and null'')"

definition bind_id :: "json \<Rightarrow> string + int option" where
  "bind_id v = (case v of JStr x \<Rightarrow> Inr (text_int x) | _ \<Rightarrow> bind_int v)"

fun bind_ids :: "json list \<Rightarrow> string + int option list" where
  "bind_ids [] = Inr []"
| "bind_ids (v # vs) = (case (bind_id v, bind_ids vs) of
     (Inr i, Inr is) \<Rightarrow> Inr (i # is) | (Inl e, _) \<Rightarrow> Inl e | (_, Inl e) \<Rightarrow> Inl e)"

text \<open>
  A property of the body that is bound to a column: not given, or the value (\<open>None\<close> for \<open>null\<close>). A
  number for a text column, and a text that spells no integer for a number column, are outside the model.
\<close>

definition given_text :: "string \<Rightarrow> json \<Rightarrow> string + string option option" where
  "given_text k body = (case jget k body of None \<Rightarrow> Inr None | Some v \<Rightarrow> map_sum id Some (bind_text v))"

definition given_int :: "string \<Rightarrow> json \<Rightarrow> string + int option option" where
  "given_int k body = (case jget k body of None \<Rightarrow> Inr None | Some v \<Rightarrow> map_sum id Some (bind_int v))"

text \<open>\<open>String(value)\<close>\<close>

fun js_String :: "json \<Rightarrow> string" where
  "js_String JNull = ''null''"
| "js_String (JBool b) = (if b then ''true'' else ''false'')"
| "js_String (JNum n) = show_int n"
| "js_String (JStr x) = x"
| "js_String (JArr vs) = join_with '','' (map (\<lambda>v. if v = JNull then [] else js_String v) vs)"
| "js_String (JObj kvs) = ''[object Object]''"

text \<open>A value in a template literal; \<open>None\<close> is \<open>undefined\<close>.\<close>

definition template_str :: "json option \<Rightarrow> string" where
  "template_str v = (case v of None \<Rightarrow> ''undefined'' | Some x \<Rightarrow> js_String x)"

text \<open>The client address that the routes record in the audit log.\<close>

definition client_ip :: "request \<Rightarrow> string" where
  "client_ip req = or_else (req_headers req ''x-forwarded-for'') (or_else (req_headers req ''x-real-ip'') ''unknown'')"

definition with_body :: "'a schema \<Rightarrow> request \<Rightarrow> server \<Rightarrow> ('a \<Rightarrow> outcome) \<Rightarrow> outcome" where
  "with_body parse req s k = (case validateBody parse req of Inl r \<Rightarrow> (Inr r, s) | Inr b \<Rightarrow> k b)"

text \<open>
  The opening of a mutating route: \<open>requireRole\<close>, then \<open>mutationLimiter\<close>. The handler runs on
  the state in which the request has been counted.
\<close>

definition mutating_route ::
  "string \<Rightarrow> (world \<Rightarrow> request \<Rightarrow> user \<Rightarrow> server \<Rightarrow> outcome) \<Rightarrow> world \<Rightarrow> request \<Rightarrow> server \<Rightarrow> outcome"
where
  "mutating_route role k w req s =
     with_role w req role s (\<lambda>u. with_mutation_limit w req s (\<lambda>s'. k w req u s'))"

text \<open>A route that may also change files: their state is passed beside the server's.\<close>

definition role_files ::
  "world \<Rightarrow> request \<Rightarrow> string \<Rightarrow> 'f \<Rightarrow> server \<Rightarrow> (user \<Rightarrow> outcome \<times> 'f) \<Rightarrow> outcome \<times> 'f"
where
  "role_files w req role fs s k =
     (with_role w req role s (\<lambda>u. fst (k u)),
      case requireRole w req role s of Inr (Auth_user u) \<Rightarrow> snd (k u) | _ \<Rightarrow> fs)"

definition limited_files :: "world \<Rightarrow> request \<Rightarrow> 'f \<Rightarrow> server \<Rightarrow> (server \<Rightarrow> outcome \<times> 'f) \<Rightarrow> outcome \<times> 'f" where
  "limited_files w req fs s k =
     (case checkRateLimit mutationLimiter_options w req (mutation_store s) of
        (Some r, ms) \<Rightarrow> ((Inr r, s\<lparr>mutation_store := ms\<rparr>), fs)
      | (None, ms) \<Rightarrow> k (s\<lparr>mutation_store := ms\<rparr>))"

lemma role_guarded_mutating: "role_guarded (mutating_route role k) role"
  by unfold_locales (simp_all add: mutating_route_def with_role_def)

text \<open>A mutating route changes the database only through its handler.\<close>

lemma mutating_route_cases:
  assumes "mutating_route role k w req s = (res, s')"
  obtains (refused) "db s' = db s" "bus s' = bus s"
    | (handled) u st where "requireRole w req role s = Inr (Auth_user u)"
        "k w req u (s\<lparr>mutation_store := st\<rparr>) = (res, s')"
  using assms
  by (auto simp: mutating_route_def with_role_def with_mutation_limit_def
      split: sum.splits auth_result.splits prod.splits option.splits)

lemma mutating_route_inv:
  assumes "\<And>u st. requireRole w req role s = Inr (Auth_user u) \<Longrightarrow> P (db (snd (k w req u (s\<lparr>mutation_store := st\<rparr>))))"
    and "P (db s)"
  shows "P (db (snd (mutating_route role k w req s)))"
proof (cases "mutating_route role k w req s")
  case (Pair res s')
  from Pair show ?thesis
  proof (cases rule: mutating_route_cases)
    case refused
    with Pair assms(2) show ?thesis by simp
  next
    case (handled u st)
    with Pair assms(1) [of u st] show ?thesis by simp
  qed
qed

lemma with_role_inv:
  assumes "\<And>u. P (db (snd (k u)))" and "P (db s)" shows "P (db (snd (with_role w req role s k)))"
  using assms by (simp add: with_role_def split: sum.split auth_result.split)

lemma with_body_inv:
  assumes "\<And>b. validateBody parse req = Inr b \<Longrightarrow> P (db (snd (k b)))" and "P (db s)"
  shows "P (db (snd (with_body parse req s k)))"
  using assms by (auto simp: with_body_def split: sum.splits)

lemma validateBody_Inr: "validateBody parse req = Inr b \<Longrightarrow> \<exists>x. parse x = Inr b"
  by (auto simp: validateBody_def split: option.splits sum.splits)

section \<open>Transactions\<close>

text \<open>
  \<open>db.transaction(body)\<close>: when the body throws, what it wrote to the database is rolled back;
  events it broadcast are not taken back.
\<close>

definition transaction :: "(server \<Rightarrow> (string + 'a) \<times> server) \<Rightarrow> server \<Rightarrow> (string + 'a) \<times> server" where
  "transaction body s = (case body s of (Inl e, s') \<Rightarrow> (Inl e, s'\<lparr>db := db s\<rparr>) | (Inr x, s') \<Rightarrow> (Inr x, s'))"

lemma transaction_Inl: "transaction body s = (Inl e, s') \<Longrightarrow> db s' = db s"
  by (auto simp: transaction_def split: prod.splits sum.splits)

lemma transaction_Inr: "transaction body s = (Inr x, s') \<longleftrightarrow> body s = (Inr x, s')"
  by (auto simp: transaction_def split: prod.splits sum.splits)

section \<open>Workspaces\<close>

text \<open>
  What a caller of another workspace must not be able to change. \<open>view n s\<close> is what workspace
  \<open>n\<close> sees of the state.
\<close>

locale workspace_scoped = role_guarded +
  fixes view :: "int \<Rightarrow> server \<Rightarrow> 'v"
  assumes own_workspace_only: "requireRole w req min_role s = Inr (Auth_user u) \<Longrightarrow> usr_workspace_id u \<noteq> n \<Longrightarrow>
    view n (snd (handler w req s)) = view n s"
begin

lemma isolated:
  assumes "\<nexists>u. requireRole w req min_role s = Inr (Auth_user u) \<and> usr_workspace_id u = n"
  shows "view n (snd (handler w req s)) = view n s"
proof (cases "\<exists>u. requireRole w req min_role s = Inr (Auth_user u)")
  case True
  with assms show ?thesis by (auto dest: own_workspace_only)
next
  case False
  then have "snd (handler w req s) = s" using change_needs_role by blast
  then show ?thesis by simp
qed

end

lemma workspace_scoped_mutating:
  assumes "\<And>w req u s n. usr_workspace_id u \<noteq> n \<Longrightarrow> view n (snd (k w req u s)) = view n s"
    and "\<And>n s ms. view n (s\<lparr>mutation_store := ms\<rparr>) = view n s"
  shows "workspace_scoped (mutating_route role k) role view"
proof -
  have "view n (snd (mutating_route role k w req s)) = view n s"
    if "requireRole w req role s = Inr (Auth_user u)" "usr_workspace_id u \<noteq> n" for w req s u n
    using that assms
    by (auto simp: mutating_route_def with_role_def with_mutation_limit_def split: prod.split option.split)
  then show ?thesis
    by (intro workspace_scoped.intro role_guarded_mutating workspace_scoped_axioms.intro)
qed

lemma with_body_view:
  assumes "\<And>b. view (snd (k b)) = view s" shows "view (snd (with_body parse req s k)) = view s"
  using assms by (simp add: with_body_def split: sum.split)

definition ws_rows :: "('r \<Rightarrow> int) \<Rightarrow> int \<Rightarrow> 'r tbl \<Rightarrow> 'r list" where
  "ws_rows ws n t = filter (\<lambda>r. ws r = n) (rows t)"

lemma ws_rows_insert: "ws (mk (seq t + 1)) \<noteq> n \<Longrightarrow> ws_rows ws n (snd (tbl_insert mk t)) = ws_rows ws n t"
  by (simp add: ws_rows_def rows_tbl_insert)

lemma ws_rows_update:
  assumes "\<And>r. p r \<Longrightarrow> ws r \<noteq> n" and "\<And>r. ws (f r) = ws r"
  shows "ws_rows ws n (tbl_update p f t) = ws_rows ws n t"
proof -
  have "filter (\<lambda>r. ws r = n) (map (\<lambda>r. if p r then f r else r) xs) = filter (\<lambda>r. ws r = n) xs" for xs
    using assms by (induction xs) auto
  then show ?thesis by (simp add: ws_rows_def rows_tbl_update)
qed

lemma ws_rows_replace:
  assumes "\<And>r. p r \<Longrightarrow> ws r \<noteq> n \<and> ws (f r) \<noteq> n"
  shows "ws_rows ws n (tbl_update p f t) = ws_rows ws n t"
proof -
  have "filter (\<lambda>r. ws r = n) (map (\<lambda>r. if p r then f r else r) xs) = filter (\<lambda>r. ws r = n) xs" for xs
    using assms by (induction xs) auto
  then show ?thesis by (simp add: ws_rows_def rows_tbl_update)
qed

lemma ws_rows_delete: "(\<And>r. p r \<Longrightarrow> ws r \<noteq> n) \<Longrightarrow> ws_rows ws n (tbl_delete p t) = ws_rows ws n t"
  unfolding ws_rows_def rows_tbl_delete by (auto intro!: filter_cong)

definition task_view :: "int \<Rightarrow> server \<Rightarrow> task_row list \<times> activity_row list \<times> notification_row list" where
  "task_view n s = (ws_rows t_workspace_id n (tasks (db s)), ws_rows a_workspace_id n (activities (db s)),
     ws_rows n_workspace_id n (notifications (db s)))"

lemma task_view_helpers [simp]:
  "wsid \<noteq> n \<Longrightarrow> task_view n (logActivity w ty et ei ac de da wsid s) = task_view n s"
  "wsid \<noteq> n \<Longrightarrow> task_view n (createNotification w rc ty ti msg st si wsid s) = task_view n s"
  "task_view n (ensureTaskSubscription w tid ag wsid s) = task_view n s"
  "task_view n (broadcast w ty d s) = task_view n s"
  "task_view n (s\<lparr>mutation_store := ms\<rparr>) = task_view n s"
  by (simp_all add: task_view_def frame_simps)
    (simp_all add: logActivity_def createNotification_def Let_def tbl_insert_def ws_rows_def)

end
