(* ===== verification/MC_Tasks.thy ===== *)
theory MC_Tasks
  imports MC_Http
begin

text \<open>
  The task board: \<open>src/app/api/tasks/route.ts\<close>, \<open>src/app/api/tasks/[id]/route.ts\<close> and
  \<open>src/app/api/quality-review/route.ts\<close>. The theorems are about the Aegis gate (a task is moved
  to done only with the approval of the reviewer \<open>aegis\<close>), the atomicity of the bulk update,
  the isolation of workspaces and the cascade of a deletion.
\<close>

section \<open>Tasks as JSON\<close>

fun task_status_str :: "task_status \<Rightarrow> string" where
  "task_status_str Inbox = ''inbox''"
| "task_status_str Assigned = ''assigned''"
| "task_status_str In_progress = ''in_progress''"
| "task_status_str Review = ''review''"
| "task_status_str Quality_review = ''quality_review''"
| "task_status_str Done = ''done''"

fun task_priority_str :: "task_priority \<Rightarrow> string" where
  "task_priority_str Critical = ''critical''"
| "task_priority_str High = ''high''"
| "task_priority_str Medium = ''medium''"
| "task_priority_str Low = ''low''"

text \<open>The row with \<open>tags\<close> and \<open>metadata\<close> parsed.\<close>

definition task_json :: "task_row \<Rightarrow> json" where
  "task_json t = JObj [(''id'', JNum (t_id t)), (''title'', JStr (t_title t)),
     (''description'', jnull JStr (t_description t)), (''status'', JStr (task_status_str (t_status t))),
     (''priority'', JStr (task_priority_str (t_priority t))), (''assigned_to'', jnull JStr (t_assigned_to t)),
     (''created_by'', JStr (t_created_by t)), (''created_at'', JNum (t_created_at t)),
     (''updated_at'', JNum (t_updated_at t)), (''due_date'', jnull JNum (t_due_date t)),
     (''estimated_hours'', jnull JNum (t_estimated_hours t)), (''actual_hours'', jnull JNum (t_actual_hours t)),
     (''tags'', t_tags t), (''metadata'', t_metadata t), (''workspace_id'', JNum (t_workspace_id t))]"

text \<open>\<open>SELECT .. FROM tasks WHERE id = ? AND workspace_id = ?\<close>\<close>

definition find_task :: "int \<Rightarrow> int \<Rightarrow> server \<Rightarrow> task_row option" where
  "find_task i wsid s = tbl_first (\<lambda>t. t_id t = i \<and> t_workspace_id t = wsid) (tasks (db s))"

section \<open>The Aegis gate\<close>

definition hasAegisApproval :: "world \<Rightarrow> int \<Rightarrow> int \<Rightarrow> server \<Rightarrow> bool" where
  "hasAegisApproval w taskId wsid s =
     (case order_by_desc (sql_ord w) q_created_at
             (tbl_select (\<lambda>q. q_task_id q = taskId \<and> q_reviewer q = ''aegis'' \<and> q_workspace_id q = wsid)
                (quality_reviews (db s))) of
        [] \<Rightarrow> False
      | review # _ \<Rightarrow> q_status review = ''approved'')"

section \<open>GET /api/tasks\<close>

definition task_filter :: "request \<Rightarrow> int \<Rightarrow> task_row \<Rightarrow> bool" where
  "task_filter req wsid t \<longleftrightarrow> t_workspace_id t = wsid \<and>
     (case nonempty_param req ''status'' of None \<Rightarrow> True | Some v \<Rightarrow> task_status_str (t_status t) = v) \<and>
     (case nonempty_param req ''assigned_to'' of None \<Rightarrow> True | Some v \<Rightarrow> t_assigned_to t = Some v) \<and>
     (case nonempty_param req ''priority'' of None \<Rightarrow> True | Some v \<Rightarrow> task_priority_str (t_priority t) = v)"

definition list_tasks :: "world \<Rightarrow> request \<Rightarrow> user \<Rightarrow> server \<Rightarrow> outcome" where
  "list_tasks w req u s =
     (case (parse_int (or_else (req_query req ''limit'') ''50''), parse_int (or_else (req_query req ''offset'') ''0'')) of
        (Some l, Some offset) \<Rightarrow>
          (let limit = min l 200;
               found = tbl_select (task_filter req (usr_workspace_id u)) (tasks (db s));
               page = (if limit = 0 then JNull else JNum (offset div limit + 1))
           in (Inr (json_response 200 (JObj [
                 (''tasks'', JArr (map task_json (sql_limit limit offset (order_by_desc (sql_ord w) t_created_at found)))),
                 (''total'', JNum (int (length found))), (''page'', page), (''limit'', JNum limit)])), s))
      | _ \<Rightarrow> (Inr (error_response 500 ''Failed to fetch tasks''), s))"

definition tasks_GET :: "world \<Rightarrow> request \<Rightarrow> server \<Rightarrow> outcome" where
  "tasks_GET w req s = with_role w req ''viewer'' s (\<lambda>u. list_tasks w req u s)"

section \<open>POST /api/tasks\<close>

record task_input =
  ti_title :: string
  ti_description :: "string option"
  ti_status :: "task_status option"
  ti_priority :: "task_priority option"
  ti_assigned_to :: "string option"
  ti_created_by :: "string option"
  ti_due_date :: "int option"
  ti_estimated_hours :: "int option"
  ti_tags :: "json option"
  ti_metadata :: "json option"

definition new_task :: "world \<Rightarrow> string \<Rightarrow> int \<Rightarrow> task_input \<Rightarrow> int \<Rightarrow> task_row" where
  "new_task w created_by wsid b i = \<lparr>t_id = i, t_title = ti_title b, t_description = ti_description b,
     t_status = (case ti_status b of None \<Rightarrow> Inbox | Some v \<Rightarrow> v),
     t_priority = (case ti_priority b of None \<Rightarrow> Medium | Some v \<Rightarrow> v), t_assigned_to = ti_assigned_to b,
     t_created_by = created_by, t_created_at = now_s w, t_updated_at = now_s w, t_due_date = ti_due_date b,
     t_estimated_hours = ti_estimated_hours b, t_actual_hours = None,
     t_tags = (case ti_tags b of None \<Rightarrow> JArr [] | Some v \<Rightarrow> v),
     t_metadata = (case ti_metadata b of None \<Rightarrow> JObj [] | Some v \<Rightarrow> v), t_workspace_id = wsid\<rparr>"

text \<open>What follows the insert: the activity, the subscriptions and the notification of the assignee.\<close>

definition announce_task :: "world \<Rightarrow> int \<Rightarrow> string \<Rightarrow> int \<Rightarrow> task_input \<Rightarrow> server \<Rightarrow> server" where
  "announce_task w taskId created_by wsid b s =
     (let s1 = logActivity w ''task_created'' ''task'' taskId created_by (''Created task: '' @ ti_title b)
                 (Some (JObj ([(''title'', JStr (ti_title b)),
                    (''status'', JStr (task_status_str (case ti_status b of None \<Rightarrow> Inbox | Some v \<Rightarrow> v))),
                    (''priority'', JStr (task_priority_str (case ti_priority b of None \<Rightarrow> Medium | Some v \<Rightarrow> v)))] @
                    jopt ''assigned_to'' JStr (ti_assigned_to b)))) wsid s;
          s2 = (if created_by \<noteq> [] then ensureTaskSubscription w taskId created_by wsid s1 else s1)
      in case or_null (ti_assigned_to b) of
           None \<Rightarrow> s2
         | Some a \<Rightarrow> createNotification w a ''assignment'' ''Task Assigned''
             (''You have been assigned to task: '' @ ti_title b) (Some ''task'') (Some taskId) wsid
             (ensureTaskSubscription w taskId a wsid s2))"

definition create_task :: "world \<Rightarrow> user \<Rightarrow> task_input \<Rightarrow> server \<Rightarrow> outcome" where
  "create_task w u b s =
     (let wsid = usr_workspace_id u;
          created_by = (case ti_created_by b of Some v \<Rightarrow> v | None \<Rightarrow> or_else (Some (usr_username u)) ''system'')
      in if \<exists>t \<in> set (rows (tasks (db s))). t_title t = ti_title b \<and> t_workspace_id t = wsid
         then (Inr (error_response 409 ''Task with this title already exists''), s)
         else
           (let (taskId, ts) = tbl_insert (new_task w created_by wsid b) (tasks (db s));
                s1 = announce_task w taskId created_by wsid b (s\<lparr>db := (db s)\<lparr>tasks := ts\<rparr>\<rparr>)
            in case find_task taskId wsid s1 of
                 None \<Rightarrow> (Inr (error_response 500 ''Failed to create task''), s1)
               | Some created \<Rightarrow>
                   (Inr (json_response 201 (JObj [(''task'', task_json created)])),
                    broadcast w ''task.created'' (task_json created) s1)))"

definition tasks_POST :: "task_input schema \<Rightarrow> world \<Rightarrow> request \<Rightarrow> server \<Rightarrow> outcome" where
  "tasks_POST createTaskSchema =
     mutating_route ''operator'' (\<lambda>w req u s. with_body createTaskSchema req s (\<lambda>b. create_task w u b s))"

section \<open>PUT /api/tasks\<close>

text \<open>The body of the transaction: the first refused task throws.\<close>

fun bulk_update :: "world \<Rightarrow> string \<Rightarrow> int \<Rightarrow> (int \<times> task_status) list \<Rightarrow> server \<Rightarrow> (string + unit) \<times> server" where
  "bulk_update w actor wsid [] s = (Inr (), s)"
| "bulk_update w actor wsid ((i, st) # todo) s =
     (case find_task i wsid s of
        None \<Rightarrow> bulk_update w actor wsid todo s
      | Some old \<Rightarrow>
          if st = Done \<and> \<not> hasAegisApproval w i wsid s
          then (Inl (''Aegis approval required for task '' @ show_int i), s)
          else
            (let s1 = s\<lparr>db := (db s)\<lparr>tasks := tbl_update (\<lambda>t. t_id t = i \<and> t_workspace_id t = wsid)
                        (\<lambda>t. t\<lparr>t_status := st, t_updated_at := now_s w\<rparr>) (tasks (db s))\<rparr>\<rparr>;
                 s2 = (if t_status old \<noteq> st
                       then logActivity w ''task_updated'' ''task'' i actor
                              (''Task moved from '' @ task_status_str (t_status old) @ '' to '' @ task_status_str st)
                              (Some (JObj [(''oldStatus'', JStr (task_status_str (t_status old))),
                                           (''newStatus'', JStr (task_status_str st))])) wsid s1
                       else s1)
             in bulk_update w actor wsid todo s2))"

definition update_tasks :: "world \<Rightarrow> user \<Rightarrow> (int \<times> task_status) list \<Rightarrow> server \<Rightarrow> outcome" where
  "update_tasks w u todo s =
     (case transaction (bulk_update w (usr_username u) (usr_workspace_id u) todo) s of
        (Inr _, s') \<Rightarrow>
          (Inr (json_response 200 (JObj [(''success'', JBool True), (''updated'', JNum (int (length todo)))])),
           fold (\<lambda>(i, st). broadcast w ''task.status_changed''
                   (JObj [(''id'', JNum i), (''status'', JStr (task_status_str st)), (''updated_at'', JNum (now_s w))]))
             todo s')
      | (Inl msg, s') \<Rightarrow>
          if includes_str ''Aegis approval required'' msg then (Inr (error_response 403 msg), s')
          else (Inr (error_response 500 ''Failed to update tasks''), s'))"

definition tasks_PUT :: "(int \<times> task_status) list schema \<Rightarrow> world \<Rightarrow> request \<Rightarrow> server \<Rightarrow> outcome" where
  "tasks_PUT bulkUpdateTaskStatusSchema =
     mutating_route ''operator'' (\<lambda>w req u s. with_body bulkUpdateTaskStatusSchema req s (\<lambda>b. update_tasks w u b s))"

section \<open>GET and PUT /api/tasks/[id]\<close>

definition get_task :: "string \<Rightarrow> user \<Rightarrow> server \<Rightarrow> outcome" where
  "get_task idp u s =
     (case parse_int idp of
        None \<Rightarrow> (Inr (error_response 400 ''Invalid task ID''), s)
      | Some taskId \<Rightarrow>
          (case find_task taskId (usr_workspace_id u) s of
             None \<Rightarrow> (Inr (error_response 404 ''Task not found''), s)
           | Some t \<Rightarrow> (Inr (json_response 200 (JObj [(''task'', task_json t)])), s)))"

definition task_GET :: "string \<Rightarrow> world \<Rightarrow> request \<Rightarrow> server \<Rightarrow> outcome" where
  "task_GET idp w req s = with_role w req ''viewer'' s (\<lambda>u. get_task idp u s)"

record task_update =
  tu_title :: "string option"
  tu_description :: "string option"
  tu_status :: "task_status option"
  tu_priority :: "task_priority option"
  tu_assigned_to :: "string option"
  tu_due_date :: "int option"
  tu_estimated_hours :: "int option"
  tu_actual_hours :: "int option"
  tu_tags :: "json option"
  tu_metadata :: "json option"

definition no_task_update :: "task_update \<Rightarrow> bool" where
  "no_task_update b \<longleftrightarrow> tu_title b = None \<and> tu_description b = None \<and> tu_status b = None \<and> tu_priority b = None \<and>
     tu_assigned_to b = None \<and> tu_due_date b = None \<and> tu_estimated_hours b = None \<and> tu_actual_hours b = None \<and>
     tu_tags b = None \<and> tu_metadata b = None"

definition apply_task_update :: "world \<Rightarrow> task_update \<Rightarrow> task_row \<Rightarrow> task_row" where
  "apply_task_update w b t = t\<lparr>t_title := set_or_keep (tu_title b) (t_title t),
     t_description := set_or_keep_opt (tu_description b) (t_description t),
     t_status := set_or_keep (tu_status b) (t_status t), t_priority := set_or_keep (tu_priority b) (t_priority t),
     t_assigned_to := set_or_keep_opt (tu_assigned_to b) (t_assigned_to t),
     t_due_date := set_or_keep_opt (tu_due_date b) (t_due_date t),
     t_estimated_hours := set_or_keep_opt (tu_estimated_hours b) (t_estimated_hours t),
     t_actual_hours := set_or_keep_opt (tu_actual_hours b) (t_actual_hours t),
     t_tags := set_or_keep (tu_tags b) (t_tags t), t_metadata := set_or_keep (tu_metadata b) (t_metadata t),
     t_updated_at := now_s w\<rparr>"

text \<open>The arrow of the change descriptions, U+2192 in UTF-8, between blanks.\<close>

definition arrow :: string where
  "arrow = [CHR '' '', CHR 0xE2, CHR 0x86, CHR 0x92, CHR '' '']"

definition unassigned :: "string option \<Rightarrow> string" where
  "unassigned a = or_else a ''unassigned''"

definition task_changes :: "task_row \<Rightarrow> task_update \<Rightarrow> string list" where
  "task_changes cur b =
     (case tu_status b of Some v \<Rightarrow> if v \<noteq> t_status cur
          then [''status: '' @ task_status_str (t_status cur) @ arrow @ task_status_str v] else [] | None \<Rightarrow> []) @
     (case tu_assigned_to b of Some v \<Rightarrow> if Some v \<noteq> t_assigned_to cur
          then [''assigned: '' @ unassigned (t_assigned_to cur) @ arrow @ unassigned (Some v)] else [] | None \<Rightarrow> []) @
     (case or_null (tu_title b) of Some v \<Rightarrow> if v \<noteq> t_title cur then [''title updated''] else [] | None \<Rightarrow> []) @
     (case tu_priority b of Some v \<Rightarrow> if v \<noteq> t_priority cur
          then [''priority: '' @ task_priority_str (t_priority cur) @ arrow @ task_priority_str v] else [] | None \<Rightarrow> [])"

definition notify_status :: "world \<Rightarrow> int \<Rightarrow> int \<Rightarrow> task_row \<Rightarrow> task_update \<Rightarrow> server \<Rightarrow> server" where
  "notify_status w taskId wsid cur b s =
     (case (tu_status b, or_null (t_assigned_to cur)) of
        (Some v, Some a) \<Rightarrow>
          if v \<noteq> t_status cur
          then createNotification w a ''status_change'' ''Task Status Updated''
                 (''Task \"'' @ t_title cur @ ''\" status changed to '' @ task_status_str v)
                 (Some ''task'') (Some taskId) wsid s
          else s
      | _ \<Rightarrow> s)"

definition notify_assignee :: "world \<Rightarrow> int \<Rightarrow> int \<Rightarrow> task_row \<Rightarrow> task_update \<Rightarrow> server \<Rightarrow> server" where
  "notify_assignee w taskId wsid cur b s =
     (case tu_assigned_to b of
        None \<Rightarrow> s
      | Some a \<Rightarrow>
          if Some a \<noteq> t_assigned_to cur \<and> a \<noteq> []
          then createNotification w a ''assignment'' ''Task Assigned''
                 (''You have been assigned to task: '' @ t_title cur) (Some ''task'') (Some taskId) wsid
                 (ensureTaskSubscription w taskId a wsid s)
          else s)"

definition log_task_changes :: "world \<Rightarrow> string \<Rightarrow> int \<Rightarrow> int \<Rightarrow> task_row \<Rightarrow> task_update \<Rightarrow> server \<Rightarrow> server" where
  "log_task_changes w actor taskId wsid cur b s =
     (let changes = task_changes cur b in
      if changes = [] then s
      else logActivity w ''task_updated'' ''task'' taskId actor (''Task updated: '' @ join_with '', '' changes)
        (Some (JObj [(''changes'', JArr (map JStr changes)),
           (''oldValues'', JObj [(''title'', JStr (t_title cur)), (''status'', JStr (task_status_str (t_status cur))),
              (''priority'', JStr (task_priority_str (t_priority cur))), (''assigned_to'', jnull JStr (t_assigned_to cur))]),
           (''newValues'', JObj (jopt ''title'' JStr (tu_title b) @
              jopt ''status'' (JStr \<circ> task_status_str) (tu_status b) @
              jopt ''priority'' (JStr \<circ> task_priority_str) (tu_priority b) @
              jopt ''assigned_to'' JStr (tu_assigned_to b)))])) wsid s)"

definition update_task :: "string \<Rightarrow> world \<Rightarrow> user \<Rightarrow> task_update \<Rightarrow> server \<Rightarrow> outcome" where
  "update_task idp w u b s =
     (let wsid = usr_workspace_id u in
      case parse_int idp of
        None \<Rightarrow> (Inr (error_response 400 ''Invalid task ID''), s)
      | Some taskId \<Rightarrow>
          (case find_task taskId wsid s of
             None \<Rightarrow> (Inr (error_response 404 ''Task not found''), s)
           | Some cur \<Rightarrow>
               if tu_status b = Some Done \<and> \<not> hasAegisApproval w taskId wsid s
               then (Inr (error_response 403 ''Aegis approval is required to move task to done.''), s)
               else if no_task_update b then (Inr (error_response 400 ''No fields to update''), s)
               else
                 (let s1 = s\<lparr>db := (db s)\<lparr>tasks := tbl_update (\<lambda>t. t_id t = taskId \<and> t_workspace_id t = wsid)
                             (apply_task_update w b) (tasks (db s))\<rparr>\<rparr>;
                      s2 = notify_assignee w taskId wsid cur b (notify_status w taskId wsid cur b s1);
                      s3 = log_task_changes w (usr_username u) taskId wsid cur b s2
                  in case find_task taskId wsid s3 of
                       None \<Rightarrow> (Inr (error_response 500 ''Failed to update task''), s3)
                     | Some t \<Rightarrow> (Inr (json_response 200 (JObj [(''task'', task_json t)])),
                                  broadcast w ''task.updated'' (task_json t) s3))))"

definition task_PUT :: "task_update schema \<Rightarrow> string \<Rightarrow> world \<Rightarrow> request \<Rightarrow> server \<Rightarrow> outcome" where
  "task_PUT updateTaskSchema idp =
     mutating_route ''operator'' (\<lambda>w req u s. with_body updateTaskSchema req s (\<lambda>b. update_task idp w u b s))"

section \<open>DELETE /api/tasks/[id]\<close>

text \<open>
  \<open>DELETE FROM tasks\<close> with the foreign-key actions: comments, subscriptions and reviews of the
  task go with it (CASCADE), and a reply to a deleted comment loses its parent (SET NULL).
\<close>

definition delete_task_rows :: "int \<Rightarrow> int \<Rightarrow> database \<Rightarrow> database" where
  "delete_task_rows i wsid d =
     (let gone = map c_id (tbl_select (\<lambda>c. c_task_id c = i) (comments d))
      in d\<lparr>tasks := tbl_delete (\<lambda>t. t_id t = i \<and> t_workspace_id t = wsid) (tasks d),
           comments := tbl_update (\<lambda>c. case c_parent_id c of None \<Rightarrow> False | Some p \<Rightarrow> p \<in> set gone)
             (\<lambda>c. c\<lparr>c_parent_id := None\<rparr>) (tbl_delete (\<lambda>c. c_task_id c = i) (comments d)),
           task_subscriptions := tbl_delete (\<lambda>r. sub_task_id r = i) (task_subscriptions d),
           quality_reviews := tbl_delete (\<lambda>q. q_task_id q = i) (quality_reviews d)\<rparr>)"

definition delete_task :: "string \<Rightarrow> world \<Rightarrow> user \<Rightarrow> server \<Rightarrow> outcome" where
  "delete_task idp w u s =
     (let wsid = usr_workspace_id u in
      case parse_int idp of
        None \<Rightarrow> (Inr (error_response 400 ''Invalid task ID''), s)
      | Some taskId \<Rightarrow>
          (case find_task taskId wsid s of
             None \<Rightarrow> (Inr (error_response 404 ''Task not found''), s)
           | Some t \<Rightarrow>
               (let s1 = s\<lparr>db := delete_task_rows taskId wsid (db s)\<rparr>;
                    s2 = logActivity w ''task_deleted'' ''task'' taskId (usr_username u) (''Deleted task: '' @ t_title t)
                           (Some (JObj [(''title'', JStr (t_title t)), (''status'', JStr (task_status_str (t_status t))),
                              (''assigned_to'', jnull JStr (t_assigned_to t))])) wsid s1
                in (Inr (json_response 200 (JObj [(''success'', JBool True)])),
                    broadcast w ''task.deleted'' (JObj [(''id'', JNum taskId), (''title'', JStr (t_title t))]) s2))))"

definition task_DELETE :: "string \<Rightarrow> world \<Rightarrow> request \<Rightarrow> server \<Rightarrow> outcome" where
  "task_DELETE idp = mutating_route ''operator'' (\<lambda>w req u s. delete_task idp w u s)"

section \<open>/api/quality-review\<close>

record review_input =
  ri_task_id :: int
  ri_reviewer :: string
  ri_status :: string
  ri_notes :: string

definition create_review :: "world \<Rightarrow> user \<Rightarrow> review_input \<Rightarrow> server \<Rightarrow> outcome" where
  "create_review w u b s =
     (let wsid = usr_workspace_id u; taskId = ri_task_id b in
      case find_task taskId wsid s of
        None \<Rightarrow> (Inr (error_response 404 ''Task not found''), s)
      | Some t \<Rightarrow>
          (let (rid, qs) = tbl_insert (\<lambda>i. \<lparr>q_id = i, q_task_id = taskId, q_reviewer = ri_reviewer b,
                 q_status = ri_status b, q_notes = ri_notes b, q_created_at = now_s w, q_workspace_id = wsid\<rparr>)
                 (quality_reviews (db s));
               s1 = s\<lparr>db := (db s)\<lparr>quality_reviews := qs\<rparr>\<rparr>;
               s2 = logActivity w ''quality_review'' ''task'' taskId (ri_reviewer b)
                      (''Quality review '' @ ri_status b @ '' for task: '' @ t_title t)
                      (Some (JObj [(''status'', JStr (ri_status b)), (''notes'', JStr (ri_notes b))])) wsid s1;
               s3 = (if ri_status b = ''approved'' \<and> ri_reviewer b = ''aegis''
                     then broadcast w ''task.status_changed'' (JObj [(''id'', JNum taskId), (''status'', JStr ''done''),
                            (''updated_at'', JNum (now_s w))])
                          (s2\<lparr>db := (db s2)\<lparr>tasks := tbl_update (\<lambda>t. t_id t = taskId \<and> t_workspace_id t = wsid)
                             (\<lambda>t. t\<lparr>t_status := Done, t_updated_at := now_s w\<rparr>) (tasks (db s2))\<rparr>\<rparr>)
                     else s2)
           in (Inr (json_response 200 (JObj [(''success'', JBool True), (''id'', JNum rid)])), s3)))"

definition quality_review_POST :: "review_input schema \<Rightarrow> world \<Rightarrow> request \<Rightarrow> server \<Rightarrow> outcome" where
  "quality_review_POST qualityReviewSchema =
     mutating_route ''operator'' (\<lambda>w req u s. with_body qualityReviewSchema req s (\<lambda>b. create_review w u b s))"

text \<open>
  The \<open>GET\<close> route. \<open>ORDER BY task_id ASC, created_at DESC\<close> delivers the rows task by task; the
  loop keeps, per task, the first row and then only strictly newer ones. The keys of the
  answer are the object's keys in JavaScript order: array indices ascending, then the others as inserted.
\<close>

definition js_key_order :: "int list \<Rightarrow> int list" where
  "js_key_order ids =
     (let ks = rev (remdups (rev ids)); index = (\<lambda>k. 0 \<le> k \<and> k < 4294967295)
      in sort (filter index ks) @ filter (\<lambda>k. \<not> index k) ks)"

definition latest_step :: "review_row \<Rightarrow> (int \<Rightarrow> review_row option) \<Rightarrow> int \<Rightarrow> review_row option" where
  "latest_step r m =
     (case m (q_task_id r) of
        None \<Rightarrow> m(q_task_id r \<mapsto> r)
      | Some e \<Rightarrow> if q_created_at e < q_created_at r then m(q_task_id r \<mapsto> r) else m)"

definition latest_reviews :: "world \<Rightarrow> int list \<Rightarrow> int \<Rightarrow> server \<Rightarrow> int \<Rightarrow> review_row option" where
  "latest_reviews w ids wsid s =
     fold latest_step
       (concat (map (\<lambda>i. order_by_desc (sql_ord w) q_created_at
            (tbl_select (\<lambda>q. q_task_id q = i \<and> q_workspace_id q = wsid) (quality_reviews (db s))))
          (sort (remdups ids)))) Map.empty"

definition review_json :: "review_row \<Rightarrow> json" where
  "review_json q = JObj [(''id'', JNum (q_id q)), (''task_id'', JNum (q_task_id q)), (''reviewer'', JStr (q_reviewer q)),
     (''status'', JStr (q_status q)), (''notes'', JStr (q_notes q)), (''created_at'', JNum (q_created_at q)),
     (''workspace_id'', JNum (q_workspace_id q))]"

definition list_reviews :: "world \<Rightarrow> request \<Rightarrow> user \<Rightarrow> server \<Rightarrow> outcome" where
  "list_reviews w req u s =
     (let wsid = usr_workspace_id u in
      case nonempty_param req ''taskIds'' of
        Some param \<Rightarrow>
          (let ids = List.map_filter (\<lambda>p. parse_int (trim p)) (split_on CHR '','' param)
           in if ids = [] then (Inr (error_response 400 ''taskIds must include at least one numeric id''), s)
              else (Inr (json_response 200 (JObj [(''latest'',
                     JObj (map (\<lambda>i. (show_int i, jnull (\<lambda>q. JObj [(''status'', JStr (q_status q)),
                        (''reviewer'', JStr (q_reviewer q)), (''created_at'', JNum (q_created_at q))])
                        (latest_reviews w ids wsid s i))) (js_key_order ids)))])), s))
      | None \<Rightarrow>
          (case parse_int (or_else (req_query req ''taskId'') []) of
             None \<Rightarrow> (Inr (error_response 400 ''taskId is required''), s)
           | Some taskId \<Rightarrow>
               (Inr (json_response 200 (JObj [(''reviews'', JArr (map review_json (take 10
                  (order_by_desc (sql_ord w) q_created_at
                    (tbl_select (\<lambda>q. q_task_id q = taskId \<and> q_workspace_id q = wsid) (quality_reviews (db s)))))))])), s)))"

definition quality_review_GET :: "world \<Rightarrow> request \<Rightarrow> server \<Rightarrow> outcome" where
  "quality_review_GET w req s = with_role w req ''viewer'' s (\<lambda>u. list_reviews w req u s)"

section \<open>What the helpers of the routes leave alone\<close>

lemma notify_status_frame [frame_simps]:
  "tasks (db (notify_status w i n cur b s)) = tasks (db s)"
  "quality_reviews (db (notify_status w i n cur b s)) = quality_reviews (db s)"
  "comments (db (notify_status w i n cur b s)) = comments (db s)"
  by (auto simp: notify_status_def frame_simps split: option.splits)

lemma notify_assignee_frame [frame_simps]:
  "tasks (db (notify_assignee w i n cur b s)) = tasks (db s)"
  "quality_reviews (db (notify_assignee w i n cur b s)) = quality_reviews (db s)"
  "comments (db (notify_assignee w i n cur b s)) = comments (db s)"
  by (auto simp: notify_assignee_def frame_simps split: option.splits)

lemma log_task_changes_frame [frame_simps]:
  "tasks (db (log_task_changes w ac i n cur b s)) = tasks (db s)"
  "quality_reviews (db (log_task_changes w ac i n cur b s)) = quality_reviews (db s)"
  "comments (db (log_task_changes w ac i n cur b s)) = comments (db s)"
  by (auto simp: log_task_changes_def Let_def frame_simps)

lemma announce_task_frame [frame_simps]:
  "tasks (db (announce_task w i c n b s)) = tasks (db s)"
  "quality_reviews (db (announce_task w i c n b s)) = quality_reviews (db s)"
  "comments (db (announce_task w i c n b s)) = comments (db s)"
  by (simp_all add: announce_task_def Let_def frame_simps split: option.split)

lemma fold_broadcast_db [simp]: "db (fold (\<lambda>x. broadcast w (f x) (g x)) xs s) = db s"
  by (induction xs arbitrary: s) auto

lemma fold_broadcast_db2 [simp]: "db (fold (\<lambda>(i, st). broadcast w (f i st) (g i st)) xs s) = db s"
  by (induction xs arbitrary: s) auto

lemma find_task_SomeD: "find_task i n s = Some t \<Longrightarrow> t \<in> set (rows (tasks (db s))) \<and> t_id t = i \<and> t_workspace_id t = n"
  by (auto simp: find_task_def dest: tbl_first_in_rows)

lemma find_task_cong: "tasks (db s) = tasks (db s') \<Longrightarrow> find_task i n s = find_task i n s'"
  by (simp add: find_task_def)

lemma find_task_eq:
  assumes "tbl_wf t_id (tasks (db s))"
  shows "find_task i n s = (case tbl_get t_id (tasks (db s)) i of
    None \<Rightarrow> None | Some t \<Rightarrow> if t_workspace_id t = n then Some t else None)"
proof -
  have "find_task i n s = find (\<lambda>t. t_id t = i) (filter (\<lambda>t. t_workspace_id t = n) (rows (tasks (db s))))"
    by (simp add: find_task_def tbl_first_def find_filter_conj)
  also have "\<dots> = (case tbl_get t_id (tasks (db s)) i of
      None \<Rightarrow> None | Some t \<Rightarrow> if t_workspace_id t = n then Some t else None)"
    using assms find_filter_unique [of t_id "rows (tasks (db s))"] by (simp add: tbl_wf_def tbl_get_def)
  finally show ?thesis .
qed

lemma apply_task_update_sel [simp]:
  "t_id (apply_task_update w b t) = t_id t"
  "t_workspace_id (apply_task_update w b t) = t_workspace_id t"
  "t_status (apply_task_update w b t) = (case tu_status b of None \<Rightarrow> t_status t | Some v \<Rightarrow> v)"
  by (simp_all add: apply_task_update_def set_or_keep_def)

lemma new_task_sel [simp]:
  "t_id (new_task w c n b i) = i" "t_workspace_id (new_task w c n b i) = n" "t_title (new_task w c n b i) = ti_title b"
  "t_status (new_task w c n b i) = (case ti_status b of None \<Rightarrow> Inbox | Some v \<Rightarrow> v)"
  by (simp_all add: new_task_def)

section \<open>The Aegis gate: a done task was approved\<close>

definition aegis_reviews :: "int \<Rightarrow> int \<Rightarrow> server \<Rightarrow> review_row list" where
  "aegis_reviews i n s = tbl_select (\<lambda>q. q_task_id q = i \<and> q_reviewer q = ''aegis'' \<and> q_workspace_id q = n)
     (quality_reviews (db s))"

lemma hasAegisApproval_hd:
  assumes "sql_order (sql_ord w)"
  shows "hasAegisApproval w i n s \<longleftrightarrow> aegis_reviews i n s \<noteq> [] \<and>
    q_status (hd (order_by_desc (sql_ord w) q_created_at (aegis_reviews i n s))) = ''approved''"
proof -
  have "length (order_by_desc (sql_ord w) q_created_at (aegis_reviews i n s)) = length (aegis_reviews i n s)"
    using sql_order.length_order_by_desc [OF assms] .
  then show ?thesis
    by (auto simp: hasAegisApproval_def aegis_reviews_def split: list.splits)
qed

text \<open>Some newest review of \<open>aegis\<close> approves the task.\<close>

lemma hasAegisApproval_newest:
  assumes "sql_order (sql_ord w)" and "hasAegisApproval w i n s"
  shows "\<exists>q \<in> set (aegis_reviews i n s). q_status q = ''approved'' \<and>
    (\<forall>q' \<in> set (aegis_reviews i n s). q_created_at q' \<le> q_created_at q)"
proof -
  have ne: "aegis_reviews i n s \<noteq> []" using assms by (simp add: hasAegisApproval_hd)
  note newest = sql_order.hd_order_by_desc [OF assms(1) ne, where key = q_created_at]
  show ?thesis
    using newest assms by (auto simp: hasAegisApproval_hd intro!: bexI [OF _ newest(1)])
qed

definition approved_task :: "database \<Rightarrow> task_row \<Rightarrow> bool" where
  "approved_task d t \<longleftrightarrow> (\<exists>q \<in> set (rows (quality_reviews d)). q_task_id q = t_id t \<and>
     q_workspace_id q = t_workspace_id t \<and> q_reviewer q = ''aegis'' \<and> q_status q = ''approved'')"

definition gate_db :: "database \<Rightarrow> bool" where
  "gate_db d \<longleftrightarrow> tbl_wf t_id (tasks d) \<and> (\<forall>t \<in> set (rows (tasks d)). t_status t = Done \<longrightarrow> approved_task d t)"

lemma gate_db_cong: "tasks d = tasks d' \<Longrightarrow> quality_reviews d = quality_reviews d' \<Longrightarrow> gate_db d = gate_db d'"
  by (simp add: gate_db_def approved_task_def)

lemma approved_task_cong:
  "t_id t = t_id t' \<Longrightarrow> t_workspace_id t = t_workspace_id t' \<Longrightarrow> quality_reviews d = quality_reviews d' \<Longrightarrow>
   approved_task d t = approved_task d' t'"
  by (simp add: approved_task_def)

lemma gate_db_update:
  assumes "gate_db d" and "\<And>t. t_id (f t) = t_id t" and "\<And>t. t_workspace_id (f t) = t_workspace_id t"
    and "\<And>t. t \<in> set (rows (tasks d)) \<Longrightarrow> p t \<Longrightarrow> t_status (f t) = Done \<Longrightarrow> t_status t = Done \<or> approved_task d t"
  shows "gate_db (d\<lparr>tasks := tbl_update p f (tasks d)\<rparr>)"
proof -
  have "approved_task d t" if "t \<in> set (rows (tasks d))" "p t" "t_status (f t) = Done" for t
    using assms(1,4) that by (auto simp: gate_db_def)
  moreover have "approved_task (d\<lparr>tasks := T\<rparr>) (f t) = approved_task d t"
    and "approved_task (d\<lparr>tasks := T\<rparr>) t = approved_task d t" for T t
    by (rule approved_task_cong; simp add: assms(2,3))+
  ultimately show ?thesis
    using assms(1-3) by (auto simp: gate_db_def task_rows.wf_update rows_tbl_update)
qed

lemma hasAegisApproval_approved:
  assumes "sql_order (sql_ord w)" and "hasAegisApproval w i n s" and "t_id t = i" "t_workspace_id t = n"
  shows "approved_task (db s) t"
  using hasAegisApproval_newest [OF assms(1,2)] assms(3,4)
  by (auto simp: approved_task_def aegis_reviews_def tbl_select_def)

lemma gate_db_bulk_update:
  assumes "sql_order (sql_ord w)" and "gate_db (db s)"
  shows "gate_db (db (snd (bulk_update w actor n todo s)))"
  using assms(2)
proof (induction todo arbitrary: s)
  case Nil
  then show ?case by simp
next
  case (Cons x todo)
  obtain i st where x: "x = (i, st)" by (cases x)
  show ?case
  proof (cases "find_task i n s = None \<or> st = Done \<and> \<not> hasAegisApproval w i n s")
    case True
    with Cons show ?thesis by (auto simp: x split: option.splits)
  next
    case False
    then obtain old where old: "find_task i n s = Some old" and ok: "st = Done \<Longrightarrow> hasAegisApproval w i n s"
      by auto
    define s1 where "s1 = s\<lparr>db := (db s)\<lparr>tasks := tbl_update (\<lambda>t. t_id t = i \<and> t_workspace_id t = n)
      (\<lambda>t. t\<lparr>t_status := st, t_updated_at := now_s w\<rparr>) (tasks (db s))\<rparr>\<rparr>"
    have g: "gate_db (db s1)"
      unfolding s1_def using Cons.prems ok
      by (auto intro!: gate_db_update dest: hasAegisApproval_approved [OF assms(1)])
    have "gate_db (db (logActivity w ty et ei ac de da wsid s1))" for ty et ei ac de da wsid
      using g by (subst gate_db_cong [where d' = "db s1"]) (simp_all add: frame_simps)
    moreover have "\<not> (st = Done \<and> \<not> hasAegisApproval w i n s)" using ok by blast
    ultimately show ?thesis
      using g Cons.IH old by (simp add: x Let_def if_not_P flip: s1_def)
  qed
qed

lemma gate_db_update_tasks:
  assumes "sql_order (sql_ord w)" and "gate_db (db s)"
  shows "gate_db (db (snd (update_tasks w u todo s)))"
  using gate_db_bulk_update [OF assms, of "usr_username u" "usr_workspace_id u" todo] assms(2)
  by (auto simp: update_tasks_def transaction_def split: prod.splits sum.splits)

text \<open>What each handler does to the two tables the gate is about.\<close>

lemma create_task_tables:
  fixes w u b s defines "dup \<equiv> \<exists>t \<in> set (rows (tasks (db s))). t_title t = ti_title b \<and> t_workspace_id t = usr_workspace_id u"
  shows "tasks (db (snd (create_task w u b s))) = (if dup then tasks (db s) else
      snd (tbl_insert (new_task w (case ti_created_by b of Some v \<Rightarrow> v | None \<Rightarrow> or_else (Some (usr_username u)) ''system'')
        (usr_workspace_id u) b) (tasks (db s))))"
    and "quality_reviews (db (snd (create_task w u b s))) = quality_reviews (db s)"
  unfolding dup_def create_task_def Let_def case_prod_beta
  by (auto simp: frame_simps split: option.split)

lemma update_task_tables:
  "quality_reviews (db (snd (update_task idp w u b s))) = quality_reviews (db s)"
  "tasks (db (snd (update_task idp w u b s))) = tasks (db s) \<or>
   (\<exists>i. (tu_status b = Some Done \<longrightarrow> hasAegisApproval w i (usr_workspace_id u) s) \<and>
     tasks (db (snd (update_task idp w u b s))) =
       tbl_update (\<lambda>t. t_id t = i \<and> t_workspace_id t = usr_workspace_id u) (apply_task_update w b) (tasks (db s)))"
  by (auto simp: update_task_def Let_def frame_simps split: option.split)

lemma delete_task_tables:
  "(tasks (db (snd (delete_task idp w u s))) = tasks (db s) \<and>
    quality_reviews (db (snd (delete_task idp w u s))) = quality_reviews (db s)) \<or>
   (\<exists>i. find_task i (usr_workspace_id u) s \<noteq> None \<and>
     tasks (db (snd (delete_task idp w u s))) =
       tbl_delete (\<lambda>t. t_id t = i \<and> t_workspace_id t = usr_workspace_id u) (tasks (db s)) \<and>
     quality_reviews (db (snd (delete_task idp w u s))) = tbl_delete (\<lambda>q. q_task_id q = i) (quality_reviews (db s)))"
  by (auto simp: delete_task_def delete_task_rows_def Let_def frame_simps split: option.split)

lemma create_review_tables:
  "(tasks (db (snd (create_review w u b s))) = tasks (db s) \<and>
    quality_reviews (db (snd (create_review w u b s))) = quality_reviews (db s)) \<or>
   (quality_reviews (db (snd (create_review w u b s))) =
      snd (tbl_insert (\<lambda>i. \<lparr>q_id = i, q_task_id = ri_task_id b, q_reviewer = ri_reviewer b, q_status = ri_status b,
        q_notes = ri_notes b, q_created_at = now_s w, q_workspace_id = usr_workspace_id u\<rparr>) (quality_reviews (db s))) \<and>
    tasks (db (snd (create_review w u b s))) =
      (if ri_status b = ''approved'' \<and> ri_reviewer b = ''aegis''
       then tbl_update (\<lambda>t. t_id t = ri_task_id b \<and> t_workspace_id t = usr_workspace_id u)
              (\<lambda>t. t\<lparr>t_status := Done, t_updated_at := now_s w\<rparr>) (tasks (db s))
       else tasks (db s)))"
  by (auto simp: create_review_def Let_def frame_simps case_prod_beta split: option.split)

lemma gate_db_create_task:
  assumes "gate_db (db s)" and "ti_status b \<noteq> Some Done"
  shows "gate_db (db (snd (create_task w u b s)))"
proof -
  have "\<forall>t \<in> set (rows (snd (tbl_insert (new_task w c n b) (tasks (db s))))). t_status t = Done \<longrightarrow> t \<in> set (rows (tasks (db s)))"
    for c n using assms(2) by (auto simp: rows_tbl_insert split: option.splits)
  then show ?thesis
    using assms(1) by (auto simp: gate_db_def create_task_tables approved_task_def task_rows.wf_insert)
qed

lemma gate_db_update_task:
  assumes "sql_order (sql_ord w)" and "gate_db (db s)"
  shows "gate_db (db (snd (update_task idp w u b s)))"
proof -
  have "gate_db ((db s)\<lparr>tasks := tbl_update (\<lambda>t. t_id t = i \<and> t_workspace_id t = usr_workspace_id u)
      (apply_task_update w b) (tasks (db s))\<rparr>)"
    if "tu_status b = Some Done \<longrightarrow> hasAegisApproval w i (usr_workspace_id u) s" for i
    using assms that
    by (auto intro!: gate_db_update dest: hasAegisApproval_approved split: option.splits)
  then have upd: "gate_db ((db s)\<lparr>tasks := T\<rparr>)" if "T = tasks (db s) \<or>
      (\<exists>i. (tu_status b = Some Done \<longrightarrow> hasAegisApproval w i (usr_workspace_id u) s) \<and>
        T = tbl_update (\<lambda>t. t_id t = i \<and> t_workspace_id t = usr_workspace_id u) (apply_task_update w b) (tasks (db s)))" for T
    using that assms(2) by auto
  show ?thesis
    using upd [OF update_task_tables(2) [of idp w u b s]]
    by (subst gate_db_cong [where d' = "(db s)\<lparr>tasks := tasks (db (snd (update_task idp w u b s)))\<rparr>"])
      (simp_all add: update_task_tables(1))
qed

lemma gate_db_delete_task:
  assumes "gate_db (db s)" shows "gate_db (db (snd (delete_task idp w u s)))"
  using delete_task_tables [of idp w u s]
proof (elim disjE exE conjE)
  fix i
  assume i: "find_task i (usr_workspace_id u) s \<noteq> None"
    and t: "tasks (db (snd (delete_task idp w u s))) =
      tbl_delete (\<lambda>t. t_id t = i \<and> t_workspace_id t = usr_workspace_id u) (tasks (db s))"
    and q: "quality_reviews (db (snd (delete_task idp w u s))) = tbl_delete (\<lambda>q. q_task_id q = i) (quality_reviews (db s))"
  from assms i obtain t0 where "tbl_get t_id (tasks (db s)) i = Some t0" "t_workspace_id t0 = usr_workspace_id u"
    by (auto simp: gate_db_def find_task_eq split: option.splits if_splits)
  with assms have only: "t_workspace_id t' = usr_workspace_id u" if "t' \<in> set (rows (tasks (db s)))" "t_id t' = i" for t'
    using that tbl_get_Some_unique [of t_id "tasks (db s)" t'] by (auto simp: gate_db_def)
  show ?thesis
    using assms only
    by (fastforce simp: gate_db_def t q approved_task_def task_rows.wf_delete rows_tbl_delete)
qed (use assms in \<open>simp add: gate_db_def approved_task_def\<close>)

lemma gate_db_create_review:
  assumes "gate_db (db s)" shows "gate_db (db (snd (create_review w u b s)))"
  using create_review_tables [of w u b s]
proof (elim disjE conjE)
  let ?n = "usr_workspace_id u"
  let ?d = "(db s)\<lparr>quality_reviews := snd (tbl_insert (\<lambda>i. \<lparr>q_id = i, q_task_id = ri_task_id b,
    q_reviewer = ri_reviewer b, q_status = ri_status b, q_notes = ri_notes b, q_created_at = now_s w,
    q_workspace_id = ?n\<rparr>) (quality_reviews (db s)))\<rparr>"
  assume q: "quality_reviews (db (snd (create_review w u b s))) = snd (tbl_insert (\<lambda>i. \<lparr>q_id = i,
      q_task_id = ri_task_id b, q_reviewer = ri_reviewer b, q_status = ri_status b, q_notes = ri_notes b,
      q_created_at = now_s w, q_workspace_id = ?n\<rparr>) (quality_reviews (db s)))"
    and t: "tasks (db (snd (create_review w u b s))) =
      (if ri_status b = ''approved'' \<and> ri_reviewer b = ''aegis''
       then tbl_update (\<lambda>t. t_id t = ri_task_id b \<and> t_workspace_id t = ?n)
              (\<lambda>t. t\<lparr>t_status := Done, t_updated_at := now_s w\<rparr>) (tasks (db s))
       else tasks (db s))"
  have d: "gate_db ?d"
    using assms by (fastforce simp: gate_db_def approved_task_def rows_tbl_insert)
  have "approved_task ?d t0" if "ri_status b = ''approved''" "ri_reviewer b = ''aegis''"
    "t_id t0 = ri_task_id b" "t_workspace_id t0 = ?n" for t0
    using that by (simp add: approved_task_def rows_tbl_insert)
  then have "gate_db (?d\<lparr>tasks := tbl_update (\<lambda>t. t_id t = ri_task_id b \<and> t_workspace_id t = ?n)
      (\<lambda>t. t\<lparr>t_status := Done, t_updated_at := now_s w\<rparr>) (tasks ?d)\<rparr>)"
    if "ri_status b = ''approved''" "ri_reviewer b = ''aegis''"
    using d that by (intro gate_db_update) auto
  with d show ?thesis
    by (subst gate_db_cong [where d' = "if ri_status b = ''approved'' \<and> ri_reviewer b = ''aegis''
      then ?d\<lparr>tasks := tbl_update (\<lambda>t. t_id t = ri_task_id b \<and> t_workspace_id t = ?n)
        (\<lambda>t. t\<lparr>t_status := Done, t_updated_at := now_s w\<rparr>) (tasks ?d)\<rparr> else ?d"]) (simp_all add: q t)
qed (use assms in \<open>simp add: gate_db_def approved_task_def\<close>)

text \<open>
  The machine of the task routes: any request by any caller, any clock, any engine order, and any
  schemas, as long as the creation schema never yields status done (see \<open>tasks_POST_done\<close>).
\<close>

inductive task_step :: "server \<Rightarrow> server \<Rightarrow> bool" where
  post: "(\<And>x b. schema x = Inr b \<Longrightarrow> ti_status b \<noteq> Some Done) \<Longrightarrow> task_step s (snd (tasks_POST schema w req s))"
| put_all: "sql_order (sql_ord w) \<Longrightarrow> task_step s (snd (tasks_PUT bschema w req s))"
| put_one: "sql_order (sql_ord w) \<Longrightarrow> task_step s (snd (task_PUT uschema i w req s))"
| delete: "task_step s (snd (task_DELETE i w req s))"
| review: "task_step s (snd (quality_review_POST rschema w req s))"

lemmas gate_route = mutating_route_inv [where P = gate_db]

lemmas gate_body = with_body_inv [where P = gate_db]

interpretation gate: invariant_system "\<lambda>s. s = init_server" task_step "\<lambda>s. gate_db (db s)"
proof
  show "gate_db (db s)" if "s = init_server" for s
    using that by (simp add: gate_db_def init_server_def empty_db_def tbl_empty_def tbl_wf_def)
  show "gate_db (db t)" if "gate_db (db s)" "task_step s t" for s t
    using that(2,1)
  proof (induction rule: task_step.induct)
    case (post schema s w req)
    then show ?case unfolding tasks_POST_def
      by (intro gate_route gate_body gate_db_create_task) (auto dest!: validateBody_Inr)
  next
    case (put_all w s schema req)
    then show ?case unfolding tasks_PUT_def
      by (intro gate_route gate_body gate_db_update_tasks) auto
  next
    case (put_one w s schema i req)
    then show ?case unfolding task_PUT_def
      by (intro gate_route gate_body gate_db_update_task) auto
  next
    case (delete s i w req)
    then show ?case unfolding task_DELETE_def
      by (intro gate_route gate_db_delete_task) auto
  next
    case (review s schema w req)
    then show ?case unfolding quality_review_POST_def
      by (intro gate_route gate_body gate_db_create_review) auto
  qed
qed

text \<open>
  C4. The Aegis gate holds: in every state that any sequence of task and review requests can
  reach (creation with status done excepted), a task that is done has an approving review by
  \<open>aegis\<close> in its own workspace.
\<close>

theorem done_tasks_approved:
  assumes "task_step\<^sup>*\<^sup>* init_server s" and "t \<in> set (rows (tasks (db s)))" and "t_status t = Done"
  shows "\<exists>q \<in> set (rows (quality_reviews (db s))). q_task_id q = t_id t \<and> q_workspace_id q = t_workspace_id t \<and>
    q_reviewer q = ''aegis'' \<and> q_status q = ''approved''"
  using gate.reachable_inv [OF refl assms(1)] assms(2,3) by (simp add: gate_db_def approved_task_def)

text \<open>
  The newest Aegis review decides: when one Aegis review of the task is newer than all the
  others, moving the task to done by \<open>PUT /api/tasks/[id]\<close> is refused with 403 and no change
  unless that review approves, and otherwise the task is done afterwards.
\<close>

theorem newest_review_decides:
  assumes "sql_order (sql_ord w)" and "parse_int idp = Some i"
    and "find_task i (usr_workspace_id u) s \<noteq> None" and "tu_status b = Some Done"
    and "q \<in> set (aegis_reviews i (usr_workspace_id u) s)"
    and "\<And>q'. q' \<in> set (aegis_reviews i (usr_workspace_id u) s) \<Longrightarrow> q' \<noteq> q \<Longrightarrow> q_created_at q' < q_created_at q"
  shows "if q_status q = ''approved''
    then \<exists>t. find_task i (usr_workspace_id u) (snd (update_task idp w u b s)) = Some t \<and> t_status t = Done
    else update_task idp w u b s =
      (Inr (error_response 403 ''Aegis approval is required to move task to done.''), s)"
proof -
  let ?n = "usr_workspace_id u"
  obtain cur where cur: "find_task i ?n s = Some cur" using assms(3) by auto
  have "hd (order_by_desc (sql_ord w) q_created_at (aegis_reviews i ?n s)) = q"
    using assms(5,6) by (rule sql_order.hd_order_by_desc_strict [OF assms(1)])
  then have appr: "hasAegisApproval w i ?n s \<longleftrightarrow> q_status q = ''approved''"
    using assms(1,5) by (auto simp: hasAegisApproval_hd)
  show ?thesis
  proof (cases "q_status q = ''approved''")
    case True
    have "\<not> no_task_update b" using assms(4) by (simp add: no_task_update_def)
    then have "tasks (db (snd (update_task idp w u b s))) =
        tbl_update (\<lambda>t. t_id t = i \<and> t_workspace_id t = ?n) (apply_task_update w b) (tasks (db s))"
      using True appr assms(2,4) cur by (auto simp: update_task_def Let_def frame_simps split: option.split)
    then have "find_task i ?n (snd (update_task idp w u b s)) =
        map_option (\<lambda>t. if t_id t = i \<and> t_workspace_id t = ?n then apply_task_update w b t else t) (find_task i ?n s)"
      unfolding find_task_def tbl_first_def by (simp add: rows_tbl_update) (rule find_map_id, simp)
    with True cur assms(4) find_task_SomeD [OF cur] show ?thesis by auto
  next
    case False
    with appr assms(2,4) cur show ?thesis by (simp add: update_task_def)
  qed
qed

section \<open>The bulk update is atomic\<close>

lemma hasAegisApproval_cong:
  "quality_reviews (db s) = quality_reviews (db s') \<Longrightarrow> hasAegisApproval w i n s = hasAegisApproval w i n s'"
  by (simp add: hasAegisApproval_def)

definition gate_violation :: "world \<Rightarrow> int \<Rightarrow> (int \<times> task_status) list \<Rightarrow> server \<Rightarrow> bool" where
  "gate_violation w n todo s \<longleftrightarrow>
     (\<exists>i. (i, Done) \<in> set todo \<and> find_task i n s \<noteq> None \<and> \<not> hasAegisApproval w i n s)"

definition moved :: "world \<Rightarrow> (int \<times> task_status) list \<Rightarrow> task_row \<Rightarrow> task_row" where
  "moved w todo t = (case map_of (rev todo) (t_id t) of
     None \<Rightarrow> t | Some st \<Rightarrow> t\<lparr>t_status := st, t_updated_at := now_s w\<rparr>)"

lemma moved_Nil [simp]: "moved w [] = (\<lambda>t. t)"
  by (simp add: moved_def fun_eq_iff)

lemma gate_message: "includes_str ''Aegis approval required'' (''Aegis approval required for task '' @ show_int i)"
  using includes_str_append [of "''Aegis approval required''" "'' for task '' @ show_int i"] by simp

lemma find_task_update:
  assumes "tasks (db s') = tbl_update (\<lambda>t. t_id t = i \<and> t_workspace_id t = n) f (tasks (db s))"
    and "\<And>t. t_id (f t) = t_id t" "\<And>t. t_workspace_id (f t) = t_workspace_id t"
  shows "find_task j n s' = (if j = i then map_option f (find_task j n s) else find_task j n s)"
proof -
  have "find_task j n s' = map_option (\<lambda>t. if t_id t = i \<and> t_workspace_id t = n then f t else t) (find_task j n s)"
    unfolding find_task_def tbl_first_def assms(1) rows_tbl_update
    by (rule find_map_id) (simp add: assms(2,3))
  then show ?thesis by (cases "find_task j n s") (auto dest: find_task_SomeD)
qed

lemma bulk_update_spec:
  assumes "bulk_update w actor n todo s = (res, s')"
  shows "case res of Inl msg \<Rightarrow> gate_violation w n todo s \<and> includes_str ''Aegis approval required'' msg
    | Inr _ \<Rightarrow> \<not> gate_violation w n todo s \<and> (\<forall>j. find_task j n s' = map_option (moved w todo) (find_task j n s))"
  using assms
proof (induction todo arbitrary: s)
  case Nil
  then show ?case by (auto simp: gate_violation_def option.map_ident)
next
  case (Cons x todo)
  obtain i st where x: "x = (i, st)" by (cases x)
  show ?case
  proof (cases "find_task i n s")
    case None
    have "map_option (moved w (x # todo)) (find_task j n s) = map_option (moved w todo) (find_task j n s)" for j
      using None find_task_SomeD [of j n s]
      by (cases "find_task j n s") (auto simp: x moved_def map_of_append split: option.split if_splits)
    moreover have "gate_violation w n (x # todo) s \<longleftrightarrow> gate_violation w n todo s"
      using None by (auto simp: gate_violation_def x)
    moreover have "bulk_update w actor n todo s = (res, s')" using Cons.prems None by (simp add: x)
    ultimately show ?thesis using Cons.IH [of s] by (cases res) simp_all
  next
    case (Some old)
    show ?thesis
    proof (cases "st = Done \<and> \<not> hasAegisApproval w i n s")
      case True
      with Some Cons.prems have "res = Inl (''Aegis approval required for task '' @ show_int i)" by (auto simp: x)
      with Some True gate_message [of i] show ?thesis by (auto simp: x gate_violation_def)
    next
      case False
      obtain s2 where s2: "bulk_update w actor n todo s2 = (res, s')"
        and q: "quality_reviews (db s2) = quality_reviews (db s)"
        and t: "tasks (db s2) = tbl_update (\<lambda>t. t_id t = i \<and> t_workspace_id t = n)
          (\<lambda>t. t\<lparr>t_status := st, t_updated_at := now_s w\<rparr>) (tasks (db s))"
        using Cons.prems Some False by (auto simp: x Let_def frame_simps simp del: bulk_update.simps(1)
            split: if_splits)
      have f: "find_task j n s2 = (if j = i then map_option (\<lambda>t. t\<lparr>t_status := st, t_updated_at := now_s w\<rparr>)
          (find_task j n s) else find_task j n s)" for j
        by (rule find_task_update [OF t]) simp_all
      have "find_task j n s2 \<noteq> None \<longleftrightarrow> find_task j n s \<noteq> None" for j by (simp add: f)
      then have "gate_violation w n todo s2 \<longleftrightarrow> gate_violation w n (x # todo) s"
        using False hasAegisApproval_cong [OF q] unfolding gate_violation_def x by auto
      moreover have "map_option (moved w todo) (find_task j n s2) = map_option (moved w (x # todo)) (find_task j n s)" for j
        unfolding f by (cases "find_task j n s")
          (auto simp: x moved_def map_of_append dest: find_task_SomeD split: option.split)
      ultimately show ?thesis using Cons.IH [OF s2] by (cases res) simp_all
    qed
  qed
qed

text \<open>
  The bulk update is all or nothing: if some listed task of the caller's workspace is to be
  moved to done without approval, the answer is 403 and the database is what it was; otherwise the
  answer is 200 and every listed task has the last status listed for it, the others unchanged.
\<close>

theorem bulk_update_atomic:
  assumes "update_tasks w u todo s = (Inr r, s')"
  shows "if gate_violation w (usr_workspace_id u) todo s
    then resp_status r = 403 \<and> db s' = db s
    else resp_status r = 200 \<and>
      (\<forall>j. find_task j (usr_workspace_id u) s' = map_option (moved w todo) (find_task j (usr_workspace_id u) s))"
proof -
  obtain res s1 where b: "bulk_update w (usr_username u) (usr_workspace_id u) todo s = (res, s1)"
    by (cases "bulk_update w (usr_username u) (usr_workspace_id u) todo s")
  show ?thesis
  proof (cases res)
    case (Inl msg)
    with bulk_update_spec [OF b] assms b show ?thesis
      by (auto simp: update_tasks_def transaction_def split: if_splits)
  next
    case (Inr x)
    define fin where "fin = fold (\<lambda>(i, st). broadcast w ''task.status_changed''
      (JObj [(''id'', JNum i), (''status'', JStr (task_status_str st)), (''updated_at'', JNum (now_s w))])) todo s1"
    have "s' = fin" and "resp_status r = 200"
      using assms Inr b by (auto simp: update_tasks_def transaction_def fin_def)
    moreover have "find_task j n fin = find_task j n s1" for j n
      by (rule find_task_cong) (simp add: fin_def)
    ultimately show ?thesis
      using bulk_update_spec [OF b] Inr by simp
  qed
qed

section \<open>Workspaces are isolated\<close>

lemma task_view_tasks:
  assumes "ws_rows t_workspace_id n T = ws_rows t_workspace_id n (tasks (db s))"
  shows "task_view n (s\<lparr>db := (db s)\<lparr>tasks := T\<rparr>\<rparr>) = task_view n s"
  using assms by (simp add: task_view_def)

lemma task_view_update:
  assumes "m \<noteq> n" and "\<And>t. t_workspace_id (f t) = t_workspace_id t"
  shows "task_view n (s\<lparr>db := (db s)\<lparr>tasks := tbl_update (\<lambda>t. t_id t = i \<and> t_workspace_id t = m) f (tasks (db s))\<rparr>\<rparr>) = task_view n s"
  by (rule task_view_tasks, rule ws_rows_update) (use assms in auto)

lemma task_view_notify [simp]:
  "m \<noteq> n \<Longrightarrow> task_view n (notify_status w i m cur b s) = task_view n s"
  "m \<noteq> n \<Longrightarrow> task_view n (notify_assignee w i m cur b s) = task_view n s"
  "m \<noteq> n \<Longrightarrow> task_view n (log_task_changes w ac i m cur b s) = task_view n s"
  "m \<noteq> n \<Longrightarrow> task_view n (announce_task w i c m bt s) = task_view n s"
  by (auto simp: notify_status_def notify_assignee_def log_task_changes_def announce_task_def Let_def split: option.split)

lemma task_view_bulk: "m \<noteq> n \<Longrightarrow> task_view n (snd (bulk_update w ac m todo s)) = task_view n s"
  by (induction w ac m todo s rule: bulk_update.induct)
    (auto simp: Let_def task_view_update split: option.split)

lemma task_view_fold_broadcast:
  "task_view n (fold (\<lambda>(i, st). broadcast w (f i st) (g i st)) xs s) = task_view n s"
  by (induction xs arbitrary: s) auto

lemma task_view_db: "db s' = db s \<Longrightarrow> task_view n s' = task_view n s"
  by (simp add: task_view_def)

lemma task_view_create: "usr_workspace_id u \<noteq> n \<Longrightarrow> task_view n (snd (create_task w u b s)) = task_view n s"
  by (auto simp: create_task_def Let_def case_prod_beta intro!: task_view_tasks ws_rows_insert split: option.split)

lemma task_view_update_tasks: "usr_workspace_id u \<noteq> n \<Longrightarrow> task_view n (snd (update_tasks w u b s)) = task_view n s"
proof -
  assume "usr_workspace_id u \<noteq> n"
  then have "task_view n (snd (bulk_update w (usr_username u) (usr_workspace_id u) b s)) = task_view n s"
    by (rule task_view_bulk)
  moreover have "task_view n (s'\<lparr>db := db s\<rparr>) = task_view n s" for s'
    by (rule task_view_db) simp
  ultimately show ?thesis
    by (auto simp: update_tasks_def transaction_def task_view_fold_broadcast split: prod.split sum.split)
qed

lemma task_view_update_task: "usr_workspace_id u \<noteq> n \<Longrightarrow> task_view n (snd (update_task idp w u b s)) = task_view n s"
  by (auto simp: update_task_def Let_def task_view_update split: option.split)

lemma task_view_delete_task: "usr_workspace_id u \<noteq> n \<Longrightarrow> task_view n (snd (delete_task idp w u s)) = task_view n s"
  by (auto simp: delete_task_def Let_def delete_task_rows_def task_view_def logActivity_def tbl_insert_def
      ws_rows_delete ws_rows_def rows_tbl_delete intro!: filter_cong split: option.split)

lemma task_view_create_review: "usr_workspace_id u \<noteq> n \<Longrightarrow> task_view n (snd (create_review w u b s)) = task_view n s"
proof -
  assume n: "usr_workspace_id u \<noteq> n"
  have "task_view n (s\<lparr>db := (db s)\<lparr>quality_reviews := Q\<rparr>\<rparr>) = task_view n s" for Q
    by (simp add: task_view_def)
  with n show ?thesis
    by (auto simp: create_review_def Let_def case_prod_beta task_view_update split: option.split)
qed

interpretation tasks_post: workspace_scoped "tasks_POST schema" "''operator''" task_view for schema
  unfolding tasks_POST_def
  by (rule workspace_scoped_mutating) (simp_all add: with_body_view task_view_create)

interpretation tasks_put: workspace_scoped "tasks_PUT schema" "''operator''" task_view for schema
  unfolding tasks_PUT_def
  by (rule workspace_scoped_mutating) (simp_all add: with_body_view task_view_update_tasks)

interpretation task_put: workspace_scoped "task_PUT schema i" "''operator''" task_view for schema i
  unfolding task_PUT_def
  by (rule workspace_scoped_mutating) (simp_all add: with_body_view task_view_update_task)

interpretation task_delete: workspace_scoped "task_DELETE i" "''operator''" task_view for i
  unfolding task_DELETE_def
  by (rule workspace_scoped_mutating) (simp_all add: task_view_delete_task)

interpretation review_post: workspace_scoped "quality_review_POST schema" "''operator''" task_view for schema
  unfolding quality_review_POST_def
  by (rule workspace_scoped_mutating) (simp_all add: with_body_view task_view_create_review)

text \<open>
  What else belongs to a workspace: its reviews and comments, and the subscriptions to its tasks. Deleting a task reaches them through
  foreign keys, whatever workspace they name; \<open>at_home\<close> says that they name the workspace of their task, and that a
  reply names that of the comment it answers.
\<close>

definition at_home :: "database \<Rightarrow> bool" where
  "at_home d \<longleftrightarrow> tbl_wf t_id (tasks d) \<and>
     (\<forall>t \<in> set (rows (tasks d)). (\<forall>c \<in> set (rows (comments d)). c_task_id c = t_id t \<longrightarrow> c_workspace_id c = t_workspace_id t) \<and>
        (\<forall>q \<in> set (rows (quality_reviews d)). q_task_id q = t_id t \<longrightarrow> q_workspace_id q = t_workspace_id t)) \<and>
     (\<forall>c \<in> set (rows (comments d)). \<forall>c' \<in> set (rows (comments d)). c_parent_id c = Some (c_id c') \<longrightarrow> c_workspace_id c = c_workspace_id c')"

definition task_ids :: "int \<Rightarrow> database \<Rightarrow> int set" where
  "task_ids n d = t_id ` set (ws_rows t_workspace_id n (tasks d))"

definition child_rows :: "int \<Rightarrow> int set \<Rightarrow> database \<Rightarrow> review_row list \<times> comment_row list \<times> subscription_row list" where
  "child_rows n ids d = (ws_rows q_workspace_id n (quality_reviews d), ws_rows c_workspace_id n (comments d),
     filter (\<lambda>r. sub_task_id r \<in> ids) (rows (task_subscriptions d)))"

definition child_view :: "int \<Rightarrow> server \<Rightarrow> review_row list \<times> comment_row list \<times> subscription_row list" where
  "child_view n s = child_rows n (task_ids n (db s)) (db s)"

lemma child_rows_helpers [simp]:
  "child_rows n I (db (logActivity w ty et ei ac de da wsid s)) = child_rows n I (db s)"
  "child_rows n I (db (createNotification w rc ty ti msg st si wsid s)) = child_rows n I (db s)"
  "child_rows n I (db s\<lparr>tasks := T\<rparr>) = child_rows n I (db s)"
  by (simp_all add: child_rows_def frame_simps)

lemma child_rows_subscribe [simp]: "i \<notin> I \<Longrightarrow> child_rows n I (db (ensureTaskSubscription w i a m s)) = child_rows n I (db s)"
  by (auto simp: child_rows_def ensureTaskSubscription_def rows_tbl_insert split: option.split)

lemma child_rows_notify [simp]:
  "child_rows n I (db (notify_status w i m cur b s)) = child_rows n I (db s)"
  "i \<notin> I \<Longrightarrow> child_rows n I (db (notify_assignee w i m cur b s)) = child_rows n I (db s)"
  "child_rows n I (db (log_task_changes w ac i m cur b s)) = child_rows n I (db s)"
  "i \<notin> I \<Longrightarrow> child_rows n I (db (announce_task w i c m bt s)) = child_rows n I (db s)"
  by (auto simp: notify_status_def notify_assignee_def log_task_changes_def announce_task_def Let_def split: option.split)

lemma task_ids_other:
  assumes "at_home (db s)" "find_task i m s = Some t" "m \<noteq> n" shows "i \<notin> task_ids n (db s)"
proof
  assume "i \<in> task_ids n (db s)"
  then obtain t' where t': "t' \<in> set (rows (tasks (db s)))" "t_id t' = i" "t_workspace_id t' = n"
    by (auto simp: task_ids_def ws_rows_def)
  have t: "t \<in> set (rows (tasks (db s)))" "t_id t = i" "t_workspace_id t = m" using find_task_SomeD [OF assms(2)] by auto
  have wf: "tbl_wf t_id (tasks (db s))" using assms(1) by (simp add: at_home_def)
  have "t = t'" using tbl_get_Some_unique [OF wf t(1)] tbl_get_Some_unique [OF wf t'(1)] t(2) t'(2) by simp
  with t t' assms(3) show False by simp
qed

lemma child_rows_create:
  assumes "at_home (db s)"
  shows "child_rows n (task_ids n (db s)) (db (snd (create_task w u b s))) = child_rows n (task_ids n (db s)) (db s)"
proof -
  have "seq (tasks (db s)) + 1 \<notin> task_ids n (db s)"
    using assms by (force simp: at_home_def tbl_wf_def task_ids_def ws_rows_def)
  then show ?thesis
    by (auto simp: create_task_def Let_def case_prod_beta tbl_insert_def split: option.split)
qed

lemma child_rows_bulk: "child_rows n I (db (snd (bulk_update w ac m todo s))) = child_rows n I (db s)"
  by (induction w ac m todo s rule: bulk_update.induct) (auto simp: Let_def split: option.split)

lemma child_rows_update_tasks: "child_rows n I (db (snd (update_tasks w u b s))) = child_rows n I (db s)"
  using child_rows_bulk [of n I w "usr_username u" "usr_workspace_id u" b s]
  by (auto simp: update_tasks_def transaction_def split: prod.split sum.split)

lemma child_rows_update_task:
  assumes "at_home (db s)" "usr_workspace_id u \<noteq> n"
  shows "child_rows n (task_ids n (db s)) (db (snd (update_task idp w u b s))) = child_rows n (task_ids n (db s)) (db s)"
  using task_ids_other [OF assms(1) _ assms(2)]
  by (auto simp: update_task_def Let_def split: option.split)

lemma child_rows_create_review:
  assumes "usr_workspace_id u \<noteq> n"
  shows "child_rows n I (db (snd (create_review w u b s))) = child_rows n I (db s)"
proof -
  have "child_rows n I (d\<lparr>quality_reviews := snd (tbl_insert mk (quality_reviews d))\<rparr>) = child_rows n I d"
    if "\<And>i. q_workspace_id (mk i) \<noteq> n" for mk d
    using that by (simp add: child_rows_def ws_rows_insert)
  with assms show ?thesis
    by (auto simp: create_review_def Let_def case_prod_beta split: option.split)
qed

lemma child_rows_delete_task:
  assumes "at_home (db s)" "usr_workspace_id u \<noteq> n"
  shows "child_rows n (task_ids n (db s)) (db (snd (delete_task idp w u s))) = child_rows n (task_ids n (db s)) (db s)"
proof -
  have "child_rows n (task_ids n (db s)) (delete_task_rows i m (db s)) = child_rows n (task_ids n (db s)) (db s)"
    if t: "find_task i m s = Some t" "m \<noteq> n" for i m t
  proof -
    have own: "t \<in> set (rows (tasks (db s)))" "t_id t = i" "t_workspace_id t = m" using find_task_SomeD [OF t(1)] by auto
    let ?gone = "set (map c_id (tbl_select (\<lambda>c. c_task_id c = i) (comments (db s))))"
    have c: "c_workspace_id c = m" if "c \<in> set (rows (comments (db s)))" "c_task_id c = i" for c
      using assms(1) own that unfolding at_home_def by blast
    have q: "q_workspace_id q = m" if "q \<in> set (rows (quality_reviews (db s)))" "q_task_id q = i" for q
      using assms(1) own that unfolding at_home_def by blast
    have p: "c_workspace_id x = m" if x: "x \<in> set (rows (comments (db s)))" "c_parent_id x = Some p" "p \<in> ?gone" for x p
    proof -
      obtain y where "y \<in> set (rows (comments (db s)))" "c_task_id y = i" "c_id y = p" using x(3) by (auto simp: tbl_select_def)
      with c x(1,2) assms(1) show ?thesis unfolding at_home_def by blast
    qed
    have "ws_rows q_workspace_id n (tbl_delete (\<lambda>q. q_task_id q = i) (quality_reviews (db s))) = ws_rows q_workspace_id n (quality_reviews (db s))"
      using q t(2) by (auto simp: ws_rows_def rows_tbl_delete intro!: filter_cong)
    moreover have "filter (\<lambda>c. c_workspace_id c = n) (map (\<lambda>x. if (case c_parent_id x of None \<Rightarrow> False | Some p \<Rightarrow> p \<in> ?gone)
        then x\<lparr>c_parent_id := None\<rparr> else x) (filter (\<lambda>c. c_task_id c \<noteq> i) xs)) = filter (\<lambda>c. c_workspace_id c = n) xs"
      if "set xs \<subseteq> set (rows (comments (db s)))" for xs
      using that c p t(2) by (induction xs) (auto split: option.splits)
    then have "ws_rows c_workspace_id n (comments (delete_task_rows i m (db s))) = ws_rows c_workspace_id n (comments (db s))"
      by (simp add: delete_task_rows_def Let_def ws_rows_def rows_tbl_update rows_tbl_delete)
    moreover have "filter (\<lambda>r. sub_task_id r \<in> task_ids n (db s)) (filter (\<lambda>r. sub_task_id r \<noteq> i) ys) =
        filter (\<lambda>r. sub_task_id r \<in> task_ids n (db s)) ys" for ys
      using task_ids_other [OF assms(1) t] by (auto intro!: filter_cong)
    ultimately show ?thesis
      by (simp add: child_rows_def delete_task_rows_def Let_def rows_tbl_delete del: filter_filter)
  qed
  with assms(2) show ?thesis by (auto simp: delete_task_def Let_def split: option.split)
qed

lemma child_rows_route:
  assumes "at_home (db s)" and "\<nexists>u. requireRole w req ''operator'' s = Inr (Auth_user u) \<and> usr_workspace_id u = n"
    and "\<And>u s'. db s' = db s \<Longrightarrow> usr_workspace_id u \<noteq> n \<Longrightarrow>
      child_rows n (task_ids n (db s')) (db (snd (k w req u s'))) = child_rows n (task_ids n (db s')) (db s')"
  shows "child_rows n (task_ids n (db s)) (db (snd (mutating_route ''operator'' k w req s))) = child_rows n (task_ids n (db s)) (db s)"
proof (rule mutating_route_inv)
  fix u st
  assume "requireRole w req ''operator'' s = Inr (Auth_user u)"
  then have "usr_workspace_id u \<noteq> n" using assms(2) by blast
  from assms(3) [OF _ this, of "s\<lparr>mutation_store := st\<rparr>"]
  show "child_rows n (task_ids n (db s)) (db (snd (k w req u (s\<lparr>mutation_store := st\<rparr>)))) = child_rows n (task_ids n (db s)) (db s)"
    by simp
qed (rule refl)

lemma child_view_route:
  assumes "at_home (db s)" and "\<nexists>u. requireRole w req ''operator'' s = Inr (Auth_user u) \<and> usr_workspace_id u = n"
    and "h \<in> {tasks_POST cs, tasks_PUT bs, task_PUT us i, task_DELETE i, quality_review_POST qs}"
  shows "child_rows n (task_ids n (db s)) (db (snd (h w req s))) = child_rows n (task_ids n (db s)) (db s)"
proof -
  have home: "at_home (db s')" if "db s' = db s" for s' using assms(1) that by simp
  have body: "child_rows n I (db (snd (with_body parse req s' k))) = child_rows n I (db s')"
    if "\<And>b. child_rows n I (db (snd (k b))) = child_rows n I (db s')" for I parse k s'
    using that by (simp add: with_body_def split: sum.split)
  note route = child_rows_route [OF assms(1,2)]
  show ?thesis
    using assms(3)
  proof (elim insertE emptyE)
    assume "h = tasks_POST cs"
    then show ?thesis unfolding tasks_POST_def by (auto intro!: route body child_rows_create home)
  next
    assume "h = tasks_PUT bs"
    then show ?thesis unfolding tasks_PUT_def by (auto intro!: route body child_rows_update_tasks)
  next
    assume "h = task_PUT us i"
    then show ?thesis unfolding task_PUT_def by (auto intro!: route body child_rows_update_task home)
  next
    assume "h = task_DELETE i"
    then show ?thesis unfolding task_DELETE_def by (auto intro!: route child_rows_delete_task home)
  next
    assume "h = quality_review_POST qs"
    then show ?thesis unfolding quality_review_POST_def by (auto intro!: route body child_rows_create_review)
  qed
qed

text \<open>
  C5. Workspaces are isolated: when comments and reviews name the workspace of their task (and replies that of the comment they answer),
  a request to a mutating task or review route changes the tasks, reviews, comments, subscriptions to tasks, activities and
  notifications of workspace \<open>n\<close> only if its caller is an operator of that very workspace.
\<close>

theorem task_routes_isolated:
  assumes "h \<in> {tasks_POST cs, tasks_PUT bs, task_PUT us i, task_DELETE i, quality_review_POST qs}"
    and "\<nexists>u. requireRole w req ''operator'' s = Inr (Auth_user u) \<and> usr_workspace_id u = n"
    and "at_home (db s)"
  shows "task_view n (snd (h w req s)) = task_view n s \<and> child_view n (snd (h w req s)) = child_view n s"
proof -
  have "task_view n (snd (h w req s)) = task_view n s"
    using assms(1)
    by (elim insertE emptyE)
      (use tasks_post.isolated [OF assms(2)] tasks_put.isolated [OF assms(2)] task_put.isolated [OF assms(2)]
        task_delete.isolated [OF assms(2)] review_post.isolated [OF assms(2)] in simp_all)
  moreover from this have "task_ids n (db (snd (h w req s))) = task_ids n (db s)"
    by (simp add: task_view_def task_ids_def)
  ultimately show ?thesis
    using child_view_route [OF assms(3,2,1)] by (simp add: child_view_def)
qed

section \<open>Deletion cascades, creation can be read back\<close>

definition parents_exist :: "comment_row tbl \<Rightarrow> bool" where
  "parents_exist C \<longleftrightarrow> (\<forall>c \<in> set (rows C). \<forall>p. c_parent_id c = Some p \<longrightarrow> p \<in> c_id ` set (rows C))"

text \<open>
  Deleting a task takes with it everything that refers to it and nothing else: afterwards the
  task is gone, no comment, subscription or review names it, every other task is as it was, and no
  comment answers a comment that no longer exists.
\<close>

theorem delete_task_cascades:
  assumes "tbl_wf t_id (tasks (db s))" and "parents_exist (comments (db s))"
    and "find_task i (usr_workspace_id u) s = Some t" and "delete_task (show_int i) w u s = (Inr r, s')"
  shows "resp_status r = 200 \<and>
    (\<forall>j. tbl_get t_id (tasks (db s')) j = (if j = i then None else tbl_get t_id (tasks (db s)) j)) \<and>
    i \<notin> c_task_id ` set (rows (comments (db s'))) \<and> i \<notin> sub_task_id ` set (rows (task_subscriptions (db s'))) \<and>
    i \<notin> q_task_id ` set (rows (quality_reviews (db s'))) \<and> parents_exist (comments (db s'))"
proof -
  have s': "tasks (db s') = tasks (delete_task_rows i (usr_workspace_id u) (db s))"
    "comments (db s') = comments (delete_task_rows i (usr_workspace_id u) (db s))"
    "task_subscriptions (db s') = task_subscriptions (delete_task_rows i (usr_workspace_id u) (db s))"
    "quality_reviews (db s') = quality_reviews (delete_task_rows i (usr_workspace_id u) (db s))"
    and r: "resp_status r = 200"
    using assms(3,4) by (auto simp: delete_task_def Let_def frame_simps)
  have "tbl_get t_id (tasks (db s)) i = Some t" and "t_workspace_id t = usr_workspace_id u" "t_id t = i"
    using assms(1,3) find_task_SomeD [OF assms(3)] by (auto simp: find_task_eq split: option.splits if_splits)
  then have "tbl_get t_id (tasks (db s')) j = (if j = i then None else tbl_get t_id (tasks (db s)) j)" for j
    using assms(1) by (auto simp: s' delete_task_rows_def Let_def task_rows.lookup_delete
        dest: task_rows.lookup_id split: option.splits)
  moreover have "parents_exist (comments (db s'))"
  proof -
    let ?D = "tbl_delete (\<lambda>c. c_task_id c = i) (comments (db s))"
    let ?p = "\<lambda>c. case c_parent_id c of None \<Rightarrow> False | Some q \<Rightarrow> q \<in> set (map c_id (tbl_select (\<lambda>c. c_task_id c = i) (comments (db s))))"
    have C: "comments (db s') = tbl_update ?p (\<lambda>c. c\<lparr>c_parent_id := None\<rparr>) ?D"
      by (simp add: s' delete_task_rows_def Let_def)
    have "q \<in> c_id ` set (rows ?D)" if "c \<in> set (rows ?D)" "\<not> ?p c" "c_parent_id c = Some q" for c q
      using that assms(2) by (force simp: parents_exist_def tbl_rows)
    moreover have "c_id ` set (rows (comments (db s'))) = c_id ` set (rows ?D)"
      unfolding C by (rule tbl_update_image) simp
    ultimately show ?thesis
      unfolding parents_exist_def by (auto simp: C rows_tbl_update split: if_splits)
  qed
  ultimately show ?thesis
    using r by (auto simp: s' delete_task_rows_def Let_def tbl_rows split: if_splits)
qed

lemma create_task_result:
  assumes "tbl_wf t_id (tasks (db s))" and "create_task w u b s = (Inr r, s')" and "resp_status r = 201"
  obtains t where "resp_body r = JObj [(''task'', task_json t)]" "t_id t = seq (tasks (db s)) + 1"
    "t_title t = ti_title b" "t_workspace_id t = usr_workspace_id u"
    "find_task (t_id t) (usr_workspace_id u) s' = Some t" "set_session r = None"
proof -
  let ?c = "case ti_created_by b of Some v \<Rightarrow> v | None \<Rightarrow> or_else (Some (usr_username u)) ''system''"
  let ?mk = "new_task w ?c (usr_workspace_id u) b"
  let ?t = "?mk (seq (tasks (db s)) + 1)"
  let ?s1 = "announce_task w (seq (tasks (db s)) + 1) ?c (usr_workspace_id u) b
    (s\<lparr>db := (db s)\<lparr>tasks := snd (tbl_insert ?mk (tasks (db s)))\<rparr>\<rparr>)"
  have new: "\<not> (\<exists>t \<in> set (rows (tasks (db s))). t_title t = ti_title b \<and> t_workspace_id t = usr_workspace_id u)"
  proof
    assume "\<exists>t \<in> set (rows (tasks (db s))). t_title t = ti_title b \<and> t_workspace_id t = usr_workspace_id u"
    then have "fst (create_task w u b s) = Inr (error_response 409 ''Task with this title already exists'')"
      unfolding create_task_def Let_def by (simp only: if_True simp_thms fst_conv)
    with assms(2,3) show False by simp
  qed
  then have *: "tasks (db s') = snd (tbl_insert ?mk (tasks (db s)))"
    using create_task_tables(1) [of w u b s] by (simp only: assms(2) snd_conv if_False)
  have eq: "create_task w u b s = (case find_task (seq (tasks (db s)) + 1) (usr_workspace_id u) ?s1 of
      None \<Rightarrow> (Inr (error_response 500 ''Failed to create task''), ?s1)
    | Some t \<Rightarrow> (Inr (json_response 201 (JObj [(''task'', task_json t)])), broadcast w ''task.created'' (task_json t) ?s1))"
    using new unfolding create_task_def Let_def case_prod_beta by (simp only: if_False fst_tbl_insert)
  have "tbl_get t_id (tasks (db s')) (seq (tasks (db s)) + 1) = Some ?t"
    unfolding * using task_rows.insert_then_get [OF assms(1), of ?mk] by (simp add: tbl_insert_def)
  moreover have "tbl_wf t_id (tasks (db s'))" unfolding * using assms(1) by (simp add: task_rows.wf_insert)
  ultimately have f: "find_task (t_id ?t) (usr_workspace_id u) s' = Some ?t" by (simp add: find_task_eq)
  have "resp_body r = JObj [(''task'', task_json ?t)] \<and> set_session r = None"
    using eq f find_task_cong [of ?s1 s'] unfolding assms(2) by (simp add: json_response_def frame_simps *)
  with f show thesis by (intro that [of ?t]) auto
qed

text \<open>
  A created task can be read back: after \<open>POST\<close> answers 201 the task has a fresh id, and
  \<open>GET /api/tasks/[id]\<close> by the same user answers 200 with the very JSON that the creation returned.
\<close>

theorem created_task_readable:
  assumes "tbl_wf t_id (tasks (db s))" and "create_task w u b s = (Inr r, s')" and "resp_status r = 201"
  shows "\<exists>i. tbl_get t_id (tasks (db s)) i = None \<and> jget ''task'' (resp_body r) \<noteq> None \<and>
    get_task (show_int i) u s' = (Inr (json_response 200 (resp_body r)), s')"
proof -
  from create_task_result [OF assms] obtain t where t: "resp_body r = JObj [(''task'', task_json t)]"
    "t_id t = seq (tasks (db s)) + 1" "find_task (t_id t) (usr_workspace_id u) s' = Some t" by metis
  have "tbl_get t_id (tasks (db s)) (t_id t) = None"
    using assms(1) t(2) by (auto simp: tbl_get_None tbl_wf_def)
  with t show ?thesis by (intro exI [of _ "t_id t"]) (simp add: get_task_def)
qed

section \<open>Examples\<close>

definition demo_task_input :: task_input where
  "demo_task_input = \<lparr>ti_title = ''Ship it'', ti_description = None, ti_status = None, ti_priority = None,
     ti_assigned_to = None, ti_created_by = None, ti_due_date = None, ti_estimated_hours = None,
     ti_tags = None, ti_metadata = None\<rparr>"

definition demo_review :: review_input where
  "demo_review = \<lparr>ri_task_id = 1, ri_reviewer = ''aegis'', ri_status = ''approved'', ri_notes = ''fine''\<rparr>"

definition demo_task_update :: task_update where
  "demo_task_update = \<lparr>tu_title = None, tu_description = None, tu_status = Some Done, tu_priority = None,
     tu_assigned_to = None, tu_due_date = None, tu_estimated_hours = None, tu_actual_hours = None,
     tu_tags = None, tu_metadata = None\<rparr>"

definition demo_body_request :: request where
  "demo_body_request = demo_request\<lparr>req_body := Some JNull\<rparr>"

definition demo_caller :: user where
  "demo_caller = api_user init_server"

lemma demo_caller_workspace: "usr_workspace_id demo_caller = 1"
  by (simp add: api_user_def getDefaultWorkspaceId_def init_server_def empty_db_def tbl_first_def demo_caller_def)

definition demo_task_state :: server where
  "demo_task_state = snd (create_task demo_world demo_caller demo_task_input init_server)"

definition demo_rejected_state :: server where
  "demo_rejected_state = snd (create_review demo_world demo_caller (demo_review\<lparr>ri_status := ''rejected''\<rparr>) demo_task_state)"

text \<open>A deployment with the limiters switched off, in which the API key holder is served at once.\<close>

definition demo_quiet_world :: world where
  "demo_quiet_world = demo_world\<lparr>getenv := [''API_KEY'' \<mapsto> ''demo-key'', ''MC_DISABLE_RATE_LIMIT'' \<mapsto> ''1'']\<rparr>"

definition demo_posted :: server where
  "demo_posted = snd (tasks_POST (\<lambda>_. Inr demo_task_input) demo_quiet_world demo_body_request init_server)"

definition demo_done :: server where
  "demo_done = snd (quality_review_POST (\<lambda>_. Inr demo_review) demo_quiet_world demo_body_request demo_posted)"

lemma mutating_demo:
  "mutating_route ''operator'' k demo_quiet_world demo_body_request s = k demo_quiet_world demo_body_request (api_user s) s"
proof -
  have "requireRole demo_quiet_world demo_body_request ''operator'' s = Inr (Auth_user (api_user s))"
    by (simp add: requireRole_def getUserFromRequest_def parseCookie_def match_cookie_def starts_with_def
        user_from_api_key_def demo_quiet_world_def demo_request_def demo_body_request_def api_user_def Let_def)
  moreover have "limiter_off demo_quiet_world mutationLimiter_options"
    by (simp add: limiter_off_def demo_quiet_world_def mutationLimiter_options_def)
  ultimately show ?thesis
    by (simp add: mutating_route_def with_role_def with_mutation_limit_def checkRateLimit_def)
qed

lemma with_body_demo: "with_body (\<lambda>_. Inr b) demo_body_request s k = k b"
  by (simp add: with_body_def validateBody_def demo_body_request_def)

lemma update_tasks_returns: "\<exists>r s'. update_tasks w u todo s = (Inr r, s')"
  unfolding update_tasks_def
  by (cases "transaction (bulk_update w (usr_username u) (usr_workspace_id u) todo) s"; cases "fst (transaction (bulk_update w (usr_username u) (usr_workspace_id u) todo) s)")
    (auto simp del: fold_simps)

lemmas demo_task_defs = demo_caller_def api_user_def init_server_def empty_db_def tbl_empty_def demo_world_def
  create_task_def demo_task_input_def new_task_def tbl_insert_def find_task_def tbl_first_def
  announce_task_def logActivity_def ensureTaskSubscription_def broadcast_def now_s_def getDefaultWorkspaceId_def
  or_null_def Let_def demo_task_state_def

lemma demo_task_state_tables:
  "\<exists>t. rows (tasks (db demo_task_state)) = [t] \<and> t_id t = 1 \<and> t_workspace_id t = 1 \<and> t_status t = Inbox"
  "quality_reviews (db demo_task_state) = tbl_empty" "comments (db demo_task_state) = tbl_empty"
  "seq (tasks (db demo_task_state)) = 1"
  by (simp_all add: demo_task_defs)

theorem bulk_update_atomic_witness:
  "\<exists>r s'. update_tasks demo_world demo_caller [(1, Review), (1, Done)] demo_task_state = (Inr r, s') \<and>
     resp_status r = 403 \<and> db s' = db demo_task_state"
proof -
  obtain r s' where *: "update_tasks demo_world demo_caller [(1, Review), (1, Done)] demo_task_state = (Inr r, s')"
    using update_tasks_returns by blast
  have "gate_violation demo_world (usr_workspace_id demo_caller) [(1, Review), (1, Done)] demo_task_state"
    using demo_task_state_tables
    by (auto simp: gate_violation_def find_task_def tbl_first_def hasAegisApproval_def tbl_empty_def tbl_select_def
        order_by_desc_def scan_order_def demo_world_def demo_caller_def api_user_def getDefaultWorkspaceId_def
        init_server_def empty_db_def split: list.splits)
  with bulk_update_atomic [OF *] * show ?thesis by auto
qed

lemma demo_posted_eq: "demo_posted = snd (create_task demo_quiet_world demo_caller demo_task_input init_server)"
  by (simp add: demo_posted_def tasks_POST_def mutating_demo with_body_demo demo_caller_def)

lemma demo_done_eq: "demo_done = snd (create_review demo_quiet_world (api_user demo_posted) demo_review demo_posted)"
  by (simp add: demo_done_def quality_review_POST_def mutating_demo with_body_demo)

lemma demo_done_reachable: "task_step\<^sup>*\<^sup>* init_server demo_done"
proof -
  have "task_step init_server demo_posted"
    unfolding demo_posted_def by (rule task_step.post) (auto simp: demo_task_input_def)
  moreover have "task_step demo_posted demo_done"
    unfolding demo_done_def by (rule task_step.review)
  ultimately show ?thesis by (rule converse_rtranclp_into_rtranclp [OF _ r_into_rtranclp])
qed

lemma demo_done_tasks: "\<exists>t. rows (tasks (db demo_done)) = [t] \<and> t_status t = Done \<and> t_id t = 1"
proof -
  have "rows (tasks (db demo_posted)) = [new_task demo_quiet_world ''api'' 1 demo_task_input 1]"
    and "usr_workspace_id (api_user demo_posted) = 1"
    unfolding demo_posted_eq by (simp_all add: demo_task_defs demo_quiet_world_def)
  then show ?thesis
    by (simp add: demo_done_eq create_review_def demo_review_def find_task_def tbl_first_def Let_def
        tbl_insert_def tbl_rows frame_simps)
qed

theorem done_tasks_approved_witness:
  "\<exists>t q. t \<in> set (rows (tasks (db demo_done))) \<and> t_status t = Done \<and> q \<in> set (rows (quality_reviews (db demo_done))) \<and>
     q_task_id q = t_id t \<and> q_reviewer q = ''aegis'' \<and> q_status q = ''approved''"
proof -
  obtain t where t: "t \<in> set (rows (tasks (db demo_done)))" "t_status t = Done"
    using demo_done_tasks by auto
  from done_tasks_approved [OF demo_done_reachable this] t show ?thesis by blast
qed

lemma demo_rejected_tables:
  "\<exists>q. aegis_reviews 1 1 demo_rejected_state = [q] \<and> q_status q = ''rejected''"
  "find_task 1 1 demo_rejected_state \<noteq> None"
proof -
  obtain t where t: "rows (tasks (db demo_task_state)) = [t]" "t_id t = 1" "t_workspace_id t = 1"
    using demo_task_state_tables(1) by blast
  have ws: "usr_workspace_id demo_caller = 1" by (simp add: demo_task_defs)
  have f: "find_task 1 1 demo_task_state = Some t" using t by (simp add: find_task_def tbl_first_def)
  then show "\<exists>q. aegis_reviews 1 1 demo_rejected_state = [q] \<and> q_status q = ''rejected''"
    using demo_task_state_tables(2)
    by (simp add: demo_rejected_state_def create_review_def demo_review_def ws Let_def tbl_insert_def aegis_reviews_def
        tbl_select_def frame_simps tbl_empty_def)
  have "tasks (db demo_rejected_state) = tasks (db demo_task_state)"
    using f by (simp add: demo_rejected_state_def create_review_def demo_review_def ws Let_def tbl_insert_def frame_simps)
  from find_task_cong [OF this] f show "find_task 1 1 demo_rejected_state \<noteq> None" by simp
qed

theorem newest_review_decides_witness:
  "update_task ''1'' demo_world demo_caller demo_task_update demo_rejected_state =
     (Inr (error_response 403 ''Aegis approval is required to move task to done.''), demo_rejected_state)"
proof -
  obtain q where q: "aegis_reviews 1 1 demo_rejected_state = [q]" "q_status q = ''rejected''"
    using demo_rejected_tables(1) by blast
  have ws: "usr_workspace_id demo_caller = 1" by (simp add: demo_task_defs)
  have "sql_order (sql_ord demo_world)" by (simp add: demo_world_def scan.sql_order_axioms)
  moreover have "parse_int ''1'' = Some 1" by (simp add: parse_int_def parse_unsigned_def starts_with_def is_ws_def is_digit_def digits_value_def)
  ultimately show ?thesis
    using newest_review_decides [of demo_world "''1''" 1 demo_caller demo_rejected_state demo_task_update q]
      demo_rejected_tables(2) q by (simp add: ws demo_task_update_def)
qed

theorem task_routes_isolated_witness:
  "task_view 2 (snd (task_DELETE ''1'' demo_quiet_world demo_body_request demo_task_state)) = task_view 2 demo_task_state \<and>
   child_view 2 (snd (task_DELETE ''1'' demo_quiet_world demo_body_request demo_task_state)) = child_view 2 demo_task_state"
proof (rule task_routes_isolated [of _ _ _ _ "''1''"])
  have "requireRole demo_quiet_world demo_body_request ''operator'' s = Inr (Auth_user u) \<Longrightarrow> u = api_user s" for u s
    by (simp add: requireRole_def getUserFromRequest_def parseCookie_def match_cookie_def starts_with_def
        user_from_api_key_def demo_quiet_world_def demo_request_def demo_body_request_def api_user_def Let_def)
  moreover have "usr_workspace_id (api_user demo_task_state) = 1"
    by (simp add: api_user_def getDefaultWorkspaceId_def demo_task_state_def)
      (simp add: demo_task_defs)
  ultimately show "\<nexists>u. requireRole demo_quiet_world demo_body_request ''operator'' demo_task_state = Inr (Auth_user u) \<and>
      usr_workspace_id u = 2" by fastforce
  show "at_home (db demo_task_state)"
    using demo_task_state_tables by (auto simp: at_home_def tbl_wf_def tbl_empty_def)
qed simp

theorem delete_task_cascades_witness:
  "\<exists>r s'. delete_task (show_int 1) demo_world demo_caller demo_task_state = (Inr r, s') \<and> resp_status r = 200 \<and>
     tbl_get t_id (tasks (db s')) 1 = None"
proof -
  obtain t where t: "rows (tasks (db demo_task_state)) = [t]" "t_id t = 1" "t_workspace_id t = 1"
    using demo_task_state_tables(1) by blast
  have ws: "usr_workspace_id demo_caller = 1" by (simp add: demo_task_defs)
  have f: "find_task 1 1 demo_task_state = Some t" using t by (simp add: find_task_def tbl_first_def)
  obtain r s' where *: "delete_task (show_int 1) demo_world demo_caller demo_task_state = (Inr r, s')"
    using f by (simp add: delete_task_def ws Let_def)
  have "tbl_wf t_id (tasks (db demo_task_state))" using t demo_task_state_tables(4) by (simp add: tbl_wf_def)
  moreover have "parents_exist (comments (db demo_task_state))"
    by (simp add: demo_task_state_tables(3) parents_exist_def tbl_empty_def)
  ultimately show ?thesis using delete_task_cascades [OF _ _ _ *] f ws * by auto
qed

theorem created_task_readable_witness:
  "\<exists>r s' i. create_task demo_world demo_caller demo_task_input init_server = (Inr r, s') \<and> resp_status r = 201 \<and>
     get_task (show_int i) demo_caller s' = (Inr (json_response 200 (resp_body r)), s')"
proof -
  obtain r s' where *: "create_task demo_world demo_caller demo_task_input init_server = (Inr r, s')" "resp_status r = 201"
    by (simp add: demo_task_defs)
  have "tbl_wf t_id (tasks (db init_server))" by (simp add: init_server_def empty_db_def)
  from created_task_readable [OF this *] * show ?thesis by blast
qed

text \<open>
  The one way around the gate: \<open>POST /api/tasks\<close> accepts status done, and the created task
  is done without any review.
\<close>

theorem tasks_POST_done:
  "\<exists>s. s = snd (tasks_POST (\<lambda>_. Inr (demo_task_input\<lparr>ti_status := Some Done\<rparr>)) demo_quiet_world demo_body_request init_server) \<and>
     (\<exists>t. rows (tasks (db s)) = [t] \<and> t_status t = Done) \<and> rows (quality_reviews (db s)) = []"
proof -
  have "tasks_POST (\<lambda>_. Inr (demo_task_input\<lparr>ti_status := Some Done\<rparr>)) demo_quiet_world demo_body_request init_server =
      create_task demo_quiet_world (api_user init_server) (demo_task_input\<lparr>ti_status := Some Done\<rparr>) init_server"
    by (simp add: tasks_POST_def mutating_demo with_body_demo)
  then show ?thesis
    by (simp add: create_task_tables rows_tbl_insert init_server_def empty_db_def tbl_empty_def demo_task_input_def)
qed

end
