(* ===== verification/MC_Pipelines.thy ===== *)
theory MC_Pipelines
  imports MC_Tasks
begin

text \<open>
  Pipelines and their runs: \<open>src/app/api/pipelines/route.ts\<close> and
  \<open>src/app/api/pipelines/run/route.ts\<close>. Starting and advancing a run awaits the external
  command \<open>openclaw agent\<close>; the code before and after the await are two atomic sections, and other
  requests run in between. So \<open>startPipeline\<close> and \<open>advanceRun\<close> are each a first phase that
  replies or suspends, and a second phase that resumes; run back to back they are the handlers,
  interleaved they are the concurrent server. The command's outcome is an argument.
\<close>

section \<open>Steps and runs as JSON\<close>

fun step_status_str :: "step_status \<Rightarrow> string" where
  "step_status_str Pending = ''pending''"
| "step_status_str Running = ''running''"
| "step_status_str Completed = ''completed''"
| "step_status_str Failed = ''failed''"
| "step_status_str Skipped = ''skipped''"

fun run_status_str :: "run_status \<Rightarrow> string" where
  "run_status_str Run_pending = ''pending''"
| "run_status_str Run_running = ''running''"
| "run_status_str Run_completed = ''completed''"
| "run_status_str Run_failed = ''failed''"
| "run_status_str Run_cancelled = ''cancelled''"

fun on_failure_str :: "on_failure \<Rightarrow> string" where
  "on_failure_str Stop = ''stop''"
| "on_failure_str Continue = ''continue''"

definition run_step_json :: "run_step \<Rightarrow> json" where
  "run_step_json x = JObj [(''step_index'', JNum (int (rs_step_index x))), (''template_id'', JNum (rs_template_id x)),
     (''template_name'', JStr (rs_template_name x)), (''on_failure'', JStr (on_failure_str (rs_on_failure x))),
     (''status'', JStr (step_status_str (rs_status x))), (''spawn_id'', jnull JStr (rs_spawn_id x)),
     (''started_at'', jnull JNum (rs_started_at x)), (''completed_at'', jnull JNum (rs_completed_at x)),
     (''error'', jnull JStr (rs_error x))]"

definition steps_json :: "run_step list \<Rightarrow> json" where
  "steps_json xs = JArr (map run_step_json xs)"

definition run_fields :: "run_row \<Rightarrow> (string \<times> json) list" where
  "run_fields r = [(''id'', JNum (r_id r)), (''pipeline_id'', JNum (r_pipeline_id r)),
     (''status'', JStr (run_status_str (r_status r))), (''current_step'', JNum (int (r_current_step r))),
     (''steps_snapshot'', steps_json (r_steps_snapshot r)), (''started_at'', jnull JNum (r_started_at r)),
     (''completed_at'', jnull JNum (r_completed_at r)), (''triggered_by'', JStr (r_triggered_by r)),
     (''created_at'', JNum (r_created_at r)), (''workspace_id'', JNum (r_workspace_id r))]"

definition find_run :: "int \<Rightarrow> int \<Rightarrow> server \<Rightarrow> run_row option" where
  "find_run i wsid s = tbl_first (\<lambda>r. r_id r = i \<and> r_workspace_id r = wsid) (pipeline_runs (db s))"

definition find_pipeline :: "int \<Rightarrow> int \<Rightarrow> server \<Rightarrow> pipeline_row option" where
  "find_pipeline i wsid s = tbl_first (\<lambda>p. p_id p = i \<and> p_workspace_id p = wsid) (workflow_pipelines (db s))"

text \<open>\<open>UPDATE pipeline_runs SET .. WHERE id = ? AND workspace_id = ?\<close>\<close>

definition update_run :: "int \<Rightarrow> int \<Rightarrow> (run_row \<Rightarrow> run_row) \<Rightarrow> server \<Rightarrow> server" where
  "update_run i wsid f s = s\<lparr>db := (db s)\<lparr>pipeline_runs :=
     tbl_update (\<lambda>r. r_id r = i \<and> r_workspace_id r = wsid) f (pipeline_runs (db s))\<rparr>\<rparr>"

section \<open>Spawning a step\<close>

definition spawn_args :: "string \<Rightarrow> template_row \<Rightarrow> nat \<Rightarrow> string list" where
  "spawn_args pipelineName tpl stepIdx =
     [''agent'', ''--message'',
      ''[Pipeline: '' @ pipelineName @ '' | Step '' @ show_nat (stepIdx + 1) @ ''] '' @ tp_task_prompt tpl,
      ''--timeout'', show_int (tp_timeout_seconds tpl), ''--json'']"

text \<open>
  The rest of \<open>spawnStep\<close> once the command has answered: \<open>Inr\<close> its output, \<open>Inl\<close> the message of
  the error it threw.
\<close>

definition spawnStep ::
  "world \<Rightarrow> string + string \<Rightarrow> run_step list \<Rightarrow> nat \<Rightarrow> int \<Rightarrow> int \<Rightarrow> server \<Rightarrow> run_step list \<times> json \<times> server"
where
  "spawnStep w result steps stepIdx runId wsid s =
     (case result of
        Inr stdout \<Rightarrow>
          (let spawnId = ''pipeline-'' @ show_int runId @ ''-step-'' @ show_nat stepIdx @ ''-'' @ show_int (now_ms w);
               steps' = steps[stepIdx := (steps ! stepIdx)\<lparr>rs_spawn_id := Some spawnId\<rparr>]
           in (steps', JObj [(''success'', JBool True), (''stdout'', JStr (trim stdout))],
               update_run runId wsid (\<lambda>r. r\<lparr>r_steps_snapshot := steps'\<rparr>) s))
      | Inl msg \<Rightarrow>
          (let steps' = steps[stepIdx := (steps ! stepIdx)\<lparr>rs_error := Some msg\<rparr>]
           in (steps', JObj [(''success'', JBool False), (''error'', JStr msg)],
               update_run runId wsid (\<lambda>r. r\<lparr>r_steps_snapshot := steps'\<rparr>) s)))"

text \<open>What a suspended request remembers: what it was doing and the command it waits for.\<close>

datatype inflight =
    Starting int string string int "run_step list" int "string list"
  | Advancing int nat "run_step list" int "string list"

datatype phase = Replied outcome | Suspended inflight server

fun awaited :: "inflight \<Rightarrow> string list" where
  "awaited (Starting _ _ _ _ _ _ args) = args"
| "awaited (Advancing _ _ _ _ args) = args"

section \<open>Starting a run\<close>

definition step_snapshot :: "world \<Rightarrow> server \<Rightarrow> nat \<Rightarrow> pipeline_step \<Rightarrow> run_step" where
  "step_snapshot w s i st = \<lparr>rs_step_index = i, rs_template_id = ps_template_id st,
     rs_template_name = (case tbl_get tp_id (workflow_templates (db s)) (ps_template_id st) of
        None \<Rightarrow> ''Unknown'' | Some t \<Rightarrow> or_else (Some (tp_name t)) ''Unknown''),
     rs_on_failure = ps_on_failure st, rs_status = (if i = 0 then Running else Pending), rs_spawn_id = None,
     rs_started_at = (if i = 0 then Some (now_s w) else None), rs_completed_at = None, rs_error = None\<rparr>"

definition steps_snapshot :: "world \<Rightarrow> server \<Rightarrow> pipeline_step list \<Rightarrow> run_step list" where
  "steps_snapshot w s xs = map (\<lambda>(i, st). step_snapshot w s i st) (enumerate 0 xs)"

text \<open>The end of \<open>startPipeline\<close>, with the steps and the outcome of the spawn.\<close>

definition finish_start ::
  "world \<Rightarrow> int \<Rightarrow> string \<Rightarrow> string \<Rightarrow> int \<Rightarrow> run_step list \<Rightarrow> json \<Rightarrow> int \<Rightarrow> server \<Rightarrow> outcome"
where
  "finish_start w pipelineId name triggeredBy runId steps spawn wsid s =
     (let s1 = logActivity w ''pipeline_started'' ''pipeline'' pipelineId triggeredBy (''Started pipeline: '' @ name)
                 (Some (JObj [(''run_id'', JNum runId)])) wsid s;
          s2 = broadcast w ''activity.created'' (JObj [(''type'', JStr ''pipeline_started''), (''entity_type'', JStr ''pipeline''),
                 (''entity_id'', JNum pipelineId), (''description'', JStr (''Pipeline \"'' @ name @ ''\" started'')),
                 (''data'', JObj [(''run_id'', JNum runId)])]) s1
      in (Inr (json_response 201 (JObj [(''run'', JObj [(''id'', JNum runId), (''pipeline_id'', JNum pipelineId),
            (''status'', JStr (if rs_status (hd steps) = Failed then ''failed'' else ''running'')),
            (''current_step'', JNum 0), (''steps_snapshot'', steps_json steps), (''spawn'', spawn)])])), s2))"

definition new_run :: "world \<Rightarrow> int \<Rightarrow> run_step list \<Rightarrow> string \<Rightarrow> int \<Rightarrow> int \<Rightarrow> run_row" where
  "new_run w pipelineId steps triggeredBy wsid i = \<lparr>r_id = i, r_pipeline_id = pipelineId, r_status = Run_running,
     r_current_step = 0, r_steps_snapshot = steps, r_started_at = Some (now_s w), r_completed_at = None,
     r_triggered_by = triggeredBy, r_created_at = now_s w, r_workspace_id = wsid\<rparr>"

definition begin_start :: "world \<Rightarrow> int option \<Rightarrow> string \<Rightarrow> int \<Rightarrow> server \<Rightarrow> phase" where
  "begin_start w pid triggeredBy wsid s =
     (case (case pid of None \<Rightarrow> None | Some i \<Rightarrow> find_pipeline i wsid s) of
        None \<Rightarrow> Replied (Inr (error_response 404 ''Pipeline not found''), s)
      | Some pl \<Rightarrow>
          if p_steps pl = [] then Replied (Inr (error_response 400 ''Pipeline has no steps''), s)
          else
            (let pipelineId = p_id pl; steps = steps_snapshot w s (p_steps pl);
                 (runId, rt) = tbl_insert (new_run w pipelineId steps triggeredBy wsid) (pipeline_runs (db s));
                 s1 = s\<lparr>db := (db s)\<lparr>pipeline_runs := rt,
                        workflow_pipelines := tbl_update (\<lambda>p. p_id p = pipelineId \<and> p_workspace_id p = wsid)
                          (\<lambda>p. p\<lparr>p_use_count := p_use_count p + 1, p_last_used_at := Some (now_s w), p_updated_at := now_s w\<rparr>)
                          (workflow_pipelines (db s))\<rparr>\<rparr>
             in case tbl_get tp_id (workflow_templates (db s)) (ps_template_id (hd (p_steps pl))) of
                  None \<Rightarrow> Replied (finish_start w pipelineId (p_name pl) triggeredBy runId steps JNull wsid s1)
                | Some tpl \<Rightarrow> Suspended (Starting pipelineId (p_name pl) triggeredBy runId steps wsid
                                          (spawn_args (p_name pl) tpl 0)) s1))"

section \<open>Advancing a run\<close>

definition skip_from :: "nat \<Rightarrow> run_step list \<Rightarrow> run_step list" where
  "skip_from n steps = map (\<lambda>(i, x). if n \<le> i then x\<lparr>rs_status := Skipped\<rparr> else x) (enumerate 0 steps)"

definition mark_current :: "world \<Rightarrow> bool \<Rightarrow> string option \<Rightarrow> run_step \<Rightarrow> run_step" where
  "mark_current w success errorMsg x =
     (let x' = x\<lparr>rs_status := (if success then Completed else Failed), rs_completed_at := Some (now_s w)\<rparr>
      in case or_null errorMsg of None \<Rightarrow> x' | Some e \<Rightarrow> x'\<lparr>rs_error := Some e\<rparr>)"

text \<open>The end of \<open>advanceRun\<close> after the next step has been spawned.\<close>

definition finish_advance :: "int \<Rightarrow> nat \<Rightarrow> run_step list \<Rightarrow> json \<Rightarrow> int \<Rightarrow> server \<Rightarrow> outcome" where
  "finish_advance runId nextIdx steps spawn wsid s =
     (Inr (json_response 200 (JObj [(''run'', JObj [(''id'', JNum runId), (''status'', JStr ''running''),
        (''current_step'', JNum (int nextIdx)), (''steps_snapshot'', steps_json steps), (''spawn'', spawn)])])),
      update_run runId wsid (\<lambda>r. r\<lparr>r_current_step := nextIdx, r_steps_snapshot := steps\<rparr>) s)"

definition closed_response :: "int \<Rightarrow> run_status \<Rightarrow> run_step list \<Rightarrow> response" where
  "closed_response runId st steps = json_response 200 (JObj [(''run'', JObj [(''id'', JNum runId),
     (''status'', JStr (run_status_str st)), (''steps_snapshot'', steps_json steps)])])"

text \<open>A missing or zero id is refused; otherwise the run must exist in the caller's workspace.\<close>

definition with_run :: "int option \<Rightarrow> int \<Rightarrow> server \<Rightarrow> (response \<Rightarrow> 'a) \<Rightarrow> (run_row \<Rightarrow> 'a) \<Rightarrow> 'a" where
  "with_run rid wsid s refuse k =
     (case rid of
        None \<Rightarrow> refuse (error_response 400 ''run_id required'')
      | Some i \<Rightarrow>
          if i = 0 then refuse (error_response 400 ''run_id required'')
          else (case find_run i wsid s of
                  None \<Rightarrow> refuse (error_response 404 ''Run not found'')
                | Some r \<Rightarrow> k r))"

definition begin_advance :: "world \<Rightarrow> int option \<Rightarrow> bool \<Rightarrow> string option \<Rightarrow> int \<Rightarrow> server \<Rightarrow> phase" where
  "begin_advance w rid success errorMsg wsid s =
     with_run rid wsid s (\<lambda>resp. Replied (Inr resp, s)) (\<lambda>run.
       if r_status run \<noteq> Run_running
       then Replied (Inr (error_response 400 (''Run is '' @ run_status_str (r_status run) @ '', not running'')), s)
       else if length (r_steps_snapshot run) \<le> r_current_step run
       then Replied (Inl ''Cannot set properties of undefined (setting 'status')'', s)
       else
         (let runId = r_id run; currentIdx = r_current_step run; now = now_s w;
              steps = (r_steps_snapshot run)[currentIdx := mark_current w success errorMsg (r_steps_snapshot run ! currentIdx)];
              nextIdx = currentIdx + 1
          in if \<not> success \<and> rs_on_failure (steps ! currentIdx) = Stop
             then (let steps' = skip_from nextIdx steps
                   in Replied (Inr (closed_response runId Run_failed steps'),
                        update_run runId wsid (\<lambda>r. r\<lparr>r_status := Run_failed, r_current_step := currentIdx,
                          r_steps_snapshot := steps', r_completed_at := Some now\<rparr>) s))
             else if length steps \<le> nextIdx
             then Replied (Inr (closed_response runId Run_completed steps),
                    broadcast w ''activity.created'' (JObj [(''type'', JStr ''pipeline_completed''),
                      (''entity_type'', JStr ''pipeline''), (''entity_id'', JNum (r_pipeline_id run)),
                      (''description'', JStr (''Pipeline run #'' @ show_int runId @ '' completed''))])
                    (update_run runId wsid (\<lambda>r. r\<lparr>r_status := Run_completed, r_current_step := currentIdx,
                       r_steps_snapshot := steps, r_completed_at := Some now\<rparr>) s))
             else
               (let steps' = steps[nextIdx := (steps ! nextIdx)\<lparr>rs_status := Running, rs_started_at := Some now\<rparr>]
                in case tbl_get tp_id (workflow_templates (db s)) (rs_template_id (steps' ! nextIdx)) of
                     None \<Rightarrow> Replied (finish_advance runId nextIdx steps' JNull wsid s)
                   | Some tpl \<Rightarrow>
                       Suspended (Advancing runId nextIdx steps' wsid
                         (spawn_args (case find_pipeline (r_pipeline_id run) wsid s of
                             None \<Rightarrow> ''?'' | Some pl \<Rightarrow> or_else (Some (p_name pl)) ''?'') tpl nextIdx)) s)))"

section \<open>Cancelling a run\<close>

definition skip_open :: "world \<Rightarrow> run_step \<Rightarrow> run_step" where
  "skip_open w x = (if rs_status x = Pending \<or> rs_status x = Running
     then x\<lparr>rs_status := Skipped, rs_completed_at := Some (now_s w)\<rparr> else x)"

definition cancelRun :: "world \<Rightarrow> int option \<Rightarrow> int \<Rightarrow> server \<Rightarrow> outcome" where
  "cancelRun w rid wsid s =
     with_run rid wsid s (\<lambda>resp. (Inr resp, s)) (\<lambda>run.
       if r_status run \<noteq> Run_running \<and> r_status run \<noteq> Run_pending
       then (Inr (error_response 400 (''Run is '' @ run_status_str (r_status run) @ '', cannot cancel'')), s)
       else
         (let steps = map (skip_open w) (r_steps_snapshot run)
          in (Inr (closed_response (r_id run) Run_cancelled steps),
              update_run (r_id run) wsid (\<lambda>r. r\<lparr>r_status := Run_cancelled, r_steps_snapshot := steps,
                r_completed_at := Some (now_s w)\<rparr>) s)))"

section \<open>The handlers\<close>

text \<open>Resuming a suspended request with the outcome of its command.\<close>

fun resume :: "world \<Rightarrow> string + string \<Rightarrow> inflight \<Rightarrow> server \<Rightarrow> outcome" where
  "resume w result (Starting pid name by runId steps wsid args) s =
     (let (steps', spawn, s') = spawnStep w result steps 0 runId wsid s
      in finish_start w pid name by runId steps' spawn wsid s')"
| "resume w result (Advancing runId nextIdx steps wsid args) s =
     (let (steps', spawn, s') = spawnStep w result steps nextIdx runId wsid s
      in finish_advance runId nextIdx steps' spawn wsid s')"

definition run_phases :: "world \<Rightarrow> (string list \<Rightarrow> string + string) \<Rightarrow> phase \<Rightarrow> outcome" where
  "run_phases w runOpenClaw p =
     (case p of Replied r \<Rightarrow> r | Suspended f s \<Rightarrow> resume w (runOpenClaw (awaited f)) f s)"

definition startPipeline ::
  "world \<Rightarrow> (string list \<Rightarrow> string + string) \<Rightarrow> int option \<Rightarrow> string \<Rightarrow> int \<Rightarrow> server \<Rightarrow> outcome"
where
  "startPipeline w runOpenClaw pid by wsid s = run_phases w runOpenClaw (begin_start w pid by wsid s)"

definition advanceRun ::
  "world \<Rightarrow> (string list \<Rightarrow> string + string) \<Rightarrow> int option \<Rightarrow> bool \<Rightarrow> string option \<Rightarrow> int \<Rightarrow> server \<Rightarrow> outcome"
where
  "advanceRun w runOpenClaw rid success errorMsg wsid s =
     run_phases w runOpenClaw (begin_advance w rid success errorMsg wsid s)"

text \<open>
  The body of \<open>POST /api/pipelines/run\<close>. Ids that are present but not JSON numbers are
  outside the model and count as absent.
\<close>

datatype run_action = Start "int option" | Advance "int option" bool "string option" | Cancel "int option" | Invalid_action

definition run_action_of :: "json \<Rightarrow> run_action" where
  "run_action_of b =
     (case jget ''action'' b of
        Some (JStr a) \<Rightarrow>
          if a = ''start'' then Start (num_field ''pipeline_id'' b)
          else if a = ''advance'' then
            Advance (num_field ''run_id'' b)
              (case jget ''success'' b of None \<Rightarrow> True | Some JNull \<Rightarrow> True | Some v \<Rightarrow> truthy v) (str_field ''error'' b)
          else if a = ''cancel'' then Cancel (num_field ''run_id'' b)
          else Invalid_action
      | _ \<Rightarrow> Invalid_action)"

definition pipeline_run_action ::
  "world \<Rightarrow> (string list \<Rightarrow> string + string) \<Rightarrow> user \<Rightarrow> run_action \<Rightarrow> server \<Rightarrow> outcome"
where
  "pipeline_run_action w runOpenClaw u act s =
     (case act of
        Start pid \<Rightarrow> startPipeline w runOpenClaw pid (or_else (Some (usr_username u)) ''system'') (usr_workspace_id u) s
      | Advance rid success err \<Rightarrow> advanceRun w runOpenClaw rid success err (usr_workspace_id u) s
      | Cancel rid \<Rightarrow> cancelRun w rid (usr_workspace_id u) s
      | Invalid_action \<Rightarrow> (Inr (error_response 400 ''Invalid action. Use: start, advance, cancel''), s))"

definition pipeline_run_POST ::
  "(string list \<Rightarrow> string + string) \<Rightarrow> world \<Rightarrow> request \<Rightarrow> server \<Rightarrow> outcome"
where
  "pipeline_run_POST runOpenClaw w req s = with_role w req ''operator'' s (\<lambda>u.
     case req_body req of
       None \<Rightarrow> (Inr (error_response 500 ''Failed to process pipeline run''), s)
     | Some JNull \<Rightarrow> (Inr (error_response 500 ''Failed to process pipeline run''), s)
     | Some b \<Rightarrow> pipeline_run_action w runOpenClaw u (run_action_of b) s)"

definition list_runs :: "world \<Rightarrow> request \<Rightarrow> user \<Rightarrow> server \<Rightarrow> outcome" where
  "list_runs w req u s =
     (let wsid = usr_workspace_id u in
      case nonempty_param req ''id'' of
        Some rid \<Rightarrow>
          (case (case parse_int rid of None \<Rightarrow> None | Some i \<Rightarrow> find_run i wsid s) of
             None \<Rightarrow> (Inr (error_response 404 ''Run not found''), s)
           | Some r \<Rightarrow> (Inr (json_response 200 (JObj [(''run'', JObj (run_fields r))])), s))
      | None \<Rightarrow>
          (case parse_int (or_else (req_query req ''limit'') ''20'') of
             None \<Rightarrow> (Inr (error_response 500 ''Failed to fetch runs''), s)
           | Some l \<Rightarrow>
               (let wanted = (\<lambda>r. r_workspace_id r = wsid \<and>
                        (case nonempty_param req ''pipeline_id'' of None \<Rightarrow> True | Some p \<Rightarrow> parse_int p = Some (r_pipeline_id r)));
                    runs = sql_limit (min l 200) 0 (order_by_desc (sql_ord w) r_created_at (tbl_select wanted (pipeline_runs (db s))));
                    name = (\<lambda>r. case find_pipeline (r_pipeline_id r) wsid s of
                        None \<Rightarrow> ''Deleted Pipeline'' | Some p \<Rightarrow> or_else (Some (p_name p)) ''Deleted Pipeline'')
                in (Inr (json_response 200 (JObj [(''runs'',
                      JArr (map (\<lambda>r. JObj (run_fields r @ [(''pipeline_name'', JStr (name r))])) runs))])), s))))"

definition pipeline_run_GET :: "world \<Rightarrow> request \<Rightarrow> server \<Rightarrow> outcome" where
  "pipeline_run_GET w req s = with_role w req ''viewer'' s (\<lambda>u. list_runs w req u s)"

section \<open>/api/pipelines\<close>

definition pipeline_step_json :: "pipeline_step \<Rightarrow> (string \<times> json) list" where
  "pipeline_step_json x = [(''template_id'', JNum (ps_template_id x)), (''on_failure'', JStr (on_failure_str (ps_on_failure x)))]"

definition pipeline_fields :: "pipeline_row \<Rightarrow> json \<Rightarrow> (string \<times> json) list" where
  "pipeline_fields p steps = [(''id'', JNum (p_id p)), (''name'', JStr (p_name p)), (''description'', jnull JStr (p_description p)),
     (''steps'', steps), (''created_by'', JStr (p_created_by p)), (''created_at'', JNum (p_created_at p)),
     (''updated_at'', JNum (p_updated_at p)), (''use_count'', JNum (p_use_count p)),
     (''last_used_at'', jnull JNum (p_last_used_at p)), (''workspace_id'', JNum (p_workspace_id p))]"

definition pipeline_json :: "pipeline_row \<Rightarrow> json" where
  "pipeline_json p = JObj (pipeline_fields p (JArr (map (JObj \<circ> pipeline_step_json) (p_steps p))))"

definition run_counts :: "int \<Rightarrow> int \<Rightarrow> server \<Rightarrow> json" where
  "run_counts pid wsid s =
     (let rs = tbl_select (\<lambda>r. r_workspace_id r = wsid \<and> r_pipeline_id r = pid) (pipeline_runs (db s));
          num = (\<lambda>st. JNum (int (length (filter (\<lambda>r. r_status r = st) rs))))
      in JObj ((if rs = [] then [] else [(''pipeline_id'', JNum pid)]) @ [(''total'', JNum (int (length rs))),
           (''completed'', num Run_completed), (''failed'', num Run_failed), (''running'', num Run_running)]))"

definition list_pipelines :: "world \<Rightarrow> user \<Rightarrow> server \<Rightarrow> outcome" where
  "list_pipelines w u s =
     (let wsid = usr_workspace_id u;
          template_name = (\<lambda>i. case tbl_get tp_id (workflow_templates (db s)) i of
              None \<Rightarrow> ''Unknown'' | Some t \<Rightarrow> or_else (Some (tp_name t)) ''Unknown'');
          step = (\<lambda>x. JObj (pipeline_step_json x @ [(''template_name'', JStr (template_name (ps_template_id x)))]));
          found = order_by_desc2 (sql_ord w) p_use_count p_updated_at
                    (tbl_select (\<lambda>p. p_workspace_id p = wsid) (workflow_pipelines (db s)))
      in (Inr (json_response 200 (JObj [(''pipelines'', JArr (map (\<lambda>p.
            JObj (pipeline_fields p (JArr (map step (p_steps p))) @ [(''runs'', run_counts (p_id p) wsid s)])) found))])), s))"

definition pipelines_GET :: "world \<Rightarrow> request \<Rightarrow> server \<Rightarrow> outcome" where
  "pipelines_GET w req s = with_role w req ''viewer'' s (\<lambda>u. list_pipelines w u s)"

record pipeline_input =
  pi_name :: string
  pi_description :: "string option"
  pi_steps :: "pipeline_step list"

definition create_pipeline :: "world \<Rightarrow> user \<Rightarrow> pipeline_input \<Rightarrow> server \<Rightarrow> outcome" where
  "create_pipeline w u b s =
     (let wsid = usr_workspace_id u; templateIds = map ps_template_id (pi_steps b);
          existing = tbl_select (\<lambda>t. tp_id t \<in> set templateIds) (workflow_templates (db s));
          by = or_else (Some (usr_username u)) ''system''
      in if length existing \<noteq> length (remdups templateIds)
         then (Inr (error_response 400 ''One or more template IDs not found''), s)
         else
           (let (pid, pt) = tbl_insert (\<lambda>i. \<lparr>p_id = i, p_name = pi_name b, p_description = or_null (pi_description b),
                  p_steps = pi_steps b, p_created_by = by, p_created_at = now_s w, p_updated_at = now_s w,
                  p_use_count = 0, p_last_used_at = None, p_workspace_id = wsid\<rparr>) (workflow_pipelines (db s));
                s1 = logActivity w ''pipeline_created'' ''pipeline'' pid by (''Created pipeline: '' @ pi_name b) None wsid
                       (s\<lparr>db := (db s)\<lparr>workflow_pipelines := pt\<rparr>\<rparr>)
            in case find_pipeline pid wsid s1 of
                 None \<Rightarrow> (Inr (error_response 500 ''Failed to create pipeline''), s1)
               | Some p \<Rightarrow> (Inr (json_response 201 (JObj [(''pipeline'', pipeline_json p)])), s1)))"

definition pipelines_POST :: "pipeline_input schema \<Rightarrow> world \<Rightarrow> request \<Rightarrow> server \<Rightarrow> outcome" where
  "pipelines_POST createPipelineSchema =
     mutating_route ''operator'' (\<lambda>w req u s. with_body createPipelineSchema req s (\<lambda>b. create_pipeline w u b s))"

text \<open>
  \<open>PUT\<close> does not validate the body; the model takes the fields that are of the right type. A body
  without any of the three fields counts as a use of the pipeline.
\<close>

record pipeline_changes =
  pc_id :: "int option"
  pc_name :: "string option"
  pc_description :: "string option option"
  pc_steps :: "pipeline_step list option"

definition apply_pipeline_changes :: "world \<Rightarrow> pipeline_changes \<Rightarrow> pipeline_row \<Rightarrow> pipeline_row" where
  "apply_pipeline_changes w c p =
     (let p' = (if pc_name c = None \<and> pc_description c = None \<and> pc_steps c = None
                then p\<lparr>p_use_count := p_use_count p + 1, p_last_used_at := Some (now_s w)\<rparr>
                else p\<lparr>p_name := set_or_keep (pc_name c) (p_name p),
                       p_description := set_or_keep (pc_description c) (p_description p),
                       p_steps := set_or_keep (pc_steps c) (p_steps p)\<rparr>)
      in p'\<lparr>p_updated_at := now_s w\<rparr>)"

definition update_pipeline :: "world \<Rightarrow> user \<Rightarrow> pipeline_changes \<Rightarrow> server \<Rightarrow> outcome" where
  "update_pipeline w u c s =
     (let wsid = usr_workspace_id u in
      case pc_id c of
        None \<Rightarrow> (Inr (error_response 400 ''Pipeline ID required''), s)
      | Some i \<Rightarrow>
          if i = 0 then (Inr (error_response 400 ''Pipeline ID required''), s)
          else (case find_pipeline i wsid s of
                  None \<Rightarrow> (Inr (error_response 404 ''Pipeline not found''), s)
                | Some _ \<Rightarrow>
                    (let s1 = s\<lparr>db := (db s)\<lparr>workflow_pipelines := tbl_update (\<lambda>p. p_id p = i \<and> p_workspace_id p = wsid)
                                (apply_pipeline_changes w c) (workflow_pipelines (db s))\<rparr>\<rparr>
                     in case find_pipeline i wsid s1 of
                          None \<Rightarrow> (Inr (error_response 500 ''Failed to update pipeline''), s1)
                        | Some p \<Rightarrow> (Inr (json_response 200 (JObj [(''pipeline'', pipeline_json p)])), s1))))"

definition pipelines_PUT :: "(json \<Rightarrow> pipeline_changes) \<Rightarrow> world \<Rightarrow> request \<Rightarrow> server \<Rightarrow> outcome" where
  "pipelines_PUT changes_of w req s = with_role w req ''operator'' s (\<lambda>u.
     case req_body req of
       None \<Rightarrow> (Inr (error_response 500 ''Failed to update pipeline''), s)
     | Some JNull \<Rightarrow> (Inr (error_response 500 ''Failed to update pipeline''), s)
     | Some b \<Rightarrow> update_pipeline w u (changes_of b) s)"

text \<open>\<open>DELETE\<close>: the runs of the pipeline are deleted with it (CASCADE).\<close>

definition delete_pipeline :: "int \<Rightarrow> int \<Rightarrow> server \<Rightarrow> server" where
  "delete_pipeline i wsid s =
     (let gone = map p_id (tbl_select (\<lambda>p. p_id p = i \<and> p_workspace_id p = wsid) (workflow_pipelines (db s)))
      in s\<lparr>db := (db s)\<lparr>workflow_pipelines := tbl_delete (\<lambda>p. p_id p = i \<and> p_workspace_id p = wsid) (workflow_pipelines (db s)),
                        pipeline_runs := tbl_delete (\<lambda>r. r_pipeline_id r \<in> set gone) (pipeline_runs (db s))\<rparr>\<rparr>)"

definition pipelines_DELETE :: "world \<Rightarrow> request \<Rightarrow> server \<Rightarrow> outcome" where
  "pipelines_DELETE w req s = with_role w req ''operator'' s (\<lambda>u.
     case req_body req of
       None \<Rightarrow> (Inr (error_response 400 ''Request body required''), s)
     | Some JNull \<Rightarrow> (Inr (error_response 500 ''Failed to delete pipeline''), s)
     | Some b \<Rightarrow>
         (case jget ''id'' b of
            None \<Rightarrow> (Inr (error_response 400 ''Pipeline ID required''), s)
          | Some v \<Rightarrow>
              if \<not> truthy v then (Inr (error_response 400 ''Pipeline ID required''), s)
              else (Inr (json_response 200 (JObj [(''success'', JBool True)])),
                    (case (case v of JNum n \<Rightarrow> Some n | JStr x \<Rightarrow> parse_int x | _ \<Rightarrow> None) of
                       None \<Rightarrow> s | Some i \<Rightarrow> delete_pipeline i (usr_workspace_id u) s))))"

section \<open>The shape of a run\<close>

abbreviation closed_step :: "run_step \<Rightarrow> bool" where
  "closed_step x \<equiv> rs_status x = Completed \<or> rs_status x = Failed"

definition run_ok :: "run_row \<Rightarrow> bool" where
  "run_ok r \<longleftrightarrow>
     (\<exists>before cur after. r_steps_snapshot r = before @ cur # after \<and> length before = r_current_step r \<and>
        (case r_status r of
           Run_pending \<Rightarrow> False
         | Run_running \<Rightarrow> (\<forall>x \<in> set before. closed_step x) \<and> rs_status cur = Running \<and> (\<forall>x \<in> set after. rs_status x = Pending)
         | Run_completed \<Rightarrow> (\<forall>x \<in> set before. closed_step x) \<and> closed_step cur \<and> after = []
         | Run_failed \<Rightarrow> (\<forall>x \<in> set before. closed_step x) \<and> rs_status cur = Failed \<and> (\<forall>x \<in> set after. rs_status x = Skipped)
         | Run_cancelled \<Rightarrow> (\<forall>x \<in> set before. closed_step x) \<and> rs_status cur = Skipped \<and> (\<forall>x \<in> set after. rs_status x = Skipped)))"

definition runs_ok :: "server \<Rightarrow> bool" where
  "runs_ok s \<longleftrightarrow> tbl_wf r_id (pipeline_runs (db s)) \<and> (\<forall>r \<in> set (rows (pipeline_runs (db s))). run_ok r)"

lemma find_run_SomeD: "find_run i n s = Some r \<Longrightarrow> r \<in> set (rows (pipeline_runs (db s))) \<and> r_id r = i \<and> r_workspace_id r = n"
  by (auto simp: find_run_def dest: tbl_first_in_rows)

lemma pipeline_runs_update_run [simp]:
  "pipeline_runs (db (update_run i n f s)) = tbl_update (\<lambda>r. r_id r = i \<and> r_workspace_id r = n) f (pipeline_runs (db s))"
  by (simp add: update_run_def)

lemma update_run_frame [frame_simps]:
  "workflow_templates (db (update_run i n f s)) = workflow_templates (db s)"
  "workflow_pipelines (db (update_run i n f s)) = workflow_pipelines (db s)"
  by (simp_all add: update_run_def)

lemma runs_ok_update:
  assumes "runs_ok s" and "\<And>r. r_id (f r) = r_id r" and "find_run i n s = Some r0" and "run_ok (f r0)"
  shows "runs_ok (update_run i n f s)"
proof -
  have "r = r0" if "r \<in> set (rows (pipeline_runs (db s)))" "r_id r = i" for r
    using assms(1) that find_run_SomeD [OF assms(3)] tbl_get_Some_unique [of r_id "pipeline_runs (db s)"]
    by (metis option.inject runs_ok_def)
  with assms show ?thesis
    by (auto simp: runs_ok_def run_rows.wf_update rows_tbl_update)
qed

lemma split_at_current:
  assumes "run_ok r" and "r_status r = Run_running"
  obtains before cur after where "r_steps_snapshot r = before @ cur # after" "length before = r_current_step r"
    "\<forall>x \<in> set before. closed_step x" "rs_status cur = Running" "\<forall>x \<in> set after. rs_status x = Pending"
  using assms by (auto simp: run_ok_def)

lemma skip_from_append:
  "length xs = n \<Longrightarrow> skip_from n (xs @ ys) = xs @ map (\<lambda>x. x\<lparr>rs_status := Skipped\<rparr>) ys"
  unfolding skip_from_def enumerate_append_eq map_append
  by (auto simp: enumerate_eq_zip in_set_zip intro!: nth_equalityI)

lemma mark_current_status [simp]:
  "rs_status (mark_current w ok e x) = (if ok then Completed else Failed)"
  "rs_on_failure (mark_current w ok e x) = rs_on_failure x"
  "rs_template_id (mark_current w ok e x) = rs_template_id x"
  by (auto simp: mark_current_def Let_def split: option.splits)

lemma update_run_twice:
  assumes "\<And>r. r_id (f r) = r_id r" and "\<And>r. r_workspace_id (f r) = r_workspace_id r"
  shows "update_run i n g (update_run i n f s) = update_run i n (\<lambda>r. g (f r)) s"
  using assms by (simp add: update_run_def tbl_update_def)

lemma finish_start_runs [simp]:
  "pipeline_runs (db (snd (finish_start w pid nm by rid steps sp n s))) = pipeline_runs (db s)"
  by (simp add: finish_start_def Let_def frame_simps)

lemma runs_ok_cong: "pipeline_runs (db s) = pipeline_runs (db s') \<Longrightarrow> runs_ok s = runs_ok s'"
  by (simp add: runs_ok_def)

lemma nth_middle [simp]: "length xs = k \<Longrightarrow> (xs @ y # ys) ! k = y"
  by auto

lemma update_middle [simp]: "length xs = k \<Longrightarrow> (xs @ y # ys)[k := z] = xs @ z # ys"
  by auto

lemma nth_middle2 [simp]: "length xs = k \<Longrightarrow> (xs @ y # z # zs) ! Suc k = z"
  by (simp add: nth_append)

lemma update_middle2 [simp]: "length xs = k \<Longrightarrow> (xs @ y # z # zs)[Suc k := v] = xs @ y # v # zs"
  by (simp add: list_update_append)

lemma spawnStep_effect:
  obtains x spawn where "rs_status x = rs_status (steps ! k)" "rs_on_failure x = rs_on_failure (steps ! k)"
    "spawnStep w res steps k rid n s =
      (steps[k := x], spawn, update_run rid n (\<lambda>r. r\<lparr>r_steps_snapshot := steps[k := x]\<rparr>) s)"
proof (cases res)
  case (Inl e)
  then show ?thesis by (intro that [of "(steps ! k)\<lparr>rs_error := Some e\<rparr>"]) (simp_all add: spawnStep_def Let_def)
next
  case (Inr out)
  then show ?thesis
    by (intro that [of "(steps ! k)\<lparr>rs_spawn_id := Some (''pipeline-'' @ show_int rid @ ''-step-'' @ show_nat k @ ''-'' @
        show_int (now_ms w))\<rparr>"]) (simp_all add: spawnStep_def Let_def)
qed

text \<open>
  One advance of a running run, back to back: it closes the current step and then fails, completes
  or moves to the next step.
\<close>

definition advanced :: "bool \<Rightarrow> run_row \<Rightarrow> run_row \<Rightarrow> bool" where
  "advanced success r r' \<longleftrightarrow> r_id r' = r_id r \<and> r_workspace_id r' = r_workspace_id r \<and>
     (\<exists>before cur after cur'. r_steps_snapshot r = before @ cur # after \<and> length before = r_current_step r \<and>
        rs_status cur' = (if success then Completed else Failed) \<and>
        (if \<not> success \<and> rs_on_failure cur = Stop
         then r_status r' = Run_failed \<and> r_current_step r' = r_current_step r \<and>
              r_steps_snapshot r' = before @ cur' # map (\<lambda>x. x\<lparr>rs_status := Skipped\<rparr>) after
         else case after of
           [] \<Rightarrow> r_status r' = Run_completed \<and> r_current_step r' = r_current_step r \<and> r_steps_snapshot r' = before @ [cur']
         | x # rest \<Rightarrow> (\<exists>x'. rs_status x' = Running \<and> rs_on_failure x' = rs_on_failure x \<and> r_status r' = r_status r \<and>
               r_current_step r' = r_current_step r + 1 \<and> r_steps_snapshot r' = before @ cur' # x' # rest)))"

lemma advancedI:
  assumes "r_steps_snapshot r = before @ cur # after" and "length before = r_current_step r"
    and "r_id r' = r_id r" and "r_workspace_id r' = r_workspace_id r"
    and "rs_status cur' = (if success then Completed else Failed)"
    and "if \<not> success \<and> rs_on_failure cur = Stop
         then r_status r' = Run_failed \<and> r_current_step r' = r_current_step r \<and>
              r_steps_snapshot r' = before @ cur' # map (\<lambda>x. x\<lparr>rs_status := Skipped\<rparr>) after
         else case after of
           [] \<Rightarrow> r_status r' = Run_completed \<and> r_current_step r' = r_current_step r \<and> r_steps_snapshot r' = before @ [cur']
         | x # rest \<Rightarrow> (\<exists>x'. rs_status x' = Running \<and> rs_on_failure x' = rs_on_failure x \<and> r_status r' = r_status r \<and>
               r_current_step r' = r_current_step r + 1 \<and> r_steps_snapshot r' = before @ cur' # x' # rest)"
  shows "advanced success r r'"
  unfolding advanced_def using assms by blast

lemma advanceRun_effect:
  assumes "find_run i n s = Some r" and "i \<noteq> 0" and "r_status r = Run_running"
    and "r_steps_snapshot r = before @ cur # after" and "length before = r_current_step r"
  shows "\<exists>f. (\<forall>r. r_id (f r) = r_id r) \<and> advanced success r (f r) \<and>
    pipeline_runs (db (snd (advanceRun w cmd (Some i) success err n s))) = pipeline_runs (db (update_run i n f s))"
proof -
  define cur' where "cur' = mark_current w success err cur"
  have id: "r_id r = i" using find_run_SomeD [OF assms(1)] by simp
  have k: "r_current_step r < length (r_steps_snapshot r)" using assms(4,5) by simp
  note run = advanceRun_def begin_advance_def with_run_def Let_def assms(1-3) run_phases_def closed_response_def
  show ?thesis
  proof (cases "\<not> success \<and> rs_on_failure cur = Stop")
    case True
    let ?f = "\<lambda>r'. r'\<lparr>r_status := Run_failed, r_current_step := length before,
      r_steps_snapshot := before @ cur' # map (\<lambda>x. x\<lparr>rs_status := Skipped\<rparr>) after, r_completed_at := Some (now_s w)\<rparr>"
    have "skip_from (Suc (length before)) (before @ cur' # after) = before @ cur' # map (\<lambda>x. x\<lparr>rs_status := Skipped\<rparr>) after"
      using skip_from_append [of "before @ [cur']" "Suc (length before)" after] by simp
    then have "snd (advanceRun w cmd (Some i) success err n s) = update_run i n ?f s"
      using True k by (simp add: run assms(4) id cur'_def flip: assms(5))
    moreover have "advanced success r (?f r)"
      by (rule advancedI [OF assms(4,5), of _ cur']) (use True assms(5) in \<open>auto simp: cur'_def\<close>)
    ultimately show ?thesis by (intro exI [of _ ?f]) simp
  next
    case False
    show ?thesis
    proof (cases after)
      case Nil
      let ?f = "\<lambda>r'. r'\<lparr>r_status := Run_completed, r_current_step := length before,
        r_steps_snapshot := before @ [cur'], r_completed_at := Some (now_s w)\<rparr>"
      have "pipeline_runs (db (snd (advanceRun w cmd (Some i) success err n s))) = pipeline_runs (db (update_run i n ?f s))"
        using False k Nil by (auto simp: run assms(4) id cur'_def simp flip: assms(5))
      moreover have "advanced success r (?f r)"
        by (rule advancedI [OF assms(4,5), of _ cur']) (use False Nil assms(5) in \<open>auto simp: cur'_def\<close>)
      ultimately show ?thesis by (intro exI [of _ ?f]) simp
    next
      case (Cons x rest)
      let ?x = "x\<lparr>rs_status := Running, rs_started_at := Some (now_s w)\<rparr>"
      let ?f = "\<lambda>x' r'. r'\<lparr>r_current_step := Suc (length before), r_steps_snapshot := before @ cur' # x' # rest\<rparr>"
      have "\<exists>x'. rs_status x' = Running \<and> rs_on_failure x' = rs_on_failure x \<and>
          pipeline_runs (db (snd (advanceRun w cmd (Some i) success err n s))) = pipeline_runs (db (update_run i n (?f x') s))"
      proof (cases "tbl_get tp_id (workflow_templates (db s)) (rs_template_id x)")
        case None
        then show ?thesis
          using False k Cons
          by (intro exI [of _ ?x]) (auto simp: run finish_advance_def assms(4) id cur'_def simp flip: assms(5))
      next
        case (Some tpl)
        then obtain args where b: "begin_advance w (Some i) success err n s =
            Suspended (Advancing i (Suc (length before)) (before @ cur' # ?x # rest) n args) s"
          using False k Cons by (auto simp: run assms(4) id cur'_def simp flip: assms(5))
        have "\<exists>x'. rs_status x' = Running \<and> rs_on_failure x' = rs_on_failure x \<and>
            snd (resume w res (Advancing i (Suc (length before)) (before @ cur' # ?x # rest) n args) s) =
              update_run i n (?f x') s" for res
          by (rule spawnStep_effect [of "before @ cur' # ?x # rest" "Suc (length before)" w res i n s])
            (auto simp: finish_advance_def update_run_twice)
        then show ?thesis
          unfolding advanceRun_def run_phases_def b by (simp del: pipeline_runs_update_run) metis
      qed
      then obtain x' where x': "rs_status x' = Running" "rs_on_failure x' = rs_on_failure x"
        "pipeline_runs (db (snd (advanceRun w cmd (Some i) success err n s))) = pipeline_runs (db (update_run i n (?f x') s))"
        by blast
      moreover have "advanced success r (?f x' r)"
        by (rule advancedI [OF assms(4,5), of _ cur']) (use False Cons x'(1,2) assms(5) in \<open>auto simp: cur'_def\<close>)
      ultimately show ?thesis by (intro exI [of _ "?f x'"]) simp
    qed
  qed
qed

lemma advanced_run_ok:
  assumes "run_ok r" and "r_status r = Run_running" and "advanced success r r'"
  shows "run_ok r'"
proof -
  obtain before cur after where s: "r_steps_snapshot r = before @ cur # after" "length before = r_current_step r"
    and st: "\<forall>x \<in> set before. closed_step x" "rs_status cur = Running" "\<forall>x \<in> set after. rs_status x = Pending"
    using split_at_current [OF assms(1,2)] by metis
  from assms(3) s obtain cur' where cur': "rs_status cur' = (if success then Completed else Failed)"
    and eff: "if \<not> success \<and> rs_on_failure cur = Stop
         then r_status r' = Run_failed \<and> r_current_step r' = r_current_step r \<and>
              r_steps_snapshot r' = before @ cur' # map (\<lambda>x. x\<lparr>rs_status := Skipped\<rparr>) after
         else case after of
           [] \<Rightarrow> r_status r' = Run_completed \<and> r_current_step r' = r_current_step r \<and> r_steps_snapshot r' = before @ [cur']
         | x # rest \<Rightarrow> (\<exists>x'. rs_status x' = Running \<and> rs_on_failure x' = rs_on_failure x \<and> r_status r' = r_status r \<and>
               r_current_step r' = r_current_step r + 1 \<and> r_steps_snapshot r' = before @ cur' # x' # rest)"
    by (auto simp: advanced_def append_eq_append_conv)
  show ?thesis
  proof (cases "\<not> success \<and> rs_on_failure cur = Stop")
    case True
    with eff cur' st(1) s(2) show ?thesis
      unfolding run_ok_def
      by (intro exI [of _ before] exI [of _ cur'] exI [of _ "map (\<lambda>x. x\<lparr>rs_status := Skipped\<rparr>) after"]) auto
  next
    case go: False
    show ?thesis
    proof (cases after)
      case Nil
      with eff cur' st(1) s(2) go show ?thesis
        by (auto simp: run_ok_def intro!: exI [of _ before] exI [of _ cur'])
    next
      case (Cons x rest)
      with eff go obtain x' where "rs_status x' = Running" "r_status r' = r_status r"
        "r_current_step r' = r_current_step r + 1" "r_steps_snapshot r' = (before @ [cur']) @ x' # rest" by auto
      with cur' st s(2) Cons assms(2) show ?thesis
        unfolding run_ok_def by (intro exI [of _ "before @ [cur']"] exI [of _ x'] exI [of _ rest]) auto
    qed
  qed
qed

lemma runs_ok_advance:
  assumes "runs_ok s" shows "runs_ok (snd (advanceRun w cmd rid success err n s))"
proof (cases "\<exists>i r. rid = Some i \<and> i \<noteq> 0 \<and> find_run i n s = Some r \<and> r_status r = Run_running")
  case True
  then obtain i r where r: "rid = Some i" "i \<noteq> 0" "find_run i n s = Some r" "r_status r = Run_running" by blast
  have ok: "run_ok r" using assms find_run_SomeD [OF r(3)] by (auto simp: runs_ok_def)
  obtain before cur after where "r_steps_snapshot r = before @ cur # after" "length before = r_current_step r"
    using split_at_current [OF ok r(4)] by metis
  from advanceRun_effect [OF r(3,2,4) this, of success w cmd err] obtain f where f: "\<forall>r. r_id (f r) = r_id r"
    "advanced success r (f r)"
    "pipeline_runs (db (snd (advanceRun w cmd (Some i) success err n s))) = pipeline_runs (db (update_run i n f s))" by blast
  have "runs_ok (update_run i n f s)"
    using f(1) by (intro runs_ok_update [OF assms _ r(3)] advanced_run_ok [OF ok r(4) f(2)]) simp
  then show ?thesis using runs_ok_cong [OF f(3)] r(1) by simp
next
  case False
  then have "snd (advanceRun w cmd rid success err n s) = s"
    by (auto simp: advanceRun_def begin_advance_def with_run_def run_phases_def split: option.splits)
  with assms show ?thesis by simp
qed

lemma runs_ok_cancel:
  assumes "runs_ok s" shows "runs_ok (snd (cancelRun w rid n s))"
proof (cases "\<exists>i r. rid = Some i \<and> i \<noteq> 0 \<and> find_run i n s = Some r \<and> r_status r = Run_running")
  case True
  then obtain i r where r: "rid = Some i" "i \<noteq> 0" "find_run i n s = Some r" "r_status r = Run_running" by blast
  have ok: "run_ok r" and id: "r_id r = i" using assms find_run_SomeD [OF r(3)] by (auto simp: runs_ok_def)
  obtain before cur after where s: "r_steps_snapshot r = before @ cur # after" "length before = r_current_step r"
    "\<forall>x \<in> set before. closed_step x" "rs_status cur = Running" "\<forall>x \<in> set after. rs_status x = Pending"
    using split_at_current [OF ok r(4)] by metis
  let ?f = "\<lambda>x. x\<lparr>r_status := Run_cancelled, r_steps_snapshot := map (skip_open w) (r_steps_snapshot r),
    r_completed_at := Some (now_s w)\<rparr>"
  have "run_ok (?f r)"
    unfolding run_ok_def using s
    by (intro exI [of _ "map (skip_open w) before"] exI [of _ "skip_open w cur"] exI [of _ "map (skip_open w) after"])
      (auto simp: skip_open_def)
  then have "runs_ok (update_run i n ?f s)" by (intro runs_ok_update [OF assms _ r(3)]) simp_all
  moreover have "snd (cancelRun w rid n s) = update_run i n ?f s"
    using r id by (simp add: cancelRun_def with_run_def Let_def)
  ultimately show ?thesis by simp
next
  case False
  have "r_status r \<noteq> Run_pending" if "find_run i n s = Some r" for i r
    using assms find_run_SomeD [OF that] by (auto simp: runs_ok_def run_ok_def)
  with False have "snd (cancelRun w rid n s) = s"
    by (auto simp: cancelRun_def with_run_def split: option.splits)
  with assms show ?thesis by simp
qed

lemma steps_snapshot_shape:
  assumes "ps \<noteq> []"
  obtains x xs where "steps_snapshot w s ps = x # xs" "rs_status x = Running" "\<forall>y \<in> set xs. rs_status y = Pending"
proof -
  obtain p ps' where ps: "ps = p # ps'" using assms by (cases ps) auto
  show thesis
    by (rule that [of "step_snapshot w s 0 p" "map (\<lambda>(i, st). step_snapshot w s i st) (enumerate 1 ps')"])
      (auto simp: steps_snapshot_def ps step_snapshot_def in_set_enumerate_eq)
qed

lemma run_ok_new:
  assumes "steps = x # xs" and "rs_status x = Running" and "\<forall>y \<in> set xs. rs_status y = Pending"
  shows "run_ok ((new_run w pid st0 by n i)\<lparr>r_steps_snapshot := steps\<rparr>)"
  using assms by (auto simp: run_ok_def new_run_def)

lemma update_inserted:
  assumes "tbl_wf r_id T" and "\<And>i. r_id (mk i) = i" and "\<And>i. r_workspace_id (mk i) = n"
  shows "tbl_update (\<lambda>r. r_id r = seq T + 1 \<and> r_workspace_id r = n) f (snd (tbl_insert mk T)) = snd (tbl_insert (\<lambda>i. f (mk i)) T)"
proof -
  have "map (\<lambda>r. if r_id r = seq T + 1 \<and> r_workspace_id r = n then f r else r) (rows T) = rows T"
    using assms(1) by (auto simp: tbl_wf_def intro!: map_idI)
  with assms(2,3) show ?thesis by (simp add: tbl_update_def tbl_insert_def)
qed

lemma new_run_sel [simp]:
  "r_id (new_run w q st by n i) = i" "r_workspace_id (new_run w q st by n i) = n"
  "r_status (new_run w q st by n i) = Run_running" "r_steps_snapshot (new_run w q st by n i) = st"
  by (simp_all add: new_run_def)

lemma startPipeline_runs:
  assumes "tbl_wf r_id (pipeline_runs (db s))"
  shows "pipeline_runs (db (snd (startPipeline w cmd pid by n s))) = pipeline_runs (db s) \<or>
   (\<exists>q st x xs. rs_status x = Running \<and> (\<forall>y \<in> set xs. rs_status y = Pending) \<and>
      pipeline_runs (db (snd (startPipeline w cmd pid by n s))) =
        snd (tbl_insert (\<lambda>i. (new_run w q st by n i)\<lparr>r_steps_snapshot := x # xs\<rparr>) (pipeline_runs (db s))))"
proof (cases "case pid of None \<Rightarrow> None | Some i \<Rightarrow> find_pipeline i n s")
  case None
  then show ?thesis by (simp add: startPipeline_def begin_start_def run_phases_def)
next
  case (Some pl)
  show ?thesis
  proof (cases "p_steps pl = []")
    case True
    with Some show ?thesis by (simp add: startPipeline_def begin_start_def run_phases_def)
  next
    case False
    obtain x xs where st: "steps_snapshot w s (p_steps pl) = x # xs" "rs_status x = Running" "\<forall>y \<in> set xs. rs_status y = Pending"
      using steps_snapshot_shape [OF False] by metis
    let ?T = "pipeline_runs (db s)" and ?mk = "new_run w (p_id pl) (x # xs) by n"
    let ?s1 = "s\<lparr>db := (db s)\<lparr>pipeline_runs := snd (tbl_insert ?mk ?T),
      workflow_pipelines := tbl_update (\<lambda>p. p_id p = p_id pl \<and> p_workspace_id p = n)
        (\<lambda>p. p\<lparr>p_use_count := p_use_count p + 1, p_last_used_at := Some (now_s w), p_updated_at := now_s w\<rparr>)
        (workflow_pipelines (db s))\<rparr>\<rparr>"
    have same: "?mk = (\<lambda>i. (?mk i)\<lparr>r_steps_snapshot := x # xs\<rparr>)" by (rule ext) (simp add: new_run_def)
    show ?thesis
    proof (cases "tbl_get tp_id (workflow_templates (db s)) (ps_template_id (hd (p_steps pl)))")
      case None
      then have "pipeline_runs (db (snd (startPipeline w cmd pid by n s))) = snd (tbl_insert ?mk ?T)"
        using Some False st by (simp add: startPipeline_def begin_start_def run_phases_def Let_def case_prod_beta)
      with st(2,3) same show ?thesis by metis
    next
      case tpl: (Some tpl)
      then obtain args where b: "begin_start w pid by n s =
          Suspended (Starting (p_id pl) (p_name pl) by (seq ?T + 1) (x # xs) n args) ?s1"
        using Some False st by (simp add: begin_start_def Let_def case_prod_beta)
      obtain x' spawn where x': "rs_status x' = Running"
        and sp: "spawnStep w (cmd args) (x # xs) 0 (seq ?T + 1) n ?s1 =
          (x' # xs, spawn, update_run (seq ?T + 1) n (\<lambda>r. r\<lparr>r_steps_snapshot := x' # xs\<rparr>) ?s1)"
        by (rule spawnStep_effect [of "x # xs" 0 w "cmd args" "seq ?T + 1" n ?s1]) (use st(2) in auto)
      have "pipeline_runs (db (snd (startPipeline w cmd pid by n s))) =
          snd (tbl_insert (\<lambda>i. (?mk i)\<lparr>r_steps_snapshot := x' # xs\<rparr>) ?T)"
        using update_inserted [OF assms, of ?mk n]
        by (simp add: startPipeline_def run_phases_def b sp)
      with x' st(3) show ?thesis by metis
    qed
  qed
qed

lemma runs_ok_start:
  assumes "runs_ok s" shows "runs_ok (snd (startPipeline w cmd pid by n s))"
proof -
  have wf: "tbl_wf r_id (pipeline_runs (db s))" using assms by (simp add: runs_ok_def)
  from startPipeline_runs [OF wf, of w cmd pid "by" n] show ?thesis
  proof (elim disjE exE conjE)
    fix q st x xs
    assume "rs_status x = Running" "\<forall>y \<in> set xs. rs_status y = Pending"
      and t: "pipeline_runs (db (snd (startPipeline w cmd pid by n s))) =
        snd (tbl_insert (\<lambda>i. (new_run w q st by n i)\<lparr>r_steps_snapshot := x # xs\<rparr>) (pipeline_runs (db s)))"
    then have "run_ok ((new_run w q st by n i)\<lparr>r_steps_snapshot := x # xs\<rparr>)" for i
      using run_ok_new by blast
    with assms show ?thesis by (simp add: runs_ok_def t run_rows.wf_insert rows_tbl_insert)
  qed (use assms in \<open>simp add: runs_ok_def\<close>)
qed

lemma create_pipeline_runs: "pipeline_runs (db (snd (create_pipeline w u b s))) = pipeline_runs (db s)"
  by (simp add: create_pipeline_def Let_def case_prod_beta frame_simps split: option.split)

lemma update_pipeline_runs: "pipeline_runs (db (snd (update_pipeline w u c s))) = pipeline_runs (db s)"
  by (simp add: update_pipeline_def Let_def split: option.split)

lemma runs_ok_delete_pipeline: "runs_ok s \<Longrightarrow> runs_ok (delete_pipeline i n s)"
  by (simp add: runs_ok_def delete_pipeline_def Let_def run_rows.wf_delete rows_tbl_delete)

section \<open>Runs one request at a time\<close>

text \<open>The shape of a run, step by step.\<close>

lemma run_ok_shape:
  assumes "run_ok r"
  shows "r_current_step r < length (r_steps_snapshot r) \<and>
    (if r_status r = Run_running
     then \<forall>k < length (r_steps_snapshot r).
       (let st = rs_status (r_steps_snapshot r ! k) in
        if k < r_current_step r then st = Completed \<or> st = Failed
        else if k = r_current_step r then st = Running else st = Pending)
     else \<forall>x \<in> set (r_steps_snapshot r). rs_status x \<noteq> Pending \<and> rs_status x \<noteq> Running)"
proof -
  obtain before cur after where s: "r_steps_snapshot r = before @ cur # after" "length before = r_current_step r"
    and c: "case r_status r of
           Run_pending \<Rightarrow> False
         | Run_running \<Rightarrow> (\<forall>x \<in> set before. closed_step x) \<and> rs_status cur = Running \<and> (\<forall>x \<in> set after. rs_status x = Pending)
         | Run_completed \<Rightarrow> (\<forall>x \<in> set before. closed_step x) \<and> closed_step cur \<and> after = []
         | Run_failed \<Rightarrow> (\<forall>x \<in> set before. closed_step x) \<and> rs_status cur = Failed \<and> (\<forall>x \<in> set after. rs_status x = Skipped)
         | Run_cancelled \<Rightarrow> (\<forall>x \<in> set before. closed_step x) \<and> rs_status cur = Skipped \<and> (\<forall>x \<in> set after. rs_status x = Skipped)"
    using assms unfolding run_ok_def by blast
  have nth: "(before @ cur # after) ! k = (if k < length before then before ! k else if k = length before then cur
      else after ! (k - length before - 1))" for k
    by (auto simp: nth_append nth_Cons' )
  show ?thesis
  proof (cases "r_status r")
    case Run_running
    then have "rs_status (r_steps_snapshot r ! k) = Pending" if "r_current_step r < k" "k < length (r_steps_snapshot r)" for k
      using c s that by (auto simp: nth)
    with Run_running c s show ?thesis by (auto simp: nth Let_def)
  qed (use c s in \<open>auto\<close>)
qed

lemma find_run_update:
  assumes "\<And>r. r_id (f r) = r_id r" and "\<And>r. r_workspace_id (f r) = r_workspace_id r"
  shows "find_run j n (update_run i n f s) = (if j = i then map_option f (find_run j n s) else find_run j n s)"
proof -
  have "find_run j n (update_run i n f s) =
      map_option (\<lambda>r. if r_id r = i \<and> r_workspace_id r = n then f r else r) (find_run j n s)"
    unfolding find_run_def tbl_first_def pipeline_runs_update_run rows_tbl_update
    by (rule find_map_id) (simp add: assms)
  then show ?thesis by (cases "find_run j n s") (auto dest: find_run_SomeD)
qed

lemma find_run_cong: "pipeline_runs (db s) = pipeline_runs (db s') \<Longrightarrow> find_run i n s = find_run i n s'"
  by (simp add: find_run_def)

lemma find_run_update_self:
  assumes "find_run i n s = Some r" and "r_id (f r) = r_id r" and "r_workspace_id (f r) = r_workspace_id r"
  shows "tbl_wf r_id (pipeline_runs (db s)) \<Longrightarrow> find_run i n (update_run i n f s) = Some (f r)"
proof -
  assume wf: "tbl_wf r_id (pipeline_runs (db s))"
  have r: "r \<in> set (rows (pipeline_runs (db s)))" "r_id r = i" "r_workspace_id r = n" using find_run_SomeD [OF assms(1)] by auto
  define g where "g x = (if x = r then f r else x)" for x
  have "rows (pipeline_runs (db (update_run i n f s))) = map g (rows (pipeline_runs (db s)))"
  proof -
    have only: "x = r" if "x \<in> set (rows (pipeline_runs (db s)))" "r_id x = i" for x
      using tbl_get_Some_unique [OF wf that(1)] tbl_get_Some_unique [OF wf r(1)] that(2) r(2) by simp
    have "(if r_id x = i \<and> r_workspace_id x = n then f x else x) = g x" if x: "x \<in> set (rows (pipeline_runs (db s)))" for x
    proof (cases "r_id x = i")
      case True
      from only [OF x True] r(2,3) show ?thesis by (simp add: g_def)
    next
      case False
      with r(2) show ?thesis by (auto simp: g_def)
    qed
    then show ?thesis unfolding pipeline_runs_update_run rows_tbl_update by (rule map_cong [OF refl])
  qed
  moreover have "find (\<lambda>x. r_id x = i \<and> r_workspace_id x = n) (map g xs) =
      map_option g (find (\<lambda>x. r_id x = i \<and> r_workspace_id x = n) xs)" for xs
    using assms(2,3) r by (intro find_map_id) (auto simp: g_def)
  ultimately show ?thesis
    using assms(1) by (simp add: find_run_def tbl_first_def g_def)
qed

text \<open>
  C7. What one advance does to a running run, whatever the spawned command answers: the current
  step is closed as completed or failed; a failure under \<open>stop\<close> fails the run and skips the rest,
  otherwise the next step runs or, after the last one, the run is completed.
\<close>

theorem advanceRun_spec:
  assumes "runs_ok s" and "find_run i n s = Some r" and "i \<noteq> 0" and "r_status r = Run_running"
  shows "\<exists>r'. find_run i n (snd (advanceRun w cmd (Some i) success err n s)) = Some r' \<and> advanced success r r'"
proof -
  have ok: "run_ok r" and wf: "tbl_wf r_id (pipeline_runs (db s))"
    using assms(1) find_run_SomeD [OF assms(2)] by (auto simp: runs_ok_def)
  obtain before cur after where "r_steps_snapshot r = before @ cur # after" "length before = r_current_step r"
    using split_at_current [OF ok assms(4)] by metis
  from advanceRun_effect [OF assms(2,3,4) this, of success w cmd err] obtain f where f: "\<forall>r. r_id (f r) = r_id r"
    "advanced success r (f r)"
    "pipeline_runs (db (snd (advanceRun w cmd (Some i) success err n s))) = pipeline_runs (db (update_run i n f s))" by blast
  have "find_run i n (update_run i n f s) = Some (f r)"
    using f(2) by (intro find_run_update_self [OF assms(2) _ _ wf]) (auto simp: advanced_def)
  with f(2) find_run_cong [OF f(3)] show ?thesis by auto
qed

text \<open>Successive successful advances of one run, each with its own clock and command outcome.\<close>

fun advance_all :: "(world \<times> (string list \<Rightarrow> string + string)) list \<Rightarrow> int \<Rightarrow> int \<Rightarrow> server \<Rightarrow> server" where
  "advance_all [] i n s = s"
| "advance_all ((w, cmd) # calls) i n s = advance_all calls i n (snd (advanceRun w cmd (Some i) True None n s))"

lemma advances_complete_aux:
  assumes "runs_ok s" and "find_run i n s = Some r" and "i \<noteq> 0" and "r_status r = Run_running"
    and "length calls = length (r_steps_snapshot r) - r_current_step r"
  shows "\<exists>r'. find_run i n (advance_all calls i n s) = Some r' \<and> r_status r' = Run_completed \<and>
    length (r_steps_snapshot r') = length (r_steps_snapshot r) \<and>
    (\<forall>k < r_current_step r. r_steps_snapshot r' ! k = r_steps_snapshot r ! k) \<and>
    (\<forall>k < length (r_steps_snapshot r). r_current_step r \<le> k \<longrightarrow> rs_status (r_steps_snapshot r' ! k) = Completed)"
  using assms
proof (induction calls arbitrary: s r)
  case Nil
  have "run_ok r" using Nil.prems(1) find_run_SomeD [OF Nil.prems(2)] by (auto simp: runs_ok_def)
  with Nil.prems(5) show ?case by (auto simp: run_ok_def)
next
  case (Cons call calls)
  obtain w cmd where c: "call = (w, cmd)" by (cases call)
  let ?s = "snd (advanceRun w cmd (Some i) True None n s)"
  obtain r1 where r1: "find_run i n ?s = Some r1" "advanced True r r1"
    using advanceRun_spec [OF Cons.prems(1-4)] by blast
  then obtain before cur after cur' where s: "r_steps_snapshot r = before @ cur # after" "length before = r_current_step r"
    and cur': "rs_status cur' = Completed"
    and eff: "case after of
           [] \<Rightarrow> r_status r1 = Run_completed \<and> r_current_step r1 = r_current_step r \<and> r_steps_snapshot r1 = before @ [cur']
         | x # rest \<Rightarrow> (\<exists>x'. rs_status x' = Running \<and> rs_on_failure x' = rs_on_failure x \<and> r_status r1 = r_status r \<and>
               r_current_step r1 = r_current_step r + 1 \<and> r_steps_snapshot r1 = before @ cur' # x' # rest)"
    by (auto simp: advanced_def)
  show ?case
  proof (cases after)
    case Nil
    with Cons.prems(5) s have "calls = []" by simp
    with r1 eff Nil s cur' show ?thesis by (auto simp: c nth_append less_Suc_eq_le)
  next
    case (Cons x rest)
    with eff obtain x' where x': "r_status r1 = r_status r" "r_current_step r1 = r_current_step r + 1"
      "r_steps_snapshot r1 = before @ cur' # x' # rest" by auto
    with Cons s Cons.prems(5) have len: "length calls = length (r_steps_snapshot r1) - r_current_step r1"
      "length (r_steps_snapshot r1) = length (r_steps_snapshot r)" by auto
    from Cons.IH [OF runs_ok_advance [OF Cons.prems(1)] r1(1) Cons.prems(3) _ len(1)] x'(1) Cons.prems(4)
    obtain r' where r': "find_run i n (advance_all calls i n ?s) = Some r'" "r_status r' = Run_completed"
      "length (r_steps_snapshot r') = length (r_steps_snapshot r1)"
      "\<forall>k < r_current_step r1. r_steps_snapshot r' ! k = r_steps_snapshot r1 ! k"
      "\<forall>k < length (r_steps_snapshot r1). r_current_step r1 \<le> k \<longrightarrow> rs_status (r_steps_snapshot r' ! k) = Completed"
      by auto
    have "r_steps_snapshot r' ! k = r_steps_snapshot r ! k" if "k < r_current_step r" for k
      using that r'(4) x' s by (auto simp: nth_append)
    moreover have "rs_status (r_steps_snapshot r' ! k) = Completed" if "r_current_step r \<le> k" "k < length (r_steps_snapshot r)" for k
      using that r'(4,5) x' s cur' len(2) by (cases "k = r_current_step r") (auto simp: nth_append)
    ultimately show ?thesis using r' len(2) by (auto simp: c)
  qed
qed

text \<open>
  C8. A run gets done: reporting success as many times as there are steps left completes a running
  run, with every remaining step completed, even if commands fail to spawn.
\<close>

theorem advances_complete:
  assumes "runs_ok s" and "find_run i n s = Some r" and "i \<noteq> 0" and "r_status r = Run_running"
    and "length calls = length (r_steps_snapshot r) - r_current_step r"
  shows "\<exists>r'. find_run i n (advance_all calls i n s) = Some r' \<and> r_status r' = Run_completed \<and>
    (\<forall>k < length (r_steps_snapshot r). r_current_step r \<le> k \<longrightarrow> rs_status (r_steps_snapshot r' ! k) = Completed)"
  using advances_complete_aux [OF assms] by blast

section \<open>Requests interleave at the await\<close>

text \<open>
  The concurrent server: a configuration is the state with the requests that are suspended. A new
  request runs its first phase, a suspended one is resumed with any outcome of its command, and
  the requests that do not suspend run whole.
\<close>

fun after_phase :: "inflight list \<Rightarrow> phase \<Rightarrow> server \<times> inflight list" where
  "after_phase F (Replied (r, s)) = (s, F)"
| "after_phase F (Suspended f s) = (s, f # F)"

inductive conc_step :: "server \<times> inflight list \<Rightarrow> server \<times> inflight list \<Rightarrow> bool" where
  start: "conc_step (s, F) (after_phase F (begin_start w pid by n s))"
| advance: "conc_step (s, F) (after_phase F (begin_advance w rid ok err n s))"
| cancel: "conc_step (s, F) (snd (cancelRun w rid n s), F)"
| finish: "f \<in> set F \<Longrightarrow> conc_step (s, F) (snd (resume w res f s), remove1 f F)"
| create: "conc_step (s, F) (snd (create_pipeline w u b s), F)"
| update: "conc_step (s, F) (snd (update_pipeline w u c s), F)"
| delete: "conc_step (s, F) (delete_pipeline pid n s, F)"

inductive_cases conc_stepE: "conc_step c c'"

text \<open>Run \<open>i\<close>, if it is still there, has status \<open>st\<close>.\<close>

definition settled :: "run_status \<Rightarrow> int \<Rightarrow> run_row tbl \<Rightarrow> bool" where
  "settled st i T \<longleftrightarrow> tbl_wf r_id T \<and> i \<le> seq T \<and> (\<forall>r \<in> set (rows T). r_id r = i \<longrightarrow> r_status r = st)"

lemma settled_insert:
  assumes "settled st i T" and "\<And>k. r_id (mk k) = k" shows "settled st i (snd (tbl_insert mk T))"
  using assms by (auto simp: settled_def run_rows.wf_insert rows_tbl_insert)

lemma settled_update:
  assumes "settled st i T" and "\<And>r. r_id (f r) = r_id r"
    and "\<And>r. r \<in> set (rows T) \<Longrightarrow> p r \<Longrightarrow> r_id r = i \<Longrightarrow> r_status (f r) = r_status r"
  shows "settled st i (tbl_update p f T)"
  using assms by (auto simp: settled_def run_rows.wf_update rows_tbl_update)

lemma settled_delete: "settled st i T \<Longrightarrow> settled st i (tbl_delete p T)"
  by (simp add: settled_def run_rows.wf_delete rows_tbl_delete)

lemma settled_update_run:
  assumes "settled st i (pipeline_runs (db s))" and "\<And>r. r_id (f r) = r_id r"
    and "(\<forall>r. r_status (f r) = r_status r) \<or> (find_run j n s = Some r0 \<and> r_status r0 \<noteq> st)"
  shows "settled st i (pipeline_runs (db (update_run j n f s)))"
proof -
  have "r_status (f r) = r_status r" if "r \<in> set (rows (pipeline_runs (db s)))" "r_id r = j" "r_id r = i" for r
    using assms(1,3) that find_run_SomeD [of j n s r0] by (auto simp: settled_def)
  then show ?thesis
    unfolding pipeline_runs_update_run by (intro settled_update [OF assms(1,2)]) auto
qed

lemma settled_begin_start:
  "settled st i (pipeline_runs (db s)) \<Longrightarrow>
   settled st i (pipeline_runs (db (fst (after_phase F (begin_start w pid by n s)))))"
  by (auto simp: begin_start_def Let_def case_prod_beta finish_start_def frame_simps settled_insert
      split: option.split)

lemma settled_begin_advance:
  assumes "settled st i (pipeline_runs (db s))" and "st \<noteq> Run_running"
  shows "settled st i (pipeline_runs (db (fst (after_phase F (begin_advance w rid ok err n s)))))"
proof (cases "\<exists>j r. rid = Some j \<and> j \<noteq> 0 \<and> find_run j n s = Some r \<and> r_status r = Run_running")
  case False
  with assms(1) show ?thesis
    by (auto simp: begin_advance_def with_run_def split: option.split)
next
  case True
  then obtain j r where r: "rid = Some j" "j \<noteq> 0" "find_run j n s = Some r" "r_status r = Run_running" by blast
  have id: "r_id r = j" using find_run_SomeD [OF r(3)] by simp
  have upd: "settled st i (pipeline_runs (db (update_run j n f s)))" if "\<And>r. r_id (f r) = r_id r" for f
    by (rule settled_update_run [OF assms(1) that, of j n r]) (use r(3,4) assms(2) in auto)
  show ?thesis
    using assms(1) r id upd
    by (auto simp: begin_advance_def with_run_def Let_def finish_advance_def simp del: pipeline_runs_update_run split: option.split)
qed

lemma settled_cancel:
  assumes "settled st i (pipeline_runs (db s))" and "st \<noteq> Run_running" and "st \<noteq> Run_pending"
  shows "settled st i (pipeline_runs (db (snd (cancelRun w rid n s))))"
proof (cases "\<exists>j r. rid = Some j \<and> j \<noteq> 0 \<and> find_run j n s = Some r \<and> (r_status r = Run_running \<or> r_status r = Run_pending)")
  case False
  with assms(1) show ?thesis by (auto simp: cancelRun_def with_run_def split: option.split)
next
  case True
  then obtain j r where r: "rid = Some j" "j \<noteq> 0" "find_run j n s = Some r" "r_status r = Run_running \<or> r_status r = Run_pending" by blast
  have id: "r_id r = j" using find_run_SomeD [OF r(3)] by simp
  have upd: "settled st i (pipeline_runs (db (update_run j n f s)))" if "\<And>r. r_id (f r) = r_id r" for f
    by (rule settled_update_run [OF assms(1) that, of j n r]) (use r(3,4) assms(2,3) in auto)
  show ?thesis
    using assms(1) r id upd by (auto simp: cancelRun_def with_run_def Let_def simp del: pipeline_runs_update_run)
qed

lemma settled_resume:
  assumes "settled st i (pipeline_runs (db s))" shows "settled st i (pipeline_runs (db (snd (resume w res f s))))"
proof (cases f)
  case (Starting pid name who rid steps n args)
  obtain x spawn where "spawnStep w res steps 0 rid n s =
      (steps[0 := x], spawn, update_run rid n (\<lambda>r. r\<lparr>r_steps_snapshot := steps[0 := x]\<rparr>) s)"
    using spawnStep_effect by metis
  with assms show ?thesis
    by (simp add: Starting settled_update del: pipeline_runs_update_run)
      (intro settled_update_run, auto)
next
  case (Advancing rid k steps n args)
  obtain x spawn where "spawnStep w res steps k rid n s =
      (steps[k := x], spawn, update_run rid n (\<lambda>r. r\<lparr>r_steps_snapshot := steps[k := x]\<rparr>) s)"
    using spawnStep_effect by metis
  with assms show ?thesis
    by (simp add: Advancing finish_advance_def update_run_twice del: pipeline_runs_update_run)
      (intro settled_update_run, auto)
qed

lemma settled_step:
  assumes "conc_step c c'" and "settled st i (pipeline_runs (db (fst c)))" and "st \<noteq> Run_running" "st \<noteq> Run_pending"
  shows "settled st i (pipeline_runs (db (fst c')))"
  using assms
  by (cases rule: conc_step.cases)
    (auto simp: settled_begin_start settled_begin_advance settled_cancel settled_resume create_pipeline_runs
      update_pipeline_runs settled_delete delete_pipeline_def Let_def)

definition final_status :: "run_status \<Rightarrow> int \<Rightarrow> server \<times> inflight list \<Rightarrow> bool" where
  "final_status st i c \<longleftrightarrow> st \<noteq> Run_running \<and> st \<noteq> Run_pending \<and> settled st i (pipeline_runs (db (fst c)))"

interpretation settled_sys: invariant_system "final_status st i" conc_step "final_status st i" for st i
  by unfold_locales (auto simp: final_status_def intro: settled_step)

text \<open>
  The end of a run is final under every interleaving: once a run is completed, failed or
  cancelled, its status never changes again, whichever suspended requests are resumed and in
  whichever order.
\<close>

theorem ended_runs_stay_ended:
  assumes "conc_step\<^sup>*\<^sup>* (s, F) (s', F')" and "tbl_wf r_id (pipeline_runs (db s))"
    and "r \<in> set (rows (pipeline_runs (db s)))" and "r_status r \<noteq> Run_running" and "r_status r \<noteq> Run_pending"
    and "r' \<in> set (rows (pipeline_runs (db s')))" and "r_id r' = r_id r"
  shows "r_status r' = r_status r"
proof -
  have "settled (r_status r) (r_id r) (pipeline_runs (db s))"
    unfolding settled_def
  proof (intro conjI ballI impI)
    fix x assume "x \<in> set (rows (pipeline_runs (db s)))" "r_id x = r_id r"
    then have "x = r" using tbl_get_Some_unique [OF assms(2)] assms(3) by (metis option.inject)
    then show "r_status x = r_status r" by simp
  qed (use assms(2,3) in \<open>auto simp: tbl_wf_def\<close>)
  then have "final_status (r_status r) (r_id r) (s, F)" using assms(4,5) by (simp add: final_status_def)
  from settled_sys.steps_inv [OF assms(1) this] assms(6,7) show ?thesis
    by (auto simp: final_status_def settled_def)
qed

subsection \<open>Requests for the same run one after the other\<close>

fun waiting_run :: "inflight \<Rightarrow> int" where
  "waiting_run (Starting _ _ _ i _ _ _) = i"
| "waiting_run (Advancing i _ _ _ _) = i"

text \<open>
  The concurrent server whose clients wait: a run is advanced or cancelled only while no suspended request works on it. Requests for
  different runs, and everything else, interleave; the other components take any step that leaves the runs alone.
\<close>

inductive serial_step :: "server \<times> inflight list \<Rightarrow> server \<times> inflight list \<Rightarrow> bool" where
  start: "serial_step (s, F) (after_phase F (begin_start w pid by n s))"
| advance: "rid \<notin> Some ` waiting_run ` set F \<Longrightarrow> serial_step (s, F) (after_phase F (begin_advance w rid ok err n s))"
| cancel: "rid \<notin> Some ` waiting_run ` set F \<Longrightarrow> serial_step (s, F) (snd (cancelRun w rid n s), F)"
| finish: "f \<in> set F \<Longrightarrow> serial_step (s, F) (snd (resume w res f s), remove1 f F)"
| create: "serial_step (s, F) (snd (create_pipeline w u b s), F)"
| update: "serial_step (s, F) (snd (update_pipeline w u c s), F)"
| delete: "serial_step (s, F) (delete_pipeline pid n s, F)"
| other: "pipeline_runs (db t) = pipeline_runs (db s) \<Longrightarrow> serial_step (s, F) (t, F)"

text \<open>What a suspended request will write is a well-formed run, if the run is still there.\<close>

fun pend_ok :: "run_row tbl \<Rightarrow> inflight \<Rightarrow> bool" where
  "pend_ok T (Starting pid nm who i steps n args) \<longleftrightarrow> i \<le> seq T \<and> steps \<noteq> [] \<and>
     (\<forall>r \<in> set (rows T). r_id r = i \<longrightarrow> r_status r = Run_running \<and> r_current_step r = 0 \<and> run_ok (r\<lparr>r_steps_snapshot := steps\<rparr>))"
| "pend_ok T (Advancing i k steps n args) \<longleftrightarrow> i \<le> seq T \<and> k < length steps \<and>
     (\<forall>r \<in> set (rows T). r_id r = i \<longrightarrow> r_status r = Run_running \<and> run_ok (r\<lparr>r_current_step := k, r_steps_snapshot := steps\<rparr>))"

fun serial_inv :: "server \<times> inflight list \<Rightarrow> bool" where
  "serial_inv (s, F) \<longleftrightarrow> runs_ok s \<and> distinct (map waiting_run F) \<and> (\<forall>f \<in> set F. pend_ok (pipeline_runs (db s)) f)"

lemma pend_ok_rows:
  assumes "pend_ok T f" and "seq T \<le> seq T'" and "\<And>r. r \<in> set (rows T') \<Longrightarrow> r_id r = waiting_run f \<Longrightarrow> r \<in> set (rows T)"
  shows "pend_ok T' f"
  using assms by (cases f) auto

lemma pend_ok_update:
  assumes "pend_ok T g" and "waiting_run g \<noteq> i" and "\<And>r. r_id (f r) = r_id r"
  shows "pend_ok (tbl_update (\<lambda>r. r_id r = i \<and> r_workspace_id r = n) f T) g"
  using assms(2,3) by (intro pend_ok_rows [OF assms(1)]) (auto simp: rows_tbl_update)

lemma pend_ok_insert: "pend_ok T g \<Longrightarrow> (\<And>k. r_id (mk k) = k) \<Longrightarrow> pend_ok (snd (tbl_insert mk T)) g"
  by (rule pend_ok_rows) (cases g; auto simp: rows_tbl_insert)+

lemma run_ok_respawn:
  assumes "run_ok r" and "rs_status x = rs_status (r_steps_snapshot r ! r_current_step r)" and "r_status r = Run_running"
  shows "run_ok (r\<lparr>r_steps_snapshot := (r_steps_snapshot r)[r_current_step r := x]\<rparr>)"
proof -
  obtain before cur after where s: "r_steps_snapshot r = before @ cur # after" "length before = r_current_step r"
    "\<forall>x \<in> set before. closed_step x" "rs_status cur = Running" "\<forall>x \<in> set after. rs_status x = Pending"
    using split_at_current [OF assms(1,3)] by metis
  then have "rs_status x = Running" using assms(2) by simp
  with s assms(3) show ?thesis
    unfolding run_ok_def by (intro exI [of _ before] exI [of _ x] exI [of _ after]) auto
qed

text \<open>A change of one run that no suspended request works on, or of the one that is just resumed.\<close>

lemma serial_update:
  assumes "runs_ok s" and "distinct (map waiting_run F)" and "\<forall>g \<in> set F. pend_ok (pipeline_runs (db s)) g"
    and "i \<notin> waiting_run ` set F" and "\<And>r. r_id (f r) = r_id r"
    and "\<And>r. find_run i n s = Some r \<Longrightarrow> run_ok (f r)"
    and "pipeline_runs (db t) = pipeline_runs (db (update_run i n f s))"
  shows "serial_inv (t, F)"
proof -
  have "runs_ok (update_run i n f s)"
  proof (cases "find_run i n s")
    case None
    then have "\<forall>r \<in> set (rows (pipeline_runs (db s))). \<not> (r_id r = i \<and> r_workspace_id r = n)"
      by (simp add: find_run_def tbl_first_def find_None_iff)
    then have "rows (pipeline_runs (db (update_run i n f s))) = rows (pipeline_runs (db s))"
      by (auto simp: rows_tbl_update intro!: map_idI)
    with assms(1,5) show ?thesis by (simp add: runs_ok_def run_rows.wf_update)
  next
    case (Some r)
    then show ?thesis by (intro runs_ok_update [OF assms(1,5) Some] assms(6))
  qed
  moreover have "pend_ok (pipeline_runs (db t)) g" if "g \<in> set F" for g
    using that assms(3,4) unfolding assms(7) pipeline_runs_update_run by (intro pend_ok_update [OF _ _ assms(5)]) auto
  ultimately show ?thesis using assms(2) runs_ok_cong [OF assms(7)] by simp
qed

lemma begin_advance_suspended:
  assumes "begin_advance w rid ok err n s = Suspended f s'" and "runs_ok s"
  obtains i r k steps args where "rid = Some i" "s' = s" "f = Advancing i k steps n args" "find_run i n s = Some r"
    "r_status r = Run_running" "k < length steps" "run_ok (r\<lparr>r_current_step := k, r_steps_snapshot := steps\<rparr>)"
proof -
  obtain i r where r: "rid = Some i" "i \<noteq> 0" "find_run i n s = Some r" "r_status r = Run_running"
    using assms(1) by (auto simp: begin_advance_def with_run_def split: option.splits if_splits)
  have id: "r_id r = i" and okr: "run_ok r" using find_run_SomeD [OF r(3)] assms(2) by (auto simp: runs_ok_def)
  obtain before cur after where c: "r_steps_snapshot r = before @ cur # after" "length before = r_current_step r"
    using split_at_current [OF okr r(4)] by metis
  have k: "r_current_step r < length (r_steps_snapshot r)" using c by simp
  define cur' where "cur' = mark_current w ok err cur"
  note run = begin_advance_def with_run_def Let_def r closed_response_def
  have go: "\<not> (\<not> ok \<and> rs_on_failure cur = Stop)"
    using assms(1) k by (auto simp: run c(1) id simp flip: c(2))
  obtain x rest where after: "after = x # rest"
    using assms(1) k go by (cases after) (auto simp: run c(1) id simp flip: c(2))
  let ?x = "x\<lparr>rs_status := Running, rs_started_at := Some (now_s w)\<rparr>"
  let ?steps = "before @ cur' # ?x # rest" and ?k = "Suc (length before)"
  have f: "s' = s \<and> (\<exists>args. f = Advancing i ?k ?steps n args)"
    using assms(1) k go after by (auto simp: run c(1) id cur'_def simp flip: c(2) split: option.splits)
  have "advanced ok r (r\<lparr>r_current_step := ?k, r_steps_snapshot := ?steps\<rparr>)"
    by (rule advancedI [OF c, of _ cur']) (use go after c(2) in \<open>auto simp: cur'_def\<close>)
  then have "run_ok (r\<lparr>r_current_step := ?k, r_steps_snapshot := ?steps\<rparr>)" by (rule advanced_run_ok [OF okr r(4)])
  with that [of i ?k ?steps] r f show thesis by auto
qed

lemma serial_advance:
  assumes inv: "serial_inv (s, F)" and free: "rid \<notin> Some ` waiting_run ` set F"
  shows "serial_inv (after_phase F (begin_advance w rid ok err n s))"
proof (cases "begin_advance w rid ok err n s")
  case (Replied out)
  obtain resp t where out: "out = (resp, t)" by fastforce
  have adv: "advanceRun w cmd rid ok err n s = (resp, t)" for cmd
    by (simp add: advanceRun_def run_phases_def Replied out)
  show ?thesis
  proof (cases "\<exists>i r. rid = Some i \<and> i \<noteq> 0 \<and> find_run i n s = Some r \<and> r_status r = Run_running")
    case True
    then obtain i r where r: "rid = Some i" "i \<noteq> 0" "find_run i n s = Some r" "r_status r = Run_running" by blast
    have okr: "run_ok r" using inv find_run_SomeD [OF r(3)] by (auto simp: runs_ok_def)
    obtain before cur after where "r_steps_snapshot r = before @ cur # after" "length before = r_current_step r"
      using split_at_current [OF okr r(4)] by metis
    from advanceRun_effect [OF r(3,2,4) this, of ok w "\<lambda>_. Inl []" err] obtain f where f: "\<forall>r. r_id (f r) = r_id r"
      "advanced ok r (f r)" "pipeline_runs (db t) = pipeline_runs (db (update_run i n f s))" using adv r(1) by auto
    have "serial_inv (t, F)"
      by (rule serial_update [OF _ _ _ _ _ _ f(3)])
        (use inv free r f(1) advanced_run_ok [OF okr r(4) f(2)] in \<open>auto\<close>)
    with Replied out show ?thesis by simp
  next
    case False
    then have "snd (advanceRun w (\<lambda>_. Inl []) rid ok err n s) = s"
      by (auto simp: advanceRun_def begin_advance_def with_run_def run_phases_def split: option.splits)
    then have "t = s" by (simp add: adv)
    with Replied out inv show ?thesis by simp
  qed
next
  case (Suspended f t)
  have ok: "runs_ok s" using inv by simp
  obtain i r k steps args where a: "rid = Some i" "t = s" "f = Advancing i k steps n args" "find_run i n s = Some r"
    "r_status r = Run_running" "k < length steps" "run_ok (r\<lparr>r_current_step := k, r_steps_snapshot := steps\<rparr>)"
    by (rule begin_advance_suspended [OF Suspended ok])
  have r: "r \<in> set (rows (pipeline_runs (db s)))" "r_id r = i" using find_run_SomeD [OF a(4)] by auto
  have wf: "tbl_wf r_id (pipeline_runs (db s))" using ok by (simp add: runs_ok_def)
  have "x = r" if "x \<in> set (rows (pipeline_runs (db s)))" "r_id x = i" for x
    using tbl_get_Some_unique [OF wf that(1)] tbl_get_Some_unique [OF wf r(1)] that(2) r(2) by simp
  moreover have "i \<le> seq (pipeline_runs (db s))" using wf r by (auto simp: tbl_wf_def)
  ultimately have "pend_ok (pipeline_runs (db s)) f" using a by auto
  with inv free a Suspended show ?thesis by auto
qed

lemma serial_cancel:
  assumes inv: "serial_inv (s, F)" and free: "rid \<notin> Some ` waiting_run ` set F"
  shows "serial_inv (snd (cancelRun w rid n s), F)"
proof (cases "\<exists>i r. rid = Some i \<and> i \<noteq> 0 \<and> find_run i n s = Some r \<and> r_status r = Run_running")
  case True
  then obtain i r where r: "rid = Some i" "i \<noteq> 0" "find_run i n s = Some r" "r_status r = Run_running" by blast
  have id: "r_id r = i" using find_run_SomeD [OF r(3)] by simp
  have ok: "runs_ok (snd (cancelRun w rid n s))" using inv runs_ok_cancel by simp
  let ?f = "\<lambda>x. x\<lparr>r_status := Run_cancelled, r_steps_snapshot := map (skip_open w) (r_steps_snapshot r), r_completed_at := Some (now_s w)\<rparr>"
  have eq: "snd (cancelRun w rid n s) = update_run i n ?f s"
    using r id by (simp add: cancelRun_def with_run_def Let_def)
  have "pend_ok (pipeline_runs (db (update_run i n ?f s))) g" if "g \<in> set F" for g
    using that inv free r(1) unfolding pipeline_runs_update_run by (intro pend_ok_update) auto
  with ok inv show ?thesis unfolding eq by (simp del: pipeline_runs_update_run)
next
  case False
  have "r_status r \<noteq> Run_pending" if "find_run i n s = Some r" for i r
    using inv find_run_SomeD [OF that] by (auto simp: runs_ok_def run_ok_def)
  with False have "snd (cancelRun w rid n s) = s"
    by (auto simp: cancelRun_def with_run_def split: option.splits)
  with inv show ?thesis by simp
qed

lemma serial_start:
  assumes inv: "serial_inv (s, F)" shows "serial_inv (after_phase F (begin_start w pid who n s))"
proof (cases "begin_start w pid who n s")
  case (Replied out)
  obtain resp t where out: "out = (resp, t)" by fastforce
  have st: "snd (startPipeline w cmd pid who n s) = t" for cmd by (simp add: startPipeline_def run_phases_def Replied out)
  have wf: "tbl_wf r_id (pipeline_runs (db s))" using inv by (simp add: runs_ok_def)
  have "runs_ok t" using runs_ok_start [of s w "\<lambda>_. Inl []" pid who n] inv st by simp
  moreover have "pend_ok (pipeline_runs (db t)) g" if "g \<in> set F" for g
    using startPipeline_runs [OF wf, of w "\<lambda>_. Inl []" pid who n] that inv unfolding st
    by (auto intro!: pend_ok_insert)
  ultimately show ?thesis using inv Replied out by simp
next
  case (Suspended f t)
  let ?T = "pipeline_runs (db s)"
  have wf: "tbl_wf r_id ?T" using inv by (simp add: runs_ok_def)
  obtain pl where pl: "(case pid of None \<Rightarrow> None | Some i \<Rightarrow> find_pipeline i n s) = Some pl" "p_steps pl \<noteq> []"
    using Suspended by (auto simp: begin_start_def split: option.splits if_splits)
  obtain x xs where x: "steps_snapshot w s (p_steps pl) = x # xs" "rs_status x = Running" "\<forall>y \<in> set xs. rs_status y = Pending"
    using steps_snapshot_shape [OF pl(2)] by metis
  let ?mk = "new_run w (p_id pl) (x # xs) who n"
  have f: "(\<exists>nm args. f = Starting (p_id pl) nm who (seq ?T + 1) (x # xs) n args)" "pipeline_runs (db t) = snd (tbl_insert ?mk ?T)"
    using Suspended pl x by (auto simp: begin_start_def Let_def case_prod_beta split: option.splits)
  have new: "run_ok (?mk i)" for i
    using run_ok_new [OF refl x(2,3), of w "p_id pl" "x # xs" who n i] by (simp add: new_run_def)
  have ok: "runs_ok t"
    using inv new by (auto simp: runs_ok_def f(2) run_rows.wf_insert rows_tbl_insert)
  have pend: "pend_ok (pipeline_runs (db t)) g" if "g \<in> set F" for g
    using that inv unfolding f(2) by (intro pend_ok_insert) auto
  have less: "waiting_run g \<le> seq ?T" if "g \<in> set F" for g
  proof -
    have "pend_ok ?T g" using that inv by simp
    then show ?thesis by (cases g) simp_all
  qed
  have "r = ?mk (seq ?T + 1)" if "r \<in> set (rows (pipeline_runs (db t)))" "r_id r = seq ?T + 1" for r
    using that wf by (auto simp: f(2) rows_tbl_insert tbl_wf_def)
  moreover have "(?mk (seq ?T + 1))\<lparr>r_steps_snapshot := x # xs\<rparr> = ?mk (seq ?T + 1)" "r_current_step (?mk (seq ?T + 1)) = 0"
    by (simp_all add: new_run_def)
  ultimately have "\<forall>r \<in> set (rows (pipeline_runs (db t))). r_id r = seq ?T + 1 \<longrightarrow>
      r_status r = Run_running \<and> r_current_step r = 0 \<and> run_ok (r\<lparr>r_steps_snapshot := x # xs\<rparr>)"
    using new [of "seq ?T + 1"] by force
  moreover have "seq ?T + 1 \<le> seq (pipeline_runs (db t))" by (simp add: f(2) tbl_insert_def)
  ultimately have "pend_ok (pipeline_runs (db t)) f" using f(1) by (elim exE) (simp only: pend_ok.simps list.distinct not_False_eq_True simp_thms)
  moreover have "waiting_run f \<notin> waiting_run ` set F" using f(1) less by force
  ultimately show ?thesis using Suspended ok pend inv by simp
qed

lemma serial_finish:
  assumes inv: "serial_inv (s, F)" and f: "f \<in> set F"
  shows "serial_inv (snd (resume w res f s), remove1 f F)"
proof -
  have dist: "distinct (map waiting_run F)" using inv by simp
  then have "distinct F" by (simp add: distinct_map)
  have rest: "set (remove1 f F) = set F - {f}" using \<open>distinct F\<close> by simp
  have free: "waiting_run f \<notin> waiting_run ` set (remove1 f F)"
    unfolding rest using dist f by (auto simp: distinct_map inj_on_def)
  have dist': "distinct (map waiting_run (remove1 f F))"
    using dist \<open>distinct F\<close> unfolding distinct_map rest by (auto intro: inj_on_subset)
  have pend: "\<forall>g \<in> set (remove1 f F). pend_ok (pipeline_runs (db s)) g" using inv unfolding rest by simp
  have ok: "runs_ok s" and mine: "pend_ok (pipeline_runs (db s)) f" using inv f by auto
  show ?thesis
  proof (cases f)
    case (Starting pid nm who i steps m args)
    obtain x spawn where x: "rs_status x = rs_status (steps ! 0)" "spawnStep w res steps 0 i m s =
        (steps[0 := x], spawn, update_run i m (\<lambda>r. r\<lparr>r_steps_snapshot := steps[0 := x]\<rparr>) s)"
      using spawnStep_effect by metis
    have "run_ok (r\<lparr>r_steps_snapshot := steps[0 := x]\<rparr>)" if "find_run i m s = Some r" for r
      using run_ok_respawn [of "r\<lparr>r_steps_snapshot := steps\<rparr>" x] mine find_run_SomeD [OF that] x(1) Starting by simp
    then show ?thesis
      by (intro serial_update [OF ok dist' pend, of i "\<lambda>r. r\<lparr>r_steps_snapshot := steps[0 := x]\<rparr>" m])
        (use free x(2) Starting in \<open>simp_all\<close>)
  next
    case (Advancing i k steps m args)
    obtain x spawn where x: "rs_status x = rs_status (steps ! k)" "spawnStep w res steps k i m s =
        (steps[k := x], spawn, update_run i m (\<lambda>r. r\<lparr>r_steps_snapshot := steps[k := x]\<rparr>) s)"
      using spawnStep_effect by metis
    let ?f = "\<lambda>r. r\<lparr>r_current_step := k, r_steps_snapshot := steps[k := x]\<rparr>"
    have "run_ok (?f r)" if "find_run i m s = Some r" for r
      using run_ok_respawn [of "r\<lparr>r_current_step := k, r_steps_snapshot := steps\<rparr>" x] mine find_run_SomeD [OF that] x(1) Advancing
      by simp
    then show ?thesis
      by (intro serial_update [OF ok dist' pend, of i ?f m])
        (use free x(2) Advancing in \<open>simp_all add: finish_advance_def update_run_twice del: pipeline_runs_update_run\<close>)
  qed
qed

lemma serial_inv_cong: "pipeline_runs (db t) = pipeline_runs (db s) \<Longrightarrow> serial_inv (t, F) = serial_inv (s, F)"
  using runs_ok_cong [of t s] by simp

lemma serial_delete: "serial_inv (s, F) \<Longrightarrow> serial_inv (delete_pipeline i n s, F)"
  using runs_ok_delete_pipeline [of s i n]
  by (auto simp: delete_pipeline_def Let_def rows_tbl_delete tbl_delete_def intro: pend_ok_rows)

interpretation serial_sys: invariant_system "\<lambda>c. c = (init_server, [])" serial_step serial_inv
proof
  show "serial_inv c" if "c = (init_server, [])" for c
    using that by (simp add: runs_ok_def init_server_def empty_db_def tbl_empty_def tbl_wf_def)
  show "serial_inv d" if "serial_inv c" "serial_step c d" for c d
    using that(2,1)
  proof (induction rule: serial_step.induct)
    case (create s F w u b)
    then show ?case using serial_inv_cong [OF create_pipeline_runs] by blast
  next
    case (update s F w u c)
    then show ?case using serial_inv_cong [OF update_pipeline_runs] by blast
  next
    case (other t s F)
    then show ?case using serial_inv_cong by blast
  qed (blast intro: serial_start serial_advance serial_cancel serial_finish serial_delete)+
qed

text \<open>
  C6. As long as no run is advanced or cancelled while another request is still working on that run (requests for different runs, and
  everything else, may interleave at the await), every run has the shape of its status in every reachable state: the current step
  exists; while the run is running, the steps before it are closed, it alone is running and the later ones are pending; once the
  run is completed, failed or cancelled no step is left pending or running. Without that proviso it fails: see \<open>cancel_during_advance\<close>.
\<close>

theorem runs_well_formed:
  assumes "serial_step\<^sup>*\<^sup>* (init_server, []) (s, F)" and "r \<in> set (rows (pipeline_runs (db s)))"
  shows "r_current_step r < length (r_steps_snapshot r) \<and>
    (if r_status r = Run_running
     then \<forall>k < length (r_steps_snapshot r).
       (let st = rs_status (r_steps_snapshot r ! k) in
        if k < r_current_step r then st = Completed \<or> st = Failed
        else if k = r_current_step r then st = Running else st = Pending)
     else \<forall>x \<in> set (r_steps_snapshot r). rs_status x \<noteq> Pending \<and> rs_status x \<noteq> Running)"
  using serial_sys.reachable_inv [OF refl assms(1)] assms(2) by (intro run_ok_shape) (simp add: runs_ok_def)

text \<open>
  The snapshot of a cancelled run is not final: when a run is cancelled while an advance waits
  for its command, the resumed advance overwrites the snapshot, and the cancelled run has a step in
  status running.
\<close>

theorem cancel_during_advance:
  assumes "runs_ok s" and "find_run i n s = Some r" and "i \<noteq> 0" and "r_status r = Run_running"
    and "Suc (r_current_step r) < length (r_steps_snapshot r)"
    and "tbl_get tp_id (workflow_templates (db s)) (rs_template_id (r_steps_snapshot r ! Suc (r_current_step r))) = Some tpl"
  shows "\<exists>f r'. begin_advance w (Some i) True None n s = Suspended f s \<and>
    find_run i n (snd (resume w'' res f (snd (cancelRun w' (Some i) n s)))) = Some r' \<and>
    r_status r' = Run_cancelled \<and> rs_status (r_steps_snapshot r' ! Suc (r_current_step r)) = Running"
proof -
  let ?k = "Suc (r_current_step r)"
  have wf: "tbl_wf r_id (pipeline_runs (db s))" and id: "r_id r = i" "r_workspace_id r = n"
    using assms(1) find_run_SomeD [OF assms(2)] by (auto simp: runs_ok_def)
  obtain steps args where f: "begin_advance w (Some i) True None n s = Suspended (Advancing i ?k steps n args) s"
    and st: "rs_status (steps ! ?k) = Running" "?k < length steps"
    using assms id by (auto simp: begin_advance_def with_run_def Let_def)
  let ?c = "\<lambda>x. x\<lparr>r_status := Run_cancelled, r_steps_snapshot := map (skip_open w') (r_steps_snapshot r),
    r_completed_at := Some (now_s w')\<rparr>"
  have c: "snd (cancelRun w' (Some i) n s) = update_run i n ?c s"
    using assms(2-4) id by (simp add: cancelRun_def with_run_def Let_def)
  obtain x spawn where x: "rs_status x = Running" "spawnStep w'' res steps ?k i n (update_run i n ?c s) =
      (steps[?k := x], spawn, update_run i n (\<lambda>r. r\<lparr>r_steps_snapshot := steps[?k := x]\<rparr>) (update_run i n ?c s))"
    by (rule spawnStep_effect [of steps ?k w'' res i n "update_run i n ?c s"]) (use st in auto)
  let ?f = "\<lambda>y. (?c y)\<lparr>r_current_step := ?k, r_steps_snapshot := steps[?k := x]\<rparr>"
  have "snd (resume w'' res (Advancing i ?k steps n args) (snd (cancelRun w' (Some i) n s))) = update_run i n ?f s"
    by (simp add: c x(2) finish_advance_def update_run_twice)
  moreover have "find_run i n (update_run i n ?f s) = Some (?f r)"
    by (rule find_run_update_self [OF assms(2) _ _ wf]) simp_all
  ultimately show ?thesis using f x(1) st(2) by auto
qed

section \<open>Examples\<close>

definition demo_pipelines_state :: server where
  "demo_pipelines_state = init_server\<lparr>db := empty_db\<lparr>
     workflow_templates := \<lparr>seq = 1, rows = [\<lparr>tp_id = 1, tp_name = ''build'', tp_description = None, tp_model = ''sonnet'',
       tp_task_prompt = ''build it'', tp_timeout_seconds = 300, tp_agent_role = None, tp_tags = None, tp_created_by = ''system'',
       tp_created_at = 0, tp_updated_at = 0, tp_last_used_at = None, tp_use_count = 0, tp_workspace_id = 1\<rparr>]\<rparr>,
     workflow_pipelines := \<lparr>seq = 1, rows = [\<lparr>p_id = 1, p_name = ''release'', p_description = None,
       p_steps = [\<lparr>ps_template_id = 1, ps_on_failure = Stop\<rparr>, \<lparr>ps_template_id = 1, ps_on_failure = Continue\<rparr>],
       p_created_by = ''api'', p_created_at = 0, p_updated_at = 0, p_use_count = 0, p_last_used_at = None,
       p_workspace_id = 1\<rparr>]\<rparr>\<rparr>\<rparr>"

definition demo_cmd :: "string list \<Rightarrow> string + string" where
  "demo_cmd args = Inr ''ok''"

definition demo_run_request :: request where
  "demo_run_request = demo_request\<lparr>req_body := Some (JObj [(''action'', JStr ''start''), (''pipeline_id'', JNum 1)])\<rparr>"

definition demo_run_state :: server where
  "demo_run_state = snd (startPipeline demo_world demo_cmd (Some 1) ''api'' 1 demo_pipelines_state)"

lemma runs_ok_demo: "runs_ok demo_pipelines_state" "runs_ok demo_run_state"
proof -
  show "runs_ok demo_pipelines_state"
    by (simp add: runs_ok_def demo_pipelines_state_def empty_db_def) (simp add: tbl_empty_def)
  then show "runs_ok demo_run_state" unfolding demo_run_state_def by (rule runs_ok_start)
qed

lemma demo_run:
  obtains r where "find_run 1 1 demo_run_state = Some r" "r_status r = Run_running" "r_current_step r = 0"
    "length (r_steps_snapshot r) = 2" "rs_template_id (r_steps_snapshot r ! 1) = 1"
  by (simp add: find_run_def demo_run_state_def startPipeline_def begin_start_def find_pipeline_def demo_pipelines_state_def
      empty_db_def init_server_def tbl_first_def tbl_get_def tbl_insert_def run_phases_def spawnStep_def demo_cmd_def
      steps_snapshot_def step_snapshot_def new_run_def update_run_def tbl_update_def tbl_empty_def Let_def)

lemma demo_run_template: "\<exists>tpl. tbl_get tp_id (workflow_templates (db demo_run_state)) 1 = Some tpl"
  by (simp add: demo_run_state_def startPipeline_def begin_start_def find_pipeline_def demo_pipelines_state_def
      empty_db_def init_server_def tbl_first_def tbl_get_def tbl_insert_def run_phases_def spawnStep_def demo_cmd_def
      finish_start_def frame_simps tbl_empty_def Let_def)

lemma demo_run_serial: "serial_step\<^sup>*\<^sup>* (init_server, []) (demo_run_state, [])"
proof -
  obtain f s1 where b: "begin_start demo_world (Some 1) ''api'' 1 demo_pipelines_state = Suspended f s1"
    by (simp add: begin_start_def find_pipeline_def demo_pipelines_state_def empty_db_def init_server_def tbl_first_def tbl_get_def
        tbl_insert_def steps_snapshot_def step_snapshot_def tbl_empty_def Let_def)
  have "serial_step (init_server, []) (demo_pipelines_state, [])"
    by (rule serial_step.other) (simp add: demo_pipelines_state_def init_server_def)
  moreover have "serial_step (demo_pipelines_state, []) (s1, [f])"
    using serial_step.start [of demo_pipelines_state "[]" demo_world "Some 1" "''api''" 1] by (simp add: b)
  moreover have "serial_step (s1, [f]) (demo_run_state, [])"
    using serial_step.finish [of f "[f]" s1 demo_world "demo_cmd (awaited f)"] by (simp add: demo_run_state_def startPipeline_def run_phases_def b)
  ultimately show ?thesis by auto
qed

theorem runs_well_formed_witness:
  "\<exists>r. r \<in> set (rows (pipeline_runs (db demo_run_state))) \<and> r_status r = Run_running \<and>
     r_current_step r < length (r_steps_snapshot r)"
proof -
  obtain r where r: "find_run 1 1 demo_run_state = Some r" "r_status r = Run_running" using demo_run by metis
  then have "r \<in> set (rows (pipeline_runs (db demo_run_state)))" by (auto dest: find_run_SomeD)
  with runs_well_formed [OF demo_run_serial this] r(2) show ?thesis by blast
qed

theorem advanceRun_spec_witness:
  "\<exists>r r'. find_run 1 1 demo_run_state = Some r \<and>
     find_run 1 1 (snd (advanceRun demo_world demo_cmd (Some 1) False (Some ''boom'') 1 demo_run_state)) = Some r' \<and>
     advanced False r r'"
proof -
  obtain r where r: "find_run 1 1 demo_run_state = Some r" "r_status r = Run_running" using demo_run by metis
  with advanceRun_spec [OF runs_ok_demo(2) r(1) _ r(2)] show ?thesis by auto
qed

theorem advances_complete_witness:
  "\<exists>r'. find_run 1 1 (advance_all [(demo_world, demo_cmd), (demo_world, demo_cmd)] 1 1 demo_run_state) = Some r' \<and>
     r_status r' = Run_completed"
proof -
  obtain r where r: "find_run 1 1 demo_run_state = Some r" "r_status r = Run_running" "r_current_step r = 0"
    "length (r_steps_snapshot r) = 2" using demo_run by metis
  have "length [(demo_world, demo_cmd), (demo_world, demo_cmd)] = length (r_steps_snapshot r) - r_current_step r"
    by (simp add: r)
  from advances_complete [OF runs_ok_demo(2) r(1) _ r(2) this] show ?thesis by auto
qed

theorem ended_runs_stay_ended_witness:
  "\<exists>f s' r'. conc_step\<^sup>*\<^sup>* (snd (cancelRun demo_world (Some 1) 1 demo_run_state), [f]) (s', []) \<and>
     r' \<in> set (rows (pipeline_runs (db s'))) \<and> r_id r' = 1 \<and> r_status r' = Run_cancelled"
proof -
  obtain r where r: "find_run 1 1 demo_run_state = Some r" "r_status r = Run_running" using demo_run by metis
  let ?s = "snd (cancelRun demo_world (Some 1) 1 demo_run_state)" and ?f = "Advancing 1 1 (r_steps_snapshot r) 1 []"
  let ?s' = "snd (resume demo_world (Inr []) ?f ?s)"
  have id: "r_id r = 1" using find_run_SomeD [OF r(1)] by simp
  have steps: "conc_step\<^sup>*\<^sup>* (?s, [?f]) (?s', [])"
    using conc_step.finish [of ?f "[?f]" ?s demo_world "Inr []"] by auto
  have ok: "runs_ok ?s" by (rule runs_ok_cancel [OF runs_ok_demo(2)])
  let ?c = "\<lambda>x. x\<lparr>r_status := Run_cancelled, r_steps_snapshot := map (skip_open demo_world) (r_steps_snapshot r),
    r_completed_at := Some (now_s demo_world)\<rparr>"
  have "?s = update_run 1 1 ?c demo_run_state" using r id by (simp add: cancelRun_def with_run_def Let_def)
  then have f: "find_run 1 1 ?s = Some (?c r)" using r(1) by (simp add: find_run_update)
  obtain x sp where "spawnStep demo_world (Inr []) (r_steps_snapshot r) 1 1 1 ?s =
      ((r_steps_snapshot r)[1 := x], sp, update_run 1 1 (\<lambda>y. y\<lparr>r_steps_snapshot := (r_steps_snapshot r)[1 := x]\<rparr>) ?s)"
    using spawnStep_effect by metis
  then have "\<exists>r'. find_run 1 1 ?s' = Some r'" using f by (simp add: finish_advance_def update_run_twice find_run_update)
  then obtain r' where r': "r' \<in> set (rows (pipeline_runs (db ?s')))" "r_id r' = 1" by (auto dest: find_run_SomeD)
  have "r_status r' = r_status (?c r)"
    using ended_runs_stay_ended [OF steps, of "?c r" r'] ok find_run_SomeD [OF f] r' by (simp add: runs_ok_def)
  with steps r' show ?thesis by auto
qed

theorem cancel_during_advance_witness:
  "\<exists>f r'. begin_advance demo_world (Some 1) True None 1 demo_run_state = Suspended f demo_run_state \<and>
     find_run 1 1 (snd (resume demo_world (Inr []) f (snd (cancelRun demo_world (Some 1) 1 demo_run_state)))) = Some r' \<and>
     r_status r' = Run_cancelled \<and> rs_status (r_steps_snapshot r' ! 1) = Running"
proof -
  obtain r where r: "find_run 1 1 demo_run_state = Some r" "r_status r = Run_running" "r_current_step r = 0"
    "length (r_steps_snapshot r) = 2" "rs_template_id (r_steps_snapshot r ! 1) = 1" using demo_run by metis
  obtain tpl where "tbl_get tp_id (workflow_templates (db demo_run_state)) (rs_template_id (r_steps_snapshot r ! Suc (r_current_step r))) = Some tpl"
    using demo_run_template r(3,5) by auto
  from cancel_during_advance [OF runs_ok_demo(2) r(1) _ r(2) _ this, of demo_world demo_world "Inr []" demo_world] r(3,4)
  show ?thesis by simp
qed

end
