(* ===== verification/MC_Platform.thy ===== *)
theory MC_Platform
  imports MC_Db
begin

text \<open>
  What the code uses of Node's \<open>path\<close> module and of \<open>Date\<close>, and \<open>src/lib/paths.ts\<close>:
  normalising, joining and resolving POSIX paths, the confinement of a path to a directory, and
  dates in ISO format.
\<close>

section \<open>POSIX paths\<close>

text \<open>\<open>path.posix.normalize\<close> and \<open>path.posix.join\<close>: the segments are kept in reverse.\<close>

fun normalize_segments :: "bool \<Rightarrow> string list \<Rightarrow> string list \<Rightarrow> string list" where
  "normalize_segments allow_up acc [] = rev acc"
| "normalize_segments allow_up acc (p # ps) =
     (if p = [] \<or> p = ''.'' then normalize_segments allow_up acc ps
      else if p = ''..'' then
        (case acc of
           [] \<Rightarrow> normalize_segments allow_up (if allow_up then [''..''] else []) ps
         | a # acc' \<Rightarrow> if a = ''..'' then normalize_segments allow_up (''..'' # acc) ps else normalize_segments allow_up acc' ps)
      else normalize_segments allow_up (p # acc) ps)"

definition posix_normalize :: "string \<Rightarrow> string" where
  "posix_normalize p =
     (if p = [] then ''.''
      else
        (let absolute = (hd p = CHR ''/''); trailing = (last p = CHR ''/'');
             body = join_with ''/'' (normalize_segments (\<not> absolute) [] (split_on CHR ''/'' p))
         in if body = [] then (if absolute then ''/'' else if trailing then ''./'' else ''.'')
            else (if absolute then ''/'' else []) @ body @ (if trailing then ''/'' else [])))"

definition posix_join :: "string list \<Rightarrow> string" where
  "posix_join ps = (let ne = filter (\<lambda>p. p \<noteq> []) ps in if ne = [] then ''.'' else posix_normalize (join_with ''/'' ne))"

text \<open>
  \<open>path.resolve(base, p)\<close> for an absolute \<open>base\<close>, and \<open>resolveWithin\<close>: the resolved path must
  be the directory itself or begin with it and a separator. \<open>cwd\<close> is the working directory.
\<close>

definition path_segments :: "string \<Rightarrow> string list" where
  "path_segments p = normalize_segments False [] (split_on CHR ''/'' p)"

definition from_segments :: "string list \<Rightarrow> string" where
  "from_segments ss = ''/'' @ join_with ''/'' ss"

definition path_resolve :: "string \<Rightarrow> string \<Rightarrow> string" where
  "path_resolve base p =
     from_segments (path_segments (if p \<noteq> [] \<and> hd p = CHR ''/'' then p else base @ ''/'' @ p))"

definition resolveWithin :: "string \<Rightarrow> string \<Rightarrow> string \<Rightarrow> string + string" where
  "resolveWithin cwd baseDir relativePath =
     (let base = path_resolve cwd baseDir; resolved = path_resolve base relativePath
      in if \<not> starts_with (base @ ''/'') resolved \<and> resolved \<noteq> base
         then Inl ''Path escapes base directory'' else Inr resolved)"

subsection \<open>Resolved paths\<close>

definition plain_segment :: "string \<Rightarrow> bool" where
  "plain_segment x \<longleftrightarrow> x \<noteq> [] \<and> x \<noteq> ''.'' \<and> x \<noteq> ''..'' \<and> CHR ''/'' \<notin> set x"

definition clean :: "string list \<Rightarrow> bool" where
  "clean ss \<longleftrightarrow> list_all plain_segment ss"

lemma clean_simps [simp]:
  "clean []" "clean (x # xs) \<longleftrightarrow> plain_segment x \<and> clean xs" "clean (xs @ ys) \<longleftrightarrow> clean xs \<and> clean ys"
  "clean (rev xs) \<longleftrightarrow> clean xs"
  by (simp_all add: clean_def)

lemma clean_normalize:
  "clean acc \<Longrightarrow> list_all (\<lambda>x. CHR ''/'' \<notin> set x) ps \<Longrightarrow> clean (normalize_segments False acc ps)"
proof (induction ps arbitrary: acc)
  case Nil
  then show ?case by simp
next
  case (Cons p ps)
  have rec: "clean a \<Longrightarrow> clean (normalize_segments False a ps)" for a
    using Cons.IH Cons.prems(2) by simp
  have p: "p \<noteq> [] \<Longrightarrow> p \<noteq> ''.'' \<Longrightarrow> p \<noteq> ''..'' \<Longrightarrow> plain_segment p"
    using Cons.prems(2) by (simp add: plain_segment_def)
  show ?case
  proof (cases "p = [] \<or> p = ''.''")
    case True
    with Cons.prems(1) rec show ?thesis by auto
  next
    case False
    with p Cons.prems(1) rec show ?thesis
      by (cases "p = ''..''"; cases acc) (simp_all add: plain_segment_def)
  qed
qed

lemma clean_path_segments: "clean (path_segments p)"
  unfolding path_segments_def by (rule clean_normalize) (auto simp: list_all_iff dest: split_on_parts)

lemma normalize_clean: "clean ps \<Longrightarrow> normalize_segments False acc ps = rev acc @ ps"
  by (induction ps arbitrary: acc) (simp_all add: plain_segment_def)

lemma split_on_append: "split_on c (x @ c # y) = split_on c x @ split_on c y"
proof (induction x)
  case Nil
  then show ?case by simp
next
  case (Cons a x)
  then show ?case by (cases "split_on c x") auto
qed

lemma split_join_clean: "clean ss \<Longrightarrow> ss \<noteq> [] \<Longrightarrow> split_on CHR ''/'' (join_with ''/'' ss) = ss"
proof (induction ss)
  case (Cons x xs)
  then have x: "CHR ''/'' \<notin> set x" by (simp add: plain_segment_def)
  with Cons show ?case
    by (cases xs) (simp_all add: split_on_no_sep split_on_append_sep)
qed simp

lemma split_from_segments:
  assumes "clean ss" shows "split_on CHR ''/'' (from_segments ss) = [] # (if ss = [] then [[]] else ss)"
  using split_join_clean [OF assms] by (simp add: from_segments_def)

lemma segments_from_segments: "clean ss \<Longrightarrow> path_segments (from_segments ss) = ss"
  by (simp add: path_segments_def split_from_segments normalize_clean)

lemma from_segments_prefix:
  assumes "clean bs" and "clean rs"
  shows "starts_with (from_segments bs @ ''/'') (from_segments rs) \<longleftrightarrow> bs \<noteq> [] \<and> (\<exists>x xs. rs = bs @ x # xs)"
proof
  assume "starts_with (from_segments bs @ ''/'') (from_segments rs)"
  then obtain t where "from_segments rs = from_segments bs @ CHR ''/'' # t"
    by (auto dest: starts_withD)
  then have *: "[] # (if rs = [] then [[]] else rs) = ([] # (if bs = [] then [[]] else bs)) @ split_on CHR ''/'' t"
    by (metis assms split_from_segments split_on_append)
  have rs: "\<forall>x \<in> set rs. x \<noteq> []" using assms(2) by (auto simp: clean_def list_all_iff plain_segment_def)
  obtain x xs where t: "split_on CHR ''/'' t = x # xs" by (metis split_on_nonempty neq_Nil_conv)
  show "bs \<noteq> [] \<and> (\<exists>x xs. rs = bs @ x # xs)"
    using * rs t by (auto split: if_splits simp: append_eq_Cons_conv Cons_eq_append_conv)
next
  have join: "bs' \<noteq> [] \<Longrightarrow> join_with ''/'' (bs' @ x # xs) = join_with ''/'' bs' @ ''/'' @ join_with ''/'' (x # xs)"
    for bs' x xs by (induction bs' rule: join_with.induct [of _ "''/''"]) auto
  assume "bs \<noteq> [] \<and> (\<exists>x xs. rs = bs @ x # xs)"
  then show "starts_with (from_segments bs @ ''/'') (from_segments rs)"
    by (auto simp: from_segments_def join starts_with_def)
qed

lemma path_resolve_segments: "path_segments (path_resolve b p) =
    path_segments (if p \<noteq> [] \<and> hd p = CHR ''/'' then p else b @ ''/'' @ p)"
  unfolding path_resolve_def by (rule segments_from_segments [OF clean_path_segments])

lemma path_resolve_from: "path_resolve b p = from_segments (path_segments (path_resolve b p))"
  unfolding path_resolve_segments by (simp only: path_resolve_def)

text \<open>What is accepted lies below the base directory: its segments continue those of the base.\<close>

lemma resolveWithin_confined:
  assumes "resolveWithin cwd b r = Inr p"
  shows "\<exists>rest. path_segments p = path_segments (path_resolve cwd b) @ rest"
proof -
  let ?base = "path_resolve cwd b"
  have p: "p = path_resolve ?base r" and
    ok: "starts_with (?base @ ''/'') p \<or> p = ?base"
    using assms by (auto simp: resolveWithin_def Let_def split: if_splits)
  show ?thesis
  proof (cases "p = ?base")
    case True
    then show ?thesis by simp
  next
    case False
    with ok have "starts_with (from_segments (path_segments ?base) @ ''/'') (from_segments (path_segments p))"
      using path_resolve_from [of cwd b] path_resolve_from [of ?base r] p by simp
    then show ?thesis
      using from_segments_prefix [OF clean_path_segments clean_path_segments] by blast
  qed
qed

section \<open>Dates\<close>

text \<open>\<open>Date.prototype.toISOString\<close>; \<open>None\<close> is the \<open>RangeError\<close> beyond 8.64e15 ms. Proleptic Gregorian calendar, from the days since 1970.\<close>

definition civil_from_days :: "int \<Rightarrow> int \<times> int \<times> int" where
  "civil_from_days days =
     (let z = days + 719468; era = z div 146097; doe = z mod 146097;
          yoe = (doe - doe div 1460 + doe div 36524 - doe div 146096) div 365;
          doy = doe - (365 * yoe + yoe div 4 - yoe div 100);
          mp = (5 * doy + 2) div 153;
          d = doy - (153 * mp + 2) div 5 + 1;
          m = (if mp < 10 then mp + 3 else mp - 9)
      in (yoe + era * 400 + (if m \<le> 2 then 1 else 0), m, d))"

definition pad_left :: "nat \<Rightarrow> int \<Rightarrow> string" where
  "pad_left k n = (let ds = show_nat (nat n) in replicate (k - length ds) CHR ''0'' @ ds)"

definition iso_date :: "int \<Rightarrow> string" where
  "iso_date ms =
     (let (y, m, d) = civil_from_days (ms div 86400000);
          year = (if y < 0 then ''-'' @ pad_left 6 (- y) else if 9999 < y then ''+'' @ pad_left 6 y else pad_left 4 y)
      in year @ ''-'' @ pad_left 2 m @ ''-'' @ pad_left 2 d)"

definition iso_time :: "int \<Rightarrow> string" where
  "iso_time ms = (let t = ms mod 86400000 in pad_left 2 (t div 3600000) @ '':'' @ pad_left 2 (t div 60000 mod 60) @ '':'' @
     pad_left 2 (t div 1000 mod 60) @ ''.'' @ pad_left 3 (t mod 1000) @ ''Z'')"

definition valid_time :: "int \<Rightarrow> bool" where
  "valid_time ms \<longleftrightarrow> \<bar>ms\<bar> \<le> 8640000000000000"

definition toISOString :: "int \<Rightarrow> string option" where
  "toISOString ms = (if valid_time ms then Some (iso_date ms @ ''T'' @ iso_time ms) else None)"

text \<open>\<open>new Date(ms).toISOString().split('T')[0]\<close>\<close>

definition date_part :: "int \<Rightarrow> string option" where
  "date_part ms = map_option (\<lambda>x. hd (split_on CHR ''T'' x)) (toISOString ms)"

end
