(* ===== verification/MC_Provisioning.thy ===== *)
theory MC_Provisioning
  imports MC_Http MC_Platform
begin

text \<open>
  Tenants and provisioning jobs: \<open>src/lib/super-admin.ts\<close> and the routes under
  \<open>src/app/api/super\<close>. The data directory and the working directory of the process, the id of
  \<open>randomUUID\<close>, and the two ways a command is run (the provisioner daemon and \<open>runCommand\<close>) are
  arguments. The gateway env file is written outside the state; its content is
  \<open>gatewayEnv\<close>.
\<close>

section \<open>Paths of a tenant\<close>

definition strip_slashes :: "string \<Rightarrow> string" where
  "strip_slashes p = rev (dropWhile (\<lambda>c. c = CHR ''/'') (rev p))"

definition joinPosix :: "string list \<Rightarrow> string" where
  "joinPosix ps = posix_join (map strip_slashes ps)"

section \<open>Request validation\<close>

definition getTenantHomeRoot :: "world \<Rightarrow> string" where
  "getTenantHomeRoot w = or_else (Some (trim (or_else (getenv w ''MC_TENANT_HOME_ROOT'') ''/home''))) ''/home''"

definition getTenantWorkspaceDirname :: "world \<Rightarrow> string" where
  "getTenantWorkspaceDirname w =
     or_else (Some (trim (or_else (getenv w ''MC_TENANT_WORKSPACE_DIRNAME'') ''workspace''))) ''workspace''"

definition normalizeSlug :: "string \<Rightarrow> string" where
  "normalizeSlug input = to_lower (trim input)"

definition is_lower_alnum :: "char \<Rightarrow> bool" where
  "is_lower_alnum c = (let n = of_char c :: nat in (48 \<le> n \<and> n \<le> 57) \<or> (97 \<le> n \<and> n \<le> 122))"

text \<open>\<open>/^[a-z0-9][a-z0-9-]{1,30}[a-z0-9]$/\<close>\<close>

definition isValidSlug :: "string \<Rightarrow> bool" where
  "isValidSlug s \<longleftrightarrow> 3 \<le> length s \<and> length s \<le> 32 \<and> is_lower_alnum (hd s) \<and> is_lower_alnum (last s) \<and>
     list_all (\<lambda>c. is_lower_alnum c \<or> c = CHR ''-'') s"

text \<open>\<open>/^[a-z_][a-z0-9_-]{1,30}$/\<close>\<close>

definition is_valid_linux_user :: "string \<Rightarrow> bool" where
  "is_valid_linux_user s \<longleftrightarrow> 2 \<le> length s \<and> length s \<le> 31 \<and>
     (is_lower_alnum (hd s) \<and> \<not> is_digit (hd s) \<or> hd s = CHR ''_'') \<and>
     list_all (\<lambda>c. is_lower_alnum c \<or> c = CHR ''_'' \<or> c = CHR ''-'') s"

definition ensurePort :: "int option \<Rightarrow> string + int option" where
  "ensurePort v =
     (case v of
        None \<Rightarrow> Inr None
      | Some n \<Rightarrow> if n < 1024 \<or> 65535 < n then Inl ''Port must be an integer between 1024 and 65535'' else Inr (Some n))"

definition normalizeOwnerGateway :: "world \<Rightarrow> string option \<Rightarrow> string + string" where
  "normalizeOwnerGateway w v =
     (let raw = trim (or_else v []);
          fallback = or_else (Some (trim (or_else (getenv w ''MC_DEFAULT_OWNER_GATEWAY'')
                       (or_else (getenv w ''MC_DEFAULT_GATEWAY_NAME'') ''primary'')))) ''primary''
      in if raw = [] then Inr fallback
         else if 120 < length raw then Inl ''owner_gateway is too long''
         else Inr raw)"

section \<open>Plans\<close>

definition mk_step :: "string \<Rightarrow> string \<Rightarrow> string list \<Rightarrow> int \<Rightarrow> provision_step" where
  "mk_step key title cmd timeout = \<lparr>st_key = key, st_title = title, st_command = cmd, st_requires_root = True,
     st_timeout_ms = timeout\<rparr>"

definition buildBootstrapPlan ::
  "world \<Rightarrow> string \<Rightarrow> string \<Rightarrow> string \<Rightarrow> string \<Rightarrow> string \<Rightarrow> string \<Rightarrow> string \<Rightarrow> provision_step list"
where
  "buildBootstrapPlan w dataDir slug linux_user openclaw_home workspace_root templatePath systemdPath =
     (let artifactDir = posix_join [dataDir, ''provisioner'', slug];
          homeDir = joinPosix [getTenantHomeRoot w, linux_user];
          unit = ''openclaw-gateway@'' @ linux_user @ ''.service''
      in [mk_step ''create-linux-user'' (''Create linux user '' @ linux_user)
            [''/usr/sbin/useradd'', ''-m'', ''-s'', ''/bin/bash'', linux_user] 10000,
          mk_step ''create-openclaw-state'' (''Create OpenClaw state directory '' @ openclaw_home)
            [''/usr/bin/install'', ''-d'', ''-m'', ''0750'', ''-o'', linux_user, ''-g'', linux_user, openclaw_home] 10000,
          mk_step ''create-workspace-root'' (''Create workspace root '' @ workspace_root)
            [''/usr/bin/install'', ''-d'', ''-m'', ''0750'', ''-o'', linux_user, ''-g'', linux_user, workspace_root] 10000,
          mk_step ''seed-openclaw-template'' ''Seed base OpenClaw config scaffold''
            [''/usr/bin/cp'', ''-n'', templatePath, openclaw_home @ ''/openclaw.json''] 12000,
          mk_step ''set-owner-home'' (''Ensure ownership of '' @ homeDir)
            [''/usr/bin/chown'', ''-R'', linux_user @ '':'' @ linux_user, homeDir] 20000,
          mk_step ''ensure-openclaw-tenants-dir'' ''Ensure /etc/openclaw-tenants exists''
            [''/usr/bin/install'', ''-d'', ''-m'', ''0750'', ''-o'', ''root'', ''-g'', ''root'', ''/etc/openclaw-tenants''] 5000,
          mk_step ''install-gateway-systemd-template'' ''Install openclaw-gateway@.service template''
            [''/usr/bin/cp'', ''-n'', systemdPath, ''/etc/systemd/system/openclaw-gateway@.service''] 5000,
          mk_step ''install-tenant-gateway-env'' ''Install tenant gateway env file''
            [''/usr/bin/cp'', ''-f'', artifactDir @ ''/openclaw-gateway.env'', ''/etc/openclaw-tenants/'' @ linux_user @ ''.env''] 5000,
          mk_step ''systemd-daemon-reload'' ''Reload systemd units'' [''/usr/bin/systemctl'', ''daemon-reload''] 10000,
          mk_step ''enable-start-gateway'' (''Enable/start '' @ unit) [''/usr/bin/systemctl'', ''enable'', ''--now'', unit] 5000])"

definition buildDecommissionPlan ::
  "string \<Rightarrow> string \<Rightarrow> string \<Rightarrow> bool \<Rightarrow> bool \<Rightarrow> provision_step list"
where
  "buildDecommissionPlan linux_user openclaw_home workspace_root removeLinuxUser removeStateDirs =
     (let unit = ''openclaw-gateway@'' @ linux_user @ ''.service''; env = ''/etc/openclaw-tenants/'' @ linux_user @ ''.env''
      in [mk_step ''disable-stop-gateway'' (''Disable/stop '' @ unit) [''/usr/bin/systemctl'', ''disable'', ''--now'', unit] 10000,
          mk_step ''remove-tenant-gateway-env'' (''Remove '' @ env) [''/usr/bin/rm'', ''-f'', env] 5000] @
         (if removeStateDirs \<and> \<not> removeLinuxUser
          then [mk_step ''remove-openclaw-state-dir'' (''Remove '' @ openclaw_home) [''/usr/bin/rm'', ''-rf'', openclaw_home] 10000,
                mk_step ''remove-workspace-dir'' (''Remove '' @ workspace_root) [''/usr/bin/rm'', ''-rf'', workspace_root] 10000]
          else []) @
         (if removeLinuxUser
          then [mk_step ''remove-linux-user'' (''Remove linux user '' @ linux_user) [''/usr/sbin/userdel'', ''-r'', linux_user] 15000]
          else []))"

section \<open>Reading jobs and tenants\<close>

record job_view =
  jv_job :: job_row
  jv_tenant :: tenant_row
  jv_events :: "job_event_row list"

text \<open>\<open>getProvisionJob\<close>: the job joined with its tenant, with its events in the order they happened.\<close>

definition getProvisionJob :: "int \<Rightarrow> server \<Rightarrow> job_view option" where
  "getProvisionJob jobId s =
     (case tbl_get j_id (provision_jobs (db s)) jobId of
        None \<Rightarrow> None
      | Some j \<Rightarrow>
          (case tbl_get tn_id (tenants (db s)) (j_tenant_id j) of
             None \<Rightarrow> None
           | Some t \<Rightarrow> Some \<lparr>jv_job = j, jv_tenant = t,
               jv_events = rev (order_by_desc2 scan_order je_created_at je_id
                 (tbl_select (\<lambda>e. je_job_id e = jobId) (provision_events (db s))))\<rparr>))"

definition listTenants :: "server \<Rightarrow> (tenant_row \<times> job_row option) list" where
  "listTenants s =
     map (\<lambda>t. (t, (case order_by_desc2 scan_order j_created_at j_id
                       (tbl_select (\<lambda>j. j_tenant_id j = tn_id t) (provision_jobs (db s))) of
                     [] \<Rightarrow> None | j # _ \<Rightarrow> Some j)))
       (order_by_desc2 scan_order tn_created_at tn_id (rows (tenants (db s))))"

fun job_status_str :: "job_status \<Rightarrow> string" where
  "job_status_str Queued = ''queued''"
| "job_status_str Approved = ''approved''"
| "job_status_str Job_running = ''running''"
| "job_status_str Job_completed = ''completed''"
| "job_status_str Job_failed = ''failed''"
| "job_status_str Rejected = ''rejected''"
| "job_status_str Cancelled = ''cancelled''"

fun job_type_str :: "job_type \<Rightarrow> string" where
  "job_type_str Bootstrap = ''bootstrap''"
| "job_type_str Update = ''update''"
| "job_type_str Decommission = ''decommission''"

definition listProvisionJobs :: "int option \<Rightarrow> string option \<Rightarrow> int option \<Rightarrow> server \<Rightarrow> (job_row \<times> tenant_row) list" where
  "listProvisionJobs tenant_id st limit s =
     (let n = (case limit of None \<Rightarrow> 100 | Some l \<Rightarrow> if l = 0 then 100 else l);
          lim = min (max n 1) 500;
          wanted = (\<lambda>j. (case tenant_id of None \<Rightarrow> True | Some t \<Rightarrow> t = 0 \<or> j_tenant_id j = t) \<and>
                        (case or_null st of None \<Rightarrow> True | Some v \<Rightarrow> job_status_str (j_status j) = v) \<and>
                        tbl_get tn_id (tenants (db s)) (j_tenant_id j) \<noteq> None)
      in map (\<lambda>j. (j, the (tbl_get tn_id (tenants (db s)) (j_tenant_id j))))
           (take (nat lim) (order_by_desc2 scan_order j_created_at j_id (tbl_select wanted (provision_jobs (db s))))))"

section \<open>Creating tenants and jobs\<close>

record tenant_request =
  tr_slug :: string
  tr_display_name :: string
  tr_linux_user :: "string option"
  tr_plan_tier :: "string option"
  tr_gateway_port :: "int option"
  tr_dashboard_port :: "int option"
  tr_dry_run :: "bool option"
  tr_config :: "json option"
  tr_owner_gateway :: "string option"

text \<open>The fields of the tenant row that the request determines.\<close>

record tenant_fields =
  tf_slug :: string
  tf_display_name :: string
  tf_linux_user :: string
  tf_plan_tier :: string
  tf_openclaw_home :: string
  tf_workspace_root :: string
  tf_gateway_port :: int
  tf_dashboard_port :: "int option"
  tf_config :: json
  tf_dry_run :: bool
  tf_owner_gateway :: string
  tf_plan :: "provision_step list"

definition template_path :: "world \<Rightarrow> string" where
  "template_path w = trim (or_else (getenv w ''MC_SUPER_TEMPLATE_OPENCLAW_JSON'')
     (case or_null (getenv w ''OPENCLAW_HOME'') of None \<Rightarrow> [] | Some h \<Rightarrow> posix_join [h, ''openclaw.json'']))"

definition bootstrap_fields :: "world \<Rightarrow> string \<Rightarrow> string \<Rightarrow> tenant_request \<Rightarrow> string + tenant_fields" where
  "bootstrap_fields w dataDir cwd r =
     (let templatePath = template_path w;
          repoRoot = or_else (Some (trim (or_else (getenv w ''MISSION_CONTROL_REPO_ROOT'') cwd))) cwd;
          systemdPath = posix_join [repoRoot, ''ops'', ''templates'', ''openclaw-gateway@.service''];
          slug = normalizeSlug (tr_slug r); displayName = trim (tr_display_name r);
          linuxUser = to_lower (trim (or_else (tr_linux_user r) (''oc-'' @ slug)));
          openclawHome = joinPosix [getTenantHomeRoot w, linuxUser, ''.openclaw''];
          workspaceRoot = joinPosix [getTenantHomeRoot w, linuxUser, getTenantWorkspaceDirname w]
      in if templatePath = []
         then Inl ''Missing OpenClaw template config. Set MC_SUPER_TEMPLATE_OPENCLAW_JSON to an openclaw.json to seed new tenants.''
         else if \<not> isValidSlug slug then Inl ''Invalid slug. Use lowercase letters, numbers, and dashes (3-32 chars).''
         else if displayName = [] then Inl ''display_name is required''
         else if \<not> is_valid_linux_user linuxUser then Inl ''Invalid linux_user format''
         else case ensurePort (tr_gateway_port r) of
           Inl e \<Rightarrow> Inl e
         | Inr gatewayPort \<Rightarrow>
             (case ensurePort (tr_dashboard_port r) of
                Inl e \<Rightarrow> Inl e
              | Inr dashboardPort \<Rightarrow>
                  (case normalizeOwnerGateway w (tr_owner_gateway r) of
                     Inl e \<Rightarrow> Inl e
                   | Inr ownerGateway \<Rightarrow>
                       (case gatewayPort of
                          None \<Rightarrow> Inl ''gateway_port is required for tenant bootstrap''
                        | Some port \<Rightarrow> Inr \<lparr>tf_slug = slug, tf_display_name = displayName, tf_linux_user = linuxUser,
                            tf_plan_tier = to_lower (trim (or_else (tr_plan_tier r) ''standard'')),
                            tf_openclaw_home = openclawHome, tf_workspace_root = workspaceRoot,
                            tf_gateway_port = port, tf_dashboard_port = dashboardPort,
                            tf_config = (case tr_config r of None \<Rightarrow> JObj [] | Some c \<Rightarrow> c),
                            tf_dry_run = (tr_dry_run r \<noteq> Some False), tf_owner_gateway = ownerGateway,
                            tf_plan = buildBootstrapPlan w dataDir slug linuxUser openclawHome workspaceRoot
                              templatePath systemdPath\<rparr>))))"

definition bootstrap_payload :: "tenant_fields \<Rightarrow> json" where
  "bootstrap_payload f = JObj [(''slug'', JStr (tf_slug f)), (''display_name'', JStr (tf_display_name f)),
     (''linux_user'', JStr (tf_linux_user f)), (''gateway_port'', JNum (tf_gateway_port f)),
     (''dashboard_port'', jnull JNum (tf_dashboard_port f)), (''plan_tier'', JStr (tf_plan_tier f)),
     (''dry_run'', JBool (tf_dry_run f)), (''config'', tf_config f), (''owner_gateway'', JStr (tf_owner_gateway f))]"

definition new_job ::
  "world \<Rightarrow> int \<Rightarrow> job_type \<Rightarrow> bool \<Rightarrow> string \<Rightarrow> string option \<Rightarrow> json \<Rightarrow> provision_step list \<Rightarrow> int \<Rightarrow> job_row"
where
  "new_job w tenantId ty dryRun actor uuid request plan i = \<lparr>j_id = i, j_tenant_id = tenantId, j_type = ty,
     j_status = Queued, j_dry_run = dryRun, j_requested_by = actor, j_approved_by = None, j_runner_host = None,
     j_idempotency_key = uuid, j_request_json = request, j_plan_json = plan, j_result_json = None, j_error_text = None,
     j_started_at = None, j_completed_at = None, j_created_at = now_s w, j_updated_at = now_s w\<rparr>"

definition mode_str :: "bool \<Rightarrow> string" where
  "mode_str dryRun = (if dryRun then ''dry-run'' else ''execute'')"

definition createTenantAndBootstrapJob ::
  "world \<Rightarrow> string \<Rightarrow> string \<Rightarrow> string \<Rightarrow> tenant_request \<Rightarrow> string \<Rightarrow> server
   \<Rightarrow> (string + (tenant_row option \<times> job_view option)) \<times> server"
where
  "createTenantAndBootstrapJob w dataDir cwd uuid r actor s =
     (case bootstrap_fields w dataDir cwd r of
        Inl e \<Rightarrow> (Inl e, s)
      | Inr f \<Rightarrow>
          if \<exists>t \<in> set (rows (tenants (db s))). tn_slug t = tf_slug f
          then (Inl ''UNIQUE constraint failed: tenants.slug'', s)
          else if \<exists>t \<in> set (rows (tenants (db s))). tn_linux_user t = tf_linux_user f
          then (Inl ''UNIQUE constraint failed: tenants.linux_user'', s)
          else
            (let (tenantId, ts) = tbl_insert (\<lambda>i. \<lparr>tn_id = i, tn_slug = tf_slug f, tn_display_name = tf_display_name f,
                   tn_linux_user = tf_linux_user f, tn_plan_tier = tf_plan_tier f, tn_status = ''pending'',
                   tn_openclaw_home = tf_openclaw_home f, tn_workspace_root = tf_workspace_root f,
                   tn_gateway_port = Some (tf_gateway_port f), tn_dashboard_port = tf_dashboard_port f,
                   tn_config = tf_config f, tn_created_by = actor, tn_owner_gateway = Some (tf_owner_gateway f),
                   tn_created_at = now_s w, tn_updated_at = now_s w\<rparr>) (tenants (db s));
                 (jobId, js) = tbl_insert (new_job w tenantId Bootstrap (tf_dry_run f) actor (Some uuid) (bootstrap_payload f) (tf_plan f))
                   (provision_jobs (db s));
                 s1 = s\<lparr>db := (db s)\<lparr>tenants := ts, provision_jobs := js\<rparr>\<rparr>;
                 s2 = appendProvisionEvent w jobId ''info'' (Some ''queued'')
                        (''Provisioning request queued ('' @ mode_str (tf_dry_run f) @ '')'')
                        (Some (JObj [(''actor'', JStr actor)])) s1;
                 s3 = logAuditEvent w ((audit_event0 ''tenant_bootstrap_requested'' actor)\<lparr>ae_target_type := Some ''tenant'',
                        ae_target_id := Some tenantId,
                        ae_detail := Some (JObj [(''dry_run'', JBool (tf_dry_run f)), (''slug'', JStr (tf_slug f)),
                          (''linux_user'', JStr (tf_linux_user f)), (''owner_gateway'', JStr (tf_owner_gateway f))])\<rparr>) s2
             in (Inr (tbl_get tn_id (tenants (db s3)) tenantId, getProvisionJob jobId s3), s3)))"

record decommission_request =
  dr_dry_run :: "bool option"
  dr_remove_linux_user :: bool
  dr_remove_state_dirs :: bool
  dr_reason :: "string option"

definition createTenantDecommissionJob ::
  "world \<Rightarrow> string \<Rightarrow> int \<Rightarrow> decommission_request \<Rightarrow> string \<Rightarrow> server
   \<Rightarrow> (string + (tenant_row \<times> job_view option)) \<times> server"
where
  "createTenantDecommissionJob w uuid tenantId r actor s =
     (if tenantId \<le> 0 then (Inl ''Invalid tenant id'', s)
      else case tbl_get tn_id (tenants (db s)) tenantId of
        None \<Rightarrow> (Inl ''Tenant not found'', s)
      | Some t \<Rightarrow>
          (let dryRun = (dr_dry_run r \<noteq> Some False); reason = trim (or_else (dr_reason r) []);
               plan = buildDecommissionPlan (tn_linux_user t) (tn_openclaw_home t) (tn_workspace_root t)
                        (dr_remove_linux_user r) (dr_remove_state_dirs r);
               flags = [(''remove_linux_user'', JBool (dr_remove_linux_user r)), (''remove_state_dirs'', JBool (dr_remove_state_dirs r))];
               payload = JObj ([(''tenant_id'', JNum (tn_id t)), (''slug'', JStr (tn_slug t)), (''linux_user'', JStr (tn_linux_user t)),
                           (''dry_run'', JBool dryRun)] @ flags @ [(''reason'', jnull JStr (or_null (Some reason)))]);
               (jobId, js) = tbl_insert (new_job w (tn_id t) Decommission dryRun actor (Some uuid) payload plan) (provision_jobs (db s));
               s1 = s\<lparr>db := (db s)\<lparr>provision_jobs := js\<rparr>\<rparr>;
               s2 = appendProvisionEvent w jobId ''warn'' (Some ''queued'')
                      (''Decommission request queued ('' @ mode_str dryRun @ '')'')
                      (Some (JObj ([(''actor'', JStr actor), (''reason'', jnull JStr (or_null (Some reason)))] @ flags))) s1;
               s3 = logAuditEvent w ((audit_event0 ''tenant_decommission_requested'' actor)\<lparr>ae_target_type := Some ''tenant'',
                      ae_target_id := Some (tn_id t),
                      ae_detail := Some (JObj ([(''job_id'', JNum jobId), (''dry_run'', JBool dryRun)] @ flags))\<rparr>) s2
           in (Inr (t, getProvisionJob jobId s3), s3)))"

section \<open>Approving, rejecting and cancelling\<close>

datatype job_action = Approve | Reject | Cancel_job

definition update_job :: "int \<Rightarrow> (job_row \<Rightarrow> job_row) \<Rightarrow> server \<Rightarrow> server" where
  "update_job i f s = s\<lparr>db := (db s)\<lparr>provision_jobs := tbl_update (\<lambda>j. j_id j = i) f (provision_jobs (db s))\<rparr>\<rparr>"

definition record_decision ::
  "world \<Rightarrow> int \<Rightarrow> int \<Rightarrow> string \<Rightarrow> string \<Rightarrow> string \<Rightarrow> string \<Rightarrow> string \<Rightarrow> string \<Rightarrow> server \<Rightarrow> server"
where
  "record_decision w jobId tenantId level stepKey verb action actor reason s =
     logAuditEvent w ((audit_event0 action actor)\<lparr>ae_target_type := Some ''tenant'', ae_target_id := Some tenantId,
         ae_detail := Some (JObj [(''job_id'', JNum jobId), (''reason'', jnull JStr (or_null (Some reason)))])\<rparr>)
       (appendProvisionEvent w jobId level (Some stepKey)
         (verb @ '' by '' @ actor @ (if reason = [] then [] else '': '' @ reason))
         (Some (JObj [(''actor'', JStr actor), (''reason'', jnull JStr (or_null (Some reason)))])) s)"

definition transitionProvisionJobStatus ::
  "world \<Rightarrow> int \<Rightarrow> string \<Rightarrow> job_action \<Rightarrow> string option \<Rightarrow> server \<Rightarrow> (string + job_view option) \<times> server"
where
  "transitionProvisionJobStatus w jobId actor action reason s =
     (case getProvisionJob jobId s of
        None \<Rightarrow> (Inl ''Job not found'', s)
      | Some v \<Rightarrow>
          (let st = j_status (jv_job v); why = trim (or_else reason []); tid = j_tenant_id (jv_job v); now = now_s w in
           if st \<in> {Job_running, Job_completed, Cancelled}
           then (Inl (''Job status '' @ job_status_str st @ '' is immutable''), s)
           else case action of
             Approve \<Rightarrow>
               if st \<notin> {Queued, Rejected, Job_failed} then (Inl (''Cannot approve job from status '' @ job_status_str st), s)
               else (let s' = record_decision w jobId tid ''info'' ''approval'' ''Approved'' ''provision_job_approved'' actor why
                            (update_job jobId (\<lambda>j. j\<lparr>j_status := Approved, j_approved_by := Some actor, j_error_text := None,
                               j_updated_at := now\<rparr>) s)
                     in (Inr (getProvisionJob jobId s'), s'))
           | Reject \<Rightarrow>
               if st \<notin> {Queued, Approved, Job_failed} then (Inl (''Cannot reject job from status '' @ job_status_str st), s)
               else (let s' = record_decision w jobId tid ''warn'' ''approval'' ''Rejected'' ''provision_job_rejected'' actor why
                            (update_job jobId (\<lambda>j. j\<lparr>j_status := Rejected, j_updated_at := now\<rparr>) s)
                     in (Inr (getProvisionJob jobId s'), s'))
           | Cancel_job \<Rightarrow>
               if st \<notin> {Queued, Approved, Job_failed, Rejected} then (Inl (''Cannot cancel job from status '' @ job_status_str st), s)
               else (let s' = record_decision w jobId tid ''warn'' ''cancel'' ''Cancelled'' ''provision_job_cancelled'' actor why
                            (update_job jobId (\<lambda>j. j\<lparr>j_status := Cancelled, j_completed_at := Some now, j_updated_at := now\<rparr>) s)
                     in (Inr (getProvisionJob jobId s'), s'))))"

section \<open>Executing a job\<close>

record step_result =
  sr_stdout :: string
  sr_stderr :: string
  sr_code :: int
  sr_skipped :: bool

text \<open>
  How commands are run: \<open>runProvisionerCommand\<close> (command, arguments, timeout, dry run, step key) and
  \<open>runCommand\<close> (command, arguments, timeout); \<open>Inl\<close> is the message of a thrown error.
\<close>

record executor =
  ex_daemon :: "string \<Rightarrow> string list \<Rightarrow> int \<Rightarrow> bool \<Rightarrow> string \<Rightarrow> string + step_result"
  ex_run :: "string \<Rightarrow> string list \<Rightarrow> int \<Rightarrow> string + step_result"

definition skipped_result :: step_result where
  "skipped_result = \<lparr>sr_stdout = [], sr_stderr = [], sr_code = 0, sr_skipped = True\<rparr>"

definition runProvisionStep :: "world \<Rightarrow> executor \<Rightarrow> provision_step \<Rightarrow> bool \<Rightarrow> string + step_result" where
  "runProvisionStep w ex step dryRun =
     (case st_command step of
        [] \<Rightarrow> Inl (''Invalid command for step '' @ st_key step)
      | command # args \<Rightarrow>
          if command = [] then Inl (''Invalid command for step '' @ st_key step)
          else
            (let mode = to_lower (or_else (getenv w ''MC_SUPER_PROVISION_MODE'') ''daemon'');
                 timeout = (if st_timeout_ms step = 0 then 15000 else st_timeout_ms step)
             in if st_requires_root step \<and> mode = ''daemon'' then ex_daemon ex command args timeout dryRun (st_key step)
                else if st_requires_root step then
                  (if dryRun then Inr skipped_result else ex_run ex ''sudo'' (''-n'' # command # args) timeout)
                else if dryRun then Inr skipped_result
                else ex_run ex command args timeout))"

definition result_json :: "provision_step \<Rightarrow> step_result \<Rightarrow> json" where
  "result_json step r = JObj [(''key'', JStr (st_key step)), (''ok'', JBool (sr_code r = 0)), (''skipped'', JBool (sr_skipped r)),
     (''stdout'', JStr (take 4000 (sr_stdout r))), (''stderr'', JStr (take 4000 (sr_stderr r)))]"

text \<open>The loop over the plan: the collected results, and the error that stopped it if one did.\<close>

fun run_plan ::
  "world \<Rightarrow> executor \<Rightarrow> int \<Rightarrow> bool \<Rightarrow> bool \<Rightarrow> provision_step list \<Rightarrow> json list \<Rightarrow> server \<Rightarrow> string option \<times> json list \<times> server"
where
  "run_plan w ex jobId dryRun allowExec [] acc s = (None, acc, s)"
| "run_plan w ex jobId dryRun allowExec (step # plan) acc s =
     (let s1 = appendProvisionEvent w jobId ''info'' (Some (st_key step)) (''Running: '' @ st_title step) None s
      in if \<not> dryRun \<and> \<not> allowExec
         then (Some ''Execution disabled. Set MC_SUPER_PROVISION_EXEC=true to allow non-dry-run provisioning.'', acc, s1)
         else case runProvisionStep w ex step dryRun of
           Inl e \<Rightarrow> (Some e, acc, s1)
         | Inr r \<Rightarrow>
             (let s2 = (if sr_skipped r
                        then appendProvisionEvent w jobId ''info'' (Some (st_key step)) ''Dry-run: command execution skipped''
                               (Some (JObj [(''command'', JArr (map JStr (st_command step))),
                                            (''requires_root'', JBool (st_requires_root step))])) s1
                        else appendProvisionEvent w jobId ''info'' (Some (st_key step)) ''Completed''
                               (Some (JObj [(''code'', JNum (sr_code r)), (''stdout_preview'', JStr (take 250 (sr_stdout r))),
                                            (''stderr_preview'', JStr (take 250 (sr_stderr r)))])) s1)
              in run_plan w ex jobId dryRun allowExec plan (acc @ [result_json step r]) s2))"

text \<open>
  \<open>ensureProvisionArtifacts\<close>: the checks, and the content of the env file. A port given as a
  string is read as a decimal integer.
\<close>

definition artifact_slug :: "job_view \<Rightarrow> string" where
  "artifact_slug v = trim (or_else (str_field ''slug'' (j_request_json (jv_job v))) (tn_slug (jv_tenant v)))"

definition artifact_port :: "job_view \<Rightarrow> int option" where
  "artifact_port v =
     (case jget ''gateway_port'' (j_request_json (jv_job v)) of
        None \<Rightarrow> Some 0
      | Some JNull \<Rightarrow> Some 0
      | Some (JNum n) \<Rightarrow> Some n
      | Some (JStr x) \<Rightarrow> (let d = trim x in if d = [] then Some 0 else if list_all is_digit d then Some (int (digits_value d)) else None)
      | _ \<Rightarrow> None)"

definition ensureProvisionArtifacts :: "job_view \<Rightarrow> string + unit" where
  "ensureProvisionArtifacts v =
     (if artifact_slug v = [] then Inl ''Missing tenant slug for artifact generation''
      else if trim (tn_linux_user (jv_tenant v)) = [] then Inl ''Missing linux_user for artifact generation''
      else if trim (tn_openclaw_home (jv_tenant v)) = [] then Inl ''Missing openclaw_home for artifact generation''
      else case artifact_port v of
        None \<Rightarrow> Inl ''Missing/invalid gateway_port for gateway unit provisioning''
      | Some p \<Rightarrow> if p < 1024 \<or> 65535 < p then Inl ''Missing/invalid gateway_port for gateway unit provisioning'' else Inr ())"

definition gatewayEnv :: "job_view \<Rightarrow> string" where
  "gatewayEnv v =
     (let home = trim (tn_openclaw_home (jv_tenant v))
      in join_with [CHR 0x0A] [''TENANT_SLUG='' @ artifact_slug v, ''TENANT_USER='' @ trim (tn_linux_user (jv_tenant v)),
           ''OPENCLAW_HOME='' @ home, ''OPENCLAW_STATE_DIR='' @ home, ''OPENCLAW_CONFIG_PATH='' @ home @ ''/openclaw.json'',
           ''OPENCLAW_GATEWAY_PORT='' @ (case artifact_port v of None \<Rightarrow> ''NaN'' | Some p \<Rightarrow> show_int p), []])"

text \<open>The checks that precede any effect of the execution.\<close>

definition execution_refused :: "string \<Rightarrow> job_view \<Rightarrow> string option" where
  "execution_refused actor v =
     (let j = jv_job v; dryRun = j_dry_run j; approvedBy = or_else (j_approved_by j) [];
          requestedDryRun = (jget ''dry_run'' (j_request_json j) \<noteq> Some (JBool False))
      in if j_status j \<noteq> Approved
         then Some (''Job must be approved before execution. Current status: '' @ job_status_str (j_status j))
         else if j_plan_json j = [] then Some ''Job plan is empty''
         else if requestedDryRun \<noteq> dryRun then Some ''Job dry_run metadata mismatch detected''
         else if approvedBy = [] then Some ''Missing approver. Approve the job before run.''
         else if \<not> dryRun \<and> approvedBy = j_requested_by j
         then Some ''Two-person rule violation: live jobs require an approver different from the requester.''
         else if \<not> dryRun \<and> approvedBy = actor
         then Some ''Two-person rule violation: approver cannot be the execution runner for live jobs.''
         else if j_type j = Bootstrap
         then (case ensureProvisionArtifacts v of Inl e \<Rightarrow> Some e | Inr _ \<Rightarrow> None)
         else None)"

definition set_tenant_status :: "world \<Rightarrow> int \<Rightarrow> string \<Rightarrow> server \<Rightarrow> server" where
  "set_tenant_status w tid st s = s\<lparr>db := (db s)\<lparr>tenants := tbl_update (\<lambda>t. tn_id t = tid)
     (\<lambda>t. t\<lparr>tn_status := st, tn_updated_at := now_s w\<rparr>) (tenants (db s))\<rparr>\<rparr>"

definition start_execution :: "world \<Rightarrow> string \<Rightarrow> job_view \<Rightarrow> server \<Rightarrow> server" where
  "start_execution w actor v s =
     (let j = jv_job v; dryRun = j_dry_run j; now = now_s w;
          s1 = update_job (j_id j) (\<lambda>j. j\<lparr>j_status := Job_running, j_started_at := Some now, j_updated_at := now,
                 j_runner_host := Some (or_else (getenv w ''HOSTNAME'') ''unknown'')\<rparr>) s;
          s2 = set_tenant_status w (j_tenant_id j)
                 (if dryRun then or_else (Some (tn_status (jv_tenant v))) ''pending''
                  else if j_type j = Decommission then ''decommissioning'' else ''provisioning'') s1
      in appendProvisionEvent w (j_id j) ''info'' (Some ''start'')
           (''Execution started by '' @ actor @ (if dryRun then '' (dry-run)'' else [])) None s2)"

definition complete_execution :: "world \<Rightarrow> string \<Rightarrow> job_view \<Rightarrow> json list \<Rightarrow> server \<Rightarrow> server" where
  "complete_execution w actor v results s =
     (let j = jv_job v; dryRun = j_dry_run j; now = now_s w;
          s1 = update_job (j_id j) (\<lambda>j. j\<lparr>j_status := Job_completed, j_completed_at := Some now,
                 j_result_json := Some (JObj [(''dry_run'', JBool dryRun), (''steps_executed'', JNum (int (length results))),
                   (''steps'', JArr results)]), j_error_text := None, j_updated_at := now\<rparr>) s;
          s2 = set_tenant_status w (j_tenant_id j)
                 (if dryRun then or_else (Some (tn_status (jv_tenant v))) ''pending''
                  else if j_type j = Decommission then ''suspended'' else ''active'') s1;
          s3 = appendProvisionEvent w (j_id j) ''info'' (Some ''finish'')
                 (job_type_str (j_type j) @ '' job completed ('' @ mode_str dryRun @ '')'') None s2
      in logAuditEvent w ((audit_event0 ''tenant_bootstrap_completed'' actor)\<lparr>ae_target_type := Some ''tenant'',
           ae_target_id := Some (j_tenant_id j),
           ae_detail := Some (JObj [(''job_id'', JNum (j_id j)), (''dry_run'', JBool dryRun),
             (''job_type'', JStr (job_type_str (j_type j)))])\<rparr>) s3)"

definition fail_execution :: "world \<Rightarrow> string \<Rightarrow> job_view \<Rightarrow> string \<Rightarrow> json list \<Rightarrow> server \<Rightarrow> server" where
  "fail_execution w actor v e results s =
     (let j = jv_job v; now = now_s w; msg = or_else (Some e) ''Error'';
          s1 = update_job (j_id j) (\<lambda>j'. j'\<lparr>j_status := Job_failed, j_completed_at := Some now, j_error_text := Some msg,
                 j_result_json := Some (JObj [(''dry_run'', JBool (j_dry_run j)), (''steps'', JArr results)]), j_updated_at := now\<rparr>) s;
          s2 = set_tenant_status w (j_tenant_id j) ''error'' s1;
          s3 = appendProvisionEvent w (j_id j) ''error'' (Some ''error'') msg None s2
      in logAuditEvent w ((audit_event0 ''tenant_bootstrap_failed'' actor)\<lparr>ae_target_type := Some ''tenant'',
           ae_target_id := Some (j_tenant_id j),
           ae_detail := Some (JObj [(''job_id'', JNum (j_id j)), (''error'', JStr msg),
             (''job_type'', JStr (job_type_str (j_type j)))])\<rparr>) s3)"

definition executeProvisionJob ::
  "world \<Rightarrow> executor \<Rightarrow> int \<Rightarrow> string \<Rightarrow> server \<Rightarrow> (string + job_view option) \<times> server"
where
  "executeProvisionJob w ex jobId actor s =
     (case getProvisionJob jobId s of
        None \<Rightarrow> (Inl ''Job not found'', s)
      | Some v \<Rightarrow>
          (case execution_refused actor v of
             Some e \<Rightarrow> (Inl e, s)
           | None \<Rightarrow>
               (let allowExec = (to_lower (or_else (getenv w ''MC_SUPER_PROVISION_EXEC'') []) = ''true'')
                in case run_plan w ex jobId (j_dry_run (jv_job v)) allowExec (j_plan_json (jv_job v)) [] (start_execution w actor v s) of
                     (None, results, s1) \<Rightarrow>
                       (let s2 = complete_execution w actor v results s1 in (Inr (getProvisionJob jobId s2), s2))
                   | (Some e, results, s1) \<Rightarrow> (Inl e, fail_execution w actor v e results s1))))"

section \<open>The routes under /api/super\<close>

definition step_json :: "provision_step \<Rightarrow> json" where
  "step_json x = JObj [(''key'', JStr (st_key x)), (''title'', JStr (st_title x)), (''command'', JArr (map JStr (st_command x))),
     (''requires_root'', JBool (st_requires_root x)), (''timeout_ms'', JNum (st_timeout_ms x))]"

definition job_fields :: "job_row \<Rightarrow> (string \<times> json) list" where
  "job_fields j = [(''id'', JNum (j_id j)), (''tenant_id'', JNum (j_tenant_id j)), (''job_type'', JStr (job_type_str (j_type j))),
     (''status'', JStr (job_status_str (j_status j))), (''dry_run'', JNum (if j_dry_run j then 1 else 0)),
     (''requested_by'', JStr (j_requested_by j)), (''approved_by'', jnull JStr (j_approved_by j)),
     (''runner_host'', jnull JStr (j_runner_host j)), (''idempotency_key'', jnull JStr (j_idempotency_key j)),
     (''request_json'', j_request_json j), (''plan_json'', JArr (map step_json (j_plan_json j))),
     (''result_json'', jnull id (j_result_json j)), (''error_text'', jnull JStr (j_error_text j)),
     (''started_at'', jnull JNum (j_started_at j)), (''completed_at'', jnull JNum (j_completed_at j)),
     (''created_at'', JNum (j_created_at j)), (''updated_at'', JNum (j_updated_at j))]"

text \<open>A row as the database returns it: the JSON columns as text.\<close>

definition raw_job_fields :: "job_row \<Rightarrow> (string \<times> json) list" where
  "raw_job_fields j = map (\<lambda>(k, v). if k \<in> {''request_json'', ''plan_json'', ''result_json''} \<and> v \<noteq> JNull
     then (k, JStr (stringify v)) else (k, v)) (job_fields j)"

definition tenant_row_fields :: "tenant_row \<Rightarrow> (string \<times> json) list" where
  "tenant_row_fields t = [(''id'', JNum (tn_id t)), (''slug'', JStr (tn_slug t)), (''display_name'', JStr (tn_display_name t)),
     (''linux_user'', JStr (tn_linux_user t)), (''plan_tier'', JStr (tn_plan_tier t)), (''status'', JStr (tn_status t)),
     (''openclaw_home'', JStr (tn_openclaw_home t)), (''workspace_root'', JStr (tn_workspace_root t)),
     (''gateway_port'', jnull JNum (tn_gateway_port t)), (''dashboard_port'', jnull JNum (tn_dashboard_port t)),
     (''config'', tn_config t), (''created_by'', JStr (tn_created_by t)), (''owner_gateway'', jnull JStr (tn_owner_gateway t)),
     (''created_at'', JNum (tn_created_at t)), (''updated_at'', JNum (tn_updated_at t))]"

definition raw_tenant_fields :: "tenant_row \<Rightarrow> (string \<times> json) list" where
  "raw_tenant_fields t = map (\<lambda>(k, v). if k = ''config'' then (k, JStr (stringify v)) else (k, v)) (tenant_row_fields t)"

definition job_event_json :: "job_event_row \<Rightarrow> json" where
  "job_event_json e = JObj [(''id'', JNum (je_id e)), (''job_id'', JNum (je_job_id e)), (''level'', JStr (je_level e)),
     (''step_key'', jnull JStr (je_step_key e)), (''message'', JStr (je_message e)), (''data'', jnull (JStr \<circ> stringify) (je_data e)),
     (''created_at'', JNum (je_created_at e))]"

definition job_view_json :: "job_view option \<Rightarrow> json" where
  "job_view_json v = jnull (\<lambda>v. JObj (job_fields (jv_job v) @
     [(''tenant_slug'', JStr (tn_slug (jv_tenant v))), (''tenant_display_name'', JStr (tn_display_name (jv_tenant v))),
      (''linux_user'', JStr (tn_linux_user (jv_tenant v))), (''openclaw_home'', JStr (tn_openclaw_home (jv_tenant v))),
      (''workspace_root'', JStr (tn_workspace_root (jv_tenant v))), (''events'', JArr (map job_event_json (jv_events v)))])) v"

text \<open>A path parameter read with \<open>Number\<close>: decimal digits; the routes accept positive integers only.\<close>

definition path_id :: "string \<Rightarrow> int option" where
  "path_id p = (let d = trim p in if d \<noteq> [] \<and> list_all is_digit d \<and> digits_value d \<noteq> 0 then Some (int (digits_value d)) else None)"

definition tenants_GET :: "world \<Rightarrow> request \<Rightarrow> server \<Rightarrow> outcome" where
  "tenants_GET w req s = with_role w req ''admin'' s (\<lambda>u.
     (Inr (json_response 200 (JObj [(''tenants'', JArr (map (\<lambda>(t, j). JObj (tenant_row_fields t @
        [(''latest_job_id'', jnull (JNum \<circ> j_id) j), (''latest_job_status'', jnull (JStr \<circ> job_status_str \<circ> j_status) j),
         (''latest_job_created_at'', jnull (JNum \<circ> j_created_at) j)])) (listTenants s)))])), s))"

definition tenants_POST ::
  "string \<Rightarrow> string \<Rightarrow> string \<Rightarrow> (json \<Rightarrow> tenant_request) \<Rightarrow> world \<Rightarrow> request \<Rightarrow> server \<Rightarrow> outcome"
where
  "tenants_POST dataDir cwd uuid request_of w req s = with_role w req ''admin'' s (\<lambda>u.
     case req_body req of
       None \<Rightarrow> (Inr (error_response 400 ''Unexpected end of JSON input''), s)
     | Some b \<Rightarrow>
         (case createTenantAndBootstrapJob w dataDir cwd uuid (request_of b) (usr_username u) s of
            (Inl e, s') \<Rightarrow>
              if includes_str ''UNIQUE'' e then (Inr (error_response 409 ''Tenant slug or linux user already exists''), s')
              else (Inr (error_response 400 (or_else (Some e) ''Failed to create tenant bootstrap job'')), s')
          | (Inr (t, v), s') \<Rightarrow> (Inr (json_response 201 (JObj [(''tenant'', jnull (JObj \<circ> raw_tenant_fields) t),
                                   (''job'', job_view_json v)])), s')))"

definition tenant_decommission_POST ::
  "string \<Rightarrow> (json \<Rightarrow> decommission_request) \<Rightarrow> string \<Rightarrow> world \<Rightarrow> request \<Rightarrow> server \<Rightarrow> outcome"
where
  "tenant_decommission_POST uuid request_of idp w req s = with_role w req ''admin'' s (\<lambda>u.
     case path_id idp of
       None \<Rightarrow> (Inr (error_response 400 ''Invalid tenant id''), s)
     | Some tid \<Rightarrow>
         (case createTenantDecommissionJob w uuid tid
                 (request_of (case req_body req of None \<Rightarrow> JObj [] | Some b \<Rightarrow> b)) (usr_username u) s of
            (Inl e, s') \<Rightarrow> (Inr (error_response 400 (or_else (Some e) ''Failed to queue tenant decommission job'')), s')
          | (Inr (t, v), s') \<Rightarrow> (Inr (json_response 201 (JObj [(''tenant'', JObj (raw_tenant_fields t)), (''job'', job_view_json v)])), s')))"

definition provision_job_GET :: "string \<Rightarrow> world \<Rightarrow> request \<Rightarrow> server \<Rightarrow> outcome" where
  "provision_job_GET idp w req s = with_role w req ''admin'' s (\<lambda>u.
     case path_id idp of
       None \<Rightarrow> (Inr (error_response 400 ''Invalid job id''), s)
     | Some i \<Rightarrow> (case getProvisionJob i s of
          None \<Rightarrow> (Inr (error_response 404 ''Job not found''), s)
        | Some v \<Rightarrow> (Inr (json_response 200 (JObj [(''job'', job_view_json (Some v))])), s)))"

definition job_action_of :: "json \<Rightarrow> job_action option" where
  "job_action_of b = (case str_field ''action'' b of
     None \<Rightarrow> None
   | Some a \<Rightarrow> if a = ''approve'' then Some Approve else if a = ''reject'' then Some Reject
       else if a = ''cancel'' then Some Cancel_job else None)"

definition provision_job_POST :: "string \<Rightarrow> world \<Rightarrow> request \<Rightarrow> server \<Rightarrow> outcome" where
  "provision_job_POST idp w req s = with_role w req ''admin'' s (\<lambda>u.
     case path_id idp of
       None \<Rightarrow> (Inr (error_response 400 ''Invalid job id''), s)
     | Some i \<Rightarrow>
         (let b = (case req_body req of None \<Rightarrow> JObj [] | Some b \<Rightarrow> b) in
          case job_action_of b of
            None \<Rightarrow> (Inr (error_response 400 ''Invalid action. Use approve, reject, or cancel.''), s)
          | Some a \<Rightarrow>
              (case transitionProvisionJobStatus w i (usr_username u) a (or_null (str_field ''reason'' b)) s of
                 (Inl e, s') \<Rightarrow> (Inr (error_response 400 (or_else (Some e) ''Failed to update provisioning job state'')), s')
               | (Inr v, s') \<Rightarrow> (Inr (json_response 200 (JObj [(''job'', job_view_json v)])), s'))))"

definition provision_job_run_POST :: "executor \<Rightarrow> string \<Rightarrow> world \<Rightarrow> request \<Rightarrow> server \<Rightarrow> outcome" where
  "provision_job_run_POST ex idp w req s = with_role w req ''admin'' s (\<lambda>u.
     case path_id idp of
       None \<Rightarrow> (Inr (error_response 400 ''Invalid job id''), s)
     | Some i \<Rightarrow>
         (case executeProvisionJob w ex i (usr_username u) s of
            (Inl e, s') \<Rightarrow> (Inr (error_response 400 (or_else (Some e) ''Failed to execute provisioning job'')), s')
          | (Inr v, s') \<Rightarrow> (Inr (json_response 200 (JObj [(''job'', job_view_json v)])), s')))"

definition provision_jobs_GET :: "world \<Rightarrow> request \<Rightarrow> server \<Rightarrow> outcome" where
  "provision_jobs_GET w req s = with_role w req ''admin'' s (\<lambda>u.
     (let limit = map_option (\<lambda>l. min l 200) (parse_int (or_else (req_query req ''limit'') ''100''));
          tid = (case nonempty_param req ''tenant_id'' of None \<Rightarrow> None | Some p \<Rightarrow> parse_int p)
      in (Inr (json_response 200 (JObj [(''jobs'', JArr (map (\<lambda>(j, t). JObj (job_fields j @
            [(''tenant_slug'', JStr (tn_slug t)), (''tenant_display_name'', JStr (tn_display_name t))]))
            (listProvisionJobs tid (nonempty_param req ''status'') limit s)))])), s)))"

text \<open>
  Queueing a job for an existing tenant. The plan is whatever array the body has; \<open>plan_of\<close> reads
  it as steps.
\<close>

definition job_type_of :: "string \<Rightarrow> job_type option" where
  "job_type_of t = (if t = ''bootstrap'' then Some Bootstrap else if t = ''update'' then Some Update
     else if t = ''decommission'' then Some Decommission else None)"

definition provision_jobs_POST :: "(json \<Rightarrow> provision_step list) \<Rightarrow> world \<Rightarrow> request \<Rightarrow> server \<Rightarrow> outcome" where
  "provision_jobs_POST plan_of w req s = with_role w req ''admin'' s (\<lambda>u.
     case req_body req of
       None \<Rightarrow> (Inr (error_response 500 ''Unexpected end of JSON input''), s)
     | Some JNull \<Rightarrow> (Inr (error_response 500 ''Cannot read properties of null (reading 'tenant_id')''), s)
     | Some b \<Rightarrow>
         (case num_field ''tenant_id'' b of
            None \<Rightarrow> (Inr (error_response 400 ''tenant_id is required''), s)
          | Some tid \<Rightarrow>
              if tid \<le> 0 then (Inr (error_response 400 ''tenant_id is required''), s)
              else case job_type_of (or_else (str_field ''job_type'' b) ''bootstrap'') of
                None \<Rightarrow> (Inr (error_response 400 ''Invalid job_type''), s)
              | Some ty \<Rightarrow>
                  (case tbl_get tn_id (tenants (db s)) tid of
                     None \<Rightarrow> (Inr (error_response 404 ''Tenant not found''), s)
                   | Some t \<Rightarrow>
                       (let dryRun = (jget ''dry_run'' b \<noteq> Some (JBool False));
                            plan = (case jget ''plan_json'' b of Some (JArr xs) \<Rightarrow> plan_of (JArr xs) | _ \<Rightarrow> []);
                            request = (case jget ''request_json'' b of None \<Rightarrow> JObj [] | Some v \<Rightarrow> if truthy v then v else JObj []);
                            (jid, js) = tbl_insert (new_job w tid ty dryRun (usr_username u) None request plan) (provision_jobs (db s));
                            s' = s\<lparr>db := (db s)\<lparr>provision_jobs := js\<rparr>\<rparr>
                        in (Inr (json_response 201 (JObj [(''job'', jnull (JObj \<circ> raw_job_fields) (tbl_get j_id js jid))])), s')))))"

section \<open>What the operations do to the job table\<close>

interpretation tenant_rows: row_store tn_id "tbl_get tn_id" tbl_insert tbl_update tbl_delete "tbl_wf tn_id"
  by (rule row_store_tbl)

lemma jobs_frame [simp]:
  "provision_jobs (db (set_tenant_status w tid st s)) = provision_jobs (db s)"
  "provision_jobs (db (update_job i f s)) = tbl_update (\<lambda>j. j_id j = i) f (provision_jobs (db s))"
  "tenants (db (update_job i f s)) = tenants (db s)"
  "provision_jobs (db (record_decision w i tid lv k vb ac who why s)) = provision_jobs (db s)"
  "tenants (db (record_decision w i tid lv k vb ac who why s)) = tenants (db s)"
  by (simp_all add: set_tenant_status_def update_job_def record_decision_def frame_simps)

lemma run_plan_frame:
  "provision_jobs (db (snd (snd (run_plan w ex i dry allow plan acc s)))) = provision_jobs (db s) \<and>
   tenants (db (snd (snd (run_plan w ex i dry allow plan acc s)))) = tenants (db s)"
  by (induction w ex i dry allow plan acc s rule: run_plan.induct)
    (simp_all add: Let_def frame_simps split: sum.split)

lemma start_execution_jobs:
  "provision_jobs (db (start_execution w actor v s)) = tbl_update (\<lambda>j. j_id j = j_id (jv_job v))
     (\<lambda>j. j\<lparr>j_status := Job_running, j_started_at := Some (now_s w), j_updated_at := now_s w,
        j_runner_host := Some (or_else (getenv w ''HOSTNAME'') ''unknown'')\<rparr>) (provision_jobs (db s))"
  by (simp add: start_execution_def Let_def frame_simps)

lemma getProvisionJob_SomeD:
  "getProvisionJob i s = Some v \<Longrightarrow> tbl_get j_id (provision_jobs (db s)) i = Some (jv_job v) \<and> j_id (jv_job v) = i \<and>
   tbl_get tn_id (tenants (db s)) (j_tenant_id (jv_job v)) = Some (jv_tenant v)"
  by (auto simp: getProvisionJob_def split: option.splits dest: tbl_get_in_rows)

lemma executeProvisionJob_refused:
  "getProvisionJob i s = Some v \<Longrightarrow> execution_refused actor v = Some e \<Longrightarrow> executeProvisionJob w ex i actor s = (Inl e, s)"
  by (simp add: executeProvisionJob_def)

lemma execution_allowed:
  assumes "execution_refused actor v = None"
  shows "j_status (jv_job v) = Approved" "j_plan_json (jv_job v) \<noteq> []"
    "\<exists>a. j_approved_by (jv_job v) = Some a \<and> a \<noteq> [] \<and>
       (\<not> j_dry_run (jv_job v) \<longrightarrow> a \<noteq> j_requested_by (jv_job v) \<and> a \<noteq> actor)"
  using assms by (auto simp: execution_refused_def Let_def or_else_def split: if_splits option.splits)

text \<open>
  C9. The two-person rule: executing a job has an effect only when the job is approved by a named
  approver and, for a live job, the approver is neither the requester nor the person who executes it.
  Otherwise the call throws and nothing changes.
\<close>

theorem execution_needs_approval:
  assumes "snd (executeProvisionJob w ex i actor s) \<noteq> s"
  shows "\<exists>v a. getProvisionJob i s = Some v \<and> j_status (jv_job v) = Approved \<and> j_approved_by (jv_job v) = Some a \<and> a \<noteq> [] \<and>
    (\<not> j_dry_run (jv_job v) \<longrightarrow> a \<noteq> j_requested_by (jv_job v) \<and> a \<noteq> actor)"
proof (cases "getProvisionJob i s")
  case None
  with assms show ?thesis by (simp add: executeProvisionJob_def)
next
  case (Some v)
  with assms executeProvisionJob_refused [OF Some] have "execution_refused actor v = None"
    by (cases "execution_refused actor v") auto
  with Some execution_allowed show ?thesis by blast
qed

section \<open>Dry runs run nothing\<close>

definition agree_on_dry_runs :: "executor \<Rightarrow> executor \<Rightarrow> bool" where
  "agree_on_dry_runs ex ex' \<longleftrightarrow> (\<forall>c a t k. ex_daemon ex c a t True k = ex_daemon ex' c a t True k)"

lemma runProvisionStep_dry: "agree_on_dry_runs ex ex' \<Longrightarrow> runProvisionStep w ex step True = runProvisionStep w ex' step True"
  by (auto simp: runProvisionStep_def agree_on_dry_runs_def Let_def split: list.split)

lemma run_plan_dry:
  "agree_on_dry_runs ex ex' \<Longrightarrow> run_plan w ex i True allow plan acc s = run_plan w ex' i True allow plan acc s"
  by (induction plan arbitrary: acc s) (auto simp: runProvisionStep_dry Let_def split: sum.split)

lemma run_plan_disabled: "run_plan w ex i False False plan acc s = run_plan w ex' i False False plan acc s"
  by (cases plan) simp_all

text \<open>
  A dry run executes nothing, and neither does a live job where execution is not enabled: what
  \<open>executeProvisionJob\<close> does and answers does not depend on what running a command would do. It
  depends on the daemon only through the answers to requests that carry the dry-run flag.
\<close>

theorem dry_run_independent_of_commands:
  assumes "getProvisionJob i s = Some v"
    and "j_dry_run (jv_job v) \<and> agree_on_dry_runs ex ex' \<or>
      \<not> j_dry_run (jv_job v) \<and> to_lower (or_else (getenv w ''MC_SUPER_PROVISION_EXEC'') []) \<noteq> ''true''"
  shows "executeProvisionJob w ex i actor s = executeProvisionJob w ex' i actor s"
  using assms(2)
proof
  assume "j_dry_run (jv_job v) \<and> agree_on_dry_runs ex ex'"
  with assms(1) run_plan_dry [of ex ex'] show ?thesis by (simp add: executeProvisionJob_def split: option.split)
next
  assume live: "\<not> j_dry_run (jv_job v) \<and> to_lower (or_else (getenv w ''MC_SUPER_PROVISION_EXEC'') []) \<noteq> ''true''"
  then have "run_plan w ex i (j_dry_run (jv_job v)) (to_lower (or_else (getenv w ''MC_SUPER_PROVISION_EXEC'') []) = ''true'') p [] x =
      run_plan w ex' i (j_dry_run (jv_job v)) (to_lower (or_else (getenv w ''MC_SUPER_PROVISION_EXEC'') []) = ''true'') p [] x" for p x
    using run_plan_disabled by simp
  with assms(1) show ?thesis unfolding executeProvisionJob_def Let_def by (simp split: option.split)
qed

section \<open>Executions settle\<close>

lemma update_job_lookup:
  assumes "\<And>j. j_id (f j) = j_id j"
  shows "tbl_get j_id (provision_jobs (db (update_job i f s))) k =
    (if k = i then map_option f (tbl_get j_id (provision_jobs (db s)) i) else tbl_get j_id (provision_jobs (db s)) k)"
  using job_rows.update_by_id [of f i "provision_jobs (db s)" k] assms by simp

lemma complete_execution_jobs:
  "provision_jobs (db (complete_execution w actor v rs s)) = tbl_update (\<lambda>j. j_id j = j_id (jv_job v))
     (\<lambda>j. j\<lparr>j_status := Job_completed, j_completed_at := Some (now_s w),
        j_result_json := Some (JObj [(''dry_run'', JBool (j_dry_run (jv_job v))), (''steps_executed'', JNum (int (length rs))),
          (''steps'', JArr rs)]), j_error_text := None, j_updated_at := now_s w\<rparr>) (provision_jobs (db s))"
  by (simp add: complete_execution_def Let_def frame_simps)

lemma fail_execution_jobs:
  "provision_jobs (db (fail_execution w actor v e rs s)) = tbl_update (\<lambda>j. j_id j = j_id (jv_job v))
     (\<lambda>j'. j'\<lparr>j_status := Job_failed, j_completed_at := Some (now_s w), j_error_text := Some (or_else (Some e) ''Error''),
        j_result_json := Some (JObj [(''dry_run'', JBool (j_dry_run (jv_job v))), (''steps'', JArr rs)]), j_updated_at := now_s w\<rparr>)
     (provision_jobs (db s))"
  by (simp add: fail_execution_def Let_def frame_simps)

lemma tenant_status_after:
  "tenants (db (complete_execution w actor v rs s)) = tenants (db (set_tenant_status w (j_tenant_id (jv_job v))
     (if j_dry_run (jv_job v) then or_else (Some (tn_status (jv_tenant v))) ''pending''
      else if j_type (jv_job v) = Decommission then ''suspended'' else ''active'') s))"
  "tenants (db (fail_execution w actor v e rs s)) = tenants (db (set_tenant_status w (j_tenant_id (jv_job v)) ''error'' s))"
  by (simp_all add: complete_execution_def fail_execution_def Let_def frame_simps set_tenant_status_def)

text \<open>Whether the plan runs to its end.\<close>

definition plan_succeeds :: "world \<Rightarrow> executor \<Rightarrow> job_row \<Rightarrow> bool" where
  "plan_succeeds w ex j \<longleftrightarrow> (\<forall>step \<in> set (j_plan_json j).
     (j_dry_run j \<or> to_lower (or_else (getenv w ''MC_SUPER_PROVISION_EXEC'') []) = ''true'') \<and>
     (\<exists>r. runProvisionStep w ex step (j_dry_run j) = Inr r))"

lemma run_plan_succeeds:
  "fst (run_plan w ex i dry allow plan acc s) = None \<longleftrightarrow>
   (\<forall>step \<in> set plan. (dry \<or> allow) \<and> (\<exists>r. runProvisionStep w ex step dry = Inr r))"
proof (induction plan arbitrary: acc s)
  case Nil
  then show ?case by simp
next
  case (Cons step plan)
  show ?case
  proof (cases "dry \<or> allow")
    case True
    then show ?thesis
      by (cases "runProvisionStep w ex step dry") (simp_all add: Let_def Cons.IH, blast)
  next
    case False
    then show ?thesis by (auto simp: Let_def)
  qed
qed

lemma execution_outcome:
  assumes "getProvisionJob i s = Some v" and "execution_refused actor v = None"
    and "executeProvisionJob w ex i actor s = (res, s')"
  shows "\<exists>j t. tbl_get j_id (provision_jobs (db s')) i = Some j \<and>
    tbl_get tn_id (tenants (db s')) (j_tenant_id (jv_job v)) = Some t \<and>
    (if plan_succeeds w ex (jv_job v)
     then isl res = False \<and> j_status j = Job_completed \<and>
       tn_status t = (if j_dry_run (jv_job v) then or_else (Some (tn_status (jv_tenant v))) ''pending''
         else if j_type (jv_job v) = Decommission then ''suspended'' else ''active'')
     else isl res \<and> j_status j = Job_failed \<and> tn_status t = ''error'')"
proof -
  let ?allow = "to_lower (or_else (getenv w ''MC_SUPER_PROVISION_EXEC'') []) = ''true''"
  let ?j = "jv_job v"
  obtain err rs s1 where run: "run_plan w ex i (j_dry_run ?j) ?allow (j_plan_json ?j) [] (start_execution w actor v s) = (err, rs, s1)"
    by (cases "run_plan w ex i (j_dry_run ?j) ?allow (j_plan_json ?j) [] (start_execution w actor v s)")
  note v = getProvisionJob_SomeD [OF assms(1)]
  have ok: "err = None \<longleftrightarrow> plan_succeeds w ex ?j"
    using run_plan_succeeds [of w ex i "j_dry_run ?j" ?allow "j_plan_json ?j" "[]" "start_execution w actor v s"] run
    by (auto simp: plan_succeeds_def)
  have jobs: "\<exists>j. tbl_get j_id (provision_jobs (db s1)) i = Some j"
    using run_plan_frame [of w ex i "j_dry_run ?j" ?allow "j_plan_json ?j" "[]" "start_execution w actor v s"] run v
      job_rows.update_by_id [of "\<lambda>j. j\<lparr>j_status := Job_running, j_started_at := Some (now_s w), j_updated_at := now_s w,
        j_runner_host := Some (or_else (getenv w ''HOSTNAME'') ''unknown'')\<rparr>" i "provision_jobs (db s)" i]
    by (simp add: start_execution_jobs)
  have tens: "\<exists>t. tbl_get tn_id (tenants (db s1)) (j_tenant_id ?j) = Some t"
    using run_plan_frame [of w ex i "j_dry_run ?j" ?allow "j_plan_json ?j" "[]" "start_execution w actor v s"] run v
    by (auto simp: start_execution_def Let_def frame_simps set_tenant_status_def tenant_rows.update_by_id)
  have upd: "\<exists>t'. tbl_get tn_id (tenants (db (set_tenant_status w (j_tenant_id ?j) st s1))) (j_tenant_id ?j) = Some t' \<and>
      tn_status t' = st" for st
    using tens by (auto simp: set_tenant_status_def tenant_rows.update_by_id)
  show ?thesis
  proof (cases err)
    case None
    then have "s' = complete_execution w actor v rs s1" "isl res = False"
      using assms run by (auto simp: executeProvisionJob_def Let_def)
    with None ok jobs upd v show ?thesis
      by (auto simp: complete_execution_jobs tenant_status_after job_rows.update_by_id)
  next
    case (Some e)
    then have "s' = fail_execution w actor v e rs s1" "isl res"
      using assms run by (auto simp: executeProvisionJob_def Let_def)
    with Some ok jobs upd v show ?thesis
      by (auto simp: fail_execution_jobs tenant_status_after job_rows.update_by_id)
  qed
qed

text \<open>
  An execution that starts also ends: the job is left completed when every step of the plan
  ran and failed otherwise, never running; the call returns exactly in the first case; and the
  tenant becomes active (suspended for a decommission), stays as it was for a dry run, or is in
  error.
\<close>

theorem execution_settles:
  assumes "getProvisionJob i s = Some v" and "execution_refused actor v = None"
    and "executeProvisionJob w ex i actor s = (res, s')"
  shows "\<exists>j t. tbl_get j_id (provision_jobs (db s')) i = Some j \<and>
    tbl_get tn_id (tenants (db s')) (j_tenant_id (jv_job v)) = Some t \<and>
    (if plan_succeeds w ex (jv_job v)
     then isl res = False \<and> j_status j = Job_completed \<and>
       tn_status t = (if j_dry_run (jv_job v) then or_else (Some (tn_status (jv_tenant v))) ''pending''
         else if j_type (jv_job v) = Decommission then ''suspended'' else ''active'')
     else isl res \<and> j_status j = Job_failed \<and> tn_status t = ''error'')"
  by (rule execution_outcome [OF assms])

section \<open>The life of a job\<close>

text \<open>A completed job was approved; a live one not by its requester.\<close>

definition completed_ok :: "job_row \<Rightarrow> bool" where
  "completed_ok j \<longleftrightarrow> (j_status j = Job_completed \<longrightarrow>
     (\<exists>a. j_approved_by j = Some a \<and> a \<noteq> [] \<and> (\<not> j_dry_run j \<longrightarrow> a \<noteq> j_requested_by j)))"

text \<open>What an operation may do to the table of jobs: nothing, queue a job, or change one job that is not settled.\<close>

definition job_effect :: "server \<Rightarrow> server \<Rightarrow> bool" where
  "job_effect s s' \<longleftrightarrow> provision_jobs (db s') = provision_jobs (db s) \<or>
     (\<exists>mk. (\<forall>k. j_id (mk k) = k \<and> j_status (mk k) = Queued) \<and>
        provision_jobs (db s') = snd (tbl_insert mk (provision_jobs (db s)))) \<or>
     (\<exists>k v f. getProvisionJob k s = Some v \<and> j_status (jv_job v) \<notin> {Job_running, Job_completed, Cancelled} \<and>
        (\<forall>j. j_id (f j) = j_id j) \<and> completed_ok (f (jv_job v)) \<and>
        provision_jobs (db s') = tbl_update (\<lambda>j. j_id j = k) f (provision_jobs (db s)))"

lemma job_effect_refl: "job_effect s s"
  by (simp add: job_effect_def)

lemma job_effect_insert:
  assumes "\<And>k. j_id (mk k) = k" "\<And>k. j_status (mk k) = Queued"
    "provision_jobs (db s') = snd (tbl_insert mk (provision_jobs (db s)))"
  shows "job_effect s s'"
  using assms by (auto simp: job_effect_def)

lemma job_effect_update:
  assumes "getProvisionJob k s = Some v" "j_status (jv_job v) \<notin> {Job_running, Job_completed, Cancelled}"
    "provision_jobs (db s') = tbl_update (\<lambda>j. j_id j = k) f (provision_jobs (db s))"
    "\<And>j. j_id (f j) = j_id j" "completed_ok (f (jv_job v))"
  shows "job_effect s s'"
  using assms unfolding job_effect_def by blast

lemma new_job_sel [simp]:
  "j_id (new_job w t ty d a u r p i) = i" "j_status (new_job w t ty d a u r p i) = Queued"
  by (simp_all add: new_job_def)

lemma job_effect_createTenant: "job_effect s (snd (createTenantAndBootstrapJob w dd cwd uuid r actor s))"
proof (cases "bootstrap_fields w dd cwd r")
  case (Inl e)
  then show ?thesis by (simp add: createTenantAndBootstrapJob_def job_effect_refl)
next
  case (Inr f)
  show ?thesis
    unfolding createTenantAndBootstrapJob_def Inr Let_def
    by (auto simp: case_prod_beta frame_simps intro!: job_effect_refl job_effect_insert)
qed

lemma job_effect_decommission: "job_effect s (snd (createTenantDecommissionJob w uuid tid r actor s))"
  unfolding createTenantDecommissionJob_def Let_def
  by (auto simp: case_prod_beta frame_simps intro!: job_effect_refl job_effect_insert split: option.split)

lemma job_effect_queue: "job_effect s (snd (provision_jobs_POST plan_of w req s))"
  unfolding provision_jobs_POST_def with_role_def Let_def
  by (auto simp: case_prod_beta intro!: job_effect_refl job_effect_insert
      split: sum.split auth_result.split option.split json.split)

lemma transition_jobs:
  "provision_jobs (db (record_decision w i tid lv k vb ac who why (update_job i f s))) =
   tbl_update (\<lambda>j. j_id j = i) f (provision_jobs (db s))"
  by simp

lemma job_effect_transition: "job_effect s (snd (transitionProvisionJobStatus w i actor act reason s))"
proof (cases "getProvisionJob i s")
  case None
  then show ?thesis by (simp add: transitionProvisionJobStatus_def job_effect_refl)
next
  case (Some v)
  show ?thesis
  proof (cases "j_status (jv_job v) \<in> {Job_running, Job_completed, Cancelled}")
    case True
    with Some show ?thesis by (auto simp: transitionProvisionJobStatus_def Let_def job_effect_refl)
  next
    case open_job: False
    show ?thesis
      using open_job unfolding transitionProvisionJobStatus_def Let_def Some
      by (auto simp: job_effect_refl split: job_action.split intro!: job_effect_update [OF Some open_job, OF transition_jobs])
        (simp_all add: completed_ok_def)
  qed
qed

lemma job_effect_execute: "job_effect s (snd (executeProvisionJob w ex i actor s))"
proof (cases "getProvisionJob i s")
  case None
  then show ?thesis by (simp add: executeProvisionJob_def job_effect_refl)
next
  case (Some v)
  show ?thesis
  proof (cases "execution_refused actor v")
    case (Some e)
    with \<open>getProvisionJob i s = Some v\<close> show ?thesis by (simp add: executeProvisionJob_refused job_effect_refl)
  next
    case None
    let ?allow = "to_lower (or_else (getenv w ''MC_SUPER_PROVISION_EXEC'') []) = ''true''"
    let ?j = "jv_job v"
    have id: "j_id ?j = i" using getProvisionJob_SomeD [OF Some] by simp
    have st: "j_status ?j \<notin> {Job_running, Job_completed, Cancelled}" using execution_allowed(1) [OF None] by simp
    obtain err rs s1 where run: "run_plan w ex i (j_dry_run ?j) ?allow (j_plan_json ?j) [] (start_execution w actor v s) = (err, rs, s1)"
      by (cases "run_plan w ex i (j_dry_run ?j) ?allow (j_plan_json ?j) [] (start_execution w actor v s)")
    have jobs: "provision_jobs (db s1) = tbl_update (\<lambda>j. j_id j = i) (\<lambda>j. j\<lparr>j_status := Job_running,
        j_started_at := Some (now_s w), j_updated_at := now_s w,
        j_runner_host := Some (or_else (getenv w ''HOSTNAME'') ''unknown'')\<rparr>) (provision_jobs (db s))"
      using run_plan_frame [of w ex i "j_dry_run ?j" ?allow "j_plan_json ?j" "[]" "start_execution w actor v s"] run
      by (simp add: start_execution_jobs id)
    have twice: "tbl_update (\<lambda>j. j_id j = i) g (tbl_update (\<lambda>j. j_id j = i) f T) = tbl_update (\<lambda>j. j_id j = i) (\<lambda>j. g (f j)) T"
      if "\<And>j. j_id (f j) = j_id j" for f g and T :: "job_row tbl"
      using that by (simp add: tbl_update_def)
    show ?thesis
    proof (cases err)
      case err: None
      have "provision_jobs (db (snd (executeProvisionJob w ex i actor s))) =
          provision_jobs (db (complete_execution w actor v rs s1))"
        using Some None run err by (simp add: executeProvisionJob_def Let_def)
      with jobs show ?thesis
        using execution_allowed(3) [OF None]
        by (intro job_effect_update [OF Some st, where f = "\<lambda>j. (j\<lparr>j_status := Job_running, j_started_at := Some (now_s w),
            j_updated_at := now_s w, j_runner_host := Some (or_else (getenv w ''HOSTNAME'') ''unknown'')\<rparr>)\<lparr>
            j_status := Job_completed, j_completed_at := Some (now_s w),
            j_result_json := Some (JObj [(''dry_run'', JBool (j_dry_run ?j)), (''steps_executed'', JNum (int (length rs))),
              (''steps'', JArr rs)]), j_error_text := None, j_updated_at := now_s w\<rparr>"])
          (auto simp: complete_execution_jobs id twice completed_ok_def)
    next
      case err: (Some e)
      have "provision_jobs (db (snd (executeProvisionJob w ex i actor s))) =
          provision_jobs (db (fail_execution w actor v e rs s1))"
        using Some None run err by (simp add: executeProvisionJob_def Let_def)
      with jobs show ?thesis
        by (intro job_effect_update [OF Some st, where f = "\<lambda>j. (j\<lparr>j_status := Job_running, j_started_at := Some (now_s w),
            j_updated_at := now_s w, j_runner_host := Some (or_else (getenv w ''HOSTNAME'') ''unknown'')\<rparr>)\<lparr>
            j_status := Job_failed, j_completed_at := Some (now_s w), j_error_text := Some (or_else (Some e) ''Error''),
            j_result_json := Some (JObj [(''dry_run'', JBool (j_dry_run ?j)), (''steps'', JArr rs)]), j_updated_at := now_s w\<rparr>"])
          (auto simp: fail_execution_jobs id twice completed_ok_def)
    qed
  qed
qed

inductive job_step :: "server \<Rightarrow> server \<Rightarrow> bool" where
  create: "job_step s (snd (createTenantAndBootstrapJob w dd cwd uuid r actor s))"
| decommission: "job_step s (snd (createTenantDecommissionJob w uuid tid dr actor s))"
| queue: "job_step s (snd (provision_jobs_POST plan_of w req s))"
| transition: "job_step s (snd (transitionProvisionJobStatus w i actor act reason s))"
| execute: "job_step s (snd (executeProvisionJob w ex i actor s))"

lemma job_step_effect: "job_step s t \<Longrightarrow> job_effect s t"
  by (induction rule: job_step.induct)
    (rule job_effect_createTenant job_effect_decommission job_effect_queue job_effect_transition job_effect_execute)+

definition jobs_ok :: "server \<Rightarrow> bool" where
  "jobs_ok s \<longleftrightarrow> tbl_wf j_id (provision_jobs (db s)) \<and> (\<forall>j \<in> set (rows (provision_jobs (db s))). completed_ok j)"

lemma jobs_ok_effect:
  assumes "jobs_ok s" and "job_effect s t" shows "jobs_ok t"
  using assms(2) unfolding job_effect_def
proof (elim disjE exE conjE)
  fix mk assume "\<forall>k. j_id (mk k) = k \<and> j_status (mk k) = Queued"
    and t: "provision_jobs (db t) = snd (tbl_insert mk (provision_jobs (db s)))"
  with assms(1) show ?thesis by (simp add: jobs_ok_def t job_rows.wf_insert rows_tbl_insert completed_ok_def)
next
  fix k v f
  assume v: "getProvisionJob k s = Some v" and f: "\<forall>j. j_id (f j) = j_id j" "completed_ok (f (jv_job v))"
    and t: "provision_jobs (db t) = tbl_update (\<lambda>j. j_id j = k) f (provision_jobs (db s))"
  have wf: "tbl_wf j_id (provision_jobs (db s))" using assms(1) by (simp add: jobs_ok_def)
  have "completed_ok (f j)" if "j \<in> set (rows (provision_jobs (db s)))" "j_id j = k" for j
    using tbl_get_Some_unique [OF wf that(1)] that(2) getProvisionJob_SomeD [OF v] f(2) by simp
  with assms(1) f(1) show ?thesis
    by (auto simp: jobs_ok_def t job_rows.wf_update rows_tbl_update)
qed (use assms(1) in \<open>simp add: jobs_ok_def\<close>)

interpretation job_sys: invariant_system "\<lambda>s. s = init_server" job_step jobs_ok
proof
  show "jobs_ok s" if "s = init_server" for s
    using that by (simp add: jobs_ok_def init_server_def empty_db_def tbl_wf_def tbl_empty_def)
  show "jobs_ok t" if "jobs_ok s" "job_step s t" for s t
    using that jobs_ok_effect job_step_effect by blast
qed

definition settled_job :: "int \<Rightarrow> job_row \<Rightarrow> server \<Rightarrow> bool" where
  "settled_job i j s \<longleftrightarrow> jobs_ok s \<and> tbl_get j_id (provision_jobs (db s)) i = Some j \<and> j_status j \<in> {Job_completed, Cancelled}"

lemma settled_job_effect:
  assumes "settled_job i j s" and "job_effect s t" shows "settled_job i j t"
proof -
  have wf: "tbl_wf j_id (provision_jobs (db s))" and j: "tbl_get j_id (provision_jobs (db s)) i = Some j"
    "j_status j \<in> {Job_completed, Cancelled}" and ok_s: "jobs_ok s"
    using assms(1) unfolding settled_job_def jobs_ok_def by blast+
  have ok: "jobs_ok t" by (rule jobs_ok_effect [OF ok_s assms(2)])
  have "tbl_get j_id (provision_jobs (db t)) i = Some j"
    using assms(2) unfolding job_effect_def
  proof (elim disjE exE conjE)
    fix mk assume "\<forall>k. j_id (mk k) = k \<and> j_status (mk k) = Queued"
      and t: "provision_jobs (db t) = snd (tbl_insert mk (provision_jobs (db s)))"
    then have mk: "\<And>k. j_id (mk k) = k" by simp
    have "tbl_insert mk (provision_jobs (db s)) = (fst (tbl_insert mk (provision_jobs (db s))), provision_jobs (db t))"
      unfolding t by (rule prod.collapse [symmetric])
    from job_rows.insert_keeps_others [OF wf mk this j(1)] show ?thesis .
  next
    fix k v f
    assume v: "getProvisionJob k s = Some v" and st: "j_status (jv_job v) \<notin> {Job_running, Job_completed, Cancelled}"
      and f: "\<forall>j. j_id (f j) = j_id j"
      and t: "provision_jobs (db t) = tbl_update (\<lambda>j. j_id j = k) f (provision_jobs (db s))"
    have "k \<noteq> i" using getProvisionJob_SomeD [OF v] st j by auto
    with t f j(1) show ?thesis by (simp add: job_rows.update_by_id)
  qed (use j in simp)
  with ok j(2) show ?thesis by (simp add: settled_job_def)
qed

interpretation settled_jobs: invariant_system "settled_job i j" job_step "settled_job i j" for i j
  by unfold_locales (auto intro: settled_job_effect job_step_effect)

text \<open>
  C10. Settled jobs are final and were approved: in every state reachable by creating, queueing,
  approving, rejecting, cancelling and executing jobs, a completed job has a named approver who, for
  a live job, is not its requester; and once completed or cancelled its row never changes again.
\<close>

theorem settled_jobs_final:
  assumes "job_step\<^sup>*\<^sup>* init_server s" and "tbl_get j_id (provision_jobs (db s)) i = Some j"
    and "j_status j = Job_completed \<or> j_status j = Cancelled" and "job_step\<^sup>*\<^sup>* s t"
  shows "tbl_get j_id (provision_jobs (db t)) i = Some j \<and>
    (j_status j = Job_completed \<longrightarrow>
      (\<exists>a. j_approved_by j = Some a \<and> a \<noteq> [] \<and> (\<not> j_dry_run j \<longrightarrow> a \<noteq> j_requested_by j)))"
proof -
  have ok: "jobs_ok s" using job_sys.reachable_inv [OF refl assms(1)] .
  with assms(2,3) have "settled_job i j s" by (auto simp: settled_job_def)
  from settled_jobs.steps_inv [OF assms(4) this] have "settled_job i j t" .
  moreover have "completed_ok j" using ok tbl_get_in_rows [OF assms(2)] by (auto simp: jobs_ok_def)
  ultimately show ?thesis by (auto simp: settled_job_def completed_ok_def)
qed

section \<open>Where a tenant lives\<close>

lemma strip_slashes_id: "CHR ''/'' \<notin> set p \<Longrightarrow> strip_slashes p = p"
proof -
  assume "CHR ''/'' \<notin> set p"
  then have "p = [] \<or> last p \<noteq> CHR ''/''" using last_in_set [of p] by force
  then have "dropWhile (\<lambda>c. c = CHR ''/'') (rev p) = rev p"
    by (simp add: dropWhile_eq_self_iff hd_rev)
  then show ?thesis by (simp add: strip_slashes_def)
qed

lemma valid_linux_user_chars:
  assumes "is_valid_linux_user u"
  shows "CHR ''/'' \<notin> set u" "u \<noteq> []" "u \<noteq> ''.''" "u \<noteq> ''..''"
proof -
  have "\<forall>c \<in> set u. is_lower_alnum c \<or> c = CHR ''_'' \<or> c = CHR ''-''" and len: "2 \<le> length u"
    using assms by (auto simp: is_valid_linux_user_def list_all_iff)
  then have "CHR ''/'' \<notin> set u" and dot: "CHR ''.'' \<notin> set u" by (auto simp: is_lower_alnum_def)
  then show "CHR ''/'' \<notin> set u" "u \<noteq> []" "u \<noteq> ''.''" "u \<noteq> ''..''" using len by auto
qed

lemma home_path:
  assumes "is_valid_linux_user u"
  shows "joinPosix [''/home'', u, ''.openclaw''] = ''/home/'' @ u @ ''/.openclaw''"
proof -
  note u = valid_linux_user_chars [OF assms]
  have "split_on CHR ''/'' (u @ CHR ''/'' # ''.openclaw'') = [u, ''.openclaw'']"
    using split_on_append_sep [OF u(1), of "''.openclaw''"] by simp
  moreover have "strip_slashes ''/home'' = ''/home''" by (simp add: strip_slashes_def)
  ultimately show ?thesis
    using u by (simp add: joinPosix_def posix_join_def strip_slashes_id posix_normalize_def Let_def)
qed

lemma ensurePort_Some: "ensurePort p = Inr (Some q) \<Longrightarrow> 1024 \<le> q \<and> q \<le> 65535"
  by (cases p) (auto simp: ensurePort_def split: if_splits)

lemma bootstrap_fields_Inr:
  assumes "bootstrap_fields w dd cwd r = Inr f"
  shows "isValidSlug (tf_slug f) \<and> is_valid_linux_user (tf_linux_user f) \<and>
    ensurePort (tr_gateway_port r) = Inr (Some (tf_gateway_port f)) \<and>
    ensurePort (tr_dashboard_port r) = Inr (tf_dashboard_port f) \<and>
    tf_openclaw_home f = joinPosix [getTenantHomeRoot w, tf_linux_user f, ''.openclaw''] \<and>
    (\<exists>a b c. tf_plan f = buildBootstrapPlan w dd (tf_slug f) (tf_linux_user f) (tf_openclaw_home f) a b c)"
  using assms unfolding bootstrap_fields_def Let_def
  by (simp split: if_split_asm sum.split_asm option.split_asm) (hypsubst, simp, blast)+

lemma home_of_user:
  assumes "is_valid_linux_user u"
  shows "joinPosix [''/home'', u] = ''/home/'' @ u"
proof -
  note u = valid_linux_user_chars [OF assms]
  have "last u \<noteq> CHR ''/''" using u(1,2) last_in_set [of u] by metis
  moreover have "split_on CHR ''/'' u = [u]" using u(1) by (rule split_on_no_sep)
  moreover have "strip_slashes ''/home'' = ''/home''" by (simp add: strip_slashes_def)
  ultimately show ?thesis
    using u by (simp add: joinPosix_def posix_join_def strip_slashes_id posix_normalize_def Let_def)
qed

definition alnum_chars :: string where
  "alnum_chars = ''abcdefghijklmnopqrstuvwxyz0123456789''"

lemma is_lower_alnum_iff: "is_lower_alnum c \<longleftrightarrow> c \<in> set alnum_chars"
proof -
  have "\<forall>c \<in> set (Enum.enum :: char list). is_lower_alnum c \<longleftrightarrow> c \<in> set alnum_chars" by code_simp
  then show ?thesis by (simp add: enum_UNIV)
qed

lemma dash_no_alnum: "CHR ''-'' \<notin> set alnum_chars"
  by (simp add: alnum_chars_def)


section \<open>Examples\<close>

definition demo_tenant_request :: tenant_request where
  "demo_tenant_request = \<lparr>tr_slug = ''Acme'', tr_display_name = ''Acme'', tr_linux_user = None, tr_plan_tier = None,
     tr_gateway_port = Some 18800, tr_dashboard_port = None, tr_dry_run = Some False, tr_config = None,
     tr_owner_gateway = None\<rparr>"

definition demo_super_world :: world where
  "demo_super_world = demo_world\<lparr>getenv := [''MC_SUPER_TEMPLATE_OPENCLAW_JSON'' \<mapsto> ''/etc/tpl.json'']\<rparr>"

text \<open>A queued live decommission of the only tenant, requested by \<open>ada\<close>.\<close>

definition demo_tenant :: tenant_row where
  "demo_tenant = \<lparr>tn_id = 1, tn_slug = ''acme'', tn_display_name = ''Acme'', tn_linux_user = ''oc-acme'',
     tn_plan_tier = ''standard'', tn_status = ''active'', tn_openclaw_home = ''/home/oc-acme/.openclaw'',
     tn_workspace_root = ''/home/oc-acme/workspace'', tn_gateway_port = Some 18800, tn_dashboard_port = None,
     tn_config = JObj [], tn_created_by = ''ada'', tn_owner_gateway = Some ''primary'', tn_created_at = 0, tn_updated_at = 0\<rparr>"

definition demo_job :: job_row where
  "demo_job = (new_job demo_world 1 Decommission False ''ada'' (Some ''uuid'') (JObj [(''dry_run'', JBool False)])
     (buildDecommissionPlan ''oc-acme'' ''/home/oc-acme/.openclaw'' ''/home/oc-acme/workspace'' False False) 1)
     \<lparr>j_status := Approved, j_approved_by := Some ''bob''\<rparr>"

definition demo_job_state :: server where
  "demo_job_state = init_server\<lparr>db := empty_db\<lparr>tenants := \<lparr>seq = 1, rows = [demo_tenant]\<rparr>,
     provision_jobs := \<lparr>seq = 1, rows = [demo_job]\<rparr>\<rparr>\<rparr>"

definition demo_executor :: executor where
  "demo_executor = \<lparr>ex_daemon = (\<lambda>c a t d k. Inr \<lparr>sr_stdout = ''ok'', sr_stderr = [], sr_code = 0, sr_skipped = d\<rparr>),
     ex_run = (\<lambda>c a t. Inl ''no sudo'')\<rparr>"

lemma demo_job_view: "\<exists>v. getProvisionJob 1 demo_job_state = Some v \<and> jv_job v = demo_job \<and> jv_tenant v = demo_tenant"
  by (simp add: getProvisionJob_def demo_job_state_def tbl_get_def demo_job_def new_job_def demo_tenant_def)

lemma demo_job_fails: "\<not> plan_succeeds demo_world demo_executor demo_job"
  by (auto simp: plan_succeeds_def demo_job_def new_job_def buildDecommissionPlan_def Let_def demo_world_def to_lower_def)

lemma demo_job_status: "j_status demo_job = Approved"
  by (simp add: demo_job_def)

lemma demo_job_allowed: "jv_job v = demo_job \<Longrightarrow> execution_refused ''eve'' v = None"
  by (simp add: execution_refused_def demo_job_def new_job_def buildDecommissionPlan_def Let_def)

theorem execution_settles_witness:
  "\<exists>j t. tbl_get j_id (provision_jobs (db (snd (executeProvisionJob demo_world demo_executor 1 ''eve'' demo_job_state)))) 1 = Some j \<and>
     j_status j = Job_failed \<and>
     tbl_get tn_id (tenants (db (snd (executeProvisionJob demo_world demo_executor 1 ''eve'' demo_job_state)))) 1 = Some t \<and>
     tn_status t = ''error''"
proof -
  obtain v where v: "getProvisionJob 1 demo_job_state = Some v" "jv_job v = demo_job" using demo_job_view by blast
  obtain res s' where e: "executeProvisionJob demo_world demo_executor 1 ''eve'' demo_job_state = (res, s')"
    by (cases "executeProvisionJob demo_world demo_executor 1 ''eve'' demo_job_state")
  have "j_tenant_id demo_job = 1" by (simp add: demo_job_def new_job_def)
  then show ?thesis
    using execution_settles [OF v(1) demo_job_allowed [OF v(2)] e] v(2) e demo_job_fails by auto
qed

theorem execution_needs_approval_witness:
  "snd (executeProvisionJob demo_world demo_executor 1 ''bob'' demo_job_state) = demo_job_state \<and>
   snd (executeProvisionJob demo_world demo_executor 1 ''eve'' demo_job_state) \<noteq> demo_job_state \<and>
   (\<exists>v. getProvisionJob 1 demo_job_state = Some v \<and> j_approved_by (jv_job v) \<noteq> Some ''eve'')"
proof -
  obtain v where v: "getProvisionJob 1 demo_job_state = Some v" "jv_job v = demo_job" using demo_job_view by blast
  have "snd (executeProvisionJob demo_world demo_executor 1 ''bob'' demo_job_state) = demo_job_state"
    using execution_needs_approval [of demo_world demo_executor 1 "''bob''" demo_job_state] v
    by (auto simp: demo_job_def new_job_def)
  moreover have changed: "snd (executeProvisionJob demo_world demo_executor 1 ''eve'' demo_job_state) \<noteq> demo_job_state"
    using execution_outcome [OF v(1) demo_job_allowed [OF v(2)] prod.collapse [symmetric], of demo_world demo_executor]
      getProvisionJob_SomeD [OF v(1)] v(2) demo_job_fails demo_job_status by auto
  moreover have "\<exists>v. getProvisionJob 1 demo_job_state = Some v \<and> j_approved_by (jv_job v) \<noteq> Some ''eve''"
    using execution_needs_approval [OF changed] v by (auto simp: demo_job_def new_job_def)
  ultimately show ?thesis by blast
qed

theorem dry_run_independent_of_commands_witness:
  "executeProvisionJob demo_world demo_executor 1 ''eve'' demo_job_state =
   executeProvisionJob demo_world (demo_executor\<lparr>ex_run := \<lambda>c a t. Inr \<lparr>sr_stdout = ''rm'', sr_stderr = [], sr_code = 0,
     sr_skipped = False\<rparr>\<rparr>) 1 ''eve'' demo_job_state"
proof -
  obtain v where v: "getProvisionJob 1 demo_job_state = Some v" "jv_job v = demo_job" using demo_job_view by blast
  show ?thesis
    by (rule dry_run_independent_of_commands [OF v(1)])
      (simp add: v(2) demo_job_def new_job_def demo_world_def to_lower_def)
qed

text \<open>A tenant is requested and its job cancelled; the row then survives an attempt to approve it.\<close>

definition demo_queued :: server where
  "demo_queued = snd (createTenantAndBootstrapJob demo_super_world ''/data'' ''/app'' ''uuid'' demo_tenant_request ''ada'' init_server)"

definition demo_cancelled :: server where
  "demo_cancelled = snd (transitionProvisionJobStatus demo_super_world 1 ''ada'' Cancel_job None demo_queued)"

definition demo_revived :: server where
  "demo_revived = snd (transitionProvisionJobStatus demo_super_world 1 ''bob'' Approve None demo_cancelled)"

lemma demo_bootstrap_ok:
  "case bootstrap_fields demo_super_world ''/data'' ''/app'' demo_tenant_request of Inl e \<Rightarrow> False
   | Inr f \<Rightarrow> tf_slug f = ''acme'' \<and> tf_linux_user f = ''oc-acme'' \<and> tf_gateway_port f = 18800"
  by code_simp

lemma demo_bootstrap: "\<exists>f. bootstrap_fields demo_super_world ''/data'' ''/app'' demo_tenant_request = Inr f \<and>
    tf_slug f = ''acme'' \<and> tf_linux_user f = ''oc-acme'' \<and> tf_gateway_port f = 18800"
  using demo_bootstrap_ok by (simp split: sum.splits)


lemma demo_queued_job:
  "\<exists>v. getProvisionJob 1 demo_queued = Some v \<and> j_status (jv_job v) = Queued"
proof -
  obtain f where f: "bootstrap_fields demo_super_world ''/data'' ''/app'' demo_tenant_request = Inr f"
    using demo_bootstrap by blast
  show ?thesis
    unfolding demo_queued_def createTenantAndBootstrapJob_def f Let_def
    by (simp add: getProvisionJob_def init_server_def empty_db_def tbl_empty_def tbl_insert_def tbl_get_def new_job_def
      case_prod_beta frame_simps)
qed

theorem settled_jobs_final_witness:
  "\<exists>j. tbl_get j_id (provision_jobs (db demo_cancelled)) 1 = Some j \<and> j_status j = Cancelled \<and>
     tbl_get j_id (provision_jobs (db demo_revived)) 1 = Some j"
proof -
  obtain v where v: "getProvisionJob 1 demo_queued = Some v" "j_status (jv_job v) = Queued" using demo_queued_job by blast
  then have j: "\<exists>j. tbl_get j_id (provision_jobs (db demo_cancelled)) 1 = Some j \<and> j_status j = Cancelled"
    using getProvisionJob_SomeD [OF v(1)]
    by (simp add: demo_cancelled_def transitionProvisionJobStatus_def Let_def transition_jobs job_rows.update_by_id)
  have "job_step\<^sup>*\<^sup>* init_server demo_cancelled"
    unfolding demo_cancelled_def demo_queued_def
    by (rule rtranclp.rtrancl_into_rtrancl [OF r_into_rtranclp]) (rule job_step.intros)+
  moreover have "job_step\<^sup>*\<^sup>* demo_cancelled demo_revived"
    unfolding demo_revived_def by (rule r_into_rtranclp) (rule job_step.intros)
  ultimately show ?thesis using settled_jobs_final j by blast
qed

end
