(* ===== verification/MC_Proxy.thy ===== *)
theory MC_Proxy
  imports MC_Http
begin

text \<open>
  The gate in front of every route: \<open>src/proxy.ts\<close>. The cookies as the framework parses them and
  the host of a URL (\<open>new URL(s).host\<close>, \<open>None\<close> when it throws) are arguments.
\<close>

definition proxy_envFlag :: "world \<Rightarrow> string \<Rightarrow> bool" where
  "proxy_envFlag w name =
     (case getenv w name of
        None \<Rightarrow> False
      | Some raw \<Rightarrow> to_lower (trim raw) \<in> {''1'', ''true'', ''yes'', ''on''})"

definition getRequestHostname :: "request \<Rightarrow> string" where
  "getRequestHostname req =
     (let raw = or_else (req_headers req ''x-forwarded-host'') (or_else (req_headers req ''host'') []);
          first = hd (split_on CHR '','' raw)
      in hd (split_on CHR '':'' (trim first)))"

definition hostMatches :: "string \<Rightarrow> string \<Rightarrow> bool" where
  "hostMatches pattern hostname =
     (let p = to_lower (trim pattern); h = to_lower (trim hostname)
      in if p = [] \<or> h = [] then False
         else if starts_with ''*.'' p then ends_with (''.'' @ drop 2 p) h
         else if ends_with ''.*'' p then starts_with (butlast p) h
         else h = p)"

definition security_headers :: "(string \<times> string) list" where
  "security_headers = [(''X-Content-Type-Options'', ''nosniff''), (''X-Frame-Options'', ''DENY''),
     (''Referrer-Policy'', ''strict-origin-when-cross-origin'')]"

datatype proxy_answer =
    Continue_with "(string \<times> string) list"
  | Forbidden_text
  | Json_answer response
  | Redirect_to string

definition allowed_patterns :: "world \<Rightarrow> string list" where
  "allowed_patterns w = filter (\<lambda>p. p \<noteq> []) (map trim (split_on CHR '','' (or_else (getenv w ''MC_ALLOWED_HOSTS'') [])))"

definition host_allowed :: "world \<Rightarrow> request \<Rightarrow> bool" where
  "host_allowed w req \<longleftrightarrow>
     proxy_envFlag w ''MC_ALLOW_ANY_HOST'' \<or> getenv w ''NODE_ENV'' \<noteq> Some ''production'' \<or>
     (\<exists>p \<in> set (allowed_patterns w). hostMatches p (getRequestHostname req))"

text \<open>The host the origin of a mutating request is compared with.\<close>

definition request_host :: "request \<Rightarrow> string" where
  "request_host req =
     (let h = (case req_headers req ''host'' of None \<Rightarrow> [] | Some h \<Rightarrow> trim (hd (split_on CHR '','' h)))
      in if h \<noteq> [] then h else req_url_host req)"

definition to_upper :: "string \<Rightarrow> string" where
  "to_upper x = map upper_char x"

definition origin_mismatch :: "(string \<Rightarrow> string option) \<Rightarrow> request \<Rightarrow> bool" where
  "origin_mismatch url_host req \<longleftrightarrow>
     to_upper (req_method req) \<in> {''POST'', ''PUT'', ''DELETE'', ''PATCH''} \<and>
     (case or_null (req_headers req ''origin'') of
        None \<Rightarrow> False
      | Some origin \<Rightarrow>
          (let originHost = (case url_host origin of None \<Rightarrow> [] | Some h \<Rightarrow> h); requestHost = request_host req
           in originHost \<noteq> [] \<and> requestHost \<noteq> [] \<and> originHost \<noteq> requestHost))"

definition public_path :: "string \<Rightarrow> bool" where
  "public_path p \<longleftrightarrow> p = ''/login'' \<or> starts_with ''/api/auth/'' p \<or> p = ''/api/docs'' \<or> p = ''/docs''"

definition api_key_ok :: "world \<Rightarrow> request \<Rightarrow> bool" where
  "api_key_ok w req =
     (case or_null (req_headers req ''x-api-key'') of
        None \<Rightarrow> False
      | Some key \<Rightarrow> safeCompare key (or_else (getenv w ''API_KEY'') []))"

definition proxy :: "(request \<Rightarrow> string \<Rightarrow> string option) \<Rightarrow> (string \<Rightarrow> string option) \<Rightarrow> world \<Rightarrow> request \<Rightarrow> proxy_answer" where
  "proxy cookie url_host w req =
     (if \<not> host_allowed w req then Forbidden_text
      else if origin_mismatch url_host req then Json_answer (error_response 403 ''CSRF origin mismatch'')
      else if public_path (req_path req) then Continue_with security_headers
      else
        (let sessionToken = or_null (cookie req ''mc-session'') in
         if starts_with ''/api/'' (req_path req)
         then (if sessionToken \<noteq> None \<or> api_key_ok w req then Continue_with security_headers
               else Json_answer (error_response 401 ''Unauthorized''))
         else if sessionToken \<noteq> None then Continue_with security_headers
         else Redirect_to ''/login''))"

section \<open>What gets through\<close>

text \<open>
  A listed host, a name below a listed domain, or a name with a listed prefix (a pattern that
  begins with \<open>*.\<close> is only read as a domain).
\<close>

definition host_listed :: "string \<Rightarrow> string \<Rightarrow> bool" where
  "host_listed p h \<longleftrightarrow> h \<noteq> [] \<and> (h = p \<or> (\<exists>domain sub. p = ''*.'' @ domain \<and> h = sub @ ''.'' @ domain) \<or>
     (\<exists>prefix rest. p = prefix @ ''.*'' \<and> (\<nexists>domain. p = ''*.'' @ domain) \<and> h = prefix @ ''.'' @ rest))"

lemma starts_with_iff: "starts_with p s \<longleftrightarrow> (\<exists>t. s = p @ t)"
  by (auto dest: starts_withD)

lemma ends_with_iff: "ends_with p s \<longleftrightarrow> (\<exists>t. s = t @ p)"
  by (auto dest: ends_withD)

lemma hostMatches_listed:
  "hostMatches pattern hostname \<longleftrightarrow> host_listed (to_lower (trim pattern)) (to_lower (trim hostname))"
proof -
  let ?p = "to_lower (trim pattern)" and ?h = "to_lower (trim hostname)"
  consider (none) "?p = [] \<or> ?h = []"
    | (domain) d where "?p = ''*.'' @ d" "?h \<noteq> []"
    | (prefix) q where "?p = q @ ''.*''" "\<nexists>d. ?p = ''*.'' @ d" "?h \<noteq> []"
    | (same) "?p \<noteq> []" "?h \<noteq> []" "\<nexists>d. ?p = ''*.'' @ d" "\<nexists>q. ?p = q @ ''.*''"
    by blast
  then show ?thesis
  proof cases
    case none
    then show ?thesis by (auto simp: hostMatches_def host_listed_def)
  next
    case domain
    then have "hostMatches pattern hostname \<longleftrightarrow> ends_with (''.'' @ d) ?h"
      by (simp add: hostMatches_def Let_def starts_with_def)
    also have "\<dots> \<longleftrightarrow> (\<exists>sub. ?h = sub @ ''.'' @ d)" by (auto simp: ends_with_iff)
    finally show ?thesis using domain by (auto simp: host_listed_def)
  next
    case prefix
    then have "\<not> starts_with ''*.'' ?p" by (auto dest: starts_withD)
    then have "hostMatches pattern hostname \<longleftrightarrow> starts_with (q @ ''.'') ?h"
      using prefix by (simp add: hostMatches_def Let_def ends_with_iff butlast_append)
    also have "\<dots> \<longleftrightarrow> (\<exists>rest. ?h = q @ ''.'' @ rest)" by (auto simp: starts_with_iff)
    finally show ?thesis using prefix by (auto simp: host_listed_def)
  next
    case same
    then have "\<not> starts_with ''*.'' ?p" "\<not> ends_with ''.*'' ?p" by (auto dest: starts_withD simp: ends_with_iff)
    then show ?thesis using same by (auto simp: hostMatches_def host_listed_def Let_def)
  qed
qed

text \<open>What lets a request pass, written out over the environment and the headers.\<close>

definition host_accepted :: "world \<Rightarrow> request \<Rightarrow> bool" where
  "host_accepted w req \<longleftrightarrow>
     (\<exists>raw. getenv w ''MC_ALLOW_ANY_HOST'' = Some raw \<and> to_lower (trim raw) \<in> {''1'', ''true'', ''yes'', ''on''}) \<or>
     getenv w ''NODE_ENV'' \<noteq> Some ''production'' \<or>
     (\<exists>p \<in> set (allowed_patterns w). host_listed (to_lower (trim p)) (to_lower (trim (getRequestHostname req))))"

definition foreign_origin :: "(string \<Rightarrow> string option) \<Rightarrow> request \<Rightarrow> bool" where
  "foreign_origin url_host req \<longleftrightarrow>
     to_upper (req_method req) \<in> {''POST'', ''PUT'', ''DELETE'', ''PATCH''} \<and>
     (\<exists>origin h. req_headers req ''origin'' = Some origin \<and> origin \<noteq> [] \<and> url_host origin = Some h \<and> h \<noteq> [] \<and>
        request_host req \<noteq> [] \<and> h \<noteq> request_host req)"

definition credential_shown :: "(request \<Rightarrow> string \<Rightarrow> string option) \<Rightarrow> world \<Rightarrow> request \<Rightarrow> bool" where
  "credential_shown cookie w req \<longleftrightarrow>
     (\<exists>t. cookie req ''mc-session'' = Some t \<and> t \<noteq> []) \<or>
     (starts_with ''/api/'' (req_path req) \<and>
      (\<exists>key. key \<noteq> [] \<and> req_headers req ''x-api-key'' = Some key \<and> getenv w ''API_KEY'' = Some key))"

lemma host_allowed_iff: "host_allowed w req \<longleftrightarrow> host_accepted w req"
  by (auto simp: host_allowed_def host_accepted_def proxy_envFlag_def hostMatches_listed split: option.splits)

lemma origin_mismatch_iff: "origin_mismatch url_host req \<longleftrightarrow> foreign_origin url_host req"
  by (auto simp: origin_mismatch_def foreign_origin_def or_null_def Let_def split: option.splits)

lemma api_key_ok_iff:
  "api_key_ok w req \<longleftrightarrow> (\<exists>key. key \<noteq> [] \<and> req_headers req ''x-api-key'' = Some key \<and> getenv w ''API_KEY'' = Some key)"
  by (auto simp: api_key_ok_def or_null_def or_else_def split: option.splits)

text \<open>
  C13. The gate, exactly. A request gets past \<open>proxy\<close> if and only if its host is accepted (outside
  production or under \<open>MC_ALLOW_ANY_HOST\<close> any host, otherwise one that is listed as it is, below a
  listed domain or with a listed prefix), it does not change something under a foreign origin, and its
  path is public or it shows a session cookie or, for an API path, the configured non-empty API key.
  A refused host gets the 403 text, a foreign origin the 403 answer, a missing credential the 401
  answer on an API path and the redirection to the login page elsewhere, checked in this order.
\<close>

theorem proxy_gate:
  "(proxy cookie url_host w req = Continue_with security_headers \<longleftrightarrow>
      host_accepted w req \<and> \<not> foreign_origin url_host req \<and>
      (req_path req \<in> {''/login'', ''/api/docs'', ''/docs''} \<or> starts_with ''/api/auth/'' (req_path req) \<or>
       credential_shown cookie w req)) \<and>
   (\<forall>hs. proxy cookie url_host w req = Continue_with hs \<longrightarrow> hs = security_headers) \<and>
   (proxy cookie url_host w req = Forbidden_text \<longleftrightarrow> \<not> host_accepted w req) \<and>
   (\<forall>r. proxy cookie url_host w req = Json_answer r \<longleftrightarrow> host_accepted w req \<and>
      (if foreign_origin url_host req then r = error_response 403 ''CSRF origin mismatch''
       else starts_with ''/api/'' (req_path req) \<and> \<not> credential_shown cookie w req \<and>
         req_path req \<noteq> ''/api/docs'' \<and> \<not> starts_with ''/api/auth/'' (req_path req) \<and>
         r = error_response 401 ''Unauthorized'')) \<and>
   (\<forall>p. proxy cookie url_host w req = Redirect_to p \<longrightarrow> p = ''/login'' \<and> \<not> starts_with ''/api/'' (req_path req))"
proof -
  have path: "req_path req \<noteq> ''/login''" "req_path req \<noteq> ''/docs''" if "starts_with ''/api/'' (req_path req)"
    using that by (auto simp: starts_with_def)
  have cred: "credential_shown cookie w req \<longleftrightarrow>
      or_null (cookie req ''mc-session'') \<noteq> None \<or> (starts_with ''/api/'' (req_path req) \<and> api_key_ok w req)"
    by (auto simp: credential_shown_def api_key_ok_iff or_null_def split: option.splits)
  show ?thesis
    using path unfolding proxy_def Let_def host_allowed_iff origin_mismatch_iff public_path_def cred
    by (auto split: if_split)
qed

definition demo_production :: world where
  "demo_production = demo_world\<lparr>getenv := [''NODE_ENV'' \<mapsto> ''production'', ''MC_ALLOWED_HOSTS'' \<mapsto> ''mc.local, *.corp.example'',
     ''API_KEY'' \<mapsto> ''demo-key'']\<rparr>"

definition demo_browser :: request where
  "demo_browser = demo_request\<lparr>req_headers := [''host'' \<mapsto> ''a.corp.example:3000'', ''x-api-key'' \<mapsto> ''demo-key'',
     ''origin'' \<mapsto> ''https://evil.example'']\<rparr>"

text \<open>An allowed host and a good API key, but a foreign origin: refused, and let through without the origin.\<close>

theorem proxy_gate_witness:
  "proxy (\<lambda>req n. None) (\<lambda>u. Some (drop 8 u)) demo_production demo_browser \<noteq> Continue_with security_headers \<and>
   proxy (\<lambda>req n. None) (\<lambda>u. Some (drop 8 u)) demo_production
       (demo_browser\<lparr>req_headers := (req_headers demo_browser)(''origin'' := None)\<rparr>) = Continue_with security_headers"
proof -
  have "foreign_origin (\<lambda>u. Some (drop 8 u)) demo_browser"
    by (simp add: foreign_origin_def demo_browser_def demo_request_def request_host_def to_upper_def upper_char_def) code_simp
  then have 1: "proxy (\<lambda>req n. None) (\<lambda>u. Some (drop 8 u)) demo_production demo_browser \<noteq> Continue_with security_headers"
    using proxy_gate [where cookie = "\<lambda>req n. None" and url_host = "\<lambda>u. Some (drop 8 u)" and w = demo_production and req = demo_browser]
    by blast
  have 2: "proxy (\<lambda>req n. None) (\<lambda>u. Some (drop 8 u)) demo_production
       (demo_browser\<lparr>req_headers := (req_headers demo_browser)(''origin'' := None)\<rparr>) = Continue_with security_headers"
    by code_simp
  from 1 2 show ?thesis by simp
qed

end
