(* ===== verification/MC_AuthRoutes.thy ===== *)
theory MC_AuthRoutes
  imports MC_Http
begin

text \<open>
  Logging in and out, the own profile, the administration of users and access requests: the routes
  under \<open>src/app/api/auth\<close> and \<open>src/lib/google-auth.ts\<close>. \<open>scrypt\<close>, random bytes and the answer of
  Google's \<open>tokeninfo\<close> endpoint are arguments. Body properties of a type that the routes do not expect
  are outside the model unless a definition says otherwise.
\<close>

section \<open>Shared by the routes\<close>

definition public_user_fields :: "user \<Rightarrow> (string \<times> json) list" where
  "public_user_fields u = [(''id'', JNum (usr_id u)), (''username'', JStr (usr_username u)),
     (''display_name'', JStr (usr_display_name u)), (''role'', JStr (usr_role u)),
     (''provider'', JStr (or_else (usr_provider u) ''local'')), (''email'', jnull JStr (or_null (usr_email u))),
     (''avatar_url'', jnull JStr (or_null (usr_avatar_url u)))]"

definition public_user :: "user \<Rightarrow> json" where
  "public_user u = JObj (public_user_fields u @ [(''workspace_id'', JNum (usr_workspace_id u))])"

definition admin_user :: "user \<Rightarrow> json" where
  "admin_user u = JObj (public_user_fields u @
     [(''is_approved'', JNum (case usr_is_approved u of None \<Rightarrow> 1 | Some n \<Rightarrow> n)), (''workspace_id'', JNum (usr_workspace_id u))])"

text \<open>\<open>if (!user || user.role !== 'admin')\<close> in front of the administration routes.\<close>

definition admin_only :: "world \<Rightarrow> request \<Rightarrow> server \<Rightarrow> (user \<Rightarrow> outcome) \<Rightarrow> outcome" where
  "admin_only w req s k =
     (case getUserFromRequest w req s of
        Inl e \<Rightarrow> (Inl e, s)
      | Inr None \<Rightarrow> (Inr (error_response 403 ''Admin access required''), s)
      | Inr (Some u) \<Rightarrow> if usr_role u \<noteq> ''admin'' then (Inr (error_response 403 ''Admin access required''), s) else k u)"

definition session_cookie :: "world \<Rightarrow> request \<Rightarrow> string \<Rightarrow> int \<Rightarrow> string \<times> cookie_options" where
  "session_cookie w req token expiresAt =
     (token, getMcSessionCookieOptions w (expiresAt - now_s w)
        (Some (req_headers req ''x-forwarded-proto'' = Some ''https'' \<or> req_https req)))"

section \<open>Login and logout\<close>

definition login ::
  "(string \<Rightarrow> string \<Rightarrow> string) \<Rightarrow> string \<Rightarrow> world \<Rightarrow> request \<Rightarrow> string \<Rightarrow> string \<Rightarrow> server \<Rightarrow> outcome"
where
  "login scrypt rand w req name password s =
     (let ip = client_ip req; ua = or_null (req_headers req ''user-agent'') in
      case authenticateUser scrypt name password s of
        None \<Rightarrow> (Inr (error_response 401 ''Invalid credentials''),
          logAuditEvent w ((audit_event0 ''login_failed'' name)\<lparr>ae_ip_address := Some ip, ae_user_agent := ua\<rparr>) s)
      | Some u \<Rightarrow>
          (case createSession w rand (usr_id u) (Some ip) ua (Some (usr_workspace_id u)) s of
             (Inl e, s1) \<Rightarrow> (Inr (error_response 500 ''Internal server error''), s1)
           | (Inr (token, expiresAt), s1) \<Rightarrow>
               (Inr ((json_response 200 (JObj [(''user'', public_user u)]))\<lparr>set_session := Some (session_cookie w req token expiresAt)\<rparr>),
                logAuditEvent w ((audit_event0 ''login'' (usr_username u))\<lparr>ae_actor_id := Some (usr_id u),
                  ae_ip_address := Some ip, ae_user_agent := ua\<rparr>) s1)))"

definition login_POST :: "(string \<Rightarrow> string \<Rightarrow> string) \<Rightarrow> string \<Rightarrow> world \<Rightarrow> request \<Rightarrow> server \<Rightarrow> outcome" where
  "login_POST scrypt rand w req s = with_login_limit w req s (\<lambda>s.
     case req_body req of
       None \<Rightarrow> (Inr (error_response 500 ''Internal server error''), s)
     | Some JNull \<Rightarrow> (Inr (error_response 500 ''Internal server error''), s)
     | Some b \<Rightarrow>
         (case (or_null (str_field ''username'' b), or_null (str_field ''password'' b)) of
            (Some name, Some password) \<Rightarrow> login scrypt rand w req name password s
          | _ \<Rightarrow> (Inr (error_response 400 ''Username and password are required''), s)))"

definition logout_POST :: "world \<Rightarrow> request \<Rightarrow> server \<Rightarrow> outcome" where
  "logout_POST w req s =
     (case getUserFromRequest w req s of
        Inl e \<Rightarrow> (Inl e, s)
      | Inr who \<Rightarrow>
          (case parseCookie (or_else (req_headers req ''cookie'') []) ''mc-session'' of
             Inl e \<Rightarrow> (Inl e, s)
           | Inr token \<Rightarrow>
               (let s1 = (case or_null token of None \<Rightarrow> s | Some t \<Rightarrow> destroySession t s);
                    s2 = (case who of None \<Rightarrow> s1
                          | Some u \<Rightarrow> logAuditEvent w ((audit_event0 ''logout'' (usr_username u))\<lparr>ae_actor_id := Some (usr_id u),
                              ae_ip_address := Some (client_ip req)\<rparr>) s1)
                in (Inr ((json_response 200 (JObj [(''ok'', JBool True)]))
                      \<lparr>set_session := Some ([], getMcSessionCookieOptions w 0 None)\<rparr>), s2))))"

section \<open>The own profile\<close>

definition me_GET :: "world \<Rightarrow> request \<Rightarrow> server \<Rightarrow> outcome" where
  "me_GET w req s = with_role w req ''viewer'' s (\<lambda>u. (Inr (json_response 200 (JObj [(''user'', public_user u)])), s))"

text \<open>The change of the password: the error that is returned, or the new password when one is given.\<close>

definition password_change ::
  "(string \<Rightarrow> string \<Rightarrow> string) \<Rightarrow> user \<Rightarrow> json \<Rightarrow> server \<Rightarrow> response + string option"
where
  "password_change scrypt u b s =
     (case or_null (str_field ''new_password'' b) of
        None \<Rightarrow> Inr None
      | Some new \<Rightarrow>
          (case or_null (str_field ''current_password'' b) of
             None \<Rightarrow> Inl (error_response 400 ''Current password is required'')
           | Some current \<Rightarrow>
               if length new < 8 then Inl (error_response 400 ''New password must be at least 8 characters'')
               else case tbl_get u_id (users (db s)) (usr_id u) of
                 None \<Rightarrow> Inl (error_response 403 ''Current password is incorrect'')
               | Some row \<Rightarrow>
                   if \<not> verifyPassword scrypt current (u_password_hash row)
                   then Inl (error_response 403 ''Current password is incorrect'')
                   else Inr (Some new)))"

text \<open>The change of the name; a value that is not a string has no \<open>trim\<close>, which throws.\<close>

definition name_change :: "json \<Rightarrow> response + string option" where
  "name_change b =
     (case jget ''display_name'' b of
        None \<Rightarrow> Inr None
      | Some (JStr x) \<Rightarrow> if trim x = [] then Inl (error_response 400 ''Display name cannot be empty'') else Inr (Some (trim x))
      | Some _ \<Rightarrow> Inl (error_response 500 ''Failed to update profile''))"

definition apply_profile ::
  "(string \<Rightarrow> string \<Rightarrow> string) \<Rightarrow> string \<Rightarrow> world \<Rightarrow> request \<Rightarrow> user \<Rightarrow> string option \<Rightarrow> string option \<Rightarrow> server \<Rightarrow> outcome"
where
  "apply_profile scrypt rand w req u pw dn s =
     (let up = \<lparr>up_display_name = dn, up_role = None, up_password = pw, up_email = None, up_avatar_url = None, up_is_approved = None\<rparr>
      in if no_user_updates up then (Inr (error_response 400 ''No updates provided''), s)
         else case updateUser w scrypt rand (usr_id u) up s of
           (None, s1) \<Rightarrow> (Inr (error_response 404 ''User not found''), s1)
         | (Some updated, s1) \<Rightarrow>
             (let s2 = (if pw = None then s1
                        else logAuditEvent w ((audit_event0 ''password_change'' (usr_username u))\<lparr>ae_actor_id := Some (usr_id u),
                          ae_ip_address := Some (client_ip req)\<rparr>) s1);
                  s3 = (case dn of None \<Rightarrow> s2
                        | Some n \<Rightarrow> logAuditEvent w ((audit_event0 ''profile_update'' (usr_username u))\<lparr>ae_actor_id := Some (usr_id u),
                            ae_detail := Some (JObj [(''display_name'', JStr n)]), ae_ip_address := Some (client_ip req)\<rparr>) s2)
              in (Inr (json_response 200 (JObj [(''success'', JBool True), (''user'', public_user updated)])), s3)))"

definition me_PATCH :: "(string \<Rightarrow> string \<Rightarrow> string) \<Rightarrow> string \<Rightarrow> world \<Rightarrow> request \<Rightarrow> server \<Rightarrow> outcome" where
  "me_PATCH scrypt rand w req s =
     (case getUserFromRequest w req s of
        Inl e \<Rightarrow> (Inl e, s)
      | Inr None \<Rightarrow> (Inr (error_response 401 ''Not authenticated''), s)
      | Inr (Some u) \<Rightarrow>
          if usr_id u = 0 then (Inr (error_response 403 ''API key users cannot change passwords''), s)
          else case req_body req of
            None \<Rightarrow> (Inr (error_response 500 ''Failed to update profile''), s)
          | Some JNull \<Rightarrow> (Inr (error_response 500 ''Failed to update profile''), s)
          | Some b \<Rightarrow>
              (case password_change scrypt u b s of
                 Inl r \<Rightarrow> (Inr r, s)
               | Inr pw \<Rightarrow>
                   (case name_change b of
                      Inl r \<Rightarrow> (Inr r, s)
                    | Inr dn \<Rightarrow> apply_profile scrypt rand w req u pw dn s)))"

section \<open>Administration of users\<close>

definition listed_user :: "user \<Rightarrow> json" where
  "listed_user u = JObj [(''id'', JNum (usr_id u)), (''username'', JStr (usr_username u)),
     (''display_name'', JStr (usr_display_name u)), (''role'', JStr (usr_role u)), (''workspace_id'', JNum (usr_workspace_id u)),
     (''provider'', jnull JStr (usr_provider u)), (''email'', jnull JStr (usr_email u)),
     (''avatar_url'', jnull JStr (usr_avatar_url u)), (''is_approved'', jnull JNum (usr_is_approved u)),
     (''created_at'', JNum (usr_created_at u)), (''updated_at'', JNum (usr_updated_at u)),
     (''last_login_at'', jnull JNum (usr_last_login_at u))]"

definition users_GET :: "world \<Rightarrow> request \<Rightarrow> server \<Rightarrow> outcome" where
  "users_GET w req s = with_role w req ''viewer'' s (\<lambda>u.
     if usr_role u \<noteq> ''admin'' then (Inr (error_response 403 ''Admin access required''), s)
     else (Inr (json_response 200 (JObj [(''users'', JArr (map listed_user
             (filter (\<lambda>x. usr_workspace_id x = usr_workspace_id u) (getAllUsers w s))))])), s))"

record user_input =
  ui_username :: string
  ui_password :: string
  ui_display_name :: "string option"
  ui_role :: string
  ui_provider :: string
  ui_email :: "string option"

definition create_user ::
  "(string \<Rightarrow> string \<Rightarrow> string) \<Rightarrow> string \<Rightarrow> world \<Rightarrow> request \<Rightarrow> user \<Rightarrow> user_input \<Rightarrow> server \<Rightarrow> outcome"
where
  "create_user scrypt rand w req u b s =
     (case createUser w scrypt rand (ui_username b) (ui_password b) (or_else (ui_display_name b) (ui_username b)) (ui_role b)
             \<lparr>co_provider = Some (ui_provider b), co_provider_user_id = None, co_email = or_null (ui_email b),
              co_avatar_url = None, co_is_approved = None, co_approved_by = None, co_approved_at = None,
              co_workspace_id = Some (usr_workspace_id u)\<rparr> s of
        (Inl e, s1) \<Rightarrow>
          if includes_str ''UNIQUE constraint failed'' e then (Inr (error_response 409 ''Username already exists''), s1)
          else (Inr (error_response 500 ''Failed to create user''), s1)
      | (Inr new, s1) \<Rightarrow>
          (Inr (json_response 201 (JObj [(''user'', admin_user new)])),
           logAuditEvent w ((audit_event0 ''user_create'' (usr_username u))\<lparr>ae_actor_id := Some (usr_id u),
             ae_target_type := Some ''user'', ae_target_id := Some (usr_id new),
             ae_detail := Some (JObj ([(''username'', JStr (ui_username b)), (''role'', JStr (ui_role b)),
               (''provider'', JStr (ui_provider b))] @ jopt ''email'' JStr (ui_email b))),
             ae_ip_address := Some (client_ip req)\<rparr>) s1))"

definition users_POST ::
  "user_input schema \<Rightarrow> (string \<Rightarrow> string \<Rightarrow> string) \<Rightarrow> string \<Rightarrow> world \<Rightarrow> request \<Rightarrow> server \<Rightarrow> outcome"
where
  "users_POST parse scrypt rand w req s = admin_only w req s (\<lambda>u. with_mutation_limit w req s (\<lambda>s.
     with_body parse req s (\<lambda>b. create_user scrypt rand w req u b s)))"

text \<open>\<open>parseInt(String(id))\<close> for the numbers and strings an id may be.\<close>

definition id_of :: "json \<Rightarrow> int option" where
  "id_of v = (case v of JNum n \<Rightarrow> Some n | JStr x \<Rightarrow> parse_int x | _ \<Rightarrow> None)"

text \<open>
  The updates that \<open>PUT\<close> hands to \<open>updateUser\<close>, \<open>None\<close> when the statement fails: \<open>null\<close> in a
  column that must not be null, or a value that cannot be bound. Numbers in text columns are outside the model.
\<close>

definition text_value :: "string \<Rightarrow> json \<Rightarrow> string option option" where
  "text_value k b = (case jget k b of None \<Rightarrow> Some None | Some (JStr x) \<Rightarrow> Some (Some x) | Some _ \<Rightarrow> None)"

definition nullable_text :: "string \<Rightarrow> json \<Rightarrow> string option option option" where
  "nullable_text k b = (case jget k b of None \<Rightarrow> Some None | Some JNull \<Rightarrow> Some (Some None)
     | Some (JStr x) \<Rightarrow> Some (Some (Some x)) | Some _ \<Rightarrow> None)"

definition num_value :: "string \<Rightarrow> json \<Rightarrow> int option option" where
  "num_value k b = (case jget k b of None \<Rightarrow> Some None | Some (JNum n) \<Rightarrow> Some (Some n) | Some _ \<Rightarrow> None)"

definition user_updates_of :: "json \<Rightarrow> user_updates option" where
  "user_updates_of b =
     (case (text_value ''display_name'' b, text_value ''role'' b, nullable_text ''email'' b, nullable_text ''avatar_url'' b,
            num_value ''is_approved'' b) of
        (Some dn, Some rl, Some em, Some av, Some ap) \<Rightarrow>
          Some \<lparr>up_display_name = dn, up_role = rl, up_password = or_null (str_field ''password'' b), up_email = em,
                up_avatar_url = av, up_is_approved = ap\<rparr>
      | _ \<Rightarrow> None)"

definition truthy_field :: "string \<Rightarrow> json \<Rightarrow> json option" where
  "truthy_field k b = (case jget k b of None \<Rightarrow> None | Some v \<Rightarrow> if truthy v then Some v else None)"

definition change_user ::
  "(string \<Rightarrow> string \<Rightarrow> string) \<Rightarrow> string \<Rightarrow> world \<Rightarrow> request \<Rightarrow> user \<Rightarrow> json \<Rightarrow> server \<Rightarrow> outcome"
where
  "change_user scrypt rand w req u b s =
     (case Option.bind (truthy_field ''id'' b) id_of of
        None \<Rightarrow> (Inr (error_response 400 ''User ID is required''), s)
      | Some userId \<Rightarrow>
          (let newRole = truthy_field ''role'' b in
           if newRole \<notin> {None, Some (JStr ''admin''), Some (JStr ''operator''), Some (JStr ''viewer'')}
           then (Inr (error_response 400 ''Invalid role''), s)
           else if userId = usr_id u \<and> newRole \<noteq> None \<and> newRole \<noteq> Some (JStr (usr_role u))
           then (Inr (error_response 400 ''Cannot change your own role''), s)
           else case getUserById userId s of
             None \<Rightarrow> (Inr (error_response 404 ''User not found''), s)
           | Some x \<Rightarrow>
               if usr_workspace_id x \<noteq> usr_workspace_id u then (Inr (error_response 404 ''User not found''), s)
               else case user_updates_of b of
                 None \<Rightarrow> (Inr (error_response 500 ''Failed to update user''), s)
               | Some up \<Rightarrow>
                   (case updateUser w scrypt rand userId up s of
                      (None, s1) \<Rightarrow> (Inr (error_response 404 ''User not found''), s1)
                    | (Some updated, s1) \<Rightarrow>
                        (Inr (json_response 200 (JObj [(''user'', admin_user updated)])),
                         logAuditEvent w ((audit_event0 ''user_update'' (usr_username u))\<lparr>ae_actor_id := Some (usr_id u),
                           ae_target_type := Some ''user'', ae_target_id := Some userId,
                           ae_detail := Some (JObj (jopt ''display_name'' JStr (up_display_name up) @
                             jopt ''role'' JStr (up_role up) @ [(''password_changed'', JBool (up_password up \<noteq> None))] @
                             jopt ''is_approved'' JNum (up_is_approved up))),
                           ae_ip_address := Some (client_ip req)\<rparr>) s1))))"

definition users_PUT :: "(string \<Rightarrow> string \<Rightarrow> string) \<Rightarrow> string \<Rightarrow> world \<Rightarrow> request \<Rightarrow> server \<Rightarrow> outcome" where
  "users_PUT scrypt rand w req s = admin_only w req s (\<lambda>u.
     case req_body req of
       None \<Rightarrow> (Inr (error_response 500 ''Failed to update user''), s)
     | Some JNull \<Rightarrow> (Inr (error_response 500 ''Failed to update user''), s)
     | Some b \<Rightarrow> change_user scrypt rand w req u b s)"

definition remove_user :: "world \<Rightarrow> request \<Rightarrow> user \<Rightarrow> int option \<Rightarrow> server \<Rightarrow> outcome" where
  "remove_user w req u userId s =
     (if userId = Some (usr_id u) then (Inr (error_response 400 ''Cannot delete your own account''), s)
      else case Option.bind userId (\<lambda>i. getUserById i s) of
        None \<Rightarrow> (Inr (error_response 404 ''User not found''), s)
      | Some x \<Rightarrow>
          if usr_workspace_id x \<noteq> usr_workspace_id u then (Inr (error_response 404 ''User not found''), s)
          else (case deleteUser (usr_id x) s of
                  (False, s1) \<Rightarrow> (Inr (error_response 404 ''User not found''), s1)
                | (True, s1) \<Rightarrow> (Inr (json_response 200 (JObj [(''success'', JBool True)])),
                    logAuditEvent w ((audit_event0 ''user_delete'' (usr_username u))\<lparr>ae_actor_id := Some (usr_id u),
                      ae_target_type := Some ''user'', ae_target_id := Some (usr_id x), ae_ip_address := Some (client_ip req)\<rparr>) s1)))"

definition users_DELETE :: "world \<Rightarrow> request \<Rightarrow> server \<Rightarrow> outcome" where
  "users_DELETE w req s = admin_only w req s (\<lambda>u.
     case req_body req of
       None \<Rightarrow> (Inr (error_response 400 ''Request body required''), s)
     | Some JNull \<Rightarrow> (Inl ''Cannot read properties of null'', s)
     | Some b \<Rightarrow>
         (case truthy_field ''id'' b of
            None \<Rightarrow> (Inr (error_response 400 ''User ID is required''), s)
          | Some v \<Rightarrow> remove_user w req u (id_of v) s))"

section \<open>Access requests\<close>

definition makeUsernameFromEmail :: "string \<Rightarrow> string" where
  "makeUsernameFromEmail email =
     (let allowed = (\<lambda>c. let n = of_char (lower_char c) :: nat in
             97 \<le> n \<and> n \<le> 122 \<or> is_digit c \<or> c = CHR ''.'' \<or> c = CHR ''_'' \<or> c = CHR ''-'');
          base = to_lower (filter allowed (hd (split_on CHR ''@'' email)))
      in take 28 (if base = [] then ''user'' else base))"

text \<open>The loop of \<open>ensureUniqueUsername\<close>; \<open>None\<close> would be that it never ends.\<close>

definition username_taken :: "server \<Rightarrow> string \<Rightarrow> bool" where
  "username_taken s name \<longleftrightarrow> (\<exists>u \<in> set (rows (users (db s))). u_username u = name)"

definition numbered_name :: "string \<Rightarrow> nat \<Rightarrow> string" where
  "numbered_name base i = take 24 base @ ''-'' @ show_nat i"

partial_function (option) unique_from :: "server \<Rightarrow> string \<Rightarrow> nat \<Rightarrow> string \<Rightarrow> string option" where
  "unique_from s base i candidate =
     (if username_taken s candidate then unique_from s base (i + 1) (numbered_name base (i + 1)) else Some candidate)"

definition ensureUniqueUsername :: "string \<Rightarrow> server \<Rightarrow> string option" where
  "ensureUniqueUsername base s = unique_from s base 0 base"

definition access_request_json :: "access_request_row \<Rightarrow> json" where
  "access_request_json r = JObj [(''id'', JNum (ar_id r)), (''provider'', JStr (ar_provider r)), (''email'', JStr (ar_email r)),
     (''provider_user_id'', jnull JStr (ar_provider_user_id r)), (''display_name'', jnull JStr (ar_display_name r)),
     (''avatar_url'', jnull JStr (ar_avatar_url r)), (''status'', JStr (ar_status r)), (''requested_at'', JNum (ar_requested_at r)),
     (''last_attempt_at'', JNum (ar_last_attempt_at r)), (''attempt_count'', JNum (ar_attempt_count r)),
     (''reviewed_by'', jnull JStr (ar_reviewed_by r)), (''reviewed_at'', jnull JNum (ar_reviewed_at r)),
     (''review_note'', jnull JStr (ar_review_note r)), (''approved_user_id'', jnull JNum (ar_approved_user_id r))]"

definition access_requests_GET :: "world \<Rightarrow> request \<Rightarrow> server \<Rightarrow> outcome" where
  "access_requests_GET w req s = with_role w req ''viewer'' s (\<lambda>u.
     if usr_role u \<noteq> ''admin'' then (Inr (error_response 403 ''Admin access required''), s)
     else (let status = or_else (req_query req ''status'') ''all'';
               by_attempt = (\<lambda>p. order_by_desc2 scan_order ar_last_attempt_at ar_id (tbl_select p (access_requests (db s))));
               found = (if status = ''all''
                        then by_attempt (\<lambda>r. ar_status r = ''pending'') @ by_attempt (\<lambda>r. ar_status r \<noteq> ''pending'')
                        else by_attempt (\<lambda>r. ar_status r = status))
           in (Inr (json_response 200 (JObj [(''requests'', JArr (map access_request_json found))])), s)))"

record request_action =
  ra_request_id :: int
  ra_approve :: bool
  ra_role :: string
  ra_note :: "string option"

definition update_access_request :: "int \<Rightarrow> (access_request_row \<Rightarrow> access_request_row) \<Rightarrow> server \<Rightarrow> server" where
  "update_access_request i f s = s\<lparr>db := (db s)\<lparr>access_requests := tbl_update (\<lambda>r. ar_id r = i) f (access_requests (db s))\<rparr>\<rparr>"

text \<open>\<open>WHERE lower(email) = ? OR (provider = 'google' AND provider_user_id = ?) ORDER BY id ASC LIMIT 1\<close>\<close>

definition google_account :: "string \<Rightarrow> string \<Rightarrow> server \<Rightarrow> user_row option" where
  "google_account email sub s =
     (case sort_key u_id (tbl_select (\<lambda>u. map_option to_lower (u_email u) = Some email \<or>
             (u_provider u = Some ''google'' \<and> u_provider_user_id u = Some sub)) (users (db s))) of
        [] \<Rightarrow> None | u # _ \<Rightarrow> Some u)"

definition approved_user_id ::
  "(string \<Rightarrow> string \<Rightarrow> string) \<Rightarrow> string \<Rightarrow> string \<Rightarrow> world \<Rightarrow> user \<Rightarrow> request_action \<Rightarrow> access_request_row \<Rightarrow> server
   \<Rightarrow> (string + int) \<times> server"
where
  "approved_user_id scrypt salt pwd w admin a r s =
     (let email = to_lower (ar_email r); sub = or_null (ar_provider_user_id r); avatar = or_null (ar_avatar_url r);
          displayName = or_else (ar_display_name r) (or_else (Some (hd (split_on CHR ''@'' email))) ''Google User'')
      in case google_account email (or_else sub []) s of
           Some x \<Rightarrow>
             (Inr (u_id x), s\<lparr>db := (db s)\<lparr>users := tbl_update (\<lambda>u. u_id u = u_id x)
                (\<lambda>u. u\<lparr>u_provider := Some ''google'', u_provider_user_id := sub, u_email := Some email,
                   u_avatar_url := (case avatar of None \<Rightarrow> u_avatar_url u | Some v \<Rightarrow> Some v), u_is_approved := 1,
                   u_role := ra_role a, u_approved_by := Some (usr_username admin), u_approved_at := Some (now_s w),
                   u_updated_at := now_s w\<rparr>) (users (db s))\<rparr>\<rparr>)
         | None \<Rightarrow>
             (case ensureUniqueUsername (makeUsernameFromEmail email) s of
                None \<Rightarrow> (Inl ''no free username'', s)
              | Some name \<Rightarrow>
                  (case createUser w scrypt salt name (hex_encode pwd) displayName (ra_role a)
                      \<lparr>co_provider = Some ''google'', co_provider_user_id = sub, co_email = Some email, co_avatar_url = avatar,
                       co_is_approved = Some 1, co_approved_by = Some (usr_username admin), co_approved_at = Some (now_s w),
                       co_workspace_id = None\<rparr> s of
                     (Inl e, s1) \<Rightarrow> (Inl e, s1)
                   | (Inr u, s1) \<Rightarrow> (Inr (usr_id u), s1))))"

definition approve_request ::
  "(string \<Rightarrow> string \<Rightarrow> string) \<Rightarrow> string \<Rightarrow> string \<Rightarrow> world \<Rightarrow> user \<Rightarrow> request_action \<Rightarrow> access_request_row \<Rightarrow> server
   \<Rightarrow> (string + user_row option) \<times> server"
where
  "approve_request scrypt salt pwd w admin a r =
     transaction (\<lambda>s. case approved_user_id scrypt salt pwd w admin a r s of
        (Inl e, s1) \<Rightarrow> (Inl e, s1)
      | (Inr uid, s1) \<Rightarrow>
          (let s2 = update_access_request (ra_request_id a) (\<lambda>r. r\<lparr>ar_status := ''approved'',
                 ar_reviewed_by := Some (usr_username admin), ar_reviewed_at := Some (now_s w), ar_review_note := ra_note a,
                 ar_approved_user_id := Some uid\<rparr>) s1
           in (Inr (tbl_get u_id (users (db s2)) uid), s2)))"

definition review_request ::
  "(string \<Rightarrow> string \<Rightarrow> string) \<Rightarrow> string \<Rightarrow> string \<Rightarrow> world \<Rightarrow> user \<Rightarrow> request_action \<Rightarrow> server \<Rightarrow> outcome"
where
  "review_request scrypt salt pwd w admin a s =
     (case tbl_get ar_id (access_requests (db s)) (ra_request_id a) of
        None \<Rightarrow> (Inr (error_response 404 ''Request not found''), s)
      | Some r \<Rightarrow>
          if \<not> ra_approve a
          then (Inr (json_response 200 (JObj [(''ok'', JBool True)])),
                logAuditEvent w ((audit_event0 ''access_request_rejected'' (usr_username admin))\<lparr>ae_actor_id := Some (usr_id admin),
                  ae_detail := Some (JObj ([(''request_id'', JNum (ra_request_id a)), (''email'', JStr (ar_email r))] @
                    jopt ''note'' JStr (ra_note a)))\<rparr>)
                  (update_access_request (ra_request_id a) (\<lambda>r. r\<lparr>ar_status := ''rejected'',
                     ar_reviewed_by := Some (usr_username admin), ar_reviewed_at := Some (now_s w), ar_review_note := ra_note a\<rparr>) s))
          else (case approve_request scrypt salt pwd w admin a r s of
                  (Inl e, s1) \<Rightarrow> (Inl e, s1)
                | (Inr row, s1) \<Rightarrow>
                    (Inr (json_response 200 (JObj ([(''ok'', JBool True)] @ jopt ''user'' (\<lambda>u. JObj [(''id'', JNum (u_id u)),
                        (''username'', JStr (u_username u)), (''display_name'', JStr (u_display_name u)), (''role'', JStr (u_role u)),
                        (''provider'', jnull JStr (u_provider u)), (''email'', jnull JStr (u_email u)),
                        (''avatar_url'', jnull JStr (u_avatar_url u)), (''is_approved'', JNum (u_is_approved u))]) row))),
                     logAuditEvent w ((audit_event0 ''access_request_approved'' (usr_username admin))\<lparr>ae_actor_id := Some (usr_id admin),
                       ae_detail := Some (JObj ([(''request_id'', JNum (ra_request_id a)), (''email'', JStr (to_lower (ar_email r))),
                         (''role'', JStr (ra_role a))] @ jopt ''user_id'' (JNum \<circ> u_id) row @ jopt ''note'' JStr (ra_note a)))\<rparr>) s1)))"

definition access_requests_POST ::
  "request_action schema \<Rightarrow> (string \<Rightarrow> string \<Rightarrow> string) \<Rightarrow> string \<Rightarrow> string \<Rightarrow> world \<Rightarrow> request \<Rightarrow> server \<Rightarrow> outcome"
where
  "access_requests_POST parse scrypt salt pwd w req s = admin_only w req s (\<lambda>u. with_mutation_limit w req s (\<lambda>s.
     with_body parse req s (\<lambda>a. review_request scrypt salt pwd w u a s)))"

section \<open>Login with Google\<close>

text \<open>
  \<open>verifyGoogleIdToken\<close>. \<open>tokeninfo\<close> is what the endpoint answers for a token: a thrown error, or
  whether the status is good and the parsed body.
\<close>

definition verifyGoogleIdToken :: "(string \<Rightarrow> string + bool \<times> json) \<Rightarrow> world \<Rightarrow> string \<Rightarrow> string + json" where
  "verifyGoogleIdToken tokeninfo w idToken =
     (let token = trim idToken in
      if token = [] then Inl ''Missing Google credential''
      else case tokeninfo token of
        Inl e \<Rightarrow> Inl e
      | Inr (ok, payload) \<Rightarrow>
          if \<not> ok then Inl ''Invalid Google token''
          else
            (let audExpected = trim (or_else (getenv w ''GOOGLE_CLIENT_ID'') (or_else (getenv w ''NEXT_PUBLIC_GOOGLE_CLIENT_ID'') []))
             in if audExpected \<noteq> [] \<and> jget ''aud'' payload \<noteq> Some (JStr audExpected) then Inl ''Google token audience mismatch''
                else if truthy_field ''email'' payload = None \<or> truthy_field ''sub'' payload = None
                then Inl ''Google token missing required identity fields''
                else if jget ''email_verified'' payload \<notin> {Some (JBool True), Some (JStr ''true'')}
                then Inl ''Google email is not verified''
                else Inr payload))"

definition upsertAccessRequest :: "world \<Rightarrow> string \<Rightarrow> string \<Rightarrow> string \<Rightarrow> string option \<Rightarrow> server \<Rightarrow> server" where
  "upsertAccessRequest w email sub name avatar s =
     (let e = to_lower email; av = or_null avatar; ars = access_requests (db s);
          clash = (\<lambda>r. ar_email r = e \<and> ar_provider r = ''google'')
      in s\<lparr>db := (db s)\<lparr>access_requests :=
           (if tbl_first clash ars \<noteq> None
            then tbl_update clash (\<lambda>r. r\<lparr>ar_provider_user_id := Some sub, ar_display_name := Some name, ar_avatar_url := av,
                   ar_status := ''pending'', ar_attempt_count := ar_attempt_count r + 1, ar_last_attempt_at := now_s w\<rparr>) ars
            else snd (tbl_insert (\<lambda>i. \<lparr>ar_id = i, ar_provider = ''google'', ar_email = e, ar_provider_user_id = Some sub,
                   ar_display_name = Some name, ar_avatar_url = av, ar_status = ''pending'', ar_requested_at = now_s w,
                   ar_last_attempt_at = now_s w, ar_attempt_count = 1, ar_reviewed_by = None, ar_reviewed_at = None,
                   ar_review_note = None, ar_approved_user_id = None\<rparr>) ars))\<rparr>\<rparr>)"

definition google_login :: "string \<Rightarrow> world \<Rightarrow> request \<Rightarrow> json \<Rightarrow> server \<Rightarrow> outcome" where
  "google_login rand w req profile s =
     (let email = trim (to_lower (or_else (str_field ''email'' profile) []));
          sub = trim (or_else (str_field ''sub'' profile) []);
          displayName = trim (or_else (str_field ''name'' profile) (or_else (Some (hd (split_on CHR ''@'' email))) ''Google User''));
          avatar = or_null (str_field ''picture'' profile);
          ip = client_ip req; ua = or_null (req_headers req ''user-agent'');
          pending = (Inr (json_response 403 (JObj [(''error'', JStr ''Access request pending admin approval''),
                       (''code'', JStr ''PENDING_APPROVAL'')])),
                     logAuditEvent w ((audit_event0 ''google_login_pending_approval'' email)\<lparr>
                       ae_detail := Some (JObj [(''email'', JStr email), (''sub'', JStr sub)]), ae_ip_address := Some ip, ae_user_agent := ua\<rparr>)
                       (upsertAccessRequest w email sub displayName avatar s))
      in case google_account email sub s of
           None \<Rightarrow> pending
         | Some row \<Rightarrow>
             if u_is_approved row \<noteq> 1 then pending
             else
               (let s1 = s\<lparr>db := (db s)\<lparr>users := tbl_update (\<lambda>u. u_id u = u_id row)
                      (\<lambda>u. u\<lparr>u_provider := Some ''google'', u_provider_user_id := Some sub, u_email := Some email,
                         u_avatar_url := (case avatar of None \<Rightarrow> u_avatar_url u | Some v \<Rightarrow> Some v), u_updated_at := now_s w\<rparr>)
                      (users (db s))\<rparr>\<rparr>
                in case createSession w rand (u_id row) (Some ip) ua (Some (u_workspace_id row)) s1 of
                     (Inl e, s2) \<Rightarrow> (Inr (error_response 400 (or_else (Some e) ''Google login failed'')), s2)
                   | (Inr (token, expiresAt), s2) \<Rightarrow>
                       (Inr ((json_response 200 (JObj [(''user'', JObj [(''id'', JNum (u_id row)), (''username'', JStr (u_username row)),
                           (''display_name'', JStr (u_display_name row)), (''role'', JStr (u_role row)), (''provider'', JStr ''google''),
                           (''email'', JStr email), (''avatar_url'', jnull JStr avatar), (''workspace_id'', JNum (u_workspace_id row))])]))
                           \<lparr>set_session := Some (session_cookie w req token expiresAt)\<rparr>),
                        logAuditEvent w ((audit_event0 ''login_google'' (u_username row))\<lparr>ae_actor_id := Some (u_id row),
                          ae_ip_address := Some ip, ae_user_agent := ua\<rparr>) s2)))"

definition google_POST :: "(string \<Rightarrow> string + bool \<times> json) \<Rightarrow> string \<Rightarrow> world \<Rightarrow> request \<Rightarrow> server \<Rightarrow> outcome" where
  "google_POST tokeninfo rand w req s =
     (let b = (case req_body req of None \<Rightarrow> JObj [] | Some b \<Rightarrow> b) in
      case verifyGoogleIdToken tokeninfo w (or_else (str_field ''credential'' b) []) of
        Inl e \<Rightarrow> (Inr (error_response 400 (or_else (Some e) ''Google login failed'')), s)
      | Inr profile \<Rightarrow> google_login rand w req profile s)"

section \<open>Free user names\<close>

lemma numbered_name_inject: "inj (numbered_name base)"
  by (rule injI) (simp add: numbered_name_def)

lemma finite_taken: "finite {j. i < j \<and> username_taken s (numbered_name base j)}"
proof -
  have "finite (numbered_name base -` {x. username_taken s x})"
    by (intro finite_vimageI numbered_name_inject) (simp add: username_taken_def [abs_def] Collect_bex_eq)
  then show ?thesis by (rule finite_subset [rotated]) auto
qed

lemma unique_from_returns:
  "\<exists>c. unique_from s base i candidate = Some c \<and> \<not> username_taken s c \<and>
     (c = candidate \<or> (username_taken s candidate \<and> (\<exists>j > i. c = numbered_name base j \<and>
        (\<forall>k. i < k \<and> k < j \<longrightarrow> username_taken s (numbered_name base k)))))"
proof (induction "card {j. i < j \<and> username_taken s (numbered_name base j)}" arbitrary: i candidate rule: less_induct)
  case less
  let ?next = "numbered_name base (i + 1)"
  let ?P = "\<lambda>i candidate c. unique_from s base i candidate = Some c \<and> \<not> username_taken s c \<and>
     (c = candidate \<or> (username_taken s candidate \<and> (\<exists>j > i. c = numbered_name base j \<and>
        (\<forall>k. i < k \<and> k < j \<longrightarrow> username_taken s (numbered_name base k)))))"
  have free: "?P i candidate candidate" if "\<not> username_taken s candidate" for i candidate
    using that by (simp add: unique_from.simps)
  show ?case
  proof (cases "username_taken s candidate")
    case False
    then show ?thesis using free by blast
  next
    case taken: True
    then have step: "unique_from s base i candidate = unique_from s base (i + 1) ?next" by (simp add: unique_from.simps)
    have "\<exists>c. ?P (i + 1) ?next c"
    proof (cases "username_taken s ?next")
      case True
      then have "{j. i + 1 < j \<and> username_taken s (numbered_name base j)} \<subset> {j. i < j \<and> username_taken s (numbered_name base j)}"
        by auto
      then show ?thesis by (intro less psubset_card_mono finite_taken)
    qed (use free in blast)
    then obtain c where c: "?P (i + 1) ?next c" by blast
    have "?P i candidate c"
    proof (cases "c = ?next")
      case True
      with c taken step show ?thesis by (auto intro!: exI [of _ "i + 1"])
    next
      case False
      with c obtain j where j: "j > i + 1" "c = numbered_name base j" "username_taken s ?next"
        "\<forall>k. i + 1 < k \<and> k < j \<longrightarrow> username_taken s (numbered_name base k)" by blast
      then have "\<forall>k. i < k \<and> k < j \<longrightarrow> username_taken s (numbered_name base k)"
        by (metis Suc_eq_plus1 Suc_lessI)
      with c j taken step show ?thesis by (auto intro!: exI [of _ j])
    qed
    then show ?thesis by blast
  qed
qed

text \<open>
  C14. The search for a user name ends, whatever names are taken: it returns a free name, the wished
  one when it is free and otherwise the first free one of the numbered names.
\<close>

theorem ensureUniqueUsername_returns:
  "\<exists>c. ensureUniqueUsername base s = Some c \<and> \<not> username_taken s c \<and>
     (if username_taken s base
      then \<exists>j > 0. c = take 24 base @ ''-'' @ show_nat j \<and>
        (\<forall>k. 0 < k \<and> k < j \<longrightarrow> username_taken s (take 24 base @ ''-'' @ show_nat k))
      else c = base)"
  using unique_from_returns [of s base 0 base] unfolding ensureUniqueUsername_def numbered_name_def by auto

section \<open>Administrators keep themselves\<close>

lemma admin_only_cases:
  assumes "admin_only w req s k = (res, s')"
  obtains "s' = s" | u where "getUserFromRequest w req s = Inr (Some u)" "usr_role u = ''admin''" "k u = (res, s')"
  using assms by (auto simp: admin_only_def split: sum.splits option.splits if_splits)

lemma users_audit [simp]: "users (db (logAuditEvent w e s)) = users (db s)"
  by (simp add: frame_simps)

lemma getUserById_id: "getUserById i s = Some x \<Longrightarrow> usr_id x = i"
  by (auto simp: getUserById_def user_of_row_def dest: user_rows.lookup_id)

lemma updateUser_lookup:
  "tbl_get u_id (users (db (snd (updateUser w scrypt rand i up s)))) j =
    (if j = i \<and> \<not> no_user_updates up
     then map_option (\<lambda>u. (apply_user_updates scrypt rand up u)\<lparr>u_updated_at := now_s w\<rparr>) (tbl_get u_id (users (db s)) i)
     else tbl_get u_id (users (db s)) j)"
  by (auto simp: updateUser_def Let_def user_rows.update_by_id apply_user_updates_def)

lemma deleteUser_lookup:
  "j \<noteq> i \<Longrightarrow> tbl_get u_id (users (db (snd (deleteUser i s)))) j = tbl_get u_id (users (db s)) j"
  unfolding deleteUser_def Let_def tbl_get_def destroyAllUserSessions_def
  by (simp add: rows_tbl_delete find_filter_conj) (rule find_cong, auto)

lemma user_updates_role: "user_updates_of b = Some up \<Longrightarrow> up_role up = str_field ''role'' b"
  by (auto simp: user_updates_of_def text_value_def str_field_def split: option.splits json.splits)

lemma change_user_own_row:
  assumes "change_user scrypt rand w req u b s = (res, s')" "tbl_get u_id (users (db s)) (usr_id u) = Some row"
    "u_role row = usr_role u"
  shows "\<exists>row'. tbl_get u_id (users (db s')) (usr_id u) = Some row' \<and>
    (u_role row' = u_role row \<or> (u_role row' = [] \<and> str_field ''role'' b = Some []))"
proof (cases "users (db s') = users (db s)")
  case True
  with assms(2) show ?thesis by auto
next
  case changed: False
  from assms(1) changed obtain userId up r s1 where
    i: "Option.bind (truthy_field ''id'' b) id_of = Some userId" and
    own: "\<not> (userId = usr_id u \<and> truthy_field ''role'' b \<noteq> None \<and> truthy_field ''role'' b \<noteq> Some (JStr (usr_role u)))" and
    up: "user_updates_of b = Some up" and s1: "updateUser w scrypt rand userId up s = (r, s1)" "users (db s') = users (db s1)"
    by (auto simp: change_user_def Let_def split: option.splits if_splits prod.splits)
  from s1 have s': "tbl_get u_id (users (db s')) j = tbl_get u_id (users (db (snd (updateUser w scrypt rand userId up s)))) j" for j
    by simp
  show ?thesis
  proof (cases "userId = usr_id u")
    case False
    with assms(2) show ?thesis by (simp add: s' updateUser_lookup)
  next
    case True
    have role: "up_role up = str_field ''role'' b" by (rule user_updates_role [OF up])
    with True own have "up_role up \<in> {None, Some [], Some (usr_role u)}"
      by (auto simp: truthy_field_def str_field_def split: option.splits json.splits if_splits)
    with True assms(2,3) role show ?thesis by (auto simp: s' updateUser_lookup apply_user_updates_def)
  qed
qed

lemma remove_user_own_row:
  assumes "remove_user w req u i s = (res, s')"
  shows "tbl_get u_id (users (db s')) (usr_id u) = tbl_get u_id (users (db s)) (usr_id u)"
proof (cases "users (db s') = users (db s)")
  case False
  with assms obtain x j where "i = Some j" "j \<noteq> usr_id u" "getUserById j s = Some x"
    "users (db s') = users (db (snd (deleteUser (usr_id x) s)))"
    by (auto simp: remove_user_def split: option.splits if_splits prod.splits bool.splits simp: bind_eq_Some_conv)
  then show ?thesis using deleteUser_lookup [of "usr_id u" j s] getUserById_id by auto
qed simp

text \<open>
  An administrator cannot lock themselves out by the user routes, with one exception: after
  \<open>PUT\<close> or \<open>DELETE\<close> the account of the caller still exists and has its role, or the caller sent
  the empty string as the new role of the own account, which the check of the role lets through.
\<close>

theorem acting_admin_kept:
  assumes "getUserFromRequest w req s = Inr (Some u)" and "tbl_get u_id (users (db s)) (usr_id u) = Some row"
    and "u_role row = usr_role u"
    and "users_PUT scrypt rand w req s = (res, s') \<or> users_DELETE w req s = (res, s')"
  shows "\<exists>row'. tbl_get u_id (users (db s')) (usr_id u) = Some row' \<and>
    (u_role row' = u_role row \<or> (u_role row' = [] \<and> (\<exists>b. req_body req = Some b \<and> jget ''role'' b = Some (JStr []))))"
  using assms(4)
proof
  assume "users_PUT scrypt rand w req s = (res, s')"
  then consider "s' = s" | b where "req_body req = Some b" "change_user scrypt rand w req u b s = (res, s')"
    using assms(1) by (auto simp: users_PUT_def admin_only_def split: if_splits option.splits json.splits)
  then show ?thesis
  proof cases
    case 2
    from change_user_own_row [OF 2(2) assms(2,3)] 2(1) show ?thesis
      by (auto simp: str_field_def split: option.splits json.splits)
  qed (use assms(2) in auto)
next
  assume "users_DELETE w req s = (res, s')"
  then consider "s' = s" | i where "remove_user w req u i s = (res, s')"
    using assms(1) by (auto simp: users_DELETE_def admin_only_def split: if_splits option.splits json.splits)
  then show ?thesis using assms(2) remove_user_own_row by cases auto
qed

section \<open>Login with Google needs an approval\<close>

lemma verifyGoogleIdToken_Inr:
  assumes "verifyGoogleIdToken tokeninfo w t = Inr profile"
  shows "tokeninfo (trim t) = Inr (True, profile)" "jget ''email_verified'' profile \<in> {Some (JBool True), Some (JStr ''true'')}"
    "\<And>aud. getenv w ''GOOGLE_CLIENT_ID'' = Some aud \<Longrightarrow> trim aud \<noteq> [] \<Longrightarrow> jget ''aud'' profile = Some (JStr (trim aud))"
proof -
  show "tokeninfo (trim t) = Inr (True, profile)" "jget ''email_verified'' profile \<in> {Some (JBool True), Some (JStr ''true'')}"
    using assms by (auto simp: verifyGoogleIdToken_def Let_def split: if_splits sum.splits prod.splits)
  fix aud assume aud: "getenv w ''GOOGLE_CLIENT_ID'' = Some aud" "trim aud \<noteq> []"
  then have "or_else (Some aud) d = aud" for d by (cases aud) (auto simp: trim_def)
  with assms aud show "jget ''aud'' profile = Some (JStr (trim aud))"
    by (auto simp: verifyGoogleIdToken_def Let_def split: if_splits sum.splits prod.splits)
qed

lemma google_login_session:
  assumes "google_login rand w req profile s = (Inr r, s')"
  shows "(set_session r = None \<longrightarrow> user_sessions (db s') = user_sessions (db s)) \<and>
    (set_session r \<noteq> None \<longrightarrow> (\<exists>row. google_account (trim (to_lower (or_else (str_field ''email'' profile) [])))
      (trim (or_else (str_field ''sub'' profile) [])) s = Some row \<and> u_is_approved row = 1))"
  using assms unfolding google_login_def Let_def
  by (auto simp: frame_simps upsertAccessRequest_def Let_def json_response_def error_response_def dest!: createSession_Inl
      split: option.splits if_splits prod.splits sum.splits)

text \<open>
  \<open>POST /api/auth/google\<close> opens a session only for a verified e-mail address, for the configured
  audience, and for an account that exists and is approved; in every other case no session is
  created.
\<close>

theorem google_login_needs_approval:
  assumes "google_POST tokeninfo rand w req s = (Inr r, s')"
  shows "if set_session r = None then user_sessions (db s') = user_sessions (db s)
    else \<exists>token profile row. tokeninfo token = Inr (True, profile) \<and>
      jget ''email_verified'' profile \<in> {Some (JBool True), Some (JStr ''true'')} \<and>
      (\<forall>aud. getenv w ''GOOGLE_CLIENT_ID'' = Some aud \<and> trim aud \<noteq> [] \<longrightarrow> jget ''aud'' profile = Some (JStr (trim aud))) \<and>
      row \<in> set (rows (users (db s))) \<and> u_is_approved row = 1 \<and>
      (map_option to_lower (u_email row) = Some (trim (to_lower (or_else (str_field ''email'' profile) []))) \<or>
       u_provider row = Some ''google'' \<and> u_provider_user_id row = Some (trim (or_else (str_field ''sub'' profile) [])))"
proof -
  let ?t = "or_else (str_field ''credential'' (case req_body req of None \<Rightarrow> JObj [] | Some b \<Rightarrow> b)) []"
  have account: "row \<in> set (rows (users (db s))) \<and> (map_option to_lower (u_email row) = Some email \<or>
      u_provider row = Some ''google'' \<and> u_provider_user_id row = Some sub)"
    if "google_account email sub s = Some row" for email sub row
  proof -
    let ?p = "\<lambda>u. map_option to_lower (u_email u) = Some email \<or> (u_provider u = Some ''google'' \<and> u_provider_user_id u = Some sub)"
    from that have "row \<in> set (sort_key u_id (tbl_select ?p (users (db s))))"
      unfolding google_account_def by (metis (no_types, lifting) list.case_eq_if list.set_sel(1) option.distinct(1) option.inject)
    then show ?thesis by (simp add: tbl_select_def)
  qed
  show ?thesis
  proof (cases "verifyGoogleIdToken tokeninfo w ?t")
    case (Inl e)
    with assms show ?thesis by (auto simp: google_POST_def Let_def error_response_def json_response_def)
  next
    case (Inr profile)
    with assms have l: "google_login rand w req profile s = (Inr r, s')" by (simp add: google_POST_def Let_def)
    show ?thesis
    proof (cases "set_session r = None")
      case True
      with google_login_session [OF l] show ?thesis by simp
    next
      case False
      with google_login_session [OF l] obtain row where row:
        "google_account (trim (to_lower (or_else (str_field ''email'' profile) []))) (trim (or_else (str_field ''sub'' profile) [])) s = Some row"
        "u_is_approved row = 1" by blast
      note profile = verifyGoogleIdToken_Inr [OF Inr]
      have "\<forall>aud. getenv w ''GOOGLE_CLIENT_ID'' = Some aud \<and> trim aud \<noteq> [] \<longrightarrow> jget ''aud'' profile = Some (JStr (trim aud))"
        using profile(3) by blast
      with False profile(1,2) account [OF row(1)] row(2) show ?thesis by (simp only: if_False) blast
    qed
  qed
qed

section \<open>A login opens a session\<close>

lemma hex_encode_chars: "c \<in> set (hex_encode bs) \<Longrightarrow> c \<noteq> CHR ''%'' \<and> c \<noteq> CHR '';''"
proof -
  have "hex_digit n \<noteq> CHR ''%'' \<and> hex_digit n \<noteq> CHR '';''" if "n < 16" for n
    using hex_value_hex_digit [OF that] by (auto simp: hex_value_def)
  moreover have "of_char b div 16 < (16 :: nat)" for b :: char by (simp add: less_mult_imp_div_less)
  ultimately show "c \<in> set (hex_encode bs) \<Longrightarrow> ?thesis" by (auto simp: hex_encode_def Let_def)
qed

lemma decodeURIComponent_plain: "(\<And>c. c \<in> set x \<Longrightarrow> c \<noteq> CHR ''%'') \<Longrightarrow> decodeURIComponent x = Some x"
  by (induction x) auto

lemma parseCookie_session: "parseCookie (''mc-session='' @ hex_encode rand) ''mc-session'' = Inr (Some (hex_encode rand))"
proof -
  have tw: "takeWhile (\<lambda>d. d \<noteq> CHR '';'') (hex_encode rand) = hex_encode rand"
    using hex_encode_chars by (auto intro!: takeWhile_eq_all_conv [THEN iffD2])
  have dec: "decodeURIComponent (hex_encode rand) = Some (hex_encode rand)"
    by (rule decodeURIComponent_plain) (simp add: hex_encode_chars)
  show ?thesis by (simp add: parseCookie_def match_cookie_def starts_with_def Let_def tw dec)
qed

lemma workspace_audit: "or_default_workspace n (logAuditEvent w e s) = or_default_workspace n s"
  by (simp add: or_default_workspace_def getDefaultWorkspaceId_def frame_simps)

lemma validateSession_audit: "validateSession w' tok (logAuditEvent w e s) = validateSession w' tok s"
  by (simp add: validateSession_def workspace_audit frame_simps cong: option.case_cong)

lemma authenticateUser_SomeD:
  assumes "authenticateUser scrypt name password s = Some u"
  shows "\<exists>row \<in> set (rows (users (db s))). u_id row = usr_id u \<and> u_username row = name \<and> u_role row = usr_role u \<and>
    u_is_approved row = 1 \<and> verifyPassword scrypt password (u_password_hash row)"
  using assms by (auto simp: authenticateUser_def split: option.splits if_splits dest!: tbl_first_in_rows)

lemma login_session:
  assumes "login scrypt rand w req name password s = (Inr r, s')" "set_session r = Some (tok, opts)"
  shows "\<exists>u s1 e expires ip ua. authenticateUser scrypt name password s = Some u \<and>
    createSession w rand (usr_id u) ip ua (Some (usr_workspace_id u)) s = (Inr (tok, expires), s1) \<and> s' = logAuditEvent w e s1"
proof (cases "authenticateUser scrypt name password s")
  case None
  with assms show ?thesis by (auto simp: login_def Let_def error_response_def json_response_def)
next
  case (Some u)
  let ?c = "createSession w rand (usr_id u) (Some (client_ip req)) (or_null (req_headers req ''user-agent'')) (Some (usr_workspace_id u)) s"
  obtain x s1 where c: "?c = (x, s1)" by (cases ?c)
  show ?thesis
  proof (cases x)
    case (Inl e)
    with Some c assms show ?thesis by (auto simp: login_def Let_def error_response_def json_response_def)
  next
    case (Inr te)
    with Some c assms have "te = (tok, snd te)" "\<exists>e. s' = logAuditEvent w e s1"
      by (cases te; auto simp: login_def Let_def session_cookie_def json_response_def)+
    with Some c Inr show ?thesis by metis
  qed
qed

lemma login_POST_login:
  assumes "login_POST scrypt rand w req s = (Inr r, s')" "set_session r = Some cookie"
  shows "\<exists>st b name password. login scrypt rand w req name password (s\<lparr>login_store := st\<rparr>) = (Inr r, s') \<and>
    req_body req = Some b \<and> jget ''username'' b = Some (JStr name) \<and> jget ''password'' b = Some (JStr password)"
proof -
  obtain lim st where l: "checkRateLimit loginLimiter_options w req (login_store s) = (lim, st)"
    by (cases "checkRateLimit loginLimiter_options w req (login_store s)")
  show ?thesis
  proof (cases lim)
    case (Some x)
    with l assms have "set_session x = Some cookie" by (simp add: login_POST_def with_login_limit_def)
    with l Some show ?thesis
      by (auto simp: checkRateLimit_def error_response_def json_response_def Let_def split: if_splits option.splits)
  next
    case None
    with l assms have "(case req_body req of
       None \<Rightarrow> (Inr (error_response 500 ''Internal server error''), s\<lparr>login_store := st\<rparr>)
     | Some JNull \<Rightarrow> (Inr (error_response 500 ''Internal server error''), s\<lparr>login_store := st\<rparr>)
     | Some b \<Rightarrow>
         (case (or_null (str_field ''username'' b), or_null (str_field ''password'' b)) of
            (Some name, Some password) \<Rightarrow> login scrypt rand w req name password (s\<lparr>login_store := st\<rparr>)
          | _ \<Rightarrow> (Inr (error_response 400 ''Username and password are required''), s\<lparr>login_store := st\<rparr>))) = (Inr r, s')"
      by (simp add: login_POST_def with_login_limit_def)
    with assms(2) show ?thesis
      by (auto simp: error_response_def json_response_def str_field_def or_null_def split: option.splits json.splits if_splits)
  qed
qed

text \<open>
  C15. Logging in works: a login that sets the session cookie was for an approved local account and its
  password; and a later request that sends the cookie back is, until the session expires after seven days, a
  request of that account with its role.
\<close>

theorem login_opens_session:
  assumes "auth_inv s" and "rand \<noteq> []" and "login_POST scrypt rand w req s = (Inr r, s')"
    and "set_session r = Some (tok, opts)" and "req_headers req' ''cookie'' = Some (''mc-session='' @ tok)"
    and "now_s w' < now_s w + 7 * 86400"
  shows "\<exists>b name password row v. req_body req = Some b \<and> jget ''username'' b = Some (JStr name) \<and>
    jget ''password'' b = Some (JStr password) \<and> row \<in> set (rows (users (db s))) \<and> u_username row = name \<and> u_is_approved row = 1 \<and>
    verifyPassword scrypt password (u_password_hash row) \<and>
    getUserFromRequest w' req' s' = Inr (Some v) \<and> usr_id v = u_id row \<and> usr_role v = u_role row"
proof -
  obtain st b name password where
    l: "login scrypt rand w req name password (s\<lparr>login_store := st\<rparr>) = (Inr r, s')" and
    b: "req_body req = Some b" "jget ''username'' b = Some (JStr name)" "jget ''password'' b = Some (JStr password)"
    using login_POST_login [OF assms(3) assms(4)] by blast
  from login_session [OF l assms(4)] obtain u s1 e expires ip ua where
    u: "authenticateUser scrypt name password (s\<lparr>login_store := st\<rparr>) = Some u" and
    c: "createSession w rand (usr_id u) ip ua (Some (usr_workspace_id u)) (s\<lparr>login_store := st\<rparr>) = (Inr (tok, expires), s1)" and
    s': "s' = logAuditEvent w e s1" by blast
  have tok: "tok = hex_encode rand" "tok \<noteq> []" using c assms(2) by (auto simp: createSession_Inr)
  have inv: "auth_inv (s\<lparr>login_store := st\<rparr>)" using assms(1) by (simp add: auth_inv_def)
  obtain row where row: "row \<in> set (rows (users (db s)))" "u_id row = usr_id u" "u_username row = name" "u_is_approved row = 1"
    "verifyPassword scrypt password (u_password_hash row)" using authenticateUser_SomeD [OF u] by auto
  have "tbl_get u_id (users (db s)) (usr_id u) = Some row"
    using tbl_get_Some_unique [of u_id "users (db s)" row] row(1,2) assms(1) by (auto simp: auth_inv_def auth_tables_def)
  with created_session_valid [OF inv assms(2) c] assms(6) obtain v where
    v: "validateSession w' tok s1 = Some v" "usr_id v = usr_id u" "usr_role v = u_role row" by auto
  have "getUserFromRequest w' req' s' = Inr (Some v)"
    using assms(5) tok v(1) by (simp add: getUserFromRequest_def s' validateSession_audit parseCookie_session [simplified])
  with b row v(2,3) show ?thesis by metis
qed

section \<open>Examples\<close>

definition demo_cookie :: string where
  "demo_cookie = ''mc-session='' @ hex_encode ''token''"

definition demo_self_request :: request where
  "demo_self_request = demo_request\<lparr>req_headers := [''cookie'' \<mapsto> demo_cookie],
     req_body := Some (JObj [(''id'', JNum 1), (''role'', JStr [])])\<rparr>"

definition demo_login_request :: request where
  "demo_login_request = demo_request\<lparr>req_headers := Map.empty,
     req_body := Some (JObj [(''username'', JStr ''ada''), (''password'', JStr ''analytical engine'')])\<rparr>"

lemma demo_self_user:
  "case getUserFromRequest demo_world demo_self_request demo_state of
     Inr (Some u) \<Rightarrow> usr_id u = 1 \<and> usr_role u = ''admin'' | _ \<Rightarrow> False"
  by code_simp

lemma demo_self_demoted:
  "map_option u_role (tbl_get u_id (users (db demo_state)) 1) = Some ''admin''"
  "map_option u_role (tbl_get u_id (users (db (snd (users_PUT demo_scrypt ''salt'' demo_world demo_self_request demo_state)))) 1) = Some []"
  by code_simp+

text \<open>The exception happens: the only administrator is left without a role.\<close>

theorem acting_admin_kept_witness:
  "\<exists>row row'. tbl_get u_id (users (db demo_state)) 1 = Some row \<and> u_role row = ''admin'' \<and>
     tbl_get u_id (users (db (snd (users_PUT demo_scrypt ''salt'' demo_world demo_self_request demo_state)))) 1 = Some row' \<and>
     u_role row' = [] \<and> (\<exists>b. req_body demo_self_request = Some b \<and> jget ''role'' b = Some (JStr []))"
proof -
  obtain u where u: "getUserFromRequest demo_world demo_self_request demo_state = Inr (Some u)" "usr_id u = 1" "usr_role u = ''admin''"
    using demo_self_user by (auto split: sum.splits option.splits)
  obtain row where row: "tbl_get u_id (users (db demo_state)) (usr_id u) = Some row" "u_role row = usr_role u"
    using demo_self_demoted(1) u(2,3) by auto
  obtain res s' where p: "users_PUT demo_scrypt ''salt'' demo_world demo_self_request demo_state = (res, s')"
    by (cases "users_PUT demo_scrypt ''salt'' demo_world demo_self_request demo_state")
  show ?thesis
    using acting_admin_kept [OF u(1) row, of demo_scrypt "''salt''" res s'] p demo_self_demoted(2) row u(2,3) by auto
qed

lemma demo_names: "username_taken demo_state ''ada''" "\<not> username_taken demo_state ''ada-1''"
  by code_simp+

theorem ensureUniqueUsername_returns_witness: "\<exists>c. ensureUniqueUsername ''ada'' demo_state = Some c \<and> c \<noteq> ''ada''"
  using ensureUniqueUsername_returns [of "''ada''" demo_state] demo_names by auto

lemma demo_login:
  "case login_POST demo_scrypt ''token'' demo_world demo_login_request demo_user_state of
     (Inr r, s') \<Rightarrow> (case set_session r of Some (tok, opts) \<Rightarrow> tok = hex_encode ''token'' | None \<Rightarrow> False)
   | (Inl e, s') \<Rightarrow> False"
  by code_simp

theorem login_opens_session_witness:
  "\<exists>s' v. login_POST demo_scrypt ''token'' demo_world demo_login_request demo_user_state = (fst (login_POST demo_scrypt ''token''
       demo_world demo_login_request demo_user_state), s') \<and>
     getUserFromRequest demo_world demo_self_request s' = Inr (Some v)"
proof -
  obtain r s' opts where l: "login_POST demo_scrypt ''token'' demo_world demo_login_request demo_user_state = (Inr r, s')"
    "set_session r = Some (hex_encode ''token'', opts)"
    using demo_login by (auto split: prod.splits sum.splits option.splits)
  have "req_headers demo_self_request ''cookie'' = Some (''mc-session='' @ hex_encode ''token'')"
    by (simp add: demo_self_request_def demo_cookie_def)
  from login_opens_session [OF auth_inv_demo_user_state _ l this, of demo_world] l(1) show ?thesis by auto
qed

definition demo_google_state :: server where
  "demo_google_state = snd (createUser demo_world demo_scrypt ''salt'' ''ada'' ''analytical engine'' ''Ada''
     ''viewer'' (demo_options\<lparr>co_email := Some ''Ada@corp.example''\<rparr>) init_server)"

definition demo_tokeninfo :: "string \<Rightarrow> string + bool \<times> json" where
  "demo_tokeninfo t = Inr (t = ''good'', JObj [(''email'', JStr ''ada@corp.example''), (''sub'', JStr ''42''),
     (''email_verified'', JStr ''true'')])"

definition demo_google_request :: request where
  "demo_google_request = demo_request\<lparr>req_headers := Map.empty, req_body := Some (JObj [(''credential'', JStr ''good'')])\<rparr>"

lemma demo_google_login:
  "case google_POST demo_tokeninfo ''token'' demo_world demo_google_request demo_google_state of
     (Inr r, s') \<Rightarrow> set_session r \<noteq> None | (Inl e, s') \<Rightarrow> False"
  by code_simp

theorem google_login_needs_approval_witness:
  "\<exists>row \<in> set (rows (users (db demo_google_state))). u_is_approved row = 1"
proof -
  obtain r s' where g: "google_POST demo_tokeninfo ''token'' demo_world demo_google_request demo_google_state = (Inr r, s')"
    "set_session r \<noteq> None" using demo_google_login by (auto split: prod.splits sum.splits)
  from google_login_needs_approval [OF g(1)] g(2) show ?thesis by auto
qed

end
