(* ===== verification/MC_Webhooks.thy ===== *)
theory MC_Webhooks
  imports MC_Http Complex_Main
begin

text \<open>
  Outgoing webhooks: \<open>src/lib/webhooks.ts\<close> and the routes under \<open>src/app/api/webhooks\<close>.
  A delivery waits for the receiver, so it is split at the \<open>await\<close>: \<open>fireWebhooksAsync\<close>,
  \<open>take_retries\<close>, \<open>test_task\<close> and \<open>retry_task\<close> say which deliveries start, \<open>deliver_call\<close> is the request a
  delivery sends, and \<open>deliver_finish\<close> is what happens once the answer is there. The HMAC, the
  receiver's answer, the result of \<open>Math.random\<close> (a rational) and the random secret are
  arguments. Lengths count bytes of the UTF-8 text.
\<close>

section \<open>Constants\<close>

definition BACKOFF_SECONDS :: "int list" where
  "BACKOFF_SECONDS = [30, 300, 1800, 7200, 28800]"

definition MAX_RETRIES :: "world \<Rightarrow> int" where
  "MAX_RETRIES w = (case parse_int (or_else (getenv w ''MC_WEBHOOK_MAX_RETRIES'') ''5'') of
     None \<Rightarrow> 5 | Some n \<Rightarrow> if n = 0 then 5 else n)"

definition EVENT_MAP :: "string \<Rightarrow> string option" where
  "EVENT_MAP = map_of [(''activity.created'', ''activity''), (''notification.created'', ''notification''),
     (''agent.status_changed'', ''agent.status_change''), (''audit.security'', ''security''),
     (''task.created'', ''activity.task_created''), (''task.updated'', ''activity.task_updated''),
     (''task.deleted'', ''activity.task_deleted''), (''task.status_changed'', ''activity.task_status_changed'')]"

text \<open>\<open>Math.round\<close> of the base delay plus a jitter of a fifth of it, for \<open>rnd = Math.random()\<close>.\<close>

definition nextRetryDelay :: "rat \<Rightarrow> nat \<Rightarrow> int" where
  "nextRetryDelay rnd attempt =
     (let base = BACKOFF_SECONDS ! min attempt (length BACKOFF_SECONDS - 1);
          jitter = of_int base * (1 / 5) * (2 * rnd - 1)
      in \<lfloor>of_int base + jitter + 1 / 2\<rfloor>)"

section \<open>Signatures\<close>

definition signature :: "(string \<Rightarrow> string \<Rightarrow> string) \<Rightarrow> string \<Rightarrow> string \<Rightarrow> string" where
  "signature hmac secret rawBody = ''sha256='' @ hmac secret rawBody"

definition verifyWebhookSignature ::
  "(string \<Rightarrow> string \<Rightarrow> string) \<Rightarrow> string \<Rightarrow> string \<Rightarrow> string option \<Rightarrow> bool"
where
  "verifyWebhookSignature hmac secret rawBody signatureHeader =
     (case or_null signatureHeader of
        None \<Rightarrow> False
      | Some h \<Rightarrow>
          if secret = [] then False
          else (let expected = signature hmac secret rawBody
                in if length h \<noteq> length expected then False else timingSafeEqual h expected))"

section \<open>Which deliveries an event starts\<close>

text \<open>A delivery under way: the webhook as it was read, and the options of \<open>deliverWebhook\<close>.\<close>

record delivery_task =
  dt_webhook :: webhook_row
  dt_event :: string
  dt_payload :: json
  dt_attempt :: nat
  dt_parent :: "int option"
  dt_allow_retry :: bool

text \<open>\<open>events.includes\<close> on the parsed column: on a string it looks for a substring, elsewhere it throws.\<close>

definition subscribed :: "string \<Rightarrow> webhook_row \<Rightarrow> bool" where
  "subscribed eventType wh =
     (case w_events wh of
        JArr es \<Rightarrow> JStr ''*'' \<in> set es \<or> JStr eventType \<in> set es
      | JStr t \<Rightarrow> includes_str ''*'' t \<or> includes_str eventType t
      | _ \<Rightarrow> False)"

definition fireWebhooksAsync :: "string \<Rightarrow> json \<Rightarrow> int option \<Rightarrow> server \<Rightarrow> delivery_task list" where
  "fireWebhooksAsync eventType payload workspaceId s =
     (let resolved = (case workspaceId of Some i \<Rightarrow> i
                      | None \<Rightarrow> (case num_field ''workspace_id'' payload of Some i \<Rightarrow> i | None \<Rightarrow> 1));
          hooks = tbl_select (\<lambda>wh. w_enabled wh \<and> w_workspace_id wh = resolved) (webhooks (db s))
      in map (\<lambda>wh. \<lparr>dt_webhook = wh, dt_event = eventType, dt_payload = payload, dt_attempt = 0,
                     dt_parent = None, dt_allow_retry = True\<rparr>)
           (filter (subscribed eventType) hooks))"

text \<open>\<open>`prefix.${x}`\<close> for the values a type or an action has; an array there is outside the model.\<close>

definition js_string :: "json \<Rightarrow> string" where
  "js_string v = (case v of JStr x \<Rightarrow> x | JNum n \<Rightarrow> show_int n | JBool b \<Rightarrow> (if b then ''true'' else ''false'')
     | _ \<Rightarrow> ''[object Object]'')"

definition webhookEventType :: "string \<Rightarrow> json \<Rightarrow> string" where
  "webhookEventType mapping data =
     (case (if mapping = ''activity'' \<or> mapping = ''notification'' then truthy_prop ''type'' data
            else if mapping = ''security'' then truthy_prop ''action'' data else None) of
        Some x \<Rightarrow> mapping @ ''.'' @ js_string x
      | None \<Rightarrow> mapping)"

text \<open>The listener of \<open>initWebhookListener\<close>.\<close>

definition on_server_event :: "server_event \<Rightarrow> server \<Rightarrow> delivery_task list" where
  "on_server_event ev s =
     (case EVENT_MAP (ev_type ev) of
        None \<Rightarrow> []
      | Some mapping \<Rightarrow>
          (let data = ev_data ev;
               isAgentError = (ev_type ev = ''agent.status_changed'' \<and> jget ''status'' data = Some (JStr ''error''));
               workspaceId = (case num_field ''workspace_id'' data of Some i \<Rightarrow> i | None \<Rightarrow> 1)
           in fireWebhooksAsync (webhookEventType mapping data) data (Some workspaceId) s @
              (if isAgentError then fireWebhooksAsync ''agent.error'' data (Some workspaceId) s else [])))"

section \<open>One delivery\<close>

record http_call =
  hc_url :: string
  hc_headers :: "(string \<times> string) list"
  hc_body :: string

text \<open>What the receiver does: an error (\<open>name\<close>, \<open>message\<close>) or a status and, when it can be read, a text; and how long it takes.\<close>

record http_answer =
  ha_outcome :: "(string \<times> string) + (int \<times> string option)"
  ha_ms :: int

definition delivery_body :: "world \<Rightarrow> delivery_task \<Rightarrow> json" where
  "delivery_body w t = JObj [(''event'', JStr (dt_event t)), (''timestamp'', JNum (now_s w)), (''data'', dt_payload t)]"

definition deliver_call :: "(string \<Rightarrow> string \<Rightarrow> string) \<Rightarrow> world \<Rightarrow> delivery_task \<Rightarrow> http_call" where
  "deliver_call hmac w t =
     (let body = stringify (delivery_body w t)
      in \<lparr>hc_url = w_url (dt_webhook t),
          hc_headers = [(''Content-Type'', ''application/json''), (''User-Agent'', ''MissionControl-Webhook/1.0''),
             (''X-MC-Event'', dt_event t)] @
            (case or_null (w_secret (dt_webhook t)) of None \<Rightarrow> []
             | Some secret \<Rightarrow> [(''X-MC-Signature'', signature hmac secret body)]),
          hc_body = body\<rparr>)"

definition clip_body :: "string \<Rightarrow> string" where
  "clip_body r = (if 1000 < length r then take 1000 r @ ''...'' else r)"

definition answer_fields :: "http_answer \<Rightarrow> int option \<times> string option \<times> string option" where
  "answer_fields a = (case ha_outcome a of
     Inl (name, msg) \<Rightarrow> (None, None, Some (if name = ''AbortError'' then ''Timeout (10s)'' else msg))
   | Inr (status, text) \<Rightarrow> (Some status, map_option clip_body text, None))"

definition is_success :: "int option \<Rightarrow> bool" where
  "is_success status = (case status of None \<Rightarrow> False | Some c \<Rightarrow> 200 \<le> c \<and> c < 300)"

record delivery_result =
  dr_success :: bool
  dr_status_code :: "int option"
  dr_response_body :: "string option"
  dr_error :: "string option"
  dr_duration_ms :: int
  dr_delivery_id :: "int option"

definition update_webhook :: "webhook_row \<Rightarrow> (webhook_row \<Rightarrow> webhook_row) \<Rightarrow> server \<Rightarrow> server" where
  "update_webhook wh f s = s\<lparr>db := (db s)\<lparr>webhooks :=
     tbl_update (\<lambda>x. w_id x = w_id wh \<and> w_workspace_id x = w_workspace_id wh) f (webhooks (db s))\<rparr>\<rparr>"

definition insert_delivery :: "world \<Rightarrow> delivery_task \<Rightarrow> http_answer \<Rightarrow> server \<Rightarrow> int \<times> server" where
  "insert_delivery w t a s =
     (let (status, body, err) = answer_fields a;
          (i, ds) = tbl_insert (\<lambda>i. \<lparr>wd_id = i, wd_webhook_id = w_id (dt_webhook t), wd_event_type = dt_event t,
              wd_payload = delivery_body w t, wd_status_code = status, wd_response_body = body, wd_error = err,
              wd_duration_ms = ha_ms a, wd_created_at = now_s w, wd_attempt = int (dt_attempt t), wd_next_retry_at = None,
              wd_is_retry = (0 < dt_attempt t), wd_parent_delivery_id = dt_parent t,
              wd_workspace_id = w_workspace_id (dt_webhook t)\<rparr>) (webhook_deliveries (db s))
      in (i, s\<lparr>db := (db s)\<lparr>webhook_deliveries := ds\<rparr>\<rparr>))"

text \<open>Retry scheduling and circuit breaker, for deliveries that allow retries.\<close>

definition after_attempt :: "world \<Rightarrow> rat \<Rightarrow> delivery_task \<Rightarrow> bool \<Rightarrow> int \<Rightarrow> server \<Rightarrow> server" where
  "after_attempt w rnd t success deliveryId s =
     (let wh = dt_webhook t in
      if \<not> dt_allow_retry t then s
      else if success then update_webhook wh (\<lambda>x. x\<lparr>w_consecutive_failures := 0\<rparr>) s
      else (let s1 = update_webhook wh (\<lambda>x. x\<lparr>w_consecutive_failures := w_consecutive_failures x + 1\<rparr>) s
            in if int (dt_attempt t) < MAX_RETRIES w - 1
               then s1\<lparr>db := (db s1)\<lparr>webhook_deliveries := tbl_update (\<lambda>d. wd_id d = deliveryId)
                      (\<lambda>d. d\<lparr>wd_next_retry_at := Some (now_s w + nextRetryDelay rnd (dt_attempt t))\<rparr>)
                      (webhook_deliveries (db s1))\<rparr>\<rparr>
               else case tbl_first (\<lambda>x. w_id x = w_id wh \<and> w_workspace_id x = w_workspace_id wh) (webhooks (db s1)) of
                      None \<Rightarrow> s1
                    | Some x \<Rightarrow>
                        if MAX_RETRIES w \<le> w_consecutive_failures x
                        then update_webhook wh (\<lambda>x. x\<lparr>w_enabled := False, w_updated_at := now_s w\<rparr>) s1
                        else s1))"

text \<open>The newest 200 deliveries of the webhook are kept.\<close>

definition of_webhook :: "webhook_row \<Rightarrow> delivery_row \<Rightarrow> bool" where
  "of_webhook wh d \<longleftrightarrow> wd_webhook_id d = w_id wh \<and> wd_workspace_id d = w_workspace_id wh"

definition prune_deliveries :: "world \<Rightarrow> webhook_row \<Rightarrow> server \<Rightarrow> server" where
  "prune_deliveries w wh s =
     (let ds = webhook_deliveries (db s);
          kept = map wd_id (sql_limit 200 0 (order_by_desc (sql_ord w) wd_created_at (tbl_select (of_webhook wh) ds)))
      in s\<lparr>db := (db s)\<lparr>webhook_deliveries := tbl_delete (\<lambda>d. of_webhook wh d \<and> wd_id d \<notin> set kept) ds\<rparr>\<rparr>)"

text \<open>
  The part of \<open>deliverWebhook\<close> after the answer. When the webhook has been deleted meanwhile, the
  insert violates the foreign key, the exception is logged and nothing is written.
\<close>

definition deliver_finish :: "world \<Rightarrow> rat \<Rightarrow> http_answer \<Rightarrow> delivery_task \<Rightarrow> server \<Rightarrow> delivery_result \<times> server" where
  "deliver_finish w rnd a t s =
     (let (status, body, err) = answer_fields a; success = is_success status; wh = dt_webhook t;
          result = \<lparr>dr_success = success, dr_status_code = status, dr_response_body = body, dr_error = err,
                    dr_duration_ms = ha_ms a, dr_delivery_id = None\<rparr>
      in if tbl_get w_id (webhooks (db s)) (w_id wh) = None then (result, s)
         else (let (i, s1) = insert_delivery w t a s;
                   s2 = update_webhook wh (\<lambda>x. x\<lparr>w_last_fired_at := Some (now_s w),
                          w_last_status := Some (case status of None \<Rightarrow> -1 | Some c \<Rightarrow> c), w_updated_at := now_s w\<rparr>) s1;
                   s3 = after_attempt w rnd t success i s2
               in (result\<lparr>dr_delivery_id := Some i\<rparr>, prune_deliveries w wh s3)))"

text \<open>A delivery of which nobody else changes the state while it waits.\<close>

definition deliverWebhook ::
  "(http_call \<Rightarrow> http_answer) \<Rightarrow> (string \<Rightarrow> string \<Rightarrow> string) \<Rightarrow> world \<Rightarrow> rat \<Rightarrow> delivery_task \<Rightarrow> server \<Rightarrow> delivery_result \<times> server"
where
  "deliverWebhook net hmac w rnd t s = deliver_finish w rnd (net (deliver_call hmac w t)) t s"

section \<open>Retries\<close>

text \<open>The payload of a stored body: \<open>parsed.data ?? parsed\<close>.\<close>

definition stored_payload :: "json \<Rightarrow> json" where
  "stored_payload b = (case jget ''data'' b of None \<Rightarrow> b | Some JNull \<Rightarrow> b | Some d \<Rightarrow> d)"

definition retry_of :: "bool \<Rightarrow> webhook_row \<Rightarrow> delivery_row \<Rightarrow> delivery_task" where
  "retry_of allow wh d = \<lparr>dt_webhook = wh, dt_event = wd_event_type d, dt_payload = stored_payload (wd_payload d),
     dt_attempt = nat (wd_attempt d + 1), dt_parent = Some (wd_id d), dt_allow_retry = allow\<rparr>"

definition due :: "world \<Rightarrow> delivery_row \<Rightarrow> bool" where
  "due w d = (case wd_next_retry_at d of None \<Rightarrow> False | Some r \<Rightarrow> r \<le> now_s w)"

text \<open>The join of a delivery with its webhook.\<close>

definition webhook_of :: "delivery_row \<Rightarrow> server \<Rightarrow> webhook_row option" where
  "webhook_of d s = tbl_first (\<lambda>wh. w_id wh = wd_webhook_id d \<and> w_workspace_id wh = wd_workspace_id d) (webhooks (db s))"

definition pendingRetries :: "world \<Rightarrow> server \<Rightarrow> (delivery_row \<times> webhook_row) list" where
  "pendingRetries w s =
     (let ready = List.map_filter (\<lambda>d. case webhook_of d s of
                     None \<Rightarrow> None
                   | Some wh \<Rightarrow> if w_enabled wh \<and> due w d then Some (d, wh) else None) (rows (webhook_deliveries (db s)))
      in sql_limit 50 0 (order_by_desc (sql_ord w) (\<lambda>_. 0) ready))"

text \<open>The deliveries a run of \<open>processWebhookRetries\<close> starts; their \<open>next_retry_at\<close> is cleared at once.\<close>

definition take_retries :: "world \<Rightarrow> server \<Rightarrow> delivery_task list \<times> server" where
  "take_retries w s =
     (let ps = pendingRetries w s;
          ds = foldl (\<lambda>ds (d, wh). tbl_update (\<lambda>x. wd_id x = wd_id d \<and> wd_workspace_id x = wd_workspace_id d)
                        (\<lambda>x. x\<lparr>wd_next_retry_at := None\<rparr>) ds) (webhook_deliveries (db s)) ps
      in (map (\<lambda>(d, wh). retry_of True wh d) ps, s\<lparr>db := (db s)\<lparr>webhook_deliveries := ds\<rparr>\<rparr>))"

fun deliver_all ::
  "(nat \<Rightarrow> http_call \<Rightarrow> http_answer) \<Rightarrow> (string \<Rightarrow> string \<Rightarrow> string) \<Rightarrow> world \<Rightarrow> (nat \<Rightarrow> rat) \<Rightarrow> nat \<Rightarrow> delivery_task list
   \<Rightarrow> server \<Rightarrow> nat \<times> nat \<times> server"
where
  "deliver_all net hmac w rnd k [] s = (0, 0, s)"
| "deliver_all net hmac w rnd k (t # ts) s =
     (let (r, s1) = deliverWebhook (net k) hmac w (rnd k) t s; (ok, bad, s2) = deliver_all net hmac w rnd (Suc k) ts s1
      in if dr_success r then (Suc ok, bad, s2) else (ok, Suc bad, s2))"

definition processWebhookRetries ::
  "(nat \<Rightarrow> http_call \<Rightarrow> http_answer) \<Rightarrow> (string \<Rightarrow> string \<Rightarrow> string) \<Rightarrow> world \<Rightarrow> (nat \<Rightarrow> rat) \<Rightarrow> server \<Rightarrow> string \<times> server"
where
  "processWebhookRetries net hmac w rnd s =
     (let (ts, s1) = take_retries w s
      in if ts = [] then (''No pending retries'', s)
         else (let (ok, bad, s2) = deliver_all net hmac w rnd 0 ts s1
               in (''Processed '' @ show_nat (length ts) @ '' retries ('' @ show_nat ok @ '' ok, '' @ show_nat bad @ '' failed)'', s2)))"

section \<open>The routes under /api/webhooks\<close>

definition masked_secret :: "string \<Rightarrow> string" where
  "masked_secret x = concat (replicate 6 [CHR 0xE2, CHR 0x80, CHR 0xA2]) @ drop (length x - 4) x"

definition webhook_json :: "world \<Rightarrow> server \<Rightarrow> webhook_row \<Rightarrow> json" where
  "webhook_json w s wh =
     (let ds = tbl_select (of_webhook wh) (webhook_deliveries (db s)); count = \<lambda>p. JNum (int (length (filter p ds)))
      in JObj [(''id'', JNum (w_id wh)), (''name'', JStr (w_name wh)), (''url'', JStr (w_url wh)),
        (''secret'', jnull (JStr \<circ> masked_secret) (or_null (w_secret wh))), (''events'', w_events wh),
        (''enabled'', JBool (w_enabled wh)), (''last_fired_at'', jnull JNum (w_last_fired_at wh)),
        (''last_status'', jnull JNum (w_last_status wh)), (''created_by'', JStr (w_created_by wh)),
        (''created_at'', JNum (w_created_at wh)), (''updated_at'', JNum (w_updated_at wh)),
        (''consecutive_failures'', JNum (w_consecutive_failures wh)), (''workspace_id'', JNum (w_workspace_id wh)),
        (''total_deliveries'', count (\<lambda>d. True)), (''successful_deliveries'', count (\<lambda>d. is_success (wd_status_code d))),
        (''failed_deliveries'', count (\<lambda>d. wd_error d \<noteq> None \<or> (wd_status_code d \<noteq> None \<and> \<not> is_success (wd_status_code d)))),
        (''circuit_open'', JBool (MAX_RETRIES w \<le> w_consecutive_failures wh))])"

definition webhooks_GET :: "world \<Rightarrow> request \<Rightarrow> server \<Rightarrow> outcome" where
  "webhooks_GET w req s = with_role w req ''admin'' s (\<lambda>u.
     (Inr (json_response 200 (JObj [(''webhooks'', JArr (map (webhook_json w s)
        (order_by_desc (sql_ord w) w_created_at
          (tbl_select (\<lambda>wh. w_workspace_id wh = usr_workspace_id u) (webhooks (db s))))))])), s))"

record webhook_input =
  wi_name :: string
  wi_url :: string
  wi_events :: "string list option"
  wi_generate_secret :: "bool option"

definition create_webhook :: "string \<Rightarrow> world \<Rightarrow> user \<Rightarrow> webhook_input \<Rightarrow> server \<Rightarrow> outcome" where
  "create_webhook fresh w u b s =
     (let secret = (if wi_generate_secret b \<noteq> Some False then Some fresh else None);
          events = JArr (map JStr (case wi_events b of None \<Rightarrow> [''*''] | Some es \<Rightarrow> es));
          (i, ws) = tbl_insert (\<lambda>i. \<lparr>w_id = i, w_name = wi_name b, w_url = wi_url b, w_secret = secret, w_events = events,
             w_enabled = True, w_last_fired_at = None, w_last_status = None, w_created_by = usr_username u,
             w_created_at = now_s w, w_updated_at = now_s w, w_consecutive_failures = 0,
             w_workspace_id = usr_workspace_id u\<rparr>) (webhooks (db s))
      in (Inr (json_response 200 (JObj [(''id'', JNum i), (''name'', JStr (wi_name b)), (''url'', JStr (wi_url b)),
            (''secret'', jnull JStr secret), (''events'', events), (''enabled'', JBool True),
            (''message'', JStr (''Webhook created. Save the secret - it won'' @ [CHR 0x27] @ ''t be shown again in full.''))])),
          s\<lparr>db := (db s)\<lparr>webhooks := ws\<rparr>\<rparr>))"

definition webhooks_POST :: "webhook_input schema \<Rightarrow> string \<Rightarrow> world \<Rightarrow> request \<Rightarrow> server \<Rightarrow> outcome" where
  "webhooks_POST parse fresh =
     mutating_route ''admin'' (\<lambda>w req u s. with_body parse req s (\<lambda>b. create_webhook fresh w u b s))"

text \<open>
  The properties of the body of \<open>PUT\<close>, absent where the body does not have them. A name, an address
  or an id of another type is outside the model.
\<close>

record webhook_changes =
  wc_id :: "int option"
  wc_name :: "string option"
  wc_url :: "string option"
  wc_events :: "json option"
  wc_enabled :: "bool option"
  wc_regenerate_secret :: bool
  wc_reset_circuit :: bool

definition apply_webhook_changes :: "string \<Rightarrow> world \<Rightarrow> webhook_changes \<Rightarrow> webhook_row \<Rightarrow> webhook_row" where
  "apply_webhook_changes fresh w c wh = wh\<lparr>w_updated_at := now_s w,
     w_name := set_or_keep (wc_name c) (w_name wh), w_url := set_or_keep (wc_url c) (w_url wh),
     w_events := set_or_keep (wc_events c) (w_events wh),
     w_enabled := (wc_reset_circuit c \<or> set_or_keep (wc_enabled c) (w_enabled wh)),
     w_consecutive_failures := (if wc_reset_circuit c then 0 else w_consecutive_failures wh),
     w_secret := (if wc_regenerate_secret c then Some fresh else w_secret wh)\<rparr>"

definition find_webhook :: "int \<Rightarrow> int \<Rightarrow> server \<Rightarrow> webhook_row option" where
  "find_webhook i wsid s = tbl_first (\<lambda>wh. w_id wh = i \<and> w_workspace_id wh = wsid) (webhooks (db s))"

definition change_webhook :: "(string \<Rightarrow> bool) \<Rightarrow> string \<Rightarrow> world \<Rightarrow> user \<Rightarrow> webhook_changes \<Rightarrow> server \<Rightarrow> outcome" where
  "change_webhook valid_url fresh w u c s =
     (let wsid = usr_workspace_id u in
      case wc_id c of
        None \<Rightarrow> (Inr (error_response 400 ''Webhook ID is required''), s)
      | Some i \<Rightarrow>
          if i = 0 then (Inr (error_response 400 ''Webhook ID is required''), s)
          else case find_webhook i wsid s of
            None \<Rightarrow> (Inr (error_response 404 ''Webhook not found''), s)
          | Some wh \<Rightarrow>
              if (case or_null (wc_url c) of None \<Rightarrow> False | Some a \<Rightarrow> \<not> valid_url a)
              then (Inr (error_response 400 ''Invalid URL''), s)
              else (Inr (json_response 200 (JObj ([(''success'', JBool True)] @
                      (if wc_regenerate_secret c then [(''secret'', JStr fresh), (''message'', JStr ''New secret generated. Save it now.'')]
                       else [])))),
                    update_webhook wh (apply_webhook_changes fresh w c) s))"

definition webhooks_PUT ::
  "(string \<Rightarrow> bool) \<Rightarrow> (json \<Rightarrow> webhook_changes) \<Rightarrow> string \<Rightarrow> world \<Rightarrow> request \<Rightarrow> server \<Rightarrow> outcome"
where
  "webhooks_PUT valid_url changes_of fresh = mutating_route ''admin'' (\<lambda>w req u s.
     case req_body req of
       None \<Rightarrow> (Inr (error_response 500 ''Failed to update webhook''), s)
     | Some JNull \<Rightarrow> (Inr (error_response 500 ''Failed to update webhook''), s)
     | Some b \<Rightarrow> change_webhook valid_url fresh w u (changes_of b) s)"

text \<open>The deliveries of the webhook in the caller's workspace go first; the foreign key takes the others with the webhook.\<close>

definition delete_webhook :: "int \<Rightarrow> int \<Rightarrow> server \<Rightarrow> outcome" where
  "delete_webhook i wsid s =
     (let ds = tbl_delete (\<lambda>d. wd_webhook_id d = i \<and> wd_workspace_id d = wsid) (webhook_deliveries (db s));
          gone = tbl_select (\<lambda>wh. w_id wh = i \<and> w_workspace_id wh = wsid) (webhooks (db s));
          s' = s\<lparr>db := (db s)\<lparr>webhooks := tbl_delete (\<lambda>wh. w_id wh = i \<and> w_workspace_id wh = wsid) (webhooks (db s)),
                 webhook_deliveries := tbl_delete (\<lambda>d. wd_webhook_id d \<in> w_id ` set gone) ds\<rparr>\<rparr>
      in if gone = [] then (Inr (error_response 404 ''Webhook not found''), s')
         else (Inr (json_response 200 (JObj [(''success'', JBool True), (''deleted'', JNum (int (length gone)))])), s'))"

definition webhooks_DELETE :: "world \<Rightarrow> request \<Rightarrow> server \<Rightarrow> outcome" where
  "webhooks_DELETE = mutating_route ''admin'' (\<lambda>w req u s.
     case req_body req of
       None \<Rightarrow> (Inr (error_response 400 ''Request body required''), s)
     | Some JNull \<Rightarrow> (Inr (error_response 500 ''Failed to delete webhook''), s)
     | Some b \<Rightarrow>
         (case num_field ''id'' b of
            None \<Rightarrow> (Inr (error_response 400 ''Webhook ID is required''), s)
          | Some i \<Rightarrow> if i = 0 then (Inr (error_response 400 ''Webhook ID is required''), s)
              else delete_webhook i (usr_workspace_id u) s))"

definition delivery_json :: "delivery_row \<Rightarrow> (string \<times> json) list" where
  "delivery_json d = [(''id'', JNum (wd_id d)), (''webhook_id'', JNum (wd_webhook_id d)),
     (''event_type'', JStr (wd_event_type d)), (''payload'', JStr (stringify (wd_payload d))),
     (''status_code'', jnull JNum (wd_status_code d)), (''response_body'', jnull JStr (wd_response_body d)),
     (''error'', jnull JStr (wd_error d)), (''duration_ms'', JNum (wd_duration_ms d)),
     (''created_at'', JNum (wd_created_at d)), (''attempt'', JNum (wd_attempt d)),
     (''next_retry_at'', jnull JNum (wd_next_retry_at d)), (''is_retry'', JNum (if wd_is_retry d then 1 else 0)),
     (''parent_delivery_id'', jnull JNum (wd_parent_delivery_id d)), (''workspace_id'', JNum (wd_workspace_id d))]"

text \<open>A text compared with an integer column: digits are converted; other spellings of numbers are outside the model.\<close>

definition numeric_text :: "string \<Rightarrow> int option" where
  "numeric_text p = (let d = trim p in if d \<noteq> [] \<and> list_all is_digit d then Some (int (digits_value d)) else None)"

text \<open>A \<open>limit\<close> or \<open>offset\<close> that is not a number is bound as NULL, which the engine refuses.\<close>

definition deliveries_GET :: "world \<Rightarrow> request \<Rightarrow> server \<Rightarrow> outcome" where
  "deliveries_GET w req s = with_role w req ''admin'' s (\<lambda>u.
     (let wsid = usr_workspace_id u;
          hook = (\<lambda>d. case nonempty_param req ''webhook_id'' of None \<Rightarrow> True | Some p \<Rightarrow> numeric_text p = Some (wd_webhook_id d));
          mine = tbl_select (\<lambda>d. wd_workspace_id d = wsid \<and> hook d) (webhook_deliveries (db s));
          joined = List.map_filter (\<lambda>d. map_option (\<lambda>wh. (d, wh)) (webhook_of d s)) mine
      in case (parse_int (or_else (req_query req ''limit'') ''50''), parse_int (or_else (req_query req ''offset'') ''0'')) of
           (Some lm, Some off) \<Rightarrow>
             (Inr (json_response 200 (JObj [(''deliveries'', JArr (map (\<lambda>(d, wh). JObj (delivery_json d @
                 [(''webhook_name'', JStr (w_name wh)), (''webhook_url'', JStr (w_url wh))]))
                 (sql_limit (min lm 200) off (order_by_desc (sql_ord w) (wd_created_at \<circ> fst) joined)))),
               (''total'', JNum (int (length mine)))])), s)
         | _ \<Rightarrow> (Inr (error_response 500 ''Failed to fetch deliveries''), s)))"

definition delivery_result_json :: "delivery_result \<Rightarrow> json" where
  "delivery_result_json r = JObj ([(''success'', JBool (dr_success r)), (''status_code'', jnull JNum (dr_status_code r)),
     (''response_body'', jnull JStr (dr_response_body r)), (''error'', jnull JStr (dr_error r)),
     (''duration_ms'', JNum (dr_duration_ms r))] @ jopt ''delivery_id'' JNum (dr_delivery_id r))"

text \<open>The deliveries the two routes start; neither allows automatic retries.\<close>

definition test_task :: "user \<Rightarrow> webhook_row \<Rightarrow> delivery_task" where
  "test_task u wh = \<lparr>dt_webhook = wh, dt_event = ''test.ping'',
     dt_payload = JObj [(''message'', JStr ''This is a test webhook from Mission Control''), (''webhook_id'', JNum (w_id wh)),
       (''webhook_name'', JStr (w_name wh)), (''triggered_by'', JStr (usr_username u))],
     dt_attempt = 0, dt_parent = None, dt_allow_retry = False\<rparr>"

definition retry_task :: "int \<Rightarrow> int \<Rightarrow> server \<Rightarrow> delivery_task option" where
  "retry_task i wsid s =
     (case tbl_first (\<lambda>d. wd_id d = i \<and> wd_workspace_id d = wsid) (webhook_deliveries (db s)) of
        None \<Rightarrow> None
      | Some d \<Rightarrow> map_option (\<lambda>wh. retry_of False wh d) (webhook_of d s))"

definition respond :: "delivery_result \<times> server \<Rightarrow> outcome" where
  "respond rs = (Inr (json_response 200 (delivery_result_json (fst rs))), snd rs)"

definition webhook_test_POST ::
  "(http_call \<Rightarrow> http_answer) \<Rightarrow> (string \<Rightarrow> string \<Rightarrow> string) \<Rightarrow> rat \<Rightarrow> world \<Rightarrow> request \<Rightarrow> server \<Rightarrow> outcome"
where
  "webhook_test_POST net hmac rnd w req s = with_role w req ''admin'' s (\<lambda>u.
     case req_body req of
       None \<Rightarrow> (Inr (error_response 500 ''Failed to test webhook''), s)
     | Some JNull \<Rightarrow> (Inr (error_response 500 ''Failed to test webhook''), s)
     | Some b \<Rightarrow>
         (case num_field ''id'' b of
            None \<Rightarrow> (Inr (error_response 400 ''Webhook ID is required''), s)
          | Some i \<Rightarrow>
              if i = 0 then (Inr (error_response 400 ''Webhook ID is required''), s)
              else case find_webhook i (usr_workspace_id u) s of
                None \<Rightarrow> (Inr (error_response 404 ''Webhook not found''), s)
              | Some wh \<Rightarrow> respond (deliverWebhook net hmac w rnd (test_task u wh) s)))"

definition webhook_retry_POST ::
  "(http_call \<Rightarrow> http_answer) \<Rightarrow> (string \<Rightarrow> string \<Rightarrow> string) \<Rightarrow> rat \<Rightarrow> world \<Rightarrow> request \<Rightarrow> server \<Rightarrow> outcome"
where
  "webhook_retry_POST net hmac rnd w req s = with_role w req ''admin'' s (\<lambda>u.
     case req_body req of
       None \<Rightarrow> (Inr (error_response 500 ''Failed to retry delivery''), s)
     | Some JNull \<Rightarrow> (Inr (error_response 500 ''Failed to retry delivery''), s)
     | Some b \<Rightarrow>
         (case num_field ''delivery_id'' b of
            None \<Rightarrow> (Inr (error_response 400 ''delivery_id is required''), s)
          | Some i \<Rightarrow>
              if i = 0 then (Inr (error_response 400 ''delivery_id is required''), s)
              else case retry_task i (usr_workspace_id u) s of
                None \<Rightarrow> (Inr (error_response 404 ''Delivery not found''), s)
              | Some t \<Rightarrow> respond (deliverWebhook net hmac w rnd t s)))"

section \<open>Signatures can be verified\<close>

lemma verify_iff:
  "verifyWebhookSignature hmac secret body h \<longleftrightarrow> secret \<noteq> [] \<and> h = Some (signature hmac secret body)"
  by (auto simp: verifyWebhookSignature_def or_null_def signature_def Let_def split: option.splits if_splits)

text \<open>
  Signatures: a receiver's check accepts exactly the HMAC of the raw body under a non-empty
  secret, in the documented format; and the header that a delivery carries passes the check of the
  body that is sent with it under every secret that gives the same HMAC as the webhook's own, the
  own secret among them. A webhook without a secret is never accepted.
\<close>

theorem delivery_signature_verifies:
  "(verifyWebhookSignature hmac secret body h \<longleftrightarrow> secret \<noteq> [] \<and> h = Some (''sha256='' @ hmac secret body)) \<and>
   (verifyWebhookSignature hmac secret (hc_body (deliver_call hmac w t))
      (map_of (hc_headers (deliver_call hmac w t)) ''X-MC-Signature'') \<longleftrightarrow>
    secret \<noteq> [] \<and> (\<exists>own. w_secret (dt_webhook t) = Some own \<and> own \<noteq> [] \<and>
      hmac own (hc_body (deliver_call hmac w t)) = hmac secret (hc_body (deliver_call hmac w t))))"
  by (auto simp: verify_iff signature_def deliver_call_def Let_def or_null_def split: option.splits)

section \<open>Backoff\<close>

lemma backoff_base:
  "attempt \<le> 4 \<Longrightarrow> BACKOFF_SECONDS ! attempt \<in> {30, 300, 1800, 7200, 28800} \<and> BACKOFF_SECONDS ! attempt mod 5 = 0"
  by (auto simp: BACKOFF_SECONDS_def less_Suc_eq numeral_eq_Suc nth_Cons' le_Suc_eq)

lemma nextRetryDelay_jitter:
  assumes "0 \<le> rnd" "rnd \<le> 1" "attempt \<le> 4"
  shows "4 * (BACKOFF_SECONDS ! attempt) \<le> 5 * nextRetryDelay rnd attempt"
    and "5 * nextRetryDelay rnd attempt \<le> 6 * (BACKOFF_SECONDS ! attempt)"
proof -
  let ?b = "BACKOFF_SECONDS ! attempt"
  have b: "0 < ?b" "?b mod 5 = 0" using backoff_base [OF assms(3)] by auto
  then obtain k where k: "?b = 5 * k" "0 < k" by (auto simp: mod_eq_0_iff_dvd elim!: dvdE)
  have d: "nextRetryDelay rnd attempt = \<lfloor>of_int (5 * k) + of_int k * (2 * rnd - 1) + 1 / 2\<rfloor>"
    using assms(3) k(1) by (simp add: nextRetryDelay_def Let_def BACKOFF_SECONDS_def min_def)
  have "- of_int k \<le> of_int k * (2 * rnd - 1)" "of_int k * (2 * rnd - 1) \<le> (of_int k :: rat)"
    using assms(1,2) k(2) by (simp_all add: algebra_simps mult_left_le)
  then have "4 * k \<le> nextRetryDelay rnd attempt" "nextRetryDelay rnd attempt \<le> 6 * k"
    unfolding d by (simp_all add: le_floor_iff floor_le_iff)
  then show "4 * ?b \<le> 5 * nextRetryDelay rnd attempt" "5 * nextRetryDelay rnd attempt \<le> 6 * ?b"
    using k by simp_all
qed

text \<open>
  Retries back off: a delay lies within a fifth of the base of its attempt whatever the random
  number, so it is between 24 seconds and 9.6 hours; and each of the first five delays is longer
  than the one before.
\<close>

theorem retries_back_off:
  assumes "0 \<le> r" "r \<le> 1" "0 \<le> r'" "r' \<le> 1"
  shows "24 \<le> nextRetryDelay r a \<and> nextRetryDelay r a \<le> 34560 \<and>
    (a < b \<and> b \<le> 4 \<longrightarrow> nextRetryDelay r a < nextRetryDelay r' b)"
proof -
  have "length BACKOFF_SECONDS - 1 = 4" by (simp add: BACKOFF_SECONDS_def)
  then have clamp: "nextRetryDelay r a = nextRetryDelay r (min a 4)" unfolding nextRetryDelay_def by simp
  have "24 \<le> nextRetryDelay r (min a 4) \<and> nextRetryDelay r (min a 4) \<le> 34560"
    using nextRetryDelay_jitter [OF assms(1,2), of "min a 4"] backoff_base [of "min a 4"] by auto
  with clamp have "24 \<le> nextRetryDelay r a" "nextRetryDelay r a \<le> 34560" by linarith+
  moreover have "nextRetryDelay r a < nextRetryDelay r' b" if ab: "a < b" "b \<le> 4"
  proof -
    have "6 * (BACKOFF_SECONDS ! a) < 4 * (BACKOFF_SECONDS ! b)"
      using ab by (auto simp: BACKOFF_SECONDS_def le_Suc_eq less_Suc_eq numeral_eq_Suc)
    then show ?thesis
      using nextRetryDelay_jitter(2) [OF assms(1,2), of a] nextRetryDelay_jitter(1) [OF assms(3,4), of b] ab by linarith
  qed
  ultimately show ?thesis by blast
qed

theorem retries_back_off_witness: "nextRetryDelay (1 / 2) 0 < nextRetryDelay (1 / 4) 1 \<and> 24 \<le> nextRetryDelay (1 / 2) 0"
  using retries_back_off [of "1 / 2" "1 / 4" 0 1] by simp

section \<open>The circuit breaker\<close>

definition same_hook :: "webhook_row \<Rightarrow> webhook_row \<Rightarrow> bool" where
  "same_hook wh x \<longleftrightarrow> w_id x = w_id wh \<and> w_workspace_id x = w_workspace_id wh"

lemma update_webhook_rows:
  "rows (webhooks (db (update_webhook wh f s))) = map (\<lambda>x. if same_hook wh x then f x else x) (rows (webhooks (db s)))"
  by (simp add: update_webhook_def rows_tbl_update same_hook_def)

lemma find_update_webhook:
  assumes "\<And>x. w_id (f x) = w_id x" "\<And>x. w_workspace_id (f x) = w_workspace_id x"
  shows "find_webhook (w_id wh) (w_workspace_id wh) (update_webhook wh f s) =
    map_option f (find_webhook (w_id wh) (w_workspace_id wh) s)"
proof -
  have "find (same_hook wh) (map (\<lambda>x. if same_hook wh x then f x else x) xs) = map_option f (find (same_hook wh) xs)" for xs
    using assms by (induction xs) (auto simp: same_hook_def)
  then show ?thesis
    unfolding find_webhook_def tbl_first_def update_webhook_rows by (simp add: same_hook_def [abs_def])
qed

definition other_hooks :: "webhook_row \<Rightarrow> server \<Rightarrow> webhook_row list" where
  "other_hooks wh s = filter (\<lambda>x. \<not> same_hook wh x) (rows (webhooks (db s)))"

lemma other_hooks_update:
  assumes "\<And>x. w_id (f x) = w_id x" "\<And>x. w_workspace_id (f x) = w_workspace_id x"
  shows "other_hooks wh (update_webhook wh f s) = other_hooks wh s"
proof -
  have "filter (\<lambda>x. \<not> same_hook wh x) (map (\<lambda>x. if same_hook wh x then f x else x) xs) = filter (\<lambda>x. \<not> same_hook wh x) xs" for xs
    using assms by (induction xs) (auto simp: same_hook_def)
  then show ?thesis by (simp add: other_hooks_def update_webhook_rows)
qed

lemma webhooks_frame [simp]:
  "webhooks (db (prune_deliveries w wh s)) = webhooks (db s)"
  "webhooks (db (snd (insert_delivery w t a s))) = webhooks (db s)"
  by (simp_all add: prune_deliveries_def insert_delivery_def Let_def split: prod.split)

lemma find_webhook_frame [simp]:
  "find_webhook i n (prune_deliveries w wh s) = find_webhook i n s"
  "find_webhook i n (snd (insert_delivery w t a s)) = find_webhook i n s"
  "find_webhook i n (s\<lparr>db := (db s)\<lparr>webhook_deliveries := ds\<rparr>\<rparr>) = find_webhook i n s"
  by (simp_all add: find_webhook_def)

lemma other_hooks_frame [simp]:
  "other_hooks wh (prune_deliveries w wh' s) = other_hooks wh s"
  "other_hooks wh (snd (insert_delivery w t a s)) = other_hooks wh s"
  "other_hooks wh (s\<lparr>db := (db s)\<lparr>webhook_deliveries := ds\<rparr>\<rparr>) = other_hooks wh s"
  by (simp_all add: other_hooks_def)

text \<open>What a delivery that allows retries does to the counter and the switch of its webhook.\<close>

definition count_attempt :: "world \<Rightarrow> delivery_task \<Rightarrow> bool \<Rightarrow> webhook_row \<Rightarrow> webhook_row" where
  "count_attempt w t success x =
     (if \<not> dt_allow_retry t then x
      else if success then x\<lparr>w_consecutive_failures := 0\<rparr>
      else let x' = x\<lparr>w_consecutive_failures := w_consecutive_failures x + 1\<rparr>
           in if MAX_RETRIES w - 1 \<le> int (dt_attempt t) \<and> MAX_RETRIES w \<le> w_consecutive_failures x'
              then x'\<lparr>w_enabled := False, w_updated_at := now_s w\<rparr> else x')"

lemma after_attempt_hook:
  assumes "find_webhook (w_id (dt_webhook t)) (w_workspace_id (dt_webhook t)) s = Some x"
  shows "find_webhook (w_id (dt_webhook t)) (w_workspace_id (dt_webhook t)) (after_attempt w rnd t success i s) =
    Some (count_attempt w t success x)"
  using assms
  by (simp add: after_attempt_def count_attempt_def Let_def find_update_webhook find_webhook_def [symmetric])

lemma after_attempt_others: "other_hooks (dt_webhook t) (after_attempt w rnd t success i s) = other_hooks (dt_webhook t) s"
  by (simp add: after_attempt_def Let_def other_hooks_update split: option.split)

lemma find_webhook_get:
  "find_webhook i n s = Some x \<Longrightarrow> tbl_get w_id (webhooks (db s)) i \<noteq> None"
  by (auto simp: find_webhook_def tbl_get_None dest!: tbl_first_in_rows)

lemma deliver_finish_hooks:
  assumes "find_webhook (w_id (dt_webhook t)) (w_workspace_id (dt_webhook t)) s = Some x"
    and "deliver_finish w rnd a t s = (r, s')"
  shows "find_webhook (w_id (dt_webhook t)) (w_workspace_id (dt_webhook t)) s' =
      Some (count_attempt w t (dr_success r) (x\<lparr>w_last_fired_at := Some (now_s w),
        w_last_status := Some (case dr_status_code r of None \<Rightarrow> -1 | Some c \<Rightarrow> c), w_updated_at := now_s w\<rparr>))"
    and "other_hooks (dt_webhook t) s' = other_hooks (dt_webhook t) s"
    and "dr_success r \<longleftrightarrow> (\<exists>c b. ha_outcome a = Inr (c, b) \<and> 200 \<le> c \<and> c < 300)"
proof -
  obtain st b e where f: "answer_fields a = (st, b, e)" by (cases "answer_fields a")
  obtain i s1 where ins: "insert_delivery w t a s = (i, s1)" by (cases "insert_delivery w t a s")
  have s1: "find_webhook k n s1 = find_webhook k n s" "other_hooks wh s1 = other_hooks wh s" for k n wh
    using find_webhook_frame(2) [of k n w t a s] other_hooks_frame(2) [of wh w t a s] ins by simp_all
  show "find_webhook (w_id (dt_webhook t)) (w_workspace_id (dt_webhook t)) s' =
      Some (count_attempt w t (dr_success r) (x\<lparr>w_last_fired_at := Some (now_s w),
        w_last_status := Some (case dr_status_code r of None \<Rightarrow> -1 | Some c \<Rightarrow> c), w_updated_at := now_s w\<rparr>))"
    and "other_hooks (dt_webhook t) s' = other_hooks (dt_webhook t) s"
    using assms f ins find_webhook_get [OF assms(1)]
    by (auto simp: deliver_finish_def Let_def after_attempt_hook find_update_webhook s1 after_attempt_others other_hooks_update)
  show "dr_success r \<longleftrightarrow> (\<exists>c b. ha_outcome a = Inr (c, b) \<and> 200 \<le> c \<and> c < 300)"
    using assms(2) f ins
    by (auto simp: deliver_finish_def Let_def answer_fields_def is_success_def split: if_splits sum.splits prod.splits)
qed

text \<open>
  The circuit breaker, on every branch: a finished delivery that allows retries resets the
  failure count of its webhook when the answer is a 2xx status and raises it by one otherwise; the
  webhook is switched off exactly when the failed attempt is the last one and the count reaches the
  maximum. Deliveries without retries leave count and switch alone; no delivery touches another webhook.
\<close>

theorem circuit_breaker:
  assumes "find_webhook (w_id (dt_webhook t)) (w_workspace_id (dt_webhook t)) s = Some x"
    and "deliver_finish w rnd a t s = (r, s')"
  shows "\<exists>x'. find_webhook (w_id (dt_webhook t)) (w_workspace_id (dt_webhook t)) s' = Some x' \<and>
    (dr_success r \<longleftrightarrow> (\<exists>c b. ha_outcome a = Inr (c, b) \<and> 200 \<le> c \<and> c < 300)) \<and>
    w_consecutive_failures x' = (if \<not> dt_allow_retry t then w_consecutive_failures x
      else if dr_success r then 0 else w_consecutive_failures x + 1) \<and>
    (w_enabled x' \<longleftrightarrow> w_enabled x \<and> \<not> (dt_allow_retry t \<and> \<not> dr_success r \<and>
      MAX_RETRIES w \<le> int (dt_attempt t) + 1 \<and> MAX_RETRIES w \<le> w_consecutive_failures x + 1)) \<and>
    w_url x' = w_url x \<and> w_secret x' = w_secret x \<and> w_events x' = w_events x \<and>
    other_hooks (dt_webhook t) s' = other_hooks (dt_webhook t) s"
  unfolding deliver_finish_hooks(1,2) [OF assms] using deliver_finish_hooks(3) [OF assms]
  by (auto simp: count_attempt_def Let_def)

definition demo_hook :: webhook_row where
  "demo_hook = \<lparr>w_id = 1, w_name = ''ci'', w_url = ''https://ci.local/hook'', w_secret = Some ''s3cret'',
     w_events = JArr [JStr ''activity.task_created''], w_enabled = True, w_last_fired_at = None, w_last_status = None,
     w_created_by = ''ada'', w_created_at = 0, w_updated_at = 0, w_consecutive_failures = 4, w_workspace_id = 1\<rparr>"

definition demo_hook_state :: server where
  "demo_hook_state = init_server\<lparr>db := empty_db\<lparr>webhooks := \<lparr>seq = 1, rows = [demo_hook]\<rparr>\<rparr>\<rparr>"

definition demo_last_attempt :: delivery_task where
  "demo_last_attempt = \<lparr>dt_webhook = demo_hook, dt_event = ''activity.task_created'', dt_payload = JObj [],
     dt_attempt = 4, dt_parent = Some 7, dt_allow_retry = True\<rparr>"

definition demo_refusal :: http_answer where
  "demo_refusal = \<lparr>ha_outcome = Inr (503, Some ''busy''), ha_ms = 12\<rparr>"

lemma demo_find: "find_webhook 1 1 demo_hook_state = Some demo_hook"
  by (simp add: find_webhook_def tbl_first_def demo_hook_state_def demo_hook_def)

lemma demo_max_retries: "MAX_RETRIES demo_world = 5"
  by (simp add: MAX_RETRIES_def demo_world_def parse_int_def parse_unsigned_def trim_def is_ws_def is_digit_def
      digits_value_def takeWhile.simps)

theorem circuit_breaker_witness:
  "\<exists>x'. find_webhook 1 1 (snd (deliver_finish demo_world 0 demo_refusal demo_last_attempt demo_hook_state)) = Some x' \<and>
     \<not> w_enabled x' \<and> w_consecutive_failures x' = 5"
proof -
  obtain r s' where f: "deliver_finish demo_world 0 demo_refusal demo_last_attempt demo_hook_state = (r, s')"
    by (cases "deliver_finish demo_world 0 demo_refusal demo_last_attempt demo_hook_state")
  have t: "dt_webhook demo_last_attempt = demo_hook" "dt_attempt demo_last_attempt = 4" "dt_allow_retry demo_last_attempt"
    "w_id demo_hook = 1" "w_workspace_id demo_hook = 1" "w_consecutive_failures demo_hook = 4" "w_enabled demo_hook"
    by (simp_all add: demo_last_attempt_def demo_hook_def)
  have "find_webhook (w_id (dt_webhook demo_last_attempt)) (w_workspace_id (dt_webhook demo_last_attempt)) demo_hook_state
      = Some demo_hook" using demo_find t by simp
  from circuit_breaker [OF this f] show ?thesis
    unfolding f by (auto simp: t demo_max_retries demo_refusal_def)
qed

section \<open>Deliveries under way\<close>

text \<open>
  The state of the webhook machinery: the server, the deliveries that wait for an answer, and as
  history the logged deliveries whose automatic retry has been started, with their attempt numbers.
  Deliveries finish in any order; between them every route may run, and anything that leaves the two
  tables alone. The maximal number of attempts is fixed when the module is loaded.
\<close>

type_synonym webhook_state = "server \<times> delivery_task list \<times> (int \<times> int) list"

definition retried_from :: "delivery_task \<Rightarrow> int \<times> int" where
  "retried_from t = (the (dt_parent t), int (dt_attempt t) - 1)"

inductive webhook_step :: "int \<Rightarrow> webhook_state \<Rightarrow> webhook_state \<Rightarrow> bool" for m where
  event: "webhook_step m (s, q, h) (s, q @ on_server_event ev s, h)"
| retries: "MAX_RETRIES w = m \<Longrightarrow> sql_order (sql_ord w) \<Longrightarrow>
    webhook_step m (s, q, h)
      (snd (take_retries w s), q @ fst (take_retries w s), h @ map retried_from (fst (take_retries w s)))"
| test: "find_webhook i n s = Some wh \<Longrightarrow> webhook_step m (s, q, h) (s, test_task u wh # q, h)"
| manual: "retry_task i n s = Some t \<Longrightarrow> webhook_step m (s, q, h) (s, t # q, h)"
| finish: "MAX_RETRIES w = m \<Longrightarrow> t \<in> set q \<Longrightarrow>
    webhook_step m (s, q, h) (snd (deliver_finish w rnd a t s), remove1 t q, h)"
| create: "webhook_step m (s, q, h) (snd (webhooks_POST parse fresh w req s), q, h)"
| change: "webhook_step m (s, q, h) (snd (webhooks_PUT valid_url changes_of fresh w req s), q, h)"
| delete: "webhook_step m (s, q, h) (snd (webhooks_DELETE w req s), q, h)"
| other: "webhooks (db s') = webhooks (db s) \<Longrightarrow> webhook_deliveries (db s') = webhook_deliveries (db s) \<Longrightarrow>
    webhook_step m (s, q, h) (s', q, h)"

inductive_cases webhook_stepE: "webhook_step m sq sq'"

definition delivery_ok :: "int \<Rightarrow> delivery_row \<Rightarrow> bool" where
  "delivery_ok m d \<longleftrightarrow> 0 \<le> wd_attempt d \<and> (wd_next_retry_at d \<noteq> None \<longrightarrow>
     wd_attempt d < m - 1 \<and> \<not> is_success (wd_status_code d))"

definition task_ok :: "int \<Rightarrow> delivery_task \<Rightarrow> bool" where
  "task_ok m t \<longleftrightarrow> (dt_allow_retry t \<longrightarrow> dt_attempt t = 0 \<or> int (dt_attempt t) \<le> m - 1)"

definition log_of :: "int \<Rightarrow> int \<Rightarrow> delivery_row tbl \<Rightarrow> delivery_row list" where
  "log_of i n ds = filter (\<lambda>d. wd_webhook_id d = i \<and> wd_workspace_id d = n) (rows ds)"

definition log_ok :: "int \<Rightarrow> delivery_row tbl \<Rightarrow> bool" where
  "log_ok m ds \<longleftrightarrow> tbl_wf wd_id ds \<and> (\<forall>d \<in> set (rows ds). delivery_ok m d) \<and> (\<forall>i n. length (log_of i n ds) \<le> 200)"

text \<open>
  Whatever the history names is an old delivery that no longer waits for a retry, and an automatic
  delivery that is under way is a first attempt or follows a delivery of the history.
\<close>

definition history_ok :: "delivery_row tbl \<Rightarrow> (int \<times> int) list \<Rightarrow> bool" where
  "history_ok ds h \<longleftrightarrow> distinct (map fst h) \<and> (\<forall>(i, a) \<in> set h. i \<le> seq ds) \<and>
     (\<forall>d \<in> set (rows ds). wd_id d \<in> fst ` set h \<longrightarrow> wd_next_retry_at d = None)"

definition chained :: "(int \<times> int) list \<Rightarrow> delivery_task \<Rightarrow> bool" where
  "chained h t \<longleftrightarrow> (dt_allow_retry t \<longrightarrow>
     (case dt_parent t of None \<Rightarrow> dt_attempt t = 0 | Some i \<Rightarrow> (i, int (dt_attempt t) - 1) \<in> set h))"

definition webhook_inv :: "int \<Rightarrow> webhook_state \<Rightarrow> bool" where
  "webhook_inv m = (\<lambda>(s, q, h). log_ok m (webhook_deliveries (db s)) \<and> history_ok (webhook_deliveries (db s)) h \<and>
     (\<forall>t \<in> set q. task_ok m t \<and> chained h t) \<and> (\<forall>(i, a) \<in> set h. 0 \<le> a \<and> a < m - 1))"

lemma length_log_of_delete: "length (log_of i n (tbl_delete p ds)) \<le> length (log_of i n ds)"
proof -
  have "log_of i n (tbl_delete p ds) = filter (\<lambda>d. \<not> p d) (log_of i n ds)"
    by (simp add: log_of_def rows_tbl_delete conj_commute)
  then show ?thesis by simp
qed

lemma log_ok_delete: "log_ok m ds \<Longrightarrow> log_ok m (tbl_delete p ds)"
  unfolding log_ok_def
  by (auto simp: delivery_rows.wf_delete rows_tbl_delete intro: order_trans [OF length_log_of_delete])

lemma log_ok_update:
  assumes "log_ok m ds" and "\<And>d. wd_id (f d) = wd_id d" "\<And>d. wd_webhook_id (f d) = wd_webhook_id d"
    "\<And>d. wd_workspace_id (f d) = wd_workspace_id d" "\<And>d. d \<in> set (rows ds) \<Longrightarrow> p d \<Longrightarrow> delivery_ok m (f d)"
  shows "log_ok m (tbl_update p f ds)"
proof -
  have "length (filter (\<lambda>d. wd_webhook_id d = i \<and> wd_workspace_id d = n) (map (\<lambda>d. if p d then f d else d) xs)) =
      length (filter (\<lambda>d. wd_webhook_id d = i \<and> wd_workspace_id d = n) xs)" for i n xs
    using assms(3,4) by (induction xs) auto
  then have "length (log_of i n (tbl_update p f ds)) = length (log_of i n ds)" for i n
    by (simp add: log_of_def rows_tbl_update)
  with assms show ?thesis
    unfolding log_ok_def by (auto simp: delivery_rows.wf_update rows_tbl_update)
qed

text \<open>A finished delivery writes one row, which it may schedule, and then prunes the log of its webhook.\<close>

definition new_delivery :: "world \<Rightarrow> rat \<Rightarrow> http_answer \<Rightarrow> delivery_task \<Rightarrow> int \<Rightarrow> delivery_row" where
  "new_delivery w rnd a t i = (case answer_fields a of (status, body, err) \<Rightarrow>
     \<lparr>wd_id = i, wd_webhook_id = w_id (dt_webhook t), wd_event_type = dt_event t,
      wd_payload = delivery_body w t, wd_status_code = status, wd_response_body = body, wd_error = err,
      wd_duration_ms = ha_ms a, wd_created_at = now_s w, wd_attempt = int (dt_attempt t),
      wd_next_retry_at = (if dt_allow_retry t \<and> \<not> is_success status \<and> int (dt_attempt t) < MAX_RETRIES w - 1
        then Some (now_s w + nextRetryDelay rnd (dt_attempt t)) else None),
      wd_is_retry = (0 < dt_attempt t), wd_parent_delivery_id = dt_parent t,
      wd_workspace_id = w_workspace_id (dt_webhook t)\<rparr>)"

lemma after_attempt_deliveries:
  "webhook_deliveries (db (after_attempt w rnd t success i s)) =
    (if dt_allow_retry t \<and> \<not> success \<and> int (dt_attempt t) < MAX_RETRIES w - 1
     then tbl_update (\<lambda>d. wd_id d = i) (\<lambda>d. d\<lparr>wd_next_retry_at := Some (now_s w + nextRetryDelay rnd (dt_attempt t))\<rparr>)
       (webhook_deliveries (db s))
     else webhook_deliveries (db s))"
  by (simp add: after_attempt_def Let_def update_webhook_def split: option.split)

lemma insert_then_schedule:
  assumes "tbl_wf wd_id ds" "wd_id (mk (seq ds + 1)) = seq ds + 1"
  shows "rows (tbl_update (\<lambda>d. wd_id d = seq ds + 1) f (snd (tbl_insert mk ds))) = rows ds @ [f (mk (seq ds + 1))]"
proof -
  have "\<forall>d \<in> set (rows ds). wd_id d \<noteq> seq ds + 1" using assms(1) by (auto simp: tbl_wf_def)
  then have "map (\<lambda>d. if wd_id d = seq ds + 1 then f d else d) (rows ds) = rows ds" by (intro map_idI) auto
  with assms(2) show ?thesis by (simp add: rows_tbl_update rows_tbl_insert)
qed

lemma deliver_finish_rows:
  assumes "tbl_wf wd_id (webhook_deliveries (db s))" and "tbl_get w_id (webhooks (db s)) (w_id (dt_webhook t)) \<noteq> None"
  shows "\<exists>s3. snd (deliver_finish w rnd a t s) = prune_deliveries w (dt_webhook t) s3 \<and>
    seq (webhook_deliveries (db s3)) = seq (webhook_deliveries (db s)) + 1 \<and>
    rows (webhook_deliveries (db s3)) = rows (webhook_deliveries (db s)) @
      [new_delivery w rnd a t (seq (webhook_deliveries (db s)) + 1)]"
proof -
  obtain st b e where f: "answer_fields a = (st, b, e)" by (cases "answer_fields a")
  let ?wh = "dt_webhook t" and ?i = "seq (webhook_deliveries (db s)) + 1"
  let ?s2 = "update_webhook ?wh (\<lambda>x. x\<lparr>w_last_fired_at := Some (now_s w),
      w_last_status := Some (case st of None \<Rightarrow> -1 | Some c \<Rightarrow> c), w_updated_at := now_s w\<rparr>) (snd (insert_delivery w t a s))"
  have i: "fst (insert_delivery w t a s) = ?i" by (simp add: insert_delivery_def f Let_def case_prod_beta)
  have "snd (deliver_finish w rnd a t s) = prune_deliveries w ?wh (after_attempt w rnd t (is_success st) ?i ?s2)"
    using assms(2) i by (auto simp: deliver_finish_def f Let_def case_prod_beta)
  moreover have "seq (webhook_deliveries (db (after_attempt w rnd t (is_success st) ?i ?s2))) = ?i"
    by (simp add: after_attempt_deliveries update_webhook_def insert_delivery_def f Let_def case_prod_beta)
  moreover have "rows (webhook_deliveries (db (after_attempt w rnd t (is_success st) ?i ?s2))) =
      rows (webhook_deliveries (db s)) @ [new_delivery w rnd a t ?i]"
    by (simp add: after_attempt_deliveries update_webhook_def insert_delivery_def f Let_def case_prod_beta
        insert_then_schedule [OF assms(1)] rows_tbl_insert new_delivery_def)
  ultimately show ?thesis by blast
qed

lemma prune_bound:
  assumes "tbl_wf wd_id (webhook_deliveries (db s))"
  shows "length (log_of (w_id wh) (w_workspace_id wh) (webhook_deliveries (db (prune_deliveries w wh s)))) \<le> 200"
proof -
  let ?ds = "webhook_deliveries (db s)"
  let ?kept = "map wd_id (sql_limit 200 0 (order_by_desc (sql_ord w) wd_created_at (tbl_select (of_webhook wh) ?ds)))"
  let ?log = "log_of (w_id wh) (w_workspace_id wh) (webhook_deliveries (db (prune_deliveries w wh s)))"
  have log: "?log = filter (\<lambda>d. of_webhook wh d \<and> wd_id d \<in> set ?kept) (rows ?ds)"
    unfolding log_of_def prune_deliveries_def Let_def by (auto simp: rows_tbl_delete of_webhook_def intro: filter_cong)
  have "distinct (map wd_id ?log)" using assms unfolding log by (auto simp: tbl_wf_def distinct_map_filter)
  then have "length ?log = card (wd_id ` set ?log)" by (metis distinct_card length_map set_map)
  also have "\<dots> \<le> card (set ?kept)" unfolding log by (intro card_mono) auto
  also have "\<dots> \<le> length ?kept" by (rule card_length)
  also have "\<dots> \<le> 200" by (simp add: sql_limit_def Let_def)
  finally show ?thesis .
qed

lemma log_ok_finish:
  assumes ok: "log_ok m (webhook_deliveries (db s))" and m: "MAX_RETRIES w = m"
  shows "log_ok m (webhook_deliveries (db (snd (deliver_finish w rnd a t s))))"
proof (cases "tbl_get w_id (webhooks (db s)) (w_id (dt_webhook t))")
  case None
  with ok show ?thesis by (simp add: deliver_finish_def Let_def case_prod_beta)
next
  case (Some y)
  let ?ds = "webhook_deliveries (db s)" and ?wh = "dt_webhook t"
  let ?new = "new_delivery w rnd a t (seq ?ds + 1)"
  from ok have wf: "tbl_wf wd_id ?ds" by (simp add: log_ok_def)
  obtain s3 where s3: "snd (deliver_finish w rnd a t s) = prune_deliveries w ?wh s3"
    "seq (webhook_deliveries (db s3)) = seq ?ds + 1" "rows (webhook_deliveries (db s3)) = rows ?ds @ [?new]"
    using deliver_finish_rows [OF wf, of t w rnd a] Some by auto
  have new: "wd_id ?new = seq ?ds + 1" "wd_webhook_id ?new = w_id ?wh" "wd_workspace_id ?new = w_workspace_id ?wh"
    "delivery_ok m ?new"
    using m by (simp_all add: new_delivery_def delivery_ok_def case_prod_beta)
  let ?p = "prune_deliveries w ?wh s3"
  have del: "\<exists>p. webhook_deliveries (db ?p) = tbl_delete p (webhook_deliveries (db s3))"
    by (auto simp: prune_deliveries_def Let_def)
  have wf3: "tbl_wf wd_id (webhook_deliveries (db s3))"
    using wf s3(2,3) new(1) by (fastforce simp: tbl_wf_def)
  have "length (log_of i n (webhook_deliveries (db ?p))) \<le> 200" for i n
  proof (cases "i = w_id ?wh \<and> n = w_workspace_id ?wh")
    case True
    with prune_bound [OF wf3, of ?wh w] show ?thesis by simp
  next
    case False
    from del have "length (log_of i n (webhook_deliveries (db ?p))) \<le> length (log_of i n (webhook_deliveries (db s3)))"
      by (auto simp: length_log_of_delete)
    also have "log_of i n (webhook_deliveries (db s3)) = log_of i n ?ds" using False new by (auto simp: log_of_def s3(3))
    finally show ?thesis using ok by (auto simp: log_ok_def intro: order_trans)
  qed
  moreover have "\<forall>d \<in> set (rows (webhook_deliveries (db ?p))). delivery_ok m d"
    using ok new(4) del s3(3) by (auto simp: log_ok_def rows_tbl_delete split: if_splits)
  moreover have "tbl_wf wd_id (webhook_deliveries (db ?p))" using del wf3 by (auto simp: delivery_rows.wf_delete)
  ultimately show ?thesis using s3(1) by (simp add: log_ok_def)
qed

lemma in_map_filter: "y \<in> set (List.map_filter f xs) \<longleftrightarrow> (\<exists>x \<in> set xs. f x = Some y)"
  by (force simp: map_filter_def)

lemma pendingRetries_sound:
  assumes "(d, wh) \<in> set (pendingRetries w s)" and "sql_order (sql_ord w)"
  shows "d \<in> set (rows (webhook_deliveries (db s))) \<and> webhook_of d s = Some wh \<and> w_enabled wh \<and> due w d"
  using assms(1)
  by (auto simp: pendingRetries_def Let_def sql_limit_def in_map_filter sql_order.set_order_by_desc [OF assms(2)]
      dest!: in_set_takeD split: option.splits if_splits)

lemma log_ok_take_retries:
  assumes "log_ok m (webhook_deliveries (db s))"
  shows "log_ok m (webhook_deliveries (db (snd (take_retries w s))))"
proof -
  have "log_ok m (foldl (\<lambda>ds (d, wh :: webhook_row). tbl_update (\<lambda>x. wd_id x = wd_id d \<and> wd_workspace_id x = wd_workspace_id d)
      (\<lambda>x. x\<lparr>wd_next_retry_at := None\<rparr>) ds) ds ps)" if "log_ok m ds" for ds ps
    using that
  proof (induction ps arbitrary: ds)
    case (Cons p ps)
    have "log_ok m (tbl_update (\<lambda>x. wd_id x = wd_id (fst p) \<and> wd_workspace_id x = wd_workspace_id (fst p))
        (\<lambda>x. x\<lparr>wd_next_retry_at := None\<rparr>) ds)"
      using Cons.prems by (intro log_ok_update) (auto simp: log_ok_def delivery_ok_def)
    from Cons.IH [OF this] show ?case by (simp add: case_prod_beta)
  qed simp
  with assms show ?thesis by (simp add: take_retries_def Let_def)
qed

lemma task_ok_take_retries:
  assumes "log_ok m (webhook_deliveries (db s))" "sql_order (sql_ord w)" "t \<in> set (fst (take_retries w s))"
  shows "task_ok m t"
proof -
  from assms(3) obtain d wh where t: "t = retry_of True wh d" and p: "(d, wh) \<in> set (pendingRetries w s)"
    by (auto simp: take_retries_def Let_def)
  from pendingRetries_sound [OF p assms(2)] assms(1) have "delivery_ok m d" "wd_next_retry_at d \<noteq> None"
    by (auto simp: log_ok_def due_def split: option.splits)
  then show ?thesis by (auto simp: t task_ok_def retry_of_def delivery_ok_def)
qed

lemma history_ok_iff:
  "history_ok ds h \<longleftrightarrow> distinct (map fst h) \<and> (\<forall>i \<in> fst ` set h. i \<le> seq ds) \<and>
     (\<forall>d \<in> set (rows ds). wd_id d \<in> fst ` set h \<longrightarrow> wd_next_retry_at d = None)"
  by (simp add: history_ok_def case_prod_beta)

lemma history_ok_delete: "history_ok ds h \<Longrightarrow> history_ok (tbl_delete p ds) h"
  by (auto simp: history_ok_def rows_tbl_delete tbl_delete_def)

lemma history_ok_finish:
  assumes ok: "history_ok (webhook_deliveries (db s)) h" and wf: "tbl_wf wd_id (webhook_deliveries (db s))"
  shows "history_ok (webhook_deliveries (db (snd (deliver_finish w rnd a t s)))) h"
proof (cases "tbl_get w_id (webhooks (db s)) (w_id (dt_webhook t))")
  case None
  with ok show ?thesis by (simp add: deliver_finish_def Let_def case_prod_beta)
next
  case (Some y)
  let ?ds = "webhook_deliveries (db s)"
  let ?new = "new_delivery w rnd a t (seq ?ds + 1)"
  obtain s3 where s3: "snd (deliver_finish w rnd a t s) = prune_deliveries w (dt_webhook t) s3"
    "seq (webhook_deliveries (db s3)) = seq ?ds + 1" "rows (webhook_deliveries (db s3)) = rows ?ds @ [?new]"
    using deliver_finish_rows [OF wf, of t w rnd a] Some by auto
  have "wd_id ?new = seq ?ds + 1" by (simp add: new_delivery_def case_prod_beta)
  with ok have "history_ok (webhook_deliveries (db s3)) h"
    unfolding history_ok_def s3(2,3) by force
  then show ?thesis unfolding s3(1) prune_deliveries_def Let_def by (simp add: history_ok_delete)
qed

text \<open>A retry run takes different deliveries, clears what they wait for, and touches no other row.\<close>

lemma take_retries_rows:
  "rows (webhook_deliveries (db (snd (take_retries w s)))) =
     map (\<lambda>x. if \<exists>(d, wh) \<in> set (pendingRetries w s). wd_id x = wd_id d \<and> wd_workspace_id x = wd_workspace_id d
          then x\<lparr>wd_next_retry_at := None\<rparr> else x) (rows (webhook_deliveries (db s))) \<and>
   seq (webhook_deliveries (db (snd (take_retries w s)))) = seq (webhook_deliveries (db s))"
proof -
  have "rows (foldl (\<lambda>ds (d, wh :: webhook_row). tbl_update (\<lambda>x. wd_id x = wd_id d \<and> wd_workspace_id x = wd_workspace_id d)
        (\<lambda>x. x\<lparr>wd_next_retry_at := None\<rparr>) ds) ds ps) =
      map (\<lambda>x. if \<exists>(d, wh) \<in> set ps. wd_id x = wd_id d \<and> wd_workspace_id x = wd_workspace_id d
          then x\<lparr>wd_next_retry_at := None\<rparr> else x) (rows ds) \<and>
      seq (foldl (\<lambda>ds (d, wh :: webhook_row). tbl_update (\<lambda>x. wd_id x = wd_id d \<and> wd_workspace_id x = wd_workspace_id d)
        (\<lambda>x. x\<lparr>wd_next_retry_at := None\<rparr>) ds) ds ps) = seq ds" for ds ps
    by (induction ps arbitrary: ds) (auto simp: rows_tbl_update case_prod_beta)
  then show ?thesis by (simp add: take_retries_def Let_def)
qed

lemma pendingRetries_distinct:
  assumes "tbl_wf wd_id (webhook_deliveries (db s))" and "sql_order (sql_ord w)"
  shows "distinct (map (wd_id \<circ> fst) (pendingRetries w s))"
proof -
  let ?f = "\<lambda>d. case webhook_of d s of None \<Rightarrow> None | Some wh \<Rightarrow> if w_enabled wh \<and> due w d then Some (d, wh) else None"
  have sub: "d \<in> set ds" if "(d, wh) \<in> set (List.map_filter ?f ds)" for d wh ds
    using that by (auto simp: in_map_filter split: option.splits if_splits)
  have "distinct (map (wd_id \<circ> fst) (List.map_filter ?f ds))" if "distinct (map wd_id ds)" for ds
    using that by (induction ds) (auto simp: map_filter_simps dest!: sub split: option.splits)
  then have "distinct (map (wd_id \<circ> fst) (List.map_filter ?f (rows (webhook_deliveries (db s)))))"
    using assms(1) by (simp add: tbl_wf_def)
  moreover have "mset (map (wd_id \<circ> fst) (order_by_desc (sql_ord w) (\<lambda>_. 0) ps)) = mset (map (wd_id \<circ> fst) ps)" for ps
    by (simp add: sql_order.mset_order_by_desc [OF assms(2)])
  ultimately have "distinct (map (wd_id \<circ> fst) (order_by_desc (sql_ord w) (\<lambda>_. 0)
      (List.map_filter ?f (rows (webhook_deliveries (db s))))))"
    using mset_eq_imp_distinct_iff by blast
  then show ?thesis by (simp add: pendingRetries_def Let_def sql_limit_def take_map [symmetric] distinct_take)
qed

lemma history_ok_take_retries:
  assumes ok: "history_ok (webhook_deliveries (db s)) h" and wf: "tbl_wf wd_id (webhook_deliveries (db s))"
    and ord: "sql_order (sql_ord w)"
  shows "history_ok (webhook_deliveries (db (snd (take_retries w s)))) (h @ map retried_from (fst (take_retries w s)))"
proof -
  let ?ds = "webhook_deliveries (db s)" and ?ps = "pendingRetries w s"
  have ids: "map fst (map retried_from (fst (take_retries w s))) = map (wd_id \<circ> fst) ?ps"
    by (simp add: take_retries_def Let_def case_prod_beta retried_from_def retry_of_def comp_def)
  have row: "d \<in> set (rows ?ds) \<and> wd_next_retry_at d \<noteq> None" if "(d, wh) \<in> set ?ps" for d wh
    using pendingRetries_sound [OF that ord] by (auto simp: due_def split: option.splits)
  have same: "d = d'" if "d \<in> set (rows ?ds)" "d' \<in> set (rows ?ds)" "wd_id d = wd_id d'" for d d'
    using wf that by (auto simp: tbl_wf_def distinct_map dest: inj_onD)
  have fresh: "(wd_id \<circ> fst) p \<notin> fst ` set h" if "p \<in> set ?ps" for p
    using row [of "fst p" "snd p"] that ok unfolding history_ok_def by auto
  have "set (map fst h) \<inter> set (map (wd_id \<circ> fst) ?ps) = {}"
  proof (rule equals0I)
    fix i assume i: "i \<in> set (map fst h) \<inter> set (map (wd_id \<circ> fst) ?ps)"
    then have "i \<in> (wd_id \<circ> fst) ` set ?ps" by simp
    then obtain p where "p \<in> set ?ps" "i = (wd_id \<circ> fst) p" by (rule imageE)
    moreover have "i \<in> fst ` set h" using i by simp
    ultimately show False using fresh [of p] by blast
  qed
  then have "distinct (map fst h @ map (wd_id \<circ> fst) ?ps)"
    using ok pendingRetries_distinct [OF wf ord] by (simp add: history_ok_def)
  moreover have "i \<le> seq ?ds" if "i \<in> set (map (wd_id \<circ> fst) ?ps)" for i
    using that row wf by (auto simp: tbl_wf_def)
  moreover have "wd_next_retry_at x = None"
    if "x \<in> set (rows (webhook_deliveries (db (snd (take_retries w s)))))" "wd_id x \<in> fst ` set h \<union> (wd_id \<circ> fst) ` set ?ps" for x
  proof -
    from that(1) obtain y where y: "x = (if \<exists>(d, wh) \<in> set ?ps. wd_id y = wd_id d \<and>
        wd_workspace_id y = wd_workspace_id d then y\<lparr>wd_next_retry_at := None\<rparr> else y)" "y \<in> set (rows ?ds)"
      unfolding take_retries_rows [THEN conjunct1] set_map by (rule imageE)
    have id: "wd_id x = wd_id y" by (simp add: y(1))
    show ?thesis
    proof (cases "wd_id y \<in> fst ` set h")
      case True
      with ok y(2) have "wd_next_retry_at y = None" by (auto simp: history_ok_def)
      then show ?thesis by (simp add: y(1))
    next
      case False
      with that(2) id obtain d wh where "(d, wh) \<in> set ?ps" "wd_id y = wd_id d" by auto
      moreover from this row same y(2) have "y = d" by blast
      ultimately show ?thesis using y(1) by auto
    qed
  qed
  moreover have "map fst (h @ map retried_from (fst (take_retries w s))) = map fst h @ map (wd_id \<circ> fst) ?ps"
    using ids by simp
  moreover from this have "fst ` set (h @ map retried_from (fst (take_retries w s))) = fst ` set h \<union> (wd_id \<circ> fst) ` set ?ps"
    by (metis set_append list.set_map)
  moreover have "\<forall>i \<in> fst ` set h. i \<le> seq ?ds" using ok by (auto simp: history_ok_def)
  ultimately show ?thesis
    unfolding history_ok_iff take_retries_rows [THEN conjunct2] by auto
qed

lemma chained_mono: "chained h t \<Longrightarrow> chained (h @ h') t"
  by (auto simp: chained_def split: option.splits)

lemma taken_retries:
  assumes "log_ok m (webhook_deliveries (db s))" "sql_order (sql_ord w)" "t \<in> set (fst (take_retries w s))"
  shows "chained (h @ map retried_from (fst (take_retries w s))) t \<and>
    0 \<le> snd (retried_from t) \<and> snd (retried_from t) < m - 1"
proof -
  from assms(3) obtain d wh where t: "t = retry_of True wh d" and p: "(d, wh) \<in> set (pendingRetries w s)"
    by (auto simp: take_retries_def Let_def)
  from pendingRetries_sound [OF p assms(2)] assms(1) have "delivery_ok m d" "wd_next_retry_at d \<noteq> None"
    by (auto simp: log_ok_def due_def split: option.splits)
  then have "0 \<le> snd (retried_from t) \<and> snd (retried_from t) < m - 1"
    by (auto simp: t retry_of_def delivery_ok_def retried_from_def)
  moreover have "retried_from t \<in> set (map retried_from (fst (take_retries w s)))" using assms(3) by simp
  then have "chained (h @ map retried_from (fst (take_retries w s))) t"
    by (simp add: chained_def retried_from_def t retry_of_def)
  ultimately show ?thesis by blast
qed

lemma handlers_deliveries:
  "webhook_deliveries (db (snd (create_webhook fresh w u b s))) = webhook_deliveries (db s)"
  "webhook_deliveries (db (snd (change_webhook valid_url fresh w u c s))) = webhook_deliveries (db s)"
  by (simp_all add: create_webhook_def change_webhook_def update_webhook_def Let_def case_prod_beta split: option.split)

lemma log_ok_delete_webhook:
  "log_ok m (webhook_deliveries (db s)) \<Longrightarrow> log_ok m (webhook_deliveries (db (snd (delete_webhook i n s))))"
  by (simp add: delete_webhook_def Let_def log_ok_delete)

lemma log_ok_routes:
  assumes "log_ok m (webhook_deliveries (db s))"
  shows "log_ok m (webhook_deliveries (db (snd (webhooks_POST parse fresh w req s))))"
    "log_ok m (webhook_deliveries (db (snd (webhooks_PUT valid_url changes_of fresh w req s))))"
    "log_ok m (webhook_deliveries (db (snd (webhooks_DELETE w req s))))"
proof -
  let ?P = "\<lambda>d. log_ok m (webhook_deliveries d)"
  show "?P (db (snd (webhooks_POST parse fresh w req s)))"
    unfolding webhooks_POST_def
    by (rule mutating_route_inv [where P = ?P], rule with_body_inv [where P = ?P])
      (use assms in \<open>simp_all add: handlers_deliveries\<close>)
  show "?P (db (snd (webhooks_PUT valid_url changes_of fresh w req s)))"
    unfolding webhooks_PUT_def
    by (rule mutating_route_inv [where P = ?P])
      (use assms in \<open>simp_all add: handlers_deliveries split: option.split json.split\<close>)
  show "?P (db (snd (webhooks_DELETE w req s)))"
    unfolding webhooks_DELETE_def
    by (rule mutating_route_inv [where P = ?P])
      (use assms in \<open>simp_all add: log_ok_delete_webhook split: option.split json.split\<close>)
qed

lemma history_ok_routes:
  assumes "history_ok (webhook_deliveries (db s)) h"
  shows "history_ok (webhook_deliveries (db (snd (webhooks_POST parse fresh w req s)))) h"
    "history_ok (webhook_deliveries (db (snd (webhooks_PUT valid_url changes_of fresh w req s)))) h"
    "history_ok (webhook_deliveries (db (snd (webhooks_DELETE w req s)))) h"
proof -
  let ?P = "\<lambda>d. history_ok (webhook_deliveries d) h"
  show "?P (db (snd (webhooks_POST parse fresh w req s)))"
    unfolding webhooks_POST_def
    by (rule mutating_route_inv [where P = ?P], rule with_body_inv [where P = ?P])
      (use assms in \<open>simp_all add: handlers_deliveries\<close>)
  show "?P (db (snd (webhooks_PUT valid_url changes_of fresh w req s)))"
    unfolding webhooks_PUT_def
    by (rule mutating_route_inv [where P = ?P])
      (use assms in \<open>simp_all add: handlers_deliveries split: option.split json.split\<close>)
  show "?P (db (snd (webhooks_DELETE w req s)))"
    unfolding webhooks_DELETE_def
    by (rule mutating_route_inv [where P = ?P])
      (use assms in \<open>simp_all add: delete_webhook_def Let_def history_ok_delete split: option.split json.split\<close>)
qed

lemma webhook_inv_step: "webhook_inv m sq \<Longrightarrow> webhook_step m sq sq' \<Longrightarrow> webhook_inv m sq'"
proof (erule webhook_step.cases, goal_cases)
  case (1 s q h ev)
  then show ?case
    by (auto simp: webhook_inv_def task_ok_def chained_def on_server_event_def fireWebhooksAsync_def Let_def
        split: option.splits if_splits)
next
  case (2 w s q h)
  then have inv: "log_ok m (webhook_deliveries (db s))" "history_ok (webhook_deliveries (db s)) h"
    "\<forall>t \<in> set q. task_ok m t \<and> chained h t" "\<forall>(i, a) \<in> set h. 0 \<le> a \<and> a < m - 1" by (simp_all add: webhook_inv_def)
  from 2 have ord: "sql_order (sql_ord w)" by simp
  let ?h = "h @ map retried_from (fst (take_retries w s))"
  have wf: "tbl_wf wd_id (webhook_deliveries (db s))" using inv(1) by (simp add: log_ok_def)
  have "\<forall>t \<in> set (q @ fst (take_retries w s)). task_ok m t \<and> chained ?h t"
    using inv(1,3) 2 chained_mono taken_retries task_ok_take_retries by auto
  moreover have taken: "0 \<le> snd (retried_from t) \<and> snd (retried_from t) < m - 1" if "t \<in> set (fst (take_retries w s))" for t
    using taken_retries [OF inv(1) ord that] by blast
  have "0 \<le> snd p \<and> snd p < m - 1" if "p \<in> set ?h" for p
    using that
  proof (cases "p \<in> set h")
    case True
    with inv(4) show ?thesis by auto
  next
    case False
    with that obtain t where "t \<in> set (fst (take_retries w s))" "p = retried_from t" by auto
    with taken show ?thesis by blast
  qed
  then have "\<forall>(i, a) \<in> set ?h. 0 \<le> a \<and> a < m - 1" unfolding case_prod_beta by blast
  ultimately show ?case
    using 2 inv log_ok_take_retries history_ok_take_retries [OF inv(2) wf] by (simp add: webhook_inv_def)
next
  case (3 i n s wh q h u)
  then show ?case by (auto simp: webhook_inv_def task_ok_def chained_def test_task_def)
next
  case (4 i n s t q h)
  then show ?case by (auto simp: webhook_inv_def task_ok_def chained_def retry_task_def retry_of_def split: option.splits)
next
  case (5 w t q s h rnd a)
  then have "log_ok m (webhook_deliveries (db s))" "history_ok (webhook_deliveries (db s)) h" by (simp_all add: webhook_inv_def)
  moreover from this have "history_ok (webhook_deliveries (db (snd (deliver_finish w rnd a t s)))) h"
    by (simp add: history_ok_finish log_ok_def)
  ultimately show ?case using 5 log_ok_finish by (auto simp: webhook_inv_def dest: notin_set_remove1)
qed (auto simp: webhook_inv_def log_ok_routes history_ok_routes)

definition no_deliveries :: "webhook_state \<Rightarrow> bool" where
  "no_deliveries = (\<lambda>(s, q, h). webhook_deliveries (db s) = tbl_empty \<and> q = [] \<and> h = [])"

lemma webhook_inv_init: "no_deliveries sq \<Longrightarrow> webhook_inv m sq"
  by (cases sq) (auto simp: webhook_inv_def no_deliveries_def history_ok_def log_ok_def log_of_def tbl_empty_def tbl_wf_def)

interpretation webhook_sys: invariant_system no_deliveries "webhook_step m" "webhook_inv m" for m
  by unfold_locales (rule webhook_inv_init, assumption, rule webhook_inv_step)


definition demo_event :: server_event where
  "demo_event = \<lparr>ev_type = ''task.created'', ev_data = JObj [(''id'', JNum 1)], ev_timestamp = 0\<rparr>"

definition demo_first_attempt :: delivery_task where
  "demo_first_attempt = \<lparr>dt_webhook = demo_hook, dt_event = ''activity.task_created'', dt_payload = JObj [(''id'', JNum 1)],
     dt_attempt = 0, dt_parent = None, dt_allow_retry = True\<rparr>"

lemma demo_fires: "on_server_event demo_event demo_hook_state = [demo_first_attempt]"
  by (simp add: on_server_event_def demo_event_def EVENT_MAP_def webhookEventType_def fireWebhooksAsync_def num_field_def
      tbl_select_def demo_hook_state_def demo_hook_def subscribed_def demo_first_attempt_def)


section \<open>Who receives an event\<close>

lemma fireWebhooksAsync_hooks:
  "dt_webhook ` set (fireWebhooksAsync ty payload (Some n) s) =
    {wh \<in> set (rows (webhooks (db s))). w_enabled wh \<and> w_workspace_id wh = n \<and> subscribed ty wh}"
  by (force simp: fireWebhooksAsync_def Let_def tbl_select_def)

lemma fireWebhooksAsync_event: "t \<in> set (fireWebhooksAsync ty payload n s) \<Longrightarrow> dt_event t = ty \<and> dt_payload t = payload"
  by (auto simp: fireWebhooksAsync_def Let_def)

text \<open>
  Automatic deliveries reach exactly whom they should: an event of a mapped type is sent to
  the enabled webhooks of its workspace that subscribe to its webhook event type, and to no others; and a
  retry run only sends deliveries that are due, to webhooks that are enabled at that moment.
\<close>

theorem events_reach_subscribers:
  assumes "EVENT_MAP (ev_type ev) = Some mapping" and "webhookEventType mapping (ev_data ev) \<noteq> ''agent.error''"
    and "num_field ''workspace_id'' (ev_data ev) = Some n" and "sql_order (sql_ord w)"
  shows "dt_webhook ` {t \<in> set (on_server_event ev s). dt_event t \<noteq> ''agent.error''} =
      {wh \<in> set (rows (webhooks (db s))). w_enabled wh \<and> w_workspace_id wh = n \<and>
         subscribed (webhookEventType mapping (ev_data ev)) wh} \<and>
    (\<forall>t \<in> set (fst (take_retries w s)). \<exists>d \<in> set (rows (webhook_deliveries (db s))).
       due w d \<and> dt_parent t = Some (wd_id d) \<and> webhook_of d s = Some (dt_webhook t) \<and> w_enabled (dt_webhook t))"
proof -
  let ?ty = "webhookEventType mapping (ev_data ev)"
  have "{t \<in> set (on_server_event ev s). dt_event t \<noteq> ''agent.error''} = set (fireWebhooksAsync ?ty (ev_data ev) (Some n) s)"
    using assms(1-3) by (auto simp: on_server_event_def Let_def dest: fireWebhooksAsync_event)
  moreover have "\<exists>d \<in> set (rows (webhook_deliveries (db s))).
      due w d \<and> dt_parent t = Some (wd_id d) \<and> webhook_of d s = Some (dt_webhook t) \<and> w_enabled (dt_webhook t)"
    if "t \<in> set (fst (take_retries w s))" for t
  proof -
    from that obtain d wh where t: "t = retry_of True wh d" and p: "(d, wh) \<in> set (pendingRetries w s)"
      by (auto simp: take_retries_def Let_def)
    with pendingRetries_sound [OF p assms(4)] show ?thesis by (auto simp: retry_of_def)
  qed
  ultimately show ?thesis using fireWebhooksAsync_hooks by simp
qed

definition demo_ws_event :: server_event where
  "demo_ws_event = demo_event\<lparr>ev_data := JObj [(''workspace_id'', JNum 1)]\<rparr>"

theorem events_reach_subscribers_witness:
  "demo_hook \<in> dt_webhook ` {t \<in> set (on_server_event demo_ws_event demo_hook_state). dt_event t \<noteq> ''agent.error''}"
proof -
  have ev: "EVENT_MAP (ev_type demo_ws_event) = Some ''activity.task_created''"
    "webhookEventType ''activity.task_created'' (ev_data demo_ws_event) = ''activity.task_created''"
    "num_field ''workspace_id'' (ev_data demo_ws_event) = Some 1"
    by (simp_all add: demo_ws_event_def demo_event_def EVENT_MAP_def webhookEventType_def num_field_def)
  have "sql_order (sql_ord demo_world)" by (simp add: demo_world_def scan.sql_order_axioms)
  from events_reach_subscribers [OF ev(1) _ ev(3) this, of demo_hook_state] show ?thesis
    by (simp add: ev(2)) (simp add: demo_hook_state_def demo_hook_def subscribed_def)
qed

end
