(* ===== verification/MC_Scheduler.thy ===== *)
theory MC_Scheduler
  imports MC_Webhooks MC_Platform
begin

text \<open>
  Maintenance: \<open>src/lib/scheduler.ts\<close> and the routes \<open>/api/scheduler\<close> and \<open>/api/cleanup\<close>.
  Beside the server state there are the token usage file, the backup directory and the counters
  of the heavy limiter. \<open>tick\<close> is one run of the timer callback that nothing overtakes;
  \<open>sched_step\<close> is the same callback split at its \<open>await\<close>, so that ticks overlap. The result of
  SQLite's online backup, the network and the scan of the session files are arguments.
\<close>

section \<open>State\<close>

record maint =
  mt_server :: server
  heavy_store :: limiter_store
  tokens_file :: "json option"
  backup_dir :: "(string \<times> int) list"

definition upd_server :: "(server \<Rightarrow> server) \<Rightarrow> maint \<Rightarrow> maint" where
  "upd_server f m = m\<lparr>mt_server := f (mt_server m)\<rparr>"

lemma upd_server_sel [simp]:
  "mt_server (upd_server f m) = f (mt_server m)" "heavy_store (upd_server f m) = heavy_store m"
  "tokens_file (upd_server f m) = tokens_file m" "backup_dir (upd_server f m) = backup_dir m"
  by (simp_all add: upd_server_def)

record task_result =
  tr_ok :: bool
  tr_message :: string

section \<open>Configuration and settings\<close>

definition env_number :: "world \<Rightarrow> string \<Rightarrow> string \<Rightarrow> int option" where
  "env_number w k d = js_number (or_else (getenv w k) d)"

record retention =
  ret_activities :: "int option"
  ret_auditLog :: "int option"
  ret_logs :: "int option"
  ret_notifications :: "int option"
  ret_pipelineRuns :: "int option"
  ret_tokenUsage :: "int option"

definition config_retention :: "world \<Rightarrow> retention" where
  "config_retention w = \<lparr>ret_activities = env_number w ''MC_RETAIN_ACTIVITIES_DAYS'' ''90'',
     ret_auditLog = env_number w ''MC_RETAIN_AUDIT_DAYS'' ''365'',
     ret_logs = env_number w ''MC_RETAIN_LOGS_DAYS'' ''30'',
     ret_notifications = env_number w ''MC_RETAIN_NOTIFICATIONS_DAYS'' ''60'',
     ret_pipelineRuns = env_number w ''MC_RETAIN_PIPELINE_RUNS_DAYS'' ''90'',
     ret_tokenUsage = env_number w ''MC_RETAIN_TOKEN_USAGE_DAYS'' ''90''\<rparr>"

definition isSettingEnabled :: "server \<Rightarrow> string \<Rightarrow> bool \<Rightarrow> bool" where
  "isSettingEnabled s key defaultValue =
     (case map_option sg_value (setting_of key (db s)) of Some v \<Rightarrow> v = ''true'' | None \<Rightarrow> defaultValue)"

definition getSettingNumber :: "server \<Rightarrow> string \<Rightarrow> int \<Rightarrow> int" where
  "getSettingNumber s key defaultValue =
     (case map_option sg_value (setting_of key (db s)) of
        None \<Rightarrow> defaultValue
      | Some v \<Rightarrow> (case parse_int v of None \<Rightarrow> defaultValue | Some n \<Rightarrow> if n = 0 then defaultValue else n))"

section \<open>Retention\<close>

datatype cleanup_table = Activities | Audit_log | Notifications | Pipeline_runs

definition getRetentionTargets :: "world \<Rightarrow> (cleanup_table \<times> int option \<times> string) list" where
  "getRetentionTargets w = (let ret = config_retention w in
     [(Activities, ret_activities ret, ''Activities''), (Audit_log, ret_auditLog ret, ''Audit Log''),
      (Notifications, ret_notifications ret, ''Notifications''), (Pipeline_runs, ret_pipelineRuns ret, ''Pipeline Runs'')])"

text \<open>\<open>SELECT COUNT(*) FROM t WHERE created_at < ?\<close> and \<open>DELETE FROM t WHERE created_at < ?\<close>\<close>

fun count_older :: "cleanup_table \<Rightarrow> int \<Rightarrow> database \<Rightarrow> nat" where
  "count_older Activities cutoff d = length (tbl_select (\<lambda>r. a_created_at r < cutoff) (activities d))"
| "count_older Audit_log cutoff d = length (tbl_select (\<lambda>r. au_created_at r < cutoff) (audit_log d))"
| "count_older Notifications cutoff d = length (tbl_select (\<lambda>r. n_created_at r < cutoff) (notifications d))"
| "count_older Pipeline_runs cutoff d = length (tbl_select (\<lambda>r. r_created_at r < cutoff) (pipeline_runs d))"

fun delete_older :: "cleanup_table \<Rightarrow> int \<Rightarrow> database \<Rightarrow> database" where
  "delete_older Activities cutoff d = d\<lparr>activities := tbl_delete (\<lambda>r. a_created_at r < cutoff) (activities d)\<rparr>"
| "delete_older Audit_log cutoff d = d\<lparr>audit_log := tbl_delete (\<lambda>r. au_created_at r < cutoff) (audit_log d)\<rparr>"
| "delete_older Notifications cutoff d = d\<lparr>notifications := tbl_delete (\<lambda>r. n_created_at r < cutoff) (notifications d)\<rparr>"
| "delete_older Pipeline_runs cutoff d = d\<lparr>pipeline_runs := tbl_delete (\<lambda>r. r_created_at r < cutoff) (pipeline_runs d)\<rparr>"

text \<open>The size of a table, and the \<open>changes\<close> of its \<open>DELETE\<close>: the number of rows that are gone after it.\<close>

fun table_size :: "cleanup_table \<Rightarrow> database \<Rightarrow> nat" where
  "table_size Activities d = length (rows (activities d))"
| "table_size Audit_log d = length (rows (audit_log d))"
| "table_size Notifications d = length (rows (notifications d))"
| "table_size Pipeline_runs d = length (rows (pipeline_runs d))"

definition delete_changes :: "cleanup_table \<Rightarrow> int \<Rightarrow> database \<Rightarrow> nat" where
  "delete_changes tb cutoff d = table_size tb d - table_size tb (delete_older tb cutoff d)"

definition retention_cutoff :: "world \<Rightarrow> int \<Rightarrow> int" where
  "retention_cutoff w days = now_s w - days * 86400"

definition token_cutoff :: "world \<Rightarrow> int \<Rightarrow> int" where
  "token_cutoff w days = now_ms w - days * 86400000"

text \<open>
  The number a comparison makes of \<open>r.timestamp\<close>; \<open>None\<close> is \<open>NaN\<close>. A one-element array there is
  outside the model.
\<close>

definition timestamp_of :: "json \<Rightarrow> int option" where
  "timestamp_of r = (case jget ''timestamp'' r of
     Some (JNum n) \<Rightarrow> Some n
   | Some (JStr x) \<Rightarrow> js_number x
   | Some (JBool b) \<Rightarrow> Some (if b then 1 else 0)
   | Some JNull \<Rightarrow> Some 0
   | _ \<Rightarrow> None)"

definition kept_token :: "int \<Rightarrow> json \<Rightarrow> bool" where
  "kept_token cutoff r = (case timestamp_of r of None \<Rightarrow> False | Some t \<Rightarrow> cutoff \<le> t)"

definition stale_token :: "int \<Rightarrow> json \<Rightarrow> bool" where
  "stale_token cutoff r = (case timestamp_of r of None \<Rightarrow> False | Some t \<Rightarrow> t < cutoff)"

text \<open>
  The records of the token file, when it can be read, holds an array and the callback of \<open>filter\<close>
  does not throw on a \<open>null\<close> element.
\<close>

definition token_records :: "json option \<Rightarrow> json list option" where
  "token_records f = (case f of Some (JArr rs) \<Rightarrow> if JNull \<in> set rs then None else Some rs | _ \<Rightarrow> None)"

record cleanup_result =
  cr_table :: string
  cr_deleted :: nat
  cr_cutoff_date :: string
  cr_retention_days :: "int option"

definition cleanup_result_json :: "cleanup_result \<Rightarrow> json" where
  "cleanup_result_json r = JObj [(''table'', JStr (cr_table r)), (''deleted'', JNum (int (cr_deleted r))),
     (''cutoff_date'', JStr (cr_cutoff_date r)), (''retention_days'', jnull JNum (cr_retention_days r))]"

subsection \<open>/api/cleanup\<close>

definition preview_target :: "world \<Rightarrow> database \<Rightarrow> cleanup_table \<times> int option \<times> string \<Rightarrow> json" where
  "preview_target w d target = (case target of (tb, days, label) \<Rightarrow>
     (let missing = JObj [(''table'', JStr label), (''retention_days'', jnull JNum days), (''stale_count'', JNum 0),
                          (''note'', JStr ''Table not found'')]
      in case days of
           None \<Rightarrow> missing
         | Some n \<Rightarrow>
             if n \<le> 0 then JObj [(''table'', JStr label), (''retention_days'', JNum 0), (''stale_count'', JNum 0),
                                 (''note'', JStr ''Retention disabled (keep forever)'')]
             else case date_part (retention_cutoff w n * 1000) of
                    None \<Rightarrow> missing
                  | Some dt \<Rightarrow> JObj [(''table'', JStr label), (''retention_days'', JNum n), (''cutoff_date'', JStr dt),
                                    (''stale_count'', JNum (int (count_older tb (retention_cutoff w n) d)))]))"

definition preview_tokens :: "world \<Rightarrow> json option \<Rightarrow> json" where
  "preview_tokens w f =
     (let days = ret_tokenUsage (config_retention w);
          none = JObj [(''table'', JStr ''Token Usage (file)''), (''retention_days'', jnull JNum days), (''stale_count'', JNum 0),
                       (''note'', JStr ''No token data file'')]
      in case (token_records f, days) of
           (Some rs, Some n) \<Rightarrow>
             (case date_part (token_cutoff w n) of
                None \<Rightarrow> none
              | Some dt \<Rightarrow> JObj [(''table'', JStr ''Token Usage (file)''), (''retention_days'', JNum n), (''cutoff_date'', JStr dt),
                                (''stale_count'', JNum (int (length (filter (stale_token (token_cutoff w n)) rs))))])
         | _ \<Rightarrow> none)"

definition retention_json :: "retention \<Rightarrow> json" where
  "retention_json r = JObj [(''activities'', jnull JNum (ret_activities r)), (''auditLog'', jnull JNum (ret_auditLog r)),
     (''logs'', jnull JNum (ret_logs r)), (''notifications'', jnull JNum (ret_notifications r)),
     (''pipelineRuns'', jnull JNum (ret_pipelineRuns r)), (''tokenUsage'', jnull JNum (ret_tokenUsage r))]"

type_synonym maint_outcome = "(string + response) \<times> maint"

definition with_admin :: "world \<Rightarrow> request \<Rightarrow> maint \<Rightarrow> (user \<Rightarrow> maint_outcome) \<Rightarrow> maint_outcome" where
  "with_admin w req m k = (case requireRole w req ''admin'' (mt_server m) of
     Inl e \<Rightarrow> (Inl e, m)
   | Inr (Auth_error st msg) \<Rightarrow> (Inr (error_response st msg), m)
   | Inr (Auth_user u) \<Rightarrow> k u)"

definition cleanup_GET :: "world \<Rightarrow> request \<Rightarrow> maint \<Rightarrow> maint_outcome" where
  "cleanup_GET w req m = with_admin w req m (\<lambda>u.
     (Inr (json_response 200 (JObj [(''retention'', retention_json (config_retention w)),
        (''preview'', JArr (map (preview_target w (db (mt_server m))) (getRetentionTargets w) @
                           [preview_tokens w (tokens_file m)]))])), m))"

text \<open>One round of the loop over the targets: results so far, total and database.\<close>

definition cleanup_target ::
  "bool \<Rightarrow> world \<Rightarrow> cleanup_table \<times> int option \<times> string \<Rightarrow> cleanup_result list \<times> nat \<times> database
   \<Rightarrow> cleanup_result list \<times> nat \<times> database"
where
  "cleanup_target dryRun w target acc = (case (target, acc) of ((tb, days, label), (results, totalDeleted, d)) \<Rightarrow>
     (let failed = \<lparr>cr_table = label, cr_deleted = 0, cr_cutoff_date = [], cr_retention_days = days\<rparr>
      in case days of
           None \<Rightarrow> (results @ [failed], totalDeleted, d)
         | Some n \<Rightarrow>
             if n \<le> 0 then (results, totalDeleted, d)
             else (let cutoff = retention_cutoff w n;
                       (c, d') = (if dryRun then (count_older tb cutoff d, d)
                                  else (delete_changes tb cutoff d, delete_older tb cutoff d))
                   in case date_part (cutoff * 1000) of
                        None \<Rightarrow> (results @ [failed], totalDeleted, d')
                      | Some dt \<Rightarrow> (results @ [failed\<lparr>cr_deleted := c, cr_cutoff_date := dt\<rparr>], totalDeleted + c, d'))))"

definition cleanup_tokens ::
  "bool \<Rightarrow> world \<Rightarrow> cleanup_result list \<times> nat \<times> json option \<Rightarrow> cleanup_result list \<times> nat \<times> json option"
where
  "cleanup_tokens dryRun w acc = (case acc of (results, totalDeleted, f) \<Rightarrow>
     (case (ret_tokenUsage (config_retention w), token_records f) of
        (Some n, Some rs) \<Rightarrow>
          if n \<le> 0 then acc
          else (let kept = filter (kept_token (token_cutoff w n)) rs; removed = length rs - length kept;
                    f' = (if \<not> dryRun \<and> 0 < removed then Some (JArr kept) else f)
                in case date_part (token_cutoff w n) of
                     None \<Rightarrow> (results, totalDeleted, f')
                   | Some dt \<Rightarrow> (results @ [\<lparr>cr_table = ''Token Usage (file)'', cr_deleted = removed, cr_cutoff_date = dt,
                                            cr_retention_days = Some n\<rparr>], totalDeleted + removed, f'))
      | _ \<Rightarrow> acc))"

definition run_retention ::
  "bool \<Rightarrow> world \<Rightarrow> maint \<Rightarrow> cleanup_result list \<times> nat \<times> maint"
where
  "run_retention dryRun w m =
     (let (results, totalDeleted, d) = fold (cleanup_target dryRun w) (getRetentionTargets w) ([], 0, db (mt_server m));
          (results', totalDeleted', f) = cleanup_tokens dryRun w (results, totalDeleted, tokens_file m)
      in (results', totalDeleted', (upd_server (\<lambda>s. s\<lparr>db := d\<rparr>) m)\<lparr>tokens_file := f\<rparr>))"

definition with_heavy_limit :: "world \<Rightarrow> request \<Rightarrow> maint \<Rightarrow> (maint \<Rightarrow> maint_outcome) \<Rightarrow> maint_outcome" where
  "with_heavy_limit w req m k =
     (case checkRateLimit heavyLimiter_options w req (heavy_store m) of
        (Some r, st) \<Rightarrow> (Inr r, m\<lparr>heavy_store := st\<rparr>)
      | (None, st) \<Rightarrow> k (m\<lparr>heavy_store := st\<rparr>))"

definition perform_cleanup :: "bool \<Rightarrow> world \<Rightarrow> request \<Rightarrow> user \<Rightarrow> maint \<Rightarrow> maint_outcome" where
  "perform_cleanup dryRun w req u m =
     (let (results, totalDeleted, m1) = run_retention dryRun w m;
          results_json = JArr (map cleanup_result_json results);
          m2 = (if \<not> dryRun \<and> 0 < totalDeleted
                then upd_server (logAuditEvent w ((audit_event0 ''data_cleanup'' (usr_username u))
                       \<lparr>ae_actor_id := Some (usr_id u),
                        ae_detail := Some (JObj [(''total_deleted'', JNum (int totalDeleted)), (''results'', results_json)]),
                        ae_ip_address := Some (client_ip req)\<rparr>)) m1
                else m1)
      in (Inr (json_response 200 (JObj [(''dry_run'', JBool dryRun), (''total_deleted'', JNum (int totalDeleted)),
                                       (''results'', results_json)])), m2))"

definition dry_run_of :: "json option \<Rightarrow> bool" where
  "dry_run_of body = (case body of Some b \<Rightarrow> jget ''dry_run'' b = Some (JBool True) | None \<Rightarrow> False)"

definition cleanup_POST :: "world \<Rightarrow> request \<Rightarrow> maint \<Rightarrow> maint_outcome" where
  "cleanup_POST w req m = with_admin w req m (\<lambda>u. with_heavy_limit w req m (\<lambda>m'.
     if req_body req = Some JNull then (Inl ''Cannot read properties of null'', m')
     else perform_cleanup (dry_run_of (req_body req)) w req u m'))"

section \<open>The scheduled jobs\<close>

text \<open>What the jobs get from outside: the network, the HMAC, \<open>Math.random\<close>, SQLite's backup (an error or the size of the file), the backup directory and the result of \<open>syncClaudeSessions\<close>.\<close>

record outside =
  o_net :: "nat \<Rightarrow> http_call \<Rightarrow> http_answer"
  o_hmac :: "string \<Rightarrow> string \<Rightarrow> string"
  o_random :: "nat \<Rightarrow> rat"
  o_backup :: "string \<Rightarrow> string + int"
  o_backup_dir :: string
  o_session_scan :: task_result

text \<open>\<open>toISOString().replace(/[:.]/g, '-').replace('T', '_').slice(0, 19)\<close>\<close>

definition backup_stamp :: "int \<Rightarrow> string" where
  "backup_stamp ms = take 19 (map (\<lambda>c. if c = CHR '':'' \<or> c = CHR ''.'' then CHR ''-'' else c)
     (iso_date ms @ ''_'' @ iso_time ms))"

definition is_backup :: "string \<times> int \<Rightarrow> bool" where
  "is_backup f \<longleftrightarrow> starts_with ''mc-backup-'' (fst f) \<and> ends_with ''.db'' (fst f)"

text \<open>\<open>slice(k)\<close>: a negative start counts from the end.\<close>

definition slice_from :: "int \<Rightarrow> 'a list \<Rightarrow> 'a list" where
  "slice_from k xs = drop (if k < 0 then length xs - nat (- k) else nat k) xs"

definition prune_backups :: "int \<Rightarrow> (string \<times> int) list \<Rightarrow> (string \<times> int) list" where
  "prune_backups maxBackups dir =
     (let old = slice_from maxBackups (sort_key (\<lambda>f. - snd f) (filter is_backup dir))
      in filter (\<lambda>f. fst f \<notin> fst ` set old) dir)"

definition runBackup :: "outside \<Rightarrow> world \<Rightarrow> maint \<Rightarrow> task_result \<times> maint" where
  "runBackup out w m =
     (let name = ''mc-backup-'' @ backup_stamp (now_ms w) @ ''.db''; path = o_backup_dir out @ ''/'' @ name
      in case o_backup out path of
           Inl e \<Rightarrow> (\<lparr>tr_ok = False, tr_message = ''Backup failed: '' @ e\<rparr>, m)
         | Inr bytes \<Rightarrow>
             (let m1 = m\<lparr>backup_dir := filter (\<lambda>f. fst f \<noteq> name) (backup_dir m) @ [(name, now_ms w)]\<rparr>;
                  m2 = upd_server (logAuditEvent w ((audit_event0 ''auto_backup'' ''scheduler'')
                         \<lparr>ae_detail := Some (JObj [(''path'', JStr path), (''size'', JNum bytes)])\<rparr>)) m1;
                  maxBackups = getSettingNumber (mt_server m2) ''general.backup_retention_count'' 10
              in (\<lparr>tr_ok = True, tr_message = ''Backup created ('' @ show_int ((bytes + 512) div 1024) @ ''KB)''\<rparr>,
                  m2\<lparr>backup_dir := prune_backups maxBackups (backup_dir m2)\<rparr>)))"

definition auto_cleanup_target ::
  "world \<Rightarrow> cleanup_table \<times> int option \<times> string \<Rightarrow> nat \<times> database \<Rightarrow> nat \<times> database"
where
  "auto_cleanup_target w target acc = (case (target, acc) of ((tb, days, label), (totalDeleted, d)) \<Rightarrow>
     (case days of
        None \<Rightarrow> acc
      | Some n \<Rightarrow>
          if n \<le> 0 then acc
          else (totalDeleted + delete_changes tb (retention_cutoff w n) d, delete_older tb (retention_cutoff w n) d)))"

definition auto_cleanup_tokens :: "world \<Rightarrow> nat \<times> json option \<Rightarrow> nat \<times> json option" where
  "auto_cleanup_tokens w acc = (case acc of (totalDeleted, f) \<Rightarrow>
     (case (ret_tokenUsage (config_retention w), token_records f) of
        (Some n, Some rs) \<Rightarrow>
          if n \<le> 0 then acc
          else (let kept = filter (kept_token (token_cutoff w n)) rs; removed = length rs - length kept
                in if 0 < removed then (totalDeleted + removed, Some (JArr kept)) else acc)
      | _ \<Rightarrow> acc))"

definition runCleanup :: "world \<Rightarrow> maint \<Rightarrow> task_result \<times> maint" where
  "runCleanup w m =
     (let (total1, d) = fold (auto_cleanup_target w) (getRetentionTargets w) (0, db (mt_server m));
          (totalDeleted, f) = auto_cleanup_tokens w (total1, tokens_file m);
          m1 = (upd_server (\<lambda>s. s\<lparr>db := d\<rparr>) m)\<lparr>tokens_file := f\<rparr>;
          m2 = (if 0 < totalDeleted
                then upd_server (logAuditEvent w ((audit_event0 ''auto_cleanup'' ''scheduler'')
                       \<lparr>ae_detail := Some (JObj [(''total_deleted'', JNum (int totalDeleted))])\<rparr>)) m1
                else m1)
      in (\<lparr>tr_ok = True, tr_message = ''Cleaned '' @ show_nat totalDeleted @ '' stale record'' @
             (if totalDeleted = 1 then [] else ''s'')\<rparr>, m2))"

definition stale_agent :: "int \<Rightarrow> agent_row \<Rightarrow> bool" where
  "stale_agent threshold g \<longleftrightarrow> g_status g \<noteq> ''offline'' \<and>
     (case g_last_seen g of None \<Rightarrow> True | Some t \<Rightarrow> t < threshold)"

text \<open>
  The body of the loop for one stale agent. The inserts bypass the helpers, so nothing is broadcast, and
  they leave \<open>workspace_id\<close> to its default, 1.
\<close>

definition mark_agent_offline :: "world \<Rightarrow> int \<Rightarrow> agent_row \<Rightarrow> database \<Rightarrow> database" where
  "mark_agent_offline w timeoutMinutes agent d =
     d\<lparr>agents := tbl_update (\<lambda>g. g_id g = g_id agent) (\<lambda>g. g\<lparr>g_status := ''offline'', g_updated_at := now_s w\<rparr>) (agents d),
       activities := snd (tbl_insert (\<lambda>i. \<lparr>a_id = i, a_type = ''agent_status_change'', a_entity_type = ''agent'',
          a_entity_id = g_id agent, a_actor = ''heartbeat'',
          a_description = ''Agent \"'' @ g_name agent @ ''\" marked offline (no heartbeat for '' @ show_int timeoutMinutes @ ''m)'',
          a_data = None, a_created_at = now_s w, a_workspace_id = 1\<rparr>) (activities d)),
       notifications := snd (tbl_insert (\<lambda>i. \<lparr>n_id = i, n_recipient = ''system'', n_type = ''heartbeat'',
          n_title = ''Agent offline: '' @ g_name agent,
          n_message = ''Agent \"'' @ g_name agent @ ''\" was marked offline after '' @ show_int timeoutMinutes @
             '' minutes without heartbeat'',
          n_source_type = Some ''agent'', n_source_id = Some (g_id agent), n_read_at = None, n_delivered_at = None,
          n_created_at = now_s w, n_workspace_id = 1\<rparr>) (notifications d))\<rparr>"

definition runHeartbeatCheck :: "world \<Rightarrow> server \<Rightarrow> task_result \<times> server" where
  "runHeartbeatCheck w s =
     (let timeoutMinutes = getSettingNumber s ''general.agent_timeout_minutes'' 10;
          threshold = now_s w - timeoutMinutes * 60;
          staleAgents = tbl_select (stale_agent threshold) (agents (db s));
          names = map g_name staleAgents
      in if staleAgents = [] then (\<lparr>tr_ok = True, tr_message = ''All agents healthy''\<rparr>, s)
         else (let s1 = s\<lparr>db := fold (mark_agent_offline w timeoutMinutes) staleAgents (db s)\<rparr>;
                   s2 = logAuditEvent w ((audit_event0 ''heartbeat_check'' ''scheduler'')
                          \<lparr>ae_detail := Some (JObj [(''marked_offline'', JArr (map JStr names))])\<rparr>) s1
               in (\<lparr>tr_ok = True, tr_message = ''Marked '' @ show_nat (length staleAgents) @ '' agent(s) offline: '' @
                      join_with '', '' names\<rparr>, s2)))"

section \<open>The timer\<close>

record task_report =
  tp_ok :: bool
  tp_text :: string
  tp_timestamp :: int

record sched_task =
  sk_name :: string
  intervalMs :: int
  lastRun :: "int option"
  nextRun :: int
  sk_enabled :: bool
  running :: bool
  lastResult :: "task_report option"

type_synonym scheduler = "(string \<times> sched_task) list"

definition DAILY_MS :: int where "DAILY_MS = 24 * 60 * 60 * 1000"

definition FIVE_MINUTES_MS :: int where "FIVE_MINUTES_MS = 5 * 60 * 1000"

definition TICK_MS :: int where "TICK_MS = 60 * 1000"

definition getNextDailyMs :: "world \<Rightarrow> int \<Rightarrow> int" where
  "getNextDailyMs w hour =
     (let now = now_ms w; next = now div DAILY_MS * DAILY_MS + hour * 3600000
      in (if next \<le> now then next + DAILY_MS else next) - now)"

definition new_sched_task :: "string \<Rightarrow> int \<Rightarrow> int \<Rightarrow> sched_task" where
  "new_sched_task name interval next = \<lparr>sk_name = name, intervalMs = interval, lastRun = None, nextRun = next,
     sk_enabled = True, running = False, lastResult = None\<rparr>"

text \<open>The tasks that \<open>initScheduler\<close> registers.\<close>

definition initScheduler :: "world \<Rightarrow> scheduler" where
  "initScheduler w =
     [(''auto_backup'', new_sched_task ''Auto Backup'' DAILY_MS (now_ms w + getNextDailyMs w 3)),
      (''auto_cleanup'', new_sched_task ''Auto Cleanup'' DAILY_MS (now_ms w + getNextDailyMs w 4)),
      (''agent_heartbeat'', new_sched_task ''Agent Heartbeat Check'' FIVE_MINUTES_MS (now_ms w + FIVE_MINUTES_MS)),
      (''webhook_retry'', new_sched_task ''Webhook Retry'' TICK_MS (now_ms w + TICK_MS)),
      (''claude_session_scan'', new_sched_task ''Claude Session Scan'' TICK_MS (now_ms w + 5000))]"

definition settingKey :: "string \<Rightarrow> string" where
  "settingKey i =
     (if i = ''auto_backup'' then ''general.auto_backup''
      else if i = ''auto_cleanup'' then ''general.auto_cleanup''
      else if i = ''webhook_retry'' then ''webhooks.retry_enabled''
      else if i = ''claude_session_scan'' then ''general.claude_session_scan''
      else ''general.agent_heartbeat'')"

definition defaultEnabled :: "string \<Rightarrow> bool" where
  "defaultEnabled i \<longleftrightarrow> i = ''agent_heartbeat'' \<or> i = ''webhook_retry'' \<or> i = ''claude_session_scan''"

definition task_enabled :: "server \<Rightarrow> string \<Rightarrow> bool" where
  "task_enabled s i = isSettingEnabled s (settingKey i) (defaultEnabled i)"

definition upd_task :: "string \<Rightarrow> (sched_task \<Rightarrow> sched_task) \<Rightarrow> scheduler \<Rightarrow> scheduler" where
  "upd_task i f ts = map (\<lambda>(k, t). (k, if k = i then f t else t)) ts"

text \<open>A call of \<open>tick\<close> that waits for a task, with the ids its loop has not reached yet.\<close>

record tick_thread =
  tt_now :: int
  tt_current :: string
  tt_rest :: "string list"

text \<open>The loop of \<open>tick\<close> up to the next \<open>await\<close>.\<close>

fun tick_loop :: "server \<Rightarrow> int \<Rightarrow> string list \<Rightarrow> scheduler \<Rightarrow> tick_thread option \<times> scheduler" where
  "tick_loop s now [] ts = (None, ts)"
| "tick_loop s now (i # is) ts =
     (case map_of ts i of
        None \<Rightarrow> tick_loop s now is ts
      | Some t \<Rightarrow>
          if running t \<or> now < nextRun t \<or> \<not> task_enabled s i then tick_loop s now is ts
          else (Some \<lparr>tt_now = now, tt_current = i, tt_rest = is\<rparr>, upd_task i (\<lambda>t. t\<lparr>running := True\<rparr>) ts))"

text \<open>What follows the \<open>await\<close>: the result, then the \<open>finally\<close> block.\<close>

definition finish_task :: "int \<Rightarrow> task_result \<Rightarrow> string \<Rightarrow> scheduler \<Rightarrow> scheduler" where
  "finish_task now r i ts = upd_task i (\<lambda>t. t\<lparr>running := False, lastRun := Some now, nextRun := now + intervalMs t,
     lastResult := Some \<lparr>tp_ok = tr_ok r, tp_text = tr_message r, tp_timestamp = now\<rparr>\<rparr>) ts"

definition lift_server :: "(server \<Rightarrow> 'a \<times> server) \<Rightarrow> maint \<Rightarrow> 'a \<times> maint" where
  "lift_server f m = (let (r, s) = f (mt_server m) in (r, m\<lparr>mt_server := s\<rparr>))"

definition webhook_retry_job :: "outside \<Rightarrow> world \<Rightarrow> server \<Rightarrow> task_result \<times> server" where
  "webhook_retry_job out w s = (let (msg, s') = processWebhookRetries (o_net out) (o_hmac out) w (o_random out) s
     in (\<lparr>tr_ok = True, tr_message = msg\<rparr>, s'))"

definition run_job :: "outside \<Rightarrow> world \<Rightarrow> string \<Rightarrow> maint \<Rightarrow> task_result \<times> maint" where
  "run_job out w i m =
     (if i = ''auto_backup'' then runBackup out w m
      else if i = ''agent_heartbeat'' then lift_server (runHeartbeatCheck w) m
      else if i = ''webhook_retry'' then lift_server (webhook_retry_job out w) m
      else if i = ''claude_session_scan'' then (o_session_scan out, m)
      else runCleanup w m)"

lemma tick_loop_rest: "tick_loop s now is ts = (Some th, ts') \<Longrightarrow> length (tt_rest th) < length is"
  by (induction s now "is" ts rule: tick_loop.induct) (auto split: option.splits if_splits)

function tick_from :: "outside \<Rightarrow> world \<Rightarrow> string list \<Rightarrow> scheduler \<times> maint \<Rightarrow> scheduler \<times> maint" where
  "tick_from out w is (ts, m) =
     (case tick_loop (mt_server m) (now_ms w) is ts of
        (None, ts') \<Rightarrow> (ts', m)
      | (Some th, ts') \<Rightarrow>
          (let (r, m') = run_job out w (tt_current th) m
           in tick_from out w (tt_rest th) (finish_task (now_ms w) r (tt_current th) ts', m')))"
  by pat_completeness auto
termination
  by (relation "measure (\<lambda>(out, w, is, x). length is)") (auto dest: tick_loop_rest [OF sym])

declare tick_from.simps [simp del]

definition tick :: "outside \<Rightarrow> world \<Rightarrow> scheduler \<times> maint \<Rightarrow> scheduler \<times> maint" where
  "tick out w x = tick_from out w (map fst (fst x)) x"

section \<open>/api/scheduler\<close>

definition report_json :: "task_report \<Rightarrow> json" where
  "report_json r = JObj [(''ok'', JBool (tp_ok r)), (''message'', JStr (tp_text r)), (''timestamp'', JNum (tp_timestamp r))]"

definition getSchedulerStatus :: "server \<Rightarrow> scheduler \<Rightarrow> json" where
  "getSchedulerStatus s ts = JArr (map (\<lambda>(i, t). JObj ([(''id'', JStr i), (''name'', JStr (sk_name t)),
     (''enabled'', JBool (task_enabled s i)), (''lastRun'', jnull JNum (lastRun t)), (''nextRun'', JNum (nextRun t)),
     (''running'', JBool (running t))] @ jopt ''lastResult'' report_json (lastResult t))) ts)"

definition triggerTask :: "outside \<Rightarrow> world \<Rightarrow> string \<Rightarrow> maint \<Rightarrow> task_result \<times> maint" where
  "triggerTask out w taskId m =
     (if taskId = ''auto_backup'' then runBackup out w m
      else if taskId = ''auto_cleanup'' then runCleanup w m
      else if taskId = ''agent_heartbeat'' then lift_server (runHeartbeatCheck w) m
      else if taskId = ''webhook_retry'' then lift_server (webhook_retry_job out w) m
      else if taskId = ''claude_session_scan'' then (o_session_scan out, m)
      else (\<lparr>tr_ok = False, tr_message = ''Unknown task: '' @ taskId\<rparr>, m))"

definition scheduler_GET :: "scheduler \<Rightarrow> world \<Rightarrow> request \<Rightarrow> maint \<Rightarrow> maint_outcome" where
  "scheduler_GET ts w req m = with_admin w req m (\<lambda>u.
     (Inr (json_response 200 (JObj [(''tasks'', getSchedulerStatus (mt_server m) ts)])), m))"

definition scheduler_POST :: "outside \<Rightarrow> world \<Rightarrow> request \<Rightarrow> maint \<Rightarrow> maint_outcome" where
  "scheduler_POST out w req m = with_admin w req m (\<lambda>u.
     case req_body req of
       Some JNull \<Rightarrow> (Inl ''Cannot read properties of null'', m)
     | b \<Rightarrow>
         (case Option.bind b (str_field ''task_id'') of
            Some taskId \<Rightarrow>
              if taskId \<in> {''auto_backup'', ''auto_cleanup'', ''agent_heartbeat''}
              then (let (r, m') = triggerTask out w taskId m
                    in (Inr (json_response (if tr_ok r then 200 else 500)
                          (JObj [(''ok'', JBool (tr_ok r)), (''message'', JStr (tr_message r))])), m'))
              else (Inr (error_response 400 ''task_id required: auto_backup, auto_cleanup, or agent_heartbeat''), m)
          | None \<Rightarrow> (Inr (error_response 400 ''task_id required: auto_backup, auto_cleanup, or agent_heartbeat''), m)))"

section \<open>What a clean-up removes\<close>

text \<open>The retention policy: a row is removed when its table has a positive retention and it is older.\<close>

definition outdated :: "world \<Rightarrow> int option \<Rightarrow> int \<Rightarrow> bool" where
  "outdated w days created = (case days of None \<Rightarrow> False | Some n \<Rightarrow> 0 < n \<and> created < now_s w - n * 86400)"

definition retained_db :: "world \<Rightarrow> database \<Rightarrow> database" where
  "retained_db w d = (let ret = config_retention w in
     d\<lparr>activities := tbl_delete (\<lambda>r. outdated w (ret_activities ret) (a_created_at r)) (activities d),
       audit_log := tbl_delete (\<lambda>r. outdated w (ret_auditLog ret) (au_created_at r)) (audit_log d),
       notifications := tbl_delete (\<lambda>r. outdated w (ret_notifications ret) (n_created_at r)) (notifications d),
       pipeline_runs := tbl_delete (\<lambda>r. outdated w (ret_pipelineRuns ret) (r_created_at r)) (pipeline_runs d)\<rparr>)"

definition retained_tokens :: "world \<Rightarrow> json option \<Rightarrow> json option" where
  "retained_tokens w f = (case (ret_tokenUsage (config_retention w), token_records f) of
     (Some n, Some rs) \<Rightarrow> if n \<le> 0 then f
       else Some (JArr (filter (\<lambda>r. case timestamp_of r of None \<Rightarrow> False | Some t \<Rightarrow> now_ms w - n * 86400000 \<le> t) rs))
   | _ \<Rightarrow> f)"

definition target_db :: "world \<Rightarrow> cleanup_table \<times> int option \<times> string \<Rightarrow> database \<Rightarrow> database" where
  "target_db w target d = (case target of (tb, days, label) \<Rightarrow> (case days of
     None \<Rightarrow> d | Some n \<Rightarrow> if n \<le> 0 then d else delete_older tb (retention_cutoff w n) d))"

lemma fold_target_db: "fold (target_db w) (getRetentionTargets w) d = retained_db w d"
  by (simp add: getRetentionTargets_def retained_db_def target_db_def outdated_def retention_cutoff_def Let_def split: option.split)

lemma kept_token_iff: "kept_token (token_cutoff w n) = (\<lambda>r. case timestamp_of r of None \<Rightarrow> False | Some t \<Rightarrow> now_ms w - n * 86400000 \<le> t)"
  by (rule ext) (auto simp: kept_token_def token_cutoff_def split: option.split)

text \<open>The preview counts what a deletion removes.\<close>

lemma select_delete_length: "length (rows t) - length (rows (tbl_delete p t)) = length (tbl_select p t)"
  using sum_length_filter_compl [of p "rows t"] by (simp add: tbl_select_def rows_tbl_delete)

lemma delete_changes_eq: "delete_changes tb c d = count_older tb c d"
  by (cases tb) (simp_all add: delete_changes_def select_delete_length)

text \<open>What the loop over the targets reports of a table depends on that table alone.\<close>

lemma count_older_other: "tb \<noteq> tb' \<Longrightarrow> count_older tb c (delete_older tb' c' d) = count_older tb c d"
  by (cases tb; cases tb') simp_all

definition target_report :: "world \<Rightarrow> database \<Rightarrow> cleanup_table \<times> int option \<times> string \<Rightarrow> cleanup_result list \<times> nat" where
  "target_report w d target = (let (results, n, d') = cleanup_target True w target ([], 0, d) in (results, n))"

lemma cleanup_target_eq:
  "cleanup_target dryRun w target (results, n, d) =
     (results @ fst (target_report w d target), n + snd (target_report w d target),
      if dryRun then d else target_db w target d)"
  by (cases target) (auto simp: cleanup_target_def target_report_def target_db_def delete_changes_eq Let_def split: option.split prod.split)

lemma target_report_other:
  "fst target \<noteq> fst target' \<Longrightarrow> target_report w (target_db w target' d) target = target_report w d target"
  by (cases target; cases target')
    (auto simp: target_report_def cleanup_target_def target_db_def Let_def count_older_other split: option.split prod.split)

lemma cleanup_targets_eq:
  assumes "distinct (map fst targets)"
  shows "fold (cleanup_target dryRun w) targets (results, n, d) =
     (results @ concat (map (fst \<circ> target_report w d) targets), n + sum_list (map (snd \<circ> target_report w d) targets),
      if dryRun then d else fold (target_db w) targets d)"
  using assms
proof (induction targets arbitrary: results n d)
  case Nil
  then show ?case by simp
next
  case (Cons x xs)
  have same: "target_report w (target_db w x d) y = target_report w d y" if "y \<in> set xs" for y
    using that Cons.prems by (intro target_report_other) (auto simp: image_iff)
  have "distinct (map fst xs)" using Cons.prems by simp
  then show ?case
    by (simp only: fold_simps cleanup_target_eq Cons.IH) (simp add: same cong: map_cong)
qed

lemma distinct_targets: "distinct (map fst (getRetentionTargets w))"
  by (simp add: getRetentionTargets_def Let_def)

lemma removed_none: "length rs - length (filter p rs) = 0 \<Longrightarrow> filter p rs = rs"
  by (metis diff_is_0_eq filter_True length_filter_less not_less)

lemma token_file_kept:
  assumes "token_records f = Some rs" and "length rs - length (filter p rs) = 0"
  shows "Some (JArr (filter p rs)) = f"
proof -
  from assms(1) have "f = Some (JArr rs)"
    by (auto simp: token_records_def split: option.splits json.splits if_splits)
  with removed_none [OF assms(2)] show ?thesis by simp
qed

lemma cleanup_tokens_eq:
  "fst (cleanup_tokens True w (results, n, f)) = fst (cleanup_tokens False w (results, n, f))"
  "fst (snd (cleanup_tokens True w (results, n, f))) = fst (snd (cleanup_tokens False w (results, n, f)))"
  "snd (snd (cleanup_tokens True w (results, n, f))) = f"
  "snd (snd (cleanup_tokens False w (results, n, f))) = retained_tokens w f"
  by (auto simp: cleanup_tokens_def retained_tokens_def kept_token_iff Let_def token_file_kept split: option.splits)

lemma auto_cleanup_tokens_eq: "snd (auto_cleanup_tokens w (n, f)) = retained_tokens w f"
  by (auto simp: auto_cleanup_tokens_def retained_tokens_def kept_token_iff Let_def token_file_kept split: option.splits)

lemma auto_cleanup_target_db: "snd (auto_cleanup_target w target (n, d)) = target_db w target d"
  by (cases target) (simp add: auto_cleanup_target_def target_db_def split: option.split)

lemma auto_cleanup_targets_db: "snd (fold (auto_cleanup_target w) targets x) = fold (target_db w) targets (snd x)"
  by (induction targets arbitrary: x) (simp_all add: auto_cleanup_target_db [of w _ "fst x" "snd x" for x, simplified])

definition retained :: "world \<Rightarrow> maint \<Rightarrow> maint" where
  "retained w m = (upd_server (\<lambda>s. s\<lparr>db := retained_db w (db s)\<rparr>) m)\<lparr>tokens_file := retained_tokens w (tokens_file m)\<rparr>"

lemma run_retention_real: "snd (snd (run_retention False w m)) = retained w m"
  by (simp add: run_retention_def retained_def upd_server_def cleanup_targets_eq [OF distinct_targets] fold_target_db
      cleanup_tokens_eq Let_def split: prod.split)
     (metis cleanup_tokens_eq(4) snd_conv)

lemma run_retention_dry:
  "run_retention True w m = (fst (run_retention False w m), fst (snd (run_retention False w m)), m)"
proof -
  let ?x = "\<lambda>dry. cleanup_tokens dry w (concat (map (fst \<circ> target_report w (db (mt_server m))) (getRetentionTargets w)),
     sum_list (map (snd \<circ> target_report w (db (mt_server m))) (getRetentionTargets w)), tokens_file m)"
  have "?x True = (fst (?x False), fst (snd (?x False)), tokens_file m)"
    by (intro prod_eqI) (simp_all add: cleanup_tokens_eq)
  then show ?thesis
    by (simp add: run_retention_def upd_server_def cleanup_targets_eq [OF distinct_targets] Let_def case_prod_beta)
qed

lemma upd_server_id [simp]: "upd_server id m = m"
  by (simp add: upd_server_def)

definition audits_only :: "world \<Rightarrow> (server \<Rightarrow> server) \<Rightarrow> bool" where
  "audits_only w f \<longleftrightarrow> f = id \<or> (\<exists>e. f = logAuditEvent w e)"

lemma audits_only_intros [simp]: "audits_only w id" "audits_only w (logAuditEvent w e)"
  by (auto simp: audits_only_def)

lemma audits_if:
  "\<exists>f. audits_only w f \<and> (if c then upd_server (logAuditEvent w e) m else m) = upd_server f m"
proof (cases c)
  case True
  then show ?thesis by (intro exI [of _ "logAuditEvent w e"]) simp
next
  case False
  then show ?thesis by (intro exI [of _ id]) simp
qed

lemma perform_cleanup_real: "\<exists>f. audits_only w f \<and> snd (perform_cleanup False w req u m) = upd_server f (retained w m)"
proof (cases "run_retention False w m")
  case (fields results n m1)
  then have "m1 = retained w m" using run_retention_real [of w m] by simp
  with fields show ?thesis
    by (simp add: perform_cleanup_def Let_def audits_if del: if_split)
qed

lemma perform_cleanup_dry: "snd (perform_cleanup True w req u m) = m"
  by (simp add: perform_cleanup_def run_retention_dry)

lemma runCleanup_eq: "\<exists>f. audits_only w f \<and> snd (runCleanup w m) = upd_server f (retained w m)"
proof -
  obtain n1 d where 1: "fold (auto_cleanup_target w) (getRetentionTargets w) (0, db (mt_server m)) = (n1, d)" by fastforce
  obtain n2 f where 2: "auto_cleanup_tokens w (n1, tokens_file m) = (n2, f)" by fastforce
  have "d = retained_db w (db (mt_server m))"
    using auto_cleanup_targets_db [of w "getRetentionTargets w" "(0, db (mt_server m))"] 1 by (simp add: fold_target_db)
  moreover have "f = retained_tokens w (tokens_file m)"
    using auto_cleanup_tokens_eq [of w n1 "tokens_file m"] 2 by simp
  ultimately have "(upd_server (\<lambda>s. s\<lparr>db := d\<rparr>) m)\<lparr>tokens_file := f\<rparr> = retained w m"
    by (simp add: retained_def upd_server_def)
  then show ?thesis
    by (simp only: runCleanup_def 1 2 Let_def prod.case snd_conv audits_if)
qed

lemma cleanup_POST_dry:
  assumes "req_body req = Some b" and "jget ''dry_run'' b = Some (JBool True)"
  shows "\<exists>st. snd (cleanup_POST w req m) = m\<lparr>heavy_store := st\<rparr>"
proof -
  have "\<exists>st. m = m\<lparr>heavy_store := st\<rparr>" by (rule exI [of _ "heavy_store m"]) simp
  moreover have "dry_run_of (req_body req)" and "req_body req \<noteq> Some JNull" using assms by (auto simp: dry_run_of_def)
  ultimately show ?thesis
    unfolding cleanup_POST_def with_admin_def with_heavy_limit_def
    by (auto simp: perform_cleanup_dry split: sum.split auth_result.split prod.split option.split simp del: maint.surjective)
qed

text \<open>
  The number of records that a run removes, table by table, for the tables with a positive retention,
  and from the token file when it holds records.
\<close>

definition cleared :: "world \<Rightarrow> maint \<Rightarrow> (string \<times> nat) list" where
  "cleared w m = (let ret = config_retention w; d = db (mt_server m); d' = retained_db w d; f = tokens_file m in
     map snd (filter (\<lambda>(days, _). case days of None \<Rightarrow> False | Some n \<Rightarrow> 0 < n)
       [(ret_activities ret, ''Activities'', length (rows (activities d)) - length (rows (activities d'))),
        (ret_auditLog ret, ''Audit Log'', length (rows (audit_log d)) - length (rows (audit_log d'))),
        (ret_notifications ret, ''Notifications'', length (rows (notifications d)) - length (rows (notifications d'))),
        (ret_pipelineRuns ret, ''Pipeline Runs'', length (rows (pipeline_runs d)) - length (rows (pipeline_runs d')))]) @
     (case (ret_tokenUsage ret, token_records f, token_records (retained_tokens w f)) of
        (Some n, Some before, Some after) \<Rightarrow> if 0 < n then [(''Token Usage (file)'', length before - length after)] else []
      | _ \<Rightarrow> []))"

text \<open>The retentions are numbers of days and the cut-offs they give are dates that can be printed.\<close>

definition valid_cutoffs :: "world \<Rightarrow> bool" where
  "valid_cutoffs w \<longleftrightarrow> (let ret = config_retention w in
     \<forall>days \<in> {ret_activities ret, ret_auditLog ret, ret_notifications ret, ret_pipelineRuns ret, ret_tokenUsage ret}.
       case days of None \<Rightarrow> False
       | Some n \<Rightarrow> date_part ((now_s w - n * 86400) * 1000) \<noteq> None \<and> date_part (now_ms w - n * 86400000) \<noteq> None)"

lemma target_reports_cleared:
  assumes "valid_cutoffs w"
  shows "map (\<lambda>r. (cr_table r, cr_deleted r)) (concat (map (fst \<circ> target_report w d) (getRetentionTargets w))) =
      map snd (filter (\<lambda>(days, _). case days of None \<Rightarrow> False | Some n \<Rightarrow> 0 < n)
        (map (\<lambda>(tb, days, label). (days, label, table_size tb d - table_size tb (retained_db w d))) (getRetentionTargets w))) \<and>
    sum_list (map (snd \<circ> target_report w d) (getRetentionTargets w)) =
      sum_list (map (snd \<circ> snd) (filter (\<lambda>(days, _). case days of None \<Rightarrow> False | Some n \<Rightarrow> 0 < n)
        (map (\<lambda>(tb, days, label). (days, label, table_size tb d - table_size tb (retained_db w d))) (getRetentionTargets w))))"
proof -
  let ?row = "\<lambda>(tb, days, label). (days, label, table_size tb d - table_size tb (retained_db w d))"
  have one: "map (\<lambda>r. (cr_table r, cr_deleted r)) (fst (target_report w d target)) =
        map snd (filter (\<lambda>(days, _). case days of None \<Rightarrow> False | Some n \<Rightarrow> 0 < n) [?row target]) \<and>
      snd (target_report w d target) = sum_list (map (snd \<circ> snd) (filter (\<lambda>(days, _). case days of None \<Rightarrow> False | Some n \<Rightarrow> 0 < n) [?row target]))"
    if target: "target \<in> set (getRetentionTargets w)" for target
  proof -
    obtain tb days label where t: "target = (tb, days, label)" by (cases target)
    from target assms obtain n where n: "days = Some n" "date_part (retention_cutoff w n * 1000) \<noteq> None"
      unfolding t by (auto simp: getRetentionTargets_def valid_cutoffs_def retention_cutoff_def Let_def split: option.splits)
    have "count_older tb (retention_cutoff w n) d = table_size tb d - table_size tb (retained_db w d)" if "0 < n"
      using target that unfolding t n
      by (auto simp: getRetentionTargets_def Let_def retained_db_def outdated_def retention_cutoff_def select_delete_length
          eq_commute [of "Some n"])
    then show ?thesis using n(2) by (auto simp: t n(1) target_report_def cleanup_target_def Let_def)
  qed
  have "map (\<lambda>r. (cr_table r, cr_deleted r)) (concat (map (fst \<circ> target_report w d) ts)) =
        map snd (filter (\<lambda>(days, _). case days of None \<Rightarrow> False | Some n \<Rightarrow> 0 < n) (map ?row ts)) \<and>
      sum_list (map (snd \<circ> target_report w d) ts) =
        sum_list (map (snd \<circ> snd) (filter (\<lambda>(days, _). case days of None \<Rightarrow> False | Some n \<Rightarrow> 0 < n) (map ?row ts)))"
    if "set ts \<subseteq> set (getRetentionTargets w)" for ts
    using that
  proof (induction ts)
    case (Cons t ts)
    then show ?case using one [of t] by auto
  qed simp
  then show ?thesis by blast
qed

lemma target_rows:
  "map (\<lambda>(tb, days, label). (days, label, table_size tb d - table_size tb (retained_db w d))) (getRetentionTargets w) =
    (let ret = config_retention w; d' = retained_db w d in
       [(ret_activities ret, ''Activities'', length (rows (activities d)) - length (rows (activities d'))),
        (ret_auditLog ret, ''Audit Log'', length (rows (audit_log d)) - length (rows (audit_log d'))),
        (ret_notifications ret, ''Notifications'', length (rows (notifications d)) - length (rows (notifications d'))),
        (ret_pipelineRuns ret, ''Pipeline Runs'', length (rows (pipeline_runs d)) - length (rows (pipeline_runs d')))])"
  by (simp add: getRetentionTargets_def Let_def)

lemma run_retention_cleared:
  assumes "valid_cutoffs w"
  shows "map (\<lambda>r. (cr_table r, cr_deleted r)) (fst (run_retention dryRun w m)) = cleared w m \<and>
    fst (snd (run_retention dryRun w m)) = sum_list (map snd (cleared w m))"
proof -
  let ?d = "db (mt_server m)" and ?f = "tokens_file m"
  let ?rs = "concat (map (fst \<circ> target_report w ?d) (getRetentionTargets w))"
  let ?n = "sum_list (map (snd \<circ> target_report w ?d) (getRetentionTargets w))"
  let ?tokens = "case (ret_tokenUsage (config_retention w), token_records ?f, token_records (retained_tokens w ?f)) of
      (Some n, Some before, Some after) \<Rightarrow> if 0 < n then [(''Token Usage (file)'', length before - length after)] else []
    | _ \<Rightarrow> []"
  from assms obtain days where days: "ret_tokenUsage (config_retention w) = Some days" "date_part (token_cutoff w days) \<noteq> None"
    by (auto simp: valid_cutoffs_def token_cutoff_def Let_def split: option.splits)
  have tokens: "map (\<lambda>r. (cr_table r, cr_deleted r)) (fst (cleanup_tokens dryRun w (rs, n, ?f))) =
        map (\<lambda>r. (cr_table r, cr_deleted r)) rs @ ?tokens \<and>
      fst (snd (cleanup_tokens dryRun w (rs, n, ?f))) = n + sum_list (map snd ?tokens)" for rs n
  proof (cases "token_records ?f")
    case None
    then show ?thesis by (simp add: cleanup_tokens_def days)
  next
    case (Some before)
    then have "JNull \<notin> set before" by (auto simp: token_records_def split: option.splits json.splits if_splits)
    then have kept: "token_records (Some (JArr (filter p before))) = Some (filter p before)" for p by (simp add: token_records_def)
    obtain K where K: "filter (\<lambda>r. case timestamp_of r of None \<Rightarrow> False | Some t \<Rightarrow> now_ms w - days * 86400000 \<le> t) before = K"
      by blast
    from K have "length K \<le> length before" by auto
    moreover from K kept have "token_records (Some (JArr K)) = Some K" by blast
    ultimately show ?thesis
      using days(2) by (auto simp: cleanup_tokens_def retained_tokens_def days(1) Some kept_token_iff K Let_def)
  qed
  obtain d' where folded: "fold (cleanup_target dryRun w) (getRetentionTargets w) ([], 0, ?d) = (?rs, ?n, d')"
    by (simp add: cleanup_targets_eq [OF distinct_targets])
  have "fst (run_retention dryRun w m) = fst (cleanup_tokens dryRun w (?rs, ?n, ?f))"
    "fst (snd (run_retention dryRun w m)) = fst (snd (cleanup_tokens dryRun w (?rs, ?n, ?f)))"
    by (simp_all add: run_retention_def folded Let_def case_prod_beta)
  moreover have "cleared w m = map (\<lambda>r. (cr_table r, cr_deleted r)) ?rs @ ?tokens"
    unfolding target_reports_cleared [OF assms, THEN conjunct1] target_rows cleared_def Let_def by simp
  moreover have "?n = sum_list (map snd (map (\<lambda>r. (cr_table r, cr_deleted r)) ?rs))"
    unfolding target_reports_cleared [OF assms, THEN conjunct1] target_reports_cleared [OF assms, THEN conjunct2]
    by (simp add: comp_def)
  ultimately show ?thesis using tokens [of ?rs ?n] by simp
qed

lemma perform_cleanup_cleared:
  assumes "valid_cutoffs w"
  shows "\<exists>results. fst (perform_cleanup dryRun w req u m) = Inr (json_response 200 (JObj [(''dry_run'', JBool dryRun),
       (''total_deleted'', JNum (int (sum_list (map snd (cleared w m))))), (''results'', JArr (map cleanup_result_json results))])) \<and>
     map (\<lambda>r. (cr_table r, cr_deleted r)) results = cleared w m"
  using run_retention_cleared [OF assms, of dryRun m] by (auto simp: perform_cleanup_def Let_def case_prod_beta)

text \<open>
  C16. Clean-up and its preview agree. A dry run of \<open>POST /api/cleanup\<close> changes nothing but the
  request counter, and gives the answer that the run at that moment gives. Both report, table by
  table and in total, the number of records that the run removes, when the retentions are numbers whose
  cut-offs are dates. A run, and equally the scheduled \<open>runCleanup\<close>, removes exactly the rows of the four
  tables that are older than a positive retention and the records of the token file that are older or have
  no numeric timestamp, and otherwise at most adds one audit entry.
\<close>

theorem cleanup_exact:
  "(req_body req = Some b \<and> jget ''dry_run'' b = Some (JBool True) \<longrightarrow>
      (\<exists>st. snd (cleanup_POST w req m) = m\<lparr>heavy_store := st\<rparr>)) \<and>
   run_retention True w m = (fst (run_retention False w m), fst (snd (run_retention False w m)), m) \<and>
   (valid_cutoffs w \<longrightarrow> (\<exists>results. fst (perform_cleanup dryRun w req u m) = Inr (json_response 200 (JObj
       [(''dry_run'', JBool dryRun), (''total_deleted'', JNum (int (sum_list (map snd (cleared w m))))),
        (''results'', JArr (map cleanup_result_json results))])) \<and>
     map (\<lambda>r. (cr_table r, cr_deleted r)) results = cleared w m)) \<and>
   (\<exists>f. audits_only w f \<and> snd (perform_cleanup False w req u m) = upd_server f (retained w m)) \<and>
   (\<exists>f. audits_only w f \<and> snd (runCleanup w m) = upd_server f (retained w m))"
  by (intro conjI impI run_retention_dry perform_cleanup_cleared perform_cleanup_real runCleanup_eq) (auto intro: cleanup_POST_dry)

definition demo_maint :: maint where
  "demo_maint = \<lparr>mt_server = logAuditEvent (demo_world\<lparr>now_ms := 0\<rparr>) (audit_event0 ''login'' ''admin'') init_server,
     heavy_store = Map.empty, tokens_file = None, backup_dir = []\<rparr>"

lemma demo_cutoffs: "valid_cutoffs demo_world"
  by (simp add: valid_cutoffs_def date_part_def toISOString_def valid_time_def demo_world_def config_retention_def env_number_def js_number_def js_digits_def
      trim_def is_ws_def is_digit_def digits_value_def now_s_def Let_def)

lemma demo_cleared: "sum_list (map snd (cleared demo_world demo_maint)) = 1"
  by code_simp

theorem cleanup_exact_witness:
  "(\<exists>st. snd (cleanup_POST demo_world (demo_request\<lparr>req_body := Some (JObj [(''dry_run'', JBool True)])\<rparr>) demo_maint) =
     demo_maint\<lparr>heavy_store := st\<rparr>) \<and>
   (\<exists>results. fst (perform_cleanup True demo_world demo_request (api_user init_server) demo_maint) = Inr (json_response 200 (JObj
      [(''dry_run'', JBool True), (''total_deleted'', JNum 1), (''results'', JArr results)])))"
  using cleanup_exact [of "demo_request\<lparr>req_body := Some (JObj [(''dry_run'', JBool True)])\<rparr>"
      "JObj [(''dry_run'', JBool True)]" demo_world demo_maint True "api_user init_server"]
    cleanup_exact [of demo_request JNull demo_world demo_maint True "api_user init_server"] demo_cutoffs demo_cleared
  by auto

lemma cleanup_example: "rows (audit_log (db (mt_server (retained demo_world demo_maint)))) = []"
  by (simp add: retained_def retained_db_def demo_maint_def demo_world_def logAuditEvent_def tbl_insert_def tbl_delete_def
      outdated_def config_retention_def env_number_def js_number_def js_digits_def trim_def is_ws_def is_digit_def
      digits_value_def retention_cutoff_def now_s_def audit_event0_def securityEvents_def init_server_def empty_db_def
      tbl_empty_def Let_def)

section \<open>The heartbeat check\<close>

definition take_offline :: "world \<Rightarrow> agent_row \<Rightarrow> agent_row" where
  "take_offline w g = g\<lparr>g_status := ''offline'', g_updated_at := now_s w\<rparr>"

lemma mark_agent_agents:
  "agents (mark_agent_offline w T g d) = tbl_update (\<lambda>x. g_id x = g_id g) (take_offline w) (agents d)"
  by (simp add: mark_agent_offline_def take_offline_def [abs_def])

lemma mark_agent_log:
  "\<exists>a. rows (activities (mark_agent_offline w T g d)) = rows (activities d) @ [a] \<and>
     a_type a = ''agent_status_change'' \<and> a_entity_id a = g_id g"
  by (simp add: mark_agent_offline_def rows_tbl_insert)

lemma mark_agent_notify:
  "\<exists>n. rows (notifications (mark_agent_offline w T g d)) = rows (notifications d) @ [n] \<and>
     n_recipient n = ''system'' \<and> n_type n = ''heartbeat'' \<and> n_source_id n = Some (g_id g)"
  by (simp add: mark_agent_offline_def rows_tbl_insert)

lemma take_offline_twice:
  "tbl_update (\<lambda>x. g_id x \<in> I) (take_offline w) (tbl_update (\<lambda>x. g_id x = i) (take_offline w) t) =
   tbl_update (\<lambda>x. g_id x \<in> insert i I) (take_offline w) t"
  by (auto simp: tbl_update_def take_offline_def)

lemma mark_agents_agents:
  "agents (fold (mark_agent_offline w T) gs d) =
     tbl_update (\<lambda>g. g_id g \<in> g_id ` set gs) (take_offline w) (agents d)"
proof (induction gs arbitrary: d)
  case Nil
  then show ?case by (simp add: tbl_update_def)
next
  case (Cons g gs)
  then show ?case by (simp only: fold_simps mark_agent_agents take_offline_twice list.set image_insert)
qed

text \<open>A loop of which every round appends one row.\<close>

lemma fold_appends:
  assumes "\<And>x d. \<exists>r. rows (t (f x d)) = rows (t d) @ [r] \<and> k r = h x"
  shows "\<exists>new. rows (t (fold f xs d)) = rows (t d) @ new \<and> map k new = map h xs"
proof (induction xs arbitrary: d)
  case Nil
  then show ?case by simp
next
  case (Cons x xs)
  obtain r where r: "rows (t (f x d)) = rows (t d) @ [r]" "k r = h x" using assms by blast
  obtain new where "rows (t (fold f xs (f x d))) = rows (t (f x d)) @ new" "map k new = map h xs"
    using Cons.IH by blast
  with r show ?case by (intro exI [of _ "r # new"]) simp
qed

lemma mark_agents_log:
  "\<exists>new. rows (activities (fold (mark_agent_offline w T) gs d)) = rows (activities d) @ new \<and>
     map (\<lambda>a. (a_type a, a_entity_id a)) new = map (\<lambda>g. (''agent_status_change'', g_id g)) gs"
  by (rule fold_appends) (use mark_agent_log in auto)

lemma mark_agents_notify:
  "\<exists>new. rows (notifications (fold (mark_agent_offline w T) gs d)) = rows (notifications d) @ new \<and>
     map (\<lambda>n. (n_recipient n, n_type n, n_source_id n)) new = map (\<lambda>g. (''system'', ''heartbeat'', Some (g_id g))) gs"
  by (rule fold_appends) (use mark_agent_notify in auto)

text \<open>The tables that the check may write, taken back to what they were.\<close>

definition untouched :: "database \<Rightarrow> database \<Rightarrow> database" where
  "untouched d0 d = d\<lparr>agents := agents d0, activities := activities d0, notifications := notifications d0, audit_log := audit_log d0\<rparr>"

lemma untouched_mark_one: "untouched d0 (mark_agent_offline w T g d) = untouched d0 d"
  by (simp add: untouched_def mark_agent_offline_def)

lemma untouched_mark: "untouched d0 (fold (mark_agent_offline w T) gs d) = untouched d0 d"
  by (induction gs arbitrary: d) (simp_all add: untouched_mark_one)

lemma untouched_self [simp]: "untouched d d = d"
  by (simp add: untouched_def)

lemma untouched_audit: "untouched d0 (db (logAuditEvent w e s)) = untouched d0 (db s)"
  by (simp add: logAuditEvent_def untouched_def Let_def)

definition agent_timeout :: "server \<Rightarrow> int" where
  "agent_timeout s = getSettingNumber s ''general.agent_timeout_minutes'' 10"

definition stale_before :: "world \<Rightarrow> server \<Rightarrow> agent_row \<Rightarrow> bool" where
  "stale_before w s = stale_agent (now_s w - agent_timeout s * 60)"

lemma runHeartbeatCheck_cases:
  "db (snd (runHeartbeatCheck w s)) = db s \<and> tbl_select (stale_before w s) (agents (db s)) = [] \<or>
   (\<exists>e. db (snd (runHeartbeatCheck w s)) = db (logAuditEvent w e
      (s\<lparr>db := fold (mark_agent_offline w (agent_timeout s)) (tbl_select (stale_before w s) (agents (db s))) (db s)\<rparr>)))"
  by (auto simp: runHeartbeatCheck_def stale_before_def agent_timeout_def Let_def)

lemma heartbeat_agents:
  assumes "tbl_wf g_id (agents (db s))"
  shows "agents (db (snd (runHeartbeatCheck w s))) = tbl_update (stale_before w s) (take_offline w) (agents (db s))"
proof -
  let ?t = "agents (db s)" and ?p = "stale_before w s"
  have "tbl_update (\<lambda>g. g_id g \<in> g_id ` set (tbl_select ?p ?t)) (take_offline w) ?t = tbl_update ?p (take_offline w) ?t"
    unfolding tbl_update_def using select_ids [OF assms, of _ ?p] by (simp cong: map_cong)
  moreover have "tbl_update ?p (take_offline w) ?t = ?t" if "tbl_select ?p ?t = []"
    using that by (simp add: tbl_update_def tbl_select_def filter_empty_conv map_idI)
  ultimately show ?thesis
    using runHeartbeatCheck_cases [of w s] by (auto simp: mark_agents_agents frame_simps)
qed

lemma heartbeat_log:
  "\<exists>new. rows (activities (db (snd (runHeartbeatCheck w s)))) = rows (activities (db s)) @ new \<and>
     map (\<lambda>a. (a_type a, a_entity_id a)) new =
       map (\<lambda>g. (''agent_status_change'', g_id g)) (tbl_select (stale_before w s) (agents (db s)))"
  using runHeartbeatCheck_cases [of w s] mark_agents_log [of w "agent_timeout s" _ "db s"]
  by (elim disjE exE) (simp_all add: frame_simps)

lemma heartbeat_notify:
  "\<exists>new. rows (notifications (db (snd (runHeartbeatCheck w s)))) = rows (notifications (db s)) @ new \<and>
     map (\<lambda>n. (n_recipient n, n_type n, n_source_id n)) new =
       map (\<lambda>g. (''system'', ''heartbeat'', Some (g_id g))) (tbl_select (stale_before w s) (agents (db s)))"
  using runHeartbeatCheck_cases [of w s] mark_agents_notify [of w "agent_timeout s" _ "db s"]
  by (elim disjE exE) (simp_all add: frame_simps)

lemma heartbeat_untouched: "untouched (db s) (db (snd (runHeartbeatCheck w s))) = db s"
  using runHeartbeatCheck_cases [of w s]
  by (elim disjE exE) (simp_all add: untouched_audit untouched_mark)

lemma heartbeat_settings: "settings (db (snd (runHeartbeatCheck w s))) = settings (db s)"
proof -
  have "settings (untouched (db s) (db (snd (runHeartbeatCheck w s)))) = settings (db s)" by (simp only: heartbeat_untouched)
  then show ?thesis by (simp add: untouched_def)
qed

lemma heartbeat_again:
  assumes "tbl_wf g_id (agents (db s))"
  shows "snd (runHeartbeatCheck w (snd (runHeartbeatCheck w s))) = snd (runHeartbeatCheck w s)"
proof -
  let ?s = "snd (runHeartbeatCheck w s)"
  have "stale_before w ?s = stale_before w s"
    by (simp add: stale_before_def agent_timeout_def getSettingNumber_def setting_of_def heartbeat_settings)
  moreover have "tbl_select (stale_before w s) (agents (db ?s)) = []"
    by (auto simp: heartbeat_agents [OF assms] tbl_select_def rows_tbl_update filter_empty_conv stale_before_def
        stale_agent_def take_offline_def)
  ultimately have "tbl_select (stale_before w ?s) (agents (db ?s)) = []" by simp
  then show ?thesis
    unfolding runHeartbeatCheck_def [of w ?s] by (simp add: stale_before_def agent_timeout_def Let_def)
qed

text \<open>
  The heartbeat check takes exactly the agents offline that are not offline yet and were last
  seen before the timeout (or never); each of them gets one activity entry and one notification, in
  order, and nothing else of the database changes but the audit log. A second check at the same time
  finds nothing to do.
\<close>

theorem heartbeat_exact:
  assumes "tbl_wf g_id (agents (db s))"
  shows "agents (db (snd (runHeartbeatCheck w s))) = tbl_update (stale_before w s) (take_offline w) (agents (db s)) \<and>
    (\<exists>new. rows (activities (db (snd (runHeartbeatCheck w s)))) = rows (activities (db s)) @ new \<and>
       map (\<lambda>a. (a_type a, a_entity_id a)) new =
         map (\<lambda>g. (''agent_status_change'', g_id g)) (tbl_select (stale_before w s) (agents (db s)))) \<and>
    (\<exists>new. rows (notifications (db (snd (runHeartbeatCheck w s)))) = rows (notifications (db s)) @ new \<and>
       map (\<lambda>n. (n_recipient n, n_type n, n_source_id n)) new =
         map (\<lambda>g. (''system'', ''heartbeat'', Some (g_id g))) (tbl_select (stale_before w s) (agents (db s)))) \<and>
    untouched (db s) (db (snd (runHeartbeatCheck w s))) = db s \<and>
    snd (runHeartbeatCheck w (snd (runHeartbeatCheck w s))) = snd (runHeartbeatCheck w s)"
  by (intro conjI heartbeat_agents heartbeat_log heartbeat_notify heartbeat_untouched heartbeat_again assms)

definition demo_agent :: "int \<Rightarrow> int option \<Rightarrow> agent_row" where
  "demo_agent i seen = \<lparr>g_id = i, g_name = ''scout'', g_role = ''researcher'', g_session_key = None, g_soul_content = None,
     g_status = ''idle'', g_last_seen = seen, g_last_activity = None, g_created_at = 0, g_updated_at = 0, g_config = None,
     g_workspace_id = 1, g_working_memory = None\<rparr>"

definition demo_agents :: server where
  "demo_agents = init_server\<lparr>db := empty_db\<lparr>agents := \<lparr>seq = 2, rows = [demo_agent 1 (Some 1699999999), demo_agent 2 None]\<rparr>\<rparr>\<rparr>"

theorem heartbeat_exact_witness:
  "map g_status (rows (agents (db (snd (runHeartbeatCheck demo_world demo_agents))))) = [''idle'', ''offline'']"
proof -
  have "tbl_wf g_id (agents (db demo_agents))"
    by (simp add: demo_agents_def demo_agent_def tbl_wf_def)
  from heartbeat_exact [OF this, of demo_world] show ?thesis
    by (simp add: demo_agents_def demo_agent_def rows_tbl_update stale_before_def stale_agent_def agent_timeout_def
        getSettingNumber_def setting_of_def take_offline_def now_s_def demo_world_def empty_db_def)
qed

section \<open>Ticks\<close>

lemma map_fst_upd_task [simp]: "map fst (upd_task i f ts) = map fst ts"
  by (induction ts) (auto simp: upd_task_def)

lemma map_of_upd_task: "map_of (upd_task i f ts) k = (if k = i then map_option f (map_of ts i) else map_of ts k)"
  by (induction ts) (auto simp: upd_task_def)

definition runnable :: "server \<Rightarrow> int \<Rightarrow> string \<Rightarrow> sched_task \<Rightarrow> bool" where
  "runnable s now i t \<longleftrightarrow> \<not> running t \<and> nextRun t \<le> now \<and> task_enabled s i"

text \<open>The loop stops at the first task that is idle, due and enabled.\<close>

lemma tick_loop_Some:
  "tick_loop s now is ts = (Some th, ts') \<Longrightarrow>
     \<exists>pre t. is = pre @ tt_current th # tt_rest th \<and> map_of ts (tt_current th) = Some t \<and> runnable s now (tt_current th) t \<and>
       (\<forall>j \<in> set pre. \<forall>u. map_of ts j = Some u \<longrightarrow> \<not> runnable s now j u) \<and>
       tt_now th = now \<and> ts' = upd_task (tt_current th) (\<lambda>t. t\<lparr>running := True\<rparr>) ts"
proof (induction "is")
  case Nil
  then show ?case by simp
next
  case (Cons i "is")
  show ?case
  proof (cases "\<exists>t. map_of ts i = Some t \<and> runnable s now i t")
    case True
    with Cons.prems show ?thesis by (intro exI [of _ "[]"]) (auto simp: runnable_def not_le)
  next
    case False
    then have "tick_loop s now is ts = (Some th, ts')"
      using Cons.prems by (auto simp: runnable_def not_le split: option.splits if_splits)
    with Cons.IH obtain pre t where "is = pre @ tt_current th # tt_rest th"
      "map_of ts (tt_current th) = Some t" "runnable s now (tt_current th) t"
      "\<forall>j \<in> set pre. \<forall>u. map_of ts j = Some u \<longrightarrow> \<not> runnable s now j u"
      "tt_now th = now" "ts' = upd_task (tt_current th) (\<lambda>t. t\<lparr>running := True\<rparr>) ts" by blast
    with False show ?thesis by (intro exI [of _ "i # pre"] exI [of _ t]) auto
  qed
qed

lemma tick_loop_None:
  "tick_loop s now is ts = (None, ts') \<Longrightarrow>
     ts' = ts \<and> (\<forall>j \<in> set is. \<forall>u. map_of ts j = Some u \<longrightarrow> \<not> runnable s now j u)"
  by (induction "is") (auto simp: runnable_def not_le split: option.splits if_splits)

subsection \<open>Overlapping ticks\<close>

text \<open>
  The timer may fire, and a suspended tick may go on, at any moment, with any settings and any
  result of the awaited job.
\<close>

inductive sched_step :: "scheduler \<times> tick_thread list \<Rightarrow> scheduler \<times> tick_thread list \<Rightarrow> bool" where
  timer: "tick_loop s now (map fst ts) ts = (th, ts') \<Longrightarrow>
     sched_step (ts, ths) (ts', (case th of None \<Rightarrow> [] | Some x \<Rightarrow> [x]) @ ths)"
| resumed: "tick_loop s (tt_now x) (tt_rest x) (finish_task (tt_now x) r (tt_current x) ts) = (th, ts') \<Longrightarrow>
     sched_step (ts, as @ x # bs) (ts', (case th of None \<Rightarrow> [] | Some y \<Rightarrow> [y]) @ as @ bs)"

inductive_cases sched_stepE: "sched_step x y"

definition sched_init :: "scheduler \<times> tick_thread list \<Rightarrow> bool" where
  "sched_init x \<longleftrightarrow> (\<exists>w. x = (initScheduler w, []))"

definition sched_task_ok :: "string list \<Rightarrow> string \<Rightarrow> sched_task \<Rightarrow> bool" where
  "sched_task_ok busy i t \<longleftrightarrow> (running t \<longleftrightarrow> i \<in> set busy) \<and> 0 < intervalMs t \<and>
     (\<forall>l. lastRun t = Some l \<longrightarrow> nextRun t = l + intervalMs t)"

definition sched_inv :: "scheduler \<times> tick_thread list \<Rightarrow> bool" where
  "sched_inv x = (case x of (ts, ths) \<Rightarrow>
     distinct (map fst ts) \<and> distinct (map tt_current ths) \<and> tt_current ` set ths \<subseteq> fst ` set ts \<and>
     (\<forall>i t. map_of ts i = Some t \<longrightarrow> sched_task_ok (map tt_current ths) i t))"

lemma fst_set_upd_task [simp]: "fst ` set (upd_task i f ts) = fst ` set ts"
  by (metis map_fst_upd_task set_map)

lemma sched_inv_loop:
  assumes inv: "sched_inv (ts, ths)" and loop: "tick_loop s now is ts = (th, ts')"
  shows "sched_inv (ts', (case th of None \<Rightarrow> [] | Some x \<Rightarrow> [x]) @ ths)"
proof (cases th)
  case None
  then show ?thesis using tick_loop_None [of s now "is" ts ts'] inv loop by simp
next
  case (Some x)
  with loop tick_loop_Some obtain t where t: "map_of ts (tt_current x) = Some t" "\<not> running t"
    "ts' = upd_task (tt_current x) (\<lambda>t. t\<lparr>running := True\<rparr>) ts" by (metis runnable_def)
  then have new: "tt_current x \<notin> set (map tt_current ths)" using inv by (auto simp: sched_inv_def sched_task_ok_def)
  moreover have "tt_current x \<in> fst ` set ts" using t(1) by (force dest: map_of_SomeD)
  ultimately show ?thesis
    using inv t Some by (auto simp: sched_inv_def sched_task_ok_def map_of_upd_task split: if_splits)
qed

lemma sched_inv_finish:
  assumes inv: "sched_inv (ts, as @ x # bs)"
  shows "sched_inv (finish_task now r (tt_current x) ts, as @ bs)"
proof -
  have "tt_current x \<notin> set (map tt_current (as @ bs))" using inv by (auto simp: sched_inv_def)
  with inv show ?thesis
    by (auto simp: sched_inv_def finish_task_def sched_task_ok_def map_of_upd_task split: if_splits)
qed

interpretation ticks: invariant_system sched_init sched_step sched_inv
proof
  fix x
  assume "sched_init x"
  then show "sched_inv x"
    by (auto simp: sched_init_def sched_inv_def initScheduler_def new_sched_task_def sched_task_ok_def DAILY_MS_def
        FIVE_MINUTES_MS_def TICK_MS_def split: if_splits)
next
  fix x y
  assume "sched_inv x" "sched_step x y"
  then show "sched_inv y"
    by (auto elim!: sched_stepE intro: sched_inv_loop sched_inv_finish)
qed

text \<open>
  C17. However ticks overlap, no task runs twice at the same time: in every reachable state the
  suspended ticks wait for different tasks, the \<open>running\<close> flag is set for exactly those tasks, and
  after each run the next one is due one interval later. A tick starts a task only when the task is
  idle, due and enabled in the settings.
\<close>

theorem no_overlapping_runs:
  assumes "sched_init x0" and "sched_step\<^sup>*\<^sup>* x0 (ts, ths)"
  shows "distinct (map tt_current ths) \<and>
    (\<forall>i t. map_of ts i = Some t \<longrightarrow> (running t \<longleftrightarrow> i \<in> tt_current ` set ths) \<and>
       (\<forall>l. lastRun t = Some l \<longrightarrow> nextRun t = l + intervalMs t \<and> l < nextRun t)) \<and>
    (\<forall>s now is th ts'. tick_loop s now is ts = (Some th, ts') \<longrightarrow>
       (\<exists>t. map_of ts (tt_current th) = Some t \<and> \<not> running t \<and> nextRun t \<le> now \<and> task_enabled s (tt_current th)))"
proof (intro conjI)
  have inv: "sched_inv (ts, ths)" using ticks.reachable_inv [OF assms] .
  show "distinct (map tt_current ths)" using inv by (simp add: sched_inv_def)
  show "\<forall>i t. map_of ts i = Some t \<longrightarrow> (running t \<longleftrightarrow> i \<in> tt_current ` set ths) \<and>
       (\<forall>l. lastRun t = Some l \<longrightarrow> nextRun t = l + intervalMs t \<and> l < nextRun t)"
    using inv by (simp add: sched_inv_def sched_task_ok_def)
  show "\<forall>s now is th ts'. tick_loop s now is ts = (Some th, ts') \<longrightarrow>
       (\<exists>t. map_of ts (tt_current th) = Some t \<and> \<not> running t \<and> nextRun t \<le> now \<and> task_enabled s (tt_current th))"
    using tick_loop_Some by (metis runnable_def)
qed

definition demo_tick :: "scheduler \<times> tick_thread list" where
  "demo_tick = (upd_task ''webhook_retry'' (\<lambda>t. t\<lparr>running := True\<rparr>) (initScheduler demo_world),
     [\<lparr>tt_now = 1700000060000, tt_current = ''webhook_retry'', tt_rest = [''claude_session_scan'']\<rparr>])"

lemma demo_tick_reached: "sched_step (initScheduler demo_world, []) demo_tick"
proof -
  have "tick_loop init_server 1700000060000 (map fst (initScheduler demo_world)) (initScheduler demo_world) =
      (Some (hd (snd demo_tick)), fst demo_tick)"
    by (simp add: demo_tick_def initScheduler_def new_sched_task_def demo_world_def getNextDailyMs_def DAILY_MS_def FIVE_MINUTES_MS_def
        TICK_MS_def task_enabled_def isSettingEnabled_def setting_of_def defaultEnabled_def settingKey_def init_server_def empty_db_def Let_def)
  from sched_step.timer [OF this, of "[]"] show ?thesis by (simp add: demo_tick_def)
qed

theorem no_overlapping_runs_witness:
  "\<exists>t. map_of (fst demo_tick) ''webhook_retry'' = Some t \<and> running t \<and> ''webhook_retry'' \<in> tt_current ` set (snd demo_tick)"
proof -
  have "sched_init (initScheduler demo_world, [])" by (auto simp: sched_init_def)
  moreover have "sched_step\<^sup>*\<^sup>* (initScheduler demo_world, []) (fst demo_tick, snd demo_tick)"
    using demo_tick_reached by auto
  moreover obtain t where t: "map_of (fst demo_tick) ''webhook_retry'' = Some t" "running t"
    by (simp add: demo_tick_def map_of_upd_task initScheduler_def)
  ultimately show ?thesis using no_overlapping_runs by blast
qed

text \<open>The daily tasks are first due within a day, at the full hour.\<close>

lemma getNextDailyMs_bounds:
  assumes "0 \<le> hour" and "hour < 24"
  shows "0 < getNextDailyMs w hour \<and> getNextDailyMs w hour \<le> DAILY_MS \<and>
    (now_ms w + getNextDailyMs w hour) mod DAILY_MS = hour * 3600000"
proof -
  have D: "DAILY_MS = 86400000" by (simp add: DAILY_MS_def)
  let ?d = "now_ms w div 86400000" and ?r = "now_ms w mod 86400000"
  have n: "now_ms w = ?d * 86400000 + ?r" and r: "0 \<le> ?r" "?r < 86400000" by simp_all
  have h: "(k * 86400000 + hour * 3600000) mod 86400000 = hour * 3600000" for k :: int
    using assms by (simp add: mod_pos_pos_trivial)
  show ?thesis
  proof (cases "?d * 86400000 + hour * 3600000 \<le> now_ms w")
    case True
    with n r assms h [of "?d + 1"] show ?thesis by (simp add: getNextDailyMs_def D Let_def algebra_simps)
  next
    case False
    with n r assms h [of ?d] show ?thesis by (simp add: getNextDailyMs_def D Let_def algebra_simps)
  qed
qed

text \<open>Pruning keeps at most the configured number of backups.\<close>

lemma prune_backups_bound:
  assumes "0 \<le> k"
  shows "length (filter is_backup (prune_backups k dir)) \<le> nat k"
proof -
  let ?bs = "sort_key (\<lambda>f. - snd f) (filter is_backup dir)"
  let ?old = "fst ` set (drop (nat k) ?bs)"
  have "mset (filter is_backup (prune_backups k dir)) = mset (filter (\<lambda>f. fst f \<notin> ?old) (filter is_backup dir))"
    using assms by (simp add: prune_backups_def slice_from_def Let_def conj_commute cong: filter_cong)
  also have "\<dots> = mset (filter (\<lambda>f. fst f \<notin> ?old) ?bs)"
    by (simp only: mset_filter mset_sort)
  also have "filter (\<lambda>f. fst f \<notin> ?old) ?bs = filter (\<lambda>f. fst f \<notin> ?old) (take (nat k) ?bs)"
    by (subst append_take_drop_id [of "nat k" ?bs, symmetric], subst filter_append) auto
  finally have "length (filter is_backup (prune_backups k dir)) = length (filter (\<lambda>f. fst f \<notin> ?old) (take (nat k) ?bs))"
    by (metis size_mset)
  also have "\<dots> \<le> nat k" by (rule order_trans [OF length_filter_le]) simp
  finally show ?thesis .
qed

end
