(* ===== verification/MC_Alerts.thy ===== *)
theory MC_Alerts
  imports MC_Tasks
begin

text \<open>
  Alert rules, \<open>src/app/api/alerts/route.ts\<close>: the rules' life cycle and their evaluation. The column
  a rule names is chosen at run time, so a row is read through \<open>agent_column\<close>, \<open>task_column\<close> or
  \<open>activity_column\<close>, which give an SQLite value; comparisons follow SQLite's affinity rules. Numbers
  in texts are integers (fractions are outside the model), and bound numbers are in the 32-bit range.
  The schema of \<open>POST\<close> is an argument.
\<close>

section \<open>Columns and comparisons\<close>

datatype sqlval = SNull | SInt int | SText string

definition sql_text :: "string option \<Rightarrow> sqlval" where
  "sql_text v = (case v of None \<Rightarrow> SNull | Some x \<Rightarrow> SText x)"

definition sql_int :: "int option \<Rightarrow> sqlval" where
  "sql_int v = (case v of None \<Rightarrow> SNull | Some x \<Rightarrow> SInt x)"

definition SAFE_COLUMNS :: "string \<Rightarrow> string list option" where
  "SAFE_COLUMNS = map_of [(''agents'', [''status'', ''role'', ''name'', ''last_seen'', ''last_activity'']),
     (''tasks'', [''status'', ''priority'', ''assigned_to'', ''title'']),
     (''activities'', [''type'', ''actor'', ''entity_type''])]"

definition safeColumn :: "string \<Rightarrow> string \<Rightarrow> string" where
  "safeColumn table column = (case SAFE_COLUMNS table of
     Some cs \<Rightarrow> if column \<in> set cs then column else ''id''
   | None \<Rightarrow> ''id'')"

definition agent_column :: "string \<Rightarrow> agent_row \<Rightarrow> sqlval" where
  "agent_column c g = (if c = ''status'' then SText (g_status g) else if c = ''role'' then SText (g_role g)
     else if c = ''name'' then SText (g_name g) else if c = ''last_seen'' then sql_int (g_last_seen g)
     else if c = ''last_activity'' then sql_text (g_last_activity g) else SInt (g_id g))"

definition task_column :: "string \<Rightarrow> task_row \<Rightarrow> sqlval" where
  "task_column c t = (if c = ''status'' then SText (task_status_str (t_status t))
     else if c = ''priority'' then SText (task_priority_str (t_priority t))
     else if c = ''assigned_to'' then sql_text (t_assigned_to t) else if c = ''title'' then SText (t_title t)
     else SInt (t_id t))"

definition activity_column :: "string \<Rightarrow> activity_row \<Rightarrow> sqlval" where
  "activity_column c a = (if c = ''type'' then SText (a_type a) else if c = ''actor'' then SText (a_actor a)
     else if c = ''entity_type'' then SText (a_entity_type a) else SInt (a_id a))"

text \<open>\<open>column = ?\<close> for a text: an integer column converts a text that spells an integer.\<close>

fun eq_text :: "sqlval \<Rightarrow> string \<Rightarrow> bool" where
  "eq_text SNull v = False"
| "eq_text (SText x) v = (x = v)"
| "eq_text (SInt n) v = (trim v \<noteq> [] \<and> js_number v = Some n)"

text \<open>\<open>column < ?\<close> for a number: a text column converts the number to text and compares bytes.\<close>

fun text_less :: "string \<Rightarrow> string \<Rightarrow> bool" where
  "text_less _ [] = False"
| "text_less [] (y # ys) = True"
| "text_less (x # xs) (y # ys) =
     (if x = y then text_less xs ys else (of_char x :: nat) < of_char y)"

fun less_number :: "sqlval \<Rightarrow> int \<Rightarrow> bool" where
  "less_number SNull t = False"
| "less_number (SText x) t = text_less x (show_int t)"
| "less_number (SInt n) t = (n < t)"

fun js_text :: "sqlval \<Rightarrow> string" where
  "js_text SNull = ''null''"
| "js_text (SText x) = x"
| "js_text (SInt n) = show_int n"

fun js_value_number :: "sqlval \<Rightarrow> int option" where
  "js_value_number SNull = Some 0"
| "js_value_number (SText x) = js_number x"
| "js_value_number (SInt n) = Some n"

text \<open>Comparisons with \<open>NaN\<close> are false.\<close>

definition num_less :: "int option \<Rightarrow> int option \<Rightarrow> bool" where
  "num_less a b = (case (a, b) of (Some x, Some y) \<Rightarrow> x < y | _ \<Rightarrow> False)"

definition compareValue :: "sqlval \<Rightarrow> string \<Rightarrow> string \<Rightarrow> bool" where
  "compareValue actual oper expected =
     (if actual = SNull then False
      else if oper = ''equals'' then js_text actual = expected
      else if oper = ''not_equals'' then js_text actual \<noteq> expected
      else if oper = ''greater_than'' then num_less (js_number expected) (js_value_number actual)
      else if oper = ''less_than'' then num_less (js_value_number actual) (js_number expected)
      else if oper = ''contains'' then includes_str (to_lower expected) (to_lower (js_text actual))
      else False)"

section \<open>Evaluating a rule\<close>

definition sql_count :: "('r \<Rightarrow> bool) \<Rightarrow> 'r tbl \<Rightarrow> int option" where
  "sql_count p t = Some (int (length (tbl_select p t)))"

definition evaluateAgentRule :: "database \<Rightarrow> alert_rule_row \<Rightarrow> int \<Rightarrow> int \<Rightarrow> bool" where
  "evaluateAgentRule d rule now wsid =
     (let col = agent_column (safeColumn ''agents'' (al_condition_field rule));
          oper = al_condition_operator rule; v = al_condition_value rule;
          count = sql_count (\<lambda>g. g_workspace_id g = wsid \<and> eq_text (col g) v) (agents d)
      in if oper = ''count_above'' then num_less (parse_int v) count
         else if oper = ''count_below'' then num_less count (parse_int v)
         else if oper = ''age_minutes_above'' then
           (case parse_int v of
              None \<Rightarrow> False
            | Some n \<Rightarrow> 0 < length (tbl_select (\<lambda>g. g_workspace_id g = wsid \<and> g_status g \<noteq> ''offline'' \<and>
                            less_number (col g) (now - n * 60)) (agents d)))
         else list_ex (\<lambda>g. compareValue (col g) oper v)
                (tbl_select (\<lambda>g. g_workspace_id g = wsid \<and> g_status g \<noteq> ''offline'') (agents d)))"

definition evaluateTaskRule :: "database \<Rightarrow> alert_rule_row \<Rightarrow> int \<Rightarrow> int \<Rightarrow> bool" where
  "evaluateTaskRule d rule now wsid =
     (let col = task_column (safeColumn ''tasks'' (al_condition_field rule));
          oper = al_condition_operator rule; v = al_condition_value rule
      in if oper = ''count_above'' then
           num_less (parse_int v) (sql_count (\<lambda>t. t_workspace_id t = wsid \<and> eq_text (col t) v) (tasks d))
         else if oper = ''count_below'' then num_less (sql_count (\<lambda>t. t_workspace_id t = wsid) (tasks d)) (parse_int v)
         else list_ex (\<lambda>t. compareValue (col t) oper v) (tbl_select (\<lambda>t. t_workspace_id t = wsid) (tasks d)))"

definition evaluateSessionRule :: "database \<Rightarrow> alert_rule_row \<Rightarrow> int \<Rightarrow> int \<Rightarrow> bool" where
  "evaluateSessionRule d rule now wsid =
     (al_condition_operator rule = ''count_above'' \<and>
      num_less (parse_int (al_condition_value rule))
        (sql_count (\<lambda>g. g_workspace_id g = wsid \<and> g_status g = ''busy'') (agents d)))"

definition evaluateActivityRule :: "database \<Rightarrow> alert_rule_row \<Rightarrow> int \<Rightarrow> int \<Rightarrow> bool" where
  "evaluateActivityRule d rule now wsid =
     (let col = activity_column (safeColumn ''activities'' (al_condition_field rule)); v = al_condition_value rule
      in al_condition_operator rule = ''count_above'' \<and>
         num_less (parse_int v) (sql_count (\<lambda>a. a_workspace_id a = wsid \<and> now - 3600 < a_created_at a \<and> eq_text (col a) v)
           (activities d)))"

definition evaluateRule :: "database \<Rightarrow> alert_rule_row \<Rightarrow> int \<Rightarrow> int \<Rightarrow> bool" where
  "evaluateRule d rule now wsid =
     (if al_entity_type rule = ''agent'' then evaluateAgentRule d rule now wsid
      else if al_entity_type rule = ''task'' then evaluateTaskRule d rule now wsid
      else if al_entity_type rule = ''session'' then evaluateSessionRule d rule now wsid
      else if al_entity_type rule = ''activity'' then evaluateActivityRule d rule now wsid
      else False)"

section \<open>Evaluating the rules of a workspace\<close>

definition in_cooldown :: "int \<Rightarrow> alert_rule_row \<Rightarrow> bool" where
  "in_cooldown now rule = (case al_last_triggered_at rule of
     None \<Rightarrow> False
   | Some t \<Rightarrow> t \<noteq> 0 \<and> now - t < al_cooldown_minutes rule * 60)"

text \<open>
  \<open>config.recipient || 'system'\<close>, as it is bound: \<open>None\<close> when the configuration is \<open>null\<close> or the
  value cannot be bound. The \<open>catch\<close> then drops the notification.
\<close>

definition alert_recipient :: "alert_rule_row \<Rightarrow> string option" where
  "alert_recipient rule = (case al_action_config rule of
     JNull \<Rightarrow> None
   | c \<Rightarrow>
       (case jget ''recipient'' c of
          None \<Rightarrow> Some ''system''
        | Some v \<Rightarrow> if \<not> truthy v then Some ''system''
                   else (case v of JStr x \<Rightarrow> Some x | JNum n \<Rightarrow> Some (show_int n) | _ \<Rightarrow> None)))"

definition trigger_rule :: "int \<Rightarrow> alert_rule_row \<Rightarrow> alert_rule_row" where
  "trigger_rule now r = r\<lparr>al_last_triggered_at := Some now, al_trigger_count := al_trigger_count r + 1\<rparr>"

definition alert_notification :: "int \<Rightarrow> int \<Rightarrow> alert_rule_row \<Rightarrow> string \<Rightarrow> int \<Rightarrow> notification_row" where
  "alert_notification now wsid rule recipient i =
     \<lparr>n_id = i, n_recipient = recipient, n_type = ''alert'', n_title = ''Alert: '' @ al_name rule,
      n_message = or_else (al_description rule) (''Rule \"'' @ al_name rule @ ''\" triggered''),
      n_source_type = Some ''alert_rule'', n_source_id = Some (al_id rule), n_read_at = None, n_delivered_at = None,
      n_created_at = now, n_workspace_id = wsid\<rparr>"

record alert_result =
  res_rule_id :: int
  res_rule_name :: string
  res_triggered :: bool
  res_reason :: string

definition alert_result_json :: "alert_result \<Rightarrow> json" where
  "alert_result_json r = JObj [(''rule_id'', JNum (res_rule_id r)), (''rule_name'', JStr (res_rule_name r)),
     (''triggered'', JBool (res_triggered r)), (''reason'', JStr (res_reason r))]"

definition evaluate_step ::
  "int \<Rightarrow> int \<Rightarrow> alert_rule_row \<Rightarrow> alert_result list \<times> database \<Rightarrow> alert_result list \<times> database"
where
  "evaluate_step now wsid rule acc = (case acc of (results, d) \<Rightarrow>
     (let result = (\<lambda>trig reason. \<lparr>res_rule_id = al_id rule, res_rule_name = al_name rule, res_triggered = trig, res_reason = reason\<rparr>)
      in if in_cooldown now rule then (results @ [result False ''In cooldown''], d)
         else if evaluateRule d rule now wsid then
           (let d1 = d\<lparr>alert_rules := tbl_update (\<lambda>r. al_id r = al_id rule) (trigger_rule now) (alert_rules d)\<rparr>
            in (results @ [result True ''Condition met''],
                case alert_recipient rule of
                  None \<Rightarrow> d1
                | Some rcp \<Rightarrow> d1\<lparr>notifications := snd (tbl_insert (alert_notification now wsid rule rcp) (notifications d1))\<rparr>))
         else (results @ [result False ''Condition not met''], d)))"

definition rules_to_evaluate :: "int \<Rightarrow> database \<Rightarrow> alert_rule_row list" where
  "rules_to_evaluate wsid d = tbl_select (\<lambda>r. al_enabled r = 1 \<and> al_workspace_id r = wsid) (alert_rules d)"

definition evaluateRules :: "world \<Rightarrow> int \<Rightarrow> server \<Rightarrow> outcome" where
  "evaluateRules w wsid s =
     (let rules = rules_to_evaluate wsid (db s);
          (results, d) = fold (evaluate_step (now_s w) wsid) rules ([], db s)
      in (Inr (json_response 200 (JObj [(''evaluated'', JNum (int (length rules))),
            (''triggered'', JNum (int (length (filter res_triggered results)))),
            (''results'', JArr (map alert_result_json results))])), s\<lparr>db := d\<rparr>))"

section \<open>/api/alerts\<close>

definition alert_rule_json :: "alert_rule_row \<Rightarrow> json" where
  "alert_rule_json r = JObj [(''id'', JNum (al_id r)), (''name'', JStr (al_name r)),
     (''description'', jnull JStr (al_description r)), (''enabled'', JNum (al_enabled r)),
     (''entity_type'', JStr (al_entity_type r)), (''condition_field'', JStr (al_condition_field r)),
     (''condition_operator'', JStr (al_condition_operator r)), (''condition_value'', JStr (al_condition_value r)),
     (''action_type'', JStr (al_action_type r)), (''action_config'', JStr (stringify (al_action_config r))),
     (''cooldown_minutes'', JNum (al_cooldown_minutes r)), (''last_triggered_at'', jnull JNum (al_last_triggered_at r)),
     (''trigger_count'', JNum (al_trigger_count r)), (''created_by'', JStr (al_created_by r)),
     (''created_at'', JNum (al_created_at r)), (''updated_at'', JNum (al_updated_at r)),
     (''workspace_id'', JNum (al_workspace_id r))]"

definition alerts_GET :: "world \<Rightarrow> request \<Rightarrow> server \<Rightarrow> outcome" where
  "alerts_GET w req s = with_role w req ''viewer'' s (\<lambda>u.
     (Inr (json_response 200 (JObj [(''rules'', JArr (map alert_rule_json (order_by_desc (sql_ord w) al_created_at
        (tbl_select (\<lambda>r. al_workspace_id r = usr_workspace_id u) (alert_rules (db s))))))])), s))"

record alert_input =
  ai_name :: string
  ai_description :: "string option"
  ai_entity_type :: string
  ai_condition_field :: string
  ai_condition_operator :: string
  ai_condition_value :: string
  ai_action_type :: "string option"
  ai_action_config :: "json option"
  ai_cooldown_minutes :: "int option"

text \<open>The direct inserts into the audit log; the detail is plain text, kept as a string.\<close>

definition alert_audit :: "world \<Rightarrow> string \<Rightarrow> user \<Rightarrow> string \<Rightarrow> server \<Rightarrow> server" where
  "alert_audit w action u detail s = s\<lparr>db := (db s)\<lparr>audit_log := snd (tbl_insert (\<lambda>i. \<lparr>au_id = i, au_action = action,
     au_actor = or_else (Some (usr_username u)) ''system'', au_actor_id = None, au_target_type = None, au_target_id = None,
     au_detail = Some (JStr detail), au_ip_address = None, au_user_agent = None, au_created_at = now_s w\<rparr>) (audit_log (db s)))\<rparr>\<rparr>"

definition new_alert_rule :: "world \<Rightarrow> user \<Rightarrow> alert_input \<Rightarrow> int \<Rightarrow> alert_rule_row" where
  "new_alert_rule w u b i = \<lparr>al_id = i, al_name = ai_name b, al_description = or_null (ai_description b), al_enabled = 1,
     al_entity_type = ai_entity_type b, al_condition_field = ai_condition_field b,
     al_condition_operator = ai_condition_operator b, al_condition_value = ai_condition_value b,
     al_action_type = or_else (ai_action_type b) ''notification'',
     al_action_config = (case ai_action_config b of None \<Rightarrow> JObj [] | Some c \<Rightarrow> if truthy c then c else JObj []),
     al_cooldown_minutes = (case ai_cooldown_minutes b of None \<Rightarrow> 60 | Some n \<Rightarrow> if n = 0 then 60 else n),
     al_last_triggered_at = None, al_trigger_count = 0, al_created_by = or_else (Some (usr_username u)) ''system'',
     al_created_at = now_s w, al_updated_at = now_s w, al_workspace_id = usr_workspace_id u\<rparr>"

definition create_alert :: "world \<Rightarrow> user \<Rightarrow> alert_input \<Rightarrow> server \<Rightarrow> outcome" where
  "create_alert w u b s =
     (let (i, t) = tbl_insert (new_alert_rule w u b) (alert_rules (db s));
          s1 = alert_audit w ''alert_rule_created'' u (''Created alert rule: '' @ ai_name b) (s\<lparr>db := (db s)\<lparr>alert_rules := t\<rparr>\<rparr>);
          rule = tbl_first (\<lambda>r. al_id r = i \<and> al_workspace_id r = usr_workspace_id u) (alert_rules (db s1))
      in (Inr (json_response 201 (JObj (jopt ''rule'' alert_rule_json rule))), s1))"

definition alerts_POST :: "alert_input schema \<Rightarrow> world \<Rightarrow> request \<Rightarrow> server \<Rightarrow> outcome" where
  "alerts_POST parse = mutating_route ''operator'' (\<lambda>w req u s.
     if req_body req = Some JNull then (Inl ''Cannot read properties of null'', s)
     else if Option.bind (req_body req) (jget ''action'') = Some (JStr ''evaluate'')
     then evaluateRules w (usr_workspace_id u) s
     else with_body parse req s (\<lambda>b. create_alert w u b s))"

text \<open>
  The values of \<open>PUT\<close> are bound as they are: a boolean, an array or an object throws, \<open>null\<close> violates
  \<open>NOT NULL\<close>. A text in a number column that does not spell an integer is outside the model.
\<close>

definition put_value :: "string + 'a option \<Rightarrow> ('a \<Rightarrow> alert_rule_row) \<Rightarrow> string + alert_rule_row" where
  "put_value v f = (case v of Inl e \<Rightarrow> Inl e | Inr None \<Rightarrow> Inl ''NOT NULL constraint failed'' | Inr (Some x) \<Rightarrow> Inr (f x))"

definition alert_change :: "string \<Rightarrow> json \<Rightarrow> alert_rule_row \<Rightarrow> string + alert_rule_row" where
  "alert_change key v r =
     (if key = ''name'' then put_value (bind_text v) (\<lambda>x. r\<lparr>al_name := x\<rparr>)
      else if key = ''description'' then map_sum id (\<lambda>x. r\<lparr>al_description := x\<rparr>) (bind_text v)
      else if key = ''enabled'' then put_value (bind_int v) (\<lambda>n. r\<lparr>al_enabled := n\<rparr>)
      else if key = ''entity_type'' then put_value (bind_text v) (\<lambda>x. r\<lparr>al_entity_type := x\<rparr>)
      else if key = ''condition_field'' then put_value (bind_text v) (\<lambda>x. r\<lparr>al_condition_field := x\<rparr>)
      else if key = ''condition_operator'' then put_value (bind_text v) (\<lambda>x. r\<lparr>al_condition_operator := x\<rparr>)
      else if key = ''condition_value'' then put_value (bind_text v) (\<lambda>x. r\<lparr>al_condition_value := x\<rparr>)
      else if key = ''action_type'' then put_value (bind_text v) (\<lambda>x. r\<lparr>al_action_type := x\<rparr>)
      else if key = ''action_config'' then Inr (r\<lparr>al_action_config := v\<rparr>)
      else if key = ''cooldown_minutes'' then put_value (bind_int v) (\<lambda>n. r\<lparr>al_cooldown_minutes := n\<rparr>)
      else Inr r)"

definition alert_updatable :: "string list" where
  "alert_updatable = [''name'', ''description'', ''enabled'', ''entity_type'', ''condition_field'', ''condition_operator'',
     ''condition_value'', ''action_type'', ''action_config'', ''cooldown_minutes'']"

fun apply_alert_changes :: "(string \<times> json) list \<Rightarrow> alert_rule_row \<Rightarrow> string + alert_rule_row" where
  "apply_alert_changes [] r = Inr r"
| "apply_alert_changes ((k, v) # kvs) r =
     (case alert_change k v r of Inl e \<Rightarrow> Inl e | Inr r' \<Rightarrow> apply_alert_changes kvs r')"

definition alert_changes_of :: "json \<Rightarrow> (string \<times> json) list" where
  "alert_changes_of body = List.map_filter (\<lambda>k. map_option (Pair k) (jget k body)) alert_updatable"

definition find_alert :: "int option \<Rightarrow> int \<Rightarrow> server \<Rightarrow> alert_rule_row option" where
  "find_alert i wsid s = tbl_first (\<lambda>r. Some (al_id r) = i \<and> al_workspace_id r = wsid) (alert_rules (db s))"

definition change_alert :: "world \<Rightarrow> user \<Rightarrow> json \<Rightarrow> json \<Rightarrow> server \<Rightarrow> outcome" where
  "change_alert w u idv body s =
     (case bind_id idv of
        Inl e \<Rightarrow> (Inl e, s)
      | Inr i \<Rightarrow>
          (case find_alert i (usr_workspace_id u) s of
             None \<Rightarrow> (Inr (error_response 404 ''Rule not found''), s)
           | Some r \<Rightarrow>
               if alert_changes_of body = [] then (Inr (error_response 400 ''No valid fields to update''), s)
               else (case apply_alert_changes (alert_changes_of body) r of
                       Inl e \<Rightarrow> (Inl e, s)
                     | Inr r' \<Rightarrow>
                         (let s1 = s\<lparr>db := (db s)\<lparr>alert_rules := tbl_update
                                 (\<lambda>x. al_id x = al_id r \<and> al_workspace_id x = usr_workspace_id u)
                                 (\<lambda>x. r'\<lparr>al_updated_at := now_s w\<rparr>) (alert_rules (db s))\<rparr>\<rparr>
                          in (Inr (json_response 200 (JObj (jopt ''rule'' alert_rule_json
                                (find_alert i (usr_workspace_id u) s1)))), s1)))))"

definition alert_id_route ::
  "string \<Rightarrow> (world \<Rightarrow> user \<Rightarrow> json \<Rightarrow> json \<Rightarrow> server \<Rightarrow> outcome) \<Rightarrow> world \<Rightarrow> request \<Rightarrow> server \<Rightarrow> outcome"
where
  "alert_id_route role k = mutating_route role (\<lambda>w req u s.
     case req_body req of
       None \<Rightarrow> (Inl ''Unexpected end of JSON input'', s)
     | Some JNull \<Rightarrow> (Inl ''Cannot destructure property of null'', s)
     | Some b \<Rightarrow>
         (case jget ''id'' b of
            None \<Rightarrow> (Inr (error_response 400 ''id is required''), s)
          | Some v \<Rightarrow> if truthy v then k w u v b s else (Inr (error_response 400 ''id is required''), s)))"

definition alerts_PUT :: "world \<Rightarrow> request \<Rightarrow> server \<Rightarrow> outcome" where
  "alerts_PUT = alert_id_route ''operator'' change_alert"

definition delete_alert :: "world \<Rightarrow> user \<Rightarrow> json \<Rightarrow> json \<Rightarrow> server \<Rightarrow> outcome" where
  "delete_alert w u idv body s =
     (case bind_id idv of
        Inl e \<Rightarrow> (Inl e, s)
      | Inr i \<Rightarrow>
          (let hit = (find_alert i (usr_workspace_id u) s \<noteq> None);
               idtext = (case idv of JStr x \<Rightarrow> x | JNum n \<Rightarrow> show_int n | _ \<Rightarrow> ''null'');
               s1 = s\<lparr>db := (db s)\<lparr>alert_rules := tbl_delete
                      (\<lambda>r. Some (al_id r) = i \<and> al_workspace_id r = usr_workspace_id u) (alert_rules (db s))\<rparr>\<rparr>
           in (Inr (json_response 200 (JObj [(''deleted'', JBool hit)])),
               alert_audit w ''alert_rule_deleted'' u (''Deleted alert rule #'' @ idtext) s1)))"

definition alerts_DELETE :: "world \<Rightarrow> request \<Rightarrow> server \<Rightarrow> outcome" where
  "alerts_DELETE = alert_id_route ''admin'' delete_alert"

section \<open>Rules of other workspaces\<close>

definition alert_view :: "int \<Rightarrow> server \<Rightarrow> alert_rule_row list" where
  "alert_view n s = ws_rows al_workspace_id n (alert_rules (db s))"

lemma alert_change_keeps: "alert_change k v r = Inr r' \<Longrightarrow> al_workspace_id r' = al_workspace_id r"
  by (cases "bind_text v"; cases "bind_int v")
    (auto simp: alert_change_def put_value_def split: if_splits option.splits)

lemma alert_changes_keep: "apply_alert_changes kvs r = Inr r' \<Longrightarrow> al_workspace_id r' = al_workspace_id r"
  by (induction kvs r rule: apply_alert_changes.induct) (auto split: sum.splits dest: alert_change_keeps)

lemma find_alert_ws: "find_alert i wsid s = Some r \<Longrightarrow> al_workspace_id r = wsid"
  by (auto simp: find_alert_def dest: tbl_first_in_rows)

lemma alert_view_change:
  "usr_workspace_id u \<noteq> n \<Longrightarrow> alert_view n (snd (change_alert w u v b s)) = alert_view n s"
  by (auto simp: change_alert_def alert_view_def Let_def dest!: alert_changes_keep find_alert_ws
      intro!: ws_rows_replace split: sum.split option.split json.split)

lemma alert_view_delete:
  "usr_workspace_id u \<noteq> n \<Longrightarrow> alert_view n (snd (delete_alert w u v b s)) = alert_view n s"
  by (auto simp: delete_alert_def alert_view_def alert_audit_def Let_def intro!: ws_rows_delete split: sum.split json.split)

lemma alert_id_route_scoped:
  assumes "\<And>w u v b s n. usr_workspace_id u \<noteq> n \<Longrightarrow> alert_view n (snd (k w u v b s)) = alert_view n s"
  shows "workspace_scoped (alert_id_route role k) role alert_view"
proof -
  have "alert_view n (s\<lparr>mutation_store := ms\<rparr>) = alert_view n s" for n s ms by (simp add: alert_view_def)
  then show ?thesis
    unfolding alert_id_route_def
    by (intro workspace_scoped_mutating) (auto simp: assms split: option.split json.split)
qed

interpretation alerts_put: workspace_scoped alerts_PUT "''operator''" alert_view
  unfolding alerts_PUT_def by (rule alert_id_route_scoped) (rule alert_view_change)

interpretation alerts_delete: workspace_scoped alerts_DELETE "''admin''" alert_view
  unfolding alerts_DELETE_def by (rule alert_id_route_scoped) (rule alert_view_delete)

interpretation alerts_post: role_guarded "alerts_POST schema" "''operator''" for schema
  unfolding alerts_POST_def by (rule role_guarded_mutating)

section \<open>What an evaluation does\<close>

text \<open>Conditions read only agents, tasks and activities, which the evaluation does not write.\<close>

lemma evaluateRule_cong:
  "agents d = agents d' \<Longrightarrow> tasks d = tasks d' \<Longrightarrow> activities d = activities d' \<Longrightarrow>
   evaluateRule d r now wsid = evaluateRule d' r now wsid"
  by (simp add: evaluateRule_def evaluateAgentRule_def evaluateTaskRule_def evaluateSessionRule_def evaluateActivityRule_def Let_def
      split: option.split)

definition rule_fires :: "int \<Rightarrow> int \<Rightarrow> database \<Rightarrow> alert_rule_row \<Rightarrow> bool" where
  "rule_fires now wsid d r \<longleftrightarrow> \<not> in_cooldown now r \<and> evaluateRule d r now wsid"

definition sends :: "alert_rule_row \<Rightarrow> (int option \<times> string) list" where
  "sends r = (case alert_recipient r of None \<Rightarrow> [] | Some rcp \<Rightarrow> [(Some (al_id r), rcp)])"

definition restored :: "database \<Rightarrow> database \<Rightarrow> database" where
  "restored d0 d = d\<lparr>alert_rules := alert_rules d0, notifications := notifications d0\<rparr>"

lemma restored_reads:
  assumes "restored d0 d = d0"
  shows "agents d = agents d0 \<and> tasks d = tasks d0 \<and> activities d = activities d0"
proof -
  have "agents (restored d0 d) = agents d" "tasks (restored d0 d) = tasks d" "activities (restored d0 d) = activities d"
    by (simp_all add: restored_def)
  with assms show ?thesis by simp
qed

lemma evaluate_step_idle:
  "\<not> rule_fires now wsid d r \<Longrightarrow> snd (evaluate_step now wsid r (res, d)) = d"
  by (auto simp: evaluate_step_def rule_fires_def Let_def)

lemma evaluate_step_fires:
  assumes "rule_fires now wsid d r"
  shows "alert_rules (snd (evaluate_step now wsid r (res, d))) = tbl_update (\<lambda>x. al_id x = al_id r) (trigger_rule now) (alert_rules d)"
    and "\<exists>new. rows (notifications (snd (evaluate_step now wsid r (res, d)))) = rows (notifications d) @ new \<and>
      map (\<lambda>n. (n_source_id n, n_recipient n)) new = sends r \<and> (\<forall>n \<in> set new. n_workspace_id n = wsid \<and> n_created_at n = now)"
    and "restored d0 (snd (evaluate_step now wsid r (res, d))) = restored d0 d"
  using assms
  by (auto simp: evaluate_step_def rule_fires_def sends_def alert_notification_def rows_tbl_insert restored_def Let_def
      split: option.split)

lemma evaluate_step_result:
  "\<exists>x. fst (evaluate_step now wsid r (res, d)) = res @ [x] \<and> res_rule_id x = al_id r \<and> res_triggered x = rule_fires now wsid d r"
  by (auto simp: evaluate_step_def rule_fires_def Let_def)

lemma trigger_twice:
  "i \<notin> I \<Longrightarrow> tbl_update (\<lambda>x. al_id x \<in> I) (trigger_rule now) (tbl_update (\<lambda>x. al_id x = i) (trigger_rule now) t) =
   tbl_update (\<lambda>x. al_id x \<in> insert i I) (trigger_rule now) t"
  by (auto simp: tbl_update_def trigger_rule_def)

lemma evaluate_fold:
  assumes "distinct (map al_id rs)" and "restored d0 d = d0"
  shows "alert_rules (snd (fold (evaluate_step now wsid) rs (res, d))) =
      tbl_update (\<lambda>x. al_id x \<in> al_id ` set (filter (rule_fires now wsid d0) rs)) (trigger_rule now) (alert_rules d)"
    and "\<exists>new. rows (notifications (snd (fold (evaluate_step now wsid) rs (res, d)))) = rows (notifications d) @ new \<and>
      map (\<lambda>n. (n_source_id n, n_recipient n)) new = concat (map sends (filter (rule_fires now wsid d0) rs)) \<and>
      (\<forall>n \<in> set new. n_workspace_id n = wsid \<and> n_created_at n = now)"
    and "restored d0 (snd (fold (evaluate_step now wsid) rs (res, d))) = d0"
proof -
  have "alert_rules (snd (fold (evaluate_step now wsid) rs (res, d))) =
      tbl_update (\<lambda>x. al_id x \<in> al_id ` set (filter (rule_fires now wsid d0) rs)) (trigger_rule now) (alert_rules d) \<and>
    (\<exists>new. rows (notifications (snd (fold (evaluate_step now wsid) rs (res, d)))) = rows (notifications d) @ new \<and>
      map (\<lambda>n. (n_source_id n, n_recipient n)) new = concat (map sends (filter (rule_fires now wsid d0) rs)) \<and>
      (\<forall>n \<in> set new. n_workspace_id n = wsid \<and> n_created_at n = now)) \<and>
    restored d0 (snd (fold (evaluate_step now wsid) rs (res, d))) = d0"
    using assms
  proof (induction rs arbitrary: res d)
    case Nil
    then show ?case by simp
  next
    case (Cons r rs)
    obtain res' d' where step: "evaluate_step now wsid r (res, d) = (res', d')" by fastforce
    have same: "rule_fires now wsid d r = rule_fires now wsid d0 r"
      using restored_reads [OF Cons.prems(2)] evaluateRule_cong [of d d0] by (simp add: rule_fires_def)
    have dist: "distinct (map al_id rs)" and fresh: "al_id r \<notin> al_id ` set rs" using Cons.prems(1) by auto
    show ?case
    proof (cases "rule_fires now wsid d0 r")
      case False
      then have "d' = d" using evaluate_step_idle [of now wsid d r res] same step by simp
      with Cons.IH [OF dist Cons.prems(2), of res'] False step show ?thesis by simp
    next
      case True
      note s = evaluate_step_fires [where res = res and now = now and wsid = wsid and d = d and r = r,
          unfolded step snd_conv same, OF True]
      obtain n1 where n1: "rows (notifications d') = rows (notifications d) @ n1"
        "map (\<lambda>n. (n_source_id n, n_recipient n)) n1 = sends r" "\<forall>n \<in> set n1. n_workspace_id n = wsid \<and> n_created_at n = now"
        using s(2) by blast
      have "restored d0 d' = d0" using s(3) Cons.prems(2) by simp
      note IH = Cons.IH [OF dist this, of res']
      obtain n2 where n2: "rows (notifications (snd (fold (evaluate_step now wsid) rs (res', d')))) = rows (notifications d') @ n2"
        "map (\<lambda>n. (n_source_id n, n_recipient n)) n2 = concat (map sends (filter (rule_fires now wsid d0) rs))"
        "\<forall>n \<in> set n2. n_workspace_id n = wsid \<and> n_created_at n = now"
        using IH by blast
      have "al_id r \<notin> al_id ` set (filter (rule_fires now wsid d0) rs)" using fresh by auto
      note upd = trigger_twice [OF this, of now "alert_rules d"]
      have "alert_rules (snd (fold (evaluate_step now wsid) (r # rs) (res, d))) =
        tbl_update (\<lambda>x. al_id x \<in> al_id ` set (filter (rule_fires now wsid d0) (r # rs))) (trigger_rule now) (alert_rules d)"
        using IH s(1) upd True by (simp add: step)
      moreover have "rows (notifications (snd (fold (evaluate_step now wsid) (r # rs) (res, d)))) = rows (notifications d) @ (n1 @ n2)"
        using n1(1) n2(1) by (simp add: step)
      moreover have "map (\<lambda>n. (n_source_id n, n_recipient n)) (n1 @ n2) = concat (map sends (filter (rule_fires now wsid d0) (r # rs)))"
        using n1(2) n2(2) True by simp
      moreover have "\<forall>n \<in> set (n1 @ n2). n_workspace_id n = wsid \<and> n_created_at n = now" using n1(3) n2(3) by auto
      ultimately show ?thesis using IH step by auto
    qed
  qed
  then show "alert_rules (snd (fold (evaluate_step now wsid) rs (res, d))) =
      tbl_update (\<lambda>x. al_id x \<in> al_id ` set (filter (rule_fires now wsid d0) rs)) (trigger_rule now) (alert_rules d)"
    and "\<exists>new. rows (notifications (snd (fold (evaluate_step now wsid) rs (res, d)))) = rows (notifications d) @ new \<and>
      map (\<lambda>n. (n_source_id n, n_recipient n)) new = concat (map sends (filter (rule_fires now wsid d0) rs)) \<and>
      (\<forall>n \<in> set new. n_workspace_id n = wsid \<and> n_created_at n = now)"
    and "restored d0 (snd (fold (evaluate_step now wsid) rs (res, d))) = d0" by blast+
qed

text \<open>Column names come from the white list, whatever the rule says.\<close>

lemma safeColumn_listed: "safeColumn table c = ''id'' \<or> (\<exists>cs. SAFE_COLUMNS table = Some cs \<and> safeColumn table c \<in> set cs)"
  by (auto simp: safeColumn_def split: option.splits)

definition alert_due :: "world \<Rightarrow> int \<Rightarrow> server \<Rightarrow> alert_rule_row \<Rightarrow> bool" where
  "alert_due w wsid s r \<longleftrightarrow> al_enabled r = 1 \<and> al_workspace_id r = wsid \<and> rule_fires (now_s w) wsid (db s) r"

lemma rules_to_evaluate_due:
  "filter (rule_fires (now_s w) wsid (db s)) (rules_to_evaluate wsid (db s)) = tbl_select (alert_due w wsid s) (alert_rules (db s))"
  by (simp add: rules_to_evaluate_def tbl_select_def alert_due_def conj_ac cong: filter_cong)

lemma evaluateRules_db: "db (snd (evaluateRules w wsid s)) =
    snd (fold (evaluate_step (now_s w) wsid) (rules_to_evaluate wsid (db s)) ([], db s))"
  by (simp add: evaluateRules_def Let_def case_prod_beta)

lemma rules_distinct: "tbl_wf al_id (alert_rules d) \<Longrightarrow> distinct (map al_id (rules_to_evaluate wsid d))"
  by (simp add: tbl_wf_def rules_to_evaluate_def tbl_select_def distinct_map_filter)

lemma evaluateRules_rules:
  assumes "tbl_wf al_id (alert_rules (db s))"
  shows "alert_rules (db (snd (evaluateRules w wsid s))) =
    tbl_update (alert_due w wsid s) (trigger_rule (now_s w)) (alert_rules (db s))"
proof -
  have "restored (db s) (db s) = db s" by (simp add: restored_def)
  from evaluate_fold(1) [OF rules_distinct [OF assms] this, of "now_s w" wsid wsid "[]"]
  have "alert_rules (db (snd (evaluateRules w wsid s))) =
      tbl_update (\<lambda>x. al_id x \<in> al_id ` set (tbl_select (alert_due w wsid s) (alert_rules (db s)))) (trigger_rule (now_s w)) (alert_rules (db s))"
    by (simp only: evaluateRules_db rules_to_evaluate_due)
  also have "\<dots> = tbl_update (alert_due w wsid s) (trigger_rule (now_s w)) (alert_rules (db s))"
    unfolding tbl_update_def using select_ids [OF assms, of _ "alert_due w wsid s"] by (simp cong: map_cong)
  finally show ?thesis .
qed

lemma evaluateRules_notifications:
  assumes "tbl_wf al_id (alert_rules (db s))"
  shows "\<exists>new. rows (notifications (db (snd (evaluateRules w wsid s)))) = rows (notifications (db s)) @ new \<and>
      map (\<lambda>n. (n_source_id n, n_recipient n)) new = concat (map sends (tbl_select (alert_due w wsid s) (alert_rules (db s)))) \<and>
      (\<forall>n \<in> set new. n_workspace_id n = wsid \<and> n_created_at n = now_s w)"
proof -
  have "restored (db s) (db s) = db s" by (simp add: restored_def)
  from evaluate_fold(2) [OF rules_distinct [OF assms] this, of "now_s w" wsid wsid "[]"]
  show ?thesis by (simp only: evaluateRules_db rules_to_evaluate_due)
qed

lemma evaluateRules_frame:
  assumes "tbl_wf al_id (alert_rules (db s))"
  shows "restored (db s) (db (snd (evaluateRules w wsid s))) = db s"
proof -
  have "restored (db s) (db s) = db s" by (simp add: restored_def)
  from evaluate_fold(3) [OF rules_distinct [OF assms] this, of "now_s w" wsid wsid "[]"]
  show ?thesis by (simp only: evaluateRules_db)
qed

lemma quiet_in_cooldown:
  "0 < now_s w \<Longrightarrow> now_s w' - now_s w < al_cooldown_minutes r * 60 \<Longrightarrow> \<not> alert_due w' wsid s' (trigger_rule (now_s w) r)"
  by (simp add: alert_due_def rule_fires_def in_cooldown_def trigger_rule_def)

text \<open>The recipients of the notifications among \<open>new\<close> that come from a rule.\<close>

definition sent_for :: "alert_rule_row \<Rightarrow> notification_row list \<Rightarrow> string list" where
  "sent_for r new = map n_recipient (filter (\<lambda>n. n_source_id n = Some (al_id r)) new)"

lemma sent_for_sends:
  assumes "map (\<lambda>n. (n_source_id n, n_recipient n)) new = concat (map sends rs)" and "distinct (map al_id rs)" and "r \<in> set rs"
  shows "sent_for r new = map snd (sends r)"
proof -
  let ?mine = "filter (\<lambda>(i, rcp). i = Some (al_id r))"
  have mine: "?mine (sends q) = (if al_id q = al_id r then sends q else [])" for q
    by (simp add: sends_def split: option.split)
  have other: "?mine (concat (map sends qs)) = []" if "al_id r \<notin> al_id ` set qs" for qs
    using that by (induction qs) (simp_all add: mine)
  have "?mine (concat (map sends rs)) = sends r"
    using assms(2,3)
  proof (induction rs)
    case (Cons q qs)
    show ?case
    proof (cases "q = r")
      case True
      then show ?thesis using Cons.prems(1) other [of qs] by (simp add: mine)
    next
      case False
      with Cons.prems have "r \<in> set qs" "al_id q \<noteq> al_id r" by auto
      then show ?thesis using Cons.IH Cons.prems(1) by (simp add: mine)
    qed
  qed simp
  moreover have "sent_for r new = map snd (?mine (map (\<lambda>n. (n_source_id n, n_recipient n)) new))"
    by (simp add: sent_for_def filter_map comp_def)
  ultimately show ?thesis using assms(1) by simp
qed

lemma sources_due:
  assumes "map (\<lambda>n. (n_source_id n, n_recipient n)) new = concat (map sends rs)" and "n \<in> set new"
  shows "\<exists>r \<in> set rs. n_source_id n = Some (al_id r)"
proof -
  from assms(2) have "(n_source_id n, n_recipient n) \<in> set (map (\<lambda>n. (n_source_id n, n_recipient n)) new)" by simp
  then show ?thesis unfolding assms(1) by (auto simp: sends_def split: option.splits)
qed

lemma rules_due_distinct:
  "tbl_wf al_id (alert_rules (db s)) \<Longrightarrow> distinct (map al_id (tbl_select p (alert_rules (db s))))"
  by (simp add: tbl_select_def tbl_wf_def distinct_map_filter)

text \<open>
  C18. An evaluation triggers exactly the enabled rules of the caller's workspace whose condition
  holds and that are not cooling down: each of them gets the current time as its last trigger and one more
  trigger. In the caller's workspace it sends one notification to the recipient that its configuration
  names as a text, or to \<open>system\<close> when it names none or the empty text; nothing when the configuration
  is \<open>null\<close>, and for a recipient of another type at most one. Nothing else of the database changes, and a
  rule that has triggered does not trigger again before its cooldown is over, whatever the data is then.
\<close>

theorem alerts_trigger_once:
  assumes "tbl_wf al_id (alert_rules (db s))"
  shows "alert_rules (db (snd (evaluateRules w wsid s))) =
      tbl_update (alert_due w wsid s) (trigger_rule (now_s w)) (alert_rules (db s)) \<and>
    (\<exists>new. rows (notifications (db (snd (evaluateRules w wsid s)))) = rows (notifications (db s)) @ new \<and>
      (\<forall>n \<in> set new. n_workspace_id n = wsid \<and> n_created_at n = now_s w \<and>
         (\<exists>r \<in> set (tbl_select (alert_due w wsid s) (alert_rules (db s))). n_source_id n = Some (al_id r))) \<and>
      (\<forall>r \<in> set (tbl_select (alert_due w wsid s) (alert_rules (db s))).
         (\<forall>x. jget ''recipient'' (al_action_config r) = Some (JStr x) \<longrightarrow> sent_for r new = [if x = [] then ''system'' else x]) \<and>
         (al_action_config r \<noteq> JNull \<and> jget ''recipient'' (al_action_config r) \<in> {None, Some JNull} \<longrightarrow>
            sent_for r new = [''system'']) \<and>
         (al_action_config r = JNull \<longrightarrow> sent_for r new = []) \<and>
         length (sent_for r new) \<le> 1)) \<and>
    restored (db s) (db (snd (evaluateRules w wsid s))) = db s \<and>
    (\<forall>r w' s'. 0 < now_s w \<and> now_s w' - now_s w < al_cooldown_minutes r * 60 \<longrightarrow>
       \<not> alert_due w' wsid s' (trigger_rule (now_s w) r))"
proof -
  let ?due = "tbl_select (alert_due w wsid s) (alert_rules (db s))"
  obtain new where new: "rows (notifications (db (snd (evaluateRules w wsid s)))) = rows (notifications (db s)) @ new"
    "map (\<lambda>n. (n_source_id n, n_recipient n)) new = concat (map sends ?due)"
    "\<forall>n \<in> set new. n_workspace_id n = wsid \<and> n_created_at n = now_s w"
    using evaluateRules_notifications [OF assms] by blast
  have sent: "sent_for r new = (case alert_recipient r of None \<Rightarrow> [] | Some rcp \<Rightarrow> [rcp])" if "r \<in> set ?due" for r
    using sent_for_sends [OF new(2) rules_due_distinct [OF assms] that] by (simp add: sends_def split: option.split)
  have "\<forall>r \<in> set ?due.
         (\<forall>x. jget ''recipient'' (al_action_config r) = Some (JStr x) \<longrightarrow> sent_for r new = [if x = [] then ''system'' else x]) \<and>
         (al_action_config r \<noteq> JNull \<and> jget ''recipient'' (al_action_config r) \<in> {None, Some JNull} \<longrightarrow>
            sent_for r new = [''system'']) \<and>
         (al_action_config r = JNull \<longrightarrow> sent_for r new = []) \<and>
         length (sent_for r new) \<le> 1"
    by (intro ballI) (auto simp: sent alert_recipient_def split: option.splits json.splits)
  with new sources_due [OF new(2)] show ?thesis
    using evaluateRules_rules [OF assms] evaluateRules_frame [OF assms] quiet_in_cooldown
    by (intro conjI exI [of _ new]) blast+
qed

definition demo_rule :: alert_rule_row where
  "demo_rule = \<lparr>al_id = 1, al_name = ''board'', al_description = None, al_enabled = 1, al_entity_type = ''task'',
     al_condition_field = ''status'', al_condition_operator = ''count_below'', al_condition_value = ''1'',
     al_action_type = ''notification'', al_action_config = JObj [], al_cooldown_minutes = 60, al_last_triggered_at = None,
     al_trigger_count = 0, al_created_by = ''system'', al_created_at = 0, al_updated_at = 0, al_workspace_id = 1\<rparr>"

definition demo_alerts :: server where
  "demo_alerts = init_server\<lparr>db := empty_db\<lparr>alert_rules := \<lparr>seq = 1, rows = [demo_rule]\<rparr>\<rparr>\<rparr>"

lemma demo_rule_due: "alert_due demo_world 1 demo_alerts demo_rule"
  by (simp add: alert_due_def rule_fires_def in_cooldown_def evaluateRule_def evaluateTaskRule_def demo_alerts_def demo_rule_def
      num_less_def sql_count_def tbl_select_def parse_int_def parse_unsigned_def digits_value_def is_ws_def is_digit_def
      starts_with_def empty_db_def tbl_empty_def Let_def)

theorem alerts_trigger_once_witness:
  "map al_trigger_count (rows (alert_rules (db (snd (evaluateRules demo_world 1 demo_alerts))))) = [1] \<and>
   (\<exists>n. rows (notifications (db (snd (evaluateRules demo_world 1 demo_alerts)))) = [n] \<and> n_recipient n = ''system'')"
proof -
  have wf: "tbl_wf al_id (alert_rules (db demo_alerts))"
    by (simp add: demo_alerts_def demo_rule_def tbl_wf_def)
  have rules: "rows (alert_rules (db demo_alerts)) = [demo_rule]" and none: "rows (notifications (db demo_alerts)) = []"
    by (simp_all add: demo_alerts_def empty_db_def tbl_empty_def)
  have due: "tbl_select (alert_due demo_world 1 demo_alerts) (alert_rules (db demo_alerts)) = [demo_rule]"
    by (simp add: tbl_select_def rules demo_rule_due)
  have "al_action_config demo_rule \<noteq> JNull" "jget ''recipient'' (al_action_config demo_rule) = None"
    by (simp_all add: demo_rule_def)
  with alerts_trigger_once [OF wf, of demo_world 1] due none
  have triggered: "alert_rules (db (snd (evaluateRules demo_world 1 demo_alerts))) =
      tbl_update (alert_due demo_world 1 demo_alerts) (trigger_rule (now_s demo_world)) (alert_rules (db demo_alerts))"
    and sent: "\<forall>n \<in> set (rows (notifications (db (snd (evaluateRules demo_world 1 demo_alerts))))). n_source_id n = Some (al_id demo_rule)"
      "sent_for demo_rule (rows (notifications (db (snd (evaluateRules demo_world 1 demo_alerts))))) = [''system'']"
    by auto
  have "sent_for demo_rule (rows (notifications (db (snd (evaluateRules demo_world 1 demo_alerts))))) =
      map n_recipient (rows (notifications (db (snd (evaluateRules demo_world 1 demo_alerts)))))"
    using sent(1) by (simp add: sent_for_def filter_id_conv [THEN iffD2])
  moreover have "al_trigger_count (trigger_rule t demo_rule) = 1" for t by (simp add: trigger_rule_def demo_rule_def)
  ultimately show ?thesis
    using triggered sent(2) demo_rule_due by (auto simp: rows_tbl_update rules map_eq_Cons_conv)
qed

end
