(* ===== verification/MC_Comments.thy ===== *)
theory MC_Comments
  imports MC_Tasks
begin

text \<open>
  Comments on tasks and broadcasts to their subscribers: \<open>src/app/api/tasks/[id]/comments/route.ts\<close> and
  \<open>src/app/api/tasks/[id]/broadcast/route.ts\<close>. \<open>GET\<close> builds the threads with a \<open>Map\<close> of
  objects that it mutates and shares; here that is a store from ids to lists of reply ids, and the
  response is what following the references from the top-level comments gives. The command that
  sends a message to an agent is an argument.
\<close>

section \<open>Threads\<close>

definition find_comments :: "world \<Rightarrow> int \<Rightarrow> int \<Rightarrow> server \<Rightarrow> comment_row list" where
  "find_comments w taskId wsid s = order_by_desc (sql_ord w) (\<lambda>c. - c_created_at c)
     (tbl_select (\<lambda>c. c_task_id c = taskId \<and> c_workspace_id c = wsid) (comments (db s)))"

text \<open>A truthy \<open>parent_id\<close>.\<close>

definition parent_of :: "comment_row \<Rightarrow> int option" where
  "parent_of c = (case c_parent_id c of None \<Rightarrow> None | Some p \<Rightarrow> if p = 0 then None else Some p)"

text \<open>The objects of \<open>commentMap\<close>: a comment and the ids of the objects in its \<open>replies\<close>.\<close>

type_synonym comment_store = "int \<Rightarrow> (comment_row \<times> int list) option"

definition first_pass :: "comment_row list \<Rightarrow> comment_store" where
  "first_pass cs = fold (\<lambda>c m. m(c_id c \<mapsto> (c, []))) cs Map.empty"

definition thread_step :: "comment_row \<Rightarrow> comment_store \<times> int list \<Rightarrow> comment_store \<times> int list" where
  "thread_step c x = (case x of (m, topLevel) \<Rightarrow>
     (case parent_of c of
        Some p \<Rightarrow> (case m p of Some (q, rs) \<Rightarrow> (m(p \<mapsto> (q, rs @ [c_id c])), topLevel) | None \<Rightarrow> (m, topLevel))
      | None \<Rightarrow> (m, topLevel @ [c_id c])))"

definition build_threads :: "comment_row list \<Rightarrow> comment_store \<times> int list" where
  "build_threads cs = fold thread_step cs (first_pass cs, [])"

datatype thread = Thread comment_row "thread list"

text \<open>Following the references, to a bounded depth; \<open>None\<close> is a reference that is missing or too deep.\<close>

fun follow :: "nat \<Rightarrow> comment_store \<Rightarrow> int \<Rightarrow> thread option" where
  "follow 0 m i = None"
| "follow (Suc n) m i = (case m i of
     None \<Rightarrow> None
   | Some (c, rs) \<Rightarrow> map_option (Thread c) (those (map (follow n m) rs)))"

definition threads_of :: "comment_row list \<Rightarrow> thread list option" where
  "threads_of cs = (let (m, topLevel) = build_threads cs in those (map (follow (length cs) m) topLevel))"

definition comment_fields :: "comment_row \<Rightarrow> (string \<times> json) list" where
  "comment_fields c = [(''id'', JNum (c_id c)), (''task_id'', JNum (c_task_id c)), (''author'', JStr (c_author c)),
     (''content'', JStr (c_content c)), (''created_at'', JNum (c_created_at c)), (''parent_id'', jnull JNum (c_parent_id c)),
     (''mentions'', JArr (map JStr (case c_mentions c of None \<Rightarrow> [] | Some ms \<Rightarrow> ms))),
     (''workspace_id'', JNum (c_workspace_id c))]"

fun thread_json :: "thread \<Rightarrow> json" where
  "thread_json (Thread c ts) = JObj (comment_fields c @ [(''replies'', JArr (map thread_json ts))])"

definition get_comments :: "string \<Rightarrow> world \<Rightarrow> user \<Rightarrow> server \<Rightarrow> outcome" where
  "get_comments idp w u s =
     (case parse_int idp of
        None \<Rightarrow> (Inr (error_response 400 ''Invalid task ID''), s)
      | Some taskId \<Rightarrow>
          (case find_task taskId (usr_workspace_id u) s of
             None \<Rightarrow> (Inr (error_response 404 ''Task not found''), s)
           | Some _ \<Rightarrow>
               (let cs = find_comments w taskId (usr_workspace_id u) s
                in case threads_of cs of
                     None \<Rightarrow> (Inr (error_response 500 ''Failed to fetch comments''), s)
                   | Some ts \<Rightarrow> (Inr (json_response 200 (JObj [(''comments'', JArr (map thread_json ts)),
                                   (''total'', JNum (int (length cs)))])), s))))"

definition comments_GET :: "string \<Rightarrow> world \<Rightarrow> request \<Rightarrow> server \<Rightarrow> outcome" where
  "comments_GET idp w req s = with_role w req ''viewer'' s (\<lambda>u. get_comments idp w u s)"

section \<open>Adding a comment\<close>

record comment_input =
  ci_content :: string
  ci_author :: "string option"
  ci_parent_id :: "int option"

text \<open>\<open>new Set(xs)\<close>: the elements in the order of their first occurrence.\<close>

definition js_set :: "'a list \<Rightarrow> 'a list" where
  "js_set xs = rev (remdups (rev xs))"

definition preview_text :: "string \<Rightarrow> string" where
  "preview_text x = take 100 x @ (if 100 < length x then ''...'' else [])"

definition truthy_id :: "int option \<Rightarrow> int option" where
  "truthy_id v = (case v of None \<Rightarrow> None | Some p \<Rightarrow> if p = 0 then None else Some p)"

definition insert_comment :: "world \<Rightarrow> int \<Rightarrow> int \<Rightarrow> string \<Rightarrow> comment_input \<Rightarrow> server \<Rightarrow> int \<times> server" where
  "insert_comment w taskId wsid author b s =
     (let ms = parseMentions (ci_content b);
          (i, t) = tbl_insert (\<lambda>i. \<lparr>c_id = i, c_task_id = taskId, c_author = author, c_content = ci_content b,
             c_created_at = now_s w, c_parent_id = truthy_id (ci_parent_id b),
             c_mentions = (if ms = [] then None else Some ms), c_workspace_id = wsid\<rparr>) (comments (db s))
      in (i, s\<lparr>db := (db s)\<lparr>comments := t\<rparr>\<rparr>))"

definition log_comment :: "world \<Rightarrow> task_row \<Rightarrow> int \<Rightarrow> int \<Rightarrow> string \<Rightarrow> comment_input \<Rightarrow> server \<Rightarrow> server" where
  "log_comment w t wsid commentId author b s =
     logActivity w ''comment_added'' ''comment'' commentId author
       ((if truthy_id (ci_parent_id b) \<noteq> None then ''Replied to comment on task: '' else ''Added comment to task: '') @ t_title t)
       (Some (JObj ([(''task_id'', JNum (t_id t)), (''task_title'', JStr (t_title t))] @ jopt ''parent_id'' JNum (ci_parent_id b) @
          [(''mentions'', JArr (map JStr (parseMentions (ci_content b)))), (''content_preview'', JStr (take 100 (ci_content b)))])))
       wsid s"

text \<open>The author, everybody mentioned and the assignee subscribe.\<close>

definition subscribe_all :: "world \<Rightarrow> int \<Rightarrow> int \<Rightarrow> string list \<Rightarrow> server \<Rightarrow> server" where
  "subscribe_all w taskId wsid names s = fold (\<lambda>a. ensureTaskSubscription w taskId a wsid) names s"

definition comment_subscribers :: "task_row \<Rightarrow> string \<Rightarrow> comment_input \<Rightarrow> string list" where
  "comment_subscribers t author b =
     [author] @ js_set (parseMentions (ci_content b)) @ (case or_null (t_assigned_to t) of None \<Rightarrow> [] | Some a \<Rightarrow> [a])"

definition notify_subscriber :: "world \<Rightarrow> task_row \<Rightarrow> int \<Rightarrow> int \<Rightarrow> string \<Rightarrow> string \<Rightarrow> string \<Rightarrow> server \<Rightarrow> server" where
  "notify_subscriber w t wsid commentId author content subscriber s =
     (let isMention = (subscriber \<in> set (parseMentions content))
      in createNotification w subscriber (if isMention then ''mention'' else ''comment'')
           (if isMention then ''You were mentioned'' else ''New comment on a subscribed task'')
           (author @ (if isMention then '' mentioned you in a comment on \"'' else '' commented on \"'') @ t_title t @ ''\": '' @
              preview_text content)
           (Some ''comment'') (Some commentId) wsid s)"

text \<open>From the insert to the last notification: the new id, who is notified, and the state.\<close>

definition post_comment :: "world \<Rightarrow> task_row \<Rightarrow> int \<Rightarrow> string \<Rightarrow> comment_input \<Rightarrow> server \<Rightarrow> int \<times> string list \<times> server" where
  "post_comment w t wsid author b s =
     (let (commentId, s1) = insert_comment w (t_id t) wsid author b s;
          s2 = log_comment w t wsid commentId author b s1;
          s3 = subscribe_all w (t_id t) wsid (comment_subscribers t author b) s2;
          subscribers = filter (\<lambda>a. a \<noteq> author) (js_set (getTaskSubscribers (t_id t) wsid s3))
      in (commentId, subscribers, fold (notify_subscriber w t wsid commentId author (ci_content b)) subscribers s3))"

definition create_comment :: "string \<Rightarrow> world \<Rightarrow> request \<Rightarrow> comment_input schema \<Rightarrow> user \<Rightarrow> server \<Rightarrow> outcome" where
  "create_comment idp w req parse u s =
     (let wsid = usr_workspace_id u in
      case parse_int idp of
        None \<Rightarrow> (Inr (error_response 400 ''Invalid task ID''), s)
      | Some taskId \<Rightarrow> with_body parse req s (\<lambda>b.
          let author = (case ci_author b of None \<Rightarrow> ''system'' | Some a \<Rightarrow> a) in
          case find_task taskId wsid s of
            None \<Rightarrow> (Inr (error_response 404 ''Task not found''), s)
          | Some t \<Rightarrow>
              if (case truthy_id (ci_parent_id b) of
                    None \<Rightarrow> False
                  | Some p \<Rightarrow> tbl_first (\<lambda>c. c_id c = p \<and> c_task_id c = taskId \<and> c_workspace_id c = wsid) (comments (db s)) = None)
              then (Inr (error_response 404 ''Parent comment not found''), s)
              else
                (let (commentId, subscribers, s4) = post_comment w t wsid author b s
                 in case tbl_first (\<lambda>c. c_id c = commentId \<and> c_workspace_id c = wsid) (comments (db s4)) of
                      None \<Rightarrow> (Inr (error_response 500 ''Failed to add comment''), s4)
                    | Some c \<Rightarrow> (Inr (json_response 201 (JObj [(''comment'', JObj (comment_fields c @ [(''replies'', JArr [])]))])), s4))))"

definition comments_POST :: "comment_input schema \<Rightarrow> string \<Rightarrow> world \<Rightarrow> request \<Rightarrow> server \<Rightarrow> outcome" where
  "comments_POST parse idp = mutating_route ''operator'' (\<lambda>w req u s. create_comment idp w req parse u s)"

section \<open>Broadcast to the subscribers of a task\<close>

text \<open>What \<open>runOpenClaw\<close> answers: the error of a failed command or its output (stdout, stderr).\<close>

type_synonym openclaw = "string list \<Rightarrow> string + string \<times> string"

definition broadcast_one ::
  "openclaw \<Rightarrow> world \<Rightarrow> task_row \<Rightarrow> int \<Rightarrow> string \<Rightarrow> string \<Rightarrow> agent_row \<Rightarrow> nat \<times> nat \<times> server \<Rightarrow> nat \<times> nat \<times> server"
where
  "broadcast_one run w t wsid author msg agent acc = (case acc of (sent, skipped, s) \<Rightarrow>
     (case or_null (g_session_key agent) of
        None \<Rightarrow> (sent, Suc skipped, s)
      | Some key \<Rightarrow>
          (case run [''gateway'', ''sessions_send'', ''--session'', key, ''--message'',
                     ''[Task '' @ show_int (t_id t) @ ''] '' @ t_title t @ [CHR 0x0A] @ ''From '' @ author @ '': '' @ msg] of
             Inl _ \<Rightarrow> (sent, Suc skipped, s)
           | Inr _ \<Rightarrow> (Suc sent, skipped,
               createNotification w (g_name agent) ''message'' ''Task Broadcast''
                 (author @ '' broadcasted a message on \"'' @ t_title t @ ''\": '' @ preview_text msg)
                 (Some ''task'') (Some (t_id t)) wsid s))))"

text \<open>
  The handler once the body has been read. An \<open>author\<close> or \<open>message\<close> of another type than text is
  outside the model. The sends run side by side; here they complete in the order of the agents.
\<close>

definition broadcast_task :: "openclaw \<Rightarrow> string \<Rightarrow> world \<Rightarrow> user \<Rightarrow> json \<Rightarrow> server \<Rightarrow> outcome" where
  "broadcast_task run idp w u body s =
     (let wsid = usr_workspace_id u; author = or_else (str_field ''author'' body) ''system'';
          msg = trim (or_else (str_field ''message'' body) [])
      in case parse_int idp of
           None \<Rightarrow> (Inr (error_response 400 ''Invalid task ID''), s)
         | Some taskId \<Rightarrow>
             if msg = [] then (Inr (error_response 400 ''Message is required''), s)
             else case find_task taskId wsid s of
               None \<Rightarrow> (Inr (error_response 404 ''Task not found''), s)
             | Some t \<Rightarrow>
                 (let subscribers = filter (\<lambda>a. a \<noteq> author) (js_set (getTaskSubscribers taskId wsid s));
                      recipients = tbl_select (\<lambda>g. g_workspace_id g = wsid \<and> g_name g \<in> set subscribers) (agents (db s))
                  in if subscribers = []
                     then (Inr (json_response 200 (JObj [(''sent'', JNum 0), (''skipped'', JNum 0)])), s)
                     else
                       (let (sent, skipped, s1) = fold (broadcast_one run w t wsid author msg) recipients (0, 0, s);
                            counts = JObj [(''sent'', JNum (int sent)), (''skipped'', JNum (int skipped))]
                        in (Inr (json_response 200 counts),
                            logActivity w ''task_broadcast'' ''task'' taskId author
                              (''Broadcasted message to '' @ show_nat sent @ '' subscribers'') (Some counts) wsid s1))))"

definition broadcast_POST :: "openclaw \<Rightarrow> string \<Rightarrow> world \<Rightarrow> request \<Rightarrow> server \<Rightarrow> outcome" where
  "broadcast_POST run idp w req s = with_role w req ''operator'' s (\<lambda>u.
     case req_body req of
       None \<Rightarrow> (Inr (error_response 500 ''Failed to broadcast message''), s)
     | Some JNull \<Rightarrow> (Inr (error_response 500 ''Failed to broadcast message''), s)
     | Some body \<Rightarrow> broadcast_task run idp w u body s)"

section \<open>Threads are complete\<close>

text \<open>
  What the routes keep of the comments: ids are unique and positive, and a reply answers an earlier comment on
  the same task in the same workspace.
\<close>

definition replies_ok :: "comment_row list \<Rightarrow> bool" where
  "replies_ok cs \<longleftrightarrow> distinct (map c_id cs) \<and> (\<forall>c \<in> set cs. \<forall>p. parent_of c = Some p \<longrightarrow> p \<in> c_id ` set cs \<and> p < c_id c)"

definition replies_to :: "comment_row list \<Rightarrow> int \<Rightarrow> int list" where
  "replies_to cs i = map c_id (filter (\<lambda>c. parent_of c = Some i) cs)"

lemma first_pass_get:
  assumes "distinct (map c_id cs)"
  shows "c \<in> set cs \<Longrightarrow> first_pass cs (c_id c) = Some (c, [])"
    and "i \<notin> c_id ` set cs \<Longrightarrow> first_pass cs i = None"
  using assms unfolding first_pass_def
  by (induction cs rule: rev_induct) (auto simp: image_iff)

text \<open>After the second pass, every object lists the comments that answer it, in the order of the query.\<close>

lemma thread_fold:
  "fold thread_step cs (m, tops) =
     ((\<lambda>i. map_option (\<lambda>(q, rs). (q, rs @ replies_to cs i)) (m i)), tops @ map c_id (filter (\<lambda>c. parent_of c = None) cs))"
proof (induction cs arbitrary: m tops)
  case Nil
  then show ?case by (simp add: replies_to_def option.map_ident)
next
  case (Cons c cs)
  consider (top_level) "parent_of c = None" | (orphan) p where "parent_of c = Some p" "m p = None"
    | (reply) p q rs where "parent_of c = Some p" "m p = Some (q, rs)"
    by (cases "parent_of c"; cases "m (the (parent_of c))") auto
  then show ?case
  proof cases
    case top_level
    then have "thread_step c (m, tops) = (m, tops @ [c_id c])" by (simp add: thread_step_def)
    with top_level show ?thesis by (simp add: Cons.IH replies_to_def)
  next
    case orphan
    then have "thread_step c (m, tops) = (m, tops)" by (simp add: thread_step_def)
    with orphan show ?thesis by (auto simp: Cons.IH replies_to_def intro!: ext split: option.split)
  next
    case reply
    then have "thread_step c (m, tops) = (m(p \<mapsto> (q, rs @ [c_id c])), tops)" by (simp add: thread_step_def)
    with reply show ?thesis by (auto simp: Cons.IH replies_to_def intro!: ext)
  qed
qed

lemma build_threads_get:
  assumes "distinct (map c_id cs)" and "c \<in> set cs"
  shows "fst (build_threads cs) (c_id c) = Some (c, replies_to cs (c_id c))"
  using first_pass_get(1) [OF assms] by (simp add: build_threads_def thread_fold)

lemma build_threads_top: "snd (build_threads cs) = map c_id (filter (\<lambda>c. parent_of c = None) cs)"
  by (simp add: build_threads_def thread_fold)

lemma those_Some_map: "(\<And>x. x \<in> set xs \<Longrightarrow> f x = Some (g x)) \<Longrightarrow> those (map f xs) = Some (map g xs)"
  by (induction xs) auto

lemma those_map_SomeD: "those (map f xs) = Some ys \<Longrightarrow> x \<in> set xs \<Longrightarrow> f x \<noteq> None"
  by (induction xs arbitrary: ys) (auto split: option.splits)

lemma follow_mono: "follow n m i = Some t \<Longrightarrow> n \<le> k \<Longrightarrow> follow k m i = Some t"
proof (induction n arbitrary: i t k)
  case 0
  then show ?case by simp
next
  case (Suc n)
  then obtain k' where k: "k = Suc k'" "n \<le> k'" by (cases k) auto
  from Suc.prems obtain c rs where c: "m i = Some (c, rs)" by (auto split: option.splits)
  with Suc.prems obtain ts where ts: "those (map (follow n m) rs) = Some ts" "t = Thread c ts" by auto
  have "follow k' m x = follow n m x" if "x \<in> set rs" for x
    using those_map_SomeD [OF ts(1) that] Suc.IH [OF _ k(2)] by fastforce
  then have "those (map (follow k' m) rs) = Some ts" using ts(1) by (metis map_cong)
  with k c ts show ?case by simp
qed

definition newer :: "comment_row list \<Rightarrow> int \<Rightarrow> nat" where
  "newer cs i = length (filter (\<lambda>c. i < c_id c) cs)"

lemma newer_reply:
  assumes "i < j" and "j \<in> c_id ` set cs"
  shows "newer cs j < newer cs i"
proof -
  from assms(2) obtain x where x: "x \<in> set cs" "c_id x = j" by auto
  have "filter (\<lambda>c. j < c_id c) cs = filter (\<lambda>c. j < c_id c) (filter (\<lambda>c. i < c_id c) cs)"
    using assms(1) by (auto intro: filter_cong)
  also have "length \<dots> < length (filter (\<lambda>c. i < c_id c) cs)"
    using assms(1) x by (intro length_filter_less [of x]) auto
  finally show ?thesis by (simp add: newer_def)
qed

text \<open>Replies are newer than what they answer, so the depth is bounded and following the references ends.\<close>

lemma follow_returns:
  assumes ok: "replies_ok cs" and "c \<in> set cs"
  shows "\<exists>t. follow (Suc (newer cs (c_id c))) (fst (build_threads cs)) (c_id c) = Some t"
  using assms(2)
proof (induction "newer cs (c_id c)" arbitrary: c rule: less_induct)
  case less
  let ?m = "fst (build_threads cs)" and ?n = "newer cs (c_id c)"
  have dist: "distinct (map c_id cs)" using ok by (simp add: replies_ok_def)
  have "\<exists>t. follow ?n ?m r = Some t" if reply: "r \<in> set (replies_to cs (c_id c))" for r
  proof -
    from reply obtain x where x: "x \<in> set cs" "parent_of x = Some (c_id c)" "r = c_id x" by (auto simp: replies_to_def)
    then have "c_id c < c_id x" using ok by (auto simp: replies_ok_def)
    with x(1) have lt: "newer cs (c_id x) < ?n" by (intro newer_reply) auto
    from less.hyps [OF lt x(1)] obtain t where "follow (Suc (newer cs (c_id x))) ?m (c_id x) = Some t" by blast
    with lt x(3) show ?thesis by (metis Suc_leI follow_mono)
  qed
  then obtain g where "follow ?n ?m r = Some (g r)" if "r \<in> set (replies_to cs (c_id c))" for r by metis
  then have "those (map (follow ?n ?m) (replies_to cs (c_id c))) = Some (map g (replies_to cs (c_id c)))"
    by (rule those_Some_map)
  then show ?case using build_threads_get [OF dist less.prems] by simp
qed

lemma newer_bound: "c \<in> set cs \<Longrightarrow> Suc (newer cs (c_id c)) \<le> length cs"
  unfolding newer_def by (intro Suc_leI length_filter_less) auto

definition tree_of :: "comment_row list \<Rightarrow> comment_row \<Rightarrow> thread" where
  "tree_of cs c = the (follow (length cs) (fst (build_threads cs)) (c_id c))"

lemma follow_tree:
  assumes "replies_ok cs" and "c \<in> set cs"
  shows "follow (length cs) (fst (build_threads cs)) (c_id c) = Some (tree_of cs c)"
  using follow_returns [OF assms] newer_bound [OF assms(2)] follow_mono unfolding tree_of_def by (metis option.sel)

lemma tree_of_unfold:
  assumes ok: "replies_ok cs" and c: "c \<in> set cs"
  shows "tree_of cs c = Thread c (map (tree_of cs) (filter (\<lambda>x. parent_of x = Some (c_id c)) cs))"
proof -
  let ?m = "fst (build_threads cs)" and ?N = "length cs"
  have dist: "distinct (map c_id cs)" using ok by (simp add: replies_ok_def)
  have "follow (Suc ?N) ?m (c_id c) = Some (tree_of cs c)"
    using follow_tree [OF ok c] by (rule follow_mono) simp
  moreover have "those (map (follow ?N ?m) (map c_id xs)) = Some (map (tree_of cs) xs)" if "set xs \<subseteq> set cs" for xs
    using that follow_tree [OF ok] by (induction xs) auto
  then have "those (map (follow ?N ?m) (replies_to cs (c_id c))) =
      Some (map (tree_of cs) (filter (\<lambda>x. parent_of x = Some (c_id c)) cs))"
    unfolding replies_to_def by auto
  ultimately show ?thesis using build_threads_get [OF dist c] by simp
qed

lemma threads_of_tree:
  assumes ok: "replies_ok cs"
  shows "threads_of cs = Some (map (tree_of cs) (filter (\<lambda>c. parent_of c = None) cs))"
proof -
  have "those (map (follow (length cs) (fst (build_threads cs))) (map c_id xs)) = Some (map (tree_of cs) xs)" if "set xs \<subseteq> set cs" for xs
    using that follow_tree [OF ok] by (induction xs) auto
  then show ?thesis
    by (auto simp: threads_of_def case_prod_beta build_threads_top Let_def)
qed

fun thread_comments :: "thread \<Rightarrow> comment_row list" where
  "thread_comments (Thread c ts) = c # concat (map thread_comments ts)"

fun thread_root :: "thread \<Rightarrow> comment_row" where
  "thread_root (Thread c ts) = c"

text \<open>Under every comment of the tree stand exactly its replies, in order.\<close>

fun well_threaded :: "comment_row list \<Rightarrow> thread \<Rightarrow> bool" where
  "well_threaded cs (Thread c ts) \<longleftrightarrow>
     map thread_root ts = filter (\<lambda>x. parent_of x = Some (c_id c)) cs \<and> (\<forall>t \<in> set ts. well_threaded cs t)"

lemma sum_list_once:
  fixes z :: "'b :: comm_monoid_add"
  assumes "distinct (map k cs)" and "p \<in> k ` set cs"
  shows "sum_list (map (\<lambda>c. if p = k c then z else 0) cs) = z"
  using assms
proof (induction cs)
  case Nil
  then show ?case by simp
next
  case (Cons c cs)
  show ?case
  proof (cases "p = k c")
    case True
    with Cons.prems have "map (\<lambda>c. if p = k c then z else 0) cs = map (\<lambda>c. 0) cs" by (auto simp: image_iff)
    then have "sum_list (map (\<lambda>c. if p = k c then z else 0) cs) = 0" by (metis sum_list_0)
    with True show ?thesis by simp
  next
    case False
    with Cons show ?thesis by auto
  qed
qed

text \<open>Summing over the replies of every comment is summing over the comments that are replies.\<close>

lemma sum_replies:
  fixes F :: "'c \<Rightarrow> 'b :: comm_monoid_add"
  assumes "distinct (map k cs)" and "\<And>x p. x \<in> set xs \<Longrightarrow> par x = Some p \<Longrightarrow> p \<in> k ` set cs"
  shows "sum_list (map (\<lambda>c. sum_list (map F (filter (\<lambda>x. par x = Some (k c)) xs))) cs) =
    sum_list (map F (filter (\<lambda>x. par x \<noteq> None) xs))"
  using assms(2)
proof (induction xs)
  case Nil
  then show ?case by simp
next
  case (Cons x xs)
  have IH: "sum_list (map (\<lambda>c. sum_list (map F (filter (\<lambda>x. par x = Some (k c)) xs))) cs) =
      sum_list (map F (filter (\<lambda>x. par x \<noteq> None) xs))"
    by (rule Cons.IH) (use Cons.prems in auto)
  show ?case
  proof (cases "par x")
    case None
    with IH show ?thesis by simp
  next
    case (Some p)
    have split: "sum_list (map F (filter (\<lambda>x. par x = Some (k c)) (x # xs))) =
        (if p = k c then F x else 0) + sum_list (map F (filter (\<lambda>x. par x = Some (k c)) xs))" for c
      using Some by simp
    have "p \<in> k ` set cs" using Cons.prems Some by auto
    from sum_list_once [OF assms(1) this, of "F x"] IH Some show ?thesis
      by (simp only: split sum_list_addf) simp
  qed
qed

lemma sum_list_filter_split:
  fixes F :: "'c \<Rightarrow> 'b :: comm_monoid_add"
  shows "sum_list (map F (filter p xs)) + sum_list (map F (filter (\<lambda>x. \<not> p x) xs)) = sum_list (map F xs)"
  by (induction xs) (simp_all add: ac_simps)

lemma mset_concat_sum: "mset (concat (map f xs)) = sum_list (map (\<lambda>x. mset (f x)) xs)"
  by (induction xs) simp_all

lemma sum_list_singletons: "sum_list (map (\<lambda>c. {#c#}) cs) = mset cs"
  by (induction cs) simp_all

lemma threads_mset:
  assumes ok: "replies_ok cs"
  shows "mset (concat (map thread_comments (map (tree_of cs) (filter (\<lambda>c. parent_of c = None) cs)))) = mset cs"
proof -
  let ?F = "\<lambda>c. mset (thread_comments (tree_of cs c))"
  let ?S = "\<lambda>p. sum_list (map ?F (filter p cs))"
  have "?F c = {#c#} + ?S (\<lambda>x. parent_of x = Some (c_id c))" if "c \<in> set cs" for c
    by (subst tree_of_unfold [OF ok that]) (simp add: mset_concat_sum o_def)
  then have "sum_list (map ?F cs) = sum_list (map (\<lambda>c. {#c#} + ?S (\<lambda>x. parent_of x = Some (c_id c))) cs)"
    by (simp cong: map_cong)
  also have "\<dots> = mset cs + sum_list (map (\<lambda>c. ?S (\<lambda>x. parent_of x = Some (c_id c))) cs)"
    by (simp only: sum_list_addf sum_list_singletons)
  also have "sum_list (map (\<lambda>c. ?S (\<lambda>x. parent_of x = Some (c_id c))) cs) = ?S (\<lambda>x. parent_of x \<noteq> None)"
    using ok by (intro sum_replies) (auto simp: replies_ok_def)
  finally have "?S (\<lambda>c. parent_of c = None) + ?S (\<lambda>c. parent_of c \<noteq> None) = mset cs + ?S (\<lambda>x. parent_of x \<noteq> None)"
    using sum_list_filter_split [of ?F "\<lambda>c. parent_of c = None" cs] by simp
  then have "?S (\<lambda>c. parent_of c = None) = mset cs" by simp
  then show ?thesis by (simp add: mset_concat_sum o_def)
qed

lemma tree_of_root: "replies_ok cs \<Longrightarrow> c \<in> set cs \<Longrightarrow> thread_root (tree_of cs c) = c"
  by (simp add: tree_of_unfold)

lemma map_tree_root: "replies_ok cs \<Longrightarrow> set xs \<subseteq> set cs \<Longrightarrow> map thread_root (map (tree_of cs) xs) = xs"
  by (induction xs) (simp_all add: tree_of_root)

lemma tree_well_threaded:
  assumes ok: "replies_ok cs" and "c \<in> set cs"
  shows "well_threaded cs (tree_of cs c)"
  using assms(2)
proof (induction "newer cs (c_id c)" arbitrary: c rule: less_induct)
  case less
  have "well_threaded cs (tree_of cs x)" if x: "x \<in> set cs" "parent_of x = Some (c_id c)" for x
  proof -
    have "c_id c < c_id x" using ok x by (auto simp: replies_ok_def)
    then have "newer cs (c_id x) < newer cs (c_id c)" using x(1) by (intro newer_reply) auto
    from less.hyps [OF this x(1)] show ?thesis .
  qed
  then show ?case
    using map_tree_root [OF ok, of "filter (\<lambda>x. parent_of x = Some (c_id c)) cs"]
    by (subst tree_of_unfold [OF ok less.prems]) auto
qed

subsection \<open>The invariant of the comments\<close>

definition comments_ok :: "comment_row tbl \<Rightarrow> bool" where
  "comments_ok C \<longleftrightarrow> tbl_wf c_id C \<and> (\<forall>c \<in> set (rows C). \<forall>p. c_parent_id c = Some p \<longrightarrow>
     (\<exists>q \<in> set (rows C). c_id q = p \<and> c_task_id q = c_task_id c \<and> c_workspace_id q = c_workspace_id c \<and> p < c_id c))"

interpretation comment_rows: row_store c_id "tbl_get c_id" tbl_insert tbl_update tbl_delete "tbl_wf c_id"
  by (rule row_store_tbl)

lemma replies_ok_mset: "mset cs = mset ds \<Longrightarrow> replies_ok cs \<longleftrightarrow> replies_ok ds"
proof -
  assume "mset cs = mset ds"
  then have "set cs = set ds" and "mset (map c_id cs) = mset (map c_id ds)" by (metis set_mset_mset, simp)
  then show ?thesis unfolding replies_ok_def by (metis mset_eq_imp_distinct_iff)
qed

lemma replies_ok_select:
  assumes "comments_ok C"
  shows "replies_ok (tbl_select (\<lambda>c. c_task_id c = i \<and> c_workspace_id c = n) C)"
proof -
  have "distinct (map c_id (tbl_select (\<lambda>c. c_task_id c = i \<and> c_workspace_id c = n) C))"
    using assms by (simp add: comments_ok_def tbl_wf_def tbl_select_def distinct_map_filter)
  then show ?thesis
    using assms by (fastforce simp: replies_ok_def comments_ok_def tbl_select_def parent_of_def split: option.splits if_splits)
qed

lemma comments_ok_insert:
  assumes ok: "comments_ok C" and id: "\<And>i. c_id (mk i) = i"
    and new: "\<And>p. c_parent_id (mk (seq C + 1)) = Some p \<Longrightarrow> \<exists>q \<in> set (rows C). c_id q = p \<and>
      c_task_id q = c_task_id (mk (seq C + 1)) \<and> c_workspace_id q = c_workspace_id (mk (seq C + 1))"
  shows "comments_ok (snd (tbl_insert mk C))"
proof -
  have wf: "tbl_wf c_id (snd (tbl_insert mk C))" using ok id by (intro comment_rows.wf_insert) (auto simp: comments_ok_def)
  have small: "c_id q < seq C + 1" if "q \<in> set (rows C)" for q using ok that by (auto simp: comments_ok_def tbl_wf_def)
  have "\<exists>q \<in> set (rows C) \<union> {mk (seq C + 1)}. c_id q = p \<and> c_task_id q = c_task_id c \<and>
      c_workspace_id q = c_workspace_id c \<and> p < c_id c"
    if "c \<in> set (rows C) \<union> {mk (seq C + 1)}" "c_parent_id c = Some p" for c p
  proof (cases "c = mk (seq C + 1)")
    case True
    with that(2) new obtain q where "q \<in> set (rows C)" "c_id q = p" "c_task_id q = c_task_id c" "c_workspace_id q = c_workspace_id c"
      by blast
    with True small [of q] id show ?thesis by auto
  next
    case False
    with that ok show ?thesis by (auto simp: comments_ok_def)
  qed
  with wf show ?thesis by (simp add: comments_ok_def rows_tbl_insert)
qed

lemma comments_ok_delete:
  assumes "comments_ok C"
  shows "comments_ok (tbl_update p (\<lambda>c. c\<lparr>c_parent_id := None\<rparr>) (tbl_delete (\<lambda>c. c_task_id c = i) C))"
proof -
  let ?D = "tbl_delete (\<lambda>c. c_task_id c = i) C"
  have D: "comments_ok ?D"
    using assms by (fastforce simp: comments_ok_def rows_tbl_delete intro: comment_rows.wf_delete)
  let ?f = "\<lambda>c. if p c then c\<lparr>c_parent_id := None\<rparr> else c"
  have same: "c_id (?f c) = c_id c \<and> c_task_id (?f c) = c_task_id c \<and> c_workspace_id (?f c) = c_workspace_id c" for c by simp
  have "\<exists>q \<in> set (rows ?D). c_id (?f q) = r \<and> c_task_id (?f q) = c_task_id (?f c) \<and> c_workspace_id (?f q) = c_workspace_id (?f c) \<and> r < c_id (?f c)"
    if "c \<in> set (rows ?D)" "c_parent_id (?f c) = Some r" for c r
    using D that by (auto simp: comments_ok_def split: if_splits)
  moreover have "tbl_wf c_id (tbl_update p (\<lambda>c. c\<lparr>c_parent_id := None\<rparr>) ?D)"
    using D by (intro comment_rows.wf_update) (auto simp: comments_ok_def)
  ultimately show ?thesis
    unfolding comments_ok_def rows_tbl_update set_map by (simp only: ball_simps bex_simps) blast
qed

text \<open>Of the task routes only the deletion writes comments.\<close>

lemma comments_bulk: "comments (db (snd (bulk_update w ac n todo s))) = comments (db s)"
  by (induction w ac n todo s rule: bulk_update.induct) (auto simp: Let_def frame_simps split: option.split)

lemma task_routes_keep_comments:
  "comments (db (snd (create_task w u tb s))) = comments (db s)"
  "comments (db (snd (update_tasks w u todo s))) = comments (db s)"
  "comments (db (snd (update_task idp w u ub s))) = comments (db s)"
  "comments (db (snd (create_review w u rb s))) = comments (db s)"
proof -
  show "comments (db (snd (create_task w u tb s))) = comments (db s)"
    unfolding create_task_def Let_def case_prod_beta by (auto simp: frame_simps split: option.split)
  show "comments (db (snd (update_tasks w u todo s))) = comments (db s)"
    using comments_bulk [of w "usr_username u" "usr_workspace_id u" todo s]
    by (auto simp: update_tasks_def transaction_def split: prod.splits sum.splits)
  show "comments (db (snd (update_task idp w u ub s))) = comments (db s)"
    by (auto simp: update_task_def Let_def frame_simps split: option.split)
  show "comments (db (snd (create_review w u rb s))) = comments (db s)"
    by (auto simp: create_review_def Let_def case_prod_beta frame_simps split: option.split)
qed

lemma delete_task_comments:
  assumes "comments_ok (comments (db s))" shows "comments_ok (comments (db (snd (delete_task idp w u s))))"
  using assms comments_ok_delete
  by (auto simp: delete_task_def delete_task_rows_def Let_def frame_simps split: option.split)

lemma subscribe_all_frame:
  "comments (db (subscribe_all w i n names s)) = comments (db s)" "tasks (db (subscribe_all w i n names s)) = tasks (db s)"
  "notifications (db (subscribe_all w i n names s)) = notifications (db s)"
  unfolding subscribe_all_def by (induction names arbitrary: s) (auto simp: frame_simps)

lemma notify_frame:
  "comments (db (fold (notify_subscriber w t n i author content) names s)) = comments (db s)"
  by (induction names arbitrary: s) (auto simp: notify_subscriber_def Let_def frame_simps)

lemma post_comment_comments:
  "comments (db (snd (snd (post_comment w t n author b s)))) = comments (db (snd (insert_comment w (t_id t) n author b s)))"
  by (simp add: post_comment_def Let_def case_prod_beta notify_frame subscribe_all_frame log_comment_def frame_simps)

lemma create_comment_comments:
  assumes ok: "comments_ok (comments (db s))"
  shows "comments_ok (comments (db (snd (create_comment idp w req parse u s))))"
proof -
  have new: "comments_ok (comments (db (snd (insert_comment w i (usr_workspace_id u) author b s))))"
    if parent: "\<not> (case truthy_id (ci_parent_id b) of None \<Rightarrow> False
        | Some p \<Rightarrow> tbl_first (\<lambda>c. c_id c = p \<and> c_task_id c = i \<and> c_workspace_id c = usr_workspace_id u) (comments (db s)) = None)"
    for i author b
  proof -
    have "\<exists>q \<in> set (rows (comments (db s))). c_id q = p \<and> c_task_id q = i \<and> c_workspace_id q = usr_workspace_id u"
      if "truthy_id (ci_parent_id b) = Some p" for p
      using that parent tbl_first_in_rows by fastforce
    with ok show ?thesis unfolding insert_comment_def
      by (auto simp: Let_def case_prod_beta intro!: comments_ok_insert)
  qed
  have "t_id t = i" if "find_task i (usr_workspace_id u) s = Some t" for i t
    using find_task_SomeD [OF that] by simp
  with ok new show ?thesis
    unfolding create_comment_def
    by (auto simp: Let_def case_prod_beta with_body_def post_comment_comments split: option.splits sum.splits)
qed

inductive comment_step :: "server \<Rightarrow> server \<Rightarrow> bool" where
  comment: "comment_step s (snd (comments_POST cschema idp w req s))"
| task_post: "comment_step s (snd (tasks_POST schema w req s))"
| task_put_all: "comment_step s (snd (tasks_PUT bschema w req s))"
| task_put: "comment_step s (snd (task_PUT uschema idp w req s))"
| task_delete: "comment_step s (snd (task_DELETE idp w req s))"
| review: "comment_step s (snd (quality_review_POST rschema w req s))"

lemmas comments_route = mutating_route_inv [where P = "\<lambda>d. comments_ok (comments d)"]

lemmas comments_body = with_body_inv [where P = "\<lambda>d. comments_ok (comments d)"]

interpretation threads: invariant_system "\<lambda>s. s = init_server" comment_step "\<lambda>s. comments_ok (comments (db s))"
proof
  show "comments_ok (comments (db s))" if "s = init_server" for s
    using that by (simp add: init_server_def empty_db_def comments_ok_def) (simp add: tbl_empty_def)
  show "comments_ok (comments (db t))" if "comments_ok (comments (db s))" "comment_step s t" for s t
    using that(2,1)
  proof cases
    case comment
    then show ?thesis using that(1) unfolding comment(1) comments_POST_def
      by (intro comments_route create_comment_comments) auto
  next
    case task_post
    then show ?thesis using that(1) unfolding task_post(1) tasks_POST_def
      by (intro comments_route comments_body) (auto simp: task_routes_keep_comments)
  next
    case task_put_all
    then show ?thesis using that(1) unfolding task_put_all(1) tasks_PUT_def
      by (intro comments_route comments_body) (auto simp: task_routes_keep_comments)
  next
    case task_put
    then show ?thesis using that(1) unfolding task_put(1) task_PUT_def
      by (intro comments_route comments_body) (auto simp: task_routes_keep_comments)
  next
    case task_delete
    then show ?thesis using that(1) unfolding task_delete(1) task_DELETE_def
      by (intro comments_route delete_task_comments) auto
  next
    case review
    then show ?thesis using that(1) unfolding review(1) quality_review_POST_def
      by (intro comments_route comments_body) (auto simp: task_routes_keep_comments)
  qed
qed

text \<open>
  C19. The comment view loses nothing: in every state that the task, review and comment routes can
  reach, the threads that \<open>GET /api/tasks/[id]/comments\<close> builds are well defined and hold every comment
  of the task in the caller's workspace exactly once; the top level is the comments that answer
  nothing, and under every comment stand exactly its replies, both in the order of the query.
\<close>

theorem threads_complete:
  assumes "comment_step\<^sup>*\<^sup>* init_server s" and "sql_order (sql_ord w)"
  shows "\<exists>ts. threads_of (find_comments w i n s) = Some ts \<and>
    mset (concat (map thread_comments ts)) = mset (tbl_select (\<lambda>c. c_task_id c = i \<and> c_workspace_id c = n) (comments (db s))) \<and>
    map thread_root ts = filter (\<lambda>c. parent_of c = None) (find_comments w i n s) \<and>
    (\<forall>t \<in> set ts. well_threaded (find_comments w i n s) t)"
proof -
  let ?cs = "find_comments w i n s" and ?C = "tbl_select (\<lambda>c. c_task_id c = i \<and> c_workspace_id c = n) (comments (db s))"
  have m: "mset ?cs = mset ?C"
    unfolding find_comments_def by (rule sql_order.mset_order_by_desc [OF assms(2)])
  have "comments_ok (comments (db s))" using threads.reachable_inv [OF refl assms(1)] .
  then have ok: "replies_ok ?cs" using replies_ok_select replies_ok_mset [OF m] by blast
  let ?ts = "map (tree_of ?cs) (filter (\<lambda>c. parent_of c = None) ?cs)"
  have "threads_of ?cs = Some ?ts" by (rule threads_of_tree [OF ok])
  moreover have "mset (concat (map thread_comments ?ts)) = mset ?C" using threads_mset [OF ok] m by simp
  moreover have "map thread_root ?ts = filter (\<lambda>c. parent_of c = None) ?cs" by (rule map_tree_root [OF ok]) auto
  moreover have "\<forall>t \<in> set ?ts. well_threaded ?cs t" using tree_well_threaded [OF ok] by auto
  ultimately show ?thesis by blast
qed

definition demo_comment :: "int option \<Rightarrow> comment_input" where
  "demo_comment parent = \<lparr>ci_content = ''ask @bob'', ci_author = Some ''alice'', ci_parent_id = parent\<rparr>"

definition demo_commented :: server where
  "demo_commented = snd (comments_POST (\<lambda>_. Inr (demo_comment None)) ''1'' demo_quiet_world demo_body_request demo_posted)"

definition demo_replied :: server where
  "demo_replied = snd (comments_POST (\<lambda>_. Inr (demo_comment (Some 1))) ''1'' demo_quiet_world demo_body_request demo_commented)"

lemma demo_replied_reachable: "comment_step\<^sup>*\<^sup>* init_server demo_replied"
proof -
  have "comment_step init_server demo_posted" unfolding demo_posted_def by (rule comment_step.task_post)
  moreover have "comment_step demo_posted demo_commented" unfolding demo_commented_def by (rule comment_step.comment)
  moreover have "comment_step demo_commented demo_replied" unfolding demo_replied_def by (rule comment_step.comment)
  ultimately show ?thesis by (meson rtranclp.rtrancl_into_rtrancl rtranclp.rtrancl_refl)
qed

theorem threads_complete_witness:
  "\<exists>ts. threads_of (find_comments demo_quiet_world 1 1 demo_replied) = Some ts \<and>
     mset (concat (map thread_comments ts)) = mset (tbl_select (\<lambda>c. c_task_id c = 1 \<and> c_workspace_id c = 1) (comments (db demo_replied)))"
proof -
  have "sql_order (sql_ord demo_quiet_world)"
    by (simp add: demo_quiet_world_def demo_world_def scan.sql_order_axioms)
  from threads_complete [OF demo_replied_reachable this, of 1 1] show ?thesis by blast
qed

section \<open>Who hears of a comment\<close>

definition task_known :: "int \<Rightarrow> int \<Rightarrow> server \<Rightarrow> bool" where
  "task_known i n s \<longleftrightarrow> (\<exists>t \<in> set (rows (tasks (db s))). t_id t = i \<and> t_workspace_id t = n)"

lemma task_known_first: "task_known i n s \<longleftrightarrow> tbl_first (\<lambda>t. t_id t = i \<and> t_workspace_id t = n) (tasks (db s)) \<noteq> None"
  by (auto simp: task_known_def tbl_first_def find_None_iff)

lemma getTaskSubscribers_ensure:
  assumes "task_known i n s"
  shows "set (getTaskSubscribers i n (ensureTaskSubscription w i a n s)) = set (getTaskSubscribers i n s) \<union> ({a} - {[]})"
proof -
  from assms obtain t where t: "tbl_first (\<lambda>t. t_id t = i \<and> t_workspace_id t = n) (tasks (db s)) = Some t"
    by (auto simp: task_known_first)
  let ?s' = "ensureTaskSubscription w i a n s"
  have subs: "getTaskSubscribers i n x = map sub_agent (filter (\<lambda>r. sub_task_id r = i) (rows (task_subscriptions (db x))))"
    if "tasks (db x) = tasks (db s)" for x
    using assms that unfolding getTaskSubscribers_def task_known_def by (simp only: if_True)
  have keeps: "tasks (db ?s') = tasks (db s)" by (simp add: frame_simps)
  show ?thesis
  proof (cases "a = [] \<or> (\<exists>r \<in> set (rows (task_subscriptions (db s))). sub_task_id r = i \<and> sub_agent r = a)")
    case True
    then have "?s' = s" using t by (auto simp: ensureTaskSubscription_def)
    moreover have "a = [] \<or> a \<in> set (getTaskSubscribers i n s)" using True by (auto simp: subs [OF refl])
    ultimately show ?thesis by auto
  next
    case False
    then have "getTaskSubscribers i n ?s' = getTaskSubscribers i n s @ [a]"
      unfolding subs [OF refl] subs [OF keeps] using t by (simp add: ensureTaskSubscription_def rows_tbl_insert)
    with False show ?thesis by auto
  qed
qed

lemma subscribers_subscribe_all:
  assumes "task_known i n s"
  shows "set (getTaskSubscribers i n (subscribe_all w i n names s)) = set (getTaskSubscribers i n s) \<union> (set names - {[]})"
  using assms unfolding subscribe_all_def
proof (induction names arbitrary: s)
  case Nil
  then show ?case by simp
next
  case (Cons a names)
  have "task_known i n (ensureTaskSubscription w i a n s)" using Cons.prems by (simp add: task_known_def frame_simps)
  from Cons.IH [OF this] getTaskSubscribers_ensure [OF Cons.prems] show ?case by auto
qed

lemma set_js_set [simp]: "set (js_set xs) = set xs" and distinct_js_set [simp]: "distinct (js_set xs)"
  by (simp_all add: js_set_def)

lemma notify_appends:
  "\<exists>new. rows (notifications (db (fold (notify_subscriber w t n cid author content) names s))) = rows (notifications (db s)) @ new \<and>
     map n_recipient new = names \<and>
     (\<forall>x \<in> set new. n_type x = (if n_recipient x \<in> set (parseMentions content) then ''mention'' else ''comment'') \<and>
        n_source_id x = Some cid \<and> n_workspace_id x = n)"
proof (induction names arbitrary: s)
  case Nil
  then show ?case by simp
next
  case (Cons a names)
  have "\<exists>x. rows (notifications (db (notify_subscriber w t n cid author content a s))) = rows (notifications (db s)) @ [x] \<and>
      n_recipient x = a \<and> n_type x = (if a \<in> set (parseMentions content) then ''mention'' else ''comment'') \<and>
      n_source_id x = Some cid \<and> n_workspace_id x = n"
    by (simp add: notify_subscriber_def createNotification_def Let_def tbl_insert_def)
  then obtain x where x: "rows (notifications (db (notify_subscriber w t n cid author content a s))) = rows (notifications (db s)) @ [x]"
    "n_recipient x = a" "n_type x = (if a \<in> set (parseMentions content) then ''mention'' else ''comment'')"
    "n_source_id x = Some cid" "n_workspace_id x = n" by blast
  from Cons.IH [of "notify_subscriber w t n cid author content a s"] obtain new where
    "rows (notifications (db (fold (notify_subscriber w t n cid author content) names (notify_subscriber w t n cid author content a s)))) =
       rows (notifications (db (notify_subscriber w t n cid author content a s))) @ new"
    "map n_recipient new = names"
    "\<forall>x \<in> set new. n_type x = (if n_recipient x \<in> set (parseMentions content) then ''mention'' else ''comment'') \<and>
        n_source_id x = Some cid \<and> n_workspace_id x = n" by blast
  with x show ?case by (intro exI [of _ "x # new"]) simp
qed

definition assignee :: "task_row \<Rightarrow> string set" where
  "assignee t = (case or_null (t_assigned_to t) of None \<Rightarrow> {} | Some a \<Rightarrow> {a})"

lemma assignee_nonempty: "[] \<notin> assignee t"
  by (auto simp: assignee_def or_null_def split: option.splits if_splits)

lemma comment_subscribers_set:
  "set (comment_subscribers t author b) = {author} \<union> set (parseMentions (ci_content b)) \<union> assignee t"
  by (auto simp: comment_subscribers_def assignee_def split: option.split)

lemma post_comment_subscribers:
  assumes known: "task_known (t_id t) n s"
  shows "distinct (fst (snd (post_comment w t n author b s)))"
    and "set (fst (snd (post_comment w t n author b s))) =
      (set (getTaskSubscribers (t_id t) n s) \<union> set (parseMentions (ci_content b)) \<union> assignee t) - {author}"
proof -
  let ?s1 = "snd (insert_comment w (t_id t) n author b s)"
  let ?s2 = "log_comment w t n (fst (insert_comment w (t_id t) n author b s)) author b ?s1"
  have same: "getTaskSubscribers (t_id t) n ?s2 = getTaskSubscribers (t_id t) n s"
    by (auto simp: getTaskSubscribers_def log_comment_def insert_comment_def Let_def case_prod_beta frame_simps)
  have "task_known (t_id t) n ?s2"
    using known by (simp add: task_known_def log_comment_def insert_comment_def Let_def case_prod_beta frame_simps)
  note subs = subscribers_subscribe_all [OF this, of w "comment_subscribers t author b", unfolded same comment_subscribers_set]
  have "[] \<notin> set (parseMentions (ci_content b)) \<union> assignee t"
    using parseMentions_words [of "ci_content b"] assignee_nonempty [of t] by auto
  with subs show "set (fst (snd (post_comment w t n author b s))) =
      (set (getTaskSubscribers (t_id t) n s) \<union> set (parseMentions (ci_content b)) \<union> assignee t) - {author}"
    by (auto simp: post_comment_def Let_def case_prod_beta)
  show "distinct (fst (snd (post_comment w t n author b s)))"
    by (simp add: post_comment_def Let_def case_prod_beta)
qed

lemma post_comment_notifications:
  "\<exists>new. rows (notifications (db (snd (snd (post_comment w t n author b s))))) = rows (notifications (db s)) @ new \<and>
     map n_recipient new = fst (snd (post_comment w t n author b s)) \<and>
     (\<forall>x \<in> set new. n_type x = (if n_recipient x \<in> set (parseMentions (ci_content b)) then ''mention'' else ''comment'') \<and>
        n_source_id x = Some (fst (post_comment w t n author b s)) \<and> n_workspace_id x = n)"
proof -
  let ?s1 = "snd (insert_comment w (t_id t) n author b s)" and ?cid = "fst (insert_comment w (t_id t) n author b s)"
  let ?s3 = "subscribe_all w (t_id t) n (comment_subscribers t author b) (log_comment w t n ?cid author b ?s1)"
  have "notifications (db ?s3) = notifications (db s)"
    by (simp add: subscribe_all_frame log_comment_def insert_comment_def Let_def case_prod_beta frame_simps)
  then show ?thesis
    using notify_appends [of w t n ?cid author "ci_content b" _ ?s3] by (simp add: post_comment_def Let_def case_prod_beta)
qed

text \<open>
  A comment reaches everybody it concerns, once: with the comment stored, exactly one notification goes
  to each subscriber of the task, everybody mentioned in the text and the assignee, and none to the author; it
  is of type \<open>mention\<close> exactly for those who are mentioned.
\<close>

theorem comment_notifies:
  assumes "find_task i n s = Some t" and "post_comment w t n author b s = (cid, recipients, s')"
  shows "(\<exists>c. rows (comments (db s')) = rows (comments (db s)) @ [c] \<and> c_id c = cid \<and> c_task_id c = i \<and> c_workspace_id c = n \<and>
       c_author c = author \<and> c_content c = ci_content b) \<and>
    distinct recipients \<and>
    set recipients = (set (getTaskSubscribers i n s) \<union> set (parseMentions (ci_content b)) \<union> assignee t) - {author} \<and>
    (\<exists>new. rows (notifications (db s')) = rows (notifications (db s)) @ new \<and> map n_recipient new = recipients \<and>
       (\<forall>x \<in> set new. n_type x = (if n_recipient x \<in> set (parseMentions (ci_content b)) then ''mention'' else ''comment'') \<and>
          n_source_id x = Some cid \<and> n_workspace_id x = n))"
proof -
  have t: "t_id t = i" and known: "task_known (t_id t) n s"
    using find_task_SomeD [OF assms(1)] by (auto simp: task_known_def)
  have "cid = fst (insert_comment w i n author b s)"
    using assms(2) t by (simp add: post_comment_def Let_def case_prod_beta)
  then have "\<exists>c. rows (comments (db s')) = rows (comments (db s)) @ [c] \<and> c_id c = cid \<and> c_task_id c = i \<and> c_workspace_id c = n \<and>
       c_author c = author \<and> c_content c = ci_content b"
    using post_comment_comments [of w t n author b s] assms(2) t
    by (simp add: insert_comment_def Let_def tbl_insert_def)
  then show ?thesis
    using post_comment_subscribers [OF known, of w author b] post_comment_notifications [of w t n author b s] assms(2) t by simp
qed

lemma demo_mentions: "parseMentions ''ask @bob'' = [''bob'']"
  by (simp add: is_word_char_def)

theorem comment_notifies_witness:
  "\<exists>cid rs s'. post_comment demo_quiet_world (new_task demo_quiet_world ''api'' 1 demo_task_input 1) 1 ''alice'' (demo_comment None) demo_posted =
     (cid, rs, s') \<and> ''bob'' \<in> set rs \<and> ''alice'' \<notin> set rs"
proof -
  let ?t = "new_task demo_quiet_world ''api'' 1 demo_task_input 1"
  have "rows (tasks (db demo_posted)) = [?t]"
    unfolding demo_posted_eq by (simp add: demo_task_defs demo_quiet_world_def)
  then have "find_task 1 1 demo_posted = Some ?t" by (simp add: find_task_def tbl_first_def new_task_def)
  moreover obtain cid rs s' where
    p: "post_comment demo_quiet_world ?t 1 ''alice'' (demo_comment None) demo_posted = (cid, rs, s')" by (metis prod_cases3)
  ultimately have "set rs = (set (getTaskSubscribers 1 1 demo_posted) \<union> set (parseMentions (ci_content (demo_comment None))) \<union>
      assignee ?t) - {''alice''}"
    using comment_notifies by blast
  then have "''bob'' \<in> set rs \<and> ''alice'' \<notin> set rs" by (simp add: demo_comment_def demo_mentions del: parseMentions.simps)
  with p show ?thesis by blast
qed

end
