(* ===== verification/MC_Notifications.thy ===== *)
theory MC_Notifications
  imports MC_Comments
begin

text \<open>
  Notifications and their delivery to the agents: \<open>src/app/api/notifications/route.ts\<close> and
  \<open>src/app/api/notifications/deliver/route.ts\<close>. Arguments are the command that sends a message, the text of
  a time in the server's locale and the rounded percentage, which the code computes in floating point.
\<close>

section \<open>Reading notifications\<close>

definition notification_fields :: "notification_row \<Rightarrow> (string \<times> json) list" where
  "notification_fields x = [(''id'', JNum (n_id x)), (''recipient'', JStr (n_recipient x)), (''type'', JStr (n_type x)),
     (''title'', JStr (n_title x)), (''message'', JStr (n_message x)), (''source_type'', jnull JStr (n_source_type x)),
     (''source_id'', jnull JNum (n_source_id x)), (''read_at'', jnull JNum (n_read_at x)),
     (''delivered_at'', jnull JNum (n_delivered_at x)), (''created_at'', JNum (n_created_at x)),
     (''workspace_id'', JNum (n_workspace_id x))]"

definition task_source :: "int \<Rightarrow> int \<Rightarrow> server \<Rightarrow> json" where
  "task_source i wsid s = (case find_task i wsid s of
     None \<Rightarrow> JNull
   | Some t \<Rightarrow> JObj [(''type'', JStr ''task''), (''id'', JNum (t_id t)), (''title'', JStr (t_title t)),
                     (''status'', JStr (task_status_str (t_status t)))])"

definition comment_source :: "int \<Rightarrow> int \<Rightarrow> server \<Rightarrow> json" where
  "comment_source i wsid s = (case tbl_first (\<lambda>c. c_id c = i \<and> c_workspace_id c = wsid) (comments (db s)) of
     None \<Rightarrow> JNull
   | Some c \<Rightarrow>
       (case tbl_first (\<lambda>t. t_id t = c_task_id c \<and> t_workspace_id t = wsid) (tasks (db s)) of
          None \<Rightarrow> JNull
        | Some t \<Rightarrow> JObj [(''type'', JStr ''comment''), (''id'', JNum (c_id c)), (''content'', JStr (c_content c)),
                          (''task_id'', JNum (c_task_id c)), (''task_title'', JStr (t_title t)),
                          (''content_preview'', JStr (take 100 (c_content c)))]))"

definition agent_source :: "int \<Rightarrow> int \<Rightarrow> server \<Rightarrow> json" where
  "agent_source i wsid s = (case tbl_first (\<lambda>g. g_id g = i \<and> g_workspace_id g = wsid) (agents (db s)) of
     None \<Rightarrow> JNull
   | Some g \<Rightarrow> JObj [(''type'', JStr ''agent''), (''id'', JNum (g_id g)), (''name'', JStr (g_name g)), (''role'', JStr (g_role g)),
                     (''status'', JStr (g_status g))])"

text \<open>The source a notification names, when its type and id are truthy.\<close>

definition source_of :: "notification_row \<Rightarrow> (string \<times> int) option" where
  "source_of x = (case (or_null (n_source_type x), truthy_id (n_source_id x)) of (Some ty, Some i) \<Rightarrow> Some (ty, i) | _ \<Rightarrow> None)"

definition source_details :: "int \<Rightarrow> server \<Rightarrow> notification_row \<Rightarrow> json" where
  "source_details wsid s x = (case source_of x of
     Some (ty, i) \<Rightarrow> if ty = ''task'' then task_source i wsid s
                     else if ty = ''comment'' then comment_source i wsid s
                     else if ty = ''agent'' then agent_source i wsid s else JNull
   | None \<Rightarrow> JNull)"

definition list_notifications :: "world \<Rightarrow> request \<Rightarrow> user \<Rightarrow> server \<Rightarrow> outcome" where
  "list_notifications w req u s =
     (let wsid = usr_workspace_id u; type = nonempty_param req ''type'';
          unread_only = (req_query req ''unread_only'' = Some ''true'') in
      case nonempty_param req ''recipient'' of
        None \<Rightarrow> (Inr (error_response 400 ''Recipient is required''), s)
      | Some recipient \<Rightarrow>
          (case (parse_int (or_else (req_query req ''limit'') ''50''), parse_int (or_else (req_query req ''offset'') ''0'')) of
             (Some l, Some off) \<Rightarrow>
               (let limit = min l 500;
                    mine = (\<lambda>x. n_recipient x = recipient \<and> n_workspace_id x = wsid);
                    hits = tbl_select (\<lambda>x. mine x \<and> (unread_only \<longrightarrow> n_read_at x = None) \<and>
                             (case type of None \<Rightarrow> True | Some ty \<Rightarrow> n_type x = ty)) (notifications (db s));
                    page = sql_limit limit off (order_by_desc (sql_ord w) n_created_at hits)
                in (Inr (json_response 200 (JObj
                     [(''notifications'', JArr (map (\<lambda>x. JObj (notification_fields x @ [(''source'', source_details wsid s x)])) page)),
                      (''total'', JNum (int (length hits))),
                      (''page'', if limit = 0 then JNull else JNum (off div limit + 1)), (''limit'', JNum limit),
                      (''unreadCount'', JNum (int (length (tbl_select (\<lambda>x. mine x \<and> n_read_at x = None) (notifications (db s))))))])), s))
           | _ \<Rightarrow> (Inr (error_response 500 ''Failed to fetch notifications''), s)))"

definition notifications_GET :: "world \<Rightarrow> request \<Rightarrow> server \<Rightarrow> outcome" where
  "notifications_GET w req s = with_role w req ''viewer'' s (\<lambda>u. list_notifications w req u s)"

section \<open>Marking and deleting\<close>

text \<open>\<open>UPDATE notifications SET .. WHERE ..\<close> and \<open>DELETE FROM notifications WHERE ..\<close>, with the number of rows.\<close>

definition update_notifications ::
  "(notification_row \<Rightarrow> bool) \<Rightarrow> (notification_row \<Rightarrow> notification_row) \<Rightarrow> server \<Rightarrow> int \<times> server"
where
  "update_notifications p f s = (int (length (tbl_select p (notifications (db s)))),
     s\<lparr>db := (db s)\<lparr>notifications := tbl_update p f (notifications (db s))\<rparr>\<rparr>)"

definition delete_notifications :: "(notification_row \<Rightarrow> bool) \<Rightarrow> server \<Rightarrow> int \<times> server" where
  "delete_notifications p s = (int (length (tbl_select p (notifications (db s)))),
     s\<lparr>db := (db s)\<lparr>notifications := tbl_delete p (notifications (db s))\<rparr>\<rparr>)"

definition counted :: "string \<Rightarrow> int \<times> server \<Rightarrow> outcome" where
  "counted key x = (case x of (n, s) \<Rightarrow> (Inr (json_response 200 (JObj [(''success'', JBool True), (key, JNum n)])), s))"

definition mark_read :: "world \<Rightarrow> notification_row \<Rightarrow> notification_row" where
  "mark_read w x = x\<lparr>n_read_at := Some (now_s w)\<rparr>"

definition is_array :: "json \<Rightarrow> json list option" where
  "is_array v = (case v of JArr xs \<Rightarrow> Some xs | _ \<Rightarrow> None)"

definition mark_notifications :: "world \<Rightarrow> user \<Rightarrow> json \<Rightarrow> server \<Rightarrow> outcome" where
  "mark_notifications w u body s =
     (let wsid = usr_workspace_id u; failed = (Inr (error_response 500 ''Failed to update notifications''), s) in
      case (truthy_prop ''markAllRead'' body, truthy_prop ''recipient'' body) of
        (Some _, Some r) \<Rightarrow>
          (case bind_text r of
             Inl _ \<Rightarrow> failed
           | Inr v \<Rightarrow> counted ''markedAsRead'' (update_notifications
               (\<lambda>x. Some (n_recipient x) = v \<and> n_read_at x = None \<and> n_workspace_id x = wsid) (mark_read w) s))
      | _ \<Rightarrow>
          (case Option.bind (jget ''ids'' body) is_array of
             Some vs \<Rightarrow>
               (case bind_ids vs of
                  Inl _ \<Rightarrow> failed
                | Inr is \<Rightarrow> counted ''markedAsRead'' (update_notifications
                    (\<lambda>x. Some (n_id x) \<in> set is \<and> n_read_at x = None \<and> n_workspace_id x = wsid) (mark_read w) s))
           | None \<Rightarrow> (Inr (error_response 400 ''Either provide ids array or recipient with markAllRead=true''), s)))"

definition body_route ::
  "string \<Rightarrow> string \<Rightarrow> (world \<Rightarrow> user \<Rightarrow> json \<Rightarrow> server \<Rightarrow> outcome) \<Rightarrow> world \<Rightarrow> request \<Rightarrow> server \<Rightarrow> outcome"
where
  "body_route role msg k = mutating_route role (\<lambda>w req u s.
     case req_body req of
       None \<Rightarrow> (Inr (error_response 500 msg), s)
     | Some body \<Rightarrow> if body = JNull then (Inr (error_response 500 msg), s) else k w u body s)"

definition notifications_PUT :: "world \<Rightarrow> request \<Rightarrow> server \<Rightarrow> outcome" where
  "notifications_PUT = body_route ''operator'' ''Failed to update notifications'' mark_notifications"

text \<open>\<open>created_at < ?\<close>: every integer is less than a text that is no number, and nothing is less than NULL.\<close>

definition older_than :: "json \<Rightarrow> notification_row \<Rightarrow> bool" where
  "older_than v x = (case v of
     JNum n \<Rightarrow> n_created_at x < n
   | JStr t \<Rightarrow> (case text_int t of Some n \<Rightarrow> n_created_at x < n | None \<Rightarrow> True)
   | _ \<Rightarrow> False)"

definition remove_notifications :: "world \<Rightarrow> user \<Rightarrow> json \<Rightarrow> server \<Rightarrow> outcome" where
  "remove_notifications w u body s =
     (let wsid = usr_workspace_id u; failed = (Inr (error_response 500 ''Failed to delete notifications''), s) in
      case Option.bind (jget ''ids'' body) is_array of
        Some vs \<Rightarrow>
          (case bind_ids vs of
             Inl _ \<Rightarrow> failed
           | Inr is \<Rightarrow> counted ''deleted'' (delete_notifications (\<lambda>x. Some (n_id x) \<in> set is \<and> n_workspace_id x = wsid) s))
      | None \<Rightarrow>
          (case (truthy_prop ''recipient'' body, truthy_prop ''olderThan'' body) of
             (Some r, Some v) \<Rightarrow>
               (case (bind_text r, bind_text v) of
                  (Inr rv, Inr _) \<Rightarrow> counted ''deleted'' (delete_notifications
                    (\<lambda>x. Some (n_recipient x) = rv \<and> older_than v x \<and> n_workspace_id x = wsid) s)
                | _ \<Rightarrow> failed)
           | _ \<Rightarrow> (Inr (error_response 400 ''Either provide ids array or recipient with olderThan timestamp''), s)))"

definition notifications_DELETE :: "world \<Rightarrow> request \<Rightarrow> server \<Rightarrow> outcome" where
  "notifications_DELETE = body_route ''admin'' ''Failed to delete notifications'' remove_notifications"

text \<open>The schema admits only the action \<open>mark-delivered\<close>, so the parsed body is the agent's name.\<close>

definition mark_delivered :: "world \<Rightarrow> user \<Rightarrow> string \<Rightarrow> server \<Rightarrow> outcome" where
  "mark_delivered w u agent s =
     (let wsid = usr_workspace_id u;
          (n, s1) = update_notifications (\<lambda>x. n_recipient x = agent \<and> n_delivered_at x = None \<and> n_workspace_id x = wsid)
                      (\<lambda>x. x\<lparr>n_delivered_at := Some (now_s w)\<rparr>) s;
          delivered = order_by_desc (sql_ord w) n_created_at
             (tbl_select (\<lambda>x. n_recipient x = agent \<and> n_delivered_at x = Some (now_s w) \<and> n_workspace_id x = wsid) (notifications (db s1)))
      in (Inr (json_response 200 (JObj [(''success'', JBool True), (''delivered'', JNum n),
            (''notifications'', JArr (map (JObj \<circ> notification_fields) delivered))])), s1))"

definition notifications_POST :: "string schema \<Rightarrow> world \<Rightarrow> request \<Rightarrow> server \<Rightarrow> outcome" where
  "notifications_POST parse =
     mutating_route ''operator'' (\<lambda>w req u s. with_body parse req s (\<lambda>agent. mark_delivered w u agent s))"

section \<open>Delivery to the agents\<close>

definition bytes :: "nat list \<Rightarrow> string" where
  "bytes bs = map char_of bs"

definition formatNotificationMessage :: "(int \<Rightarrow> string) \<Rightarrow> notification_row \<Rightarrow> string" where
  "formatNotificationMessage localeTime x =
     (let nl = [CHR 0x0A]; bell = bytes [0xF0, 0x9F, 0x94, 0x94]; memo = bytes [0xF0, 0x9F, 0x93, 0x9D];
          board = bytes [0xF0, 0x9F, 0x93, 0x8B]; clock = bytes [0xE2, 0x8F, 0xB0]; link = bytes [0xF0, 0x9F, 0x94, 0x97]
      in bell @ '' **'' @ n_title x @ ''**'' @ nl @ nl @ n_message x @ nl @ nl @
         (if n_type x = ''mention'' then memo @ '' You were mentioned in a comment'' @ nl
          else if n_type x = ''assignment'' then board @ '' You have been assigned a new task'' @ nl
          else if n_type x = ''due_date'' then clock @ '' Task deadline approaching'' @ nl else []) @
         (case source_of x of None \<Rightarrow> [] | Some (ty, i) \<Rightarrow> link @ '' Related '' @ ty @ '' ID: '' @ show_int i @ nl) @
         clock @ '' '' @ localeTime (n_created_at x * 1000))"

text \<open>The session of the recipient: the \<open>LEFT JOIN\<close> with the agents, whose names are unique.\<close>

definition session_of :: "server \<Rightarrow> notification_row \<Rightarrow> string option" where
  "session_of s x = or_null (Option.bind
     (tbl_first (\<lambda>g. g_name g = n_recipient x \<and> g_workspace_id g = n_workspace_id x) (agents (db s))) g_session_key)"

definition undelivered :: "world \<Rightarrow> int \<Rightarrow> string option \<Rightarrow> int \<Rightarrow> server \<Rightarrow> notification_row list" where
  "undelivered w wsid agent_filter limit s =
     sql_limit limit 0 (order_by_desc (sql_ord w) (\<lambda>x. - n_created_at x)
       (tbl_select (\<lambda>x. n_delivered_at x = None \<and> n_workspace_id x = wsid \<and>
          (case agent_filter of None \<Rightarrow> True | Some a \<Rightarrow> n_recipient x = a)) (notifications (db s))))"

text \<open>The command that carries a notification, and what its answer means.\<close>

definition send_args :: "(int \<Rightarrow> string) \<Rightarrow> string \<Rightarrow> notification_row \<Rightarrow> string list" where
  "send_args localeTime key x = [''gateway'', ''sessions_send'', ''--session'', key, ''--message'', formatNotificationMessage localeTime x]"

definition send_result :: "string + string \<times> string \<Rightarrow> string + string" where
  "send_result a = (case a of
     Inl e \<Rightarrow> Inl (''Command failed: '' @ e)
   | Inr (out, err) \<Rightarrow>
       if err \<noteq> [] \<and> includes_str ''error'' err then Inl (''Command failed: OpenClaw error: '' @ err) else Inr out)"

record delivery_log =
  dl_results :: "json list"
  dl_errors :: "json list"
  dl_delivered :: nat

definition delivery_error :: "notification_row \<Rightarrow> string \<Rightarrow> delivery_log \<Rightarrow> delivery_log" where
  "delivery_error x e l = l\<lparr>dl_errors := dl_errors l @ [JObj [(''notification_id'', JNum (n_id x)),
     (''recipient'', JStr (n_recipient x)), (''error'', JStr e)]]\<rparr>"

definition delivery_ok_entry :: "notification_row \<Rightarrow> string \<Rightarrow> (string \<times> json) list \<Rightarrow> delivery_log \<Rightarrow> delivery_log" where
  "delivery_ok_entry x key extra l = l\<lparr>dl_delivered := Suc (dl_delivered l), dl_results := dl_results l @
     [JObj ([(''notification_id'', JNum (n_id x)), (''recipient'', JStr (n_recipient x)), (''session_key'', JStr key)] @ extra)]\<rparr>"

definition mark_one_delivered :: "world \<Rightarrow> int \<Rightarrow> string \<Rightarrow> notification_row \<Rightarrow> server \<Rightarrow> server" where
  "mark_one_delivered w wsid key x s =
     logActivity w ''notification_delivered'' ''notification'' (n_id x) ''system'' (''Notification delivered to '' @ n_recipient x)
       (Some (JObj [(''notification_type'', JStr (n_type x)), (''session_key'', JStr key), (''title'', JStr (n_title x))])) wsid
       (s\<lparr>db := (db s)\<lparr>notifications := tbl_update (\<lambda>y. n_id y = n_id x \<and> n_workspace_id y = wsid)
          (\<lambda>y. y\<lparr>n_delivered_at := Some (now_s w)\<rparr>) (notifications (db s))\<rparr>\<rparr>)"

text \<open>One round of the loop. The session key is the one the query returned, so it is read from the state before the loop.\<close>

definition deliver_notification ::
  "openclaw \<Rightarrow> (int \<Rightarrow> string) \<Rightarrow> bool \<Rightarrow> world \<Rightarrow> int \<Rightarrow> server \<Rightarrow> notification_row \<Rightarrow> delivery_log \<times> server \<Rightarrow> delivery_log \<times> server"
where
  "deliver_notification run localeTime dry_run w wsid s0 x acc = (case acc of (l, s) \<Rightarrow>
     (case session_of s0 x of
        None \<Rightarrow> (delivery_error x ''Agent has no session key configured'' l, s)
      | Some key \<Rightarrow>
          if dry_run
          then (delivery_ok_entry x key [(''status'', JStr ''dry_run''), (''message'', JStr (formatNotificationMessage localeTime x))] l, s)
          else case send_result (run (send_args localeTime key x)) of
            Inl e \<Rightarrow> (delivery_error x e l, s)
          | Inr out \<Rightarrow> (delivery_ok_entry x key [(''delivered_at'', JNum (now_s w)), (''status'', JStr ''delivered''),
                            (''stdout'', JStr (take 200 out))] l, mark_one_delivered w wsid key x s)))"

definition deliver_batch :: "openclaw \<Rightarrow> (int \<Rightarrow> string) \<Rightarrow> json \<Rightarrow> string option \<Rightarrow> int \<Rightarrow> world \<Rightarrow> user \<Rightarrow> server \<Rightarrow> outcome" where
  "deliver_batch run localeTime dryv agent_filter limit w u s =
     (let wsid = usr_workspace_id u; xs = undelivered w wsid agent_filter limit s; n = show_nat (length xs) in
      if xs = []
      then (Inr (json_response 200 (JObj [(''status'', JStr ''success''), (''message'', JStr ''No undelivered notifications found''),
              (''processed'', JNum 0), (''delivered'', JNum 0), (''errors'', JArr [])])), s)
      else
        (let (l, s1) = fold (deliver_notification run localeTime (truthy dryv) w wsid s) xs
                         (\<lparr>dl_results = [], dl_errors = [], dl_delivered = 0\<rparr>, s);
             errs = length (dl_errors l);
             s2 = logActivity w ''notification_delivery_batch'' ''system'' 0 ''notification_daemon''
                    (''Processed '' @ n @ '' notifications: '' @ show_nat (dl_delivered l) @ '' delivered, '' @ show_nat errs @ '' failed'')
                    (Some (JObj [(''total_processed'', JNum (int (length xs))), (''delivered'', JNum (int (dl_delivered l))),
                       (''errors'', JNum (int errs)), (''dry_run'', dryv), (''agent_filter'', jnull JStr agent_filter)])) wsid s1
         in (Inr (json_response 200 (JObj [(''status'', JStr ''success''), (''message'', JStr (''Processed '' @ n @ '' notifications'')),
               (''total_processed'', JNum (int (length xs))), (''delivered'', JNum (int (dl_delivered l))), (''errors'', JNum (int errs)),
               (''dry_run'', dryv), (''delivery_results'', JArr (dl_results l)), (''error_details'', JArr (dl_errors l))])), s2)))"

text \<open>
  The handler. A filter that is no text and a limit that is no number are outside the model, except for \<open>null\<close>: the
  engine refuses a NULL limit.
\<close>

definition deliver_POST :: "openclaw \<Rightarrow> (int \<Rightarrow> string) \<Rightarrow> world \<Rightarrow> request \<Rightarrow> server \<Rightarrow> outcome" where
  "deliver_POST run localeTime w req s = with_role w req ''operator'' s (\<lambda>u.
     let failed = (Inr (error_response 500 ''Failed to deliver notifications''), s) in
     case req_body req of
       None \<Rightarrow> failed
     | Some body \<Rightarrow>
         if body = JNull then failed
         else (case jget ''limit'' body of
                 Some JNull \<Rightarrow> failed
               | lv \<Rightarrow> deliver_batch run localeTime (case jget ''dry_run'' body of None \<Rightarrow> JBool False | Some v \<Rightarrow> v)
                         (or_null (str_field ''agent_filter'' body)) (case lv of Some (JNum n) \<Rightarrow> n | _ \<Rightarrow> 50) w u s))"

definition pending_groups :: "world \<Rightarrow> int \<Rightarrow> server \<Rightarrow> ((string \<times> string option) \<times> nat) list" where
  "pending_groups w wsid s =
     (let xs = tbl_select (\<lambda>x. n_delivered_at x = None \<and> n_workspace_id x = wsid) (notifications (db s));
          key = (\<lambda>x. (n_recipient x, Option.bind (tbl_first (\<lambda>g. g_name g = n_recipient x \<and> g_workspace_id g = n_workspace_id x)
                       (agents (db s))) g_session_key))
      in order_by_desc (sql_ord w) (\<lambda>g. int (snd g))
           (map (\<lambda>k. (k, length (filter (\<lambda>x. key x = k) xs))) (js_set (map key xs))))"

definition deliver_GET :: "(nat \<Rightarrow> nat \<Rightarrow> int) \<Rightarrow> world \<Rightarrow> request \<Rightarrow> server \<Rightarrow> outcome" where
  "deliver_GET percent w req s = with_role w req ''viewer'' s (\<lambda>u.
     let wsid = usr_workspace_id u; agent = nonempty_param req ''agent'';
         base = tbl_select (\<lambda>x. n_workspace_id x = wsid \<and> (case agent of None \<Rightarrow> True | Some a \<Rightarrow> n_recipient x = a)) (notifications (db s));
         delivered = filter (\<lambda>x. n_delivered_at x \<noteq> None) base;
         total_count = length base;
         recent = sql_limit 10 0 (order_by_desc (sql_ord w) (\<lambda>x. the (n_delivered_at x)) delivered)
     in (Inr (json_response 200 (JObj
          [(''statistics'', JObj [(''total'', JNum (int total_count)), (''delivered'', JNum (int (length delivered))),
              (''undelivered'', JNum (int (length (filter (\<lambda>x. n_delivered_at x = None) base)))),
              (''delivery_rate'', JNum (if 0 < total_count then percent (length delivered) total_count else 0))]),
           (''agents_with_pending'', JArr (map (\<lambda>((r, key), n). JObj [(''recipient'', JStr r), (''session_key'', jnull JStr key),
              (''pending_count'', JNum (int n))]) (pending_groups w wsid s))),
           (''recent_deliveries'', JArr (map (\<lambda>x. JObj [(''recipient'', JStr (n_recipient x)), (''type'', JStr (n_type x)),
              (''title'', JStr (n_title x)), (''delivered_at'', jnull JNum (n_delivered_at x)), (''created_at'', JNum (n_created_at x))]) recent)),
           (''agent_filter'', jnull JStr (req_query req ''agent''))])), s))"

section \<open>Notifications of other workspaces\<close>

definition notification_view :: "int \<Rightarrow> server \<Rightarrow> notification_row list" where
  "notification_view n s = ws_rows n_workspace_id n (notifications (db s))"

lemma notification_view_update:
  assumes "\<And>x. p x \<Longrightarrow> n_workspace_id x \<noteq> n" and "\<And>x. n_workspace_id (f x) = n_workspace_id x"
  shows "notification_view n (snd (update_notifications p f s)) = notification_view n s"
  using assms by (simp add: notification_view_def update_notifications_def ws_rows_update)

lemma notification_view_delete:
  assumes "\<And>x. p x \<Longrightarrow> n_workspace_id x \<noteq> n"
  shows "notification_view n (snd (delete_notifications p s)) = notification_view n s"
  using assms by (simp add: notification_view_def delete_notifications_def ws_rows_delete)

lemma snd_counted [simp]: "snd (counted key x) = snd x"
  by (simp add: counted_def split: prod.split)

lemma notification_view_mark:
  "usr_workspace_id u \<noteq> n \<Longrightarrow> notification_view n (snd (mark_notifications w u body s)) = notification_view n s"
  by (auto simp: mark_notifications_def mark_read_def Let_def intro!: notification_view_update split: option.split sum.split)

lemma notification_view_remove:
  "usr_workspace_id u \<noteq> n \<Longrightarrow> notification_view n (snd (remove_notifications w u body s)) = notification_view n s"
  by (auto simp: remove_notifications_def Let_def intro!: notification_view_delete split: option.split sum.split)

lemma notification_view_delivered:
  "usr_workspace_id u \<noteq> n \<Longrightarrow> notification_view n (snd (mark_delivered w u a s)) = notification_view n s"
  by (auto simp: mark_delivered_def Let_def case_prod_beta intro!: notification_view_update)

lemma notification_view_store [simp]: "notification_view n (s\<lparr>mutation_store := ms\<rparr>) = notification_view n s"
  by (simp add: notification_view_def)

lemma body_route_scoped:
  assumes "\<And>w u b s n. usr_workspace_id u \<noteq> n \<Longrightarrow> notification_view n (snd (k w u b s)) = notification_view n s"
  shows "workspace_scoped (body_route role msg k) role notification_view"
  unfolding body_route_def
  by (intro workspace_scoped_mutating) (auto simp: assms split: option.split)

interpretation notifications_put: workspace_scoped notifications_PUT "''operator''" notification_view
  unfolding notifications_PUT_def by (rule body_route_scoped) (rule notification_view_mark)

interpretation notifications_delete: workspace_scoped notifications_DELETE "''admin''" notification_view
  unfolding notifications_DELETE_def by (rule body_route_scoped) (rule notification_view_remove)

interpretation notifications_post: workspace_scoped "notifications_POST schema" "''operator''" notification_view for schema
  unfolding notifications_POST_def
  by (rule workspace_scoped_mutating) (simp_all add: with_body_view notification_view_delivered)

section \<open>What a delivery run does\<close>

definition send_succeeds :: "openclaw \<Rightarrow> (int \<Rightarrow> string) \<Rightarrow> server \<Rightarrow> notification_row \<Rightarrow> bool" where
  "send_succeeds run localeTime s x = (case session_of s x of
     None \<Rightarrow> False
   | Some key \<Rightarrow> (case send_result (run (send_args localeTime key x)) of Inl _ \<Rightarrow> False | Inr _ \<Rightarrow> True))"

definition delivered_now :: "world \<Rightarrow> notification_row \<Rightarrow> notification_row" where
  "delivered_now w x = x\<lparr>n_delivered_at := Some (now_s w)\<rparr>"

lemma delivered_now_sel [simp]:
  "n_id (delivered_now w x) = n_id x" "n_workspace_id (delivered_now w x) = n_workspace_id x"
  by (simp_all add: delivered_now_def)

lemma deliver_dry: "snd (deliver_notification run lt True w wsid s0 x (l, s)) = s"
  by (simp add: deliver_notification_def split: option.split)

lemma deliver_dry_all: "snd (fold (deliver_notification run lt True w wsid s0) xs acc) = snd acc"
  by (induction xs arbitrary: acc) (simp_all add: deliver_dry [where l = "fst a" and s = "snd a" for a, simplified])

lemma deliver_fails: "\<not> send_succeeds run lt s0 x \<Longrightarrow> snd (deliver_notification run lt False w wsid s0 x (l, s)) = s"
  by (auto simp: deliver_notification_def send_succeeds_def split: option.splits sum.splits)

lemma deliver_sends:
  "send_succeeds run lt s0 x \<Longrightarrow> notifications (db (snd (deliver_notification run lt False w wsid s0 x (l, s)))) =
     tbl_update (\<lambda>y. n_id y = n_id x \<and> n_workspace_id y = wsid) (delivered_now w) (notifications (db s))"
  by (auto simp: deliver_notification_def send_succeeds_def mark_one_delivered_def delivered_now_def [abs_def] frame_simps
      split: option.splits sum.splits)

lemma delivered_twice:
  "tbl_update p (delivered_now w) (tbl_update q (delivered_now w) t) = tbl_update (\<lambda>y. q y \<or> p y) (delivered_now w) t"
  if "\<And>y. p (delivered_now w y) = p y"
  using that by (auto simp: tbl_update_def delivered_now_def)

lemma deliver_all_notifications:
  "notifications (db (snd (fold (deliver_notification run lt False w wsid s0) xs (l, s)))) =
     tbl_update (\<lambda>y. n_workspace_id y = wsid \<and> n_id y \<in> n_id ` set (filter (send_succeeds run lt s0) xs)) (delivered_now w)
       (notifications (db s))"
proof (induction xs arbitrary: l s)
  case Nil
  then show ?case by simp
next
  case (Cons x xs)
  let ?r = "deliver_notification run lt False w wsid s0 x (l, s)"
  obtain l' s' where r: "?r = (l', s')" by fastforce
  show ?case
  proof (cases "send_succeeds run lt s0 x")
    case False
    with r have "s' = s" using deliver_fails [of run lt s0 x w wsid l s] by simp
    with False Cons.IH [of l' s'] r show ?thesis by simp
  next
    case True
    with r have "notifications (db s') =
        tbl_update (\<lambda>y. n_id y = n_id x \<and> n_workspace_id y = wsid) (delivered_now w) (notifications (db s))"
      using deliver_sends [of run lt s0 x w wsid l s] by simp
    then have "notifications (db (snd (fold (deliver_notification run lt False w wsid s0) (x # xs) (l, s)))) =
        tbl_update (\<lambda>y. (n_id y = n_id x \<and> n_workspace_id y = wsid) \<or>
          n_workspace_id y = wsid \<and> n_id y \<in> n_id ` set (filter (send_succeeds run lt s0) xs)) (delivered_now w) (notifications (db s))"
      using Cons.IH [of l' s'] r by (simp add: delivered_twice)
    also have "\<dots> = tbl_update (\<lambda>y. n_workspace_id y = wsid \<and> n_id y \<in> n_id ` set (filter (send_succeeds run lt s0) (x # xs)))
        (delivered_now w) (notifications (db s))"
      using True by (auto simp: tbl_update_def)
    finally show ?thesis .
  qed
qed

lemma deliver_log_counts:
  "let l' = fst (fold (deliver_notification run lt dry w wsid s0) xs (l, s))
   in dl_delivered l' + length (dl_errors l') = dl_delivered l + length (dl_errors l) + length xs"
proof (induction xs arbitrary: l s)
  case Nil
  then show ?case by simp
next
  case (Cons x xs)
  obtain l' s' where r: "deliver_notification run lt dry w wsid s0 x (l, s) = (l', s')" by fastforce
  then have "dl_delivered l' + length (dl_errors l') = Suc (dl_delivered l + length (dl_errors l))"
    by (auto simp: deliver_notification_def delivery_error_def delivery_ok_entry_def split: option.splits sum.splits if_splits)
  with Cons.IH [of l' s'] r show ?case by (simp add: Let_def)
qed

lemma undelivered_pending:
  assumes "sql_order (sql_ord w)" and "x \<in> set (undelivered w n a limit s)"
  shows "x \<in> set (rows (notifications (db s))) \<and> n_delivered_at x = None \<and> n_workspace_id x = n \<and>
    (\<forall>r. a = Some r \<longrightarrow> n_recipient x = r)"
proof -
  have "x \<in> set (tbl_select (\<lambda>x. n_delivered_at x = None \<and> n_workspace_id x = n \<and>
      (case a of None \<Rightarrow> True | Some a \<Rightarrow> n_recipient x = a)) (notifications (db s)))"
    using assms(2) unfolding undelivered_def sql_limit_def Let_def
    by (auto simp: sql_order.set_order_by_desc [OF assms(1)] split: if_splits dest!: in_set_takeD in_set_dropD)
  then show ?thesis by (auto simp: tbl_select_def)
qed

lemma undelivered_length: "0 \<le> limit \<Longrightarrow> int (length (undelivered w n a limit s)) \<le> limit"
  by (simp add: undelivered_def sql_limit_def Let_def)

lemma deliver_batch_notifications:
  assumes "sql_order (sql_ord w)" and wf: "tbl_wf n_id (notifications (db s))"
  shows "notifications (db (snd (deliver_batch run lt dryv a limit w u s))) =
    (if truthy dryv then notifications (db s)
     else tbl_update (\<lambda>y. y \<in> set (undelivered w (usr_workspace_id u) a limit s) \<and> send_succeeds run lt s y) (delivered_now w)
            (notifications (db s)))"
proof -
  let ?xs = "undelivered w (usr_workspace_id u) a limit s" and ?n = "usr_workspace_id u"
  let ?l = "\<lparr>dl_results = [], dl_errors = [], dl_delivered = 0\<rparr>"
  have batch: "notifications (db (snd (deliver_batch run lt dryv a limit w u s))) =
      notifications (db (snd (fold (deliver_notification run lt (truthy dryv) w ?n s) ?xs (?l, s))))"
    by (simp add: deliver_batch_def Let_def case_prod_beta frame_simps)
  have inj: "inj_on n_id (set (rows (notifications (db s))))" using wf by (simp add: tbl_wf_def distinct_map)
  have "(n_workspace_id y = ?n \<and> n_id y \<in> n_id ` set (filter (send_succeeds run lt s) ?xs)) \<longleftrightarrow>
      y \<in> set ?xs \<and> send_succeeds run lt s y" if "y \<in> set (rows (notifications (db s)))" for y
    using that undelivered_pending [OF assms(1)] inj by (auto dest: inj_onD)
  then have "tbl_update (\<lambda>y. n_workspace_id y = ?n \<and> n_id y \<in> n_id ` set (filter (send_succeeds run lt s) ?xs)) (delivered_now w) (notifications (db s)) =
      tbl_update (\<lambda>y. y \<in> set ?xs \<and> send_succeeds run lt s y) (delivered_now w) (notifications (db s))"
    unfolding tbl_update_def by (simp cong: map_cong)
  then show ?thesis
    by (cases "truthy dryv") (simp_all only: batch deliver_dry_all deliver_all_notifications snd_conv if_True if_False)
qed

text \<open>
  A delivery run takes at most \<open>limit\<close> notifications, all of the caller's workspace, undelivered
  and matching the filter; afterwards exactly those are marked delivered whose recipient has a session and
  whose send succeeded, with the time of the run, so a failed one is taken again by a later run. A dry run
  marks nothing. Every notification taken is counted either as delivered or as an error.
\<close>

theorem delivery_exact:
  assumes "sql_order (sql_ord w)" and "tbl_wf n_id (notifications (db s))" and "0 \<le> limit"
  shows "int (length (undelivered w (usr_workspace_id u) a limit s)) \<le> limit \<and>
    (\<forall>x \<in> set (undelivered w (usr_workspace_id u) a limit s). x \<in> set (rows (notifications (db s))) \<and> n_delivered_at x = None \<and>
       n_workspace_id x = usr_workspace_id u \<and> (\<forall>r. a = Some r \<longrightarrow> n_recipient x = r)) \<and>
    notifications (db (snd (deliver_batch run lt dryv a limit w u s))) =
      (if truthy dryv then notifications (db s)
       else tbl_update (\<lambda>y. y \<in> set (undelivered w (usr_workspace_id u) a limit s) \<and> send_succeeds run lt s y) (delivered_now w)
              (notifications (db s))) \<and>
    (let l = fst (fold (deliver_notification run lt (truthy dryv) w (usr_workspace_id u) s) (undelivered w (usr_workspace_id u) a limit s)
               (\<lparr>dl_results = [], dl_errors = [], dl_delivered = 0\<rparr>, s))
     in dl_delivered l + length (dl_errors l) = length (undelivered w (usr_workspace_id u) a limit s))"
  using undelivered_length [OF assms(3)] undelivered_pending [OF assms(1)] deliver_batch_notifications [OF assms(1,2)]
    deliver_log_counts [of run lt "truthy dryv" w "usr_workspace_id u" s "undelivered w (usr_workspace_id u) a limit s"
      "\<lparr>dl_results = [], dl_errors = [], dl_delivered = 0\<rparr>" s]
  by (intro conjI) (auto simp: Let_def)

definition demo_notified :: server where
  "demo_notified = createNotification demo_world ''bob'' ''mention'' ''You were mentioned'' ''hello'' None None 1
     (init_server\<lparr>db := empty_db\<lparr>agents := \<lparr>seq = 1, rows = [\<lparr>g_id = 1, g_name = ''bob'', g_role = ''dev'', g_session_key = Some ''k1'',
        g_soul_content = None, g_status = ''idle'', g_last_seen = None, g_last_activity = None, g_created_at = 0, g_updated_at = 0,
        g_config = None, g_workspace_id = 1, g_working_memory = None\<rparr>]\<rparr>\<rparr>\<rparr>)"

theorem delivery_exact_witness:
  "map n_delivered_at (rows (notifications (db (snd (deliver_batch (\<lambda>_. Inr (''ok'', [])) (\<lambda>_. ''now'') (JBool False) None 50
     demo_world demo_caller demo_notified))))) = [Some 1700000000]"
proof -
  let ?run = "\<lambda>_. Inr (''ok'', []) :: string + string \<times> string" and ?lt = "\<lambda>_ :: int. ''now''"
  have ord: "sql_order (sql_ord demo_world)" by (simp add: demo_world_def scan.sql_order_axioms)
  have ws: "usr_workspace_id demo_caller = 1" by (simp add: demo_task_defs)
  obtain x where x: "rows (notifications (db demo_notified)) = [x]" "n_id x = 1" "n_delivered_at x = None" "n_workspace_id x = 1"
    "n_recipient x = ''bob''" "seq (notifications (db demo_notified)) = 1"
    by (simp add: demo_notified_def createNotification_def tbl_insert_def empty_db_def tbl_empty_def Let_def)
  then have wf: "tbl_wf n_id (notifications (db demo_notified))" by (simp add: tbl_wf_def)
  have "session_of demo_notified x = Some ''k1''"
    using x by (simp add: session_of_def demo_notified_def frame_simps tbl_first_def or_null_def)
  then have "send_succeeds ?run ?lt demo_notified x" by (simp add: send_succeeds_def send_result_def)
  moreover have "undelivered demo_world 1 None 50 demo_notified = [x]"
    using x by (simp add: undelivered_def tbl_select_def order_by_desc_def sql_limit_def demo_world_def scan_order_def)
  ultimately show ?thesis
    using delivery_exact [OF ord wf, of 50 demo_caller None ?run ?lt "JBool False"] x ws
    by (simp add: rows_tbl_update delivered_now_def now_s_def demo_world_def)
qed

end
