(* ===== verification/MC_AgentSync.thy ===== *)
theory MC_AgentSync
  imports MC_Comments MC_Platform "HOL-Library.AList"
begin

text \<open>
  \<open>src/lib/agent-sync.ts\<close>: agents that are described in the file \<open>openclaw.json\<close> of the
  gateway and in files of their workspaces, and their copy in the database. The files are an
  argument: \<open>oc_config\<close> is what reading and parsing \<open>openclaw.json\<close> gives (\<open>Inl\<close> the message of the
  error), \<open>oc_file\<close> the readable files by absolute path, \<open>oc_listing\<close> the directories that exist and
  \<open>oc_writable\<close> where a write succeeds. Objects are lists of properties in
  insertion order; names that spell array indices, which JavaScript would move to the front, are
  outside the model, and so are names and themes of agents that are not strings, and an identity or
  tools that is an array.
\<close>

section \<open>Objects\<close>

text \<open>\<open>{...a, ...b}\<close>; a property may be \<open>undefined\<close> (\<open>None\<close>), and \<open>JSON.stringify\<close> leaves it out.\<close>

definition spread :: "(string \<times> 'v) list \<Rightarrow> (string \<times> 'v) list \<Rightarrow> (string \<times> 'v) list" where
  "spread a b = fold (\<lambda>(k, v). AList.update k v) b a"

definition defined_props :: "(string \<times> json option) list \<Rightarrow> (string \<times> json) list" where
  "defined_props ob = concat (map (\<lambda>(k, v). jopt k id v) ob)"

fun obj_props :: "json \<Rightarrow> (string \<times> json) list" where
  "obj_props (JObj kvs) = kvs"
| "obj_props _ = []"

section \<open>Files of the gateway\<close>

record oc_files =
  oc_cwd :: string
  oc_home :: string
  oc_config :: "string + json"
  oc_file :: "string \<Rightarrow> string option"
  oc_listing :: "string \<Rightarrow> string list option"
  oc_writable :: "string \<Rightarrow> bool"

definition config_openclawHome :: "world \<Rightarrow> string" where
  "config_openclawHome w = or_else (getenv w ''OPENCLAW_HOME'') (or_else (getenv w ''CLAWDBOT_HOME'')
     (or_else (getenv w ''MISSION_CONTROL_OPENCLAW_HOME'') []))"

definition readWorkspaceFile :: "oc_files \<Rightarrow> string option \<Rightarrow> string \<Rightarrow> string option" where
  "readWorkspaceFile fs workspace filename =
     (case or_null workspace of
        None \<Rightarrow> None
      | Some ws \<Rightarrow>
          if oc_home fs = [] then None
          else (case resolveWithin (oc_cwd fs) (oc_home fs) ws of
             Inl e \<Rightarrow> None
           | Inr safeWorkspace \<Rightarrow>
               (case resolveWithin (oc_cwd fs) safeWorkspace filename of
                  Inl e \<Rightarrow> None
                | Inr safePath \<Rightarrow> oc_file fs safePath)))"

section \<open>identity.md and TOOLS.md\<close>

definition nonblank_lines :: "string \<Rightarrow> string list" where
  "nonblank_lines content = filter (\<lambda>l. l \<noteq> []) (map trim (split_on (char_of (10 :: nat)) content))"

text \<open>\<open>/^key\s*:\s*(.+)$/i\<close> on a trimmed line: the captured text. A dot matches no carriage return.\<close>

definition match_field :: "string \<Rightarrow> string \<Rightarrow> string option" where
  "match_field key line =
     (if to_lower (take (length key) line) = key then
        (case dropWhile is_ws (drop (length key) line) of
           [] \<Rightarrow> None
         | c # rest \<Rightarrow>
             (let v = dropWhile is_ws rest
              in if c = CHR '':'' \<and> v \<noteq> [] \<and> char_of (13 :: nat) \<notin> set v then Some v else None))
      else None)"

record identity =
  id_name :: string
  id_theme :: string
  id_emoji :: string

definition identity_line :: "string \<Rightarrow> identity \<Rightarrow> identity" where
  "identity_line line i =
     (if id_name i = [] \<and> starts_with ''#'' line
      then i\<lparr>id_name := trim (dropWhile is_ws (dropWhile (\<lambda>c. c = CHR ''#'') line))\<rparr>
      else case (if id_theme i = [] then match_field ''theme'' line else None) of
        Some v \<Rightarrow> i\<lparr>id_theme := trim v\<rparr>
      | None \<Rightarrow>
          (case (if id_emoji i = [] then match_field ''emoji'' line else None) of
             Some v \<Rightarrow> i\<lparr>id_emoji := trim v\<rparr>
           | None \<Rightarrow> i))"

definition nonempty_prop :: "string \<Rightarrow> string \<Rightarrow> (string \<times> json) list" where
  "nonempty_prop k v = (if v = [] then [] else [(k, JStr v)])"

definition parseIdentityFromFile :: "string \<Rightarrow> (string \<times> json) list" where
  "parseIdentityFromFile content =
     (if trim content = [] then []
      else
        (let lines = nonblank_lines content;
             i = fold identity_line lines \<lparr>id_name = [], id_theme = [], id_emoji = []\<rparr>
         in nonempty_prop ''name'' (id_name i) @ nonempty_prop ''theme'' (id_theme i) @
            nonempty_prop ''emoji'' (id_emoji i) @
            [(''content'', JStr (join_with [char_of (10 :: nat)] (take 8 lines)))]))"

text \<open>\<open>/^[-*]\s+`?([^`]+?)`?\s*$/\<close> and \<open>/^`([^`]+)`$/\<close> on a trimmed line\<close>

definition backtick :: char where
  "backtick = char_of (96 :: nat)"

definition list_tool :: "string \<Rightarrow> string option" where
  "list_tool line =
     (case line of
        c # rest \<Rightarrow>
          if (c = CHR ''-'' \<or> c = CHR ''*'') \<and> rest \<noteq> [] \<and> is_ws (hd rest) then
            (let r = dropWhile is_ws rest;
                 x = (if r \<noteq> [] \<and> hd r = backtick then tl r else r);
                 y = (if x \<noteq> [] \<and> last x = backtick then butlast x else x)
             in if y \<noteq> [] \<and> backtick \<notin> set y then Some (trim y) else None)
          else None
      | [] \<Rightarrow> None)"

definition inline_tool :: "string \<Rightarrow> string option" where
  "inline_tool line =
     (let y = butlast (tl line)
      in if 2 < length line \<and> hd line = backtick \<and> last line = backtick \<and> backtick \<notin> set y
         then Some (trim y) else None)"

definition tools_of_line :: "string \<Rightarrow> string list" where
  "tools_of_line line =
     (if line = [] \<or> starts_with ''#'' line then []
      else case list_tool line of
        Some t \<Rightarrow> [t]
      | None \<Rightarrow> (case inline_tool line of Some t \<Rightarrow> [t] | None \<Rightarrow> []))"

definition parseToolsFromFile :: "string \<Rightarrow> (string \<times> json) list" where
  "parseToolsFromFile content =
     (if trim content = [] then []
      else
        (let lines = map trim (split_on (char_of (10 :: nat)) content);
             allow = filter (\<lambda>t. t \<noteq> []) (js_set (concat (map tools_of_line lines)))
         in (if allow \<noteq> [] then [(''allow'', JArr (map JStr allow))] else []) @
            [(''raw'', JStr (join_with [char_of (10 :: nat)] (take 24 (nonblank_lines content))))]))"

section \<open>Configurations\<close>

definition prop_of :: "string \<Rightarrow> (string \<times> json option) list \<Rightarrow> json option" where
  "prop_of k ob = (case map_of ob k of None \<Rightarrow> None | Some v \<Rightarrow> v)"

definition enrich_part ::
  "(string \<times> json) list \<Rightarrow> json option \<Rightarrow> json option"
where
  "enrich_part parsed given =
     (let merged = spread parsed (case given of None \<Rightarrow> [] | Some v \<Rightarrow> obj_props v)
      in if merged \<noteq> [] then Some (JObj merged) else given)"

definition enrich_props :: "oc_files \<Rightarrow> (string \<times> json option) list \<Rightarrow> (string \<times> json option) list" where
  "enrich_props fs ob =
     (case prop_of ''workspace'' ob of
        Some (JStr ws) \<Rightarrow>
          if ws = [] then ob
          else
            (let file = (\<lambda>f. or_else (readWorkspaceFile fs (Some ws) f) [])
             in spread ob
                  [(''identity'', enrich_part (parseIdentityFromFile (file ''identity.md'')) (prop_of ''identity'' ob)),
                   (''tools'', enrich_part (parseToolsFromFile (file ''TOOLS.md'')) (prop_of ''tools'' ob))])
      | _ \<Rightarrow> ob)"

definition enrichAgentConfigFromWorkspace :: "oc_files \<Rightarrow> json \<Rightarrow> json" where
  "enrichAgentConfigFromWorkspace fs configData =
     (case configData of
        JObj kvs \<Rightarrow> JObj (defined_props (enrich_props fs (map (apsnd Some) kvs)))
      | _ \<Rightarrow> configData)"

section \<open>Agents of openclaw.json\<close>

text \<open>\<open>parsed?.agents?.list || []\<close>; a list that is not an array is outside the model.\<close>

definition readOpenClawAgents :: "oc_files \<Rightarrow> string + json list" where
  "readOpenClawAgents fs =
     (if oc_home fs = [] then Inl ''OPENCLAW_HOME not configured''
      else case oc_config fs of
        Inl e \<Rightarrow> Inl e
      | Inr parsed \<Rightarrow>
          (case Option.bind (jget ''agents'' parsed) (jget ''list'') of
             Some (JArr xs) \<Rightarrow> Inr xs
           | _ \<Rightarrow> Inr []))"

record mapped_agent =
  ma_name :: "string option"
  ma_role :: string
  ma_config :: json
  ma_soul :: "string option"

definition agent_identity_str :: "string \<Rightarrow> json \<Rightarrow> string option" where
  "agent_identity_str k agent = Option.bind (jget ''identity'' agent) (str_field k)"

definition mapAgentToMC :: "oc_files \<Rightarrow> json \<Rightarrow> mapped_agent" where
  "mapAgentToMC fs agent =
     \<lparr>ma_name = (case or_null (agent_identity_str ''name'' agent) of
        Some n \<Rightarrow> Some n
      | None \<Rightarrow> (case or_null (str_field ''name'' agent) of Some n \<Rightarrow> Some n | None \<Rightarrow> str_field ''id'' agent)),
      ma_role = or_else (agent_identity_str ''theme'' agent) ''agent'',
      ma_config = JObj (defined_props (enrich_props fs
        [(''openclawId'', jget ''id'' agent), (''model'', jget ''model'' agent), (''identity'', jget ''identity'' agent),
         (''sandbox'', jget ''sandbox'' agent), (''tools'', jget ''tools'' agent), (''subagents'', jget ''subagents'' agent),
         (''memorySearch'', jget ''memorySearch'' agent), (''workspace'', jget ''workspace'' agent),
         (''agentDir'', jget ''agentDir'' agent),
         (''isDefault'', Some (case truthy_prop ''default'' agent of None \<Rightarrow> JBool False | Some v \<Rightarrow> v))])),
      ma_soul = readWorkspaceFile fs (str_field ''workspace'' agent) ''soul.md''\<rparr>"

section \<open>Synchronisation\<close>

datatype sync_action = Created | Updated | Unchanged

record sync_entry =
  se_id :: "json option"
  se_name :: string
  se_action :: sync_action

definition insert_agent_row ::
  "world \<Rightarrow> string \<Rightarrow> string \<Rightarrow> string option \<Rightarrow> json \<Rightarrow> agent_row tbl \<Rightarrow> agent_row tbl"
where
  "insert_agent_row w name role soul cfg t =
     snd (tbl_insert (\<lambda>i. \<lparr>g_id = i, g_name = name, g_role = role, g_session_key = None, g_soul_content = soul,
        g_status = ''offline'', g_last_seen = None, g_last_activity = None, g_created_at = now_s w,
        g_updated_at = now_s w, g_config = Some cfg, g_workspace_id = 1, g_working_memory = Some []\<rparr>) t)"

definition config_text :: "agent_row \<Rightarrow> string" where
  "config_text g = (case g_config g of None \<Rightarrow> ''{}'' | Some c \<Rightarrow> stringify c)"

definition config_changed :: "mapped_agent \<Rightarrow> agent_row \<Rightarrow> bool" where
  "config_changed m g \<longleftrightarrow> config_text g \<noteq> stringify (ma_config m) \<or> g_role g \<noteq> ma_role m"

definition soul_changed :: "mapped_agent \<Rightarrow> agent_row \<Rightarrow> bool" where
  "soul_changed m g \<longleftrightarrow> ma_soul m \<noteq> None \<and> ma_soul m \<noteq> or_null (g_soul_content g)"

definition soul_to_write :: "mapped_agent \<Rightarrow> agent_row \<Rightarrow> string option" where
  "soul_to_write m existing = (case ma_soul m of Some x \<Rightarrow> Some x | None \<Rightarrow> or_null (g_soul_content existing))"

definition sync_write :: "world \<Rightarrow> mapped_agent \<Rightarrow> string option \<Rightarrow> agent_row \<Rightarrow> agent_row" where
  "sync_write w m soul g = g\<lparr>g_role := ma_role m, g_config := Some (ma_config m), g_soul_content := soul,
     g_updated_at := now_s w\<rparr>"

text \<open>
  The body of the loop. The soul that is written is computed from the row that was found. An agent that is \<open>null\<close>, or that has no name, throws.
\<close>

definition sync_agent :: "world \<Rightarrow> oc_files \<Rightarrow> json \<Rightarrow> agent_row tbl \<Rightarrow> string + (sync_entry \<times> agent_row tbl)" where
  "sync_agent w fs agent t =
     (if agent = JNull then Inl ''Cannot read properties of null (reading 'identity')''
      else
        (let m = mapAgentToMC fs agent
         in case ma_name m of
              None \<Rightarrow> Inl ''NOT NULL constraint failed: agents.name''
            | Some name \<Rightarrow>
                (let entry = (\<lambda>a. \<lparr>se_id = jget ''id'' agent, se_name = name, se_action = a\<rparr>)
                 in case tbl_first (\<lambda>g. g_name g = name) t of
                      None \<Rightarrow> Inr (entry Created, insert_agent_row w name (ma_role m) (ma_soul m) (ma_config m) t)
                    | Some existing \<Rightarrow>
                        if config_changed m existing \<or> soul_changed m existing
                        then Inr (entry Updated,
                               tbl_update (\<lambda>g. g_name g = name) (sync_write w m (soul_to_write m existing)) t)
                        else Inr (entry Unchanged, t))))"

fun sync_loop :: "world \<Rightarrow> oc_files \<Rightarrow> json list \<Rightarrow> agent_row tbl \<Rightarrow> string + (sync_entry list \<times> agent_row tbl)" where
  "sync_loop w fs [] t = Inr ([], t)"
| "sync_loop w fs (a # as) t =
     (case sync_agent w fs a t of
        Inl e \<Rightarrow> Inl e
      | Inr (entry, t1) \<Rightarrow>
          (case sync_loop w fs as t1 of
             Inl e \<Rightarrow> Inl e
           | Inr (entries, t2) \<Rightarrow> Inr (entry # entries, t2)))"

record sync_result =
  sr_synced :: int
  sr_created :: int
  sr_updated :: int
  sr_agents :: "sync_entry list"
  sr_error :: "string option"

definition count_action :: "sync_action \<Rightarrow> sync_entry list \<Rightarrow> int" where
  "count_action a es = int (length (filter (\<lambda>e. se_action e = a) es))"

definition log_sync :: "world \<Rightarrow> string \<Rightarrow> sync_result \<Rightarrow> server \<Rightarrow> server" where
  "log_sync w actor r s =
     (let counts = [(''synced'', JNum (sr_synced r)), (''created'', JNum (sr_created r)), (''updated'', JNum (sr_updated r))];
          changed = filter (\<lambda>e. se_action e \<noteq> Unchanged) (sr_agents r)
      in broadcast w ''agent.created'' (JObj ((''type'', JStr ''sync'') # counts))
           (logAuditEvent w ((audit_event0 ''agent_config_sync'' actor)
              \<lparr>ae_detail := Some (JObj (counts @ [(''agents'', JArr (map (\<lambda>e. JStr (se_name e)) changed))]))\<rparr>) s))"

definition syncAgentsFromConfig :: "world \<Rightarrow> oc_files \<Rightarrow> string \<Rightarrow> server \<Rightarrow> (string + sync_result) \<times> server" where
  "syncAgentsFromConfig w fs actor s =
     (case readOpenClawAgents fs of
        Inl e \<Rightarrow> (Inr \<lparr>sr_synced = 0, sr_created = 0, sr_updated = 0, sr_agents = [], sr_error = Some e\<rparr>, s)
      | Inr as \<Rightarrow>
          if as = [] then (Inr \<lparr>sr_synced = 0, sr_created = 0, sr_updated = 0, sr_agents = [], sr_error = None\<rparr>, s)
          else (case sync_loop w fs as (agents (db s)) of
             Inl e \<Rightarrow> (Inl e, s)
           | Inr (entries, t) \<Rightarrow>
               (let r = \<lparr>sr_synced = int (length as), sr_created = count_action Created entries,
                         sr_updated = count_action Updated entries, sr_agents = entries, sr_error = None\<rparr>;
                    s1 = s\<lparr>db := (db s)\<lparr>agents := t\<rparr>\<rparr>
                in (Inr r, if 0 < sr_created r \<or> 0 < sr_updated r then log_sync w actor r s1 else s1))))"

record sync_diff =
  sd_inConfig :: int
  sd_inMC :: int
  sd_newAgents :: "string list"
  sd_updatedAgents :: "string list"
  sd_onlyInMC :: "string list"

text \<open>In the preview a name is only compared; an agent without a name is outside the model.\<close>

definition preview_changed :: "mapped_agent \<Rightarrow> agent_row \<Rightarrow> bool" where
  "preview_changed m g \<longleftrightarrow> map_option stringify (g_config g) \<noteq> Some (stringify (ma_config m)) \<or> g_role g \<noteq> ma_role m"

definition previewSyncDiff :: "oc_files \<Rightarrow> server \<Rightarrow> string + sync_diff" where
  "previewSyncDiff fs s =
     (case readOpenClawAgents fs of
        Inl e \<Rightarrow> Inr \<lparr>sd_inConfig = 0, sd_inMC = 0, sd_newAgents = [], sd_updatedAgents = [], sd_onlyInMC = []\<rparr>
      | Inr as \<Rightarrow>
          if JNull \<in> set as then Inl ''Cannot read properties of null (reading 'identity')''
          else
            (let found = (\<lambda>m. tbl_first (\<lambda>g. Some (g_name g) = ma_name m) (agents (db s)));
                 ms = map (mapAgentToMC fs) as; names = List.map_filter ma_name
             in Inr \<lparr>sd_inConfig = int (length as), sd_inMC = int (length (rows (agents (db s)))),
                  sd_newAgents = names (filter (\<lambda>m. found m = None) ms),
                  sd_updatedAgents = names (filter (\<lambda>m. case found m of None \<Rightarrow> False | Some g \<Rightarrow> preview_changed m g) ms),
                  sd_onlyInMC = filter (\<lambda>n. n \<notin> set (names ms)) (map g_name (rows (agents (db s))))\<rparr>))"

section \<open>Writing back\<close>

text \<open>\<open>deepMerge\<close> on the properties of two objects: only objects that are not arrays are merged.\<close>

function deepMerge :: "(string \<times> json) list \<Rightarrow> (string \<times> json) list \<Rightarrow> (string \<times> json) list" where
  "deepMerge target [] = target"
| "deepMerge target ((k, v) # source) =
     deepMerge (AList.update k
       (case v of
          JObj sv \<Rightarrow> (case map_of target k of Some (JObj tv) \<Rightarrow> JObj (deepMerge tv sv) | _ \<Rightarrow> v)
        | _ \<Rightarrow> v) target) source"
  by pat_completeness auto
termination
  by (relation "measure (\<lambda>(t, s). size (JObj s))") auto

text \<open>
  \<open>writeAgentToConfig\<close> on the parsed file, which it writes back: \<open>agents\<close> and \<open>agents.list\<close> are created
  when they are missing. Other shapes of the file than objects with a list of objects are outside the model.
\<close>

definition has_id :: "json option \<Rightarrow> json \<Rightarrow> bool" where
  "has_id i a \<longleftrightarrow> jget ''id'' a = i"

fun merge_entry :: "(string \<times> json) list \<Rightarrow> json list \<Rightarrow> json list" where
  "merge_entry cfg [] = [JObj cfg]"
| "merge_entry cfg (a # as) =
     (if has_id (map_of cfg ''id'') a then JObj (deepMerge (obj_props a) cfg) # as else a # merge_entry cfg as)"

definition truthy_props :: "json option \<Rightarrow> (string \<times> json) list" where
  "truthy_props v = (case v of None \<Rightarrow> [] | Some x \<Rightarrow> obj_props x)"

definition truthy_items :: "json option \<Rightarrow> json list" where
  "truthy_items v = (case v of Some (JArr xs) \<Rightarrow> xs | _ \<Rightarrow> [])"

definition writeAgentToConfig :: "(string \<times> json) list \<Rightarrow> oc_files \<Rightarrow> string + json" where
  "writeAgentToConfig cfg fs =
     (if oc_home fs = [] then Inl ''OPENCLAW_HOME not configured''
      else case oc_config fs of
        Inl e \<Rightarrow> Inl e
      | Inr parsed \<Rightarrow>
          (let ags = truthy_props (jget ''agents'' parsed)
           in Inr (JObj (AList.update ''agents''
                (JObj (AList.update ''list'' (JArr (merge_entry cfg (truthy_items (map_of ags ''list'')))) ags))
                (obj_props parsed)))))"

section \<open>/api/agents/sync\<close>

fun sync_action_str :: "sync_action \<Rightarrow> string" where
  "sync_action_str Created = ''created''"
| "sync_action_str Updated = ''updated''"
| "sync_action_str Unchanged = ''unchanged''"

definition sync_result_json :: "sync_result \<Rightarrow> json" where
  "sync_result_json r = JObj [(''synced'', JNum (sr_synced r)), (''created'', JNum (sr_created r)),
     (''updated'', JNum (sr_updated r)), (''agents'', JArr (map (\<lambda>e. JObj (jopt ''id'' id (se_id e) @
       [(''name'', JStr (se_name e)), (''action'', JStr (sync_action_str (se_action e)))])) (sr_agents r)))]"

definition sync_POST :: "oc_files \<Rightarrow> world \<Rightarrow> request \<Rightarrow> server \<Rightarrow> outcome" where
  "sync_POST fs w req s = with_role w req ''admin'' s (\<lambda>u.
     (case syncAgentsFromConfig w fs (usr_username u) s of
        (Inl e, s') \<Rightarrow> (Inr (error_response 500 (or_else (Some e) ''Sync failed'')), s')
      | (Inr r, s') \<Rightarrow>
          (case or_null (sr_error r) of
             Some e \<Rightarrow> (Inr (error_response 500 e), s')
           | None \<Rightarrow> (Inr (json_response 200 (sync_result_json r)), s'))))"

definition sync_GET :: "oc_files \<Rightarrow> world \<Rightarrow> request \<Rightarrow> server \<Rightarrow> outcome" where
  "sync_GET fs w req s = with_role w req ''admin'' s (\<lambda>u.
     (case previewSyncDiff fs s of
        Inl e \<Rightarrow> (Inr (error_response 500 (or_else (Some e) ''Preview failed'')), s)
      | Inr d \<Rightarrow> (Inr (json_response 200 (JObj [(''inConfig'', JNum (sd_inConfig d)), (''inMC'', JNum (sd_inMC d)),
          (''newAgents'', JArr (map JStr (sd_newAgents d))), (''updatedAgents'', JArr (map JStr (sd_updatedAgents d))),
          (''onlyInMC'', JArr (map JStr (sd_onlyInMC d)))])), s)))"

interpretation sync_route: role_guarded "sync_POST fs" "''admin''" for fs
  unfolding sync_POST_def by (rule role_guarded_with_role)

interpretation sync_preview_route: role_guarded "sync_GET fs" "''admin''" for fs
  unfolding sync_GET_def by (rule role_guarded_with_role)

section \<open>Merging objects\<close>

lemma update_same: "map_of al k = Some v \<Longrightarrow> AList.update k v al = al"
  by (induction al) (auto split: if_splits)

lemma map_of_update: "map_of (AList.update k v al) k' = (if k' = k then Some v else map_of al k')"
  by (induction al) auto

lemma map_of_spread_other: "k \<notin> fst ` set b \<Longrightarrow> map_of (spread a b) k = map_of a k"
proof (induction b arbitrary: a)
  case (Cons kv b)
  obtain k' v where "kv = (k', v)" by fastforce
  with Cons show ?case by (auto simp: spread_def map_of_update)
qed (simp add: spread_def)

text \<open>What \<open>deepMerge\<close> makes of one property.\<close>

definition merged_value :: "json \<Rightarrow> json option \<Rightarrow> json" where
  "merged_value v old = (case v of
     JObj sv \<Rightarrow> (case old of Some (JObj tv) \<Rightarrow> JObj (deepMerge tv sv) | _ \<Rightarrow> v)
   | _ \<Rightarrow> v)"

lemma deepMerge_Cons: "deepMerge t ((k, v) # s) = deepMerge (AList.update k (merged_value v (map_of t k)) t) s"
  by (simp add: merged_value_def)

declare deepMerge.simps(2) [simp del]

lemma map_of_deepMerge:
  "distinct (map fst s) \<Longrightarrow> map_of (deepMerge t s) k =
     (case map_of s k of None \<Rightarrow> map_of t k | Some v \<Rightarrow> Some (merged_value v (map_of t k)))"
proof (induction s arbitrary: t)
  case (Cons kv s)
  obtain k' v where kv: "kv = (k', v)" by fastforce
  have "map_of s k = None" if "k = k'"
    using Cons.prems that by (auto simp: kv map_of_eq_None_iff)
  with Cons show ?case
    by (auto simp: kv deepMerge_Cons map_of_update split: option.split)
qed simp

lemma deepMerge_absorbs:
  assumes "distinct (map fst s)" and "\<And>k v. (k, v) \<in> set s \<Longrightarrow> map_of u k = Some (merged_value v (map_of u k))"
  shows "deepMerge u s = u"
  using assms
proof (induction s)
  case (Cons kv s)
  obtain k v where kv: "kv = (k, v)" by fastforce
  have "map_of u k = Some (merged_value v (map_of u k))" using Cons.prems(2) [of k v] by (simp add: kv)
  then have "AList.update k (merged_value v (map_of u k)) u = u" by (rule update_same)
  with Cons show ?case by (auto simp: kv deepMerge_Cons)
qed simp

text \<open>Parsed JSON has no repeated property names.\<close>

fun json_wf :: "json \<Rightarrow> bool" where
  "json_wf (JObj kvs) \<longleftrightarrow> distinct (map fst kvs) \<and> list_all (\<lambda>(k, v). json_wf v) kvs"
| "json_wf (JArr xs) \<longleftrightarrow> list_all json_wf xs"
| "json_wf _ \<longleftrightarrow> True"

lemma json_wf_prop: "json_wf (JObj kvs) \<Longrightarrow> (k, v) \<in> set kvs \<Longrightarrow> json_wf v"
  by (auto simp: list_all_iff)

lemma size_prop: "(k, v) \<in> set s \<Longrightarrow> size v < size (JObj s)"
  by (induction s) auto

lemma deepMerge_self: "json_wf (JObj s) \<Longrightarrow> deepMerge s s = s"
proof (induction "size (JObj s)" arbitrary: s rule: less_induct)
  case less
  from less.prems have d: "distinct (map fst s)" by simp
  show ?case
  proof (rule deepMerge_absorbs [OF d])
    fix k v assume kv: "(k, v) \<in> set s"
    have "merged_value v (Some v) = v"
      using less.hyps size_prop [OF kv] json_wf_prop [OF less.prems kv] by (cases v) (auto simp: merged_value_def)
    with d kv show "map_of s k = Some (merged_value v (map_of s k))" by simp
  qed
qed

lemma deepMerge_idem: "json_wf (JObj s) \<Longrightarrow> deepMerge (deepMerge t s) s = deepMerge t s"
proof (induction "size (JObj s)" arbitrary: s t rule: less_induct)
  case less
  from less.prems have d: "distinct (map fst s)" by simp
  show ?case
  proof (rule deepMerge_absorbs [OF d])
    fix k v assume kv: "(k, v) \<in> set s"
    have "merged_value v (Some (merged_value v old)) = merged_value v old" for old
      using less.hyps size_prop [OF kv] json_wf_prop [OF less.prems kv] deepMerge_self
      by (cases v) (auto simp: merged_value_def split: option.split json.split)
    with d kv show "map_of (deepMerge t s) k = Some (merged_value v (map_of (deepMerge t s) k))"
      by (simp add: map_of_deepMerge)
  qed
qed

lemma merge_entry_idem:
  assumes "json_wf (JObj cfg)" and "map_of cfg ''id'' = Some i" and "\<And>kvs. i \<noteq> JObj kvs"
  shows "merge_entry cfg (merge_entry cfg as) = merge_entry cfg as"
proof -
  have d: "distinct (map fst cfg)" using assms(1) by simp
  have iv: "merged_value i old = i" for old using assms(3) by (cases i) (auto simp: merged_value_def)
  have "has_id (Some i) (JObj (deepMerge t cfg))" for t
    by (simp add: has_id_def map_of_deepMerge [OF d] assms(2) iv)
  moreover have "has_id (Some i) (JObj cfg)" by (simp add: has_id_def assms(2))
  ultimately show ?thesis
    by (induction as) (auto simp: assms(2) deepMerge_idem [OF assms(1)] deepMerge_self [OF assms(1)])
qed

text \<open>The entries of the other agents stay as they are, in their order.\<close>

lemma merge_entry_others:
  assumes "json_wf (JObj cfg)" and "map_of cfg ''id'' = Some i" and "\<And>kvs. i \<noteq> JObj kvs"
  shows "filter (\<lambda>a. \<not> has_id (Some i) a) (merge_entry cfg as) = filter (\<lambda>a. \<not> has_id (Some i) a) as"
proof -
  have d: "distinct (map fst cfg)" using assms(1) by simp
  have iv: "merged_value i old = i" for old using assms(3) by (cases i) (auto simp: merged_value_def)
  show ?thesis
    by (induction as) (auto simp: has_id_def assms(2) map_of_deepMerge [OF d] iv)
qed

lemma merge_entry_find:
  assumes "json_wf (JObj cfg)" and "map_of cfg ''id'' = Some i" and "\<And>kvs. i \<noteq> JObj kvs"
  shows "find (has_id (Some i)) (merge_entry cfg as) =
    Some (JObj (deepMerge (case find (has_id (Some i)) as of None \<Rightarrow> [] | Some a \<Rightarrow> obj_props a) cfg))"
proof -
  have d: "distinct (map fst cfg)" using assms(1) by simp
  have iv: "merged_value i old = i" for old using assms(3) by (cases i) (auto simp: merged_value_def)
  have fresh: "fst ` set t \<inter> fst ` set cfg' = {} \<Longrightarrow> distinct (map fst cfg') \<Longrightarrow> deepMerge t cfg' = t @ cfg'" for t cfg'
  proof (induction cfg' arbitrary: t)
    case (Cons kv c)
    obtain k v where kv: "kv = (k, v)" by fastforce
    have "map_of t k = None" using Cons.prems by (auto simp: kv map_of_eq_None_iff)
    then have "merged_value v (map_of t k) = v" by (cases v) (simp_all add: merged_value_def)
    moreover have "AList.update k v t = t @ [(k, v)]"
      using Cons.prems by (induction t) (auto simp: kv)
    ultimately show ?case using Cons by (auto simp: kv deepMerge_Cons)
  qed simp
  show ?thesis
    by (induction as) (auto simp: has_id_def assms(2) map_of_deepMerge [OF d] iv fresh [of "[]"] d)
qed

definition entries_of :: "json \<Rightarrow> json list" where
  "entries_of parsed = truthy_items (map_of (truthy_props (jget ''agents'' parsed)) ''list'')"

lemma jget_props: "jget k v = map_of (obj_props v) k"
  by (cases v) simp_all

lemma readOpenClawAgents_entries:
  "oc_home fs \<noteq> [] \<Longrightarrow> oc_config fs = Inr parsed \<Longrightarrow> readOpenClawAgents fs = Inr (entries_of parsed)"
  by (auto simp: readOpenClawAgents_def entries_of_def truthy_items_def truthy_props_def jget_props
      split: option.split json.split)

definition written :: "(string \<times> json) list \<Rightarrow> json \<Rightarrow> json" where
  "written cfg parsed = (let ags = truthy_props (jget ''agents'' parsed) in
     JObj (AList.update ''agents'' (JObj (AList.update ''list'' (JArr (merge_entry cfg (entries_of parsed))) ags)) (obj_props parsed)))"

lemma writeAgentToConfig_Inr:
  "writeAgentToConfig cfg fs = Inr file \<longleftrightarrow> oc_home fs \<noteq> [] \<and> (\<exists>parsed. oc_config fs = Inr parsed \<and> file = written cfg parsed)"
  by (auto simp: writeAgentToConfig_def written_def entries_of_def Let_def split: sum.split)

lemma agents_of_written: "truthy_props (jget ''agents'' (written cfg parsed)) =
    AList.update ''list'' (JArr (merge_entry cfg (entries_of parsed))) (truthy_props (jget ''agents'' parsed))"
  by (simp add: written_def truthy_props_def map_of_update Let_def)

lemma entries_of_written: "entries_of (written cfg parsed) = merge_entry cfg (entries_of parsed)"
  by (simp add: entries_of_def [of "written cfg parsed"] agents_of_written truthy_items_def map_of_update)

lemma update_twice: "AList.update k v (AList.update k v' al) = AList.update k v al"
  by (induction al) auto

lemma written_twice:
  assumes "json_wf (JObj cfg)" and "map_of cfg ''id'' = Some (JStr i)"
  shows "written cfg (written cfg parsed) = written cfg parsed"
proof -
  have idem: "merge_entry cfg (merge_entry cfg (entries_of parsed)) = merge_entry cfg (entries_of parsed)"
    by (rule merge_entry_idem [OF assms]) simp
  have "obj_props (written cfg parsed) = AList.update ''agents'' (JObj (AList.update ''list''
      (JArr (merge_entry cfg (entries_of parsed))) (truthy_props (jget ''agents'' parsed)))) (obj_props parsed)"
    by (simp add: written_def Let_def)
  then have "written cfg (written cfg parsed) = JObj (AList.update ''agents'' (JObj (AList.update ''list''
      (JArr (merge_entry cfg (entries_of parsed))) (truthy_props (jget ''agents'' parsed)))) (obj_props parsed))"
    unfolding written_def [of cfg "written cfg parsed"] agents_of_written entries_of_written idem
    by (simp add: update_twice Let_def)
  then show ?thesis by (simp add: written_def Let_def)
qed

text \<open>What stands in a value under a path of property names, and the values that are no objects.\<close>

fun json_at :: "string list \<Rightarrow> json \<Rightarrow> json option" where
  "json_at [] v = Some v"
| "json_at (k # ks) v = (case jget k v of None \<Rightarrow> None | Some x \<Rightarrow> json_at ks x)"

fun leaf :: "json \<Rightarrow> bool" where
  "leaf (JObj _) = False"
| "leaf _ = True"

lemma leaf_iff: "leaf v \<longleftrightarrow> (\<forall>kvs. v \<noteq> JObj kvs)"
  by (cases v) simp_all

lemma merged_leaf [simp]: "leaf v \<Longrightarrow> merged_value v old = v"
  by (cases v) (simp_all add: merged_value_def)

text \<open>
  A deep merge of \<open>new\<close> into \<open>old\<close>: every value of \<open>new\<close> that is no object stands where it
  stands in \<open>new\<close>; a value of \<open>old\<close> stays unless \<open>new\<close> has something at its path, or no object
  on the way to it; and there is no other value.
\<close>

definition deeply_merged :: "json \<Rightarrow> json \<Rightarrow> json \<Rightarrow> bool" where
  "deeply_merged old new res \<longleftrightarrow>
     (\<forall>p v. json_at p new = Some v \<and> leaf v \<longrightarrow> json_at p res = Some v) \<and>
     (\<forall>p v. json_at p old = Some v \<and> json_at p new = None \<and> (\<forall>n x. json_at (take n p) new = Some x \<longrightarrow> \<not> leaf x) \<longrightarrow>
        json_at p res = Some v) \<and>
     (\<forall>p v. json_at p res = Some v \<and> leaf v \<longrightarrow> json_at p new = Some v \<or> json_at p old = Some v)"

lemma wf_distinct: "json_wf (JObj s) \<Longrightarrow> distinct (map fst s)"
  by simp

lemma wf_map_of: "json_wf (JObj s) \<Longrightarrow> map_of s k = Some v \<Longrightarrow> json_wf v"
  by (auto dest!: map_of_SomeD simp: list_all_iff)

lemma merge_new_leaf:
  "json_wf (JObj s) \<Longrightarrow> json_at p (JObj s) = Some v \<Longrightarrow> leaf v \<Longrightarrow> json_at p (JObj (deepMerge t s)) = Some v"
proof (induction p arbitrary: s t)
  case (Cons k p)
  then obtain x where x: "map_of s k = Some x" "json_at p x = Some v" by (auto split: option.splits)
  have "json_at p (merged_value x (map_of t k)) = Some v"
  proof (cases "leaf x")
    case False
    then obtain sv where sv: "x = JObj sv" by (auto simp: leaf_iff)
    with Cons.IH [of sv] wf_map_of [OF Cons.prems(1) x(1)] x(2) Cons.prems(3) show ?thesis
      by (auto simp: merged_value_def split: option.split json.split)
  qed (use x in simp)
  then show ?case using x by (simp add: map_of_deepMerge [OF wf_distinct [OF Cons.prems(1)]])
qed auto

lemma merge_old_kept:
  "json_wf (JObj s) \<Longrightarrow> json_at p (JObj t) = Some v \<Longrightarrow> json_at p (JObj s) = None \<Longrightarrow>
   (\<And>n x. json_at (take n p) (JObj s) = Some x \<Longrightarrow> \<not> leaf x) \<Longrightarrow> json_at p (JObj (deepMerge t s)) = Some v"
proof (induction p arbitrary: s t)
  case (Cons k p)
  note m = map_of_deepMerge [OF wf_distinct [OF Cons.prems(1)]]
  from Cons.prems(2) obtain y where y: "map_of t k = Some y" "json_at p y = Some v" by (auto split: option.splits)
  show ?case
  proof (cases "map_of s k")
    case None
    then show ?thesis using y by (simp add: m)
  next
    case (Some x)
    have "\<not> leaf x" using Cons.prems(4) [of 1 x] Some by simp
    then obtain sv where sv: "x = JObj sv" by (auto simp: leaf_iff)
    have none: "json_at p (JObj sv) = None" using Cons.prems(3) Some sv by simp
    then have "p \<noteq> []" by auto
    with y(2) obtain tv where tv: "y = JObj tv" by (cases p; cases y) (auto split: option.splits)
    have "\<not> leaf z" if "json_at (take n p) (JObj sv) = Some z" for n z
      using Cons.prems(4) [of "Suc n" z] that Some sv by simp
    with Cons.IH [of sv tv] wf_map_of [OF Cons.prems(1) Some] y(2) none
    have "json_at p (JObj (deepMerge tv sv)) = Some v" by (simp add: sv tv)
    then show ?thesis using Some y(1) by (simp add: m sv tv merged_value_def)
  qed
qed simp

lemma merge_nothing_else:
  "json_wf (JObj s) \<Longrightarrow> json_at p (JObj (deepMerge t s)) = Some v \<Longrightarrow> leaf v \<Longrightarrow>
   json_at p (JObj s) = Some v \<or> json_at p (JObj t) = Some v"
proof (induction p arbitrary: s t)
  case (Cons k p)
  note m = map_of_deepMerge [OF wf_distinct [OF Cons.prems(1)]]
  show ?case
  proof (cases "map_of s k")
    case None
    then show ?thesis using Cons.prems(2) by (simp add: m)
  next
    case (Some x)
    then have at: "json_at p (merged_value x (map_of t k)) = Some v" using Cons.prems(2) by (simp add: m)
    show ?thesis
    proof (cases "\<exists>sv tv. x = JObj sv \<and> map_of t k = Some (JObj tv)")
      case True
      then obtain sv tv where st: "x = JObj sv" "map_of t k = Some (JObj tv)" by blast
      with at Cons.IH [of sv tv] wf_map_of [OF Cons.prems(1) Some] Cons.prems(3) Some show ?thesis
        by (simp add: merged_value_def)
    next
      case False
      then have "merged_value x (map_of t k) = x" by (auto simp: merged_value_def split: json.split option.split)
      then show ?thesis using at Some by simp
    qed
  qed
qed auto

lemma deepMerge_deeply_merged: "json_wf (JObj s) \<Longrightarrow> deeply_merged (JObj t) (JObj s) (JObj (deepMerge t s))"
  unfolding deeply_merged_def using merge_new_leaf merge_old_kept merge_nothing_else by blast

lemma merge_entry_count:
  assumes "json_wf (JObj cfg)" and "map_of cfg ''id'' = Some i" and "\<And>kvs. i \<noteq> JObj kvs"
  shows "length (filter (has_id (Some i)) (merge_entry cfg as)) = max 1 (length (filter (has_id (Some i)) as))"
proof -
  have d: "distinct (map fst cfg)" using assms(1) by simp
  have iv: "merged_value i old = i" for old using assms(3) by (cases i) (auto simp: merged_value_def)
  show ?thesis
    by (induction as) (auto simp: has_id_def assms(2) map_of_deepMerge [OF d] iv)
qed

text \<open>
  C20. Writing an agent's configuration back to \<open>openclaw.json\<close>, when the new configuration repeats no
  property name: afterwards the (first) entry with the agent's id is the deep merge of the new
  configuration into the old entry, or the new configuration if there was none, and there is
  no further entry with this id than before. The entries of all other agents, the other properties of
  \<open>agents\<close> and all other parts of the file are as before, and writing the same configuration again
  changes nothing.
\<close>

theorem write_back_merges:
  assumes "json_wf (JObj cfg)" and "map_of cfg ''id'' = Some (JStr i)" and "oc_config fs = Inr parsed"
    and "readOpenClawAgents fs = Inr as" and "writeAgentToConfig cfg fs = Inr file"
  shows "\<exists>as' entry. readOpenClawAgents (fs\<lparr>oc_config := Inr file\<rparr>) = Inr as' \<and>
    find (has_id (Some (JStr i))) as' = Some entry \<and>
    deeply_merged (case find (has_id (Some (JStr i))) as of None \<Rightarrow> JObj [] | Some old \<Rightarrow> old) (JObj cfg) entry \<and>
    length (filter (has_id (Some (JStr i))) as') = max 1 (length (filter (has_id (Some (JStr i))) as)) \<and>
    filter (\<lambda>a. \<not> has_id (Some (JStr i)) a) as' = filter (\<lambda>a. \<not> has_id (Some (JStr i)) a) as \<and>
    (\<forall>k. k \<noteq> ''list'' \<longrightarrow> json_at [''agents'', k] file = json_at [''agents'', k] parsed) \<and>
    (\<forall>k. k \<noteq> ''agents'' \<longrightarrow> jget k file = jget k parsed) \<and>
    writeAgentToConfig cfg (fs\<lparr>oc_config := Inr file\<rparr>) = Inr file"
proof -
  from assms(3,5) have p: "oc_home fs \<noteq> []" "oc_config fs = Inr parsed" and f: "file = written cfg parsed"
    unfolding writeAgentToConfig_Inr by auto
  let ?fs = "fs\<lparr>oc_config := Inr file\<rparr>" and ?old = "find (has_id (Some (JStr i))) as"
  from p assms(4) have as: "as = entries_of parsed" by (simp add: readOpenClawAgents_entries)
  have r: "readOpenClawAgents ?fs = Inr (merge_entry cfg as)"
    using p readOpenClawAgents_entries [of ?fs "file"] by (simp add: f entries_of_written as)
  have "jget k file = jget k parsed" if "k \<noteq> ''agents''" for k
    using that by (simp add: f written_def map_of_update Let_def jget_props)
  moreover have "json_at [''agents'', k] file = json_at [''agents'', k] parsed" if "k \<noteq> ''list''" for k
    using that by (simp add: f written_def map_of_update Let_def jget_props truthy_props_def split: option.split)
  moreover have "writeAgentToConfig cfg ?fs = Inr file"
    unfolding writeAgentToConfig_Inr using p f written_twice [OF assms(1,2)] by simp
  moreover have "deeply_merged (case ?old of None \<Rightarrow> JObj [] | Some old \<Rightarrow> old) (JObj cfg)
      (JObj (deepMerge (case ?old of None \<Rightarrow> [] | Some a \<Rightarrow> obj_props a) cfg))"
  proof (cases ?old)
    case None
    then show ?thesis using deepMerge_deeply_merged [OF assms(1), of "[]"] by simp
  next
    case (Some a)
    then have "has_id (Some (JStr i)) a" by (auto simp: find_Some_iff)
    then obtain t where "a = JObj t" by (cases a) (auto simp: has_id_def)
    then show ?thesis using Some deepMerge_deeply_merged [OF assms(1), of t] by simp
  qed
  ultimately show ?thesis
    using r merge_entry_find [OF assms(1,2)] merge_entry_others [OF assms(1,2)] merge_entry_count [OF assms(1,2)] by auto
qed

definition demo_oc :: oc_files where
  "demo_oc = \<lparr>oc_cwd = ''/srv'', oc_home = ''/oc'', oc_config = Inr (JObj [(''agents'', JObj [(''list'', JArr
     [JObj [(''id'', JStr ''main''), (''model'', JObj [(''primary'', JStr ''opus'')]), (''workspace'', JStr ''ws'')]])])]),
     oc_file = [''/oc/ws/soul.md'' \<mapsto> ''be kind''], oc_listing = Map.empty, oc_writable = (\<lambda>_. True)\<rparr>"

definition demo_write :: "(string \<times> json) list" where
  "demo_write = [(''id'', JStr ''main''), (''model'', JObj [(''fallbacks'', JArr [])])]"

text \<open>The new fallbacks are added to the model of the entry, whose own primary model stays.\<close>

theorem write_back_merges_witness:
  "\<exists>file as' entry. writeAgentToConfig demo_write demo_oc = Inr file \<and>
     readOpenClawAgents (demo_oc\<lparr>oc_config := Inr file\<rparr>) = Inr as' \<and>
     find (has_id (Some (JStr ''main''))) as' = Some entry \<and>
     json_at [''model'', ''fallbacks''] entry = Some (JArr []) \<and> json_at [''model'', ''primary''] entry = Some (JStr ''opus'')"
proof -
  let ?old = "JObj [(''id'', JStr ''main''), (''model'', JObj [(''primary'', JStr ''opus'')]), (''workspace'', JStr ''ws'')]"
  have 1: "json_wf (JObj demo_write)" and 2: "map_of demo_write ''id'' = Some (JStr ''main'')"
    by (simp_all add: demo_write_def)
  obtain parsed where 3: "oc_config demo_oc = Inr parsed" by (simp add: demo_oc_def)
  have 4: "readOpenClawAgents demo_oc = Inr [?old]"
    by (simp add: readOpenClawAgents_def demo_oc_def)
  obtain out where 5: "writeAgentToConfig demo_write demo_oc = Inr out"
    by (simp add: writeAgentToConfig_def demo_oc_def Let_def)
  have old: "find (has_id (Some (JStr ''main''))) [?old] = Some ?old" by (simp add: has_id_def)
  from write_back_merges [OF 1 2 3 4 5, unfolded old] obtain as' entry where
    e: "readOpenClawAgents (demo_oc\<lparr>oc_config := Inr out\<rparr>) = Inr as'" "find (has_id (Some (JStr ''main''))) as' = Some entry"
      "deeply_merged ?old (JObj demo_write) entry" by auto
  have "json_at [''model'', ''fallbacks''] (JObj demo_write) = Some (JArr [])"
    "json_at [''model'', ''primary''] (JObj demo_write) = None" "json_at [''model'', ''primary''] ?old = Some (JStr ''opus'')"
    by (simp_all add: demo_write_def)
  moreover have "\<not> leaf x" if "json_at (take n [''model'', ''primary'']) (JObj demo_write) = Some x" for n x
    using that by (cases n; cases "n - 1") (auto simp: demo_write_def)
  moreover have new: "json_at p (JObj demo_write) = Some v \<Longrightarrow> leaf v \<Longrightarrow> json_at p entry = Some v" for p v
    using e(3) unfolding deeply_merged_def by blast
  have kept: "json_at p ?old = Some v \<Longrightarrow> json_at p (JObj demo_write) = None \<Longrightarrow>
      (\<And>n x. json_at (take n p) (JObj demo_write) = Some x \<Longrightarrow> \<not> leaf x) \<Longrightarrow> json_at p entry = Some v" for p v
    using e(3) unfolding deeply_merged_def by blast
  ultimately have "json_at [''model'', ''fallbacks''] entry = Some (JArr [])" "json_at [''model'', ''primary''] entry = Some (JStr ''opus'')"
    using new [of "[''model'', ''fallbacks'']"] kept [of "[''model'', ''primary'']"] by (simp_all del: json_at.simps)
  with e 5 show ?thesis by blast
qed

section \<open>A synchronisation settles\<close>

lemma defined_props_some: "map_of ob k = Some (Some v) \<Longrightarrow> defined_props ob \<noteq> []"
  by (induction ob) (auto simp: defined_props_def jopt_def split: if_splits)

lemma ma_config_props: "\<exists>p ps. ma_config (mapAgentToMC fs a) = JObj (p # ps)"
proof -
  have "map_of (enrich_props fs ob) ''isDefault'' = map_of ob ''isDefault''" for ob
    by (simp add: enrich_props_def map_of_spread_other Let_def split: option.split json.split)
  then have "defined_props (enrich_props fs (ob @ [(''isDefault'', Some d)])) \<noteq> []"
    if "map_of ob ''isDefault'' = None" for ob d
    using that by (intro defined_props_some [where k = "''isDefault''" and v = d]) (simp add: map_add_def)
  from this [of "[(''openclawId'', jget ''id'' a), (''model'', jget ''model'' a), (''identity'', jget ''identity'' a),
      (''sandbox'', jget ''sandbox'' a), (''tools'', jget ''tools'' a), (''subagents'', jget ''subagents'' a),
      (''memorySearch'', jget ''memorySearch'' a), (''workspace'', jget ''workspace'' a), (''agentDir'', jget ''agentDir'' a)]"]
  show ?thesis by (simp add: mapAgentToMC_def neq_Nil_conv)
qed

lemma filter_map_if: "(\<And>r. q r \<Longrightarrow> \<not> p r \<and> \<not> p (f r)) \<Longrightarrow> filter p (map (\<lambda>r. if q r then f r else r) xs) = filter p xs"
  by (induction xs) auto

lemma stringify_props: "stringify (JObj (p # ps)) \<noteq> ''{}''"
  by (cases p; cases ps) (auto simp: quote_str_def)

lemma preview_unchanged: "\<not> config_changed (mapAgentToMC fs a) g \<Longrightarrow> \<not> preview_changed (mapAgentToMC fs a) g"
  using ma_config_props [of fs a] stringify_props
  by (auto simp: config_changed_def preview_changed_def config_text_def simp del: stringify.simps split: option.splits)

text \<open>Agents of the file that can be synchronised, with the name under which each is stored.\<close>

definition syncable :: "oc_files \<Rightarrow> json list \<Rightarrow> string list \<Rightarrow> bool" where
  "syncable fs as ns \<longleftrightarrow> JNull \<notin> set as \<and> map (\<lambda>a. ma_name (mapAgentToMC fs a)) as = map Some ns \<and> distinct ns"

definition stored :: "string \<Rightarrow> agent_row tbl \<Rightarrow> agent_row option" where
  "stored n t = tbl_first (\<lambda>g. g_name g = n) t"

definition verdict :: "mapped_agent \<Rightarrow> agent_row option \<Rightarrow> sync_action" where
  "verdict m old = (case old of
     None \<Rightarrow> Created
   | Some g \<Rightarrow> if config_changed m g \<or> soul_changed m g then Updated else Unchanged)"

definition settled :: "mapped_agent \<Rightarrow> agent_row option \<Rightarrow> bool" where
  "settled m old \<longleftrightarrow> (\<exists>g. old = Some g \<and> \<not> config_changed m g \<and> \<not> soul_changed m g)"

lemma stored_update:
  assumes "\<And>g. g_name (f g) = g_name g"
  shows "stored n (tbl_update (\<lambda>g. g_name g = m) f t) = (if n = m then map_option f (stored n t) else stored n t)"
proof -
  have "stored n (tbl_update (\<lambda>g. g_name g = m) f t) = map_option (\<lambda>g. if g_name g = m then f g else g) (stored n t)"
    unfolding stored_def tbl_first_def rows_tbl_update by (rule find_map_id) (simp add: assms)
  also have "\<dots> = (if n = m then map_option f (stored n t) else stored n t)"
    by (cases "stored n t") (auto simp: stored_def dest: tbl_first_in_rows)
  finally show ?thesis .
qed

lemma stored_insert:
  "stored n (insert_agent_row w m role soul cfg t) = (case stored n t of Some g \<Rightarrow> Some g | None \<Rightarrow>
     if n = m then Some (last (rows (insert_agent_row w m role soul cfg t))) else None)"
  by (simp add: stored_def tbl_first_def insert_agent_row_def rows_tbl_insert find_append split: option.split)

lemma sync_agent_step:
  assumes "agent \<noteq> JNull" and "ma_name (mapAgentToMC fs agent) = Some name"
  shows "\<exists>t'. sync_agent w fs agent t = Inr (\<lparr>se_id = jget ''id'' agent, se_name = name,
        se_action = verdict (mapAgentToMC fs agent) (stored name t)\<rparr>, t') \<and>
      (\<forall>n. n \<noteq> name \<longrightarrow> stored n t' = stored n t) \<and>
      filter (\<lambda>g. g_name g \<noteq> name) (rows t') = filter (\<lambda>g. g_name g \<noteq> name) (rows t) \<and>
      (ma_soul (mapAgentToMC fs agent) \<noteq> Some [] \<longrightarrow> settled (mapAgentToMC fs agent) (stored name t')) \<and>
      (verdict (mapAgentToMC fs agent) (stored name t) = Unchanged \<longrightarrow> t' = t)"
proof (cases "stored name t")
  case None
  let ?m = "mapAgentToMC fs agent"
  let ?t = "insert_agent_row w name (ma_role ?m) (ma_soul ?m) (ma_config ?m) t"
  have "stored name ?t = Some (last (rows ?t))" using None by (simp add: stored_insert)
  moreover have "g_role (last (rows ?t)) = ma_role ?m" "g_config (last (rows ?t)) = Some (ma_config ?m)"
    "g_soul_content (last (rows ?t)) = ma_soul ?m"
    by (simp_all add: insert_agent_row_def rows_tbl_insert)
  ultimately have "ma_soul ?m \<noteq> Some [] \<longrightarrow> settled ?m (stored name ?t)"
    by (auto simp: settled_def config_changed_def config_text_def soul_changed_def or_null_def split: option.splits)
  moreover have "\<forall>n. n \<noteq> name \<longrightarrow> stored n ?t = stored n t" by (auto simp: stored_insert split: option.split)
  moreover have "filter (\<lambda>g. g_name g \<noteq> name) (rows ?t) = filter (\<lambda>g. g_name g \<noteq> name) (rows t)"
    by (simp add: insert_agent_row_def rows_tbl_insert)
  ultimately show ?thesis
    using assms None by (simp add: sync_agent_def verdict_def stored_def Let_def)
next
  case (Some g)
  let ?m = "mapAgentToMC fs agent"
  let ?w = "sync_write w ?m (soul_to_write ?m g)"
  show ?thesis
  proof (cases "config_changed ?m g \<or> soul_changed ?m g")
    case True
    have w: "g_name (?w x) = g_name x" for x by (simp add: sync_write_def)
    let ?t = "tbl_update (\<lambda>x. g_name x = name) ?w t"
    have "stored name ?t = Some (?w g)" using Some by (simp add: stored_update w)
    then have "ma_soul ?m \<noteq> Some [] \<longrightarrow> settled ?m (stored name ?t)"
      by (auto simp: settled_def config_changed_def config_text_def soul_changed_def or_null_def sync_write_def
          soul_to_write_def split: option.splits)
    moreover have "filter (\<lambda>g. g_name g \<noteq> name) (rows ?t) = filter (\<lambda>g. g_name g \<noteq> name) (rows t)"
      unfolding rows_tbl_update by (rule filter_map_if) (simp add: w)
    ultimately show ?thesis
      using assms Some True by (simp add: sync_agent_def verdict_def stored_def [symmetric] stored_update w Let_def)
  next
    case False
    then show ?thesis
      using assms Some by (simp add: sync_agent_def verdict_def stored_def settled_def Let_def)
  qed
qed

lemma syncable_Cons: "syncable fs (a # as) ns \<Longrightarrow>
    \<exists>n ns'. ns = n # ns' \<and> a \<noteq> JNull \<and> ma_name (mapAgentToMC fs a) = Some n \<and> n \<notin> set ns' \<and> syncable fs as ns'"
  by (cases ns) (auto simp: syncable_def)

definition sync_entries :: "oc_files \<Rightarrow> json list \<Rightarrow> string list \<Rightarrow> agent_row tbl \<Rightarrow> sync_entry list" where
  "sync_entries fs as ns t = map (\<lambda>(a, n). \<lparr>se_id = jget ''id'' a, se_name = n,
     se_action = verdict (mapAgentToMC fs a) (stored n t)\<rparr>) (zip as ns)"

lemma sync_loop_ok:
  assumes "syncable fs as ns"
  shows "\<exists>t'. sync_loop w fs as t = Inr (sync_entries fs as ns t, t') \<and>
    (\<forall>n. n \<notin> set ns \<longrightarrow> stored n t' = stored n t) \<and>
    filter (\<lambda>g. g_name g \<notin> set ns) (rows t') = filter (\<lambda>g. g_name g \<notin> set ns) (rows t) \<and>
    ((\<forall>a \<in> set as. ma_soul (mapAgentToMC fs a) \<noteq> Some []) \<longrightarrow>
       (\<forall>(a, n) \<in> set (zip as ns). settled (mapAgentToMC fs a) (stored n t'))) \<and>
    ((\<forall>e \<in> set (sync_entries fs as ns t). se_action e = Unchanged) \<longrightarrow> t' = t)"
  using assms
proof (induction as arbitrary: ns t)
  case Nil
  then show ?case by (auto simp: syncable_def sync_entries_def)
next
  case (Cons a as)
  then obtain n ns' where n: "ns = n # ns'" "a \<noteq> JNull" "ma_name (mapAgentToMC fs a) = Some n" "n \<notin> set ns'"
    and rest: "syncable fs as ns'" using syncable_Cons by blast
  let ?m = "mapAgentToMC fs a"
  obtain t1 where t1: "sync_agent w fs a t = Inr (\<lparr>se_id = jget ''id'' a, se_name = n, se_action = verdict ?m (stored n t)\<rparr>, t1)"
    and other: "\<forall>k. k \<noteq> n \<longrightarrow> stored k t1 = stored k t"
    and keep: "filter (\<lambda>g. g_name g \<noteq> n) (rows t1) = filter (\<lambda>g. g_name g \<noteq> n) (rows t)"
    and set1: "ma_soul ?m \<noteq> Some [] \<longrightarrow> settled ?m (stored n t1)"
    and same: "verdict ?m (stored n t) = Unchanged \<longrightarrow> t1 = t"
    using sync_agent_step [OF n(2,3)] by blast
  obtain t2 where t2: "sync_loop w fs as t1 = Inr (sync_entries fs as ns' t1, t2)"
    and other2: "\<forall>k. k \<notin> set ns' \<longrightarrow> stored k t2 = stored k t1"
    and keep2: "filter (\<lambda>g. g_name g \<notin> set ns') (rows t2) = filter (\<lambda>g. g_name g \<notin> set ns') (rows t1)"
    and set2: "(\<forall>a \<in> set as. ma_soul (mapAgentToMC fs a) \<noteq> Some []) \<longrightarrow>
       (\<forall>(a, n) \<in> set (zip as ns'). settled (mapAgentToMC fs a) (stored n t2))"
    and same2: "(\<forall>e \<in> set (sync_entries fs as ns' t1). se_action e = Unchanged) \<longrightarrow> t2 = t1"
    using Cons.IH [OF rest] by blast
  have entries: "sync_entries fs as ns' t1 = sync_entries fs as ns' t"
    unfolding sync_entries_def using other n(4) by (auto dest!: set_zip_rightD)
  have "filter (\<lambda>g. g_name g \<notin> set (n # ns')) xs = filter (\<lambda>g. g_name g \<noteq> n) (filter (\<lambda>g. g_name g \<notin> set ns') xs)"
    "filter (\<lambda>g. g_name g \<notin> set (n # ns')) xs = filter (\<lambda>g. g_name g \<notin> set ns') (filter (\<lambda>g. g_name g \<noteq> n) xs)" for xs :: "agent_row list"
    by (auto intro: filter_cong)
  then have "filter (\<lambda>g. g_name g \<notin> set (n # ns')) (rows t2) = filter (\<lambda>g. g_name g \<notin> set (n # ns')) (rows t)"
    using keep keep2 by metis
  moreover have "stored n t2 = stored n t1" using other2 n(4) by blast
  ultimately show ?case
    using t1 t2 other other2 set1 set2 same same2 entries by (simp add: n(1) sync_entries_def)
qed

lemma sync_loop_settled:
  assumes "syncable fs as ns" and "\<forall>(a, n) \<in> set (zip as ns). settled (mapAgentToMC fs a) (stored n t)"
  shows "sync_loop w fs as t = Inr (sync_entries fs as ns t, t) \<and> (\<forall>e \<in> set (sync_entries fs as ns t). se_action e = Unchanged)"
proof -
  have "\<forall>e \<in> set (sync_entries fs as ns t). se_action e = Unchanged"
    using assms(2) by (auto simp: sync_entries_def settled_def verdict_def)
  with sync_loop_ok [OF assms(1), of w t] show ?thesis by auto
qed

lemma count_none: "\<forall>e \<in> set es. se_action e = Unchanged \<Longrightarrow> a \<noteq> Unchanged \<Longrightarrow> count_action a es = 0"
  by (simp add: count_action_def filter_empty_conv)

lemma case_option_False_eq: "(case x of None \<Rightarrow> False | Some y \<Rightarrow> P y) \<longleftrightarrow> (\<exists>y. x = Some y \<and> P y)"
  by (simp split: option.split)

lemma names_of_syncable: "syncable fs as ns \<Longrightarrow>
    List.map_filter ma_name (filter p (map (mapAgentToMC fs) as)) = map snd (filter (\<lambda>(a, n). p (mapAgentToMC fs a)) (zip as ns))"
proof (induction as arbitrary: ns)
  case (Cons a as)
  then obtain n ns' where "ns = n # ns'" "ma_name (mapAgentToMC fs a) = Some n" "syncable fs as ns'"
    using syncable_Cons by blast
  with Cons.IH [of ns'] show ?case by (simp add: List.map_filter_def)
qed (simp add: List.map_filter_def)

lemma preview_syncable:
  assumes "readOpenClawAgents fs = Inr as" and "syncable fs as ns"
  shows "\<exists>d. previewSyncDiff fs s = Inr d \<and>
    sd_newAgents d = map snd (filter (\<lambda>(a, n). stored n (agents (db s)) = None) (zip as ns)) \<and>
    sd_updatedAgents d = map snd (filter (\<lambda>(a, n). \<exists>g. stored n (agents (db s)) = Some g \<and> preview_changed (mapAgentToMC fs a) g) (zip as ns))"
proof -
  have name: "tbl_first (\<lambda>g. Some (g_name g) = ma_name (mapAgentToMC fs a)) t = stored n t" if "(a, n) \<in> set (zip as ns)" for a n t
  proof -
    from that obtain i where "i < length as" "i < length ns" "a = as ! i" "n = ns ! i" by (auto simp: set_zip)
    with assms(2) have "ma_name (mapAgentToMC fs a) = Some n"
      unfolding syncable_def by (metis length_map nth_map)
    then show ?thesis by (simp add: stored_def)
  qed
  have sel: "map snd (filter (\<lambda>(a, n). P a (tbl_first (\<lambda>g. Some (g_name g) = ma_name (mapAgentToMC fs a)) t)) (zip as ns)) =
      map snd (filter (\<lambda>(a, n). P a (stored n t)) (zip as ns))" for P t
    by (intro arg_cong [of _ _ "map snd"] filter_cong) (auto simp: name)
  have "JNull \<notin> set as" using assms(2) by (simp add: syncable_def)
  with assms(1) show ?thesis
    using sel [of "\<lambda>a g. g = None" "agents (db s)"]
      sel [of "\<lambda>a g. case g of None \<Rightarrow> False | Some g \<Rightarrow> preview_changed (mapAgentToMC fs a) g" "agents (db s)"]
    by (simp add: previewSyncDiff_def names_of_syncable [OF assms(2)] case_option_False_eq Let_def)
qed

definition synced_names :: "sync_action \<Rightarrow> sync_result \<Rightarrow> string list" where
  "synced_names a r = map se_name (filter (\<lambda>e. se_action e = a) (sr_agents r))"

lemma synced_entries:
  "map se_name (filter (\<lambda>e. se_action e = x) (sync_entries fs as ns t)) =
     map snd (filter (\<lambda>(a, n). verdict (mapAgentToMC fs a) (stored n t) = x) (zip as ns))"
proof -
  have "map se_name (filter (\<lambda>e. se_action e = x) (map (\<lambda>(a, n). \<lparr>se_id = jget ''id'' a, se_name = n, se_action = v a n\<rparr>) ps)) =
      map snd (filter (\<lambda>(a, n). v a n = x) ps)" for ps v
    by (induction ps) auto
  then show ?thesis by (simp add: sync_entries_def)
qed

lemma verdict_Created: "verdict m old = Created \<longleftrightarrow> old = None"
  by (auto simp: verdict_def split: option.split)

lemma sync_frame:
  assumes "readOpenClawAgents fs = Inr as" and "as \<noteq> []" and "sync_loop w fs as (agents (db s)) = Inr (es, t)"
  shows "\<exists>r. fst (syncAgentsFromConfig w fs actor s) = Inr r \<and> sr_error r = None \<and> sr_agents r = es \<and>
      sr_created r = count_action Created es \<and> sr_updated r = count_action Updated es"
    and "agents (db (snd (syncAgentsFromConfig w fs actor s))) = t"
    and "count_action Created es = 0 \<Longrightarrow> count_action Updated es = 0 \<Longrightarrow> t = agents (db s) \<Longrightarrow>
      snd (syncAgentsFromConfig w fs actor s) = s"
  using assms by (simp_all add: syncAgentsFromConfig_def log_sync_def frame_simps Let_def)

text \<open>After a synchronisation with settled rows: the next one does nothing and there is nothing to announce.\<close>

lemma settled_quiet:
  assumes "readOpenClawAgents fs = Inr as" and "as \<noteq> []" and "syncable fs as ns"
    and st: "\<forall>(a, n) \<in> set (zip as ns). settled (mapAgentToMC fs a) (stored n (agents (db s)))"
  shows "snd (syncAgentsFromConfig w fs actor s) = s"
    and "\<exists>d. previewSyncDiff fs s = Inr d \<and> sd_newAgents d = [] \<and> sd_updatedAgents d = []"
proof -
  note loop = sync_loop_settled [OF assms(3) st]
  show "snd (syncAgentsFromConfig w fs actor s) = s"
    using sync_frame(3) [OF assms(1,2) conjunct1 [OF loop]] loop count_none by blast
  show "\<exists>d. previewSyncDiff fs s = Inr d \<and> sd_newAgents d = [] \<and> sd_updatedAgents d = []"
    using preview_syncable [OF assms(1,3), of s] st
    by (auto simp: settled_def filter_empty_conv dest!: preview_unchanged) (fastforce dest: preview_unchanged)+
qed

lemma verdict_Updated:
  "preview_changed (mapAgentToMC fs a) g \<Longrightarrow> verdict (mapAgentToMC fs a) (Some g) = Updated"
  "verdict (mapAgentToMC fs a) old = Updated \<Longrightarrow>
     \<exists>g. old = Some g \<and> (preview_changed (mapAgentToMC fs a) g \<or> soul_changed (mapAgentToMC fs a) g)"
proof -
  have "preview_changed m g \<or> \<not> config_changed m g" for m g
    by (auto simp: preview_changed_def config_changed_def config_text_def)
  then show "preview_changed (mapAgentToMC fs a) g \<Longrightarrow> verdict (mapAgentToMC fs a) (Some g) = Updated"
    "verdict (mapAgentToMC fs a) old = Updated \<Longrightarrow>
       \<exists>g. old = Some g \<and> (preview_changed (mapAgentToMC fs a) g \<or> soul_changed (mapAgentToMC fs a) g)"
    using preview_unchanged [of fs a g] by (auto simp: verdict_def split: option.splits if_splits)
qed

lemma zip_syncable: "syncable fs as ns \<Longrightarrow> (a, n) \<in> set (zip as ns) \<Longrightarrow> a \<in> set as \<and> ma_name (mapAgentToMC fs a) = Some n"
  unfolding syncable_def set_zip by (auto simp: list_eq_iff_nth_eq)

text \<open>
  C21. Synchronising the agents with \<open>openclaw.json\<close>, when the agents of the file have different names:
  the agents that the preview announced as new are exactly those created; those it announced as
  changed are updated, and the others that are updated have a new soul file; agents that are not in
  the file are left alone. If no soul file is empty, a second synchronisation changes nothing, and
  the preview then announces nothing.
\<close>

theorem sync_follows_preview:
  assumes "readOpenClawAgents fs = Inr as" and "as \<noteq> []" and "syncable fs as ns"
  shows "\<exists>d r s'. previewSyncDiff fs s = Inr d \<and> syncAgentsFromConfig w fs actor s = (Inr r, s') \<and>
    synced_names Created r = sd_newAgents d \<and> set (sd_updatedAgents d) \<subseteq> set (synced_names Updated r) \<and>
    (\<forall>n \<in> set (synced_names Updated r) - set (sd_updatedAgents d).
       \<exists>a \<in> set as. \<exists>g. ma_name (mapAgentToMC fs a) = Some n \<and> stored n (agents (db s)) = Some g \<and> soul_changed (mapAgentToMC fs a) g) \<and>
    filter (\<lambda>g. g_name g \<notin> set ns) (rows (agents (db s'))) = filter (\<lambda>g. g_name g \<notin> set ns) (rows (agents (db s))) \<and>
    ((\<forall>a \<in> set as. ma_soul (mapAgentToMC fs a) \<noteq> Some []) \<longrightarrow>
       (\<forall>w' actor'. snd (syncAgentsFromConfig w' fs actor' s') = s') \<and>
       (\<exists>d'. previewSyncDiff fs s' = Inr d' \<and> sd_newAgents d' = [] \<and> sd_updatedAgents d' = []))"
proof -
  let ?t = "agents (db s)" and ?s = "snd (syncAgentsFromConfig w fs actor s)"
  obtain t' where loop: "sync_loop w fs as ?t = Inr (sync_entries fs as ns ?t, t')"
    and keep: "filter (\<lambda>g. g_name g \<notin> set ns) (rows t') = filter (\<lambda>g. g_name g \<notin> set ns) (rows ?t)"
    and settles: "(\<forall>a \<in> set as. ma_soul (mapAgentToMC fs a) \<noteq> Some []) \<longrightarrow>
       (\<forall>(a, n) \<in> set (zip as ns). settled (mapAgentToMC fs a) (stored n t'))"
    using sync_loop_ok [OF assms(3)] by blast
  have t': "agents (db ?s) = t'" by (rule sync_frame(2) [OF assms(1,2) loop])
  obtain r where r: "syncAgentsFromConfig w fs actor s = (Inr r, ?s)" "sr_agents r = sync_entries fs as ns ?t"
    using sync_frame(1) [OF assms(1,2) loop] by (metis prod.collapse)
  obtain d where d: "previewSyncDiff fs s = Inr d"
    "sd_newAgents d = map snd (filter (\<lambda>(a, n). stored n ?t = None) (zip as ns))"
    "sd_updatedAgents d = map snd (filter (\<lambda>(a, n). \<exists>g. stored n ?t = Some g \<and> preview_changed (mapAgentToMC fs a) g) (zip as ns))"
    using preview_syncable [OF assms(1,3)] by blast
  have names: "synced_names x r = map snd (filter (\<lambda>(a, n). verdict (mapAgentToMC fs a) (stored n ?t) = x) (zip as ns))" for x
    unfolding synced_names_def r(2) by (rule synced_entries)
  have new: "synced_names Created r = sd_newAgents d" unfolding names d(2) by (simp add: verdict_Created)
  have upd: "set (sd_updatedAgents d) \<subseteq> set (synced_names Updated r)"
    unfolding names d(3) using verdict_Updated(1) by force
  have souls: "\<exists>a \<in> set as. \<exists>g. ma_name (mapAgentToMC fs a) = Some n \<and> stored n ?t = Some g \<and> soul_changed (mapAgentToMC fs a) g"
    if n: "n \<in> set (synced_names Updated r) - set (sd_updatedAgents d)" for n
  proof -
    from n obtain a where a: "(a, n) \<in> set (zip as ns)" "verdict (mapAgentToMC fs a) (stored n ?t) = Updated"
      unfolding names by auto
    with verdict_Updated(2) [OF a(2)] n zip_syncable [OF assms(3) a(1)] show ?thesis unfolding d(3) by force
  qed
  have quiet: "(\<forall>w' actor'. snd (syncAgentsFromConfig w' fs actor' ?s) = ?s) \<and>
      (\<exists>d'. previewSyncDiff fs ?s = Inr d' \<and> sd_newAgents d' = [] \<and> sd_updatedAgents d' = [])"
    if "\<forall>a \<in> set as. ma_soul (mapAgentToMC fs a) \<noteq> Some []"
    using settled_quiet [OF assms, of ?s] settles that t' by simp
  from d(1) r(1) new upd souls keep t' quiet show ?thesis
    by (intro exI [of _ d] exI [of _ r] exI [of _ ?s]) auto
qed

theorem sync_follows_preview_witness:
  "\<exists>r s'. syncAgentsFromConfig demo_world demo_oc ''admin'' init_server = (Inr r, s') \<and>
     synced_names Created r = [''main''] \<and> snd (syncAgentsFromConfig demo_world demo_oc ''admin'' s') = s'"
proof -
  let ?a = "JObj [(''id'', JStr ''main''), (''model'', JObj [(''primary'', JStr ''opus'')]), (''workspace'', JStr ''ws'')]"
  have 1: "readOpenClawAgents demo_oc = Inr [?a]"
    by (simp add: readOpenClawAgents_def demo_oc_def)
  have 2: "syncable demo_oc [?a] [''main'']"
    by (simp add: syncable_def mapAgentToMC_def agent_identity_str_def str_field_def or_null_def)
  have "readWorkspaceFile demo_oc (Some ''ws'') ''soul.md'' = Some ''be kind''" by code_simp
  then have 3: "ma_soul (mapAgentToMC demo_oc ?a) \<noteq> Some []"
    by (simp add: mapAgentToMC_def str_field_def)
  have "\<exists>d. previewSyncDiff demo_oc init_server = Inr d \<and> sd_newAgents d = [''main'']"
  proof -
    have "rows (agents (db init_server)) = []" by (simp add: init_server_def empty_db_def tbl_empty_def)
    then have "stored n (agents (db init_server)) = None" for n by (simp add: stored_def tbl_first_def)
    with preview_syncable [OF 1 2, of init_server] show ?thesis by auto
  qed
  with sync_follows_preview [OF 1 _ 2, of init_server demo_world "''admin''"] 3 show ?thesis by auto
qed

end
