(* ===== verification/MC_AgentTemplates.thy ===== *)
theory MC_AgentTemplates
  imports MC_AgentSync
begin

text \<open>
  \<open>src/lib/agent-templates.ts\<close>: the agent archetypes and the configuration of a new agent that is
  built from one. A configuration is an object; the interfaces of the source are the checkers
  \<open>AgentModelConfig\<close> to \<open>OpenClawAgentConfig\<close>, which say which properties an object has and of which type.
\<close>

section \<open>Templates\<close>

record agent_template =
  at_type :: string
  at_label :: string
  at_description :: string
  at_emoji :: string
  at_modelTier :: string
  at_toolCount :: nat
  at_config :: "(string \<times> json) list"

definition utf8 :: "nat list \<Rightarrow> string" where
  "utf8 bytes = map char_of bytes"

definition strs :: "string list \<Rightarrow> json" where
  "strs xs = JArr (map JStr xs)"

definition TG_coding :: "string list" where
  "TG_coding = [''read'', ''write'', ''edit'', ''apply_patch'', ''exec'', ''bash'', ''process'']"

definition TG_browser :: "string list" where
  "TG_browser = [''browser'', ''web'']"

definition TG_memory :: "string list" where
  "TG_memory = [''memory_search'', ''memory_get'']"

definition TG_session :: "string list" where
  "TG_session = [''agents_list'', ''sessions_list'', ''sessions_history'', ''sessions_send'', ''sessions_spawn'', ''session_status'']"

definition TG_subagent :: "string list" where
  "TG_subagent = [''subagents'', ''lobster'', ''llm-task'']"

definition TG_thinking :: "string list" where
  "TG_thinking = [''thinking'', ''reactions'', ''skills'']"

definition COMMON_DENY :: "string list" where
  "COMMON_DENY = [''clawhub'', ''cron'', ''gateway'', ''nodes'']"

definition SONNET_FALLBACKS :: "string list" where
  "SONNET_FALLBACKS = [''openrouter/anthropic/claude-sonnet-4'', ''moonshot/kimi-k2-thinking'',
     ''openrouter/moonshotai/kimi-k2.5'', ''nvidia/moonshotai/kimi-k2-instruct'', ''openai/codex-mini-latest'',
     ''ollama/qwen2.5-coder:14b'']"

definition OPUS_FALLBACKS :: "string list" where
  "OPUS_FALLBACKS = [''anthropic/claude-sonnet-4-20250514'', ''moonshot/kimi-k2-thinking'',
     ''nvidia/moonshotai/kimi-k2-instruct'', ''openrouter/moonshotai/kimi-k2.5'', ''openai/codex-mini-latest'']"

definition HAIKU_FALLBACKS :: "string list" where
  "HAIKU_FALLBACKS = [''anthropic/claude-sonnet-4-20250514'', ''ollama/qwen2.5-coder:14b'', ''openai/codex-mini-latest'']"

definition template_orchestrator :: agent_template where
  "template_orchestrator = \<lparr>at_type = ''orchestrator'', at_label = ''Orchestrator'',
     at_description = ''Primary coordinator with full tool access. Routes tasks to specialist agents and manages workflows.'',
     at_emoji = utf8 [240, 159, 167, 173], at_modelTier = ''opus'', at_toolCount = 23, at_config =
    [(''model'', JObj [(''primary'', JStr ''anthropic/claude-opus-4-5''), (''fallbacks'', strs OPUS_FALLBACKS)]),
     (''identity'', JObj [(''name'', JStr ''''), (''theme'', JStr ''operator strategist''), (''emoji'', JStr (utf8 [240, 159, 167, 173]))]),
     (''subagents'', JObj [(''allowAgents'', JArr [])]),
     (''sandbox'', JObj [(''mode'', JStr ''non-main''), (''workspaceAccess'', JStr ''rw''), (''scope'', JStr ''agent'')]),
     (''tools'', JObj [(''allow'', strs (TG_coding @ TG_browser @ TG_memory @ TG_session @ TG_subagent @ TG_thinking)),
       (''deny'', strs COMMON_DENY)]),
     (''memorySearch'', JObj [(''sources'', strs [''memory'', ''sessions'']), (''experimental'', JObj [(''sessionMemory'', JBool True)])])]\<rparr>"

definition template_developer :: agent_template where
  "template_developer = \<lparr>at_type = ''developer'', at_label = ''Developer'',
     at_description = ''Full-stack builder with Docker bridge networking, exec/write access, and subagent spawning.'',
     at_emoji = utf8 [240, 159, 155, 160, 239, 184, 143], at_modelTier = ''sonnet'', at_toolCount = 21, at_config =
    [(''model'', JObj [(''primary'', JStr ''anthropic/claude-sonnet-4-20250514''), (''fallbacks'', strs SONNET_FALLBACKS)]),
     (''identity'', JObj [(''name'', JStr ''''), (''theme'', JStr ''builder engineer''), (''emoji'', JStr (utf8 [240, 159, 155, 160, 239, 184, 143]))]),
     (''subagents'', JObj [(''allowAgents'', JArr []), (''model'', JStr ''openai/codex-mini-latest'')]),
     (''sandbox'', JObj [(''mode'', JStr ''all''), (''workspaceAccess'', JStr ''rw''), (''scope'', JStr ''agent''), (''docker'', JObj [(''network'', JStr ''bridge'')])]),
     (''tools'', JObj [(''allow'', strs (TG_coding @ TG_browser @ TG_memory @ 
         [''agents_list'', ''sessions_spawn'', ''sessions_history'', ''session_status''] @ TG_subagent @ TG_thinking)),
       (''deny'', strs (COMMON_DENY @ [''sessions_send'']))]),
     (''memorySearch'', JObj [(''sources'', strs [''memory'', ''sessions'']), (''experimental'', JObj [(''sessionMemory'', JBool True)])])]\<rparr>"

definition template_specialist_dev :: agent_template where
  "template_specialist_dev = \<lparr>at_type = ''specialist-dev'', at_label = ''Specialist Dev'',
     at_description = ''Focused developer for specific domains (frontend, backend, blockchain). Docker bridge + write access.'',
     at_emoji = utf8 [226, 154, 153, 239, 184, 143], at_modelTier = ''sonnet'', at_toolCount = 15, at_config =
    [(''model'', JObj [(''primary'', JStr ''anthropic/claude-sonnet-4-20250514''), (''fallbacks'', strs SONNET_FALLBACKS)]),
     (''identity'', JObj [(''name'', JStr ''''), (''theme'', JStr ''specialist developer''), (''emoji'', JStr (utf8 [226, 154, 153, 239, 184, 143]))]),
     (''subagents'', JObj [(''model'', JStr ''openai/codex-mini-latest'')]),
     (''sandbox'', JObj [(''mode'', JStr ''all''), (''workspaceAccess'', JStr ''rw''), (''scope'', JStr ''agent''), (''docker'', JObj [(''network'', JStr ''bridge'')])]),
     (''tools'', JObj [(''allow'', strs (TG_coding @ TG_memory @ [''agents_list'', ''sessions_spawn'', ''session_status'', ''subagents'', ''llm-task'', ''thinking'', ''reactions'', ''skills''])),
       (''deny'', strs (COMMON_DENY @ [''sessions_send'', ''browser'', ''web'', ''lobster'']))]),
     (''memorySearch'', JObj [(''sources'', strs [''memory'', ''sessions'']), (''experimental'', JObj [(''sessionMemory'', JBool True)])])]\<rparr>"

definition template_reviewer :: agent_template where
  "template_reviewer = \<lparr>at_type = ''reviewer'', at_label = ''Reviewer / QA'',
     at_description = ''Read-only access for code review, quality gates, and auditing. Lightweight Haiku model.'',
     at_emoji = utf8 [240, 159, 148, 172], at_modelTier = ''haiku'', at_toolCount = 7, at_config =
    [(''model'', JObj [(''primary'', JStr ''anthropic/claude-haiku-4-5''), (''fallbacks'', strs HAIKU_FALLBACKS)]),
     (''identity'', JObj [(''name'', JStr ''''), (''theme'', JStr ''quality reviewer''), (''emoji'', JStr (utf8 [240, 159, 148, 172]))]),
     (''sandbox'', JObj [(''mode'', JStr ''all''), (''workspaceAccess'', JStr ''ro''), (''scope'', JStr ''agent'')]),
     (''tools'', JObj [(''allow'', strs [''read'', ''memory_search'', ''memory_get'', ''agents_list'', ''thinking'', ''reactions'', ''skills'']),
       (''deny'', strs (COMMON_DENY @ [''write'', ''edit'', ''apply_patch'', ''exec'', ''bash'', ''process'', ''browser'', ''web'', ''sessions_send'', ''sessions_spawn'', ''lobster'']))]),
     (''memorySearch'', JObj [(''sources'', strs [''memory''])])]\<rparr>"

definition template_researcher :: agent_template where
  "template_researcher = \<lparr>at_type = ''researcher'', at_label = ''Researcher'',
     at_description = ''Browser and web access for research tasks. No workspace or code execution.'',
     at_emoji = utf8 [240, 159, 148, 141], at_modelTier = ''sonnet'', at_toolCount = 8, at_config =
    [(''model'', JObj [(''primary'', JStr ''anthropic/claude-sonnet-4-20250514''), (''fallbacks'', strs SONNET_FALLBACKS)]),
     (''identity'', JObj [(''name'', JStr ''''), (''theme'', JStr ''research analyst''), (''emoji'', JStr (utf8 [240, 159, 148, 141]))]),
     (''sandbox'', JObj [(''mode'', JStr ''all''), (''workspaceAccess'', JStr ''none''), (''scope'', JStr ''agent'')]),
     (''tools'', JObj [(''allow'', strs [''browser'', ''web'', ''memory_search'', ''memory_get'', ''agents_list'', ''thinking'', ''reactions'', ''skills'']),
       (''deny'', strs (COMMON_DENY @ [''read'', ''write'', ''edit'', ''apply_patch'', ''exec'', ''bash'', ''process'', ''sessions_send'', ''sessions_spawn'', ''lobster'']))]),
     (''memorySearch'', JObj [(''sources'', strs [''memory'', ''sessions''])])]\<rparr>"

definition template_content_creator :: agent_template where
  "template_content_creator = \<lparr>at_type = ''content-creator'', at_label = ''Content Creator'',
     at_description = ''Write and edit access for content generation. No code execution or browser.'',
     at_emoji = utf8 [226, 156, 143, 239, 184, 143], at_modelTier = ''haiku'', at_toolCount = 9, at_config =
    [(''model'', JObj [(''primary'', JStr ''anthropic/claude-haiku-4-5''), (''fallbacks'', strs HAIKU_FALLBACKS)]),
     (''identity'', JObj [(''name'', JStr ''''), (''theme'', JStr ''content creator''), (''emoji'', JStr (utf8 [226, 156, 143, 239, 184, 143]))]),
     (''sandbox'', JObj [(''mode'', JStr ''all''), (''workspaceAccess'', JStr ''none''), (''scope'', JStr ''agent'')]),
     (''tools'', JObj [(''allow'', strs [''write'', ''edit'', ''memory_search'', ''memory_get'', ''agents_list'', ''thinking'', ''reactions'', ''skills'', ''web'']),
       (''deny'', strs (COMMON_DENY @ [''read'', ''apply_patch'', ''exec'', ''bash'', ''process'', ''browser'', ''sessions_send'', ''sessions_spawn'', ''lobster'', ''subagents'', ''llm-task'']))]),
     (''memorySearch'', JObj [(''sources'', strs [''memory''])])]\<rparr>"

definition template_security_auditor :: agent_template where
  "template_security_auditor = \<lparr>at_type = ''security-auditor'', at_label = ''Security Auditor'',
     at_description = ''Read-only workspace with bash for security scanning. No write access to prevent tampering.'',
     at_emoji = utf8 [240, 159, 155, 161, 239, 184, 143], at_modelTier = ''sonnet'', at_toolCount = 10, at_config =
    [(''model'', JObj [(''primary'', JStr ''anthropic/claude-sonnet-4-20250514''), (''fallbacks'', strs SONNET_FALLBACKS)]),
     (''identity'', JObj [(''name'', JStr ''''), (''theme'', JStr ''security auditor''), (''emoji'', JStr (utf8 [240, 159, 155, 161, 239, 184, 143]))]),
     (''sandbox'', JObj [(''mode'', JStr ''all''), (''workspaceAccess'', JStr ''ro''), (''scope'', JStr ''agent'')]),
     (''tools'', JObj [(''allow'', strs [''read'', ''exec'', ''bash'', ''memory_search'', ''memory_get'', ''agents_list'', ''thinking'', ''reactions'', ''skills'', ''web'']),
       (''deny'', strs (COMMON_DENY @ [''write'', ''edit'', ''apply_patch'', ''process'', ''browser'', ''sessions_send'', ''sessions_spawn'', ''lobster'', ''subagents'', ''llm-task'']))]),
     (''memorySearch'', JObj [(''sources'', strs [''memory''])])]\<rparr>"

definition AGENT_TEMPLATES :: "agent_template list" where
  "AGENT_TEMPLATES = [template_orchestrator,
     template_developer,
     template_specialist_dev,
     template_reviewer,
     template_researcher,
     template_content_creator,
     template_security_auditor]"

definition getTemplate :: "string \<Rightarrow> agent_template option" where
  "getTemplate ty = find (\<lambda>t. at_type t = ty) AGENT_TEMPLATES"

section \<open>Building a configuration\<close>

text \<open>\<open>config.k.p = v\<close> inside an object; the template is cloned first, so nothing else sees the change.\<close>

definition set_in :: "string \<Rightarrow> ((string \<times> json) list \<Rightarrow> (string \<times> json) list) \<Rightarrow> (string \<times> json) list \<Rightarrow> (string \<times> json) list" where
  "set_in k f kvs = (case map_of kvs k of Some (JObj ps) \<Rightarrow> AList.update k (JObj (f ps)) kvs | _ \<Rightarrow> kvs)"

definition override :: "json \<Rightarrow> string \<Rightarrow> string \<Rightarrow> (json \<Rightarrow> string \<times> json) \<Rightarrow> (string \<times> json) list \<Rightarrow> (string \<times> json) list" where
  "override ov prop k f c = (case truthy_prop prop ov of
     None \<Rightarrow> c
   | Some v \<Rightarrow> set_in k (AList.update (fst (f v)) (snd (f v))) c)"

definition name_override :: "json \<Rightarrow> (string \<times> json) list \<Rightarrow> (string \<times> json) list" where
  "name_override ov c = set_in ''identity'' (case jget ''name'' ov of
     None \<Rightarrow> AList.delete ''name''
   | Some v \<Rightarrow> AList.update ''name'' v) c"

definition template_overrides :: "json \<Rightarrow> (string \<times> json) list \<Rightarrow> (string \<times> json) list" where
  "template_overrides ov c =
     override ov ''subagentAllowAgents'' ''subagents'' (Pair ''allowAgents'')
      (override ov ''dockerNetwork'' ''sandbox'' (\<lambda>v. (''docker'', JObj [(''network'', v)]))
       (override ov ''sandboxMode'' ''sandbox'' (Pair ''mode'')
        (override ov ''workspaceAccess'' ''sandbox'' (Pair ''workspaceAccess'')
         (override ov ''model'' ''model'' (Pair ''primary'')
          (override ov ''theme'' ''identity'' (Pair ''theme'')
           (override ov ''emoji'' ''identity'' (Pair ''emoji'')
            (name_override ov c)))))))"

definition buildAgentConfig :: "agent_template \<Rightarrow> json \<Rightarrow> (string \<times> json option) list" where
  "buildAgentConfig template overrides =
     spread [(''id'', jget ''id'' overrides), (''name'', jget ''name'' overrides),
             (''workspace'', jget ''workspace'' overrides), (''agentDir'', jget ''agentDir'' overrides)]
       (map (apsnd Some) (template_overrides overrides (at_config template)))"

section \<open>Types\<close>

text \<open>An object type: for each property whether it is required, and the type of its value.\<close>

type_synonym obj_type = "(string \<times> bool \<times> (json \<Rightarrow> bool)) list"

definition has_type :: "obj_type \<Rightarrow> (string \<times> json) list \<Rightarrow> bool" where
  "has_type ty kvs \<longleftrightarrow> list_all (\<lambda>(k, req, p). case map_of kvs k of None \<Rightarrow> \<not> req | Some v \<Rightarrow> p v) ty"

fun is_obj :: "obj_type \<Rightarrow> json \<Rightarrow> bool" where
  "is_obj ty (JObj kvs) = has_type ty kvs"
| "is_obj ty _ = False"

fun is_string :: "json \<Rightarrow> bool" where
  "is_string (JStr x) = True"
| "is_string _ = False"

fun is_strings :: "json \<Rightarrow> bool" where
  "is_strings (JArr xs) = list_all is_string xs"
| "is_strings _ = False"

fun one_of :: "string list \<Rightarrow> json \<Rightarrow> bool" where
  "one_of xs (JStr x) = (x \<in> set xs)"
| "one_of xs _ = False"

fun is_boolean :: "json \<Rightarrow> bool" where
  "is_boolean (JBool b) = True"
| "is_boolean _ = False"

definition AgentToolsConfig :: obj_type where
  "AgentToolsConfig = [(''allow'', True, is_strings), (''deny'', True, is_strings)]"

definition DockerConfig :: obj_type where
  "DockerConfig = [(''network'', True, one_of [''none'', ''bridge''])]"

definition AgentSandboxConfig :: obj_type where
  "AgentSandboxConfig = [(''mode'', True, one_of [''all'', ''non-main'']),
     (''workspaceAccess'', True, one_of [''rw'', ''ro'', ''none'']), (''scope'', True, one_of [''agent'']),
     (''docker'', False, is_obj DockerConfig)]"

definition AgentModelConfig :: obj_type where
  "AgentModelConfig = [(''primary'', True, is_string), (''fallbacks'', True, is_strings)]"

definition AgentIdentityConfig :: obj_type where
  "AgentIdentityConfig = [(''name'', True, is_string), (''theme'', True, is_string), (''emoji'', True, is_string)]"

definition AgentSubagentsConfig :: obj_type where
  "AgentSubagentsConfig = [(''allowAgents'', False, is_strings), (''model'', False, is_string)]"

definition AgentMemorySearchConfig :: obj_type where
  "AgentMemorySearchConfig = [(''sources'', True, is_strings),
     (''experimental'', False, is_obj [(''sessionMemory'', False, is_boolean)])]"

definition template_config_type :: obj_type where
  "template_config_type = [(''model'', True, is_obj AgentModelConfig), (''identity'', True, is_obj AgentIdentityConfig),
     (''subagents'', False, is_obj AgentSubagentsConfig), (''sandbox'', True, is_obj AgentSandboxConfig),
     (''tools'', True, is_obj AgentToolsConfig), (''memorySearch'', False, is_obj AgentMemorySearchConfig)]"

definition OpenClawAgentConfig :: obj_type where
  "OpenClawAgentConfig = [(''id'', True, is_string), (''name'', False, is_string), (''workspace'', False, is_string),
     (''agentDir'', False, is_string)] @ template_config_type"

definition overrides_type :: obj_type where
  "overrides_type = [(''id'', True, is_string), (''name'', True, is_string), (''workspace'', False, is_string),
     (''agentDir'', False, is_string), (''emoji'', False, is_string), (''theme'', False, is_string),
     (''model'', False, is_string), (''workspaceAccess'', False, one_of [''rw'', ''ro'', ''none'']),
     (''sandboxMode'', False, one_of [''all'', ''non-main'']), (''dockerNetwork'', False, one_of [''none'', ''bridge'']),
     (''subagentAllowAgents'', False, is_strings)]"

lemmas config_types = AgentToolsConfig_def DockerConfig_def AgentSandboxConfig_def AgentModelConfig_def
  AgentIdentityConfig_def AgentSubagentsConfig_def AgentMemorySearchConfig_def template_config_type_def

lemmas template_defs = template_orchestrator_def template_developer_def template_specialist_dev_def
  template_reviewer_def template_researcher_def template_content_creator_def template_security_auditor_def

section \<open>A built configuration is well typed\<close>

lemma has_typeD: "has_type ty kvs \<Longrightarrow> (k, req, p) \<in> set ty \<Longrightarrow> map_of kvs k = Some v \<Longrightarrow> p v"
  by (auto simp: has_type_def list_all_iff)

lemma has_type_update:
  assumes "has_type ty kvs" and "\<And>req p. (k, req, p) \<in> set ty \<Longrightarrow> p v"
  shows "has_type ty (AList.update k v kvs)"
  using assms unfolding has_type_def list_all_iff by (force simp: map_of_update split: option.splits)

lemma has_type_set_in:
  assumes "has_type ty c" and "(k, req, is_obj ty') \<in> set ty" and "distinct (map fst ty)"
    and "\<And>ps. has_type ty' ps \<Longrightarrow> has_type ty' (f ps)"
  shows "has_type ty (set_in k f c)"
proof (cases "map_of c k")
  case None
  with assms(1) show ?thesis by (simp add: set_in_def)
next
  case (Some v)
  then have "is_obj ty' v" using has_typeD [OF assms(1,2)] by blast
  then obtain ps where v: "v = JObj ps" "has_type ty' ps" by (cases v) simp_all
  have only: "p = is_obj ty'" if "(k, req', p) \<in> set ty" for req' p
    using eq_key_imp_eq_value [OF assms(3,2) that] by simp
  have "has_type ty (AList.update k (JObj (f ps)) c)"
    using assms(1) by (rule has_type_update) (drule only, simp add: assms(4) [OF v(2)])
  with Some v show ?thesis by (simp add: set_in_def)
qed

lemma has_type_override:
  assumes "has_type ty c" and "has_type ovt ov" and "(prop, r, p) \<in> set ovt"
    and "(k, req, is_obj ty') \<in> set ty" and "distinct (map fst ty)"
    and "\<And>v req q. p v \<Longrightarrow> (fst (f v), req, q) \<in> set ty' \<Longrightarrow> q (snd (f v))"
  shows "has_type ty (override (JObj ov) prop k f c)"
proof (cases "truthy_prop prop (JObj ov)")
  case None
  with assms(1) show ?thesis by (simp add: override_def)
next
  case (Some v)
  then have "map_of ov prop = Some v" by (auto simp: truthy_prop_def split: option.splits if_splits)
  then have "p v" using has_typeD [OF assms(2,3)] by blast
  then have "has_type ty' (AList.update (fst (f v)) (snd (f v)) ps)" if "has_type ty' ps" for ps
    using that assms(6) by (blast intro: has_type_update)
  then have "has_type ty (set_in k (AList.update (fst (f v)) (snd (f v))) c)"
    by (rule has_type_set_in [OF assms(1,4,5)])
  with Some show ?thesis by (simp add: override_def)
qed

lemma template_overrides_typed:
  assumes "has_type template_config_type c" and "has_type overrides_type ov"
  shows "has_type template_config_type (template_overrides (JObj ov) c)"
proof -
  have name: "has_type template_config_type (name_override (JObj ov) c)"
  proof -
    obtain n where "map_of ov ''name'' = Some n" "is_string n"
      using assms(2) by (auto simp: has_type_def overrides_type_def split: option.splits)
    then show ?thesis
      unfolding name_override_def
      by (simp, intro has_type_set_in [OF assms(1), of _ _ AgentIdentityConfig] has_type_update)
        (auto simp: config_types)
  qed
  have keys: "distinct (map fst template_config_type)" by (simp add: template_config_type_def)
  have step: "has_type template_config_type (override (JObj ov) pr k f c')"
    if c: "has_type template_config_type c'" and known: "list_ex (\<lambda>(x, r, p'). x = pr \<and> p' = p) overrides_type"
      "list_ex (\<lambda>(x, r, t). x = k \<and> t = is_obj ty) template_config_type"
      and fits: "\<And>v. p v \<Longrightarrow> list_all (\<lambda>(x, r, q). x = fst (f v) \<longrightarrow> q (snd (f v))) ty" for pr k f c' p ty
  proof -
    obtain r r' where "(pr, r, p) \<in> set overrides_type" "(k, r', is_obj ty) \<in> set template_config_type"
      using known unfolding list_ex_iff by auto
    then show ?thesis
      by (rule has_type_override [OF c assms(2) _ _ keys]) (use fits in \<open>fastforce simp: list_all_iff\<close>)
  qed
  note types = overrides_type_def config_types has_type_def
  have t1: "has_type template_config_type (override (JObj ov) ''emoji'' ''identity'' (Pair ''emoji'') c')"
    if "has_type template_config_type c'" for c'
    by (rule step [OF that, where p = "is_string" and ty = AgentIdentityConfig]) (simp_all add: types)
  have t2: "has_type template_config_type (override (JObj ov) ''theme'' ''identity'' (Pair ''theme'') c')"
    if "has_type template_config_type c'" for c'
    by (rule step [OF that, where p = "is_string" and ty = AgentIdentityConfig]) (simp_all add: types)
  have t3: "has_type template_config_type (override (JObj ov) ''model'' ''model'' (Pair ''primary'') c')"
    if "has_type template_config_type c'" for c'
    by (rule step [OF that, where p = "is_string" and ty = AgentModelConfig]) (simp_all add: types)
  have t4: "has_type template_config_type (override (JObj ov) ''workspaceAccess'' ''sandbox'' (Pair ''workspaceAccess'') c')"
    if "has_type template_config_type c'" for c'
    by (rule step [OF that, where p = "one_of [''rw'', ''ro'', ''none'']" and ty = AgentSandboxConfig]) (simp_all add: types)
  have t5: "has_type template_config_type (override (JObj ov) ''sandboxMode'' ''sandbox'' (Pair ''mode'') c')"
    if "has_type template_config_type c'" for c'
    by (rule step [OF that, where p = "one_of [''all'', ''non-main'']" and ty = AgentSandboxConfig]) (simp_all add: types)
  have t6: "has_type template_config_type (override (JObj ov) ''dockerNetwork'' ''sandbox'' (\<lambda>v. (''docker'', JObj [(''network'', v)])) c')"
    if "has_type template_config_type c'" for c'
    by (rule step [OF that, where p = "one_of [''none'', ''bridge'']" and ty = AgentSandboxConfig]) (simp_all add: types)
  have t7: "has_type template_config_type (override (JObj ov) ''subagentAllowAgents'' ''subagents'' (Pair ''allowAgents'') c')"
    if "has_type template_config_type c'" for c'
    by (rule step [OF that, where p = "is_strings" and ty = AgentSubagentsConfig]) (simp_all add: types)
  show ?thesis unfolding template_overrides_def by (intro t1 t2 t3 t4 t5 t6 t7 name)
qed

lemma map_of_spread: "distinct (map fst b) \<Longrightarrow> map_of (spread a b) k = (case map_of b k of None \<Rightarrow> map_of a k | Some v \<Rightarrow> Some v)"
proof (induction b arbitrary: a)
  case (Cons kv b)
  obtain k' v where kv: "kv = (k', v)" by fastforce
  have "map_of b k = None" if "k = k'" using Cons.prems that by (auto simp: kv map_of_eq_None_iff)
  with Cons show ?case by (auto simp: kv spread_def map_of_update split: option.split)
qed (simp add: spread_def)

lemma distinct_spread: "distinct (map fst a) \<Longrightarrow> distinct (map fst (spread a b))"
  by (induction b arbitrary: a) (auto simp: spread_def distinct_update)

lemma map_of_defined_props:
  "distinct (map fst ob) \<Longrightarrow> map_of (defined_props ob) k = (case map_of ob k of None \<Rightarrow> None | Some v \<Rightarrow> v)"
proof (induction ob)
  case (Cons kv ob)
  obtain k' v where kv: "kv = (k', v)" by fastforce
  have "defined_props (kv # ob) = jopt k' id v @ defined_props ob" by (simp add: defined_props_def kv)
  moreover have "map_of ob k = None" if "k = k'" using Cons.prems that by (auto simp: kv map_of_eq_None_iff)
  ultimately show ?case using Cons by (auto simp: kv jopt_def split: option.split)
qed (simp add: defined_props_def)

lemma distinct_set_in: "distinct (map fst c) \<Longrightarrow> distinct (map fst (set_in k f c))"
  by (simp add: set_in_def distinct_update split: option.split json.split)

lemma map_of_set_in: "k' \<noteq> k \<Longrightarrow> map_of (set_in k f c) k' = map_of c k'"
  by (simp add: set_in_def map_of_update split: option.split json.split)

lemma distinct_override: "distinct (map fst c) \<Longrightarrow> distinct (map fst (override ov p k f c))"
  by (simp add: override_def distinct_set_in split: option.split)

lemma map_of_override: "k' \<noteq> k \<Longrightarrow> map_of (override ov p k f c) k' = map_of c k'"
  by (simp add: override_def map_of_set_in split: option.split)

lemma template_overrides_keys: "distinct (map fst c) \<Longrightarrow> distinct (map fst (template_overrides ov c))"
  by (simp add: template_overrides_def name_override_def distinct_override distinct_set_in)

lemma template_overrides_other:
  "k \<notin> {''identity'', ''model'', ''sandbox'', ''subagents''} \<Longrightarrow> map_of (template_overrides ov c) k = map_of c k"
  by (simp add: template_overrides_def name_override_def map_of_override map_of_set_in)

lemma buildAgentConfig_get:
  assumes "distinct (map fst (at_config tpl))"
  shows "map_of (defined_props (buildAgentConfig tpl ov)) k =
    (case map_of (template_overrides ov (at_config tpl)) k of Some v \<Rightarrow> Some v
     | None \<Rightarrow> if k \<in> {''id'', ''name'', ''workspace'', ''agentDir''} then jget k ov else None)"
proof -
  let ?c = "template_overrides ov (at_config tpl)"
  have d: "distinct (map fst (map (apsnd Some) ?c))" using template_overrides_keys [OF assms] by (simp add: o_def)
  have "map_of (map (apsnd Some) xs) k = map_option Some (map_of xs k)" for xs :: "(string \<times> json) list"
    by (induction xs) auto
  then show ?thesis
    unfolding buildAgentConfig_def
    by (subst map_of_defined_props [OF distinct_spread]) (auto simp: map_of_spread [OF d] split: option.split)
qed

lemma is_strings_strs: "is_strings (strs xs)"
  by (simp add: strs_def list_all_iff)

lemma templates_typed:
  "list_all (\<lambda>t. has_type template_config_type (at_config t) \<and> distinct (map fst (at_config t)) \<and>
     list_all (\<lambda>k. map_of (at_config t) k = None) [''id'', ''name'', ''workspace'', ''agentDir'']) AGENT_TEMPLATES"
  by (simp add: AGENT_TEMPLATES_def template_defs has_type_def config_types is_strings_strs)

definition json_strings :: "json option \<Rightarrow> string list" where
  "json_strings v = (case v of Some (JArr xs) \<Rightarrow> List.map_filter (\<lambda>x. case x of JStr y \<Rightarrow> Some y | _ \<Rightarrow> None) xs | _ \<Rightarrow> [])"

definition tools_in :: "string \<Rightarrow> (string \<times> json) list \<Rightarrow> string set" where
  "tools_in k c = set (json_strings (Option.bind (map_of c ''tools'') (jget k)))"

lemma json_strings_strs: "json_strings (Some (strs xs)) = xs"
  by (induction xs) (simp_all add: json_strings_def strs_def List.map_filter_def)

lemmas TG_defs = TG_coding_def TG_browser_def TG_memory_def TG_session_def TG_subagent_def TG_thinking_def

lemma templates_tools:
  "list_all (\<lambda>t. tools_in ''allow'' (at_config t) \<inter> tools_in ''deny'' (at_config t) = {} \<and>
     set COMMON_DENY \<subseteq> tools_in ''deny'' (at_config t)) AGENT_TEMPLATES"
  by (simp add: AGENT_TEMPLATES_def template_defs tools_in_def json_strings_strs TG_defs COMMON_DENY_def)

text \<open>
  C22. A configuration that is built from a template and from overrides of the declared types has the
  declared type \<open>OpenClawAgentConfig\<close> and carries the id and name of the overrides. Overrides never
  change the tools: the agent is allowed and denied exactly what the template says, no template
  allows a tool that it denies, and every one denies the tools that manage the gateway itself.
\<close>

theorem template_config_typed:
  assumes "tpl \<in> set AGENT_TEMPLATES" and "has_type overrides_type ov"
  defines "cfg \<equiv> defined_props (buildAgentConfig tpl (JObj ov))"
  shows "has_type OpenClawAgentConfig cfg \<and> map_of cfg ''id'' = map_of ov ''id'' \<and> map_of cfg ''name'' = map_of ov ''name'' \<and>
    map_of cfg ''tools'' = map_of (at_config tpl) ''tools'' \<and> tools_in ''allow'' cfg \<inter> tools_in ''deny'' cfg = {} \<and>
    set COMMON_DENY \<subseteq> tools_in ''deny'' cfg"
proof -
  let ?c = "template_overrides (JObj ov) (at_config tpl)"
  have ty: "has_type template_config_type (at_config tpl)" and d: "distinct (map fst (at_config tpl))"
    and own: "\<And>k. k \<in> {''id'', ''name'', ''workspace'', ''agentDir''} \<Longrightarrow> map_of (at_config tpl) k = None"
    using templates_typed assms(1) by (auto simp: list_all_iff)
  have get: "map_of cfg k = (case map_of ?c k of Some v \<Rightarrow> Some v
      | None \<Rightarrow> if k \<in> {''id'', ''name'', ''workspace'', ''agentDir''} then map_of ov k else None)" for k
    unfolding cfg_def buildAgentConfig_get [OF d] by (simp split: option.split)
  have c: "map_of ?c k = None" if "k \<in> {''id'', ''name'', ''workspace'', ''agentDir''}" for k
    using that own [OF that] by (subst template_overrides_other) auto
  have "has_type template_config_type cfg"
    using template_overrides_typed [OF ty assms(2)]
    by (auto simp: has_type_def template_config_type_def get split: option.splits)
  moreover have "has_type [(''id'', True, is_string), (''name'', False, is_string), (''workspace'', False, is_string),
     (''agentDir'', False, is_string)] cfg"
    using assms(2) by (auto simp: has_type_def overrides_type_def get c split: option.splits)
  ultimately have "has_type OpenClawAgentConfig cfg" by (simp add: OpenClawAgentConfig_def has_type_def)
  moreover have tools: "map_of cfg ''tools'' = map_of (at_config tpl) ''tools''"
    by (simp add: get template_overrides_other split: option.split)
  moreover have "tools_in k cfg = tools_in k (at_config tpl)" for k by (simp add: tools_in_def tools)
  ultimately show ?thesis
    using templates_tools assms(1) by (simp add: list_all_iff get c)
qed

theorem template_config_typed_witness:
  "has_type OpenClawAgentConfig (defined_props (buildAgentConfig template_reviewer
     (JObj [(''id'', JStr ''qa''), (''name'', JStr ''QA'')])))"
proof -
  have 1: "template_reviewer \<in> set AGENT_TEMPLATES" by (simp add: AGENT_TEMPLATES_def)
  have 2: "has_type overrides_type [(''id'', JStr ''qa''), (''name'', JStr ''QA'')]"
    by (simp add: has_type_def overrides_type_def)
  from template_config_typed [OF 1 2] show ?thesis by blast
qed

end
