(* ===== verification/MC_Agents.thy ===== *)
theory MC_Agents
  imports MC_AgentTemplates
begin

text \<open>
  The agents of a workspace: \<open>src/app/api/agents/route.ts\<close>, \<open>src/app/api/agents/[id]/route.ts\<close>,
  \<open>.../[id]/wake/route.ts\<close> and \<open>src/app/api/agents/message/route.ts\<close>. The table gives an agent a name
  and a session key that are unique over all workspaces. The gateway's files are the argument \<open>fs\<close>; a
  handler that writes them returns them beside its outcome. Ids that spell a fraction, a hexadecimal
  number or an exponent, and configurations in the database that are not objects, are outside the model.
\<close>

section \<open>Rows\<close>

definition agent_config :: "agent_row \<Rightarrow> json" where
  "agent_config g = (case g_config g of None \<Rightarrow> JObj [] | Some c \<Rightarrow> c)"

text \<open>\<open>{...agent, config}\<close>; the column of the working memory exists once a memory was used.\<close>

definition agent_fields :: "bool \<Rightarrow> agent_row \<Rightarrow> json \<Rightarrow> (string \<times> json) list" where
  "agent_fields mem g cfg = [(''id'', JNum (g_id g)), (''name'', JStr (g_name g)), (''role'', JStr (g_role g)),
     (''session_key'', jnull JStr (g_session_key g)), (''soul_content'', jnull JStr (g_soul_content g)),
     (''status'', JStr (g_status g)), (''last_seen'', jnull JNum (g_last_seen g)),
     (''last_activity'', jnull JStr (g_last_activity g)), (''created_at'', JNum (g_created_at g)),
     (''updated_at'', JNum (g_updated_at g)), (''config'', cfg), (''workspace_id'', JNum (g_workspace_id g))] @
     (if mem then [(''working_memory'', jnull JStr (g_working_memory g))] else [])"

definition agent_named :: "string \<Rightarrow> int \<Rightarrow> server \<Rightarrow> agent_row option" where
  "agent_named name wsid s = tbl_first (\<lambda>g. g_name g = name \<and> g_workspace_id g = wsid) (agents (db s))"

text \<open>The path parameter is a name when it is not a number.\<close>

definition find_agent :: "string \<Rightarrow> int \<Rightarrow> server \<Rightarrow> agent_row option" where
  "find_agent idp wsid s = (case js_number idp of
     None \<Rightarrow> agent_named idp wsid s
   | Some n \<Rightarrow> tbl_first (\<lambda>g. g_id g = n \<and> g_workspace_id g = wsid) (agents (db s)))"

text \<open>The constraints of the table on a new row, and on a new session key of the rows of a name.\<close>

definition agent_conflict :: "string \<Rightarrow> string option \<Rightarrow> agent_row tbl \<Rightarrow> string option" where
  "agent_conflict name key t =
     (if list_ex (\<lambda>g. g_name g = name) (rows t) then Some ''UNIQUE constraint failed: agents.name''
      else if key \<noteq> None \<and> list_ex (\<lambda>g. g_session_key g = key) (rows t)
      then Some ''UNIQUE constraint failed: agents.session_key''
      else None)"

definition key_conflict :: "(agent_row \<Rightarrow> bool) \<Rightarrow> string option \<Rightarrow> agent_row tbl \<Rightarrow> bool" where
  "key_conflict p key t \<longleftrightarrow> key \<noteq> None \<and> list_ex (\<lambda>g. \<not> p g \<and> g_session_key g = key) (rows t) \<and> list_ex p (rows t)"

section \<open>GET /api/agents\<close>

definition agent_filter :: "request \<Rightarrow> int \<Rightarrow> agent_row \<Rightarrow> bool" where
  "agent_filter req wsid g \<longleftrightarrow> g_workspace_id g = wsid \<and>
     (case nonempty_param req ''status'' of None \<Rightarrow> True | Some v \<Rightarrow> g_status g = v) \<and>
     (case nonempty_param req ''role'' of None \<Rightarrow> True | Some v \<Rightarrow> g_role g = v)"

definition task_stats :: "string \<Rightarrow> int \<Rightarrow> server \<Rightarrow> json" where
  "task_stats name wsid s =
     (let mine = tbl_select (\<lambda>t. t_assigned_to t = Some name \<and> t_workspace_id t = wsid) (tasks (db s));
          count = (\<lambda>st. JNum (int (length (filter (\<lambda>t. t_status t = st) mine))))
      in JObj [(''total'', JNum (int (length mine))), (''assigned'', count Assigned),
               (''in_progress'', count In_progress), (''completed'', count Done)])"

definition list_agents :: "oc_files \<Rightarrow> world \<Rightarrow> request \<Rightarrow> user \<Rightarrow> server \<Rightarrow> outcome" where
  "list_agents fs w req u s =
     (case (parse_int (or_else (req_query req ''limit'') ''50''), parse_int (or_else (req_query req ''offset'') ''0'')) of
        (Some l, Some offset) \<Rightarrow>
          (let limit = min l 200; wsid = usr_workspace_id u;
               found = tbl_select (agent_filter req wsid) (agents (db s));
               page = (if limit = 0 then JNull else JNum (offset div limit + 1));
               entry = (\<lambda>g. JObj (agent_fields (working_memory_column (db s)) g
                          (enrichAgentConfigFromWorkspace fs (agent_config g)) @
                          [(''taskStats'', task_stats (g_name g) wsid s)]))
           in (Inr (json_response 200 (JObj [
                 (''agents'', JArr (map entry (sql_limit limit offset (order_by_desc (sql_ord w) g_created_at found)))),
                 (''total'', JNum (int (length found))), (''page'', page), (''limit'', JNum limit)])), s))
      | _ \<Rightarrow> (Inr (error_response 500 ''Failed to fetch agents''), s))"

definition agents_GET :: "oc_files \<Rightarrow> world \<Rightarrow> request \<Rightarrow> server \<Rightarrow> outcome" where
  "agents_GET fs w req s = with_role w req ''viewer'' s (\<lambda>u. list_agents fs w req u s)"

section \<open>POST /api/agents\<close>

record agent_input =
  na_name :: string
  na_role :: "string option"
  na_session_key :: "string option"
  na_soul_content :: "string option"
  na_status :: "string option"
  na_config :: "(string \<times> json) list"
  na_template :: "string option"
  na_gateway_config :: "(string \<times> json) list option"
  na_write_to_gateway :: bool

definition used_template :: "agent_input \<Rightarrow> agent_template option" where
  "used_template b = Option.bind (or_null (na_template b)) getTemplate"

definition template_role :: "agent_template \<Rightarrow> string" where
  "template_role tpl = or_else (Option.bind (map_of (at_config tpl) ''identity'') (str_field ''theme'')) (at_type tpl)"

definition final_role :: "agent_input \<Rightarrow> string" where
  "final_role b = or_else (na_role b) (case used_template b of None \<Rightarrow> [] | Some tpl \<Rightarrow> template_role tpl)"

definition final_config :: "agent_input \<Rightarrow> (string \<times> json) list" where
  "final_config b =
     (let given = map (apsnd Some) (na_config b)
      in defined_props
           (if or_null (na_template b) \<noteq> None then
              (case used_template b of
                 None \<Rightarrow> given
               | Some tpl \<Rightarrow> spread (buildAgentConfig tpl (JObj (case na_gateway_config b of None \<Rightarrow> [] | Some g \<Rightarrow> g))) given)
            else (case na_gateway_config b of None \<Rightarrow> given | Some g \<Rightarrow> spread given (map (apsnd Some) g))))"

definition new_agent :: "world \<Rightarrow> int \<Rightarrow> agent_input \<Rightarrow> int \<Rightarrow> agent_row" where
  "new_agent w wsid b i = \<lparr>g_id = i, g_name = na_name b, g_role = final_role b, g_session_key = na_session_key b,
     g_soul_content = na_soul_content b, g_status = (case na_status b of None \<Rightarrow> ''offline'' | Some v \<Rightarrow> v),
     g_last_seen = None, g_last_activity = None, g_created_at = now_s w, g_updated_at = now_s w,
     g_config = Some (JObj (final_config b)), g_workspace_id = wsid, g_working_memory = Some []\<rparr>"

text \<open>\<open>name.toLowerCase().replace(/\s+/g, '-')\<close>\<close>

fun dash_spaces :: "bool \<Rightarrow> string \<Rightarrow> string" where
  "dash_spaces in_ws [] = []"
| "dash_spaces in_ws (c # cs) =
     (if is_ws c then (if in_ws then dash_spaces True cs else CHR ''-'' # dash_spaces True cs)
      else c # dash_spaces False cs)"

definition openclaw_id :: "string \<Rightarrow> string" where
  "openclaw_id name = dash_spaces False (to_lower name)"

definition gateway_keys :: "string list" where
  "gateway_keys = [''model'', ''identity'', ''sandbox'', ''tools'', ''subagents'', ''memorySearch'']"

definition gateway_props :: "(string \<times> json) list \<Rightarrow> (string \<times> json) list" where
  "gateway_props c = concat (map (\<lambda>k. jopt k id (truthy_prop k (JObj c))) gateway_keys)"

definition announce_agent :: "world \<Rightarrow> user \<Rightarrow> agent_input \<Rightarrow> int \<Rightarrow> server \<Rightarrow> server" where
  "announce_agent w u b i s =
     logActivity w ''agent_created'' ''agent'' i (usr_username u)
       (''Created agent: '' @ na_name b @ '' ('' @ final_role b @ '')'' @
        (case or_null (na_template b) of None \<Rightarrow> [] | Some t \<Rightarrow> '' from template: '' @ t))
       (Some (JObj ([(''name'', JStr (na_name b)), (''role'', JStr (final_role b)),
          (''status'', JStr (case na_status b of None \<Rightarrow> ''offline'' | Some v \<Rightarrow> v))] @
          jopt ''session_key'' JStr (na_session_key b) @ [(''template'', jnull JStr (or_null (na_template b)))])))
       (usr_workspace_id u) s"

definition created_json :: "server \<Rightarrow> agent_row \<Rightarrow> json" where
  "created_json s g = JObj (agent_fields (working_memory_column (db s)) g (agent_config g) @
     [(''taskStats'', JObj [(''total'', JNum 0), (''assigned'', JNum 0), (''in_progress'', JNum 0), (''completed'', JNum 0)])])"

definition gateway_audit :: "world \<Rightarrow> user \<Rightarrow> string \<Rightarrow> int \<Rightarrow> json \<Rightarrow> string \<Rightarrow> server \<Rightarrow> server" where
  "gateway_audit w u action i detail ip s =
     logAuditEvent w ((audit_event0 action (usr_username u))\<lparr>ae_actor_id := Some (usr_id u), ae_target_type := Some ''agent'',
       ae_target_id := Some i, ae_detail := Some detail, ae_ip_address := Some ip\<rparr>) s"

definition create_agent :: "oc_files \<Rightarrow> world \<Rightarrow> request \<Rightarrow> user \<Rightarrow> agent_input \<Rightarrow> server \<Rightarrow> outcome \<times> oc_files" where
  "create_agent fs w req u b s =
     (let wsid = usr_workspace_id u; name = na_name b
      in if name = [] \<or> final_role b = [] then ((Inr (error_response 400 ''Name and role are required''), s), fs)
         else if agent_named name wsid s \<noteq> None then ((Inr (error_response 409 ''Agent name already exists''), s), fs)
         else if agent_conflict name (na_session_key b) (agents (db s)) \<noteq> None
         then ((Inr (error_response 500 ''Failed to create agent''), s), fs)
         else
           (let (i, t) = tbl_insert (new_agent w wsid b) (agents (db s));
                s1 = announce_agent w u b i (s\<lparr>db := (db s)\<lparr>agents := t\<rparr>\<rparr>);
                parsed = created_json s (new_agent w wsid b i);
                s2 = broadcast w ''agent.created'' parsed s1;
                entry = [(''id'', JStr (openclaw_id name)), (''name'', JStr name)] @ gateway_props (final_config b)
            in if na_write_to_gateway b then
                 (case writeAgentToConfig entry fs of
                    Inl e \<Rightarrow> ((Inr (json_response 201 (JObj [(''agent'', parsed),
                       (''warning'', JStr (''Agent created in MC but gateway write failed: '' @ e))])), s2), fs)
                  | Inr out \<Rightarrow>
                      ((Inr (json_response 201 (JObj [(''agent'', parsed)])),
                        gateway_audit w u ''agent_gateway_create'' i
                          (JObj [(''name'', JStr name), (''openclaw_id'', JStr (openclaw_id name)),
                                 (''template'', jnull JStr (or_null (na_template b)))])
                          (or_else (req_headers req ''x-forwarded-for'') ''unknown'') s2),
                       fs\<lparr>oc_config := Inr out\<rparr>))
               else ((Inr (json_response 201 (JObj [(''agent'', parsed)])), s2), fs)))"

definition agents_POST :: "oc_files \<Rightarrow> agent_input schema \<Rightarrow> world \<Rightarrow> request \<Rightarrow> server \<Rightarrow> outcome" where
  "agents_POST fs parse = mutating_route ''operator'' (\<lambda>w req u s.
     with_body parse req s (\<lambda>b. fst (create_agent fs w req u b s)))"

section \<open>PUT /api/agents\<close>

text \<open>Where the code compares or prints a number that is bound to a text column, that is outside the model.\<close>

record agent_changes =
  ac_status :: "string option option"
  ac_last_activity :: "string option option"
  ac_config :: "json option"
  ac_session_key :: "string option option"
  ac_soul_content :: "string option option"
  ac_role :: "string option option"

definition agent_changes_of :: "json \<Rightarrow> string + agent_changes" where
  "agent_changes_of body =
     (case (given_text ''status'' body, given_text ''last_activity'' body, given_text ''session_key'' body,
            given_text ''soul_content'' body, given_text ''role'' body) of
        (Inr st, Inr la, Inr sk, Inr soul, Inr role) \<Rightarrow>
          Inr \<lparr>ac_status = st, ac_last_activity = la, ac_config = jget ''config'' body, ac_session_key = sk,
               ac_soul_content = soul, ac_role = role\<rparr>
      | (Inl e, _) \<Rightarrow> Inl e | (_, Inl e, _) \<Rightarrow> Inl e | (_, _, Inl e, _) \<Rightarrow> Inl e
      | (_, _, _, Inl e, _) \<Rightarrow> Inl e | (_, _, _, _, Inl e) \<Rightarrow> Inl e)"

definition no_agent_changes :: "json \<Rightarrow> bool" where
  "no_agent_changes body \<longleftrightarrow> list_all (\<lambda>k. jget k body = None)
     [''status'', ''last_activity'', ''config'', ''session_key'', ''soul_content'', ''role'']"

text \<open>\<open>status\<close> and \<open>role\<close> are \<open>NOT NULL\<close>.\<close>

definition set_agent :: "world \<Rightarrow> agent_changes \<Rightarrow> agent_row \<Rightarrow> agent_row" where
  "set_agent w c g = g\<lparr>
     g_status := (case ac_status c of Some (Some v) \<Rightarrow> v | _ \<Rightarrow> g_status g),
     g_last_seen := (if ac_status c = None then g_last_seen g else Some (now_s w)),
     g_last_activity := set_or_keep (ac_last_activity c) (g_last_activity g),
     g_config := set_or_keep_opt (ac_config c) (g_config g),
     g_session_key := set_or_keep (ac_session_key c) (g_session_key g),
     g_soul_content := set_or_keep (ac_soul_content c) (g_soul_content g),
     g_role := (case ac_role c of Some (Some v) \<Rightarrow> v | _ \<Rightarrow> g_role g),
     g_updated_at := now_s w\<rparr>"

definition agent_update_fails :: "(agent_row \<Rightarrow> bool) \<Rightarrow> agent_changes \<Rightarrow> agent_row tbl \<Rightarrow> bool" where
  "agent_update_fails p c t \<longleftrightarrow> ac_status c = Some None \<or> ac_role c = Some None \<or>
     (case ac_session_key c of Some key \<Rightarrow> key_conflict p key t | None \<Rightarrow> False)"

definition log_status_change :: "world \<Rightarrow> agent_row \<Rightarrow> string \<Rightarrow> json \<Rightarrow> int \<Rightarrow> agent_changes \<Rightarrow> server \<Rightarrow> server" where
  "log_status_change w agent name body wsid c s =
     (case ac_status c of
        Some (Some st) \<Rightarrow>
          if st = g_status agent then s
          else logActivity w ''agent_status_change'' ''agent'' (g_id agent) name
                 (''Agent status changed from '' @ g_status agent @ '' to '' @ st)
                 (Some (JObj ([(''oldStatus'', JStr (g_status agent)), (''newStatus'', JStr st)] @
                    jopt ''last_activity'' id (jget ''last_activity'' body)))) wsid s
      | _ \<Rightarrow> s)"

definition update_agent :: "world \<Rightarrow> int \<Rightarrow> string \<Rightarrow> json \<Rightarrow> server \<Rightarrow> outcome" where
  "update_agent w wsid name body s =
     (let mine = (\<lambda>g. g_name g = name \<and> g_workspace_id g = wsid)
      in case agent_named name wsid s of
           None \<Rightarrow> (Inr (error_response 404 ''Agent not found''), s)
         | Some agent \<Rightarrow>
             if no_agent_changes body then (Inr (error_response 400 ''No fields to update''), s)
             else case agent_changes_of body of
               Inl e \<Rightarrow> (Inr (error_response 500 ''Failed to update agent''), s)
             | Inr c \<Rightarrow>
                 if agent_update_fails mine c (agents (db s)) then (Inr (error_response 500 ''Failed to update agent''), s)
                 else
                   (let s1 = s\<lparr>db := (db s)\<lparr>agents := tbl_update mine (set_agent w c) (agents (db s))\<rparr>\<rparr>;
                        s2 = log_status_change w agent name body wsid c s1;
                        payload = JObj ([(''id'', JNum (g_id agent)), (''name'', JStr name)] @
                          jopt ''status'' id (jget ''status'' body) @ jopt ''last_activity'' id (jget ''last_activity'' body) @
                          jopt ''role'' id (jget ''role'' body) @ [(''updated_at'', JNum (now_s w))])
                    in (Inr (json_response 200 (JObj [(''success'', JBool True)])), broadcast w ''agent.updated'' payload s2)))"

definition put_agents :: "world \<Rightarrow> request \<Rightarrow> user \<Rightarrow> server \<Rightarrow> outcome" where
  "put_agents w req u s =
     (case req_body req of
        None \<Rightarrow> (Inr (error_response 500 ''Failed to update agent''), s)
      | Some JNull \<Rightarrow> (Inr (error_response 500 ''Failed to update agent''), s)
      | Some body \<Rightarrow>
          (case truthy_prop ''name'' body of
             None \<Rightarrow> (Inr (error_response 400 ''Agent name is required''), s)
           | Some v \<Rightarrow>
               (case bind_text v of
                  Inr (Some name) \<Rightarrow> update_agent w (usr_workspace_id u) name body s
                | _ \<Rightarrow> (Inr (error_response 500 ''Failed to update agent''), s))))"

definition agents_PUT :: "world \<Rightarrow> request \<Rightarrow> server \<Rightarrow> outcome" where
  "agents_PUT = mutating_route ''operator'' put_agents"

section \<open>/api/agents/[id]\<close>

definition agent_GET :: "oc_files \<Rightarrow> string \<Rightarrow> world \<Rightarrow> request \<Rightarrow> server \<Rightarrow> outcome" where
  "agent_GET fs idp w req s = with_role w req ''viewer'' s (\<lambda>u.
     (case find_agent idp (usr_workspace_id u) s of
        None \<Rightarrow> (Inr (error_response 404 ''Agent not found''), s)
      | Some g \<Rightarrow> (Inr (json_response 200 (JObj [(''agent'', JObj (agent_fields (working_memory_column (db s)) g
          (enrichAgentConfigFromWorkspace fs (agent_config g))))])), s)))"

text \<open>
  \<open>PUT\<close>: a \<open>gateway_config\<close> that is neither falsy nor an object is outside the model. The message of
  the exception is the answer's; that of a body which is no JSON is the argument \<open>jerr\<close>.
\<close>

definition given_config :: "json \<Rightarrow> (string \<times> json) list option" where
  "given_config body = map_option obj_props (truthy_prop ''gateway_config'' body)"

definition merged_config :: "agent_row \<Rightarrow> json \<Rightarrow> (string \<times> json) list" where
  "merged_config agent body = spread (obj_props (agent_config agent)) (case given_config body of None \<Rightarrow> [] | Some c \<Rightarrow> c)"

definition set_agent_config :: "world \<Rightarrow> agent_row \<Rightarrow> json \<Rightarrow> string option option \<Rightarrow> agent_row \<Rightarrow> agent_row" where
  "set_agent_config w agent body role g = g\<lparr>g_updated_at := now_s w,
     g_role := (case role of Some (Some v) \<Rightarrow> v | _ \<Rightarrow> g_role g),
     g_config := (if given_config body = None then g_config g else Some (JObj (merged_config agent body)))\<rparr>"

definition log_config_update :: "world \<Rightarrow> user \<Rightarrow> agent_row \<Rightarrow> json \<Rightarrow> server \<Rightarrow> server" where
  "log_config_update w u agent body s =
     broadcast w ''agent.updated'' (JObj [(''id'', JNum (g_id agent)), (''name'', JStr (g_name agent)),
         (''config'', JObj (merged_config agent body)), (''updated_at'', JNum (now_s w))])
       (logActivity w ''agent_config_updated'' ''agent'' (g_id agent) (usr_username u)
          (''Config updated for agent '' @ g_name agent @ (if truthy_prop ''write_to_gateway'' body = None then [] else '' (+ gateway)''))
          (Some (JObj ([(''fields'', JArr (map (JStr \<circ> fst) (case given_config body of None \<Rightarrow> [] | Some c \<Rightarrow> c)))] @
             jopt ''write_to_gateway'' id (jget ''write_to_gateway'' body)))) (usr_workspace_id u) s)"

definition updated_json :: "server \<Rightarrow> world \<Rightarrow> agent_row \<Rightarrow> string option option \<Rightarrow> json \<Rightarrow> json" where
  "updated_json s w agent role cfg = JObj (agent_fields (working_memory_column (db s))
     (agent\<lparr>g_role := or_else (case role of Some v \<Rightarrow> v | None \<Rightarrow> None) (g_role agent), g_updated_at := now_s w\<rparr>) cfg)"

definition update_agent_config ::
  "oc_files \<Rightarrow> world \<Rightarrow> request \<Rightarrow> user \<Rightarrow> agent_row \<Rightarrow> json \<Rightarrow> string option option \<Rightarrow> server \<Rightarrow> outcome \<times> oc_files"
where
  "update_agent_config fs w req u agent body role s =
     (let s1 = s\<lparr>db := (db s)\<lparr>agents := tbl_update (\<lambda>g. g_id g = g_id agent \<and> g_workspace_id g = usr_workspace_id u)
                 (set_agent_config w agent body role) (agents (db s))\<rparr>\<rparr>;
          cfg = JObj (merged_config agent body);
          done = (\<lambda>s2. (Inr (json_response 200 (JObj [(''success'', JBool True),
                    (''agent'', updated_json s w agent role (enrichAgentConfigFromWorkspace fs cfg))])),
                   log_config_update w u agent body s2))
      in case (truthy_prop ''write_to_gateway'' body, given_config body) of
           (Some _, Some c) \<Rightarrow>
             (let openclawId = (case truthy_prop ''openclawId'' (agent_config agent) of
                    Some v \<Rightarrow> v | None \<Rightarrow> JStr (openclaw_id (g_name agent)))
              in case writeAgentToConfig ((''id'', openclawId) # gateway_props c) fs of
                   Inl e \<Rightarrow> ((Inr (json_response 200 (JObj [
                       (''warning'', JStr (''Agent updated in MC but gateway write failed: '' @ e)),
                       (''agent'', updated_json s w agent role cfg)])), s1), fs)
                 | Inr out \<Rightarrow>
                     (done (gateway_audit w u ''agent_config_writeback'' (g_id agent)
                        (JObj [(''agent_name'', JStr (g_name agent)), (''openclaw_id'', openclawId),
                               (''fields'', JArr (map (JStr \<circ> fst) c))]) (client_ip req) s1),
                      fs\<lparr>oc_config := Inr out\<rparr>))
         | _ \<Rightarrow> (done s1, fs))"

definition put_agent :: "oc_files \<Rightarrow> string \<Rightarrow> string \<Rightarrow> world \<Rightarrow> request \<Rightarrow> user \<Rightarrow> server \<Rightarrow> outcome \<times> oc_files" where
  "put_agent fs jerr idp w req u s =
     (case req_body req of
        None \<Rightarrow> ((Inr (error_response 500 (or_else (Some jerr) ''Failed to update agent'')), s), fs)
      | Some JNull \<Rightarrow> ((Inr (error_response 500 ''Cannot destructure property 'role' of 'body' as it is null.''), s), fs)
      | Some body \<Rightarrow>
          (case find_agent idp (usr_workspace_id u) s of
             None \<Rightarrow> ((Inr (error_response 404 ''Agent not found''), s), fs)
           | Some agent \<Rightarrow>
               (case given_text ''role'' body of
                  Inl e \<Rightarrow> ((Inr (error_response 500 e), s), fs)
                | Inr (Some None) \<Rightarrow> ((Inr (error_response 500 ''NOT NULL constraint failed: agents.role''), s), fs)
                | Inr role \<Rightarrow> update_agent_config fs w req u agent body role s)))"

definition agent_PUT :: "oc_files \<Rightarrow> string \<Rightarrow> string \<Rightarrow> world \<Rightarrow> request \<Rightarrow> server \<Rightarrow> outcome" where
  "agent_PUT fs jerr idp w req s = with_role w req ''operator'' s (\<lambda>u. fst (put_agent fs jerr idp w req u s))"

text \<open>\<open>DELETE\<close>: the direct connections of the agent go with it (\<open>ON DELETE CASCADE\<close>).\<close>

definition remove_agent :: "int \<Rightarrow> int \<Rightarrow> database \<Rightarrow> database" where
  "remove_agent i wsid d = d\<lparr>agents := tbl_delete (\<lambda>g. g_id g = i \<and> g_workspace_id g = wsid) (agents d),
     direct_connections := tbl_delete (\<lambda>c. dc_agent_id c = i) (direct_connections d)\<rparr>"

definition agent_DELETE :: "string \<Rightarrow> world \<Rightarrow> request \<Rightarrow> server \<Rightarrow> outcome" where
  "agent_DELETE idp w req s = with_role w req ''admin'' s (\<lambda>u.
     (let wsid = usr_workspace_id u
      in case find_agent idp wsid s of
           None \<Rightarrow> (Inr (error_response 404 ''Agent not found''), s)
         | Some agent \<Rightarrow>
             (let s1 = logActivity w ''agent_deleted'' ''agent'' (g_id agent) (usr_username u) (''Deleted agent: '' @ g_name agent)
                    (Some (JObj [(''name'', JStr (g_name agent)), (''role'', JStr (g_role agent))])) wsid
                    (s\<lparr>db := remove_agent (g_id agent) wsid (db s)\<rparr>)
              in (Inr (json_response 200 (JObj [(''success'', JBool True), (''deleted'', JStr (g_name agent))])),
                  broadcast w ''agent.deleted'' (JObj [(''id'', JNum (g_id agent)), (''name'', JStr (g_name agent))]) s1))))"

section \<open>Messages to an agent\<close>

definition wake_POST :: "openclaw \<Rightarrow> string \<Rightarrow> world \<Rightarrow> request \<Rightarrow> server \<Rightarrow> outcome" where
  "wake_POST run idp w req s = with_role w req ''operator'' s (\<lambda>u.
     (let wsid = usr_workspace_id u;
          custom = trim (or_else (Option.bind (req_body req) (str_field ''message'')) [])
      in case find_agent idp wsid s of
           None \<Rightarrow> (Inr (error_response 404 ''Agent not found''), s)
         | Some agent \<Rightarrow>
             (case or_null (g_session_key agent) of
                None \<Rightarrow> (Inr (error_response 400 ''Agent has no session key configured''), s)
              | Some key \<Rightarrow>
                  (let msg = or_else (Some custom) (''Wake up check-in for '' @ g_name agent @
                         ''. Please review assigned tasks and notifications.'')
                   in case run [''gateway'', ''sessions_send'', ''--session'', key, ''--message'', msg] of
                        Inl e \<Rightarrow> (Inr (error_response 500 ''Failed to wake agent''), s)
                      | Inr (stdout, stderr) \<Rightarrow>
                          if includes_str ''error'' stderr
                          then (Inr (error_response 500 (or_else (Some (trim stderr)) ''Failed to wake agent'')), s)
                          else (Inr (json_response 200 (JObj [(''success'', JBool True), (''session_key'', JStr key),
                                 (''stdout'', JStr (trim stdout))])),
                                updateAgentStatus w (g_name agent) ''idle'' (Some ''Manual wake'') wsid s)))))"

record message_input =
  mi_from :: string
  mi_to :: string
  mi_message :: string

definition send_message :: "openclaw \<Rightarrow> world \<Rightarrow> user \<Rightarrow> message_input \<Rightarrow> server \<Rightarrow> outcome" where
  "send_message run w u b s =
     (let wsid = usr_workspace_id u
      in case agent_named (mi_to b) wsid s of
           None \<Rightarrow> (Inr (error_response 404 ''Recipient agent not found''), s)
         | Some agent \<Rightarrow>
             (case or_null (g_session_key agent) of
                None \<Rightarrow> (Inr (error_response 400 ''Recipient agent has no session key configured''), s)
              | Some key \<Rightarrow>
                  (case run [''gateway'', ''sessions_send'', ''--session'', key, ''--message'',
                             ''Message from '' @ mi_from b @ '': '' @ mi_message b] of
                     Inl e \<Rightarrow> (Inr (error_response 500 ''Failed to send message''), s)
                   | Inr _ \<Rightarrow>
                       (Inr (json_response 200 (JObj [(''success'', JBool True)])),
                        logActivity w ''agent_message'' ''agent'' (g_id agent) (mi_from b) (''Sent message to '' @ mi_to b)
                          (Some (JObj [(''to'', JStr (mi_to b))])) wsid
                          (createNotification w (mi_to b) ''message'' ''Direct Message''
                             (mi_from b @ '': '' @ take 200 (mi_message b) @ (if 200 < length (mi_message b) then ''...'' else []))
                             (Some ''agent'') (Some (g_id agent)) wsid s)))))"

definition message_POST :: "openclaw \<Rightarrow> message_input schema \<Rightarrow> world \<Rightarrow> request \<Rightarrow> server \<Rightarrow> outcome" where
  "message_POST run parse = mutating_route ''operator'' (\<lambda>w req u s. with_body parse req s (\<lambda>b. send_message run w u b s))"

end
