(* ===== verification/MC_AgentWork.thy ===== *)
theory MC_AgentWork
  imports MC_Agents
begin

text \<open>
  What an agent asks for and keeps: the heartbeat with its work items, the working memory and the
  SOUL text, \<open>src/app/api/agents/[id]/heartbeat/route.ts\<close>, \<open>.../[id]/memory/route.ts\<close> and
  \<open>.../[id]/soul/route.ts\<close>.
\<close>

section \<open>LIKE\<close>

text \<open>SQLite's \<open>LIKE\<close>: \<open>%\<close> is any text, \<open>_\<close> one character, ASCII letters match in either case.\<close>

fun sql_like :: "string \<Rightarrow> string \<Rightarrow> bool" where
  "sql_like [] x = (x = [])"
| "sql_like (p # ps) [] = (p = CHR ''%'' \<and> sql_like ps [])"
| "sql_like (p # ps) (c # cs) =
     (if p = CHR ''%'' then sql_like ps (c # cs) \<or> sql_like (p # ps) cs
      else (p = CHR ''_'' \<or> lower_char p = lower_char c) \<and> sql_like ps cs)"

section \<open>Heartbeat\<close>

record work_item =
  wi_type :: string
  wi_count :: int
  wi_items :: "json list"

definition work_item_of :: "string \<Rightarrow> nat \<Rightarrow> json list \<Rightarrow> work_item list" where
  "work_item_of ty n items = (if n = 0 then [] else [\<lparr>wi_type = ty, wi_count = int n, wi_items = items\<rparr>])"

definition work_item_json :: "work_item \<Rightarrow> json" where
  "work_item_json i = JObj [(''type'', JStr (wi_type i)), (''count'', JNum (wi_count i)), (''items'', JArr (wi_items i))]"

text \<open>The column of a comment's mentions holds the JSON text of the list.\<close>

definition mentions_name :: "string \<Rightarrow> comment_row \<Rightarrow> bool" where
  "mentions_name name c = (case c_mentions c of
     None \<Rightarrow> False
   | Some ms \<Rightarrow> sql_like (''%'' @ [char_of (34 :: nat)] @ name @ [char_of (34 :: nat)] @ ''%'') (stringify (JArr (map JStr ms))))"

definition recent_mentions :: "world \<Rightarrow> string \<Rightarrow> int \<Rightarrow> server \<Rightarrow> (comment_row \<times> task_row) list" where
  "recent_mentions w name wsid s =
     take 10 (order_by_desc (sql_ord w) (c_created_at \<circ> fst)
       (concat (map (\<lambda>c. map (Pair c) (tbl_select (\<lambda>t. t_id t = c_task_id c \<and> t_workspace_id t = wsid) (tasks (db s))))
          (tbl_select (\<lambda>c. mentions_name name c \<and> c_workspace_id c = wsid \<and> now_s w - 4 * 60 * 60 < c_created_at c)
             (comments (db s))))))"

text \<open>\<open>ORDER BY priority DESC, created_at ASC\<close>: the priority is a text, so the order is that of the words.\<close>

fun priority_text_rank :: "task_priority \<Rightarrow> int" where
  "priority_text_rank Critical = 0"
| "priority_text_rank High = 1"
| "priority_text_rank Low = 2"
| "priority_text_rank Medium = 3"

definition assigned_tasks :: "world \<Rightarrow> string \<Rightarrow> int \<Rightarrow> server \<Rightarrow> task_row list" where
  "assigned_tasks w name wsid s =
     take 10 (order_by_desc2 (sql_ord w) (priority_text_rank \<circ> t_priority) (\<lambda>t. - t_created_at t)
       (tbl_select (\<lambda>t. t_assigned_to t = Some name \<and> t_workspace_id t = wsid \<and> t_status t \<in> {Assigned, In_progress})
          (tasks (db s))))"

definition urgent_activities :: "world \<Rightarrow> string \<Rightarrow> int \<Rightarrow> server \<Rightarrow> activity_row list" where
  "urgent_activities w name wsid s =
     take 5 (order_by_desc (sql_ord w) a_created_at
       (tbl_select (\<lambda>a. a_type a \<in> {''task_created'', ''task_assigned'', ''high_priority_alert''} \<and> a_workspace_id a = wsid \<and>
          now_s w - 4 * 60 * 60 < a_created_at a \<and> sql_like (''%'' @ name @ ''%'') (a_description a)) (activities (db s))))"

definition work_items :: "world \<Rightarrow> string \<Rightarrow> int \<Rightarrow> server \<Rightarrow> work_item list" where
  "work_items w name wsid s =
     (let mentions = recent_mentions w name wsid s; assigned = assigned_tasks w name wsid s;
          unread = getUnreadNotifications w name wsid s; urgent = urgent_activities w name wsid s
      in work_item_of ''mentions'' (length mentions) (map (\<lambda>(c, t). JObj [(''id'', JNum (c_id c)),
           (''task_title'', JStr (t_title t)), (''author'', JStr (c_author c)),
           (''content'', JStr (take 100 (c_content c) @ ''...'')), (''created_at'', JNum (c_created_at c))]) mentions) @
         work_item_of ''assigned_tasks'' (length assigned) (map (\<lambda>t. JObj [(''id'', JNum (t_id t)), (''title'', JStr (t_title t)),
           (''status'', JStr (task_status_str (t_status t))), (''priority'', JStr (task_priority_str (t_priority t))),
           (''due_date'', jnull JNum (t_due_date t))]) assigned) @
         work_item_of ''notifications'' (length unread) (map (\<lambda>n. JObj [(''id'', JNum (n_id n)), (''type'', JStr (n_type n)),
           (''title'', JStr (n_title n)), (''message'', JStr (n_message n)), (''created_at'', JNum (n_created_at n))]) (take 5 unread)) @
         work_item_of ''urgent_activities'' (length urgent) (map (\<lambda>a. JObj [(''id'', JNum (a_id a)), (''type'', JStr (a_type a)),
           (''description'', JStr (a_description a)), (''created_at'', JNum (a_created_at a))]) urgent))"

definition beat :: "world \<Rightarrow> agent_row \<Rightarrow> int \<Rightarrow> work_item list \<Rightarrow> server \<Rightarrow> server" where
  "beat w agent wsid items s =
     logActivity w ''agent_heartbeat'' ''agent'' (g_id agent) (g_name agent)
       (''Heartbeat check completed - '' @
        (if items \<noteq> [] then show_nat (length items) @ '' work items found'' else ''no work items''))
       (Some (JObj [(''workItemsCount'', JNum (int (length items))), (''workItemTypes'', JArr (map (JStr \<circ> wi_type) items))])) wsid
       (updateAgentStatus w (g_name agent) ''idle'' (Some ''Heartbeat check'') wsid s)"

definition heartbeat_body :: "world \<Rightarrow> agent_row \<Rightarrow> work_item list \<Rightarrow> (string \<times> json) list" where
  "heartbeat_body w agent items =
     (if items = [] then [(''status'', JStr ''HEARTBEAT_OK''), (''agent'', JStr (g_name agent)),
        (''checked_at'', JNum (now_s w)), (''message'', JStr ''No work items found'')]
      else [(''status'', JStr ''WORK_ITEMS_FOUND''), (''agent'', JStr (g_name agent)), (''checked_at'', JNum (now_s w)),
        (''work_items'', JArr (map work_item_json items)), (''total_items'', JNum (sum_list (map wi_count items)))])"

definition heartbeat :: "string \<Rightarrow> world \<Rightarrow> user \<Rightarrow> server \<Rightarrow> outcome" where
  "heartbeat idp w u s =
     (let wsid = usr_workspace_id u
      in case find_agent idp wsid s of
           None \<Rightarrow> (Inr (error_response 404 ''Agent not found''), s)
         | Some agent \<Rightarrow>
             (let items = work_items w (g_name agent) wsid s
              in (Inr (json_response 200 (JObj (heartbeat_body w agent items))), beat w agent wsid items s)))"

definition heartbeat_GET :: "string \<Rightarrow> world \<Rightarrow> request \<Rightarrow> server \<Rightarrow> outcome" where
  "heartbeat_GET idp w req s = with_role w req ''viewer'' s (\<lambda>u. heartbeat idp w u s)"

text \<open>
  \<open>POST\<close>: the body may be missing, but \<open>null\<close> and values that cannot be bound throw out of the
  handler. The new row gets the default workspace of the column.
\<close>

definition touch_connection :: "world \<Rightarrow> int \<Rightarrow> json \<Rightarrow> server \<Rightarrow> string + server" where
  "touch_connection w wsid body s =
     (case truthy_prop ''connection_id'' body of
        None \<Rightarrow> Inr s
      | Some v \<Rightarrow>
          (case bind_text v of
             Inl e \<Rightarrow> Inl e
           | Inr key \<Rightarrow> Inr (s\<lparr>db := (db s)\<lparr>direct_connections := tbl_update
               (\<lambda>c. Some (dc_connection_id c) = key \<and> dc_status c = ''connected'' \<and> dc_workspace_id c = wsid)
               (\<lambda>c. c\<lparr>dc_last_heartbeat := Some (now_s w), dc_updated_at := now_s w\<rparr>) (direct_connections (db s))\<rparr>\<rparr>)))"

definition reported_usage :: "json \<Rightarrow> (json \<times> json \<times> json) option" where
  "reported_usage body =
     (case truthy_prop ''token_usage'' body of
        None \<Rightarrow> None
      | Some tu \<Rightarrow>
          (case (truthy_prop ''model'' tu, jget ''inputTokens'' tu, jget ''outputTokens'' tu) of
             (Some m, Some i, Some j) \<Rightarrow> if i = JNull \<or> j = JNull then None else Some (m, i, j)
           | _ \<Rightarrow> None))"

definition report_tokens :: "world \<Rightarrow> string \<Rightarrow> int \<Rightarrow> json \<Rightarrow> server \<Rightarrow> string + bool \<times> server" where
  "report_tokens w idp wsid body s =
     (case reported_usage body of
        None \<Rightarrow> Inr (False, s)
      | Some (m, i, j) \<Rightarrow>
          (case find_agent idp wsid s of
             None \<Rightarrow> Inr (False, s)
           | Some agent \<Rightarrow>
               (case (bind_text m, bind_int i, bind_int j) of
                  (Inr (Some model), Inr (Some ti), Inr (Some tj)) \<Rightarrow>
                    Inr (True, s\<lparr>db := (db s)\<lparr>token_usage := snd (tbl_insert (\<lambda>n. \<lparr>tu_id = n, tu_model = model,
                      tu_session_id = g_name agent @ '':cli'', tu_input_tokens = ti, tu_output_tokens = tj,
                      tu_created_at = now_s w, tu_workspace_id = 1\<rparr>) (token_usage (db s)))\<rparr>\<rparr>)
                | (Inl e, _) \<Rightarrow> Inl e | (_, Inl e, _) \<Rightarrow> Inl e | (_, _, Inl e) \<Rightarrow> Inl e
                | _ \<Rightarrow> Inl ''NOT NULL constraint failed: token_usage.input_tokens'')))"

definition heartbeat_POST :: "string \<Rightarrow> world \<Rightarrow> request \<Rightarrow> server \<Rightarrow> outcome" where
  "heartbeat_POST idp w req s = with_role w req ''operator'' s (\<lambda>u.
     (let body = (case req_body req of None \<Rightarrow> JObj [] | Some b \<Rightarrow> b); wsid = usr_workspace_id u
      in if body = JNull then (Inl ''Cannot destructure property 'connection_id' of 'body' as it is null.'', s)
         else case touch_connection w wsid body s of
           Inl e \<Rightarrow> (Inl e, s)
         | Inr s1 \<Rightarrow>
             (case report_tokens w idp wsid body s1 of
                Inl e \<Rightarrow> (Inl e, s1)
              | Inr (recorded, s2) \<Rightarrow>
                  (case heartbeat_GET idp w req s2 of
                     (Inl e, s3) \<Rightarrow> (Inl e, s3)
                   | (Inr r, s3) \<Rightarrow> (Inr (json_response 200 (JObj (spread (obj_props (resp_body r))
                       [(''token_recorded'', JBool recorded)]))), s3)))))"

section \<open>Working memory\<close>

text \<open>
  The row is read by the id as a number, and written by the text of the parameter, which SQLite
  converts. A \<open>working_memory\<close> that is neither a text nor missing is outside the model.
\<close>

definition same_agent :: "string \<Rightarrow> int \<Rightarrow> agent_row \<Rightarrow> bool" where
  "same_agent idp wsid g \<longleftrightarrow>
     (if js_number idp = None then g_name g = idp else text_int idp = Some (g_id g)) \<and> g_workspace_id g = wsid"

definition ensure_memory_column :: "database \<Rightarrow> database" where
  "ensure_memory_column d =
     (if working_memory_column d then d
      else d\<lparr>working_memory_column := True,
             agents := tbl_update (\<lambda>g. True) (\<lambda>g. g\<lparr>g_working_memory := Some []\<rparr>) (agents d)\<rparr>)"

definition current_memory :: "string \<Rightarrow> int \<Rightarrow> database \<Rightarrow> string" where
  "current_memory idp wsid d =
     (case tbl_first (same_agent idp wsid) (agents d) of None \<Rightarrow> [] | Some g \<Rightarrow> or_else (g_working_memory g) [])"

definition agent_ref :: "agent_row \<Rightarrow> json" where
  "agent_ref g = JObj [(''id'', JNum (g_id g)), (''name'', JStr (g_name g)), (''role'', JStr (g_role g))]"

definition memory_GET :: "string \<Rightarrow> world \<Rightarrow> request \<Rightarrow> server \<Rightarrow> outcome" where
  "memory_GET idp w req s = with_role w req ''viewer'' s (\<lambda>u.
     (case find_agent idp (usr_workspace_id u) s of
        None \<Rightarrow> (Inr (error_response 404 ''Agent not found''), s)
      | Some agent \<Rightarrow>
          (let d = ensure_memory_column (db s); mem = current_memory idp (usr_workspace_id u) d
           in (Inr (json_response 200 (JObj [(''agent'', agent_ref agent), (''working_memory'', JStr mem),
                 (''updated_at'', JNum (g_updated_at agent)), (''size'', JNum (int (length mem)))])), s\<lparr>db := d\<rparr>))))"

text \<open>\<open>`${v}`\<close> for a text, \<open>null\<close> or \<open>undefined\<close>\<close>

definition js_print :: "json option \<Rightarrow> string" where
  "js_print v = (case v of None \<Rightarrow> ''undefined'' | Some (JStr x) \<Rightarrow> x | Some _ \<Rightarrow> ''null'')"

definition new_memory :: "string \<Rightarrow> string \<Rightarrow> json \<Rightarrow> string" where
  "new_memory timestamp current body =
     (if truthy_prop ''append'' body = None then or_else (str_field ''working_memory'' body) []
      else current @ (if current = [] then [] else [char_of (10 :: nat), char_of (10 :: nat)]) @
           ''## '' @ timestamp @ [char_of (10 :: nat)] @ js_print (jget ''working_memory'' body))"

definition set_memory :: "world \<Rightarrow> string \<Rightarrow> int \<Rightarrow> string \<Rightarrow> database \<Rightarrow> database" where
  "set_memory w idp wsid content d = d\<lparr>agents := tbl_update (same_agent idp wsid)
     (\<lambda>g. g\<lparr>g_working_memory := Some content, g_updated_at := now_s w\<rparr>) (agents d)\<rparr>"

definition store_memory :: "string \<Rightarrow> world \<Rightarrow> user \<Rightarrow> agent_row \<Rightarrow> json option \<Rightarrow> string \<Rightarrow> server \<Rightarrow> outcome" where
  "store_memory idp w u agent app content s =
     (let wsid = usr_workspace_id u; verb = (if app = None then ''updated'' else ''appended'');
          flag = (case app of None \<Rightarrow> JBool False | Some v \<Rightarrow> v)
      in (Inr (json_response 200 (JObj [(''success'', JBool True),
            (''message'', JStr (''Working memory '' @ verb @ '' for '' @ g_name agent)), (''working_memory'', JStr content),
            (''updated_at'', JNum (now_s w)), (''size'', JNum (int (length content)))])),
          logActivity w ''agent_memory_updated'' ''agent'' (g_id agent) (g_name agent)
            (''Working memory '' @ verb @ '' for agent '' @ g_name agent)
            (Some (JObj [(''content_length'', JNum (int (length content))), (''append_mode'', flag), (''timestamp'', JNum (now_s w))]))
            wsid (s\<lparr>db := set_memory w idp wsid content (db s)\<rparr>)))"

text \<open>The time of an entry is only printed when one is appended.\<close>

definition write_memory :: "string \<Rightarrow> world \<Rightarrow> user \<Rightarrow> json \<Rightarrow> agent_row \<Rightarrow> server \<Rightarrow> outcome" where
  "write_memory idp w u body agent s =
     (let d = ensure_memory_column (db s); app = truthy_prop ''append'' body;
          timestamp = (if app = None then Some [] else toISOString (now_ms w))
      in case timestamp of
           None \<Rightarrow> (Inr (error_response 500 ''Failed to update working memory''), s\<lparr>db := d\<rparr>)
         | Some t \<Rightarrow> store_memory idp w u agent app
             (new_memory t (current_memory idp (usr_workspace_id u) d) body) (s\<lparr>db := d\<rparr>))"

definition memory_PUT :: "string \<Rightarrow> world \<Rightarrow> request \<Rightarrow> server \<Rightarrow> outcome" where
  "memory_PUT idp w req s = with_role w req ''operator'' s (\<lambda>u.
     case req_body req of
       None \<Rightarrow> (Inr (error_response 500 ''Failed to update working memory''), s)
     | Some JNull \<Rightarrow> (Inr (error_response 500 ''Failed to update working memory''), s)
     | Some body \<Rightarrow>
         (case find_agent idp (usr_workspace_id u) s of
            None \<Rightarrow> (Inr (error_response 404 ''Agent not found''), s)
          | Some agent \<Rightarrow> write_memory idp w u body agent s))"

text \<open>\<open>DELETE\<close> does not create the column: before the first use of a memory the statement fails.\<close>

definition memory_DELETE :: "string \<Rightarrow> world \<Rightarrow> request \<Rightarrow> server \<Rightarrow> outcome" where
  "memory_DELETE idp w req s = with_role w req ''operator'' s (\<lambda>u.
     (let wsid = usr_workspace_id u
      in case find_agent idp wsid s of
           None \<Rightarrow> (Inr (error_response 404 ''Agent not found''), s)
         | Some agent \<Rightarrow>
             if \<not> working_memory_column (db s) then (Inr (error_response 500 ''Failed to clear working memory''), s)
             else
               (Inr (json_response 200 (JObj [(''success'', JBool True),
                  (''message'', JStr (''Working memory cleared for '' @ g_name agent)), (''working_memory'', JStr []),
                  (''updated_at'', JNum (now_s w))])),
                logActivity w ''agent_memory_cleared'' ''agent'' (g_id agent) (g_name agent)
                  (''Working memory cleared for agent '' @ g_name agent) (Some (JObj [(''timestamp'', JNum (now_s w))])) wsid
                  (s\<lparr>db := set_memory w idp wsid [] (db s)\<rparr>))))"

section \<open>SOUL\<close>

text \<open>
  \<open>text.replace(/pattern/g, replacement)\<close> for a fixed pattern. A replacement with dollar signs, which
  JavaScript expands, is outside the model.
\<close>

function replace_all :: "string \<Rightarrow> string \<Rightarrow> string \<Rightarrow> string" where
  "replace_all pat rep [] = []"
| "replace_all pat rep (c # cs) =
     (if pat \<noteq> [] \<and> starts_with pat (c # cs) then rep @ replace_all pat rep (drop (length pat) (c # cs))
      else c # replace_all pat rep cs)"
  by pat_completeness auto
termination
  by (relation "measure (\<lambda>(pat, rep, x). length x)") auto

definition config_soulTemplatesDir :: "world \<Rightarrow> string" where
  "config_soulTemplatesDir w = or_else (getenv w ''OPENCLAW_SOUL_TEMPLATES_DIR'')
     (if config_openclawHome w = [] then [] else posix_join [config_openclawHome w, ''templates'', ''souls''])"

definition soul_path :: "oc_files \<Rightarrow> agent_row \<Rightarrow> string option" where
  "soul_path fs agent =
     (case truthy_prop ''workspace'' (agent_config agent) of
        Some (JStr ws) \<Rightarrow>
          if oc_home fs = [] then None
          else (case resolveWithin (oc_cwd fs) (oc_home fs) ws of
             Inl e \<Rightarrow> None
           | Inr dir \<Rightarrow> (case resolveWithin (oc_cwd fs) dir ''soul.md'' of Inl e \<Rightarrow> None | Inr p \<Rightarrow> Some p))
      | _ \<Rightarrow> None)"

text \<open>\<open>file.replace('.md', '')\<close>: the first occurrence.\<close>

fun without_md :: "string \<Rightarrow> string" where
  "without_md [] = []"
| "without_md (c # cs) = (if starts_with ''.md'' (c # cs) then drop 3 (c # cs) else c # without_md cs)"

definition template_names :: "oc_files \<Rightarrow> string \<Rightarrow> string list" where
  "template_names fs dir =
     (if dir = [] then []
      else case oc_listing fs dir of
        None \<Rightarrow> []
      | Some files \<Rightarrow> map without_md (filter (ends_with ''.md'') files))"

definition soul_GET :: "oc_files \<Rightarrow> string \<Rightarrow> world \<Rightarrow> request \<Rightarrow> server \<Rightarrow> outcome" where
  "soul_GET fs idp w req s = with_role w req ''viewer'' s (\<lambda>u.
     (case find_agent idp (usr_workspace_id u) s of
        None \<Rightarrow> (Inr (error_response 404 ''Agent not found''), s)
      | Some agent \<Rightarrow>
          (let from_file = Option.bind (soul_path fs agent) (oc_file fs);
               (soul, source) = (case (or_null from_file, or_null (g_soul_content agent)) of
                  (Some x, _) \<Rightarrow> (x, ''workspace'')
                | (None, Some x) \<Rightarrow> (x, ''database'')
                | (None, None) \<Rightarrow> ([], if from_file = None then ''none'' else ''workspace''))
           in (Inr (json_response 200 (JObj [(''agent'', agent_ref agent), (''soul_content'', JStr soul),
                 (''source'', JStr source),
                 (''available_templates'', JArr (map JStr (template_names fs (config_soulTemplatesDir w)))),
                 (''updated_at'', JNum (g_updated_at agent))])), s))))"

text \<open>A template that is loaded for an agent; \<open>Inl\<close> is the refusal.\<close>

definition load_template :: "oc_files \<Rightarrow> world \<Rightarrow> agent_row \<Rightarrow> string \<Rightarrow> response + string" where
  "load_template fs w agent name =
     (if config_soulTemplatesDir w = [] then Inl (error_response 500 ''Templates directory not configured'')
      else case resolveWithin (oc_cwd fs) (config_soulTemplatesDir w) (name @ ''.md'') of
        Inl e \<Rightarrow> Inl (error_response 400 ''Invalid template name'')
      | Inr path \<Rightarrow>
          (case oc_file fs path of
             None \<Rightarrow> Inl (error_response 404 ''Template not found'')
           | Some content \<Rightarrow>
               (case toISOString (now_ms w) of
                  None \<Rightarrow> Inl (error_response 500 ''Failed to load template'')
                | Some now \<Rightarrow> Inr (replace_all ''{{TIMESTAMP}}'' now
                    (replace_all ''{{AGENT_ROLE}}'' (g_role agent) (replace_all ''{{AGENT_NAME}}'' (g_name agent) content))))))"

definition write_soul_file :: "oc_files \<Rightarrow> agent_row \<Rightarrow> string option \<Rightarrow> bool \<times> oc_files" where
  "write_soul_file fs agent soul =
     (case soul_path fs agent of
        None \<Rightarrow> (False, fs)
      | Some path \<Rightarrow>
          if oc_writable fs path then (True, fs\<lparr>oc_file := (oc_file fs)(path \<mapsto> or_else soul [])\<rparr>) else (False, fs))"

definition store_soul ::
  "oc_files \<Rightarrow> string \<Rightarrow> world \<Rightarrow> user \<Rightarrow> agent_row \<Rightarrow> string option \<Rightarrow> json option \<Rightarrow> string option \<Rightarrow> server \<Rightarrow> outcome \<times> oc_files"
where
  "store_soul fs idp w u agent template given soul s =
     (let wsid = usr_workspace_id u; (saved, fs') = write_soul_file fs agent soul;
          len = (\<lambda>x. JNum (int (length (or_else x []))));
          s1 = s\<lparr>db := (db s)\<lparr>agents := tbl_update (same_agent idp wsid)
                 (\<lambda>g. g\<lparr>g_soul_content := soul, g_updated_at := now_s w\<rparr>) (agents (db s))\<rparr>\<rparr>
      in ((Inr (json_response 200 (JObj ([(''success'', JBool True),
             (''message'', JStr (''SOUL content updated for '' @ g_name agent))] @ jopt ''soul_content'' id given @
             [(''saved_to_workspace'', JBool saved), (''updated_at'', JNum (now_s w))]))),
           logActivity w ''agent_soul_updated'' ''agent'' (g_id agent) (usr_username u)
             (''SOUL content updated for agent '' @ g_name agent @
              (case template of None \<Rightarrow> [] | Some t \<Rightarrow> '' using template: '' @ t) @
              (if saved then '' (synced to workspace)'' else []))
             (Some (JObj [(''template_used'', jnull JStr template), (''content_length'', len soul),
                (''previous_content_length'', len (g_soul_content agent)), (''saved_to_workspace'', JBool saved)])) wsid s1),
          fs'))"

text \<open>
  A \<open>soul_content\<close> that is neither a text, \<open>null\<close> nor missing, and a \<open>template_name\<close> that is not a
  text, are outside the model.
\<close>

definition put_soul :: "oc_files \<Rightarrow> string \<Rightarrow> world \<Rightarrow> request \<Rightarrow> user \<Rightarrow> server \<Rightarrow> outcome \<times> oc_files" where
  "put_soul fs idp w req u s =
     (case req_body req of
        None \<Rightarrow> ((Inr (error_response 500 ''Failed to update SOUL content''), s), fs)
      | Some JNull \<Rightarrow> ((Inr (error_response 500 ''Failed to update SOUL content''), s), fs)
      | Some body \<Rightarrow>
          (case find_agent idp (usr_workspace_id u) s of
             None \<Rightarrow> ((Inr (error_response 404 ''Agent not found''), s), fs)
           | Some agent \<Rightarrow>
               (case or_null (str_field ''template_name'' body) of
                  None \<Rightarrow> store_soul fs idp w u agent None (jget ''soul_content'' body) (str_field ''soul_content'' body) s
                | Some name \<Rightarrow>
                    (case load_template fs w agent name of
                       Inl r \<Rightarrow> ((Inr r, s), fs)
                     | Inr soul \<Rightarrow> store_soul fs idp w u agent (Some name) (Some (JStr soul)) (Some soul) s))))"

definition soul_PUT :: "oc_files \<Rightarrow> string \<Rightarrow> world \<Rightarrow> request \<Rightarrow> server \<Rightarrow> outcome" where
  "soul_PUT fs idp w req s = with_role w req ''operator'' s (\<lambda>u. fst (put_soul fs idp w req u s))"

text \<open>\<open>PATCH\<close> lists the templates or returns one. It checks no role.\<close>

definition template_description :: "string \<Rightarrow> string \<Rightarrow> string" where
  "template_description name content =
     (let first = hd (split_on (char_of (10 :: nat)) content)
      in if starts_with ''#'' first then dropWhile is_ws (dropWhile (\<lambda>c. c = CHR ''#'') first) else name @ '' template'')"

definition list_template :: "oc_files \<Rightarrow> string \<Rightarrow> string \<Rightarrow> json option" where
  "list_template fs dir file_name =
     (case oc_file fs (posix_join [dir, file_name]) of
        None \<Rightarrow> None
      | Some content \<Rightarrow> Some (JObj [(''name'', JStr (without_md file_name)),
          (''description'', JStr (template_description (without_md file_name) content)),
          (''size'', JNum (int (length content)))]))"

definition soul_PATCH :: "oc_files \<Rightarrow> world \<Rightarrow> request \<Rightarrow> response" where
  "soul_PATCH fs w req =
     (let dir = config_soulTemplatesDir w
      in case (if dir = [] then None else oc_listing fs dir) of
           None \<Rightarrow> json_response 200 (JObj [(''templates'', JArr []), (''message'', JStr ''Templates directory not found'')])
         | Some files \<Rightarrow>
             (case nonempty_param req ''template'' of
                Some name \<Rightarrow>
                  (case resolveWithin (oc_cwd fs) dir (name @ ''.md'') of
                     Inl e \<Rightarrow> error_response 400 ''Invalid template name''
                   | Inr path \<Rightarrow>
                       (case oc_file fs path of
                          None \<Rightarrow> error_response 404 ''Template not found''
                        | Some content \<Rightarrow> json_response 200 (JObj [(''template_name'', JStr name), (''content'', JStr content)])))
              | None \<Rightarrow>
                  (let entries = map (list_template fs dir) (filter (ends_with ''.md'') files)
                   in if None \<in> set entries then error_response 500 ''Failed to fetch templates''
                      else json_response 200 (JObj [(''templates'', JArr (map the entries))]))))"

section \<open>What a heartbeat reports\<close>

lemma order_by_desc2_sorted:
  assumes "sql_order ord"
  shows "mset (order_by_desc2 ord k1 k2 rs) = mset rs"
    and "sorted_wrt (\<lambda>a b. k1 b \<le> k1 a) (order_by_desc2 ord k1 k2 rs)"
proof -
  define part where "part k = order_by_desc ord k2 (filter (\<lambda>r. k1 r = k) rs)" for k
  have part: "mset (part k) = filter_mset (\<lambda>r. k1 r = k) (mset rs)" for k
    unfolding part_def by (simp add: sql_order.mset_order_by_desc [OF assms])
  have in_part: "k1 r = k" if "r \<in> set (part k)" for k r
    using that by (simp add: part_def sql_order.set_order_by_desc [OF assms])
  let ?ks = "rev (sort (remdups (map k1 rs)))"
  have eq: "order_by_desc2 ord k1 k2 rs = concat (map part ?ks)" by (simp add: order_by_desc2_def part_def [abs_def])
  have count: "count (mset (concat (map part ks))) r = (if k1 r \<in> set ks then count (mset rs) r else 0)" if "distinct ks" for ks r
    using that by (induction ks) (auto simp: part)
  show "mset (order_by_desc2 ord k1 k2 rs) = mset rs"
  proof (rule multiset_eqI)
    fix r
    have "count (mset rs) r = 0" if "k1 r \<notin> set ?ks" using that by (force simp: count_eq_zero_iff)
    then show "count (mset (order_by_desc2 ord k1 k2 rs)) r = count (mset rs) r"
      unfolding eq by (subst count) auto
  qed
  have "sorted_wrt (\<lambda>a b. k1 b \<le> k1 a) (concat (map part ks))" if "sorted_wrt (\<ge>) ks" for ks
    using that
  proof (induction ks)
    case (Cons k ks)
    have "sorted_wrt (\<lambda>a b. k1 b \<le> k1 a) xs" if "\<forall>x \<in> set xs. k1 x = k" for xs
      using that by (induction xs) auto
    then have "sorted_wrt (\<lambda>a b. k1 b \<le> k1 a) (part k)" using in_part by blast
    with Cons in_part show ?case by (auto simp: sorted_wrt_append)
  qed simp
  moreover have "sorted_wrt (\<ge>) ?ks" by (simp add: sorted_wrt_rev)
  ultimately show "sorted_wrt (\<lambda>a b. k1 b \<le> k1 a) (order_by_desc2 ord k1 k2 rs)" unfolding eq by blast
qed

lemma take_above:
  assumes "sorted_wrt (\<lambda>a b. k b \<le> (k a :: int)) xs" and "n \<le> length (filter (\<lambda>x. v < k x) xs)" and "x \<in> set (take n xs)"
  shows "v < k x"
  using assms
proof (induction xs arbitrary: n)
  case (Cons y ys)
  show ?case
  proof (cases "v < k y")
    case True
    with Cons show ?thesis by (cases n) auto
  next
    case False
    with Cons.prems(1) have "filter (\<lambda>x. v < k x) (y # ys) = []" by (auto simp: filter_empty_conv)
    with Cons.prems(2,3) show ?thesis by simp
  qed
qed simp

definition open_tasks :: "string \<Rightarrow> int \<Rightarrow> server \<Rightarrow> task_row list" where
  "open_tasks name wsid s = tbl_select (\<lambda>t. t_assigned_to t = Some name \<and> t_workspace_id t = wsid \<and>
     t_status t \<in> {Assigned, In_progress}) (tasks (db s))"

definition by_priority :: "world \<Rightarrow> task_row list \<Rightarrow> task_row list" where
  "by_priority w ts = order_by_desc2 (sql_ord w) (priority_text_rank \<circ> t_priority) (\<lambda>t. - t_created_at t) ts"

lemma assigned_tasks_eq: "assigned_tasks w name wsid s = take 10 (by_priority w (open_tasks name wsid s))"
  by (simp add: assigned_tasks_def by_priority_def open_tasks_def)

lemma by_priority:
  assumes "sql_order (sql_ord w)"
  shows "mset (by_priority w ts) = mset ts" "set (by_priority w ts) = set ts" "length (by_priority w ts) = length ts"
    "sorted_wrt (\<lambda>a b. priority_text_rank (t_priority b) \<le> priority_text_rank (t_priority a)) (by_priority w ts)"
proof -
  show m: "mset (by_priority w ts) = mset ts" unfolding by_priority_def by (rule order_by_desc2_sorted(1) [OF assms])
  from mset_eq_setD [OF m] show "set (by_priority w ts) = set ts" .
  from mset_eq_length [OF m] show "length (by_priority w ts) = length ts" .
  show "sorted_wrt (\<lambda>a b. priority_text_rank (t_priority b) \<le> priority_text_rank (t_priority a)) (by_priority w ts)"
    unfolding by_priority_def
    using order_by_desc2_sorted(2) [OF assms, of "priority_text_rank \<circ> t_priority" "\<lambda>t. - t_created_at t" ts] by simp
qed

lemma rank_pos: "0 < priority_text_rank p \<longleftrightarrow> p \<noteq> Critical"
  by (cases p) simp_all

lemma critical_last:
  assumes "sql_order (sql_ord w)" and "10 \<le> length (filter (\<lambda>t. t_priority t \<noteq> Critical) ts)"
    and "t \<in> set (take 10 (by_priority w ts))"
  shows "t_priority t \<noteq> Critical"
proof -
  have m: "mset (filter (\<lambda>t. t_priority t \<noteq> Critical) (by_priority w ts)) = mset (filter (\<lambda>t. t_priority t \<noteq> Critical) ts)"
    by (simp add: by_priority(1) [OF assms(1)])
  from mset_eq_length [OF m] have "10 \<le> length (filter (\<lambda>t. 0 < priority_text_rank (t_priority t)) (by_priority w ts))"
    unfolding rank_pos using assms(2) by simp
  from take_above [OF by_priority(4) [OF assms(1)] this assms(3)] show ?thesis by (simp add: rank_pos)
qed

text \<open>What counts as work for an agent: an open task, an unread notification, or a mention or an urgent activity of the last four hours.\<close>

definition something_to_do :: "world \<Rightarrow> string \<Rightarrow> int \<Rightarrow> server \<Rightarrow> bool" where
  "something_to_do w name wsid s \<longleftrightarrow>
     (\<exists>t \<in> set (rows (tasks (db s))). t_assigned_to t = Some name \<and> t_workspace_id t = wsid \<and> t_status t \<in> {Assigned, In_progress}) \<or>
     (\<exists>n \<in> set (rows (notifications (db s))). n_recipient n = name \<and> n_read_at n = None \<and> n_workspace_id n = wsid) \<or>
     (\<exists>c \<in> set (rows (comments (db s))). \<exists>t \<in> set (rows (tasks (db s))). c_task_id c = t_id t \<and> t_workspace_id t = wsid \<and>
        c_workspace_id c = wsid \<and> now_s w - 14400 < c_created_at c \<and> mentions_name name c) \<or>
     (\<exists>a \<in> set (rows (activities (db s))). a_type a \<in> {''task_created'', ''task_assigned'', ''high_priority_alert''} \<and>
        a_workspace_id a = wsid \<and> now_s w - 14400 < a_created_at a \<and> sql_like (''%'' @ name @ ''%'') (a_description a))"

lemma take_order_empty:
  "sql_order ord \<Longrightarrow> 0 < n \<Longrightarrow> take n (order_by_desc ord key rs) = [] \<longleftrightarrow> rs = []"
  by (metis length_0_conv sql_order.length_order_by_desc take_eq_Nil2 nat_less_le)

lemma work_items_empty:
  assumes "sql_order (sql_ord w)"
  shows "work_items w name wsid s = [] \<longleftrightarrow> \<not> something_to_do w name wsid s"
proof -
  have "length (assigned_tasks w name wsid s) = 0 \<longleftrightarrow> length (open_tasks name wsid s) = 0"
    by (cases "open_tasks name wsid s") (simp_all add: assigned_tasks_eq by_priority(3) [OF assms] min_def)
  then have 1: "assigned_tasks w name wsid s = [] \<longleftrightarrow> \<not> (\<exists>t \<in> set (rows (tasks (db s))). t_assigned_to t = Some name \<and>
      t_workspace_id t = wsid \<and> t_status t \<in> {Assigned, In_progress})"
    by (auto simp: open_tasks_def tbl_select_def filter_empty_conv)
  have 2: "getUnreadNotifications w name wsid s = [] \<longleftrightarrow> \<not> (\<exists>n \<in> set (rows (notifications (db s))). n_recipient n = name \<and>
      n_read_at n = None \<and> n_workspace_id n = wsid)"
    unfolding getUnreadNotifications_def length_0_conv [symmetric] sql_order.length_order_by_desc [OF assms]
    by (auto simp: tbl_select_def filter_empty_conv)
  have 3: "recent_mentions w name wsid s = [] \<longleftrightarrow> \<not> (\<exists>c \<in> set (rows (comments (db s))). \<exists>t \<in> set (rows (tasks (db s))).
      c_task_id c = t_id t \<and> t_workspace_id t = wsid \<and> c_workspace_id c = wsid \<and> now_s w - 14400 < c_created_at c \<and> mentions_name name c)"
    unfolding recent_mentions_def
    by (subst take_order_empty [OF assms]) (auto simp: tbl_select_def filter_empty_conv)
  have 4: "urgent_activities w name wsid s = [] \<longleftrightarrow> \<not> (\<exists>a \<in> set (rows (activities (db s))).
      a_type a \<in> {''task_created'', ''task_assigned'', ''high_priority_alert''} \<and>
      a_workspace_id a = wsid \<and> now_s w - 14400 < a_created_at a \<and> sql_like (''%'' @ name @ ''%'') (a_description a))"
    unfolding urgent_activities_def
    by (subst take_order_empty [OF assms]) (auto simp: tbl_select_def filter_empty_conv)
  have "work_items w name wsid s = [] \<longleftrightarrow> assigned_tasks w name wsid s = [] \<and> getUnreadNotifications w name wsid s = [] \<and>
      recent_mentions w name wsid s = [] \<and> urgent_activities w name wsid s = []"
    by (auto simp: work_items_def work_item_of_def Let_def)
  then show ?thesis unfolding 1 2 3 4 something_to_do_def by blast
qed

text \<open>The entry of the open tasks in the answer.\<close>

definition task_entry :: "task_row list \<Rightarrow> json" where
  "task_entry ts = JObj [(''type'', JStr ''assigned_tasks''), (''count'', JNum (int (length ts))),
     (''items'', JArr (map (\<lambda>t. JObj [(''id'', JNum (t_id t)), (''title'', JStr (t_title t)),
        (''status'', JStr (task_status_str (t_status t))), (''priority'', JStr (task_priority_str (t_priority t))),
        (''due_date'', jnull JNum (t_due_date t))]) ts))]"

lemma task_entries:
  "filter (\<lambda>i. jget ''type'' i = Some (JStr ''assigned_tasks'')) (map work_item_json (work_items w name wsid s)) =
     (if assigned_tasks w name wsid s = [] then [] else [task_entry (assigned_tasks w name wsid s)])"
  by (simp add: work_items_def work_item_of_def work_item_json_def task_entry_def Let_def)

lemma updateAgentStatus_frame [frame_simps]:
  fixes w name st act wsid s defines "s' \<equiv> updateAgentStatus w name st act wsid s"
  shows "tasks (db s') = tasks (db s)" "comments (db s') = comments (db s)" "notifications (db s') = notifications (db s)"
    "direct_connections (db s') = direct_connections (db s)" "users (db s') = users (db s)"
    "agents (db s') = tbl_update (\<lambda>x. g_name x = name \<and> g_workspace_id x = wsid)
       (\<lambda>x. x\<lparr>g_status := st, g_last_seen := Some (now_s w), g_last_activity := act, g_updated_at := now_s w\<rparr>) (agents (db s))"
  unfolding s'_def updateAgentStatus_def Let_def logActivity_frame by (simp_all split: option.split)

text \<open>Logging an activity adds one row and one event and changes nothing else.\<close>

lemma logActivity_effect:
  "\<exists>a e. rows (activities (db (logActivity w ty et ei ac de da n s))) = rows (activities (db s)) @ [a] \<and> a_type a = ty \<and>
     a_workspace_id a = n \<and> db (logActivity w ty et ei ac de da n s) =
       (db s)\<lparr>activities := activities (db (logActivity w ty et ei ac de da n s))\<rparr> \<and>
     logActivity w ty et ei ac de da n s = s\<lparr>db := db (logActivity w ty et ei ac de da n s), bus := bus s @ [e]\<rparr>"
  by (auto simp: logActivity_def Let_def case_prod_beta broadcast_def rows_tbl_insert)

lemma same_rest: "s1 = s0\<lparr>db := d, bus := b\<rparr> \<Longrightarrow> s1\<lparr>db := d', bus := b'\<rparr> = s0\<lparr>db := d', bus := b'\<rparr>"
  by simp

lemma beat_effect:
  "\<exists>a1 a2 es. rows (activities (db (beat w g wsid items s))) = rows (activities (db s)) @ [a1, a2] \<and>
     a_type a1 = ''agent_status_change'' \<and> a_type a2 = ''agent_heartbeat'' \<and> a_workspace_id a1 = wsid \<and> a_workspace_id a2 = wsid \<and>
     beat w g wsid items s = s\<lparr>db := (db s)\<lparr>agents := tbl_update (\<lambda>x. g_name x = g_name g \<and> g_workspace_id x = wsid)
         (\<lambda>x. x\<lparr>g_status := ''idle'', g_last_seen := Some (now_s w), g_last_activity := Some ''Heartbeat check'',
                 g_updated_at := now_s w\<rparr>) (agents (db s)),
       activities := activities (db (beat w g wsid items s))\<rparr>, bus := bus s @ es\<rparr>"
proof -
  define s0 where "s0 = s\<lparr>db := (db s)\<lparr>agents := tbl_update (\<lambda>x. g_name x = g_name g \<and> g_workspace_id x = wsid)
         (\<lambda>x. x\<lparr>g_status := ''idle'', g_last_seen := Some (now_s w), g_last_activity := Some ''Heartbeat check'',
                 g_updated_at := now_s w\<rparr>) (agents (db s))\<rparr>\<rparr>"
  define s1 where "s1 = updateAgentStatus w (g_name g) ''idle'' (Some ''Heartbeat check'') wsid s"
  have "\<exists>es0 et ei de da. s1 = logActivity w ''agent_status_change'' et ei (g_name g) de da wsid (s0\<lparr>bus := bus s @ es0\<rparr>)"
    unfolding s1_def updateAgentStatus_def Let_def s0_def broadcast_def
    by (cases "tbl_first (\<lambda>ga. g_name ga = g_name g \<and> g_workspace_id ga = wsid) (agents (db s))")
      (simp_all, (rule exI [of _ "[]"], simp, blast), blast)
  then obtain es0 et ei de da where s1: "s1 = logActivity w ''agent_status_change'' et ei (g_name g) de da wsid (s0\<lparr>bus := bus s @ es0\<rparr>)"
    by blast
  obtain a1 e1 where 1: "rows (activities (db s1)) = rows (activities (db s)) @ [a1]" "a_type a1 = ''agent_status_change''"
    "a_workspace_id a1 = wsid" "db s1 = (db s0)\<lparr>activities := activities (db s1)\<rparr>"
    "s1 = s0\<lparr>db := db s1, bus := bus s @ es0 @ [e1]\<rparr>"
    using logActivity_effect [of w "''agent_status_change''" et ei "g_name g" de da wsid "s0\<lparr>bus := bus s @ es0\<rparr>"]
    unfolding s1 by (auto simp: s0_def)
  obtain ei2 de2 da2 where s2: "beat w g wsid items s = logActivity w ''agent_heartbeat'' ''agent'' ei2 (g_name g) de2 da2 wsid s1"
    unfolding beat_def s1_def by blast
  obtain a2 e2 where 2: "rows (activities (db (beat w g wsid items s))) = rows (activities (db s1)) @ [a2]" "a_type a2 = ''agent_heartbeat''"
    "a_workspace_id a2 = wsid" "db (beat w g wsid items s) = (db s1)\<lparr>activities := activities (db (beat w g wsid items s))\<rparr>"
    "beat w g wsid items s = s1\<lparr>db := db (beat w g wsid items s), bus := bus s1 @ [e2]\<rparr>"
    using logActivity_effect [of w "''agent_heartbeat''" "''agent''" ei2 "g_name g" de2 da2 wsid s1] unfolding s2 by blast
  have bus: "bus s1 = bus s @ es0 @ [e1]" by (subst 1(5)) simp
  have "db (beat w g wsid items s) = (db s0)\<lparr>activities := activities (db (beat w g wsid items s))\<rparr>"
    by (subst 2(4), subst 1(4)) simp
  then have "beat w g wsid items s = s0\<lparr>db := (db s0)\<lparr>activities := activities (db (beat w g wsid items s))\<rparr>,
      bus := bus s @ es0 @ [e1] @ [e2]\<rparr>"
    using 2(5) same_rest [OF 1(5)] bus by (metis (no_types) append_assoc)
  then show ?thesis
    using 1(1-3) 2(1-3) by (intro exI [of _ a1] exI [of _ a2] exI [of _ "es0 @ [e1, e2]"]) (simp add: s0_def)
qed

text \<open>
  C23. A heartbeat of an agent that is found reports work exactly when the agent has an open task, an
  unread notification, or a mention or an urgent activity of the last four hours. Its answer lists the open
  tasks in one entry, whose items are open tasks of the agent, none twice, and, up to ten, all of them; because
  priorities are compared as words, a critical task is left out whenever ten other tasks are open. The heartbeat marks
  the agent idle and seen, adds two activities in its workspace with their events, and changes nothing else.
\<close>

theorem heartbeat_reports_work:
  assumes "sql_order (sql_ord w)" and "find_agent idp (usr_workspace_id u) s = Some g"
  defines "wsid \<equiv> usr_workspace_id u" and "s' \<equiv> snd (heartbeat idp w u s)"
  shows "\<exists>r items. fst (heartbeat idp w u s) = Inr r \<and> resp_status r = 200 \<and>
    (if something_to_do w (g_name g) wsid s
     then jget ''status'' (resp_body r) = Some (JStr ''WORK_ITEMS_FOUND'') \<and> jget ''work_items'' (resp_body r) = Some (JArr items)
     else jget ''status'' (resp_body r) = Some (JStr ''HEARTBEAT_OK'') \<and> items = []) \<and>
    (\<exists>ts. filter (\<lambda>i. jget ''type'' i = Some (JStr ''assigned_tasks'')) items = (if ts = [] then [] else [task_entry ts]) \<and>
       mset ts \<subseteq># mset (open_tasks (g_name g) wsid s) \<and> length ts = min 10 (length (open_tasks (g_name g) wsid s)) \<and>
       (10 \<le> length (filter (\<lambda>t. t_priority t \<noteq> Critical) (open_tasks (g_name g) wsid s)) \<longrightarrow>
          (\<forall>t \<in> set ts. t_priority t \<noteq> Critical))) \<and>
    (\<exists>a1 a2 es. rows (activities (db s')) = rows (activities (db s)) @ [a1, a2] \<and>
       a_workspace_id a1 = wsid \<and> a_workspace_id a2 = wsid \<and>
       s' = s\<lparr>db := (db s)\<lparr>agents := tbl_update (\<lambda>x. g_name x = g_name g \<and> g_workspace_id x = wsid)
           (\<lambda>x. x\<lparr>g_status := ''idle'', g_last_seen := Some (now_s w), g_last_activity := Some ''Heartbeat check'',
                   g_updated_at := now_s w\<rparr>) (agents (db s)),
         activities := activities (db s')\<rparr>, bus := bus s @ es\<rparr>)"
proof -
  let ?items = "work_items w (g_name g) wsid s" and ?ts = "assigned_tasks w (g_name g) wsid s"
  let ?r = "json_response 200 (JObj (heartbeat_body w g ?items))"
  have run: "heartbeat idp w u s = (Inr ?r, beat w g wsid ?items s)"
    using assms(2) by (simp add: heartbeat_def wsid_def Let_def)
  have answer: "if something_to_do w (g_name g) wsid s
     then jget ''status'' (resp_body ?r) = Some (JStr ''WORK_ITEMS_FOUND'') \<and>
       jget ''work_items'' (resp_body ?r) = Some (JArr (map work_item_json ?items))
     else jget ''status'' (resp_body ?r) = Some (JStr ''HEARTBEAT_OK'') \<and> map work_item_json ?items = []"
    using work_items_empty [OF assms(1), of "g_name g" wsid s]
    by (auto simp: heartbeat_body_def json_response_def)
  have len: "length ?ts = min 10 (length (open_tasks (g_name g) wsid s))"
    by (simp add: assigned_tasks_eq by_priority(3) [OF assms(1)])
  have mine: "mset ?ts \<subseteq># mset (open_tasks (g_name g) wsid s)"
    unfolding assigned_tasks_eq
    by (metis append_take_drop_id by_priority(1) [OF assms(1)] mset_append mset_subset_eq_add_left)
  have critical: "10 \<le> length (filter (\<lambda>t. t_priority t \<noteq> Critical) (open_tasks (g_name g) wsid s)) \<longrightarrow>
       (\<forall>t \<in> set ?ts. t_priority t \<noteq> Critical)"
    using critical_last [OF assms(1)] unfolding assigned_tasks_eq by blast
  have beaten: "s' = beat w g wsid ?items s" by (simp add: s'_def run)
  have listed: "\<exists>ts. filter (\<lambda>i. jget ''type'' i = Some (JStr ''assigned_tasks'')) (map work_item_json ?items) =
        (if ts = [] then [] else [task_entry ts]) \<and>
      mset ts \<subseteq># mset (open_tasks (g_name g) wsid s) \<and> length ts = min 10 (length (open_tasks (g_name g) wsid s)) \<and>
      (10 \<le> length (filter (\<lambda>t. t_priority t \<noteq> Critical) (open_tasks (g_name g) wsid s)) \<longrightarrow>
          (\<forall>t \<in> set ts. t_priority t \<noteq> Critical))"
    by (intro exI [of _ ?ts] conjI task_entries mine len critical)
  have effect: "\<exists>a1 a2 es. rows (activities (db s')) = rows (activities (db s)) @ [a1, a2] \<and>
       a_workspace_id a1 = wsid \<and> a_workspace_id a2 = wsid \<and>
       s' = s\<lparr>db := (db s)\<lparr>agents := tbl_update (\<lambda>x. g_name x = g_name g \<and> g_workspace_id x = wsid)
           (\<lambda>x. x\<lparr>g_status := ''idle'', g_last_seen := Some (now_s w), g_last_activity := Some ''Heartbeat check'',
                   g_updated_at := now_s w\<rparr>) (agents (db s)),
         activities := activities (db s')\<rparr>, bus := bus s @ es\<rparr>"
    unfolding beaten using beat_effect [of w g wsid ?items s] by (elim exE conjE) (intro exI conjI, assumption+)
  have ok: "fst (heartbeat idp w u s) = Inr ?r" "resp_status ?r = 200" by (simp_all add: run)
  show ?thesis
    by (intro exI [of _ ?r] exI [of _ "map work_item_json ?items"] conjI ok answer listed effect)
qed

definition demo_agent_state :: server where
  "demo_agent_state = init_server\<lparr>db := empty_db\<lparr>agents := \<lparr>seq = 1, rows = [\<lparr>g_id = 1, g_name = ''bob'', g_role = ''dev'',
     g_session_key = None, g_soul_content = None, g_status = ''offline'', g_last_seen = None, g_last_activity = None,
     g_created_at = 0, g_updated_at = 0, g_config = Some (JObj [(''workspace'', JStr ''ws'')]), g_workspace_id = 1,
     g_working_memory = None\<rparr>]\<rparr>\<rparr>\<rparr>"

lemma demo_find_agent: "\<exists>g. find_agent ''bob'' 1 demo_agent_state = Some g \<and> g_name g = ''bob''"
  by (simp add: find_agent_def js_number_def trim_def js_digits_def is_digit_def is_ws_def agent_named_def tbl_first_def
      demo_agent_state_def Let_def)

theorem heartbeat_reports_work_witness:
  "\<exists>g r. find_agent ''bob'' 1 demo_agent_state = Some g \<and> fst (heartbeat ''bob'' demo_world demo_caller demo_agent_state) = Inr r \<and>
     jget ''status'' (resp_body r) = Some (JStr ''HEARTBEAT_OK'')"
proof -
  obtain g where g: "find_agent ''bob'' (usr_workspace_id demo_caller) demo_agent_state = Some g"
    using demo_find_agent by (auto simp: demo_caller_workspace)
  have ord: "sql_order (sql_ord demo_world)" by (simp add: demo_world_def scan.sql_order_axioms)
  have idle: "\<not> something_to_do demo_world n 1 demo_agent_state" for n
    by (simp add: something_to_do_def demo_agent_state_def empty_db_def tbl_empty_def)
  show ?thesis using heartbeat_reports_work [OF ord g] g idle by (auto simp: demo_caller_workspace)
qed

section \<open>Memory and SOUL\<close>

lemma tbl_first_update:
  "(\<And>x. q (f x) = q x) \<Longrightarrow> tbl_first q (tbl_update p f t) = map_option (\<lambda>x. if p x then f x else x) (tbl_first q t)"
  unfolding tbl_first_def rows_tbl_update by (rule find_map_id) simp

lemma same_agent_memory [simp]:
  "same_agent idp wsid (g\<lparr>g_working_memory := m, g_updated_at := t\<rparr>) = same_agent idp wsid g"
  "same_agent idp wsid (g\<lparr>g_working_memory := m\<rparr>) = same_agent idp wsid g"
  by (simp_all add: same_agent_def)

lemma current_memory_set:
  assumes "tbl_first (same_agent idp wsid) (agents d) \<noteq> None"
  shows "current_memory idp wsid (set_memory w idp wsid content d) = content"
proof -
  from assms obtain g where g: "tbl_first (same_agent idp wsid) (agents d) = Some g" by blast
  with tbl_first_in_rows [OF g] show ?thesis
    by (simp add: current_memory_def set_memory_def tbl_first_update or_else_def)
qed

lemma same_agent_found:
  assumes "find_agent idp wsid s = Some g" and "trim idp \<noteq> []"
  shows "same_agent idp wsid g" and "tbl_first (same_agent idp wsid) (agents (db s)) \<noteq> None"
proof -
  have g: "g \<in> set (rows (agents (db s)))" and same: "same_agent idp wsid g"
    using assms by (auto simp: find_agent_def agent_named_def same_agent_def text_int_def dest!: tbl_first_in_rows split: option.splits)
  then show "same_agent idp wsid g" "tbl_first (same_agent idp wsid) (agents (db s)) \<noteq> None"
    by (auto simp: tbl_first_def find_None_iff)
qed

lemma ensure_first: "tbl_first (same_agent idp wsid) (agents (ensure_memory_column d)) = None \<longleftrightarrow>
    tbl_first (same_agent idp wsid) (agents d) = None"
  by (simp add: ensure_memory_column_def tbl_first_update)

text \<open>
  The working memory: after an accepted write the agent's memory is the given text or, when it is
  appended, everything that was there before followed by the new entry, so appending never loses
  anything; the agents that are not addressed keep their memories.
\<close>

theorem memory_written:
  assumes "find_agent idp (usr_workspace_id u) s = Some agent" and "trim idp \<noteq> []"
    and "write_memory idp w u body agent s = (Inr r, s')" and "resp_status r = 200"
  defines "wsid \<equiv> usr_workspace_id u" and "d \<equiv> ensure_memory_column (db s)"
  shows "(truthy_prop ''append'' body = None \<longrightarrow> current_memory idp wsid (db s') = or_else (str_field ''working_memory'' body) []) \<and>
    (truthy_prop ''append'' body \<noteq> None \<longrightarrow>
       (\<exists>sep. current_memory idp wsid (db s') = current_memory idp wsid d @ sep @ js_print (jget ''working_memory'' body))) \<and>
    filter (\<lambda>g. \<not> same_agent idp wsid g) (rows (agents (db s'))) = filter (\<lambda>g. \<not> same_agent idp wsid g) (rows (agents d))"
proof -
  obtain t where s': "agents (db s') = agents (set_memory w idp wsid (new_memory t (current_memory idp wsid d) body) d)"
    using assms(3,4) by (auto simp: write_memory_def store_memory_def wsid_def d_def frame_simps Let_def split: option.splits)
  have "tbl_first (same_agent idp wsid) (agents d) \<noteq> None"
    using same_agent_found(2) [OF assms(1,2)] by (simp add: d_def wsid_def ensure_first)
  then have "current_memory idp wsid (set_memory w idp wsid (new_memory t (current_memory idp wsid d) body) d) =
      new_memory t (current_memory idp wsid d) body" by (rule current_memory_set)
  then have "current_memory idp wsid (db s') = new_memory t (current_memory idp wsid d) body"
    by (simp add: current_memory_def [of idp wsid "db s'"] s') (simp add: current_memory_def)
  moreover have "filter (\<lambda>g. \<not> same_agent idp wsid g) (rows (agents (db s'))) = filter (\<lambda>g. \<not> same_agent idp wsid g) (rows (agents d))"
    unfolding s' by (simp add: set_memory_def rows_tbl_update filter_map_if)
  ultimately show ?thesis by (simp add: new_memory_def)
qed

definition demo_memory_body :: json where
  "demo_memory_body = JObj [(''working_memory'', JStr ''note''), (''append'', JBool True)]"

theorem memory_written_witness:
  "\<exists>agent r s' sep. write_memory ''bob'' demo_world demo_caller demo_memory_body agent demo_agent_state = (Inr r, s') \<and>
     current_memory ''bob'' 1 (db s') = sep @ ''note''"
proof -
  obtain g where g: "find_agent ''bob'' (usr_workspace_id demo_caller) demo_agent_state = Some g"
    using demo_find_agent by (auto simp: demo_caller_workspace)
  obtain t where "toISOString (now_ms demo_world) = Some t" by (simp add: toISOString_def valid_time_def demo_world_def)
  then have "(if truthy_prop ''append'' demo_memory_body = None then Some [] else toISOString (now_ms demo_world)) = Some t"
    by (simp add: demo_memory_body_def truthy_prop_def)
  then obtain r s' where run: "write_memory ''bob'' demo_world demo_caller demo_memory_body g demo_agent_state = (Inr r, s')"
    and st: "resp_status r = 200"
    by (auto simp: write_memory_def store_memory_def Let_def)
  have "truthy_prop ''append'' demo_memory_body \<noteq> None" "js_print (jget ''working_memory'' demo_memory_body) = ''note''"
    by (simp_all add: demo_memory_body_def truthy_prop_def js_print_def)
  with memory_written [OF g _ run st] obtain sep where
    "current_memory ''bob'' 1 (db s') = current_memory ''bob'' 1 (ensure_memory_column (db demo_agent_state)) @ sep @ ''note''"
    by (auto simp: trim_def is_ws_def demo_caller_workspace)
  then have "current_memory ''bob'' 1 (db s') = (current_memory ''bob'' 1 (ensure_memory_column (db demo_agent_state)) @ sep) @ ''note''"
    by simp
  with run show ?thesis by blast
qed

definition below :: "string \<Rightarrow> string \<Rightarrow> string \<Rightarrow> bool" where
  "below cwd dir p \<longleftrightarrow> (\<exists>rest. path_segments p = path_segments (path_resolve cwd dir) @ rest)"

lemma resolveWithin_below: "resolveWithin cwd dir rel = Inr p \<Longrightarrow> below cwd dir p"
  unfolding below_def by (rule resolveWithin_confined)

lemma resolveWithin_absolute: "resolveWithin cwd dir rel = Inr p \<Longrightarrow> p \<noteq> [] \<and> hd p = CHR ''/''"
  by (auto simp: resolveWithin_def path_resolve_def from_segments_def Let_def split: if_splits)

lemma below_trans:
  assumes "resolveWithin cwd dir rel = Inr d" and "below cwd d p" shows "below cwd dir p"
proof -
  have "path_segments (path_resolve cwd d) = path_segments d"
    using resolveWithin_absolute [OF assms(1)] by (simp add: path_resolve_segments)
  with assms(2) resolveWithin_below [OF assms(1)] show ?thesis unfolding below_def by auto
qed

lemma soul_path_below:
  assumes "soul_path fs agent = Some p" shows "oc_home fs \<noteq> [] \<and> below (oc_cwd fs) (oc_home fs) p"
proof -
  from assms obtain ws d where "oc_home fs \<noteq> []" and d: "resolveWithin (oc_cwd fs) (oc_home fs) ws = Inr d"
    and p: "resolveWithin (oc_cwd fs) d ''soul.md'' = Inr p"
    by (auto simp: soul_path_def split: option.splits json.splits if_splits sum.splits)
  with below_trans [OF d resolveWithin_below [OF p]] show ?thesis by blast
qed

text \<open>
  The SOUL routes are confined to their directories, whatever workspace an agent's configuration
  names and whatever template name a request carries: an update writes at most one file, it lies
  below the gateway's home directory, and a template is read from below the template directory only.
\<close>

theorem soul_files_confined:
  fixes fs w dir defines "dir \<equiv> config_soulTemplatesDir w"
  shows "(\<forall>p. oc_file (snd (put_soul fs idp w req u s)) p \<noteq> oc_file fs p \<longrightarrow>
       oc_home fs \<noteq> [] \<and> below (oc_cwd fs) (oc_home fs) p) \<and>
    oc_config (snd (put_soul fs idp w req u s)) = oc_config fs \<and>
    (\<forall>fs' agent name. oc_cwd fs' = oc_cwd fs \<and> (\<forall>p. below (oc_cwd fs) dir p \<longrightarrow> oc_file fs' p = oc_file fs p) \<longrightarrow>
       load_template fs' w agent name = load_template fs w agent name)"
proof -
  define ok where "ok x \<longleftrightarrow> x = fs \<or> (\<exists>agent p t. soul_path fs agent = Some p \<and> x = fs\<lparr>oc_file := (oc_file fs)(p \<mapsto> t)\<rparr>)" for x
  have "ok fs" and "ok (snd (write_soul_file fs agent soul))" for agent soul
    by (auto simp: ok_def write_soul_file_def split: option.split)
  moreover have "snd (store_soul fs idp w u agent tpl given soul s) = snd (write_soul_file fs agent soul)" for agent tpl given soul
    by (simp add: store_soul_def Let_def split: prod.split)
  ultimately have "ok (snd (put_soul fs idp w req u s))"
    by (simp add: put_soul_def split: option.split json.split sum.split)
  moreover have "oc_home fs \<noteq> [] \<and> below (oc_cwd fs) (oc_home fs) p" if "ok x" "oc_file x p \<noteq> oc_file fs p" for x p
    using that soul_path_below by (auto simp: ok_def split: if_splits)
  moreover have "oc_config x = oc_config fs" if "ok x" for x using that by (auto simp: ok_def)
  moreover have "load_template fs' w agent name = load_template fs w agent name"
    if "oc_cwd fs' = oc_cwd fs" "\<forall>p. below (oc_cwd fs) dir p \<longrightarrow> oc_file fs' p = oc_file fs p" for fs' agent name
    using that resolveWithin_below [of "oc_cwd fs" dir] by (simp add: load_template_def dir_def split: sum.split)
  ultimately show ?thesis by blast
qed

theorem soul_files_confined_witness:
  "resolveWithin ''/srv'' ''/oc'' ''../etc'' = Inl ''Path escapes base directory'' \<and>
   oc_file (snd (put_soul demo_oc ''bob'' demo_world (demo_request\<lparr>req_body := Some (JObj [(''soul_content'', JStr ''x'')])\<rparr>)
       demo_caller demo_agent_state)) ''/etc/passwd'' = oc_file demo_oc ''/etc/passwd''"
proof -
  have "resolveWithin ''/srv'' ''/oc'' ''../etc'' = Inl ''Path escapes base directory''" by code_simp
  moreover have "oc_cwd demo_oc = ''/srv''" "oc_home demo_oc = ''/oc''" by (simp_all add: demo_oc_def)
  moreover have "\<not> below ''/srv'' ''/oc'' ''/etc/passwd''"
  proof -
    have "path_segments ''/etc/passwd'' = [''etc'', ''passwd'']" by code_simp
    moreover have "path_segments (path_resolve ''/srv'' ''/oc'') = [''oc'']" by code_simp
    ultimately show ?thesis by (simp add: below_def)
  qed
  ultimately show ?thesis using soul_files_confined [of demo_oc "''bob''" demo_world] by metis
qed

end
