(* ===== verification/MC_Connections.thy ===== *)
theory MC_Connections
  imports MC_AgentWork
begin

text \<open>
  Direct connections of command line tools, \<open>src/app/api/connect/route.ts\<close>, and what all routes that
  touch agents keep: unique names and session keys, connections of existing agents only, and at most one
  live connection per agent. The id of \<open>randomUUID\<close> is an argument. The routes have no
  \<open>try\<close>, so an exception leaves the handler (\<open>Inl\<close>) and keeps what was written before it.
\<close>

section \<open>/api/connect\<close>

record connect_input =
  cn_tool_name :: string
  cn_tool_version :: "string option"
  cn_agent_name :: string
  cn_agent_role :: "string option"
  cn_metadata :: "(string \<times> json) list option"

definition cli_agent :: "world \<Rightarrow> int \<Rightarrow> connect_input \<Rightarrow> int \<Rightarrow> agent_row" where
  "cli_agent w wsid b i = \<lparr>g_id = i, g_name = cn_agent_name b, g_role = or_else (cn_agent_role b) ''cli'',
     g_session_key = None, g_soul_content = None, g_status = ''online'', g_last_seen = None, g_last_activity = None,
     g_created_at = now_s w, g_updated_at = now_s w, g_config = None, g_workspace_id = wsid, g_working_memory = Some []\<rparr>"

text \<open>Find or create the agent; the id of the agent is returned.\<close>

definition connect_agent :: "world \<Rightarrow> int \<Rightarrow> connect_input \<Rightarrow> server \<Rightarrow> string + int \<times> server" where
  "connect_agent w wsid b s =
     (let name = cn_agent_name b
      in case agent_named name wsid s of
           None \<Rightarrow>
             (case agent_conflict name None (agents (db s)) of
                Some e \<Rightarrow> Inl e
              | None \<Rightarrow>
                  (let (i, t) = tbl_insert (cli_agent w wsid b) (agents (db s))
                   in Inr (i, broadcast w ''agent.created'' (JObj [(''id'', JNum i), (''name'', JStr name)])
                        (logActivity w ''agent_created'' ''agent'' i ''system''
                           (''Auto-created agent \"'' @ name @ ''\" via direct CLI connection'') None wsid
                           (s\<lparr>db := (db s)\<lparr>agents := t\<rparr>\<rparr>)))))
         | Some agent \<Rightarrow>
             Inr (g_id agent, broadcast w ''agent.status_changed'' (JObj [(''id'', JNum (g_id agent)),
                 (''name'', JStr (g_name agent)), (''status'', JStr ''online'')])
               (s\<lparr>db := (db s)\<lparr>agents := tbl_update (\<lambda>g. g_id g = g_id agent \<and> g_workspace_id g = wsid)
                  (\<lambda>g. g\<lparr>g_status := ''online'', g_updated_at := now_s w\<rparr>) (agents (db s))\<rparr>\<rparr>)))"

definition is_live :: "connection_row \<Rightarrow> bool" where
  "is_live c \<longleftrightarrow> dc_status c = ''connected''"

definition hang_up :: "world \<Rightarrow> connection_row \<Rightarrow> connection_row" where
  "hang_up w c = c\<lparr>dc_status := ''disconnected'', dc_updated_at := now_s w\<rparr>"

definition new_connection :: "world \<Rightarrow> int \<Rightarrow> string \<Rightarrow> connect_input \<Rightarrow> int \<Rightarrow> int \<Rightarrow> connection_row" where
  "new_connection w wsid uuid b agent_id i = \<lparr>dc_id = i, dc_agent_id = agent_id, dc_tool_name = cn_tool_name b,
     dc_tool_version = or_null (cn_tool_version b), dc_connection_id = uuid, dc_status = ''connected'',
     dc_last_heartbeat = Some (now_s w), dc_metadata = map_option JObj (cn_metadata b),
     dc_created_at = now_s w, dc_updated_at = now_s w, dc_workspace_id = wsid\<rparr>"

definition announce_connection :: "world \<Rightarrow> int \<Rightarrow> string \<Rightarrow> connect_input \<Rightarrow> int \<Rightarrow> server \<Rightarrow> server" where
  "announce_connection w wsid uuid b i s =
     broadcast w ''connection.created'' (JObj [(''connection_id'', JStr uuid), (''agent_id'', JNum i),
         (''agent_name'', JStr (cn_agent_name b)), (''tool_name'', JStr (cn_tool_name b))])
       (logActivity w ''connection_created'' ''agent'' i (cn_agent_name b)
          (''CLI connection established via '' @ cn_tool_name b @
           (case or_null (cn_tool_version b) of None \<Rightarrow> [] | Some v \<Rightarrow> '' v'' @ v)) None wsid s)"

definition connect :: "string \<Rightarrow> world \<Rightarrow> user \<Rightarrow> connect_input \<Rightarrow> server \<Rightarrow> outcome" where
  "connect uuid w u b s =
     (let wsid = usr_workspace_id u
      in case connect_agent w wsid b s of
           Inl e \<Rightarrow> (Inl e, s)
         | Inr (i, s1) \<Rightarrow>
             (let t = tbl_update (\<lambda>c. dc_agent_id c = i \<and> is_live c) (hang_up w) (direct_connections (db s1));
                  s2 = s1\<lparr>db := (db s1)\<lparr>direct_connections := t\<rparr>\<rparr>
              in if list_ex (\<lambda>c. dc_connection_id c = uuid) (rows t)
                 then (Inl ''UNIQUE constraint failed: direct_connections.connection_id'', s2)
                 else
                   (Inr (json_response 200 (JObj [(''connection_id'', JStr uuid), (''agent_id'', JNum i),
                      (''agent_name'', JStr (cn_agent_name b)), (''status'', JStr ''connected''),
                      (''sse_url'', JStr ''/api/events''), (''heartbeat_url'', JStr (''/api/agents/'' @ show_int i @ ''/heartbeat'')),
                      (''token_report_url'', JStr ''/api/tokens'')])),
                    announce_connection w wsid uuid b i
                      (s2\<lparr>db := (db s2)\<lparr>direct_connections := snd (tbl_insert (new_connection w wsid uuid b i) t)\<rparr>\<rparr>))))"

definition connect_POST :: "string \<Rightarrow> connect_input schema \<Rightarrow> world \<Rightarrow> request \<Rightarrow> server \<Rightarrow> outcome" where
  "connect_POST uuid parse w req s = with_role w req ''operator'' s (\<lambda>u.
     with_body parse req s (\<lambda>b. connect uuid w u b s))"

text \<open>The agents a connection belongs to (one, by its foreign key), in the workspace.\<close>

definition agent_of :: "int \<Rightarrow> connection_row \<Rightarrow> server \<Rightarrow> agent_row list" where
  "agent_of wsid c s = tbl_select (\<lambda>g. g_id g = dc_agent_id c \<and> g_workspace_id g = wsid) (agents (db s))"

definition connection_json :: "connection_row \<times> agent_row \<Rightarrow> json" where
  "connection_json = (\<lambda>(c, g). JObj [(''id'', JNum (dc_id c)), (''agent_id'', JNum (dc_agent_id c)),
     (''tool_name'', JStr (dc_tool_name c)), (''tool_version'', jnull JStr (dc_tool_version c)),
     (''connection_id'', JStr (dc_connection_id c)), (''status'', JStr (dc_status c)),
     (''last_heartbeat'', jnull JNum (dc_last_heartbeat c)), (''metadata'', jnull (JStr \<circ> stringify) (dc_metadata c)),
     (''created_at'', JNum (dc_created_at c)), (''updated_at'', JNum (dc_updated_at c)),
     (''workspace_id'', JNum (dc_workspace_id c)), (''agent_name'', JStr (g_name g)), (''agent_status'', JStr (g_status g)),
     (''agent_role'', JStr (g_role g))])"

definition connect_GET :: "world \<Rightarrow> request \<Rightarrow> server \<Rightarrow> outcome" where
  "connect_GET w req s = with_role w req ''viewer'' s (\<lambda>u.
     (Inr (json_response 200 (JObj [(''connections'', JArr (map connection_json
        (order_by_desc (sql_ord w) (dc_created_at \<circ> fst)
           (concat (map (\<lambda>c. map (Pair c) (agent_of (usr_workspace_id u) c s)) (rows (direct_connections (db s))))))))])), s))"

definition disconnect :: "string \<Rightarrow> json \<Rightarrow> world \<Rightarrow> user \<Rightarrow> server \<Rightarrow> outcome" where
  "disconnect key given w u s =
     (let wsid = usr_workspace_id u
      in case tbl_first (\<lambda>c. dc_connection_id c = key \<and> agent_of wsid c s \<noteq> []) (direct_connections (db s)) of
           None \<Rightarrow> (Inr (error_response 404 ''Connection not found''), s)
         | Some conn \<Rightarrow>
             (let t = tbl_update (\<lambda>c. dc_connection_id c = key) (hang_up w) (direct_connections (db s));
                  others = tbl_select (\<lambda>c. dc_agent_id c = dc_agent_id conn \<and> is_live c \<and> dc_connection_id c \<noteq> key) t;
                  mine = (\<lambda>g. g_id g = dc_agent_id conn \<and> g_workspace_id g = wsid);
                  ags = (if others = [] then tbl_update mine (\<lambda>g. g\<lparr>g_status := ''offline'', g_updated_at := now_s w\<rparr>) (agents (db s))
                         else agents (db s));
                  s1 = s\<lparr>db := (db s)\<lparr>direct_connections := t, agents := ags\<rparr>\<rparr>;
                  agent = map_option g_name (tbl_first mine ags)
              in (Inr (json_response 200 (JObj [(''status'', JStr ''disconnected''), (''connection_id'', given)])),
                  broadcast w ''connection.disconnected'' (JObj ([(''connection_id'', given),
                      (''agent_id'', JNum (dc_agent_id conn))] @ jopt ''agent_name'' JStr agent))
                    (logActivity w ''connection_disconnected'' ''agent'' (dc_agent_id conn) (or_else agent ''unknown'')
                       (''CLI connection disconnected ('' @ dc_tool_name conn @ '')'') None wsid s1))))"

definition connect_DELETE :: "world \<Rightarrow> request \<Rightarrow> server \<Rightarrow> outcome" where
  "connect_DELETE w req s = with_role w req ''operator'' s (\<lambda>u.
     case req_body req of
       None \<Rightarrow> (Inr (error_response 400 ''Invalid request body''), s)
     | Some JNull \<Rightarrow> (Inl ''Cannot destructure property 'connection_id' of 'body' as it is null.'', s)
     | Some body \<Rightarrow>
         (case truthy_prop ''connection_id'' body of
            None \<Rightarrow> (Inr (error_response 400 ''connection_id is required''), s)
          | Some v \<Rightarrow>
              (case bind_text v of
                 Inl e \<Rightarrow> (Inl e, s)
               | Inr None \<Rightarrow> (Inr (error_response 404 ''Connection not found''), s)
               | Inr (Some key) \<Rightarrow> disconnect key v w u s)))"

section \<open>Agents and their connections stay consistent\<close>

definition session_keys :: "agent_row tbl \<Rightarrow> string list" where
  "session_keys t = List.map_filter g_session_key (rows t)"

definition agents_ok :: "agent_row tbl \<Rightarrow> bool" where
  "agents_ok t \<longleftrightarrow> tbl_wf g_id t \<and> distinct (map g_name (rows t)) \<and> distinct (session_keys t)"

definition conns_ok :: "agent_row tbl \<Rightarrow> connection_row tbl \<Rightarrow> bool" where
  "conns_ok t ct \<longleftrightarrow> tbl_wf dc_id ct \<and> distinct (map dc_connection_id (rows ct)) \<and>
     dc_agent_id ` set (rows ct) \<subseteq> g_id ` set (rows t) \<and> distinct (map dc_agent_id (filter is_live (rows ct)))"

definition links_ok :: "database \<Rightarrow> bool" where
  "links_ok d \<longleftrightarrow> agents_ok (agents d) \<and> conns_ok (agents d) (direct_connections d)"

interpretation agent_rows: row_store g_id "tbl_get g_id" tbl_insert tbl_update tbl_delete "tbl_wf g_id"
  by (rule row_store_tbl)

interpretation connection_rows: row_store dc_id "tbl_get dc_id" tbl_insert tbl_update tbl_delete "tbl_wf dc_id"
  by (rule row_store_tbl)

lemma links_ok_cong: "agents d' = agents d \<Longrightarrow> direct_connections d' = direct_connections d \<Longrightarrow> links_ok d' = links_ok d"
  by (simp add: links_ok_def)

lemma links_ok_helpers [simp]:
  "links_ok (db (logActivity w ty et ei ac de da wsid s)) = links_ok (db s)"
  "links_ok (db (createNotification w rc ty ti msg st si wsid s)) = links_ok (db s)"
  "links_ok (db (logAuditEvent w e s)) = links_ok (db s)"
  by (rule links_ok_cong; simp add: frame_simps logAuditEvent_def Let_def)+

lemma map_filter_update:
  assumes "\<And>r. k (f r) = k r"
  shows "List.map_filter k (rows (tbl_update p f t)) = List.map_filter k (rows t)"
proof -
  have "List.map_filter k (map (\<lambda>r. if p r then f r else r) xs) = List.map_filter k xs" for xs
    by (induction xs) (auto simp: List.map_filter_def assms)
  then show ?thesis by (simp add: rows_tbl_update)
qed

lemma agents_ok_update:
  assumes "agents_ok t" and "\<And>g. g_id (f g) = g_id g" "\<And>g. g_name (f g) = g_name g" "\<And>g. g_session_key (f g) = g_session_key g"
  shows "agents_ok (tbl_update p f t)"
  using assms agent_rows.wf_update [of t f p] tbl_update_images [of g_name f p t] map_filter_update [of g_session_key f p t]
  by (simp add: agents_ok_def session_keys_def)

lemma conns_ok_agents:
  "conns_ok t ct \<Longrightarrow> g_id ` set (rows t) \<subseteq> g_id ` set (rows t') \<Longrightarrow> conns_ok t' ct"
  unfolding conns_ok_def by blast

lemma links_ok_update_agents:
  assumes "links_ok d" and "\<And>g. g_id (f g) = g_id g" "\<And>g. g_name (f g) = g_name g" "\<And>g. g_session_key (f g) = g_session_key g"
  shows "links_ok (d\<lparr>agents := tbl_update p f (agents d)\<rparr>)"
  using assms agents_ok_update [of "agents d" f p] conns_ok_agents [of "agents d" "direct_connections d" "tbl_update p f (agents d)"]
    tbl_update_image [of g_id f p "agents d"]
  by (simp add: links_ok_def)

lemma map_filter_set: "x \<in> set (List.map_filter k xs) \<longleftrightarrow> (\<exists>r \<in> set xs. k r = Some x)"
  by (induction xs) (auto simp: List.map_filter_def)

lemma agents_ok_insert:
  assumes "agents_ok t" and "\<And>i. g_id (mk i) = i" and "\<And>i. g_name (mk i) = n" and "\<And>i. g_session_key (mk i) = key"
    and "agent_conflict n key t = None"
  shows "agents_ok (snd (tbl_insert mk t))"
proof -
  have "n \<notin> g_name ` set (rows t)" and "\<And>k. key = Some k \<Longrightarrow> k \<notin> set (session_keys t)"
    using assms(5) by (auto simp: agent_conflict_def list_ex_iff session_keys_def map_filter_set split: if_splits)
  moreover have "session_keys (snd (tbl_insert mk t)) = session_keys t @ (case key of None \<Rightarrow> [] | Some k \<Rightarrow> [k])"
    by (simp add: session_keys_def rows_tbl_insert List.map_filter_def assms(4) split: option.split)
  ultimately show ?thesis
    using assms agent_rows.wf_insert [of t mk] by (auto simp: agents_ok_def rows_tbl_insert split: option.split)
qed

lemma links_ok_insert:
  assumes "links_ok d" and "\<And>i. g_id (mk i) = i" and "\<And>i. g_name (mk i) = n" and "\<And>i. g_session_key (mk i) = key"
    and "agent_conflict n key (agents d) = None"
  shows "links_ok (d\<lparr>agents := snd (tbl_insert mk (agents d))\<rparr>)"
  using assms agents_ok_insert [of "agents d" mk n key]
    conns_ok_agents [of "agents d" "direct_connections d" "snd (tbl_insert mk (agents d))"]
  by (auto simp: links_ok_def rows_tbl_insert)

lemma conns_ok_update:
  assumes "conns_ok t ct" and "\<And>c. dc_id (f c) = dc_id c" "\<And>c. dc_connection_id (f c) = dc_connection_id c"
    "\<And>c. dc_agent_id (f c) = dc_agent_id c" "\<And>c. is_live (f c) \<Longrightarrow> is_live c"
  shows "conns_ok t (tbl_update p f ct)"
proof -
  have "distinct (map dc_agent_id (filter is_live (map (\<lambda>c. if p c then f c else c) cs)))"
    if "distinct (map dc_agent_id (filter is_live cs))" for cs
    using that
  proof (induction cs)
    case (Cons c cs)
    have "dc_agent_id ` set (filter is_live (map (\<lambda>c. if p c then f c else c) cs)) \<subseteq> dc_agent_id ` set (filter is_live cs)"
      using assms(4,5) by (auto simp: image_iff split: if_splits)
    with Cons assms(4,5) show ?case by (auto split: if_splits)
  qed simp
  then have "distinct (map dc_agent_id (filter is_live (rows (tbl_update p f ct))))"
    using assms(1) by (simp add: conns_ok_def rows_tbl_update)
  then show ?thesis
    using assms connection_rows.wf_update [of ct f p] tbl_update_images [of dc_connection_id f p ct]
      tbl_update_image [of dc_agent_id f p ct]
    by (simp add: conns_ok_def)
qed

lemma links_ok_update_conns:
  assumes "links_ok d" and "\<And>c. dc_id (f c) = dc_id c" "\<And>c. dc_connection_id (f c) = dc_connection_id c"
    "\<And>c. dc_agent_id (f c) = dc_agent_id c" "\<And>c. is_live (f c) \<Longrightarrow> is_live c"
  shows "links_ok (d\<lparr>direct_connections := tbl_update p f (direct_connections d)\<rparr>)"
  using assms conns_ok_update [of "agents d" "direct_connections d" f p] by (simp add: links_ok_def)

text \<open>Changing the session key of the rows of one name.\<close>

lemma map_filter_Cons: "List.map_filter k (x # xs) = (case k x of None \<Rightarrow> List.map_filter k xs | Some y \<Rightarrow> y # List.map_filter k xs)"
  by (simp add: List.map_filter_def split: option.split)

lemma distinct_replace_key:
  assumes "distinct (map nm xs)" and "\<And>r. p r \<Longrightarrow> nm r = n" and "\<And>r. p r \<Longrightarrow> k (f r) = v"
    and "v \<noteq> None \<Longrightarrow> \<forall>r \<in> set xs. \<not> p r \<longrightarrow> k r \<noteq> v" and "distinct (List.map_filter k xs)"
  shows "distinct (List.map_filter k (map (\<lambda>r. if p r then f r else r) xs))"
  using assms(1,4,5)
proof (induction xs)
  case (Cons x xs)
  have tl: "distinct (List.map_filter k (map (\<lambda>r. if p r then f r else r) xs))"
    using Cons by (auto simp: map_filter_Cons split: option.splits)
  show ?case
  proof (cases "p x")
    case True
    then have none: "\<forall>r \<in> set xs. \<not> p r" using Cons.prems(1) assms(2) by force
    then have "map (\<lambda>r. if p r then f r else r) xs = xs" by (simp add: map_idI)
    with True tl none Cons.prems(2) show ?thesis
      by (auto simp: map_filter_Cons map_filter_set assms(3) split: option.split)
  next
    case False
    have "y \<notin> set (List.map_filter k (map (\<lambda>r. if p r then f r else r) xs))" if "k x = Some y" for y
      using False Cons.prems(2,3) that assms(3) by (auto simp: map_filter_Cons map_filter_set split: if_splits)
    with False tl show ?thesis by (simp add: map_filter_Cons split: option.split)
  qed
qed (simp add: List.map_filter_def)

lemma set_agent_keeps [simp]: "g_id (set_agent w c g) = g_id g" "g_name (set_agent w c g) = g_name g"
  by (simp_all add: set_agent_def)

lemma agents_ok_set_agent:
  assumes "agents_ok t" and "\<not> agent_update_fails p c t" and "\<And>g. p g \<Longrightarrow> g_name g = n"
  shows "agents_ok (tbl_update p (set_agent w c) t)"
proof -
  have "distinct (session_keys (tbl_update p (set_agent w c) t))"
  proof (cases "ac_session_key c")
    case None
    then have "\<And>g. g_session_key (set_agent w c g) = g_session_key g" by (simp add: set_agent_def set_or_keep_def)
    then show ?thesis
      using assms(1) map_filter_update [of g_session_key "set_agent w c" p t] by (simp add: agents_ok_def session_keys_def)
  next
    case (Some v)
    show ?thesis
    proof (cases "list_ex p (rows t)")
      case True
      have "\<forall>r \<in> set (rows t). \<not> p r \<longrightarrow> g_session_key r \<noteq> v" if "v \<noteq> None"
        using assms(2) Some True that by (auto simp: agent_update_fails_def key_conflict_def list_ex_iff)
      then show ?thesis
        using assms(1,3) Some unfolding session_keys_def rows_tbl_update agents_ok_def
        by (intro distinct_replace_key [where nm = g_name and n = n and v = v]) (auto simp: set_agent_def set_or_keep_def)
    next
      case False
      then have "map (\<lambda>r. if p r then set_agent w c r else r) (rows t) = rows t" by (auto simp: list_ex_iff intro: map_idI)
      then show ?thesis using assms(1) by (simp add: session_keys_def rows_tbl_update agents_ok_def)
    qed
  qed
  then show ?thesis
    using assms(1) agent_rows.wf_update [of t "set_agent w c" p] tbl_update_images [of g_name "set_agent w c" p t]
    by (simp add: agents_ok_def)
qed

lemma links_ok_set_agent:
  assumes "links_ok d" and "\<not> agent_update_fails p c (agents d)" and "\<And>g. p g \<Longrightarrow> g_name g = n"
  shows "links_ok (d\<lparr>agents := tbl_update p (set_agent w c) (agents d)\<rparr>)"
  using assms agents_ok_set_agent [of "agents d" p c n w]
    conns_ok_agents [of "agents d" "direct_connections d" "tbl_update p (set_agent w c) (agents d)"]
    tbl_update_image [of g_id "set_agent w c" p "agents d"]
  by (simp add: links_ok_def)

lemma session_keys_delete: "distinct (session_keys t) \<Longrightarrow> distinct (session_keys (tbl_delete p t))"
proof -
  have "distinct (List.map_filter g_session_key (filter q xs))" if "distinct (List.map_filter g_session_key xs)" for q xs
    using that by (induction xs) (auto simp: map_filter_Cons map_filter_set split: option.splits)
  then show "distinct (session_keys t) \<Longrightarrow> distinct (session_keys (tbl_delete p t))"
    by (simp add: session_keys_def rows_tbl_delete)
qed

lemma links_ok_remove:
  assumes "links_ok d" shows "links_ok (remove_agent i wsid d)"
proof -
  let ?t = "tbl_delete (\<lambda>g. g_id g = i \<and> g_workspace_id g = wsid) (agents d)"
  let ?ct = "tbl_delete (\<lambda>c. dc_agent_id c = i) (direct_connections d)"
  have t: "agents_ok (agents d)" and ct: "conns_ok (agents d) (direct_connections d)" using assms by (simp_all add: links_ok_def)
  have "agents_ok ?t"
    using t agent_rows.wf_delete [of "agents d"] session_keys_delete
    by (simp add: agents_ok_def distinct_map_filter rows_tbl_delete)
  moreover have "filter is_live (rows ?ct) = filter (\<lambda>c. dc_agent_id c \<noteq> i) (filter is_live (rows (direct_connections d)))"
    unfolding rows_tbl_delete filter_filter by (rule filter_cong) auto
  then have "distinct (map dc_agent_id (filter is_live (rows ?ct)))"
    using ct by (simp only: conns_ok_def distinct_map_filter)
  then have "conns_ok ?t ?ct"
    using ct connection_rows.wf_delete [of "direct_connections d"]
    by (auto simp: conns_ok_def distinct_map_filter rows_tbl_delete)
  ultimately show ?thesis by (simp add: links_ok_def remove_agent_def)
qed

subsection \<open>Every operation keeps the links\<close>

lemma links_ok_status [simp]: "links_ok (db s) \<Longrightarrow> links_ok (db (updateAgentStatus w name st act wsid s))"
  by (auto simp: updateAgentStatus_def Let_def intro!: links_ok_update_agents split: option.split)

lemma create_agent_links: "links_ok (db s) \<Longrightarrow> links_ok (db (snd (fst (create_agent fs w req u b s))))"
proof (cases "agent_conflict (na_name b) (na_session_key b) (agents (db s))")
  case None
  assume *: "links_ok (db s)"
  let ?d = "(db s)\<lparr>agents := snd (tbl_insert (new_agent w (usr_workspace_id u) b) (agents (db s)))\<rparr>"
  have "links_ok ?d"
    by (rule links_ok_insert [OF * _ _ _ None]) (simp_all add: new_agent_def)
  with * None show ?thesis
    by (simp add: create_agent_def announce_agent_def gateway_audit_def tbl_insert_def Let_def split: sum.split)
qed (simp add: create_agent_def Let_def)

lemma update_agent_links:
  assumes "links_ok (db s)" shows "links_ok (db (snd (update_agent w wsid name body s)))"
proof -
  let ?p = "\<lambda>g. g_name g = name \<and> g_workspace_id g = wsid"
  have "links_ok ((db s)\<lparr>agents := tbl_update ?p (set_agent w c) (agents (db s))\<rparr>)"
    if "\<not> agent_update_fails ?p c (agents (db s))" for c
    using assms that by (rule links_ok_set_agent [where n = name]) simp
  with assms show ?thesis
    by (simp add: update_agent_def log_status_change_def Let_def split: option.split sum.split)
qed

lemma put_agents_links: "links_ok (db s) \<Longrightarrow> links_ok (db (snd (put_agents w req u s)))"
  by (simp add: put_agents_def update_agent_links split: option.split json.split sum.split)

lemma update_agent_config_links:
  assumes "links_ok (db s)" shows "links_ok (db (snd (fst (update_agent_config fs w req u agent body role s))))"
proof -
  have "links_ok ((db s)\<lparr>agents := tbl_update p (set_agent_config w agent body role) (agents (db s))\<rparr>)" for p
    using assms by (rule links_ok_update_agents) (simp_all add: set_agent_config_def)
  then show ?thesis
    by (simp add: update_agent_config_def log_config_update_def gateway_audit_def Let_def split: option.split sum.split)
qed

lemma put_agent_links: "links_ok (db s) \<Longrightarrow> links_ok (db (snd (fst (put_agent fs jerr idp w req u s))))"
  by (simp add: put_agent_def update_agent_config_links split: option.split json.split sum.split)

lemma heartbeat_links: "links_ok (db s) \<Longrightarrow> links_ok (db (snd (heartbeat idp w u s)))"
  by (simp add: heartbeat_def beat_def Let_def split: option.split)

lemma touch_connection_links:
  assumes "links_ok (db s)" and "touch_connection w wsid body s = Inr s'" shows "links_ok (db s')"
proof -
  have "links_ok ((db s)\<lparr>direct_connections := tbl_update p
      (\<lambda>c. c\<lparr>dc_last_heartbeat := Some (now_s w), dc_updated_at := now_s w\<rparr>) (direct_connections (db s))\<rparr>)" for p
    using assms(1) by (rule links_ok_update_conns) (simp_all add: is_live_def)
  with assms show ?thesis by (auto simp: touch_connection_def split: option.splits sum.splits)
qed

lemma report_tokens_links: "report_tokens w idp wsid body s = Inr (r, s') \<Longrightarrow> links_ok (db s') = links_ok (db s)"
  by (auto simp: report_tokens_def links_ok_def split: option.splits sum.splits)

lemma heartbeat_GET_links: "links_ok (db s) \<Longrightarrow> links_ok (db (snd (heartbeat_GET idp w req s)))"
  unfolding heartbeat_GET_def by (rule with_role_inv) (simp_all add: heartbeat_links)

lemma heartbeat_POST_links:
  assumes "links_ok (db s)" shows "links_ok (db (snd (heartbeat_POST idp w req s)))"
  unfolding heartbeat_POST_def
proof (rule with_role_inv [where P = links_ok], goal_cases)
  case (1 u)
  let ?b = "case req_body req of None \<Rightarrow> JObj [] | Some b \<Rightarrow> b"
  have get: "links_ok (db s3)" if "heartbeat_GET idp w req s2 = (r, s3)" "links_ok (db s2)" for r s2 s3
    using heartbeat_GET_links [OF that(2), of idp w req] that(1) by simp
  have s2: "links_ok (db s2)" if "touch_connection w (usr_workspace_id u) ?b s = Inr s1"
    "report_tokens w idp (usr_workspace_id u) ?b s1 = Inr (r, s2)" for s1 s2 r
    using touch_connection_links [OF assms that(1)] report_tokens_links [OF that(2)] by simp
  show ?case
    using assms touch_connection_links [OF assms] by (auto simp: Let_def intro: get s2 split: sum.split prod.split)
qed (rule assms)

lemma ensure_memory_column_links: "links_ok d \<Longrightarrow> links_ok (ensure_memory_column d)"
proof -
  assume "links_ok d"
  then have "links_ok (d\<lparr>agents := tbl_update (\<lambda>g. True) (\<lambda>g. g\<lparr>g_working_memory := Some []\<rparr>) (agents d)\<rparr>)"
    by (rule links_ok_update_agents) simp_all
  with \<open>links_ok d\<close> show ?thesis by (simp add: ensure_memory_column_def links_ok_def)
qed

lemma set_memory_links: "links_ok d \<Longrightarrow> links_ok (set_memory w idp wsid content d)"
  unfolding set_memory_def by (rule links_ok_update_agents) simp_all

lemma store_soul_links: "links_ok (db s) \<Longrightarrow> links_ok (db (snd (fst (store_soul fs idp w u agent tpl given soul s))))"
  by (simp add: store_soul_def Let_def links_ok_update_agents split: prod.split)

lemma put_soul_links: "links_ok (db s) \<Longrightarrow> links_ok (db (snd (fst (put_soul fs idp w req u s))))"
  by (simp add: put_soul_def store_soul_links split: option.split json.split sum.split)

lemma sync_agent_links:
  assumes "agents_ok t" and "sync_agent w fs a t = Inr (e, t')"
  shows "agents_ok t' \<and> g_id ` set (rows t) \<subseteq> g_id ` set (rows t')"
proof -
  have upd: "agents_ok (tbl_update p (sync_write w m soul) t)"
    "g_id ` set (rows (tbl_update p (sync_write w m soul) t)) = g_id ` set (rows t)" for p m soul
    using assms(1) agents_ok_update [of t "sync_write w m soul" p] tbl_update_image [of g_id "sync_write w m soul" p t]
    by (simp_all add: sync_write_def)
  have ins: "agents_ok (insert_agent_row w name role soul cfg t)" if "tbl_first (\<lambda>g. g_name g = name) t = None" for name role soul cfg
    unfolding insert_agent_row_def using assms(1)
    by (rule agents_ok_insert [where n = name and key = None])
      (use that in \<open>simp_all add: agent_conflict_def tbl_first_def find_None_iff list_ex_iff\<close>)
  have ids: "g_id g \<in> g_id ` set (rows (insert_agent_row w name role soul cfg t))" if "g \<in> set (rows t)" for g name role soul cfg
    using that by (auto simp: insert_agent_row_def rows_tbl_insert)
  show ?thesis
    using assms upd ins ids by (auto simp: sync_agent_def Let_def split: if_splits option.splits)
qed

lemma sync_loop_links:
  "agents_ok t \<Longrightarrow> sync_loop w fs as t = Inr (es, t') \<Longrightarrow> agents_ok t' \<and> g_id ` set (rows t) \<subseteq> g_id ` set (rows t')"
proof (induction as arbitrary: t es)
  case (Cons a as)
  from Cons.prems(2) obtain e t1 es' where 1: "sync_agent w fs a t = Inr (e, t1)" and 2: "sync_loop w fs as t1 = Inr (es', t')"
    by (auto split: sum.splits)
  from sync_agent_links [OF Cons.prems(1) 1] Cons.IH [OF _ 2] show ?case by blast
qed simp

lemma sync_links: "links_ok (db s) \<Longrightarrow> links_ok (db (snd (syncAgentsFromConfig w fs actor s)))"
proof -
  assume *: "links_ok (db s)"
  have "links_ok ((db s)\<lparr>agents := t\<rparr>)" if "sync_loop w fs as (agents (db s)) = Inr (es, t)" for as es t
    using * sync_loop_links [OF _ that] conns_ok_agents [of "agents (db s)" "direct_connections (db s)" t] by (simp add: links_ok_def)
  with * show ?thesis
    by (auto simp: syncAgentsFromConfig_def log_sync_def Let_def split: sum.split)
qed

lemma connect_agent_links:
  assumes "links_ok (db s)" and "connect_agent w wsid b s = Inr (i, s')"
  shows "links_ok (db s') \<and> i \<in> g_id ` set (rows (agents (db s')))"
proof (cases "agent_named (cn_agent_name b) wsid s")
  case None
  with assms(2) have free: "agent_conflict (cn_agent_name b) None (agents (db s)) = None"
    by (auto simp: connect_agent_def Let_def split: option.splits)
  have "links_ok ((db s)\<lparr>agents := snd (tbl_insert (cli_agent w wsid b) (agents (db s)))\<rparr>)"
    by (rule links_ok_insert [OF assms(1) _ _ _ free]) (simp_all add: cli_agent_def)
  with None free assms(2) show ?thesis
    by (auto simp: connect_agent_def frame_simps rows_tbl_insert tbl_insert_def cli_agent_def Let_def)
next
  case (Some g)
  let ?f = "\<lambda>g. g\<lparr>g_status := ''online'', g_updated_at := now_s w\<rparr>"
  have "links_ok ((db s)\<lparr>agents := tbl_update p ?f (agents (db s))\<rparr>)" for p
    using assms(1) by (rule links_ok_update_agents) simp_all
  moreover have "g \<in> set (rows (agents (db s)))"
    using Some by (auto simp: agent_named_def dest: tbl_first_in_rows)
  then have "g_id g \<in> g_id ` set (rows (tbl_update p ?f (agents (db s))))" for p
    using tbl_update_image [of g_id ?f p "agents (db s)"] by simp
  ultimately show ?thesis using Some assms(2) by (auto simp: connect_agent_def Let_def)
qed

lemma hang_up_sel [simp]: "\<not> is_live (hang_up w c)" "dc_agent_id (hang_up w c) = dc_agent_id c"
    "dc_id (hang_up w c) = dc_id c" "dc_connection_id (hang_up w c) = dc_connection_id c"
  by (simp_all add: hang_up_def is_live_def)

lemma no_live_after_hang_up:
  assumes "c \<in> set (rows (tbl_update (\<lambda>c. dc_agent_id c = i \<and> is_live c) (hang_up w) t))" and "is_live c"
  shows "dc_agent_id c \<noteq> i"
proof -
  from assms(1) obtain r where "c = (if dc_agent_id r = i \<and> is_live r then hang_up w r else r)"
    unfolding rows_tbl_update set_map by blast
  with assms(2) show ?thesis by (cases "dc_agent_id r = i \<and> is_live r") auto
qed

lemma hang_up_links: "links_ok d \<Longrightarrow> links_ok (d\<lparr>direct_connections := tbl_update p (hang_up w) (direct_connections d)\<rparr>)"
  by (rule links_ok_update_conns) simp_all

lemma conns_ok_insert:
  assumes "conns_ok t ct" and "i \<in> g_id ` set (rows t)" and "\<not> list_ex (\<lambda>c. dc_connection_id c = uuid) (rows ct)"
    and "\<And>c. c \<in> set (rows ct) \<Longrightarrow> is_live c \<Longrightarrow> dc_agent_id c \<noteq> i"
  shows "conns_ok t (snd (tbl_insert (new_connection w wsid uuid b i) ct))"
  using assms connection_rows.wf_insert [of ct "new_connection w wsid uuid b i"]
  by (auto simp: conns_ok_def rows_tbl_insert new_connection_def list_ex_iff)

lemma connect_links:
  assumes "links_ok (db s)" shows "links_ok (db (snd (connect uuid w u b s)))"
proof (cases "connect_agent w (usr_workspace_id u) b s")
  case (Inl e)
  with assms show ?thesis by (simp add: connect_def Let_def)
next
  case (Inr x)
  obtain i s1 where x: "x = (i, s1)" by fastforce
  let ?p = "\<lambda>c. dc_agent_id c = i \<and> is_live c"
  let ?ct = "tbl_update ?p (hang_up w) (direct_connections (db s1))"
  have s1: "links_ok (db s1)" "i \<in> g_id ` set (rows (agents (db s1)))"
    using connect_agent_links [OF assms] Inr x by auto
  then have hung: "links_ok ((db s1)\<lparr>direct_connections := ?ct\<rparr>)" by (intro hang_up_links)
  have "links_ok ((db s1)\<lparr>direct_connections := snd (tbl_insert (new_connection w (usr_workspace_id u) uuid b i) ?ct)\<rparr>)"
    if "\<not> list_ex (\<lambda>c. dc_connection_id c = uuid) (rows ?ct)"
    using hung s1(2) conns_ok_insert [OF _ s1(2) that no_live_after_hang_up] by (simp add: links_ok_def)
  with hung Inr x show ?thesis by (simp add: connect_def announce_connection_def Let_def)
qed

lemma disconnect_links:
  assumes "links_ok (db s)" shows "links_ok (db (snd (disconnect key given w u s)))"
proof -
  let ?d = "(db s)\<lparr>direct_connections := tbl_update (\<lambda>c. dc_connection_id c = key) (hang_up w) (direct_connections (db s))\<rparr>"
  have d: "links_ok ?d" using assms by (rule hang_up_links)
  have "links_ok (?d\<lparr>agents := tbl_update p (\<lambda>g. g\<lparr>g_status := ''offline'', g_updated_at := now_s w\<rparr>) (agents ?d)\<rparr>)" for p
    using d by (rule links_ok_update_agents) simp_all
  with d assms show ?thesis by (auto simp: disconnect_def links_ok_def frame_simps Let_def split: option.split)
qed

section \<open>Reachable states\<close>

text \<open>
  The routes that touch agents or their connections. Schemas, files, paths and other inputs are those of
  the individual request.
\<close>

inductive agent_step :: "server \<Rightarrow> server \<Rightarrow> bool" where
  create: "agent_step s (snd (agents_POST fs aschema w req s))"
| change: "agent_step s (snd (agents_PUT w req s))"
| configure: "agent_step s (snd (agent_PUT fs jerr idp w req s))"
| remove: "agent_step s (snd (agent_DELETE idp w req s))"
| wake: "agent_step s (snd (wake_POST run idp w req s))"
| message_to: "agent_step s (snd (message_POST run mschema w req s))"
| sync: "agent_step s (snd (sync_POST fs w req s))"
| beat_get: "agent_step s (snd (heartbeat_GET idp w req s))"
| beat_post: "agent_step s (snd (heartbeat_POST idp w req s))"
| memory_get: "agent_step s (snd (memory_GET idp w req s))"
| memory_put: "agent_step s (snd (memory_PUT idp w req s))"
| memory_delete: "agent_step s (snd (memory_DELETE idp w req s))"
| soul_put: "agent_step s (snd (soul_PUT fs idp w req s))"
| connecting: "agent_step s (snd (connect_POST uuid cschema w req s))"
| disconnecting: "agent_step s (snd (connect_DELETE w req s))"

lemma agent_step_links:
  assumes "agent_step s t" and ok: "links_ok (db s)" shows "links_ok (db t)"
  using assms(1)
proof cases
  case (create fs aschema w req)
  then show ?thesis
    unfolding agents_POST_def using ok
    by (auto intro!: mutating_route_inv [where P = links_ok] with_body_inv [where P = links_ok] create_agent_links)
next
  case (change w req)
  then show ?thesis
    unfolding agents_PUT_def using ok by (auto intro!: mutating_route_inv [where P = links_ok] put_agents_links)
next
  case (configure fs jerr idp w req)
  then show ?thesis unfolding agent_PUT_def using ok by (auto intro!: with_role_inv [where P = links_ok] put_agent_links)
next
  case (remove idp w req)
  then show ?thesis
    unfolding agent_DELETE_def using ok
    by (auto intro!: with_role_inv [where P = links_ok] simp: links_ok_remove Let_def split: option.split)
next
  case (wake run idp w req)
  then show ?thesis
    unfolding wake_POST_def using ok
    by (auto intro!: with_role_inv [where P = links_ok] simp: Let_def split: option.split sum.split)
next
  case (message_to run mschema w req)
  then show ?thesis
    unfolding message_POST_def using ok
    by (auto intro!: mutating_route_inv [where P = links_ok] with_body_inv [where P = links_ok]
        simp: send_message_def Let_def split: option.split sum.split)
next
  case (sync fs w req)
  then show ?thesis
    unfolding sync_POST_def using ok sync_links [OF ok, of w fs]
    by (auto intro!: with_role_inv [where P = links_ok] split: prod.split sum.split option.split) (metis snd_conv)+
next
  case (memory_get idp w req)
  then show ?thesis
    unfolding memory_GET_def using ok
    by (auto intro!: with_role_inv [where P = links_ok] simp: ensure_memory_column_links Let_def split: option.split)
next
  case (memory_put idp w req)
  then show ?thesis
    unfolding memory_PUT_def using ok
    by (auto intro!: with_role_inv [where P = links_ok]
        simp: write_memory_def store_memory_def ensure_memory_column_links set_memory_links Let_def split: option.split json.split)
next
  case (memory_delete idp w req)
  then show ?thesis
    unfolding memory_DELETE_def using ok
    by (auto intro!: with_role_inv [where P = links_ok] simp: set_memory_links Let_def split: option.split)
next
  case (soul_put fs idp w req)
  then show ?thesis unfolding soul_PUT_def using ok by (auto intro!: with_role_inv [where P = links_ok] put_soul_links)
next
  case (connecting uuid cschema w req)
  then show ?thesis
    unfolding connect_POST_def using ok
    by (auto intro!: with_role_inv [where P = links_ok] with_body_inv [where P = links_ok] connect_links)
next
  case (disconnecting w req)
  then show ?thesis
    unfolding connect_DELETE_def using ok
    by (auto intro!: with_role_inv [where P = links_ok] disconnect_links split: option.split json.split sum.split)
qed (use ok in \<open>simp_all add: heartbeat_GET_links heartbeat_POST_links\<close>)

lemma links_ok_init: "links_ok (db init_server)"
  by (simp add: links_ok_def agents_ok_def conns_ok_def session_keys_def init_server_def empty_db_def tbl_empty_def
      tbl_wf_def List.map_filter_def)

interpretation agent_system: invariant_system "\<lambda>s. s = init_server" agent_step "\<lambda>s. links_ok (db s)"
  by unfold_locales (auto intro: agent_step_links links_ok_init)

text \<open>
  C24. Whatever requests the routes for agents and connections serve, and in whatever order: names and
  session keys of agents stay unique, every connection belongs to exactly one existing agent and has an
  id of its own, and no agent ever has two live connections.
\<close>

theorem agents_stay_consistent:
  assumes "agent_step\<^sup>*\<^sup>* init_server s"
  shows "distinct (map g_name (rows (agents (db s)))) \<and>
    distinct (List.map_filter g_session_key (rows (agents (db s)))) \<and>
    distinct (map dc_connection_id (rows (direct_connections (db s)))) \<and>
    (\<forall>c \<in> set (rows (direct_connections (db s))). \<exists>!g. g \<in> set (rows (agents (db s))) \<and> g_id g = dc_agent_id c) \<and>
    distinct (map dc_agent_id (filter (\<lambda>c. dc_status c = ''connected'') (rows (direct_connections (db s)))))"
proof -
  have ok: "agents_ok (agents (db s))" "conns_ok (agents (db s)) (direct_connections (db s))"
    using agent_system.reachable_inv [OF refl assms] by (simp_all add: links_ok_def)
  then have inj: "inj_on g_id (set (rows (agents (db s))))" by (simp add: agents_ok_def tbl_wf_def distinct_map)
  have "\<exists>!g. g \<in> set (rows (agents (db s))) \<and> g_id g = dc_agent_id c"
    if "c \<in> set (rows (direct_connections (db s)))" for c
  proof -
    have "dc_agent_id ` set (rows (direct_connections (db s))) \<subseteq> g_id ` set (rows (agents (db s)))"
      using ok(2) by (simp add: conns_ok_def)
    with that have "dc_agent_id c \<in> g_id ` set (rows (agents (db s)))" by (auto simp: image_subset_iff)
    then obtain g where g: "g \<in> set (rows (agents (db s)))" "dc_agent_id c = g_id g" by (rule imageE)
    then show ?thesis by (intro ex1I [of _ g]) (simp_all add: inj_onD [OF inj])
  qed
  then show ?thesis using ok by (simp add: agents_ok_def conns_ok_def session_keys_def is_live_def [abs_def])
qed

section \<open>Connecting and disconnecting\<close>

lemma connect_agent_named:
  assumes "links_ok (db s)" and "connect_agent w wsid b s = Inr (i, s')"
  shows "direct_connections (db s') = direct_connections (db s) \<and>
    (\<exists>g. agent_named (cn_agent_name b) wsid s' = Some g \<and> g_id g = i \<and> g_status g = ''online'')"
proof (cases "agent_named (cn_agent_name b) wsid s")
  case None
  with assms(2) have "agent_conflict (cn_agent_name b) None (agents (db s)) = None"
    by (auto simp: connect_agent_def Let_def split: option.splits)
  with None assms(2) show ?thesis
    by (auto simp: connect_agent_def agent_named_def frame_simps tbl_first_def tbl_insert_def cli_agent_def find_append Let_def)
next
  case (Some g)
  let ?p = "\<lambda>x. g_id x = g_id g \<and> g_workspace_id x = wsid"
  let ?f = "\<lambda>g. g\<lparr>g_status := ''online'', g_updated_at := now_s w\<rparr>"
  have "tbl_first (\<lambda>x. g_name x = cn_agent_name b \<and> g_workspace_id x = wsid) (tbl_update ?p ?f (agents (db s))) =
      map_option (\<lambda>x. if ?p x then ?f x else x) (agent_named (cn_agent_name b) wsid s)"
    unfolding agent_named_def tbl_first_def rows_tbl_update by (rule find_map_id) simp
  moreover have "g_workspace_id g = wsid" using Some by (auto simp: agent_named_def dest: tbl_first_in_rows)
  ultimately show ?thesis using Some assms(2) by (auto simp: connect_agent_def agent_named_def Let_def)
qed

definition live_of :: "int \<Rightarrow> server \<Rightarrow> connection_row list" where
  "live_of i s = filter (\<lambda>c. dc_agent_id c = i \<and> dc_status c = ''connected'') (rows (direct_connections (db s)))"

lemma connect_result:
  assumes "links_ok (db s)" and "connect uuid w u b s = (Inr r, s')"
  shows "\<exists>g. agent_named (cn_agent_name b) (usr_workspace_id u) s' = Some g \<and> g_status g = ''online'' \<and>
    map dc_connection_id (live_of (g_id g) s') = [uuid] \<and> jget ''agent_id'' (resp_body r) = Some (JNum (g_id g)) \<and>
    (\<forall>i. i \<noteq> g_id g \<longrightarrow> live_of i s' = live_of i s)"
proof -
  from assms(2) obtain i s1 where 1: "connect_agent w (usr_workspace_id u) b s = Inr (i, s1)"
    by (auto simp: connect_def Let_def split: sum.splits)
  from connect_agent_named [OF assms(1) 1] obtain g where same: "direct_connections (db s1) = direct_connections (db s)"
    and g: "agent_named (cn_agent_name b) (usr_workspace_id u) s1 = Some g" "g_id g = i" "g_status g = ''online''"
    by blast
  let ?ct = "tbl_update (\<lambda>c. dc_agent_id c = i \<and> is_live c) (hang_up w) (direct_connections (db s))"
  have rows: "rows (direct_connections (db s')) = rows ?ct @ [new_connection w (usr_workspace_id u) uuid b i (seq ?ct + 1)]"
    and ags: "agents (db s') = agents (db s1)"
    and resp: "jget ''agent_id'' (resp_body r) = Some (JNum i)"
    using assms(2) 1 by (auto simp: connect_def announce_connection_def same frame_simps rows_tbl_insert json_response_def Let_def split: if_splits)
  have "filter (\<lambda>c. dc_agent_id c = i \<and> is_live c) (rows ?ct) = []"
    using no_live_after_hang_up by (auto simp: filter_empty_conv)
  then have "live_of i s' = [new_connection w (usr_workspace_id u) uuid b i (seq ?ct + 1)]"
    by (simp add: live_of_def rows new_connection_def is_live_def)
  moreover have "live_of j s' = live_of j s" if "j \<noteq> i" for j
  proof -
    have "filter (\<lambda>c. dc_agent_id c = j \<and> is_live c) (rows ?ct) = filter (\<lambda>c. dc_agent_id c = j \<and> is_live c) (rows (direct_connections (db s)))"
      unfolding rows_tbl_update by (rule filter_map_if) (use that in auto)
    then show ?thesis using that by (simp add: live_of_def rows new_connection_def is_live_def)
  qed
  ultimately show ?thesis using g ags resp by (auto simp: agent_named_def new_connection_def)
qed

lemma disconnect_result:
  assumes ok: "links_ok (db s)" and named: "agent_named name wsid s = Some g"
    and live: "map dc_connection_id (live_of (g_id g) s) = [key]" and u: "usr_workspace_id u = wsid"
  shows "live_of (g_id g) (snd (disconnect key given w u s)) = [] \<and>
    map_option g_status (agent_named name wsid (snd (disconnect key given w u s))) = Some ''offline''"
proof -
  let ?p = "\<lambda>c. dc_connection_id c = key"
  let ?t = "tbl_update ?p (hang_up w) (direct_connections (db s))"
  let ?mine = "\<lambda>x. g_id x = g_id g \<and> g_workspace_id x = wsid"
  let ?f = "\<lambda>x. x\<lparr>g_status := ''offline'', g_updated_at := now_s w\<rparr>"
  have g: "g \<in> set (rows (agents (db s)))" "g_name g = name" "g_workspace_id g = wsid"
    using named by (auto simp: agent_named_def dest: tbl_first_in_rows)
  from live obtain c where lc: "live_of (g_id g) s = [c]" and key: "dc_connection_id c = key" by auto
  then have c: "c \<in> set (rows (direct_connections (db s)))" "dc_agent_id c = g_id g"
    by (auto simp: live_of_def dest!: arg_cong [where f = set])
  have inj: "inj_on dc_connection_id (set (rows (direct_connections (db s))))"
    using ok by (simp add: links_ok_def conns_ok_def distinct_map)
  have "agent_of wsid c s \<noteq> []" using g c(2) by (auto simp: agent_of_def tbl_select_def filter_empty_conv)
  then have "tbl_first (\<lambda>c. dc_connection_id c = key \<and> agent_of wsid c s \<noteq> []) (direct_connections (db s)) \<noteq> None"
    using c key by (auto simp: tbl_first_def find_None_iff)
  then obtain x where x: "tbl_first (\<lambda>c. dc_connection_id c = key \<and> agent_of wsid c s \<noteq> []) (direct_connections (db s)) = Some x"
    by blast
  then have "x = c" using tbl_first_in_rows [OF x] inj_onD [OF inj, of x c] c(1) key by simp
  with x have first: "tbl_first (\<lambda>c. dc_connection_id c = key \<and> agent_of wsid c s \<noteq> []) (direct_connections (db s)) = Some c"
    by simp
  have "x = c" if "x \<in> set (rows (direct_connections (db s)))" "dc_agent_id x = g_id g" "is_live x" for x
  proof -
    have "x \<in> set (live_of (g_id g) s)" using that by (simp add: live_of_def is_live_def)
    then show ?thesis by (simp add: lc)
  qed
  then have dead: "filter (\<lambda>x. dc_agent_id x = g_id g \<and> is_live x) (rows ?t) = []"
    using key by (auto simp: filter_empty_conv rows_tbl_update)
  then have others: "tbl_select (\<lambda>x. dc_agent_id x = dc_agent_id c \<and> is_live x \<and> dc_connection_id x \<noteq> key) ?t = []"
    by (auto simp: tbl_select_def filter_empty_conv c(2))
  let ?s = "snd (disconnect key given w u s)"
  have tables: "direct_connections (db ?s) = ?t" "agents (db ?s) = tbl_update ?mine ?f (agents (db s))"
    using first others by (simp_all add: disconnect_def u c(2) frame_simps Let_def)
  have "agent_named name wsid ?s = map_option (\<lambda>x. if ?mine x then ?f x else x) (agent_named name wsid s)"
    unfolding agent_named_def tables tbl_first_def rows_tbl_update by (rule find_map_id) simp
  then show ?thesis using dead named g(3) by (simp add: live_of_def tables is_live_def [symmetric])
qed

text \<open>
  A direct connection takes its agent over: it is then the only live connection of the agent, which
  is found under its name and is online, and the connections of the other agents are as before. Closing
  it by its id, from the same workspace, leaves the agent without a live connection and offline.
\<close>

theorem connection_takes_over:
  assumes "links_ok (db s)" and "connect uuid w u b s = (Inr r, s')"
  shows "\<exists>g. agent_named (cn_agent_name b) (usr_workspace_id u) s' = Some g \<and> g_status g = ''online'' \<and>
    map dc_connection_id (live_of (g_id g) s') = [uuid] \<and> jget ''agent_id'' (resp_body r) = Some (JNum (g_id g)) \<and>
    (\<forall>i. i \<noteq> g_id g \<longrightarrow> live_of i s' = live_of i s) \<and>
    (\<forall>w' u' given. usr_workspace_id u' = usr_workspace_id u \<longrightarrow>
       live_of (g_id g) (snd (disconnect uuid given w' u' s')) = [] \<and>
       map_option g_status (agent_named (cn_agent_name b) (usr_workspace_id u) (snd (disconnect uuid given w' u' s'))) = Some ''offline'')"
proof -
  from connect_result [OF assms] obtain g where g: "agent_named (cn_agent_name b) (usr_workspace_id u) s' = Some g"
    "g_status g = ''online''" "map dc_connection_id (live_of (g_id g) s') = [uuid]"
    "jget ''agent_id'' (resp_body r) = Some (JNum (g_id g))" "\<forall>i. i \<noteq> g_id g \<longrightarrow> live_of i s' = live_of i s"
    by (elim exE conjE)
  have ok: "links_ok (db s')" using connect_links [OF assms(1), of uuid w u b] assms(2) by simp
  have off: "live_of (g_id g) (snd (disconnect uuid given w' u' s')) = [] \<and>
      map_option g_status (agent_named (cn_agent_name b) (usr_workspace_id u) (snd (disconnect uuid given w' u' s'))) = Some ''offline''"
    if "usr_workspace_id u' = usr_workspace_id u" for w' u' given
    by (rule disconnect_result [OF ok g(1,3) that])
  with g show ?thesis by (intro exI [of _ g]) simp
qed

definition demo_connect :: connect_input where
  "demo_connect = \<lparr>cn_tool_name = ''cli'', cn_tool_version = None, cn_agent_name = ''bob'', cn_agent_role = None, cn_metadata = None\<rparr>"

lemma with_role_demo: "with_role demo_quiet_world demo_body_request ''operator'' s k = k (api_user s)"
proof -
  have "requireRole demo_quiet_world demo_body_request ''operator'' s = Inr (Auth_user (api_user s))"
    by (simp add: requireRole_def getUserFromRequest_def parseCookie_def match_cookie_def starts_with_def
        user_from_api_key_def demo_quiet_world_def demo_request_def demo_body_request_def api_user_def Let_def)
  then show ?thesis by (simp add: with_role_def)
qed

definition demo_connected :: server where
  "demo_connected = snd (connect_POST ''one'' (\<lambda>_. Inr demo_connect) demo_quiet_world demo_body_request init_server)"

definition demo_reconnected :: server where
  "demo_reconnected = snd (connect_POST ''two'' (\<lambda>_. Inr demo_connect) demo_quiet_world demo_body_request demo_connected)"

lemma demo_connect_run: "connect_POST uuid (\<lambda>_. Inr demo_connect) demo_quiet_world demo_body_request s =
    connect uuid demo_quiet_world (api_user s) demo_connect s"
  by (simp add: connect_POST_def with_role_demo with_body_demo)

lemma demo_reconnected_tables:
  "map (\<lambda>c. (dc_connection_id c, dc_status c)) (rows (direct_connections (db demo_reconnected))) =
     [(''one'', ''disconnected''), (''two'', ''connected'')]"
  unfolding demo_reconnected_def demo_connected_def demo_connect_run by code_simp

theorem agents_stay_consistent_witness:
  "map (\<lambda>c. (dc_connection_id c, dc_status c)) (rows (direct_connections (db demo_reconnected))) =
     [(''one'', ''disconnected''), (''two'', ''connected'')] \<and>
   distinct (map dc_agent_id (filter (\<lambda>c. dc_status c = ''connected'') (rows (direct_connections (db demo_reconnected)))))"
proof -
  have "agent_step init_server demo_connected" unfolding demo_connected_def by (rule agent_step.connecting)
  moreover have "agent_step demo_connected demo_reconnected" unfolding demo_reconnected_def by (rule agent_step.connecting)
  ultimately have "agent_step\<^sup>*\<^sup>* init_server demo_reconnected"
    by (meson rtranclp.rtrancl_into_rtrancl rtranclp.rtrancl_refl)
  from agents_stay_consistent [OF this] demo_reconnected_tables show ?thesis by simp
qed

theorem connection_takes_over_witness:
  "\<exists>g. agent_named ''bob'' 1 demo_connected = Some g \<and> map dc_connection_id (live_of (g_id g) demo_connected) = [''one''] \<and>
     live_of (g_id g) (snd (disconnect ''one'' (JStr ''one'') demo_quiet_world demo_caller demo_connected)) = []"
proof -
  have "fst (connect ''one'' demo_quiet_world (api_user init_server) demo_connect init_server) \<noteq> Inl e" for e
    by code_simp
  then obtain r where r: "connect ''one'' demo_quiet_world (api_user init_server) demo_connect init_server = (Inr r, demo_connected)"
    unfolding demo_connected_def demo_connect_run by (metis prod.collapse sum.exhaust)
  have u: "usr_workspace_id (api_user init_server) = 1" "usr_workspace_id demo_caller = 1"
    by (simp_all add: api_user_def getDefaultWorkspaceId_def init_server_def empty_db_def tbl_first_def demo_caller_def)
  from connection_takes_over [OF links_ok_init r] show ?thesis by (auto simp: u demo_connect_def)
qed

end
