(* ===== verification/MC_Settings.thy ===== *)
theory MC_Settings
  imports MC_Scheduler "HOL-Library.AList" "HOL-Library.List_Lexorder" "HOL-Library.Product_Lexorder" "HOL-Library.Char_ord"
begin

text \<open>
  The settings, \<open>src/app/api/settings/route.ts\<close>: definitions with defaults, the listing that merges
  them with the stored rows, and the two routes that change them; and what the scheduler
  (\<open>src/lib/scheduler.ts\<close>) sees of a change. The routes have no \<open>try\<close>, so an exception leaves the
  handler. Keys that spell a number, which JavaScript moves to the front of an object, are outside the model.
\<close>

section \<open>Definitions\<close>

record setting_definition =
  def_category :: string
  def_description :: string
  def_default :: string

text \<open>\<open>String(n)\<close> of a number that may be \<open>NaN\<close>\<close>

definition number_str :: "int option \<Rightarrow> string" where
  "number_str n = (case n of None \<Rightarrow> ''NaN'' | Some i \<Rightarrow> show_int i)"

definition config_gatewayHost :: "world \<Rightarrow> string" where
  "config_gatewayHost w = or_else (getenv w ''OPENCLAW_GATEWAY_HOST'') ''127.0.0.1''"

definition config_gatewayPort :: "world \<Rightarrow> int option" where
  "config_gatewayPort w = env_number w ''OPENCLAW_GATEWAY_PORT'' ''18789''"

definition settingDefinitions :: "world \<Rightarrow> (string \<times> setting_definition) list" where
  "settingDefinitions w =
     (let ret = config_retention w; d = (\<lambda>c text v. \<lparr>def_category = c, def_description = text, def_default = v\<rparr>)
      in [(''retention.activities_days'', d ''retention'' ''Days to keep activity records'' (number_str (ret_activities ret))),
          (''retention.audit_log_days'', d ''retention'' ''Days to keep audit log entries'' (number_str (ret_auditLog ret))),
          (''retention.logs_days'', d ''retention'' ''Days to keep log files'' (number_str (ret_logs ret))),
          (''retention.notifications_days'', d ''retention'' ''Days to keep notifications'' (number_str (ret_notifications ret))),
          (''retention.pipeline_runs_days'', d ''retention'' ''Days to keep pipeline run history'' (number_str (ret_pipelineRuns ret))),
          (''retention.token_usage_days'', d ''retention'' ''Days to keep token usage data'' (number_str (ret_tokenUsage ret))),
          (''gateway.host'', d ''gateway'' ''Gateway hostname'' (config_gatewayHost w)),
          (''gateway.port'', d ''gateway'' ''Gateway port number'' (number_str (config_gatewayPort w))),
          (''general.site_name'', d ''general'' ''Mission Control display name'' ''Mission Control''),
          (''general.auto_cleanup'', d ''general'' ''Enable automatic data cleanup'' ''false''),
          (''general.auto_backup'', d ''general'' ''Enable automatic daily backups'' ''false''),
          (''general.backup_retention_count'', d ''general'' ''Number of backup files to keep'' ''10'')])"

text \<open>
  \<open>settingDefinitions[key]\<close> is also truthy for the names that every object inherits; the values found
  there have no category, description or default.
\<close>

definition inherited_names :: "string list" where
  "inherited_names = [''constructor'', ''__defineGetter__'', ''__defineSetter__'', ''hasOwnProperty'', ''__lookupGetter__'',
     ''__lookupSetter__'', ''isPrototypeOf'', ''propertyIsEnumerable'', ''toString'', ''valueOf'', ''__proto__'', ''toLocaleString'']"

definition has_definition :: "world \<Rightarrow> string \<Rightarrow> bool" where
  "has_definition w k \<longleftrightarrow> k \<in> set (map fst (settingDefinitions w)) \<or> k \<in> set inherited_names"

section \<open>GET /api/settings\<close>

record listed_setting =
  ls_key :: string
  ls_value :: string
  ls_description :: string
  ls_category :: string
  ls_updated_by :: "string option"
  ls_updated_at :: "int option"
  ls_is_default :: bool

definition defined_setting :: "(string \<Rightarrow> setting_row option) \<Rightarrow> string \<times> setting_definition \<Rightarrow> listed_setting" where
  "defined_setting stored kd = (case kd of (k, d) \<Rightarrow>
     (case stored k of
        None \<Rightarrow> \<lparr>ls_key = k, ls_value = def_default d, ls_description = def_description d, ls_category = def_category d,
                 ls_updated_by = None, ls_updated_at = None, ls_is_default = True\<rparr>
      | Some r \<Rightarrow> \<lparr>ls_key = k, ls_value = sg_value r,
                 ls_description = (case sg_description r of None \<Rightarrow> def_description d | Some x \<Rightarrow> x),
                 ls_category = sg_category r, ls_updated_by = sg_updated_by r,
                 ls_updated_at = Some (sg_updated_at r), ls_is_default = False\<rparr>))"

definition custom_setting :: "setting_row \<Rightarrow> listed_setting" where
  "custom_setting r = \<lparr>ls_key = sg_key r, ls_value = sg_value r,
     ls_description = (case sg_description r of None \<Rightarrow> [] | Some x \<Rightarrow> x), ls_category = sg_category r,
     ls_updated_by = sg_updated_by r, ls_updated_at = Some (sg_updated_at r), ls_is_default = False\<rparr>"

definition list_settings :: "world \<Rightarrow> server \<Rightarrow> listed_setting list" where
  "list_settings w s =
     (let rs = sort_key (\<lambda>r. (sg_category r, sg_key r)) (settings (db s))
      in map (defined_setting (\<lambda>k. find (\<lambda>r. sg_key r = k) rs)) (settingDefinitions w) @
         map custom_setting (filter (\<lambda>r. \<not> has_definition w (sg_key r)) rs))"

definition group_settings :: "listed_setting list \<Rightarrow> (string \<times> listed_setting list) list" where
  "group_settings ls = fold (\<lambda>x g. AList.map_default (ls_category x) [] (\<lambda>xs. xs @ [x]) g) ls []"

definition listed_json :: "listed_setting \<Rightarrow> json" where
  "listed_json x = JObj [(''key'', JStr (ls_key x)), (''value'', JStr (ls_value x)), (''description'', JStr (ls_description x)),
     (''category'', JStr (ls_category x)), (''updated_by'', jnull JStr (ls_updated_by x)),
     (''updated_at'', jnull JNum (ls_updated_at x)), (''is_default'', JBool (ls_is_default x))]"

definition settings_GET :: "world \<Rightarrow> request \<Rightarrow> server \<Rightarrow> outcome" where
  "settings_GET w req s = with_role w req ''admin'' s (\<lambda>u.
     (let ls = list_settings w s
      in (Inr (json_response 200 (JObj [(''settings'', JArr (map listed_json ls)),
           (''grouped'', JObj (map (\<lambda>(c, xs). (c, JArr (map listed_json xs))) (group_settings ls)))])), s)))"

section \<open>PUT /api/settings\<close>

definition upsert_setting :: "world \<Rightarrow> string \<Rightarrow> string \<Rightarrow> string \<Rightarrow> setting_row list \<Rightarrow> setting_row list" where
  "upsert_setting w actor k v rs =
     (if list_ex (\<lambda>r. sg_key r = k) rs
      then map (\<lambda>r. if sg_key r = k then r\<lparr>sg_value := v, sg_updated_by := Some actor, sg_updated_at := now_s w\<rparr> else r) rs
      else rs @ [\<lparr>sg_key = k, sg_value = v,
        sg_description = map_option def_description (map_of (settingDefinitions w) k),
        sg_category = (case map_of (settingDefinitions w) k of None \<Rightarrow> ''custom'' | Some d \<Rightarrow> def_category d),
        sg_updated_by = Some actor, sg_updated_at = now_s w\<rparr>])"

fun upsert_settings :: "world \<Rightarrow> string \<Rightarrow> (string \<times> json) list \<Rightarrow> setting_row list \<Rightarrow> (string \<times> json) list \<times> setting_row list" where
  "upsert_settings w actor [] rs = ([], rs)"
| "upsert_settings w actor ((k, v) # kvs) rs =
     (let old = map_option sg_value (find (\<lambda>r. sg_key r = k) rs);
          (changes, rs') = upsert_settings w actor kvs (upsert_setting w actor k (js_String v) rs)
      in ((k, JObj [(''old'', jnull JStr old), (''new'', JStr (js_String v))]) # changes, rs'))"

definition audit_settings :: "world \<Rightarrow> request \<Rightarrow> user \<Rightarrow> string \<Rightarrow> json \<Rightarrow> server \<Rightarrow> server" where
  "audit_settings w req u action detail s =
     logAuditEvent w ((audit_event0 action (usr_username u))\<lparr>ae_actor_id := Some (usr_id u), ae_detail := Some detail,
       ae_ip_address := Some (client_ip req)\<rparr>) s"

definition put_settings :: "world \<Rightarrow> request \<Rightarrow> user \<Rightarrow> (string \<times> json) list \<Rightarrow> server \<Rightarrow> outcome" where
  "put_settings w req u kvs s =
     (let (changes, rs) = upsert_settings w (usr_username u) kvs (settings (db s));
          updated = JArr (map (JStr \<circ> fst) kvs)
      in (Inr (json_response 200 (JObj [(''updated'', updated), (''count'', JNum (int (length kvs)))])),
          audit_settings w req u ''settings_update'' (JObj [(''updated_keys'', updated), (''changes'', JObj changes)])
            (s\<lparr>db := (db s)\<lparr>settings := rs\<rparr>\<rparr>)))"

definition settings_PUT :: "(string \<times> json) list schema \<Rightarrow> world \<Rightarrow> request \<Rightarrow> server \<Rightarrow> outcome" where
  "settings_PUT parse = mutating_route ''admin'' (\<lambda>w req u s. with_body parse req s (\<lambda>kvs. put_settings w req u kvs s))"

section \<open>DELETE /api/settings\<close>

definition reset_setting :: "world \<Rightarrow> request \<Rightarrow> user \<Rightarrow> json \<Rightarrow> string \<Rightarrow> server \<Rightarrow> outcome" where
  "reset_setting w req u given k s =
     (case setting_of k (db s) of
        None \<Rightarrow> (Inr (error_response 404 ''Setting not found or already at default''), s)
      | Some r \<Rightarrow>
          (Inr (json_response 200 (JObj [(''reset'', given),
             (''default_value'', jnull JStr (map_option def_default (map_of (settingDefinitions w) k)))])),
           audit_settings w req u ''settings_reset'' (JObj [(''key'', given), (''old_value'', JStr (sg_value r))])
             (s\<lparr>db := (db s)\<lparr>settings := filter (\<lambda>r. sg_key r \<noteq> k) (settings (db s))\<rparr>\<rparr>)))"

text \<open>A key that is a number is outside the model.\<close>

definition delete_setting :: "world \<Rightarrow> request \<Rightarrow> user \<Rightarrow> server \<Rightarrow> outcome" where
  "delete_setting w req u s =
     (case req_body req of
        None \<Rightarrow> (Inr (error_response 400 ''Request body required''), s)
      | Some JNull \<Rightarrow> (Inl ''Cannot read properties of null (reading 'key')'', s)
      | Some body \<Rightarrow>
          (case truthy_prop ''key'' body of
             None \<Rightarrow> (Inr (error_response 400 ''key parameter required''), s)
           | Some v \<Rightarrow>
               (case bind_text v of
                  Inl e \<Rightarrow> (Inl e, s)
                | Inr k \<Rightarrow> reset_setting w req u v (or_else k []) s)))"

definition settings_DELETE :: "world \<Rightarrow> request \<Rightarrow> server \<Rightarrow> outcome" where
  "settings_DELETE = mutating_route ''admin'' delete_setting"

section \<open>What is shown and what takes effect\<close>

text \<open>The primary key of the table.\<close>

definition keys_ok :: "server \<Rightarrow> bool" where
  "keys_ok s \<longleftrightarrow> distinct (map sg_key (settings (db s)))"

text \<open>The value that the listing shows for a key.\<close>

definition shown_value :: "world \<Rightarrow> server \<Rightarrow> string \<Rightarrow> string option" where
  "shown_value w s k = map_option ls_value (find (\<lambda>x. ls_key x = k) (list_settings w s))"

lemma find_key:
  assumes "distinct (map f xs)" and "x \<in> set xs" and "f x = k"
  shows "find (\<lambda>x. f x = k) xs = Some x"
  using assms by (induction xs) auto

lemma find_key_perm:
  assumes "distinct (map f xs)" and "mset ys = mset xs"
  shows "find (\<lambda>x. f x = k) ys = find (\<lambda>x. f x = k) xs"
proof (cases "find (\<lambda>x. f x = k) ys")
  case None
  with mset_eq_setD [OF assms(2)] have "find (\<lambda>x. f x = k) xs = None" by (auto simp: find_None_iff)
  with None show ?thesis by simp
next
  case (Some y)
  with find_SomeD [OF Some] mset_eq_setD [OF assms(2)] find_key [OF assms(1), of y k] show ?thesis by simp
qed

lemma find_defined:
  "find (\<lambda>x. ls_key x = k) (map (defined_setting g) ds) = map_option (\<lambda>d. defined_setting g (k, d)) (map_of ds k)"
  by (induction ds) (auto simp: defined_setting_def split: option.split)

lemma find_custom:
  "find (\<lambda>x. ls_key x = k) (map custom_setting (filter (\<lambda>r. \<not> has_definition w (sg_key r)) rs)) =
     (if has_definition w k then None else map_option custom_setting (find (\<lambda>r. sg_key r = k) rs))"
proof -
  have "ls_key (custom_setting r) = sg_key r" for r by (simp add: custom_setting_def)
  then show ?thesis by (induction rs) auto
qed

lemma shown_value_eq:
  assumes "keys_ok s"
  shows "shown_value w s k = (case setting_of k (db s) of
     None \<Rightarrow> map_option def_default (map_of (settingDefinitions w) k)
   | Some r \<Rightarrow> if map_of (settingDefinitions w) k = None \<and> k \<in> set inherited_names then None else Some (sg_value r))"
proof -
  define rs where "rs = sort_key (\<lambda>r. (sg_category r, sg_key r)) (settings (db s))"
  have same: "find (\<lambda>r. sg_key r = k) rs = setting_of k (db s)"
    using assms unfolding keys_ok_def setting_of_def by (rule find_key_perm) (simp add: rs_def)
  have found: "find (\<lambda>x. ls_key x = k) (list_settings w s) =
      (case map_of (settingDefinitions w) k of
         Some d \<Rightarrow> Some (defined_setting (\<lambda>k. find (\<lambda>r. sg_key r = k) rs) (k, d))
       | None \<Rightarrow> if has_definition w k then None else map_option custom_setting (setting_of k (db s)))"
    unfolding list_settings_def rs_def [symmetric] Let_def find_append find_defined find_custom same
    by (cases "map_of (settingDefinitions w) k") simp_all
  show ?thesis
  proof (cases "map_of (settingDefinitions w) k")
    case None
    then have "k \<notin> fst ` set (settingDefinitions w)" by (simp add: map_of_eq_None_iff)
    with None show ?thesis
      by (auto simp: shown_value_def found has_definition_def custom_setting_def split: option.split)
  next
    case (Some d)
    then show ?thesis by (simp add: shown_value_def found defined_setting_def same split: option.split)
  qed
qed

lemma find_upsert:
  "map_option sg_value (find (\<lambda>r. sg_key r = k') (upsert_setting w actor k v rs)) =
     (if k' = k then Some v else map_option sg_value (find (\<lambda>r. sg_key r = k') rs))"
proof (cases "list_ex (\<lambda>r. sg_key r = k) rs")
  case True
  define f where "f r = (if sg_key r = k then r\<lparr>sg_value := v, sg_updated_by := Some actor, sg_updated_at := now_s w\<rparr> else r)" for r :: setting_row
  have "find (\<lambda>r. sg_key r = k') (map f rs) = map_option f (find (\<lambda>r. sg_key r = k') rs)"
    by (rule find_map_id) (simp add: f_def)
  moreover have "upsert_setting w actor k v rs = map f rs" using True by (simp add: upsert_setting_def f_def [abs_def])
  moreover obtain r where "find (\<lambda>r. sg_key r = k) rs = Some r"
    using True by (cases "find (\<lambda>r. sg_key r = k) rs") (auto simp: find_None_iff list_ex_iff)
  moreover have "map_option (sg_value \<circ> f) (find (\<lambda>r. sg_key r = k') rs) = map_option sg_value (find (\<lambda>r. sg_key r = k') rs)"
    if "k' \<noteq> k"
    using that by (cases "find (\<lambda>r. sg_key r = k') rs") (auto dest!: find_SomeD simp: f_def)
  ultimately show ?thesis by (auto dest: find_SomeD simp: option.map_comp f_def)
next
  case False
  then have "find (\<lambda>r. sg_key r = k) rs = None" by (auto simp: find_None_iff list_ex_iff)
  with False show ?thesis by (auto simp: upsert_setting_def find_append split: option.split)
qed

lemma distinct_upsert:
  assumes "distinct (map sg_key rs)" shows "distinct (map sg_key (upsert_setting w actor k v rs))"
proof -
  have "map sg_key (map (\<lambda>r. if sg_key r = k then r\<lparr>sg_value := v, sg_updated_by := Some actor, sg_updated_at := now_s w\<rparr> else r) rs)
      = map sg_key rs" by simp
  with assms show ?thesis unfolding upsert_setting_def by (auto simp only: list_ex_iff if_True if_False split: if_split) auto
qed

lemma upsert_settings_spec:
  assumes "upsert_settings w actor kvs rs = (changes, rs')" and "distinct (map fst kvs)" and "distinct (map sg_key rs)"
  shows "distinct (map sg_key rs') \<and> (\<forall>k. map_option sg_value (find (\<lambda>r. sg_key r = k) rs') =
     (case map_of kvs k of Some v \<Rightarrow> Some (js_String v) | None \<Rightarrow> map_option sg_value (find (\<lambda>r. sg_key r = k) rs)))"
  using assms
proof (induction kvs arbitrary: rs changes rs')
  case (Cons kv kvs)
  obtain k v where kv: "kv = (k, v)" by fastforce
  let ?rs = "upsert_setting w actor k (js_String v) rs"
  from Cons.prems(1) obtain ch where "upsert_settings w actor kvs ?rs = (ch, rs')"
    by (auto simp: kv split: prod.splits)
  from Cons.IH [OF this] Cons.prems have
    "distinct (map sg_key rs')" and
    step: "\<And>x. map_option sg_value (find (\<lambda>r. sg_key r = x) rs') =
      (case map_of kvs x of Some v \<Rightarrow> Some (js_String v) | None \<Rightarrow> map_option sg_value (find (\<lambda>r. sg_key r = x) ?rs))"
    by (simp_all add: kv distinct_upsert)
  moreover have "map_of kvs k = None" using Cons.prems(2) by (simp add: kv map_of_eq_None_iff)
  ultimately show ?case by (simp add: kv step find_upsert split: option.split)
qed simp

lemma audit_settings_settings [simp]: "settings (db (audit_settings w req u a d s)) = settings (db s)"
  by (simp add: audit_settings_def frame_simps)

lemma put_settings_values:
  assumes "keys_ok s" and "distinct (map fst kvs)"
  shows "keys_ok (snd (put_settings w req u kvs s))"
    and "map_option sg_value (setting_of k (db (snd (put_settings w req u kvs s)))) =
      (case map_of kvs k of Some v \<Rightarrow> Some (js_String v) | None \<Rightarrow> map_option sg_value (setting_of k (db s)))"
proof -
  obtain ch rs where u: "upsert_settings w (usr_username u) kvs (settings (db s)) = (ch, rs)" by fastforce
  then have "settings (db (snd (put_settings w req u kvs s))) = rs" by (simp add: put_settings_def Let_def)
  with upsert_settings_spec [OF u assms(2)] assms(1)
  show "keys_ok (snd (put_settings w req u kvs s))"
    and "map_option sg_value (setting_of k (db (snd (put_settings w req u kvs s)))) =
      (case map_of kvs k of Some v \<Rightarrow> Some (js_String v) | None \<Rightarrow> map_option sg_value (setting_of k (db s)))"
    by (simp_all add: keys_ok_def setting_of_def split: option.split)
qed

lemma reset_setting_values:
  assumes "keys_ok s"
  shows "keys_ok (snd (reset_setting w req u given k s))"
    and "setting_of k' (db (snd (reset_setting w req u given k s))) = (if k' = k then None else setting_of k' (db s))"
proof -
  let ?s = "snd (reset_setting w req u given k s)"
  have rows: "settings (db ?s) = filter (\<lambda>r. sg_key r \<noteq> k) (settings (db s))"
  proof (cases "setting_of k (db s)")
    case None
    then have "filter (\<lambda>r. sg_key r \<noteq> k) (settings (db s)) = settings (db s)"
      by (auto simp: setting_of_def find_None_iff filter_id_conv)
    with None show ?thesis by (simp add: reset_setting_def)
  qed (simp add: reset_setting_def)
  show "keys_ok ?s" using assms by (simp add: keys_ok_def rows distinct_map_filter)
  show "setting_of k' (db ?s) = (if k' = k then None else setting_of k' (db s))"
    unfolding setting_of_def rows find_filter_conj
    by (auto simp: find_None_iff intro!: arg_cong2 [where f = find])
qed

text \<open>The tasks of the scheduler whose switch has a definition are off by default, in both places.\<close>

lemma switch_definitions:
  assumes "i \<in> {''auto_backup'', ''auto_cleanup'', ''agent_heartbeat'', ''webhook_retry'', ''claude_session_scan''}"
  shows "settingKey i \<notin> set inherited_names"
    and "map_of (settingDefinitions w) (settingKey i) = Some d \<Longrightarrow> def_default d = ''false'' \<and> \<not> defaultEnabled i"
proof -
  show "settingKey i \<notin> set inherited_names" using assms by (auto simp: settingKey_def inherited_names_def)
  assume "map_of (settingDefinitions w) (settingKey i) = Some d"
  with assms show "def_default d = ''false'' \<and> \<not> defaultEnabled i"
    by (auto simp: settingKey_def settingDefinitions_def defaultEnabled_def Let_def)
qed

lemma switch_shown:
  assumes "keys_ok s"
    and i: "i \<in> {''auto_backup'', ''auto_cleanup'', ''agent_heartbeat'', ''webhook_retry'', ''claude_session_scan''}"
  shows "task_enabled s i = (case shown_value w s (settingKey i) of None \<Rightarrow> defaultEnabled i | Some v \<Rightarrow> v = ''true'')"
proof (cases "setting_of (settingKey i) (db s)")
  case None
  with switch_definitions(2) [OF i, of w] show ?thesis
    by (cases "map_of (settingDefinitions w) (settingKey i)")
      (simp_all add: shown_value_eq [OF assms(1)] task_enabled_def isSettingEnabled_def)
next
  case (Some r)
  then show ?thesis
    using switch_definitions(1) [OF i] by (simp add: shown_value_eq [OF assms(1)] task_enabled_def isSettingEnabled_def)
qed

text \<open>
  Settings are shown as they are effective. After an update the listing shows the given values, as
  texts, for the given keys (names that every JavaScript object inherits excepted) and what it showed
  before for all others; after a reset it shows the default of the key, or nothing. At any time the
  switch that the listing shows for a task of the scheduler is the one the scheduler obeys. The keys of
  the table stay unique.
\<close>

theorem settings_shown_effective:
  fixes w req u req' u' given key
  assumes "keys_ok s" and "distinct (map fst kvs)"
  defines "s1 \<equiv> snd (put_settings w req u kvs s)"
  defines "s2 \<equiv> snd (reset_setting w req' u' given key s1)"
  shows "(\<forall>k. k \<notin> set inherited_names \<longrightarrow> shown_value w s1 k =
       (case map_of kvs k of Some v \<Rightarrow> Some (js_String v) | None \<Rightarrow> shown_value w s k)) \<and>
    (\<forall>k. shown_value w s2 k =
       (if k = key then map_option def_default (map_of (settingDefinitions w) k) else shown_value w s1 k)) \<and>
    (\<forall>i t. i \<in> {''auto_backup'', ''auto_cleanup'', ''agent_heartbeat'', ''webhook_retry'', ''claude_session_scan''} \<and>
       t \<in> {s, s1, s2} \<longrightarrow>
       task_enabled t i = (case shown_value w t (settingKey i) of None \<Rightarrow> defaultEnabled i | Some v \<Rightarrow> v = ''true'')) \<and>
    keys_ok s1 \<and> keys_ok s2"
proof -
  have k1: "keys_ok s1" unfolding s1_def by (rule put_settings_values(1) [OF assms(1,2)])
  then have k2: "keys_ok s2" unfolding s2_def by (rule reset_setting_values(1))
  have v1: "map_option sg_value (setting_of k (db s1)) =
      (case map_of kvs k of Some v \<Rightarrow> Some (js_String v) | None \<Rightarrow> map_option sg_value (setting_of k (db s)))" for k
    unfolding s1_def by (rule put_settings_values(2) [OF assms(1,2)])
  have "shown_value w s1 k = (case map_of kvs k of Some v \<Rightarrow> Some (js_String v) | None \<Rightarrow> shown_value w s k)"
    if "k \<notin> set inherited_names" for k
    using that v1 [of k]
    by (auto simp: shown_value_eq [OF k1] shown_value_eq [OF assms(1)] split: option.splits)
  moreover
  have r2: "setting_of k (db s2) = (if k = key then None else setting_of k (db s1))" for k
    unfolding s2_def by (rule reset_setting_values(2) [OF k1])
  have "shown_value w s2 k =
      (if k = key then map_option def_default (map_of (settingDefinitions w) k) else shown_value w s1 k)" for k
    by (simp add: shown_value_eq [OF k2] shown_value_eq [OF k1] r2)
  ultimately show ?thesis using k1 k2 assms(1) switch_shown by blast
qed

theorem settings_shown_effective_witness:
  "shown_value demo_world (snd (put_settings demo_world demo_request (api_user init_server) [(''general.auto_backup'', JBool True)] init_server))
     ''general.auto_backup'' = Some ''true'' \<and>
   task_enabled (snd (put_settings demo_world demo_request (api_user init_server) [(''general.auto_backup'', JBool True)] init_server))
     ''auto_backup''"
proof -
  let ?kvs = "[(''general.auto_backup'', JBool True)]"
  have 1: "keys_ok init_server" by (simp add: keys_ok_def init_server_def empty_db_def)
  have 2: "distinct (map fst ?kvs)" by simp
  note eff = settings_shown_effective [OF 1 2, of demo_world demo_request "api_user init_server"]
  have shown: "shown_value demo_world (snd (put_settings demo_world demo_request (api_user init_server) ?kvs init_server))
     ''general.auto_backup'' = Some ''true''"
    using eff by (simp add: inherited_names_def)
  moreover have "settingKey ''auto_backup'' = ''general.auto_backup''" by (simp add: settingKey_def)
  ultimately show ?thesis using eff by simp
qed

end
