(* ===== verification/MC_Workflows.thy ===== *)
theory MC_Workflows
  imports MC_Pipelines
begin

text \<open>
  The workflow templates, \<open>src/app/api/workflows/route.ts\<close>, and what becomes of a pipeline
  (\<open>MC_Pipelines\<close>) when a template it uses is deleted.
\<close>

section \<open>/api/workflows\<close>

definition template_json :: "template_row \<Rightarrow> json" where
  "template_json t = JObj [(''id'', JNum (tp_id t)), (''name'', JStr (tp_name t)), (''description'', jnull JStr (tp_description t)),
     (''model'', JStr (tp_model t)), (''task_prompt'', JStr (tp_task_prompt t)), (''timeout_seconds'', JNum (tp_timeout_seconds t)),
     (''agent_role'', jnull JStr (tp_agent_role t)), (''tags'', case tp_tags t of None \<Rightarrow> JArr [] | Some v \<Rightarrow> v),
     (''created_by'', JStr (tp_created_by t)), (''created_at'', JNum (tp_created_at t)), (''updated_at'', JNum (tp_updated_at t)),
     (''last_used_at'', jnull JNum (tp_last_used_at t)), (''use_count'', JNum (tp_use_count t)),
     (''workspace_id'', JNum (tp_workspace_id t))]"

definition workflows_GET :: "world \<Rightarrow> request \<Rightarrow> server \<Rightarrow> outcome" where
  "workflows_GET w req s = with_role w req ''viewer'' s (\<lambda>u.
     (Inr (json_response 200 (JObj [(''templates'', JArr (map template_json
        (order_by_desc2 (sql_ord w) tp_use_count tp_updated_at
           (tbl_select (\<lambda>t. tp_workspace_id t = usr_workspace_id u) (workflow_templates (db s))))))])), s))"

record workflow_input =
  wi_name :: string
  wi_task_prompt :: string
  wi_description :: "string option"
  wi_model :: string
  wi_timeout_seconds :: int
  wi_agent_role :: "string option"
  wi_tags :: "string list"

definition new_template :: "world \<Rightarrow> user \<Rightarrow> workflow_input \<Rightarrow> int \<Rightarrow> template_row" where
  "new_template w u b i = \<lparr>tp_id = i, tp_name = wi_name b, tp_description = or_null (wi_description b), tp_model = wi_model b,
     tp_task_prompt = wi_task_prompt b, tp_timeout_seconds = wi_timeout_seconds b, tp_agent_role = or_null (wi_agent_role b),
     tp_tags = Some (JArr (map JStr (wi_tags b))), tp_created_by = or_else (Some (usr_username u)) ''system'',
     tp_created_at = now_s w, tp_updated_at = now_s w, tp_last_used_at = None, tp_use_count = 0,
     tp_workspace_id = usr_workspace_id u\<rparr>"

definition find_template :: "int \<Rightarrow> int \<Rightarrow> server \<Rightarrow> template_row option" where
  "find_template i wsid s = tbl_first (\<lambda>t. tp_id t = i \<and> tp_workspace_id t = wsid) (workflow_templates (db s))"

definition create_template :: "world \<Rightarrow> user \<Rightarrow> workflow_input \<Rightarrow> server \<Rightarrow> outcome" where
  "create_template w u b s =
     (let (i, t) = tbl_insert (new_template w u b) (workflow_templates (db s));
          s1 = s\<lparr>db := (db s)\<lparr>workflow_templates := t\<rparr>\<rparr>
      in case find_template i (usr_workspace_id u) s1 of
           None \<Rightarrow> (Inr (error_response 500 ''Failed to create template''), s1)
         | Some row \<Rightarrow>
             (Inr (json_response 201 (JObj [(''template'', template_json row)])),
              logActivity w ''workflow_created'' ''workflow'' i (or_else (Some (usr_username u)) ''system'')
                (''Created workflow template: '' @ wi_name b) None (usr_workspace_id u) s1))"

definition workflows_POST :: "workflow_input schema \<Rightarrow> world \<Rightarrow> request \<Rightarrow> server \<Rightarrow> outcome" where
  "workflows_POST parse = mutating_route ''operator'' (\<lambda>w req u s. with_body parse req s (\<lambda>b. create_template w u b s))"

subsection \<open>PUT\<close>

record template_changes =
  tc_name :: "string option option"
  tc_description :: "string option option"
  tc_model :: "string option option"
  tc_task_prompt :: "string option option"
  tc_timeout_seconds :: "int option option"
  tc_agent_role :: "string option option"
  tc_tags :: "json option"

definition template_changes_of :: "json \<Rightarrow> string + template_changes" where
  "template_changes_of body =
     (case (given_text ''name'' body, given_text ''description'' body, given_text ''model'' body, given_text ''task_prompt'' body,
            given_int ''timeout_seconds'' body, given_text ''agent_role'' body) of
        (Inr nm, Inr de, Inr mo, Inr pr, Inr ti, Inr ro) \<Rightarrow>
          Inr \<lparr>tc_name = nm, tc_description = de, tc_model = mo, tc_task_prompt = pr, tc_timeout_seconds = ti,
               tc_agent_role = ro, tc_tags = jget ''tags'' body\<rparr>
      | _ \<Rightarrow> Inl ''SQLite3 can only bind numbers, strings, bigints, buffers, and null'')"

definition no_template_changes :: "template_changes \<Rightarrow> bool" where
  "no_template_changes c \<longleftrightarrow> tc_name c = None \<and> tc_description c = None \<and> tc_model c = None \<and> tc_task_prompt c = None \<and>
     tc_timeout_seconds c = None \<and> tc_agent_role c = None \<and> tc_tags c = None"

text \<open>\<open>name\<close>, \<open>model\<close>, \<open>task_prompt\<close> and \<open>timeout_seconds\<close> are \<open>NOT NULL\<close>.\<close>

definition template_update_fails :: "template_changes \<Rightarrow> bool" where
  "template_update_fails c \<longleftrightarrow> tc_name c = Some None \<or> tc_model c = Some None \<or> tc_task_prompt c = Some None \<or>
     tc_timeout_seconds c = Some None"

definition given_or :: "'a option option \<Rightarrow> 'a \<Rightarrow> 'a" where
  "given_or v old = (case v of Some (Some x) \<Rightarrow> x | _ \<Rightarrow> old)"

definition set_template :: "world \<Rightarrow> template_changes \<Rightarrow> template_row \<Rightarrow> template_row" where
  "set_template w c t =
     (if no_template_changes c
      then t\<lparr>tp_use_count := tp_use_count t + 1, tp_last_used_at := Some (now_s w), tp_updated_at := now_s w\<rparr>
      else t\<lparr>tp_name := given_or (tc_name c) (tp_name t), tp_description := set_or_keep (tc_description c) (tp_description t),
             tp_model := given_or (tc_model c) (tp_model t), tp_task_prompt := given_or (tc_task_prompt c) (tp_task_prompt t),
             tp_timeout_seconds := given_or (tc_timeout_seconds c) (tp_timeout_seconds t),
             tp_agent_role := set_or_keep (tc_agent_role c) (tp_agent_role t),
             tp_tags := set_or_keep_opt (tc_tags c) (tp_tags t), tp_updated_at := now_s w\<rparr>)"

definition update_template :: "world \<Rightarrow> user \<Rightarrow> json \<Rightarrow> int option \<Rightarrow> server \<Rightarrow> outcome" where
  "update_template w u body idv s =
     (let wsid = usr_workspace_id u
      in case Option.bind idv (\<lambda>i. find_template i wsid s) of
           None \<Rightarrow> (Inr (error_response 404 ''Template not found''), s)
         | Some existing \<Rightarrow>
             (case template_changes_of body of
                Inl e \<Rightarrow> (Inr (error_response 500 ''Failed to update template''), s)
              | Inr c \<Rightarrow>
                  if template_update_fails c then (Inr (error_response 500 ''Failed to update template''), s)
                  else
                    (let s1 = s\<lparr>db := (db s)\<lparr>workflow_templates := tbl_update
                           (\<lambda>t. tp_id t = tp_id existing \<and> tp_workspace_id t = wsid) (set_template w c) (workflow_templates (db s))\<rparr>\<rparr>
                     in case find_template (tp_id existing) wsid s1 of
                          None \<Rightarrow> (Inr (error_response 500 ''Failed to update template''), s1)
                        | Some row \<Rightarrow> (Inr (json_response 200 (JObj [(''template'', template_json row)])), s1))))"

definition workflows_PUT :: "world \<Rightarrow> request \<Rightarrow> server \<Rightarrow> outcome" where
  "workflows_PUT w req s = with_role w req ''operator'' s (\<lambda>u.
     case req_body req of
       None \<Rightarrow> (Inr (error_response 500 ''Failed to update template''), s)
     | Some JNull \<Rightarrow> (Inr (error_response 500 ''Failed to update template''), s)
     | Some body \<Rightarrow>
         (case truthy_prop ''id'' body of
            None \<Rightarrow> (Inr (error_response 400 ''Template ID is required''), s)
          | Some v \<Rightarrow>
              (case bind_id v of
                 Inl e \<Rightarrow> (Inr (error_response 500 ''Failed to update template''), s)
               | Inr i \<Rightarrow> update_template w u body i s)))"

subsection \<open>DELETE\<close>

text \<open>\<open>parseInt(id)\<close>; \<open>NaN\<close> is bound as \<open>NULL\<close> and matches nothing.\<close>

definition delete_template :: "user \<Rightarrow> json \<Rightarrow> server \<Rightarrow> outcome" where
  "delete_template u v s =
     (let mine = (\<lambda>t. Some (tp_id t) = parse_int (js_String v) \<and> tp_workspace_id t = usr_workspace_id u)
      in if tbl_first mine (workflow_templates (db s)) = None
         then (Inr (error_response 404 ''Template not found''), s)
         else (Inr (json_response 200 (JObj [(''success'', JBool True)])),
               s\<lparr>db := (db s)\<lparr>workflow_templates := tbl_delete mine (workflow_templates (db s))\<rparr>\<rparr>))"

definition workflows_DELETE :: "world \<Rightarrow> request \<Rightarrow> server \<Rightarrow> outcome" where
  "workflows_DELETE w req s = with_role w req ''operator'' s (\<lambda>u.
     case req_body req of
       None \<Rightarrow> (Inr (error_response 400 ''Request body required''), s)
     | Some JNull \<Rightarrow> (Inr (error_response 500 ''Failed to delete template''), s)
     | Some body \<Rightarrow>
         (case truthy_prop ''id'' body of
            None \<Rightarrow> (Inr (error_response 400 ''Template ID is required''), s)
          | Some v \<Rightarrow> delete_template u v s))"

interpretation workflows_put_route: role_guarded workflows_PUT "''operator''"
  unfolding workflows_PUT_def by (rule role_guarded_with_role)

interpretation workflows_delete_route: role_guarded workflows_DELETE "''operator''"
  unfolding workflows_DELETE_def by (rule role_guarded_with_role)

interpretation templates: row_store tp_id "tbl_get tp_id" tbl_insert tbl_update tbl_delete "tbl_wf tp_id"
  by (rule row_store_tbl)

section \<open>Templates and pipelines\<close>

text \<open>
  Nothing protects a template that a pipeline uses. After the template of a pipeline's first step has
  been deleted, the pipeline still starts: the answer is 201 and the run is stored as running with its
  first step running, but no command is executed, so that nothing will ever report the step as finished.
\<close>

theorem deleted_template_stalls_run:
  assumes "tbl_wf tp_id (workflow_templates (db s))"
    and "find_pipeline pid wsid s = Some pl" and "p_steps pl = st # sts"
    and "delete_template u (JNum (ps_template_id st)) s = (Inr r, s1)" and "resp_status r = 200"
  shows "\<exists>r' s2 run. (\<forall>cmd. startPipeline w cmd (Some pid) by_user wsid s1 = (Inr r', s2)) \<and> resp_status r' = 201 \<and>
    run \<in> set (rows (pipeline_runs (db s2))) \<and> r_pipeline_id run = pid \<and> r_status run = Run_running \<and>
    rs_status (hd (r_steps_snapshot run)) = Running \<and> rs_spawn_id (hd (r_steps_snapshot run)) = None"
proof -
  let ?i = "ps_template_id st"
  have s1: "s1 = s\<lparr>db := (db s)\<lparr>workflow_templates := tbl_delete (\<lambda>t. Some (tp_id t) = Some ?i \<and> tp_workspace_id t = usr_workspace_id u)
      (workflow_templates (db s))\<rparr>\<rparr>"
    and gone: "tbl_first (\<lambda>t. Some (tp_id t) = Some ?i \<and> tp_workspace_id t = usr_workspace_id u) (workflow_templates (db s)) \<noteq> None"
    using assms(4,5) by (auto simp: delete_template_def Let_def error_response_def json_response_def split: if_splits)
  from gone obtain t where t: "t \<in> set (rows (workflow_templates (db s)))" "tp_id t = ?i" "tp_workspace_id t = usr_workspace_id u"
    by (auto dest: tbl_first_in_rows)
  have "tbl_get tp_id (workflow_templates (db s1)) ?i = None"
    using t assms(1)
    by (auto simp: s1 tbl_get_None rows_tbl_delete tbl_wf_def dest: inj_onD simp flip: distinct_map)
      (metis (no_types, lifting) distinct_map inj_onD)
  moreover have p: "find_pipeline pid wsid s1 = Some pl" using assms(2) by (simp add: s1 find_pipeline_def)
  moreover have "p_id pl = pid" using assms(2) by (auto simp: find_pipeline_def dest: tbl_first_in_rows)
  ultimately show ?thesis
    using assms(3)
    by (simp add: startPipeline_def begin_start_def run_phases_def finish_start_def Let_def frame_simps tbl_insert_def new_run_def
        steps_snapshot_def step_snapshot_def json_response_def) (intro exI conjI disjI1, rule refl, simp_all)
qed

theorem deleted_template_stalls_run_witness:
  "\<exists>r s1 r' s2. delete_template demo_caller (JNum 1) demo_pipelines_state = (Inr r, s1) \<and>
     startPipeline demo_world demo_cmd (Some 1) ''api'' 1 s1 = (Inr r', s2) \<and> resp_status r' = 201 \<and>
     (\<exists>run. run \<in> set (rows (pipeline_runs (db s2))) \<and> r_status run = Run_running)"
proof -
  let ?st = "\<lparr>ps_template_id = 1, ps_on_failure = Stop\<rparr>"
  have 1: "tbl_wf tp_id (workflow_templates (db demo_pipelines_state))"
    by (simp add: demo_pipelines_state_def tbl_wf_def)
  obtain pl sts where 2: "find_pipeline 1 1 demo_pipelines_state = Some pl" and 3: "p_steps pl = ?st # sts"
    by (simp add: demo_pipelines_state_def find_pipeline_def tbl_first_def)
  obtain r s1 where 4: "delete_template demo_caller (JNum (ps_template_id ?st)) demo_pipelines_state = (Inr r, s1)"
    and 5: "resp_status r = 200"
    by (simp add: delete_template_def demo_pipelines_state_def demo_caller_workspace tbl_first_def Let_def json_response_def)
  from deleted_template_stalls_run [OF 1 2 3 4 5, of demo_world "''api''"] show ?thesis using 4 by auto
qed

section \<open>Edits and uses\<close>

lemma set_template_key [simp]:
  "tp_id (set_template w c t) = tp_id t" "tp_workspace_id (set_template w c t) = tp_workspace_id t"
  by (simp_all add: set_template_def)

text \<open>
  An accepted update changes exactly the addressed template of the caller's workspace. Without any
  field it counts as a use: the counter grows by one and the time of use is set, all else stays. With
  fields it is an edit, which never counts as a use.
\<close>

lemma template_update_exact:
  assumes "tbl_wf tp_id (workflow_templates (db s))"
    and "update_template w u body idv s = (Inr r, s')" and "resp_status r = 200"
  obtains i t c where "idv = Some i" and "find_template i (usr_workspace_id u) s = Some t"
    and "template_changes_of body = Inr c" and "find_template i (usr_workspace_id u) s' = Some (set_template w c t)"
    and "\<And>j. j \<noteq> i \<Longrightarrow> tbl_get tp_id (workflow_templates (db s')) j = tbl_get tp_id (workflow_templates (db s)) j"
    and "tp_use_count (set_template w c t) = tp_use_count t + (if no_template_changes c then 1 else 0)"
proof -
  let ?ws = "usr_workspace_id u"
  obtain i t c where i: "idv = Some i" and t: "find_template i ?ws s = Some t" and c: "template_changes_of body = Inr c"
    and nf: "\<not> template_update_fails c"
    using assms(2,3) by (cases idv) (auto simp: update_template_def Let_def error_response_def split: option.splits sum.splits if_splits)
  have ti: "tp_id t = i" "tp_workspace_id t = ?ws" "t \<in> set (rows (workflow_templates (db s)))"
    using t by (auto simp: find_template_def dest: tbl_first_in_rows)
  let ?T = "tbl_update (\<lambda>x. tp_id x = i \<and> tp_workspace_id x = ?ws) (set_template w c) (workflow_templates (db s))"
  have "find (\<lambda>x. tp_id x = i \<and> tp_workspace_id x = ?ws) (rows ?T) =
      map_option (\<lambda>x. if tp_id x = i \<and> tp_workspace_id x = ?ws then set_template w c x else x)
        (find (\<lambda>x. tp_id x = i \<and> tp_workspace_id x = ?ws) (rows (workflow_templates (db s))))"
    unfolding rows_tbl_update by (rule find_map_id) simp
  then have f: "tbl_first (\<lambda>x. tp_id x = i \<and> tp_workspace_id x = ?ws) ?T = Some (set_template w c t)"
    using t ti by (simp add: find_template_def tbl_first_def)
  then have s': "s' = s\<lparr>db := (db s)\<lparr>workflow_templates := ?T\<rparr>\<rparr>"
    using assms(2) i t c nf ti by (auto simp: update_template_def Let_def find_template_def)
  have "tbl_get tp_id (workflow_templates (db s')) j = tbl_get tp_id (workflow_templates (db s)) j" if "j \<noteq> i" for j
  proof -
    have "find (\<lambda>x. tp_id x = j) (map (\<lambda>x. if tp_id x = i \<and> tp_workspace_id x = ?ws then set_template w c x else x) xs) =
        find (\<lambda>x. tp_id x = j) xs" for xs
      using that by (induction xs) auto
    then show ?thesis by (simp add: s' tbl_get_def rows_tbl_update)
  qed
  moreover have "find_template i ?ws s' = Some (set_template w c t)" using f by (simp add: s' find_template_def)
  ultimately show ?thesis using that [of i t c] i t c by (simp add: set_template_def)
qed

end
