(* ===== verification/MC_Chat.thy ===== *)
theory MC_Chat
  imports MC_Agents
begin

text \<open>
  The chat between operators and agents: \<open>src/app/api/chat/messages/route.ts\<close>,
  \<open>chat/messages/[id]/route.ts\<close>, \<open>chat/conversations/route.ts\<close>, and \<open>runCommand\<close> of
  \<open>src/lib/command.ts\<close>, through which a message is forwarded to the gateway. The parser
  \<open>JSON.parse\<close> on the output of a command and the session files of the gateway
  (\<open>getAllGatewaySessions\<close>) are arguments. A request is one step, although it waits for the gateway: it only
  adds rows to the tables and reads nothing that other requests change. A command of the gateway may never end
  (\<open>None\<close>); the request then stays unanswered.
\<close>

section \<open>Child processes\<close>

datatype child_event = Stdout string | Stderr string | Spawn_error string | Close int

record command_failure =
  cf_message :: string
  cf_stdout :: string
  cf_stderr :: string

text \<open>
  \<open>runCommand\<close>: the outcome of the promise after the events of the child process, \<open>None\<close> while it is
  pending; the first \<open>error\<close> or \<open>close\<close> settles it. A signal (\<open>code === null\<close>) is a code other than 0.
\<close>

fun runCommand :: "string \<Rightarrow> string list \<Rightarrow> string \<Rightarrow> string \<Rightarrow> child_event list \<Rightarrow> (command_failure + string \<times> string) option" where
  "runCommand command args out err [] = None"
| "runCommand command args out err (Stdout d # es) = runCommand command args (out @ d) err es"
| "runCommand command args out err (Stderr d # es) = runCommand command args out (err @ d) es"
| "runCommand command args out err (Spawn_error m # es) = Some (Inl \<lparr>cf_message = m, cf_stdout = [], cf_stderr = []\<rparr>)"
| "runCommand command args out err (Close code # es) =
     (if code = 0 then Some (Inr (out, err))
      else Some (Inl \<lparr>cf_message = ''Command failed ('' @ command @ '' '' @ join_with '' '' args @ ''): '' @ or_else (Some err) out,
                      cf_stdout = out, cf_stderr = err\<rparr>))"

text \<open>What a call of the gateway's command line with these arguments ends with; \<open>None\<close> when it never ends.\<close>

type_synonym gateway_run = "string list \<Rightarrow> (command_failure + string \<times> string) option"

text \<open>The answer of a request that waits for such calls (\<open>None\<close> when it waits forever), and the state it leaves.\<close>

type_synonym chat_outcome = "(string + response) option \<times> server"

section \<open>Messages\<close>

definition message_json :: "message_row \<Rightarrow> json" where
  "message_json m = JObj [(''id'', JNum (mg_id m)), (''conversation_id'', JStr (mg_conversation_id m)),
     (''from_agent'', JStr (mg_from_agent m)), (''to_agent'', jnull JStr (mg_to_agent m)), (''content'', JStr (mg_content m)),
     (''message_type'', JStr (mg_message_type m)), (''metadata'', case mg_metadata m of None \<Rightarrow> JNull | Some v \<Rightarrow> v),
     (''read_at'', jnull JNum (mg_read_at m)), (''created_at'', JNum (mg_created_at m)),
     (''workspace_id'', JNum (mg_workspace_id m))]"

definition COORDINATOR_AGENT :: "world \<Rightarrow> string" where
  "COORDINATOR_AGENT w = or_else (Some (trim (or_else (getenv w ''MC_COORDINATOR_AGENT'')
     (or_else (getenv w ''NEXT_PUBLIC_COORDINATOR_AGENT'') ''coordinator'')))) ''coordinator''"

definition from_brace :: "string \<Rightarrow> string" where
  "from_brace x = dropWhile (\<lambda>c. c \<noteq> CHR ''{'') x"

definition to_brace :: "string \<Rightarrow> string" where
  "to_brace x = rev (dropWhile (\<lambda>c. c \<noteq> CHR ''}'') (rev x))"

text \<open>From the first opening to the last closing brace; \<open>null\<close> when there are none in that order.\<close>

definition parseGatewayJson :: "(string \<Rightarrow> json option) \<Rightarrow> string \<Rightarrow> json option" where
  "parseGatewayJson parse_json raw =
     (let inner = to_brace (from_brace (trim raw)) in if inner = [] then None else parse_json inner)"

definition createChatReply ::
  "world \<Rightarrow> int \<Rightarrow> string \<Rightarrow> string \<Rightarrow> string \<Rightarrow> string \<Rightarrow> (string \<times> json) list \<Rightarrow> server \<Rightarrow> server"
where
  "createChatReply w wsid conv to content message_type metadata s =
     (let mk = (\<lambda>i. \<lparr>mg_id = i, mg_conversation_id = conv, mg_from_agent = COORDINATOR_AGENT w, mg_to_agent = Some to,
            mg_content = content, mg_message_type = message_type, mg_metadata = Some (JObj metadata), mg_read_at = None,
            mg_created_at = now_s w, mg_workspace_id = wsid\<rparr>);
          (i, t) = tbl_insert mk (messages (db s))
      in broadcast w ''chat.message'' (message_json (mk i)) (s\<lparr>db := (db s)\<lparr>messages := t\<rparr>\<rparr>))"

definition first_text :: "json option list \<Rightarrow> string option" where
  "first_text vs = (case List.map_filter (\<lambda>v. case v of Some (JStr x) \<Rightarrow> or_null (Some (trim x)) | _ \<Rightarrow> None) vs of
     [] \<Rightarrow> None | x # _ \<Rightarrow> Some x)"

definition extractReplyText :: "json option \<Rightarrow> string option" where
  "extractReplyText payload =
     (case payload of
        None \<Rightarrow> None
      | Some p \<Rightarrow>
          (case first_text [jget ''text'' p, jget ''message'' p, jget ''response'' p, jget ''output'' p, jget ''result'' p] of
             Some x \<Rightarrow> Some x
           | None \<Rightarrow>
               (case jget ''output'' p of
                  None \<Rightarrow> None
                | Some q \<Rightarrow> first_text [jget ''text'' q, jget ''message'' q, jget ''content'' q])))"

section \<open>GET /api/chat/messages\<close>

definition message_filter :: "request \<Rightarrow> int \<Rightarrow> message_row \<Rightarrow> bool" where
  "message_filter req wsid m \<longleftrightarrow> mg_workspace_id m = wsid \<and>
     (case nonempty_param req ''conversation_id'' of None \<Rightarrow> True | Some v \<Rightarrow> mg_conversation_id m = v) \<and>
     (case nonempty_param req ''from_agent'' of None \<Rightarrow> True | Some v \<Rightarrow> mg_from_agent m = v) \<and>
     (case nonempty_param req ''to_agent'' of None \<Rightarrow> True | Some v \<Rightarrow> mg_to_agent m = Some v) \<and>
     (case nonempty_param req ''since'' of
        None \<Rightarrow> True
      | Some v \<Rightarrow> (case parse_int v of None \<Rightarrow> False | Some n \<Rightarrow> n < mg_created_at m))"

definition list_messages :: "world \<Rightarrow> request \<Rightarrow> user \<Rightarrow> server \<Rightarrow> outcome" where
  "list_messages w req u s =
     (case (parse_int (or_else (req_query req ''limit'') ''50''), parse_int (or_else (req_query req ''offset'') ''0'')) of
        (Some l, Some offset) \<Rightarrow>
          (let limit = min l 200; found = tbl_select (message_filter req (usr_workspace_id u)) (messages (db s));
               page = (if limit = 0 then JNull else JNum (offset div limit + 1))
           in (Inr (json_response 200 (JObj [
                 (''messages'', JArr (map message_json (sql_limit limit offset
                    (order_by_desc (sql_ord w) (\<lambda>m. - mg_created_at m) found)))),
                 (''total'', JNum (int (length found))), (''page'', page), (''limit'', JNum limit)])), s))
      | _ \<Rightarrow> (Inr (error_response 500 ''Failed to fetch messages''), s))"

definition chat_messages_GET :: "world \<Rightarrow> request \<Rightarrow> server \<Rightarrow> outcome" where
  "chat_messages_GET w req s = with_role w req ''viewer'' s (\<lambda>u. list_messages w req u s)"

section \<open>POST /api/chat/messages\<close>

text \<open>The input after the first lines of the handler; \<open>to\<close> may be the empty text.\<close>

record chat_input =
  ci_from :: string
  ci_to :: "string option"
  ci_content :: string
  ci_message_type :: json
  ci_conversation_id :: json
  ci_metadata :: "json option"
  ci_forward :: bool

definition trimmed_prop :: "string \<Rightarrow> json \<Rightarrow> string + string option" where
  "trimmed_prop k body = (case truthy_prop k body of
     None \<Rightarrow> Inr None
   | Some (JStr x) \<Rightarrow> Inr (Some (trim x))
   | Some _ \<Rightarrow> Inl ''trim is not a function'')"

definition chat_input_of :: "world \<Rightarrow> json \<Rightarrow> string + chat_input" where
  "chat_input_of w body =
     (case (trimmed_prop ''from'' body, trimmed_prop ''to'' body, trimmed_prop ''content'' body) of
        (Inr f, Inr t, Inr c) \<Rightarrow>
          Inr \<lparr>ci_from = or_else f [], ci_to = t, ci_content = or_else c [],
               ci_message_type = (case truthy_prop ''message_type'' body of None \<Rightarrow> JStr ''text'' | Some v \<Rightarrow> v),
               ci_conversation_id = (case truthy_prop ''conversation_id'' body of
                  None \<Rightarrow> JStr (''conv_'' @ show_int (now_ms w)) | Some v \<Rightarrow> v),
               ci_metadata = truthy_prop ''metadata'' body, ci_forward = (truthy_prop ''forward'' body \<noteq> None)\<rparr>
      | _ \<Rightarrow> Inl ''trim is not a function'')"

subsection \<open>Forwarding\<close>

record gateway_session =
  gs_agent :: string
  gs_key :: string
  gs_sessionId :: string

record forward_info =
  fi_delivered :: bool
  fi_reason :: "string option"
  fi_session :: "string option"
  fi_runId :: "string option"

definition forward_json :: "forward_info \<Rightarrow> json" where
  "forward_json f = JObj ([(''attempted'', JBool True), (''delivered'', JBool (fi_delivered f))] @
     jopt ''reason'' JStr (fi_reason f) @ jopt ''session'' JStr (fi_session f) @ jopt ''runId'' JStr (fi_runId f))"

text \<open>The session key of the agent, from its row or else from the session files.\<close>

definition session_for :: "gateway_session list \<Rightarrow> agent_row option \<Rightarrow> string \<Rightarrow> string option" where
  "session_for sessions agent to =
     (case or_null (Option.bind agent g_session_key) of
        Some k \<Rightarrow> Some k
      | None \<Rightarrow>
          (case find (\<lambda>x. to_lower (gs_agent x) = to_lower to) sessions of
             None \<Rightarrow> None
           | Some x \<Rightarrow> or_null (Some (or_else (Some (gs_key x)) (gs_sessionId x)))))"

definition agent_id_for :: "agent_row option \<Rightarrow> string \<Rightarrow> string" where
  "agent_id_for agent to =
     or_else (Option.bind (Option.bind agent g_config) (str_field ''openclawId'')) (openclaw_id to)"

definition invoke_args :: "world \<Rightarrow> int \<Rightarrow> chat_input \<Rightarrow> string option \<Rightarrow> string \<Rightarrow> string list" where
  "invoke_args w messageId b sessionKey agentId =
     [''gateway'', ''call'', ''agent'', ''--timeout'', ''10000'', ''--params'',
      stringify (JObj [(''message'', JStr (''Message from '' @ ci_from b @ '': '' @ ci_content b)),
        (''idempotencyKey'', JStr (''mc-'' @ show_int messageId @ ''-'' @ show_int (now_ms w))), (''deliver'', JBool False),
        (case sessionKey of Some k \<Rightarrow> (''sessionKey'', JStr k) | None \<Rightarrow> (''agentId'', JStr agentId))]),
      ''--json'']"

definition run_id_of :: "json option \<Rightarrow> string option" where
  "run_id_of payload = or_null (Option.bind payload (str_field ''runId''))"

definition accepted_output :: "string \<Rightarrow> bool" where
  "accepted_output out \<longleftrightarrow> includes_str ''\"status\": \"accepted\"'' out \<or> includes_str ''\"status\":\"accepted\"'' out"

text \<open>
  What becomes of the command that hands the message over. The branch \<open>no_active_session\<close> needs an
  empty agent id; the id is never empty, because it is derived from a non-empty recipient.
\<close>

definition invoke_result :: "(string \<Rightarrow> json option) \<Rightarrow> command_failure + string \<times> string \<Rightarrow> string \<Rightarrow> forward_info" where
  "invoke_result parse_json answer target =
     (let delivered = (\<lambda>out. \<lparr>fi_delivered = True, fi_reason = None, fi_session = Some target,
            fi_runId = run_id_of (parseGatewayJson parse_json out)\<rparr>)
      in case answer of
           Inr (out, err) \<Rightarrow> delivered out
         | Inl e \<Rightarrow>
             if accepted_output (cf_stdout e) then delivered (cf_stdout e)
             else \<lparr>fi_delivered = False, fi_reason = Some ''gateway_send_failed'', fi_session = None, fi_runId = None\<rparr>)"

definition wait_args :: "string \<Rightarrow> string list" where
  "wait_args runId = [''gateway'', ''call'', ''agent.wait'', ''--timeout'', ''8000'', ''--params'',
     stringify (JObj [(''runId'', JStr runId), (''timeoutMs'', JNum 6000)]), ''--json'']"

text \<open>The reply after waiting for the run: content, type and status.\<close>

definition wait_reply :: "(string \<Rightarrow> json option) \<Rightarrow> command_failure + string \<times> string \<Rightarrow> string \<times> string \<times> string" where
  "wait_reply parse_json answer =
     (case answer of
        Inr (out, err) \<Rightarrow>
          (let payload = parseGatewayJson parse_json out;
               status = to_lower (case Option.bind payload (truthy_prop ''status'') of None \<Rightarrow> [] | Some v \<Rightarrow> js_String v);
               reason = (case Option.bind payload (str_field ''error'') of Some x \<Rightarrow> x | None \<Rightarrow> ''Unknown runtime error'')
           in if status = ''error''
              then (''I received your message, but execution failed: '' @ reason, ''status'', ''error'')
              else if status = ''timeout''
              then (''I received your message and I am still processing it. I will post results as soon as execution completes.'',
                    ''status'', ''processing'')
              else (case extractReplyText payload of
                      Some x \<Rightarrow> (x, ''text'', or_else (Some status) ''completed'')
                    | None \<Rightarrow> (''Execution accepted and completed. No textual response payload was returned by the runtime.'',
                        ''status'', or_else (Some status) ''completed'')))
      | Inl e \<Rightarrow>
          (let reason = (case Option.bind (parseGatewayJson parse_json (cf_stdout e)) (str_field ''error'') of
                  Some x \<Rightarrow> x
                | None \<Rightarrow> trim (or_else (Some (cf_stderr e)) (or_else (Some (cf_stdout e))
                    ''Unable to read completion status from coordinator runtime.'')))
           in (''I received your message, but I could not retrieve completion output yet: '' @ reason, ''status'', ''unknown'')))"

text \<open>
  The replies that the coordinator's conversation shows, in order (content, type and metadata), and
  whether the call that waits for the run has ended.
\<close>

definition coordinator_replies ::
  "(string \<Rightarrow> json option) \<Rightarrow> gateway_run \<Rightarrow> forward_info \<Rightarrow> (string \<times> string \<times> (string \<times> json) list) list \<times> bool"
where
  "coordinator_replies parse_json run f =
     (if \<not> fi_delivered f
      then ([(''I received your message, but delivery to the live coordinator runtime failed. Please restart the coordinator/gateway session and retry.'',
             ''status'', [(''status'', JStr ''delivery_failed''), (''reason'', JStr ''gateway_send_failed'')])], True)
      else
        (let accepted = (''Received. I am coordinating downstream agents now.'', ''status'',
               [(''status'', JStr ''accepted''), (''runId'', jnull JStr (fi_runId f))])
         in case fi_runId f of
              None \<Rightarrow> ([accepted], True)
            | Some runId \<Rightarrow>
                (case run (wait_args runId) of
                   None \<Rightarrow> ([accepted], False)
                 | Some answer \<Rightarrow> (case wait_reply parse_json answer of (content, ty, status) \<Rightarrow>
                     ([accepted, (content, ty, [(''status'', JStr status), (''runId'', JStr runId)])], True)))))"

definition is_coord :: "chat_input \<Rightarrow> bool" where
  "is_coord b \<longleftrightarrow> (case ci_conversation_id b of JStr c \<Rightarrow> starts_with ''coord:'' c | _ \<Rightarrow> False)"

definition forward_message ::
  "gateway_session list \<Rightarrow> (string \<Rightarrow> json option) \<Rightarrow> gateway_run \<Rightarrow> world \<Rightarrow> int \<Rightarrow> string \<Rightarrow> int \<Rightarrow> string \<Rightarrow> chat_input \<Rightarrow> server
   \<Rightarrow> forward_info option \<times> server"
where
  "forward_message sessions parse_json run w wsid conv messageId to b s =
     (let agent = tbl_first (\<lambda>g. to_lower (g_name g) = to_lower to \<and> g_workspace_id g = wsid) (agents (db s));
          sessionKey = session_for sessions agent to; agentId = agent_id_for agent to
      in case run (invoke_args w messageId b sessionKey agentId) of
           None \<Rightarrow> (None, s)
         | Some answer \<Rightarrow>
             (let f = invoke_result parse_json answer (or_else sessionKey agentId)
              in if is_coord b
                 then (case coordinator_replies parse_json run f of (replies, ended) \<Rightarrow>
                   (if ended then Some f else None,
                    fold (\<lambda>(content, ty, meta). createChatReply w wsid conv (ci_from b) content ty meta) replies s))
                 else (Some f, s)))"

definition shorten :: "nat \<Rightarrow> string \<Rightarrow> string" where
  "shorten n x = take n x @ (if n < length x then ''...'' else [])"

definition chat_row :: "world \<Rightarrow> int \<Rightarrow> string \<Rightarrow> string \<Rightarrow> chat_input \<Rightarrow> int \<Rightarrow> message_row" where
  "chat_row w wsid conv ty b i = \<lparr>mg_id = i, mg_conversation_id = conv, mg_from_agent = ci_from b, mg_to_agent = ci_to b,
     mg_content = ci_content b, mg_message_type = ty, mg_metadata = ci_metadata b, mg_read_at = None,
     mg_created_at = now_s w, mg_workspace_id = wsid\<rparr>"

definition announce_message :: "world \<Rightarrow> int \<Rightarrow> string \<Rightarrow> chat_input \<Rightarrow> int \<Rightarrow> server \<Rightarrow> server" where
  "announce_message w wsid ty b i s =
     (let s1 = logActivity w ''chat_message'' ''message'' i (ci_from b)
            (''Sent '' @ ty @ '' message'' @ (case or_null (ci_to b) of None \<Rightarrow> '' (broadcast)'' | Some to \<Rightarrow> '' to '' @ to))
            (Some (JObj [(''conversation_id'', ci_conversation_id b), (''to'', jnull JStr (ci_to b)),
               (''message_type'', ci_message_type b)])) wsid s
      in case or_null (ci_to b) of
           None \<Rightarrow> s1
         | Some to \<Rightarrow> createNotification w to ''chat_message'' (''Message from '' @ ci_from b) (shorten 200 (ci_content b))
             (Some ''message'') (Some i) wsid s1)"

definition store_message ::
  "gateway_session list \<Rightarrow> (string \<Rightarrow> json option) \<Rightarrow> gateway_run \<Rightarrow> world \<Rightarrow> int \<Rightarrow> string \<Rightarrow> string \<Rightarrow> chat_input \<Rightarrow> server \<Rightarrow> chat_outcome"
where
  "store_message sessions parse_json run w wsid conv ty b s =
     (let (i, t) = tbl_insert (chat_row w wsid conv ty b) (messages (db s));
          s1 = announce_message w wsid ty b i (s\<lparr>db := (db s)\<lparr>messages := t\<rparr>\<rparr>);
          (fwd, s2) = (case or_null (ci_to b) of
             None \<Rightarrow> (Some JNull, s1)
           | Some to \<Rightarrow>
               if ci_forward b
               then apfst (map_option forward_json) (forward_message sessions parse_json run w wsid conv i to b s1)
               else (Some JNull, s1));
          created = message_json (chat_row w wsid conv ty b i)
      in case fwd of
           None \<Rightarrow> (None, s2)
         | Some v \<Rightarrow> (Some (Inr (json_response 201 (JObj [(''message'', created), (''forward'', v)]))),
                      broadcast w ''chat.message'' created s2))"

definition send_chat :: "gateway_session list \<Rightarrow> (string \<Rightarrow> json option) \<Rightarrow> gateway_run \<Rightarrow> world \<Rightarrow> user \<Rightarrow> json \<Rightarrow> server \<Rightarrow> chat_outcome" where
  "send_chat sessions parse_json run w u body s =
     (case chat_input_of w body of
        Inl e \<Rightarrow> (Some (Inr (error_response 500 ''Failed to send message'')), s)
      | Inr b \<Rightarrow>
          if ci_from b = [] \<or> ci_content b = []
          then (Some (Inr (error_response 400 ''\"from\" and \"content\" are required'')), s)
          else (case (bind_text (ci_conversation_id b), bind_text (ci_message_type b)) of
                  (Inr (Some conv), Inr (Some ty)) \<Rightarrow> store_message sessions parse_json run w (usr_workspace_id u) conv ty b s
                | _ \<Rightarrow> (Some (Inr (error_response 500 ''Failed to send message'')), s)))"

definition chat_messages_POST ::
  "gateway_session list \<Rightarrow> (string \<Rightarrow> json option) \<Rightarrow> gateway_run \<Rightarrow> world \<Rightarrow> request \<Rightarrow> server \<Rightarrow> chat_outcome"
where
  "chat_messages_POST sessions parse_json run w req s =
     (case requireRole w req ''operator'' s of
        Inl e \<Rightarrow> (Some (Inl e), s)
      | Inr (Auth_error st msg) \<Rightarrow> (Some (Inr (error_response st msg)), s)
      | Inr (Auth_user u) \<Rightarrow>
          (case req_body req of
             None \<Rightarrow> (Some (Inr (error_response 500 ''Failed to send message'')), s)
           | Some JNull \<Rightarrow> (Some (Inr (error_response 500 ''Failed to send message'')), s)
           | Some body \<Rightarrow> send_chat sessions parse_json run w u body s))"

section \<open>/api/chat/messages/[id]\<close>

definition find_message :: "string \<Rightarrow> int \<Rightarrow> server \<Rightarrow> message_row option" where
  "find_message idp wsid s = tbl_first (\<lambda>m. Some (mg_id m) = parse_int idp \<and> mg_workspace_id m = wsid) (messages (db s))"

definition chat_message_GET :: "string \<Rightarrow> world \<Rightarrow> request \<Rightarrow> server \<Rightarrow> outcome" where
  "chat_message_GET idp w req s = with_role w req ''viewer'' s (\<lambda>u.
     (case find_message idp (usr_workspace_id u) s of
        None \<Rightarrow> (Inr (error_response 404 ''Message not found''), s)
      | Some m \<Rightarrow> (Inr (json_response 200 (JObj [(''message'', message_json m)])), s)))"

definition mark_message_read :: "world \<Rightarrow> string \<Rightarrow> int \<Rightarrow> server \<Rightarrow> server" where
  "mark_message_read w idp wsid s = s\<lparr>db := (db s)\<lparr>messages := tbl_update
     (\<lambda>m. Some (mg_id m) = parse_int idp \<and> mg_workspace_id m = wsid) (\<lambda>m. m\<lparr>mg_read_at := Some (now_s w)\<rparr>) (messages (db s))\<rparr>\<rparr>"

definition chat_message_PATCH :: "string \<Rightarrow> world \<Rightarrow> request \<Rightarrow> server \<Rightarrow> outcome" where
  "chat_message_PATCH idp w req s = with_role w req ''operator'' s (\<lambda>u.
     case req_body req of
       None \<Rightarrow> (Inr (error_response 500 ''Failed to update message''), s)
     | Some body \<Rightarrow>
         (case find_message idp (usr_workspace_id u) s of
            None \<Rightarrow> (Inr (error_response 404 ''Message not found''), s)
          | Some m \<Rightarrow>
              if body = JNull then (Inr (error_response 500 ''Failed to update message''), s)
              else
                (let s1 = (if truthy_prop ''read'' body = None then s else mark_message_read w idp (usr_workspace_id u) s)
                 in case find_message idp (usr_workspace_id u) s1 of
                      None \<Rightarrow> (Inr (error_response 500 ''Failed to update message''), s1)
                    | Some m' \<Rightarrow> (Inr (json_response 200 (JObj [(''message'', message_json m')])), s1))))"

section \<open>GET /api/chat/conversations\<close>

text \<open>The messages that a participant (a non-empty \<open>agent\<close>) or the whole workspace sees.\<close>

definition concerns :: "string option \<Rightarrow> message_row \<Rightarrow> bool" where
  "concerns agent m \<longleftrightarrow> (case agent of None \<Rightarrow> True
     | Some a \<Rightarrow> mg_from_agent m = a \<or> mg_to_agent m = Some a \<or> mg_to_agent m = None)"

record conversation =
  cv_conversation_id :: string
  cv_last_message_at :: int
  cv_message_count :: int
  cv_participant_count :: int
  cv_unread_count :: int

definition conversation_of :: "string option \<Rightarrow> message_row list \<Rightarrow> string \<Rightarrow> conversation" where
  "conversation_of agent ms c =
     (let mine = filter (\<lambda>m. mg_conversation_id m = c) ms
      in \<lparr>cv_conversation_id = c, cv_last_message_at = foldl max (mg_created_at (hd mine)) (map mg_created_at mine),
          cv_message_count = int (length mine),
          cv_participant_count = int (length (remdups (map mg_from_agent mine)) +
             length (remdups (List.map_filter mg_to_agent mine))),
          cv_unread_count = (if agent = None then 0
             else int (length (filter (\<lambda>m. mg_to_agent m = agent \<and> mg_read_at m = None) mine)))\<rparr>)"

definition conversations_of :: "string option \<Rightarrow> int \<Rightarrow> server \<Rightarrow> conversation list" where
  "conversations_of agent wsid s =
     (let ms = tbl_select (\<lambda>m. mg_workspace_id m = wsid \<and> concerns agent m) (messages (db s))
      in map (conversation_of agent ms) (remdups (map mg_conversation_id ms)))"

definition last_message :: "world \<Rightarrow> int \<Rightarrow> string \<Rightarrow> server \<Rightarrow> json" where
  "last_message w wsid c s =
     (case order_by_desc (sql_ord w) mg_created_at
             (tbl_select (\<lambda>m. mg_conversation_id m = c \<and> mg_workspace_id m = wsid) (messages (db s))) of
        [] \<Rightarrow> JNull | m # _ \<Rightarrow> message_json m)"

definition conversation_json :: "world \<Rightarrow> int \<Rightarrow> server \<Rightarrow> conversation \<Rightarrow> json" where
  "conversation_json w wsid s c = JObj [(''conversation_id'', JStr (cv_conversation_id c)),
     (''last_message_at'', JNum (cv_last_message_at c)), (''message_count'', JNum (cv_message_count c)),
     (''participant_count'', JNum (cv_participant_count c)), (''unread_count'', JNum (cv_unread_count c)),
     (''last_message'', last_message w wsid (cv_conversation_id c) s)]"

definition list_conversations :: "world \<Rightarrow> request \<Rightarrow> user \<Rightarrow> server \<Rightarrow> outcome" where
  "list_conversations w req u s =
     (case (parse_int (or_else (req_query req ''limit'') ''50''), parse_int (or_else (req_query req ''offset'') ''0'')) of
        (Some l, Some offset) \<Rightarrow>
          (let limit = min l 200; wsid = usr_workspace_id u; found = conversations_of (nonempty_param req ''agent'') wsid s;
               page = (if limit = 0 then JNull else JNum (offset div limit + 1))
           in (Inr (json_response 200 (JObj [
                 (''conversations'', JArr (map (conversation_json w wsid s) (sql_limit limit offset
                    (order_by_desc (sql_ord w) cv_last_message_at found)))),
                 (''total'', JNum (int (length found))), (''page'', page), (''limit'', JNum limit)])), s))
      | _ \<Rightarrow> (Inr (error_response 500 ''Failed to fetch conversations''), s))"

definition conversations_GET :: "world \<Rightarrow> request \<Rightarrow> server \<Rightarrow> outcome" where
  "conversations_GET w req s = with_role w req ''viewer'' s (\<lambda>u. list_conversations w req u s)"

section \<open>What a message leaves behind\<close>

lemma createChatReply_messages:
  "messages (db (createChatReply w wsid conv to content ty meta s)) = snd (tbl_insert (\<lambda>i. \<lparr>mg_id = i, mg_conversation_id = conv,
     mg_from_agent = COORDINATOR_AGENT w, mg_to_agent = Some to, mg_content = content, mg_message_type = ty,
     mg_metadata = Some (JObj meta), mg_read_at = None, mg_created_at = now_s w, mg_workspace_id = wsid\<rparr>) (messages (db s)))"
  by (simp add: createChatReply_def Let_def frame_simps tbl_insert_def)

lemma createChatReply_frame [frame_simps]:
  "notifications (db (createChatReply w wsid conv to content ty meta s)) = notifications (db s)"
  "agents (db (createChatReply w wsid conv to content ty meta s)) = agents (db s)"
  "tasks (db (createChatReply w wsid conv to content ty meta s)) = tasks (db s)"
  by (simp_all add: createChatReply_def Let_def frame_simps tbl_insert_def)

definition is_reply :: "world \<Rightarrow> int \<Rightarrow> string \<Rightarrow> string \<Rightarrow> message_row \<Rightarrow> bool" where
  "is_reply w wsid conv to m \<longleftrightarrow> mg_from_agent m = COORDINATOR_AGENT w \<and> mg_to_agent m = Some to \<and>
     mg_conversation_id m = conv \<and> mg_workspace_id m = wsid"

lemma replies_added:
  fixes s :: server and w wsid conv to
  defines "post \<equiv> \<lambda>(content, ty, meta). createChatReply w wsid conv to content ty meta"
  shows "\<exists>ms. rows (messages (db (fold post rs s))) = rows (messages (db s)) @ ms \<and> length ms = length rs \<and>
    list_all (is_reply w wsid conv to) ms \<and> notifications (db (fold post rs s)) = notifications (db s) \<and>
    agents (db (fold post rs s)) = agents (db s) \<and> tasks (db (fold post rs s)) = tasks (db s)"
proof (induction rs arbitrary: s)
  case (Cons r rs)
  obtain content ty meta where r: "r = (content, ty, meta)" by (cases r)
  let ?s = "createChatReply w wsid conv to content ty meta s"
  obtain m where m: "rows (messages (db ?s)) = rows (messages (db s)) @ [m]" "is_reply w wsid conv to m"
    by (simp add: createChatReply_messages rows_tbl_insert is_reply_def)
  obtain ms where "rows (messages (db (fold post rs ?s))) = rows (messages (db ?s)) @ ms" "length ms = length rs"
    "list_all (is_reply w wsid conv to) ms" "notifications (db (fold post rs ?s)) = notifications (db ?s)"
    "agents (db (fold post rs ?s)) = agents (db ?s)" "tasks (db (fold post rs ?s)) = tasks (db ?s)"
    using Cons.IH [of ?s] by blast
  with m show ?case by (intro exI [of _ "m # ms"]) (simp add: r post_def frame_simps)
qed simp

lemma coordinator_replies_count:
  assumes "coordinator_replies parse_json run f = (rs, ended)"
  shows "(if ended then length rs \<in> {1, 2} else length rs = 1 \<and> (\<exists>args. run args = None))"
  using assms by (auto simp: coordinator_replies_def Let_def split: option.splits prod.splits if_splits)

lemma forward_message_replies:
  assumes "forward_message sessions parse_json run w wsid conv i to b s = (f, s')"
  shows "\<exists>ms. rows (messages (db s')) = rows (messages (db s)) @ ms \<and>
    length ms \<in> (if \<not> is_coord b then {0} else if f = None then {0, 1} else {1, 2}) \<and>
    list_all (is_reply w wsid conv (ci_from b)) ms \<and> notifications (db s') = notifications (db s) \<and>
    agents (db s') = agents (db s) \<and> tasks (db s') = tasks (db s) \<and> (f = None \<longrightarrow> (\<exists>args. run args = None))"
proof -
  let ?agent = "tbl_first (\<lambda>g. to_lower (g_name g) = to_lower to \<and> g_workspace_id g = wsid) (agents (db s))"
  let ?key = "session_for sessions ?agent to" and ?id = "agent_id_for ?agent to"
  show ?thesis
  proof (cases "run (invoke_args w i b ?key ?id)")
    case None
    then have "f = None" "s' = s" using assms by (simp_all add: forward_message_def Let_def)
    with None show ?thesis by (intro exI [of _ "[]"]) auto
  next
    case (Some answer)
    let ?f = "invoke_result parse_json answer (or_else ?key ?id)"
    obtain rs ended where rs: "coordinator_replies parse_json run ?f = (rs, ended)" by fastforce
    show ?thesis
    proof (cases "is_coord b")
      case False
      then have "forward_message sessions parse_json run w wsid conv i to b s = (Some ?f, s)"
        using Some by (simp add: forward_message_def Let_def)
      then have fs: "(f, s') = (Some ?f, s)" unfolding assms .
      have "s' = s" by (rule prod.inject [THEN iffD1, THEN conjunct2, OF fs])
      moreover have "f \<noteq> None" using fs by auto
      ultimately show ?thesis using False by (intro exI [of _ "[]"]) auto
    next
      case True
      then have f: "f = (if ended then Some ?f else None)"
        and s': "s' = fold (\<lambda>(content, ty, meta). createChatReply w wsid conv (ci_from b) content ty meta) rs s"
        using assms Some rs by (auto simp: forward_message_def Let_def)
      show ?thesis
        unfolding s' using replies_added [of w wsid conv "ci_from b" rs s] coordinator_replies_count [OF rs] True f
        by (cases ended) fastforce+
    qed
  qed
qed

lemma announce_message_effect:
  "messages (db (announce_message w wsid ty b i s)) = messages (db s)"
  "agents (db (announce_message w wsid ty b i s)) = agents (db s)"
  "tasks (db (announce_message w wsid ty b i s)) = tasks (db s)"
  "map n_recipient (rows (notifications (db (announce_message w wsid ty b i s)))) =
     map n_recipient (rows (notifications (db s))) @ (case or_null (ci_to b) of None \<Rightarrow> [] | Some to \<Rightarrow> [to])"
  by (simp_all add: announce_message_def Let_def frame_simps split: option.split)
    (simp_all add: createNotification_def Let_def frame_simps tbl_insert_def)

text \<open>
  C27. Sending a message. A message that is stored is stored once, trimmed, in the sender's workspace, and its
  recipient, if it has one, gets exactly one notification. A stored message of a coordinator conversation
  (\<open>coord:\<close>) with a recipient that is to be forwarded is answered by one or two replies to the sender
  whatever the gateway's commands end with; no other message gets a reply. The request stays unanswered only if a
  command never ends, and then the conversation has at most one reply.
\<close>

theorem coordinator_always_answers:
  assumes "send_chat sessions parse_json run w u body s = (answer, s')"
    and "answer = None \<or> (\<exists>r. answer = Some (Inr r) \<and> resp_status r = 201)"
  shows "\<exists>b conv ty replies. chat_input_of w body = Inr b \<and> ci_from b \<noteq> [] \<and> ci_content b \<noteq> [] \<and>
    rows (messages (db s')) = rows (messages (db s)) @
      chat_row w (usr_workspace_id u) conv ty b (seq (messages (db s)) + 1) # replies \<and>
    length replies \<in> (if is_coord b \<and> ci_forward b \<and> or_null (ci_to b) \<noteq> None
      then (if answer = None then {0, 1} else {1, 2}) else {0}) \<and>
    list_all (is_reply w (usr_workspace_id u) conv (ci_from b)) replies \<and>
    map n_recipient (rows (notifications (db s'))) =
      map n_recipient (rows (notifications (db s))) @ (case or_null (ci_to b) of None \<Rightarrow> [] | Some to \<Rightarrow> [to]) \<and>
    agents (db s') = agents (db s) \<and> tasks (db s') = tasks (db s) \<and>
    (answer = None \<longrightarrow> (\<exists>args. run args = None))"
proof -
  let ?ws = "usr_workspace_id u"
  from assms obtain b conv ty where b: "chat_input_of w body = Inr b" "ci_from b \<noteq> []" "ci_content b \<noteq> []"
    and st: "store_message sessions parse_json run w ?ws conv ty b s = (answer, s')"
    by (auto simp: send_chat_def error_response_def json_response_def split: sum.splits if_splits option.splits)
  obtain i t where it: "tbl_insert (chat_row w ?ws conv ty b) (messages (db s)) = (i, t)" by fastforce
  then have t: "rows t = rows (messages (db s)) @ [chat_row w ?ws conv ty b (seq (messages (db s)) + 1)]"
    using rows_tbl_insert [of "chat_row w ?ws conv ty b" "messages (db s)"] by simp
  let ?s1 = "announce_message w ?ws ty b i (s\<lparr>db := (db s)\<lparr>messages := t\<rparr>\<rparr>)"
  obtain fwd s2 where s2: "(case or_null (ci_to b) of None \<Rightarrow> (Some JNull, ?s1)
       | Some to \<Rightarrow> if ci_forward b
           then apfst (map_option forward_json) (forward_message sessions parse_json run w ?ws conv i to b ?s1)
           else (Some JNull, ?s1)) = (fwd, s2)" by fastforce
  have ended: "answer = None \<longleftrightarrow> fwd = None" and "s' = s2 \<or> s' = broadcast w ''chat.message'' (message_json (chat_row w ?ws conv ty b i)) s2"
    using st by (auto simp: store_message_def it s2 Let_def split: option.splits)
  then have s': "messages (db s') = messages (db s2)" "notifications (db s') = notifications (db s2)"
    "agents (db s') = agents (db s2)" "tasks (db s') = tasks (db s2)"
    by (auto simp: frame_simps)
  have "\<exists>ms. rows (messages (db s2)) = rows (messages (db ?s1)) @ ms \<and>
      length ms \<in> (if is_coord b \<and> ci_forward b \<and> or_null (ci_to b) \<noteq> None
        then (if fwd = None then {0, 1} else {1, 2}) else {0}) \<and>
      list_all (is_reply w ?ws conv (ci_from b)) ms \<and> notifications (db s2) = notifications (db ?s1) \<and>
      agents (db s2) = agents (db ?s1) \<and> tasks (db s2) = tasks (db ?s1) \<and> (fwd = None \<longrightarrow> (\<exists>args. run args = None))"
  proof (cases "ci_forward b \<and> or_null (ci_to b) \<noteq> None")
    case True
    then obtain to where to: "or_null (ci_to b) = Some to" by blast
    obtain f s3 where f: "forward_message sessions parse_json run w ?ws conv i to b ?s1 = (f, s3)" by fastforce
    then have "fwd = map_option forward_json f" "s2 = s3" using s2 True to by auto
    with forward_message_replies [OF f] True show ?thesis by auto
  next
    case False
    then have "s2 = ?s1" "fwd \<noteq> None" using s2 by (auto split: option.splits)
    with False show ?thesis by auto
  qed
  then obtain ms where ms: "rows (messages (db s2)) = rows (messages (db ?s1)) @ ms"
    "length ms \<in> (if is_coord b \<and> ci_forward b \<and> or_null (ci_to b) \<noteq> None then (if fwd = None then {0, 1} else {1, 2}) else {0})"
    "list_all (is_reply w ?ws conv (ci_from b)) ms" "notifications (db s2) = notifications (db ?s1)"
    "agents (db s2) = agents (db ?s1)" "tasks (db s2) = tasks (db ?s1)" "fwd = None \<longrightarrow> (\<exists>args. run args = None)"
    by blast
  have "rows (messages (db s')) = rows (messages (db s)) @ chat_row w ?ws conv ty b (seq (messages (db s)) + 1) # ms"
    "map n_recipient (rows (notifications (db s'))) =
      map n_recipient (rows (notifications (db s))) @ (case or_null (ci_to b) of None \<Rightarrow> [] | Some to \<Rightarrow> [to])"
    "agents (db s') = agents (db s)" "tasks (db s') = tasks (db s)"
    using ms(1,4-6) t by (simp_all add: s' announce_message_effect)
  with b ms(2,3,7) show ?thesis unfolding ended by blast
qed

definition demo_chat :: json where
  "demo_chat = JObj [(''from'', JStr ''ana''), (''to'', JStr ''coordinator''), (''content'', JStr '' hello ''),
     (''conversation_id'', JStr ''coord:1''), (''forward'', JBool True)]"

definition demo_gateway_down :: gateway_run where
  "demo_gateway_down args = Some (Inl \<lparr>cf_message = ''no gateway'', cf_stdout = [], cf_stderr = ''no gateway''\<rparr>)"

lemma store_message_ended:
  assumes "\<And>args. run args \<noteq> None" and "store_message sessions parse_json run w wsid conv ty b s = (answer, s')"
  shows "\<exists>r. answer = Some (Inr r) \<and> resp_status r = 201"
proof -
  have "apfst (map_option forward_json) (forward_message sessions parse_json run w wsid conv i to b t) \<noteq> (None, q)" for i to t q
  proof
    assume "apfst (map_option forward_json) (forward_message sessions parse_json run w wsid conv i to b t) = (None, q)"
    then have "forward_message sessions parse_json run w wsid conv i to b t = (None, q)"
      by (cases "forward_message sessions parse_json run w wsid conv i to b t") simp
    from forward_message_replies [OF this] assms(1) show False by blast
  qed
  then show ?thesis
    using assms(2) by (auto simp: store_message_def Let_def json_response_def split: prod.splits option.splits if_splits)
qed

theorem coordinator_always_answers_witness:
  "\<exists>r s' m reply others. send_chat [] (\<lambda>_. None) demo_gateway_down demo_world demo_caller demo_chat init_server = (Some (Inr r), s') \<and>
     rows (messages (db s')) = m # reply # others \<and> mg_content m = ''hello'' \<and> mg_to_agent reply = Some ''ana''"
proof -
  let ?b = "\<lparr>ci_from = ''ana'', ci_to = Some ''coordinator'', ci_content = ''hello'', ci_message_type = JStr ''text'',
      ci_conversation_id = JStr ''coord:1'', ci_metadata = None, ci_forward = True\<rparr>"
  have b: "chat_input_of demo_world demo_chat = Inr ?b"
    by (simp add: chat_input_of_def trimmed_prop_def truthy_prop_def demo_chat_def trim_def is_ws_def or_else_def)
  obtain answer s' where sent: "store_message [] (\<lambda>_. None) demo_gateway_down demo_world (usr_workspace_id demo_caller) ''coord:1'' ''text'' ?b
      init_server = (answer, s')" by fastforce
  have "demo_gateway_down args \<noteq> None" for args by (simp add: demo_gateway_down_def)
  from store_message_ended [OF this sent] obtain r where st: "answer = Some (Inr r)" "resp_status r = 201" by blast
  with sent have r: "send_chat [] (\<lambda>_. None) demo_gateway_down demo_world demo_caller demo_chat init_server = (Some (Inr r), s')"
    by (simp add: send_chat_def b bind_text_def)
  have coord: "is_coord ?b" "or_null (ci_to ?b) \<noteq> None" by (simp_all add: is_coord_def starts_with_def or_null_def)
  have "Some (Inr r) = (None :: (string + response) option) \<or> (\<exists>q. Some (Inr r) = Some (Inr q :: string + response) \<and> resp_status q = 201)"
    using st(2) by blast
  from coordinator_always_answers [OF r this] obtain conv ty replies where
    m: "rows (messages (db s')) = rows (messages (db init_server)) @
      chat_row demo_world (usr_workspace_id demo_caller) conv ty ?b (seq (messages (db init_server)) + 1) # replies"
    and n: "length replies \<in> {1, 2}"
    and all: "list_all (is_reply demo_world (usr_workspace_id demo_caller) conv ''ana'') replies"
    unfolding b using coord by auto
  have e: "rows (messages (db init_server)) = []" by (simp add: init_server_def empty_db_def tbl_empty_def)
  from n obtain reply others where "replies = reply # others" by (cases replies) auto
  with m all e r show ?thesis by (auto simp: is_reply_def chat_row_def)
qed

section \<open>Conversations\<close>

lemma sum_groups:
  assumes "finite A" and "key ` set ms \<subseteq> A"
  shows "(\<Sum>c\<in>A. length (filter P (filter (\<lambda>m. key m = c) ms))) = length (filter P ms)"
  using assms(2)
proof (induction ms)
  case (Cons m ms)
  have "(\<Sum>c\<in>A. length (filter P (filter (\<lambda>m. key m = c) (m # ms)))) =
      (\<Sum>c\<in>A. (if c = key m \<and> P m then 1 else 0) + length (filter P (filter (\<lambda>m. key m = c) ms)))"
    by (rule sum.cong) auto
  also have "\<dots> = (if P m then 1 else 0) + length (filter P ms)"
    using Cons assms(1) by (simp add: sum.distrib sum.delta)
  finally show ?case by simp
qed simp

lemma sum_conversations:
  "sum_list (map (\<lambda>c. length (filter P (filter (\<lambda>m. key m = c) ms))) (remdups (map key ms))) = length (filter P ms)"
proof -
  have "sum_list (map (\<lambda>c. length (filter P (filter (\<lambda>m. key m = c) ms))) (remdups (map key ms))) =
      (\<Sum>c\<in>set (map key ms). length (filter P (filter (\<lambda>m. key m = c) ms)))"
    by (simp add: sum_list_distinct_conv_sum_set)
  then show ?thesis using sum_groups [of "set (map key ms)" key ms P] by simp
qed

definition unread_for :: "string \<Rightarrow> int \<Rightarrow> server \<Rightarrow> int" where
  "unread_for agent wsid s = int (length (filter (\<lambda>m. mg_workspace_id m = wsid \<and> mg_to_agent m = Some agent \<and> mg_read_at m = None)
     (rows (messages (db s)))))"

lemma sum_list_int: "sum_list (map (\<lambda>x. int (f x)) xs) = int (sum_list (map f xs))"
  by (induction xs) simp_all

lemma conversations_unread:
  "sum_list (map cv_unread_count (conversations_of (Some agent) wsid s)) = unread_for agent wsid s"
proof -
  let ?ms = "tbl_select (\<lambda>m. mg_workspace_id m = wsid \<and> concerns (Some agent) m) (messages (db s))"
  have "sum_list (map cv_unread_count (conversations_of (Some agent) wsid s)) =
      int (length (filter (\<lambda>m. mg_to_agent m = Some agent \<and> mg_read_at m = None) ?ms))"
    by (simp add: conversations_of_def conversation_of_def Let_def o_def sum_list_int sum_conversations [unfolded filter_filter])
  also have "filter (\<lambda>m. mg_to_agent m = Some agent \<and> mg_read_at m = None) ?ms =
      filter (\<lambda>m. mg_workspace_id m = wsid \<and> mg_to_agent m = Some agent \<and> mg_read_at m = None) (rows (messages (db s)))"
    by (auto simp: tbl_select_def concerns_def intro!: filter_cong)
  finally show ?thesis by (simp add: unread_for_def)
qed

lemma conversations_messages:
  "sum_list (map cv_message_count (conversations_of agent wsid s)) =
     int (length (tbl_select (\<lambda>m. mg_workspace_id m = wsid \<and> concerns agent m) (messages (db s))))"
proof -
  have "sum_list (map (\<lambda>c. length (filter (\<lambda>m. mg_conversation_id m = c) ms)) (remdups (map mg_conversation_id ms))) = length ms" for ms
    using sum_conversations [of "\<lambda>_. True" mg_conversation_id ms] by simp
  then show ?thesis by (simp add: conversations_of_def conversation_of_def Let_def o_def sum_list_int)
qed

lemma update_one:
  assumes "distinct (map key xs)" and "x \<in> set xs" and "\<And>y. y \<in> set xs \<Longrightarrow> q y \<longleftrightarrow> key y = key x"
  obtains ys zs where "xs = ys @ x # zs" and "map (\<lambda>y. if q y then f y else y) xs = ys @ f x # zs"
proof -
  from assms(2) obtain ys zs where xs: "xs = ys @ x # zs" by (meson split_list)
  have "key y \<noteq> key x" if "y \<in> set ys \<or> y \<in> set zs" for y using that assms(1) unfolding xs by (auto simp: image_iff)
  then have "\<forall>y \<in> set ys \<union> set zs. \<not> q y" and "q x" using assms(3) unfolding xs by auto
  then have "map (\<lambda>y. if q y then f y else y) ys = ys" "map (\<lambda>y. if q y then f y else y) zs = zs" "q x"
    by (auto intro!: map_idI)
  with xs that show ?thesis by simp
qed

lemma mark_message_read_rows:
  assumes "tbl_wf mg_id (messages (db s))" and "find_message idp wsid s = Some m"
  obtains ys zs where "rows (messages (db s)) = ys @ m # zs"
    and "rows (messages (db (mark_message_read w idp wsid s))) = ys @ m\<lparr>mg_read_at := Some (now_s w)\<rparr> # zs"
proof -
  have m: "m \<in> set (rows (messages (db s)))" "Some (mg_id m) = parse_int idp" "mg_workspace_id m = wsid"
    using assms(2) by (auto simp: find_message_def dest: tbl_first_in_rows)
  have d: "distinct (map mg_id (rows (messages (db s))))" using assms(1) by (simp add: tbl_wf_def)
  have q: "Some (mg_id y) = parse_int idp \<and> mg_workspace_id y = wsid \<longleftrightarrow> mg_id y = mg_id m" if "y \<in> set (rows (messages (db s)))" for y
    using that m d by (metis distinct_map inj_onD option.inject)
  show ?thesis
    by (rule update_one [OF d m(1) q, where f = "\<lambda>m. m\<lparr>mg_read_at := Some (now_s w)\<rparr>"])
      (use that in \<open>simp_all add: mark_message_read_def rows_tbl_update\<close>)
qed

text \<open>
  The counters of the conversation list are exact: every message that a participant sees is in exactly
  one of its conversations, and the unread counters add up to the messages addressed to it that
  it has not read. Marking such a message as read lowers them by one, and changes no counter of anybody else.
\<close>

theorem unread_counts_exact:
  fixes w agent
  assumes "tbl_wf mg_id (messages (db s))" and "find_message idp wsid s = Some m"
    and "mg_to_agent m = Some agent" and "mg_read_at m = None"
  defines "s' \<equiv> mark_message_read w idp wsid s"
  defines "unread \<equiv> \<lambda>a t. sum_list (map cv_unread_count (conversations_of (Some a) wsid t))"
  shows "unread agent s = unread_for agent wsid s \<and> unread agent s' = unread agent s - 1 \<and>
    (\<forall>a. a \<noteq> agent \<longrightarrow> unread a s' = unread a s) \<and>
    (\<forall>a. distinct (map cv_conversation_id (conversations_of a wsid s)) \<and>
       sum_list (map cv_message_count (conversations_of a wsid s)) =
         int (length (tbl_select (\<lambda>m. mg_workspace_id m = wsid \<and> concerns a m) (messages (db s)))) \<and>
       sum_list (map cv_message_count (conversations_of a wsid s')) = sum_list (map cv_message_count (conversations_of a wsid s)))"
proof -
  obtain ys zs where rows: "rows (messages (db s)) = ys @ m # zs"
    "rows (messages (db s')) = ys @ m\<lparr>mg_read_at := Some (now_s w)\<rparr> # zs"
    unfolding s'_def by (rule mark_message_read_rows [OF assms(1,2)])
  have ws: "mg_workspace_id m = wsid" using assms(2) by (auto simp: find_message_def dest: tbl_first_in_rows)
  have "unread_for agent wsid s' = unread_for agent wsid s - 1" "a \<noteq> agent \<Longrightarrow> unread_for a wsid s' = unread_for a wsid s" for a
    using assms(3,4) ws by (auto simp: unread_for_def rows)
  moreover have "length (tbl_select (\<lambda>m. mg_workspace_id m = wsid \<and> concerns a m) (messages (db s'))) =
      length (tbl_select (\<lambda>m. mg_workspace_id m = wsid \<and> concerns a m) (messages (db s)))" for a
    by (simp add: tbl_select_def rows concerns_def split: option.split)
  moreover have "distinct (map cv_conversation_id (conversations_of a wsid s))" for a
    by (simp add: conversations_of_def conversation_of_def Let_def o_def)
  ultimately show ?thesis by (simp add: unread_def conversations_unread conversations_messages)
qed

definition demo_chat_state :: server where
  "demo_chat_state = init_server\<lparr>db := empty_db\<lparr>messages := \<lparr>seq = 1, rows = [\<lparr>mg_id = 1, mg_conversation_id = ''c'',
     mg_from_agent = ''ana'', mg_to_agent = Some ''bob'', mg_content = ''hi'', mg_message_type = ''text'', mg_metadata = None,
     mg_read_at = None, mg_created_at = 5, mg_workspace_id = 1\<rparr>]\<rparr>\<rparr>\<rparr>"

theorem unread_counts_exact_witness:
  "sum_list (map cv_unread_count (conversations_of (Some ''bob'') 1 demo_chat_state)) = 1 \<and>
   sum_list (map cv_unread_count (conversations_of (Some ''bob'') 1 (mark_message_read demo_world ''1'' 1 demo_chat_state))) = 0"
proof -
  have 1: "tbl_wf mg_id (messages (db demo_chat_state))" by (simp add: demo_chat_state_def tbl_wf_def)
  have "parse_int ''1'' = Some 1" by code_simp
  then obtain m where 2: "find_message ''1'' 1 demo_chat_state = Some m" "mg_to_agent m = Some ''bob''" "mg_read_at m = None"
    by (simp add: find_message_def tbl_first_def demo_chat_state_def)
  have "unread_for ''bob'' 1 demo_chat_state = 1" by (simp add: unread_for_def demo_chat_state_def)
  with unread_counts_exact [OF 1 2, of demo_world] show ?thesis by simp
qed

end
