(* ===== verification/MC_Queries.thy ===== *)
theory MC_Queries
  imports MC_Chat MC_AgentWork
begin

text \<open>
  The read-only queries over what the other components record: the activity stream and its statistics
  (\<open>src/app/api/activities/route.ts\<close>), the audit log (\<open>src/app/api/audit/route.ts\<close>) and the messages between
  agents (\<open>src/app/api/agents/comms/route.ts\<close>). A \<open>NaN\<close> is bound as \<open>NULL\<close>: it matches nothing in a comparison and is refused as a limit.
\<close>

section \<open>Grouping\<close>

text \<open>\<open>SELECT key, COUNT(*) .. GROUP BY key\<close>\<close>

definition group_rows :: "('r \<Rightarrow> 'k) \<Rightarrow> 'r list \<Rightarrow> ('k \<times> 'r list) list" where
  "group_rows key rs = map (\<lambda>k. (k, filter (\<lambda>r. key r = k) rs)) (remdups (map key rs))"

definition group_count :: "('r \<Rightarrow> 'k) \<Rightarrow> 'r list \<Rightarrow> ('k \<times> int) list" where
  "group_count key rs = map (apsnd (int \<circ> length)) (group_rows key rs)"

lemma sum_group_count: "sum_list (map snd (group_count key rs)) = int (length rs)"
proof -
  have "sum_list (map (\<lambda>k. length (filter (\<lambda>r. key r = k) rs)) (remdups (map key rs))) = length rs"
    using sum_conversations [of "\<lambda>_. True" key rs] by simp
  then show ?thesis by (simp add: group_count_def group_rows_def o_def sum_list_int)
qed

section \<open>GET /api/activities\<close>

definition since_ok :: "request \<Rightarrow> int \<Rightarrow> bool" where
  "since_ok req t \<longleftrightarrow> (case nonempty_param req ''since'' of
     None \<Rightarrow> True | Some v \<Rightarrow> (case parse_int v of None \<Rightarrow> False | Some n \<Rightarrow> n < t))"

definition activity_filter :: "request \<Rightarrow> int \<Rightarrow> activity_row \<Rightarrow> bool" where
  "activity_filter req wsid a \<longleftrightarrow> a_workspace_id a = wsid \<and>
     (case nonempty_param req ''type'' of None \<Rightarrow> True | Some v \<Rightarrow> a_type a = v) \<and>
     (case nonempty_param req ''actor'' of None \<Rightarrow> True | Some v \<Rightarrow> a_actor a = v) \<and>
     (case nonempty_param req ''entity_type'' of None \<Rightarrow> True | Some v \<Rightarrow> a_entity_type a = v) \<and>
     since_ok req (a_created_at a)"

definition activity_page :: "world \<Rightarrow> request \<Rightarrow> int \<Rightarrow> int \<Rightarrow> int \<Rightarrow> server \<Rightarrow> activity_row list" where
  "activity_page w req wsid limit offset s =
     sql_limit limit offset (order_by_desc (sql_ord w) a_created_at (tbl_select (activity_filter req wsid) (activities (db s))))"

definition activity_total :: "request \<Rightarrow> int \<Rightarrow> server \<Rightarrow> int" where
  "activity_total req wsid s = int (length (tbl_select (activity_filter req wsid) (activities (db s))))"

definition has_more :: "world \<Rightarrow> request \<Rightarrow> int \<Rightarrow> int \<Rightarrow> int \<Rightarrow> server \<Rightarrow> bool" where
  "has_more w req wsid limit offset s \<longleftrightarrow>
     offset + int (length (activity_page w req wsid limit offset s)) < activity_total req wsid s"

text \<open>The comment is joined with its task in the same workspace; without one there is no row.\<close>

definition entity_details :: "activity_row \<Rightarrow> int \<Rightarrow> server \<Rightarrow> json" where
  "entity_details a wsid s =
     (if a_entity_type a = ''task'' then
        (case find_task (a_entity_id a) wsid s of
           None \<Rightarrow> JNull
         | Some t \<Rightarrow> JObj [(''type'', JStr ''task''), (''id'', JNum (t_id t)), (''title'', JStr (t_title t)),
             (''status'', JStr (task_status_str (t_status t)))])
      else if a_entity_type a = ''agent'' then
        (case tbl_first (\<lambda>g. g_id g = a_entity_id a \<and> g_workspace_id g = wsid) (agents (db s)) of
           None \<Rightarrow> JNull
         | Some g \<Rightarrow> JObj [(''type'', JStr ''agent''), (''id'', JNum (g_id g)), (''name'', JStr (g_name g)),
             (''role'', JStr (g_role g)), (''status'', JStr (g_status g))])
      else if a_entity_type a = ''comment'' then
        (case tbl_first (\<lambda>c. c_id c = a_entity_id a \<and> c_workspace_id c = wsid) (comments (db s)) of
           None \<Rightarrow> JNull
         | Some c \<Rightarrow>
             (case find_task (c_task_id c) wsid s of
                None \<Rightarrow> JNull
              | Some t \<Rightarrow> JObj [(''type'', JStr ''comment''), (''id'', JNum (c_id c)), (''content'', JStr (c_content c)),
                  (''task_id'', JNum (c_task_id c)), (''task_title'', JStr (t_title t)),
                  (''content_preview'', JStr (take 100 (c_content c)))]))
      else JNull)"

definition activity_json :: "int \<Rightarrow> server \<Rightarrow> activity_row \<Rightarrow> json" where
  "activity_json wsid s a = JObj [(''id'', JNum (a_id a)), (''type'', JStr (a_type a)), (''entity_type'', JStr (a_entity_type a)),
     (''entity_id'', JNum (a_entity_id a)), (''actor'', JStr (a_actor a)), (''description'', JStr (a_description a)),
     (''data'', case a_data a of None \<Rightarrow> JNull | Some d \<Rightarrow> d), (''created_at'', JNum (a_created_at a)),
     (''workspace_id'', JNum (a_workspace_id a)), (''entity'', entity_details a wsid s)]"

definition handleActivitiesRequest :: "world \<Rightarrow> request \<Rightarrow> int \<Rightarrow> server \<Rightarrow> outcome" where
  "handleActivitiesRequest w req wsid s =
     (case (parse_int (or_else (req_query req ''limit'') ''50''), parse_int (or_else (req_query req ''offset'') ''0'')) of
        (Some l, Some offset) \<Rightarrow>
          (let limit = min l 500
           in (Inr (json_response 200 (JObj [
                 (''activities'', JArr (map (activity_json wsid s) (activity_page w req wsid limit offset s))),
                 (''total'', JNum (activity_total req wsid s)), (''hasMore'', JBool (has_more w req wsid limit offset s))])), s))
      | _ \<Rightarrow> (Inr (error_response 500 ''Failed to fetch activities''), s))"

subsection \<open>Statistics\<close>

definition recent_activities :: "world \<Rightarrow> int option \<Rightarrow> int \<Rightarrow> server \<Rightarrow> activity_row list" where
  "recent_activities w hours wsid s = (case hours of
     None \<Rightarrow> []
   | Some h \<Rightarrow> tbl_select (\<lambda>a. now_s w - h * 3600 < a_created_at a \<and> a_workspace_id a = wsid) (activities (db s)))"

definition count_json :: "string \<Rightarrow> string \<Rightarrow> string \<times> int \<Rightarrow> json" where
  "count_json k c kv = JObj [(k, JStr (fst kv)), (c, JNum (snd kv))]"

text \<open>The division of SQLite truncates; times are not negative.\<close>

definition hour_bucket :: "activity_row \<Rightarrow> int" where
  "hour_bucket a = a_created_at a div 3600 * 3600"

definition bucket_json :: "int \<times> int \<Rightarrow> json option" where
  "bucket_json kv = map_option (\<lambda>t. JObj [(''timestamp'', JNum (fst kv)), (''count'', JNum (snd kv)), (''hour'', JStr t)])
     (toISOString (fst kv * 1000))"

definition handleStatsRequest :: "world \<Rightarrow> request \<Rightarrow> int \<Rightarrow> server \<Rightarrow> outcome" where
  "handleStatsRequest w req wsid s =
     (let hours = parse_int (or_else (req_query req ''hours'') ''24''); found = recent_activities w hours wsid s;
          by_type = order_by_desc (sql_ord w) snd (group_count a_type found);
          actors = take 10 (order_by_desc (sql_ord w) snd (group_count a_actor found));
          timeline = map bucket_json (sort_key fst (group_count hour_bucket found))
      in if None \<in> set timeline then (Inr (error_response 500 ''Failed to fetch activity stats''), s)
         else (Inr (json_response 200 (JObj [
           (''timeframe'', JStr ((case hours of None \<Rightarrow> ''NaN'' | Some h \<Rightarrow> show_int h) @ '' hours'')),
           (''activityByType'', JArr (map (count_json ''type'' ''count'') by_type)),
           (''topActors'', JArr (map (count_json ''actor'' ''activity_count'') actors)),
           (''timeline'', JArr (map the timeline))])), s))"

definition activities_GET :: "world \<Rightarrow> request \<Rightarrow> server \<Rightarrow> outcome" where
  "activities_GET w req s = with_role w req ''viewer'' s (\<lambda>u.
     if ends_with ''/stats'' (req_path req) \<or> req_query req ''stats'' \<noteq> None
     then handleStatsRequest w req (usr_workspace_id u) s
     else handleActivitiesRequest w req (usr_workspace_id u) s)"

section \<open>GET /api/audit\<close>

definition audit_filter :: "request \<Rightarrow> audit_row \<Rightarrow> bool" where
  "audit_filter req a \<longleftrightarrow>
     (case nonempty_param req ''action'' of None \<Rightarrow> True | Some v \<Rightarrow> au_action a = v) \<and>
     (case nonempty_param req ''actor'' of None \<Rightarrow> True | Some v \<Rightarrow> au_actor a = v) \<and>
     (case nonempty_param req ''since'' of None \<Rightarrow> True | Some v \<Rightarrow> (case parse_int v of None \<Rightarrow> False | Some n \<Rightarrow> n \<le> au_created_at a)) \<and>
     (case nonempty_param req ''until'' of None \<Rightarrow> True | Some v \<Rightarrow> (case parse_int v of None \<Rightarrow> False | Some n \<Rightarrow> au_created_at a \<le> n))"

definition audit_json :: "audit_row \<Rightarrow> json" where
  "audit_json a = JObj [(''id'', JNum (au_id a)), (''action'', JStr (au_action a)), (''actor'', JStr (au_actor a)),
     (''actor_id'', jnull JNum (au_actor_id a)), (''target_type'', jnull JStr (au_target_type a)),
     (''target_id'', jnull JNum (au_target_id a)), (''detail'', case au_detail a of None \<Rightarrow> JNull | Some d \<Rightarrow> d),
     (''ip_address'', jnull JStr (au_ip_address a)), (''user_agent'', jnull JStr (au_user_agent a)),
     (''created_at'', JNum (au_created_at a))]"

definition audit_GET :: "world \<Rightarrow> request \<Rightarrow> server \<Rightarrow> outcome" where
  "audit_GET w req s = with_role w req ''admin'' s (\<lambda>u.
     (case (parse_int (or_else (req_query req ''limit'') ''1000''), parse_int (or_else (req_query req ''offset'') ''0'')) of
        (Some l, Some offset) \<Rightarrow>
          (let limit = min l 10000; found = tbl_select (audit_filter req) (audit_log (db s))
           in (Inr (json_response 200 (JObj [
                 (''events'', JArr (map audit_json (sql_limit limit offset (order_by_desc (sql_ord w) au_created_at found)))),
                 (''total'', JNum (int (length found))), (''limit'', JNum limit), (''offset'', JNum offset)])), s))
      | _ \<Rightarrow> (Inl ''datatype mismatch'', s)))"

section \<open>GET /api/agents/comms\<close>

definition humanNames :: "string list" where
  "humanNames = [''human'', ''system'', ''operator'']"

definition between_agents :: "int \<Rightarrow> message_row \<Rightarrow> bool" where
  "between_agents wsid m \<longleftrightarrow> mg_workspace_id m = wsid \<and> mg_from_agent m \<notin> set humanNames \<and>
     (case mg_to_agent m of None \<Rightarrow> False | Some to \<Rightarrow> to \<notin> set humanNames)"

definition of_agent :: "request \<Rightarrow> message_row \<Rightarrow> bool" where
  "of_agent req m \<longleftrightarrow> (case nonempty_param req ''agent'' of
     None \<Rightarrow> True | Some a \<Rightarrow> mg_from_agent m = a \<or> mg_to_agent m = Some a)"

definition comms_messages :: "request \<Rightarrow> int \<Rightarrow> server \<Rightarrow> message_row list" where
  "comms_messages req wsid s =
     tbl_select (\<lambda>m. between_agents wsid m \<and> since_ok req (mg_created_at m) \<and> of_agent req m) (messages (db s))"

definition edge_key :: "message_row \<Rightarrow> string \<times> string" where
  "edge_key m = (mg_from_agent m, the (mg_to_agent m))"

definition comms_edges :: "world \<Rightarrow> request \<Rightarrow> int \<Rightarrow> server \<Rightarrow> ((string \<times> string) \<times> message_row list) list" where
  "comms_edges w req wsid s = order_by_desc (sql_ord w) (int \<circ> length \<circ> snd)
     (group_rows edge_key (tbl_select (\<lambda>m. between_agents wsid m \<and> since_ok req (mg_created_at m)) (messages (db s))))"

definition edge_json :: "(string \<times> string) \<times> message_row list \<Rightarrow> json" where
  "edge_json e = JObj [(''from_agent'', JStr (fst (fst e))), (''to_agent'', JStr (snd (fst e))),
     (''message_count'', JNum (int (length (snd e)))),
     (''last_message_at'', JNum (foldl max (mg_created_at (hd (snd e))) (map mg_created_at (snd e))))]"

text \<open>
  Messages sent and received per agent. The order is by the columns \<open>sent + received\<close> of the inner
  query, which are those of one of the (at most two) rows of the group: the argument \<open>bare\<close> is what SQLite takes.
\<close>

definition comms_stats :: "int \<Rightarrow> server \<Rightarrow> (string \<times> int \<times> int) list" where
  "comms_stats wsid s =
     (let ms = tbl_select (between_agents wsid) (messages (db s));
          sent = group_count mg_from_agent ms; received = group_count (the \<circ> mg_to_agent) ms;
          num = (\<lambda>l k. case map_of l k of None \<Rightarrow> 0 | Some n \<Rightarrow> n)
      in map (\<lambda>a. (a, num sent a, num received a)) (remdups (map fst sent @ map fst received)))"

definition stats_json :: "string \<times> int \<times> int \<Rightarrow> json" where
  "stats_json x = JObj [(''agent'', JStr (fst x)), (''sent'', JNum (fst (snd x))), (''received'', JNum (snd (snd x)))]"

definition seeded_count :: "request \<Rightarrow> int \<Rightarrow> server \<Rightarrow> int" where
  "seeded_count req wsid s = int (length (filter (\<lambda>m. sql_like ''conv-multi-%'' (mg_conversation_id m)) (comms_messages req wsid s)))"

definition source_mode :: "int \<Rightarrow> int \<Rightarrow> string" where
  "source_mode all seeded =
     (let live = max 0 (all - seeded)
      in if all = 0 then ''empty'' else if live = 0 then ''seeded'' else if seeded = 0 then ''live'' else ''mixed'')"

definition comms_GET :: "(int \<times> int \<Rightarrow> int) \<Rightarrow> world \<Rightarrow> request \<Rightarrow> server \<Rightarrow> outcome" where
  "comms_GET bare w req s = with_role w req ''viewer'' s (\<lambda>u.
     (let wsid = usr_workspace_id u; found = comms_messages req wsid s; all = int (length found); seeded = seeded_count req wsid s
      in case (parse_int (or_else (req_query req ''limit'') ''100''), parse_int (or_else (req_query req ''offset'') ''0'')) of
           (Some limit, Some offset) \<Rightarrow>
             (Inr (json_response 200 (JObj [
                (''messages'', JArr (map message_json (sql_limit limit offset
                   (order_by_desc2 (sql_ord w) (\<lambda>m. - mg_created_at m) (\<lambda>m. - mg_id m) found)))),
                (''total'', JNum all),
                (''graph'', JObj [(''edges'', JArr (map edge_json (comms_edges w req wsid s))),
                   (''agentStats'', JArr (map stats_json (order_by_desc (sql_ord w) (bare \<circ> snd) (comms_stats wsid s))))]),
                (''source'', JObj [(''mode'', JStr (source_mode all seeded)), (''seededCount'', JNum seeded),
                   (''liveCount'', JNum (max 0 (all - seeded)))])])), s)
         | _ \<Rightarrow> (Inr (error_response 500 ''Failed to fetch agent communications''), s)))"

section \<open>Pages\<close>

lemma pages_take: "concat (map (\<lambda>k. take l (drop (k * l) xs)) [0..<n]) = take (n * l) xs"
proof (induction n)
  case (Suc n)
  then show ?case using take_add [of "n * l" l xs] by (simp add: add.commute)
qed simp

lemma activity_page_take:
  assumes "0 < l"
  shows "activity_page w req wsid (int l) (int (k * l)) s =
    take l (drop (k * l) (order_by_desc (sql_ord w) a_created_at (tbl_select (activity_filter req wsid) (activities (db s)))))"
  using assms by (simp add: activity_page_def sql_limit_def Let_def nat_mult_distrib)

lemma pages_count:
  fixes l :: nat assumes "0 < l" shows "k < (N + l - 1) div l \<longleftrightarrow> k * l < N"
proof -
  have "k < (N + l - 1) div l \<longleftrightarrow> Suc k * l \<le> N + l - 1" using assms by (simp add: Suc_le_eq [symmetric] less_eq_div_iff_mult_less_eq)
  also have "\<dots> \<longleftrightarrow> k * l + l \<le> N + l - 1" by (simp add: add.commute)
  also have "\<dots> \<longleftrightarrow> k * l < N" using assms by linarith
  finally show ?thesis .
qed

text \<open>
  Rows with different keys have one order, whichever way the engine breaks ties; so the pages, which are
  separate statements, are pieces of one list.
\<close>

lemma order_by_desc_unique:
  assumes "sql_order o1" and "sql_order o2" and "distinct (map key rs)"
  shows "order_by_desc o1 key rs = order_by_desc o2 key rs"
proof -
  have facts: "sorted (map (\<lambda>r. - key r) (order_by_desc ord key rs)) \<and> distinct (map (\<lambda>r. - key r) (order_by_desc ord key rs)) \<and>
      set (order_by_desc ord key rs) = set rs" if "sql_order ord" for ord
  proof -
    have "distinct (map (\<lambda>r. - key r) rs)" using assms(3) by (simp add: distinct_map inj_on_def)
    moreover have "mset (map (\<lambda>r. - key r) (order_by_desc ord key rs)) = mset (map (\<lambda>r. - key r) rs)"
      by (simp add: sql_order.mset_order_by_desc [OF that])
    ultimately have "distinct (map (\<lambda>r. - key r) (order_by_desc ord key rs))" using mset_eq_imp_distinct_iff by blast
    then show ?thesis
      using sql_order.sorted_order_by_desc [OF that, of key rs] sql_order.set_order_by_desc [OF that, of key rs]
      by (simp add: sorted_wrt_map)
  qed
  have "inj_on (\<lambda>r. - key r) (set rs)" using assms(3) by (auto simp: distinct_map inj_on_def)
  then show ?thesis
    using facts [OF assms(1)] facts [OF assms(2)] by (intro map_sorted_distinct_set_unique [where f = "\<lambda>r. - key r"]) auto
qed

text \<open>
  C28. Reading the activity stream page by page, when nothing is added meanwhile and no two
  activities that match the filter have the same creation time: each page being a statement that breaks ties in its own
  way, the pages of a positive size hold every activity of the workspace that matches the filter
  exactly once, the newest first, and \<open>hasMore\<close> tells after each page whether another one follows.
\<close>

theorem activity_pages_complete:
  fixes req wsid s and w :: "nat \<Rightarrow> world"
  assumes "\<And>k. sql_order (sql_ord (w k))" and "0 < l"
    and "distinct (map a_created_at (tbl_select (activity_filter req wsid) (activities (db s))))"
  defines "n \<equiv> (nat (activity_total req wsid s) + l - 1) div l"
  defines "page \<equiv> \<lambda>k. activity_page (w k) req wsid (int l) (int (k * l)) s"
  shows "mset (concat (map page [0..<n])) = mset (tbl_select (activity_filter req wsid) (activities (db s))) \<and>
    sorted_wrt (\<lambda>a b. a_created_at b \<le> a_created_at a) (concat (map page [0..<n])) \<and>
    (\<forall>k < n. has_more (w k) req wsid (int l) (int (k * l)) s \<longleftrightarrow> Suc k < n)"
proof -
  let ?found = "tbl_select (activity_filter req wsid) (activities (db s))"
  define xs where "xs = order_by_desc (sql_ord (w 0)) a_created_at ?found"
  have one: "order_by_desc (sql_ord (w k)) a_created_at ?found = xs" for k
    unfolding xs_def by (rule order_by_desc_unique [OF assms(1) assms(1) assms(3)])
  have len: "length xs = length ?found" "nat (activity_total req wsid s) = length ?found"
    using sql_order.length_order_by_desc [OF assms(1)] by (simp_all add: xs_def activity_total_def)
  have n: "k < n \<longleftrightarrow> k * l < length xs" for k unfolding n_def len by (rule pages_count [OF assms(2)])
  then have all: "length xs \<le> n * l" using not_less by blast
  have page: "page k = take l (drop (k * l) xs)" for k unfolding page_def activity_page_take [OF assms(2)] one ..
  have "concat (map page [0..<n]) = xs"
    unfolding page [abs_def] pages_take using all by simp
  moreover have "has_more (w k) req wsid (int l) (int (k * l)) s \<longleftrightarrow> Suc k < n" if "k < n" for k
  proof -
    have "length (page k) = min l (length xs - k * l)" unfolding page by simp
    then have "has_more (w k) req wsid (int l) (int (k * l)) s \<longleftrightarrow> k * l + min l (length xs - k * l) < length xs"
      unfolding has_more_def activity_total_def len(1) [symmetric] page_def by (simp only: flip: of_nat_add) linarith
    also have "\<dots> \<longleftrightarrow> Suc k * l < length xs" using that n [of k] by (simp add: min_def) linarith
    finally show ?thesis using n by blast
  qed
  moreover have "mset xs = mset ?found" unfolding xs_def by (rule sql_order.mset_order_by_desc [OF assms(1)])
  moreover have "sorted_wrt (\<lambda>a b. a_created_at b \<le> a_created_at a) xs" unfolding xs_def by (rule sql_order.sorted_order_by_desc [OF assms(1)])
  ultimately show ?thesis by simp
qed

definition demo_activity :: "int \<Rightarrow> activity_row" where
  "demo_activity i = \<lparr>a_id = i, a_type = ''t'', a_entity_type = ''task'', a_entity_id = 1, a_actor = ''ana'', a_description = [],
     a_data = None, a_created_at = i, a_workspace_id = 1\<rparr>"

definition demo_stream :: server where
  "demo_stream = init_server\<lparr>db := empty_db\<lparr>activities := \<lparr>seq = 3, rows = map demo_activity [1, 2, 3]\<rparr>\<rparr>\<rparr>"

theorem activity_pages_complete_witness:
  "mset (activity_page demo_world demo_request 1 2 0 demo_stream @ activity_page demo_world demo_request 1 2 2 demo_stream) =
     mset (map demo_activity [1, 2, 3]) \<and>
   has_more demo_world demo_request 1 2 0 demo_stream \<and> \<not> has_more demo_world demo_request 1 2 2 demo_stream"
proof -
  have o: "sql_order (sql_ord demo_world)" by (simp add: demo_world_def scan.sql_order_axioms)
  have f: "tbl_select (activity_filter demo_request 1) (activities (db demo_stream)) = map demo_activity [1, 2, 3]"
    by (simp add: tbl_select_def demo_stream_def activity_filter_def since_ok_def nonempty_param_def or_null_def demo_activity_def demo_request_def)
  then have d: "distinct (map a_created_at (tbl_select (activity_filter demo_request 1) (activities (db demo_stream))))"
    by (simp add: demo_activity_def)
  from f have n: "(nat (activity_total demo_request 1 demo_stream) + 2 - 1) div 2 = 2" by (simp add: activity_total_def)
  have "[0..<2] = [0, 1 :: nat]" by (simp add: upt_rec)
  then show ?thesis
    using activity_pages_complete [of "\<lambda>_. demo_world", OF o _ d, of 2] unfolding n
    by (auto simp: f dest: spec [of _ 0] spec [of _ 1])
qed

text \<open>
  Without the condition on the times the pages can fail: two engines' orders that both satisfy the
  contract put different ones of two activities of the same second first, and a client that reads one page from
  each sees one activity twice and the other never.
\<close>

definition late_order :: "int list \<Rightarrow> nat list" where
  "late_order ks = sort_key (\<lambda>i. - (ks ! i)) (rev [0..<length ks])"

interpretation late: sql_order late_order
proof
  fix ks :: "int list"
  show "mset (late_order ks) = mset [0..<length ks]"
    by (simp add: late_order_def)
  have "sorted (map (\<lambda>i. - (ks ! i)) (late_order ks))"
    by (simp add: late_order_def)
  then show "sorted_wrt (\<lambda>i j. ks ! j \<le> ks ! i) (late_order ks)"
    by (simp add: sorted_wrt_map)
qed

lemma tied_pages_repeat:
  "\<exists>w w' s a b. sql_order (sql_ord w) \<and> sql_order (sql_ord w') \<and> a \<noteq> b \<and> rows (activities (db s)) = [a, b] \<and>
     activity_page w demo_request 1 1 0 s = [a] \<and> activity_page w' demo_request 1 1 1 s = [a]"
proof -
  let ?a = "demo_activity 1" and ?b = "(demo_activity 1)\<lparr>a_id := 2\<rparr>"
  let ?s = "init_server\<lparr>db := empty_db\<lparr>activities := \<lparr>seq = 2, rows = [?a, ?b]\<rparr>\<rparr>\<rparr>"
  let ?w = "demo_world\<lparr>sql_ord := late_order\<rparr>"
  have "activity_page demo_world demo_request 1 1 0 ?s = [?a]" "activity_page ?w demo_request 1 1 1 ?s = [?a]"
    by (simp_all add: activity_page_def tbl_select_def activity_filter_def since_ok_def nonempty_param_def or_null_def demo_activity_def
        demo_request_def sql_limit_def order_by_desc_def demo_world_def scan_order_def late_order_def Let_def)
  moreover have "?a \<noteq> ?b" by (simp add: demo_activity_def)
  moreover have "sql_order (sql_ord demo_world)" "sql_order (sql_ord ?w)"
    by (simp_all add: demo_world_def scan.sql_order_axioms late.sql_order_axioms)
  ultimately show ?thesis by (intro exI [of _ demo_world] exI [of _ ?w] exI [of _ ?s] exI [of _ ?a] exI [of _ ?b]) simp
qed

section \<open>Messages between agents\<close>

text \<open>The edges of the graph account for every message between agents once.\<close>

lemma sum_list_mset_eq: "mset xs = mset ys \<Longrightarrow> sum_list xs = (sum_list ys :: int)"
  by (metis sum_mset_sum_list)

lemma comms_edges_sum:
  assumes "sql_order (sql_ord w)" and "nonempty_param req ''agent'' = None"
  shows "sum_list (map (int \<circ> length \<circ> snd) (comms_edges w req wsid s)) = int (length (comms_messages req wsid s))"
proof -
  let ?ms = "tbl_select (\<lambda>m. between_agents wsid m \<and> since_ok req (mg_created_at m)) (messages (db s))"
  have "mset (comms_edges w req wsid s) = mset (group_rows edge_key ?ms)"
    unfolding comms_edges_def by (rule sql_order.mset_order_by_desc [OF assms(1)])
  then have "mset (map (int \<circ> length \<circ> snd) (comms_edges w req wsid s)) = mset (map (int \<circ> length \<circ> snd) (group_rows edge_key ?ms))"
    by simp
  then have "sum_list (map (int \<circ> length \<circ> snd) (comms_edges w req wsid s)) = sum_list (map (int \<circ> length \<circ> snd) (group_rows edge_key ?ms))"
    by (rule sum_list_mset_eq)
  also have "\<dots> = sum_list (map snd (group_count edge_key ?ms))" by (simp add: group_count_def o_def)
  also have "\<dots> = int (length (comms_messages req wsid s))"
    by (simp add: sum_group_count comms_messages_def of_agent_def assms(2))
  finally show ?thesis .
qed

end
