(* ===== verification/MC_Standup.thy ===== *)
theory MC_Standup
  imports MC_Queries "HOL-Library.List_Lexorder" "HOL-Library.Char_ord"
begin

text \<open>
  The daily standup report, \<open>src/app/api/standup/route.ts\<close>: what it counts, and how it is kept. A date in the body that
  is not of the form \<open>YYYY-MM-DD\<close> is outside the model, except that it then denotes no day.
\<close>

section \<open>Days\<close>

definition days_from_civil :: "int \<Rightarrow> int \<Rightarrow> int \<Rightarrow> int" where
  "days_from_civil y m d =
     (let y' = (if m \<le> 2 then y - 1 else y); era = y' div 400; yoe = y' mod 400;
          doy = (153 * (if 2 < m then m - 3 else m + 9) + 2) div 5 + d - 1;
          doe = yoe * 365 + yoe div 4 - yoe div 100 + doy
      in era * 146097 + doe - 719468)"

text \<open>
  \<open>new Date(`${date}T00:00:00Z`)\<close> in days since 1970; \<open>None\<close> is an invalid date. A day up to 31 that the month does not
  have runs over into the next.
\<close>

definition parse_day :: "string \<Rightarrow> int option" where
  "parse_day x = (case split_on CHR ''-'' x of
     [ys, ms, ds] \<Rightarrow>
       if length ys = 4 \<and> length ms = 2 \<and> length ds = 2 then
         (case (js_digits ys, js_digits ms, js_digits ds) of
            (Some y, Some m, Some d) \<Rightarrow>
              if 1 \<le> m \<and> m \<le> 12 \<and> 1 \<le> d \<and> d \<le> 31 then Some (days_from_civil y m d) else None
          | _ \<Rightarrow> None)
       else None
   | _ \<Rightarrow> None)"

text \<open>\<open>BETWEEN startOfDay AND endOfDay\<close>; nothing lies between two \<open>NaN\<close>.\<close>

definition on_day :: "int option \<Rightarrow> int \<Rightarrow> bool" where
  "on_day day t \<longleftrightarrow> (case day of None \<Rightarrow> False | Some d \<Rightarrow> d * 86400 \<le> t \<and> t \<le> d * 86400 + 86399)"

section \<open>POST /api/standup\<close>

record agent_report =
  ar_agent :: agent_row
  ar_completed :: "task_row list"
  ar_in_progress :: "task_row list"
  ar_assigned :: "task_row list"
  ar_review :: "task_row list"
  ar_blocked :: "task_row list"
  ar_actions :: int
  ar_comments :: int

definition tasks_of :: "string \<Rightarrow> int \<Rightarrow> (task_row \<Rightarrow> bool) \<Rightarrow> server \<Rightarrow> task_row list" where
  "tasks_of name wsid p s =
     tbl_select (\<lambda>t. t_assigned_to t = Some name \<and> t_workspace_id t = wsid \<and> p t) (tasks (db s))"

text \<open>No priority is called \<open>urgent\<close>, so only the metadata can mark a task as blocked.\<close>

definition is_blocked :: "task_row \<Rightarrow> bool" where
  "is_blocked t \<longleftrightarrow> (task_priority_str (t_priority t) = ''urgent'' \<or> sql_like ''%blocked%'' (stringify (t_metadata t))) \<and> t_status t \<noteq> Done"

definition is_completed :: "int option \<Rightarrow> task_row \<Rightarrow> bool" where
  "is_completed day t \<longleftrightarrow> t_status t = Done \<and> on_day day (t_updated_at t)"

definition report_agent :: "world \<Rightarrow> int option \<Rightarrow> int \<Rightarrow> server \<Rightarrow> agent_row \<Rightarrow> agent_report" where
  "report_agent w day wsid s g =
     (let name = g_name g; o1 = order_by_desc (sql_ord w); o2 = order_by_desc2 (sql_ord w) (priority_text_rank \<circ> t_priority) (\<lambda>t. - t_created_at t)
      in \<lparr>ar_agent = g,
          ar_completed = o1 t_updated_at (tasks_of name wsid (is_completed day) s),
          ar_in_progress = o1 (\<lambda>t. - t_created_at t) (tasks_of name wsid (\<lambda>t. t_status t = In_progress) s),
          ar_assigned = o2 (tasks_of name wsid (\<lambda>t. t_status t = Assigned) s),
          ar_review = o1 (\<lambda>t. - t_updated_at t) (tasks_of name wsid (\<lambda>t. t_status t \<in> {Review, Quality_review}) s),
          ar_blocked = o2 (tasks_of name wsid is_blocked s),
          ar_actions = int (length (tbl_select (\<lambda>a. a_actor a = name \<and> a_workspace_id a = wsid \<and> on_day day (a_created_at a)) (activities (db s)))),
          ar_comments = int (length (tbl_select (\<lambda>c. c_author c = name \<and> c_workspace_id c = wsid \<and> on_day day (c_created_at c)) (comments (db s))))\<rparr>)"

definition short_task :: "task_row \<Rightarrow> (string \<times> json) list" where
  "short_task t = [(''id'', JNum (t_id t)), (''title'', JStr (t_title t)), (''status'', JStr (task_status_str (t_status t)))]"

definition completed_fields :: "task_row \<Rightarrow> (string \<times> json) list" where
  "completed_fields t = short_task t @ [(''updated_at'', JNum (t_updated_at t))]"

definition blocked_fields :: "task_row \<Rightarrow> (string \<times> json) list" where
  "blocked_fields t = short_task t @ [(''priority'', JStr (task_priority_str (t_priority t))),
     (''created_at'', JNum (t_created_at t)), (''metadata'', JStr (stringify (t_metadata t)))]"

definition report_json :: "agent_report \<Rightarrow> json" where
  "report_json r =
     (let g = ar_agent r; list = (\<lambda>f ts. JArr (map (JObj \<circ> f) ts));
          started = (\<lambda>t. short_task t @ [(''created_at'', JNum (t_created_at t)), (''due_date'', jnull JNum (t_due_date t))])
      in JObj [(''agent'', JObj [(''name'', JStr (g_name g)), (''role'', JStr (g_role g)), (''status'', JStr (g_status g)),
            (''last_seen'', jnull JNum (g_last_seen g)), (''last_activity'', jnull JStr (g_last_activity g))]),
          (''completedToday'', list completed_fields (ar_completed r)),
          (''inProgress'', list started (ar_in_progress r)),
          (''assigned'', list (\<lambda>t. started t @ [(''priority'', JStr (task_priority_str (t_priority t)))]) (ar_assigned r)),
          (''review'', list completed_fields (ar_review r)),
          (''blocked'', list blocked_fields (ar_blocked r)),
          (''activity'', JObj [(''actionCount'', JNum (ar_actions r)), (''commentsCount'', JNum (ar_comments r))])])"

definition sum_of :: "(agent_report \<Rightarrow> task_row list) \<Rightarrow> agent_report list \<Rightarrow> int" where
  "sum_of f rs = sum_list (map (\<lambda>r. int (length (f r))) rs)"

text \<open>\<open>Array.sort\<close> is stable; the ranks of the comparator do not know \<open>critical\<close>.\<close>

fun blocker_rank :: "task_priority \<Rightarrow> int" where
  "blocker_rank Critical = 0"
| "blocker_rank High = 3"
| "blocker_rank Medium = 2"
| "blocker_rank Low = 1"

definition team_accomplishments :: "agent_report list \<Rightarrow> (task_row \<times> string) list" where
  "team_accomplishments rs = sort_key (\<lambda>(t, _). - t_updated_at t)
     (concat (map (\<lambda>r. map (\<lambda>t. (t, g_name (ar_agent r))) (ar_completed r)) rs))"

definition team_blockers :: "agent_report list \<Rightarrow> (task_row \<times> string) list" where
  "team_blockers rs = sort_key (\<lambda>(t, _). - blocker_rank (t_priority t)) (sort_key (\<lambda>(t, _). t_created_at t)
     (concat (map (\<lambda>r. map (\<lambda>t. (t, g_name (ar_agent r))) (ar_blocked r)) rs)))"

definition overdue :: "world \<Rightarrow> int \<Rightarrow> task_row \<Rightarrow> bool" where
  "overdue w wsid t \<longleftrightarrow> t_workspace_id t = wsid \<and> t_status t \<noteq> Done \<and>
     (case t_due_date t of None \<Rightarrow> False | Some d \<Rightarrow> d < now_s w)"

text \<open>\<open>LEFT JOIN agents\<close>: one row per agent of that name in the workspace, or one without an agent.\<close>

definition overdue_tasks :: "world \<Rightarrow> int \<Rightarrow> server \<Rightarrow> (task_row \<times> string option) list" where
  "overdue_tasks w wsid s = order_by_desc (sql_ord w) (\<lambda>(t, _). - (case t_due_date t of None \<Rightarrow> 0 | Some d \<Rightarrow> d))
     (concat (map (\<lambda>t. case tbl_select (\<lambda>g. t_assigned_to t = Some (g_name g) \<and> g_workspace_id g = wsid) (agents (db s)) of
          [] \<Rightarrow> [(t, None)] | gs \<Rightarrow> map (\<lambda>g. (t, Some (g_name g))) gs)
        (tbl_select (overdue w wsid) (tasks (db s)))))"

definition raw_task :: "task_row \<Rightarrow> (string \<times> json) list" where
  "raw_task t = [(''id'', JNum (t_id t)), (''title'', JStr (t_title t)), (''description'', jnull JStr (t_description t)),
     (''status'', JStr (task_status_str (t_status t))), (''priority'', JStr (task_priority_str (t_priority t))),
     (''assigned_to'', jnull JStr (t_assigned_to t)), (''created_by'', JStr (t_created_by t)), (''created_at'', JNum (t_created_at t)),
     (''updated_at'', JNum (t_updated_at t)), (''due_date'', jnull JNum (t_due_date t)),
     (''estimated_hours'', jnull JNum (t_estimated_hours t)), (''actual_hours'', jnull JNum (t_actual_hours t)),
     (''tags'', JStr (stringify (t_tags t))), (''metadata'', JStr (stringify (t_metadata t))), (''workspace_id'', JNum (t_workspace_id t))]"

definition summary_json :: "agent_report list \<Rightarrow> int \<Rightarrow> json" where
  "summary_json rs late = JObj [(''totalAgents'', JNum (int (length rs))), (''totalCompleted'', JNum (sum_of ar_completed rs)),
     (''totalInProgress'', JNum (sum_of ar_in_progress rs)), (''totalAssigned'', JNum (sum_of ar_assigned rs)),
     (''totalReview'', JNum (sum_of ar_review rs)), (''totalBlocked'', JNum (sum_of ar_blocked rs)),
     (''totalActivity'', JNum (sum_list (map ar_actions rs))), (''overdue'', JNum late)]"

definition standup_json :: "world \<Rightarrow> string \<Rightarrow> string \<Rightarrow> int \<Rightarrow> agent_report list \<Rightarrow> server \<Rightarrow> json" where
  "standup_json w date generatedAt wsid rs s =
     (let late = overdue_tasks w wsid s
      in JObj [(''date'', JStr date), (''generatedAt'', JStr generatedAt), (''summary'', summary_json rs (int (length late))),
          (''agentReports'', JArr (map report_json rs)),
          (''teamAccomplishments'', JArr (map (\<lambda>(t, a). JObj (completed_fields t @ [(''agent'', JStr a)])) (take 10 (team_accomplishments rs)))),
          (''teamBlockers'', JArr (map (\<lambda>(t, a). JObj (blocked_fields t @ [(''agent'', JStr a)])) (team_blockers rs))),
          (''overdueTasks'', JArr (map (\<lambda>(t, a). JObj (raw_task t @ [(''agent_name'', jnull JStr a)])) late))])"

text \<open>\<open>INSERT OR REPLACE\<close>: the date alone is the primary key.\<close>

definition keep_report :: "string \<Rightarrow> json \<Rightarrow> int \<Rightarrow> int \<Rightarrow> standup_row list \<Rightarrow> standup_row list" where
  "keep_report date report t wsid rs =
     filter (\<lambda>r. sr_date r \<noteq> date) rs @ [\<lparr>sr_date = date, sr_report = report, sr_created_at = t, sr_workspace_id = wsid\<rparr>]"

text \<open>The agents that are reported: all of the workspace, or the given ones.\<close>

definition reported_agents :: "int \<Rightarrow> string list option \<Rightarrow> server \<Rightarrow> agent_row list" where
  "reported_agents wsid names s = sort_key g_name
     (tbl_select (\<lambda>g. g_workspace_id g = wsid \<and> (case names of None \<Rightarrow> True | Some ns \<Rightarrow> g_name g \<in> set ns)) (agents (db s)))"

fun bind_texts :: "json list \<Rightarrow> (string list) option" where
  "bind_texts [] = Some []"
| "bind_texts (v # vs) = (case (bind_text v, bind_texts vs) of
     (Inr (Some x), Some xs) \<Rightarrow> Some (x # xs) | (Inr None, Some xs) \<Rightarrow> Some xs | _ \<Rightarrow> None)"

definition agents_asked :: "json \<Rightarrow> string list option option" where
  "agents_asked body = (case jget ''agents'' body of
     Some (JArr (v # vs)) \<Rightarrow> map_option Some (bind_texts (v # vs)) | _ \<Rightarrow> Some None)"

definition log_standup :: "world \<Rightarrow> user \<Rightarrow> string \<Rightarrow> agent_report list \<Rightarrow> server \<Rightarrow> server" where
  "log_standup w u date rs s = logActivity w ''standup_generated'' ''standup'' 0 (usr_username u)
     (''Generated daily standup for '' @ date)
     (Some (JObj [(''date'', JStr date), (''agentCount'', JNum (int (length rs))), (''tasksSummary'', JObj [
        (''completed'', JNum (sum_of ar_completed rs)), (''inProgress'', JNum (sum_of ar_in_progress rs)),
        (''assigned'', JNum (sum_of ar_assigned rs)), (''review'', JNum (sum_of ar_review rs)),
        (''blocked'', JNum (sum_of ar_blocked rs))])])) (usr_workspace_id u) s"

definition generate_standup :: "world \<Rightarrow> user \<Rightarrow> string \<Rightarrow> string list option \<Rightarrow> server \<Rightarrow> outcome" where
  "generate_standup w u date names s =
     (case toISOString (now_ms w) of
        None \<Rightarrow> (Inr (error_response 500 ''Failed to generate standup''), s)
      | Some generatedAt \<Rightarrow>
          (let wsid = usr_workspace_id u;
               rs = map (report_agent w (parse_day date) wsid s) (reported_agents wsid names s);
               report = standup_json w date generatedAt wsid rs s;
               s1 = s\<lparr>db := (db s)\<lparr>standup_reports := keep_report date report (now_s w) wsid (standup_reports (db s))\<rparr>\<rparr>
           in (Inr (json_response 200 (JObj [(''standup'', report)])), log_standup w u date rs s1)))"

text \<open>Dates in the body that are not texts are outside the model.\<close>

definition standup_POST :: "world \<Rightarrow> request \<Rightarrow> server \<Rightarrow> outcome" where
  "standup_POST w req s = with_role w req ''operator'' s (\<lambda>u.
     case req_body req of
       None \<Rightarrow> (Inr (error_response 500 ''Failed to generate standup''), s)
     | Some JNull \<Rightarrow> (Inr (error_response 500 ''Failed to generate standup''), s)
     | Some body \<Rightarrow>
         (case (case or_null (str_field ''date'' body) of Some x \<Rightarrow> Some x | None \<Rightarrow> date_part (now_ms w), agents_asked body) of
            (Some date, Some names) \<Rightarrow> generate_standup w u date names s
          | _ \<Rightarrow> (Inr (error_response 500 ''Failed to generate standup''), s)))"

section \<open>GET /api/standup\<close>

text \<open>The reports are those that were stored; each has a time and a summary.\<close>

definition history_json :: "nat \<Rightarrow> standup_row \<Rightarrow> json option" where
  "history_json index r =
     (case (case or_null (str_field ''generatedAt'' (sr_report r)) of Some x \<Rightarrow> Some x | None \<Rightarrow> toISOString (sr_created_at r * 1000)) of
        None \<Rightarrow> None
      | Some t \<Rightarrow> Some (JObj [(''id'', JStr (sr_date r @ ''-'' @ show_nat index)),
          (''date'', JStr (or_else (Some (sr_date r)) (or_else (str_field ''date'' (sr_report r)) ''Unknown''))),
          (''generatedAt'', JStr t),
          (''summary'', case truthy_prop ''summary'' (sr_report r) of Some v \<Rightarrow> v | None \<Rightarrow> JObj []),
          (''agentCount'', case Option.bind (jget ''summary'' (sr_report r)) (truthy_prop ''totalAgents'') of Some v \<Rightarrow> v | None \<Rightarrow> JNum 0)]))"

definition standup_GET :: "world \<Rightarrow> request \<Rightarrow> server \<Rightarrow> outcome" where
  "standup_GET w req s = with_role w req ''viewer'' s (\<lambda>u.
     (case (parse_int (or_else (req_query req ''limit'') ''10''), parse_int (or_else (req_query req ''offset'') ''0'')) of
        (Some l, Some offset) \<Rightarrow>
          (let limit = min l 200; mine = filter (\<lambda>r. sr_workspace_id r = usr_workspace_id u) (standup_reports (db s));
               page = sql_limit limit offset (order_by_desc (sql_ord w) sr_created_at mine);
               history = map (\<lambda>(i, r). history_json i r) (enumerate 0 page);
               number = (if limit = 0 then JNull else JNum (offset div limit + 1))
           in if None \<in> set history then (Inr (error_response 500 ''Failed to fetch standup history''), s)
              else (Inr (json_response 200 (JObj [(''history'', JArr (map the history)), (''total'', JNum (int (length mine))),
                     (''page'', number), (''limit'', JNum limit)])), s))
      | _ \<Rightarrow> (Inr (error_response 500 ''Failed to fetch standup history''), s)))"

section \<open>What the report counts\<close>

lemma length_filter_disj:
  "(\<And>x. \<not> (p x \<and> q x)) \<Longrightarrow> length (filter (\<lambda>x. p x \<or> q x) xs) = length (filter p xs) + length (filter q xs)"
  by (induction xs) auto

lemma sum_assigned:
  assumes "distinct ns"
  shows "sum_list (map (\<lambda>n. length (filter (\<lambda>t. f t = Some n \<and> P t) ts)) ns) =
    length (filter (\<lambda>t. (\<exists>n \<in> set ns. f t = Some n) \<and> P t) ts)"
  using assms
proof (induction ns)
  case (Cons n ns)
  have "filter (\<lambda>t. (\<exists>m \<in> set (n # ns). f t = Some m) \<and> P t) ts =
      filter (\<lambda>t. (f t = Some n \<and> P t) \<or> ((\<exists>m \<in> set ns. f t = Some m) \<and> P t)) ts"
    by (rule filter_cong) auto
  also have "length \<dots> = length (filter (\<lambda>t. f t = Some n \<and> P t) ts) + length (filter (\<lambda>t. (\<exists>m \<in> set ns. f t = Some m) \<and> P t) ts)"
    by (rule length_filter_disj) (use Cons.prems in auto)
  finally show ?case using Cons by simp
qed simp

definition counted :: "(task_row \<Rightarrow> bool) \<Rightarrow> string set \<Rightarrow> int \<Rightarrow> server \<Rightarrow> int" where
  "counted p names wsid s = int (length (tbl_select (\<lambda>t. t_workspace_id t = wsid \<and> p t \<and>
     (\<exists>n \<in> names. t_assigned_to t = Some n)) (tasks (db s))))"

lemma sum_of_counted:
  assumes "distinct (map g_name gs)" and "\<And>g. length (f (report_agent w day wsid s g)) = length (tasks_of (g_name g) wsid p s)"
  shows "sum_of f (map (report_agent w day wsid s) gs) = counted p (g_name ` set gs) wsid s"
proof -
  have "sum_of f (map (report_agent w day wsid s) gs) =
      int (sum_list (map (\<lambda>n. length (filter (\<lambda>t. t_assigned_to t = Some n \<and> t_workspace_id t = wsid \<and> p t) (rows (tasks (db s))))) (map g_name gs)))"
    by (simp add: sum_of_def assms(2) tasks_of_def tbl_select_def o_def sum_list_int)
  also have "\<dots> = int (length (filter (\<lambda>t. (\<exists>n \<in> set (map g_name gs). t_assigned_to t = Some n) \<and> t_workspace_id t = wsid \<and> p t) (rows (tasks (db s)))))"
    by (simp only: sum_assigned [OF assms(1)])
  also have "\<dots> = counted p (g_name ` set gs) wsid s"
    unfolding counted_def tbl_select_def by (auto intro!: arg_cong [where f = length] filter_cong)
  finally show ?thesis .
qed

lemma report_lengths:
  assumes "sql_order (sql_ord w)"
  shows "length (ar_completed (report_agent w day wsid s g)) = length (tasks_of (g_name g) wsid (is_completed day) s)"
    "length (ar_in_progress (report_agent w day wsid s g)) = length (tasks_of (g_name g) wsid (\<lambda>t. t_status t = In_progress) s)"
    "length (ar_assigned (report_agent w day wsid s g)) = length (tasks_of (g_name g) wsid (\<lambda>t. t_status t = Assigned) s)"
    "length (ar_review (report_agent w day wsid s g)) = length (tasks_of (g_name g) wsid (\<lambda>t. t_status t \<in> {Review, Quality_review}) s)"
    "length (ar_blocked (report_agent w day wsid s g)) = length (tasks_of (g_name g) wsid is_blocked s)"
proof -
  have "length (order_by_desc2 (sql_ord w) k1 k2 ts) = length ts" for k1 k2 and ts :: "task_row list"
    using order_by_desc2_sorted(1) [OF assms] by (metis size_mset)
  then show "length (ar_completed (report_agent w day wsid s g)) = length (tasks_of (g_name g) wsid (is_completed day) s)"
    "length (ar_in_progress (report_agent w day wsid s g)) = length (tasks_of (g_name g) wsid (\<lambda>t. t_status t = In_progress) s)"
    "length (ar_assigned (report_agent w day wsid s g)) = length (tasks_of (g_name g) wsid (\<lambda>t. t_status t = Assigned) s)"
    "length (ar_review (report_agent w day wsid s g)) = length (tasks_of (g_name g) wsid (\<lambda>t. t_status t \<in> {Review, Quality_review}) s)"
    "length (ar_blocked (report_agent w day wsid s g)) = length (tasks_of (g_name g) wsid is_blocked s)"
    by (simp_all add: report_agent_def Let_def sql_order.length_order_by_desc [OF assms])
qed

text \<open>
  The numbers of a standup report are exact: each total of the summary is the number of tasks of the
  workspace in that state that are assigned to a reported agent, every task counted once. The report is kept
  as the only one of its date, and the reports of other dates stay. Since the date alone is the key, this
  also removes the report that another workspace has for the date.
\<close>

theorem standup_counts_exact:
  fixes names w
  assumes "sql_order (sql_ord w)" and "distinct (map g_name (rows (agents (db s))))"
    and "generate_standup w u date names s = (Inr r, s')" and "resp_status r = 200"
  defines "wsid \<equiv> usr_workspace_id u"
  defines "gs \<equiv> reported_agents wsid names s"
  defines "summary \<equiv> Option.bind (Option.bind (jget ''standup'' (resp_body r)) (jget ''summary''))"
  shows "summary (jget ''totalCompleted'') = Some (JNum (counted (is_completed (parse_day date)) (g_name ` set gs) wsid s)) \<and>
    summary (jget ''totalInProgress'') = Some (JNum (counted (\<lambda>t. t_status t = In_progress) (g_name ` set gs) wsid s)) \<and>
    summary (jget ''totalAssigned'') = Some (JNum (counted (\<lambda>t. t_status t = Assigned) (g_name ` set gs) wsid s)) \<and>
    summary (jget ''totalReview'') = Some (JNum (counted (\<lambda>t. t_status t \<in> {Review, Quality_review}) (g_name ` set gs) wsid s)) \<and>
    summary (jget ''totalBlocked'') = Some (JNum (counted is_blocked (g_name ` set gs) wsid s)) \<and>
    (\<exists>report. jget ''standup'' (resp_body r) = Some report \<and>
       filter (\<lambda>x. sr_date x = date) (standup_reports (db s')) =
         [\<lparr>sr_date = date, sr_report = report, sr_created_at = now_s w, sr_workspace_id = wsid\<rparr>]) \<and>
    filter (\<lambda>x. sr_date x \<noteq> date) (standup_reports (db s')) = filter (\<lambda>x. sr_date x \<noteq> date) (standup_reports (db s)) \<and>
    tasks (db s') = tasks (db s) \<and> agents (db s') = agents (db s)"
proof -
  let ?rs = "map (report_agent w (parse_day date) wsid s) gs"
  obtain t where t: "toISOString (now_ms w) = Some t"
    using assms(3,4) by (auto simp: generate_standup_def error_response_def json_response_def split: option.splits)
  have r: "resp_body r = JObj [(''standup'', standup_json w date t wsid ?rs s)]"
    and s': "s' = log_standup w u date ?rs (s\<lparr>db := (db s)\<lparr>standup_reports :=
        keep_report date (standup_json w date t wsid ?rs s) (now_s w) wsid (standup_reports (db s))\<rparr>\<rparr>)"
    using assms(3) t by (auto simp: generate_standup_def Let_def json_response_def wsid_def gs_def)
  have "distinct (map g_name gs)"
  proof -
    let ?p = "\<lambda>g. g_workspace_id g = wsid \<and> (case names of None \<Rightarrow> True | Some ns \<Rightarrow> g_name g \<in> set ns)"
    have "distinct (map g_name (tbl_select ?p (agents (db s))))" using assms(2) by (simp add: tbl_select_def distinct_map_filter)
    moreover have "mset (map g_name gs) = mset (map g_name (tbl_select ?p (agents (db s))))" by (simp add: gs_def reported_agents_def)
    ultimately show ?thesis using mset_eq_imp_distinct_iff by blast
  qed
  note sums = sum_of_counted [OF this report_lengths(1) [OF assms(1)]] sum_of_counted [OF this report_lengths(2) [OF assms(1)]]
    sum_of_counted [OF this report_lengths(3) [OF assms(1)]] sum_of_counted [OF this report_lengths(4) [OF assms(1)]]
    sum_of_counted [OF this report_lengths(5) [OF assms(1)]]
  have rows: "standup_reports (db s') = keep_report date (standup_json w date t wsid ?rs s) (now_s w) wsid (standup_reports (db s))"
    "tasks (db s') = tasks (db s)" "agents (db s') = agents (db s)"
    by (simp_all add: s' log_standup_def frame_simps)
  show ?thesis
    unfolding rows summary_def r by (simp add: standup_json_def summary_json_def Let_def sums keep_report_def filter_False)
qed

definition demo_standup_state :: server where
  "demo_standup_state = demo_task_state\<lparr>db := (db demo_task_state)\<lparr>agents := agents (db demo_agent_state)\<rparr>\<rparr>"

theorem standup_counts_exact_witness:
  "\<exists>r s'. generate_standup demo_world demo_caller ''2024-01-01'' None demo_standup_state = (Inr r, s') \<and>
     length (filter (\<lambda>x. sr_date x = ''2024-01-01'') (standup_reports (db s'))) = 1"
proof -
  have 1: "sql_order (sql_ord demo_world)" by (simp add: demo_world_def scan.sql_order_axioms)
  have 2: "distinct (map g_name (rows (agents (db demo_standup_state))))"
    by (simp add: demo_standup_state_def demo_agent_state_def)
  obtain t where t: "toISOString (now_ms demo_world) = Some t" by (simp add: toISOString_def valid_time_def demo_world_def)
  obtain r s' where 3: "generate_standup demo_world demo_caller ''2024-01-01'' None demo_standup_state = (Inr r, s')"
    and 4: "resp_status r = 200"
    by (simp add: generate_standup_def t Let_def json_response_def)
  from standup_counts_exact [OF 1 2 3 4] have "length (filter (\<lambda>x. sr_date x = ''2024-01-01'') (standup_reports (db s'))) = 1"
    by (auto simp del: length_filter_conv_card)
  with 3 show ?thesis by blast
qed

end
