(* ===== verification/MC_Integrations.thy ===== *)
theory MC_Integrations
  imports MC_AgentSync
begin

text \<open>
  \<open>src/app/api/integrations/route.ts\<close>: the credentials of outside services, kept in the file \<open>.env\<close> of the
  gateway's home. The parser and the printer of that file, listing with redacted values, setting and removing variables,
  testing a service and pulling secrets from a vault. Files are the record \<open>oc_files\<close>; what else is outside
  (the vault's command, \<open>fetch\<close>, the parser for JSON, the message of a refused write) is the record \<open>outside\<close>. Reading
  an existing file never fails; a secret that the vault delivers as JSON is a text or an object with a text.
\<close>

section \<open>The registry\<close>

record integration =
  in_id :: string
  in_name :: string
  in_category :: string
  in_envVars :: "string list"
  in_vaultItem :: "string option"
  in_testable :: bool

definition integration_def ::
  "string \<Rightarrow> string \<Rightarrow> string \<Rightarrow> string \<Rightarrow> string option \<Rightarrow> bool \<Rightarrow> integration"
where
  "integration_def i name category envVar vaultItem testable = \<lparr>in_id = i, in_name = name, in_category = category,
     in_envVars = [envVar], in_vaultItem = vaultItem, in_testable = testable\<rparr>"

definition INTEGRATIONS :: "integration list" where
  "INTEGRATIONS =
    [integration_def ''anthropic'' ''Anthropic'' ''ai'' ''ANTHROPIC_API_KEY'' (Some ''openclaw-anthropic-api-key'') True,
     integration_def ''openai'' ''OpenAI'' ''ai'' ''OPENAI_API_KEY'' (Some ''openclaw-openai-api-key'') True,
     integration_def ''openrouter'' ''OpenRouter'' ''ai'' ''OPENROUTER_API_KEY'' (Some ''openclaw-openrouter-api-key'') True,
     integration_def ''nvidia'' ''NVIDIA'' ''ai'' ''NVIDIA_API_KEY'' (Some ''openclaw-nvidia-api-key'') False,
     integration_def ''moonshot'' ''Moonshot / Kimi'' ''ai'' ''MOONSHOT_API_KEY'' (Some ''openclaw-moonshot-api-key'') False,
     integration_def ''ollama'' ''Ollama (Local)'' ''ai'' ''OLLAMA_API_KEY'' (Some ''openclaw-ollama-api-key'') False,
     integration_def ''brave'' ''Brave Search'' ''search'' ''BRAVE_API_KEY'' (Some ''openclaw-brave-api-key'') False,
     integration_def ''x_twitter'' ''X / Twitter'' ''social'' ''X_COOKIES_PATH'' None False,
     integration_def ''linkedin'' ''LinkedIn'' ''social'' ''LINKEDIN_ACCESS_TOKEN'' None False,
     integration_def ''telegram'' ''Telegram'' ''messaging'' ''TELEGRAM_BOT_TOKEN'' (Some ''openclaw-telegram-bot-token'') True,
     integration_def ''github'' ''GitHub'' ''devtools'' ''GITHUB_TOKEN'' (Some ''openclaw-github-token'') True,
     integration_def ''onepassword'' ''1Password'' ''security'' ''OP_SERVICE_ACCOUNT_TOKEN'' None False,
     integration_def ''gateway'' ''Gateway Auth'' ''infra'' ''OPENCLAW_GATEWAY_TOKEN'' (Some ''openclaw-openclaw-gateway-token'') False]"

definition CATEGORIES :: "(string \<times> string \<times> int) list" where
  "CATEGORIES = [(''ai'', ''AI Providers'', 0), (''search'', ''Search'', 1), (''social'', ''Social'', 2),
     (''messaging'', ''Messaging'', 3), (''devtools'', ''Dev Tools'', 4), (''security'', ''Security'', 5),
     (''infra'', ''Infrastructure'', 6)]"

definition BLOCKED_VARS :: "string list" where
  "BLOCKED_VARS = [''PATH'', ''HOME'', ''USER'', ''SHELL'', ''LANG'', ''TERM'', ''PWD'', ''LOGNAME'', ''HOSTNAME'']"

definition BLOCKED_PREFIXES :: "string list" where
  "BLOCKED_PREFIXES = [''LD_'', ''DYLD_'']"

definition isVarBlocked :: "string \<Rightarrow> bool" where
  "isVarBlocked key \<longleftrightarrow> key \<in> set BLOCKED_VARS \<or> list_ex (\<lambda>p. starts_with p key) BLOCKED_PREFIXES"

section \<open>The file .env\<close>

datatype env_line = Env_comment string | Env_blank string | Env_var string string string

abbreviation newline :: char where
  "newline \<equiv> char_of (10 :: nat)"

definition parse_env_line :: "string \<Rightarrow> env_line" where
  "parse_env_line raw =
     (if trim raw = [] then Env_blank raw
      else if starts_with ''#'' (trim raw) then Env_comment raw
      else let key = takeWhile (\<lambda>c. c \<noteq> CHR ''='') raw; rest = dropWhile (\<lambda>c. c \<noteq> CHR ''='') raw
           in if key \<noteq> [] \<and> rest \<noteq> [] then Env_var raw (trim key) (trim (tl rest)) else Env_comment raw)"

definition parseEnv :: "string \<Rightarrow> env_line list" where
  "parseEnv content = map parse_env_line (split_on newline content)"

fun serialize_line :: "env_line \<Rightarrow> string" where
  "serialize_line (Env_var raw key v) = key @ ''='' @ v"
| "serialize_line (Env_comment raw) = raw"
| "serialize_line (Env_blank raw) = raw"

definition serializeEnv :: "env_line list \<Rightarrow> string" where
  "serializeEnv lines = join_with [newline] (map serialize_line lines)"

definition getEnvPath :: "world \<Rightarrow> string option" where
  "getEnvPath w = (if config_openclawHome w = [] then None else Some (posix_join [config_openclawHome w, ''.env'']))"

definition readEnvFile :: "oc_files \<Rightarrow> world \<Rightarrow> env_line list option" where
  "readEnvFile fs w = (case getEnvPath w of
     None \<Rightarrow> None
   | Some p \<Rightarrow> Some (case oc_file fs p of None \<Rightarrow> [] | Some raw \<Rightarrow> parseEnv raw))"

record http_reply =
  hr_ok :: bool
  hr_status :: int
  hr_json :: "string + json"

record outside =
  op_available :: bool
  op_run :: "string list \<Rightarrow> string \<Rightarrow> string + string"
  http_get :: "string \<Rightarrow> (string \<times> string) list \<Rightarrow> string + http_reply"
  json_parse :: "string \<Rightarrow> json option"
  denied :: "string \<Rightarrow> string"

text \<open>The new file is written beside the old one and renamed.\<close>

definition writeEnvFile :: "outside \<Rightarrow> world \<Rightarrow> env_line list \<Rightarrow> oc_files \<Rightarrow> string + oc_files" where
  "writeEnvFile x w lines fs =
     (let p = or_else (getEnvPath w) []
      in if oc_writable fs (p @ ''.tmp'') then Inr (fs\<lparr>oc_file := (oc_file fs)(p \<mapsto> serializeEnv lines)\<rparr>)
         else Inl (denied x (p @ ''.tmp'')))"

definition redactValue :: "string \<Rightarrow> string" where
  "redactValue v = (if length v \<le> 4 then ''****'' else ''****'' @ drop (length v - 4) v)"

text \<open>The \<open>Map\<close> of the variables: of two lines with the same name the later one counts.\<close>

fun env_entry :: "env_line \<Rightarrow> (string \<times> string) option" where
  "env_entry (Env_var raw key v) = (if key = [] then None else Some (key, v))"
| "env_entry _ = None"

definition env_map :: "env_line list \<Rightarrow> string \<Rightarrow> string option" where
  "env_map lines = map_of (rev (List.map_filter env_entry lines))"

text \<open>\<open>lines.find(l => l.type === 'var' && l.key === key)\<close> and what the code does with it.\<close>

fun is_var :: "string \<Rightarrow> env_line \<Rightarrow> bool" where
  "is_var key (Env_var raw k v) = (k = key)"
| "is_var key _ = False"

fun is_blank :: "env_line \<Rightarrow> bool" where
  "is_blank (Env_blank raw) = True"
| "is_blank _ = False"

fun set_first :: "string \<Rightarrow> string \<Rightarrow> env_line list \<Rightarrow> env_line list" where
  "set_first key v [] = []"
| "set_first key v (l # ls) =
     (case l of
        Env_var raw k old \<Rightarrow> if k = key then Env_var raw k v # ls else l # set_first key v ls
      | _ \<Rightarrow> l # set_first key v ls)"

definition upsert_var :: "string \<Rightarrow> string \<Rightarrow> env_line list \<Rightarrow> env_line list" where
  "upsert_var key v lines =
     (if list_ex (is_var key) lines then set_first key v lines
      else (if lines \<noteq> [] \<and> \<not> is_blank (last lines) then lines @ [Env_blank []] else lines) @
           [Env_var (key @ ''='' @ v) key v])"

text \<open>The token of the vault: from the environment of the process, or else the first one of the file.\<close>

definition getOpEnv :: "oc_files \<Rightarrow> world \<Rightarrow> string option" where
  "getOpEnv fs w = (case or_null (getenv w ''OP_SERVICE_ACCOUNT_TOKEN'') of
     Some t \<Rightarrow> Some t
   | None \<Rightarrow> (case readEnvFile fs w of
       None \<Rightarrow> None
     | Some lines \<Rightarrow> map_of (filter (\<lambda>(k, v). v \<noteq> []) (List.map_filter env_entry lines)) ''OP_SERVICE_ACCOUNT_TOKEN''))"

section \<open>GET\<close>

definition var_json :: "(string \<Rightarrow> string option) \<Rightarrow> string \<Rightarrow> string \<times> json" where
  "var_json env envVar = (envVar, case or_null (env envVar) of
     None \<Rightarrow> JObj [(''redacted'', JStr []), (''set'', JBool False)]
   | Some v \<Rightarrow> JObj [(''redacted'', JStr (redactValue v)), (''set'', JBool True)])"

definition integration_status :: "(string \<Rightarrow> string option) \<Rightarrow> integration \<Rightarrow> string" where
  "integration_status env i =
     (let given = (\<lambda>e. or_null (env e) \<noteq> None)
      in if list_all given (in_envVars i) \<and> list_ex given (in_envVars i) then ''connected''
         else if list_ex given (in_envVars i) then ''partial'' else ''not_configured'')"

definition integration_json :: "(string \<Rightarrow> string option) \<Rightarrow> integration \<Rightarrow> json" where
  "integration_json env i = JObj [(''id'', JStr (in_id i)), (''name'', JStr (in_name i)), (''category'', JStr (in_category i)),
     (''categoryLabel'', JStr (case map_of CATEGORIES (in_category i) of None \<Rightarrow> in_category i | Some (label, _) \<Rightarrow> label)),
     (''envVars'', JObj (map (var_json env) (in_envVars i))), (''status'', JStr (integration_status env i)),
     (''vaultItem'', jnull JStr (in_vaultItem i)), (''testable'', JBool (in_testable i))]"

definition integrations_GET :: "outside \<Rightarrow> oc_files \<Rightarrow> world \<Rightarrow> request \<Rightarrow> server \<Rightarrow> outcome" where
  "integrations_GET x fs w req s = with_role w req ''admin'' s (\<lambda>u.
     (case readEnvFile fs w of
        None \<Rightarrow> (Inr (error_response 404 ''OPENCLAW_HOME not configured''), s)
      | Some lines \<Rightarrow>
          (Inr (json_response 200 (JObj [(''integrations'', JArr (map (integration_json (env_map lines)) INTEGRATIONS)),
             (''categories'', JArr (map (\<lambda>(i, label, _). JObj [(''id'', JStr i), (''label'', JStr label)])
                (sort_key (\<lambda>(_, _, rank). rank) CATEGORIES))),
             (''opAvailable'', JBool (op_available x)), (''envPath'', jnull JStr (getEnvPath w))])), s)))"

section \<open>PUT\<close>

definition var_start :: "char \<Rightarrow> bool" where
  "var_start c \<longleftrightarrow> is_word_char c \<and> \<not> is_digit c"

definition valid_var :: "string \<Rightarrow> bool" where
  "valid_var key \<longleftrightarrow> key \<noteq> [] \<and> var_start (hd key) \<and> list_all is_word_char key"

fun refused_var :: "string list \<Rightarrow> response option" where
  "refused_var [] = None"
| "refused_var (key # keys) =
     (if isVarBlocked key then Some (error_response 403 (''Cannot set protected variable: '' @ key))
      else if \<not> valid_var key then Some (error_response 400 (''Invalid variable name: '' @ key))
      else refused_var keys)"

text \<open>\<open>Object.entries\<close> of an object or an array.\<close>

fun entries_of_json :: "json \<Rightarrow> (string \<times> json) list option" where
  "entries_of_json (JObj kvs) = Some kvs"
| "entries_of_json (JArr xs) = Some (zip (map show_nat [0..<length xs]) xs)"
| "entries_of_json _ = None"

definition audit_integration :: "world \<Rightarrow> request \<Rightarrow> user \<Rightarrow> string \<Rightarrow> json \<Rightarrow> server \<Rightarrow> server" where
  "audit_integration w req u action detail s =
     logAuditEvent w ((audit_event0 action (usr_username u))\<lparr>ae_actor_id := Some (usr_id u), ae_detail := Some detail,
       ae_ip_address := Some (client_ip req)\<rparr>) s"

definition upsert_vars :: "(string \<times> json) list \<Rightarrow> env_line list \<Rightarrow> env_line list" where
  "upsert_vars kvs lines = fold (\<lambda>(k, v). upsert_var k (js_String v)) kvs lines"

definition put_integrations :: "outside \<Rightarrow> world \<Rightarrow> request \<Rightarrow> user \<Rightarrow> oc_files \<Rightarrow> server \<Rightarrow> outcome \<times> oc_files" where
  "put_integrations x w req u fs s =
     (let invalid = ((Inr (error_response 400 ''vars object required''), s), fs)
      in case Option.bind (req_body req) (jget ''vars'') of
        None \<Rightarrow> invalid
      | Some vars \<Rightarrow>
          (case entries_of_json vars of
             None \<Rightarrow> invalid
           | Some kvs \<Rightarrow>
               (case refused_var (map fst kvs) of
                  Some r \<Rightarrow> ((Inr r, s), fs)
                | None \<Rightarrow>
                    (case readEnvFile fs w of
                       None \<Rightarrow> ((Inr (error_response 404 ''OPENCLAW_HOME not configured''), s), fs)
                     | Some lines \<Rightarrow>
                         (let updated = JArr (map (JStr \<circ> fst) kvs)
                          in case writeEnvFile x w (upsert_vars kvs lines) fs of
                               Inl e \<Rightarrow> ((Inl e, s), fs)
                             | Inr fs' \<Rightarrow>
                                 ((Inr (json_response 200 (JObj [(''updated'', updated), (''count'', JNum (int (length kvs)))])),
                                   audit_integration w req u ''integrations_update'' (JObj [(''updated_keys'', updated)]) s),
                                  fs'))))))"

definition integrations_PUT :: "outside \<Rightarrow> world \<Rightarrow> request \<Rightarrow> oc_files \<Rightarrow> server \<Rightarrow> outcome \<times> oc_files" where
  "integrations_PUT x w req fs s = role_files w req ''admin'' fs s (\<lambda>u. put_integrations x w req u fs s)"

section \<open>DELETE\<close>

definition keys_param :: "json \<Rightarrow> string + string" where
  "keys_param body = (case jget ''keys'' body of
     None \<Rightarrow> Inr []
   | Some (JArr xs) \<Rightarrow> Inr (js_String (JArr xs))
   | Some (JStr x) \<Rightarrow> Inr x
   | Some v \<Rightarrow> if truthy v then Inl ''keysParam.split is not a function'' else Inr [])"

definition removed_line :: "string list \<Rightarrow> env_line \<Rightarrow> string option" where
  "removed_line keys l = (case env_entry l of None \<Rightarrow> None | Some (k, v) \<Rightarrow> if k \<in> set keys then Some k else None)"

definition remove_vars :: "string list \<Rightarrow> env_line list \<Rightarrow> env_line list" where
  "remove_vars keys lines = filter (\<lambda>l. removed_line keys l = None) lines"

definition remove_integrations ::
  "outside \<Rightarrow> world \<Rightarrow> request \<Rightarrow> user \<Rightarrow> string list \<Rightarrow> oc_files \<Rightarrow> server \<Rightarrow> outcome \<times> oc_files"
where
  "remove_integrations x w req u keys fs s =
     (case find isVarBlocked keys of
        Some k \<Rightarrow> ((Inr (error_response 403 (''Cannot remove protected variable: '' @ k)), s), fs)
      | None \<Rightarrow>
          (case readEnvFile fs w of
             None \<Rightarrow> ((Inr (error_response 404 ''OPENCLAW_HOME not configured''), s), fs)
           | Some lines \<Rightarrow>
               (let gone = List.map_filter (removed_line keys) lines; removed = JArr (map JStr gone)
                in case (if gone = [] then Inr fs else writeEnvFile x w (remove_vars keys lines) fs) of
                     Inl e \<Rightarrow> ((Inl e, s), fs)
                   | Inr fs' \<Rightarrow>
                       ((Inr (json_response 200 (JObj [(''removed'', removed), (''count'', JNum (int (length gone)))])),
                         audit_integration w req u ''integrations_remove'' (JObj [(''removed_keys'', removed)]) s), fs'))))"

definition delete_integrations :: "outside \<Rightarrow> world \<Rightarrow> request \<Rightarrow> user \<Rightarrow> oc_files \<Rightarrow> server \<Rightarrow> outcome \<times> oc_files" where
  "delete_integrations x w req u fs s =
     (case req_body req of
        None \<Rightarrow> ((Inr (error_response 400 ''Request body required''), s), fs)
      | Some JNull \<Rightarrow> ((Inl ''Cannot read properties of null (reading 'keys')'', s), fs)
      | Some body \<Rightarrow>
          (case keys_param body of
             Inl e \<Rightarrow> ((Inl e, s), fs)
           | Inr param \<Rightarrow>
               if param = [] then ((Inr (error_response 400 ''keys parameter required (comma-separated string or array)''), s), fs)
               else (let keys = filter (\<lambda>k. k \<noteq> []) (map trim (split_on CHR '','' param))
                     in if keys = [] then ((Inr (error_response 400 ''At least one key required''), s), fs)
                        else remove_integrations x w req u keys fs s)))"

definition integrations_DELETE :: "outside \<Rightarrow> world \<Rightarrow> request \<Rightarrow> oc_files \<Rightarrow> server \<Rightarrow> outcome \<times> oc_files" where
  "integrations_DELETE x w req fs s = role_files w req ''admin'' fs s (\<lambda>u. delete_integrations x w req u fs s)"

section \<open>POST: test\<close>

text \<open>The answer of Telegram: its body decides.\<close>

definition telegram_result :: "http_reply \<Rightarrow> string + bool \<times> json" where
  "telegram_result r = (case hr_json r of
     Inl e \<Rightarrow> Inl e
   | Inr JNull \<Rightarrow> Inl ''Cannot read properties of null (reading 'ok')''
   | Inr data \<Rightarrow>
       if truthy_prop ''ok'' data = None
       then Inr (False, case truthy_prop ''description'' data of None \<Rightarrow> JStr ''Failed'' | Some d \<Rightarrow> d)
       else (case jget ''result'' data of
          None \<Rightarrow> Inl ''Cannot read properties of undefined (reading 'username')''
        | Some JNull \<Rightarrow> Inl ''Cannot read properties of null (reading 'username')''
        | Some r \<Rightarrow> Inr (True, JStr (''Bot: @'' @ template_str (jget ''username'' r)))))"

definition github_result :: "http_reply \<Rightarrow> string + bool \<times> json" where
  "github_result r =
     (if \<not> hr_ok r then Inr (False, JStr (''HTTP '' @ show_int (hr_status r)))
      else case hr_json r of
        Inl e \<Rightarrow> Inl e
      | Inr JNull \<Rightarrow> Inl ''Cannot read properties of null (reading 'login')''
      | Inr data \<Rightarrow> Inr (True, JStr (''User: '' @ template_str (jget ''login'' data))))"

definition key_result :: "http_reply \<Rightarrow> string + bool \<times> json" where
  "key_result r = Inr (if hr_ok r then (True, JStr ''API key valid'') else (False, JStr (''HTTP '' @ show_int (hr_status r))))"

text \<open>One row per service: the variable, the text when it is not set, the request and how the answer is read.\<close>

definition bearer :: "string \<Rightarrow> string \<times> string" where
  "bearer token = (''Authorization'', ''Bearer '' @ token)"

definition service_test ::
  "string \<Rightarrow> (string \<times> string \<times> (string \<Rightarrow> string) \<times> (string \<Rightarrow> (string \<times> string) list) \<times> (http_reply \<Rightarrow> string + bool \<times> json)) option"
where
  "service_test i =
     (if i = ''telegram'' then Some (''TELEGRAM_BOT_TOKEN'', ''Token not set'',
        (\<lambda>t. ''https://api.telegram.org/bot'' @ t @ ''/getMe''), (\<lambda>t. []), telegram_result)
      else if i = ''github'' then Some (''GITHUB_TOKEN'', ''Token not set'', (\<lambda>t. ''https://api.github.com/user''),
        (\<lambda>t. [bearer t, (''User-Agent'', ''MissionControl/1.0'')]), github_result)
      else if i = ''anthropic'' then Some (''ANTHROPIC_API_KEY'', ''API key not set'', (\<lambda>t. ''https://api.anthropic.com/v1/models''),
        (\<lambda>t. [(''x-api-key'', t), (''anthropic-version'', ''2023-06-01'')]), key_result)
      else if i = ''openai'' then Some (''OPENAI_API_KEY'', ''API key not set'', (\<lambda>t. ''https://api.openai.com/v1/models''),
        (\<lambda>t. [bearer t]), key_result)
      else if i = ''openrouter'' then Some (''OPENROUTER_API_KEY'', ''API key not set'', (\<lambda>t. ''https://openrouter.ai/api/v1/models''),
        (\<lambda>t. [bearer t]), key_result)
      else None)"

definition test_response :: "bool \<Rightarrow> json \<Rightarrow> response" where
  "test_response ok detail = json_response 200 (JObj [(''ok'', JBool ok), (''detail'', detail)])"

definition handleTest :: "outside \<Rightarrow> oc_files \<Rightarrow> integration \<Rightarrow> world \<Rightarrow> request \<Rightarrow> user \<Rightarrow> server \<Rightarrow> outcome" where
  "handleTest x fs i w req u s =
     (if \<not> in_testable i then (Inr (error_response 400 ''This integration does not support testing''), s)
      else case readEnvFile fs w of
        None \<Rightarrow> (Inr (error_response 404 ''OPENCLAW_HOME not configured''), s)
      | Some lines \<Rightarrow>
          (case service_test (in_id i) of
             None \<Rightarrow> (Inr (error_response 400 ''Test not implemented for this integration''), s)
           | Some (var, unset, url, headers, judge) \<Rightarrow>
               (case or_null (env_map lines var) of
                  None \<Rightarrow> (Inr (test_response False (JStr unset)), s)
                | Some t \<Rightarrow>
                    (case (case http_get x (url t) (headers t) of Inl e \<Rightarrow> Inl e | Inr r \<Rightarrow> judge r) of
                       Inl e \<Rightarrow> (Inr (test_response False (JStr (or_else (Some e) ''Connection failed''))), s)
                     | Inr (ok, detail) \<Rightarrow>
                         (Inr (test_response ok detail),
                          audit_integration w req u ''integration_test'' (JObj [(''integration'', JStr (in_id i)),
                            (''result'', JStr (if ok then ''success'' else ''failed''))]) s)))))"

section \<open>POST: pull\<close>

definition op_args :: "world \<Rightarrow> string \<Rightarrow> string list" where
  "op_args w item = [''item'', ''get'', item, ''--vault'', or_else (getenv w ''OP_VAULT_NAME'') ''default'',
     ''--fields'', ''password'', ''--format'', ''json'']"

text \<open>The secret is the property \<open>value\<close> of the JSON, the JSON itself, or the plain text.\<close>

definition secret_value :: "outside \<Rightarrow> string \<Rightarrow> string" where
  "secret_value x secret = (case json_parse x secret of
     None \<Rightarrow> secret
   | Some JNull \<Rightarrow> secret
   | Some parsed \<Rightarrow> js_String (case truthy_prop ''value'' parsed of None \<Rightarrow> parsed | Some v \<Rightarrow> v))"

definition pull_secret :: "outside \<Rightarrow> world \<Rightarrow> string \<Rightarrow> string \<Rightarrow> string + string" where
  "pull_secret x w item token = (case op_run x (op_args w item) token of
     Inl e \<Rightarrow> Inl e
   | Inr out \<Rightarrow> Inr (secret_value x (trim out)))"

definition handlePull ::
  "outside \<Rightarrow> integration \<Rightarrow> world \<Rightarrow> request \<Rightarrow> user \<Rightarrow> oc_files \<Rightarrow> server \<Rightarrow> outcome \<times> oc_files"
where
  "handlePull x i w req u fs s =
     (let failed = (\<lambda>e. ((Inr (error_response 500 (''1Password pull failed: '' @ e)), s), fs)); var = hd (in_envVars i)
      in case or_null (in_vaultItem i) of
           None \<Rightarrow> ((Inr (error_response 400 ''No vault item configured for this integration''), s), fs)
         | Some item \<Rightarrow>
             if \<not> op_available x then ((Inr (error_response 400 ''1Password CLI (op) is not installed''), s), fs)
             else (case getOpEnv fs w of
                None \<Rightarrow> ((Inr (error_response 400 ''OP_SERVICE_ACCOUNT_TOKEN not found in environment or .env''), s), fs)
              | Some token \<Rightarrow>
                  (case pull_secret x w item token of
                     Inl e \<Rightarrow> failed e
                   | Inr v \<Rightarrow>
                       if v = [] then ((Inr (error_response 400 ''Empty value returned from 1Password''), s), fs)
                       else (case readEnvFile fs w of
                          None \<Rightarrow> ((Inr (error_response 404 ''OPENCLAW_HOME not configured''), s), fs)
                        | Some lines \<Rightarrow>
                            (case writeEnvFile x w (upsert_var var v lines) fs of
                               Inl e \<Rightarrow> failed e
                             | Inr fs' \<Rightarrow>
                                 ((Inr (json_response 200 (JObj [(''ok'', JBool True),
                                    (''detail'', JStr (''Pulled '' @ var @ '' from 1Password'')), (''redacted'', JStr (redactValue v))])),
                                   audit_integration w req u ''integration_pull_1password''
                                     (JObj [(''integration'', JStr (in_id i)), (''env_var'', JStr var)]) s), fs'))))))"

record pull_result =
  pr_id :: string
  pr_envVar :: string
  pr_ok :: bool
  pr_detail :: string

fun pull_each ::
  "outside \<Rightarrow> world \<Rightarrow> string \<Rightarrow> integration list \<Rightarrow> env_line list \<Rightarrow> pull_result list \<times> env_line list"
where
  "pull_each x w token [] lines = ([], lines)"
| "pull_each x w token (i # todo) lines =
     (let var = hd (in_envVars i);
          result = (\<lambda>ok detail. \<lparr>pr_id = in_id i, pr_envVar = var, pr_ok = ok, pr_detail = detail\<rparr>);
          (r, lines') = (case pull_secret x w (or_else (in_vaultItem i) []) token of
             Inl e \<Rightarrow> (result False (or_else (Some e) ''Failed''), lines)
           | Inr v \<Rightarrow> if v = [] then (result False ''Empty value'', lines)
                      else (result True (''Pulled '' @ var), upsert_var var v lines));
          (rs, lines'') = pull_each x w token todo lines'
      in (r # rs, lines''))"

definition pull_targets :: "string option \<Rightarrow> integration list" where
  "pull_targets category = filter (\<lambda>i. or_null (in_vaultItem i) \<noteq> None \<and>
     (case or_null category of None \<Rightarrow> True | Some c \<Rightarrow> in_category i = c)) INTEGRATIONS"

definition handlePullAll ::
  "outside \<Rightarrow> string option \<Rightarrow> world \<Rightarrow> request \<Rightarrow> user \<Rightarrow> oc_files \<Rightarrow> server \<Rightarrow> outcome \<times> oc_files"
where
  "handlePullAll x category w req u fs s =
     (if \<not> op_available x then ((Inr (error_response 400 ''1Password CLI (op) is not installed''), s), fs)
      else case getOpEnv fs w of
        None \<Rightarrow> ((Inr (error_response 400 ''OP_SERVICE_ACCOUNT_TOKEN not found in environment or .env''), s), fs)
      | Some token \<Rightarrow>
          if pull_targets category = []
          then ((Inr (error_response 400 ''No vault-backed integrations found for this category''), s), fs)
          else (case readEnvFile fs w of
             None \<Rightarrow> ((Inr (error_response 404 ''OPENCLAW_HOME not configured''), s), fs)
           | Some lines \<Rightarrow>
               (let (results, lines') = pull_each x w token (pull_targets category) lines;
                    good = int (length (filter pr_ok results)); all = int (length results)
                in case (if 0 < good then writeEnvFile x w lines' fs else Inr fs) of
                     Inl e \<Rightarrow> ((Inl e, s), fs)
                   | Inr fs' \<Rightarrow>
                       ((Inr (json_response 200 (JObj [(''ok'', JBool (0 < good)),
                          (''detail'', JStr (''Pulled '' @ show_int good @ ''/'' @ show_int all @ '' integrations'')),
                          (''results'', JArr (map (\<lambda>r. JObj [(''id'', JStr (pr_id r)), (''envVar'', JStr (pr_envVar r)),
                             (''ok'', JBool (pr_ok r)), (''detail'', JStr (pr_detail r))]) results))])),
                         audit_integration w req u ''integration_pull_all_1password''
                           (JObj [(''category'', JStr (case category of None \<Rightarrow> ''all'' | Some c \<Rightarrow> c)), (''success'', JNum good),
                              (''failed'', JNum (all - good)),
                              (''results'', JArr (map (\<lambda>r. JObj [(''id'', JStr (pr_id r)), (''ok'', JBool (pr_ok r))]) results))]) s),
                        fs'))))"

section \<open>POST\<close>

record integration_action =
  ia_action :: string
  ia_integrationId :: "string option"
  ia_category :: "string option"

definition integration_post ::
  "outside \<Rightarrow> integration_action \<Rightarrow> world \<Rightarrow> request \<Rightarrow> user \<Rightarrow> oc_files \<Rightarrow> server \<Rightarrow> outcome \<times> oc_files"
where
  "integration_post x b w req u fs s =
     (if ia_action b = ''pull-all'' then handlePullAll x (ia_category b) w req u fs s
      else case or_null (ia_integrationId b) of
        None \<Rightarrow> ((Inr (error_response 400 ''integrationId required''), s), fs)
      | Some k \<Rightarrow>
          (case find (\<lambda>i. in_id i = k) INTEGRATIONS of
             None \<Rightarrow> ((Inr (error_response 404 (''Unknown integration: '' @ k)), s), fs)
           | Some i \<Rightarrow>
               if ia_action b = ''test'' then (handleTest x fs i w req u s, fs)
               else if ia_action b = ''pull'' then handlePull x i w req u fs s
               else ((Inr (error_response 400 (''Unknown action: '' @ ia_action b)), s), fs)))"

definition integrations_POST ::
  "integration_action schema \<Rightarrow> outside \<Rightarrow> world \<Rightarrow> request \<Rightarrow> oc_files \<Rightarrow> server \<Rightarrow> outcome \<times> oc_files"
where
  "integrations_POST integrationActionSchema x w req fs s = role_files w req ''admin'' fs s (\<lambda>u.
     limited_files w req fs s (\<lambda>s'.
       (case validateBody integrationActionSchema req of
          Inl r \<Rightarrow> ((Inr r, s'), fs)
        | Inr b \<Rightarrow> integration_post x b w req u fs s')))"


section \<open>What a write leaves in the file\<close>

subsection \<open>Text\<close>

lemma split_on_join: "xs \<noteq> [] \<Longrightarrow> split_on c (join_with [c] xs) = concat (map (split_on c) xs)"
  by (induction "[c]" xs rule: join_with.induct) (simp_all add: split_on_append)

lemma trim_parts:
  obtains a b where "s = a @ trim s @ b"
proof -
  have "s = takeWhile is_ws s @ dropWhile is_ws s" by simp
  also have "dropWhile is_ws s = trim s @ rev (takeWhile is_ws (rev (dropWhile is_ws s)))"
    unfolding trim_def by (metis rev_append rev_rev_ident takeWhile_dropWhile_id)
  finally show thesis by (rule that)
qed

lemma set_trim: "set (trim s) \<subseteq> set s"
proof -
  obtain a b where "s = a @ trim s @ b" by (rule trim_parts)
  then show ?thesis by (metis set_append Un_iff subsetI)
qed

lemma newline_eq [simp]: "newline \<noteq> CHR ''=''"
  by (auto dest: arg_cong [where f = "of_char :: char \<Rightarrow> nat"])

lemma trim_ends:
  assumes "trim s \<noteq> []"
  shows "\<not> is_ws (hd (trim s))" "\<not> is_ws (last (trim s))"
proof -
  let ?m = "dropWhile is_ws s"
  have l: "trim s = rev (dropWhile is_ws (rev ?m))" by (simp add: trim_def)
  then have ne: "dropWhile is_ws (rev ?m) \<noteq> []" using assms by simp
  show "\<not> is_ws (last (trim s))"
    using hd_dropWhile [OF ne] by (simp add: l last_rev)
  obtain b where "?m = trim s @ b"
    unfolding l by (metis rev_append rev_rev_ident takeWhile_dropWhile_id)
  moreover have "?m \<noteq> []" using ne by (cases "?m = []") simp_all
  ultimately show "\<not> is_ws (hd (trim s))"
    using hd_dropWhile [of is_ws s] assms by (metis hd_append2)
qed

lemma trim_same:
  assumes "s \<noteq> []" "\<not> is_ws (hd s)" "\<not> is_ws (last s)" shows "trim s = s"
proof -
  have "dropWhile is_ws s = s" using assms by (cases s) auto
  moreover have "dropWhile is_ws (rev s) = rev s"
  proof (cases "rev s")
    case (Cons y ys)
    then have "last s = y" by (metis hd_rev list.sel(1))
    with assms(3) Cons show ?thesis by simp
  qed simp
  ultimately show ?thesis by (simp add: trim_def)
qed

lemma trim_idem [simp]: "trim (trim s) = trim s"
proof (cases "trim s = []")
  case True
  show ?thesis unfolding True by (simp add: trim_def)
next
  case False
  then show ?thesis by (intro trim_same trim_ends)
qed

lemma hd_trim_append:
  assumes "trim p \<noteq> []" shows "hd (trim (p @ t)) = hd (trim p) \<and> trim (p @ t) \<noteq> []"
proof -
  obtain x where x: "x \<in> set p" "\<not> is_ws x"
    using assms trim_ends(1) [OF assms] set_trim hd_in_set by blast
  have d: "dropWhile is_ws (p @ t) = dropWhile is_ws p @ t"
    using x by (rule dropWhile_append1)
  have *: "hd (trim q) = hd (dropWhile is_ws q)" if "trim q \<noteq> []" for q
  proof -
    have "dropWhile is_ws q = trim q @ rev (takeWhile is_ws (rev (dropWhile is_ws q)))"
      unfolding trim_def by (metis rev_append rev_rev_ident takeWhile_dropWhile_id)
    with that show ?thesis by (metis hd_append2)
  qed
  have "dropWhile is_ws p \<noteq> []" using x by (metis dropWhile_eq_Nil_conv)
  moreover have ne: "trim (p @ t) \<noteq> []"
  proof
    assume "trim (p @ t) = []"
    then have "dropWhile is_ws (rev (dropWhile is_ws (p @ t))) = []" unfolding trim_def by (metis rev_is_Nil_conv)
    then have "\<forall>c \<in> set (dropWhile is_ws (p @ t)). is_ws c" by (metis dropWhile_eq_Nil_conv set_rev)
    then have "\<forall>c \<in> set (dropWhile is_ws p). is_ws c" unfolding d set_append by blast
    moreover have "x \<in> set p" "\<not> is_ws x" using x by simp_all
    moreover have "hd (dropWhile is_ws p) \<in> set (dropWhile is_ws p)" "\<not> is_ws (hd (dropWhile is_ws p))"
      using \<open>dropWhile is_ws p \<noteq> []\<close> by (simp_all add: hd_dropWhile)
    ultimately show False by blast
  qed
  ultimately show ?thesis
    using * [OF ne] * [OF assms] hd_append2 [of "dropWhile is_ws p" t] unfolding d by simp
qed

subsection \<open>Lines\<close>

text \<open>A line that is written on one line and read as the variable that it was.\<close>

definition faithful :: "env_line \<Rightarrow> bool" where
  "faithful l \<longleftrightarrow> newline \<notin> set (serialize_line l) \<and> env_entry (parse_env_line (serialize_line l)) = env_entry l"

lemma faithful_var:
  assumes "key \<noteq> []" "trim key = key" "CHR ''='' \<notin> set key" "newline \<notin> set key" "hd key \<noteq> CHR ''#''"
    and "trim v = v" "newline \<notin> set v"
  shows "faithful (Env_var raw key v)"
proof -
  have "trim key \<noteq> []" using assms by simp
  from hd_trim_append [OF this, of "''='' @ v"] have t: "trim (key @ ''='' @ v) \<noteq> []" "hd (trim (key @ ''='' @ v)) = hd key"
    using assms(2) by auto
  then have "\<not> starts_with ''#'' (trim (key @ ''='' @ v))"
    using assms(5) by (cases "trim (key @ ''='' @ v)") (auto simp: starts_with_def)
  moreover have "takeWhile (\<lambda>c. c \<noteq> CHR ''='') (key @ ''='' @ v) = key" "dropWhile (\<lambda>c. c \<noteq> CHR ''='') (key @ ''='' @ v) = ''='' @ v"
    using assms(3) by (auto simp: takeWhile_append dropWhile_append)
  ultimately have "parse_env_line (key @ ''='' @ v) = Env_var (key @ ''='' @ v) key v"
    using t assms by (simp add: parse_env_line_def Let_def)
  then show ?thesis
    using assms by (simp add: faithful_def)
qed

lemma faithful_parsed:
  assumes "newline \<notin> set raw" shows "faithful (parse_env_line raw)"
proof (cases "parse_env_line raw")
  case (Env_var raw' key v)
  let ?pre = "takeWhile (\<lambda>c. c \<noteq> CHR ''='') raw" and ?rest = "dropWhile (\<lambda>c. c \<noteq> CHR ''='') raw"
  have *: "\<not> starts_with ''#'' (trim raw)" "trim raw \<noteq> []" "?rest \<noteq> []" "key = trim ?pre" "v = trim (tl ?rest)"
    using Env_var by (auto simp: parse_env_line_def Let_def split: if_splits)
  have v: "newline \<notin> set v" "trim v = v"
    using assms set_trim [of "tl ?rest"] set_dropWhileD by (fastforce simp: *(5) dest: list.set_sel(2) [OF *(3)])+
  have k: "newline \<notin> set key" "CHR ''='' \<notin> set key" "trim key = key"
    using assms set_trim [of ?pre] set_takeWhileD by (fastforce simp: *(4))+
  show ?thesis
  proof (cases "key = []")
    case True
    have "parse_env_line (''='' @ v) = Env_comment (''='' @ v)"
      using hd_trim_append [of "''=''" v] by (simp add: parse_env_line_def Let_def trim_def is_ws_def)
    then show ?thesis
      using True v by (simp add: Env_var faithful_def)
  next
    case False
    then have "trim ?pre \<noteq> []" using *(4) by simp
    from hd_trim_append [OF this, of ?rest] have "hd (trim raw) = hd key" by (simp add: *(4))
    then have "hd key \<noteq> CHR ''#''"
      using *(1,2) by (cases "trim raw") (auto simp: starts_with_def)
    with False k v show ?thesis unfolding Env_var by (intro faithful_var) auto
  qed
next
  case (Env_comment raw')
  then have "raw' = raw" by (auto simp: parse_env_line_def Let_def split: if_splits)
  with assms Env_comment show ?thesis by (simp add: faithful_def)
next
  case (Env_blank raw')
  then have "raw' = raw" by (auto simp: parse_env_line_def Let_def split: if_splits)
  with assms Env_blank show ?thesis by (simp add: faithful_def)
qed

lemma faithful_lines: "\<forall>l \<in> set (parseEnv content). faithful l"
  by (auto simp: parseEnv_def intro: faithful_parsed dest: split_on_parts)

subsection \<open>Variables\<close>

abbreviation env_vars :: "env_line list \<Rightarrow> (string \<times> string) list" where
  "env_vars \<equiv> List.map_filter env_entry"

lemma env_vars_simps [simp]:
  "env_vars [] = []"
  "env_vars (l # ls) = (case env_entry l of None \<Rightarrow> env_vars ls | Some e \<Rightarrow> e # env_vars ls)"
  by (simp_all add: map_filter_simps)

lemma env_vars_append [simp]: "env_vars (xs @ ys) = env_vars xs @ env_vars ys"
  by (induction xs) (simp_all split: option.split)

lemma is_var_entry: "key \<noteq> [] \<Longrightarrow> is_var key l \<longleftrightarrow> (\<exists>v. env_entry l = Some (key, v))"
  by (cases l) auto

lemma env_vars_set_first: "key \<noteq> [] \<Longrightarrow> list_ex (is_var key) ls \<Longrightarrow> env_vars (set_first key v ls) = AList.update key v (env_vars ls)"
  by (induction ls) (auto split: env_line.split)

lemma update_absent: "k \<notin> fst ` set xs \<Longrightarrow> AList.update k v xs = xs @ [(k, v)]"
  by (induction xs) auto

lemma env_vars_absent: "key \<noteq> [] \<Longrightarrow> \<not> list_ex (is_var key) ls \<Longrightarrow> key \<notin> fst ` set (env_vars ls)"
  by (induction ls) (auto simp: is_var_entry split: option.splits)

lemma env_vars_upsert: "key \<noteq> [] \<Longrightarrow> env_vars (upsert_var key v ls) = AList.update key v (env_vars ls)"
  by (simp add: upsert_var_def env_vars_set_first update_absent env_vars_absent)

lemma faithful_upsert:
  assumes "\<forall>l \<in> set ls. faithful l" "\<And>raw. faithful (Env_var raw key v)"
  shows "\<forall>l \<in> set (upsert_var key v ls). faithful l"
proof -
  have "\<forall>l \<in> set (set_first key v ls). faithful l"
    using assms(1) by (induction ls) (auto split: env_line.split simp: assms(2))
  moreover have "faithful (Env_blank [])"
    by (simp add: faithful_def parse_env_line_def trim_def)
  ultimately show ?thesis
    using assms by (auto simp: upsert_var_def)
qed


text \<open>What a line adds to the variables when it is written and read again.\<close>

definition read_again :: "env_line \<Rightarrow> (string \<times> string) list" where
  "read_again l = env_vars (parseEnv (serialize_line l))"

lemma env_vars_concat: "env_vars (concat xss) = concat (map env_vars xss)"
  by (induction xss) simp_all

lemma env_vars_written: "env_vars (parseEnv (serializeEnv lines)) = concat (map read_again lines)"
proof (cases "lines = []")
  case True
  then show ?thesis by (simp add: serializeEnv_def parseEnv_def parse_env_line_def trim_def)
next
  case False
  then show ?thesis
    by (simp add: serializeEnv_def parseEnv_def split_on_join map_concat env_vars_concat read_again_def [abs_def] comp_def)
qed

lemma read_again_faithful: "faithful l \<Longrightarrow> read_again l = env_vars [l]"
  by (simp add: read_again_def parseEnv_def split_on_no_sep faithful_def)

lemma read_again_all: "\<forall>l \<in> set ls. faithful l \<Longrightarrow> concat (map read_again ls) = env_vars ls"
  by (induction ls) (simp_all add: read_again_faithful split: option.split)

lemma env_map_distinct:
  assumes "distinct (map fst (env_vars ls))" shows "env_map ls = map_of (env_vars ls)"
proof
  fix k
  have "distinct (map fst (rev (env_vars ls)))" using assms by (simp add: rev_map [symmetric])
  then show "env_map ls k = map_of (env_vars ls) k"
    unfolding env_map_def using assms
  proof (cases "map_of (env_vars ls) k")
    case None
    then have "map_of (rev (env_vars ls)) k = None" by (simp add: map_of_eq_None_iff)
    with None show "map_of (rev (env_vars ls)) k = map_of (env_vars ls) k" by simp
  qed simp
qed

lemma env_vars_upsert_vars:
  assumes "\<forall>(k, v) \<in> set kvs. k \<noteq> []" "distinct (map fst kvs)"
  shows "map_of (env_vars (upsert_vars kvs ls)) k = (case map_of kvs k of Some v \<Rightarrow> Some (js_String v) | None \<Rightarrow> map_of (env_vars ls) k)"
    and "distinct (map fst (env_vars ls)) \<Longrightarrow> distinct (map fst (env_vars (upsert_vars kvs ls)))"
  using assms
proof (induction kvs arbitrary: ls)
  case (Cons x kvs)
  obtain j v where x: "x = (j, v)" by fastforce
  {
    case 1
    then have "map_of kvs j = None" "j \<noteq> []" by (auto simp: x map_of_eq_None_iff)
    then show ?case
      using Cons.IH(1) [of "upsert_var j (js_String v) ls"] 1
      by (simp add: x upsert_vars_def env_vars_upsert update_conv' split: option.split)
  next
    case 2
    then show ?case
      using Cons.IH(2) [of "upsert_var j (js_String v) ls"]
      by (auto simp: x upsert_vars_def env_vars_upsert distinct_update)
  }
qed (simp_all add: upsert_vars_def)

lemma valid_var_text:
  assumes "valid_var key"
  shows "key \<noteq> []" "trim key = key" "CHR ''='' \<notin> set key" "newline \<notin> set key" "hd key \<noteq> CHR ''#''"
proof -
  have "\<not> is_word_char CHR ''=''" "\<not> is_word_char newline" "\<not> is_word_char CHR ''#''" "\<And>c. is_word_char c \<Longrightarrow> \<not> is_ws c"
    by (auto simp: is_word_char_def is_ws_def Let_def)
  then show "key \<noteq> []" "trim key = key" "CHR ''='' \<notin> set key" "newline \<notin> set key" "hd key \<noteq> CHR ''#''"
    using assms by (auto simp: valid_var_def list_all_iff var_start_def intro!: trim_no_ws)
qed

lemma refused_var_None: "refused_var keys = None \<longleftrightarrow> (\<forall>k \<in> set keys. \<not> isVarBlocked k \<and> valid_var k)"
  by (induction keys) auto

lemma faithful_upsert_vars:
  assumes "\<forall>l \<in> set ls. faithful l"
    and "\<forall>(k, v) \<in> set kvs. valid_var k \<and> trim (js_String v) = js_String v \<and> newline \<notin> set (js_String v)"
  shows "\<forall>l \<in> set (upsert_vars kvs ls). faithful l"
  using assms
proof (induction kvs arbitrary: ls)
  case (Cons x kvs)
  obtain k v where x: "x = (k, v)" by fastforce
  have "faithful (Env_var raw k (js_String v))" for raw
    using Cons.prems(2) valid_var_text [of k] by (intro faithful_var) (auto simp: x)
  then have "\<forall>l \<in> set (upsert_var k (js_String v) ls). faithful l"
    by (intro faithful_upsert Cons.prems(1))
  then show ?case
    using Cons by (simp add: x upsert_vars_def)
qed (simp add: upsert_vars_def)

lemma faithful_file: "readEnvFile fs w = Some lines \<Longrightarrow> \<forall>l \<in> set lines. faithful l"
  by (auto simp: readEnvFile_def faithful_lines split: option.splits)

text \<open>The value of a variable, as the routes see it.\<close>

definition stored_var :: "oc_files \<Rightarrow> world \<Rightarrow> string \<Rightarrow> string option" where
  "stored_var fs w k = Option.bind (readEnvFile fs w) (\<lambda>lines. env_map lines k)"

lemma writeEnvFile_Inr:
  assumes "writeEnvFile x w lines fs = Inr fs'" "getEnvPath w = Some p"
  shows "readEnvFile fs' w = Some (parseEnv (serializeEnv lines))" "q \<noteq> p \<Longrightarrow> oc_file fs' q = oc_file fs q"
  using assms by (auto simp: writeEnvFile_def Let_def readEnvFile_def or_else_def split: if_splits)

lemma put_integrations_200:
  assumes "put_integrations x w req u fs s = ((Inr r, s'), fs')" "resp_status r = 200"
    and "req_body req = Some body" "jget ''vars'' body = Some (JObj kvs)"
  obtains lines p where "getEnvPath w = Some p" "readEnvFile fs w = Some lines" "refused_var (map fst kvs) = None"
    "writeEnvFile x w (upsert_vars kvs lines) fs = Inr fs'"
proof -
  have ref: "resp_status r' \<noteq> 200" if "refused_var keys = Some r'" for keys r'
    using that by (induction keys) (auto simp: error_response_def json_response_def split: if_splits)
  show thesis
    using assms that
    by (auto simp: put_integrations_def Let_def readEnvFile_def error_response_def json_response_def
        split: option.splits sum.splits dest: ref)
qed

section \<open>Properties\<close>

lemma map_of_nonempty: "distinct (map fst xs) \<Longrightarrow> map_of (filter (\<lambda>(k, v). v \<noteq> []) xs) k = or_null (map_of xs k)"
proof (induction xs)
  case (Cons e xs)
  obtain k' v where e: "e = (k', v)" by fastforce
  have "map_of xs k' = None" using Cons.prems by (simp add: e map_of_eq_None_iff)
  with Cons show ?case by (auto simp: e or_null_def)
qed (simp add: or_null_def)



lemma split_on_line: "newline \<notin> set a \<Longrightarrow> newline \<notin> set b \<Longrightarrow> split_on newline (a @ newline # b) = [a, b]"
  by (simp add: split_on_append_sep split_on_no_sep)

lemma set_first_split:
  "list_ex (is_var key) ls \<Longrightarrow> \<exists>a raw old b. ls = a @ Env_var raw key old # b \<and> set_first key v ls = a @ Env_var raw key v # b"
proof (induction ls)
  case (Cons l ls)
  show ?case
  proof (cases "is_var key l")
    case True
    then show ?thesis by (cases l) (auto intro: exI [of _ "[]"])
  next
    case False
    with Cons obtain a raw old b where "ls = a @ Env_var raw key old # b" "set_first key v ls = a @ Env_var raw key v # b"
      by auto
    then have "l # ls = (l # a) @ Env_var raw key old # b \<and> set_first key v (l # ls) = (l # a) @ Env_var raw key v # b"
      using False by (cases l) auto
    then show ?thesis by blast
  qed
qed simp

lemma upsert_split: "\<exists>a raw b. upsert_var key v ls = a @ Env_var raw key v # b \<and> set b \<subseteq> set ls"
proof (cases "list_ex (is_var key) ls")
  case True
  then obtain a raw old b where "ls = a @ Env_var raw key old # b" "set_first key v ls = a @ Env_var raw key v # b"
    using set_first_split by blast
  then show ?thesis
    using True by (intro exI [of _ a] exI [of _ raw] exI [of _ b]) (auto simp: upsert_var_def)
next
  case False
  then have "\<exists>a. upsert_var key v ls = a @ [Env_var (key @ ''='' @ v) key v]"
    by (simp add: upsert_var_def)
  then show ?thesis by fastforce
qed

lemma set_env_vars: "set (env_vars ls) = {e. \<exists>l \<in> set ls. env_entry l = Some e}"
  by (induction ls) (auto split: option.split)

lemma read_again_injected:
  assumes "valid_var key" "newline \<notin> set a" "valid_var p" "trim e = e" "newline \<notin> set e"
  shows "read_again (Env_var raw key (a @ newline # p @ ''='' @ e)) = [(key, trim a), (p, e)]"
proof -
  note k = valid_var_text [OF assms(1)] and n = valid_var_text [OF assms(3)]
  have entry: "env_entry (parse_env_line (x @ ''='' @ v)) = Some (x, trim v)" if "valid_var x" for x v
  proof -
    note x = valid_var_text [OF that]
    have "trim x \<noteq> []" using x by simp
    from hd_trim_append [OF this, of "''='' @ v"] have t: "trim (x @ ''='' @ v) \<noteq> []" "hd (trim (x @ ''='' @ v)) = hd x"
      using x(2) by auto
    then have "\<not> starts_with ''#'' (trim (x @ ''='' @ v))"
      using x(5) by (cases "trim (x @ ''='' @ v)") (auto simp: starts_with_def)
    moreover have "takeWhile (\<lambda>c. c \<noteq> CHR ''='') (x @ ''='' @ v) = x" "dropWhile (\<lambda>c. c \<noteq> CHR ''='') (x @ ''='' @ v) = ''='' @ v"
      using x(3) by (auto simp: takeWhile_append dropWhile_append)
    ultimately show ?thesis using t x by (simp add: parse_env_line_def Let_def)
  qed
  have "split_on newline (key @ ''='' @ a @ newline # p @ ''='' @ e) = [key @ ''='' @ a, p @ ''='' @ e]"
    using split_on_line [of "key @ ''='' @ a" "p @ ''='' @ e"] k n assms by simp
  then show ?thesis
    using entry [OF assms(1), of a] entry [OF assms(3), of e] assms(4) by (simp add: read_again_def parseEnv_def)
qed



section \<open>Examples\<close>

text \<open>A home with one file.\<close>

definition demo_env_world :: world where
  "demo_env_world = demo_world\<lparr>getenv := [''OPENCLAW_HOME'' \<mapsto> ''/oc'']\<rparr>"

definition demo_env_files :: oc_files where
  "demo_env_files = demo_oc\<lparr>oc_file := (\<lambda>_. Some ''A=1'')\<rparr>"

definition demo_outside :: outside where
  "demo_outside = \<lparr>op_available = False, op_run = (\<lambda>_ _. Inl ''no op''), http_get = (\<lambda>_ _. Inl ''no net''),
     json_parse = (\<lambda>_. None), denied = (\<lambda>_. ''EACCES'')\<rparr>"

definition env_request :: "string \<Rightarrow> string \<Rightarrow> request" where
  "env_request k v = demo_request\<lparr>req_body := Some (JObj [(''vars'', JObj [(k, JStr v)])])\<rparr>"

lemma demo_env_lines: "readEnvFile demo_env_files demo_env_world = Some [Env_var ''A=1'' ''A'' ''1'']"
proof -
  have "newline \<notin> set ''A=1''" by (auto dest: arg_cong [where f = "of_char :: char \<Rightarrow> nat"])
  from split_on_no_sep [OF this] show ?thesis
    by (simp add: readEnvFile_def getEnvPath_def config_openclawHome_def demo_env_world_def demo_env_files_def or_else_def
        parseEnv_def parse_env_line_def trim_def is_ws_def starts_with_def)
qed

lemma demo_env_put:
  assumes "valid_var k" "\<not> isVarBlocked k"
  shows "\<exists>r s' fs'. put_integrations demo_outside demo_env_world (env_request k v) u demo_env_files s = ((Inr r, s'), fs') \<and>
    resp_status r = 200"
proof -
  have "\<exists>fs'. writeEnvFile demo_outside demo_env_world (upsert_vars [(k, JStr v)] [Env_var ''A=1'' ''A'' ''1'']) demo_env_files = Inr fs'"
    by (simp add: writeEnvFile_def Let_def demo_env_files_def demo_oc_def)
  then show ?thesis
    using assms demo_env_lines by (auto simp: put_integrations_def env_request_def json_response_def Let_def)
qed




end
