(* ===== verification/MC_Gateways.thy ===== *)
theory MC_Gateways
  imports MC_Http "HOL-Library.List_Lexorder" "HOL-Library.Char_ord"
begin

text \<open>
  The registry of gateways: \<open>src/app/api/gateways/route.ts\<close> and \<open>src/app/api/gateways/health/route.ts\<close>. The table
  exists (the registry creates it on first use); its names are unique. The parser for URLs and the probes are arguments; a health
  check is one step, although its probes are awaited one by one. A number for a text column, and a text that spells no integer for
  a number column, are outside the model.
\<close>

section \<open>Listing\<close>

definition redactToken :: "gateway_row \<Rightarrow> json" where
  "redactToken g = JObj [(''id'', JNum (gw_id g)), (''name'', JStr (gw_name g)), (''host'', JStr (gw_host g)),
     (''port'', JNum (gw_port g)), (''token'', JStr (if gw_token g = [] then [] else ''--------'')),
     (''is_primary'', JNum (if gw_is_primary g then 1 else 0)), (''status'', JStr (gw_status g)),
     (''last_seen'', jnull JNum (gw_last_seen g)), (''latency'', jnull JNum (gw_latency g)),
     (''sessions_count'', JNum (gw_sessions_count g)), (''agents_count'', JNum (gw_agents_count g)),
     (''created_at'', JNum (gw_created_at g)), (''updated_at'', JNum (gw_updated_at g)),
     (''token_set'', JBool (gw_token g \<noteq> []))]"

text \<open>\<open>ORDER BY is_primary DESC, name ASC\<close>\<close>

definition listed_gateways :: "server \<Rightarrow> gateway_row list" where
  "listed_gateways s = (let gs = sort_key gw_name (rows (gateways (db s)))
     in filter gw_is_primary gs @ filter (\<lambda>g. \<not> gw_is_primary g) gs)"

definition new_gateway :: "world \<Rightarrow> string \<Rightarrow> string \<Rightarrow> int \<Rightarrow> string \<Rightarrow> bool \<Rightarrow> int \<Rightarrow> gateway_row" where
  "new_gateway w name host port token primary i = \<lparr>gw_id = i, gw_name = name, gw_host = host, gw_port = port,
     gw_token = token, gw_is_primary = primary, gw_status = ''unknown'', gw_last_seen = None, gw_latency = None,
     gw_sessions_count = 0, gw_agents_count = 0, gw_created_at = now_s w, gw_updated_at = now_s w\<rparr>"

definition put_gateways :: "gateway_row tbl \<Rightarrow> server \<Rightarrow> server" where
  "put_gateways t s = s\<lparr>db := (db s)\<lparr>gateways := t\<rparr>\<rparr>"

text \<open>The first gateway comes from the environment; a port that is no number is \<open>NULL\<close> and refused.\<close>

definition seed_gateway :: "world \<Rightarrow> server \<Rightarrow> string + server" where
  "seed_gateway w s =
     (case parse_int (or_else (getenv w ''OPENCLAW_GATEWAY_PORT'') (or_else (getenv w ''GATEWAY_PORT'')
             (or_else (getenv w ''NEXT_PUBLIC_GATEWAY_PORT'') ''18789''))) of
        None \<Rightarrow> Inl ''NOT NULL constraint failed: gateways.port''
      | Some port \<Rightarrow> Inr (put_gateways (snd (tbl_insert (new_gateway w (or_else (getenv w ''MC_DEFAULT_GATEWAY_NAME'') ''primary'')
          (or_else (getenv w ''OPENCLAW_GATEWAY_HOST'') ''127.0.0.1'') port
          (or_else (getenv w ''OPENCLAW_GATEWAY_TOKEN'') (or_else (getenv w ''GATEWAY_TOKEN'') [])) True) (gateways (db s)))) s))"

definition gateways_GET :: "world \<Rightarrow> request \<Rightarrow> server \<Rightarrow> outcome" where
  "gateways_GET w req s = with_role w req ''viewer'' s (\<lambda>u.
     (case (if listed_gateways s = [] then seed_gateway w s else Inr s) of
        Inl e \<Rightarrow> (Inl e, s)
      | Inr s1 \<Rightarrow> (Inr (json_response 200 (JObj [(''gateways'', JArr (map redactToken (listed_gateways s1)))])), s1)))"

section \<open>POST\<close>

definition no_primaries :: "server \<Rightarrow> server" where
  "no_primaries s = put_gateways (tbl_update (\<lambda>g. True) (\<lambda>g. g\<lparr>gw_is_primary := False\<rparr>) (gateways (db s))) s"

text \<open>The row in the audit log: its detail is a plain text.\<close>

definition audit_gateway :: "world \<Rightarrow> user \<Rightarrow> string \<Rightarrow> string \<Rightarrow> server \<Rightarrow> server" where
  "audit_gateway w u action detail s = s\<lparr>db := (db s)\<lparr>audit_log := snd (tbl_insert (\<lambda>i. \<lparr>au_id = i, au_action = action,
     au_actor = or_else (Some (usr_username u)) ''system'', au_actor_id = None, au_target_type = None, au_target_id = None,
     au_detail = Some (JStr detail), au_ip_address = None, au_user_agent = None, au_created_at = now_s w\<rparr>) (audit_log (db s)))\<rparr>\<rparr>"

text \<open>The bound values of the insert, in the order of the columns.\<close>

definition gateway_values :: "json \<Rightarrow> json \<Rightarrow> json \<Rightarrow> json option \<Rightarrow> string + string \<times> string \<times> int \<times> string" where
  "gateway_values name host port token =
     (case (bind_text name, bind_text host, bind_int port, bind_text (case token of None \<Rightarrow> JStr [] | Some t \<Rightarrow> t)) of
        (Inr (Some n), Inr (Some h), Inr (Some p), Inr (Some t)) \<Rightarrow> Inr (n, h, p, t)
      | (Inl e, _, _, _) \<Rightarrow> Inl e
      | (_, Inl e, _, _) \<Rightarrow> Inl e
      | (_, _, Inl e, _) \<Rightarrow> Inl e
      | (_, _, _, Inl e) \<Rightarrow> Inl e
      | _ \<Rightarrow> Inl ''NOT NULL constraint failed'')"

definition add_gateway :: "world \<Rightarrow> user \<Rightarrow> bool \<Rightarrow> string + string \<times> string \<times> int \<times> string \<Rightarrow> server \<Rightarrow> outcome" where
  "add_gateway w u primary vs s =
     (case vs of
        Inl e \<Rightarrow> (Inr (error_response 500 (or_else (Some e) ''Failed to add gateway'')), s)
      | Inr (name, host, port, token) \<Rightarrow>
          if list_ex (\<lambda>g. gw_name g = name) (rows (gateways (db s)))
          then (Inr (error_response 409 ''A gateway with that name already exists''), s)
          else (let (i, t) = tbl_insert (new_gateway w name host port token primary) (gateways (db s));
                    s1 = audit_gateway w u ''gateway_added''
                      (''Added gateway: '' @ name @ '' ('' @ host @ '':'' @ show_int port @ '')'') (put_gateways t s)
                in (Inr (json_response 201 (JObj [(''gateway'', redactToken (new_gateway w name host port token primary i))])), s1)))"

definition post_gateway :: "world \<Rightarrow> request \<Rightarrow> user \<Rightarrow> server \<Rightarrow> outcome" where
  "post_gateway w req u s =
     (case req_body req of
        None \<Rightarrow> (Inl ''Unexpected end of JSON input'', s)
      | Some JNull \<Rightarrow> (Inl ''Cannot destructure property 'name' of 'body' as it is null.'', s)
      | Some body \<Rightarrow>
          (case (truthy_prop ''name'' body, truthy_prop ''host'' body, truthy_prop ''port'' body) of
             (Some name, Some host, Some port) \<Rightarrow>
               (let primary = truthy_prop ''is_primary'' body \<noteq> None
                in add_gateway w u primary (gateway_values name host port (truthy_prop ''token'' body))
                     (if primary then no_primaries s else s))
           | _ \<Rightarrow> (Inr (error_response 400 ''name, host, and port are required''), s)))"

definition gateways_POST :: "world \<Rightarrow> request \<Rightarrow> server \<Rightarrow> outcome" where
  "gateways_POST w req s = with_role w req ''admin'' s (\<lambda>u. post_gateway w req u s)"

section \<open>PUT\<close>

definition allowed_columns :: "string list" where
  "allowed_columns = [''name'', ''host'', ''port'', ''token'', ''is_primary'', ''status'', ''last_seen'', ''latency'',
     ''sessions_count'', ''agents_count'']"

definition gateway_sets :: "json \<Rightarrow> (string \<times> json) list" where
  "gateway_sets body = List.map_filter (\<lambda>k. map_option (\<lambda>v. (k, v)) (jget k body)) allowed_columns"

fun bindable :: "json \<Rightarrow> bool" where
  "bindable JNull = True"
| "bindable (JNum n) = True"
| "bindable (JStr x) = True"
| "bindable _ = False"

definition not_null :: "string \<Rightarrow> string + 'a option \<Rightarrow> ('a \<Rightarrow> gateway_row) \<Rightarrow> string + gateway_row" where
  "not_null k v f = (case v of Inl e \<Rightarrow> Inl e | Inr None \<Rightarrow> Inl (''NOT NULL constraint failed: gateways.'' @ k) | Inr (Some x) \<Rightarrow> Inr (f x))"

definition set_column :: "string \<times> json \<Rightarrow> gateway_row \<Rightarrow> string + gateway_row" where
  "set_column kv g =
     (let k = fst kv; v = snd kv in
      if k = ''name'' then not_null k (bind_text v) (\<lambda>x. g\<lparr>gw_name := x\<rparr>)
      else if k = ''host'' then not_null k (bind_text v) (\<lambda>x. g\<lparr>gw_host := x\<rparr>)
      else if k = ''port'' then not_null k (bind_int v) (\<lambda>x. g\<lparr>gw_port := x\<rparr>)
      else if k = ''token'' then not_null k (bind_text v) (\<lambda>x. g\<lparr>gw_token := x\<rparr>)
      else if k = ''is_primary'' then not_null k (bind_int v) (\<lambda>x. g\<lparr>gw_is_primary := (x \<noteq> 0)\<rparr>)
      else if k = ''status'' then not_null k (bind_text v) (\<lambda>x. g\<lparr>gw_status := x\<rparr>)
      else if k = ''last_seen'' then map_sum id (\<lambda>x. g\<lparr>gw_last_seen := x\<rparr>) (bind_int v)
      else if k = ''latency'' then map_sum id (\<lambda>x. g\<lparr>gw_latency := x\<rparr>) (bind_int v)
      else if k = ''sessions_count'' then not_null k (bind_int v) (\<lambda>x. g\<lparr>gw_sessions_count := x\<rparr>)
      else not_null k (bind_int v) (\<lambda>x. g\<lparr>gw_agents_count := x\<rparr>))"

fun set_columns :: "(string \<times> json) list \<Rightarrow> gateway_row \<Rightarrow> string + gateway_row" where
  "set_columns [] g = Inr g"
| "set_columns (kv # kvs) g = (case set_column kv g of Inl e \<Rightarrow> Inl e | Inr g' \<Rightarrow> set_columns kvs g')"

text \<open>The statement: all values are bound before it runs, and a name that another gateway has is refused.\<close>

definition run_update :: "world \<Rightarrow> (string \<times> json) list \<Rightarrow> gateway_row \<Rightarrow> server \<Rightarrow> string + gateway_row" where
  "run_update w sets g s =
     (if \<not> list_all (bindable \<circ> snd) sets then Inl ''SQLite3 can only bind numbers, strings, bigints, buffers, and null''
      else case set_columns sets g of
        Inl e \<Rightarrow> Inl e
      | Inr g' \<Rightarrow>
          if list_ex (\<lambda>x. gw_id x \<noteq> gw_id g \<and> gw_name x = gw_name g') (rows (gateways (db s)))
          then Inl ''UNIQUE constraint failed: gateways.name'' else Inr (g'\<lparr>gw_updated_at := now_s w\<rparr>))"

definition find_gateway :: "int \<Rightarrow> server \<Rightarrow> gateway_row option" where
  "find_gateway i s = tbl_first (\<lambda>g. gw_id g = i) (gateways (db s))"

definition bound_gateway :: "json \<Rightarrow> server \<Rightarrow> string + gateway_row option" where
  "bound_gateway given s = map_sum id (\<lambda>i. Option.bind i (\<lambda>i. find_gateway i s)) (bind_id given)"

definition change_gateway :: "world \<Rightarrow> json \<Rightarrow> gateway_row \<Rightarrow> server \<Rightarrow> outcome" where
  "change_gateway w body old s =
     (let primary = truthy_prop ''is_primary'' body \<noteq> None; s1 = (if primary then no_primaries s else s);
          g = (if primary then old\<lparr>gw_is_primary := False\<rparr> else old)
      in if gateway_sets body = [] then (Inr (error_response 400 ''No valid fields to update''), s1)
         else case run_update w (gateway_sets body) g s1 of
           Inl e \<Rightarrow> (Inl e, s1)
         | Inr g' \<Rightarrow>
             (Inr (json_response 200 (JObj [(''gateway'', redactToken g')])),
              put_gateways (tbl_update (\<lambda>x. gw_id x = gw_id old) (\<lambda>x. g') (gateways (db s1))) s1))"

definition put_gateway :: "world \<Rightarrow> request \<Rightarrow> user \<Rightarrow> server \<Rightarrow> outcome" where
  "put_gateway w req u s =
     (case req_body req of
        None \<Rightarrow> (Inl ''Unexpected end of JSON input'', s)
      | Some JNull \<Rightarrow> (Inl ''Cannot destructure property 'id' of 'body' as it is null.'', s)
      | Some body \<Rightarrow>
          (case truthy_prop ''id'' body of
             None \<Rightarrow> (Inr (error_response 400 ''id is required''), s)
           | Some given \<Rightarrow>
               (case bound_gateway given s of
                  Inl e \<Rightarrow> (Inl e, s)
                | Inr None \<Rightarrow> (Inr (error_response 404 ''Gateway not found''), s)
                | Inr (Some old) \<Rightarrow> change_gateway w body old s)))"

definition gateways_PUT :: "world \<Rightarrow> request \<Rightarrow> server \<Rightarrow> outcome" where
  "gateways_PUT w req s = with_role w req ''admin'' s (\<lambda>u. put_gateway w req u s)"

section \<open>DELETE\<close>

definition remove_gateway :: "world \<Rightarrow> user \<Rightarrow> gateway_row option \<Rightarrow> server \<Rightarrow> outcome" where
  "remove_gateway w u gw s =
     (case gw of
        Some g \<Rightarrow>
          if gw_is_primary g then (Inr (error_response 400 ''Cannot delete the primary gateway''), s)
          else (Inr (json_response 200 (JObj [(''deleted'', JBool True)])),
                audit_gateway w u ''gateway_removed'' (''Removed gateway: '' @ gw_name g)
                  (put_gateways (tbl_delete (\<lambda>x. gw_id x = gw_id g) (gateways (db s))) s))
      | None \<Rightarrow>
          (Inr (json_response 200 (JObj [(''deleted'', JBool False)])),
           audit_gateway w u ''gateway_removed'' ''Removed gateway: undefined'' s))"

definition delete_gateway :: "world \<Rightarrow> request \<Rightarrow> user \<Rightarrow> server \<Rightarrow> outcome" where
  "delete_gateway w req u s =
     (case req_body req of
        None \<Rightarrow> (Inl ''Unexpected end of JSON input'', s)
      | Some JNull \<Rightarrow> (Inl ''Cannot destructure property 'id' of 'body' as it is null.'', s)
      | Some body \<Rightarrow>
          (case truthy_prop ''id'' body of
             None \<Rightarrow> (Inr (error_response 400 ''id is required''), s)
           | Some given \<Rightarrow>
               (case bound_gateway given s of
                  Inl e \<Rightarrow> (Inl e, s)
                | Inr gw \<Rightarrow> remove_gateway w u gw s)))"

definition gateways_DELETE :: "world \<Rightarrow> request \<Rightarrow> server \<Rightarrow> outcome" where
  "gateways_DELETE w req s = with_role w req ''admin'' s (\<lambda>u. delete_gateway w req u s)"

section \<open>Health\<close>

text \<open>The hostname that the parser finds in a URL (\<open>None\<close>: it throws), and what a probe gives.\<close>

datatype probe = Answered bool int | Failed string string

definition isBlockedUrl :: "(string \<Rightarrow> string option) \<Rightarrow> string \<Rightarrow> bool" where
  "isBlockedUrl url_hostname url = (case url_hostname url of
     None \<Rightarrow> True | Some h \<Rightarrow> starts_with ''169.254.'' h \<or> h = ''metadata.google.internal'')"

definition probe_url :: "gateway_row \<Rightarrow> string" where
  "probe_url g = ''http://'' @ gw_host g @ '':'' @ show_int (gw_port g) @ ''/''"

definition health_json :: "gateway_row \<Rightarrow> string \<Rightarrow> int option \<Rightarrow> string option \<Rightarrow> json" where
  "health_json g status latency err = JObj ([(''id'', JNum (gw_id g)), (''name'', JStr (gw_name g)), (''status'', JStr status),
     (''latency'', jnull JNum latency), (''agents'', JArr []), (''sessions_count'', JNum 0)] @ jopt ''error'' JStr err)"

definition probed :: "world \<Rightarrow> int \<Rightarrow> (gateway_row \<Rightarrow> gateway_row) \<Rightarrow> server \<Rightarrow> server" where
  "probed w i f s = put_gateways (tbl_update (\<lambda>g. gw_id g = i) (\<lambda>g. (f g)\<lparr>gw_updated_at := now_s w\<rparr>) (gateways (db s))) s"

definition check_gateway ::
  "(string \<Rightarrow> string option) \<Rightarrow> (string \<Rightarrow> probe) \<Rightarrow> world \<Rightarrow> gateway_row \<Rightarrow> json list \<times> server \<Rightarrow> json list \<times> server"
where
  "check_gateway url_hostname fetch w g acc =
     (let (results, s) = acc in
      if isBlockedUrl url_hostname (probe_url g) then (results @ [health_json g ''error'' None (Some ''Blocked URL'')], s)
      else case fetch (probe_url g) of
        Answered ok latency \<Rightarrow>
          (let status = (if ok then ''online'' else ''error'')
           in (results @ [health_json g status (Some latency) None],
               probed w (gw_id g) (\<lambda>g. g\<lparr>gw_status := status, gw_latency := Some latency, gw_last_seen := Some (now_s w)\<rparr>) s))
      | Failed name msg \<Rightarrow>
          (results @ [health_json g ''offline'' None
             (Some (if name = ''AbortError'' then ''timeout'' else or_else (Some msg) ''connection failed''))],
           probed w (gw_id g) (\<lambda>g. g\<lparr>gw_status := ''offline'', gw_latency := None\<rparr>) s))"

definition gateways_health_POST ::
  "(string \<Rightarrow> string option) \<Rightarrow> (string \<Rightarrow> probe) \<Rightarrow> world \<Rightarrow> request \<Rightarrow> server \<Rightarrow> outcome"
where
  "gateways_health_POST url_hostname fetch w req s = with_role w req ''viewer'' s (\<lambda>u.
     (let (results, s') = fold (check_gateway url_hostname fetch w) (listed_gateways s) ([], s)
      in (Inr (json_response 200 (JObj [(''results'', JArr results), (''probed_at'', JNum (now_ms w))])), s')))"

section \<open>At most one primary gateway\<close>

definition gateways_ok :: "gateway_row tbl \<Rightarrow> bool" where
  "gateways_ok t \<longleftrightarrow> tbl_wf gw_id t \<and> distinct (map gw_name (rows t)) \<and>
     (\<forall>g \<in> set (rows t). \<forall>h \<in> set (rows t). gw_is_primary g \<longrightarrow> gw_is_primary h \<longrightarrow> g = h)"

interpretation gateway_rows: row_store gw_id "tbl_get gw_id" tbl_insert tbl_update tbl_delete "tbl_wf gw_id"
  by (rule row_store_tbl)

lemma put_gateways_sel [simp]: "gateways (db (put_gateways t s)) = t"
  by (simp add: put_gateways_def)

lemma audit_gateway_sel [simp]: "gateways (db (audit_gateway w u a d s)) = gateways (db s)"
  by (simp add: audit_gateway_def)

lemma gateways_ok_none:
  assumes "gateways_ok (gateways (db s))"
  shows "gateways_ok (gateways (db (no_primaries s)))" "g \<in> set (rows (gateways (db (no_primaries s)))) \<Longrightarrow> \<not> gw_is_primary g"
  using assms
  by (auto simp: gateways_ok_def no_primaries_def rows_tbl_update comp_def intro: gateway_rows.wf_update)

lemma gateways_ok_insert:
  assumes "gateways_ok t" "\<And>i. gw_id (mk i) = i" "\<And>i g. g \<in> set (rows t) \<Longrightarrow> gw_name g \<noteq> gw_name (mk i)"
    and "\<And>i g. gw_is_primary (mk i) \<Longrightarrow> g \<in> set (rows t) \<Longrightarrow> \<not> gw_is_primary g"
  shows "gateways_ok (snd (tbl_insert mk t))"
  unfolding gateways_ok_def
proof (intro conjI)
  have ok: "tbl_wf gw_id t" "distinct (map gw_name (rows t))" using assms(1) by (simp_all add: gateways_ok_def)
  show "tbl_wf gw_id (snd (tbl_insert mk t))" using ok(1) assms(2) by (rule gateway_rows.wf_insert)
  show "distinct (map gw_name (rows (snd (tbl_insert mk t))))"
    using ok(2) assms(3) [of _ "seq t + 1"] by (force simp: rows_tbl_insert)
  show "\<forall>g \<in> set (rows (snd (tbl_insert mk t))). \<forall>h \<in> set (rows (snd (tbl_insert mk t))).
      gw_is_primary g \<longrightarrow> gw_is_primary h \<longrightarrow> g = h"
    using assms(1) assms(4) [of "seq t + 1"] by (simp add: rows_tbl_insert gateways_ok_def) blast
qed

lemma gateways_ok_keep:
  assumes "gateways_ok t" "\<And>g. gw_id (f g) = gw_id g" "\<And>g. gw_name (f g) = gw_name g" "\<And>g. gw_is_primary (f g) = gw_is_primary g"
  shows "gateways_ok (tbl_update p f t)"
proof -
  have "map gw_name (rows (tbl_update p f t)) = map gw_name (rows t)"
    using assms(3) by (rule tbl_update_images)
  then have "distinct (map gw_name (rows (tbl_update p f t)))"
    using assms(1) by (simp only: gateways_ok_def)
  moreover have "tbl_wf gw_id (tbl_update p f t)"
    using assms(1,2) by (simp add: gateways_ok_def gateway_rows.wf_update)
  moreover have "\<forall>g \<in> set (rows (tbl_update p f t)). \<forall>h \<in> set (rows (tbl_update p f t)).
      gw_is_primary g \<longrightarrow> gw_is_primary h \<longrightarrow> g = h"
    using assms(1,4) by (auto simp: gateways_ok_def rows_tbl_update)
  ultimately show ?thesis by (simp only: gateways_ok_def)
qed

lemma gateways_ok_replace:
  assumes "gateways_ok t" "old \<in> set (rows t)" "gw_id new = gw_id old"
    and "\<And>g. g \<in> set (rows t) \<Longrightarrow> gw_id g \<noteq> gw_id old \<Longrightarrow> gw_name g \<noteq> gw_name new"
    and "\<And>g. gw_is_primary new \<Longrightarrow> g \<in> set (rows t) \<Longrightarrow> gw_id g \<noteq> gw_id old \<Longrightarrow> \<not> gw_is_primary g"
  shows "gateways_ok (tbl_update (\<lambda>x. gw_id x = gw_id old) (\<lambda>x. new) t)"
proof -
  let ?f = "\<lambda>x. if gw_id x = gw_id old then new else x"
  have wf: "tbl_wf gw_id t" and names: "distinct (map gw_name (rows t))" using assms(1) by (simp_all add: gateways_ok_def)
  have ids: "map gw_id (map ?f (rows t)) = map gw_id (rows t)" using assms(3) by simp
  have "tbl_wf gw_id (tbl_update (\<lambda>x. gw_id x = gw_id old) (\<lambda>x. new) t)"
  proof -
    have "distinct (map gw_id (map ?f (rows t)))" unfolding ids using wf by (simp add: tbl_wf_def)
    moreover have "\<forall>r \<in> set (map ?f (rows t)). 0 < gw_id r \<and> gw_id r \<le> seq t"
      using wf assms(2,3) by (auto simp: tbl_wf_def)
    ultimately show ?thesis using wf by (simp add: tbl_wf_def rows_tbl_update del: map_map)
  qed
  moreover have "inj_on gw_name (set (map ?f (rows t)))"
    using names assms(4) by (auto simp: inj_on_def distinct_map) metis+
  then have "distinct (map gw_name (map ?f (rows t)))"
  proof -
    have "distinct (map gw_id (map ?f (rows t)))" unfolding ids using wf by (simp add: tbl_wf_def)
    then have "distinct (map ?f (rows t))" using distinct_map [of gw_id "map ?f (rows t)"] by blast
    with \<open>inj_on gw_name (set (map ?f (rows t)))\<close> show ?thesis using distinct_map [of gw_name "map ?f (rows t)"] by blast
  qed
  moreover have "\<forall>g \<in> set (map ?f (rows t)). \<forall>h \<in> set (map ?f (rows t)). gw_is_primary g \<longrightarrow> gw_is_primary h \<longrightarrow> g = h"
    using assms(1,5) by (auto simp: gateways_ok_def)
  ultimately show ?thesis by (simp add: gateways_ok_def rows_tbl_update del: map_map)
qed

lemma not_null_Inr: "not_null k v f = Inr g \<Longrightarrow> \<exists>x. v = Inr (Some x) \<and> g = f x"
  by (auto simp: not_null_def split: sum.splits option.splits)

lemma set_column_keeps:
  assumes "set_column (k, v) g = Inr g'"
  shows "gw_id g' = gw_id g" "(k = ''is_primary'' \<Longrightarrow> \<not> truthy v) \<Longrightarrow> gw_is_primary g' \<Longrightarrow> gw_is_primary g"
proof -
  show "gw_id g' = gw_id g"
    using assms by (auto simp: set_column_def Let_def map_sum_def split: if_splits sum.splits dest!: not_null_Inr)
  have "bind_int v \<noteq> Inr (Some x) \<or> x = 0" if "\<not> truthy v" for x
    using that by (cases v) (auto simp: bind_int_def text_int_def trim_def)
  then show "gw_is_primary g' \<Longrightarrow> gw_is_primary g" if "k = ''is_primary'' \<Longrightarrow> \<not> truthy v"
    using assms that by (auto simp: set_column_def Let_def map_sum_def split: if_splits sum.splits dest!: not_null_Inr)
qed

lemma set_columns_keeps:
  assumes "set_columns kvs g = Inr g'"
  shows "gw_id g' = gw_id g"
    and "(\<And>v. (''is_primary'', v) \<in> set kvs \<Longrightarrow> \<not> truthy v) \<Longrightarrow> gw_is_primary g' \<Longrightarrow> gw_is_primary g"
proof -
  show "gw_id g' = gw_id g"
    using assms by (induction kvs arbitrary: g) (auto split: sum.splits dest: set_column_keeps(1))
  show "gw_is_primary g" if "\<And>v. (''is_primary'', v) \<in> set kvs \<Longrightarrow> \<not> truthy v" "gw_is_primary g'"
    using assms that
  proof (induction kvs arbitrary: g)
    case (Cons kv kvs)
    obtain k v where kv: "kv = (k, v)" by fastforce
    obtain h where h: "set_column (k, v) g = Inr h" "set_columns kvs h = Inr g'"
      using Cons.prems(1) by (auto simp: kv split: sum.splits)
    have "gw_is_primary h" using Cons.IH [OF h(2)] Cons.prems(2,3) by simp
    then show ?case using set_column_keeps(2) [OF h(1)] Cons.prems(2) by (auto simp: kv)
  qed simp
qed

lemma gateway_sets_value: "(k, v) \<in> set (gateway_sets body) \<Longrightarrow> jget k body = Some v"
  by (auto simp: gateway_sets_def List.map_filter_def)

lemma gateways_ok_change:
  assumes "gateways_ok (gateways (db s))" "old \<in> set (rows (gateways (db s)))"
  shows "gateways_ok (gateways (db (snd (change_gateway w body old s))))"
proof -
  define primary where "primary \<longleftrightarrow> truthy_prop ''is_primary'' body \<noteq> None"
  define s1 where "s1 = (if primary then no_primaries s else s)"
  define g where "g = (if primary then old\<lparr>gw_is_primary := False\<rparr> else old)"
  have ok: "gateways_ok (gateways (db s1))"
    using assms(1) gateways_ok_none(1) by (simp add: s1_def)
  have g: "g \<in> set (rows (gateways (db s1)))" "gw_id g = gw_id old"
    using assms(2) by (auto simp: g_def s1_def no_primaries_def rows_tbl_update)
  have split: "change_gateway w body old s =
      (if gateway_sets body = [] then (Inr (error_response 400 ''No valid fields to update''), s1)
       else case run_update w (gateway_sets body) g s1 of
         Inl e \<Rightarrow> (Inl e, s1)
       | Inr g' \<Rightarrow>
           (Inr (json_response 200 (JObj [(''gateway'', redactToken g')])),
            put_gateways (tbl_update (\<lambda>x. gw_id x = gw_id old) (\<lambda>x. g') (gateways (db s1))) s1))"
    unfolding change_gateway_def Let_def primary_def s1_def g_def by (rule refl)
  show ?thesis
  proof (cases "gateway_sets body = [] \<or> (\<exists>e. run_update w (gateway_sets body) g s1 = Inl e)")
    case True
    then show ?thesis using ok unfolding split by auto
  next
    case False
    then obtain g' where run: "run_update w (gateway_sets body) g s1 = Inr g'" by (metis sum.exhaust)
    then obtain h where h: "set_columns (gateway_sets body) g = Inr h" "g' = h\<lparr>gw_updated_at := now_s w\<rparr>"
      and unique: "\<And>x. x \<in> set (rows (gateways (db s1))) \<Longrightarrow> gw_id x \<noteq> gw_id g \<Longrightarrow> gw_name x \<noteq> gw_name h"
      by (auto simp: run_update_def list_ex_iff split: if_splits sum.splits)
    have "gateways_ok (tbl_update (\<lambda>x. gw_id x = gw_id g) (\<lambda>x. g') (gateways (db s1)))"
    proof (rule gateways_ok_replace [OF ok g(1)])
      show "gw_id g' = gw_id g" using set_columns_keeps(1) [OF h(1)] h(2) by simp
      show "gw_name x \<noteq> gw_name g'" if "x \<in> set (rows (gateways (db s1)))" "gw_id x \<noteq> gw_id g" for x
        using unique [OF that] h(2) by simp
      show "\<not> gw_is_primary x" if "gw_is_primary g'" "x \<in> set (rows (gateways (db s1)))" "gw_id x \<noteq> gw_id g" for x
      proof (cases primary)
        case True
        then show ?thesis using that(2) gateways_ok_none(2) [OF assms(1)] by (simp add: s1_def)
      next
        case False
        then have "\<not> truthy v" if "(''is_primary'', v) \<in> set (gateway_sets body)" for v
          using gateway_sets_value [OF that] by (auto simp: primary_def truthy_prop_def split: if_splits)
        from set_columns_keeps(2) [OF h(1) this] have "gw_is_primary g" using that(1) h(2) by simp
        then show ?thesis using ok g(1) that(2,3) by (auto simp: gateways_ok_def)
      qed
    qed
    then show ?thesis
      using False run g(2) unfolding split by simp
  qed
qed


lemma gateways_ok_post:
  assumes "gateways_ok (gateways (db s))"
  shows "gateways_ok (gateways (db (snd (post_gateway w req u s))))"
proof -
  have add: "gateways_ok (gateways (db (snd (add_gateway w u primary vs s))))"
    if "gateways_ok (gateways (db s))" "\<And>g. primary \<Longrightarrow> g \<in> set (rows (gateways (db s))) \<Longrightarrow> \<not> gw_is_primary g" for primary vs s
  proof (cases vs)
    case (Inr b)
    obtain name host port token where b: "b = (name, host, port, token)" by (cases b)
    show ?thesis
    proof (cases "list_ex (\<lambda>g. gw_name g = name) (rows (gateways (db s)))")
      case False
      then have "gateways_ok (snd (tbl_insert (new_gateway w name host port token primary) (gateways (db s))))"
        using that by (intro gateways_ok_insert) (auto simp: new_gateway_def list_ex_iff)
      then show ?thesis
        using False Inr b by (simp add: add_gateway_def Let_def case_prod_beta)
    qed (use that(1) Inr b in \<open>simp add: add_gateway_def\<close>)
  qed (use that(1) in \<open>simp add: add_gateway_def\<close>)
  show ?thesis
    using assms gateways_ok_none [OF assms]
    by (auto simp: post_gateway_def Let_def intro!: add split: option.split json.split)
qed

lemma find_gateway_rows: "find_gateway i s = Some g \<Longrightarrow> g \<in> set (rows (gateways (db s)))"
  by (auto simp: find_gateway_def dest: tbl_first_in_rows)

lemma bound_gateway_rows: "bound_gateway given s = Inr (Some g) \<Longrightarrow> g \<in> set (rows (gateways (db s)))"
  by (auto simp: bound_gateway_def map_sum_def bind_eq_Some_conv dest: find_gateway_rows split: sum.splits)

lemma gateways_ok_put:
  assumes "gateways_ok (gateways (db s))"
  shows "gateways_ok (gateways (db (snd (put_gateway w req u s))))"
  using assms
  by (auto simp: put_gateway_def intro!: gateways_ok_change dest: bound_gateway_rows split: option.split json.split sum.split)

lemma gateways_ok_delete:
  assumes "gateways_ok (gateways (db s))"
  shows "gateways_ok (gateways (db (snd (delete_gateway w req u s))))"
proof -
  have "gateways_ok (tbl_delete p (gateways (db s)))" for p
    using assms unfolding gateways_ok_def
    by (auto simp: rows_tbl_delete distinct_map_filter intro: gateway_rows.wf_delete)
  then show ?thesis
    using assms by (auto simp: delete_gateway_def remove_gateway_def split: option.split json.split sum.split)
qed

lemma gateways_ok_seed:
  assumes "gateways_ok (gateways (db s))" "listed_gateways s = []" "seed_gateway w s = Inr s'"
  shows "gateways_ok (gateways (db s'))"
proof -
  have "rows (gateways (db s)) = []"
    using assms(2) by (auto simp: listed_gateways_def Let_def filter_empty_conv intro: ccontr)
  then show ?thesis
    using assms(1,3) by (auto simp: seed_gateway_def new_gateway_def intro!: gateways_ok_insert split: option.splits)
qed

lemma gateways_ok_check:
  "gateways_ok (gateways (db (snd acc))) \<Longrightarrow> gateways_ok (gateways (db (snd (check_gateway url_hostname fetch w g acc))))"
  by (auto simp: check_gateway_def probed_def Let_def intro!: gateways_ok_keep split: prod.split probe.split)

lemma gateways_ok_checks:
  "gateways_ok (gateways (db (snd acc))) \<Longrightarrow> gateways_ok (gateways (db (snd (fold (check_gateway url_hostname fetch w) gs acc))))"
  by (induction gs arbitrary: acc) (simp_all add: gateways_ok_check)

text \<open>Requests to the two routes, and any change elsewhere.\<close>

inductive gateway_step :: "server \<Rightarrow> server \<Rightarrow> bool" where
  get: "gateway_step s (snd (gateways_GET w req s))"
| post: "gateway_step s (snd (gateways_POST w req s))"
| put: "gateway_step s (snd (gateways_PUT w req s))"
| delete: "gateway_step s (snd (gateways_DELETE w req s))"
| health: "gateway_step s (snd (gateways_health_POST url_hostname fetch w req s))"
| other: "gateways (db s') = gateways (db s) \<Longrightarrow> gateway_step s s'"

interpretation gateway_sys: invariant_system "\<lambda>s. s = init_server" gateway_step "\<lambda>s. gateways_ok (gateways (db s))"
proof
  show "gateways_ok (gateways (db s))" if "s = init_server" for s
    using that by (simp add: init_server_def empty_db_def gateways_ok_def) (simp add: tbl_empty_def)
  show "gateways_ok (gateways (db t))" if "gateways_ok (gateways (db s))" "gateway_step s t" for s t
    using that(2,1)
  proof (induction rule: gateway_step.induct)
    case (get s w req)
    then show ?case
      by (auto simp: gateways_GET_def intro: gateways_ok_seed
          intro!: with_role_inv [where P = "\<lambda>d. gateways_ok (gateways d)"] split: sum.split)
  next
    case (health s url_hostname fetch w req)
    then show ?case
      using gateways_ok_checks [of "([], s)" url_hostname fetch w "listed_gateways s"]
      by (auto simp: gateways_health_POST_def Let_def case_prod_beta
          intro!: with_role_inv [where P = "\<lambda>d. gateways_ok (gateways d)"])
  qed (auto simp: gateways_POST_def gateways_PUT_def gateways_DELETE_def
      intro!: with_role_inv [where P = "\<lambda>d. gateways_ok (gateways d)"] gateways_ok_post gateways_ok_put gateways_ok_delete)
qed


section \<open>Properties\<close>

text \<open>
  C31. In every state that requests to the registry and the health checks reach, whatever else happens in between, the names of the
  gateways are unique, at most one gateway is primary, and a request to delete the primary one is refused with 400 and changes
  nothing.
\<close>

theorem one_primary_gateway:
  assumes "gateway_step\<^sup>*\<^sup>* init_server s"
  shows "distinct (map gw_name (rows (gateways (db s)))) \<and>
    (\<forall>g \<in> set (rows (gateways (db s))). \<forall>h \<in> set (rows (gateways (db s))). gw_is_primary g \<longrightarrow> gw_is_primary h \<longrightarrow> g = h) \<and>
    (\<forall>g w req u. g \<in> set (rows (gateways (db s))) \<longrightarrow> gw_is_primary g \<longrightarrow> req_body req = Some (JObj [(''id'', JNum (gw_id g))]) \<longrightarrow>
       delete_gateway w req u s = (Inr (error_response 400 ''Cannot delete the primary gateway''), s))"
proof -
  have ok: "gateways_ok (gateways (db s))"
    using gateway_sys.reachable_inv [OF refl assms] .
  have "delete_gateway w req u s = (Inr (error_response 400 ''Cannot delete the primary gateway''), s)"
    if "g \<in> set (rows (gateways (db s)))" "gw_is_primary g" "req_body req = Some (JObj [(''id'', JNum (gw_id g))])" for g w req u
  proof -
    have wf: "tbl_wf gw_id (gateways (db s))" using ok by (simp add: gateways_ok_def)
    then have "tbl_get gw_id (gateways (db s)) (gw_id g) = Some g" "gw_id g \<noteq> 0"
      using that(1) by (auto simp: tbl_get_Some_unique tbl_wf_def)
    then show ?thesis
      using that(2,3) by (simp add: delete_gateway_def truthy_prop_def bound_gateway_def bind_id_def bind_int_def find_gateway_def
          tbl_first_def tbl_get_def remove_gateway_def)
  qed
  with ok show ?thesis by (auto simp: gateways_ok_def)
qed

text \<open>A gateway that the environment names is listed first of all, and it stays primary when another one joins.\<close>

definition demo_gateway_state :: server where
  "demo_gateway_state = put_gateways \<lparr>seq = 1, rows = [new_gateway demo_world ''main'' ''gw.local'' 18789 ''secret'' True 1]\<rparr> init_server"

lemma demo_gateway_reachable: "gateway_step\<^sup>*\<^sup>* init_server demo_gateway_state"
proof -
  define req where "req = demo_request\<lparr>req_body := Some (JObj [(''name'', JStr ''main''), (''host'', JStr ''gw.local''),
    (''port'', JNum 18789), (''token'', JStr ''secret''), (''is_primary'', JNum 1)])\<rparr>"
  have "requireRole demo_world req ''admin'' init_server = Inr (Auth_user (api_user init_server))"
    by (simp add: req_def requireRole_def getUserFromRequest_def parseCookie_def match_cookie_def starts_with_def
        user_from_api_key_def demo_world_def demo_request_def api_user_def Let_def)
  then have "gateways (db (snd (gateways_POST demo_world req init_server))) = gateways (db demo_gateway_state)"
    by (simp add: gateways_POST_def with_role_def post_gateway_def req_def truthy_prop_def gateway_values_def bind_text_def
        bind_int_def add_gateway_def no_primaries_def init_server_def empty_db_def tbl_empty_def tbl_update_def tbl_insert_def
        demo_gateway_state_def put_gateways_def audit_gateway_def Let_def)
  then have "gateway_step (snd (gateways_POST demo_world req init_server)) demo_gateway_state"
    by (intro gateway_step.other) simp
  with gateway_step.post [of init_server demo_world req] show ?thesis by (meson rtranclp.simps)
qed

theorem one_primary_gateway_witness:
  "delete_gateway demo_world (demo_request\<lparr>req_body := Some (JObj [(''id'', JNum 1)])\<rparr>) (api_user init_server) demo_gateway_state =
     (Inr (error_response 400 ''Cannot delete the primary gateway''), demo_gateway_state)"
proof -
  let ?g = "new_gateway demo_world ''main'' ''gw.local'' 18789 ''secret'' True 1"
  have "?g \<in> set (rows (gateways (db demo_gateway_state)))" "gw_is_primary ?g" "gw_id ?g = 1"
    by (simp_all add: demo_gateway_state_def put_gateways_def new_gateway_def)
  with one_primary_gateway [OF demo_gateway_reachable] show ?thesis by simp
qed

text \<open>
  A change of the primary gateway is not atomic: the flags of all gateways are cleared before the new values are bound, so a
  request that gives the flag as a boolean is answered with an exception and leaves no gateway primary.
\<close>

theorem refused_change_loses_primary:
  assumes "req_body req = Some (JObj [(''id'', JNum i), (''is_primary'', JBool True)])" "i \<noteq> 0" "find_gateway i s = Some g"
  shows "\<exists>e s'. put_gateway w req u s = (Inl e, s') \<and> s' = no_primaries s \<and>
    filter gw_is_primary (rows (gateways (db s'))) = []"
proof -
  have "gateway_sets (JObj [(''id'', JNum i), (''is_primary'', JBool True)]) = [(''is_primary'', JBool True)]"
    by (simp add: gateway_sets_def allowed_columns_def map_filter_simps)
  then have "\<exists>e. put_gateway w req u s = (Inl e, no_primaries s)"
    using assms by (simp add: put_gateway_def truthy_prop_def bound_gateway_def bind_id_def bind_int_def change_gateway_def
        run_update_def Let_def)
  then show ?thesis
    by (auto simp: no_primaries_def rows_tbl_update filter_empty_conv)
qed

theorem refused_change_loses_primary_witness:
  "\<exists>e s'. put_gateway demo_world (demo_request\<lparr>req_body := Some (JObj [(''id'', JNum 1), (''is_primary'', JBool True)])\<rparr>)
     (api_user init_server) demo_gateway_state = (Inl e, s') \<and> length (filter gw_is_primary (rows (gateways (db demo_gateway_state)))) = 1 \<and>
     filter gw_is_primary (rows (gateways (db s'))) = []"
proof -
  have "find_gateway 1 demo_gateway_state = Some (new_gateway demo_world ''main'' ''gw.local'' 18789 ''secret'' True 1)"
    by (simp add: find_gateway_def demo_gateway_state_def put_gateways_def new_gateway_def tbl_first_def)
  from refused_change_loses_primary [OF _ _ this, of "demo_request\<lparr>req_body := Some (JObj [(''id'', JNum 1), (''is_primary'', JBool True)])\<rparr>"
      demo_world "api_user init_server"]
  have "\<exists>e s'. put_gateway demo_world (demo_request\<lparr>req_body := Some (JObj [(''id'', JNum 1), (''is_primary'', JBool True)])\<rparr>)
      (api_user init_server) demo_gateway_state = (Inl e, s') \<and> s' = no_primaries demo_gateway_state \<and>
      filter gw_is_primary (rows (gateways (db s'))) = []" by simp
  moreover have "length (filter gw_is_primary (rows (gateways (db demo_gateway_state)))) = 1"
    by (simp add: demo_gateway_state_def put_gateways_def new_gateway_def)
  ultimately show ?thesis by blast
qed


end
