(* ===== verification/MC_GitHub.thy ===== *)
theory MC_GitHub
  imports MC_AgentSync
begin

text \<open>
  \<open>src/lib/github.ts\<close> and \<open>src/app/api/github/route.ts\<close>: issues of a GitHub repository become tasks, and
  comments and closing go back. GitHub is an argument: what a request to it is answered with. The
  answers are JSON values; which of their properties have which type is not assumed.
\<close>

section \<open>The client of GitHub\<close>

text \<open>The answer to a request; \<open>Inl\<close> where reading the text or the JSON of its body fails.\<close>

record github_reply =
  gr_ok :: bool
  gr_status :: int
  gr_text :: "string + string"
  gr_json :: "string + json"

text \<open>From method, URL, headers and body to the reply, or to the message of a failed request.\<close>

type_synonym github_api = "string \<Rightarrow> string \<Rightarrow> (string \<times> string) list \<Rightarrow> json option \<Rightarrow> string + github_reply"

definition getGitHubToken :: "world \<Rightarrow> string option" where
  "getGitHubToken w = or_null (getenv w ''GITHUB_TOKEN'')"

definition github_url :: "string \<Rightarrow> string" where
  "github_url path =
     (if starts_with ''https://'' path then path
      else ''https://api.github.com'' @ (if starts_with ''/'' path then [] else ''/'') @ path)"

definition githubFetch :: "github_api \<Rightarrow> world \<Rightarrow> string \<Rightarrow> string \<Rightarrow> json option \<Rightarrow> string + github_reply" where
  "githubFetch gh w meth path body = (case getGitHubToken w of
     None \<Rightarrow> Inl ''GITHUB_TOKEN not configured''
   | Some token \<Rightarrow> gh meth (github_url path)
       ([(''Authorization'', ''Bearer '' @ token), (''Accept'', ''application/vnd.github.v3+json''),
         (''User-Agent'', ''MissionControl/1.0'')] @ (if body = None then [] else [(''Content-Type'', ''application/json'')])) body)"

text \<open>\<open>throw new Error(`GitHub API error ...`)\<close> after reading the text of the answer\<close>

definition github_error :: "github_reply \<Rightarrow> string" where
  "github_error r = (case gr_text r of Inl e \<Rightarrow> e | Inr t \<Rightarrow> ''GitHub API error '' @ show_int (gr_status r) @ '': '' @ t)"

text \<open>\<open>URLSearchParams\<close>: the bytes of a value, percent-encoded for a form.\<close>

definition form_byte :: "char \<Rightarrow> string" where
  "form_byte c =
     (if is_word_char c \<or> c = CHR ''*'' \<or> c = CHR ''-'' \<or> c = CHR ''.'' then [c]
      else if c = CHR '' '' then ''+''
      else (let n = of_char c :: nat; hex = (\<lambda>d. if d < 10 then char_of (48 + d) else char_of (55 + d))
            in [CHR ''%'', hex (n div 16), hex (n mod 16)]))"

definition form_encode :: "string \<Rightarrow> string" where
  "form_encode v = concat (map form_byte v)"

definition query_string :: "(string \<times> string) list \<Rightarrow> string" where
  "query_string ps = join_with ''&'' (map (\<lambda>(k, v). form_encode k @ ''='' @ form_encode v) ps)"

record fetch_params =
  fp_state :: "string option"
  fp_labels :: "string option"
  fp_since :: "string option"
  fp_per_page :: "int option"
  fp_page :: "int option"

definition given_param :: "string \<Rightarrow> string option \<Rightarrow> (string \<times> string) list" where
  "given_param k v = (case or_null v of None \<Rightarrow> [] | Some x \<Rightarrow> [(k, x)])"

definition issue_query :: "fetch_params \<Rightarrow> (string \<times> string) list" where
  "issue_query p = given_param ''state'' (fp_state p) @ given_param ''labels'' (fp_labels p) @ given_param ''since'' (fp_since p) @
     [(''per_page'', show_int (set_or_keep (fp_per_page p) 30)), (''page'', show_int (set_or_keep (fp_page p) 1))]"

text \<open>Pull requests are issues for GitHub and are left out; an item that is \<open>null\<close> throws.\<close>

definition issues_of :: "json \<Rightarrow> string + json list" where
  "issues_of data = (case data of
     JArr items \<Rightarrow> if JNull \<in> set items then Inl ''Cannot read properties of null (reading 'pull_request')''
                   else Inr (filter (\<lambda>i. truthy_prop ''pull_request'' i = None) items)
   | JNull \<Rightarrow> Inl ''Cannot read properties of null (reading 'filter')''
   | _ \<Rightarrow> Inl ''data.filter is not a function'')"

definition fetchIssues :: "github_api \<Rightarrow> world \<Rightarrow> string \<Rightarrow> fetch_params \<Rightarrow> string + json list" where
  "fetchIssues gh w repo p =
     (case githubFetch gh w ''GET'' (''/repos/'' @ repo @ ''/issues?'' @ query_string (issue_query p)) None of
        Inl e \<Rightarrow> Inl e
      | Inr r \<Rightarrow> if \<not> gr_ok r then Inl (github_error r)
                 else (case gr_json r of Inl e \<Rightarrow> Inl e | Inr data \<Rightarrow> issues_of data))"

definition issue_path :: "string \<Rightarrow> int \<Rightarrow> string" where
  "issue_path repo issueNumber = ''/repos/'' @ repo @ ''/issues/'' @ show_int issueNumber"

definition fetchIssue :: "github_api \<Rightarrow> world \<Rightarrow> string \<Rightarrow> int \<Rightarrow> string + json" where
  "fetchIssue gh w repo issueNumber =
     (case githubFetch gh w ''GET'' (issue_path repo issueNumber) None of
        Inl e \<Rightarrow> Inl e
      | Inr r \<Rightarrow> if \<not> gr_ok r then Inl (github_error r) else gr_json r)"

definition createIssueComment :: "github_api \<Rightarrow> world \<Rightarrow> string \<Rightarrow> int \<Rightarrow> string \<Rightarrow> string + unit" where
  "createIssueComment gh w repo issueNumber body =
     (case githubFetch gh w ''POST'' (issue_path repo issueNumber @ ''/comments'') (Some (JObj [(''body'', JStr body)])) of
        Inl e \<Rightarrow> Inl e
      | Inr r \<Rightarrow> if \<not> gr_ok r then Inl (github_error r) else Inr ())"

definition updateIssueState :: "github_api \<Rightarrow> world \<Rightarrow> string \<Rightarrow> int \<Rightarrow> string \<Rightarrow> string + unit" where
  "updateIssueState gh w repo issueNumber state =
     (case githubFetch gh w ''PATCH'' (issue_path repo issueNumber) (Some (JObj [(''state'', JStr state)])) of
        Inl e \<Rightarrow> Inl e
      | Inr r \<Rightarrow> if \<not> gr_ok r then Inl (github_error r) else Inr ())"

section \<open>What SQLite reads in the metadata of a task\<close>

text \<open>
  \<open>json_extract(metadata, '$.k') = ?\<close>: the value in the column (\<open>None\<close> is \<open>NULL\<close>) against the bound one;
  a boolean is a number, an object or an array is its text, and numbers do not equal texts.
\<close>

fun sql_json :: "json \<Rightarrow> (int + string) option" where
  "sql_json JNull = None"
| "sql_json (JBool b) = Some (Inl (if b then 1 else 0))"
| "sql_json (JNum n) = Some (Inl n)"
| "sql_json (JStr x) = Some (Inr x)"
| "sql_json v = Some (Inr (stringify v))"

definition json_extract :: "string \<Rightarrow> json \<Rightarrow> (int + string) option" where
  "json_extract k v = (case jget k v of None \<Rightarrow> None | Some x \<Rightarrow> sql_json x)"

definition bound_scalar :: "json option \<Rightarrow> string + (int + string) option" where
  "bound_scalar v = (case v of
     None \<Rightarrow> Inr None | Some JNull \<Rightarrow> Inr None | Some (JNum n) \<Rightarrow> Inr (Some (Inl n)) | Some (JStr x) \<Rightarrow> Inr (Some (Inr x))
   | _ \<Rightarrow> Inl ''SQLite3 can only bind numbers, strings, bigints, buffers, and null'')"

definition sql_eq :: "'a option \<Rightarrow> 'a option \<Rightarrow> bool" where
  "sql_eq a b \<longleftrightarrow> a \<noteq> None \<and> a = b"

definition linked_task :: "string \<Rightarrow> (int + string) option \<Rightarrow> int \<Rightarrow> task_row \<Rightarrow> bool" where
  "linked_task repo num wsid t \<longleftrightarrow> sql_eq (json_extract ''github_repo'' (t_metadata t)) (Some (Inr repo)) \<and>
     sql_eq (json_extract ''github_issue_number'' (t_metadata t)) num \<and> t_workspace_id t = wsid"

section \<open>Import\<close>

text \<open>
  \<open>issue.labels.map(l => l.name)\<close>; the first label that says something about the priority decides. A name that is not
  a text throws when it is reached.
\<close>

fun label_names :: "json list \<Rightarrow> string + json option list" where
  "label_names [] = Inr []"
| "label_names (l # ls) =
     (if l = JNull then Inl ''Cannot read properties of null (reading 'name')''
      else map_sum id (\<lambda>names. jget ''name'' l # names) (label_names ls))"

definition issue_labels :: "json \<Rightarrow> string + json option list" where
  "issue_labels issue = (case jget ''labels'' issue of
     Some (JArr ls) \<Rightarrow> label_names ls
   | None \<Rightarrow> Inl ''Cannot read properties of undefined (reading 'map')''
   | Some JNull \<Rightarrow> Inl ''Cannot read properties of null (reading 'map')''
   | Some _ \<Rightarrow> Inl ''issue.labels.map is not a function'')"

definition label_priority :: "string \<Rightarrow> task_priority option" where
  "label_priority l =
     (if l = ''priority:critical'' \<or> l = ''critical'' then Some Critical
      else if l = ''priority:high'' \<or> l = ''high'' then Some High
      else if l = ''priority:low'' \<or> l = ''low'' then Some Low
      else if l = ''priority:medium'' then Some Medium
      else None)"

fun mapPriority :: "json option list \<Rightarrow> string + task_priority" where
  "mapPriority [] = Inr Medium"
| "mapPriority (Some (JStr l) # ls) = (case label_priority (to_lower l) of Some p \<Rightarrow> Inr p | None \<Rightarrow> mapPriority ls)"
| "mapPriority (_ # ls) = Inl ''label.toLowerCase is not a function''"

definition copy_prop :: "string \<Rightarrow> string \<Rightarrow> json \<Rightarrow> (string \<times> json) list" where
  "copy_prop k' k v = jopt k' id (jget k v)"

definition issue_metadata :: "world \<Rightarrow> string \<Rightarrow> json \<Rightarrow> string + json" where
  "issue_metadata w repo issue = (case toISOString (now_ms w) of
     None \<Rightarrow> Inl ''Invalid time value''
   | Some now \<Rightarrow> Inr (JObj ([(''github_repo'', JStr repo)] @ copy_prop ''github_issue_number'' ''number'' issue @
       copy_prop ''github_issue_url'' ''html_url'' issue @ [(''github_synced_at'', JStr now)] @
       copy_prop ''github_state'' ''state'' issue)))"

definition issue_status :: "json \<Rightarrow> task_status" where
  "issue_status issue = (if jget ''state'' issue = Some (JStr ''closed'') then Done else Inbox)"

text \<open>The values that are bound to the insert. A number for a text column is outside the model.\<close>

definition issue_task :: "world \<Rightarrow> string \<Rightarrow> string \<Rightarrow> string option \<Rightarrow> int \<Rightarrow> json \<Rightarrow> string + (int \<Rightarrow> task_row)" where
  "issue_task w actor repo assignAgent wsid issue =
     (case issue_labels issue of
        Inl e \<Rightarrow> Inl e
      | Inr names \<Rightarrow>
      (case (mapPriority names, issue_metadata w repo issue,
             bind_text (case jget ''title'' issue of None \<Rightarrow> JNull | Some v \<Rightarrow> v),
             bind_text (case truthy_prop ''body'' issue of None \<Rightarrow> JStr [] | Some v \<Rightarrow> v)) of
         (Inr priority, Inr metadata, Inr (Some title), Inr description) \<Rightarrow>
           Inr (\<lambda>i. \<lparr>t_id = i, t_title = title, t_description = description, t_status = issue_status issue,
             t_priority = priority, t_assigned_to = or_null assignAgent, t_created_by = actor, t_created_at = now_s w,
             t_updated_at = now_s w, t_due_date = None, t_estimated_hours = None, t_actual_hours = None,
             t_tags = JArr (map (\<lambda>n. case n of None \<Rightarrow> JNull | Some v \<Rightarrow> v) names), t_metadata = metadata, t_workspace_id = wsid\<rparr>)
       | (Inl e, _) \<Rightarrow> Inl e
       | (_, Inl e, _) \<Rightarrow> Inl e
       | (_, _, Inl e, _) \<Rightarrow> Inl e
       | (_, _, _, Inl e) \<Rightarrow> Inl e
       | (_, _, Inr None, _) \<Rightarrow> Inl ''NOT NULL constraint failed: tasks.title''))"

datatype import_result = Skipped | Imported json | Import_failed

text \<open>One issue; what it throws is caught and counted.\<close>

definition import_issue ::
  "world \<Rightarrow> string \<Rightarrow> string \<Rightarrow> string option \<Rightarrow> int \<Rightarrow> json \<Rightarrow> server \<Rightarrow> import_result \<times> server"
where
  "import_issue w actor repo assignAgent wsid issue s =
     (case bound_scalar (jget ''number'' issue) of
        Inl e \<Rightarrow> (Import_failed, s)
      | Inr num \<Rightarrow>
          if tbl_first (linked_task repo num wsid) (tasks (db s)) \<noteq> None then (Skipped, s)
          else (case issue_task w actor repo assignAgent wsid issue of
             Inl e \<Rightarrow> (Import_failed, s)
           | Inr mk \<Rightarrow>
               (let (taskId, ts) = tbl_insert mk (tasks (db s));
                    s1 = logActivity w ''task_created'' ''task'' taskId actor
                           (''Imported from GitHub: '' @ repo @ ''#'' @ template_str (jget ''number'' issue))
                           (Some (JObj (copy_prop ''github_issue'' ''number'' issue @ [(''github_repo'', JStr repo)]))) wsid
                           (s\<lparr>db := (db s)\<lparr>tasks := ts\<rparr>\<rparr>)
                in case find_task taskId wsid s1 of
                     None \<Rightarrow> (Import_failed, s1)
                   | Some t \<Rightarrow> (Imported (task_json t), broadcast w ''task.created'' (task_json t) s1))))"

fun import_issues ::
  "world \<Rightarrow> string \<Rightarrow> string \<Rightarrow> string option \<Rightarrow> int \<Rightarrow> json list \<Rightarrow> server \<Rightarrow> import_result list \<times> server"
where
  "import_issues w actor repo assignAgent wsid [] s = ([], s)"
| "import_issues w actor repo assignAgent wsid (issue # todo) s =
     (let (r, s') = import_issue w actor repo assignAgent wsid issue s;
          (rs, s'') = import_issues w actor repo assignAgent wsid todo s'
      in (r # rs, s''))"

fun imported_json :: "import_result \<Rightarrow> json option" where
  "imported_json (Imported j) = Some j"
| "imported_json _ = None"

definition count_results :: "import_result \<Rightarrow> import_result list \<Rightarrow> int" where
  "count_results r rs = int (length (filter (\<lambda>x. x = r) rs))"

section \<open>POST /api/github\<close>

record github_sync =
  gh_action :: string
  gh_repo :: "string option"
  gh_labels :: "string option"
  gh_state :: "string option"
  gh_assignAgent :: "string option"
  gh_issueNumber :: "int option"
  gh_body :: "string option"
  gh_comment :: "string option"

definition sync_row :: "world \<Rightarrow> string \<Rightarrow> int \<Rightarrow> int \<Rightarrow> int \<Rightarrow> int \<Rightarrow> github_sync_row" where
  "sync_row w repo imported errors wsid i = \<lparr>gs_id = i, gs_repo = repo, gs_last_synced_at = now_s w,
     gs_issue_count = imported, gs_direction = ''inbound'', gs_status = (if 0 < errors then ''partial'' else ''success''),
     gs_error = (if 0 < errors then Some (show_int errors @ '' issues failed to import'') else None),
     gs_created_at = now_s w, gs_workspace_id = wsid\<rparr>"

text \<open>The end of a synchronisation: a row in the history, an event and the answer.\<close>

definition finish_sync :: "world \<Rightarrow> string \<Rightarrow> int \<Rightarrow> import_result list \<Rightarrow> server \<Rightarrow> outcome" where
  "finish_sync w repo wsid rs s =
     (let tasks = List.map_filter imported_json rs; imported = int (length tasks);
          skipped = count_results Skipped rs; errors = count_results Import_failed rs;
          s1 = s\<lparr>db := (db s)\<lparr>github_syncs := snd (tbl_insert (sync_row w repo imported errors wsid) (github_syncs (db s)))\<rparr>\<rparr>
      in (Inr (json_response 200 (JObj [(''imported'', JNum imported), (''skipped'', JNum skipped), (''errors'', JNum errors),
            (''tasks'', JArr tasks)])),
          broadcast w ''github.synced'' (JObj [(''repo'', JStr repo), (''imported'', JNum imported), (''skipped'', JNum skipped),
            (''errors'', JNum errors), (''timestamp'', JNum (now_s w))]) s1))"

text \<open>An exception of the handler is caught by \<open>POST\<close>.\<close>

definition github_failure :: "string \<Rightarrow> string \<Rightarrow> server \<Rightarrow> outcome" where
  "github_failure e d s = (Inr (error_response 500 (or_else (Some e) d)), s)"

definition sync_repo :: "world \<Rightarrow> github_sync \<Rightarrow> string" where
  "sync_repo w body = or_else (gh_repo body) (or_else (getenv w ''GITHUB_DEFAULT_REPO'') [])"

definition sync_params :: "github_sync \<Rightarrow> fetch_params" where
  "sync_params body = \<lparr>fp_state = Some (or_else (gh_state body) ''open''), fp_labels = gh_labels body, fp_since = None,
     fp_per_page = Some 100, fp_page = None\<rparr>"

definition handleSync :: "github_api \<Rightarrow> world \<Rightarrow> github_sync \<Rightarrow> string \<Rightarrow> int \<Rightarrow> server \<Rightarrow> outcome" where
  "handleSync gh w body actor wsid s =
     (let repo = sync_repo w body in
      if repo = [] then (Inr (error_response 400 ''repo is required''), s)
      else if getGitHubToken w = None then (Inr (error_response 400 ''GITHUB_TOKEN not configured''), s)
      else case fetchIssues gh w repo (sync_params body) of
        Inl e \<Rightarrow> github_failure e ''GitHub action failed'' s
      | Inr issues \<Rightarrow>
          (let (rs, s') = import_issues w actor repo (gh_assignAgent body) wsid issues s in finish_sync w repo wsid rs s'))"

definition log_github :: "world \<Rightarrow> string \<Rightarrow> string \<Rightarrow> string \<Rightarrow> string \<Rightarrow> int \<Rightarrow> int \<Rightarrow> server \<Rightarrow> server" where
  "log_github w ty actor what repo n wsid s =
     logActivity w ty ''task'' 0 actor (what @ repo @ ''#'' @ show_int n)
       (Some (JObj [(''github_repo'', JStr repo), (''github_issue'', JNum n)])) wsid s"

definition handleComment :: "github_api \<Rightarrow> world \<Rightarrow> github_sync \<Rightarrow> string \<Rightarrow> int \<Rightarrow> server \<Rightarrow> outcome" where
  "handleComment gh w body actor wsid s =
     (case (or_null (gh_repo body), set_or_keep (gh_issueNumber body) 0, or_null (gh_body body)) of
        (Some repo, n, Some content) \<Rightarrow>
          if n = 0 then (Inr (error_response 400 ''repo, issueNumber, and body are required''), s)
          else (case createIssueComment gh w repo n content of
             Inl e \<Rightarrow> github_failure e ''GitHub action failed'' s
           | Inr _ \<Rightarrow> (Inr (json_response 200 (JObj [(''ok'', JBool True)])),
                       log_github w ''github_comment'' actor ''Commented on '' repo n wsid s))
      | _ \<Rightarrow> (Inr (error_response 400 ''repo, issueNumber, and body are required''), s))"

text \<open>\<open>json_set(metadata, '$.github_state', 'closed')\<close> on the tasks that are linked to the issue.\<close>

fun set_closed :: "json \<Rightarrow> json" where
  "set_closed (JObj kvs) = JObj (AList.update ''github_state'' (JStr ''closed'') kvs)"
| "set_closed v = v"

definition close_linked :: "world \<Rightarrow> string \<Rightarrow> int \<Rightarrow> int \<Rightarrow> server \<Rightarrow> server" where
  "close_linked w repo n wsid s =
     s\<lparr>db := (db s)\<lparr>tasks := tbl_update (linked_task repo (Some (Inl n)) wsid)
        (\<lambda>t. t\<lparr>t_metadata := set_closed (t_metadata t), t_updated_at := now_s w\<rparr>) (tasks (db s))\<rparr>\<rparr>"

definition handleClose :: "github_api \<Rightarrow> world \<Rightarrow> github_sync \<Rightarrow> string \<Rightarrow> int \<Rightarrow> server \<Rightarrow> outcome" where
  "handleClose gh w body actor wsid s =
     (case or_null (gh_repo body) of
        None \<Rightarrow> (Inr (error_response 400 ''repo and issueNumber are required''), s)
      | Some repo \<Rightarrow>
          (let n = set_or_keep (gh_issueNumber body) 0 in
           if n = 0 then (Inr (error_response 400 ''repo and issueNumber are required''), s)
           else case (case or_null (gh_comment body) of None \<Rightarrow> Inr () | Some c \<Rightarrow> createIssueComment gh w repo n c) of
             Inl e \<Rightarrow> github_failure e ''GitHub action failed'' s
           | Inr _ \<Rightarrow>
               (case updateIssueState gh w repo n ''closed'' of
                  Inl e \<Rightarrow> github_failure e ''GitHub action failed'' s
                | Inr _ \<Rightarrow> (Inr (json_response 200 (JObj [(''ok'', JBool True)])),
                            log_github w ''github_close'' actor ''Closed GitHub issue '' repo n wsid (close_linked w repo n wsid s)))))"

definition sync_json :: "github_sync_row \<Rightarrow> json" where
  "sync_json r = JObj [(''id'', JNum (gs_id r)), (''repo'', JStr (gs_repo r)), (''last_synced_at'', JNum (gs_last_synced_at r)),
     (''issue_count'', JNum (gs_issue_count r)), (''sync_direction'', JStr (gs_direction r)), (''status'', JStr (gs_status r)),
     (''error'', jnull JStr (gs_error r)), (''created_at'', JNum (gs_created_at r)), (''workspace_id'', JNum (gs_workspace_id r))]"

definition handleStatus :: "world \<Rightarrow> int \<Rightarrow> server \<Rightarrow> outcome" where
  "handleStatus w wsid s = (Inr (json_response 200 (JObj [(''syncs'', JArr (map sync_json (take 20
     (order_by_desc (sql_ord w) gs_created_at (tbl_select (\<lambda>r. gs_workspace_id r = wsid) (github_syncs (db s)))))))])), s)"

definition github_action :: "github_api \<Rightarrow> world \<Rightarrow> user \<Rightarrow> github_sync \<Rightarrow> server \<Rightarrow> outcome" where
  "github_action gh w u body s =
     (let actor = usr_username u; wsid = usr_workspace_id u in
      if gh_action body = ''sync'' then handleSync gh w body actor wsid s
      else if gh_action body = ''comment'' then handleComment gh w body actor wsid s
      else if gh_action body = ''close'' then handleClose gh w body actor wsid s
      else if gh_action body = ''status'' then handleStatus w wsid s
      else (Inr (error_response 400 ''Unknown action''), s))"

definition github_POST :: "github_api \<Rightarrow> github_sync schema \<Rightarrow> world \<Rightarrow> request \<Rightarrow> server \<Rightarrow> outcome" where
  "github_POST gh githubSyncSchema =
     mutating_route ''operator'' (\<lambda>w req u s. with_body githubSyncSchema req s (\<lambda>b. github_action gh w u b s))"

section \<open>GET /api/github\<close>

definition valid_repo :: "string \<Rightarrow> bool" where
  "valid_repo r = (case split_on CHR ''/'' r of [owner, name] \<Rightarrow> owner \<noteq> [] \<and> name \<noteq> [] | _ \<Rightarrow> False)"

definition list_issues :: "github_api \<Rightarrow> world \<Rightarrow> request \<Rightarrow> server \<Rightarrow> outcome" where
  "list_issues gh w req s =
     (let repo = or_else (req_query req ''repo'') (or_else (getenv w ''GITHUB_DEFAULT_REPO'') []) in
      if \<not> valid_repo repo then (Inr (error_response 400 ''repo query parameter required (owner/repo format)''), s)
      else if getGitHubToken w = None then (Inr (error_response 400 ''GITHUB_TOKEN not configured''), s)
      else case fetchIssues gh w repo \<lparr>fp_state = Some (or_else (req_query req ''state'') ''open''),
                  fp_labels = nonempty_param req ''labels'', fp_since = None, fp_per_page = Some 50, fp_page = None\<rparr> of
        Inl e \<Rightarrow> github_failure e ''Failed to fetch issues'' s
      | Inr issues \<Rightarrow> (Inr (json_response 200 (JObj [(''issues'', JArr issues), (''total'', JNum (int (length issues))),
          (''repo'', JStr repo)])), s))"

text \<open>
  The statistics. \<open>dates\<close> is \<open>new Date(v).getTime()\<close>, \<open>None\<close> for an invalid date. A fork counts when it was pushed to more
  than a minute after it was made. Counts that are not numbers are outside the model.
\<close>

definition active_repo :: "(json option \<Rightarrow> int option) \<Rightarrow> json \<Rightarrow> bool" where
  "active_repo dates r =
     (if truthy_prop ''fork'' r = None then True
      else case (dates (jget ''created_at'' r), dates (jget ''pushed_at'' r)) of
        (Some created, Some pushed) \<Rightarrow> 60000 < pushed - created
      | _ \<Rightarrow> False)"

definition count_language :: "json \<Rightarrow> (string \<times> int) list \<Rightarrow> (string \<times> int) list" where
  "count_language r counts = (case truthy_prop ''language'' r of
     None \<Rightarrow> counts
   | Some l \<Rightarrow> (let k = js_String l in AList.update k (set_or_keep (map_of counts k) 0 + 1) counts))"

definition topLanguages :: "json list \<Rightarrow> (string \<times> int) list" where
  "topLanguages repos = take 6 (sort_key (\<lambda>(k, n). - n) (fold count_language repos []))"

definition num_or_0 :: "string \<Rightarrow> json \<Rightarrow> int" where
  "num_or_0 k v = set_or_keep (num_field k v) 0"

definition recent_repo :: "json \<Rightarrow> json" where
  "recent_repo r = JObj (copy_prop ''name'' ''full_name'' r @ copy_prop ''description'' ''description'' r @
     copy_prop ''language'' ''language'' r @ copy_prop ''stars'' ''stargazers_count'' r @ copy_prop ''forks'' ''forks_count'' r @
     copy_prop ''open_issues'' ''open_issues_count'' r @ copy_prop ''pushed_at'' ''pushed_at'' r @
     copy_prop ''is_fork'' ''fork'' r @ copy_prop ''is_private'' ''private'' r @ copy_prop ''html_url'' ''html_url'' r)"

definition github_stats_json :: "(json option \<Rightarrow> int option) \<Rightarrow> json \<Rightarrow> json list \<Rightarrow> json" where
  "github_stats_json dates user allRepos =
     (let activeRepos = filter (active_repo dates) allRepos; is_private = (\<lambda>r. truthy_prop ''private'' r \<noteq> None);
          sum = (\<lambda>k. JNum (sum_list (map (num_or_0 k) activeRepos)))
      in JObj [(''user'', JObj (copy_prop ''login'' ''login'' user @ copy_prop ''name'' ''name'' user @
             copy_prop ''avatar_url'' ''avatar_url'' user @ copy_prop ''public_repos'' ''public_repos'' user @
             copy_prop ''followers'' ''followers'' user @ copy_prop ''following'' ''following'' user)),
           (''repos'', JObj [(''total'', JNum (int (length activeRepos))),
             (''public'', JNum (int (length (filter (\<lambda>r. \<not> is_private r) activeRepos)))),
             (''private'', JNum (int (length (filter is_private activeRepos)))),
             (''total_stars'', sum ''stargazers_count''), (''total_forks'', sum ''forks_count''),
             (''total_open_issues'', sum ''open_issues_count'')]),
           (''topLanguages'', JArr (map (\<lambda>(k, n). JObj [(''name'', JStr k), (''count'', JNum n)]) (topLanguages activeRepos))),
           (''recentRepos'', JArr (map recent_repo (take 10 activeRepos)))])"

definition repos_of :: "json \<Rightarrow> string + json list" where
  "repos_of data = (case data of
     JArr rs \<Rightarrow> if JNull \<in> set rs then Inl ''Cannot read properties of null (reading 'fork')'' else Inr rs
   | JNull \<Rightarrow> Inl ''Cannot read properties of null (reading 'filter')''
   | _ \<Rightarrow> Inl ''allRepos.filter is not a function'')"

definition handleGitHubStats :: "github_api \<Rightarrow> (json option \<Rightarrow> int option) \<Rightarrow> world \<Rightarrow> server \<Rightarrow> outcome" where
  "handleGitHubStats gh dates w s =
     (let failed = (\<lambda>e. github_failure e ''Failed to fetch issues'' s) in
      if getGitHubToken w = None then (Inr (error_response 400 ''GITHUB_TOKEN not configured''), s)
      else case githubFetch gh w ''GET'' ''/user'' None of
        Inl e \<Rightarrow> failed e
      | Inr userRes \<Rightarrow>
          if \<not> gr_ok userRes then (Inr (error_response 500 ''Failed to fetch GitHub user''), s)
          else (case gr_json userRes of
             Inl e \<Rightarrow> failed e
           | Inr user \<Rightarrow>
               (case githubFetch gh w ''GET'' ''/user/repos?per_page=100&sort=pushed&affiliation=owner,collaborator'' None of
                  Inl e \<Rightarrow> failed e
                | Inr reposRes \<Rightarrow>
                    if \<not> gr_ok reposRes then (Inr (error_response 500 ''Failed to fetch repos''), s)
                    else (case (case gr_json reposRes of Inl e \<Rightarrow> Inl e | Inr data \<Rightarrow> repos_of data) of
                       Inl e \<Rightarrow> failed e
                     | Inr allRepos \<Rightarrow>
                         if user = JNull then failed ''Cannot read properties of null (reading 'login')''
                         else (Inr (json_response 200 (github_stats_json dates user allRepos)), s)))))"

definition github_GET :: "github_api \<Rightarrow> (json option \<Rightarrow> int option) \<Rightarrow> world \<Rightarrow> request \<Rightarrow> server \<Rightarrow> outcome" where
  "github_GET gh dates w req s = with_role w req ''operator'' s (\<lambda>u.
     if req_query req ''action'' = Some ''stats'' then handleGitHubStats gh dates w s
     else if req_query req ''action'' = Some ''issues'' then list_issues gh w req s
     else (Inr (error_response 400 ''Unknown action. Use ?action=issues or ?action=stats''), s))"


section \<open>What an import does\<close>

lemma issue_task_row:
  assumes "issue_task w actor repo agent n issue = Inr mk"
  shows "t_id (mk i) = i" "t_workspace_id (mk i) = n" "t_status (mk i) = issue_status issue"
    "jget ''github_repo'' (t_metadata (mk i)) = Some (JStr repo)"
    "jget ''github_issue_number'' (t_metadata (mk i)) = jget ''number'' issue"
    "jget ''github_state'' (t_metadata (mk i)) = jget ''state'' issue"
  using assms
  by (auto simp: issue_task_def issue_metadata_def copy_prop_def jopt_def split: sum.splits option.splits)

lemma linked_new_task:
  assumes "issue_task w actor repo agent n issue = Inr mk" and "bound_scalar (jget ''number'' issue) = Inr num"
  shows "linked_task repo (Some v) n (mk i) \<longleftrightarrow> num = Some v"
  using assms(2) issue_task_row [OF assms(1), of i]
  by (auto simp: linked_task_def sql_eq_def json_extract_def bound_scalar_def split: option.splits json.splits)

lemma import_issue_cases:
  assumes "import_issue w actor repo agent n issue s = (r, s')"
  obtains (failed) "r = Import_failed" "s' = s"
    | (skipped) num where "r = Skipped" "s' = s" "bound_scalar (jget ''number'' issue) = Inr num"
        "\<exists>t \<in> set (rows (tasks (db s))). linked_task repo num n t"
    | (imported) num mk j where "r = Imported j" "bound_scalar (jget ''number'' issue) = Inr num"
        "\<forall>t \<in> set (rows (tasks (db s))). \<not> linked_task repo num n t"
        "issue_task w actor repo agent n issue = Inr mk"
        "tasks (db s') = snd (tbl_insert mk (tasks (db s)))" "quality_reviews (db s') = quality_reviews (db s)"
proof (cases "bound_scalar (jget ''number'' issue)")
  case (Inl e)
  with assms failed show thesis by (simp add: import_issue_def)
next
  case num: (Inr num)
  show thesis
  proof (cases "tbl_first (linked_task repo num n) (tasks (db s))")
    case (Some t)
    with num assms tbl_first_in_rows [OF Some] show thesis by (intro skipped [of num]) (auto simp: import_issue_def)
  next
    case none: None
    show thesis
    proof (cases "issue_task w actor repo agent n issue")
      case (Inl e)
      with num none assms failed show thesis by (simp add: import_issue_def)
    next
      case mk: (Inr mk)
      let ?i = "seq (tasks (db s)) + 1"
      let ?s1 = "logActivity w ''task_created'' ''task'' ?i actor
        (''Imported from GitHub: '' @ repo @ ''#'' @ template_str (jget ''number'' issue))
        (Some (JObj (copy_prop ''github_issue'' ''number'' issue @ [(''github_repo'', JStr repo)]))) n
        (s\<lparr>db := (db s)\<lparr>tasks := snd (tbl_insert mk (tasks (db s)))\<rparr>\<rparr>)"
      have tables: "tasks (db ?s1) = snd (tbl_insert mk (tasks (db s)))" "quality_reviews (db ?s1) = quality_reviews (db s)"
        by (simp_all add: frame_simps)
      have "find_task ?i n ?s1 \<noteq> None"
        unfolding find_task_def tbl_first_def tables(1) rows_tbl_insert
        using issue_task_row(1,2) [OF mk, of ?i] by (auto simp: find_None_iff)
      then obtain t where t: "find_task ?i n ?s1 = Some t" by blast
      have "tbl_insert mk (tasks (db s)) = (?i, snd (tbl_insert mk (tasks (db s))))"
        by (simp add: prod_eq_iff)
      with num none mk t assms have "r = Imported (task_json t)" "s' = broadcast w ''task.created'' (task_json t) ?s1"
        by (simp_all add: import_issue_def Let_def split: prod.splits)
      with none num mk tables show thesis
        by (intro imported [of "task_json t" num mk]) (auto simp: tbl_first_def find_None_iff)
    qed
  qed
qed

text \<open>The tasks grow at the end, by one row for each imported issue.\<close>

definition is_imported :: "import_result \<Rightarrow> bool" where
  "is_imported r \<longleftrightarrow> imported_json r \<noteq> None"

lemma is_imported_simps [simp]: "is_imported (Imported j)" "\<not> is_imported Skipped" "\<not> is_imported Import_failed"
  by (simp_all add: is_imported_def)

text \<open>A row that an import of the issues makes.\<close>

definition made_from :: "string \<Rightarrow> int \<Rightarrow> json list \<Rightarrow> task_row \<Rightarrow> bool" where
  "made_from repo n issues t \<longleftrightarrow> (\<exists>issue \<in> set issues. t_workspace_id t = n \<and> t_status t = issue_status issue \<and>
     jget ''github_repo'' (t_metadata t) = Some (JStr repo) \<and>
     jget ''github_state'' (t_metadata t) = jget ''state'' issue)"

lemma made_from_more: "made_from repo n issues t \<Longrightarrow> made_from repo n (issue # issues) t"
  by (auto simp: made_from_def)

lemma import_issues_rows:
  assumes "import_issues w actor repo agent n issues s = (rs, s')"
  shows "\<exists>new. rows (tasks (db s')) = rows (tasks (db s)) @ new \<and> length new = length (filter is_imported rs) \<and>
      list_all (made_from repo n issues) new \<and> list_all (\<lambda>t. seq (tasks (db s)) < t_id t) new \<and>
      length rs = length issues \<and> quality_reviews (db s') = quality_reviews (db s) \<and> seq (tasks (db s)) \<le> seq (tasks (db s'))"
  using assms
proof (induction issues arbitrary: s rs)
  case Nil
  then show ?case by simp
next
  case (Cons issue todo)
  obtain r s1 where r: "import_issue w actor repo agent n issue s = (r, s1)" by fastforce
  obtain rs1 where rs: "import_issues w actor repo agent n todo s1 = (rs1, s')" "rs = r # rs1"
    using Cons.prems r by (auto simp: Let_def split: prod.splits)
  from Cons.IH [OF rs(1)] obtain new where new: "rows (tasks (db s')) = rows (tasks (db s1)) @ new"
    "length new = length (filter is_imported rs1)" "list_all (made_from repo n todo) new"
    "list_all (\<lambda>t. seq (tasks (db s1)) < t_id t) new" "length rs1 = length todo"
    "quality_reviews (db s') = quality_reviews (db s1)" "seq (tasks (db s1)) \<le> seq (tasks (db s'))" by blast
  have more: "list_all (made_from repo n (issue # todo)) new"
    using new(3) by (auto simp: list_all_iff intro: made_from_more)
  from r show ?case
  proof (cases rule: import_issue_cases)
    case (imported num mk j)
    have "rows (tasks (db s1)) = rows (tasks (db s)) @ [mk (seq (tasks (db s)) + 1)]"
      "seq (tasks (db s1)) = seq (tasks (db s)) + 1"
      by (simp_all add: imported(5) rows_tbl_insert)
    moreover have "made_from repo n (issue # todo) (mk (seq (tasks (db s)) + 1))"
      using issue_task_row [OF imported(4)] by (auto simp: made_from_def)
    ultimately show ?thesis
      using new more imported(1,6) rs(2) issue_task_row(1) [OF imported(4)]
      by (intro exI [of _ "mk (seq (tasks (db s)) + 1) # new"]) (auto simp: list_all_iff)
  qed (use new more rs(2) in auto)
qed


text \<open>How many tasks are linked to the issue with a number.\<close>

definition links :: "string \<Rightarrow> int \<Rightarrow> int \<Rightarrow> server \<Rightarrow> nat" where
  "links repo n k s = length (filter (linked_task repo (Some (Inl k)) n) (rows (tasks (db s))))"

definition numbered :: "json \<Rightarrow> bool" where
  "numbered issue \<longleftrightarrow> num_field ''number'' issue \<noteq> None"

lemma numbered_bound: "num_field ''number'' issue = Some k \<Longrightarrow> bound_scalar (jget ''number'' issue) = Inr (Some (Inl k))"
  by (auto simp: num_field_def bound_scalar_def split: option.splits json.splits)

lemma links_pos: "0 < links repo n k s \<longleftrightarrow> (\<exists>t \<in> set (rows (tasks (db s))). linked_task repo (Some (Inl k)) n t)"
  by (auto simp: links_def filter_empty_conv)

lemma import_linked:
  assumes "num_field ''number'' issue = Some k" and "0 < links repo n k s"
  shows "import_issue w actor repo agent n issue s = (Skipped, s)"
proof -
  have "tbl_first (linked_task repo (Some (Inl k)) n) (tasks (db s)) \<noteq> None"
    using assms(2) by (auto simp: links_pos tbl_first_def find_None_iff)
  with numbered_bound [OF assms(1)] show ?thesis by (auto simp: import_issue_def)
qed

lemma links_import:
  assumes "import_issue w actor repo agent n issue s = (r, s')"
  shows "links repo n k s \<le> links repo n k s' \<and> (links repo n k s \<le> 1 \<longrightarrow> links repo n k s' \<le> 1) \<and>
    (r \<noteq> Import_failed \<longrightarrow> num_field ''number'' issue = Some k \<longrightarrow> 0 < links repo n k s')"
  using assms
proof (cases rule: import_issue_cases)
  case (imported num mk j)
  have link: "linked_task repo (Some (Inl k)) n (mk i) \<longleftrightarrow> num = Some (Inl k)" for i
    using linked_new_task [OF imported(4,2)] .
  have all: "links repo n k s' = links repo n k s + (if num = Some (Inl k) then 1 else 0)"
    by (simp add: links_def imported(5) rows_tbl_insert link)
  have none: "links repo n k s = 0" if "num = Some (Inl k)"
    using imported(3) that by (auto simp: links_def filter_empty_conv)
  with all imported(2) show ?thesis by (auto dest: numbered_bound)
next
  case (skipped num)
  then have "num = Some (Inl k)" if "num_field ''number'' issue = Some k" using numbered_bound [OF that] by simp
  with skipped show ?thesis by (auto simp: links_pos)
qed simp

lemma links_imports:
  assumes "import_issues w actor repo agent n issues s = (rs, s')"
  shows "links repo n k s \<le> links repo n k s' \<and> (links repo n k s \<le> 1 \<longrightarrow> links repo n k s' \<le> 1) \<and>
    (Import_failed \<notin> set rs \<longrightarrow> (\<forall>issue \<in> set issues. num_field ''number'' issue = Some k \<longrightarrow> 0 < links repo n k s'))"
  using assms
proof (induction issues arbitrary: s rs)
  case Nil
  then show ?case by simp
next
  case (Cons issue todo)
  obtain r s1 where r: "import_issue w actor repo agent n issue s = (r, s1)" by fastforce
  obtain rs1 where rs: "import_issues w actor repo agent n todo s1 = (rs1, s')" "rs = r # rs1"
    using Cons.prems r by (auto simp: Let_def split: prod.splits)
  note step = links_import [OF r, of k]
  have "links repo n k s1 \<le> links repo n k s'" using Cons.IH [OF rs(1)] by blast
  with Cons.IH [OF rs(1)] step rs(2) show ?case by (auto dest: less_le_trans)
qed

lemma imports_again:
  assumes "\<And>issue. issue \<in> set issues \<Longrightarrow> \<exists>k. num_field ''number'' issue = Some k \<and> 0 < links repo n k s"
  shows "import_issues w actor repo agent n issues s = (map (\<lambda>_. Skipped) issues, s)"
  using assms
proof (induction issues)
  case (Cons issue todo)
  obtain k where k: "num_field ''number'' issue = Some k" "0 < links repo n k s" using Cons.prems [of issue] by auto
  with import_linked [OF k, of w actor agent] Cons show ?case by simp
qed simp

lemma handleSync_run:
  assumes "sync_repo w body \<noteq> []" and "getGitHubToken w \<noteq> None"
    and "fetchIssues gh w (sync_repo w body) (sync_params body) = Inr issues"
    and "import_issues w actor (sync_repo w body) (gh_assignAgent body) n issues s = (rs, s')"
  shows "handleSync gh w body actor n s = finish_sync w (sync_repo w body) n rs s'"
  using assms by (cases "getGitHubToken w") (simp_all add: handleSync_def)

lemma finish_sync_tables:
  "tasks (db (snd (finish_sync w repo n rs s))) = tasks (db s)"
  "quality_reviews (db (snd (finish_sync w repo n rs s))) = quality_reviews (db s)"
  "links repo m k (snd (finish_sync w repo n rs s)) = links repo m k s"
  by (simp_all add: finish_sync_def Let_def links_def)


section \<open>Properties\<close>

text \<open>
  C32. A synchronisation in which no issue failed leaves the tasks that were there untouched and exactly one task of the workspace
  for each issue, if none had more than one before; a later import of the same issues, by whomever and when ever, skips all of
  them and changes nothing.
\<close>

theorem sync_imports_once:
  assumes "sync_repo w body \<noteq> []" and "getGitHubToken w \<noteq> None"
    and "fetchIssues gh w (sync_repo w body) (sync_params body) = Inr issues"
    and "list_all numbered issues" and "\<And>k. links (sync_repo w body) n k s \<le> 1"
    and "Import_failed \<notin> set (fst (import_issues w actor (sync_repo w body) (gh_assignAgent body) n issues s))"
    and "handleSync gh w body actor n s = (resp, s')"
  shows "(\<exists>new. rows (tasks (db s')) = rows (tasks (db s)) @ new) \<and>
    list_all (\<lambda>issue. \<exists>k. num_field ''number'' issue = Some k \<and> links (sync_repo w body) n k s' = 1) issues \<and>
    import_issues w' actor' (sync_repo w body) agent' n issues s' = (map (\<lambda>_. Skipped) issues, s')"
proof (intro conjI)
  let ?repo = "sync_repo w body"
  obtain rs s1 where run: "import_issues w actor ?repo (gh_assignAgent body) n issues s = (rs, s1)" by fastforce
  have "finish_sync w ?repo n rs s1 = (resp, s')"
    using handleSync_run [OF assms(1-3) run] assms(7) by simp
  then have same: "tasks (db s') = tasks (db s1)" "links ?repo n k s' = links ?repo n k s1" for k
    using finish_sync_tables(1) [of w ?repo n rs s1] finish_sync_tables(3) [of ?repo n k w n rs s1] by simp_all
  have one: "\<exists>k. num_field ''number'' issue = Some k \<and> links ?repo n k s' = 1" if issue: "issue \<in> set issues" for issue
  proof -
    obtain k where k: "num_field ''number'' issue = Some k"
      using assms(4) issue unfolding list_all_iff numbered_def by blast
    have "0 < links ?repo n k s1" "links ?repo n k s1 \<le> 1"
      using links_imports [OF run, of k] assms(5) [of k] assms(6) run issue k by auto
    with k same(2) [of k] show ?thesis by (intro exI [of _ k]) simp
  qed
  show "\<exists>new. rows (tasks (db s')) = rows (tasks (db s)) @ new"
    using import_issues_rows [OF run] unfolding same(1) by blast
  show "list_all (\<lambda>issue. \<exists>k. num_field ''number'' issue = Some k \<and> links ?repo n k s' = 1) issues"
    using one by (simp add: list_all_iff)
  show "import_issues w' actor' ?repo agent' n issues s' = (map (\<lambda>_. Skipped) issues, s')"
  proof (rule imports_again)
    fix issue assume "issue \<in> set issues"
    from one [OF this] show "\<exists>k. num_field ''number'' issue = Some k \<and> 0 < links ?repo n k s'" by auto
  qed
qed


text \<open>An example: one closed issue with a label, and what GitHub answers.\<close>

definition demo_issue :: json where
  "demo_issue = JObj [(''number'', JNum 7), (''title'', JStr ''Crash''), (''body'', JNull), (''state'', JStr ''closed''),
     (''labels'', JArr [JObj [(''name'', JStr ''critical'')]])]"

definition demo_github :: github_api where
  "demo_github meth url headers body = Inr \<lparr>gr_ok = True, gr_status = 200, gr_text = Inr [], gr_json = Inr (JArr [demo_issue])\<rparr>"

definition github_world :: world where
  "github_world = demo_world\<lparr>getenv := (getenv demo_world)(''GITHUB_TOKEN'' \<mapsto> ''t'')\<rparr>"

definition demo_sync :: github_sync where
  "demo_sync = \<lparr>gh_action = ''sync'', gh_repo = Some ''o/r'', gh_labels = None, gh_state = Some ''all'', gh_assignAgent = None,
     gh_issueNumber = None, gh_body = None, gh_comment = None\<rparr>"

lemma demo_sync_ready:
  "sync_repo github_world demo_sync = ''o/r''" "getGitHubToken github_world = Some ''t''"
  "fetchIssues demo_github github_world ''o/r'' (sync_params demo_sync) = Inr [demo_issue]"
proof -
  show token: "getGitHubToken github_world = Some ''t''"
    by (simp add: getGitHubToken_def github_world_def or_null_def)
  show "sync_repo github_world demo_sync = ''o/r''" by (simp add: sync_repo_def demo_sync_def)
  show "fetchIssues demo_github github_world ''o/r'' (sync_params demo_sync) = Inr [demo_issue]"
    by (simp add: fetchIssues_def githubFetch_def token demo_github_def issues_of_def demo_issue_def truthy_prop_def)
qed

lemma demo_issue_task:
  obtains mk where "issue_task github_world ''mc'' ''o/r'' None 1 demo_issue = Inr mk"
proof -
  obtain iso where "toISOString 1700000000000 = Some iso" by (simp add: toISOString_def valid_time_def)
  then have "issue_metadata github_world ''o/r'' demo_issue \<noteq> Inl e" for e
    by (simp add: issue_metadata_def github_world_def demo_world_def)
  then obtain m where "issue_metadata github_world ''o/r'' demo_issue = Inr m" by (metis sum.exhaust)
  then have "\<exists>mk. issue_task github_world ''mc'' ''o/r'' None 1 demo_issue = Inr mk"
    by (simp add: issue_task_def issue_labels_def demo_issue_def label_priority_def to_lower_def lower_char_def
        truthy_prop_def bind_text_def)
  with that show thesis by blast
qed

lemma demo_import:
  "\<exists>j s1. import_issues github_world ''mc'' ''o/r'' None 1 [demo_issue] init_server = ([Imported j], s1)"
proof -
  obtain r s1 where r: "import_issue github_world ''mc'' ''o/r'' None 1 demo_issue init_server = (r, s1)" by fastforce
  obtain mk where mk: "issue_task github_world ''mc'' ''o/r'' None 1 demo_issue = Inr mk" by (rule demo_issue_task)
  have b: "bound_scalar (jget ''number'' demo_issue) = Inr (Some (Inl 7))" by (simp add: demo_issue_def bound_scalar_def)
  have e: "rows (tasks (db init_server)) = []" by (simp add: init_server_def empty_db_def tbl_empty_def)
  have "\<exists>j. r = Imported j"
  proof -
    show ?thesis using r b e mk issue_task_row(1,2) [OF mk]
      by (auto simp: import_issue_def tbl_first_def tbl_insert_def find_task_def frame_simps Let_def init_server_def empty_db_def
          tbl_empty_def split: option.splits)
  qed
  with r show ?thesis by auto
qed

lemma init_links: "links repo n k init_server = 0"
  by (simp add: links_def init_server_def empty_db_def tbl_empty_def)

theorem sync_imports_once_witness:
  "\<exists>resp s'. handleSync demo_github github_world demo_sync ''mc'' 1 init_server = (resp, s') \<and> links ''o/r'' 1 7 s' = 1 \<and>
     import_issues github_world ''other'' ''o/r'' (Some ''bot'') 1 [demo_issue] s' = ([Skipped], s')"
proof -
  obtain resp s' where run: "handleSync demo_github github_world demo_sync ''mc'' 1 init_server = (resp, s')" by fastforce
  obtain j s1 where j: "import_issues github_world ''mc'' ''o/r'' None 1 [demo_issue] init_server = ([Imported j], s1)"
    using demo_import by blast
  have agent: "gh_assignAgent demo_sync = None" by (simp add: demo_sync_def)
  have num: "num_field ''number'' demo_issue = Some 7" by (simp add: demo_issue_def num_field_def)
  have "list_all (\<lambda>issue. \<exists>k. num_field ''number'' issue = Some k \<and> links ''o/r'' 1 k s' = 1) [demo_issue] \<and>
      import_issues github_world ''other'' ''o/r'' (Some ''bot'') 1 [demo_issue] s' = (map (\<lambda>_. Skipped) [demo_issue], s')"
    using sync_imports_once [where issues = "[demo_issue]" and w' = github_world and actor' = "''other''" and agent' = "Some ''bot''",
        OF _ _ _ _ _ _ run] demo_sync_ready num init_links j agent by (simp add: numbered_def del: import_issues.simps)
  with num run show ?thesis by simp
qed



end
