(* ===== verification/MC_GatewayConfig.thy ===== *)
theory MC_GatewayConfig
  imports MC_AgentSync
begin

text \<open>
  \<open>src/app/api/gateway-config/route.ts\<close>: the configuration file of the gateway is shown with its secrets masked and
  changed by dotted paths. As in \<open>MC_AgentSync\<close>, \<open>oc_config\<close> is what reading and parsing the file gives and
  \<open>oc_file\<close> its text. Names of properties that every object inherits (\<open>constructor\<close>, \<open>__proto__\<close> and
  the like, also on strings, numbers and arrays) are outside the model, and so is a file that exists and cannot be read.
\<close>

definition getConfigPath :: "world \<Rightarrow> string option" where
  "getConfigPath w = (if config_openclawHome w = [] then None else Some (posix_join [config_openclawHome w, ''openclaw.json'']))"

section \<open>GET\<close>

definition sensitiveKeys :: "string list" where
  "sensitiveKeys = [''password'', ''secret'', ''token'', ''api_key'', ''apiKey'']"

definition sensitive :: "string \<Rightarrow> bool" where
  "sensitive k \<longleftrightarrow> list_ex (\<lambda>sk. includes_str sk (to_lower k)) sensitiveKeys"

text \<open>Eight bullets, U+2022.\<close>

definition secret_mask :: string where
  "secret_mask = concat (replicate 8 [CHR 0xE2, CHR 0x80, CHR 0xA2])"

fun mask_string :: "json \<Rightarrow> json" where
  "mask_string (JStr x) = JStr (if x = [] then [] else secret_mask)"
| "mask_string v = v"

fun redactSensitive :: "json \<Rightarrow> json" where
  "redactSensitive (JObj kvs) = JObj (map (\<lambda>(k, v). (k, if sensitive k then mask_string v else redactSensitive v)) kvs)"
| "redactSensitive (JArr vs) = JArr (map redactSensitive vs)"
| "redactSensitive v = v"

definition gateway_config_GET :: "oc_files \<Rightarrow> world \<Rightarrow> request \<Rightarrow> server \<Rightarrow> outcome" where
  "gateway_config_GET fs w req s = with_role w req ''admin'' s (\<lambda>u.
     (case getConfigPath w of
        None \<Rightarrow> (Inr (error_response 404 ''OPENCLAW_HOME not configured''), s)
      | Some path \<Rightarrow>
          (case oc_file fs path of
             None \<Rightarrow> (Inr (json_response 404 (JObj [(''error'', JStr ''Config file not found''), (''path'', JStr path)])), s)
           | Some raw \<Rightarrow>
               (case oc_config fs of
                  Inl e \<Rightarrow> (Inr (error_response 500 (''Failed to read config: '' @ e)), s)
                | Inr parsed \<Rightarrow>
                    (Inr (json_response 200 (JObj [(''path'', JStr path), (''config'', redactSensitive parsed),
                       (''raw_size'', JNum (int (length raw)))])), s)))))"

section \<open>PUT\<close>

definition blockedPaths :: "string list" where
  "blockedPaths = [''gateway.auth.password'', ''gateway.auth.secret'']"

definition blocked_path :: "string \<Rightarrow> bool" where
  "blocked_path key \<longleftrightarrow> list_ex (\<lambda>bp. starts_with bp key) blockedPaths"

text \<open>The array index that a property name spells.\<close>

definition array_index :: "string \<Rightarrow> nat option" where
  "array_index k = (case js_digits k of None \<Rightarrow> None | Some n \<Rightarrow> if show_int n = k then Some (nat n) else None)"

text \<open>Writing behind the end of an array leaves holes, which are written to the file as \<open>null\<close>.\<close>

definition array_put :: "nat \<Rightarrow> json \<Rightarrow> json list \<Rightarrow> json list" where
  "array_put i v vs = (if i < length vs then vs[i := v] else vs @ replicate (i - length vs) JNull @ [v])"

fun primitive_text :: "json \<Rightarrow> string" where
  "primitive_text (JStr x) = ''string '' @ [CHR 0x27] @ x @ [CHR 0x27]"
| "primitive_text (JNum n) = ''number '' @ [CHR 0x27] @ show_int n @ [CHR 0x27]"
| "primitive_text (JBool b) = ''boolean '' @ [CHR 0x27] @ (if b then ''true'' else ''false'') @ [CHR 0x27]"
| "primitive_text _ = []"

definition cannot_create :: "string \<Rightarrow> json \<Rightarrow> string" where
  "cannot_create k v = ''Cannot create property '' @ [CHR 0x27] @ k @ [CHR 0x27] @ '' on '' @ primitive_text v"

definition null_property :: "string \<Rightarrow> string \<Rightarrow> string" where
  "null_property what k = ''Cannot '' @ what @ '' properties of null ('' @ (if what = ''set'' then ''setting'' else ''reading'') @
     '' '' @ [CHR 0x27] @ k @ [CHR 0x27] @ '')''"

text \<open>
  \<open>setNestedValue\<close>: the objects on the way are made when they are missing; a property of an array that is no index
  does not reach the file.
\<close>

fun set_nested :: "string list \<Rightarrow> json \<Rightarrow> json \<Rightarrow> string + json" where
  "set_nested [] v current = Inr current"
| "set_nested [k] v current =
     (case current of
        JObj kvs \<Rightarrow> Inr (JObj (AList.update k v kvs))
      | JArr vs \<Rightarrow> Inr (JArr (case array_index k of None \<Rightarrow> vs | Some i \<Rightarrow> array_put i v vs))
      | JNull \<Rightarrow> Inl (null_property ''set'' k)
      | _ \<Rightarrow> Inl (cannot_create k current))"
| "set_nested (k # k' # ks) v current =
     (case current of
        JObj kvs \<Rightarrow>
          map_sum id (\<lambda>c. JObj (AList.update k c kvs))
            (set_nested (k' # ks) v (case map_of kvs k of None \<Rightarrow> JObj [] | Some c \<Rightarrow> c))
      | JArr vs \<Rightarrow>
          (case array_index k of
             None \<Rightarrow> Inr current
           | Some i \<Rightarrow> map_sum id (\<lambda>c. JArr (array_put i c vs))
               (set_nested (k' # ks) v (if i < length vs then vs ! i else JObj [])))
      | JNull \<Rightarrow> Inl (null_property ''read'' k)
      | _ \<Rightarrow> Inl (cannot_create k current))"

definition setNestedValue :: "json \<Rightarrow> string \<Rightarrow> json \<Rightarrow> string + json" where
  "setNestedValue obj path v = set_nested (split_on CHR ''.'' path) v obj"

fun apply_updates :: "(string \<times> json) list \<Rightarrow> json \<Rightarrow> string + json" where
  "apply_updates [] c = Inr c"
| "apply_updates ((path, v) # us) c = (case setNestedValue c path v of Inl e \<Rightarrow> Inl e | Inr c' \<Rightarrow> apply_updates us c')"

text \<open>\<open>JSON.stringify(v, null, 2)\<close>\<close>

definition newline_indent :: "nat \<Rightarrow> string" where
  "newline_indent d = char_of (10 :: nat) # replicate (2 * d) CHR '' ''"

fun pretty :: "nat \<Rightarrow> json \<Rightarrow> string" where
  "pretty d (JArr vs) = (if vs = [] then ''[]''
     else ''['' @ newline_indent (d + 1) @ join_with ('','' @ newline_indent (d + 1)) (map (pretty (d + 1)) vs) @
       newline_indent d @ '']'')"
| "pretty d (JObj kvs) = (if kvs = [] then ''{}''
     else ''{'' @ newline_indent (d + 1) @
       join_with ('','' @ newline_indent (d + 1)) (map (\<lambda>(k, v). quote_str k @ '': '' @ pretty (d + 1) v) kvs) @
       newline_indent d @ ''}'')"
| "pretty d v = stringify v"

definition write_config :: "string \<Rightarrow> json \<Rightarrow> oc_files \<Rightarrow> oc_files" where
  "write_config path c fs = fs\<lparr>oc_config := Inr c, oc_file := (oc_file fs)(path \<mapsto> pretty 0 c @ [char_of (10 :: nat)])\<rparr>"

definition put_gateway_config ::
  "(string \<Rightarrow> string) \<Rightarrow> world \<Rightarrow> request \<Rightarrow> user \<Rightarrow> string \<Rightarrow> (string \<times> json) list \<Rightarrow> oc_files \<Rightarrow> server \<Rightarrow>
     outcome \<times> oc_files"
where
  "put_gateway_config denied w req u path updates fs s =
     (let failed = (\<lambda>e. ((Inr (error_response 500 (''Failed to update config: '' @ e)), s), fs)); keys = map fst updates in
      case find blocked_path keys of
        Some key \<Rightarrow> ((Inr (error_response 403 (''Cannot modify protected field: '' @ key)), s), fs)
      | None \<Rightarrow>
          (case (case oc_config fs of Inl e \<Rightarrow> Inl e | Inr parsed \<Rightarrow> apply_updates updates parsed) of
             Inl e \<Rightarrow> failed e
           | Inr c \<Rightarrow>
               if \<not> oc_writable fs path then failed (denied path)
               else ((Inr (json_response 200 (JObj [(''updated'', JArr (map JStr keys)), (''count'', JNum (int (length keys)))])),
                      logAuditEvent w ((audit_event0 ''gateway_config_update'' (usr_username u))\<lparr>ae_actor_id := Some (usr_id u),
                        ae_detail := Some (JObj [(''updated_keys'', JArr (map JStr keys))]), ae_ip_address := Some (client_ip req)\<rparr>) s),
                     write_config path c fs)))"

text \<open>The message of a write that the file system refuses is an argument.\<close>

definition gateway_config_PUT ::
  "(string \<times> json) list schema \<Rightarrow> (string \<Rightarrow> string) \<Rightarrow> world \<Rightarrow> request \<Rightarrow> oc_files \<Rightarrow> server \<Rightarrow> outcome \<times> oc_files"
where
  "gateway_config_PUT gatewayConfigUpdateSchema denied w req fs s =
     role_files w req ''admin'' fs s (\<lambda>u. limited_files w req fs s (\<lambda>s'.
       (case getConfigPath w of
          None \<Rightarrow> ((Inr (error_response 404 ''OPENCLAW_HOME not configured''), s'), fs)
        | Some path \<Rightarrow>
            (case validateBody gatewayConfigUpdateSchema req of
               Inl r \<Rightarrow> ((Inr r, s'), fs)
             | Inr updates \<Rightarrow> put_gateway_config denied w req u path updates fs s'))))"

section \<open>What a path reaches\<close>

fun get_nested :: "string list \<Rightarrow> json \<Rightarrow> json option" where
  "get_nested [] v = Some v"
| "get_nested (k # ks) v = Option.bind (jget k v) (get_nested ks)"

text \<open>Two paths that part in an object do not touch each other.\<close>

definition apart :: "string list \<Rightarrow> string list \<Rightarrow> bool" where
  "apart p q \<longleftrightarrow> take (length p) q \<noteq> p \<and> take (length q) p \<noteq> q"

lemma apart_Cons [simp]: "apart (k # p) (k' # q) \<longleftrightarrow> k \<noteq> k' \<or> apart p q" "\<not> apart [] q" "\<not> apart p []"
  by (auto simp: apart_def)

lemma get_nested_empty: "get_nested (k # ks) (JObj []) = None"
  by simp

lemma map_sum_Inr: "map_sum id f x = Inr y \<longleftrightarrow> (\<exists>d. x = Inr d \<and> y = f d)"
  by (cases x) auto

lemma set_nested_apart:
  "set_nested p v c = Inr c' \<Longrightarrow> apart p q \<Longrightarrow> get_nested q c' = get_nested q c"
proof (induction p v c arbitrary: c' q rule: set_nested.induct)
  case (2 k v c)
  then obtain k' q' where q: "q = k' # q'" by (cases q) auto
  with 2 show ?case by (cases c) (auto simp: update_conv' split: option.splits)
next
  case (3 k k1 ks v c)
  then obtain k' q' where q: "q = k' # q'" by (cases q) auto
  show ?case
  proof (cases c)
    case (JObj kvs)
    let ?d = "case map_of kvs k of None \<Rightarrow> JObj [] | Some x \<Rightarrow> x"
    obtain d where d: "set_nested (k1 # ks) v ?d = Inr d" "c' = JObj (AList.update k d kvs)"
      using 3(3) JObj by (cases "set_nested (k1 # ks) v ?d") auto
    show ?thesis
    proof (cases "k' = k")
      case True
      with 3(4) q have part: "apart (k1 # ks) q'" by simp
      then have "q' \<noteq> []" by auto
      then have "get_nested q' (JObj []) = None" by (cases q') auto
      with 3(2) [OF JObj d(1) part] d(2) JObj q True show ?thesis
        by (cases "map_of kvs k") (auto simp: update_conv')
    next
      case False
      with d(2) JObj q show ?thesis by (simp add: update_conv')
    qed
  next
    case (JArr vs)
    with 3(3) q show ?thesis by (auto simp: map_sum_Inr split: option.splits)
  qed (use 3(3) in simp_all)
qed simp


lemma apply_updates_apart:
  "apply_updates us c = Inr c' \<Longrightarrow> (\<And>path. path \<in> set (map fst us) \<Longrightarrow> apart (split_on CHR ''.'' path) q) \<Longrightarrow>
   get_nested q c' = get_nested q c"
proof (induction us arbitrary: c)
  case (Cons u us)
  obtain path v where u: "u = (path, v)" by fastforce
  obtain c1 where c1: "set_nested (split_on CHR ''.'' path) v c = Inr c1" "apply_updates us c1 = Inr c'"
    using Cons.prems(1) u by (auto simp: setNestedValue_def split: sum.splits)
  then have "get_nested q c1 = get_nested q c" using set_nested_apart Cons.prems(2) u by simp
  with Cons.IH [OF c1(2)] Cons.prems(2) show ?case by simp
qed simp

lemma put_gateway_config_changes:
  assumes "put_gateway_config denied w req u path updates fs s = (out, fs')" and "oc_config fs = Inr c"
  obtains (same) "fs' = fs"
    | (written) c' where "find blocked_path (map fst updates) = None" "apply_updates updates c = Inr c'"
        "fs' = write_config path c' fs"
  using assms by (auto simp: put_gateway_config_def Let_def split: option.splits sum.splits if_splits)

text \<open>Which accepted paths meet a protected one.\<close>

definition protected :: "string list list" where
  "protected = [[''gateway'', ''auth'', ''password''], [''gateway'', ''auth'', ''secret'']]"

lemma join_with_append: "xs \<noteq> [] \<Longrightarrow> ys \<noteq> [] \<Longrightarrow> join_with c (xs @ ys) = join_with c xs @ c @ join_with c ys"
  by (induction c xs rule: join_with.induct) (cases ys; simp)+

lemma unblocked_apart:
  assumes "\<not> blocked_path path" and "q \<in> set protected" and "path \<noteq> ''gateway''" and "path \<noteq> ''gateway.auth''"
  shows "apart (split_on CHR ''.'' path) q"
proof (rule ccontr)
  let ?p = "split_on CHR ''.'' path"
  have path: "path = join_with ''.'' ?p" using join_split_on [of "CHR ''.''" path] by simp
  assume "\<not> apart ?p q"
  then consider "take (length ?p) q = ?p" | "take (length q) ?p = q" by (auto simp: apart_def)
  then show False
  proof cases
    case 1
    have "length ?p \<noteq> 0" by simp
    then consider "length ?p = 1" | "length ?p = 2" | "3 \<le> length ?p" by linarith
    then have "?p = [''gateway''] \<or> ?p = [''gateway'', ''auth''] \<or> ?p = q"
      using 1 assms(2) by cases (auto simp: protected_def numeral_2_eq_2)
    with path assms show False
      by (auto simp: protected_def blocked_path_def blockedPaths_def starts_with_def)
  next
    case 2
    then obtain r where r: "?p = q @ r" by (metis append_take_drop_id)
    have "starts_with (join_with ''.'' q) path"
    proof (cases r)
      case Nil
      with r path show ?thesis by (simp add: starts_with_def)
    next
      case (Cons x xs)
      have "q \<noteq> []" using assms(2) by (auto simp: protected_def)
      with r Cons path have "path = join_with ''.'' q @ ''.'' @ join_with ''.'' r" by (simp add: join_with_append)
      then show ?thesis by (metis starts_with_append)
    qed
    with assms(1,2) show False by (auto simp: protected_def blocked_path_def blockedPaths_def)
  qed
qed


subsection \<open>What is shown\<close>

fun shown_masked :: "json \<Rightarrow> bool" where
  "shown_masked (JObj kvs) = list_all (\<lambda>(k, v). if sensitive k then (case v of JStr x \<Rightarrow> x = [] \<or> x = secret_mask | _ \<Rightarrow> True) else shown_masked v) kvs"
| "shown_masked (JArr vs) = list_all shown_masked vs"
| "shown_masked v = True"

lemma no_upper_k: "CHR ''K'' \<notin> set (to_lower s)"
proof
  assume "CHR ''K'' \<in> set (to_lower s)"
  then obtain c where c: "lower_char c = CHR ''K''" by (auto simp: to_lower_def)
  let ?n = "of_char c :: nat"
  show False
  proof (cases "65 \<le> ?n \<and> ?n \<le> 90")
    case True
    then have "of_char (lower_char c) = (?n + 32 :: nat)" by (simp add: lower_char_def Let_def)
    with c True show False by simp
  next
    case False
    with c show False by (auto simp: lower_char_def Let_def split: if_splits)
  qed
qed

lemma sensitive_iff: "sensitive k \<longleftrightarrow> (\<exists>sk \<in> {''password'', ''secret'', ''token'', ''api_key''}. includes_str sk (to_lower k))"
proof -
  have "\<not> includes_str ''apiKey'' (to_lower k)" using no_upper_k [of k] by (auto simp: includes_str_iff)
  then show ?thesis by (auto simp: sensitive_def sensitiveKeys_def)
qed

lemma masked_redact: "shown_masked (redactSensitive c)"
proof (induction c rule: redactSensitive.induct)
  case (1 kvs)
  have "case mask_string v of JStr x \<Rightarrow> x = [] \<or> x = secret_mask | _ \<Rightarrow> True" for v by (cases v) auto
  with 1 show ?case by (fastforce simp: list_all_iff)
qed (auto simp: list_all_iff)


section \<open>Properties\<close>

text \<open>
  C34. A request to change the configuration leaves the password and the secret of the gateway as they were, unless it names
  \<open>gateway\<close> or \<open>gateway.auth\<close> itself: these two paths pass the check, and with them a request replaces the password.
\<close>

theorem protected_fields_kept:
  assumes "put_gateway_config denied w req u path updates fs s = (out, fs')" and "oc_config fs = Inr c"
  shows "(\<exists>c'. oc_config fs' = Inr c' \<and> (''gateway'' \<notin> set (map fst updates) \<longrightarrow> ''gateway.auth'' \<notin> set (map fst updates) \<longrightarrow>
      (\<forall>q \<in> set protected. get_nested q c' = get_nested q c))) \<and>
    (\<forall>auth p. oc_writable fs path \<longrightarrow> c = JObj [(''gateway'', JObj [(''auth'', auth)])] \<longrightarrow>
       updates = [(''gateway.auth'', JObj [(''password'', JStr p)])] \<longrightarrow>
       Option.bind (case oc_config fs' of Inl e \<Rightarrow> None | Inr c' \<Rightarrow> Some c') (get_nested [''gateway'', ''auth'', ''password'']) =
         Some (JStr p))"
proof (intro conjI allI impI)
  show "\<exists>c'. oc_config fs' = Inr c' \<and> (''gateway'' \<notin> set (map fst updates) \<longrightarrow> ''gateway.auth'' \<notin> set (map fst updates) \<longrightarrow>
      (\<forall>q \<in> set protected. get_nested q c' = get_nested q c))"
    using assms
  proof (cases rule: put_gateway_config_changes)
    case (written c')
    have "get_nested q c' = get_nested q c"
      if "''gateway'' \<notin> set (map fst updates)" "''gateway.auth'' \<notin> set (map fst updates)" "q \<in> set protected" for q
    proof (rule apply_updates_apart [OF written(2)])
      fix p assume p: "p \<in> set (map fst updates)"
      with written(1) have "\<not> blocked_path p" by (auto simp: find_None_iff)
      moreover have "p \<noteq> ''gateway''" "p \<noteq> ''gateway.auth''" using that(1,2) p by metis+
      ultimately show "apart (split_on CHR ''.'' p) q" using that(3) by (intro unblocked_apart)
    qed
    with written(3) show ?thesis by (auto simp: write_config_def)
  qed (use assms(2) in auto)
next
  fix auth p
  assume "oc_writable fs path" "c = JObj [(''gateway'', JObj [(''auth'', auth)])]"
    "updates = [(''gateway.auth'', JObj [(''password'', JStr p)])]"
  then have "fs' = write_config path (JObj [(''gateway'', JObj [(''auth'', JObj [(''password'', JStr p)])])]) fs"
    using assms by (simp add: put_gateway_config_def blocked_path_def blockedPaths_def starts_with_def setNestedValue_def Let_def)
  then show "Option.bind (case oc_config fs' of Inl e \<Rightarrow> None | Inr c' \<Rightarrow> Some c') (get_nested [''gateway'', ''auth'', ''password'']) =
      Some (JStr p)"
    by (simp add: write_config_def)
qed

text \<open>
  The configuration that \<open>GET\<close> shows has no text under a name that contains password, secret, token or api_key in any case,
  outside of what already stands under such a name; only the mask, or an empty text. A text under the name apiKey is shown
  as it is, although the name is in the list.
\<close>

theorem shown_config_masked:
  "(case gateway_config_GET fs w req s of
      (Inr r, s') \<Rightarrow> s' = s \<and> (case jget ''config'' (resp_body r) of Some c \<Rightarrow> shown_masked c | None \<Rightarrow> True)
    | (Inl e, s') \<Rightarrow> s' = s) \<and>
   (\<forall>k. sensitive k \<longleftrightarrow> (\<exists>sk \<in> {''password'', ''secret'', ''token'', ''api_key''}. includes_str sk (to_lower k))) \<and>
   redactSensitive (JObj [(''apiKey'', JStr x)]) = JObj [(''apiKey'', JStr x)]"
proof (intro conjI)
  show "case gateway_config_GET fs w req s of
      (Inr r, s') \<Rightarrow> s' = s \<and> (case jget ''config'' (resp_body r) of Some c \<Rightarrow> shown_masked c | None \<Rightarrow> True)
    | (Inl e, s') \<Rightarrow> s' = s"
    by (auto simp: gateway_config_GET_def with_role_def masked_redact error_response_def json_response_def
        split: sum.split auth_result.split option.split)
  show "\<forall>k. sensitive k \<longleftrightarrow> (\<exists>sk \<in> {''password'', ''secret'', ''token'', ''api_key''}. includes_str sk (to_lower k))"
    using sensitive_iff by blast
  show "redactSensitive (JObj [(''apiKey'', JStr x)]) = JObj [(''apiKey'', JStr x)]"
    by (simp add: sensitive_iff to_lower_def lower_char_def includes_str_def starts_with_def)
qed

definition demo_config_files :: oc_files where
  "demo_config_files = \<lparr>oc_cwd = ''/'', oc_home = ''/oc'',
     oc_config = Inr (JObj [(''gateway'', JObj [(''auth'', JObj [(''password'', JStr ''old'')])])]),
     oc_file = Map.empty, oc_listing = Map.empty, oc_writable = (\<lambda>p. True)\<rparr>"

theorem protected_fields_kept_witness:
  "\<exists>out fs'. put_gateway_config id demo_world demo_request (api_user init_server) ''/oc/openclaw.json''
       [(''gateway.auth'', JObj [(''password'', JStr ''new'')])] demo_config_files init_server = (out, fs') \<and>
     Option.bind (case oc_config fs' of Inl e \<Rightarrow> None | Inr c' \<Rightarrow> Some c') (get_nested [''gateway'', ''auth'', ''password'']) =
       Some (JStr ''new'')"
proof -
  obtain out fs' where run: "put_gateway_config id demo_world demo_request (api_user init_server) ''/oc/openclaw.json''
       [(''gateway.auth'', JObj [(''password'', JStr ''new'')])] demo_config_files init_server = (out, fs')" by fastforce
  have "oc_config demo_config_files = Inr (JObj [(''gateway'', JObj [(''auth'', JObj [(''password'', JStr ''old'')])])])"
    "oc_writable demo_config_files ''/oc/openclaw.json''"
    by (simp_all add: demo_config_files_def)
  with protected_fields_kept [OF run this(1)] run show ?thesis by blast
qed

end
