(* ===== verification/MC_Cron.thy ===== *)
theory MC_Cron
  imports MC_Chat
begin

text \<open>
  \<open>src/app/api/cron/route.ts\<close>: the jobs that the gateway runs at fixed times, in a JSON file of its own. The file is
  the value that reading and parsing it gives, \<open>None\<close> when that fails; \<open>JSON.parse\<close> of \<open>JSON.stringify\<close> of a value is that value.
  A file that holds no object, an id or a message of a job that is not a text, and a time that is not a number, are outside the
  model.
\<close>

section \<open>Jobs\<close>

text \<open>\<open>v.k\<close>: reading a property of \<open>undefined\<close> or \<open>null\<close> throws.\<close>

definition no_prop :: "string \<Rightarrow> string \<Rightarrow> string" where
  "no_prop what k = ''Cannot read properties of '' @ what @ '' (reading '' @ [CHR 0x27] @ k @ [CHR 0x27] @ '')''"

definition read_prop :: "string \<Rightarrow> json option \<Rightarrow> string + json option" where
  "read_prop k v = (case v of None \<Rightarrow> Inl (no_prop ''undefined'' k) | Some JNull \<Rightarrow> Inl (no_prop ''null'' k) | Some x \<Rightarrow> Inr (jget k x))"

text \<open>\<open>v?.k\<close>\<close>

definition opt_prop :: "string \<Rightarrow> json option \<Rightarrow> json option" where
  "opt_prop k v = (case v of None \<Rightarrow> None | Some x \<Rightarrow> jget k x)"

text \<open>\<open>===\<close> with a value of the request: two objects are never the same one.\<close>

fun strict_eq :: "json \<Rightarrow> json option \<Rightarrow> bool" where
  "strict_eq (JObj _) v = False"
| "strict_eq (JArr _) v = False"
| "strict_eq x v = (v = Some x)"

definition is_job :: "json \<Rightarrow> json \<Rightarrow> bool" where
  "is_job i j \<longleftrightarrow> strict_eq i (jget ''id'' j) \<or> strict_eq i (jget ''name'' j)"

text \<open>\<open>cronFile.jobs\<close>, on which array methods are called.\<close>

definition jobs_of :: "json \<Rightarrow> string + json list" where
  "jobs_of f = (case f of
     JNull \<Rightarrow> Inl (no_prop ''null'' ''jobs'')
   | _ \<Rightarrow> (case jget ''jobs'' f of
       Some (JArr js) \<Rightarrow> Inr js
     | None \<Rightarrow> Inl (no_prop ''undefined'' ''find'')
     | Some JNull \<Rightarrow> Inl (no_prop ''null'' ''find'')
     | Some _ \<Rightarrow> Inl ''jobs.find is not a function''))"

text \<open>The position of the first job with the id or the name; \<open>null\<close> in its way throws.\<close>

fun job_index :: "json \<Rightarrow> json list \<Rightarrow> string + nat option" where
  "job_index i [] = Inr None"
| "job_index i (j # js) =
     (if j = JNull then Inl (no_prop ''null'' ''id'')
      else if is_job i j then Inr (Some 0)
      else map_sum id (map_option Suc) (job_index i js))"

definition set_jobs :: "json list \<Rightarrow> json \<Rightarrow> json" where
  "set_jobs js f = (case f of JObj kvs \<Rightarrow> JObj (AList.update ''jobs'' (JArr js) kvs) | _ \<Rightarrow> f)"

text \<open>\<open>deduplicateJobs\<close>: a \<open>Map\<close> by name keeps the position of the first job of a name and the value of the newest.\<close>

definition created_ms :: "json \<Rightarrow> int" where
  "created_ms j = (case jget ''createdAtMs'' j of Some (JNum n) \<Rightarrow> n | _ \<Rightarrow> 0)"

definition dedupe_step :: "json \<Rightarrow> (json option \<times> json) list \<Rightarrow> (json option \<times> json) list" where
  "dedupe_step job latest =
     (case map_of latest (jget ''name'' job) of
        None \<Rightarrow> latest @ [(jget ''name'' job, job)]
      | Some existing \<Rightarrow>
          if created_ms existing < created_ms job then AList.update (jget ''name'' job) job latest else latest)"

definition deduplicateJobs :: "json list \<Rightarrow> json list" where
  "deduplicateJobs jobs = map snd (fold dedupe_step jobs [])"

fun str_of :: "json option \<Rightarrow> string option" where
  "str_of (Some (JStr x)) = Some x"
| "str_of _ = None"

definition mapLastStatus :: "json option \<Rightarrow> string option" where
  "mapLastStatus status = (case or_null (str_of status) of
     None \<Rightarrow> None
   | Some v \<Rightarrow>
       (let s = to_lower v in
        if s = ''success'' \<or> s = ''completed'' \<or> s = ''updated'' then Some ''success''
        else if s = ''error'' \<or> s = ''failed'' then Some ''error''
        else if s = ''running'' \<or> s = ''pending'' then Some ''running''
        else Some ''success''))"

definition payload_summary :: "json option \<Rightarrow> json option \<Rightarrow> json \<Rightarrow> string" where
  "payload_summary msg kind job = (case or_null (str_of msg) of
     Some m \<Rightarrow> take 200 m @ (if 200 < length m then ''...'' else [])
   | None \<Rightarrow> template_str kind @ '' ('' @ template_str (jget ''agentId'' job) @ '')'')"

definition opt_pair :: "string \<Rightarrow> json option \<Rightarrow> (string \<times> json) list" where
  "opt_pair k v = jopt k id v"

definition mapOpenClawJob :: "json \<Rightarrow> string + json" where
  "mapOpenClawJob job =
     (case (read_prop ''message'' (jget ''payload'' job), read_prop ''tz'' (jget ''schedule'' job)) of
        (Inl e, _) \<Rightarrow> Inl e
      | (_, Inl e) \<Rightarrow> Inl e
      | (Inr msg, Inr tz) \<Rightarrow>
          (let payload = jget ''payload'' job; expr = opt_prop ''expr'' (jget ''schedule'' job); state = jget ''state'' job;
               schedule = (case tz of Some t \<Rightarrow> if truthy t then Some (JStr (template_str expr @ '' ('' @ js_String t @ '')'')) else expr
                           | None \<Rightarrow> expr);
               delivery = jget ''delivery'' job
           in Inr (JObj (opt_pair ''id'' (jget ''id'' job) @ opt_pair ''name'' (jget ''name'' job) @ opt_pair ''schedule'' schedule @
                [(''command'', JStr (payload_summary msg (opt_prop ''kind'' payload) job))] @
                opt_pair ''enabled'' (jget ''enabled'' job) @ opt_pair ''lastRun'' (opt_prop ''lastRunAtMs'' state) @
                opt_pair ''nextRun'' (opt_prop ''nextRunAtMs'' state) @
                jopt ''lastStatus'' JStr (mapLastStatus (opt_prop ''lastStatus'' state)) @
                opt_pair ''lastError'' (opt_prop ''lastError'' state) @ opt_pair ''agentId'' (jget ''agentId'' job) @
                opt_pair ''timezone'' tz @ opt_pair ''model'' (opt_prop ''model'' payload) @
                opt_pair ''delivery'' (if opt_prop ''mode'' delivery = Some (JStr ''none'') then None
                                       else opt_prop ''channel'' delivery)))))"

fun map_jobs :: "json list \<Rightarrow> string + json list" where
  "map_jobs [] = Inr []"
| "map_jobs (j # js) = (case (mapOpenClawJob j, map_jobs js) of
     (Inr x, Inr xs) \<Rightarrow> Inr (x # xs) | (Inl e, _) \<Rightarrow> Inl e | (_, Inl e) \<Rightarrow> Inl e)"

section \<open>The file\<close>

type_synonym cron_file = "json option"

definition loadCronFile :: "world \<Rightarrow> cron_file \<Rightarrow> json option" where
  "loadCronFile w f = (if config_openclawHome w = [] then None else case f of Some JNull \<Rightarrow> None | _ \<Rightarrow> f)"

definition saveCronFile :: "bool \<Rightarrow> world \<Rightarrow> json \<Rightarrow> cron_file \<Rightarrow> bool \<times> cron_file" where
  "saveCronFile writable w d f = (if config_openclawHome w \<noteq> [] \<and> writable then (True, Some d) else (False, f))"

section \<open>GET\<close>

text \<open>An exception is answered with 500.\<close>

definition cron_error :: response where
  "cron_error = error_response 500 ''Internal server error''"

definition list_jobs :: "world \<Rightarrow> cron_file \<Rightarrow> response" where
  "list_jobs w f =
     (case loadCronFile w f of
        None \<Rightarrow> json_response 200 (JObj [(''jobs'', JArr [])])
      | Some c \<Rightarrow>
          if truthy_prop ''jobs'' c = None then json_response 200 (JObj [(''jobs'', JArr [])])
          else (case jobs_of c of
             Inl e \<Rightarrow> cron_error
           | Inr js \<Rightarrow>
               if JNull \<in> set js then cron_error
               else (case map_jobs (deduplicateJobs js) of
                  Inl e \<Rightarrow> cron_error
                | Inr xs \<Rightarrow> json_response 200 (JObj [(''jobs'', JArr xs)]))))"

definition truthy_value :: "json option \<Rightarrow> json option" where
  "truthy_value v = (case v of None \<Rightarrow> None | Some x \<Rightarrow> if truthy x then Some x else None)"

definition log_entry :: "json \<Rightarrow> string \<Rightarrow> string \<Rightarrow> json" where
  "log_entry ts msg level = JObj [(''timestamp'', ts), (''message'', JStr msg), (''level'', JStr level)]"

text \<open>The dash of the message is U+2014; \<open>local_time\<close> is \<open>toLocaleString\<close> of a time.\<close>

definition job_logs :: "(json \<Rightarrow> string) \<Rightarrow> world \<Rightarrow> json option \<Rightarrow> json list" where
  "job_logs local_time w state =
     (let status = opt_prop ''lastStatus'' state; run = truthy_value (opt_prop ''lastRunAtMs'' state) in
      (case run of None \<Rightarrow> []
       | Some t \<Rightarrow> [log_entry t (''Job executed '' @ [CHR 0xE2, CHR 0x80, CHR 0x94] @ '' status: '' @
            template_str (Some (case truthy_value status of None \<Rightarrow> JStr ''unknown'' | Some v \<Rightarrow> v)) @
            (case truthy_value (opt_prop ''lastDurationMs'' state) of None \<Rightarrow> [] | Some d \<Rightarrow> '' ('' @ js_String d @ ''ms)''))
            (if status = Some (JStr ''error'') \<or> status = Some (JStr ''failed'') then ''error'' else ''info'')]) @
      (case truthy_value (opt_prop ''lastError'' state) of None \<Rightarrow> []
       | Some e \<Rightarrow> [log_entry (case run of None \<Rightarrow> JNum (now_ms w) | Some t \<Rightarrow> t) (''Error: '' @ js_String e) ''error'']) @
      (case truthy_value (opt_prop ''nextRunAtMs'' state) of None \<Rightarrow> []
       | Some t \<Rightarrow> [log_entry (JNum (now_ms w)) (''Next scheduled run: '' @ local_time t) ''info'']))"

definition show_logs :: "(json \<Rightarrow> string) \<Rightarrow> world \<Rightarrow> request \<Rightarrow> cron_file \<Rightarrow> response" where
  "show_logs local_time w req f =
     (case nonempty_param req ''job'' of
        None \<Rightarrow> error_response 400 ''Job ID required''
      | Some jobId \<Rightarrow>
          (case loadCronFile w f of
             None \<Rightarrow> json_response 200 (JObj [(''logs'', JArr [])])
           | Some c \<Rightarrow>
               (case (case jobs_of c of Inl e \<Rightarrow> Inl e | Inr js \<Rightarrow> map_sum id (map_option ((!) js)) (job_index (JStr jobId) js)) of
                  Inl e \<Rightarrow> cron_error
                | Inr job \<Rightarrow> json_response 200 (JObj [(''logs'',
                    JArr (job_logs local_time w (opt_prop ''state'' job)))]))))"

definition cron_GET :: "(json \<Rightarrow> string) \<Rightarrow> world \<Rightarrow> request \<Rightarrow> cron_file \<Rightarrow> server \<Rightarrow> outcome" where
  "cron_GET local_time w req f s = with_role w req ''admin'' s (\<lambda>u.
     (Inr (if req_query req ''action'' = Some ''list'' then list_jobs w f
           else if req_query req ''action'' = Some ''logs'' then show_logs local_time w req f
           else error_response 400 ''Invalid action''), s))"

section \<open>POST\<close>

text \<open>Base 36, as in \<open>toString(36)\<close> of a time.\<close>

fun show_base36 :: "nat \<Rightarrow> string" where
  "show_base36 n = (let d = n mod 36; c = (if d < 10 then char_of (48 + d) else char_of (87 + d))
     in if n < 36 then [c] else show_base36 (n div 36) @ [c])"

declare show_base36.simps [simp del]

definition cron_reply :: "nat \<Rightarrow> (string \<times> json) list \<Rightarrow> response" where
  "cron_reply st kvs = json_response st (JObj kvs)"

definition job_key :: "json \<Rightarrow> json option" where
  "job_key body = (case truthy_prop ''jobId'' body of None \<Rightarrow> truthy_prop ''jobName'' body | Some i \<Rightarrow> Some i)"

text \<open>The change is written back; when that fails the file is as it was.\<close>

definition saved :: "bool \<Rightarrow> world \<Rightarrow> json \<Rightarrow> cron_file \<Rightarrow> response \<Rightarrow> response \<times> cron_file" where
  "saved writable w d f r = (case saveCronFile writable w d f of
     (True, f') \<Rightarrow> (r, f') | (False, f') \<Rightarrow> (error_response 500 ''Failed to save cron file'', f'))"

definition toggled :: "world \<Rightarrow> json \<Rightarrow> json" where
  "toggled w j = (case j of
     JObj kvs \<Rightarrow> JObj (AList.update ''updatedAtMs'' (JNum (now_ms w))
       (AList.update ''enabled'' (JBool (truthy_prop ''enabled'' j = None)) kvs))
   | _ \<Rightarrow> j)"

text \<open>What \<open>toggle\<close> and \<open>remove\<close> share: the job is looked for, the list changed, the file written.\<close>

definition change_job ::
  "bool \<Rightarrow> world \<Rightarrow> json \<Rightarrow> cron_file \<Rightarrow> (nat \<Rightarrow> json list \<Rightarrow> json list \<times> response) \<Rightarrow> response \<times> cron_file"
where
  "change_job writable w body f k =
     (case job_key body of
        None \<Rightarrow> (error_response 400 ''Job ID or name required'', f)
      | Some i \<Rightarrow>
          (case loadCronFile w f of
             None \<Rightarrow> (error_response 404 ''Cron file not found'', f)
           | Some c \<Rightarrow>
               (case jobs_of c of
                  Inl e \<Rightarrow> (cron_error, f)
                | Inr js \<Rightarrow>
                    (case job_index i js of
                       Inl e \<Rightarrow> (cron_error, f)
                     | Inr None \<Rightarrow> (error_response 404 ''Job not found'', f)
                     | Inr (Some n) \<Rightarrow> (let (js', r) = k n js in saved writable w (set_jobs js' c) f r)))))"

definition toggle_job :: "bool \<Rightarrow> world \<Rightarrow> json \<Rightarrow> cron_file \<Rightarrow> response \<times> cron_file" where
  "toggle_job writable w body f = change_job writable w body f (\<lambda>n js.
     (js[n := toggled w (js ! n)],
      cron_reply 200 [(''success'', JBool True), (''enabled'', JBool (truthy_prop ''enabled'' (js ! n) = None))]))"

definition remove_job :: "bool \<Rightarrow> world \<Rightarrow> json \<Rightarrow> cron_file \<Rightarrow> response \<times> cron_file" where
  "remove_job writable w body f = change_job writable w body f (\<lambda>n js.
     (take n js @ drop (Suc n) js, cron_reply 200 [(''success'', JBool True)]))"

text \<open>\<open>run\<close> is the gateway's command.\<close>

definition trigger_job ::
  "(string list \<Rightarrow> command_failure + string \<times> string) \<Rightarrow> world \<Rightarrow> json \<Rightarrow> cron_file \<Rightarrow> response"
where
  "trigger_job run w body f =
     (case job_key body of
        None \<Rightarrow> error_response 400 ''Job ID required''
      | Some i \<Rightarrow>
          if getenv w ''MISSION_CONTROL_ALLOW_COMMAND_TRIGGER'' \<noteq> Some ''1''
          then error_response 403 ''Manual triggers disabled. Set MISSION_CONTROL_ALLOW_COMMAND_TRIGGER=1 to enable.''
          else (case loadCronFile w f of
             None \<Rightarrow> error_response 404 ''Job not found''
           | Some c \<Rightarrow>
               (case jobs_of c of
                  Inl e \<Rightarrow> cron_error
                | Inr js \<Rightarrow>
                    (case job_index i js of
                       Inl e \<Rightarrow> cron_error
                     | Inr None \<Rightarrow> error_response 404 ''Job not found''
                     | Inr (Some n) \<Rightarrow>
                         (case run [''cron'', ''trigger'', or_else (str_of (jget ''id'' (js ! n))) []] of
                            Inr (out, err) \<Rightarrow> cron_reply 200 [(''success'', JBool True), (''stdout'', JStr (trim out)),
                              (''stderr'', JStr (trim err))]
                          | Inl e \<Rightarrow> cron_reply 500 [(''success'', JBool False), (''error'', JStr (cf_message e)),
                              (''stdout'', JStr (trim (cf_stdout e))), (''stderr'', JStr (trim (cf_stderr e)))])))))"

definition new_cron_job :: "world \<Rightarrow> json \<Rightarrow> json \<Rightarrow> json \<Rightarrow> json \<Rightarrow> json" where
  "new_cron_job w body name schedule command = JObj [
     (''id'', JStr (''mc-'' @ show_base36 (nat (now_ms w)))),
     (''agentId'', JStr (or_else (getenv w ''MC_CRON_AGENT_ID'') (or_else (getenv w ''MC_COORDINATOR_AGENT'') ''system''))),
     (''name'', name), (''enabled'', JBool True), (''createdAtMs'', JNum (now_ms w)), (''updatedAtMs'', JNum (now_ms w)),
     (''schedule'', JObj [(''kind'', JStr ''cron''), (''expr'', schedule)]),
     (''payload'', JObj ([(''kind'', JStr ''agentTurn''), (''message'', command)] @
        (case str_of (jget ''model'' body) of None \<Rightarrow> [] | Some m \<Rightarrow> if trim m = [] then [] else [(''model'', JStr (trim m))]))),
     (''delivery'', JObj [(''mode'', JStr ''none'')]), (''state'', JObj [])]"

definition add_job :: "bool \<Rightarrow> world \<Rightarrow> json \<Rightarrow> cron_file \<Rightarrow> response \<times> cron_file" where
  "add_job writable w body f =
     (case (truthy_prop ''schedule'' body, truthy_prop ''command'' body,
            case truthy_prop ''jobName'' body of None \<Rightarrow> truthy_prop ''name'' body | Some n \<Rightarrow> Some n) of
        (Some schedule, Some command, Some name) \<Rightarrow>
          (let c = (case loadCronFile w f of None \<Rightarrow> JObj [(''version'', JNum 1), (''jobs'', JArr [])] | Some c \<Rightarrow> c) in
           case jobs_of c of
             Inl e \<Rightarrow> (cron_error, f)
           | Inr js \<Rightarrow>
               if JNull \<in> set js then (cron_error, f)
               else saved writable w (set_jobs (filter (\<lambda>j. \<not> strict_eq name (jget ''name'' j)) js @
                      [new_cron_job w body name schedule command]) c) f (cron_reply 200 [(''success'', JBool True)]))
      | _ \<Rightarrow> (error_response 400 ''Schedule, command, and name required'', f))"

definition cron_action ::
  "(string list \<Rightarrow> command_failure + string \<times> string) \<Rightarrow> bool \<Rightarrow> world \<Rightarrow> json \<Rightarrow> cron_file \<Rightarrow> response \<times> cron_file"
where
  "cron_action run writable w body f =
     (let action = jget ''action'' body in
      if action = Some (JStr ''toggle'') then toggle_job writable w body f
      else if action = Some (JStr ''trigger'') then (trigger_job run w body f, f)
      else if action = Some (JStr ''remove'') then remove_job writable w body f
      else if action = Some (JStr ''add'') then add_job writable w body f
      else (error_response 400 ''Invalid action'', f))"

definition cron_POST ::
  "(string list \<Rightarrow> command_failure + string \<times> string) \<Rightarrow> bool \<Rightarrow> world \<Rightarrow> request \<Rightarrow> cron_file \<Rightarrow> server \<Rightarrow> outcome \<times> cron_file"
where
  "cron_POST run writable w req f s = role_files w req ''admin'' f s (\<lambda>u.
     (case req_body req of
        None \<Rightarrow> ((Inr cron_error, s), f)
      | Some JNull \<Rightarrow> ((Inr cron_error, s), f)
      | Some body \<Rightarrow> (let (r, f') = cron_action run writable w body f in ((Inr r, s), f'))))"


section \<open>The list shows the newest job of every name\<close>

lemma remdups_first_snoc:
  "rev (remdups (rev (xs @ [x]))) = (if x \<in> set xs then rev (remdups (rev xs)) else rev (remdups (rev xs)) @ [x])"
  by simp

lemma map_fst_update: "k \<in> fst ` set al \<Longrightarrow> map fst (AList.update k v al) = map fst al"
  by (induction al) auto

lemma set_update: "distinct (map fst al) \<Longrightarrow> k \<in> fst ` set al \<Longrightarrow>
    set (AList.update k v al) = insert (k, v) {e \<in> set al. fst e \<noteq> k}"
  by (induction al) (auto simp: image_iff split: if_splits)

definition newest_of :: "json list \<Rightarrow> json \<Rightarrow> bool" where
  "newest_of jobs j \<longleftrightarrow> j \<in> set jobs \<and> (\<forall>i \<in> set jobs. jget ''name'' i = jget ''name'' j \<longrightarrow> created_ms i \<le> created_ms j)"

lemma dedupe_fold:
  defines "names \<equiv> map (jget ''name'')"
  shows "map fst (fold dedupe_step jobs []) = rev (remdups (rev (names jobs))) \<and>
    (\<forall>(k, j) \<in> set (fold dedupe_step jobs []). jget ''name'' j = k \<and> newest_of jobs j)"
proof (induction jobs rule: rev_induct)
  case Nil
  then show ?case by (simp add: names_def)
next
  case (snoc job jobs)
  define l where "l = fold dedupe_step jobs []"
  let ?k = "jget ''name'' job"
  from snoc [folded l_def] have keys: "map fst l = rev (remdups (rev (names jobs)))"
    and each: "\<And>k j. (k, j) \<in> set l \<Longrightarrow> jget ''name'' j = k \<and> newest_of jobs j" by auto
  have dist: "distinct (map fst l)" by (simp add: keys)
  have dom: "fst ` set l = jget ''name'' ` set jobs"
    using arg_cong [OF keys, of set] by (simp add: names_def)
  have unfold_step: "fold dedupe_step (jobs @ [job]) [] = dedupe_step job l" by (simp add: l_def)
  show ?case
  proof (cases "map_of l ?k")
    case None
    then have new: "?k \<notin> fst ` set l" by (simp add: map_of_eq_None_iff)
    then have "newest_of (jobs @ [job]) job" using dom by (auto simp: newest_of_def image_iff)
    moreover have "newest_of (jobs @ [job]) j" if "(k, j) \<in> set l" for k j
      using each [OF that] new that by (force simp: newest_of_def)
    ultimately show ?thesis unfolding unfold_step
      using None new keys dom each by (auto simp: dedupe_step_def names_def remdups_first_snoc)
  next
    case (Some e)
    then have e: "(?k, e) \<in> set l" by (rule map_of_SomeD)
    then have old: "?k \<in> jget ''name'' ` set jobs" using dom by force
    have ne: "jget ''name'' e = ?k" "newest_of jobs e" using each [OF e] by auto
    have others: "newest_of (jobs @ [job]) j" if "(k, j) \<in> set l" "k \<noteq> ?k" for k j
      using each [OF that(1)] that(2) by (auto simp: newest_of_def)
    show ?thesis
    proof (cases "created_ms e < created_ms job")
      case True
      with ne have new: "newest_of (jobs @ [job]) job" by (fastforce simp: newest_of_def)
      have mem: "?k \<in> fst ` set l" using e by force
      have upd: "dedupe_step job l = AList.update ?k job l" using True Some by (simp add: dedupe_step_def)
      have "map fst (AList.update ?k job l) = rev (remdups (rev (names (jobs @ [job]))))"
        using map_fst_update [OF mem] keys old by (simp add: names_def)
      moreover have "jget ''name'' j = k \<and> newest_of (jobs @ [job]) j" if "(k, j) \<in> set (AList.update ?k job l)" for k j
        using that new others each by (auto simp: set_update [OF dist mem])
      ultimately show ?thesis unfolding unfold_step upd by blast
    next
      case False
      with ne have "newest_of (jobs @ [job]) e" by (auto simp: newest_of_def)
      moreover have "j = e" if "(?k, j) \<in> set l" for j
        using map_of_is_SomeI [OF dist that] Some by simp
      ultimately have "jget ''name'' j = k \<and> newest_of (jobs @ [job]) j" if "(k, j) \<in> set l" for k j
        using that others each by (cases "k = ?k") auto
      moreover have "dedupe_step job l = l" using False Some by (simp add: dedupe_step_def)
      moreover have "map fst l = rev (remdups (rev (names (jobs @ [job]))))" using keys old by (simp add: names_def)
      ultimately show ?thesis unfolding unfold_step by auto
    qed
  qed
qed

lemma job_index_append:
  "JNull \<notin> set js \<Longrightarrow> list_all (\<lambda>j. \<not> is_job i j) js \<Longrightarrow> j \<noteq> JNull \<Longrightarrow> is_job i j \<Longrightarrow> job_index i (js @ [j]) = Inr (Some (length js))"
  by (induction js) auto

lemma jobs_set_jobs: "jobs_of c = Inr js \<Longrightarrow> jobs_of (set_jobs js' c) = Inr js'"
  by (auto simp: jobs_of_def set_jobs_def update_conv' split: json.splits option.splits)


section \<open>Properties\<close>

text \<open>
  The list of jobs shows one job for every name in the file, in the order in which the names appear first, and of each
  name the one that was created last.
\<close>

theorem listed_jobs_newest:
  "map (jget ''name'') (deduplicateJobs jobs) = rev (remdups (rev (map (jget ''name'') jobs))) \<and>
   list_all (\<lambda>j. newest_of jobs j) (deduplicateJobs jobs)"
proof -
  have "map (jget ''name'') (map snd (fold dedupe_step jobs [])) = map fst (fold dedupe_step jobs [])"
    unfolding list.map_comp by (rule list.map_cong0) (use dedupe_fold [of jobs] in auto)
  with dedupe_fold [of jobs] show ?thesis by (auto simp: deduplicateJobs_def list_all_iff)
qed

text \<open>
  After a job was added, the file holds the jobs of the other names as before and then exactly one job of its name, enabled;
  if no id equals the name, switching that name disables this job, and removing the name restores the file's other jobs.
\<close>

theorem added_job_once:
  assumes "add_job True w body f = (r, f')" and "resp_status r = 200" and "truthy_prop ''jobName'' body = Some (JStr n)"
    and "job_key key = Some (JStr n)"
  shows "\<exists>c js new. f' = Some c \<and> jobs_of c = Inr (js @ [new]) \<and> jget ''name'' new = Some (JStr n) \<and>
    jget ''enabled'' new = Some (JBool True) \<and> list_all (\<lambda>j. jget ''name'' j \<noteq> Some (JStr n)) js \<and>
    (\<forall>c0 js0. loadCronFile w f = Some c0 \<longrightarrow> jobs_of c0 = Inr js0 \<longrightarrow> js = filter (\<lambda>j. jget ''name'' j \<noteq> Some (JStr n)) js0) \<and>
    (list_all (\<lambda>j. jget ''id'' j \<noteq> Some (JStr n)) js \<longrightarrow>
       (\<exists>c'. snd (toggle_job True w key f') = Some c' \<and> jobs_of c' = Inr (js @ [toggled w new]) \<and>
          jget ''enabled'' (toggled w new) = Some (JBool False)) \<and>
       (\<exists>c'. snd (remove_job True w key f') = Some c' \<and> jobs_of c' = Inr js))"
proof -
  let ?c = "case loadCronFile w f of None \<Rightarrow> JObj [(''version'', JNum 1), (''jobs'', JArr [])] | Some c \<Rightarrow> c"
  obtain schedule command js0 where parts: "jobs_of ?c = Inr js0" "JNull \<notin> set js0"
    "saved True w (set_jobs (filter (\<lambda>j. \<not> strict_eq (JStr n) (jget ''name'' j)) js0 @ [new_cron_job w body (JStr n) schedule command]) ?c) f
       (cron_reply 200 [(''success'', JBool True)]) = (r, f')"
    using assms(1-3)
    by (auto simp: add_job_def cron_error_def Let_def split: option.splits sum.splits if_splits)
  let ?js = "filter (\<lambda>j. jget ''name'' j \<noteq> Some (JStr n)) js0" and ?new = "new_cron_job w body (JStr n) schedule command"
  define c where "c = set_jobs (?js @ [?new]) ?c"
  have home: "config_openclawHome w \<noteq> []" and f': "f' = Some c"
    using parts(3) assms(2) by (auto simp: saved_def saveCronFile_def c_def split: if_splits)
  have jobs: "jobs_of c = Inr (?js @ [?new])" unfolding c_def by (rule jobs_set_jobs [OF parts(1)])
  then have load: "loadCronFile w f' = Some c" using home f' by (auto simp: loadCronFile_def jobs_of_def split: json.splits)
  have new: "jget ''name'' ?new = Some (JStr n)" "jget ''enabled'' ?new = Some (JBool True)" "?new \<noteq> JNull"
    by (simp_all add: new_cron_job_def)
  have off: "jget ''enabled'' (toggled w ?new) = Some (JBool False)"
    by (simp add: toggled_def new_cron_job_def truthy_prop_def)
  have idx: "job_index (JStr n) (?js @ [?new]) = Inr (Some (length ?js))" if "list_all (\<lambda>j. jget ''id'' j \<noteq> Some (JStr n)) ?js"
    using that parts(2) new by (intro job_index_append) (auto simp: is_job_def list_all_iff)
  have toggle: "\<exists>c'. snd (toggle_job True w key f') = Some c' \<and> jobs_of c' = Inr (?js @ [toggled w ?new])"
    and remove: "\<exists>c'. snd (remove_job True w key f') = Some c' \<and> jobs_of c' = Inr ?js"
    if "list_all (\<lambda>j. jget ''id'' j \<noteq> Some (JStr n)) ?js"
    using idx [OF that] jobs load home assms(4) jobs_set_jobs [OF jobs]
    by (simp_all add: toggle_job_def remove_job_def change_job_def saved_def saveCronFile_def)
  show ?thesis
    using f' jobs new off toggle remove parts(1)
    by (intro exI [of _ c] exI [of _ ?js] exI [of _ ?new]) (auto simp: list_all_iff)
qed

definition cron_world :: world where
  "cron_world = demo_world\<lparr>getenv := (getenv demo_world)(''OPENCLAW_HOME'' \<mapsto> ''/oc'')\<rparr>"

definition demo_cron_job :: json where
  "demo_cron_job = JObj [(''jobName'', JStr ''backup''), (''schedule'', JStr ''0 3 * * *''), (''command'', JStr ''run'')]"

theorem added_job_once_witness:
  "\<exists>r c js new. add_job True cron_world demo_cron_job None = (r, Some c) \<and> jobs_of c = Inr (js @ [new]) \<and>
     jget ''name'' new = Some (JStr ''backup'')"
proof -
  obtain r f' where run: "add_job True cron_world demo_cron_job None = (r, f')" by fastforce
  then have "resp_status r = 200" "truthy_prop ''jobName'' demo_cron_job = Some (JStr ''backup'')" "job_key demo_cron_job = Some (JStr ''backup'')"
    by (auto simp: add_job_def demo_cron_job_def truthy_prop_def job_key_def loadCronFile_def cron_world_def jobs_of_def saved_def
        saveCronFile_def config_openclawHome_def or_else_def cron_reply_def)
  from added_job_once [OF run this] run show ?thesis by blast
qed

end
