(* ===== verification/MC_Memory.thy ===== *)
theory MC_Memory
  imports MC_Http MC_Platform "HOL-Library.AList" "HOL-Library.List_Lexorder" "HOL-Library.Product_Lexorder" "HOL-Library.Char_ord"
begin

text \<open>
  \<open>src/app/api/memory/route.ts\<close>: the files below the memory directory are listed, searched, read, written and
  removed. The file system is a list of the entries by their canonical path (the names from the root), with symbolic links;
  what the code uses of Node's \<open>fs\<close> is defined on it. Permissions are outside the model, and so are changes that other
  processes make between the steps of a request.
\<close>

section \<open>The file system\<close>

datatype entry = Dir int | File string int | Link string

type_synonym file_system = "(string list \<times> entry) list"

definition node :: "file_system \<Rightarrow> string list \<Rightarrow> entry option" where
  "node fs p = (if p = [] then Some (Dir 0) else map_of fs p)"

text \<open>
  The way of a path from a directory: links are followed, at most as many as the budget; \<open>Inl\<close> is the code of the error.
\<close>

function walk :: "file_system \<Rightarrow> nat \<Rightarrow> string list \<Rightarrow> string list \<Rightarrow> string + string list" where
  "walk fs n d [] = Inr d"
| "walk fs n d (p # ps) =
     (if p = [] \<or> p = ''.'' then walk fs n d ps
      else if p = ''..'' then walk fs n (butlast d) ps
      else case node fs (d @ [p]) of
        None \<Rightarrow> Inl ''ENOENT''
      | Some (Dir m) \<Rightarrow> walk fs n (d @ [p]) ps
      | Some (File c m) \<Rightarrow> if ps = [] then Inr (d @ [p]) else Inl ''ENOTDIR''
      | Some (Link t) \<Rightarrow>
          (case n of
             0 \<Rightarrow> Inl ''ELOOP''
           | Suc k \<Rightarrow> walk fs k (if starts_with ''/'' t then [] else d) (split_on CHR ''/'' t @ ps)))"
  by pat_completeness auto
termination
  by (relation "measures [\<lambda>(fs, n, d, ps). n, \<lambda>(fs, n, d, ps). length ps]") auto

definition max_links :: nat where
  "max_links = 40"

text \<open>The canonical path of an absolute one.\<close>

definition real_segments :: "file_system \<Rightarrow> string \<Rightarrow> string + string list" where
  "real_segments fs p = walk fs max_links [] (split_on CHR ''/'' p)"

definition realpath :: "file_system \<Rightarrow> string \<Rightarrow> string + string" where
  "realpath fs p = map_sum id from_segments (real_segments fs p)"

text \<open>\<open>dirname\<close> of a resolved path.\<close>

definition dirname :: "string \<Rightarrow> string" where
  "dirname p = from_segments (butlast (path_segments p))"

text \<open>\<open>lstat\<close> follows the links of the directory, but not the last name.\<close>

definition place :: "file_system \<Rightarrow> string \<Rightarrow> string + string list" where
  "place fs p = (case real_segments fs (dirname p) of
     Inl e \<Rightarrow> Inl e
   | Inr d \<Rightarrow>
       if path_segments p = [] then Inr []
       else (case node fs d of Some (Dir m) \<Rightarrow> Inr (d @ [last (path_segments p)]) | _ \<Rightarrow> Inl ''ENOTDIR''))"

definition lstat :: "file_system \<Rightarrow> string \<Rightarrow> string + entry" where
  "lstat fs p = (case place fs p of
     Inl e \<Rightarrow> Inl e | Inr d \<Rightarrow> (case node fs d of None \<Rightarrow> Inl ''ENOENT'' | Some e \<Rightarrow> Inr e))"

definition stat :: "file_system \<Rightarrow> string \<Rightarrow> string + entry" where
  "stat fs p = (case real_segments fs p of
     Inl e \<Rightarrow> Inl e | Inr d \<Rightarrow> (case node fs d of None \<Rightarrow> Inl ''ENOENT'' | Some e \<Rightarrow> Inr e))"

definition readFile :: "file_system \<Rightarrow> string \<Rightarrow> string + string" where
  "readFile fs p = (case stat fs p of
     Inl e \<Rightarrow> Inl e | Inr (File c m) \<Rightarrow> Inr c | Inr _ \<Rightarrow> Inl ''EISDIR'')"

text \<open>
  \<open>writeFile\<close>: an existing file gets the content, a missing one is made in its directory. Through a dangling link it would
  make the target; the route never gets there.
\<close>

definition writeFile :: "world \<Rightarrow> string \<Rightarrow> string \<Rightarrow> file_system \<Rightarrow> string + file_system" where
  "writeFile w p content fs = (case place fs p of
     Inl e \<Rightarrow> Inl e
   | Inr d \<Rightarrow>
       (case node fs d of
          None \<Rightarrow> Inr (AList.update d (File content (now_ms w)) fs)
        | Some (Dir m) \<Rightarrow> Inl ''EISDIR''
        | Some (File c m) \<Rightarrow> Inr (AList.update d (File content (now_ms w)) fs)
        | Some (Link t) \<Rightarrow>
            (case real_segments fs p of
               Inl e \<Rightarrow> Inl e
             | Inr r \<Rightarrow> (case node fs r of
                 Some (File c m) \<Rightarrow> Inr (AList.update r (File content (now_ms w)) fs)
               | _ \<Rightarrow> Inl ''EISDIR''))))"

definition unlink :: "string \<Rightarrow> file_system \<Rightarrow> string + file_system" where
  "unlink p fs = (case place fs p of
     Inl e \<Rightarrow> Inl e
   | Inr d \<Rightarrow>
       (case node fs d of
          None \<Rightarrow> Inl ''ENOENT''
        | Some (Dir m) \<Rightarrow> Inl ''EISDIR''
        | Some _ \<Rightarrow> Inr (AList.delete d fs)))"

text \<open>\<open>readdir\<close>: the names in a directory with their entries.\<close>

definition readdir :: "file_system \<Rightarrow> string list \<Rightarrow> (string \<times> entry) list" where
  "readdir fs d = List.map_filter (\<lambda>(p, e). if p \<noteq> [] \<and> butlast p = d then Some (last p, e) else None) fs"

section \<open>Paths of requests\<close>

definition config_memoryDir :: "string \<Rightarrow> world \<Rightarrow> string" where
  "config_memoryDir cwd w =
     (let home = or_else (getenv w ''OPENCLAW_HOME'') (or_else (getenv w ''CLAWDBOT_HOME'')
            (or_else (getenv w ''MISSION_CONTROL_OPENCLAW_HOME'') []))
      in or_else (getenv w ''OPENCLAW_MEMORY_DIR'')
           (if home \<noteq> [] then posix_join [home, ''memory''] else posix_join [posix_join [cwd, ''.data''], ''memory'']))"

definition isWithinBase :: "string \<Rightarrow> string \<Rightarrow> bool" where
  "isWithinBase base candidate \<longleftrightarrow> candidate = base \<or> starts_with (base @ ''/'') candidate"

definition absolute_in :: "string \<Rightarrow> string \<Rightarrow> string" where
  "absolute_in cwd p = (if starts_with ''/'' p then p else cwd @ ''/'' @ p)"

text \<open>\<open>Inl\<close> is the message or the code of the error; the routes answer every one alike.\<close>

definition resolveSafeMemoryPath :: "file_system \<Rightarrow> string \<Rightarrow> string \<Rightarrow> string \<Rightarrow> string + string" where
  "resolveSafeMemoryPath fs cwd baseDir relativePath =
     (case (realpath fs (absolute_in cwd baseDir), resolveWithin cwd baseDir relativePath) of
        (Inl e, _) \<Rightarrow> Inl e
      | (_, Inl e) \<Rightarrow> Inl e
      | (Inr baseReal, Inr fullPath) \<Rightarrow>
          (case realpath fs (dirname fullPath) of
             Inl e \<Rightarrow> Inl (if e = ''ENOENT'' then ''Parent directory not found'' else e)
           | Inr parentReal \<Rightarrow>
               if \<not> isWithinBase baseReal parentReal then Inl ''Path escapes base directory (symlink)''
               else (case lstat fs fullPath of
                  Inl e \<Rightarrow> if e = ''ENOENT'' then Inr fullPath else Inl e
                | Inr (Link t) \<Rightarrow> Inl ''Symbolic links are not allowed''
                | Inr _ \<Rightarrow>
                    (case realpath fs fullPath of
                       Inl e \<Rightarrow> if e = ''ENOENT'' then Inr fullPath else Inl e
                     | Inr fileReal \<Rightarrow>
                         if \<not> isWithinBase baseReal fileReal then Inl ''Path escapes base directory (symlink)''
                         else Inr fullPath))))"

section \<open>Tree and search\<close>

text \<open>The longest path bounds the depth of the two walks; links are not followed.\<close>

definition depth :: "file_system \<Rightarrow> nat" where
  "depth fs = foldr (\<lambda>(p, e) n. max (length p) n) fs 0"

lemma readdir_depth: "(x, e) \<in> set (readdir fs d) \<Longrightarrow> length d < depth fs"
proof -
  have le: "(p, e) \<in> set fs \<Longrightarrow> length p \<le> depth fs" for p e
    by (induction fs) (auto simp: depth_def)
  assume "(x, e) \<in> set (readdir fs d)"
  then obtain p where "(p, e) \<in> set fs" "p \<noteq> []" "butlast p = d"
    by (auto simp: readdir_def map_filter_def split: if_splits)
  with le [OF this(1)] show ?thesis by (cases p rule: rev_cases) auto
qed

text \<open>\<open>collation\<close> is the sort key of a name in the locale: \<open>localeCompare\<close> compares the keys.\<close>

function buildFileTree :: "(string \<Rightarrow> string) \<Rightarrow> file_system \<Rightarrow> string list \<Rightarrow> string \<Rightarrow> json list" where
  "buildFileTree collation fs d rel =
     map (\<lambda>(is_file, key, j). j)
       (sort_key (\<lambda>(is_file, key, j). (is_file, key))
         (concat (map (\<lambda>(x, e).
            let p = posix_join [rel, x] in
            case e of
              Link t \<Rightarrow> []
            | Dir m \<Rightarrow> [(False, collation x, JObj [(''path'', JStr p), (''name'', JStr x), (''type'', JStr ''directory''),
                (''modified'', JNum m), (''children'', JArr (buildFileTree collation fs (d @ [x]) p))])]
            | File c m \<Rightarrow> [(True, collation x, JObj [(''path'', JStr p), (''name'', JStr x), (''type'', JStr ''file''),
                (''size'', JNum (int (length c))), (''modified'', JNum m)])])
          (readdir fs d))))"
  by pat_completeness auto
termination
  by (relation "measure (\<lambda>(collation, fs, d, rel). depth fs - length d)") (auto dest: readdir_depth)

text \<open>The occurrences of a needle, without overlap.\<close>

function count_matches :: "string \<Rightarrow> string \<Rightarrow> nat" where
  "count_matches needle h =
     (if needle = [] \<or> h = [] then 0
      else if starts_with needle h then Suc (count_matches needle (drop (length needle) h))
      else count_matches needle (tl h))"
  by pat_completeness auto
termination
  by (relation "measure (\<lambda>(needle, h). length h)") auto

declare count_matches.simps [simp del] buildFileTree.simps [simp del]

definition searchInFile :: "string \<Rightarrow> string \<Rightarrow> string \<Rightarrow> (string \<times> string \<times> nat) list" where
  "searchInFile query content rel =
     (let n = (if 1000000 < length content then 0 else count_matches (to_lower query) (to_lower content))
      in if n = 0 then [] else [(rel, last (split_on CHR ''/'' rel), n)])"

function searchDirectory :: "string \<Rightarrow> file_system \<Rightarrow> string list \<Rightarrow> string \<Rightarrow> (string \<times> string \<times> nat) list" where
  "searchDirectory query fs d rel =
     concat (map (\<lambda>(x, e).
       let p = posix_join [rel, x] in
       case e of
         Link t \<Rightarrow> []
       | Dir m \<Rightarrow> searchDirectory query fs (d @ [x]) p
       | File c m \<Rightarrow> if ends_with ''.md'' x \<or> ends_with ''.txt'' x then searchInFile query c p else [])
     (readdir fs d))"
  by pat_completeness auto
termination
  by (relation "measure (\<lambda>(query, fs, d, rel). depth fs - length d)") (auto dest: readdir_depth)

declare searchDirectory.simps [simp del]

section \<open>GET\<close>

definition memory_error :: response where
  "memory_error = error_response 500 ''Internal server error''"

text \<open>A directory that cannot be read has no tree.\<close>

definition memory_tree :: "(string \<Rightarrow> string) \<Rightarrow> file_system \<Rightarrow> string \<Rightarrow> json list" where
  "memory_tree collation fs dir = (case stat fs dir of
     Inr (Dir m) \<Rightarrow> (case real_segments fs dir of Inl e \<Rightarrow> [] | Inr d \<Rightarrow> buildFileTree collation fs d [])
   | _ \<Rightarrow> [])"

definition memory_search :: "file_system \<Rightarrow> string \<Rightarrow> string \<Rightarrow> (string \<times> string \<times> nat) list" where
  "memory_search fs dir query = (case stat fs dir of
     Inr (Dir m) \<Rightarrow> (case real_segments fs dir of Inl e \<Rightarrow> []
       | Inr d \<Rightarrow> sort_key (\<lambda>(p, x, n). - int n) (searchDirectory query fs d []))
   | _ \<Rightarrow> [])"

definition memory_content :: "file_system \<Rightarrow> string \<Rightarrow> string \<Rightarrow> string \<Rightarrow> response" where
  "memory_content fs cwd dir path =
     (case resolveSafeMemoryPath fs cwd dir path of
        Inl e \<Rightarrow> memory_error
      | Inr fullPath \<Rightarrow>
          (case stat fs fullPath of
             Inr (File c m) \<Rightarrow> json_response 200 (JObj [(''content'', JStr c), (''size'', JNum (int (length c))),
               (''modified'', JNum m), (''path'', JStr path)])
           | _ \<Rightarrow> error_response 404 ''File not found''))"

definition get_memory :: "(string \<Rightarrow> string) \<Rightarrow> file_system \<Rightarrow> string \<Rightarrow> world \<Rightarrow> request \<Rightarrow> response" where
  "get_memory collation fs cwd w req =
     (let dir = config_memoryDir cwd w; action = req_query req ''action'' in
      if action = Some ''tree''
      then json_response 200 (JObj [(''tree'', JArr (memory_tree collation fs (absolute_in cwd dir)))])
      else case (if action = Some ''content'' then nonempty_param req ''path'' else None) of
        Some path \<Rightarrow> memory_content fs cwd dir path
      | None \<Rightarrow>
          if action = Some ''search'' then
            (case nonempty_param req ''query'' of
               None \<Rightarrow> error_response 400 ''Query required''
             | Some query \<Rightarrow> json_response 200 (JObj [(''query'', JStr query),
                 (''results'', JArr (map (\<lambda>(p, x, n). JObj [(''path'', JStr p), (''name'', JStr x), (''matches'', JNum (int n))])
                   (memory_search fs (absolute_in cwd dir) query)))]))
          else error_response 400 ''Invalid action'')"

text \<open>The limiter for reading has its own window; \<open>read_store\<close> is its state.\<close>

definition memory_files_GET ::
  "(string \<Rightarrow> string) \<Rightarrow> file_system \<Rightarrow> string \<Rightarrow> world \<Rightarrow> request \<Rightarrow> (string \<Rightarrow> rate_entry option) \<Rightarrow> server \<Rightarrow>
     outcome \<times> (string \<Rightarrow> rate_entry option)"
where
  "memory_files_GET collation fs cwd w req read_store s = role_files w req ''viewer'' read_store s (\<lambda>u.
     (case checkRateLimit readLimiter_options w req read_store of
        (Some r, rs) \<Rightarrow> ((Inr r, s), rs)
      | (None, rs) \<Rightarrow> ((Inr (get_memory collation fs cwd w req), s), rs)))"

section \<open>POST and DELETE\<close>

text \<open>What both begin with: the path is required and resolved. A path that is not a text throws.\<close>

definition with_memory_path ::
  "string \<Rightarrow> world \<Rightarrow> request \<Rightarrow> file_system \<Rightarrow> (json \<Rightarrow> string \<Rightarrow> response \<times> file_system) \<Rightarrow> response \<times> file_system"
where
  "with_memory_path cwd w req fs k =
     (case req_body req of
        None \<Rightarrow> (memory_error, fs)
      | Some JNull \<Rightarrow> (memory_error, fs)
      | Some body \<Rightarrow>
          (case truthy_prop ''path'' body of
             None \<Rightarrow> (error_response 400 ''Path is required'', fs)
           | Some (JStr path) \<Rightarrow>
               (case resolveSafeMemoryPath fs cwd (config_memoryDir cwd w) path of
                  Inl e \<Rightarrow> (memory_error, fs)
                | Inr fullPath \<Rightarrow> k body fullPath)
           | Some _ \<Rightarrow> (memory_error, fs)))"

definition memory_ok :: "string \<Rightarrow> response" where
  "memory_ok msg = json_response 200 (JObj [(''success'', JBool True), (''message'', JStr msg)])"

text \<open>
  \<open>writeFile\<close> of \<open>fs/promises\<close> iterates over an array: the file is emptied and gets the texts up to the first
  element that is none, where it throws. Elements that are arrays or objects are outside the model; other contents
  throw before the file is opened.
\<close>

fun text_prefix :: "json list \<Rightarrow> string \<times> bool" where
  "text_prefix [] = ([], True)"
| "text_prefix (x # xs) = (case x of JStr c \<Rightarrow> apfst (append c) (text_prefix xs) | _ \<Rightarrow> ([], False))"

definition write_memory_file :: "world \<Rightarrow> string \<Rightarrow> json \<Rightarrow> string \<Rightarrow> file_system \<Rightarrow> response \<times> file_system" where
  "write_memory_file w fullPath content msg fs = (case content of
     JStr c \<Rightarrow> (case writeFile w fullPath c fs of Inl e \<Rightarrow> (memory_error, fs) | Inr fs' \<Rightarrow> (memory_ok msg, fs'))
   | JArr xs \<Rightarrow> (case text_prefix xs of (c, complete) \<Rightarrow>
       (case writeFile w fullPath c fs of
          Inl e \<Rightarrow> (memory_error, fs)
        | Inr fs' \<Rightarrow> (if complete then memory_ok msg else memory_error, fs')))
   | _ \<Rightarrow> (memory_error, fs))"

text \<open>The directory of the resolved path exists, so \<open>mkdir\<close> has nothing to make.\<close>

definition post_memory :: "string \<Rightarrow> world \<Rightarrow> request \<Rightarrow> file_system \<Rightarrow> response \<times> file_system" where
  "post_memory cwd w req fs = with_memory_path cwd w req fs (\<lambda>body fullPath.
     if jget ''action'' body = Some (JStr ''save'') then
       (case jget ''content'' body of
          None \<Rightarrow> (error_response 400 ''Content is required for save action'', fs)
        | Some content \<Rightarrow> write_memory_file w fullPath content ''File saved successfully'' fs)
     else if jget ''action'' body = Some (JStr ''create'') then
       (case stat fs fullPath of
          Inr e \<Rightarrow> (error_response 409 ''File already exists'', fs)
        | Inl e \<Rightarrow> write_memory_file w fullPath (case truthy_prop ''content'' body of None \<Rightarrow> JStr [] | Some c \<Rightarrow> c)
            ''File created successfully'' fs)
     else (error_response 400 ''Invalid action'', fs))"

definition memory_files_POST :: "string \<Rightarrow> world \<Rightarrow> request \<Rightarrow> file_system \<Rightarrow> server \<Rightarrow> outcome \<times> file_system" where
  "memory_files_POST cwd w req fs s = role_files w req ''operator'' fs s (\<lambda>u. limited_files w req fs s (\<lambda>s'.
     let (r, fs') = post_memory cwd w req fs in ((Inr r, s'), fs')))"

definition remove_memory :: "string \<Rightarrow> world \<Rightarrow> request \<Rightarrow> file_system \<Rightarrow> response \<times> file_system" where
  "remove_memory cwd w req fs = with_memory_path cwd w req fs (\<lambda>body fullPath.
     if jget ''action'' body = Some (JStr ''delete'') then
       (case stat fs fullPath of
          Inl e \<Rightarrow> (error_response 404 ''File not found'', fs)
        | Inr e \<Rightarrow>
            (case unlink fullPath fs of Inl e \<Rightarrow> (memory_error, fs) | Inr fs' \<Rightarrow> (memory_ok ''File deleted successfully'', fs')))
     else (error_response 400 ''Invalid action'', fs))"

definition memory_files_DELETE :: "string \<Rightarrow> world \<Rightarrow> request \<Rightarrow> file_system \<Rightarrow> server \<Rightarrow> outcome \<times> file_system" where
  "memory_files_DELETE cwd w req fs s = role_files w req ''admin'' fs s (\<lambda>u. limited_files w req fs s (\<lambda>s'.
     let (r, fs') = remove_memory cwd w req fs in ((Inr r, s'), fs')))"

section \<open>Where a path leads\<close>

lemma walk_clean: "walk fs n d ps = Inr r \<Longrightarrow> clean d \<Longrightarrow> list_all (\<lambda>x. CHR ''/'' \<notin> set x) ps \<Longrightarrow> clean r"
proof (induction fs n d ps rule: walk.induct)
  case (2 fs n d p ps)
  have "clean (butlast d)" using "2.prems"(2) by (cases d rule: rev_cases) (auto simp: clean_def)
  moreover have "p \<noteq> [] \<Longrightarrow> p \<noteq> ''.'' \<Longrightarrow> p \<noteq> ''..'' \<Longrightarrow> clean (d @ [p])" using "2.prems" by (simp add: plain_segment_def)
  moreover have "list_all (\<lambda>x. CHR ''/'' \<notin> set x) (split_on CHR ''/'' t)" for t by (auto simp: list_all_iff dest: split_on_parts)
  ultimately show ?case using 2 by (auto split: if_splits option.splits entry.splits nat.splits)
qed simp

lemma real_segments_clean: "real_segments fs p = Inr r \<Longrightarrow> clean r"
  unfolding real_segments_def by (rule walk_clean) (auto simp: list_all_iff dest: split_on_parts)

lemma real_segments_from: "clean ss \<Longrightarrow> real_segments fs (from_segments ss) = walk fs max_links [] ss"
  by (cases ss) (simp_all add: real_segments_def split_from_segments)

lemma within_base:
  "clean b \<Longrightarrow> clean c \<Longrightarrow> isWithinBase (from_segments b) (from_segments c) \<Longrightarrow> \<exists>r. c = b @ r"
  using from_segments_prefix [of b c] segments_from_segments [of b] segments_from_segments [of c]
  by (auto simp: isWithinBase_def)

lemma below_within: "clean b \<Longrightarrow> b \<noteq> [] \<Longrightarrow> clean r \<Longrightarrow> isWithinBase (from_segments b) (from_segments (b @ r))"
  by (cases r) (simp_all add: isWithinBase_def from_segments_prefix)

text \<open>What a path passes once it is accepted.\<close>

lemma resolveSafe_place:
  assumes "resolveSafeMemoryPath fs cwd dir rel = Inr p"
  obtains base d rest where "real_segments fs (absolute_in cwd dir) = Inr base" "real_segments fs (dirname p) = Inr d"
    "d = base @ rest" "clean d" "resolveWithin cwd dir rel = Inr p" "p = from_segments (path_segments p)"
    "\<And>t. path_segments p \<noteq> [] \<Longrightarrow> node fs (d @ [last (path_segments p)]) \<noteq> Some (Link t) \<or> (\<nexists>m. node fs d = Some (Dir m))"
proof -
  obtain base where base: "real_segments fs (absolute_in cwd dir) = Inr base"
    using assms by (cases "real_segments fs (absolute_in cwd dir)") (auto simp: resolveSafeMemoryPath_def realpath_def)
  have rw: "resolveWithin cwd dir rel = Inr p"
    using assms by (auto simp: resolveSafeMemoryPath_def split: sum.splits if_splits entry.splits)
  obtain d where d: "real_segments fs (dirname p) = Inr d"
    using assms base rw by (cases "real_segments fs (dirname p)") (auto simp: resolveSafeMemoryPath_def realpath_def)
  have within: "isWithinBase (from_segments base) (from_segments d)"
    using assms base rw d by (auto simp: resolveSafeMemoryPath_def realpath_def split: if_splits)
  have clean: "clean base" "clean d" using base d real_segments_clean by blast+
  obtain rest where rest: "d = base @ rest" using within_base [OF clean within] by blast
  have p: "p = from_segments (path_segments p)"
    using rw path_resolve_from by (auto simp: resolveWithin_def Let_def split: if_splits)
  have no: "lstat fs p \<noteq> Inr (Link t)" for t
    using assms base rw d within by (auto simp: resolveSafeMemoryPath_def realpath_def split: if_splits)
  have "node fs (d @ [last (path_segments p)]) \<noteq> Some (Link t) \<or> (\<nexists>m. node fs d = Some (Dir m))" if "path_segments p \<noteq> []" for t
    using that d no [of t] by (auto simp: lstat_def place_def)
  with that [OF base d rest clean(2) rw p] show thesis by blast
qed

lemma node_update: "d \<noteq> [] \<Longrightarrow> node (AList.update d e fs) q = (if q = d then Some e else node fs q)"
  by (simp add: node_def update_conv')

lemma node_delete: "d \<noteq> [] \<Longrightarrow> q \<noteq> d \<Longrightarrow> node (AList.delete d fs) q = node fs q"
  by (simp add: node_def delete_conv')

text \<open>What a request may change: one entry below the directory, which is no link.\<close>

definition confined_change :: "string list \<Rightarrow> file_system \<Rightarrow> file_system \<Rightarrow> bool" where
  "confined_change base fs fs' \<longleftrightarrow> fs' = fs \<or> (\<exists>rest p. p = base @ rest \<and> rest \<noteq> [] \<and> (\<forall>t. node fs p \<noteq> Some (Link t)) \<and>
     (\<forall>q. q \<noteq> p \<longrightarrow> node fs' q = node fs q))"

lemma write_confined:
  assumes "resolveSafeMemoryPath fs cwd dir rel = Inr p" and "real_segments fs (absolute_in cwd dir) = Inr base"
    and "writeFile w p c fs = Inr fs'"
  shows "confined_change base fs fs'"
proof -
  obtain d rest where d: "real_segments fs (dirname p) = Inr d" "d = base @ rest"
    and link: "\<And>t. path_segments p \<noteq> [] \<Longrightarrow> node fs (d @ [last (path_segments p)]) \<noteq> Some (Link t) \<or> (\<nexists>m. node fs d = Some (Dir m))"
    using resolveSafe_place [OF assms(1)] assms(2) by (metis Inr_inject)
  let ?p = "d @ [last (path_segments p)]"
  have "path_segments p \<noteq> []"
    using assms(3) d by (auto simp: writeFile_def place_def node_def)
  with assms(3) d link have "fs' = AList.update ?p (File c (now_ms w)) fs" "\<forall>t. node fs ?p \<noteq> Some (Link t)"
    by (auto simp: writeFile_def place_def split: option.splits entry.splits)
  with d show ?thesis by (auto simp: confined_change_def node_update intro!: exI [of _ "rest @ [last (path_segments p)]"])
qed

lemma unlink_confined:
  assumes "resolveSafeMemoryPath fs cwd dir rel = Inr p" and "real_segments fs (absolute_in cwd dir) = Inr base"
    and "unlink p fs = Inr fs'"
  shows "confined_change base fs fs'"
proof -
  obtain d rest where d: "real_segments fs (dirname p) = Inr d" "d = base @ rest"
    and link: "\<And>t. path_segments p \<noteq> [] \<Longrightarrow> node fs (d @ [last (path_segments p)]) \<noteq> Some (Link t) \<or> (\<nexists>m. node fs d = Some (Dir m))"
    using resolveSafe_place [OF assms(1)] assms(2) by (metis Inr_inject)
  let ?p = "d @ [last (path_segments p)]"
  have "path_segments p \<noteq> []"
    using assms(3) d by (auto simp: unlink_def place_def node_def)
  with assms(3) d link have "fs' = AList.delete ?p fs" "\<forall>t. node fs ?p \<noteq> Some (Link t)"
    by (auto simp: unlink_def place_def split: option.splits entry.splits)
  with d show ?thesis by (auto simp: confined_change_def node_delete intro!: exI [of _ "rest @ [last (path_segments p)]"])
qed

lemma confined_refl [simp]: "confined_change base fs fs"
  by (simp add: confined_change_def)

lemma with_memory_path_confined:
  assumes "\<And>rel body p. resolveSafeMemoryPath fs cwd (config_memoryDir cwd w) rel = Inr p \<Longrightarrow> confined_change base fs (snd (k body p))"
  shows "confined_change base fs (snd (with_memory_path cwd w req fs k))"
  using assms by (auto simp: with_memory_path_def memory_error_def split: option.splits json.splits sum.splits)

lemma write_memory_file_confined:
  assumes "resolveSafeMemoryPath fs cwd dir rel = Inr p" and "real_segments fs (absolute_in cwd dir) = Inr base"
  shows "confined_change base fs (snd (write_memory_file w p c msg fs))"
  using write_confined [OF assms] by (auto simp: write_memory_file_def split: json.split sum.split prod.split)

lemma post_memory_confined:
  assumes "real_segments fs (absolute_in cwd (config_memoryDir cwd w)) = Inr base"
  shows "confined_change base fs (snd (post_memory cwd w req fs))"
  unfolding post_memory_def
  by (rule with_memory_path_confined)
    (auto split: option.split sum.split intro: write_memory_file_confined [OF _ assms])

lemma remove_memory_confined:
  assumes "real_segments fs (absolute_in cwd (config_memoryDir cwd w)) = Inr base"
  shows "confined_change base fs (snd (remove_memory cwd w req fs))"
  unfolding remove_memory_def
  by (rule with_memory_path_confined) (auto split: sum.split dest: unlink_confined [OF _ assms])

lemma limited_route:
  "P fs \<Longrightarrow> (\<And>u s'. P (snd (k u s'))) \<Longrightarrow> P (snd (role_files w req role fs s (\<lambda>u. limited_files w req fs s (k u))))"
  by (auto simp: role_files_def limited_files_def split: sum.split auth_result.split prod.split option.split)

text \<open>Without the directory nothing is changed.\<close>

lemma resolveSafe_no_base:
  "real_segments fs (absolute_in cwd dir) = Inl e \<Longrightarrow> resolveSafeMemoryPath fs cwd dir rel = Inl e"
  by (simp add: resolveSafeMemoryPath_def realpath_def)

text \<open>A path that leads somewhere still does when a file is made or changed.\<close>

lemma walk_after_write:
  assumes "walk fs n d ps = Inr r" and "\<forall>q. q \<noteq> p \<longrightarrow> node fs' q = node fs q" and "node fs' p = Some (File c' m')"
    and "node fs p = None \<or> (\<exists>c m. node fs p = Some (File c m))"
  shows "walk fs' n d ps = Inr r"
  using assms
proof (induction fs n d ps rule: walk.induct)
  case (2 fs n d x ps)
  note prems = "2.prems"
  show ?case
  proof (cases "x = [] \<or> x = ''.'' \<or> x = ''..''")
    case True
    with 2 show ?thesis by auto
  next
    case x: False
    show ?thesis
    proof (cases "node fs (d @ [x])")
      case None
      with prems(1) x show ?thesis by simp
    next
      case (Some e)
      show ?thesis
      proof (cases e)
        case (Dir m)
        with Some prems(2,4) have "node fs' (d @ [x]) = Some (Dir m)" by (cases "d @ [x] = p") auto
        with 2(3) [OF _ _ Some Dir] prems x Some Dir show ?thesis by simp
      next
        case (File c m)
        have "\<exists>c m. node fs' (d @ [x]) = Some (File c m)" using Some File prems(2,3) by (cases "d @ [x] = p") auto
        with prems(1) x Some File show ?thesis by (auto split: if_splits)
      next
        case (Link t)
        with Some prems(2,4) have l: "node fs' (d @ [x]) = Some (Link t)" by (cases "d @ [x] = p") auto
        show ?thesis
        proof (cases n)
          case 0
          with prems(1) x Some Link show ?thesis by simp
        next
          case (Suc k)
          with 2(4) [OF _ _ Some Link Suc] prems x Some Link l show ?thesis by simp
        qed
      qed
    qed
  qed
qed simp

lemma walk_last:
  assumes "walk fs n d0 ps = Inr d" and "node fs d = Some (Dir k)" and "plain_segment x" and "node fs (d @ [x]) = Some (File c m)"
  shows "walk fs n d0 (ps @ [x]) = Inr (d @ [x])"
  using assms
proof (induction fs n d0 ps rule: walk.induct)
  case (1 fs n d)
  then show ?case by (simp add: plain_segment_def)
next
  case (2 fs n d' p ps)
  note prems = "2.prems"
  show ?case
  proof (cases "p = [] \<or> p = ''.'' \<or> p = ''..''")
    case True
    with 2 show ?thesis by auto
  next
    case p: False
    show ?thesis
    proof (cases "node fs (d' @ [p])")
      case None
      with prems(1) p show ?thesis by simp
    next
      case (Some e)
      show ?thesis
      proof (cases e)
        case (Dir k)
        with 2(3) [OF _ _ Some Dir] prems p Some show ?thesis by simp
      next
        case (File c m)
        with prems(1,2) p Some show ?thesis by (auto split: if_splits)
      next
        case (Link t)
        show ?thesis
        proof (cases n)
          case 0
          with prems(1) p Some Link show ?thesis by simp
        next
          case (Suc k)
          with 2(4) [OF _ _ Some Link Suc] prems p Some Link show ?thesis by simp
        qed
      qed
    qed
  qed
qed

lemma read_after_write:
  assumes "resolveSafeMemoryPath fs cwd dir rel = Inr p" and "real_segments fs (absolute_in cwd dir) = Inr base" and "base \<noteq> []"
    and "writeFile w p c fs = Inr fs'"
  shows "resolveSafeMemoryPath fs' cwd dir rel = Inr p" and "stat fs' p = Inr (File c (now_ms w))"
proof -
  obtain d rest where d: "real_segments fs (dirname p) = Inr d" "d = base @ rest" "clean d"
    and rw: "resolveWithin cwd dir rel = Inr p" and p: "p = from_segments (path_segments p)"
    and link: "\<And>t. path_segments p \<noteq> [] \<Longrightarrow> node fs (d @ [last (path_segments p)]) \<noteq> Some (Link t) \<or> (\<nexists>m. node fs d = Some (Dir m))"
    using resolveSafe_place [OF assms(1)] assms(2) by (metis Inr_inject)
  let ?x = "last (path_segments p)" and ?f = "File c (now_ms w)"
  have ne: "path_segments p \<noteq> []" using assms(4) d by (auto simp: writeFile_def place_def node_def)
  with assms(4) d link obtain k where k: "node fs d = Some (Dir k)" and fs': "fs' = AList.update (d @ [?x]) ?f fs"
    and old: "node fs (d @ [?x]) = None \<or> (\<exists>c m. node fs (d @ [?x]) = Some (File c m))"
    by (auto simp: writeFile_def place_def split: option.splits entry.splits)
  have upd: "\<forall>q. q \<noteq> d @ [?x] \<longrightarrow> node fs' q = node fs q" "node fs' (d @ [?x]) = Some ?f" by (simp_all add: fs' node_update)
  have keep: "real_segments fs' q = Inr r" if "real_segments fs q = Inr r" for q r
    using walk_after_write [OF that [unfolded real_segments_def] upd old] by (simp add: real_segments_def)
  have k': "node fs' d = Some (Dir k)" using upd(1) k by simp
  have x: "plain_segment ?x" using clean_path_segments [of p] ne by (cases "path_segments p" rule: rev_cases) auto
  have cl: "clean (butlast (path_segments p))"
    using clean_path_segments [of p] by (cases "path_segments p" rule: rev_cases) auto
  have "walk fs' max_links [] (butlast (path_segments p)) = Inr d"
    using keep [OF d(1)] real_segments_from [OF cl] by (simp add: dirname_def)
  from walk_last [OF this k' x upd(2)] ne have "walk fs' max_links [] (path_segments p) = Inr (d @ [?x])" by simp
  then have is_file: "real_segments fs' p = Inr (d @ [?x])"
    using real_segments_from [OF clean_path_segments [of p]] p by metis
  show "stat fs' p = Inr ?f" by (simp add: stat_def is_file upd(2))
  have base: "clean base" using real_segments_clean [OF assms(2)] .
  have "lstat fs' p = Inr ?f" using keep [OF d(1)] k' ne upd(2) by (simp add: lstat_def place_def)
  moreover have "isWithinBase (from_segments base) (from_segments d)"
    unfolding d(2) by (rule below_within) (use base assms(3) d in auto)
  moreover have "isWithinBase (from_segments base) (from_segments (d @ [?x]))"
    unfolding d(2) append_assoc by (rule below_within) (use base assms(3) d x in auto)
  ultimately show "resolveSafeMemoryPath fs' cwd dir rel = Inr p"
    using keep [OF assms(2)] keep [OF d(1)] rw is_file by (simp add: resolveSafeMemoryPath_def realpath_def)
qed

section \<open>Properties\<close>

text \<open>
  C35. A request to write or remove a file in the memory changes nothing, or exactly one entry of the file system, which lies
  below the real path of the memory directory and is no symbolic link, whatever path it names and wherever links lead.
\<close>

theorem memory_changes_confined:
  assumes "real_segments fs (absolute_in cwd (config_memoryDir cwd w)) = Inr base"
  shows "confined_change base fs (snd (memory_files_POST cwd w req fs s)) \<and> confined_change base fs (snd (memory_files_DELETE cwd w req fs s))"
proof
  show "confined_change base fs (snd (memory_files_POST cwd w req fs s))"
    unfolding memory_files_POST_def
    by (rule limited_route) (use post_memory_confined [OF assms] in \<open>simp_all add: case_prod_beta Let_def\<close>)
  show "confined_change base fs (snd (memory_files_DELETE cwd w req fs s))"
    unfolding memory_files_DELETE_def
    by (rule limited_route) (use remove_memory_confined [OF assms] in \<open>simp_all add: case_prod_beta Let_def\<close>)
qed

definition demo_memory :: file_system where
  "demo_memory = [([''mem''], Dir 0), ([''etc''], Dir 0), ([''mem'', ''out''], Link ''/etc'')]"

definition memory_world :: world where
  "memory_world = demo_world\<lparr>getenv := (getenv demo_world)(''OPENCLAW_MEMORY_DIR'' \<mapsto> ''/mem'')\<rparr>"

lemma demo_memory_dir:
  "real_segments demo_memory (absolute_in ''/'' (config_memoryDir ''/'' memory_world)) = Inr [''mem'']"
  by (simp add: config_memoryDir_def memory_world_def or_else_def absolute_in_def starts_with_def real_segments_def node_def demo_memory_def
      max_links_def)

theorem memory_changes_confined_witness:
  "confined_change [''mem''] demo_memory (snd (memory_files_POST ''/'' memory_world (demo_request\<lparr>req_body := Some (JObj
     [(''action'', JStr ''save''), (''path'', JStr ''out/passwd''), (''content'', JStr ''x'')])\<rparr>) demo_memory init_server))"
  using memory_changes_confined [OF demo_memory_dir] by blast

text \<open>
  C36. When the memory directory exists and is not the root of the file system, the text that an accepted request saves under a path
  is what reading that path gives afterwards.
\<close>

theorem saved_memory_read_back:
  assumes "real_segments fs (absolute_in cwd (config_memoryDir cwd w)) = Inr base" and "base \<noteq> []"
    and "req_body req = Some (JObj [(''action'', JStr ''save''), (''path'', JStr path), (''content'', JStr c)])" and "path \<noteq> []"
    and "post_memory cwd w req fs = (r, fs')" and "resp_status r = 200"
  shows "memory_content fs' cwd (config_memoryDir cwd w) path = json_response 200 (JObj [(''content'', JStr c),
    (''size'', JNum (int (length c))), (''modified'', JNum (now_ms w)), (''path'', JStr path)])"
proof -
  obtain p where p: "resolveSafeMemoryPath fs cwd (config_memoryDir cwd w) path = Inr p" "writeFile w p c fs = Inr fs'"
    using assms(3-6)
    by (auto simp: post_memory_def with_memory_path_def truthy_prop_def write_memory_file_def memory_error_def split: sum.splits)
  with read_after_write [OF p(1) assms(1,2) p(2)] show ?thesis by (simp add: memory_content_def)
qed

theorem saved_memory_read_back_witness:
  "\<exists>r fs'. post_memory ''/'' memory_world (demo_request\<lparr>req_body := Some (JObj
       [(''action'', JStr ''save''), (''path'', JStr ''a.md''), (''content'', JStr ''hi'')])\<rparr>) demo_memory = (r, fs') \<and>
     resp_status r = 200 \<and> memory_content fs' ''/'' ''/mem'' ''a.md'' = json_response 200 (JObj [(''content'', JStr ''hi''),
    (''size'', JNum 2), (''modified'', JNum 1700000000000), (''path'', JStr ''a.md'')])"
proof -
  define req where "req = demo_request\<lparr>req_body := Some (JObj [(''action'', JStr ''save''), (''path'', JStr ''a.md''), (''content'', JStr ''hi'')])\<rparr>"
  have dir: "config_memoryDir ''/'' memory_world = ''/mem''"
    by (simp add: config_memoryDir_def memory_world_def or_else_def)
  obtain r fs' where run: "post_memory ''/'' memory_world req demo_memory = (r, fs')" by fastforce
  have "resolveSafeMemoryPath demo_memory ''/'' ''/mem'' ''a.md'' = Inr ''/mem/a.md''"
    by code_simp
  moreover have "\<exists>x. writeFile memory_world ''/mem/a.md'' ''hi'' demo_memory = Inr x"
    by (simp add: writeFile_def place_def dirname_def path_segments_def from_segments_def real_segments_def node_def demo_memory_def max_links_def)
  ultimately have ok: "resp_status r = 200"
    using run dir by (auto simp: post_memory_def with_memory_path_def req_def truthy_prop_def write_memory_file_def memory_ok_def)
  from saved_memory_read_back [OF demo_memory_dir _ _ _ run this, of "''a.md''" "''hi''"] dir
  have "memory_content fs' ''/'' ''/mem'' ''a.md'' = json_response 200 (JObj [(''content'', JStr ''hi''),
      (''size'', JNum 2), (''modified'', JNum 1700000000000), (''path'', JStr ''a.md'')])"
    by (auto simp: req_def memory_world_def demo_world_def)
  with run ok show ?thesis unfolding req_def by blast
qed

end
