(* ===== verification/MC_Store.thy ===== *)
theory MC_Store
  imports MC_AgentSync Complex_Main
begin

text \<open>
  The client-side store, \<open>src/store/index.ts\<close>: the state that the dashboard keeps in the browser and the
  actions on it, one definition per action, and the models of \<open>src/lib/models.ts\<close>. Objects of the client
  are their properties, so that the updates of the code (\<open>{...task, ...updates}\<close>) are \<open>spread\<close>. The browser's
  \<open>localStorage\<close> is part of the state; it may refuse every access. The prices of models and the cost of usage are rationals;
  the floating-point addition of costs and the parser for dates are arguments.
\<close>

section \<open>State\<close>

type_synonym obj = "(string \<times> json) list"

text \<open>\<open>x.id === i\<close>, and the number of a property.\<close>

definition has_key :: "string \<Rightarrow> json \<Rightarrow> obj \<Rightarrow> bool" where
  "has_key k v x \<longleftrightarrow> map_of x k = Some v"

record model_config =
  md_alias :: string
  md_name :: string
  md_provider :: string
  md_description :: string
  md_costPer1k :: rat

definition MODEL_CATALOG :: "model_config list" where
  "MODEL_CATALOG =
    [\<lparr>md_alias = ''haiku'', md_name = ''anthropic/claude-3-5-haiku-latest'', md_provider = ''anthropic'',
       md_description = ''Ultra-cheap, simple tasks'', md_costPer1k = 25 / 100\<rparr>,
     \<lparr>md_alias = ''sonnet'', md_name = ''anthropic/claude-sonnet-4-20250514'', md_provider = ''anthropic'',
       md_description = ''Standard workhorse'', md_costPer1k = 3\<rparr>,
     \<lparr>md_alias = ''opus'', md_name = ''anthropic/claude-opus-4-5'', md_provider = ''anthropic'',
       md_description = ''Premium quality'', md_costPer1k = 15\<rparr>,
     \<lparr>md_alias = ''deepseek'', md_name = ''ollama/deepseek-r1:14b'', md_provider = ''ollama'',
       md_description = ''Local reasoning (free)'', md_costPer1k = 0\<rparr>,
     \<lparr>md_alias = ''groq-fast'', md_name = ''groq/llama-3.1-8b-instant'', md_provider = ''groq'',
       md_description = ''840 tok/s, ultra fast'', md_costPer1k = 5 / 100\<rparr>,
     \<lparr>md_alias = ''groq'', md_name = ''groq/llama-3.3-70b-versatile'', md_provider = ''groq'',
       md_description = ''Fast + quality balance'', md_costPer1k = 59 / 100\<rparr>,
     \<lparr>md_alias = ''kimi'', md_name = ''moonshot/kimi-k2.5'', md_provider = ''moonshot'',
       md_description = ''Alternative provider'', md_costPer1k = 1\<rparr>,
     \<lparr>md_alias = ''minimax'', md_name = ''minimax/minimax-m2.1'', md_provider = ''minimax'',
       md_description = ''Cost-effective (1/10th price), strong coding'', md_costPer1k = 3 / 10\<rparr>]"

definition getModelByAlias :: "string \<Rightarrow> model_config option" where
  "getModelByAlias a = find (\<lambda>m. md_alias m = a) MODEL_CATALOG"

definition getModelByName :: "string \<Rightarrow> model_config option" where
  "getModelByName n = find (\<lambda>m. md_name m = n) MODEL_CATALOG"

definition getAllModels :: "model_config list" where
  "getAllModels = MODEL_CATALOG"

record token_usage =
  us_model :: string
  us_sessionId :: string
  us_date :: string
  us_inputTokens :: int
  us_outputTokens :: int
  us_totalTokens :: int
  us_cost :: rat

record client_store =
  st_dashboardMode :: string
  st_gatewayAvailable :: bool
  st_bannerDismissed :: bool
  st_subscription :: json
  st_updateAvailable :: json
  st_updateDismissedVersion :: "string option"
  st_connection :: obj
  st_lastMessage :: json
  st_sessions :: "obj list"
  st_selectedSession :: "string option"
  st_logs :: "obj list"
  st_logFilters :: obj
  st_spawnRequests :: "obj list"
  st_cronJobs :: "obj list"
  st_memoryFiles :: json
  st_selectedMemoryFile :: "string option"
  st_memoryContent :: "string option"
  st_tokenUsage :: "token_usage list"
  st_availableModels :: "model_config list"
  st_currentUser :: json
  st_activeTab :: string
  st_sidebarExpanded :: bool
  st_collapsedGroups :: "string list"
  st_liveFeedOpen :: bool
  st_tasks :: "obj list"
  st_selectedTask :: "obj option"
  st_agents :: "obj list"
  st_selectedAgent :: "obj option"
  st_activities :: "obj list"
  st_notifications :: "obj list"
  st_unreadNotificationCount :: int
  st_taskComments :: "(int \<times> obj list) list"
  st_chatMessages :: "obj list"
  st_conversations :: "obj list"
  st_activeConversation :: "string option"
  st_chatInput :: string
  st_isSendingMessage :: bool
  st_chatPanelOpen :: bool
  st_standupReports :: "json list"
  st_currentStandupReport :: json
  st_storage :: "string \<Rightarrow> string option"
  st_storage_ok :: bool

text \<open>\<open>localStorage.getItem\<close> and \<open>setItem\<close>, with the exception caught.\<close>

definition storage_get :: "(string \<Rightarrow> string option) \<Rightarrow> bool \<Rightarrow> string \<Rightarrow> string option" where
  "storage_get storage ok k = (if ok then storage k else None)"

definition storage_set :: "string \<Rightarrow> string \<Rightarrow> client_store \<Rightarrow> client_store" where
  "storage_set k v st = (if st_storage_ok st then st\<lparr>st_storage := (st_storage st)(k \<mapsto> v)\<rparr> else st)"

text \<open>A stored value that is JSON but no list of texts is outside the model.\<close>

definition read_groups :: "(string \<Rightarrow> json option) \<Rightarrow> string option \<Rightarrow> string list" where
  "read_groups parse_json raw = (case or_null raw of
     None \<Rightarrow> []
   | Some x \<Rightarrow> (case parse_json x of
       Some (JArr vs) \<Rightarrow> List.map_filter (\<lambda>v. case v of JStr y \<Rightarrow> Some y | _ \<Rightarrow> None) vs | _ \<Rightarrow> []))"

text \<open>The store when the page is loaded.\<close>

definition initial_store :: "(string \<Rightarrow> json option) \<Rightarrow> (string \<Rightarrow> string option) \<Rightarrow> bool \<Rightarrow> client_store" where
  "initial_store parse_json storage ok = \<lparr>st_dashboardMode = ''full'', st_gatewayAvailable = True, st_bannerDismissed = False,
     st_subscription = JNull, st_updateAvailable = JNull,
     st_updateDismissedVersion = storage_get storage ok ''mc-update-dismissed-version'',
     st_connection = [(''isConnected'', JBool False), (''url'', JStr []), (''reconnectAttempts'', JNum 0)], st_lastMessage = JNull,
     st_sessions = [], st_selectedSession = None, st_logs = [], st_logFilters = [], st_spawnRequests = [], st_cronJobs = [],
     st_memoryFiles = JArr [], st_selectedMemoryFile = None, st_memoryContent = None, st_tokenUsage = [],
     st_availableModels = MODEL_CATALOG, st_currentUser = JNull, st_activeTab = ''overview'',
     st_sidebarExpanded = (storage_get storage ok ''mc-sidebar-expanded'' = Some ''true''),
     st_collapsedGroups = read_groups parse_json (storage_get storage ok ''mc-sidebar-groups''),
     st_liveFeedOpen = (storage_get storage ok ''mc-livefeed-open'' \<noteq> Some ''false''),
     st_tasks = [], st_selectedTask = None, st_agents = [], st_selectedAgent = None, st_activities = [], st_notifications = [],
     st_unreadNotificationCount = 0, st_taskComments = [], st_chatMessages = [], st_conversations = [],
     st_activeConversation = None, st_chatInput = [], st_isSendingMessage = False, st_chatPanelOpen = False,
     st_standupReports = [], st_currentStandupReport = JNull, st_storage = storage, st_storage_ok = ok\<rparr>"

section \<open>Actions\<close>

subsection \<open>Shared shapes\<close>

text \<open>\<open>xs.map(x => x.k === v ? {...x, ...updates} : x)\<close> and \<open>xs.slice(-n)\<close>\<close>

definition patch :: "string \<Rightarrow> json \<Rightarrow> obj \<Rightarrow> obj list \<Rightarrow> obj list" where
  "patch k v updates xs = map (\<lambda>x. if has_key k v x then spread x updates else x) xs"

definition patch_selected :: "json \<Rightarrow> obj \<Rightarrow> obj option \<Rightarrow> obj option" where
  "patch_selected i updates sel = map_option (\<lambda>x. if has_key ''id'' i x then spread x updates else x) sel"

definition drop_selected :: "json \<Rightarrow> obj option \<Rightarrow> obj option" where
  "drop_selected i sel = (case sel of None \<Rightarrow> None | Some x \<Rightarrow> if has_key ''id'' i x then None else Some x)"

definition take_last :: "nat \<Rightarrow> 'a list \<Rightarrow> 'a list" where
  "take_last n xs = drop (length xs - n) xs"

subsection \<open>Mode, update, connection, sessions\<close>

definition setDashboardMode :: "string \<Rightarrow> client_store \<Rightarrow> client_store" where
  "setDashboardMode mode st = st\<lparr>st_dashboardMode := mode\<rparr>"

definition setGatewayAvailable :: "bool \<Rightarrow> client_store \<Rightarrow> client_store" where
  "setGatewayAvailable available st = st\<lparr>st_gatewayAvailable := available\<rparr>"

definition dismissBanner :: "client_store \<Rightarrow> client_store" where
  "dismissBanner st = st\<lparr>st_bannerDismissed := True\<rparr>"

definition setSubscription :: "json \<Rightarrow> client_store \<Rightarrow> client_store" where
  "setSubscription sub st = st\<lparr>st_subscription := sub\<rparr>"

definition setUpdateAvailable :: "json \<Rightarrow> client_store \<Rightarrow> client_store" where
  "setUpdateAvailable info st = st\<lparr>st_updateAvailable := info\<rparr>"

definition dismissUpdate :: "string \<Rightarrow> client_store \<Rightarrow> client_store" where
  "dismissUpdate version st = (storage_set ''mc-update-dismissed-version'' version st)\<lparr>st_updateDismissedVersion := Some version\<rparr>"

definition setConnection :: "obj \<Rightarrow> client_store \<Rightarrow> client_store" where
  "setConnection c st = st\<lparr>st_connection := spread (st_connection st) c\<rparr>"

definition setLastMessage :: "json \<Rightarrow> client_store \<Rightarrow> client_store" where
  "setLastMessage m st = st\<lparr>st_lastMessage := m\<rparr>"

definition setSessions :: "obj list \<Rightarrow> client_store \<Rightarrow> client_store" where
  "setSessions xs st = st\<lparr>st_sessions := xs\<rparr>"

definition setSelectedSession :: "string option \<Rightarrow> client_store \<Rightarrow> client_store" where
  "setSelectedSession i st = st\<lparr>st_selectedSession := i\<rparr>"

definition updateSession :: "string \<Rightarrow> obj \<Rightarrow> client_store \<Rightarrow> client_store" where
  "updateSession i updates st = st\<lparr>st_sessions := patch ''id'' (JStr i) updates (st_sessions st)\<rparr>"

subsection \<open>Logs, spawn requests, cron jobs, memory\<close>

text \<open>The first log with the id is replaced in place; otherwise the log is put in front of at most 999 others.\<close>

fun replace_first :: "(obj \<Rightarrow> bool) \<Rightarrow> obj \<Rightarrow> obj list \<Rightarrow> obj list" where
  "replace_first p y [] = []"
| "replace_first p y (x # xs) = (if p x then y # xs else x # replace_first p y xs)"

definition addLog :: "obj \<Rightarrow> client_store \<Rightarrow> client_store" where
  "addLog entry st =
     (let same = (\<lambda>x. map_of x ''id'' = map_of entry ''id'')
      in if list_ex same (st_logs st) then st\<lparr>st_logs := replace_first same entry (st_logs st)\<rparr>
         else st\<lparr>st_logs := take 1000 (entry # st_logs st)\<rparr>)"

definition setLogFilters :: "obj \<Rightarrow> client_store \<Rightarrow> client_store" where
  "setLogFilters filters st = st\<lparr>st_logFilters := spread (st_logFilters st) filters\<rparr>"

definition clearLogs :: "client_store \<Rightarrow> client_store" where
  "clearLogs st = st\<lparr>st_logs := []\<rparr>"

definition addSpawnRequest :: "obj \<Rightarrow> client_store \<Rightarrow> client_store" where
  "addSpawnRequest r st = st\<lparr>st_spawnRequests := r # st_spawnRequests st\<rparr>"

definition updateSpawnRequest :: "string \<Rightarrow> obj \<Rightarrow> client_store \<Rightarrow> client_store" where
  "updateSpawnRequest i updates st = st\<lparr>st_spawnRequests := patch ''id'' (JStr i) updates (st_spawnRequests st)\<rparr>"

definition setCronJobs :: "obj list \<Rightarrow> client_store \<Rightarrow> client_store" where
  "setCronJobs jobs st = st\<lparr>st_cronJobs := jobs\<rparr>"

definition updateCronJob :: "string \<Rightarrow> obj \<Rightarrow> client_store \<Rightarrow> client_store" where
  "updateCronJob name updates st = st\<lparr>st_cronJobs := patch ''name'' (JStr name) updates (st_cronJobs st)\<rparr>"

definition setMemoryFiles :: "json \<Rightarrow> client_store \<Rightarrow> client_store" where
  "setMemoryFiles files st = st\<lparr>st_memoryFiles := files\<rparr>"

definition setSelectedMemoryFile :: "string option \<Rightarrow> client_store \<Rightarrow> client_store" where
  "setSelectedMemoryFile p st = st\<lparr>st_selectedMemoryFile := p\<rparr>"

definition setMemoryContent :: "string option \<Rightarrow> client_store \<Rightarrow> client_store" where
  "setMemoryContent c st = st\<lparr>st_memoryContent := c\<rparr>"

subsection \<open>Token usage and models\<close>

definition addTokenUsage :: "token_usage \<Rightarrow> client_store \<Rightarrow> client_store" where
  "addTokenUsage u st = st\<lparr>st_tokenUsage := st_tokenUsage st @ [u]\<rparr>"

definition usage_cutoff :: "string \<Rightarrow> int \<Rightarrow> int" where
  "usage_cutoff timeframe now =
     (if timeframe = ''day'' then now - 24 * 60 * 60 * 1000
      else if timeframe = ''week'' then now - 7 * 24 * 60 * 60 * 1000
      else if timeframe = ''month'' then now - 30 * 24 * 60 * 60 * 1000 else 0)"

definition usage_since :: "(string \<Rightarrow> int option) \<Rightarrow> string \<Rightarrow> int \<Rightarrow> client_store \<Rightarrow> token_usage list" where
  "usage_since date_ms timeframe now st =
     filter (\<lambda>u. case date_ms (us_date u) of None \<Rightarrow> False | Some t \<Rightarrow> usage_cutoff timeframe now \<le> t) (st_tokenUsage st)"

definition getUsageByModel :: "(string \<Rightarrow> int option) \<Rightarrow> string \<Rightarrow> int \<Rightarrow> client_store \<Rightarrow> (string \<times> int) list" where
  "getUsageByModel date_ms timeframe now st =
     fold (\<lambda>u acc. AList.update (us_model u) ((case map_of acc (us_model u) of None \<Rightarrow> 0 | Some n \<Rightarrow> n) + us_totalTokens u) acc)
       (usage_since date_ms timeframe now st) []"

definition getTotalCost :: "(rat \<Rightarrow> rat \<Rightarrow> rat) \<Rightarrow> (string \<Rightarrow> int option) \<Rightarrow> string \<Rightarrow> int \<Rightarrow> client_store \<Rightarrow> rat" where
  "getTotalCost fadd date_ms timeframe now st = foldl (\<lambda>acc u. fadd acc (us_cost u)) 0 (usage_since date_ms timeframe now st)"

definition setAvailableModels :: "model_config list \<Rightarrow> client_store \<Rightarrow> client_store" where
  "setAvailableModels ms st = st\<lparr>st_availableModels := ms\<rparr>"

definition setCurrentUser :: "json \<Rightarrow> client_store \<Rightarrow> client_store" where
  "setCurrentUser u st = st\<lparr>st_currentUser := u\<rparr>"

subsection \<open>Layout\<close>

definition setActiveTab :: "string \<Rightarrow> client_store \<Rightarrow> client_store" where
  "setActiveTab tab st = st\<lparr>st_activeTab := tab\<rparr>"

definition bool_str :: "bool \<Rightarrow> string" where
  "bool_str b = (if b then ''true'' else ''false'')"

definition setSidebarExpanded :: "bool \<Rightarrow> client_store \<Rightarrow> client_store" where
  "setSidebarExpanded expanded st = (storage_set ''mc-sidebar-expanded'' (bool_str expanded) st)\<lparr>st_sidebarExpanded := expanded\<rparr>"

definition toggleSidebar :: "client_store \<Rightarrow> client_store" where
  "toggleSidebar st =
     (let nxt = (\<not> st_sidebarExpanded st)
      in (storage_set ''mc-sidebar-expanded'' (bool_str nxt) st)\<lparr>st_sidebarExpanded := nxt\<rparr>)"

definition toggleGroup :: "string \<Rightarrow> client_store \<Rightarrow> client_store" where
  "toggleGroup g st =
     (let nxt = (if g \<in> set (st_collapsedGroups st) then filter (\<lambda>x. x \<noteq> g) (st_collapsedGroups st) else st_collapsedGroups st @ [g])
      in (storage_set ''mc-sidebar-groups'' (stringify (JArr (map JStr nxt))) st)\<lparr>st_collapsedGroups := nxt\<rparr>)"

definition toggleLiveFeed :: "client_store \<Rightarrow> client_store" where
  "toggleLiveFeed st =
     (let nxt = (\<not> st_liveFeedOpen st)
      in (storage_set ''mc-livefeed-open'' (bool_str nxt) st)\<lparr>st_liveFeedOpen := nxt\<rparr>)"

subsection \<open>Tasks, agents, activities\<close>

definition setTasks :: "obj list \<Rightarrow> client_store \<Rightarrow> client_store" where
  "setTasks xs st = st\<lparr>st_tasks := xs\<rparr>"

definition setSelectedTask :: "obj option \<Rightarrow> client_store \<Rightarrow> client_store" where
  "setSelectedTask x st = st\<lparr>st_selectedTask := x\<rparr>"

definition addTask :: "obj \<Rightarrow> client_store \<Rightarrow> client_store" where
  "addTask x st = st\<lparr>st_tasks := x # st_tasks st\<rparr>"

definition updateTask :: "json \<Rightarrow> obj \<Rightarrow> client_store \<Rightarrow> client_store" where
  "updateTask i updates st = st\<lparr>st_tasks := patch ''id'' i updates (st_tasks st),
     st_selectedTask := patch_selected i updates (st_selectedTask st)\<rparr>"

definition deleteTask :: "json \<Rightarrow> client_store \<Rightarrow> client_store" where
  "deleteTask i st = st\<lparr>st_tasks := filter (\<lambda>x. \<not> has_key ''id'' i x) (st_tasks st),
     st_selectedTask := drop_selected i (st_selectedTask st)\<rparr>"

definition setAgents :: "obj list \<Rightarrow> client_store \<Rightarrow> client_store" where
  "setAgents xs st = st\<lparr>st_agents := xs\<rparr>"

definition setSelectedAgent :: "obj option \<Rightarrow> client_store \<Rightarrow> client_store" where
  "setSelectedAgent x st = st\<lparr>st_selectedAgent := x\<rparr>"

definition addAgent :: "obj \<Rightarrow> client_store \<Rightarrow> client_store" where
  "addAgent x st = st\<lparr>st_agents := x # st_agents st\<rparr>"

definition updateAgent :: "json \<Rightarrow> obj \<Rightarrow> client_store \<Rightarrow> client_store" where
  "updateAgent i updates st = st\<lparr>st_agents := patch ''id'' i updates (st_agents st),
     st_selectedAgent := patch_selected i updates (st_selectedAgent st)\<rparr>"

definition deleteAgent :: "json \<Rightarrow> client_store \<Rightarrow> client_store" where
  "deleteAgent i st = st\<lparr>st_agents := filter (\<lambda>x. \<not> has_key ''id'' i x) (st_agents st),
     st_selectedAgent := drop_selected i (st_selectedAgent st)\<rparr>"

definition setActivities :: "obj list \<Rightarrow> client_store \<Rightarrow> client_store" where
  "setActivities xs st = st\<lparr>st_activities := xs\<rparr>"

definition addActivity :: "obj \<Rightarrow> client_store \<Rightarrow> client_store" where
  "addActivity x st = st\<lparr>st_activities := take 1000 (x # st_activities st)\<rparr>"

subsection \<open>Notifications and comments\<close>

definition is_unread :: "obj \<Rightarrow> bool" where
  "is_unread x \<longleftrightarrow> truthy_prop ''read_at'' (JObj x) = None"

definition setNotifications :: "obj list \<Rightarrow> client_store \<Rightarrow> client_store" where
  "setNotifications xs st = st\<lparr>st_notifications := xs, st_unreadNotificationCount := int (length (filter is_unread xs))\<rparr>"

definition addNotification :: "obj \<Rightarrow> client_store \<Rightarrow> client_store" where
  "addNotification x st = st\<lparr>st_notifications := x # st_notifications st,
     st_unreadNotificationCount := st_unreadNotificationCount st + 1\<rparr>"

definition read_now :: "world \<Rightarrow> obj \<Rightarrow> obj" where
  "read_now w x = spread x [(''read_at'', JNum (now_s w))]"

definition client_markNotificationRead :: "world \<Rightarrow> json \<Rightarrow> client_store \<Rightarrow> client_store" where
  "client_markNotificationRead w i st = st\<lparr>st_notifications := map (\<lambda>x. if has_key ''id'' i x then read_now w x else x) (st_notifications st),
     st_unreadNotificationCount := max 0 (st_unreadNotificationCount st - 1)\<rparr>"

definition markAllNotificationsRead :: "world \<Rightarrow> client_store \<Rightarrow> client_store" where
  "markAllNotificationsRead w st = st\<lparr>st_notifications := map (\<lambda>x. if is_unread x then read_now w x else x) (st_notifications st),
     st_unreadNotificationCount := 0\<rparr>"

definition setTaskComments :: "int \<Rightarrow> obj list \<Rightarrow> client_store \<Rightarrow> client_store" where
  "setTaskComments i cs st = st\<lparr>st_taskComments := AList.update i cs (st_taskComments st)\<rparr>"

definition addTaskComment :: "int \<Rightarrow> obj \<Rightarrow> client_store \<Rightarrow> client_store" where
  "addTaskComment i c st = st\<lparr>st_taskComments := AList.update i
     (c # (case map_of (st_taskComments st) i of None \<Rightarrow> [] | Some cs \<Rightarrow> cs)) (st_taskComments st)\<rparr>"

subsection \<open>Chat and standups\<close>

definition setChatMessages :: "obj list \<Rightarrow> client_store \<Rightarrow> client_store" where
  "setChatMessages ms st = st\<lparr>st_chatMessages := take_last 500 ms\<rparr>"

definition server_id :: "obj \<Rightarrow> bool" where
  "server_id m \<longleftrightarrow> (case map_of m ''id'' of Some (JNum n) \<Rightarrow> 0 < n | _ \<Rightarrow> False)"

text \<open>A property that the message does not have is \<open>undefined\<close>: the value \<open>null\<close> stands for it in the conversation.\<close>

definition addChatMessage :: "obj \<Rightarrow> client_store \<Rightarrow> client_store" where
  "addChatMessage m st =
     (if server_id m \<and> list_ex (\<lambda>x. map_of x ''id'' = map_of m ''id'') (st_chatMessages st) then st
      else st\<lparr>st_chatMessages := take_last 500 (st_chatMessages st @ [m]),
              st_conversations := map (\<lambda>c. if map_of c ''id'' = map_of m ''conversation_id''
                then spread c [(''lastMessage'', JObj m), (''updatedAt'', case map_of m ''created_at'' of Some v \<Rightarrow> v | None \<Rightarrow> JNull)]
                else c) (st_conversations st)\<rparr>)"

definition replacePendingMessage :: "json \<Rightarrow> obj \<Rightarrow> client_store \<Rightarrow> client_store" where
  "replacePendingMessage tempId m st = st\<lparr>st_chatMessages :=
     map (\<lambda>x. if has_key ''id'' tempId x then spread m [(''pendingStatus'', JStr ''sent'')] else x) (st_chatMessages st)\<rparr>"

definition updatePendingMessage :: "json \<Rightarrow> obj \<Rightarrow> client_store \<Rightarrow> client_store" where
  "updatePendingMessage tempId updates st = st\<lparr>st_chatMessages := patch ''id'' tempId updates (st_chatMessages st)\<rparr>"

definition removePendingMessage :: "json \<Rightarrow> client_store \<Rightarrow> client_store" where
  "removePendingMessage tempId st = st\<lparr>st_chatMessages := filter (\<lambda>x. \<not> has_key ''id'' tempId x) (st_chatMessages st)\<rparr>"

definition setConversations :: "obj list \<Rightarrow> client_store \<Rightarrow> client_store" where
  "setConversations cs st = st\<lparr>st_conversations := cs\<rparr>"

definition setActiveConversation :: "string option \<Rightarrow> client_store \<Rightarrow> client_store" where
  "setActiveConversation c st = st\<lparr>st_activeConversation := c\<rparr>"

definition setChatInput :: "string \<Rightarrow> client_store \<Rightarrow> client_store" where
  "setChatInput x st = st\<lparr>st_chatInput := x\<rparr>"

definition setIsSendingMessage :: "bool \<Rightarrow> client_store \<Rightarrow> client_store" where
  "setIsSendingMessage b st = st\<lparr>st_isSendingMessage := b\<rparr>"

definition setChatPanelOpen :: "bool \<Rightarrow> client_store \<Rightarrow> client_store" where
  "setChatPanelOpen b st = st\<lparr>st_chatPanelOpen := b\<rparr>"

definition markConversationRead :: "world \<Rightarrow> string \<Rightarrow> client_store \<Rightarrow> client_store" where
  "markConversationRead w c st = st\<lparr>st_conversations := patch ''id'' (JStr c) [(''unreadCount'', JNum 0)] (st_conversations st),
     st_chatMessages := map (\<lambda>m. if has_key ''conversation_id'' (JStr c) m \<and> is_unread m then read_now w m else m) (st_chatMessages st)\<rparr>"

definition setStandupReports :: "json list \<Rightarrow> client_store \<Rightarrow> client_store" where
  "setStandupReports rs st = st\<lparr>st_standupReports := rs\<rparr>"

definition setCurrentStandupReport :: "json \<Rightarrow> client_store \<Rightarrow> client_store" where
  "setCurrentStandupReport r st = st\<lparr>st_currentStandupReport := r\<rparr>"


section \<open>What the store keeps\<close>

text \<open>Every action of the store, with any arguments, in any order.\<close>

inductive store_step :: "client_store \<Rightarrow> client_store \<Rightarrow> bool" where
  "store_step st (setDashboardMode mode st)"
| "store_step st (setGatewayAvailable available st)"
| "store_step st (dismissBanner st)"
| "store_step st (setSubscription sub st)"
| "store_step st (setUpdateAvailable info st)"
| "store_step st (dismissUpdate version st)"
| "store_step st (setConnection conn st)"
| "store_step st (setLastMessage m st)"
| "store_step st (setSessions xs st)"
| "store_step st (setSelectedSession sel st)"
| "store_step st (updateSession sid ups st)"
| "store_step st (addLog entry st)"
| "store_step st (setLogFilters ups st)"
| "store_step st (clearLogs st)"
| "store_step st (addSpawnRequest x st)"
| "store_step st (updateSpawnRequest sid ups st)"
| "store_step st (setCronJobs xs st)"
| "store_step st (updateCronJob sid ups st)"
| "store_step st (setMemoryFiles j st)"
| "store_step st (setSelectedMemoryFile sel st)"
| "store_step st (setMemoryContent sel st)"
| "store_step st (addTokenUsage u st)"
| "store_step st (setAvailableModels ms st)"
| "store_step st (setCurrentUser j st)"
| "store_step st (setActiveTab tab st)"
| "store_step st (setSidebarExpanded b st)"
| "store_step st (toggleSidebar st)"
| "store_step st (toggleGroup g st)"
| "store_step st (toggleLiveFeed st)"
| "store_step st (setTasks xs st)"
| "store_step st (setSelectedTask picked st)"
| "store_step st (addTask x st)"
| "store_step st (updateTask i ups st)"
| "store_step st (deleteTask i st)"
| "store_step st (setAgents xs st)"
| "store_step st (setSelectedAgent picked st)"
| "store_step st (addAgent x st)"
| "store_step st (updateAgent i ups st)"
| "store_step st (deleteAgent i st)"
| "store_step st (setActivities xs st)"
| "store_step st (addActivity x st)"
| "store_step st (setNotifications xs st)"
| "store_step st (addNotification x st)"
| "store_step st (client_markNotificationRead w i st)"
| "store_step st (markAllNotificationsRead w st)"
| "store_step st (setTaskComments tid xs st)"
| "store_step st (addTaskComment tid x st)"
| "store_step st (setChatMessages xs st)"
| "store_step st (addChatMessage x st)"
| "store_step st (replacePendingMessage i x st)"
| "store_step st (updatePendingMessage i ups st)"
| "store_step st (removePendingMessage i st)"
| "store_step st (setConversations xs st)"
| "store_step st (setActiveConversation sel st)"
| "store_step st (setChatInput tab st)"
| "store_step st (setIsSendingMessage b st)"
| "store_step st (setChatPanelOpen b st)"
| "store_step st (markConversationRead w sid st)"
| "store_step st (setStandupReports js st)"
| "store_step st (setCurrentStandupReport j st)"

lemmas store_actions = setDashboardMode_def setGatewayAvailable_def dismissBanner_def setSubscription_def setUpdateAvailable_def
  dismissUpdate_def setConnection_def setLastMessage_def setSessions_def setSelectedSession_def updateSession_def setLogFilters_def
  clearLogs_def addSpawnRequest_def updateSpawnRequest_def setCronJobs_def updateCronJob_def setMemoryFiles_def
  setSelectedMemoryFile_def setMemoryContent_def addTokenUsage_def setAvailableModels_def setCurrentUser_def setActiveTab_def
  setSidebarExpanded_def toggleSidebar_def toggleGroup_def toggleLiveFeed_def setTasks_def setSelectedTask_def addTask_def
  updateTask_def deleteTask_def setAgents_def setSelectedAgent_def addAgent_def updateAgent_def deleteAgent_def
  setActivities_def addActivity_def setNotifications_def addNotification_def client_markNotificationRead_def
  markAllNotificationsRead_def setTaskComments_def addTaskComment_def setChatMessages_def
  replacePendingMessage_def updatePendingMessage_def removePendingMessage_def setConversations_def setActiveConversation_def
  setChatInput_def setIsSendingMessage_def setChatPanelOpen_def markConversationRead_def setStandupReports_def
  setCurrentStandupReport_def storage_set_def Let_def

subsection \<open>Bounds\<close>

text \<open>
  The lists that grow by themselves are cut, a log is listed once, and the counter of unread notifications is no negative
  number. Of the messages with an id of the server, \<open>replacePendingMessage\<close> may make a second one.
\<close>

definition store_bounded :: "client_store \<Rightarrow> bool" where
  "store_bounded st \<longleftrightarrow> length (st_logs st) \<le> 1000 \<and> distinct (map (\<lambda>x. map_of x ''id'') (st_logs st)) \<and>
     length (st_chatMessages st) \<le> 500 \<and> 0 \<le> st_unreadNotificationCount st"

lemma length_replace_first [simp]: "length (replace_first p y xs) = length xs"
  by (induction xs) auto

lemma map_replace_first:
  "(\<And>x. p x \<Longrightarrow> f x = f y) \<Longrightarrow> map f (replace_first p y xs) = map f xs"
  by (induction xs) auto

lemma length_take_last [simp]: "length (take_last n xs) \<le> n"
  by (simp add: take_last_def)

lemma length_patch [simp]: "length (patch k v updates xs) = length xs"
  by (simp add: patch_def)

lemma addLog_bounded:
  assumes "store_bounded st"
  shows "store_bounded (addLog entry st)"
proof (cases "list_ex (\<lambda>x. map_of x ''id'' = map_of entry ''id'') (st_logs st)")
  case True
  then show ?thesis
    using assms by (simp add: store_bounded_def addLog_def Let_def map_replace_first)
next
  case False
  then have "distinct (map (\<lambda>x. map_of x ''id'') (entry # st_logs st))"
    using assms by (auto simp: store_bounded_def list_ex_iff)
  then have "distinct (take 1000 (map (\<lambda>x. map_of x ''id'') (entry # st_logs st)))"
    by (rule distinct_take)
  then show ?thesis
    using assms False by (simp add: store_bounded_def addLog_def Let_def take_map)
qed

lemma addChatMessage_bounded: "store_bounded st \<Longrightarrow> store_bounded (addChatMessage m st)"
  by (simp add: store_bounded_def addChatMessage_def)

lemma store_step_bounded: "store_step st st' \<Longrightarrow> store_bounded st \<Longrightarrow> store_bounded st'"
  by (induction rule: store_step.induct)
    (simp_all add: addLog_bounded addChatMessage_bounded,
      simp_all add: store_bounded_def store_actions le_trans [OF length_filter_le])

lemma initial_store_bounded: "store_bounded (initial_store parse_json storage ok)"
  by (simp add: store_bounded_def initial_store_def)


definition loaded_store :: "(string \<Rightarrow> json option) \<Rightarrow> client_store \<Rightarrow> bool" where
  "loaded_store parse_json st \<longleftrightarrow> (\<exists>storage ok. st = initial_store parse_json storage ok)"

interpretation bounded: invariant_system "loaded_store parse_json" store_step store_bounded for parse_json
  by unfold_locales (auto simp: loaded_store_def initial_store_bounded store_step_bounded)

subsection \<open>Layout and local storage\<close>

text \<open>
  The fields of the layout are what loading the page would read. A list of groups that was written has the text of its JSON
  in the storage.
\<close>

definition groups_kept :: "(string \<Rightarrow> json option) \<Rightarrow> client_store \<Rightarrow> bool" where
  "groups_kept parse_json st \<longleftrightarrow>
     st_storage st ''mc-sidebar-groups'' = Some (stringify (JArr (map JStr (st_collapsedGroups st)))) \<or>
     st_collapsedGroups st = read_groups parse_json (st_storage st ''mc-sidebar-groups'')"

definition layout_kept :: "(string \<Rightarrow> json option) \<Rightarrow> client_store \<Rightarrow> bool" where
  "layout_kept parse_json st \<longleftrightarrow> (st_storage_ok st \<longrightarrow>
     st_updateDismissedVersion st = st_storage st ''mc-update-dismissed-version'' \<and>
     st_sidebarExpanded st = (st_storage st ''mc-sidebar-expanded'' = Some ''true'') \<and>
     st_liveFeedOpen st = (st_storage st ''mc-livefeed-open'' \<noteq> Some ''false'') \<and> groups_kept parse_json st)"

lemma addLog_layout [simp]:
  "layout_kept parse_json (addLog entry st) = layout_kept parse_json st"
  by (simp add: layout_kept_def groups_kept_def addLog_def Let_def)

lemma addChatMessage_layout [simp]:
  "layout_kept parse_json (addChatMessage m st) = layout_kept parse_json st"
  by (simp add: layout_kept_def groups_kept_def addChatMessage_def)

lemma store_step_layout: "store_step st st' \<Longrightarrow> layout_kept parse_json st \<Longrightarrow> layout_kept parse_json st'"
  by (induction rule: store_step.induct)
    (simp_all, simp_all add: layout_kept_def groups_kept_def store_actions bool_str_def del: stringify.simps)

interpretation layout: invariant_system "loaded_store parse_json" store_step "layout_kept parse_json" for parse_json
  by unfold_locales
    (auto simp: loaded_store_def initial_store_def layout_kept_def groups_kept_def storage_get_def dest: store_step_layout)

interpretation storage_sys: invariant_system st_storage_ok store_step st_storage_ok
proof unfold_locales
  show "st_storage_ok t" if "st_storage_ok s" "store_step s t" for s t
    using that(2, 1) by (induction rule: store_step.induct) (simp_all add: store_actions addLog_def addChatMessage_def)
qed

lemma read_groups_stringify:
  assumes "parse_json (stringify (JArr (map JStr gs))) = Some (JArr (map JStr gs))"
  shows "read_groups parse_json (Some (stringify (JArr (map JStr gs)))) = gs"
proof -
  have "List.map_filter (\<lambda>v. case v of JStr y \<Rightarrow> Some y | _ \<Rightarrow> None) (map JStr gs) = gs"
    by (induction gs) (simp_all add: map_filter_simps)
  moreover have "stringify (JArr (map JStr gs)) \<noteq> []"
    by simp
  ultimately show ?thesis
    using assms by (simp add: read_groups_def or_null_def del: stringify.simps)
qed

section \<open>Properties\<close>

text \<open>
  C26. Whatever actions the dashboard performs after the page was loaded, in any order and with any arguments: at most 1000
  logs are kept and none of them twice, at most 500 chat messages are kept, and the number of unread
  notifications is never negative.
\<close>

theorem client_store_bounded:
  assumes "store_step\<^sup>*\<^sup>* (initial_store parse_json storage ok) st"
  shows "length (st_logs st) \<le> 1000 \<and> distinct (map (\<lambda>x. map_of x ''id'') (st_logs st)) \<and>
    length (st_chatMessages st) \<le> 500 \<and> 0 \<le> st_unreadNotificationCount st"
proof -
  have "store_bounded st"
    using assms by (intro bounded.reachable_inv [of parse_json]) (auto simp: loaded_store_def)
  then show ?thesis by (simp add: store_bounded_def)
qed

text \<open>The log \<open>l\<close> comes twice: the second replaces the first.\<close>

theorem client_store_bounded_witness:
  "\<exists>st. store_step\<^sup>*\<^sup>* (initial_store (\<lambda>_. None) Map.empty True) st \<and>
     st_logs st = [[(''id'', JStr ''l''), (''n'', JNum 2)]] \<and> length (st_chatMessages st) \<le> 500"
proof -
  define st0 where "st0 = initial_store (\<lambda>_. None) Map.empty True"
  define st where "st = addLog [(''id'', JStr ''l''), (''n'', JNum 2)] (addLog [(''id'', JStr ''l''), (''n'', JNum 1)] st0)"
  have run: "store_step\<^sup>*\<^sup>* st0 st"
    unfolding st_def by (rule rtranclp.rtrancl_into_rtrancl [OF r_into_rtranclp]) (rule store_step.intros)+
  have "st_logs st = [[(''id'', JStr ''l''), (''n'', JNum 2)]]"
    by (simp add: st_def st0_def addLog_def initial_store_def)
  then show ?thesis
    using run client_store_bounded [OF run [unfolded st0_def]] unfolding st0_def by (intro exI [of _ st]) simp
qed

text \<open>
  The layout of the dashboard survives a reload: after any actions, in a browser whose local storage works, loading the
  page again finds the dismissed version, the width of the sidebar, the collapsed groups and the state of the
  live feed as they were. The parser for JSON is assumed to read back the list of groups that was written.
\<close>

theorem layout_survives_reload:
  fixes parse_json storage st
  defines "st' \<equiv> initial_store parse_json (st_storage st) True"
  assumes "store_step\<^sup>*\<^sup>* (initial_store parse_json storage True) st"
    and "parse_json (stringify (JArr (map JStr (st_collapsedGroups st)))) = Some (JArr (map JStr (st_collapsedGroups st)))"
  shows "st_updateDismissedVersion st' = st_updateDismissedVersion st \<and> st_sidebarExpanded st' = st_sidebarExpanded st \<and>
    st_collapsedGroups st' = st_collapsedGroups st \<and> st_liveFeedOpen st' = st_liveFeedOpen st"
proof -
  have kept: "layout_kept parse_json st"
    using assms(2) by (intro layout.reachable_inv [of parse_json]) (auto simp: loaded_store_def)
  have "st_storage_ok st"
    using storage_sys.steps_inv [OF assms(2)] by (simp add: initial_store_def)
  then show ?thesis
    using kept read_groups_stringify [of parse_json, OF assms(3)]
    by (auto simp: layout_kept_def groups_kept_def st'_def initial_store_def storage_get_def simp del: stringify.simps)
qed

text \<open>A group is collapsed and the live feed closed.\<close>

theorem layout_survives_reload_witness:
  "\<exists>st st'. store_step\<^sup>*\<^sup>* (initial_store (\<lambda>_. Some (JArr [JStr ''core''])) Map.empty True) st \<and>
     st' = initial_store (\<lambda>_. Some (JArr [JStr ''core''])) (st_storage st) True \<and>
     st_collapsedGroups st' = [''core''] \<and> \<not> st_liveFeedOpen st'"
proof -
  define st0 where "st0 = initial_store (\<lambda>_. Some (JArr [JStr ''core''])) Map.empty True"
  define st where "st = toggleLiveFeed (toggleGroup ''core'' st0)"
  have run: "store_step\<^sup>*\<^sup>* st0 st"
    unfolding st_def by (rule rtranclp.rtrancl_into_rtrancl [OF r_into_rtranclp]) (rule store_step.intros)+
  have "st_collapsedGroups st = [''core'']" "\<not> st_liveFeedOpen st"
    by (simp_all add: st_def st0_def toggleLiveFeed_def toggleGroup_def storage_set_def initial_store_def storage_get_def
        read_groups_def or_null_def Let_def)
  then show ?thesis
    using run layout_survives_reload [OF run [unfolded st0_def]] unfolding st0_def
    by (intro exI [of _ st] exI [of _ "initial_store (\<lambda>_. Some (JArr [JStr ''core''])) (st_storage st) True"]) simp
qed


end
