(* ===== verification/MC_Client.thy ===== *)
theory MC_Client
  imports MC_Store
begin

text \<open>
  The live connection between server and browser: the stream of \<open>api/events/route.ts\<close>, the hook
  \<open>src/lib/use-server-events.ts\<close> that applies its events to the store and reconnects, and the polling
  hook \<open>src/lib/use-smart-poll.ts\<close>. The handlers of the hooks (open, message, error, timer, change of visibility) are one definition
  each on the state that the hook keeps in its refs. The data of \<open>task.created\<close> and \<open>agent.created\<close> is an
  object; the random number of a delay is an argument, and its arithmetic is exact.
\<close>

section \<open>Server-sent events\<close>

definition event_json :: "string \<Rightarrow> json \<Rightarrow> int \<Rightarrow> json" where
  "event_json ty data ms = JObj [(''type'', JStr ty), (''data'', data), (''timestamp'', JNum ms)]"

definition newline2 :: string where
  "newline2 = [char_of (10 :: nat), char_of (10 :: nat)]"

definition sse_chunk :: "json \<Rightarrow> string" where
  "sse_chunk payload = ''data: '' @ stringify payload @ newline2"

text \<open>What a connected client is sent: the acknowledgement, then every event of the bus from then on.\<close>

definition sse_stream :: "world \<Rightarrow> server_event list \<Rightarrow> string list" where
  "sse_stream w evs = sse_chunk (event_json ''connected'' JNull (now_ms w)) #
     map (\<lambda>e. sse_chunk (event_json (ev_type e) (ev_data e) (ev_timestamp e))) evs"

text \<open>\<open>GET /api/events\<close>: the events of the bus after the first \<open>length (bus s)\<close> reach the client, whoever it is.\<close>

definition events_GET :: "world \<Rightarrow> request \<Rightarrow> server \<Rightarrow> server \<Rightarrow> string + response + string list" where
  "events_GET w req s later =
     (case requireRole w req ''viewer'' s of
        Inl e \<Rightarrow> Inl e
      | Inr (Auth_error status e) \<Rightarrow> Inr (Inl (error_response status e))
      | Inr (Auth_user u) \<Rightarrow> Inr (Inr (sse_stream w (drop (length (bus s)) (bus later)))))"

section \<open>Dispatch\<close>

definition or_json :: "json option \<Rightarrow> json \<Rightarrow> json option" where
  "or_json v d = Some (case v of Some x \<Rightarrow> x | None \<Rightarrow> d)"

definition event_id :: "json \<Rightarrow> json option" where
  "event_id data = truthy_prop ''id'' data"

definition chat_of_event :: "world \<Rightarrow> json \<Rightarrow> json \<Rightarrow> obj" where
  "chat_of_event w i data = defined_props [(''id'', Some i), (''conversation_id'', jget ''conversation_id'' data),
     (''from_agent'', jget ''from_agent'' data), (''to_agent'', jget ''to_agent'' data), (''content'', jget ''content'' data),
     (''message_type'', or_json (truthy_prop ''message_type'' data) (JStr ''text'')), (''metadata'', jget ''metadata'' data),
     (''read_at'', jget ''read_at'' data), (''created_at'', or_json (truthy_prop ''created_at'' data) (JNum (now_s w)))]"

definition notification_of_event :: "world \<Rightarrow> json \<Rightarrow> json \<Rightarrow> obj" where
  "notification_of_event w i data = defined_props [(''id'', Some i),
     (''recipient'', or_json (truthy_prop ''recipient'' data) (JStr ''operator'')),
     (''type'', or_json (truthy_prop ''type'' data) (JStr ''info'')), (''title'', or_json (truthy_prop ''title'' data) (JStr [])),
     (''message'', or_json (truthy_prop ''message'' data) (JStr [])), (''source_type'', jget ''source_type'' data),
     (''source_id'', jget ''source_id'' data), (''created_at'', or_json (truthy_prop ''created_at'' data) (JNum (now_s w)))]"

definition activity_of_event :: "world \<Rightarrow> json \<Rightarrow> json \<Rightarrow> obj" where
  "activity_of_event w i data = defined_props [(''id'', Some i), (''type'', jget ''type'' data),
     (''entity_type'', jget ''entity_type'' data), (''entity_id'', jget ''entity_id'' data), (''actor'', jget ''actor'' data),
     (''description'', jget ''description'' data), (''data'', jget ''data'' data),
     (''created_at'', or_json (truthy_prop ''created_at'' data) (JNum (now_s w)))]"

definition status_of_event :: "json \<Rightarrow> obj" where
  "status_of_event data = defined_props [(''status'', jget ''status'' data), (''updated_at'', jget ''updated_at'' data)]"

text \<open>
  \<open>dispatch\<close>. Patching with an \<open>undefined\<close> status would clear it, where the model keeps it; every
  \<open>task.status_changed\<close> event of the server has both properties.
\<close>

definition dispatch :: "world \<Rightarrow> string \<Rightarrow> json \<Rightarrow> client_store \<Rightarrow> client_store" where
  "dispatch w ty data st =
     (if ty = ''task.created'' then addTask (obj_props data) st
      else if ty = ''agent.created'' then addAgent (obj_props data) st
      else case event_id data of
        None \<Rightarrow> st
      | Some i \<Rightarrow>
          if ty = ''task.updated'' then updateTask i (obj_props data) st
          else if ty = ''task.status_changed'' then updateTask i (status_of_event data) st
          else if ty = ''task.deleted'' then deleteTask i st
          else if ty = ''agent.updated'' \<or> ty = ''agent.status_changed'' then updateAgent i (obj_props data) st
          else if ty = ''chat.message'' then addChatMessage (chat_of_event w i data) st
          else if ty = ''notification.created'' then addNotification (notification_of_event w i data) st
          else if ty = ''activity.created'' then addActivity (activity_of_event w i data) st
          else st)"

section \<open>The connection\<close>

record sse =
  se_mounted :: bool
  se_source :: bool
  se_attempts :: nat
  se_timer :: "int option"
  se_store :: client_store

definition SSE_MAX_RECONNECT_ATTEMPTS :: nat where
  "SSE_MAX_RECONNECT_ATTEMPTS = 20"

definition SSE_BASE_DELAY_MS :: int where
  "SSE_BASE_DELAY_MS = 1000"

definition SSE_MAX_DELAY_MS :: int where
  "SSE_MAX_DELAY_MS = 30000"

text \<open>\<open>Math.round\<close>\<close>

definition js_round :: "rat \<Rightarrow> int" where
  "js_round x = \<lfloor>x + 1 / 2\<rfloor>"

definition sse_base :: "nat \<Rightarrow> int" where
  "sse_base attempts = min (2 ^ attempts * SSE_BASE_DELAY_MS) SSE_MAX_DELAY_MS"

definition sse_delay :: "rat \<Rightarrow> nat \<Rightarrow> int" where
  "sse_delay rnd attempts = js_round (of_int (sse_base attempts) + rnd * of_int (sse_base attempts) * (1 / 2))"

text \<open>\<open>connect\<close>, also as the callback of the timer; an open source is closed before.\<close>

definition sse_connect :: "sse \<Rightarrow> sse" where
  "sse_connect c = (if se_mounted c then c\<lparr>se_source := True, se_timer := None\<rparr> else c\<lparr>se_timer := None\<rparr>)"

definition sse_onopen :: "sse \<Rightarrow> sse" where
  "sse_onopen c = (if se_mounted c
     then c\<lparr>se_attempts := 0, se_store := setConnection [(''sseConnected'', JBool True)] (se_store c)\<rparr> else c)"

definition sse_onmessage :: "(string \<Rightarrow> json option) \<Rightarrow> world \<Rightarrow> string \<Rightarrow> sse \<Rightarrow> sse" where
  "sse_onmessage parse_json w text c =
     (if \<not> se_mounted c then c
      else case parse_json text of
        Some payload \<Rightarrow> (case (jget ''type'' payload, jget ''data'' payload) of
            (Some (JStr ty), Some data) \<Rightarrow> c\<lparr>se_store := dispatch w ty data (se_store c)\<rparr>
          | _ \<Rightarrow> c)
      | None \<Rightarrow> c)"

definition sse_onerror :: "rat \<Rightarrow> sse \<Rightarrow> sse" where
  "sse_onerror rnd c =
     (if \<not> se_mounted c then c
      else (let c1 = c\<lparr>se_store := setConnection [(''sseConnected'', JBool False)] (se_store c), se_source := False\<rparr>
            in if SSE_MAX_RECONNECT_ATTEMPTS \<le> se_attempts c then c1
               else c1\<lparr>se_attempts := se_attempts c + 1, se_timer := Some (sse_delay rnd (se_attempts c))\<rparr>))"

definition sse_unmount :: "sse \<Rightarrow> sse" where
  "sse_unmount c = c\<lparr>se_mounted := False, se_timer := None, se_source := False,
     se_store := setConnection [(''sseConnected'', JBool False)] (se_store c)\<rparr>"

section \<open>Polling\<close>

record poll_options =
  po_pauseWhenConnected :: bool
  po_pauseWhenDisconnected :: bool
  po_pauseWhenSseConnected :: bool
  po_backoff :: bool
  po_maxBackoffMultiplier :: rat
  po_enabled :: bool

text \<open>The refs of the hook; \<open>pl_calls\<close> counts the calls of the callback, \<open>pl_interval\<close> is the period of the running interval.\<close>

record poll =
  pl_visible :: bool
  pl_backoff :: rat
  pl_interval :: "rat option"
  pl_fired :: bool
  pl_calls :: nat

definition connection_flag :: "string \<Rightarrow> client_store \<Rightarrow> bool" where
  "connection_flag k st \<longleftrightarrow> truthy_prop k (JObj (st_connection st)) \<noteq> None"

definition shouldPoll :: "poll_options \<Rightarrow> client_store \<Rightarrow> poll \<Rightarrow> bool" where
  "shouldPoll opt st p \<longleftrightarrow> po_enabled opt \<and> pl_visible p \<and>
     \<not> (po_pauseWhenConnected opt \<and> connection_flag ''isConnected'' st) \<and>
     \<not> (po_pauseWhenDisconnected opt \<and> \<not> connection_flag ''isConnected'' st) \<and>
     \<not> (po_pauseWhenSseConnected opt \<and> connection_flag ''sseConnected'' st)"

text \<open>\<open>fire\<close>; a rejected promise of its callback is handled later, when the interval may have been started.\<close>

definition poll_fire :: "poll_options \<Rightarrow> client_store \<Rightarrow> poll \<Rightarrow> poll" where
  "poll_fire opt st p = (if shouldPoll opt st p then p\<lparr>pl_calls := pl_calls p + 1\<rparr> else p)"

definition poll_rejected :: "poll_options \<Rightarrow> poll \<Rightarrow> poll" where
  "poll_rejected opt p =
     (if po_backoff opt then p\<lparr>pl_backoff := min (pl_backoff p + 1 / 2) (po_maxBackoffMultiplier opt)\<rparr> else p)"

definition startInterval :: "poll_options \<Rightarrow> rat \<Rightarrow> client_store \<Rightarrow> poll \<Rightarrow> poll" where
  "startInterval opt intervalMs st p = p\<lparr>pl_interval := (if shouldPoll opt st p
     then Some (if po_backoff opt then intervalMs * pl_backoff p else intervalMs) else None)\<rparr>"

definition poll_tick :: "poll_options \<Rightarrow> client_store \<Rightarrow> poll \<Rightarrow> poll" where
  "poll_tick opt st p =
     (if pl_interval p \<noteq> None \<and> shouldPoll opt st p then p\<lparr>pl_calls := pl_calls p + 1\<rparr> else p)"

definition poll_mount :: "poll_options \<Rightarrow> rat \<Rightarrow> client_store \<Rightarrow> poll \<Rightarrow> poll" where
  "poll_mount opt intervalMs st p = startInterval opt intervalMs st
     (if \<not> pl_fired p \<and> po_enabled opt then p\<lparr>pl_fired := True, pl_calls := pl_calls p + 1\<rparr> else p)"

definition handleVisibilityChange :: "poll_options \<Rightarrow> rat \<Rightarrow> client_store \<Rightarrow> bool \<Rightarrow> poll \<Rightarrow> poll" where
  "handleVisibilityChange opt intervalMs st visible p =
     (if visible then startInterval opt intervalMs st (poll_fire opt st (p\<lparr>pl_visible := True, pl_backoff := 1\<rparr>))
      else p\<lparr>pl_visible := False, pl_interval := None\<rparr>)"

definition poll_unmount :: "poll \<Rightarrow> poll" where
  "poll_unmount p = p\<lparr>pl_interval := None\<rparr>"

section \<open>The board in the browser\<close>

subsection \<open>Events that leave the board alone\<close>

definition receive :: "world \<Rightarrow> server_event \<Rightarrow> client_store \<Rightarrow> client_store" where
  "receive w e = dispatch w (ev_type e) (ev_data e)"

definition task_event :: "string \<Rightarrow> bool" where
  "task_event ty \<longleftrightarrow> ty \<in> {''task.created'', ''task.updated'', ''task.status_changed'', ''task.deleted''}"

text \<open>A change of the server that touches no task and says nothing about tasks.\<close>

definition quiet :: "server \<Rightarrow> server \<Rightarrow> bool" where
  "quiet s s' \<longleftrightarrow> tasks (db s') = tasks (db s) \<and>
     (\<exists>evs. bus s' = bus s @ evs \<and> (\<forall>e \<in> set evs. \<not> task_event (ev_type e)))"

lemma dispatch_other_tasks:
  assumes "\<not> task_event ty" shows "st_tasks (dispatch w ty data st) = st_tasks st"
  using assms
  by (simp add: dispatch_def task_event_def addAgent_def updateAgent_def addChatMessage_def addNotification_def addActivity_def
      split: option.split)

lemma receive_other_tasks:
  "\<forall>e \<in> set evs. \<not> task_event (ev_type e) \<Longrightarrow> st_tasks (fold (receive w) evs st) = st_tasks st"
  by (induction evs arbitrary: st) (simp_all add: receive_def dispatch_other_tasks)

lemma quiet_refl [intro, simp]: "quiet s s"
  by (simp add: quiet_def)

lemma quiet_same: "tasks (db s') = tasks (db s) \<Longrightarrow> bus s' = bus s \<Longrightarrow> quiet s s'"
  by (simp add: quiet_def)

lemma quiet_trans [trans]:
  assumes "quiet s s1" "quiet s1 s2" shows "quiet s s2"
proof -
  obtain evs evs' where *: "bus s1 = bus s @ evs" "\<forall>e \<in> set evs. \<not> task_event (ev_type e)"
      "bus s2 = bus s1 @ evs'" "\<forall>e \<in> set evs'. \<not> task_event (ev_type e)"
    using assms by (auto simp: quiet_def)
  then have "bus s2 = bus s @ (evs @ evs') \<and> (\<forall>e \<in> set (evs @ evs'). \<not> task_event (ev_type e))"
    by auto
  then show ?thesis
    using assms unfolding quiet_def by metis
qed

lemma quiet_logActivity [intro]:
  "quiet s s1 \<Longrightarrow> quiet s (logActivity w ty ety i ac d x n s1)"
  by (erule quiet_trans) (simp add: quiet_def logActivity_def tbl_insert_def Let_def task_event_def)

lemma quiet_createNotification [intro]:
  "quiet s s1 \<Longrightarrow> quiet s (createNotification w r ty ti m sty si n s1)"
  by (erule quiet_trans) (simp add: quiet_def createNotification_def tbl_insert_def Let_def task_event_def)

lemma quiet_ensureTaskSubscription [intro]:
  "quiet s s1 \<Longrightarrow> quiet s (ensureTaskSubscription w i a n s1)"
  by (erule quiet_trans) (simp add: quiet_def ensureTaskSubscription_def split: option.split)

lemma quiet_announce_task [intro]: "quiet s s1 \<Longrightarrow> quiet s (announce_task w i c n b s1)"
  unfolding announce_task_def Let_def by (cases "or_null (ti_assigned_to b)") (auto simp del: append.simps)

lemma quiet_notify_status [intro]: "quiet s s1 \<Longrightarrow> quiet s (notify_status w i n cur b s1)"
  unfolding notify_status_def by (cases "tu_status b"; cases "or_null (t_assigned_to cur)") (auto simp del: append.simps)

lemma quiet_notify_assignee [intro]: "quiet s s1 \<Longrightarrow> quiet s (notify_assignee w i n cur b s1)"
  unfolding notify_assignee_def by (cases "tu_assigned_to b") (auto simp del: append.simps)

lemma quiet_log_task_changes [intro]: "quiet s s1 \<Longrightarrow> quiet s (log_task_changes w ac i n cur b s1)"
  unfolding log_task_changes_def Let_def by auto

subsection \<open>Mirroring\<close>

definition task_obj :: "task_row \<Rightarrow> obj" where
  "task_obj t = obj_props (task_json t)"

definition mirrors :: "client_store \<Rightarrow> server \<Rightarrow> bool" where
  "mirrors st s \<longleftrightarrow> mset (st_tasks st) = mset (map task_obj (rows (tasks (db s))))"

definition one_workspace :: "int \<Rightarrow> server \<Rightarrow> bool" where
  "one_workspace n s \<longleftrightarrow> tbl_wf t_id (tasks (db s)) \<and> (\<forall>t \<in> set (rows (tasks (db s))). t_workspace_id t = n)"

text \<open>From \<open>s\<close> to \<open>s'\<close> the events that were put on the bus carry a store that mirrors \<open>s\<close> to one that mirrors \<open>s'\<close>.\<close>

definition carries :: "int \<Rightarrow> server \<Rightarrow> server \<Rightarrow> bool" where
  "carries n s s' \<longleftrightarrow> one_workspace n s' \<and>
     (\<exists>evs. bus s' = bus s @ evs \<and> (\<forall>w st. mirrors st s \<longrightarrow> mirrors (fold (receive w) evs st) s'))"

lemma carries_quiet:
  assumes "quiet s s'" "one_workspace n s" shows "carries n s s'"
proof -
  obtain evs where "bus s' = bus s @ evs" "\<forall>e \<in> set evs. \<not> task_event (ev_type e)" and t: "tasks (db s') = tasks (db s)"
    using assms(1) by (auto simp: quiet_def)
  then show ?thesis
    using assms(2) unfolding carries_def one_workspace_def t
    by (intro conjI exI [of _ evs]) (simp_all add: mirrors_def receive_other_tasks t)
qed

lemma carries_trans [trans]:
  assumes "carries n s s1" "carries n s1 s2" shows "carries n s s2"
proof -
  obtain evs evs' where *: "bus s1 = bus s @ evs" "bus s2 = bus s1 @ evs'"
      "\<And>w st. mirrors st s \<Longrightarrow> mirrors (fold (receive w) evs st) s1"
      "\<And>w st. mirrors st s1 \<Longrightarrow> mirrors (fold (receive w) evs' st) s2"
    using assms by (auto simp: carries_def)
  then show ?thesis
    using assms(2) unfolding carries_def by (intro conjI exI [of _ "evs @ evs'"]) simp_all
qed

text \<open>The pattern of the handlers: the row is changed, helpers add their events, and the event about the task comes last.\<close>

lemma carries_event:
  assumes "bus s1 = bus s" "quiet s1 s2" "one_workspace n s1"
    and "\<And>v st. mirrors st s \<Longrightarrow> mirrors (dispatch v ty data st) s1"
  shows "carries n s (broadcast w ty data s2)"
proof -
  obtain evs where evs: "bus s2 = bus s @ evs" "\<forall>e \<in> set evs. \<not> task_event (ev_type e)" and t: "tasks (db s2) = tasks (db s1)"
    using assms(1,2) by (auto simp: quiet_def)
  have "mirrors (dispatch v ty data (fold (receive v) evs st)) s1" if "mirrors st s" for v st
    using that evs(2) by (intro assms(4)) (simp add: mirrors_def receive_other_tasks)
  then show ?thesis
    using assms(3) evs(1) unfolding carries_def one_workspace_def
    by (intro conjI exI [of _ "evs @ [\<lparr>ev_type = ty, ev_data = data, ev_timestamp = now_ms w\<rparr>]"])
      (simp_all add: receive_def mirrors_def t)
qed

subsection \<open>Objects of tasks\<close>

lemma has_key_task_obj [simp]: "has_key ''id'' (JNum i) (task_obj t) \<longleftrightarrow> t_id t = i"
  by (simp add: has_key_def task_obj_def task_json_def)

lemma spread_task_obj: "spread (task_obj t) (task_obj t') = task_obj t'"
  by (simp add: spread_def task_obj_def task_json_def)

definition moved :: "world \<Rightarrow> task_status \<Rightarrow> task_row \<Rightarrow> task_row" where
  "moved w status t = t\<lparr>t_status := status, t_updated_at := now_s w\<rparr>"

definition status_event :: "world \<Rightarrow> int \<Rightarrow> task_status \<Rightarrow> json" where
  "status_event w i status =
     JObj [(''id'', JNum i), (''status'', JStr (task_status_str status)), (''updated_at'', JNum (now_s w))]"

lemma spread_status:
  "spread (task_obj t) (status_of_event (status_event w i status)) = task_obj (moved w status t)"
  by (simp add: spread_def task_obj_def task_json_def status_of_event_def status_event_def defined_props_def jopt_def moved_def)

lemma mirrors_map:
  assumes "mirrors st s" "st_tasks st' = map f (st_tasks st)" "rows (tasks (db s')) = map g (rows (tasks (db s)))"
    and "\<And>t. t \<in> set (rows (tasks (db s))) \<Longrightarrow> f (task_obj t) = task_obj (g t)"
  shows "mirrors st' s'"
proof -
  have "mset (st_tasks st') = image_mset f (mset (map task_obj (rows (tasks (db s)))))"
    using assms(1,2) by (simp add: mirrors_def)
  also have "\<dots> = mset (map (\<lambda>t. f (task_obj t)) (rows (tasks (db s))))"
    by (simp add: comp_def image_mset.compositionality)
  also have "map (\<lambda>t. f (task_obj t)) (rows (tasks (db s))) = map task_obj (rows (tasks (db s')))"
    using assms(4) by (simp add: assms(3))
  finally show ?thesis by (simp add: mirrors_def)
qed


subsection \<open>The handlers of tasks\<close>

lemma one_workspace_find:
  assumes "one_workspace n s"
  shows "find_task i n s = tbl_get t_id (tasks (db s)) i"
proof (cases "tbl_get t_id (tasks (db s)) i")
  case None
  then show ?thesis using assms by (simp add: find_task_eq one_workspace_def)
next
  case (Some t)
  then have "t \<in> set (rows (tasks (db s)))" unfolding tbl_get_def find_Some_iff by auto
  then show ?thesis using assms Some by (simp add: find_task_eq one_workspace_def)
qed

lemma one_workspace_update:
  assumes "one_workspace n s" "tasks (db s') = tbl_update p f (tasks (db s))"
    and "\<And>t. t_id (f t) = t_id t" "\<And>t. t_workspace_id (f t) = t_workspace_id t"
  shows "one_workspace n s'"
  using assms by (auto simp: one_workspace_def rows_tbl_update intro: task_rows.wf_update)

lemma task_update_where:
  assumes "one_workspace n s"
  shows "rows (tbl_update (\<lambda>t. t_id t = i \<and> t_workspace_id t = n) f (tasks (db s))) =
    map (\<lambda>t. if t_id t = i then f t else t) (rows (tasks (db s)))"
  using assms by (auto simp: one_workspace_def rows_tbl_update)

lemma truthy_task_id: "tbl_wf t_id (tasks (db s)) \<Longrightarrow> t \<in> set (rows (tasks (db s))) \<Longrightarrow> t_id t \<noteq> 0"
  by (auto simp: tbl_wf_def)

lemma carries_create_task:
  assumes "one_workspace n s" "usr_workspace_id u = n"
  shows "carries n s (snd (create_task w u b s))"
proof (cases "\<exists>t \<in> set (rows (tasks (db s))). t_title t = ti_title b \<and> t_workspace_id t = n")
  case True
  then have "snd (create_task w u b s) = s"
    unfolding create_task_def Let_def assms(2) by (simp only: if_True snd_conv)
  then show ?thesis
    using assms(1) by (simp add: carries_quiet)
next
  case False
  define c where "c = (case ti_created_by b of Some v \<Rightarrow> v | None \<Rightarrow> or_else (Some (usr_username u)) ''system'')"
  define row where "row = new_task w c n b (seq (tasks (db s)) + 1)"
  define s0 where "s0 = s\<lparr>db := (db s)\<lparr>tasks := snd (tbl_insert (new_task w c n b) (tasks (db s)))\<rparr>\<rparr>"
  define s1 where "s1 = announce_task w (seq (tasks (db s)) + 1) c n b s0"
  have wf: "tbl_wf t_id (tasks (db s))" using assms(1) by (simp add: one_workspace_def)
  have quiet: "quiet s0 s1" unfolding s1_def by auto
  have rows: "rows (tasks (db s0)) = rows (tasks (db s)) @ [row]"
    by (simp add: s0_def rows_tbl_insert row_def)
  have ws: "one_workspace n s0"
    using assms(1) wf rows by (auto simp: one_workspace_def s0_def row_def new_task_def task_rows.wf_insert)
  have "tbl_get t_id (tasks (db s0)) (seq (tasks (db s)) + 1) = Some row"
    unfolding s0_def row_def using task_rows.insert_then_get [OF wf, of "new_task w c n b"]
    by (simp add: tbl_insert_def new_task_def)
  then have "find_task (seq (tasks (db s)) + 1) n s1 = Some row"
    using one_workspace_find [OF ws] quiet find_task_cong [of s1 s0] by (simp add: quiet_def)
  then have eq: "snd (create_task w u b s) = broadcast w ''task.created'' (task_json row) s1"
    using False unfolding create_task_def Let_def case_prod_beta assms(2) c_def s1_def s0_def
    by (simp only: if_False fst_tbl_insert option.simps snd_conv)
  have "mirrors (dispatch v ''task.created'' (task_json row) st) s0" if "mirrors st s" for v st
    using that by (simp add: mirrors_def dispatch_def addTask_def rows task_obj_def)
  then show ?thesis
    unfolding eq using quiet ws by (intro carries_event) (simp_all add: s0_def)
qed

lemma carries_update_task:
  assumes "one_workspace n s" "usr_workspace_id u = n"
  shows "carries n s (snd (update_task idp w u b s))"
proof (cases "snd (update_task idp w u b s) = s")
  case True
  then show ?thesis
    using assms(1) by (simp add: carries_quiet)
next
  case False
  then obtain i cur where i: "parse_int idp = Some i" and cur: "find_task i n s = Some cur"
    and ok: "\<not> (tu_status b = Some Done \<and> \<not> hasAegisApproval w i n s)" "\<not> no_task_update b"
    unfolding update_task_def Let_def assms(2) by (force split: option.splits if_splits)
  define s0 where "s0 = s\<lparr>db := (db s)\<lparr>tasks := tbl_update (\<lambda>t. t_id t = i \<and> t_workspace_id t = n)
    (apply_task_update w b) (tasks (db s))\<rparr>\<rparr>"
  define s3 where "s3 = log_task_changes w (usr_username u) i n cur b (notify_assignee w i n cur b (notify_status w i n cur b s0))"
  define row where "row = apply_task_update w b cur"
  have quiet: "quiet s0 s3" unfolding s3_def by auto
  have ws: "one_workspace n s0"
    by (rule one_workspace_update [OF assms(1), where f = "apply_task_update w b"]) (simp_all add: s0_def)
  have "find_task i n s0 = Some row"
    using find_task_update [of s0 i n "apply_task_update w b" s i] cur by (simp add: s0_def row_def)
  then have "find_task i n s3 = Some row"
    using quiet find_task_cong [of s3 s0] by (simp add: quiet_def)
  then have eq: "snd (update_task idp w u b s) = broadcast w ''task.updated'' (task_json row) s3"
    using i cur ok unfolding update_task_def Let_def assms(2) s3_def s0_def
    by (simp only: option.simps if_False snd_conv)
  have id: "t_id row = i" "i \<noteq> 0"
    using find_task_SomeD [OF cur] truthy_task_id [of s cur] assms(1) by (auto simp: row_def one_workspace_def)
  have only: "t = cur" if "t \<in> set (rows (tasks (db s)))" "t_id t = i" for t
    using that tbl_get_Some_unique [of t_id "tasks (db s)" t] cur assms(1) one_workspace_find [OF assms(1)]
    by (simp add: one_workspace_def)
  have "mirrors (dispatch v ''task.updated'' (task_json row) st) s0" if "mirrors st s" for v st
  proof (rule mirrors_map [OF that])
    show "st_tasks (dispatch v ''task.updated'' (task_json row) st) =
        map (\<lambda>x. if has_key ''id'' (JNum i) x then spread x (task_obj row) else x) (st_tasks st)"
      using id by (simp add: dispatch_def event_id_def truthy_prop_def task_json_def task_obj_def updateTask_def patch_def)
    show "rows (tasks (db s0)) = map (\<lambda>t. if t_id t = i then apply_task_update w b t else t) (rows (tasks (db s)))"
      using task_update_where [OF assms(1)] by (simp add: s0_def)
  qed (auto simp: spread_task_obj row_def dest: only)
  then show ?thesis
    unfolding eq using quiet ws by (intro carries_event) (simp_all add: s0_def)
qed

lemma carries_delete_task:
  assumes "one_workspace n s" "usr_workspace_id u = n"
  shows "carries n s (snd (delete_task idp w u s))"
proof (cases "snd (delete_task idp w u s) = s")
  case True
  then show ?thesis
    using assms(1) by (simp add: carries_quiet)
next
  case False
  then obtain i t where i: "parse_int idp = Some i" and t: "find_task i n s = Some t"
    unfolding delete_task_def Let_def assms(2) by (force split: option.splits)
  define s0 where "s0 = s\<lparr>db := delete_task_rows i n (db s)\<rparr>"
  have rows: "rows (tasks (db s0)) = filter (\<lambda>t. t_id t \<noteq> i) (rows (tasks (db s)))"
    using assms(1) by (auto simp: s0_def delete_task_rows_def Let_def rows_tbl_delete one_workspace_def intro!: filter_cong)
  have ws: "one_workspace n s0"
    using assms(1) rows by (auto simp: one_workspace_def s0_def delete_task_rows_def Let_def intro: task_rows.wf_delete)
  have nz: "i \<noteq> 0"
    using find_task_SomeD [OF t] truthy_task_id [of s t] assms(1) by (auto simp: one_workspace_def)
  obtain s2 where quiet: "quiet s0 s2"
    and eq: "snd (delete_task idp w u s) = broadcast w ''task.deleted'' (JObj [(''id'', JNum i), (''title'', JStr (t_title t))]) s2"
    using i t unfolding delete_task_def Let_def assms(2) s0_def by (auto simp del: append.simps)
  have "mirrors (dispatch v ''task.deleted'' (JObj [(''id'', JNum i), (''title'', JStr (t_title t))]) st) s0"
    if "mirrors st s" for v st
  proof -
    have "mset (filter (\<lambda>x. \<not> has_key ''id'' (JNum i) x) (st_tasks st)) =
        mset (filter (\<lambda>x. \<not> has_key ''id'' (JNum i) x) (map task_obj (rows (tasks (db s)))))"
      using that by (simp only: mirrors_def mset_filter)
    then show ?thesis
      using nz by (simp add: mirrors_def dispatch_def event_id_def truthy_prop_def deleteTask_def rows filter_map comp_def)
  qed
  then show ?thesis
    unfolding eq using quiet ws by (intro carries_event) (simp_all add: s0_def)
qed


text \<open>Moving the tasks of a list, in the rows and in the store.\<close>

definition move_rows :: "world \<Rightarrow> (int \<times> task_status) list \<Rightarrow> task_row list \<Rightarrow> task_row list" where
  "move_rows w todo = fold (\<lambda>(i, status). map (\<lambda>t. if t_id t = i then moved w status t else t)) todo"

definition moved_event :: "world \<Rightarrow> int \<times> task_status \<Rightarrow> server_event" where
  "moved_event w x = \<lparr>ev_type = ''task.status_changed'', ev_data = status_event w (fst x) (snd x), ev_timestamp = now_ms w\<rparr>"

lemma receive_moved:
  "i \<noteq> 0 \<Longrightarrow> st_tasks (receive v (moved_event w (i, status)) st) =
    map (\<lambda>x. if has_key ''id'' (JNum i) x then spread x (status_of_event (status_event w i status)) else x) (st_tasks st)"
  by (simp add: receive_def moved_event_def dispatch_def event_id_def truthy_prop_def status_event_def updateTask_def patch_def)

lemma receive_moved_zero: "receive v (moved_event w (0, status)) st = st"
  by (simp add: receive_def moved_event_def dispatch_def event_id_def truthy_prop_def status_event_def)

lemma receive_moves:
  assumes "\<And>t. t \<in> set rs \<Longrightarrow> t_id t \<noteq> 0" and "mset (st_tasks st) = mset (map task_obj rs)"
  shows "mset (st_tasks (fold (receive v) (map (moved_event w) todo) st)) = mset (map task_obj (move_rows w todo rs))"
  using assms
proof (induction todo arbitrary: rs st)
  case Nil
  then show ?case by (simp add: move_rows_def)
next
  case (Cons x todo)
  obtain i status where x: "x = (i, status)" by fastforce
  let ?rs = "map (\<lambda>t. if t_id t = i then moved w status t else t) rs"
  have "mset (st_tasks (receive v (moved_event w x) st)) = mset (map task_obj ?rs)"
  proof (cases "i = 0")
    case True
    then have "?rs = rs" using Cons.prems(1) by (intro map_idI) auto
    then show ?thesis using Cons.prems(2) by (simp add: x True receive_moved_zero)
  next
    case False
    let ?f = "\<lambda>x. if has_key ''id'' (JNum i) x then spread x (status_of_event (status_event w i status)) else x"
    have "mset (map ?f (st_tasks st)) = mset (map ?f (map task_obj rs))"
      using Cons.prems(2) by (simp only: mset_map)
    also have "map ?f (map task_obj rs) = map task_obj ?rs"
      by (simp add: spread_status)
    finally show ?thesis by (simp add: x receive_moved False)
  qed
  moreover have "t_id t \<noteq> 0" if "t \<in> set ?rs" for t
    using that Cons.prems(1) by (auto simp: moved_def)
  ultimately show ?case
    using Cons.IH [of ?rs "receive v (moved_event w x) st"] by (simp add: x move_rows_def)
qed

lemma bulk_update_quiet:
  assumes "one_workspace n s" "bulk_update w actor n todo s = (r, s')"
  shows "\<exists>evs. bus s' = bus s @ evs \<and> (\<forall>e \<in> set evs. \<not> task_event (ev_type e))"
    and "r = Inr () \<Longrightarrow> one_workspace n s' \<and> rows (tasks (db s')) = move_rows w todo (rows (tasks (db s)))"
  using assms
proof (atomize (full), induction todo arbitrary: s)
  case Nil
  then show ?case by (auto simp: move_rows_def)
next
  case (Cons x todo)
  obtain i status where x: "x = (i, status)" by fastforce
  show ?case
  proof (cases "find_task i n s")
    case None
    then have "i \<notin> t_id ` set (rows (tasks (db s)))"
      using one_workspace_find [OF Cons.prems(1)] by (simp add: tbl_get_None)
    then have "map (\<lambda>t. if t_id t = i then moved w status t else t) (rows (tasks (db s))) = rows (tasks (db s))"
      by (intro map_idI) auto
    then show ?thesis
      using Cons.IH [OF Cons.prems(1)] Cons.prems(2) None by (simp add: x move_rows_def)
  next
    case (Some old)
    define s1 where "s1 = s\<lparr>db := (db s)\<lparr>tasks := tbl_update (\<lambda>t. t_id t = i \<and> t_workspace_id t = n)
      (moved w status) (tasks (db s))\<rparr>\<rparr>"
    define s2 where "s2 = (if t_status old \<noteq> status
      then logActivity w ''task_updated'' ''task'' i actor
        (''Task moved from '' @ task_status_str (t_status old) @ '' to '' @ task_status_str status)
        (Some (JObj [(''oldStatus'', JStr (task_status_str (t_status old))), (''newStatus'', JStr (task_status_str status))])) n s1
      else s1)"
    have quiet: "quiet s1 s2" unfolding s2_def by auto
    have "one_workspace n s1"
      by (rule one_workspace_update [OF Cons.prems(1), where f = "moved w status"]) (simp_all add: s1_def moved_def)
    then have ws: "one_workspace n s2"
      using quiet by (simp add: one_workspace_def quiet_def)
    have rows: "rows (tasks (db s2)) = map (\<lambda>t. if t_id t = i then moved w status t else t) (rows (tasks (db s)))"
      using quiet task_update_where [OF Cons.prems(1)] by (simp add: quiet_def s1_def)
    have "bulk_update w actor n (x # todo) s =
      (if status = Done \<and> \<not> hasAegisApproval w i n s then (Inl (''Aegis approval required for task '' @ show_int i), s)
       else bulk_update w actor n todo s2)"
      using Some unfolding x bulk_update.simps Let_def s2_def s1_def moved_def by (simp only: option.simps)
    then consider "r = Inl (''Aegis approval required for task '' @ show_int i)" "s' = s" | "bulk_update w actor n todo s2 = (r, s')"
      using Cons.prems(2) by (auto split: if_splits)
    then show ?thesis
    proof cases
      case 2
      obtain evs where evs: "bus s2 = bus s @ evs" "\<forall>e \<in> set evs. \<not> task_event (ev_type e)"
        using quiet by (auto simp: quiet_def s1_def)
      obtain evs' where evs': "bus s' = bus s2 @ evs'" "\<forall>e \<in> set evs'. \<not> task_event (ev_type e)"
        using Cons.IH [OF ws 2] by auto
      have "bus s' = bus s @ (evs @ evs')" "\<forall>e \<in> set (evs @ evs'). \<not> task_event (ev_type e)"
        using evs evs' by auto
      then show ?thesis
        using Cons.IH [OF ws 2] rows by (auto simp: x move_rows_def)
    qed auto
  qed
qed


lemma bus_fold_moved:
  "bus (fold (\<lambda>(i, status). broadcast w ''task.status_changed''
     (JObj [(''id'', JNum i), (''status'', JStr (task_status_str status)), (''updated_at'', JNum (now_s w))])) todo s) =
   bus s @ map (moved_event w) todo"
  by (induction todo arbitrary: s) (auto simp: moved_event_def status_event_def)

lemma carries_update_tasks:
  assumes "one_workspace n s" "usr_workspace_id u = n"
  shows "carries n s (snd (update_tasks w u todo s))"
proof (cases "bulk_update w (usr_username u) n todo s")
  case (Pair r s1)
  obtain evs where evs: "bus s1 = bus s @ evs" "\<forall>e \<in> set evs. \<not> task_event (ev_type e)"
    using bulk_update_quiet(1) [OF assms(1) Pair] by auto
  show ?thesis
  proof (cases r)
    case (Inl e)
    then have "quiet s (snd (update_tasks w u todo s))"
      using Pair evs by (auto simp: update_tasks_def transaction_def assms(2) quiet_def)
    then show ?thesis using assms(1) by (rule carries_quiet)
  next
    case (Inr x)
    define s2 where "s2 = snd (update_tasks w u todo s)"
    have fin: "one_workspace n s1" "rows (tasks (db s1)) = move_rows w todo (rows (tasks (db s)))"
      using bulk_update_quiet(2) [OF assms(1) Pair] Inr by auto
    have db: "db s2 = db s1" and bus: "bus s2 = bus s @ (evs @ map (moved_event w) todo)"
      using Pair evs Inr
      by (simp_all add: s2_def update_tasks_def transaction_def assms(2) bus_fold_moved del: append.simps)
    have nz: "t_id t \<noteq> 0" if "t \<in> set (rows (tasks (db s)))" for t
      using that assms(1) by (auto simp: one_workspace_def dest: truthy_task_id)
    have "mirrors (fold (receive v) (evs @ map (moved_event w) todo) st) s2" if "mirrors st s" for v st
    proof -
      have "mset (st_tasks (fold (receive v) evs st)) = mset (map task_obj (rows (tasks (db s))))"
        using that evs(2) by (simp add: mirrors_def receive_other_tasks)
      from receive_moves [OF nz this] show ?thesis
        by (simp add: mirrors_def db fin(2))
    qed
    then show ?thesis
      using fin(1) bus db unfolding carries_def s2_def [symmetric] one_workspace_def
      by (intro conjI exI [of _ "evs @ map (moved_event w) todo"]) auto
  qed
qed

lemma carries_create_review:
  assumes "one_workspace n s" "usr_workspace_id u = n"
  shows "carries n s (snd (create_review w u b s))"
proof (cases "find_task (ri_task_id b) n s")
  case None
  then show ?thesis
    using assms by (simp add: create_review_def Let_def carries_quiet)
next
  case (Some t)
  let ?i = "ri_task_id b"
  define s1 where "s1 = s\<lparr>db := (db s)\<lparr>quality_reviews := snd (tbl_insert (\<lambda>i. \<lparr>q_id = i, q_task_id = ?i,
    q_reviewer = ri_reviewer b, q_status = ri_status b, q_notes = ri_notes b, q_created_at = now_s w, q_workspace_id = n\<rparr>)
    (quality_reviews (db s)))\<rparr>\<rparr>"
  define s2 where "s2 = logActivity w ''quality_review'' ''task'' ?i (ri_reviewer b)
    (''Quality review '' @ ri_status b @ '' for task: '' @ t_title t)
    (Some (JObj [(''status'', JStr (ri_status b)), (''notes'', JStr (ri_notes b))])) n s1"
  define s3 where "s3 = s2\<lparr>db := (db s2)\<lparr>tasks := tbl_update (\<lambda>t. t_id t = ?i \<and> t_workspace_id t = n)
    (moved w Done) (tasks (db s2))\<rparr>\<rparr>"
  have eq: "snd (create_review w u b s) = (if ri_status b = ''approved'' \<and> ri_reviewer b = ''aegis''
      then broadcast w ''task.status_changed'' (status_event w ?i Done) s3 else s2)"
    using Some unfolding create_review_def Let_def case_prod_beta assms(2) s3_def s2_def s1_def moved_def status_event_def
    by (simp only: option.simps snd_conv task_status_str.simps)
  have "quiet s s1" by (rule quiet_same) (simp_all add: s1_def)
  then have quiet: "quiet s s2" unfolding s2_def by (rule quiet_logActivity)
  then have c: "carries n s s2" using assms(1) by (rule carries_quiet)
  then have ws: "one_workspace n s2" by (simp add: carries_def)
  have nz: "?i \<noteq> 0"
    using find_task_SomeD [OF Some] truthy_task_id [of s t] assms(1) by (auto simp: one_workspace_def)
  have "carries n s2 (broadcast w ''task.status_changed'' (status_event w ?i Done) s3)"
  proof (rule carries_event)
    show "one_workspace n s3"
      by (rule one_workspace_update [OF ws, where f = "moved w Done"]) (simp_all add: s3_def moved_def)
    fix v st assume "mirrors st s2"
    then show "mirrors (dispatch v ''task.status_changed'' (status_event w ?i Done) st) s3"
    proof (rule mirrors_map)
      show "st_tasks (dispatch v ''task.status_changed'' (status_event w ?i Done) st) =
          map (\<lambda>x. if has_key ''id'' (JNum ?i) x then spread x (status_of_event (status_event w ?i Done)) else x) (st_tasks st)"
        using receive_moved [OF nz, of v w Done st] by (simp add: receive_def moved_event_def)
      show "rows (tasks (db s3)) = map (\<lambda>t. if t_id t = ?i then moved w Done t else t) (rows (tasks (db s2)))"
        using task_update_where [OF ws] by (simp add: s3_def)
    qed (simp add: spread_status)
  qed (simp_all add: s3_def)
  then show ?thesis
    unfolding eq using c by (auto intro: carries_trans)
qed

subsection \<open>Runs\<close>

text \<open>
  Requests to the routes of tasks and reviews by members of the workspace \<open>n\<close>, and any change that leaves the tasks and
  the events about tasks alone.
\<close>

definition member_of :: "int \<Rightarrow> world \<Rightarrow> request \<Rightarrow> server \<Rightarrow> bool" where
  "member_of n w req s \<longleftrightarrow> (case requireRole w req ''operator'' s of Inr (Auth_user u) \<Rightarrow> usr_workspace_id u = n | _ \<Rightarrow> True)"

inductive board_step :: "int \<Rightarrow> server \<Rightarrow> server \<Rightarrow> bool" for n where
  post: "member_of n w req s \<Longrightarrow> board_step n s (snd (tasks_POST schema w req s))"
| put_all: "member_of n w req s \<Longrightarrow> board_step n s (snd (tasks_PUT bschema w req s))"
| put_one: "member_of n w req s \<Longrightarrow> board_step n s (snd (task_PUT uschema i w req s))"
| delete: "member_of n w req s \<Longrightarrow> board_step n s (snd (task_DELETE i w req s))"
| review: "member_of n w req s \<Longrightarrow> board_step n s (snd (quality_review_POST rschema w req s))"
| other: "quiet s s' \<Longrightarrow> board_step n s s'"

lemma carries_route:
  assumes "one_workspace n s" "member_of n w req s"
    and "\<And>u ms. usr_workspace_id u = n \<Longrightarrow> one_workspace n (s\<lparr>mutation_store := ms\<rparr>) \<Longrightarrow>
      carries n (s\<lparr>mutation_store := ms\<rparr>) (snd (k w req u (s\<lparr>mutation_store := ms\<rparr>)))"
  shows "carries n s (snd (mutating_route ''operator'' k w req s))"
proof (cases "mutating_route ''operator'' k w req s")
  case (Pair res s')
  then show ?thesis
  proof (cases rule: mutating_route_cases)
    case refused
    then show ?thesis using assms(1) Pair by (simp add: carries_quiet quiet_same)
  next
    case (handled u ms)
    have "carries n (s\<lparr>mutation_store := ms\<rparr>) (snd (k w req u (s\<lparr>mutation_store := ms\<rparr>)))"
      using assms handled(1) by (intro assms(3)) (simp_all add: member_of_def one_workspace_def)
    then show ?thesis
      using handled(2) Pair by (simp add: carries_def mirrors_def)
  qed
qed

lemma carries_body:
  assumes "one_workspace n s" "\<And>b. carries n s (snd (k b))"
  shows "carries n s (snd (with_body schema req s k))"
  using assms by (auto simp: with_body_def carries_quiet split: sum.split)

lemma board_step_carries:
  assumes "board_step n s s'" "one_workspace n s" shows "carries n s s'"
  using assms(1)
proof cases
  case other
  then show ?thesis using assms(2) by (rule carries_quiet)
qed (use assms(2) in \<open>simp_all add: tasks_POST_def tasks_PUT_def task_PUT_def task_DELETE_def quality_review_POST_def
    carries_route carries_body carries_create_task carries_update_tasks carries_update_task carries_delete_task carries_create_review\<close>)

lemma board_steps_carry:
  assumes "(board_step n)\<^sup>*\<^sup>* s s'" "one_workspace n s" shows "carries n s s'"
  using assms
proof (induction rule: rtranclp_induct)
  case base
  then show ?case by (simp add: carries_quiet)
next
  case (step y z)
  then have "one_workspace n y" by (simp add: carries_def)
  with step show ?case by (blast intro: carries_trans board_step_carries)
qed

section \<open>Reconnecting\<close>

lemma sse_base_pos: "0 < sse_base k"
  by (simp add: sse_base_def SSE_BASE_DELAY_MS_def SSE_MAX_DELAY_MS_def)

lemma sse_delay_bounds:
  assumes "0 \<le> rnd" "rnd < 1"
  shows "sse_base k \<le> sse_delay rnd k" "2 * sse_delay rnd k \<le> 3 * sse_base k + 1"
proof -
  let ?b = "of_int (sse_base k) :: rat"
  have b: "0 < ?b" using sse_base_pos by simp
  have "?b \<le> ?b + rnd * ?b * (1 / 2)" using assms(1) b by simp
  then show "sse_base k \<le> sse_delay rnd k"
    unfolding sse_delay_def js_round_def le_floor_iff by linarith
  have "rnd * ?b \<le> 1 * ?b" using assms(2) b by (intro mult_right_mono) simp_all
  moreover have "of_int (sse_delay rnd k) \<le> ?b + rnd * ?b * (1 / 2) + 1 / 2"
    unfolding sse_delay_def js_round_def by (rule of_int_floor_le)
  ultimately have "(of_int (2 * sse_delay rnd k) :: rat) \<le> of_int (3 * sse_base k + 1)" by simp
  then show "2 * sse_delay rnd k \<le> 3 * sse_base k + 1" unfolding of_int_le_iff .
qed


text \<open>An outage: every connection fails, and the next attempt starts when the timer fires. The first component is the time waited.\<close>

fun outage :: "rat list \<Rightarrow> sse \<Rightarrow> int \<times> sse" where
  "outage [] c = (0, c)"
| "outage (rnd # rnds) c =
     (let c1 = sse_onerror rnd c
      in case se_timer c1 of
           None \<Rightarrow> (0, c1)
         | Some d \<Rightarrow> (let (t, c2) = outage rnds (sse_connect c1) in (d + t, c2)))"

definition waits :: "nat \<Rightarrow> int" where
  "waits k = (\<Sum>j \<in> {k..<20}. sse_base j)"

lemma waits_step: "k < 20 \<Longrightarrow> waits k = sse_base k + waits (Suc k)"
  by (simp add: waits_def sum.atLeast_Suc_lessThan)

lemma outage_waits:
  assumes "se_mounted c" "se_timer c = None" "se_attempts c \<le> 20" "20 - se_attempts c < length rnds"
    and "\<forall>r \<in> set rnds. 0 \<le> r \<and> r < 1"
  shows "waits (se_attempts c) \<le> fst (outage rnds c) \<and>
    2 * fst (outage rnds c) \<le> 3 * waits (se_attempts c) + int (20 - se_attempts c) \<and>
    se_timer (snd (outage rnds c)) = None \<and> \<not> se_source (snd (outage rnds c)) \<and> se_mounted (snd (outage rnds c)) \<and>
    map_of (st_connection (se_store (snd (outage rnds c)))) ''sseConnected'' = Some (JBool False)"
  using assms
proof (induction rnds arbitrary: c)
  case (Cons r rnds)
  let ?k = "se_attempts c"
  show ?case
  proof (cases "?k = 20")
    case True
    then show ?thesis
      using Cons.prems by (simp add: sse_onerror_def SSE_MAX_RECONNECT_ATTEMPTS_def Let_def waits_def setConnection_def
          spread_def update_conv')
  next
    case False
    let ?c = "sse_connect (sse_onerror r c)"
    have c: "se_timer (sse_onerror r c) = Some (sse_delay r ?k)" "se_attempts ?c = Suc ?k" "se_mounted ?c" "se_timer ?c = None"
      using Cons.prems False by (simp_all add: sse_onerror_def SSE_MAX_RECONNECT_ATTEMPTS_def Let_def sse_connect_def)
    have ih: "waits (Suc ?k) \<le> fst (outage rnds ?c) \<and>
      2 * fst (outage rnds ?c) \<le> 3 * waits (Suc ?k) + int (20 - Suc ?k) \<and>
      se_timer (snd (outage rnds ?c)) = None \<and> \<not> se_source (snd (outage rnds ?c)) \<and> se_mounted (snd (outage rnds ?c)) \<and>
      map_of (st_connection (se_store (snd (outage rnds ?c)))) ''sseConnected'' = Some (JBool False)"
      using Cons.IH [of ?c] Cons.prems False c by auto
    have d: "sse_base ?k \<le> sse_delay r ?k" "2 * sse_delay r ?k \<le> 3 * sse_base ?k + 1"
      using sse_delay_bounds [of r ?k] Cons.prems(5) by auto
    have w: "waits ?k = sse_base ?k + waits (Suc ?k)"
      using Cons.prems(3) False by (intro waits_step) simp
    have eq: "outage (r # rnds) c = (sse_delay r ?k + fst (outage rnds ?c), snd (outage rnds ?c))"
      by (simp add: Let_def c(1) case_prod_beta)
    show ?thesis
      unfolding eq w using ih d Cons.prems(3) False by auto
  qed
qed simp

section \<open>Properties\<close>

text \<open>
  C25. The board in the browser follows the server. A store that holds the tasks of the server, each once, still does so after any
  run of requests to the task and review routes by members of the workspace (created, changed, moved one by one or in
  bulk, approved by Aegis, deleted) and any other activity that leaves tasks alone, as soon as it has received the
  events that the server put on its bus meanwhile. All tasks belong to one workspace: events go to every client.
\<close>

theorem client_mirrors_server:
  assumes "one_workspace n s" and "mset (st_tasks st) = mset (map task_obj (rows (tasks (db s))))"
    and "(board_step n)\<^sup>*\<^sup>* s s'"
  shows "mset (st_tasks (fold (receive w) (drop (length (bus s)) (bus s')) st)) =
    mset (map task_obj (rows (tasks (db s'))))"
proof -
  obtain evs where "bus s' = bus s @ evs" "\<And>w st. mirrors st s \<Longrightarrow> mirrors (fold (receive w) evs st) s'"
    using board_steps_carry [OF assms(3,1)] by (auto simp: carries_def)
  with assms(2) show ?thesis by (simp add: mirrors_def)
qed

text \<open>A task is created and approved; the empty store of a page that was open meanwhile shows it as done.\<close>

lemma demo_member: "usr_workspace_id (api_user s) = n \<Longrightarrow> member_of n demo_quiet_world demo_body_request s"
  by (simp add: member_of_def requireRole_def getUserFromRequest_def parseCookie_def match_cookie_def starts_with_def
      user_from_api_key_def demo_quiet_world_def demo_request_def demo_body_request_def api_user_def Let_def)

theorem client_mirrors_server_witness:
  "\<exists>t. t_status t = Done \<and>
     st_tasks (fold (receive demo_world) (bus demo_done) (initial_store (\<lambda>_. None) Map.empty True)) = [task_obj t]"
proof -
  have "usr_workspace_id (api_user init_server) = 1" "usr_workspace_id (api_user demo_posted) = 1"
    unfolding demo_posted_eq by (simp_all add: demo_task_defs demo_quiet_world_def)
  then have "board_step 1 init_server demo_posted" "board_step 1 demo_posted demo_done"
    unfolding demo_posted_def demo_done_def by (auto intro!: board_step.post board_step.review demo_member)
  then have run: "(board_step 1)\<^sup>*\<^sup>* init_server demo_done" by auto
  obtain t where t: "rows (tasks (db demo_done)) = [t]" "t_status t = Done"
    using demo_done_tasks by blast
  have "one_workspace 1 init_server"
    by (simp add: one_workspace_def init_server_def empty_db_def) (simp add: tbl_empty_def)
  from client_mirrors_server [OF this _ run, of "initial_store (\<lambda>_. None) Map.empty True" demo_world] t show ?thesis
    by (auto simp: initial_store_def init_server_def empty_db_def tbl_empty_def)
qed

text \<open>
  Reconnecting to the stream of events is bounded: when every attempt fails, the hook waits at least 481 seconds and at most
  721.51 seconds in all, and after the twentieth attempt it has given up: no connection, no timer, and the store says so.
\<close>

theorem reconnection_gives_up:
  assumes "se_mounted c" "se_timer c = None" "se_attempts c = 0" "20 < length rnds"
    and "\<forall>r \<in> set rnds. 0 \<le> r \<and> r < 1" and "outage rnds c = (t, c')"
  shows "481000 \<le> t \<and> t \<le> 721510 \<and> se_timer c' = None \<and> \<not> se_source c' \<and>
    map_of (st_connection (se_store c')) ''sseConnected'' = Some (JBool False)"
proof -
  have "waits 0 = 481000"
    by (simp add: waits_def sse_base_def SSE_BASE_DELAY_MS_def SSE_MAX_DELAY_MS_def eval_nat_numeral)
  then show ?thesis
    using outage_waits [of c rnds] assms by simp
qed

definition demo_sse :: sse where
  "demo_sse = \<lparr>se_mounted = True, se_source = True, se_attempts = 0, se_timer = None,
     se_store = initial_store (\<lambda>_. None) Map.empty True\<rparr>"

theorem reconnection_gives_up_witness:
  "481000 \<le> fst (outage (replicate 21 (1 / 2)) demo_sse) \<and> fst (outage (replicate 21 (1 / 2)) demo_sse) \<le> 721510"
proof -
  obtain t c' where run: "outage (replicate 21 (1 / 2)) demo_sse = (t, c')" by fastforce
  have "se_mounted demo_sse" "se_timer demo_sse = None" "se_attempts demo_sse = 0" by (simp_all add: demo_sse_def)
  from reconnection_gives_up [OF this _ _ run] show ?thesis by (simp add: run)
qed


end
