(* ===== verification/MC_WebSocket.thy ===== *)
theory MC_WebSocket
  imports MC_Client
begin

text \<open>
  \<open>src/lib/websocket.ts\<close>: the hook that keeps the browser connected to the gateway. Its refs are the record \<open>socket_hook\<close>, and
  each callback (of the socket, of the timers, of the user) is one definition on it. The socket of an earlier
  connection can still call its handlers; they work on the same refs. The parsers for JSON and URLs, random numbers and the
  page's origin are arguments. The keys that \<open>lib/device-identity.ts\<close> makes do not reach any message.
  \<open>handleGatewayMessage\<close>, which nothing calls, is left out.
\<close>

section \<open>State\<close>

definition PROTOCOL_VERSION :: int where
  "PROTOCOL_VERSION = 3"

definition PING_INTERVAL_MS :: int where
  "PING_INTERVAL_MS = 30000"

definition MAX_MISSED_PONGS :: nat where
  "MAX_MISSED_PONGS = 3"

definition maxReconnectAttempts :: nat where
  "maxReconnectAttempts = 10"

datatype ready_state = Connecting | Open | Closing | Closed

text \<open>
  \<open>wh_timer\<close> is the pending reconnection that the ref names, with its delay. \<open>wh_later\<close> counts the timers that nothing can
  clear: those of \<open>reconnect\<close>, and reconnections that a later one displaced from the ref.
\<close>

record socket_hook =
  wh_socket :: "ready_state option"
  wh_timer :: "int option"
  wh_later :: nat
  wh_heartbeat :: bool
  wh_url :: string
  wh_token :: string
  wh_requests :: nat
  wh_handshake :: bool
  wh_attempts :: nat
  wh_manual :: bool
  wh_fatal :: "string option"
  wh_pings :: nat
  wh_sent :: "(string \<times> int) list"
  wh_missed :: nat
  wh_store :: client_store
  wh_out :: "json list"
  wh_device_token :: "string option"

definition on_store :: "(client_store \<Rightarrow> client_store) \<Rightarrow> socket_hook \<Rightarrow> socket_hook" where
  "on_store f h = h\<lparr>wh_store := f (wh_store h)\<rparr>"

definition log_of :: "string \<Rightarrow> world \<Rightarrow> string \<Rightarrow> string \<Rightarrow> string \<Rightarrow> obj" where
  "log_of i w level source msg = [(''id'', JStr i), (''timestamp'', JNum (now_ms w)), (''level'', JStr level),
     (''source'', JStr source), (''message'', JStr msg)]"

definition stamped :: "string \<Rightarrow> world \<Rightarrow> string" where
  "stamped prefix w = prefix @ show_int (now_ms w)"

section \<open>Errors of the gateway\<close>

definition isNonRetryableGatewayError :: "string \<Rightarrow> bool" where
  "isNonRetryableGatewayError msg \<longleftrightarrow> (let n = to_lower msg in
     includes_str ''origin not allowed'' n \<or> includes_str ''device identity required'' n \<or>
     includes_str ''device_auth_signature_invalid'' n \<or> includes_str ''auth rate limit'' n \<or> includes_str ''rate limited'' n)"

definition getGatewayErrorHelp :: "string \<Rightarrow> string \<Rightarrow> string" where
  "getGatewayErrorHelp origin msg = (let n = to_lower msg in
     if includes_str ''origin not allowed'' n
     then ''Gateway rejected browser origin. Add '' @ origin @ '' to gateway.controlUi.allowedOrigins on the gateway, then reconnect.''
     else if includes_str ''device identity required'' n
     then ''Gateway requires device identity. Open Mission Control via HTTPS (or localhost), then reconnect so WebCrypto signing can run.''
     else if includes_str ''device_auth_signature_invalid'' n
     then ''Gateway rejected device signature. Clear local device identity in the browser and reconnect.''
     else if includes_str ''auth rate limit'' n \<or> includes_str ''rate limited'' n
     then ''Gateway authentication is rate limited. Wait briefly, then reconnect.''
     else ''Gateway handshake failed. Check gateway control UI origin and device identity settings, then reconnect.'')"

section \<open>Heartbeat\<close>

definition startHeartbeat :: "socket_hook \<Rightarrow> socket_hook" where
  "startHeartbeat h = h\<lparr>wh_heartbeat := True\<rparr>"

definition stopHeartbeat :: "socket_hook \<Rightarrow> socket_hook" where
  "stopHeartbeat h = h\<lparr>wh_heartbeat := False, wh_missed := 0, wh_sent := []\<rparr>"

definition ping_id :: "nat \<Rightarrow> string" where
  "ping_id n = ''ping-'' @ show_nat n"

text \<open>The callback of the interval. A send that fails is ignored.\<close>

definition heartbeat_tick :: "world \<Rightarrow> socket_hook \<Rightarrow> socket_hook" where
  "heartbeat_tick w h =
     (if \<not> wh_heartbeat h \<or> wh_socket h \<noteq> Some Open \<or> \<not> wh_handshake h then h
      else if MAX_MISSED_PONGS \<le> wh_missed h then
        (on_store (addLog (log_of (stamped ''heartbeat-'' w) w ''warn'' ''websocket''
           (''No heartbeat response after '' @ show_nat MAX_MISSED_PONGS @ '' attempts, reconnecting...''))) h)\<lparr>wh_socket := Some Closing\<rparr>
      else
        (let n = wh_pings h + 1
         in h\<lparr>wh_pings := n, wh_sent := AList.update (ping_id n) (now_ms w) (wh_sent h), wh_missed := wh_missed h + 1,
              wh_out := wh_out h @ [JObj [(''type'', JStr ''req''), (''method'', JStr ''ping''), (''id'', JStr (ping_id n))]]\<rparr>))"

definition handlePong :: "world \<Rightarrow> string \<Rightarrow> socket_hook \<Rightarrow> socket_hook" where
  "handlePong w i h = (case map_of (wh_sent h) i of
     Some sentAt \<Rightarrow>
       if sentAt = 0 then h
       else on_store (setConnection [(''latency'', JNum (now_ms w - sentAt))])
              (h\<lparr>wh_sent := AList.delete i (wh_sent h), wh_missed := 0\<rparr>)
   | None \<Rightarrow> h)"

section \<open>Handshake\<close>

text \<open>The request that answers a challenge. The signed device is made and then left out of it.\<close>

definition connect_request :: "string \<Rightarrow> world \<Rightarrow> socket_hook \<Rightarrow> json" where
  "connect_request version w h =
     JObj [(''type'', JStr ''req''), (''method'', JStr ''connect''), (''id'', JStr (''mc-'' @ show_nat (wh_requests h + 1))),
       (''params'', JObj ([(''minProtocol'', JNum PROTOCOL_VERSION), (''maxProtocol'', JNum PROTOCOL_VERSION),
          (''client'', JObj [(''id'', JStr ''gateway-client''), (''displayName'', JStr ''Mission Control''), (''version'', JStr version),
             (''platform'', JStr ''web''), (''mode'', JStr ''ui''), (''instanceId'', JStr (stamped ''mc-'' w))]),
          (''role'', JStr ''operator''), (''scopes'', JArr [JStr ''operator.admin''])] @
          (if wh_token h = [] then [] else [(''auth'', JObj [(''token'', JStr (wh_token h))])]) @
          jopt ''deviceToken'' JStr (or_null (wh_device_token h))))]"

definition sendConnectHandshake :: "string \<Rightarrow> world \<Rightarrow> json option \<Rightarrow> socket_hook \<Rightarrow> socket_hook" where
  "sendConnectHandshake version w nonce h =
     h\<lparr>wh_requests := wh_requests h + 1, wh_out := wh_out h @ [connect_request version w h]\<rparr>"

section \<open>Sessions and logs of the gateway\<close>

definition normalizeModel :: "json option \<Rightarrow> string" where
  "normalizeModel v = (case v of
     Some (JStr x) \<Rightarrow> x
   | Some (JObj kvs) \<Rightarrow> (case map_of kvs ''primary'' of None \<Rightarrow> [] | Some p \<Rightarrow> js_String p)
   | _ \<Rightarrow> [])"

definition formatAge :: "world \<Rightarrow> int \<Rightarrow> string" where
  "formatAge w t =
     (if t = 0 then ''-''
      else (let mins = (now_ms w - t) div 60000; hours = mins div 60; days = hours div 24
            in if 0 < days then show_int days @ ''d'' else if 0 < hours then show_int hours @ ''h'' else show_int mins @ ''m''))"

definition isActive :: "world \<Rightarrow> int \<Rightarrow> bool" where
  "isActive w t \<longleftrightarrow> t \<noteq> 0 \<and> now_ms w - t < 60 * 60 * 1000"

definition prop_or :: "string \<Rightarrow> json \<Rightarrow> json \<Rightarrow> json" where
  "prop_or k d v = (case truthy_prop k v of None \<Rightarrow> d | Some x \<Rightarrow> x)"

definition session_tail :: "json \<Rightarrow> (string \<times> json option) list" where
  "session_tail x = [(''messageCount'', jget ''messageCount'' x), (''cost'', jget ''cost'' x)]"

definition session_head :: "nat \<Rightarrow> json \<Rightarrow> (string \<times> json option) list" where
  "session_head i x = [(''id'', Some (prop_or ''key'' (JStr (''session-'' @ show_nat i)) x)), (''key'', Some (prop_or ''key'' (JStr []) x)),
     (''kind'', Some (prop_or ''kind'' (JStr ''unknown'') x))]"

text \<open>A session of a tick. A time that is not a number is outside the model.\<close>

definition tick_session :: "world \<Rightarrow> nat \<Rightarrow> json \<Rightarrow> obj" where
  "tick_session w i x = (let t = set_or_keep (num_field ''updatedAt'' x) 0 in
     defined_props (session_head i x @ [(''age'', Some (JStr (formatAge w t))), (''model'', Some (JStr (normalizeModel (jget ''model'' x)))),
       (''tokens'', Some (JStr (js_String (prop_or ''totalTokens'' (JNum 0) x) @ ''/'' @ js_String (prop_or ''contextTokens'' (JNum 35000) x)))),
       (''flags'', Some (JArr [])), (''active'', Some (JBool (isActive w t))), (''startTime'', jget ''updatedAt'' x),
       (''lastActivity'', jget ''updatedAt'' x)] @ session_tail x))"

text \<open>\<open>xs.map(...)\<close> on what should be an array of objects; \<open>None\<close> where it throws.\<close>

definition map_sessions :: "(nat \<Rightarrow> json \<Rightarrow> obj) \<Rightarrow> json \<Rightarrow> obj list option" where
  "map_sessions f v = (case v of
     JArr xs \<Rightarrow> if JNull \<in> set xs then None else Some (map (\<lambda>(i, x). f i x) (enumerate 0 xs))
   | _ \<Rightarrow> None)"

definition log_entry_of :: "string \<Rightarrow> world \<Rightarrow> json \<Rightarrow> obj" where
  "log_entry_of rnd w d = defined_props [(''id'', Some (prop_or ''id'' (JStr (stamped ''log-'' w @ ''-'' @ rnd)) d)),
     (''timestamp'', Some (prop_or ''timestamp'' (JNum (now_ms w)) d)),
     (''level'', Some (prop_or ''level'' (JStr ''info'') d)), (''source'', Some (prop_or ''source'' (JStr ''gateway'') d)),
     (''session'', jget ''session'' d), (''message'', Some (prop_or ''message'' (JStr []) d)),
     (''data'', case truthy_prop ''extra'' d of Some x \<Rightarrow> Some x | None \<Rightarrow> jget ''data'' d)]"

section \<open>Frames\<close>

text \<open>\<open>frame.error?.message || JSON.stringify(frame.error)\<close>, a text, or \<open>None\<close> where \<open>toLowerCase\<close> throws.\<close>

definition raw_error :: "json \<Rightarrow> string option" where
  "raw_error frame = (case jget ''error'' frame of
     None \<Rightarrow> None
   | Some e \<Rightarrow> (case truthy_prop ''message'' e of
       None \<Rightarrow> Some (stringify e) | Some (JStr m) \<Rightarrow> Some m | Some _ \<Rightarrow> None))"

definition em_dash :: string where
  "em_dash = [CHR '' '', CHR 0xE2, CHR 0x80, CHR 0x94, CHR '' '']"

definition close_socket :: "socket_hook \<Rightarrow> socket_hook" where
  "close_socket h = (if wh_socket h = Some Open \<or> wh_socket h = Some Connecting then h\<lparr>wh_socket := Some Closing\<rparr> else h)"

definition gateway_failure :: "string \<Rightarrow> world \<Rightarrow> string \<Rightarrow> socket_hook \<Rightarrow> socket_hook" where
  "gateway_failure origin w raw h =
     (let help = getGatewayErrorHelp origin raw; fatal = isNonRetryableGatewayError raw;
          h1 = on_store (addLog (log_of (if fatal then ''gateway-handshake-'' @ raw else stamped ''error-'' w) w ''error'' ''gateway''
                 (''Gateway error: '' @ raw @ (if fatal then em_dash @ help else [])))) h
      in if fatal then
           close_socket (stopHeartbeat (on_store (addNotification [(''id'', JNum (now_ms w)), (''recipient'', JStr ''operator''),
             (''type'', JStr ''error''), (''title'', JStr ''Gateway Handshake Blocked''), (''message'', JStr help),
             (''created_at'', JNum (now_s w))]) (h1\<lparr>wh_fatal := Some raw\<rparr>)))
         else h1)"

definition complete_handshake :: "string \<Rightarrow> json \<Rightarrow> socket_hook \<Rightarrow> socket_hook" where
  "complete_handshake now frame h =
     (let token = Option.bind (jget ''result'' frame) (truthy_prop ''deviceToken'');
          h1 = h\<lparr>wh_handshake := True, wh_attempts := 0,
                 wh_device_token := (case token of None \<Rightarrow> wh_device_token h | Some t \<Rightarrow> Some (js_String t))\<rparr>
      in startHeartbeat (on_store (setConnection [(''isConnected'', JBool True), (''lastConnected'', JStr now),
           (''reconnectAttempts'', JNum 0)]) h1))"

text \<open>
  The events. An \<open>agent.status\<close> event that lacks one of its properties would clear it, where the model keeps it.
\<close>

definition gateway_event :: "string \<Rightarrow> world \<Rightarrow> json option \<Rightarrow> json option \<Rightarrow> socket_hook \<Rightarrow> socket_hook option" where
  "gateway_event rnd w ev payload h =
     (let p = (case payload of None \<Rightarrow> JNull | Some v \<Rightarrow> v); given = truthy p in
      if ev = Some (JStr ''tick'') then
        (case Option.bind (jget ''snapshot'' p) (truthy_prop ''sessions'') of
           None \<Rightarrow> Some h
         | Some xs \<Rightarrow> map_option (\<lambda>ys. on_store (setSessions ys) h) (map_sessions (tick_session w) xs))
      else if ev = Some (JStr ''log'') then
        Some (if given then on_store (addLog (log_entry_of rnd w p)) h else h)
      else if ev = Some (JStr ''chat.message'') then
        Some (if given then on_store (addChatMessage (defined_props [(''id'', jget ''id'' p), (''conversation_id'', jget ''conversation_id'' p),
          (''from_agent'', jget ''from_agent'' p), (''to_agent'', jget ''to_agent'' p), (''content'', jget ''content'' p),
          (''message_type'', Some (prop_or ''message_type'' (JStr ''text'') p)), (''metadata'', jget ''metadata'' p),
          (''read_at'', jget ''read_at'' p), (''created_at'', Some (prop_or ''created_at'' (JNum (now_s w)) p))])) h else h)
      else if ev = Some (JStr ''notification'') then
        Some (if given then on_store (addNotification (defined_props [(''id'', jget ''id'' p),
          (''recipient'', Some (prop_or ''recipient'' (JStr ''operator'') p)), (''type'', Some (prop_or ''type'' (JStr ''info'') p)),
          (''title'', Some (prop_or ''title'' (JStr []) p)), (''message'', Some (prop_or ''message'' (JStr []) p)),
          (''source_type'', jget ''source_type'' p), (''source_id'', jget ''source_id'' p),
          (''created_at'', Some (prop_or ''created_at'' (JNum (now_s w)) p))])) h else h)
      else if ev = Some (JStr ''agent.status'') then
        Some (case truthy_prop ''id'' p of
          None \<Rightarrow> h
        | Some i \<Rightarrow> on_store (updateAgent i (defined_props [(''status'', jget ''status'' p), (''last_seen'', jget ''last_seen'' p),
            (''last_activity'', jget ''last_activity'' p)])) h)
      else Some h)"

definition is_ping :: "json \<Rightarrow> bool option" where
  "is_ping frame = (case jget ''id'' frame of
     None \<Rightarrow> Some False | Some JNull \<Rightarrow> Some False | Some (JStr i) \<Rightarrow> Some (starts_with ''ping-'' i) | Some _ \<Rightarrow> None)"

text \<open>\<open>handleGatewayFrame\<close>; \<open>None\<close> when it throws. \<open>now\<close> is the date of the moment as a text.\<close>

definition handleGatewayFrame :: "string \<Rightarrow> string \<Rightarrow> string \<Rightarrow> string \<Rightarrow> world \<Rightarrow> json \<Rightarrow> socket_hook \<Rightarrow> socket_hook option" where
  "handleGatewayFrame version origin rnd now w frame h =
     (let ty = jget ''type'' frame; ok = truthy_prop ''ok'' frame \<noteq> None; res = (ty = Some (JStr ''res'')) in
      if frame = JNull then None
      else if ty = Some (JStr ''event'') \<and> jget ''event'' frame = Some (JStr ''connect.challenge'')
      then Some (sendConnectHandshake version w (Option.bind (jget ''payload'' frame) (jget ''nonce'')) h)
      else if res \<and> ok \<and> \<not> wh_handshake h then Some (complete_handshake now frame h)
      else case (if res then is_ping frame else Some False) of
        None \<Rightarrow> None
      | Some True \<Rightarrow> Some (case jget ''id'' frame of Some (JStr i) \<Rightarrow> handlePong w i h | _ \<Rightarrow> h)
      | Some False \<Rightarrow>
          if res \<and> \<not> ok then map_option (\<lambda>raw. gateway_failure origin w raw h) (raw_error frame)
          else if ty = Some (JStr ''event'') then gateway_event rnd w (jget ''event'' frame) (jget ''payload'' frame) h
          else Some h)"

section \<open>The socket\<close>

definition base_url :: "string \<Rightarrow> string" where
  "base_url url = hd (split_on CHR ''?'' url)"

text \<open>
  \<open>connect\<close>. \<open>url_token\<close> is the token in the query of a URL, \<open>refuses\<close> whether the constructor of the socket throws. A URL
  that does not parse is outside the model.
\<close>

definition ws_connect :: "(string \<Rightarrow> string option) \<Rightarrow> (string \<Rightarrow> bool) \<Rightarrow> string \<Rightarrow> string option \<Rightarrow> socket_hook \<Rightarrow> socket_hook" where
  "ws_connect url_token refuses url token h =
     (if wh_socket h = Some Open \<or> wh_socket h = Some Connecting then h
      else
        (let h1 = h\<lparr>wh_token := or_else token (or_else (url_token url) []), wh_url := url, wh_handshake := False,
                    wh_manual := False, wh_fatal := None\<rparr>
         in if refuses (base_url url) then on_store (setConnection [(''isConnected'', JBool False)]) h1
            else h1\<lparr>wh_socket := Some Connecting\<rparr>))"

definition ws_onopen :: "socket_hook \<Rightarrow> socket_hook" where
  "ws_onopen h = on_store (setConnection [(''url'', JStr (base_url (wh_url h))), (''reconnectAttempts'', JNum 0)])
     (h\<lparr>wh_socket := Some Open\<rparr>)"

definition ws_onmessage ::
  "(string \<Rightarrow> json option) \<Rightarrow> string \<Rightarrow> string \<Rightarrow> string \<Rightarrow> string \<Rightarrow> world \<Rightarrow> string \<Rightarrow> socket_hook \<Rightarrow> socket_hook"
where
  "ws_onmessage parse_json version origin rnd now w text h =
     (case Option.bind (parse_json text) (\<lambda>frame. handleGatewayFrame version origin rnd now w frame h) of
        Some h' \<Rightarrow> h'
      | None \<Rightarrow> on_store (addLog (log_of (stamped ''raw-'' w) w ''debug'' ''websocket'' (''Raw message: '' @ text))) h)"

definition ws_base :: "nat \<Rightarrow> int" where
  "ws_base attempts = min (2 ^ attempts * 1000) 30000"

definition ws_delay :: "rat \<Rightarrow> nat \<Rightarrow> int" where
  "ws_delay rnd attempts = js_round (of_int (ws_base attempts) + rnd * of_int (ws_base attempts) * (1 / 2))"

text \<open>\<open>onclose\<close>; \<open>stale\<close> when it is the event of an earlier socket.\<close>

definition ws_onclose :: "rat \<Rightarrow> bool \<Rightarrow> world \<Rightarrow> socket_hook \<Rightarrow> socket_hook" where
  "ws_onclose rnd stale w h =
     (let h1 = stopHeartbeat ((on_store (setConnection [(''isConnected'', JBool False)])
                 (if stale then h else h\<lparr>wh_socket := (if wh_socket h = None then None else Some Closed)\<rparr>))\<lparr>wh_handshake := False\<rparr>)
      in if wh_manual h then h1
         else if wh_fatal h \<noteq> None then on_store (setConnection [(''reconnectAttempts'', JNum 0)]) h1
         else if wh_attempts h < maxReconnectAttempts
         then on_store (setConnection [(''reconnectAttempts'', JNum (int (wh_attempts h) + 1))])
                (h1\<lparr>wh_attempts := wh_attempts h + 1, wh_timer := Some (ws_delay rnd (wh_attempts h)),
                     wh_later := wh_later h + (if wh_timer h = None then 0 else 1)\<rparr>)
         else on_store (addLog (log_of (stamped ''error-'' w) w ''error'' ''websocket''
                ''Max reconnection attempts reached. Please reconnect manually.'')) h1)"

definition ws_onerror :: "world \<Rightarrow> socket_hook \<Rightarrow> socket_hook" where
  "ws_onerror w h = on_store (addLog (log_of (stamped ''error-'' w) w ''error'' ''websocket'' ''WebSocket error occurred'')) h"

text \<open>A timer runs out: the one that the ref names, or one that nothing can clear.\<close>

definition ws_timer :: "(string \<Rightarrow> string option) \<Rightarrow> (string \<Rightarrow> bool) \<Rightarrow> socket_hook \<Rightarrow> socket_hook" where
  "ws_timer url_token refuses h =
     (case wh_timer h of None \<Rightarrow> h | Some d \<Rightarrow> ws_connect url_token refuses (wh_url h) (Some (wh_token h)) (h\<lparr>wh_timer := None\<rparr>))"

definition ws_later :: "(string \<Rightarrow> string option) \<Rightarrow> (string \<Rightarrow> bool) \<Rightarrow> socket_hook \<Rightarrow> socket_hook" where
  "ws_later url_token refuses h =
     (if wh_later h = 0 then h else ws_connect url_token refuses (wh_url h) (Some (wh_token h)) (h\<lparr>wh_later := wh_later h - 1\<rparr>))"

definition ws_disconnect :: "socket_hook \<Rightarrow> socket_hook" where
  "ws_disconnect h = on_store (\<lambda>st. st\<lparr>st_connection := AList.delete ''latency''
       (spread (st_connection st) [(''isConnected'', JBool False), (''reconnectAttempts'', JNum 0)])\<rparr>)
     ((stopHeartbeat (h\<lparr>wh_manual := True, wh_attempts := 0, wh_timer := None\<rparr>))\<lparr>wh_socket := None, wh_handshake := False\<rparr>)"

definition ws_sendMessage :: "json \<Rightarrow> socket_hook \<Rightarrow> bool \<times> socket_hook" where
  "ws_sendMessage msg h =
     (if wh_socket h = Some Open \<and> wh_handshake h then (True, h\<lparr>wh_out := wh_out h @ [msg]\<rparr>) else (False, h))"

definition ws_reconnect :: "socket_hook \<Rightarrow> socket_hook" where
  "ws_reconnect h = (let h1 = ws_disconnect h in if wh_url h1 = [] then h1 else h1\<lparr>wh_later := wh_later h1 + 1\<rparr>)"

definition ws_initial :: "client_store \<Rightarrow> string option \<Rightarrow> socket_hook" where
  "ws_initial st token = \<lparr>wh_socket = None, wh_timer = None, wh_later = 0, wh_heartbeat = False, wh_url = [], wh_token = [],
     wh_requests = 0, wh_handshake = False, wh_attempts = 0, wh_manual = False, wh_fatal = None, wh_pings = 0, wh_sent = [],
     wh_missed = 0, wh_store = st, wh_out = [], wh_device_token = token\<rparr>"

section \<open>Life of the connection\<close>

text \<open>
  What happens by itself: events of the socket and timers. A socket that is not open delivers no message, and only one that is
  connecting opens.
\<close>

inductive ws_event ::
  "(string \<Rightarrow> string option) \<Rightarrow> (string \<Rightarrow> bool) \<Rightarrow> (string \<Rightarrow> json option) \<Rightarrow> string \<Rightarrow> string \<Rightarrow> socket_hook \<Rightarrow> socket_hook \<Rightarrow> bool"
  for url_token refuses parse_json version origin
where
  ws_opened: "wh_socket h = Some Connecting \<Longrightarrow> ws_event url_token refuses parse_json version origin h (ws_onopen h)"
| ws_received: "wh_socket h = Some Open \<Longrightarrow>
    ws_event url_token refuses parse_json version origin h (ws_onmessage parse_json version origin rnd now w text h)"
| ws_closed: "ws_event url_token refuses parse_json version origin h (ws_onclose q stale w h)"
| ws_failed: "ws_event url_token refuses parse_json version origin h (ws_onerror w h)"
| ws_ticked: "ws_event url_token refuses parse_json version origin h (heartbeat_tick w h)"
| ws_due: "ws_event url_token refuses parse_json version origin h (ws_timer url_token refuses h)"
| ws_due_later: "ws_event url_token refuses parse_json version origin h (ws_later url_token refuses h)"

inductive_cases ws_eventE: "ws_event url_token refuses parse_json version origin h h'"

text \<open>All steps: events and the calls of the components.\<close>

inductive ws_step ::
  "(string \<Rightarrow> string option) \<Rightarrow> (string \<Rightarrow> bool) \<Rightarrow> (string \<Rightarrow> json option) \<Rightarrow> string \<Rightarrow> string \<Rightarrow> socket_hook \<Rightarrow> socket_hook \<Rightarrow> bool"
  for url_token refuses parse_json version origin
where
  ws_happens: "ws_event url_token refuses parse_json version origin h h' \<Longrightarrow> ws_step url_token refuses parse_json version origin h h'"
| ws_connects: "ws_step url_token refuses parse_json version origin h (ws_connect url_token refuses url token h)"
| ws_disconnects: "ws_step url_token refuses parse_json version origin h (ws_disconnect h)"
| ws_reconnects: "ws_step url_token refuses parse_json version origin h (ws_reconnect h)"
| ws_sends: "ws_step url_token refuses parse_json version origin h (snd (ws_sendMessage msg h))"

inductive_cases ws_stepE: "ws_step url_token refuses parse_json version origin h h'"

subsection \<open>The refs under each step\<close>

text \<open>What the counters and timers promise.\<close>

definition ws_ok :: "socket_hook \<Rightarrow> bool" where
  "ws_ok h \<longleftrightarrow> wh_attempts h \<le> maxReconnectAttempts \<and> wh_missed h \<le> MAX_MISSED_PONGS \<and> length (wh_sent h) \<le> wh_pings h \<and>
     distinct (map fst (wh_sent h)) \<and> (wh_manual h \<longrightarrow> wh_timer h = None)"

lemma on_store_refs [simp]:
  "wh_socket (on_store f h) = wh_socket h" "wh_timer (on_store f h) = wh_timer h" "wh_later (on_store f h) = wh_later h"
  "wh_attempts (on_store f h) = wh_attempts h" "wh_missed (on_store f h) = wh_missed h" "wh_manual (on_store f h) = wh_manual h"
  "wh_sent (on_store f h) = wh_sent h" "wh_pings (on_store f h) = wh_pings h" "wh_handshake (on_store f h) = wh_handshake h"
  "wh_heartbeat (on_store f h) = wh_heartbeat h" "wh_fatal (on_store f h) = wh_fatal h" "wh_out (on_store f h) = wh_out h"
  "wh_store (on_store f h) = f (wh_store h)" "wh_url (on_store f h) = wh_url h" "wh_token (on_store f h) = wh_token h"
  by (simp_all add: on_store_def)

lemma ws_ok_on_store [simp]: "ws_ok (on_store f h) = ws_ok h"
  by (simp add: ws_ok_def)

lemma ws_ok_stopHeartbeat: "ws_ok h \<Longrightarrow> ws_ok (stopHeartbeat h)"
  by (simp add: ws_ok_def stopHeartbeat_def)

lemma ws_ok_startHeartbeat: "ws_ok h \<Longrightarrow> ws_ok (startHeartbeat h)"
  by (simp add: ws_ok_def startHeartbeat_def)

lemma ws_ok_close_socket: "ws_ok h \<Longrightarrow> ws_ok (close_socket h)"
  by (simp add: ws_ok_def close_socket_def)

lemma ws_ok_handlePong: assumes "ws_ok h" shows "ws_ok (handlePong w i h)"
proof (cases "map_of (wh_sent h) i")
  case None then show ?thesis using assms by (simp add: handlePong_def)
next
  case (Some t)
  have "length (AList.delete i (wh_sent h)) \<le> length (wh_sent h)" by (simp add: AList.delete_eq)
  moreover have "distinct (map fst (AList.delete i (wh_sent h)))" using assms by (simp add: ws_ok_def AList.distinct_delete)
  ultimately show ?thesis using assms Some by (simp add: handlePong_def ws_ok_def)
qed

lemma length_update_le: "length (AList.update k v xs) \<le> Suc (length xs)"
  by (induction xs) auto

lemma ws_ok_tick: assumes "ws_ok h" shows "ws_ok (heartbeat_tick w h)"
proof -
  have "distinct (map fst (AList.update (ping_id (wh_pings h + 1)) (now_ms w) (wh_sent h)))"
    using assms by (simp add: ws_ok_def AList.distinct_update)
  moreover have "length (AList.update (ping_id (wh_pings h + 1)) (now_ms w) (wh_sent h)) \<le> wh_pings h + 1"
    using assms length_update_le [of "ping_id (wh_pings h + 1)" "now_ms w" "wh_sent h"] by (simp add: ws_ok_def)
  ultimately show ?thesis using assms
    by (simp add: heartbeat_tick_def ws_ok_def Let_def)
qed

lemma ws_ok_connect: "ws_ok h \<Longrightarrow> ws_ok (ws_connect url_token refuses url token h)"
  by (simp add: ws_ok_def ws_connect_def Let_def)

lemma ws_ok_timer: "ws_ok h \<Longrightarrow> ws_ok (ws_timer url_token refuses h)"
proof (cases "wh_timer h")
  case (Some d)
  assume "ws_ok h"
  then have "ws_ok (h\<lparr>wh_timer := None\<rparr>)" by (simp add: ws_ok_def)
  then show ?thesis using Some ws_ok_connect by (simp add: ws_timer_def)
qed (simp add: ws_timer_def)

lemma ws_ok_later: "ws_ok h \<Longrightarrow> ws_ok (ws_later url_token refuses h)"
proof (cases "wh_later h = 0")
  case False
  assume "ws_ok h"
  then have "ws_ok (h\<lparr>wh_later := wh_later h - 1\<rparr>)" by (simp add: ws_ok_def)
  then show ?thesis using False ws_ok_connect by (simp add: ws_later_def)
qed (simp add: ws_later_def)

lemma ws_ok_disconnect: "ws_ok h \<Longrightarrow> ws_ok (ws_disconnect h)"
  by (simp add: ws_ok_def ws_disconnect_def stopHeartbeat_def)

lemma ws_ok_reconnect: "ws_ok h \<Longrightarrow> ws_ok (ws_reconnect h)"
  using ws_ok_disconnect [of h] by (simp add: ws_reconnect_def Let_def ws_ok_def)

lemma ws_ok_onclose: "ws_ok h \<Longrightarrow> ws_ok (ws_onclose q stale w h)"
  by (simp add: ws_ok_def ws_onclose_def Let_def stopHeartbeat_def)

lemma ws_ok_onopen: "ws_ok h \<Longrightarrow> ws_ok (ws_onopen h)"
  by (simp add: ws_ok_def ws_onopen_def)

lemma ws_ok_failure: "ws_ok h \<Longrightarrow> ws_ok (gateway_failure origin w raw h)"
  unfolding gateway_failure_def Let_def
  by (auto intro!: ws_ok_close_socket ws_ok_stopHeartbeat) (simp add: ws_ok_def)

lemma ws_ok_complete: "ws_ok h \<Longrightarrow> ws_ok (complete_handshake now frame h)"
  unfolding complete_handshake_def Let_def
  by (auto intro!: ws_ok_startHeartbeat) (simp add: ws_ok_def)

lemma ws_ok_gateway_event: "ws_ok h \<Longrightarrow> gateway_event rnd w ev payload h = Some h' \<Longrightarrow> ws_ok h'"
  unfolding gateway_event_def Let_def by (auto split: if_splits option.splits)

lemma ws_ok_send: "ws_ok h \<Longrightarrow> ws_ok (sendConnectHandshake version w nonce h)"
  by (simp add: ws_ok_def sendConnectHandshake_def)

lemma ws_ok_frame: "ws_ok h \<Longrightarrow> handleGatewayFrame version origin rnd now w frame h = Some h' \<Longrightarrow> ws_ok h'"
  unfolding handleGatewayFrame_def Let_def
  by (auto split: if_splits option.splits bool.splits json.splits
      intro: ws_ok_send ws_ok_complete ws_ok_failure ws_ok_handlePong ws_ok_gateway_event)

lemma ws_ok_onmessage: assumes "ws_ok h" shows "ws_ok (ws_onmessage parse_json version origin rnd now w text h)"
proof (cases "Option.bind (parse_json text) (\<lambda>frame. handleGatewayFrame version origin rnd now w frame h)")
  case None then show ?thesis using assms by (simp add: ws_onmessage_def)
next
  case (Some h')
  then obtain frame where "handleGatewayFrame version origin rnd now w frame h = Some h'" by (auto simp: bind_eq_Some_conv)
  then have "ws_ok h'" by (rule ws_ok_frame [OF assms])
  then show ?thesis using Some by (simp add: ws_onmessage_def)
qed

lemma ws_ok_sendMessage: "ws_ok h \<Longrightarrow> ws_ok (snd (ws_sendMessage msg h))"
  by (simp add: ws_ok_def ws_sendMessage_def)

lemma ws_ok_event: "ws_event url_token refuses parse_json version origin h h' \<Longrightarrow> ws_ok h \<Longrightarrow> ws_ok h'"
  by (erule ws_eventE)
    (simp_all add: ws_ok_onopen ws_ok_onmessage ws_ok_onclose ws_onerror_def ws_ok_tick ws_ok_timer ws_ok_later)

lemma ws_ok_step: "ws_step url_token refuses parse_json version origin h h' \<Longrightarrow> ws_ok h \<Longrightarrow> ws_ok h'"
  by (erule ws_stepE)
    (simp_all add: ws_ok_event ws_ok_connect ws_ok_disconnect ws_ok_reconnect ws_ok_sendMessage)

lemma ws_ok_steps: "(ws_step url_token refuses parse_json version origin)\<^sup>*\<^sup>* h h' \<Longrightarrow> ws_ok h \<Longrightarrow> ws_ok h'"
  by (induction rule: rtranclp_induct) (auto intro: ws_ok_step)

subsection \<open>Disconnected by hand\<close>

definition ws_off :: "socket_hook \<Rightarrow> bool" where
  "ws_off h \<longleftrightarrow> wh_socket h = None \<and> wh_timer h = None \<and> wh_later h = 0 \<and> wh_manual h \<and> \<not> wh_handshake h"

lemma ws_off_event: "ws_event url_token refuses parse_json version origin h h' \<Longrightarrow> ws_off h \<Longrightarrow> ws_off h' \<and> wh_out h' = wh_out h"
  by (erule ws_eventE)
    (simp_all add: ws_off_def ws_onclose_def Let_def stopHeartbeat_def ws_onerror_def heartbeat_tick_def ws_timer_def ws_later_def)

lemma ws_off_events:
  "(ws_event url_token refuses parse_json version origin)\<^sup>*\<^sup>* h h' \<Longrightarrow> ws_off h \<Longrightarrow> ws_off h' \<and> wh_out h' = wh_out h"
  by (induction rule: rtranclp_induct) (auto dest: ws_off_event)

lemma ws_off_disconnect: "wh_later h = 0 \<Longrightarrow> ws_off (ws_disconnect h)"
  by (simp add: ws_off_def ws_disconnect_def stopHeartbeat_def)

lemma ws_disconnect_out: "wh_out (ws_disconnect h) = wh_out h"
  by (simp add: ws_disconnect_def stopHeartbeat_def)

lemma ws_ok_initial: "ws_ok (ws_initial st token)"
  by (simp add: ws_ok_def ws_initial_def)


subsection \<open>A gateway that stops answering\<close>

text \<open>The interval runs once in each of the given moments.\<close>

definition ticks :: "world list \<Rightarrow> socket_hook \<Rightarrow> socket_hook" where
  "ticks ws h = foldl (\<lambda>h w. heartbeat_tick w h) h ws"

definition beating :: "socket_hook \<Rightarrow> bool" where
  "beating h \<longleftrightarrow> wh_socket h = Some Open \<and> wh_handshake h \<and> wh_heartbeat h"

lemma ticks_snoc: "ticks (ws @ [w]) h = heartbeat_tick w (ticks ws h)"
  by (simp add: ticks_def)

lemma tick_pings:
  "beating h \<Longrightarrow> wh_missed h < MAX_MISSED_PONGS \<Longrightarrow>
   beating (heartbeat_tick w h) \<and> wh_missed (heartbeat_tick w h) = wh_missed h + 1 \<and>
   length (wh_out (heartbeat_tick w h)) = length (wh_out h) + 1 \<and> wh_attempts (heartbeat_tick w h) = wh_attempts h \<and>
   wh_manual (heartbeat_tick w h) = wh_manual h \<and> wh_fatal (heartbeat_tick w h) = wh_fatal h"
  by (simp add: heartbeat_tick_def beating_def Let_def)

lemma tick_gives_up:
  "beating h \<Longrightarrow> MAX_MISSED_PONGS \<le> wh_missed h \<Longrightarrow>
   wh_socket (heartbeat_tick w h) = Some Closing \<and> wh_out (heartbeat_tick w h) = wh_out h \<and>
   wh_attempts (heartbeat_tick w h) = wh_attempts h \<and>
   wh_manual (heartbeat_tick w h) = wh_manual h \<and> wh_fatal (heartbeat_tick w h) = wh_fatal h"
  by (simp add: heartbeat_tick_def beating_def)

lemma ticks_ping:
  "beating h \<Longrightarrow> wh_missed h + length ws \<le> MAX_MISSED_PONGS \<Longrightarrow>
   beating (ticks ws h) \<and> wh_missed (ticks ws h) = wh_missed h + length ws \<and>
   length (wh_out (ticks ws h)) = length (wh_out h) + length ws \<and> wh_attempts (ticks ws h) = wh_attempts h \<and>
   wh_manual (ticks ws h) = wh_manual h \<and> wh_fatal (ticks ws h) = wh_fatal h"
proof (induction ws rule: rev_induct)
  case Nil
  then show ?case by (simp add: ticks_def)
next
  case (snoc w ws)
  then have IH: "beating (ticks ws h)" "wh_missed (ticks ws h) = wh_missed h + length ws"
    "length (wh_out (ticks ws h)) = length (wh_out h) + length ws" "wh_attempts (ticks ws h) = wh_attempts h"
    "wh_manual (ticks ws h) = wh_manual h" "wh_fatal (ticks ws h) = wh_fatal h" by simp_all
  moreover have "wh_missed (ticks ws h) < MAX_MISSED_PONGS" using IH(2) snoc.prems by simp
  ultimately show ?case using tick_pings [of "ticks ws h" w] by (simp add: ticks_snoc)
qed

lemma pong_refs:
  "map_of (wh_sent h) i = Some t \<Longrightarrow> t \<noteq> 0 \<Longrightarrow> beating h \<Longrightarrow> beating (handlePong w i h) \<and> wh_missed (handlePong w i h) = 0"
  by (simp add: handlePong_def beating_def)

lemma onclose_schedules:
  "\<not> wh_manual h \<Longrightarrow> wh_fatal h = None \<Longrightarrow> wh_attempts h < maxReconnectAttempts \<Longrightarrow>
   wh_timer (ws_onclose q stale w h) = Some (ws_delay q (wh_attempts h)) \<and>
   wh_attempts (ws_onclose q stale w h) = wh_attempts h + 1 \<and> \<not> wh_handshake (ws_onclose q stale w h) \<and>
   \<not> wh_heartbeat (ws_onclose q stale w h)"
  by (simp add: ws_onclose_def Let_def stopHeartbeat_def)

lemma sent_after_tick:
  "beating h \<Longrightarrow> wh_missed h < MAX_MISSED_PONGS \<Longrightarrow>
   map_of (wh_sent (heartbeat_tick w h)) (ping_id (wh_pings h + 1)) = Some (now_ms w)"
  by (simp add: heartbeat_tick_def beating_def Let_def AList.update_conv')

section \<open>Properties\<close>

text \<open>
  C37. A gateway that stops answering is noticed: while the pings are unanswered the interval sends three of them, and its next run
  closes the socket; the close event then schedules a reconnection with the delay of the current attempt. An answer to the last
  ping in time resets the count, and the connection survives the next run.
\<close>

theorem silent_gateway_dropped:
  assumes "beating h" "wh_missed h = 0" "wh_attempts h < 10" "\<not> wh_manual h" "wh_fatal h = None" "now_ms c \<noteq> 0"
  shows "length (wh_out (ticks [a, b, c] h)) = length (wh_out h) + 3 \<and> wh_socket (ticks [a, b, c] h) = Some Open \<and>
    wh_socket (ticks [a, b, c, d] h) = Some Closing \<and>
    wh_timer (ws_onclose q False e (ticks [a, b, c, d] h)) = Some (ws_delay q (wh_attempts h)) \<and>
    wh_socket (heartbeat_tick d (handlePong e (ping_id (wh_pings (ticks [a, b, c] h))) (ticks [a, b, c] h))) = Some Open"
proof -
  let ?h3 = "ticks [a, b, c] h"
  have two: "beating (ticks [a, b] h)" "wh_missed (ticks [a, b] h) = 2"
    using ticks_ping [of h "[a, b]"] assms by (simp_all add: MAX_MISSED_PONGS_def)
  have three: "beating ?h3" "wh_missed ?h3 = 3" "length (wh_out ?h3) = length (wh_out h) + 3" "wh_attempts ?h3 = wh_attempts h"
    "wh_manual ?h3 = wh_manual h" "wh_fatal ?h3 = wh_fatal h"
    using ticks_ping [of h "[a, b, c]"] assms by (simp_all add: MAX_MISSED_PONGS_def)
  have h3: "?h3 = heartbeat_tick c (ticks [a, b] h)" and h4: "ticks [a, b, c, d] h = heartbeat_tick d ?h3"
    by (simp_all add: ticks_def)
  have four: "wh_socket (heartbeat_tick d ?h3) = Some Closing" "wh_attempts (heartbeat_tick d ?h3) = wh_attempts h"
    "wh_manual (heartbeat_tick d ?h3) = wh_manual h" "wh_fatal (heartbeat_tick d ?h3) = wh_fatal h"
    using tick_gives_up [OF three(1), of d] three by (simp_all add: MAX_MISSED_PONGS_def)
  have close: "wh_timer (ws_onclose q False e (heartbeat_tick d ?h3)) = Some (ws_delay q (wh_attempts h))"
    using onclose_schedules [of "heartbeat_tick d ?h3" q False e] four assms by (simp add: maxReconnectAttempts_def)
  have pings: "wh_pings ?h3 = wh_pings (ticks [a, b] h) + 1"
    unfolding h3 using two by (simp add: heartbeat_tick_def beating_def Let_def MAX_MISSED_PONGS_def)
  have sent: "map_of (wh_sent ?h3) (ping_id (wh_pings ?h3)) = Some (now_ms c)"
    using sent_after_tick [OF two(1), of c] two pings unfolding h3 by (simp add: MAX_MISSED_PONGS_def)
  have pong: "beating (handlePong e (ping_id (wh_pings ?h3)) ?h3)" "wh_missed (handlePong e (ping_id (wh_pings ?h3)) ?h3) = 0"
    using pong_refs [OF sent assms(6) three(1)] by blast+
  have "beating (heartbeat_tick d (handlePong e (ping_id (wh_pings ?h3)) ?h3))"
    using tick_pings [OF pong(1), of d] pong(2) by (simp add: MAX_MISSED_PONGS_def)
  then show ?thesis using three(1,3) four(1) close unfolding h4 by (simp add: beating_def)
qed

definition demo_hook :: socket_hook where
  "demo_hook = ws_onopen (ws_connect (\<lambda>_. None) (\<lambda>_. False) ''ws://gw'' None (ws_initial (initial_store (\<lambda>_. None) Map.empty True) None))"

definition demo_time :: world where
  "demo_time = \<lparr>getenv = Map.empty, now_ms = 1000, sql_ord = (\<lambda>_. [])\<rparr>"

definition demo_beating :: socket_hook where
  "demo_beating = complete_handshake ''2026'' (JObj [(''type'', JStr ''res''), (''ok'', JBool True)]) demo_hook"

lemma demo_delay: "ws_delay 0 0 = 1000"
proof -
  have "\<lfloor>(2001::rat) / 2\<rfloor> = 1000" by (rule floor_unique) simp_all
  then show ?thesis by (simp add: ws_delay_def ws_base_def js_round_def)
qed

theorem silent_gateway_dropped_witness:
  "wh_socket (ticks (replicate 4 demo_time) demo_beating) = Some Closing \<and>
   wh_timer (ws_onclose 0 False demo_time (ticks (replicate 4 demo_time) demo_beating)) = Some 1000"
proof -
  have "beating demo_beating" "wh_missed demo_beating = 0" "wh_attempts demo_beating = 0" "\<not> wh_manual demo_beating"
    "wh_fatal demo_beating = None" "now_ms demo_time \<noteq> 0"
    by (simp_all add: demo_beating_def demo_hook_def demo_time_def beating_def complete_handshake_def Let_def startHeartbeat_def
        ws_onopen_def ws_connect_def ws_initial_def)
  with silent_gateway_dropped [of demo_beating demo_time demo_time demo_time demo_time 0 demo_time]
  show ?thesis by (simp add: eval_nat_numeral demo_delay)
qed

text \<open>
  C38. In every reachable state at most ten attempts are counted, at most three pings are unanswered, and a connection closed by
  hand has no scheduled attempt. If no timer is left that nothing can clear, then after a disconnection by hand, whatever
  events follow, no socket is opened and nothing is sent until a component asks for a connection.
\<close>

theorem manual_disconnect_final:
  assumes "(ws_step url_token refuses parse_json version origin)\<^sup>*\<^sup>* (ws_initial st token) h" "wh_later h = 0"
    "(ws_event url_token refuses parse_json version origin)\<^sup>*\<^sup>* (ws_disconnect h) h'"
  shows "wh_attempts h \<le> 10 \<and> wh_missed h \<le> 3 \<and> wh_timer h' = None \<and> wh_socket h' = None \<and> \<not> wh_handshake h' \<and>
    wh_out h' = wh_out h"
proof -
  have "ws_ok h" using ws_ok_steps [OF assms(1) ws_ok_initial] .
  moreover have "ws_off h' \<and> wh_out h' = wh_out h"
    using ws_off_events [OF assms(3) ws_off_disconnect [OF assms(2)]] by (simp add: ws_disconnect_out)
  ultimately show ?thesis by (simp add: ws_ok_def ws_off_def maxReconnectAttempts_def MAX_MISSED_PONGS_def)
qed

definition demo_lost :: socket_hook where
  "demo_lost = ws_onclose 0 False demo_time demo_hook"

theorem manual_disconnect_final_witness:
  "wh_timer demo_lost = Some 1000 \<and>
   wh_socket (ws_onclose 0 True demo_time (ws_timer (\<lambda>_. None) (\<lambda>_. False) (ws_disconnect demo_lost))) = None"
proof -
  let ?step = "ws_step (\<lambda>_. None) (\<lambda>_. False) (\<lambda>_. None) [] []" and ?event = "ws_event (\<lambda>_. None) (\<lambda>_. False) (\<lambda>_. None) [] []"
  let ?h0 = "ws_initial (initial_store (\<lambda>_. None) Map.empty True) None"
  let ?h1 = "ws_connect (\<lambda>_. None) (\<lambda>_. False) ''ws://gw'' None ?h0"
  have "wh_socket ?h1 = Some Connecting" by (simp add: ws_connect_def ws_initial_def Let_def)
  then have "?step ?h1 demo_hook" unfolding demo_hook_def by (intro ws_happens ws_opened)
  moreover have "?step ?h0 ?h1" by (rule ws_connects)
  moreover have "?step demo_hook demo_lost" unfolding demo_lost_def by (intro ws_happens ws_closed)
  ultimately have run: "?step\<^sup>*\<^sup>* ?h0 demo_lost" by auto
  have "?event (ws_disconnect demo_lost) (ws_timer (\<lambda>_. None) (\<lambda>_. False) (ws_disconnect demo_lost))" by (rule ws_due)
  then have end_run: "?event\<^sup>*\<^sup>* (ws_disconnect demo_lost)
      (ws_onclose 0 True demo_time (ws_timer (\<lambda>_. None) (\<lambda>_. False) (ws_disconnect demo_lost)))"
    by (rule rtranclp.rtrancl_into_rtrancl [OF r_into_rtranclp]) (rule ws_closed)
  have state: "wh_later demo_lost = 0" "wh_timer demo_lost = Some 1000"
    by (simp_all add: demo_lost_def demo_hook_def ws_onclose_def Let_def stopHeartbeat_def ws_onopen_def ws_connect_def
        ws_initial_def maxReconnectAttempts_def demo_delay)
  show ?thesis using manual_disconnect_final [OF run state(1) end_run] state(2) by blast
qed


end
