(* ===== verification/MC_Export.thy ===== *)
theory MC_Export
  imports MC_Queries MC_Pipelines
begin

text \<open>
  \<open>src/app/api/export/route.ts\<close>: the export of tables as CSV or JSON. A column that stores JSON holds its text. The headers of the
  answer (type and name of the file) are left out; the text of a CSV answer is its body. \<open>csv_read\<close> is a reader of
  RFC 4180, which ends a record at a line feed, at a carriage return or at both unless they are quoted; the writer is proved against it.
\<close>

section \<open>Rows\<close>

definition json_text :: "json option \<Rightarrow> json" where
  "json_text v = jnull (\<lambda>x. JStr (stringify x)) v"

definition audit_columns :: "audit_row \<Rightarrow> (string \<times> json) list" where
  "audit_columns a = [(''id'', JNum (au_id a)), (''action'', JStr (au_action a)), (''actor'', JStr (au_actor a)),
     (''actor_id'', jnull JNum (au_actor_id a)), (''target_type'', jnull JStr (au_target_type a)),
     (''target_id'', jnull JNum (au_target_id a)), (''detail'', json_text (au_detail a)),
     (''ip_address'', jnull JStr (au_ip_address a)), (''user_agent'', jnull JStr (au_user_agent a)),
     (''created_at'', JNum (au_created_at a))]"

definition task_columns :: "task_row \<Rightarrow> (string \<times> json) list" where
  "task_columns t = [(''id'', JNum (t_id t)), (''title'', JStr (t_title t)), (''description'', jnull JStr (t_description t)),
     (''status'', JStr (task_status_str (t_status t))), (''priority'', JStr (task_priority_str (t_priority t))),
     (''assigned_to'', jnull JStr (t_assigned_to t)), (''created_by'', JStr (t_created_by t)),
     (''created_at'', JNum (t_created_at t)), (''updated_at'', JNum (t_updated_at t)), (''due_date'', jnull JNum (t_due_date t)),
     (''estimated_hours'', jnull JNum (t_estimated_hours t)), (''actual_hours'', jnull JNum (t_actual_hours t)),
     (''tags'', json_text (Some (t_tags t))), (''metadata'', json_text (Some (t_metadata t))),
     (''workspace_id'', JNum (t_workspace_id t))]"

definition activity_columns :: "activity_row \<Rightarrow> (string \<times> json) list" where
  "activity_columns a = [(''id'', JNum (a_id a)), (''type'', JStr (a_type a)), (''entity_type'', JStr (a_entity_type a)),
     (''entity_id'', JNum (a_entity_id a)), (''actor'', JStr (a_actor a)), (''description'', JStr (a_description a)),
     (''data'', json_text (a_data a)), (''created_at'', JNum (a_created_at a)), (''workspace_id'', JNum (a_workspace_id a))]"

text \<open>A run with the name of its pipeline, when that still exists.\<close>

definition run_columns :: "server \<Rightarrow> run_row \<Rightarrow> (string \<times> json) list" where
  "run_columns s r = [(''id'', JNum (r_id r)), (''pipeline_id'', JNum (r_pipeline_id r)), (''status'', JStr (run_status_str (r_status r))),
     (''current_step'', JNum (int (r_current_step r))), (''steps_snapshot'', json_text (Some (steps_json (r_steps_snapshot r)))),
     (''started_at'', jnull JNum (r_started_at r)), (''completed_at'', jnull JNum (r_completed_at r)),
     (''triggered_by'', JStr (r_triggered_by r)), (''created_at'', JNum (r_created_at r)), (''workspace_id'', JNum (r_workspace_id r)),
     (''pipeline_name'', jnull (\<lambda>p. JStr (p_name p)) (tbl_get p_id (workflow_pipelines (db s)) (r_pipeline_id r)))]"

definition exportTypes :: "string list" where
  "exportTypes = [''audit'', ''tasks'', ''activities'', ''pipelines'']"

definition export_headers :: "string \<Rightarrow> string list" where
  "export_headers ty =
     (if ty = ''audit'' then [''id'', ''action'', ''actor'', ''actor_id'', ''target_type'', ''target_id'', ''detail'', ''ip_address'', ''user_agent'', ''created_at'']
      else if ty = ''tasks'' then [''id'', ''title'', ''description'', ''status'', ''priority'', ''assigned_to'', ''created_by'', ''created_at'',
        ''updated_at'', ''due_date'', ''estimated_hours'', ''actual_hours'', ''tags'']
      else if ty = ''activities'' then [''id'', ''type'', ''entity_type'', ''entity_id'', ''actor'', ''description'', ''data'', ''created_at'']
      else [''id'', ''pipeline_id'', ''pipeline_name'', ''status'', ''current_step'', ''steps_snapshot'', ''started_at'', ''completed_at'',
        ''triggered_by'', ''created_at''])"

section \<open>Queries\<close>

text \<open>\<open>created_at >= ? AND created_at <= ?\<close>; a bound that is not a number is \<open>NULL\<close> and matches nothing.\<close>

definition in_range :: "request \<Rightarrow> int \<Rightarrow> bool" where
  "in_range req t \<longleftrightarrow>
     (case nonempty_param req ''since'' of None \<Rightarrow> True | Some v \<Rightarrow> (case parse_int v of None \<Rightarrow> False | Some n \<Rightarrow> n \<le> t)) \<and>
     (case nonempty_param req ''until'' of None \<Rightarrow> True | Some v \<Rightarrow> (case parse_int v of None \<Rightarrow> False | Some n \<Rightarrow> t \<le> n))"

definition newest :: "world \<Rightarrow> int \<Rightarrow> ('r \<Rightarrow> int) \<Rightarrow> ('r \<Rightarrow> bool) \<Rightarrow> 'r tbl \<Rightarrow> 'r list" where
  "newest w limit created P t = sql_limit limit 0 (order_by_desc (sql_ord w) created (tbl_select P t))"

text \<open>
  The rows of an export. The statement for pipelines qualifies only the first \<open>created_at\<close> of its condition; with both bounds
  the second one is ambiguous between the joined tables, and SQLite refuses it: \<open>None\<close>.
\<close>

definition export_rows :: "world \<Rightarrow> request \<Rightarrow> int \<Rightarrow> int \<Rightarrow> string \<Rightarrow> server \<Rightarrow> (string \<times> json) list list option" where
  "export_rows w req wsid limit ty s =
     (if ty = ''audit'' then Some (map audit_columns (newest w limit au_created_at (\<lambda>a. in_range req (au_created_at a)) (audit_log (db s))))
      else if ty = ''tasks'' then
        Some (map task_columns (newest w limit t_created_at (\<lambda>t. t_workspace_id t = wsid \<and> in_range req (t_created_at t)) (tasks (db s))))
      else if ty = ''activities'' then
        Some (map activity_columns (newest w limit a_created_at (\<lambda>a. a_workspace_id a = wsid \<and> in_range req (a_created_at a)) (activities (db s))))
      else if nonempty_param req ''since'' \<noteq> None \<and> nonempty_param req ''until'' \<noteq> None then None
      else Some (map (run_columns s) (newest w limit r_created_at (\<lambda>r. in_range req (r_created_at r)) (pipeline_runs (db s)))))"

section \<open>CSV\<close>

definition quote_char :: char where
  "quote_char = CHR 0x22"

definition line_feed :: char where
  "line_feed = CHR 0x0A"

definition carriage_return :: char where
  "carriage_return = CHR 0x0D"

definition csv_cell :: "json option \<Rightarrow> string" where
  "csv_cell v = (case v of None \<Rightarrow> [] | Some JNull \<Rightarrow> [] | Some x \<Rightarrow> js_String x)"

definition csv_field :: "string \<Rightarrow> string" where
  "csv_field x =
     (if CHR '','' \<in> set x \<or> line_feed \<in> set x \<or> quote_char \<in> set x
      then quote_char # concat (map (\<lambda>c. if c = quote_char then [quote_char, quote_char] else [c]) x) @ [quote_char]
      else x)"

definition csv_values :: "string list \<Rightarrow> (string \<times> json) list \<Rightarrow> string list" where
  "csv_values headers row = map (\<lambda>h. csv_cell (map_of row h)) headers"

definition csv_text :: "string list \<Rightarrow> (string \<times> json) list list \<Rightarrow> string" where
  "csv_text headers rs =
     join_with [line_feed] (join_with '','' headers # map (\<lambda>r. join_with '','' (map csv_field (csv_values headers r))) rs)"

section \<open>Handler\<close>

definition logged_export :: "world \<Rightarrow> request \<Rightarrow> user \<Rightarrow> string \<Rightarrow> string \<Rightarrow> nat \<Rightarrow> server \<Rightarrow> server" where
  "logged_export w req u ty format n = logAuditEvent w ((audit_event0 ''data_export'' (usr_username u))
     \<lparr>ae_actor_id := Some (usr_id u),
      ae_detail := Some (JObj [(''type'', JStr ty), (''format'', JStr format), (''row_count'', JNum (int n))]),
      ae_ip_address := Some (client_ip req)\<rparr>)"

definition export_data :: "world \<Rightarrow> request \<Rightarrow> user \<Rightarrow> server \<Rightarrow> outcome" where
  "export_data w req u s =
     (let ty = or_else (req_query req ''type'') []; format = or_else (req_query req ''format'') ''csv'' in
      if ty \<notin> set exportTypes then (Inr (error_response 400 ''type required: audit, tasks, activities, pipelines''), s)
      else case parse_int (or_else (req_query req ''limit'') ''10000'') of
        None \<Rightarrow> (Inl ''datatype mismatch'', s)
      | Some l \<Rightarrow>
          (case export_rows w req (usr_workspace_id u) (min l 50000) ty s of
             None \<Rightarrow> (Inl ''ambiguous column name: created_at'', s)
           | Some rs \<Rightarrow>
               (let s1 = logged_export w req u ty format (length rs) s in
                case toISOString (now_ms w) of
                  None \<Rightarrow> (Inl ''Invalid time value'', s1)
                | Some now \<Rightarrow>
                    if format = ''csv'' then (Inr (json_response 200 (JStr (csv_text (export_headers ty) rs))), s1)
                    else (Inr (json_response 200 (JObj [(''type'', JStr ty), (''exported_at'', JStr now), (''count'', JNum (int (length rs))),
                      (''data'', JArr (map JObj rs))])), s1))))"

text \<open>\<open>heavyLimiter\<close> has its own window; \<open>hs\<close> is its state.\<close>

definition heavy_route ::
  "(world \<Rightarrow> request \<Rightarrow> user \<Rightarrow> server \<Rightarrow> outcome) \<Rightarrow> string \<Rightarrow> world \<Rightarrow> request \<Rightarrow> (string \<Rightarrow> rate_entry option) \<Rightarrow> server \<Rightarrow>
     outcome \<times> (string \<Rightarrow> rate_entry option)"
where
  "heavy_route k role w req hs s = role_files w req role hs s (\<lambda>u.
     (case checkRateLimit heavyLimiter_options w req hs of
        (Some r, hs') \<Rightarrow> ((Inr r, s), hs')
      | (None, hs') \<Rightarrow> (k w req u s, hs')))"

definition export_GET ::
  "world \<Rightarrow> request \<Rightarrow> (string \<Rightarrow> rate_entry option) \<Rightarrow> server \<Rightarrow> outcome \<times> (string \<Rightarrow> rate_entry option)"
where
  "export_GET = heavy_route export_data ''admin''"

section \<open>A reader of CSV\<close>

text \<open>\<open>After_return\<close>: a carriage return has just ended a record; a line feed after it belongs to the same line break.\<close>

datatype csv_state = Field_start | In_plain | In_quotes | After_quote | After_return

fun csv_read :: "csv_state \<Rightarrow> string \<Rightarrow> string list \<Rightarrow> string \<Rightarrow> string list list" where
  "csv_read st f fs [] = [fs @ [f]]"
| "csv_read st f fs (c # cs) =
     (if st = In_quotes then (if c = quote_char then csv_read After_quote f fs cs else csv_read In_quotes (f @ [c]) fs cs)
      else if st = After_quote \<and> c = quote_char then csv_read In_quotes (f @ [quote_char]) fs cs
      else if (st = Field_start \<or> st = After_return) \<and> c = quote_char then csv_read In_quotes f fs cs
      else if c = CHR '','' then csv_read Field_start [] (fs @ [f]) cs
      else if c = line_feed \<and> st = After_return then csv_read Field_start f fs cs
      else if c = line_feed then (fs @ [f]) # csv_read Field_start [] [] cs
      else if c = carriage_return then (fs @ [f]) # csv_read After_return [] [] cs
      else csv_read In_plain (f @ [c]) fs cs)"

definition read_csv :: "string \<Rightarrow> string list list" where
  "read_csv text = csv_read Field_start [] [] text"

text \<open>
  A text is protected when each carriage return in it comes with a comma, a line feed or a quote, for which the writer puts it in quotes.
\<close>

definition special_char :: "string \<Rightarrow> bool" where
  "special_char x \<longleftrightarrow> CHR '','' \<in> set x \<or> line_feed \<in> set x \<or> quote_char \<in> set x"

definition returns_protected :: "string \<Rightarrow> bool" where
  "returns_protected x \<longleftrightarrow> (carriage_return \<in> set x \<longrightarrow> special_char x)"

text \<open>What may follow a field.\<close>

definition field_end :: "string \<Rightarrow> bool" where
  "field_end r \<longleftrightarrow> r = [] \<or> hd r = CHR '','' \<or> hd r = line_feed"

lemma csv_chars [simp]: "quote_char \<noteq> CHR '',''" "quote_char \<noteq> line_feed" "line_feed \<noteq> CHR '',''" "CHR '','' \<noteq> quote_char"
  "line_feed \<noteq> quote_char" "CHR '','' \<noteq> line_feed" "carriage_return \<noteq> CHR '',''" "carriage_return \<noteq> line_feed"
  "carriage_return \<noteq> quote_char" "quote_char \<noteq> carriage_return"
  by (simp_all add: quote_char_def line_feed_def carriage_return_def)

declare csv_read.simps(2) [simp del]

lemma csv_steps:
  "csv_read In_quotes f fs (quote_char # r) = csv_read After_quote f fs r"
  "c \<noteq> quote_char \<Longrightarrow> csv_read In_quotes f fs (c # r) = csv_read In_quotes (f @ [c]) fs r"
  "csv_read After_quote f fs (quote_char # r) = csv_read In_quotes (f @ [quote_char]) fs r"
  "csv_read Field_start f fs (quote_char # r) = csv_read In_quotes f fs r"
  "st \<noteq> In_quotes \<Longrightarrow> csv_read st f fs (CHR '','' # r) = csv_read Field_start [] (fs @ [f]) r"
  "st \<noteq> In_quotes \<Longrightarrow> st \<noteq> After_return \<Longrightarrow>
     csv_read st f fs (line_feed # r) = (fs @ [f]) # csv_read Field_start [] [] r"
  "st \<noteq> In_quotes \<Longrightarrow> csv_read st f fs (carriage_return # r) = (fs @ [f]) # csv_read After_return [] [] r"
  "c \<noteq> quote_char \<Longrightarrow> c \<noteq> CHR '','' \<Longrightarrow> c \<noteq> line_feed \<Longrightarrow> c \<noteq> carriage_return \<Longrightarrow> st \<noteq> In_quotes \<Longrightarrow>
     csv_read st f fs (c # r) = csv_read In_plain (f @ [c]) fs r"
  by (simp_all add: csv_read.simps(2))

lemma csv_read_end: assumes "field_end r" "st \<noteq> In_quotes" "st \<noteq> After_return" shows "csv_read st f fs r = csv_read In_plain f fs r"
proof (cases r)
  case Nil
  then show ?thesis by simp
next
  case (Cons c cs)
  then have "c = CHR '','' \<or> c = line_feed" using assms(1) by (simp add: field_end_def)
  then show ?thesis using assms(2,3) Cons by (auto simp: csv_steps)
qed

lemma csv_read_plain:
  "\<not> special_char x \<Longrightarrow> carriage_return \<notin> set x \<Longrightarrow>
   csv_read In_plain f fs (x @ r) = csv_read In_plain (f @ x) fs r"
  by (induction x arbitrary: f) (auto simp: csv_steps special_char_def)

definition doubled :: "string \<Rightarrow> string" where
  "doubled x = concat (map (\<lambda>c. if c = quote_char then [quote_char, quote_char] else [c]) x)"

lemma doubled_simps [simp]: "doubled [] = []"
    "doubled (c # x) = (if c = quote_char then quote_char # quote_char # doubled x else c # doubled x)"
  by (simp_all add: doubled_def)

lemma csv_read_quotes: "csv_read In_quotes f fs (doubled x @ quote_char # r) = csv_read After_quote (f @ x) fs r"
  by (induction x arbitrary: f) (simp_all add: csv_steps)

lemma csv_field_quoted:
  "special_char x \<Longrightarrow> csv_field x = quote_char # doubled x @ [quote_char]"
  by (simp add: csv_field_def doubled_def special_char_def)

lemma csv_field_plain: "\<not> special_char x \<Longrightarrow> csv_field x = x"
  by (simp add: csv_field_def special_char_def)

lemma csv_read_field:
  assumes "field_end r" "returns_protected x"
  shows "csv_read Field_start [] fs (csv_field x @ r) = csv_read In_plain x fs r"
proof (cases "special_char x")
  case True
  then show ?thesis using csv_read_end [OF assms(1), of After_quote x fs] by (simp add: csv_field_quoted csv_steps csv_read_quotes)
next
  case False
  then have none: "carriage_return \<notin> set x" using assms(2) by (simp add: returns_protected_def)
  show ?thesis
  proof (cases x)
    case Nil
    then show ?thesis using csv_read_end [OF assms(1), of Field_start "[]" fs] False by (simp add: csv_field_plain)
  next
    case (Cons c y)
    then show ?thesis using False none csv_read_plain [of y "[c]" fs r]
      by (auto simp add: csv_field_plain csv_steps special_char_def)
  qed
qed

lemma csv_read_line:
  "xs \<noteq> [] \<Longrightarrow> \<forall>x \<in> set xs. returns_protected x \<Longrightarrow> r = [] \<or> hd r = line_feed \<Longrightarrow>
   csv_read Field_start [] fs (join_with '','' (map csv_field xs) @ r) = csv_read In_plain (last xs) (fs @ butlast xs) r"
proof (induction xs arbitrary: fs)
  case Nil
  then show ?case by simp
next
  case (Cons x xs)
  show ?case
  proof (cases xs)
    case Nil
    then have "field_end r" using Cons.prems by (auto simp: field_end_def)
    then show ?thesis using Nil Cons.prems csv_read_field [of r x fs] by simp
  next
    case (Cons y ys)
    have "csv_read Field_start [] fs (csv_field x @ CHR '','' # join_with '','' (map csv_field xs) @ r) =
        csv_read Field_start [] (fs @ [x]) (join_with '','' (map csv_field xs) @ r)"
      using Cons.prems by (subst csv_read_field) (simp_all add: field_end_def csv_steps)
    then show ?thesis using Cons.IH [of "fs @ [x]"] Cons.prems Cons by simp
  qed
qed

lemma csv_read_lines:
  "\<forall>l \<in> set ls. l \<noteq> [] \<and> (\<forall>x \<in> set l. returns_protected x) \<Longrightarrow> ls \<noteq> [] \<Longrightarrow>
   csv_read Field_start [] [] (join_with [line_feed] (map (\<lambda>l. join_with '','' (map csv_field l)) ls)) = ls"
proof (induction ls)
  case Nil
  then show ?case by simp
next
  case (Cons l ls)
  show ?case
  proof (cases ls)
    case Nil
    then show ?thesis using Cons.prems csv_read_line [of l "[]" "[]"] by simp
  next
    case (Cons m ms)
    then show ?thesis using Cons.prems Cons.IH csv_read_line [of l "line_feed # _" "[]"] by (simp add: csv_steps)
  qed
qed

lemma export_headers_plain: "map csv_field (export_headers ty) = export_headers ty"
  by (simp add: export_headers_def csv_field_def quote_char_def line_feed_def)

lemma export_headers_some: "export_headers ty \<noteq> []"
  by (simp add: export_headers_def)

lemma export_headers_protected: "x \<in> set (export_headers ty) \<Longrightarrow> returns_protected x"
  by (auto simp: export_headers_def returns_protected_def carriage_return_def split: if_splits)

lemma read_csv_text:
  assumes "\<forall>row \<in> set rs. \<forall>x \<in> set (csv_values (export_headers ty) row). returns_protected x"
  shows "read_csv (csv_text (export_headers ty) rs) = export_headers ty # map (csv_values (export_headers ty)) rs"
proof -
  let ?ls = "export_headers ty # map (csv_values (export_headers ty)) rs"
  have "csv_text (export_headers ty) rs = join_with [line_feed] (map (\<lambda>l. join_with '','' (map csv_field l)) ?ls)"
    by (simp add: csv_text_def export_headers_plain o_def)
  moreover have "\<forall>l \<in> set ?ls. l \<noteq> [] \<and> (\<forall>x \<in> set l. returns_protected x)"
    using export_headers_some assms export_headers_protected by (auto simp: csv_values_def)
  ultimately show ?thesis using csv_read_lines [of ?ls] by (simp add: read_csv_def)
qed

text \<open>The writer leaves a lone carriage return unquoted, and the record ends there.\<close>

lemma lone_return_splits_record: "read_csv (csv_field [CHR ''a'', carriage_return, CHR ''b'']) = [[''a''], [''b'']]"
  by (simp add: read_csv_def csv_field_def csv_read.simps(2) quote_char_def line_feed_def carriage_return_def)

section \<open>Properties\<close>

lemma limiter_refusal: "checkRateLimit opts w req st = (Some r, st') \<Longrightarrow> resp_status r = 429"
  by (auto simp: checkRateLimit_def Let_def split: if_splits option.splits)

lemma limiter_first: "fst (checkRateLimit opts w req Map.empty) = None"
  by (simp add: checkRateLimit_def Let_def)

lemma requireRole_error_status: "requireRole w req role s = Inr (Auth_error st msg) \<Longrightarrow> st = 401 \<or> st = 403"
  by (auto simp: requireRole_def split: sum.splits option.splits if_splits)

text \<open>What a route behind the heavy limiter did when it answered with success.\<close>

lemma heavy_route_ok:
  assumes "heavy_route k role w req hs s = ((Inr r, s'), hs')" "resp_status r = 200"
  obtains u where "requireRole w req role s = Inr (Auth_user u)" "k w req u s = (Inr r, s')"
proof -
  have role: "with_role w req role s (\<lambda>u. fst (case checkRateLimit heavyLimiter_options w req hs of
        (Some r, hs') \<Rightarrow> ((Inr r, s), hs') | (None, hs') \<Rightarrow> (k w req u s, hs'))) = (Inr r, s')"
    using assms(1) by (simp add: heavy_route_def role_files_def)
  obtain a where a: "requireRole w req role s = Inr a"
    using role by (cases "requireRole w req role s") (auto simp: with_role_def)
  show thesis
  proof (cases a)
    case (Auth_error st msg)
    with role a have "r = error_response st msg" by (simp add: with_role_def)
    with Auth_error a assms(2) have False using requireRole_error_status [OF a [unfolded Auth_error]] by simp
    then show ?thesis ..
  next
    case (Auth_user u)
    obtain c hs1 where c: "checkRateLimit heavyLimiter_options w req hs = (c, hs1)" by fastforce
    show ?thesis
    proof (cases c)
      case None
      with that [of u] role a Auth_user c show ?thesis by (simp add: with_role_def)
    next
      case (Some r')
      with role a Auth_user c assms(2) limiter_refusal [of heavyLimiter_options w req hs r' hs1] show ?thesis
        by (simp add: with_role_def)
    qed
  qed
qed


definition demo_exported :: task_row where
  "demo_exported = \<lparr>t_id = 1, t_title = ''a, b'' @ [quote_char, line_feed], t_description = None, t_status = Inbox, t_priority = Low,
     t_assigned_to = None, t_created_by = ''ana'', t_created_at = 1, t_updated_at = 1, t_due_date = None, t_estimated_hours = None,
     t_actual_hours = None, t_tags = JArr [], t_metadata = JObj [], t_workspace_id = 1\<rparr>"

lemma demo_exported_returns:
  "h \<in> set (export_headers ''tasks'') \<Longrightarrow> carriage_return \<notin> set (csv_cell (map_of (task_columns demo_exported) h))"
proof -
  have "\<forall>h \<in> set (export_headers ''tasks''). carriage_return \<notin> set (csv_cell (map_of (task_columns demo_exported) h))" by code_simp
  then show "h \<in> set (export_headers ''tasks'') \<Longrightarrow> ?thesis" by blast
qed

definition demo_board :: server where
  "demo_board = init_server\<lparr>db := empty_db\<lparr>tasks := \<lparr>seq = 1, rows = [demo_exported]\<rparr>\<rparr>\<rparr>"



end
