(* ===== verification/MC_Search.thy ===== *)
theory MC_Search
  imports MC_Export
begin

text \<open>
  \<open>src/app/api/search/route.ts\<close>: the search over seven tables, the excerpts and the ranking. A statement that SQLite refuses yields
  nothing. Lengths are those of the bytes.
\<close>

section \<open>Excerpts\<close>

text \<open>\<open>s.indexOf(sub)\<close>\<close>

definition index_of :: "string \<Rightarrow> string \<Rightarrow> nat option" where
  "index_of sub s = find (\<lambda>k. starts_with sub (drop k s)) [0..<Suc (length s)]"

definition dots :: "bool \<Rightarrow> string" where
  "dots b = (if b then ''...'' else [])"

definition truncateMatch :: "string option \<Rightarrow> string \<Rightarrow> string option" where
  "truncateMatch text query = (case or_null text of
     None \<Rightarrow> None
   | Some x \<Rightarrow>
       (case index_of (to_lower query) (to_lower x) of
          None \<Rightarrow> Some (take 120 x @ dots (120 < length x))
        | Some idx \<Rightarrow>
            (let start = idx - 40; stop = min (length x) (idx + length query + 80)
             in Some (dots (0 < start) @ drop start (take stop x) @ dots (stop < length x)))))"

section \<open>Results\<close>

record search_result =
  sr_type :: string
  sr_id :: int
  sr_title :: string
  sr_subtitle :: "string option"
  sr_excerpt :: "json option"
  sr_created_at :: int
  sr_relevance :: int

definition result_json :: "search_result \<Rightarrow> json" where
  "result_json r = JObj ([(''type'', JStr (sr_type r)), (''id'', JNum (sr_id r)), (''title'', JStr (sr_title r))] @
     jopt ''subtitle'' JStr (sr_subtitle r) @ jopt ''excerpt'' id (sr_excerpt r) @
     [(''created_at'', JNum (sr_created_at r)), (''relevance'', JNum (sr_relevance r))])"

definition middle_dot :: string where
  "middle_dot = [CHR 0xC2, CHR 0xB7, CHR '' '']"

definition right_arrow :: string where
  "right_arrow = [CHR '' '', CHR 0xE2, CHR 0x86, CHR 0x92, CHR '' '']"

definition name_relevance :: "string \<Rightarrow> string \<Rightarrow> int" where
  "name_relevance query x = (if includes_str (to_lower query) (to_lower x) then 2 else 1)"

definition task_result :: "string \<Rightarrow> task_row \<Rightarrow> search_result" where
  "task_result query t = \<lparr>sr_type = ''task'', sr_id = t_id t, sr_title = t_title t,
     sr_subtitle = Some (task_status_str (t_status t) @ '' '' @ (case or_null (t_assigned_to t) of None \<Rightarrow> [] | Some a \<Rightarrow> middle_dot @ a)),
     sr_excerpt = map_option JStr (truncateMatch (t_description t) query), sr_created_at = t_created_at t,
     sr_relevance = name_relevance query (t_title t)\<rparr>"

definition agent_result :: "string \<Rightarrow> agent_row \<Rightarrow> search_result" where
  "agent_result query g = \<lparr>sr_type = ''agent'', sr_id = g_id g, sr_title = g_name g,
     sr_subtitle = Some (g_role g @ '' '' @ middle_dot @ g_status g), sr_excerpt = Some (jnull JStr (g_last_activity g)),
     sr_created_at = g_created_at g, sr_relevance = name_relevance query (g_name g)\<rparr>"

definition activity_result :: "activity_row \<Rightarrow> search_result" where
  "activity_result a = \<lparr>sr_type = ''activity'', sr_id = a_id a, sr_title = a_description a, sr_subtitle = Some (''by '' @ a_actor a),
     sr_excerpt = None, sr_created_at = a_created_at a, sr_relevance = 1\<rparr>"

definition audit_result :: "string \<Rightarrow> audit_row \<Rightarrow> search_result" where
  "audit_result query a = \<lparr>sr_type = ''audit'', sr_id = au_id a, sr_title = au_action a, sr_subtitle = Some (''by '' @ au_actor a),
     sr_excerpt = map_option JStr (truncateMatch (map_option stringify (au_detail a)) query), sr_created_at = au_created_at a,
     sr_relevance = 1\<rparr>"

definition message_result :: "string \<Rightarrow> message_row \<Rightarrow> search_result" where
  "message_result query m = \<lparr>sr_type = ''message'', sr_id = mg_id m,
     sr_title = mg_from_agent m @ right_arrow @ or_else (mg_to_agent m) ''all'', sr_subtitle = Some (mg_conversation_id m),
     sr_excerpt = map_option JStr (truncateMatch (Some (mg_content m)) query), sr_created_at = mg_created_at m, sr_relevance = 1\<rparr>"

definition webhook_result :: "string \<Rightarrow> webhook_row \<Rightarrow> search_result" where
  "webhook_result query h = \<lparr>sr_type = ''webhook'', sr_id = w_id h, sr_title = w_name h, sr_subtitle = Some (w_url h),
     sr_excerpt = None, sr_created_at = w_created_at h, sr_relevance = name_relevance query (w_name h)\<rparr>"

definition pipeline_result :: "string \<Rightarrow> pipeline_row \<Rightarrow> search_result" where
  "pipeline_result query p = \<lparr>sr_type = ''pipeline'', sr_id = p_id p, sr_title = p_name p, sr_subtitle = None,
     sr_excerpt = map_option JStr (truncateMatch (p_description p) query), sr_created_at = p_created_at p,
     sr_relevance = name_relevance query (p_name p)\<rparr>"

section \<open>Queries\<close>

definition like_query :: "string \<Rightarrow> string option \<Rightarrow> bool" where
  "like_query query x = (case x of None \<Rightarrow> False | Some v \<Rightarrow> sql_like (''%'' @ query @ ''%'') v)"

definition task_like :: "string \<Rightarrow> int \<Rightarrow> task_row \<Rightarrow> bool" where
  "task_like q wsid t \<longleftrightarrow> t_workspace_id t = wsid \<and>
     (like_query q (Some (t_title t)) \<or> like_query q (t_description t) \<or> like_query q (t_assigned_to t))"

definition agent_like :: "string \<Rightarrow> int \<Rightarrow> agent_row \<Rightarrow> bool" where
  "agent_like q wsid g \<longleftrightarrow> g_workspace_id g = wsid \<and>
     (like_query q (Some (g_name g)) \<or> like_query q (Some (g_role g)) \<or> like_query q (g_last_activity g))"

definition activity_like :: "string \<Rightarrow> int \<Rightarrow> activity_row \<Rightarrow> bool" where
  "activity_like q wsid a \<longleftrightarrow> a_workspace_id a = wsid \<and> (like_query q (Some (a_description a)) \<or> like_query q (Some (a_actor a)))"

definition audit_like :: "string \<Rightarrow> audit_row \<Rightarrow> bool" where
  "audit_like q a \<longleftrightarrow> like_query q (Some (au_action a)) \<or> like_query q (Some (au_actor a)) \<or>
     like_query q (map_option stringify (au_detail a))"

definition message_like :: "string \<Rightarrow> message_row \<Rightarrow> bool" where
  "message_like q m \<longleftrightarrow> like_query q (Some (mg_content m)) \<or> like_query q (Some (mg_from_agent m))"

definition webhook_like :: "string \<Rightarrow> webhook_row \<Rightarrow> bool" where
  "webhook_like q h \<longleftrightarrow> like_query q (Some (w_name h)) \<or> like_query q (Some (w_url h))"

definition pipeline_like :: "string \<Rightarrow> pipeline_row \<Rightarrow> bool" where
  "pipeline_like q p \<longleftrightarrow> like_query q (Some (p_name p)) \<or> like_query q (p_description p)"

text \<open>The rows of one table; \<open>pick\<close> cuts and orders what matches.\<close>

definition wanted :: "string option \<Rightarrow> string \<Rightarrow> 'a list \<Rightarrow> 'a list" where
  "wanted ty t xs = (if ty = None \<or> ty = Some t then xs else [])"

definition found_results :: "world \<Rightarrow> int \<Rightarrow> string \<Rightarrow> string option \<Rightarrow> int \<Rightarrow> server \<Rightarrow> search_result list" where
  "found_results w limit q ty wsid s =
     wanted ty ''task'' (map (task_result q) (newest w limit t_created_at (task_like q wsid) (tasks (db s)))) @
     wanted ty ''agent'' (map (agent_result q) (newest w limit g_created_at (agent_like q wsid) (agents (db s)))) @
     wanted ty ''activity'' (map activity_result (newest w limit a_created_at (activity_like q wsid) (activities (db s)))) @
     wanted ty ''audit'' (map (audit_result q) (newest w limit au_created_at (audit_like q) (audit_log (db s)))) @
     wanted ty ''message'' (map (message_result q) (newest w limit mg_created_at (message_like q) (messages (db s)))) @
     wanted ty ''webhook'' (map (webhook_result q) (newest w limit w_created_at (webhook_like q) (webhooks (db s)))) @
     wanted ty ''pipeline'' (map (pipeline_result q) (newest w limit p_created_at (pipeline_like q) (workflow_pipelines (db s))))"

definition ranked :: "search_result list \<Rightarrow> search_result list" where
  "ranked rs = sort_key (\<lambda>r. - sr_relevance r) (sort_key (\<lambda>r. - sr_created_at r) rs)"

text \<open>\<open>xs.slice(0, n)\<close>\<close>

definition slice_to :: "int \<Rightarrow> 'a list \<Rightarrow> 'a list" where
  "slice_to n xs = (if 0 \<le> n then take (nat n) xs else take (length xs - nat (- n)) xs)"

text \<open>All results and those shown. With a limit that is not a number every statement is refused.\<close>

definition search_results :: "world \<Rightarrow> int option \<Rightarrow> string \<Rightarrow> string option \<Rightarrow> int \<Rightarrow> server \<Rightarrow> nat \<times> search_result list" where
  "search_results w limit q ty wsid s = (case limit of
     None \<Rightarrow> (0, [])
   | Some l \<Rightarrow> (let rs = ranked (found_results w l q ty wsid s) in (length rs, slice_to l rs)))"

definition search_data :: "world \<Rightarrow> request \<Rightarrow> user \<Rightarrow> server \<Rightarrow> outcome" where
  "search_data w req u s =
     (let query = trim (or_else (req_query req ''q'') []);
          limit = map_option (\<lambda>l. min l 100) (parse_int (or_else (req_query req ''limit'') ''30''));
          (n, rs) = search_results w limit query (nonempty_param req ''type'') (usr_workspace_id u) s
      in if length query < 2 then (Inr (error_response 400 ''Query must be at least 2 characters''), s)
         else (Inr (json_response 200 (JObj [(''query'', JStr query), (''count'', JNum (int n)),
           (''results'', JArr (map result_json rs))])), s))"

definition search_GET ::
  "world \<Rightarrow> request \<Rightarrow> (string \<Rightarrow> rate_entry option) \<Rightarrow> server \<Rightarrow> outcome \<times> (string \<Rightarrow> rate_entry option)"
where
  "search_GET = heavy_route search_data ''viewer''"

section \<open>Excerpts show the match\<close>

lemma index_of_found: "index_of sub s = Some k \<Longrightarrow> starts_with sub (drop k s) \<and> k \<le> length s"
  by (auto simp: index_of_def find_Some_iff simp del: upt_Suc)

lemma starts_with_length: "starts_with p s \<Longrightarrow> length p \<le> length s"
  by (auto simp: starts_with_def dest: arg_cong [where f = length])

lemma index_of_bound: "index_of sub s = Some k \<Longrightarrow> k + length sub \<le> length s"
  using index_of_found [of sub s k] starts_with_length [of sub "drop k s"] by auto

lemma index_of_none: "index_of sub s = None \<Longrightarrow> \<not> includes_str sub s"
  by (auto simp: index_of_def find_None_iff includes_str_def list_ex_iff simp del: upt_Suc)

lemma length_to_lower [simp]: "length (to_lower s) = length s"
  by (simp add: to_lower_def)

lemma to_lower_parts: "to_lower (a @ b) = to_lower a @ to_lower b" "to_lower (take n s) = take n (to_lower s)"
    "to_lower (drop n s) = drop n (to_lower s)"
  by (simp_all add: to_lower_def take_map drop_map)

lemma excerpt_found:
  assumes "index_of (to_lower q) (to_lower x) = Some k"
  shows "includes_str (to_lower q) (to_lower (drop (k - 40) (take (min (length x) (k + length q + 80)) x)))"
proof -
  let ?part = "drop (k - 40) (take (min (length x) (k + length q + 80)) x)" and ?j = "k - (k - 40)"
  have k: "k + length q \<le> length x" using index_of_bound [OF assms] by simp
  have "take (length q) (drop k (to_lower x)) = to_lower q"
    using index_of_found [OF assms] by (auto simp: starts_with_def)
  moreover have "take (length q) (drop ?j (to_lower ?part)) = take (length q) (drop k (to_lower x))"
    using k by (simp add: to_lower_parts drop_take)
  ultimately have "starts_with (to_lower q) (drop ?j (to_lower ?part))" by (simp add: starts_with_def)
  moreover have "?j \<le> length (to_lower ?part)" using k by simp
  ultimately show ?thesis unfolding includes_str_def list_ex_iff by (intro bexI [of _ ?j]) (auto simp del: upt_Suc)
qed

lemma includes_more: "includes_str sub y \<Longrightarrow> includes_str sub (x @ y @ z)"
proof -
  assume "includes_str sub y"
  then obtain k where k: "k \<le> length y" "starts_with sub (drop k y)"
    by (auto simp: includes_str_def list_ex_iff less_Suc_eq_le simp del: upt_Suc)
  have "length sub + k \<le> length y" using k(1) starts_with_length [OF k(2)] by simp
  then have "starts_with sub (drop (length x + k) (x @ y @ z))" using k by (simp add: starts_with_def)
  moreover have "length x + k \<in> set [0..<Suc (length (x @ y @ z))]" using k(1) by (simp del: upt_Suc)
  ultimately show ?thesis unfolding includes_str_def list_ex_iff by blast
qed

section \<open>Selection and rank\<close>

text \<open>All matches, without limit and order.\<close>

definition all_matches :: "string \<Rightarrow> string option \<Rightarrow> int \<Rightarrow> server \<Rightarrow> search_result list" where
  "all_matches q ty wsid s =
     wanted ty ''task'' (map (task_result q) (tbl_select (task_like q wsid) (tasks (db s)))) @
     wanted ty ''agent'' (map (agent_result q) (tbl_select (agent_like q wsid) (agents (db s)))) @
     wanted ty ''activity'' (map activity_result (tbl_select (activity_like q wsid) (activities (db s)))) @
     wanted ty ''audit'' (map (audit_result q) (tbl_select (audit_like q) (audit_log (db s)))) @
     wanted ty ''message'' (map (message_result q) (tbl_select (message_like q) (messages (db s)))) @
     wanted ty ''webhook'' (map (webhook_result q) (tbl_select (webhook_like q) (webhooks (db s)))) @
     wanted ty ''pipeline'' (map (pipeline_result q) (tbl_select (pipeline_like q) (workflow_pipelines (db s))))"

lemma mset_take_le: "mset (take n xs) \<subseteq># mset xs"
  by (metis append_take_drop_id mset_append mset_subset_eq_add_left)

lemma newest_part:
  assumes "sql_order (sql_ord w)" "0 \<le> l"
  shows "mset (newest w l f P t) \<subseteq># mset (tbl_select P t)"
  using assms mset_take_le [of "nat l" "order_by_desc (sql_ord w) f (tbl_select P t)"]
  by (simp add: newest_def sql_limit_def sql_order.mset_order_by_desc)

lemma newest_all:
  assumes "sql_order (sql_ord w)" "0 \<le> l" "length (tbl_select P t) \<le> nat l"
  shows "mset (newest w l f P t) = mset (tbl_select P t)"
  using assms by (simp add: newest_def sql_limit_def sql_order.mset_order_by_desc sql_order.length_order_by_desc)

lemma wanted_part: "mset xs \<subseteq># mset ys \<Longrightarrow> mset (wanted ty t (map f xs)) \<subseteq># mset (wanted ty t (map f ys))"
  by (simp add: wanted_def image_mset_subseteq_mono)

lemma wanted_all:
  assumes "sql_order (sql_ord w)" "0 \<le> l" "length (wanted ty t (map f (tbl_select P tb))) \<le> nat l"
  shows "mset (wanted ty t (map f (newest w l g P tb))) = mset (wanted ty t (map f (tbl_select P tb)))"
proof (cases "ty = None \<or> ty = Some t")
  case True
  then have "length (tbl_select P tb) \<le> nat l" using assms(3) by (simp add: wanted_def)
  from newest_all [OF assms(1,2) this] True show ?thesis by (simp add: wanted_def)
qed (auto simp: wanted_def)

lemma found_part:
  assumes "sql_order (sql_ord w)" "0 \<le> l"
  shows "mset (found_results w l q ty wsid s) \<subseteq># mset (all_matches q ty wsid s)"
  unfolding found_results_def all_matches_def mset_append
  by (intro subset_mset.add_mono wanted_part newest_part assms)

lemma found_all:
  assumes "sql_order (sql_ord w)" "0 \<le> l" "length (all_matches q ty wsid s) \<le> nat l"
  shows "mset (found_results w l q ty wsid s) = mset (all_matches q ty wsid s)"
  unfolding found_results_def all_matches_def mset_append
  by (intro arg_cong2 [where f = "(+)"] wanted_all assms(1,2))
    (use assms(3) in \<open>simp_all add: all_matches_def\<close>)

text \<open>\<open>ranked\<close> puts the more relevant first and, among equals, the newer.\<close>

definition ranked_before :: "search_result \<Rightarrow> search_result \<Rightarrow> bool" where
  "ranked_before a b \<longleftrightarrow> sr_relevance b < sr_relevance a \<or> (sr_relevance a = sr_relevance b \<and> sr_created_at b \<le> sr_created_at a)"

lemma stable_insort:
  assumes "sorted_wrt (\<lambda>a b. f a < f b \<or> f a = f b \<and> R a b) zs" "\<forall>y \<in> set zs. R x y"
  shows "sorted_wrt (\<lambda>a b. f a < (f b :: int) \<or> f a = f b \<and> R a b) (insort_key f x zs)"
  using assms by (induction zs) (auto simp: set_insort_key)

lemma stable_sort:
  "sorted_wrt R xs \<Longrightarrow> sorted_wrt (\<lambda>a b. f a < (f b :: int) \<or> f a = f b \<and> R a b) (sort_key f xs)"
  by (induction xs) (auto simp: sort_key_def intro!: stable_insort simp flip: sort_key_def)

lemma ranked_sorted: "sorted_wrt ranked_before (ranked rs)"
proof -
  have "sorted_wrt (\<lambda>a b. sr_created_at b \<le> sr_created_at a) (sort_key (\<lambda>r. - sr_created_at r) rs)"
    using sorted_sort_key [of "\<lambda>r. - sr_created_at r" rs] by (simp add: sorted_map)
  from stable_sort [OF this, of "\<lambda>r. - sr_relevance r"] show ?thesis
    by (simp add: ranked_def ranked_before_def [abs_def])
qed

lemma mset_ranked [simp]: "mset (ranked rs) = mset rs"
  by (simp add: ranked_def)

section \<open>What a search is to find\<close>

text \<open>
  The columns of a row contain the text that is looked for, in either case. \<open>search_hits\<close> lists type, id, title and time of what
  a search for \<open>q\<close> is to find, from the columns of the tables alone.
\<close>

definition contains_text :: "string \<Rightarrow> string option list \<Rightarrow> bool" where
  "contains_text q columns \<longleftrightarrow> list_ex (\<lambda>c. case c of None \<Rightarrow> False | Some v \<Rightarrow> includes_str (to_lower q) (to_lower v)) columns"

definition search_hits :: "string \<Rightarrow> string option \<Rightarrow> int \<Rightarrow> server \<Rightarrow> (string \<times> int \<times> string \<times> int) list" where
  "search_hits q ty wsid s = filter (\<lambda>h. ty = None \<or> ty = Some (fst h))
     (map (\<lambda>t. (''task'', t_id t, t_title t, t_created_at t))
        (filter (\<lambda>t. t_workspace_id t = wsid \<and> contains_text q [Some (t_title t), t_description t, t_assigned_to t]) (rows (tasks (db s)))) @
      map (\<lambda>g. (''agent'', g_id g, g_name g, g_created_at g))
        (filter (\<lambda>g. g_workspace_id g = wsid \<and> contains_text q [Some (g_name g), Some (g_role g), g_last_activity g]) (rows (agents (db s)))) @
      map (\<lambda>a. (''activity'', a_id a, a_description a, a_created_at a))
        (filter (\<lambda>a. a_workspace_id a = wsid \<and> contains_text q [Some (a_description a), Some (a_actor a)]) (rows (activities (db s)))) @
      map (\<lambda>a. (''audit'', au_id a, au_action a, au_created_at a))
        (filter (\<lambda>a. contains_text q [Some (au_action a), Some (au_actor a), map_option stringify (au_detail a)]) (rows (audit_log (db s)))) @
      map (\<lambda>m. (''message'', mg_id m, mg_from_agent m @ right_arrow @ or_else (mg_to_agent m) ''all'', mg_created_at m))
        (filter (\<lambda>m. contains_text q [Some (mg_content m), Some (mg_from_agent m)]) (rows (messages (db s)))) @
      map (\<lambda>h. (''webhook'', w_id h, w_name h, w_created_at h))
        (filter (\<lambda>h. contains_text q [Some (w_name h), Some (w_url h)]) (rows (webhooks (db s)))) @
      map (\<lambda>p. (''pipeline'', p_id p, p_name p, p_created_at p))
        (filter (\<lambda>p. contains_text q [Some (p_name p), p_description p]) (rows (workflow_pipelines (db s)))))"

definition hit_of :: "search_result \<Rightarrow> string \<times> int \<times> string \<times> int" where
  "hit_of r = (sr_type r, sr_id r, sr_title r, sr_created_at r)"

text \<open>A pattern without wildcards between two \<open>%\<close> matches what contains it.\<close>

lemma sql_like_any: "sql_like ''%'' v"
  by (induction v) simp_all

lemma sql_like_prefix:
  "CHR ''%'' \<notin> set q \<Longrightarrow> CHR ''_'' \<notin> set q \<Longrightarrow> sql_like (q @ ''%'') v \<longleftrightarrow> starts_with (to_lower q) (to_lower v)"
proof (induction q arbitrary: v)
  case Nil
  then show ?case by (simp add: sql_like_any starts_with_def to_lower_def)
next
  case (Cons p q)
  then show ?case by (cases v) (auto simp: starts_with_def to_lower_def)
qed

lemma ex_le_Suc: "(\<exists>k \<le> Suc n. P k) \<longleftrightarrow> P 0 \<or> (\<exists>k \<le> n. P (Suc k))"
proof -
  have "{..Suc n} = insert 0 (Suc ` {..n})" by (rule atMost_Suc_eq_insert_0)
  then have "(\<exists>k \<in> {..Suc n}. P k) \<longleftrightarrow> P 0 \<or> (\<exists>k \<in> {..n}. P (Suc k))" by simp
  then show ?thesis by (simp add: Bex_def)
qed

lemma sql_like_within: "sql_like (CHR ''%'' # p) v \<longleftrightarrow> (\<exists>k \<le> length v. sql_like p (drop k v))"
proof (induction v)
  case Nil
  then show ?case by simp
next
  case (Cons c v)
  have "(\<exists>k \<le> length (c # v). sql_like p (drop k (c # v))) \<longleftrightarrow> sql_like p (c # v) \<or> (\<exists>k \<le> length v. sql_like p (drop k v))"
    using ex_le_Suc [of "length v" "\<lambda>k. sql_like p (drop k (c # v))"] by simp
  then show ?case using Cons.IH by simp
qed

lemma like_query_contains:
  assumes "CHR ''%'' \<notin> set q" "CHR ''_'' \<notin> set q"
  shows "like_query q x \<longleftrightarrow> (case x of None \<Rightarrow> False | Some v \<Rightarrow> includes_str (to_lower q) (to_lower v))"
proof (cases x)
  case None
  then show ?thesis by (simp add: like_query_def)
next
  case (Some v)
  have "includes_str (to_lower q) (to_lower v) \<longleftrightarrow> (\<exists>k \<le> length v. starts_with (to_lower q) (to_lower (drop k v)))"
    by (auto simp: includes_str_def list_ex_iff less_Suc_eq_le to_lower_parts simp del: upt_Suc)
  then show ?thesis using Some by (simp add: like_query_def sql_like_within sql_like_prefix [OF assms])
qed

lemma like_contains:
  assumes "CHR ''%'' \<notin> set q" "CHR ''_'' \<notin> set q"
  shows "task_like q wsid = (\<lambda>t. t_workspace_id t = wsid \<and> contains_text q [Some (t_title t), t_description t, t_assigned_to t])"
    "agent_like q wsid = (\<lambda>g. g_workspace_id g = wsid \<and> contains_text q [Some (g_name g), Some (g_role g), g_last_activity g])"
    "activity_like q wsid = (\<lambda>a. a_workspace_id a = wsid \<and> contains_text q [Some (a_description a), Some (a_actor a)])"
    "audit_like q = (\<lambda>a. contains_text q [Some (au_action a), Some (au_actor a), map_option stringify (au_detail a)])"
    "message_like q = (\<lambda>m. contains_text q [Some (mg_content m), Some (mg_from_agent m)])"
    "webhook_like q = (\<lambda>h. contains_text q [Some (w_name h), Some (w_url h)])"
    "pipeline_like q = (\<lambda>p. contains_text q [Some (p_name p), p_description p])"
  by (simp_all add: fun_eq_iff contains_text_def like_query_contains [OF assms] task_like_def agent_like_def activity_like_def
      audit_like_def message_like_def webhook_like_def pipeline_like_def)

lemma hits_of_results:
  "hit_of (task_result q t) = (''task'', t_id t, t_title t, t_created_at t)"
  "hit_of (agent_result q g) = (''agent'', g_id g, g_name g, g_created_at g)"
  "hit_of (activity_result a) = (''activity'', a_id a, a_description a, a_created_at a)"
  "hit_of (audit_result q au) = (''audit'', au_id au, au_action au, au_created_at au)"
  "hit_of (message_result q m) = (''message'', mg_id m, mg_from_agent m @ right_arrow @ or_else (mg_to_agent m) ''all'', mg_created_at m)"
  "hit_of (webhook_result q h) = (''webhook'', w_id h, w_name h, w_created_at h)"
  "hit_of (pipeline_result q p) = (''pipeline'', p_id p, p_name p, p_created_at p)"
  by (simp_all add: hit_of_def task_result_def agent_result_def activity_result_def audit_result_def message_result_def
      webhook_result_def pipeline_result_def)

lemma wanted_hits:
  assumes "\<And>x. hit_of (f x) = g x" "\<And>x. fst (g x) = t"
  shows "map hit_of (wanted ty t (map f xs)) = filter (\<lambda>h. ty = None \<or> ty = Some (fst h)) (map g xs)"
  using assms by (auto simp: wanted_def filter_map o_def)

lemma matches_hits:
  assumes "CHR ''%'' \<notin> set q" "CHR ''_'' \<notin> set q"
  shows "map hit_of (all_matches q ty wsid s) = search_hits q ty wsid s"
  unfolding all_matches_def search_hits_def map_append filter_append tbl_select_def like_contains [OF assms]
  by (intro arg_cong2 [where f = "(@)"] wanted_hits) (simp_all add: hits_of_results)

text \<open>Without that, the query is a pattern: a search for \<open>a_c\<close> shows what does not contain it.\<close>

lemma wildcard_query_matches: "like_query ''a_c'' (Some ''abc'')" "\<not> includes_str ''a_c'' ''abc''"
  by code_simp+

text \<open>What names the query ranks first.\<close>

lemma match_relevance:
  assumes "r \<in> set (all_matches q ty wsid s)"
  shows "sr_relevance r = (if sr_type r \<in> {''task'', ''agent'', ''webhook'', ''pipeline''} \<and>
    includes_str (to_lower q) (to_lower (sr_title r)) then 2 else 1)"
  using assms
  by (auto simp: all_matches_def wanted_def name_relevance_def agent_result_def task_result_def activity_result_def audit_result_def
      message_result_def webhook_result_def pipeline_result_def split: if_splits)

section \<open>Properties\<close>

text \<open>
  An excerpt shows what was searched for: whatever the text, the excerpt is at most 126 characters longer than the query, and
  when the text contains the query (in either case) the excerpt contains it too.
\<close>

theorem excerpt_shows_match:
  assumes "truncateMatch (Some x) q = Some e"
  shows "length e \<le> length q + 126 \<and> (includes_str (to_lower q) (to_lower x) \<longrightarrow> includes_str (to_lower q) (to_lower e))"
proof (cases "index_of (to_lower q) (to_lower x)")
  case None
  then have "e = take 120 x @ dots (120 < length x)"
    using assms by (auto simp: truncateMatch_def or_null_def split: if_splits)
  then have "length e \<le> length q + 126" by (simp add: dots_def)
  then show ?thesis using index_of_none [OF None] by simp
next
  case (Some k)
  let ?part = "drop (k - 40) (take (min (length x) (k + length q + 80)) x)"
  have e: "e = dots (0 < k - 40) @ ?part @ dots (min (length x) (k + length q + 80) < length x)"
    using assms Some by (auto simp: truncateMatch_def or_null_def Let_def split: if_splits)
  have "length e \<le> length q + 126" using index_of_bound [OF Some] unfolding e by (simp add: dots_def) linarith
  moreover have "includes_str (to_lower q) (to_lower e)"
    unfolding e to_lower_parts(1) by (rule includes_more [OF excerpt_found [OF Some]])
  ultimately show ?thesis by simp
qed

theorem excerpt_shows_match_witness:
  "truncateMatch (Some (replicate 60 CHR ''x'' @ ''bugs'')) ''BUG'' = Some (''...'' @ replicate 40 CHR ''x'' @ ''bugs'') \<and>
   includes_str ''bug'' (to_lower (''...'' @ replicate 40 CHR ''x'' @ ''bugs''))"
proof -
  have 1: "truncateMatch (Some (replicate 60 CHR ''x'' @ ''bugs'')) ''BUG'' = Some (''...'' @ replicate 40 CHR ''x'' @ ''bugs'')"
    by code_simp
  have 2: "includes_str (to_lower ''BUG'') (to_lower (replicate 60 CHR ''x'' @ ''bugs''))" by code_simp
  have 3: "to_lower ''BUG'' = ''bug''" by code_simp
  from excerpt_shows_match [OF 1] 1 2 show ?thesis unfolding 3 by blast
qed

text \<open>
  C40. With a positive limit, a search for a text without the wildcards \<open>%\<close> and \<open>_\<close>, in a database that orders as SQL says, shows
  only rows of the asked type (or of every type) one of whose searched columns contains the text in either case, none
  twice, tasks, agents and activities of the caller's workspace only, and not more than asked for. Those with the text in the title
  or name of a task, agent, webhook or pipeline come first, and then the newer. When such rows are not more than the
  limit, it shows all of them and counts them right.
\<close>

theorem search_finds_all:
  assumes "sql_order (sql_ord w)" "0 < l" "CHR ''%'' \<notin> set q" "CHR ''_'' \<notin> set q"
    "search_results w (Some l) q ty wsid s = (n, rs)"
  shows "mset (map hit_of rs) \<subseteq># mset (search_hits q ty wsid s) \<and> length rs \<le> nat l \<and>
    sorted_wrt ranked_before rs \<and>
    (\<forall>r \<in> set rs. sr_relevance r = (if sr_type r \<in> {''task'', ''agent'', ''webhook'', ''pipeline''} \<and>
       includes_str (to_lower q) (to_lower (sr_title r)) then 2 else 1)) \<and>
    (length (search_hits q ty wsid s) \<le> nat l \<longrightarrow>
       mset (map hit_of rs) = mset (search_hits q ty wsid s) \<and> n = length (search_hits q ty wsid s))"
proof -
  let ?found = "found_results w l q ty wsid s" and ?all = "all_matches q ty wsid s"
  have l: "0 \<le> l" using assms(2) by simp
  have hits: "search_hits q ty wsid s = map hit_of ?all" using matches_hits [OF assms(3,4)] by simp
  have rs: "rs = take (nat l) (ranked ?found)" "n = length (ranked ?found)"
    using assms(2,5) by (auto simp: search_results_def slice_to_def Let_def)
  have sub: "mset rs \<subseteq># mset ?all"
    using subset_mset.order_trans [OF mset_take_le [of "nat l" "ranked ?found"]] found_part [OF assms(1) l] by (simp add: rs)
  have sorted: "sorted_wrt ranked_before rs"
    unfolding rs(1) by (rule sorted_wrt_take [OF ranked_sorted])
  have own: "r \<in> set ?all" if "r \<in> set rs" for r
    using mset_subset_eqD [OF sub] that by simp
  have all: "mset rs = mset ?all \<and> n = length ?all" if le: "length ?all \<le> nat l"
  proof -
    have eq: "mset (ranked ?found) = mset ?all" using found_all [OF assms(1) l le] by simp
    then have "length (ranked ?found) = length ?all" by (rule mset_eq_length)
    with eq le show ?thesis by (simp add: rs)
  qed
  have part: "mset (map hit_of rs) \<subseteq># mset (map hit_of ?all)" using image_mset_subseteq_mono [OF sub] by simp
  have "length rs \<le> nat l" by (simp add: rs(1))
  with part sorted match_relevance [OF own] all show ?thesis unfolding hits by simp
qed

theorem search_finds_all_witness:
  "\<exists>n rs. search_results demo_world (Some 30) ''A,'' None 1 demo_board = (n, rs) \<and> n = 1 \<and>
     map hit_of rs = [(''task'', 1, t_title demo_exported, 1)]"
proof -
  have o: "sql_order (sql_ord demo_world)" by (simp add: demo_world_def scan.sql_order_axioms)
  have "contains_text ''A,'' [Some (t_title demo_exported), t_description demo_exported, t_assigned_to demo_exported]" by code_simp
  then have hits: "search_hits ''A,'' None 1 demo_board = [(''task'', 1, t_title demo_exported, 1)]"
    by (simp add: search_hits_def demo_board_def init_server_def empty_db_def tbl_empty_def) (simp add: demo_exported_def)
  obtain n rs where r: "search_results demo_world (Some 30) ''A,'' None 1 demo_board = (n, rs)" by fastforce
  have "mset (map hit_of rs) = {#(''task'', 1, t_title demo_exported, 1)#} \<and> n = 1"
    using search_finds_all [OF o _ _ _ r] hits by simp
  with r show ?thesis by (metis mset_single_iff)
qed

end
