(* ===== verification/MC_Backup.thy ===== *)
theory MC_Backup
  imports MC_Scheduler
begin

text \<open>
  Backups by hand (\<open>src/app/api/backup/route.ts\<close>), on the directory that the scheduled backup uses too, and the check for a
  new release (\<open>src/app/api/releases/check/route.ts\<close>). The sizes of the files, SQLite's backup, the answer of GitHub and
  the version of the application are arguments. The directory holds plain files, and it can be made.
\<close>

section \<open>Backups\<close>

definition MAX_BACKUPS :: int where
  "MAX_BACKUPS = 10"

text \<open>\<open>bytes_of\<close> is the size of a file. Times are floored to seconds before they are compared.\<close>

definition backup_json :: "(string \<Rightarrow> int) \<Rightarrow> string \<times> int \<Rightarrow> json" where
  "backup_json bytes_of f = JObj [(''name'', JStr (fst f)), (''size'', JNum (bytes_of (fst f))), (''created_at'', JNum (snd f div 1000))]"

definition backup_GET :: "(string \<Rightarrow> int) \<Rightarrow> string \<Rightarrow> world \<Rightarrow> request \<Rightarrow> maint \<Rightarrow> maint_outcome" where
  "backup_GET bytes_of dir w req m = with_admin w req m (\<lambda>u.
     (Inr (json_response 200 (JObj [
        (''backups'', JArr (map (backup_json bytes_of)
           (sort_key (\<lambda>f. - (snd f div 1000)) (filter (\<lambda>f. ends_with ''.db'' (fst f)) (backup_dir m))))),
        (''dir'', JStr dir)])), m))"

definition backup_name :: "world \<Rightarrow> string" where
  "backup_name w = ''mc-backup-'' @ backup_stamp (now_ms w) @ ''.db''"

definition backup_audit :: "world \<Rightarrow> request \<Rightarrow> user \<Rightarrow> string \<Rightarrow> json \<Rightarrow> maint \<Rightarrow> maint" where
  "backup_audit w req u action detail = upd_server (logAuditEvent w ((audit_event0 action (usr_username u))
     \<lparr>ae_actor_id := Some (usr_id u), ae_detail := Some detail, ae_ip_address := Some (client_ip req)\<rparr>))"

definition pruneOldBackups :: "maint \<Rightarrow> maint" where
  "pruneOldBackups m = m\<lparr>backup_dir := prune_backups MAX_BACKUPS (backup_dir m)\<rparr>"

text \<open>\<open>backup\<close> is SQLite's backup: an error or the size of the file.\<close>

definition create_backup :: "(string \<Rightarrow> string + int) \<Rightarrow> string \<Rightarrow> world \<Rightarrow> request \<Rightarrow> user \<Rightarrow> maint \<Rightarrow> maint_outcome" where
  "create_backup backup dir w req u m =
     (let name = backup_name w; path = dir @ ''/'' @ name in
      case backup path of
        Inl e \<Rightarrow> (Inr (error_response 500 (''Backup failed: '' @ e)), m)
      | Inr bytes \<Rightarrow>
          (let m1 = m\<lparr>backup_dir := filter (\<lambda>f. fst f \<noteq> name) (backup_dir m) @ [(name, now_ms w)]\<rparr>
           in (Inr (json_response 200 (JObj [(''success'', JBool True),
                 (''backup'', JObj [(''name'', JStr name), (''size'', JNum bytes), (''created_at'', JNum (now_ms w div 1000))])])),
               pruneOldBackups (backup_audit w req u ''backup_create'' (JObj [(''path'', JStr path), (''size'', JNum bytes)]) m1))))"

definition backup_POST :: "(string \<Rightarrow> string + int) \<Rightarrow> string \<Rightarrow> world \<Rightarrow> request \<Rightarrow> maint \<Rightarrow> maint_outcome" where
  "backup_POST backup dir w req m = with_admin w req m (\<lambda>u. with_heavy_limit w req m (create_backup backup dir w req u))"

definition bad_backup_name :: "string \<Rightarrow> bool" where
  "bad_backup_name name \<longleftrightarrow> \<not> ends_with ''.db'' name \<or> includes_str ''/'' name \<or> includes_str ''..'' name"

definition delete_backup :: "world \<Rightarrow> request \<Rightarrow> user \<Rightarrow> maint \<Rightarrow> maint_outcome" where
  "delete_backup w req u m =
     (case req_body req of
        None \<Rightarrow> (Inr (error_response 400 ''Request body required''), m)
      | Some JNull \<Rightarrow> (Inl ''Cannot read properties of null'', m)
      | Some body \<Rightarrow>
          (case truthy_prop ''name'' body of
             None \<Rightarrow> (Inr (error_response 400 ''Invalid backup name''), m)
           | Some (JStr name) \<Rightarrow>
               if bad_backup_name name then (Inr (error_response 400 ''Invalid backup name''), m)
               else if name \<notin> fst ` set (backup_dir m) then (Inr (error_response 404 ''Backup not found''), m)
               else (Inr (json_response 200 (JObj [(''success'', JBool True)])),
                     backup_audit w req u ''backup_delete'' (JObj [(''name'', JStr name)])
                       (m\<lparr>backup_dir := filter (\<lambda>f. fst f \<noteq> name) (backup_dir m)\<rparr>))
           | Some _ \<Rightarrow> (Inl ''name.endsWith is not a function'', m)))"

definition backup_DELETE :: "world \<Rightarrow> request \<Rightarrow> maint \<Rightarrow> maint_outcome" where
  "backup_DELETE w req m = with_admin w req m (\<lambda>u. delete_backup w req u m)"

lemma backup_audit_dir [simp]: "backup_dir (backup_audit w req u action detail m) = backup_dir m"
  by (simp add: backup_audit_def)

text \<open>A backup by hand leaves at most ten, whatever the settings of the scheduled backup say.\<close>

lemma created_backup_bound:
  assumes "create_backup backup dir w req u m = (Inr r, m')" "resp_status r = 200"
  shows "length (filter is_backup (backup_dir m')) \<le> 10"
  using assms prune_backups_bound [of 10]
  by (auto simp: create_backup_def Let_def pruneOldBackups_def MAX_BACKUPS_def split: sum.splits)

text \<open>A deletion removes at most the named file, and that is a file of the directory itself.\<close>

lemma deleted_backup_only:
  assumes "delete_backup w req u m = (r, m')" "backup_dir m' \<noteq> backup_dir m"
  obtains name where "backup_dir m' = filter (\<lambda>f. fst f \<noteq> name) (backup_dir m)" "\<not> includes_str ''/'' name" "ends_with ''.db'' name"
  using assms
  by (auto simp: delete_backup_def bad_backup_name_def split: option.splits json.splits if_splits)

section \<open>Releases\<close>

definition strip_v :: "string \<Rightarrow> string" where
  "strip_v x = (case x of [] \<Rightarrow> [] | c # cs \<Rightarrow> if c = CHR ''v'' then cs else x)"

text \<open>A part that is not a number (\<open>None\<close>) is neither greater nor less.\<close>

definition semver_step :: "int option \<Rightarrow> int option \<Rightarrow> int \<Rightarrow> int" where
  "semver_step a b rest = (case (a, b) of
     (Some x, Some y) \<Rightarrow> if y < x then 1 else if x < y then -1 else rest
   | _ \<Rightarrow> rest)"

fun semver_loop :: "int option list \<Rightarrow> int option list \<Rightarrow> int" where
  "semver_loop [] [] = 0"
| "semver_loop (a # as) [] = semver_step a (Some 0) (semver_loop as [])"
| "semver_loop [] (b # bs) = semver_step (Some 0) b (semver_loop [] bs)"
| "semver_loop (a # as) (b # bs) = semver_step a b (semver_loop as bs)"

definition version_parts :: "string \<Rightarrow> int option list" where
  "version_parts x = map js_number (split_on CHR ''.'' (strip_v x))"

definition compareSemver :: "string \<Rightarrow> string \<Rightarrow> int" where
  "compareSemver a b = semver_loop (version_parts a) (version_parts b)"

definition no_update :: "string \<Rightarrow> response" where
  "no_update app_version = json_response 200 (JObj [(''updateAvailable'', JBool False), (''currentVersion'', JStr app_version)])"

definition given_prop :: "string \<Rightarrow> json \<Rightarrow> json" where
  "given_prop k v = (case jget k v of None \<Rightarrow> JStr [] | Some JNull \<Rightarrow> JStr [] | Some x \<Rightarrow> x)"

text \<open>\<open>release\<close> is the answer: nothing when the request fails or its body does not parse, or whether it is a success and the body.\<close>

definition releases_GET :: "string \<Rightarrow> (bool \<times> json) option \<Rightarrow> response" where
  "releases_GET app_version release = (case release of
     None \<Rightarrow> no_update app_version
   | Some (False, body) \<Rightarrow> no_update app_version
   | Some (True, body) \<Rightarrow>
       (case (body, given_prop ''tag_name'' body) of
          (JNull, _) \<Rightarrow> no_update app_version
        | (_, JStr tag) \<Rightarrow>
            json_response 200 (JObj [(''updateAvailable'', JBool (0 < compareSemver (strip_v tag) app_version)),
              (''currentVersion'', JStr app_version), (''latestVersion'', JStr (strip_v tag)),
              (''releaseUrl'', given_prop ''html_url'' body), (''releaseNotes'', given_prop ''body'' body)])
        | _ \<Rightarrow> no_update app_version))"

lemma semver_step_swap: "semver_step b a (- r) = - semver_step a b r"
  by (auto simp: semver_step_def split: option.splits)

lemma semver_loop_swap: "semver_loop bs as = - semver_loop as bs"
  by (induction as bs rule: semver_loop.induct) (simp_all add: semver_step_swap)

text \<open>Swapping the versions negates the comparison, and of two versions with numeric parts it is the order of the parts.\<close>

lemma compareSemver_swap: "compareSemver b a = - compareSemver a b"
  unfolding compareSemver_def by (rule semver_loop_swap)

lemma semver_loop_order:
  "length xs = length ys \<Longrightarrow> semver_loop (map Some xs) (map Some ys) = (if xs = ys then 0 else if (ys, xs) \<in> lexord {(a, b). a < b} then 1 else -1)"
  by (induction xs ys rule: list_induct2) (auto simp: semver_step_def)

lemma app_version_no_update: "0 < compareSemver (strip_v tag) v \<Longrightarrow> \<not> 0 < compareSemver v (strip_v tag)"
  using compareSemver_swap [of "strip_v tag" v] by simp

end
