(* ===== verification/Spec2Isabelle.thy ===== *)
theory Spec2Isabelle
  imports MC_Pipelines MC_Provisioning MC_Proxy MC_AuthRoutes MC_Scheduler MC_Alerts MC_Notifications MC_Connections
    MC_Settings MC_Workflows MC_Standup MC_Integrations MC_Gateways MC_GitHub
    MC_GatewayConfig MC_Cron MC_Memory MC_WebSocket MC_Search MC_Backup
begin

text \<open>
  \<^bold>\<open>Mission Control\<close>: the server of a dashboard for operating software agents. The program is a Next.js
  application in TypeScript: request handlers under \<open>src/src/app/api\<close>, the libraries they call under
  \<open>src/src/lib\<close>, a SQLite database that all of them share, and a store in the browser (\<open>src/src/store\<close>). This
  development models the server side (who may do what, and what each operation does to the database) and the
  state that the browser keeps of it.

  \<^bold>\<open>How the parts interact.\<close> A request first passes the proxy (\<open>src/src/proxy.ts\<close>: host, origin, presence of
  a credential). Its handler then calls \<open>requireRole\<close> (\<open>lib/auth.ts\<close>), usually a rate limiter
  (\<open>lib/rate-limit.ts\<close>) and a validation schema, and changes the database. The helpers of \<open>lib/db.ts\<close>
  also put an event on the server's bus (\<open>lib/event-bus.ts\<close>); the webhook listener turns events into deliveries, and a stream
  (\<open>api/events\<close>) carries them to the browsers, which apply them to their stores.
  A timer (\<open>lib/scheduler.ts\<close>) runs the clean-up, the heartbeat check and the webhook retries.

  \<^bold>\<open>Theories.\<close>
  \<^item> \<open>MC_Prelude\<close>: JSON values, the string and number functions of JavaScript that the code uses, tables with
    AUTOINCREMENT ids, \<open>ORDER BY\<close>, and the locales \<open>row_store\<close> (reading a table by id), \<open>sql_order\<close> (what SQL
    promises of an order) and \<open>invariant_system\<close> (state machines).
  \<^item> \<open>MC_Db\<close>: \<open>lib/db.ts\<close>, \<open>lib/event-bus.ts\<close>. The rows as records, the database, the bus, the state
    \<open>server\<close>, the helpers (\<open>logActivity\<close>, \<open>createNotification\<close>, \<open>logAuditEvent\<close>, ...) and which tables each leaves alone.
  \<^item> \<open>MC_Auth\<close>: \<open>lib/auth.ts\<close>, \<open>lib/password.ts\<close>, \<open>lib/session-cookie.ts\<close>. Passwords, sessions, cookies,
    the API key and the role check: a verified password is one that was hashed, a session authenticates until it
    expires or is destroyed, a role is granted only to a live session or the configured key. The locale
    \<open>role_guarded\<close> is the contract of a protected route.
  \<^item> \<open>MC_RateLimit\<close>: \<open>lib/rate-limit.ts\<close>. How many requests a window admits, which address is counted, and
    that the periodic clean-up is invisible.
  \<^item> \<open>MC_Http\<close>: the opening of the routes, body validation (\<open>lib/validation.ts\<close>), transactions, and the
    locale \<open>workspace_scoped\<close> (a caller of another workspace changes nothing that a workspace sees).
  \<^item> \<open>MC_Tasks\<close>: \<open>api/tasks\<close>, \<open>api/tasks/[id]\<close>, \<open>api/quality-review\<close>. The Aegis gate as an invariant of all
    reachable states, atomic bulk updates, isolation of workspaces, deletion.
  \<^item> \<open>MC_Pipelines\<close>: \<open>api/pipelines\<close>, \<open>api/pipelines/run\<close>. A run refines an abstract step machine; its
    shape is invariant; ended runs stay ended under every interleaving at the \<open>await\<close>; advances complete a run.
  \<^item> \<open>MC_Provisioning\<close>: \<open>lib/super-admin.ts\<close>, \<open>api/super\<close>. Plans, the life cycle of jobs, the two-person
    rule, dry runs, and the confinement of tenants.
  \<^item> \<open>MC_Webhooks\<close>: \<open>lib/webhooks.ts\<close>, \<open>api/webhooks\<close>. Signatures, subscriptions, retries with backoff, the
    circuit breaker and the bounded delivery log, under every interleaving of deliveries.
  \<^item> \<open>MC_Proxy\<close>: \<open>proxy.ts\<close>. Which requests get past the gate and how the others are answered.
  \<^item> \<open>MC_AuthRoutes\<close>: \<open>api/auth\<close>, \<open>lib/google-auth.ts\<close>. Login, profile, users and access requests.
  \<^item> \<open>MC_Scheduler\<close>: \<open>lib/scheduler.ts\<close>, \<open>api/scheduler\<close>, \<open>api/cleanup\<close>, the retention part of
    \<open>lib/config.ts\<close>. Clean-up and preview agree, the heartbeat check is exact, overlapping ticks never run a task twice.
  \<^item> \<open>MC_Comments\<close>: \<open>api/tasks/[id]/comments\<close>, \<open>api/tasks/[id]/broadcast\<close>. The threads that are built with
    shared, mutated objects hold every comment exactly once; a comment reaches everybody it concerns.
  \<^item> \<open>MC_Notifications\<close>: \<open>api/notifications\<close>, \<open>api/notifications/deliver\<close>. What a delivery run marks.
  \<^item> \<open>MC_Alerts\<close>: \<open>api/alerts\<close>. Conditions, and that an evaluation triggers exactly the due rules, once per cooldown.
  \<^item> \<open>MC_Platform\<close>: what the code uses of Node's \<open>path\<close> and of \<open>Date\<close>, and \<open>lib/paths.ts\<close>: a path
    that \<open>resolveWithin\<close> accepts stays inside its base.
  \<^item> \<open>MC_AgentSync\<close>: \<open>lib/agent-sync.ts\<close>, \<open>api/agents/sync\<close>. Agents are read from and written back to
    the gateway's configuration file: the preview tells what a synchronisation does, both directions are idempotent.
  \<^item> \<open>MC_AgentTemplates\<close>: \<open>lib/agent-templates.ts\<close>. The templates, the declared types as predicates, and
    that what is built from a template has its type.
  \<^item> \<open>MC_Agents\<close>: \<open>api/agents\<close>, \<open>api/agents/[id]\<close>, \<open>wake\<close>, \<open>message\<close>. The routes that keep the agents.
  \<^item> \<open>MC_AgentWork\<close>: \<open>heartbeat\<close>, \<open>memory\<close> and \<open>soul\<close> of an agent: the work it is shown, its memory, and the
    files it may touch.
  \<^item> \<open>MC_Connections\<close>: \<open>api/connect\<close>. At most one live connection per agent, in all states that the routes
    for agents and connections reach.
  \<^item> \<open>MC_Settings\<close>: \<open>api/settings\<close>. The listing shows what is stored and what the scheduler obeys.
  \<^item> \<open>MC_Workflows\<close>: \<open>api/workflows\<close>. The templates of the pipelines, and what becomes of a pipeline without its template.
  \<^item> \<open>MC_Chat\<close>: \<open>api/chat/messages\<close>, \<open>api/chat/conversations\<close>, \<open>lib/command.ts\<close>. A message in a coordinator conversation is
    answered unless a command of the gateway never ends; the counters of unread messages are exact.
  \<^item> \<open>MC_Queries\<close>: \<open>api/activities\<close>, \<open>api/audit\<close>, \<open>api/agents/comms\<close>. Paging reads every activity once.
  \<^item> \<open>MC_Standup\<close>: \<open>api/standup\<close>. The totals of a report, and where it is kept.
  \<^item> \<open>MC_Integrations\<close>: \<open>api/integrations\<close>. The environment file that holds the credentials: what is stored is read
    back, and a line break in a value that defines a variable of its own.
  \<^item> \<open>MC_Gateways\<close>: \<open>api/gateways\<close>, \<open>api/gateways/health\<close>. At most one primary gateway, and how a refused change
    leaves none.
  \<^item> \<open>MC_GitHub\<close>: \<open>api/github\<close>, \<open>lib/github.ts\<close>. A synchronisation imports every issue once; tasks of closed
    issues are done without a review.
  \<^item> \<open>MC_GatewayConfig\<close>: \<open>api/gateway-config\<close>. What the list of protected paths keeps and what it lets pass, and
    what the masking hides.
  \<^item> \<open>MC_Cron\<close>: \<open>api/cron\<close>. The jobs file: the list shows the newest job of each name, and a job that is added is there
    once.
  \<^item> \<open>MC_Memory\<close>: \<open>api/memory\<close>. A model of a file system with symbolic links; changes stay below the memory directory,
    and what is saved is read back.
  \<^item> \<open>MC_Export\<close>: \<open>api/export\<close>. The CSV writer against a reader of RFC 4180.
  \<^item> \<open>MC_Backup\<close>: \<open>api/backup\<close>, \<open>api/releases/check\<close>. Backups by hand in the directory of the
    scheduled ones, and the comparison of versions.
  \<^item> \<open>MC_Search\<close>: \<open>api/search\<close>. What a search finds, ranks and shows.
  \<^item> \<open>MC_Store\<close>: \<open>store/index.ts\<close>, \<open>lib/models.ts\<close>. Every action of the store in the browser; its bounds, and that
    the layout survives a reload.
  \<^item> \<open>MC_Client\<close>: \<open>api/events\<close>, \<open>lib/use-server-events.ts\<close>, \<open>lib/use-smart-poll.ts\<close>. The board in the browser is
    a simulation of the table of tasks along the events of the bus; reconnecting ends.
  \<^item> \<open>MC_WebSocket\<close>: \<open>lib/websocket.ts\<close>. The connection of the browser to the gateway as a state machine of its refs,
    timers and frames: a silent gateway is dropped, and a disconnection by hand is final.

  \<^bold>\<open>Conventions.\<close>
  \<^item> A handler is a function from the world (environment, clock, order of equal sort keys), the request and the
    state to a result and a new state. The result is \<open>Inr\<close> of a response, or \<open>Inl\<close> of the message of an exception that
    leaves the handler. One handler reads the clock once.
  \<^item> Code that waits for something outside is split at its \<open>await\<close> where other requests can overtake it
    (pipeline runs, webhook deliveries, ticks); the theorems then quantify over all interleavings.
  \<^item> Strings are their UTF-8 bytes, numbers are unbounded integers; ids and times are far below the range where
    JavaScript numbers lose precision. A JSON column holds the JSON value.
  \<^item> Outside code is an argument: \<open>zod\<close> schemas, \<open>fetch\<close>, HMAC, scrypt, random values, the URL and cookie
    parsers, child processes and the provisioning daemon, SQLite's backup. The files of the gateway are a record of
    functions (\<open>oc_files\<close>); a handler that writes files returns the new record. What is assumed of them is a hypothesis
    of the theorem that needs it.
  \<^item> Each definition says which inputs it leaves outside the model, if any.

  \<^bold>\<open>Termination.\<close> Loops over lists are structural or have a measure (\<open>parseMentions\<close> and
  \<open>tick_from\<close> on a length, \<open>show_nat\<close> on the number). The search for a free user name in
  \<open>api/auth/access-requests\<close> may run for ever as written and is a partial function on \<open>option\<close>; that it
  returns, and what, is proved. Following the references of a comment thread is bounded by the number of comments;
  that the bound is never reached in a reachable state is part of \<open>threads_complete\<close>.

  \<^bold>\<open>Not modelled.\<close>
  \<^item> The React components: they render and forward.
  \<^item> Code whose work is files, processes or remote services: logs, token statistics, session files of the agents,
    Telegram and the AI providers.
  \<^item> Opening the database, the migrations and the seeding of the first administrator from the environment.
\<close>

end
